(* ===== verification/Prelude.thy ===== *)
theory Prelude
  imports Main "HOL-Library.Multiset" "HOL-Library.List_Lexorder" "HOL-Library.Char_ord"
begin

text \<open>
  Shared vocabulary of the development: the types of the C++ values the repositories and
  utilities handle, the faults an operation can end in, the named collections of facts, and
  the generic list lemmas the component theories use.

  \<^item> \<open>std::string\<close> is \<^typ>\<open>string\<close> (a list of bytes), ordered lexicographically by byte, as
    \<open>std::char_traits<char>::compare\<close> does;
  \<^item> \<open>long\<close>, \<open>std::int64_t\<close> and \<open>double\<close> counters that only carry values are \<^typ>\<open>int\<close>; where
    a conversion between signed and unsigned decides the result, the operation writes it out;
  \<^item> \<open>system_clock::time_point\<close> is \<^typ>\<open>int\<close>, the ticks of the clock since the epoch; the
    clock itself is an argument of every operation that reads it;
  \<^item> \<open>StringUtils::CreateRandomUuid\<close> (boost's random generator) is an argument as well.
\<close>

named_theorems store_simps \<open>lookups in an associative container after an operation\<close>
named_theorems repo_defs \<open>the definitions of a repository's operations\<close>

type_synonym time_point = int
type_synonym uuid = string

text \<open>
  The ways an operation fails: an exception of the program, a relock of a
  \<open>boost::mutex\<close> by the thread that holds it (the mutex is not recursive, so the call never
  returns), or a step the language leaves undefined, such as dereferencing \<open>end()\<close>.
\<close>

datatype fault =
    DatabaseException string
  | ServiceException string
  | NotFoundException string
  | RuntimeError string
  | JsonException string
  | BadCronexpr string
  | InvalidArgument
  | OutOfRange
  | BadVariantAccess
  | Deadlock
  | UndefinedBehaviour

type_synonym 'a outcome = "fault + 'a"

definition returns :: "'a outcome \<Rightarrow> 'a \<Rightarrow> bool" where
  "returns r x \<longleftrightarrow> r = Inr x"

lemma returns_simps [simp]:
  "returns (Inr y) x \<longleftrightarrow> y = x" "\<not> returns (Inl e) x"
  by (auto simp: returns_def)

definition bind :: "'a outcome \<Rightarrow> ('a \<Rightarrow> 'b outcome) \<Rightarrow> 'b outcome" where
  "bind r f = (case r of Inl e \<Rightarrow> Inl e | Inr x \<Rightarrow> f x)"

lemma bind_simps [simp]: "bind (Inl e) f = Inl e" "bind (Inr x) f = f x"
  by (simp_all add: bind_def)

subsection \<open>Lists\<close>

lemma filter_length_partition:
  "length (filter P xs) + length (filter (\<lambda>x. \<not> P x) xs) = length xs"
  by (induction xs) auto

lemma find_Some_set: "List.find P xs = Some x \<Longrightarrow> x \<in> set xs \<and> P x"
  by (induction xs) (auto split: if_splits)

lemma find_None_iff': "List.find P xs = None \<longleftrightarrow> (\<forall>x\<in>set xs. \<not> P x)"
  by (induction xs) auto

lemma find_is_Some: "(\<exists>x\<in>set xs. P x) \<Longrightarrow> \<exists>x. List.find P xs = Some x"
  by (induction xs) auto

lemma map_fst_map_snd_update:
  "map fst (map (\<lambda>(k, v). (k, f k v)) m) = map fst m"
  by (induction m) auto

lemma distinct_fst_unique:
  "distinct (map fst m) \<Longrightarrow> (k, v) \<in> set m \<Longrightarrow> (k, v') \<in> set m \<Longrightarrow> v = v'"
  using map_of_is_SomeI by fastforce

lemma distinct_fst_filter:
  "distinct (map fst m) \<Longrightarrow> distinct (map fst (filter P m))"
  by (induction m) auto

lemma map_of_filter_distinct:
  "distinct (map fst m) \<Longrightarrow>
   map_of (filter P m) k = (case map_of m k of None \<Rightarrow> None | Some v \<Rightarrow> if P (k, v) then Some v else None)"
proof (induction m)
  case Nil
  then show ?case by simp
next
  case (Cons kv m)
  then show ?case
    by (cases kv) (auto split: option.splits simp: image_iff dest!: map_of_SomeD)
qed

end
