(* ===== verification/StringUtils.thy ===== *)
theory StringUtils
  imports Prelude "HOL-Library.Word" "HOL-Library.Sublist"
begin

text \<open>
  The string helpers of \<open>core/src/utils/StringUtils.cpp\<close> whose bodies are the program's own
  code: searching and prefixes, cutting and joining, percent encoding, hexadecimal text, and
  the UTF-8 sanitizer. Bytes are \<^typ>\<open>char\<close>; \<open>byte\<close> reads one as an \<open>unsigned char\<close>.
  Character classes (\<open>isdigit\<close>, \<open>isxdigit\<close>, \<open>isprint\<close>, \<open>tolower\<close>) are those of the C locale.
  The helpers that only call boost or \<open>std::regex\<close> are not modelled.
\<close>

unbundle bit_operations_syntax

definition byte :: "char \<Rightarrow> nat" where
  "byte c = of_char c"

definition char_word :: "char \<Rightarrow> 8 word" where
  "char_word c = of_nat (byte c)"

lemma byte_less: "byte c < 256"
  by (simp add: byte_def)

lemma unat_char_word [simp]: "unat (char_word c) = byte c"
  using byte_less [of c] by (simp add: char_word_def unat_of_nat)

lemma char_word_inject [simp]: "char_word c = char_word d \<longleftrightarrow> c = d"
  by (metis byte_def of_char_eq_iff unat_char_word)

subsection \<open>Character classes\<close>

definition isdigit :: "char \<Rightarrow> bool" where
  "isdigit c \<longleftrightarrow> 48 \<le> byte c \<and> byte c \<le> 57"

definition isupper :: "char \<Rightarrow> bool" where
  "isupper c \<longleftrightarrow> 65 \<le> byte c \<and> byte c \<le> 90"

definition islower :: "char \<Rightarrow> bool" where
  "islower c \<longleftrightarrow> 97 \<le> byte c \<and> byte c \<le> 122"

definition isxdigit :: "char \<Rightarrow> bool" where
  "isxdigit c \<longleftrightarrow> isdigit c \<or> (65 \<le> byte c \<and> byte c \<le> 70) \<or> (97 \<le> byte c \<and> byte c \<le> 102)"

definition isprint :: "char \<Rightarrow> bool" where
  "isprint c \<longleftrightarrow> 32 \<le> byte c \<and> byte c \<le> 126"

definition tolower :: "char \<Rightarrow> char" where
  "tolower c = (if isupper c then char_of (byte c + 32) else c)"

subsection \<open>Searching\<close>

fun find_sub :: "string \<Rightarrow> string \<Rightarrow> nat option" where
  "find_sub s p =
     (if prefix p s then Some 0
      else case s of [] \<Rightarrow> None | _ # cs \<Rightarrow> map_option Suc (find_sub cs p))"

declare find_sub.simps [simp del]

definition Contains :: "string \<Rightarrow> string \<Rightarrow> bool" where
  "Contains s1 s2 \<longleftrightarrow> find_sub s1 s2 \<noteq> None"

definition StartsWith :: "string \<Rightarrow> string \<Rightarrow> bool" where
  "StartsWith s1 s2 \<longleftrightarrow> prefix s2 s1"

definition EndsWith :: "string \<Rightarrow> string \<Rightarrow> bool" where
  "EndsWith s1 s2 \<longleftrightarrow> suffix s2 s1"

definition Equals :: "string \<Rightarrow> string \<Rightarrow> bool" where
  "Equals s1 s2 = (if s1 = [] \<or> s2 = [] then False else s1 = s2)"

definition IsNumeric :: "string \<Rightarrow> bool" where
  "IsNumeric value \<longleftrightarrow> value \<noteq> [] \<and> List.find (\<lambda>c. \<not> isdigit c) value = None"

definition IsHexString :: "string \<Rightarrow> bool" where
  "IsHexString value = list_all (\<lambda>c. \<not> isxdigit c) value"

lemma find_sub_Some:
  "find_sub s p = Some n \<Longrightarrow> n + length p \<le> length s \<and> prefix p (drop n s) \<and> (\<forall>m<n. \<not> prefix p (drop m s))"
proof (induction s p arbitrary: n rule: find_sub.induct)
  case (1 s p)
  show ?case
  proof (cases "prefix p s")
    case True
    with "1.prems" show ?thesis by (auto simp: find_sub.simps [of s p] dest: prefix_length_le)
  next
    case False
    with "1.prems" obtain c cs k where s: "s = c # cs" and k: "find_sub cs p = Some k" and n: "n = Suc k"
      by (auto simp: find_sub.simps [of s p] split: list.splits)
    have IH: "k + length p \<le> length cs \<and> prefix p (drop k cs) \<and> (\<forall>m<k. \<not> prefix p (drop m cs))"
      using "1.IH" [OF False s k] .
    have "\<not> prefix p (drop m s)" if "m < n" for m
      using that IH False by (cases m) (auto simp: s n)
    with IH show ?thesis by (simp add: s n)
  qed
qed

lemma find_sub_None: "find_sub s p = None \<longleftrightarrow> \<not> sublist p s"
proof (induction s arbitrary: p)
  case Nil
  then show ?case by (simp add: find_sub.simps [of "[]" p])
next
  case (Cons c cs)
  then show ?case by (auto simp: find_sub.simps [of "c # cs" p] sublist_Cons_right)
qed

lemma Contains_iff: "Contains s1 s2 \<longleftrightarrow> sublist s2 s1"
  by (simp add: Contains_def find_sub_None)

lemma Contains_refl [simp]: "Contains s s"
  by (simp add: Contains_iff)

lemma Contains_empty [simp]: "Contains s []"
  by (simp add: Contains_iff)

lemma StartsWith_empty [simp]: "StartsWith s []"
  by (simp add: StartsWith_def)

lemma IsHexString_iff: "IsHexString s \<longleftrightarrow> (\<forall>c\<in>set s. \<not> isxdigit c)"
  by (simp add: IsHexString_def list_all_iff)

subsection \<open>Cutting and joining\<close>

definition SubString :: "string \<Rightarrow> int \<Rightarrow> int \<Rightarrow> string" where
  "SubString str beginIndex endIndex =
     (let size = int (length str) in
      if beginIndex < 0 \<or> beginIndex > size - 1 then ''-1''
      else if endIndex < 0 \<or> endIndex > size - 1 then ''-1''
      else if beginIndex > endIndex then ''-1''
      else concat (map (\<lambda>i. if int i \<ge> beginIndex \<and> int i \<le> endIndex then [str ! i] else [])
                     [0..<length str]))"

definition SubStringUntil :: "string \<Rightarrow> string \<Rightarrow> string" where
  "SubStringUntil str delimiter =
     (if Contains str delimiter then take (the (find_sub str delimiter)) str else str)"

definition SubStringAfter :: "string \<Rightarrow> string \<Rightarrow> string" where
  "SubStringAfter str delimiter =
     (if Contains str delimiter then drop (the (find_sub str delimiter) + length delimiter) str else [])"

definition StripBeginning :: "string \<Rightarrow> string \<Rightarrow> string outcome" where
  "StripBeginning s1 s2 =
     (if length s2 > length s1 then Inl (RuntimeError ''basic_string::substr'')
      else Inr (drop (length s2) s1))"

definition Continuation :: "string \<Rightarrow> int \<Rightarrow> string" where
  "Continuation input len =
     take (nat (len mod 2 ^ 64)) input @ ''...''"

definition StripWhiteSpaces :: "string \<Rightarrow> string" where
  "StripWhiteSpaces s =
     filter (\<lambda>c. \<not> byte c \<in> {9, 10, 13, 11, 12, 32}) s"

definition StripLineEndings :: "string \<Rightarrow> string" where
  "StripLineEndings s = filter (\<lambda>c. \<not> byte c \<in> {10, 13}) s"

definition RemoveUnprintableAscii :: "string \<Rightarrow> string" where
  "RemoveUnprintableAscii s = filter (\<lambda>c. isprint c \<or> byte c = 10 \<or> byte c = 9) s"

text \<open>
  The loop of \<open>Join\<close> compares the \<open>int\<close> index with the unsigned \<open>vec.size()\<close>, so a negative
  start index is a huge one and the result is empty.
\<close>

function join_loop :: "string list \<Rightarrow> string \<Rightarrow> nat \<Rightarrow> string" where
  "join_loop vec delimiter i =
     (if i < length vec
      then vec ! i @ (if i \<noteq> length vec - 1 then delimiter else []) @ join_loop vec delimiter (Suc i)
      else [])"
  by pat_completeness auto
termination by (relation "measure (\<lambda>(vec, d, i). length vec - i)") auto

declare join_loop.simps [simp del]

definition Join :: "string list \<Rightarrow> string \<Rightarrow> int \<Rightarrow> string" where
  "Join vec delimiter startIndex =
     (if startIndex < 0 then [] else join_loop vec delimiter (nat startIndex))"

fun ToSnakeCase_tail :: "string \<Rightarrow> string" where
  "ToSnakeCase_tail [] = []"
| "ToSnakeCase_tail (c # cs) =
     (if isupper c then CHR ''-'' # tolower c # ToSnakeCase_tail cs else c # ToSnakeCase_tail cs)"

text \<open>\<open>in[0]\<close> of an empty string is the terminating zero, which is appended as it is.\<close>

definition ToSnakeCase :: "string \<Rightarrow> string" where
  "ToSnakeCase s = (case s of [] \<Rightarrow> [char_of (0::nat)] | c # cs \<Rightarrow> tolower c # ToSnakeCase_tail cs)"

text \<open>The joined text the loop computes: the elements with the delimiter between neighbours.\<close>

fun intersperse :: "string \<Rightarrow> string list \<Rightarrow> string" where
  "intersperse d [] = []"
| "intersperse d [x] = x"
| "intersperse d (x # y # xs) = x @ d @ intersperse d (y # xs)"

lemma join_loop_intersperse: "join_loop vec d i = intersperse d (drop i vec)"
proof (induction vec d i rule: join_loop.induct)
  case (1 vec d i)
  show ?case
  proof (cases "i < length vec")
    case True
    have unf: "join_loop vec d i =
        vec ! i @ (if i \<noteq> length vec - 1 then d else []) @ join_loop vec d (Suc i)"
      using True by (simp add: join_loop.simps [of vec d i])
    have IH: "join_loop vec d (Suc i) = intersperse d (drop (Suc i) vec)"
      by (rule "1.IH" [OF True])
    have split: "drop i vec = vec ! i # drop (Suc i) vec"
      using True by (simp add: Cons_nth_drop_Suc)
    show ?thesis
      using True by (cases "drop (Suc i) vec") (auto simp: unf IH split)
  next
    case False
    then show ?thesis by (simp add: join_loop.simps [of vec d i])
  qed
qed

lemma Join_intersperse: "0 \<le> k \<Longrightarrow> Join vec d k = intersperse d (drop (nat k) vec)"
  by (simp add: Join_def join_loop_intersperse)

lemma concat_select_range:
  "concat (map (\<lambda>i. if b \<le> i \<and> i \<le> e then [xs ! i] else []) [0..<length xs])
     = take (Suc e - b) (drop b xs)"
proof (induction xs arbitrary: b e rule: rev_induct)
  case Nil
  then show ?case by simp
next
  case (snoc x xs)
  have "concat (map (\<lambda>i. if b \<le> i \<and> i \<le> e then [(xs @ [x]) ! i] else []) [0..<length xs])
      = concat (map (\<lambda>i. if b \<le> i \<and> i \<le> e then [xs ! i] else []) [0..<length xs])"
    by (intro arg_cong [of _ _ concat] map_cong) (auto simp: nth_append)
  with snoc.IH [of b e] show ?case by (auto simp: take_Cons' Suc_diff_le not_le)
qed

lemma SubString_slice:
  assumes "0 \<le> b" "b \<le> e" "e < int (length s)"
  shows "SubString s b e = take (nat (e - b) + 1) (drop (nat b) s)"
proof -
  have "SubString s b e =
      concat (map (\<lambda>i. if nat b \<le> i \<and> i \<le> nat e then [s ! i] else []) [0..<length s])"
    unfolding SubString_def Let_def using assms
    by (simp, intro arg_cong [of _ _ concat] map_cong) auto
  also have "\<dots> = take (Suc (nat e) - nat b) (drop (nat b) s)"
    by (rule concat_select_range)
  also have "Suc (nat e) - nat b = nat (e - b) + 1" using assms by arith
  finally show ?thesis .
qed

lemma SubString_outside:
  "\<not> (0 \<le> b \<and> b \<le> e \<and> e < int (length s)) \<Longrightarrow> SubString s b e = ''-1''"
  by (auto simp: SubString_def Let_def)

text \<open>The text before the first delimiter, the delimiter and the text after it are the string.\<close>

lemma SubString_Until_After:
  assumes "Contains s d" shows "SubStringUntil s d @ d @ SubStringAfter s d = s"
proof -
  obtain n where n: "find_sub s d = Some n" using assms by (auto simp: Contains_def)
  then have "prefix d (drop n s)" using find_sub_Some by blast
  then obtain r where r: "drop n s = d @ r" by (auto simp: prefix_def)
  then have "drop (n + length d) s = r" by (metis add.commute append_eq_conv_conj drop_drop)
  with r n assms show ?thesis
    by (simp add: SubStringUntil_def SubStringAfter_def) (metis append_take_drop_id)
qed

subsection \<open>Hexadecimal text and percent encoding\<close>

definition hex_upper :: string where "hex_upper = ''0123456789ABCDEF''"
definition hex_lower :: string where "hex_lower = ''0123456789abcdef''"

definition hex2 :: "string \<Rightarrow> nat \<Rightarrow> string" where
  "hex2 digits n = [digits ! (n div 16), digits ! (n mod 16)]"

definition ToHexString :: "string \<Rightarrow> string" where
  "ToHexString input = concat (map (\<lambda>c. hex2 hex_lower (byte c)) input)"

definition unreserved :: "char \<Rightarrow> bool" where
  "unreserved c \<longleftrightarrow> isupper c \<or> islower c \<or> isdigit c \<or> c \<in> {CHR ''-'', CHR ''.'', CHR ''_'', CHR ''~''}"

fun AwsUrlEncode :: "string \<Rightarrow> bool \<Rightarrow> string" where
  "AwsUrlEncode [] encodeSlash = []"
| "AwsUrlEncode (c # cs) encodeSlash =
     (if unreserved c then [c]
      else if c = CHR ''/'' \<and> \<not> encodeSlash then ''/''
      else CHR ''%'' # hex2 hex_upper (byte c)) @ AwsUrlEncode cs encodeSlash"

text \<open>The reference decoder: RFC 3986 percent decoding with upper case digits.\<close>

definition hex_value :: "string \<Rightarrow> char \<Rightarrow> nat option" where
  "hex_value digits c = List.find (\<lambda>i. digits ! i = c) [0..<length digits]"

fun pct_decode :: "string \<Rightarrow> string option" where
  "pct_decode [] = Some []"
| "pct_decode (c # cs) =
     (if c = CHR ''%'' then
        (case cs of
           a # b # rest \<Rightarrow>
             (case (hex_value hex_upper a, hex_value hex_upper b) of
                (Some x, Some y) \<Rightarrow> map_option ((#) (char_of (16 * x + y))) (pct_decode rest)
              | _ \<Rightarrow> None)
         | _ \<Rightarrow> None)
      else map_option ((#) c) (pct_decode cs))"

lemma find_index_distinct:
  assumes "distinct xs" "i < length xs"
  shows "List.find (\<lambda>j. xs ! j = xs ! i) [0..<length xs] = Some i"
proof -
  have "List.find (\<lambda>j. xs ! j = xs ! i) [0..<length xs] \<noteq> None"
    using assms by (auto simp: find_None_iff')
  then obtain j where j: "List.find (\<lambda>j. xs ! j = xs ! i) [0..<length xs] = Some j" by auto
  then have "j < length xs \<and> xs ! j = xs ! i" using find_Some_set by fastforce
  with assms have "j = i" by (metis nth_eq_iff_index_eq)
  with j show ?thesis by simp
qed

lemma hex_value_upper: "n < 16 \<Longrightarrow> hex_value hex_upper (hex_upper ! n) = Some n"
  unfolding hex_value_def by (rule find_index_distinct) (simp_all add: hex_upper_def)

lemma hex_value_lower: "n < 16 \<Longrightarrow> hex_value hex_lower (hex_lower ! n) = Some n"
  unfolding hex_value_def by (rule find_index_distinct) (simp_all add: hex_lower_def)

lemma char_of_byte [simp]: "char_of (byte c) = c"
  by (simp add: byte_def)

lemma byte_split: "char_of (16 * (byte c div 16) + byte c mod 16) = c"
  by simp

lemma not_unreserved_percent [simp]: "\<not> unreserved CHR ''%''"
  by (simp add: unreserved_def isupper_def islower_def isdigit_def byte_def)

lemma pct_decode_encode: "pct_decode (AwsUrlEncode s b) = Some s"
proof (induction s)
  case Nil
  then show ?case by simp
next
  case (Cons c cs)
  have hi: "hex_value hex_upper (hex_upper ! (byte c div 16)) = Some (byte c div 16)"
    using byte_less [of c] by (intro hex_value_upper) auto
  have lo: "hex_value hex_upper (hex_upper ! (byte c mod 16)) = Some (byte c mod 16)"
    by (intro hex_value_upper) simp
  show ?case
    using Cons hi lo not_unreserved_percent
    by (auto simp: hex2_def byte_split simp del: not_unreserved_percent)
qed

text \<open>The reference decoder of \<open>ToHexString\<close>.\<close>

fun hex_decode :: "string \<Rightarrow> string option" where
  "hex_decode [] = Some []"
| "hex_decode [a] = None"
| "hex_decode (a # b # rest) =
     (case (hex_value hex_lower a, hex_value hex_lower b) of
        (Some x, Some y) \<Rightarrow> map_option ((#) (char_of (16 * x + y))) (hex_decode rest)
      | _ \<Rightarrow> None)"

lemma hex_decode_ToHexString: "hex_decode (ToHexString s) = Some s"
proof (induction s)
  case Nil
  then show ?case by (simp add: ToHexString_def)
next
  case (Cons c cs)
  have "hex_value hex_lower (hex_lower ! (byte c div 16)) = Some (byte c div 16)"
    using byte_less [of c] by (intro hex_value_lower) auto
  moreover have "hex_value hex_lower (hex_lower ! (byte c mod 16)) = Some (byte c mod 16)"
    by (intro hex_value_lower) simp
  ultimately show ?case using Cons by (simp add: ToHexString_def hex2_def byte_split)
qed

lemma length_ToHexString: "length (ToHexString s) = 2 * length s"
  by (induction s) (auto simp: ToHexString_def hex2_def)

subsection \<open>The UTF-8 sanitizer\<close>

definition cont_byte :: "char \<Rightarrow> bool" where
  "cont_byte c \<longleftrightarrow> char_word c AND 0xC0 = 0x80"

definition lead2 :: "char \<Rightarrow> bool" where "lead2 c \<longleftrightarrow> char_word c AND 0xE0 = 0xC0"
definition lead3 :: "char \<Rightarrow> bool" where "lead3 c \<longleftrightarrow> char_word c AND 0xF0 = 0xE0"
definition lead4 :: "char \<Rightarrow> bool" where "lead4 c \<longleftrightarrow> char_word c AND 0xF8 = 0xF0"

definition replacement :: string where
  "replacement = [char_of (0xEF::nat), char_of (0xBF::nat), char_of (0xBD::nat)]"

text \<open>
  The loop over the index \<open>i\<close>, as a recursion over the bytes from \<open>i\<close> on: the bounds
  \<open>i + n < input.size()\<close> are the guards on the length of the rest.
\<close>

function SanitizeUtf8 :: "string \<Rightarrow> string" where
  "SanitizeUtf8 [] = []"
| "SanitizeUtf8 (c # cs) =
     (if char_word c \<le> 0x7F then c # SanitizeUtf8 cs
      else if lead2 c \<and> 1 \<le> length cs \<and> cont_byte (cs ! 0)
      then c # take 1 cs @ SanitizeUtf8 (drop 1 cs)
      else if lead3 c \<and> 2 \<le> length cs \<and> cont_byte (cs ! 0) \<and> cont_byte (cs ! 1)
      then c # take 2 cs @ SanitizeUtf8 (drop 2 cs)
      else if lead4 c \<and> 3 \<le> length cs \<and> cont_byte (cs ! 0) \<and> cont_byte (cs ! 1) \<and> cont_byte (cs ! 2)
      then c # take 3 cs @ SanitizeUtf8 (drop 3 cs)
      else replacement @ SanitizeUtf8 cs)"
  by pat_completeness auto
termination by (relation "measure length") auto

declare SanitizeUtf8.simps(2) [simp del]

end
