(* ===== verification/StdNumbers.thy ===== *)
theory StdNumbers
  imports StringUtils
begin

text \<open>
  Decimal numbers of the standard library, as the services use them: \<open>std::to_string\<close> of an
  integer, and \<open>std::stoi\<close> and \<open>std::stol\<close>, which skip white space, read an optional sign and the
  digits that follow, throw \<open>std::invalid_argument\<close> when there is none and \<open>std::out_of_range\<close> when
  the value does not fit, and ignore the rest of the text.
\<close>

fun digits :: "nat \<Rightarrow> string" where
  "digits n = (if n < 10 then [char_of (48 + n)] else digits (n div 10) @ [char_of (48 + n mod 10)])"

declare digits.simps [simp del]

definition to_string :: "int \<Rightarrow> string" where
  "to_string i = (if i < 0 then CHR ''-'' # digits (nat (- i)) else digits (nat i))"

definition isspace :: "char \<Rightarrow> bool" where
  "isspace c \<longleftrightarrow> byte c \<in> {9, 10, 11, 12, 13, 32}"

definition digits_value :: "string \<Rightarrow> nat" where
  "digits_value ds = foldl (\<lambda>n c. 10 * n + (byte c - 48)) 0 ds"

definition strto :: "string \<Rightarrow> int option" where
  "strto s =
     (let t = dropWhile isspace s;
          neg = (t \<noteq> [] \<and> hd t = CHR ''-'');
          u = (if t \<noteq> [] \<and> hd t \<in> {CHR ''-'', CHR ''+''} then tl t else t);
          ds = takeWhile isdigit u in
      if ds = [] then None else Some (if neg then - int (digits_value ds) else int (digits_value ds)))"

definition sto :: "nat \<Rightarrow> string \<Rightarrow> int outcome" where
  "sto bits s =
     (case strto s of
        None \<Rightarrow> Inl InvalidArgument
      | Some v \<Rightarrow> if - (2 ^ (bits - 1)) \<le> v \<and> v < 2 ^ (bits - 1) then Inr v else Inl OutOfRange)"

definition stoi :: "string \<Rightarrow> int outcome" where "stoi s = sto 32 s"
definition stol :: "string \<Rightarrow> int outcome" where "stol s = sto 64 s"

text \<open>Reading what \<open>to_string\<close> wrote gives the number back.\<close>

lemma byte_digit: "n < 10 \<Longrightarrow> byte (char_of (48 + n)) = 48 + n"
  by (simp add: byte_def)

lemma digits_value_snoc: "digits_value (ds @ [c]) = 10 * digits_value ds + (byte c - 48)"
  by (simp add: digits_value_def)

lemma digits_value_digits: "digits_value (digits n) = n"
proof (induction n rule: digits.induct)
  case (1 n)
  show ?case
  proof (cases "n < 10")
    case True
    then show ?thesis by (simp add: digits.simps [of n] digits_value_def byte_digit)
  next
    case False
    then have "digits n = digits (n div 10) @ [char_of (48 + n mod 10)]" by (simp add: digits.simps [of n])
    then show ?thesis using 1 False by (simp add: digits_value_snoc byte_digit)
  qed
qed

lemma digits_isdigit: "c \<in> set (digits n) \<Longrightarrow> isdigit c"
proof (induction n rule: digits.induct)
  case (1 n)
  have d: "isdigit (char_of (48 + m))" if "m < 10" for m :: nat
    using that by (simp add: isdigit_def byte_digit)
  show ?case
    using 1 d [of n] d [of "n mod 10"] by (cases "n < 10") (auto simp: digits.simps [of n])
qed

lemma digits_nonempty [simp]: "digits n \<noteq> []"
  by (simp add: digits.simps [of n])

lemma takeWhile_digits [simp]: "takeWhile isdigit (digits n) = digits n"
  by (simp add: digits_isdigit takeWhile_eq_all_conv)

lemma strto_digits: "strto (digits n) = Some (int n)"
proof -
  have h: "isdigit (hd (digits n))" using digits_isdigit [of "hd (digits n)" n] by simp
  then have sp: "\<not> isspace (hd (digits n))" "hd (digits n) \<notin> {CHR ''-'', CHR ''+''}"
    by (auto simp: isspace_def isdigit_def byte_def)
  have "dropWhile isspace (digits n) = digits n" using sp(1) by (cases "digits n") auto
  then show ?thesis using sp(2) by (simp add: strto_def digits_value_digits Let_def)
qed

lemma strto_to_string: "strto (to_string i) = Some i"
proof (cases "i < 0")
  case True
  have "\<not> isspace CHR ''-''" by (simp add: isspace_def byte_def)
  then show ?thesis using True by (simp add: to_string_def strto_def digits_value_digits Let_def)
next
  case False
  then show ?thesis by (simp add: to_string_def strto_digits)
qed

lemma stoi_to_string: "- (2 ^ 31) \<le> i \<Longrightarrow> i < 2 ^ 31 \<Longrightarrow> stoi (to_string i) = Inr i"
  by (simp add: stoi_def sto_def strto_to_string)

end
