(* ===== verification/Calendar.thy ===== *)
theory Calendar
  imports Prelude
begin

text \<open>
  The calendar of the C library, as the cron expressions use it: the broken-down time \<open>std::tm\<close>,
  \<open>localtime\<close> and \<open>mktime\<close> for a time zone of a fixed offset from UTC. \<open>mktime\<close> normalises: a
  month, day, hour, minute or second out of its range is carried over.

  Days count from 1970-01-01 in the proleptic Gregorian calendar. Inside, a year starts with March,
  so that the leap day is its last day; a month is the number of months since the year zero.
\<close>

record tm =
  tm_sec :: int
  tm_min :: int
  tm_hour :: int
  tm_mday :: int
  tm_mon :: int
  tm_year :: int
  tm_wday :: int
  tm_isdst :: int

definition days_before_year :: "int \<Rightarrow> int" where
  "days_before_year n = 365 * n + n div 4 - n div 100"

definition days_before_month :: "int \<Rightarrow> int" where
  "days_before_month mp = (153 * mp + 2) div 5"

definition days_of_civil :: "int \<Rightarrow> int \<Rightarrow> int \<Rightarrow> int" where
  "days_of_civil y m d =
     (let y' = (if m \<le> 2 then y - 1 else y) in
      y' div 400 * 146097 + days_before_year (y' mod 400) + days_before_month ((m + 9) mod 12) + d - 719469)"

definition civil_of_days :: "int \<Rightarrow> int \<times> int \<times> int" where
  "civil_of_days z =
     (let e = (z + 719468) div 146097; doe = (z + 719468) mod 146097;
          c = min 3 (doe div 36524); r = doe - 36524 * c;
          q = r div 1461; s = r - 1461 * q;
          a = min 3 (s div 365); doy = s - 365 * a;
          mp = (5 * doy + 2) div 153;
          m = (if mp < 10 then mp + 3 else mp - 9) in
      (e * 400 + 100 * c + 4 * q + a + (if m \<le> 2 then 1 else 0), m, doy - days_before_month mp + 1))"

definition localtime :: "int \<Rightarrow> int \<Rightarrow> tm" where
  "localtime off t =
     (let day = (t + off) div 86400; s = (t + off) mod 86400; (y, m, d) = civil_of_days day in
      \<lparr>tm_sec = s mod 60, tm_min = s div 60 mod 60, tm_hour = s div 3600, tm_mday = d, tm_mon = m - 1, tm_year = y - 1900,
       tm_wday = (day + 4) mod 7, tm_isdst = 0\<rparr>)"

definition mktime :: "int \<Rightarrow> tm \<Rightarrow> int" where
  "mktime off d =
     (days_of_civil (tm_year d + 1900 + tm_mon d div 12) (tm_mon d mod 12 + 1) 1 + tm_mday d - 1) * 86400
       + tm_hour d * 3600 + tm_min d * 60 + tm_sec d - off"

subsection \<open>Months\<close>

definition month_begin :: "int \<Rightarrow> int" where
  "month_begin n = days_of_civil (n div 12) (n mod 12 + 1) 1"

definition year_start :: "int \<Rightarrow> int" where
  "year_start y = y div 400 * 146097 + days_before_year (y mod 400)"

lemma div_mod_unique: "(a :: int) = b * q + r \<Longrightarrow> 0 \<le> r \<Longrightarrow> r < b \<Longrightarrow> a div b = q \<and> a mod b = r"
  by (simp add: int_div_pos_eq int_mod_pos_eq)

lemma div_step: "(n + 1) div b = n div b + (if n mod b = b - 1 then 1 else 0)" if b: "b > 0" for n b :: int
proof -
  define q where "q = n div b" define r where "r = n mod b"
  have n: "n = b * q + r" "0 \<le> r" "r < b" using b unfolding q_def r_def by simp_all
  have "(n + 1) div b = q + (if r = b - 1 then 1 else 0)"
  proof (cases "r = b - 1")
    case True
    then have "n + 1 = b * (q + 1) + 0" using n by (simp add: algebra_simps)
    from div_mod_unique [OF this] b True show ?thesis by simp
  next
    case False
    have "n + 1 = b * q + (r + 1)" using n by simp
    from div_mod_unique [OF this] n False show ?thesis by simp
  qed
  then show ?thesis by (simp add: q_def r_def)
qed

lemma mod_100_4: "(n :: int) mod 100 = 99 \<Longrightarrow> n mod 4 = 3"
proof -
  assume a: "n mod 100 = 99"
  define q where "q = n div 100"
  have "n = 100 * q + 99" unfolding q_def using a mult_div_mod_eq [of 100 n] by simp
  then have "n = 4 * (25 * q + 24) + 3" by simp
  from div_mod_unique [OF this] show ?thesis by simp
qed

lemma leap_days_step: "(n + 1) div 4 - (n + 1) div 100 - (n div 4 - n div 100) \<in> {0, 1 :: int}"
  using div_step [of 4 n] div_step [of 100 n] mod_100_4 [of n] by auto

lemma year_start_step: "year_start (y + 1) - year_start y \<in> {365, 366}"
proof -
  define e where "e = y div 400" define n where "n = y mod 400"
  have y: "y = 400 * e + n" "0 \<le> n" "n < 400" unfolding e_def n_def by simp_all
  show ?thesis
  proof (cases "n = 399")
    case True
    then have "(y + 1) div 400 = e + 1 \<and> (y + 1) mod 400 = 0" using y by (intro div_mod_unique) auto
    then show ?thesis using True by (simp add: year_start_def days_before_year_def e_def n_def)
  next
    case False
    then have "(y + 1) div 400 = e \<and> (y + 1) mod 400 = n + 1" using y by (intro div_mod_unique) auto
    then show ?thesis using leap_days_step [of n] by (auto simp: year_start_def days_before_year_def e_def n_def)
  qed
qed

lemma month_begin_alt:
  "month_begin n = year_start ((n - 2) div 12) + days_before_month ((n - 2) mod 12) - 719468"
proof -
  define q where "q = n div 12" define r where "r = n mod 12"
  have n: "n = 12 * q + r" "0 \<le> r" "r < 12" unfolding q_def r_def by simp_all
  have "(n - 2) div 12 = (if r < 2 then q - 1 else q) \<and> (n - 2) mod 12 = (if r < 2 then r + 10 else r - 2)"
    using n by (intro div_mod_unique) auto
  moreover have "(r + 10) mod 12 = (if r < 2 then r + 10 else r - 2)"
    using n div_mod_unique [of "r + 10" 12 1 "r - 2"] by auto
  ultimately show ?thesis
    unfolding month_begin_def days_of_civil_def Let_def year_start_def q_def [symmetric] r_def [symmetric]
    by (auto simp: algebra_simps)
qed

lemma month_begin_step: "28 \<le> month_begin (n + 1) - month_begin n" "month_begin (n + 1) - month_begin n \<le> 31"
proof -
  define y where "y = (n - 2) div 12" define k where "k = (n - 2) mod 12"
  have n: "n - 2 = 12 * y + k" "0 \<le> k" "k < 12" unfolding y_def k_def by simp_all
  have "28 \<le> month_begin (n + 1) - month_begin n \<and> month_begin (n + 1) - month_begin n \<le> 31"
  proof (cases "k = 11")
    case True
    have "(n + 1 - 2) div 12 = y + 1 \<and> (n + 1 - 2) mod 12 = 0" using n True by (intro div_mod_unique) auto
    then show ?thesis using year_start_step [of y] True y_def k_def
      by (auto simp: month_begin_alt days_before_month_def)
  next
    case False
    have "(n + 1 - 2) div 12 = y \<and> (n + 1 - 2) mod 12 = k + 1" using n False by (intro div_mod_unique) auto
    moreover have "30 \<le> days_before_month (k + 1) - days_before_month k" "days_before_month (k + 1) - days_before_month k \<le> 31"
      unfolding days_before_month_def by simp_all
    ultimately show ?thesis using y_def k_def by (simp add: month_begin_alt)
  qed
  then show "28 \<le> month_begin (n + 1) - month_begin n" "month_begin (n + 1) - month_begin n \<le> 31" by auto
qed

lemma month_begin_march: "0 \<le> k \<Longrightarrow> k < 12 \<Longrightarrow> month_begin (12 * y + k + 2) = year_start y + days_before_month k - 719468"
  using div_mod_unique [of "12 * y + k + 2 - 2" 12 y k] by (simp add: month_begin_alt)

lemma month_begin_mono: "a < b \<Longrightarrow> month_begin a + 28 \<le> month_begin b"
proof -
  have "month_begin a + 28 \<le> month_begin (a + 1 + int n)" for n
  proof (induction n)
    case 0
    then show ?case using month_begin_step(1) [of a] by simp
  next
    case (Suc n)
    then show ?case using month_begin_step(1) [of "a + 1 + int n"] by (simp add: algebra_simps)
  qed
  from this [of "nat (b - a - 1)"] show "a < b \<Longrightarrow> month_begin a + 28 \<le> month_begin b" by simp
qed

lemma month_unique:
  "month_begin a \<le> z \<Longrightarrow> z < month_begin (a + 1) \<Longrightarrow> month_begin b \<le> z \<Longrightarrow> z < month_begin (b + 1) \<Longrightarrow> a = b"
  using month_begin_mono [of "a + 1" b] month_begin_mono [of "b + 1" a] by (cases "a + 1 = b"; cases "b + 1 = a"; force)

lemma year_start_parts:
  assumes "0 \<le> c" "c \<le> 3" "0 \<le> q" "q \<le> 24" "0 \<le> a" "a \<le> 3"
  shows "year_start (400 * e + 100 * c + 4 * q + a) = e * 146097 + 36524 * c + 1461 * q + 365 * a"
proof -
  let ?n = "100 * c + 4 * q + a"
  have "(400 * e + 100 * c + 4 * q + a) div 400 = e \<and> (400 * e + 100 * c + 4 * q + a) mod 400 = ?n"
    using assms by (intro div_mod_unique) auto
  moreover have "?n div 4 = 25 * c + q \<and> ?n mod 4 = a" using assms by (intro div_mod_unique) auto
  moreover have "?n div 100 = c \<and> ?n mod 100 = 4 * q + a" using assms by (intro div_mod_unique) auto
  ultimately show ?thesis by (simp add: year_start_def days_before_year_def)
qed

lemma div_bounds: "b > 0 \<Longrightarrow> b * (n div b) \<le> n \<and> n < b * (n div b) + b" for n b :: int
  using mult_div_mod_eq [of b n] pos_mod_bound [of b n] pos_mod_sign [of b n] by linarith

lemma year_of_day:
  fixes z :: int
  defines "e \<equiv> z div 146097" and "doe \<equiv> z mod 146097"
  defines "c \<equiv> min 3 (doe div 36524)"
  defines "r \<equiv> doe - 36524 * c"
  defines "q \<equiv> r div 1461"
  defines "s \<equiv> r - 1461 * q"
  defines "a \<equiv> min 3 (s div 365)"
  shows "year_start (400 * e + 100 * c + 4 * q + a) = z - (s - 365 * a)" "0 \<le> s - 365 * a" "s - 365 * a \<le> 365"
    "z < year_start (400 * e + 100 * c + 4 * q + a + 1)"
proof -
  have doe: "0 \<le> doe" "doe < 146097" "z = 146097 * e + doe" unfolding e_def doe_def by simp_all
  have c: "0 \<le> c" "c \<le> 3" unfolding c_def using doe by (simp_all add: pos_imp_zdiv_nonneg_iff)
  have r: "0 \<le> r" "r \<le> 36524" "c < 3 \<Longrightarrow> r < 36524"
    using div_bounds [of 36524 doe] doe unfolding r_def c_def by (auto simp: min_def)
  have s: "0 \<le> s" "s < 1461" unfolding s_def q_def using div_bounds [of 1461 r] by auto
  have q: "0 \<le> q" "q \<le> 24" unfolding q_def using r zdiv_mono1 [of r 36524 1461] by (simp_all add: pos_imp_zdiv_nonneg_iff)
  have a: "0 \<le> a" "a \<le> 3" unfolding a_def using s by (simp_all add: pos_imp_zdiv_nonneg_iff)
  have d: "0 \<le> s - 365 * a" "a < 3 \<Longrightarrow> s - 365 * a < 365"
    using div_bounds [of 365 s] s unfolding a_def by (auto simp: min_def)
  have z: "z = e * 146097 + 36524 * c + 1461 * q + s" using doe unfolding s_def r_def by simp
  show ys: "year_start (400 * e + 100 * c + 4 * q + a) = z - (s - 365 * a)" using year_start_parts [OF c q a] z by simp
  show "0 \<le> s - 365 * a" by fact
  show "s - 365 * a \<le> 365" using d(2) s(2) a(2) by (cases "a < 3") auto
  show "z < year_start (400 * e + 100 * c + 4 * q + a + 1)"
  proof (cases "a < 3")
    case True
    then show ?thesis using year_start_parts [OF c q, of "a + 1" e] a d(2) z by (simp add: algebra_simps)
  next
    case False
    then have a3: "a = 3" using a by simp
    show ?thesis
    proof (cases "q < 24")
      case True
      then show ?thesis using year_start_parts [OF c, of "q + 1" 0 e] q a3 s z by (simp add: algebra_simps)
    next
      case False
      then have q24: "q = 24" using q by simp
      show ?thesis
      proof (cases "c < 3")
        case True
        then show ?thesis using year_start_parts [of "c + 1" 0 0 e] c q24 a3 r(3) z unfolding s_def by (simp add: algebra_simps)
      next
        case False
        then show ?thesis using year_start_parts [of 0 0 0 "e + 1"] c q24 a3 r(2) z unfolding s_def by (simp add: algebra_simps)
      qed
    qed
  qed
qed

lemma month_of_day:
  fixes doy :: int
  assumes "0 \<le> doy" "doy \<le> 365"
  defines "mp \<equiv> (5 * doy + 2) div 153"
  shows "0 \<le> mp" "mp \<le> 11" "days_before_month mp \<le> doy" "mp < 11 \<Longrightarrow> doy < days_before_month (mp + 1)"
proof -
  define x where "x = days_before_month mp" define x' where "x' = days_before_month (mp + 1)"
  have "153 * mp \<le> 5 * doy + 2" "5 * doy + 2 < 153 * mp + 153" unfolding mp_def using div_bounds [of 153 "5 * doy + 2"] by auto
  moreover have "5 * x \<le> 153 * mp + 2" "153 * mp + 2 < 5 * x + 5"
    unfolding x_def days_before_month_def using div_bounds [of 5 "153 * mp + 2"] by auto
  moreover have "5 * x' \<le> 153 * mp + 155" "153 * mp + 155 < 5 * x' + 5"
    unfolding x'_def days_before_month_def using div_bounds [of 5 "153 * mp + 155"] by (simp_all add: algebra_simps)
  ultimately show "0 \<le> mp" "mp \<le> 11" "days_before_month mp \<le> doy" "mp < 11 \<Longrightarrow> doy < days_before_month (mp + 1)"
    using assms(1,2) unfolding x_def [symmetric] x'_def [symmetric] by linarith+
qed

lemma civil_of_days:
  assumes "civil_of_days z = (y, m, d)"
  shows "1 \<le> m" "m \<le> 12" "1 \<le> d" "month_begin (12 * y + m - 1) + d - 1 = z" "z < month_begin (12 * y + m)"
proof -
  define w where "w = z + 719468"
  define e where "e = w div 146097" define doe where "doe = w mod 146097"
  define c where "c = min 3 (doe div 36524)" define r where "r = doe - 36524 * c"
  define q where "q = r div 1461" define s where "s = r - 1461 * q"
  define a where "a = min 3 (s div 365)" define doy where "doy = s - 365 * a"
  define mp where "mp = (5 * doy + 2) div 153"
  let ?y = "400 * e + 100 * c + 4 * q + a"
  note defs = e_def doe_def c_def r_def q_def s_def a_def
  note yd = year_of_day [of w, folded e_def doe_def, folded c_def, folded r_def, folded q_def, folded s_def, folded a_def, folded doy_def]
  note md = month_of_day [OF yd(2,3), folded mp_def]
  have "civil_of_days z = (e * 400 + 100 * c + 4 * q + a + (if (if mp < 10 then mp + 3 else mp - 9) \<le> 2 then 1 else 0),
      if mp < 10 then mp + 3 else mp - 9, doy - days_before_month mp + 1)"
    by (simp only: civil_of_days_def Let_def mp_def doy_def a_def s_def q_def r_def c_def doe_def e_def w_def)
  then have m: "m = (if mp < 10 then mp + 3 else mp - 9)" and yy: "y = ?y + (if m \<le> 2 then 1 else 0)"
    and d: "d = doy - days_before_month mp + 1"
    using assms by simp_all
  have n: "12 * y + m - 1 = 12 * ?y + mp + 2" using m yy md(1,2) by auto
  have b: "month_begin (12 * y + m - 1) = year_start ?y + days_before_month mp - 719468"
    unfolding n using month_begin_march [of mp ?y] md(1,2) by simp
  show "1 \<le> m" "m \<le> 12" using m md(1,2) by auto
  show "1 \<le> d" using d md(3) by simp
  show "month_begin (12 * y + m - 1) + d - 1 = z" using b d yd(1) by (simp add: w_def)
  show "z < month_begin (12 * y + m)"
  proof (cases "mp < 11")
    case True
    have "12 * y + m = 12 * ?y + (mp + 1) + 2" using n by simp
    then have "month_begin (12 * y + m) = year_start ?y + days_before_month (mp + 1) - 719468"
      using month_begin_march [of "mp + 1" ?y] md(1) True by simp
    then show ?thesis using md(4) [OF True] yd(1) by (simp add: w_def)
  next
    case False
    then have "12 * y + m = 12 * (?y + 1) + 0 + 2" using n md(2) by simp
    then have "month_begin (12 * y + m) = year_start (?y + 1) - 719468"
      using month_begin_march [of 0 "?y + 1"] by (simp add: days_before_month_def)
    then show ?thesis using yd(4) by (simp add: w_def)
  qed
qed

subsection \<open>Local time\<close>

definition month_no :: "int \<Rightarrow> int" where
  "month_no z = (let (y, m, d) = civil_of_days z in 12 * y + m - 1)"

definition day_no :: "int \<Rightarrow> int \<Rightarrow> int" where
  "day_no off t = (t + off) div 86400"

lemma month_no: "month_begin (month_no z) \<le> z" "z < month_begin (month_no z + 1)"
proof -
  obtain y m d where c: "civil_of_days z = (y, m, d)" by (cases "civil_of_days z") auto
  note cd = civil_of_days [OF c]
  show "month_begin (month_no z) \<le> z" "z < month_begin (month_no z + 1)"
    using cd(3,4,5) by (simp_all add: month_no_def c)
qed

lemma month_noI: "month_begin n \<le> z \<Longrightarrow> z < month_begin (n + 1) \<Longrightarrow> month_no z = n"
  using month_unique [of "month_no z" z n] month_no [of z] by simp

lemma month_no_mono: "a \<le> b \<Longrightarrow> month_no a \<le> month_no b"
  using month_begin_mono [of "month_no b + 1" "month_no a"] month_no [of a] month_no [of b]
  by (cases "month_no b + 1 = month_no a") force+

lemma local_simps [simp]:
  "tm_sec (localtime off t) = (t + off) mod 60"
  "tm_min (localtime off t) = (t + off) div 60 mod 60"
  "tm_hour (localtime off t) = (t + off) div 3600 mod 24"
  "tm_mday (localtime off t) = day_no off t - month_begin (month_no (day_no off t)) + 1"
  "tm_mon (localtime off t) = month_no (day_no off t) mod 12"
  "tm_year (localtime off t) = month_no (day_no off t) div 12 - 1900"
  "tm_wday (localtime off t) = (day_no off t + 4) mod 7"
  "tm_isdst (localtime off t) = 0"
proof -
  obtain y m d where c: "civil_of_days (day_no off t) = (y, m, d)" by (cases "civil_of_days (day_no off t)") auto
  note cd = civil_of_days [OF c]
  have ym: "(12 * y + m - 1) div 12 = y \<and> (12 * y + m - 1) mod 12 = m - 1"
    using cd(1,2) by (intro div_mod_unique) auto
  have s: "(t + off) mod 86400 mod 60 = (t + off) mod 60" by (simp add: mod_mod_cancel)
  have m: "(t + off) mod 86400 div 60 mod 60 = (t + off) div 60 mod 60"
  proof -
    have "(t + off) mod 86400 div 60 = (t + off) div 60 mod 1440"
      using zmod_zmult2_eq [of 1440 "t + off" 60] by simp
    then show ?thesis by (simp add: mod_mod_cancel)
  qed
  have h: "(t + off) mod 86400 div 3600 = (t + off) div 3600 mod 24"
    using zmod_zmult2_eq [of 24 "t + off" 3600] by simp
  have l: "localtime off t = \<lparr>tm_sec = (t + off) mod 86400 mod 60, tm_min = (t + off) mod 86400 div 60 mod 60,
      tm_hour = (t + off) mod 86400 div 3600, tm_mday = d, tm_mon = m - 1, tm_year = y - 1900,
      tm_wday = (day_no off t + 4) mod 7, tm_isdst = 0\<rparr>"
    unfolding localtime_def Let_def c [unfolded day_no_def] prod.case by (simp only: day_no_def)
  have n: "month_no (day_no off t) = 12 * y + m - 1" unfolding month_no_def c by (simp only: Let_def prod.case)
  show "tm_sec (localtime off t) = (t + off) mod 60" "tm_min (localtime off t) = (t + off) div 60 mod 60"
    "tm_hour (localtime off t) = (t + off) div 3600 mod 24"
    "tm_mday (localtime off t) = day_no off t - month_begin (month_no (day_no off t)) + 1"
    "tm_mon (localtime off t) = month_no (day_no off t) mod 12"
    "tm_year (localtime off t) = month_no (day_no off t) div 12 - 1900"
    "tm_wday (localtime off t) = (day_no off t + 4) mod 7" "tm_isdst (localtime off t) = 0"
    unfolding l n tm.simps s m h using cd(4) ym by simp_all
qed

lemma mktime_alt:
  "mktime off d = (month_begin (12 * (tm_year d + 1900) + tm_mon d) + tm_mday d - 1) * 86400
     + tm_hour d * 3600 + tm_min d * 60 + tm_sec d - off"
proof -
  have "(12 * (tm_year d + 1900) + tm_mon d) div 12 = tm_year d + 1900 + tm_mon d div 12"
    "(12 * (tm_year d + 1900) + tm_mon d) mod 12 = tm_mon d mod 12"
    using div_mult_self4 [of "12 :: int" "tm_year d + 1900" "tm_mon d"] mod_mult_self4 [of 12 "tm_year d + 1900" "tm_mon d"]
    by (simp_all only: zero_neq_numeral [symmetric] simp_thms)
  then show ?thesis by (simp add: mktime_def month_begin_def)
qed

lemma time_parts: "day_no off t * 86400 + (t + off) div 3600 mod 24 * 3600 + (t + off) div 60 mod 60 * 60 + (t + off) mod 60 = t + off"
proof -
  let ?u = "t + off"
  have "?u = ?u div 60 * 60 + ?u mod 60" "?u div 60 = ?u div 3600 * 60 + ?u div 60 mod 60"
    "?u div 3600 = ?u div 86400 * 24 + ?u div 3600 mod 24"
    using mult_div_mod_eq [of 60 ?u] mult_div_mod_eq [of 60 "?u div 60"] mult_div_mod_eq [of 24 "?u div 3600"]
    by (simp_all add: zdiv_zmult2_eq [symmetric])
  then show ?thesis unfolding day_no_def by linarith
qed

lemma mktime_local [simp]: "mktime off (localtime off t) = t"
  using time_parts [of off t] by (simp add: mktime_alt)

lemma mktime_set [simp]:
  "mktime off (localtime off t\<lparr>tm_sec := v\<rparr>) = t - (t + off) mod 60 + v"
  "mktime off (localtime off t\<lparr>tm_min := v\<rparr>) = t - (t + off) div 60 mod 60 * 60 + v * 60"
  "mktime off (localtime off t\<lparr>tm_hour := v\<rparr>) = t - (t + off) div 3600 mod 24 * 3600 + v * 3600"
  "mktime off (localtime off t\<lparr>tm_mday := v, tm_isdst := i\<rparr>) = t - (day_no off t - month_begin (month_no (day_no off t)) + 1) * 86400 + v * 86400"
  "mktime off (localtime off t\<lparr>tm_wday := w\<rparr>) = t"
  "mktime off (localtime off t\<lparr>tm_mon := v, tm_isdst := i\<rparr>) =
     t + (month_begin (12 * (month_no (day_no off t) div 12) + v) - month_begin (month_no (day_no off t))) * 86400"
  "mktime off (localtime off t\<lparr>tm_year := y\<rparr>) =
     t + (month_begin (12 * (y + 1900) + month_no (day_no off t) mod 12) - month_begin (month_no (day_no off t))) * 86400"
  using time_parts [of off t] by (simp_all add: mktime_alt algebra_simps)

lemma day_in_month: "0 \<le> z - month_begin (month_no z)" "z - month_begin (month_no z) \<le> 30"
  using month_no [of z] month_begin_step(2) [of "month_no z"] by simp_all

lemma month_overflow:
  assumes "0 \<le> e" "e \<le> 30"
  shows "month_no (month_begin n + e) \<in> {n, n + 1}" "e \<le> 27 \<Longrightarrow> month_no (month_begin n + e) = n"
proof -
  have s: "month_begin n + 28 \<le> month_begin (n + 1)" "month_begin (n + 1) + 28 \<le> month_begin (n + 1 + 1)"
    using month_begin_mono [of n "n + 1"] month_begin_mono [of "n + 1" "n + 1 + 1"] by simp_all
  show "month_no (month_begin n + e) \<in> {n, n + 1}"
    using s assms month_noI [of n "month_begin n + e"] month_noI [of "n + 1" "month_begin n + e"]
    by (cases "month_begin n + e < month_begin (n + 1)") auto
  show "e \<le> 27 \<Longrightarrow> month_no (month_begin n + e) = n" using s(1) assms(1) by (intro month_noI) auto
qed

lemma month_begin_civil: "0 \<le> k \<Longrightarrow> k < 12 \<Longrightarrow>
    month_begin (12 * y + k + 2 + 1) - month_begin (12 * y + k + 2) = (if k = 11 then year_start (y + 1) - year_start y - 337
      else days_before_month (k + 1) - days_before_month k)"
  using month_begin_march [of k y] month_begin_march [of "k + 1" y] month_begin_march [of 0 "y + 1"]
  by (auto simp: days_before_month_def algebra_simps)

lemma month_31: "month_begin (12 * y + 1) - month_begin (12 * y) = 31" "month_begin (12 * y + 12) - month_begin (12 * y + 11) = 31"
  using month_begin_civil [of 10 "y - 1"] month_begin_civil [of 9 y]
  by (simp_all add: days_before_month_def algebra_simps)

text \<open>Of two months in a row one has 31 days.\<close>

lemma month_31_near: "month_begin (n + 1) - month_begin n = 31 \<or> month_begin (n + 2) - month_begin (n + 1) = 31"
proof -
  define y where "y = (n - 2) div 12" define k where "k = (n - 2) mod 12"
  have n: "n = 12 * y + k + 2" "0 \<le> k" "k < 12" unfolding y_def k_def by simp_all
  have n1: "n + 1 = (if k = 11 then 12 * (y + 1) + 0 + 2 else 12 * y + (k + 1) + 2)" using n by simp
  from n(2,3) have "k \<in> {0, 1, 2, 3, 4, 5, 6, 7, 8, 9, 10, 11}" unfolding insert_iff empty_iff by presburger
  then show ?thesis
    using month_begin_civil [OF n(2,3), of y] month_begin_civil [of "k + 1" y] month_begin_civil [of 0 "y + 1"]
    unfolding n(1) by (auto simp: days_before_month_def algebra_simps)
qed

end
