(* ===== verification/Cron.thy ===== *)
theory Cron
  imports StdNumbers Calendar
begin

text \<open>
  The cron expressions of the scheduler (\<open>core/include/awsmock/core/Cron.h\<close> and
  \<open>core/src/utils/CronUtils.cpp\<close>): the parser of the six fields into bit sets, and the search for
  the next instant an expression matches.

  A computation ends in an outcome or does not return at all (\<open>None\<close>). \<open>cron_int\<close> is an
  unsigned 8-bit number, written as a natural number modulo 256. The C library's \<open>mktime\<close> and
  \<open>localtime\<close> in the time zone of the process are the arguments \<open>mk\<close> (the normalised time and the
  instant) and \<open>lt\<close>; the year, an \<open>int\<close>, is taken not to overflow.
\<close>

type_synonym 'a run = "'a outcome option"

definition run_bind :: "'a run \<Rightarrow> ('a \<Rightarrow> 'b run) \<Rightarrow> 'b run" where
  "run_bind m f = Option.bind m (\<lambda>r. case r of Inl e \<Rightarrow> Some (Inl e) | Inr x \<Rightarrow> f x)"

lemma run_bind_simps [simp]:
  "run_bind None f = None" "run_bind (Some (Inl e)) f = Some (Inl e)" "run_bind (Some (Inr x)) f = f x"
  by (simp_all add: run_bind_def)

lemma run_bind_mono [partial_function_mono]:
  assumes "mono_option B" "\<And>y. mono_option (\<lambda>f. C y f)"
  shows "mono_option (\<lambda>f. run_bind (B f) (\<lambda>y. C y f))"
proof -
  have "mono_option (\<lambda>f. case y of Inl e \<Rightarrow> Some (Inl e) | Inr x \<Rightarrow> C x f)" for y
    by (cases y) (simp_all add: assms(2) option.const_mono)
  then show ?thesis unfolding run_bind_def by (intro bind_mono assms(1))
qed

subsection \<open>Traits and expressions\<close>

datatype cron_field = Second | Minute | HourOfDay | DayOfWeek | DayOfMonth | Month | Year

record cron_traits =
  MIN_SECONDS :: nat
  MAX_SECONDS :: nat
  MIN_MINUTES :: nat
  MAX_MINUTES :: nat
  MIN_HOURS :: nat
  MAX_HOURS :: nat
  MIN_DAYS_OF_WEEK :: nat
  MAX_DAYS_OF_WEEK :: nat
  MIN_DAYS_OF_MONTH :: nat
  MAX_DAYS_OF_MONTH :: nat
  MIN_MONTHS :: nat
  MAX_MONTHS :: nat
  MAX_YEARS_DIFF :: nat
  DAYS :: "string list"
  MONTHS :: "string list"

definition week_days :: "string list" where
  "week_days = [''SUN'', ''MON'', ''TUE'', ''WED'', ''THU'', ''FRI'', ''SAT'']"

definition month_names :: "string list" where
  "month_names = [''JAN'', ''FEB'', ''MAR'', ''APR'', ''MAY'', ''JUN'', ''JUL'', ''AUG'', ''SEP'', ''OCT'', ''NOV'', ''DEC'']"

definition cron_standard_traits :: cron_traits where
  "cron_standard_traits =
     \<lparr>MIN_SECONDS = 0, MAX_SECONDS = 59, MIN_MINUTES = 0, MAX_MINUTES = 59, MIN_HOURS = 0, MAX_HOURS = 23,
      MIN_DAYS_OF_WEEK = 0, MAX_DAYS_OF_WEEK = 6, MIN_DAYS_OF_MONTH = 1, MAX_DAYS_OF_MONTH = 31,
      MIN_MONTHS = 1, MAX_MONTHS = 12, MAX_YEARS_DIFF = 4, DAYS = week_days, MONTHS = ''NIL'' # month_names\<rparr>"

definition cron_oracle_traits :: cron_traits where
  "cron_oracle_traits =
     \<lparr>MIN_SECONDS = 0, MAX_SECONDS = 59, MIN_MINUTES = 0, MAX_MINUTES = 59, MIN_HOURS = 0, MAX_HOURS = 23,
      MIN_DAYS_OF_WEEK = 1, MAX_DAYS_OF_WEEK = 7, MIN_DAYS_OF_MONTH = 1, MAX_DAYS_OF_MONTH = 31,
      MIN_MONTHS = 0, MAX_MONTHS = 11, MAX_YEARS_DIFF = 4, DAYS = ''NIL'' # week_days, MONTHS = month_names\<rparr>"

definition cron_quartz_traits :: cron_traits where
  "cron_quartz_traits =
     \<lparr>MIN_SECONDS = 0, MAX_SECONDS = 59, MIN_MINUTES = 0, MAX_MINUTES = 59, MIN_HOURS = 0, MAX_HOURS = 23,
      MIN_DAYS_OF_WEEK = 1, MAX_DAYS_OF_WEEK = 7, MIN_DAYS_OF_MONTH = 1, MAX_DAYS_OF_MONTH = 31,
      MIN_MONTHS = 1, MAX_MONTHS = 12, MAX_YEARS_DIFF = 4, DAYS = ''NIL'' # week_days, MONTHS = ''NIL'' # month_names\<rparr>"

record cronexpr =
  cx_seconds :: "bool list"
  cx_minutes :: "bool list"
  cx_hours :: "bool list"
  cx_days_of_week :: "bool list"
  cx_days_of_month :: "bool list"
  cx_months :: "bool list"
  cx_expr :: string

definition empty_cronexpr :: cronexpr where
  "empty_cronexpr =
     \<lparr>cx_seconds = replicate 60 False, cx_minutes = replicate 60 False, cx_hours = replicate 24 False,
      cx_days_of_week = replicate 7 False, cx_days_of_month = replicate 31 False, cx_months = replicate 12 False,
      cx_expr = []\<rparr>"

definition cronexpr_equal :: "cronexpr \<Rightarrow> cronexpr \<Rightarrow> bool" where
  "cronexpr_equal e1 e2 \<longleftrightarrow>
     cx_seconds e1 = cx_seconds e2 \<and> cx_minutes e1 = cx_minutes e2 \<and> cx_hours e1 = cx_hours e2 \<and>
     cx_days_of_week e1 = cx_days_of_week e2 \<and> cx_days_of_month e1 = cx_days_of_month e2 \<and> cx_months e1 = cx_months e2"

definition bitset_to_string :: "bool list \<Rightarrow> string" where
  "bitset_to_string bs = map (\<lambda>b. if b then CHR ''1'' else CHR ''0'') (rev bs)"

definition cronexpr_to_string :: "cronexpr \<Rightarrow> string" where
  "cronexpr_to_string cex =
     bitset_to_string (cx_seconds cex) @ '' '' @ bitset_to_string (cx_minutes cex) @ '' '' @
     bitset_to_string (cx_hours cex) @ '' '' @ bitset_to_string (cx_days_of_month cex) @ '' '' @
     bitset_to_string (cx_months cex) @ '' '' @ bitset_to_string (cx_days_of_week cex)"

definition to_cronstr :: "cronexpr \<Rightarrow> string" where
  "to_cronstr cex = cx_expr cex"

text \<open>\<open>std::bitset::set\<close> and \<open>test\<close> throw \<open>std::out_of_range\<close> for an index past the end.\<close>

definition bit_set :: "bool list \<Rightarrow> nat \<Rightarrow> bool list outcome" where
  "bit_set bs i = (if i < length bs then Inr (bs[i := True]) else Inl OutOfRange)"

definition bit_test :: "bool list \<Rightarrow> int \<Rightarrow> bool outcome" where
  "bit_test bs i = (if 0 \<le> i \<and> i < int (length bs) then Inr (bs ! nat i) else Inl OutOfRange)"

subsection \<open>Parsing\<close>

definition toupper :: "char \<Rightarrow> char" where
  "toupper c = (if islower c then char_of (byte c - 32) else c)"

definition to_upper :: "string \<Rightarrow> string" where
  "to_upper text = map toupper text"

definition c_str :: "string \<Rightarrow> string" where
  "c_str s = takeWhile (\<lambda>c. byte c \<noteq> 0) s"

text \<open>\<open>std::getline\<close> until the stream ends: a delimiter at the end opens no further token.\<close>

function getlines :: "char \<Rightarrow> string \<Rightarrow> string list" where
  "getlines delimiter s =
     (if s = [] then []
      else takeWhile (\<lambda>c. c \<noteq> delimiter) s # getlines delimiter (drop 1 (dropWhile (\<lambda>c. c \<noteq> delimiter) s)))"
  by pat_completeness auto
termination
proof (relation "measure (length \<circ> snd)")
  fix delimiter :: char and s :: string assume "s \<noteq> []"
  moreover have "length (dropWhile (\<lambda>c. c \<noteq> delimiter) s) \<le> length s" by (simp add: length_dropWhile_le)
  moreover have "length s > 0" using \<open>s \<noteq> []\<close> by simp
  ultimately have "length (drop 1 (dropWhile (\<lambda>c. c \<noteq> delimiter) s)) < length s" by (simp del: length_greater_0_conv)
  then show "((delimiter, drop 1 (dropWhile (\<lambda>c. c \<noteq> delimiter) s)), delimiter, s) \<in> measure (length \<circ> snd)" by simp
qed simp

declare getlines.simps [simp del]

definition cron_split :: "string \<Rightarrow> char \<Rightarrow> string list" where
  "cron_split text delimiter = getlines delimiter (c_str text)"

text \<open>\<open>std::stoul\<close> negates modulo \<open>2^64\<close> when there is a minus sign.\<close>

definition stoul :: "string \<Rightarrow> nat outcome" where
  "stoul s =
     (case strto s of
        None \<Rightarrow> Inl InvalidArgument
      | Some v \<Rightarrow> if \<bar>v\<bar> < 2 ^ 64 then Inr (nat (v mod 2 ^ 64)) else Inl OutOfRange)"

definition to_cron_int :: "string \<Rightarrow> nat outcome" where
  "to_cron_int text =
     (case stoul (c_str text) of Inl e \<Rightarrow> Inl (BadCronexpr ''stoul'') | Inr v \<Rightarrow> Inr (v mod 256))"

fun replace_ordinals_from :: "nat \<Rightarrow> string list \<Rightarrow> string \<Rightarrow> string" where
  "replace_ordinals_from i [] text = text"
| "replace_ordinals_from i (r # rs) text =
     replace_ordinals_from (Suc i) rs
       (case find_sub text r of Some pos \<Rightarrow> take pos text @ to_string (int i) @ drop (pos + 3) text | None \<Rightarrow> text)"

definition replace_ordinals :: "string \<Rightarrow> string list \<Rightarrow> string" where
  "replace_ordinals text names = replace_ordinals_from 0 names text"

definition range_bounds :: "string \<Rightarrow> nat \<Rightarrow> nat \<Rightarrow> (nat \<times> nat) outcome" where
  "range_bounds field minval maxval =
     (if field = ''*'' then Inr (minval, maxval)
      else if CHR ''-'' \<notin> set field then bind (to_cron_int field) (\<lambda>first. Inr (first, first))
      else let parts = cron_split field CHR ''-'' in
        if length parts \<noteq> 2 then Inl (BadCronexpr ''Specified range requires two fields'')
        else bind (to_cron_int (parts ! 0)) (\<lambda>first. bind (to_cron_int (parts ! 1)) (\<lambda>final. Inr (first, final))))"

definition make_range :: "string \<Rightarrow> nat \<Rightarrow> nat \<Rightarrow> (nat \<times> nat) outcome" where
  "make_range field minval maxval =
     bind (range_bounds field minval maxval) (\<lambda>(first, final).
       if first > maxval \<or> final > maxval then Inl (BadCronexpr ''Specified range exceeds maximum'')
       else if first < minval \<or> final < minval then Inl (BadCronexpr ''Specified range is less than minimum'')
       else if first > final then Inl (BadCronexpr ''Specified range start exceeds range end'')
       else Inr (first, final))"

text \<open>The loop over a range, whose counter is a \<open>cron_int\<close> and wraps.\<close>

partial_function (option) set_steps :: "nat \<Rightarrow> nat \<Rightarrow> nat \<Rightarrow> bool list \<Rightarrow> bool list run" where
  "set_steps final delta i target =
     (if i \<le> final then run_bind (Some (bit_set target i)) (\<lambda>target. set_steps final delta ((i + delta) mod 256) target)
      else Some (Inr target))"

definition set_entry :: "nat \<Rightarrow> nat \<Rightarrow> string \<Rightarrow> bool list \<Rightarrow> bool list run" where
  "set_entry minval maxval field target =
     (if CHR ''/'' \<notin> set field then
        run_bind (Some (make_range field minval maxval)) (\<lambda>(first, final).
          set_steps (final - minval) 1 (first - minval) target)
      else let parts = cron_split field CHR ''/'' in
        if length parts \<noteq> 2 then Some (Inl (BadCronexpr ''Incrementer must have two fields''))
        else run_bind (Some (make_range (parts ! 0) minval maxval)) (\<lambda>(first, final).
          let final = (if CHR ''-'' \<notin> set (parts ! 0) then maxval else final) in
          run_bind (Some (to_cron_int (parts ! 1))) (\<lambda>delta.
            if delta = 0 then Some (Inl (BadCronexpr ''Incrementer must be a positive value''))
            else set_steps (final - minval) delta (first - minval) target)))"

fun set_entries :: "nat \<Rightarrow> nat \<Rightarrow> string list \<Rightarrow> bool list \<Rightarrow> bool list run" where
  "set_entries minval maxval [] target = Some (Inr target)"
| "set_entries minval maxval (field # tokens) target =
     run_bind (set_entry minval maxval field target) (set_entries minval maxval tokens)"

definition set_cron_field :: "string \<Rightarrow> bool list \<Rightarrow> nat \<Rightarrow> nat \<Rightarrow> bool list run" where
  "set_cron_field value target minval maxval =
     (if value \<noteq> [] \<and> last value = CHR '','' then Some (Inl (BadCronexpr ''Value cannot end with comma''))
      else let tokens = cron_split value CHR '','' in
        if tokens = [] then Some (Inl (BadCronexpr ''Expression parsing error''))
        else set_entries minval maxval tokens target)"

definition any_mark :: "string \<Rightarrow> string" where
  "any_mark value = (if value = ''?'' then ''*'' else value)"

definition set_cron_days_of_week :: "cron_traits \<Rightarrow> string \<Rightarrow> bool list \<Rightarrow> bool list run" where
  "set_cron_days_of_week tr value target =
     set_cron_field (any_mark (replace_ordinals (to_upper value) (DAYS tr))) target (MIN_DAYS_OF_WEEK tr) (MAX_DAYS_OF_WEEK tr)"

definition set_cron_days_of_month :: "cron_traits \<Rightarrow> string \<Rightarrow> bool list \<Rightarrow> bool list run" where
  "set_cron_days_of_month tr value target =
     set_cron_field (any_mark value) target (MIN_DAYS_OF_MONTH tr) (MAX_DAYS_OF_MONTH tr)"

definition set_cron_month :: "cron_traits \<Rightarrow> string \<Rightarrow> bool list \<Rightarrow> bool list run" where
  "set_cron_month tr value target =
     set_cron_field (replace_ordinals (to_upper value) (MONTHS tr)) target (MIN_MONTHS tr) (MAX_MONTHS tr)"

definition make_cron :: "cron_traits \<Rightarrow> string \<Rightarrow> cronexpr run" where
  "make_cron tr expr =
     (if expr = [] then Some (Inl (BadCronexpr ''Invalid empty cron expression''))
      else let tokens = filter (\<lambda>s. s \<noteq> []) (cron_split expr CHR '' ''); cex = empty_cronexpr in
        if length tokens \<noteq> 6 then Some (Inl (BadCronexpr ''cron expression must have six fields''))
        else
          run_bind (set_cron_field (tokens ! 0) (cx_seconds cex) (MIN_SECONDS tr) (MAX_SECONDS tr)) (\<lambda>seconds.
          run_bind (set_cron_field (tokens ! 1) (cx_minutes cex) (MIN_MINUTES tr) (MAX_MINUTES tr)) (\<lambda>minutes.
          run_bind (set_cron_field (tokens ! 2) (cx_hours cex) (MIN_HOURS tr) (MAX_HOURS tr)) (\<lambda>hours.
          run_bind (set_cron_days_of_week tr (tokens ! 5) (cx_days_of_week cex)) (\<lambda>days_of_week.
          run_bind (set_cron_days_of_month tr (tokens ! 3) (cx_days_of_month cex)) (\<lambda>days_of_month.
          run_bind (set_cron_month tr (tokens ! 4) (cx_months cex)) (\<lambda>months.
            Some (Inr \<lparr>cx_seconds = seconds, cx_minutes = minutes, cx_hours = hours, cx_days_of_week = days_of_week,
              cx_days_of_month = days_of_month, cx_months = months, cx_expr = expr\<rparr>))))))))"

subsection \<open>The fields of a date\<close>

text \<open>\<open>tm_to_time\<close> normalises the date in place.\<close>

type_synonym make_time = "tm \<Rightarrow> tm \<times> int"

definition INVALID_TIME :: int where "INVALID_TIME = -1"

definition tm_to_time :: "make_time \<Rightarrow> tm \<Rightarrow> tm outcome" where
  "tm_to_time mk date =
     (let (date', t) = mk date in if t = INVALID_TIME then Inl (BadCronexpr ''Invalid time expression'') else Inr date')"

fun add_tm :: "cron_field \<Rightarrow> int \<Rightarrow> tm \<Rightarrow> tm" where
  "add_tm Second v d = d\<lparr>tm_sec := tm_sec d + v\<rparr>"
| "add_tm Minute v d = d\<lparr>tm_min := tm_min d + v\<rparr>"
| "add_tm HourOfDay v d = d\<lparr>tm_hour := tm_hour d + v\<rparr>"
| "add_tm DayOfWeek v d = d\<lparr>tm_mday := tm_mday d + v, tm_isdst := -1\<rparr>"
| "add_tm DayOfMonth v d = d\<lparr>tm_mday := tm_mday d + v, tm_isdst := -1\<rparr>"
| "add_tm Month v d = d\<lparr>tm_mon := tm_mon d + v, tm_isdst := -1\<rparr>"
| "add_tm Year v d = d\<lparr>tm_year := tm_year d + v\<rparr>"

fun set_tm :: "cron_field \<Rightarrow> int \<Rightarrow> tm \<Rightarrow> tm" where
  "set_tm Second v d = d\<lparr>tm_sec := v\<rparr>"
| "set_tm Minute v d = d\<lparr>tm_min := v\<rparr>"
| "set_tm HourOfDay v d = d\<lparr>tm_hour := v\<rparr>"
| "set_tm DayOfWeek v d = d\<lparr>tm_wday := v\<rparr>"
| "set_tm DayOfMonth v d = d\<lparr>tm_mday := v, tm_isdst := -1\<rparr>"
| "set_tm Month v d = d\<lparr>tm_mon := v, tm_isdst := -1\<rparr>"
| "set_tm Year v d = d\<lparr>tm_year := v\<rparr>"

fun reset_tm :: "cron_field \<Rightarrow> tm \<Rightarrow> tm" where
  "reset_tm Second d = d\<lparr>tm_sec := 0\<rparr>"
| "reset_tm Minute d = d\<lparr>tm_min := 0\<rparr>"
| "reset_tm HourOfDay d = d\<lparr>tm_hour := 0\<rparr>"
| "reset_tm DayOfWeek d = d\<lparr>tm_wday := 0\<rparr>"
| "reset_tm DayOfMonth d = d\<lparr>tm_mday := 1, tm_isdst := -1\<rparr>"
| "reset_tm Month d = d\<lparr>tm_mon := 0, tm_isdst := -1\<rparr>"
| "reset_tm Year d = d\<lparr>tm_year := 0\<rparr>"

definition add_to_field :: "make_time \<Rightarrow> tm \<Rightarrow> cron_field \<Rightarrow> int \<Rightarrow> tm outcome" where
  "add_to_field mk date field val = tm_to_time mk (add_tm field val date)"

definition set_field :: "make_time \<Rightarrow> tm \<Rightarrow> cron_field \<Rightarrow> int \<Rightarrow> tm outcome" where
  "set_field mk date field val = tm_to_time mk (set_tm field val date)"

definition reset_field :: "make_time \<Rightarrow> tm \<Rightarrow> cron_field \<Rightarrow> tm outcome" where
  "reset_field mk date field = tm_to_time mk (reset_tm field date)"

fun reset_fields :: "make_time \<Rightarrow> cron_field set \<Rightarrow> cron_field list \<Rightarrow> tm \<Rightarrow> tm outcome" where
  "reset_fields mk marked [] date = Inr date"
| "reset_fields mk marked (f # fs) date =
     (if f \<in> marked then bind (reset_field mk date f) (reset_fields mk marked fs) else reset_fields mk marked fs date)"

definition reset_all_fields :: "make_time \<Rightarrow> tm \<Rightarrow> cron_field set \<Rightarrow> tm outcome" where
  "reset_all_fields mk date marked =
     reset_fields mk marked [Second, Minute, HourOfDay, DayOfWeek, DayOfMonth, Month, Year] date"

subsection \<open>The next instant\<close>

text \<open>\<open>INVALID_INDEX\<close> is \<open>None\<close>; converted to \<open>int\<close> it is -1.\<close>

definition next_set_bit :: "bool list \<Rightarrow> nat \<Rightarrow> nat option" where
  "next_set_bit target offset = List.find (\<lambda>i. target ! i) [offset..<length target]"

definition to_unsigned :: "int \<Rightarrow> nat" where
  "to_unsigned i = nat (i mod 2 ^ 32)"

definition index_to_int :: "nat option \<Rightarrow> int" where
  "index_to_int i = (case i of Some v \<Rightarrow> int v | None \<Rightarrow> -1)"

definition next_field :: "make_time \<Rightarrow> bool list \<Rightarrow> tm \<Rightarrow> nat \<Rightarrow> cron_field \<Rightarrow> cron_field \<Rightarrow> cron_field set \<Rightarrow> (tm \<times> nat option) outcome" where
  "next_field mk target date v field up_field marked =
     bind (case next_set_bit target v of
         Some n \<Rightarrow> Inr (date, Some n)
       | None \<Rightarrow> bind (add_to_field mk date up_field 1) (\<lambda>date.
           bind (reset_field mk date field) (\<lambda>date. Inr (date, next_set_bit target 0))))
      (\<lambda>(date, next_value).
        if next_value \<noteq> Some v then
          bind (set_field mk date field (index_to_int next_value)) (\<lambda>date.
          bind (reset_all_fields mk date marked) (\<lambda>date. Inr (date, next_value)))
        else Inr (date, next_value))"

definition day_matches :: "cron_traits \<Rightarrow> cronexpr \<Rightarrow> int \<Rightarrow> int \<Rightarrow> bool outcome" where
  "day_matches tr cex day_of_month day_of_week =
     bind (bit_test (cx_days_of_month cex) (day_of_month - int (MIN_DAYS_OF_MONTH tr))) (\<lambda>m.
       if m then bit_test (cx_days_of_week cex) (day_of_week - int (MIN_DAYS_OF_WEEK tr)) else Inr False)"

fun find_next_day :: "make_time \<Rightarrow> cron_traits \<Rightarrow> cronexpr \<Rightarrow> cron_field set \<Rightarrow> nat \<Rightarrow> int \<Rightarrow> int \<Rightarrow> tm \<Rightarrow> (tm \<times> int) outcome" where
  "find_next_day mk tr cex marked n day_of_month day_of_week date =
     bind (day_matches tr cex day_of_month day_of_week) (\<lambda>ok.
       if ok then Inr (date, day_of_month)
       else case n of
         0 \<Rightarrow> Inr (date, day_of_month)
       | Suc n \<Rightarrow> bind (add_to_field mk date DayOfMonth 1) (\<lambda>date.
           let day_of_month = tm_mday date; day_of_week = tm_wday date in
           bind (reset_all_fields mk date marked) (find_next_day mk tr cex marked n day_of_month day_of_week)))"

declare find_next_day.simps [simp del]

definition mark :: "bool \<Rightarrow> cron_field \<Rightarrow> cron_field set \<Rightarrow> cron_field set" where
  "mark c field marked = (if c then insert field marked else marked)"

text \<open>The year difference is computed on \<open>size_t\<close>.\<close>

definition too_far :: "cron_traits \<Rightarrow> tm \<Rightarrow> int \<Rightarrow> bool" where
  "too_far tr date dot \<longleftrightarrow> (tm_year date - dot) mod 2 ^ 64 > int (MAX_YEARS_DIFF tr)"

partial_function (option) find_next :: "make_time \<Rightarrow> cron_traits \<Rightarrow> cronexpr \<Rightarrow> int \<Rightarrow> tm \<Rightarrow> (tm \<times> bool) run" where
  "find_next mk tr cex dot date =
     (let second = to_unsigned (tm_sec date) in
      run_bind (Some (next_field mk (cx_seconds cex) date second Second Minute {})) (\<lambda>(date, updated_second).
      let marked = mark (updated_second = Some second) Second {};
          minute = to_unsigned (tm_min date) in
      run_bind (Some (next_field mk (cx_minutes cex) date minute Minute HourOfDay marked)) (\<lambda>(date, updated_minute).
      run_bind (if updated_minute = Some minute then Some (Inr (date, True)) else find_next mk tr cex dot date) (\<lambda>(date, res).
      if \<not> res then Some (Inr (date, False)) else
      let marked = mark (updated_minute = Some minute) Minute marked;
          hour = to_unsigned (tm_hour date) in
      run_bind (Some (next_field mk (cx_hours cex) date hour HourOfDay DayOfWeek marked)) (\<lambda>(date, updated_hour).
      run_bind (if updated_hour = Some hour then Some (Inr (date, True)) else find_next mk tr cex dot date) (\<lambda>(date, res).
      if \<not> res then Some (Inr (date, False)) else
      let marked = mark (updated_hour = Some hour) HourOfDay marked;
          day_of_month = tm_mday date in
      run_bind (Some (find_next_day mk tr cex marked 366 day_of_month (tm_wday date) date)) (\<lambda>(date, updated_day_of_month).
      run_bind (if updated_day_of_month = day_of_month then Some (Inr (date, True)) else find_next mk tr cex dot date) (\<lambda>(date, res).
      if \<not> res then Some (Inr (date, False)) else
      let marked = mark (updated_day_of_month = day_of_month) DayOfMonth marked;
          month = to_unsigned (tm_mon date) in
      run_bind (Some (next_field mk (cx_months cex) date month Month Year marked)) (\<lambda>(date, updated_month).
      if updated_month = Some month then Some (Inr (date, True))
      else if too_far tr date dot then Some (Inr (date, False))
      else find_next mk tr cex dot date)))))))))"

subsection \<open>The entry points\<close>

definition null_tm :: tm where
  "null_tm = \<lparr>tm_sec = 0, tm_min = 0, tm_hour = 0, tm_mday = 0, tm_mon = 0, tm_year = 0, tm_wday = 0, tm_isdst = 0\<rparr>"

definition cron_next_tm :: "make_time \<Rightarrow> cron_traits \<Rightarrow> cronexpr \<Rightarrow> tm \<Rightarrow> tm run" where
  "cron_next_tm mk tr cex date =
     (let (date, original) = mk date in
      if original = INVALID_TIME then Some (Inr null_tm)
      else run_bind (find_next mk tr cex (tm_year date) date) (\<lambda>(date, res).
        if \<not> res then Some (Inr null_tm)
        else let (date, calculated) = mk date in
          if calculated = INVALID_TIME then Some (Inr null_tm)
          else if calculated = original then
            run_bind (Some (add_to_field mk date Second 1)) (\<lambda>date.
            run_bind (find_next mk tr cex (tm_year date) date) (\<lambda>(date, res).
              Some (Inr (if res then date else null_tm))))
          else Some (Inr date)))"

definition cron_next_time :: "make_time \<Rightarrow> (int \<Rightarrow> tm option) \<Rightarrow> cron_traits \<Rightarrow> cronexpr \<Rightarrow> int \<Rightarrow> int run" where
  "cron_next_time mk lt tr cex t =
     (case lt t of
        None \<Rightarrow> Some (Inr INVALID_TIME)
      | Some dt \<Rightarrow>
        let (date, original) = mk dt in
        if original = INVALID_TIME then Some (Inr INVALID_TIME)
        else run_bind (find_next mk tr cex (tm_year date) date) (\<lambda>(date, res).
          if \<not> res then Some (Inr INVALID_TIME)
          else let (date, calculated) = mk date in
            if calculated = INVALID_TIME then Some (Inr calculated)
            else if calculated = original then
              run_bind (Some (add_to_field mk date Second 1)) (\<lambda>date.
              run_bind (find_next mk tr cex (tm_year date) date) (\<lambda>(date, res).
                Some (Inr (if res then snd (mk date) else INVALID_TIME))))
            else Some (Inr (snd (mk date)))))"

text \<open>\<open>now\<close> is \<open>std::time\<close>, \<open>fallback\<close> the reading of the system clock when the expression is not valid.\<close>

definition GetNextExecutionTime :: "make_time \<Rightarrow> (int \<Rightarrow> tm option) \<Rightarrow> int \<Rightarrow> time_point \<Rightarrow> string \<Rightarrow> time_point run" where
  "GetNextExecutionTime mk lt now fallback cron =
     (case run_bind (make_cron cron_standard_traits cron) (\<lambda>cex.
        case lt now of
          None \<Rightarrow> Some (Inl UndefinedBehaviour)
        | Some date \<Rightarrow> run_bind (cron_next_tm mk cron_standard_traits cex date) (\<lambda>next.
            Some (Inr (snd (mk next) * 1000000000)))) of
        Some (Inl (BadCronexpr _)) \<Rightarrow> Some (Inr fallback)
      | r \<Rightarrow> r)"

text \<open>\<open>duration_cast\<close> to seconds rounds to zero. The wait of two seconds is in the readings of the clock.\<close>

definition whole_seconds :: "int \<Rightarrow> int" where
  "whole_seconds d = (if d < 0 then - ((- d) div 1000000000) else d div 1000000000)"

definition GetNextExecutionTimeSeconds :: "make_time \<Rightarrow> (int \<Rightarrow> tm option) \<Rightarrow> int \<Rightarrow> time_point \<Rightarrow> time_point \<Rightarrow> string \<Rightarrow> int run" where
  "GetNextExecutionTimeSeconds mk lt now fallback clock cron =
     run_bind (GetNextExecutionTime mk lt now fallback cron) (\<lambda>next. Some (Inr (whole_seconds (next - clock))))"

end
