(* ===== verification/CronNext.thy ===== *)
theory CronNext
  imports Cron
begin

text \<open>
  The search for the next instant in a time zone of a fixed offset, on instants instead of
  broken-down times: what each stage of \<open>find_next\<close> does to the instant, and the rules its main
  induction uses. Seconds, minutes, hours and months are numbered from the epoch, and a stage moves
  to the first number at or after the current one whose residue the expression has.
\<close>

definition zone :: "int \<Rightarrow> make_time" where
  "zone off d = (localtime off (mktime off d), mktime off d)"

lemma tm_to_time_zone: "0 \<le> mktime off d \<Longrightarrow> tm_to_time (zone off) d = Inr (localtime off (mktime off d))"
  by (simp add: tm_to_time_def zone_def INVALID_TIME_def)

subsection \<open>The next number with a residue in a bit set\<close>

lemma next_set_bit_Some:
  "next_set_bit bs i = Some n \<longleftrightarrow> i \<le> n \<and> n < length bs \<and> bs ! n \<and> (\<forall>j. i \<le> j \<and> j < n \<longrightarrow> \<not> bs ! j)"
proof -
  have "List.find P [i..<m] = Some n \<longleftrightarrow> i \<le> n \<and> n < m \<and> P n \<and> (\<forall>j. i \<le> j \<and> j < n \<longrightarrow> \<not> P j)" for P m
  proof
    assume "List.find P [i..<m] = Some n"
    then obtain k where k: "k < m - i" "P (i + k)" "n = i + k" "\<forall>j<k. \<not> P ([i..<m] ! j)"
      unfolding find_Some_iff by (auto simp: less_diff_conv)
    have "\<not> P j" if "i \<le> j" "j < n" for j using k(1,3) k(4) [rule_format, of "j - i"] that by auto
    then show "i \<le> n \<and> n < m \<and> P n \<and> (\<forall>j. i \<le> j \<and> j < n \<longrightarrow> \<not> P j)" using k by auto
  next
    assume a: "i \<le> n \<and> n < m \<and> P n \<and> (\<forall>j. i \<le> j \<and> j < n \<longrightarrow> \<not> P j)"
    then show "List.find P [i..<m] = Some n"
      unfolding find_Some_iff by (intro exI [of _ "n - i"]) auto
  qed
  then show ?thesis unfolding next_set_bit_def .
qed

lemma next_set_bit_None: "next_set_bit bs i = None \<longleftrightarrow> (\<forall>j. i \<le> j \<and> j < length bs \<longrightarrow> \<not> bs ! j)"
  unfolding next_set_bit_def find_None_iff by auto

definition has_bit :: "bool list \<Rightarrow> int \<Rightarrow> bool" where
  "has_bit bs k = bs ! nat (k mod int (length bs))"

definition cyc_next :: "bool list \<Rightarrow> int \<Rightarrow> int" where
  "cyc_next bs k =
     (let b = int (length bs); r = k mod b in
      case next_set_bit bs (nat r) of Some n \<Rightarrow> k - r + int n | None \<Rightarrow> k - r + b + index_to_int (next_set_bit bs 0))"

lemma has_bit_at: "0 \<le> i \<Longrightarrow> i < int (length bs) \<Longrightarrow> has_bit bs (int (length bs) * q + i) = bs ! nat i"
  using div_mod_unique [of "int (length bs) * q + i" "int (length bs)" q i] by (simp add: has_bit_def)

lemma cyc_next:
  assumes "True \<in> set bs"
  shows "k \<le> cyc_next bs k" "has_bit bs (cyc_next bs k)" "\<And>j. k \<le> j \<Longrightarrow> j < cyc_next bs k \<Longrightarrow> \<not> has_bit bs j"
    "cyc_next bs k < k + int (length bs)" "cyc_next bs k = k \<longleftrightarrow> has_bit bs k"
proof -
  let ?b = "int (length bs)"
  have b: "?b > 0" using assms by (cases bs) auto
  define q where "q = k div ?b" define r where "r = k mod ?b"
  have k: "k = ?b * q + r" "0 \<le> r" "r < ?b" unfolding q_def r_def using b by simp_all
  have at: "has_bit bs j = bs ! nat (j - ?b * p)" if "?b * p \<le> j" "j < ?b * p + ?b" for j p
    using has_bit_at [of "j - ?b * p" bs p] that by simp
  have "k \<le> cyc_next bs k \<and> has_bit bs (cyc_next bs k) \<and> (\<forall>j. k \<le> j \<and> j < cyc_next bs k \<longrightarrow> \<not> has_bit bs j)
      \<and> cyc_next bs k < k + ?b"
  proof (cases "next_set_bit bs (nat r)")
    case (Some n)
    then have n: "nat r \<le> n" "n < length bs" "bs ! n" "\<And>j. nat r \<le> j \<Longrightarrow> j < n \<Longrightarrow> \<not> bs ! j"
      by (auto simp: next_set_bit_Some)
    have c: "cyc_next bs k = ?b * q + int n"
      unfolding cyc_next_def Let_def r_def [symmetric] using Some k(1) by simp
    show ?thesis unfolding c
    proof (intro conjI allI impI)
      show "k \<le> ?b * q + int n" "?b * q + int n < k + ?b" using k n(1,2) by auto
      show "has_bit bs (?b * q + int n)" using at [of q "?b * q + int n"] n(2,3) by simp
      fix j assume j: "k \<le> j \<and> j < ?b * q + int n"
      have "nat r \<le> nat (j - ?b * q)" using j k(1) by (intro nat_mono) simp
      moreover have "nat (j - ?b * q) < n" using j k by (simp add: nat_less_iff)
      ultimately have "\<not> bs ! nat (j - ?b * q)" by (rule n(4))
      then show "\<not> has_bit bs j" using at [of q j] j k n(2) by auto
    qed
  next
    case None
    then have none: "\<And>j. nat r \<le> j \<Longrightarrow> j < length bs \<Longrightarrow> \<not> bs ! j" by (auto simp: next_set_bit_None)
    obtain i where i: "i < length bs" "bs ! i" using assms by (auto simp: in_set_conv_nth)
    then obtain n where "next_set_bit bs 0 = Some n" using next_set_bit_None [of bs 0] by (cases "next_set_bit bs 0") auto
    then have n: "next_set_bit bs 0 = Some n" "n < length bs" "bs ! n" "\<And>j. j < n \<Longrightarrow> \<not> bs ! j"
      by (auto simp: next_set_bit_Some)
    have nr: "int n < r" using none [of n] n k by (cases "nat r \<le> n") auto
    have c: "cyc_next bs k = ?b * (q + 1) + int n"
      unfolding cyc_next_def Let_def r_def [symmetric] using None n(1) k(1) by (simp add: index_to_int_def algebra_simps)
    show ?thesis unfolding c
    proof (intro conjI allI impI)
      show "k \<le> ?b * (q + 1) + int n" "?b * (q + 1) + int n < k + ?b" using k nr by (auto simp: algebra_simps)
      show "has_bit bs (?b * (q + 1) + int n)" using at [of "q + 1" "?b * (q + 1) + int n"] n(2,3) by simp
      fix j assume j: "k \<le> j \<and> j < ?b * (q + 1) + int n"
      show "\<not> has_bit bs j"
      proof (cases "j < ?b * (q + 1)")
        case True
        have "nat r \<le> nat (j - ?b * q)" using j k(1) by (intro nat_mono) simp
        moreover have "nat (j - ?b * q) < length bs" using j k True by (simp add: nat_less_iff algebra_simps)
        ultimately have "\<not> bs ! nat (j - ?b * q)" by (rule none)
        then show ?thesis using at [of q j] j k True by (auto simp: algebra_simps)
      next
        case False
        then have "nat (j - ?b * (q + 1)) < n" using j by (simp add: nat_less_iff)
        then have "\<not> bs ! nat (j - ?b * (q + 1))" by (rule n(4))
        then show ?thesis using at [of "q + 1" j] j False n(2) by auto
      qed
    qed
  qed
  then show "k \<le> cyc_next bs k" "has_bit bs (cyc_next bs k)" "\<And>j. k \<le> j \<Longrightarrow> j < cyc_next bs k \<Longrightarrow> \<not> has_bit bs j"
    "cyc_next bs k < k + ?b" "cyc_next bs k = k \<longleftrightarrow> has_bit bs k" by (auto simp: order_le_less)
qed

subsection \<open>The stages\<close>

lemma next_field_hit: "v < length bs \<Longrightarrow> bs ! v \<Longrightarrow> next_field mk bs date v f up marked = Inr (date, Some v)"
proof -
  assume "v < length bs" "bs ! v"
  then have "next_set_bit bs v = Some v" by (auto simp: next_set_bit_Some)
  then show ?thesis by (simp add: next_field_def)
qed

text \<open>The value a stage sets, and whether it has carried into the next field.\<close>

lemma cyc_next_cases [consumes 2, case_names hit ahead wrap]:
  assumes "True \<in> set bs" "length bs = b"
  obtains (hit) "has_bit bs k" "cyc_next bs k = k"
  | (ahead) n where "next_set_bit bs (nat (k mod int b)) = Some n" "int n > k mod int b" "n < b" "cyc_next bs k = k - k mod int b + int n"
      "\<not> has_bit bs k"
  | (wrap) n where "next_set_bit bs (nat (k mod int b)) = None" "next_set_bit bs 0 = Some n" "int n < k mod int b" "n < b"
      "cyc_next bs k = k - k mod int b + int b + int n" "\<not> has_bit bs k"
proof -
  have b: "b > 0" using assms by (cases bs) auto
  define r where "r = k mod int b"
  have r: "0 \<le> r" "r < int b" unfolding r_def using b by simp_all
  have h: "has_bit bs k \<longleftrightarrow> bs ! nat r" unfolding has_bit_def r_def assms(2) by simp
  show thesis
  proof (cases "has_bit bs k")
    case True
    then show thesis using hit cyc_next(5) [OF assms(1)] by simp
  next
    case False
    note c = cyc_next_def [of bs k, unfolded Let_def assms(2), folded r_def]
    show thesis
    proof (cases "next_set_bit bs (nat r)")
      case (Some n)
      then have n: "nat r \<le> n" "n < b" "bs ! n" by (auto simp: next_set_bit_Some assms(2))
      have "int n > r" using n r False h by (cases "n = nat r") auto
      then show thesis using ahead [of n] Some n c False unfolding r_def by simp
    next
      case None
      then have none: "\<And>j. nat r \<le> j \<Longrightarrow> j < b \<Longrightarrow> \<not> bs ! j" by (auto simp: next_set_bit_None assms(2))
      obtain i where i: "i < b" "bs ! i" using assms by (auto simp: in_set_conv_nth)
      then obtain n where "next_set_bit bs 0 = Some n" using next_set_bit_None [of bs 0] assms(2) by (cases "next_set_bit bs 0") auto
      then have n: "next_set_bit bs 0 = Some n" "n < b" "bs ! n" by (auto simp: next_set_bit_Some assms(2))
      have "int n < r" using none [of n] n r by (cases "nat r \<le> n") auto
      then show thesis using wrap [of n] None n c False unfolding r_def by (simp add: index_to_int_def)
    qed
  qed
qed

lemma to_unsigned_small: "0 \<le> i \<Longrightarrow> i < 2 ^ 32 \<Longrightarrow> to_unsigned i = nat i"
  by (simp add: to_unsigned_def)

subsection \<open>Instants by day, hour, minute and second\<close>

definition instant :: "int \<Rightarrow> int \<Rightarrow> int \<Rightarrow> int \<Rightarrow> int \<Rightarrow> int" where
  "instant off z h m s = z * 86400 + h * 3600 + m * 60 + s - off"

definition clock_ok :: "int \<Rightarrow> int \<Rightarrow> int \<Rightarrow> bool" where
  "clock_ok h m s \<longleftrightarrow> 0 \<le> h \<and> h < 24 \<and> 0 \<le> m \<and> m < 60 \<and> 0 \<le> s \<and> s < 60"

lemma instant_simps [simp]:
  assumes "clock_ok h m s"
  shows "(instant off z h m s + off) mod 60 = s" "(instant off z h m s + off) div 60 = z * 1440 + h * 60 + m"
    "(instant off z h m s + off) div 3600 = z * 24 + h" "day_no off (instant off z h m s) = z"
    "(z * 1440 + h * 60 + m) mod 60 = m" "(z * 24 + h) mod 24 = h"
proof -
  note c = assms [unfolded clock_ok_def]
  let ?u = "instant off z h m s + off"
  have "?u = 60 * (z * 1440 + h * 60 + m) + s" by (simp add: instant_def)
  from div_mod_unique [OF this] c show "?u mod 60 = s" "?u div 60 = z * 1440 + h * 60 + m" by simp_all
  have "?u = 3600 * (z * 24 + h) + (m * 60 + s)" by (simp add: instant_def)
  from div_mod_unique [OF this] c show "?u div 3600 = z * 24 + h" by simp
  have "?u = 86400 * z + (h * 3600 + m * 60 + s)" by (simp add: instant_def)
  from div_mod_unique [OF this] c show "day_no off (instant off z h m s) = z" by (simp add: day_no_def)
  have "z * 1440 + h * 60 + m = 60 * (z * 24 + h) + m" by simp
  from div_mod_unique [OF this] c show "(z * 1440 + h * 60 + m) mod 60 = m" by simp
  have "z * 24 + h = 24 * z + h" by simp
  from div_mod_unique [OF this] c show "(z * 24 + h) mod 24 = h" by simp
qed

lemma instant_exists: obtains z h m s where "t = instant off z h m s" "clock_ok h m s"
proof -
  have "t = instant off (day_no off t) ((t + off) div 3600 mod 24) ((t + off) div 60 mod 60) ((t + off) mod 60)"
    using time_parts [of off t] by (simp add: instant_def)
  moreover have "clock_ok ((t + off) div 3600 mod 24) ((t + off) div 60 mod 60) ((t + off) mod 60)" by (simp add: clock_ok_def)
  ultimately show thesis using that by blast
qed

lemma instant_changes [simp]:
  fixes off z h m s v i :: int
  assumes "clock_ok h m s"
  defines "d \<equiv> localtime off (instant off z h m s)"
  shows "mktime off (d\<lparr>tm_sec := v\<rparr>) = instant off z h m v" "mktime off (d\<lparr>tm_min := v\<rparr>) = instant off z h v s"
    "mktime off (d\<lparr>tm_hour := v\<rparr>) = instant off z v m s"
    "mktime off (d\<lparr>tm_mday := v, tm_isdst := i\<rparr>) = instant off (month_begin (month_no z) + v - 1) h m s"
    "mktime off (d\<lparr>tm_mon := v, tm_isdst := i\<rparr>) =
       instant off (z + month_begin (12 * (month_no z div 12) + v) - month_begin (month_no z)) h m s"
    "mktime off (d\<lparr>tm_year := v\<rparr>) =
       instant off (z + month_begin (12 * (v + 1900) + month_no z mod 12) - month_begin (month_no z)) h m s"
  unfolding d_def mktime_set instant_simps [OF assms(1)] by (simp_all add: instant_def algebra_simps)

lemma instant_le: "z < z' \<Longrightarrow> clock_ok h m s \<Longrightarrow> clock_ok h' m' s' \<Longrightarrow> instant off z h m s < instant off z' h' m' s'"
  by (auto simp: instant_def clock_ok_def)

lemma reset_all:
  fixes off z h m s :: int and M :: "cron_field set"
  assumes "clock_ok h m s" "M \<subseteq> {Second, Minute, HourOfDay, DayOfMonth}"
  defines "t' \<equiv> instant off (if DayOfMonth \<in> M then month_begin (month_no z) else z) (if HourOfDay \<in> M then 0 else h)
     (if Minute \<in> M then 0 else m) (if Second \<in> M then 0 else s)"
  assumes "0 \<le> t'"
  shows "reset_all_fields (zone off) (localtime off (instant off z h m s)) M = Inr (localtime off t')"
proof -
  have no: "DayOfWeek \<notin> M" "Month \<notin> M" "Year \<notin> M" using assms(2) by auto
  have mz: "month_begin (month_no z) \<le> z" by (rule month_no)
  have c: "clock_ok a b c" if "a \<in> {h, 0}" "b \<in> {m, 0}" "c \<in> {s, 0}" for a b c
    using assms(1) that by (auto simp: clock_ok_def)
  have n: "0 \<le> instant off z a b c"
    if "(if HourOfDay \<in> M then 0 else h) \<le> a" "(if Minute \<in> M then 0 else m) \<le> b" "(if Second \<in> M then 0 else s) \<le> c" for a b c
  proof -
    have "t' \<le> instant off z a b c" using that mz unfolding t'_def instant_def by (simp split: if_splits)
    then show ?thesis using assms(4) by simp
  qed
  have p: "0 \<le> h" "0 \<le> m" "0 \<le> s" using assms(1) by (simp_all add: clock_ok_def)
  show ?thesis
    unfolding reset_all_fields_def using no c p mz assms(4)
    by (cases "Second \<in> M"; cases "Minute \<in> M"; cases "HourOfDay \<in> M"; cases "DayOfMonth \<in> M")
      (simp_all add: reset_field_def tm_to_time_zone t'_def n del: mktime_set)
qed

lemma next_hour:
  assumes "clock_ok h m s"
  obtains z' h' where "\<And>n x. instant off z' h' n x = instant off z h n x + 3600" "clock_ok h' m s" "z' * 24 + h' = z * 24 + h + 1"
proof (cases "h = 23")
  case True
  then show thesis using that [of "z + 1" 0] assms by (simp add: instant_def clock_ok_def)
next
  case False
  then show thesis using that [of z "h + 1"] assms by (simp add: instant_def clock_ok_def)
qed

lemma next_minute:
  assumes "clock_ok h m s"
  obtains z' h' m' where "\<And>x. instant off z' h' m' x = instant off z h m x + 60" "clock_ok h' m' s"
proof (cases "m = 59")
  case True
  obtain z' h' where "\<And>n x. instant off z' h' n x = instant off z h n x + 3600" "clock_ok h' m s"
    using next_hour [OF assms] by metis
  then show thesis using that [of z' h' 0] True by (simp add: instant_def clock_ok_def)
next
  case False
  then show thesis using that [of z h "m + 1"] assms by (simp add: instant_def clock_ok_def)
qed

lemmas stage_defs = next_field_def add_to_field_def reset_field_def set_field_def tm_to_time_zone index_to_int_def

lemma second_stage:
  fixes off z h m s :: int and bs :: "bool list"
  defines "t \<equiv> instant off z h m s"
  defines "k' \<equiv> cyc_next bs (t + off)"
  assumes "0 \<le> t" "clock_ok h m s" "length bs = 60" "True \<in> set bs"
  shows "next_field (zone off) bs (localtime off t) (to_unsigned (tm_sec (localtime off t))) Second Minute {}
     = Inr (localtime off (k' - off), Some (nat (k' mod 60)))"
proof -
  note c = assms(4) [unfolded clock_ok_def]
  define k where "k = t + off"
  have k: "k = 60 * (z * 1440 + h * 60 + m) + s" unfolding k_def t_def by (simp add: instant_def)
  have km: "k mod int 60 = s" using div_mod_unique [OF k] c by simp
  have v: "to_unsigned (tm_sec (localtime off t)) = nat s" using assms(4) c by (simp add: t_def to_unsigned_small)
  have kk: "k' = cyc_next bs k" unfolding k'_def k_def ..
  from assms(6,5) show ?thesis
  proof (cases rule: cyc_next_cases [where k = k])
    case hit
    from hit(1) have "bs ! nat s" unfolding has_bit_def assms(5) km .
    moreover have "k' = t + off" "k' mod 60 = s" using hit(2) km unfolding kk by (simp_all add: k_def)
    ultimately show ?thesis unfolding v using c assms(5) by (simp add: next_field_hit)
  next
    case (ahead n)
    have k': "k' = 60 * (z * 1440 + h * 60 + m) + int n" unfolding kk ahead(4) km using k by simp
    have n: "int n > s" "n < 60" using ahead(2,3) unfolding km by auto
    have t': "k' - off = instant off z h m (int n)" unfolding k' by (simp add: instant_def)
    have p: "0 \<le> instant off z h m (int n)" using assms(3) n c unfolding t_def instant_def by simp
    have k60: "k' mod 60 = int n" using div_mod_unique [OF k'] n by simp
    have "n \<noteq> nat s" using n(1) c by auto
    then show ?thesis unfolding v using ahead(1) p assms(4) unfolding km t' k60
      by (auto simp: stage_defs reset_all_fields_def t_def simp del: mktime_set)
  next
    case (wrap n)
    have k': "k' = 60 * (z * 1440 + h * 60 + m + 1) + int n" unfolding kk wrap(5) km using k by simp
    have n: "int n < s" "n < 60" using wrap(3,4) unfolding km by auto
    obtain z1 h1 m1 where e: "\<And>x. instant off z1 h1 m1 x = instant off z h m x + 60" "clock_ok h1 m1 s"
      using next_minute [OF assms(4)] by metis
    have ok: "clock_ok h1 m1 (int n)" "clock_ok h1 m1 0" using e(2) n by (simp_all add: clock_ok_def)
    have t': "k' - off = instant off z1 h1 m1 (int n)" unfolding k' e(1) by (simp add: instant_def)
    have p: "0 \<le> instant off z1 h1 m1 s" "0 \<le> instant off z1 h1 m1 0" "0 \<le> instant off z1 h1 m1 (int n)"
      using assms(3) n c unfolding e(1) unfolding t_def instant_def by simp_all
    have a: "mktime off (add_tm Minute 1 (localtime off t)) = instant off z1 h1 m1 s"
    proof -
      have "mktime off (add_tm Minute 1 (localtime off t)) = instant off z h (m + 1) s"
        using assms(4) by (simp add: t_def del: mktime_set)
      then show ?thesis unfolding e(1) by (simp add: instant_def)
    qed
    have k60: "k' mod 60 = int n" using div_mod_unique [OF k'] n by simp
    have "n \<noteq> nat s" using n(1) c by auto
    then show ?thesis unfolding v using wrap(1,2) p e(2) ok unfolding km t' k60
      by (auto simp: stage_defs a reset_all_fields_def simp del: mktime_set add_tm.simps)
  qed
qed

lemma to_unsigned_60: "clock_ok h m s \<Longrightarrow> to_unsigned m = nat m \<and> to_unsigned h = nat h"
  by (simp add: clock_ok_def to_unsigned_small)

lemma minute_stage:
  fixes off z h m s :: int and bs :: "bool list" and M :: "cron_field set"
  defines "t \<equiv> instant off z h m s" and "k \<equiv> z * 1440 + h * 60 + m"
  defines "k' \<equiv> cyc_next bs k"
  assumes "0 \<le> t" "clock_ok h m s" "length bs = 60" "True \<in> set bs" "M \<subseteq> {Second}"
  defines "t' \<equiv> (if k' = k then t else 60 * k' + (if Second \<in> M then 0 else s) - off)"
  shows "next_field (zone off) bs (localtime off t) (to_unsigned (tm_min (localtime off t))) Minute HourOfDay M
     = Inr (localtime off t', Some (nat (k' mod 60)))"
proof -
  note c = assms(5) [unfolded clock_ok_def]
  have km: "k mod int 60 = m" using instant_simps(5) [OF assms(5), of z] by (simp add: k_def)
  have v: "to_unsigned (tm_min (localtime off t)) = nat m"
    using assms(5) to_unsigned_60 [OF assms(5)] by (simp add: t_def)
  have r: "reset_all_fields (zone off) (localtime off (instant off y a n s)) M =
      Inr (localtime off (instant off y a n (if Second \<in> M then 0 else s)))"
    if "clock_ok a n s" "0 \<le> instant off y a n 0" for y a n
  proof -
    have "M \<subseteq> {Second, Minute, HourOfDay, DayOfMonth}" "Minute \<notin> M" "HourOfDay \<notin> M" "DayOfMonth \<notin> M" using assms(8) by auto
    moreover have "0 \<le> instant off y a n (if Second \<in> M then 0 else s)" using that(2) c by (simp add: instant_def)
    ultimately show ?thesis using reset_all [OF that(1), of M off y] by simp
  qed
  from assms(7,6) show ?thesis
  proof (cases rule: cyc_next_cases [where k = k])
    case hit
    from hit(1) have "bs ! nat m" unfolding has_bit_def assms(6) km .
    moreover have "k' = k" unfolding k'_def by (rule hit)
    moreover have "k mod 60 = m" using km by simp
    ultimately show ?thesis unfolding v t'_def using c assms(6) by (simp add: next_field_hit)
  next
    case (ahead n)
    have k': "k' = k - m + int n" unfolding k'_def ahead(4) km ..
    have n: "int n > m" "n < 60" using ahead(2,3) unfolding km by auto
    have ok: "clock_ok h (int n) s" using c n by (simp add: clock_ok_def)
    have t': "t' = instant off z h (int n) (if Second \<in> M then 0 else s)"
      using n k' unfolding t'_def by (simp add: instant_def k_def)
    have p: "0 \<le> instant off z h (int n) 0" "0 \<le> instant off z h (int n) s"
      using assms(4) n c unfolding t_def instant_def by simp_all
    have k60: "k' mod 60 = int n" using div_mod_unique [of k' 60 "z * 24 + h" "int n"] n unfolding k' k_def by simp
    have "n \<noteq> nat m" using n(1) c by auto
    then show ?thesis unfolding v using ahead(1) p assms(5) r [OF ok p(1)] unfolding km t' k60
      by (auto simp: stage_defs t_def simp del: mktime_set)
  next
    case (wrap n)
    have k': "k' = k - m + 60 + int n" unfolding k'_def wrap(5) km by simp
    have n: "int n < m" "n < 60" using wrap(3,4) unfolding km by auto
    obtain z1 h1 where zh: "\<And>n x. instant off z1 h1 n x = instant off z h n x + 3600" "clock_ok h1 m s"
      using next_hour [OF assms(5)] by metis
    have ok: "clock_ok h1 (int n) s" "clock_ok h1 0 s" using zh(2) n by (simp_all add: clock_ok_def)
    have p: "0 \<le> instant off z1 h1 m s" "0 \<le> instant off z1 h1 0 s" "0 \<le> instant off z1 h1 (int n) s" "0 \<le> instant off z1 h1 (int n) 0"
      using assms(4) c n unfolding zh(1) unfolding t_def instant_def by simp_all
    have t': "t' = instant off z1 h1 (int n) (if Second \<in> M then 0 else s)"
      using n c k' unfolding t'_def unfolding zh(1) by (simp add: instant_def k_def)
    have a: "mktime off (add_tm HourOfDay 1 (localtime off t)) = instant off z1 h1 m s"
    proof -
      have "mktime off (add_tm HourOfDay 1 (localtime off t)) = instant off z (h + 1) m s"
        using assms(5) c by (simp add: t_def del: mktime_set)
      then show ?thesis unfolding zh(1) by (simp add: instant_def)
    qed
    have k60: "k' mod 60 = int n" using div_mod_unique [of k' 60 "z * 24 + h + 1" "int n"] n unfolding k' k_def by simp
    have "n \<noteq> nat m" using n(1) c by auto
    then show ?thesis unfolding v using wrap(1,2) p zh(2) ok r [OF ok(1) p(4)] unfolding km t' k60
      by (auto simp: stage_defs a simp del: mktime_set add_tm.simps)
  qed
qed

text \<open>The stage of the hours, as \<open>find_next\<close> reaches it: with the minutes unchanged, so marked.\<close>

lemma hour_stage:
  fixes off z h m s :: int and bs :: "bool list" and M :: "cron_field set"
  defines "t \<equiv> instant off z h m s" and "k \<equiv> z * 24 + h"
  defines "k' \<equiv> cyc_next bs k"
  assumes "0 \<le> t" "clock_ok h m s" "length bs = 24" "True \<in> set bs" "Minute \<in> M" "M \<subseteq> {Second, Minute}"
  defines "t' \<equiv> (if k' = k then t else 3600 * k' + (if Second \<in> M then 0 else s) - off)"
  shows "next_field (zone off) bs (localtime off t) (to_unsigned (tm_hour (localtime off t))) HourOfDay DayOfWeek M
     = Inr (localtime off t', Some (nat (k' mod 24)))"
proof -
  note c = assms(5) [unfolded clock_ok_def]
  have km: "k mod int 24 = h" using instant_simps(6) [OF assms(5), of z] by (simp add: k_def)
  have v: "to_unsigned (tm_hour (localtime off t)) = nat h"
    using assms(5) c to_unsigned_60 [OF assms(5)] by (simp add: t_def)
  have r: "reset_all_fields (zone off) (localtime off (instant off y a m s)) M =
      Inr (localtime off (instant off y a 0 (if Second \<in> M then 0 else s)))"
    if "clock_ok a m s" "0 \<le> instant off y a 0 0" for y a
  proof -
    have "M \<subseteq> {Second, Minute, HourOfDay, DayOfMonth}" "HourOfDay \<notin> M" "DayOfMonth \<notin> M" using assms(9) by auto
    moreover have "0 \<le> instant off y a 0 (if Second \<in> M then 0 else s)" using that(2) c by (simp add: instant_def)
    ultimately show ?thesis using reset_all [OF that(1), of M off y] assms(8) by simp
  qed
  from assms(7,6) show ?thesis
  proof (cases rule: cyc_next_cases [where k = k])
    case hit
    from hit(1) have "bs ! nat h" unfolding has_bit_def assms(6) km .
    moreover have "k' = k" unfolding k'_def by (rule hit)
    moreover have "k mod 24 = h" using km by simp
    ultimately show ?thesis unfolding v t'_def using c assms(6) by (simp add: next_field_hit)
  next
    case (ahead n)
    have k': "k' = k - h + int n" unfolding k'_def ahead(4) km ..
    have n: "int n > h" "n < 24" using ahead(2,3) unfolding km by auto
    have ok: "clock_ok (int n) m s" using c n by (simp add: clock_ok_def)
    have t': "t' = instant off z (int n) 0 (if Second \<in> M then 0 else s)"
      using n k' unfolding t'_def by (simp add: instant_def k_def)
    have p: "0 \<le> instant off z (int n) 0 0" "0 \<le> instant off z (int n) m s"
      using assms(4) n c unfolding t_def instant_def by simp_all
    have k24: "k' mod 24 = int n" using div_mod_unique [of k' 24 z "int n"] n unfolding k' k_def by simp
    have "n \<noteq> nat h" using n(1) c by auto
    then show ?thesis unfolding v using ahead(1) p assms(5) r [OF ok p(1)] unfolding km t' k24
      by (auto simp: stage_defs t_def simp del: mktime_set)
  next
    case (wrap n)
    have k': "k' = k - h + 24 + int n" unfolding k'_def wrap(5) km by simp
    have n: "int n < h" "n < 24" using wrap(3,4) unfolding km by auto
    have ok: "clock_ok (int n) m s" "clock_ok 0 m s" using c n by (simp_all add: clock_ok_def)
    have e: "instant off (z + 1) a b x = instant off z a b x + 86400" for a b x by (simp add: instant_def)
    have p: "0 \<le> instant off (z + 1) h m s" "0 \<le> instant off (z + 1) 0 m s" "0 \<le> instant off (z + 1) (int n) m s"
      "0 \<le> instant off (z + 1) (int n) 0 0"
      using assms(4) c n unfolding e unfolding t_def instant_def by simp_all
    have t': "t' = instant off (z + 1) (int n) 0 (if Second \<in> M then 0 else s)"
      using n c k' unfolding t'_def unfolding e by (simp add: instant_def k_def)
    have a: "mktime off (add_tm DayOfWeek 1 (localtime off t)) = instant off (z + 1) h m s"
      using assms(5) by (simp add: t_def add.commute [of 1] del: mktime_set)
    have k24: "k' mod 24 = int n" using div_mod_unique [of k' 24 "z + 1" "int n"] n unfolding k' k_def by simp
    have "n \<noteq> nat h" using n(1) c by auto
    then show ?thesis unfolding v using wrap(1,2) p assms(5) ok r [OF ok(1) p(4)] unfolding km t' k24
      by (auto simp: stage_defs a simp del: mktime_set add_tm.simps)
  qed
qed

lemma month_stage:
  fixes off z h m s :: int and bs :: "bool list" and M :: "cron_field set"
  defines "t \<equiv> instant off z h m s" and "k \<equiv> month_no z"
  defines "k' \<equiv> cyc_next bs k"
  assumes "0 \<le> t" "clock_ok h m s" "length bs = 12" "True \<in> set bs" "{Minute, HourOfDay, DayOfMonth} \<subseteq> M"
    "M \<subseteq> {Second, Minute, HourOfDay, DayOfMonth}"
  shows "\<exists>t'. next_field (zone off) bs (localtime off t) (to_unsigned (tm_mon (localtime off t))) Month Year M
     = Inr (localtime off t', Some (nat (k' mod 12))) \<and>
     (if k' = k then t' = t
      else \<exists>y\<in>{k', k' + 1}. t' = instant off (month_begin y) 0 0 (if Second \<in> M then 0 else s) \<and>
        (z - month_begin (month_no z) \<le> 27 \<longrightarrow> y = k') \<and>
        (k' div 12 = k div 12 \<longrightarrow> y = month_no (month_begin k' + (z - month_begin (month_no z)))))"
proof -
  note c = assms(5) [unfolded clock_ok_def]
  define e where "e = z - month_begin k"
  have e: "0 \<le> e" "e \<le> 30" "z = month_begin k + e" unfolding e_def k_def using day_in_month [of z] by simp_all
  define q where "q = k div 12" define r where "r = k mod 12"
  have k: "k = 12 * q + r" "0 \<le> r" "r < 12" unfolding q_def r_def by simp_all
  have km: "k mod int 12 = r" by (simp add: r_def)
  have v: "to_unsigned (tm_mon (localtime off t)) = nat r"
    using assms(5) k(2,3) by (simp add: t_def to_unsigned_small r_def k_def)
  let ?s = "if Second \<in> M then 0 else s"
  have zk: "z < month_begin j" if "k < j" for j
    using month_no(2) [of z] month_begin_mono [of "k + 1" j] that by (cases "k + 1 = j") (auto simp: k_def)
  have pos: "0 \<le> instant off y a b x" if "z < y" "0 \<le> a" "0 \<le> b" "0 \<le> x" for y a b x
  proof -
    have "z * 86400 + 86400 \<le> y * 86400" using that(1) by simp
    then show ?thesis using assms(4) c that unfolding t_def instant_def by linarith
  qed
  have fin: "reset_all_fields (zone off) (localtime off (instant off (month_begin j + i) h m s)) M =
      Inr (localtime off (instant off (month_begin (month_no (month_begin j + i))) 0 0 ?s))"
    if "k < j" "0 \<le> i" "i \<le> 30" for j i
  proof -
    have "z < month_begin (month_no (month_begin j + i))" using month_overflow(1) [OF that(2,3), of j] zk that(1) by auto
    then have "0 \<le> instant off (month_begin (month_no (month_begin j + i))) 0 0 ?s" using pos c by simp
    then show ?thesis using reset_all [OF assms(5,9), of off "month_begin j + i"] assms(8) by simp
  qed
  from assms(7,6) show ?thesis
  proof (cases rule: cyc_next_cases [where k = k])
    case hit
    from hit(1) have "bs ! nat r" unfolding has_bit_def assms(6) km .
    moreover have "k' = k" unfolding k'_def by (rule hit)
    moreover have "k mod 12 = r" by (simp add: r_def)
    ultimately show ?thesis unfolding v using k(2,3) assms(6) by (simp add: next_field_hit)
  next
    case (ahead n)
    have k': "k' = 12 * q + int n" unfolding k'_def ahead(4) km using k by simp
    have n: "int n > r" "n < 12" using ahead(2,3) unfolding km by auto
    have kk: "k < k'" using k k' n by simp
    let ?y = "month_no (month_begin k' + e)"
    have a: "mktime off (set_tm Month (int n) (localtime off t)) = instant off (month_begin k' + e) h m s"
      using assms(5) by (simp add: t_def k_def [symmetric] q_def [symmetric] k' e_def algebra_simps del: mktime_set)
    have p: "0 \<le> instant off (month_begin k' + e) h m s" using pos zk [OF kk] e c by simp
    have k12: "k' mod 12 = int n" using div_mod_unique [of k' 12 q "int n"] n k' by simp
    have "n \<noteq> nat r" using n(1) k(2) by auto
    then have "next_field (zone off) bs (localtime off t) (nat r) Month Year M = Inr (localtime off (instant off (month_begin ?y) 0 0 ?s), Some n)"
      using ahead(1) p fin [OF kk e(1,2)] unfolding km by (simp add: stage_defs a del: mktime_set set_tm.simps)
    then show ?thesis unfolding v k12 using kk month_overflow [OF e(1,2), of k'] unfolding k_def [symmetric] e_def [symmetric]
      by (intro exI [of _ "instant off (month_begin ?y) 0 0 ?s"]) auto
  next
    case (wrap n)
    have k': "k' = 12 * (q + 1) + int n" unfolding k'_def wrap(5) km using k by simp
    have n: "int n < r" "n < 12" using wrap(3,4) unfolding km by auto
    have kk: "k < k'" using k k' n by simp
    define w where "w = month_begin (k + 12) + e"
    define j where "j = month_no w"
    define i where "i = w - month_begin j"
    have i: "0 \<le> i" "i \<le> 30" unfolding i_def j_def using day_in_month [of w] by simp_all
    have j: "j \<in> {k + 12, k + 13}" "e \<le> 27 \<Longrightarrow> j = k + 12" unfolding j_def w_def using month_overflow [OF e(1,2), of "k + 12"] by auto
    have ie: "e \<le> 27 \<Longrightarrow> i = e" using j(2) unfolding i_def w_def by simp
    have jq: "j div 12 = q + 1"
    proof -
      have "j \<noteq> 12 * (q + 1) + 12"
      proof
        assume a: "j = 12 * (q + 1) + 12"
        then have kd: "k + 12 = 12 * (q + 1) + 11" using j(1) k by auto
        have "month_begin (12 * (q + 1) + 12) \<le> w" using month_no(1) [of w] a unfolding j_def by simp
        then show False using month_31(2) [of "q + 1"] e(2) unfolding w_def kd by simp
      qed
      then show ?thesis using j(1) k div_mod_unique [of j 12 "q + 1" "j - 12 * (q + 1)"] by auto
    qed
    define x where "x = month_begin (12 * (q + 1)) + i"
    have xm: "month_no x = 12 * (q + 1)" unfolding x_def using month_31(1) [of "q + 1"] i by (intro month_noI) auto
    let ?y = "month_no (month_begin k' + i)"
    have lt: "z < w" "z < x" "z < month_begin k' + i"
      using zk [of "k + 12"] zk [of "12 * (q + 1)"] zk [OF kk] e(1) i(1) k unfolding w_def x_def by auto
    have a: "mktime off (add_tm Year 1 (localtime off t)) = instant off w h m s"
    proof -
      have "12 * (k div 12 + 1) + k mod 12 = k + 12" using k unfolding q_def r_def by simp
      then show ?thesis using assms(5) by (simp add: t_def k_def [symmetric] w_def e_def algebra_simps del: mktime_set)
    qed
    have b: "mktime off (reset_tm Month (localtime off (instant off w h m s))) = instant off x h m s"
      using assms(5) jq by (simp add: j_def [symmetric] x_def i_def algebra_simps del: mktime_set)
    have d: "mktime off (set_tm Month (int n) (localtime off (instant off x h m s))) = instant off (month_begin k' + i) h m s"
    proof -
      have xd: "12 * (q + 1) div 12 = q + 1" by (rule nonzero_mult_div_cancel_left) simp
      show ?thesis unfolding set_tm.simps instant_changes [OF assms(5)] xm xd by (simp add: k' x_def add.commute)
    qed
    have p: "0 \<le> instant off w h m s" "0 \<le> instant off x h m s" "0 \<le> instant off (month_begin k' + i) h m s"
      using pos lt c by simp_all
    have k12: "k' mod 12 = int n" using div_mod_unique [of k' 12 "q + 1" "int n"] n k' by simp
    have "n \<noteq> nat r" using n(1) k(2) by auto
    then have "next_field (zone off) bs (localtime off t) (nat r) Month Year M = Inr (localtime off (instant off (month_begin ?y) 0 0 ?s), Some n)"
      using wrap(1,2) p fin [OF kk i] unfolding km
      by (simp add: stage_defs a b d del: mktime_set set_tm.simps add_tm.simps reset_tm.simps)
    moreover have "k' div 12 \<noteq> k div 12" using div_mod_unique [of k' 12 "q + 1" "int n"] n k' by (simp add: q_def)
    ultimately show ?thesis unfolding v k12 using kk month_overflow [OF i, of k'] ie unfolding k_def [symmetric] e_def [symmetric]
      by (intro exI [of _ "instant off (month_begin ?y) 0 0 ?s"]) auto
  qed
qed

subsection \<open>The search for the day\<close>

definition cron_wf :: "cronexpr \<Rightarrow> bool" where
  "cron_wf cex \<longleftrightarrow> length (cx_seconds cex) = 60 \<and> length (cx_minutes cex) = 60 \<and> length (cx_hours cex) = 24 \<and>
     length (cx_days_of_week cex) = 7 \<and> length (cx_days_of_month cex) = 31 \<and> length (cx_months cex) = 12 \<and>
     True \<in> set (cx_seconds cex) \<and> True \<in> set (cx_minutes cex) \<and> True \<in> set (cx_hours cex) \<and>
     True \<in> set (cx_days_of_week cex) \<and> True \<in> set (cx_days_of_month cex) \<and> True \<in> set (cx_months cex)"

definition day_ok :: "cronexpr \<Rightarrow> int \<Rightarrow> bool" where
  "day_ok cex z \<longleftrightarrow> cx_days_of_month cex ! nat (z - month_begin (month_no z)) \<and> cx_days_of_week cex ! nat ((z + 4) mod 7)"

abbreviation std :: cron_traits where "std \<equiv> cron_standard_traits"

lemma day_matches_std:
  "cron_wf cex \<Longrightarrow> day_matches std cex (z - month_begin (month_no z) + 1) ((z + 4) mod 7) = Inr (day_ok cex z)"
  using day_in_month [of z] by (simp add: day_matches_def bit_test_def cron_standard_traits_def cron_wf_def day_ok_def)

lemma find_next_day_run:
  assumes "cron_wf cex" "{Minute, HourOfDay} \<subseteq> M" "M \<subseteq> {Second, Minute, HourOfDay}"
  shows "clock_ok h m s \<Longrightarrow> 0 \<le> instant off z h m s \<Longrightarrow> day_ok cex (z + int j) \<Longrightarrow> (\<forall>i<j. \<not> day_ok cex (z + int i)) \<Longrightarrow> j \<le> n \<Longrightarrow>
     find_next_day (zone off) std cex M n (z - month_begin (month_no z) + 1) ((z + 4) mod 7) (localtime off (instant off z h m s)) =
       Inr (if j = 0 then (localtime off (instant off z h m s), z - month_begin (month_no z) + 1)
        else (localtime off (instant off (z + int j) 0 0 (if Second \<in> M then 0 else s)),
          z + int j - month_begin (month_no (z + int j)) + 1))"
proof (induction n arbitrary: z h m s j)
  case 0
  then show ?case using day_matches_std [OF assms(1), of z]
    by (simp add: find_next_day.simps [of _ _ _ _ 0])
next
  case (Suc n)
  note c = Suc.prems(1) [unfolded clock_ok_def]
  note u = find_next_day.simps [of "zone off" std cex M "Suc n"] day_matches_std [OF assms(1), of z]
  show ?case
  proof (cases j)
    case 0
    then show ?thesis using Suc.prems(3) u by simp
  next
    case (Suc i)
    then have no: "\<not> day_ok cex z" using Suc.prems(4) [rule_format, of 0] by simp
    let ?s = "if Second \<in> M then 0 else s"
    have e: "instant off (z + 1) a b x = instant off z a b x + 86400" for a b x by (simp add: instant_def)
    have p: "0 \<le> instant off (z + 1) h m s" "0 \<le> instant off (z + 1) 0 0 ?s"
      using Suc.prems(2) c unfolding e unfolding instant_def by simp_all
    have a: "mktime off (add_tm DayOfMonth 1 (localtime off (instant off z h m s))) = instant off (z + 1) h m s"
      using Suc.prems(1) by (simp add: add.commute [of 1 z] del: mktime_set)
    have r: "reset_all_fields (zone off) (localtime off (instant off (z + 1) h m s)) M = Inr (localtime off (instant off (z + 1) 0 0 ?s))"
    proof -
      have "M \<subseteq> {Second, Minute, HourOfDay, DayOfMonth}" "Minute \<in> M" "HourOfDay \<in> M" "DayOfMonth \<notin> M"
        using assms(2,3) by auto
      then show ?thesis using reset_all [OF Suc.prems(1), of M off "z + 1"] p(2) by simp
    qed
    have ok: "clock_ok 0 0 ?s" using c by (simp add: clock_ok_def)
    have day: "day_ok cex (z + 1 + int i)" "\<forall>l<i. \<not> day_ok cex (z + 1 + int l)"
    proof -
      show "day_ok cex (z + 1 + int i)" using Suc.prems(3) Suc by (simp add: algebra_simps)
      show "\<forall>l<i. \<not> day_ok cex (z + 1 + int l)"
      proof (intro allI impI)
        fix l assume "l < i"
        then show "\<not> day_ok cex (z + 1 + int l)" using Suc.prems(4) [rule_format, of "Suc l"] Suc by (simp add: algebra_simps)
      qed
    qed
    have "find_next_day (zone off) std cex M (Suc n) (z - month_begin (month_no z) + 1) ((z + 4) mod 7) (localtime off (instant off z h m s))
      = find_next_day (zone off) std cex M n (z + 1 - month_begin (month_no (z + 1)) + 1) ((z + 1 + 4) mod 7)
          (localtime off (instant off (z + 1) 0 0 ?s))"
      using no u p(1) Suc.prems(1)
      by (simp add: add_to_field_def tm_to_time_zone a r Let_def del: mktime_set add_tm.simps)
    also have "\<dots> = Inr (localtime off (instant off (z + int j) 0 0 ?s), z + int j - month_begin (month_no (z + int j)) + 1)"
    proof -
      have j: "z + 1 + int i = z + int j" using Suc by simp
      have "i \<le> n" using Suc.prems(5) Suc by simp
      from Suc.IH [OF ok p(2) day this] show ?thesis unfolding j using Suc.prems(3) Suc by (cases i) (simp_all add: algebra_simps)
    qed
    finally show ?thesis using Suc by simp
  qed
qed

end
