(* ===== verification/CronParse.thy ===== *)
theory CronParse
  imports CronNext
begin

text \<open>
  The parser of cron expressions: it always returns, an expression it accepts has a value in every
  field, and what a field of entries denotes. The counter of the loop over a range is an unsigned
  8-bit number: with an increment near 256 it wraps.
\<close>

subsection \<open>The loop over a range\<close>

lemma set_steps_rec:
  "i \<le> hi \<Longrightarrow> i < length bs \<Longrightarrow> set_steps hi d i bs = set_steps hi d ((i + d) mod 256) (bs[i := True])"
  by (subst set_steps.simps) (simp add: bit_set_def)

lemma set_steps_stop: "hi < i \<Longrightarrow> set_steps hi d i bs = Some (Inr bs)"
  by (subst set_steps.simps) simp

definition steps_result :: "bool list \<Rightarrow> bool list run \<Rightarrow> bool" where
  "steps_result bs r \<longleftrightarrow> (\<exists>bs'. r = Some (Inr bs') \<and> length bs' = length bs \<and> (\<forall>j<length bs. bs ! j \<longrightarrow> bs' ! j))"

lemma steps_result_update: "steps_result (bs[i := True]) r \<Longrightarrow> steps_result bs r"
  unfolding steps_result_def by (metis length_list_update nth_list_update_eq nth_list_update_neq)

lemma steps_result_stop: "steps_result bs (Some (Inr (bs[i := True])))"
proof -
  have "bs ! j \<longrightarrow> bs[i := True] ! j" if "j < length bs" for j using that by (cases "i = j") simp_all
  then show ?thesis unfolding steps_result_def by simp
qed

lemma set_steps_returns:
  assumes "hi < 128" "0 < d" "d < 256"
  shows "i < 256 \<Longrightarrow> hi < length bs \<Longrightarrow> steps_result bs (set_steps hi d i bs)"
proof (cases "d + hi < 256")
  case True
  show "i < 256 \<Longrightarrow> hi < length bs \<Longrightarrow> steps_result bs (set_steps hi d i bs)"
  proof (induction "hi + 1 - i" arbitrary: i bs rule: less_induct)
    case (less i bs)
    show ?case
    proof (cases "i \<le> hi")
      case le: True
      then have m: "(i + d) mod 256 = i + d" using True by simp
      have "steps_result (bs[i := True]) (set_steps hi d (i + d) (bs[i := True]))"
        using less.hyps [of "i + d" "bs[i := True]"] le assms True less.prems by simp
      then show ?thesis using steps_result_update set_steps_rec [of i hi bs d] le less.prems m by simp
    qed (simp add: set_steps_stop steps_result_def)
  qed
next
  case False
  show "i < 256 \<Longrightarrow> hi < length bs \<Longrightarrow> steps_result bs (set_steps hi d i bs)"
  proof (induction i arbitrary: bs rule: less_induct)
    case (less i bs)
    show ?case
    proof (cases "i \<le> hi")
      case le: True
      have r: "set_steps hi d i bs = set_steps hi d ((i + d) mod 256) (bs[i := True])"
        using set_steps_rec le less.prems by simp
      show ?thesis
      proof (cases "i + d < 256")
        case True
        then have "hi < (i + d) mod 256" using False assms(1) by simp
        then show ?thesis unfolding r by (simp add: set_steps_stop steps_result_stop)
      next
        case wrap: False
        then have m: "(i + d) mod 256 = i + d - 256" using less.prems(1) assms(3) by (simp add: mod_if)
        then show ?thesis unfolding r m using less.IH [of "i + d - 256" "bs[i := True]"] wrap assms(3) less.prems
          by (intro steps_result_update [of bs i]) simp
      qed
    qed (simp add: set_steps_stop steps_result_def)
  qed
qed

text \<open>Without wrapping, the loop sets an arithmetic progression.\<close>

lemma set_steps_progression:
  assumes "0 < d" "d + hi < 256"
  shows "hi < length bs \<Longrightarrow> i \<le> 255 \<Longrightarrow>
     set_steps hi d i bs = Some (Inr (map (\<lambda>j. bs ! j \<or> i \<le> j \<and> j \<le> hi \<and> d dvd j - i) [0..<length bs]))"
proof (induction "hi + 1 - i" arbitrary: i bs rule: less_induct)
  case (less i bs)
  show ?case
  proof (cases "i \<le> hi")
    case True
    have m: "(i + d) mod 256 = i + d" using True assms by simp
    have "set_steps hi d (i + d) (bs[i := True]) =
        Some (Inr (map (\<lambda>j. bs[i := True] ! j \<or> i + d \<le> j \<and> j \<le> hi \<and> d dvd j - (i + d)) [0..<length bs]))"
      using less.hyps [of "i + d" "bs[i := True]"] True assms less.prems by simp
    moreover have "(bs[i := True] ! j \<or> i + d \<le> j \<and> j \<le> hi \<and> d dvd j - (i + d)) \<longleftrightarrow> (bs ! j \<or> i \<le> j \<and> j \<le> hi \<and> d dvd j - i)"
      if "j < length bs" for j
    proof -
      have "i + d \<le> j \<and> d dvd j - (i + d) \<longleftrightarrow> i < j \<and> d dvd j - i"
      proof (cases "i + d \<le> j")
        case ge: True
        then have "j - i = j - (i + d) + d" by simp
        then have "d dvd j - i \<longleftrightarrow> d dvd j - (i + d)" by simp
        then show ?thesis using ge assms(1) by simp
      next
        case lt: False
        have "\<not> d dvd j - i" if "i < j" using lt that by (auto dest: dvd_imp_le)
        then show ?thesis using lt by auto
      qed
      then show ?thesis using that True by (cases "j = i") auto
    qed
    ultimately show ?thesis using set_steps_rec [of i hi bs d] True less.prems m by simp
  next
    case False
    then have "map (\<lambda>j. bs ! j \<or> i \<le> j \<and> j \<le> hi \<and> d dvd j - i) [0..<length bs] = bs"
      by (intro nth_equalityI) auto
    then show ?thesis using False by (simp add: set_steps_stop)
  qed
qed

subsection \<open>Entries and fields\<close>

lemma to_cron_int_less: "to_cron_int s = Inr v \<Longrightarrow> v < 256"
  by (auto simp: to_cron_int_def split: sum.splits)

lemma to_cron_int_error: "to_cron_int s = Inl e \<Longrightarrow> e = BadCronexpr ''stoul''"
  by (auto simp: to_cron_int_def split: sum.splits)

definition bad_cron :: "fault \<Rightarrow> bool" where "bad_cron e \<longleftrightarrow> (\<exists>msg. e = BadCronexpr msg)"

lemma make_range_result:
  "case make_range field minval maxval of Inl e \<Rightarrow> bad_cron e | Inr (a, b) \<Rightarrow> minval \<le> a \<and> a \<le> b \<and> b \<le> maxval"
proof -
  have "bad_cron e" if "range_bounds field minval maxval = Inl e" for e
    using that by (auto simp: range_bounds_def bind_def bad_cron_def Let_def split: if_splits sum.splits dest: to_cron_int_error)
  then show ?thesis
    by (cases "range_bounds field minval maxval") (auto simp: make_range_def bad_cron_def)
qed

definition field_result :: "nat \<Rightarrow> bool list run \<Rightarrow> bool" where
  "field_result n r \<longleftrightarrow> (\<exists>x. r = Some x \<and> (case x of Inl e \<Rightarrow> bad_cron e | Inr bs \<Rightarrow> length bs = n \<and> True \<in> set bs))"

lemma field_result_simps [simp]: "field_result n (Some (Inl (BadCronexpr msg)))"
  by (simp add: field_result_def bad_cron_def)

lemma set_steps_field:
  assumes "hi < 128" "hi < length bs" "0 < d" "d < 256" "i \<le> hi"
  shows "field_result (length bs) (set_steps hi d i bs)"
proof -
  have "steps_result (bs[i := True]) (set_steps hi d ((i + d) mod 256) (bs[i := True]))"
    using set_steps_returns [OF assms(1,3,4), of "(i + d) mod 256" "bs[i := True]"] assms(2) by simp
  then obtain bs' where "set_steps hi d i bs = Some (Inr bs')" "length bs' = length bs" "bs' ! i"
    using set_steps_rec [OF assms(5), of bs d] assms(2,5) by (auto simp: steps_result_def)
  moreover have "True \<in> set bs'" using calculation(2,3) assms(2,5) by (metis (full_types) le_less_trans nth_mem)
  ultimately show ?thesis unfolding field_result_def by simp
qed

lemma set_entry_result:
  assumes "maxval - minval < 128" "maxval - minval < length bs"
  shows "field_result (length bs) (set_entry minval maxval field bs)"
proof -
  have range: "field_result (length bs) (run_bind (Some (make_range f minval maxval)) (\<lambda>(a, b). k a b))"
    if "\<And>a b. minval \<le> a \<Longrightarrow> a \<le> b \<Longrightarrow> b \<le> maxval \<Longrightarrow> field_result (length bs) (k a b)"
    for f and k :: "nat \<Rightarrow> nat \<Rightarrow> bool list run"
    using make_range_result [where field = f and minval = minval and maxval = maxval] that
    by (cases "make_range f minval maxval") (auto simp: field_result_def)
  have steps: "field_result (length bs) (set_steps (b - minval) d (a - minval) bs)"
    if "minval \<le> a" "a \<le> b" "b \<le> maxval" "0 < d" "d < 256" for a b d
    using set_steps_field [of "b - minval" bs d "a - minval"] assms that by (simp add: diff_le_mono)
  show ?thesis
  proof (cases "CHR ''/'' \<in> set field")
    case False
    then show ?thesis using range [where f = field and k = "\<lambda>a b. set_steps (b - minval) 1 (a - minval) bs"] steps [of _ _ 1]
      by (simp add: set_entry_def)
  next
    case True
    let ?k = "\<lambda>f s a b. let b = if CHR ''-'' \<notin> set f then maxval else b in
          run_bind (Some (to_cron_int s)) (\<lambda>d.
            if d = 0 then Some (Inl (BadCronexpr ''Incrementer must be a positive value''))
            else set_steps (b - minval) d (a - minval) bs)"
    have "field_result (length bs) (?k f s a b)" if "minval \<le> a" "a \<le> b" "b \<le> maxval" for f s :: string and a b
    proof (cases "to_cron_int s")
      case (Inl e)
      then show ?thesis using to_cron_int_error [of s e] by (simp add: Let_def)
    next
      case (Inr d)
      then show ?thesis using that steps [of a maxval d] steps [of a b d] to_cron_int_less [of s d] by (simp add: Let_def)
    qed
    then have "field_result (length bs) (run_bind (Some (make_range f minval maxval)) (\<lambda>(a, b). ?k f s a b))" for f s :: string
      by (intro range) simp
    then show ?thesis using True by (simp add: set_entry_def Let_def)
  qed
qed

lemma set_entries_result:
  "maxval - minval < 128 \<Longrightarrow> maxval - minval < length bs \<Longrightarrow> es \<noteq> [] \<Longrightarrow>
     field_result (length bs) (set_entries minval maxval es bs)"
proof (induction es arbitrary: bs)
  case (Cons e es)
  from set_entry_result [OF Cons.prems(1,2), of e]
  obtain x where x: "set_entry minval maxval e bs = Some x" "case x of Inl e \<Rightarrow> bad_cron e | Inr bs' \<Rightarrow> length bs' = length bs \<and> True \<in> set bs'"
    by (auto simp: field_result_def)
  show ?case
  proof (cases x)
    case (Inr bs')
    then show ?thesis using Cons.IH [of bs'] Cons.prems x by (cases "es = []") (fastforce simp: field_result_def)+
  qed (use x in \<open>simp add: field_result_def\<close>)
qed simp

lemma set_cron_field_result:
  "maxval - minval < 128 \<Longrightarrow> maxval - minval < length bs \<Longrightarrow> field_result (length bs) (set_cron_field value bs minval maxval)"
  using set_entries_result [of maxval minval bs] by (simp add: set_cron_field_def Let_def)

text \<open>C33: parsing an expression always returns: a \<open>bad_cronexpr\<close>, or an expression with bit sets of the
  right sizes in which every field has a value.\<close>

theorem make_cron_well_formed:
  "\<exists>r. make_cron cron_standard_traits expr = Some r \<and> (case r of Inl e \<Rightarrow> \<exists>msg. e = BadCronexpr msg | Inr cex \<Rightarrow> cron_wf cex)"
proof -
  define P where "P r \<longleftrightarrow> (\<exists>x. r = Some x \<and> (case x of Inl e \<Rightarrow> bad_cron e | Inr cex \<Rightarrow> cron_wf cex))" for r
  have step: "P (run_bind m f)"
    if m: "field_result n m" and f: "\<And>bs. length bs = n \<Longrightarrow> True \<in> set bs \<Longrightarrow> P (f bs)" for n m f
  proof -
    from m obtain x where "m = Some x" "case x of Inl e \<Rightarrow> bad_cron e | Inr bs \<Rightarrow> length bs = n \<and> True \<in> set bs"
      unfolding field_result_def by blast
    then show ?thesis using f by (cases x) (simp_all add: P_def)
  qed
  have err: "P (Some (Inl (BadCronexpr msg)))" for msg by (simp add: P_def bad_cron_def)
  have fields: "field_result 60 (set_cron_field s (replicate 60 False) 0 59)"
      "field_result 24 (set_cron_field s (replicate 24 False) 0 23)"
      "field_result 7 (set_cron_days_of_week cron_standard_traits s (replicate 7 False))"
      "field_result 31 (set_cron_days_of_month cron_standard_traits s (replicate 31 False))"
      "field_result 12 (set_cron_month cron_standard_traits s (replicate 12 False))" for s
    using set_cron_field_result [of 59 0 "replicate 60 False" s] set_cron_field_result [of 23 0 "replicate 24 False" s]
      set_cron_field_result [of 6 0 "replicate 7 False"] set_cron_field_result [of 31 1 "replicate 31 False"]
      set_cron_field_result [of 12 1 "replicate 12 False"]
    by (simp_all add: set_cron_days_of_week_def set_cron_days_of_month_def set_cron_month_def cron_standard_traits_def)
  have std: "MIN_SECONDS cron_standard_traits = 0" "MAX_SECONDS cron_standard_traits = 59"
    "MIN_MINUTES cron_standard_traits = 0" "MAX_MINUTES cron_standard_traits = 59"
    "MIN_HOURS cron_standard_traits = 0" "MAX_HOURS cron_standard_traits = 23"
    by (simp_all add: cron_standard_traits_def)
  have empty: "cx_seconds empty_cronexpr = replicate 60 False" "cx_minutes empty_cronexpr = replicate 60 False"
    "cx_hours empty_cronexpr = replicate 24 False" "cx_days_of_week empty_cronexpr = replicate 7 False"
    "cx_days_of_month empty_cronexpr = replicate 31 False" "cx_months empty_cronexpr = replicate 12 False"
    by (simp_all add: empty_cronexpr_def)
  have "P (make_cron cron_standard_traits expr)"
    unfolding make_cron_def Let_def std empty
    by (simp only: err if_True if_False split: if_split)
      (intro impI conjI err step [OF fields(1)] step [OF fields(2)] step [OF fields(3)] step [OF fields(4)] step [OF fields(5)];
       simp add: P_def cron_wf_def)
  then show ?thesis by (simp only: P_def bad_cron_def)
qed

end
