(* ===== verification/CronFields.thy ===== *)
theory CronFields
  imports CronParse
begin

text \<open>
  What a field of a cron expression denotes: the bits the parser sets are the values of the listed
  entries, as long as no increment is near 256; with such an increment the counter wraps.
\<close>

subsection \<open>Entries\<close>

datatype cron_entry = Every | Every_step nat | Single nat | Start_step nat nat | Span nat nat | Span_step nat nat nat

fun entry_text :: "cron_entry \<Rightarrow> string" where
  "entry_text Every = ''*''"
| "entry_text (Every_step d) = ''*/'' @ digits d"
| "entry_text (Single a) = digits a"
| "entry_text (Start_step a d) = digits a @ ''/'' @ digits d"
| "entry_text (Span a b) = digits a @ ''-'' @ digits b"
| "entry_text (Span_step a b d) = digits a @ ''-'' @ digits b @ ''/'' @ digits d"

text \<open>Each entry is a progression: its start, its end and its increment.\<close>

fun entry_steps :: "nat \<Rightarrow> nat \<Rightarrow> cron_entry \<Rightarrow> nat \<times> nat \<times> nat" where
  "entry_steps minval maxval Every = (minval, maxval, 1)"
| "entry_steps minval maxval (Every_step d) = (minval, maxval, d)"
| "entry_steps minval maxval (Single a) = (a, a, 1)"
| "entry_steps minval maxval (Start_step a d) = (a, maxval, d)"
| "entry_steps minval maxval (Span a b) = (a, b, 1)"
| "entry_steps minval maxval (Span_step a b d) = (a, b, d)"

definition entry_valid :: "nat \<Rightarrow> nat \<Rightarrow> cron_entry \<Rightarrow> bool" where
  "entry_valid minval maxval e = (case entry_steps minval maxval e of (a, b, d) \<Rightarrow>
     minval \<le> a \<and> a \<le> b \<and> b \<le> maxval \<and> 0 < d \<and> d + (maxval - minval) < 256)"

definition entry_has :: "nat \<Rightarrow> nat \<Rightarrow> cron_entry \<Rightarrow> nat \<Rightarrow> bool" where
  "entry_has minval maxval e v = (case entry_steps minval maxval e of (a, b, d) \<Rightarrow> a \<le> v \<and> v \<le> b \<and> d dvd v - a)"

subsection \<open>Reading the text of an entry\<close>

lemma isdigit_no [simp]: "\<not> isdigit CHR ''-''" "\<not> isdigit CHR ''/''" "\<not> isdigit CHR '',''" "\<not> isdigit CHR ''*''"
  by (simp_all add: isdigit_def byte_def)

lemma digits_no [simp]:
  "CHR ''-'' \<notin> set (digits n)" "CHR ''/'' \<notin> set (digits n)" "CHR '','' \<notin> set (digits n)" "CHR ''*'' \<notin> set (digits n)"
  using digits_isdigit [of _ n] isdigit_no by blast+

lemma digits_not_star [simp]: "digits n \<noteq> ''*''"
proof
  assume "digits n = ''*''"
  then have "CHR ''*'' \<in> set (digits n)" by simp
  then show False by simp
qed

lemma isdigit_byte: "isdigit c \<Longrightarrow> byte c \<noteq> 0"
  by (auto simp: isdigit_def byte_def)

lemma c_str_id: "\<forall>c\<in>set s. byte c \<noteq> 0 \<Longrightarrow> c_str s = s"
  by (simp add: c_str_def takeWhile_eq_all_conv)

lemma c_str_digits [simp]: "c_str (digits n) = digits n"
  using digits_isdigit [of _ n] isdigit_byte by (blast intro: c_str_id)

lemma to_cron_int_digits [simp]: "n < 256 \<Longrightarrow> to_cron_int (digits n) = Inr n"
  by (simp add: to_cron_int_def stoul_def strto_digits)

lemma entry_text_bytes: "c \<in> set (entry_text e) \<Longrightarrow> byte c \<noteq> 0"
  using digits_isdigit isdigit_byte by (cases e) (auto simp: byte_def)

lemma entry_text_no_comma [simp]: "CHR '','' \<notin> set (entry_text e)"
  by (cases e) simp_all

lemma entry_text_nonempty [simp]: "entry_text e \<noteq> []"
  by (cases e) simp_all

lemma getlines_last: "s \<noteq> [] \<Longrightarrow> c \<notin> set s \<Longrightarrow> getlines c s = [s]"
proof -
  assume s: "s \<noteq> []" "c \<notin> set s"
  then have "takeWhile (\<lambda>x. x \<noteq> c) s = s" "dropWhile (\<lambda>x. x \<noteq> c) s = []"
    by (auto simp: takeWhile_eq_all_conv dropWhile_eq_Nil_conv)
  then show ?thesis using s getlines.simps [of c s] getlines.simps [of c "[]"] by (simp only:) simp
qed

lemma getlines_more: "c \<notin> set s \<Longrightarrow> getlines c (s @ c # r) = s # getlines c r"
  by (subst getlines.simps) (auto simp: takeWhile_append dropWhile_append)

lemma cron_split_two:
  assumes "\<forall>x\<in>set s. byte x \<noteq> 0" "byte c \<noteq> 0" "c \<notin> set s" "c \<notin> set (digits n)"
  shows "cron_split (s @ c # digits n) c = [s, digits n]"
proof -
  have "c_str (s @ c # digits n) = s @ c # digits n"
    using assms digits_isdigit [of _ n] isdigit_byte by (intro c_str_id) auto
  then show ?thesis using assms by (simp add: cron_split_def getlines_more getlines_last)
qed

lemma make_range_entry:
  "minval \<le> maxval \<Longrightarrow> make_range ''*'' minval maxval = Inr (minval, maxval)"
  "minval \<le> a \<Longrightarrow> a \<le> maxval \<Longrightarrow> maxval < 256 \<Longrightarrow> make_range (digits a) minval maxval = Inr (a, a)"
  "minval \<le> a \<Longrightarrow> a \<le> b \<Longrightarrow> b \<le> maxval \<Longrightarrow> maxval < 256 \<Longrightarrow>
     make_range (digits a @ CHR ''-'' # digits b) minval maxval = Inr (a, b)"
proof -
  show "minval \<le> maxval \<Longrightarrow> make_range ''*'' minval maxval = Inr (minval, maxval)"
    by (simp add: make_range_def range_bounds_def bind_def)
  show "minval \<le> a \<Longrightarrow> a \<le> maxval \<Longrightarrow> maxval < 256 \<Longrightarrow> make_range (digits a) minval maxval = Inr (a, a)"
    by (simp add: make_range_def range_bounds_def bind_def)
  have "cron_split (digits a @ CHR ''-'' # digits b) CHR ''-'' = [digits a, digits b]"
    using digits_isdigit [of _ a] isdigit_byte by (intro cron_split_two) (auto simp: byte_def)
  moreover have "digits a @ CHR ''-'' # digits b \<noteq> ''*''" by (cases "digits a") auto
  ultimately show "minval \<le> a \<Longrightarrow> a \<le> b \<Longrightarrow> b \<le> maxval \<Longrightarrow> maxval < 256 \<Longrightarrow>
     make_range (digits a @ CHR ''-'' # digits b) minval maxval = Inr (a, b)"
    by (simp add: make_range_def range_bounds_def bind_def)
qed

lemma set_entry_plain:
  "CHR ''/'' \<notin> set s \<Longrightarrow> make_range s minval maxval = Inr (a, b) \<Longrightarrow>
     set_entry minval maxval s bs = set_steps (b - minval) 1 (a - minval) bs"
  by (simp add: set_entry_def)

lemma set_entry_stepped:
  assumes "CHR ''/'' \<notin> set s" "\<forall>c\<in>set s. byte c \<noteq> 0" "make_range s minval maxval = Inr (a, b)" "0 < d" "d < 256"
  shows "set_entry minval maxval (s @ CHR ''/'' # digits d) bs =
     set_steps ((if CHR ''-'' \<in> set s then b else maxval) - minval) d (a - minval) bs"
proof -
  have "cron_split (s @ CHR ''/'' # digits d) CHR ''/'' = [s, digits d]"
    using assms by (intro cron_split_two) (auto simp: byte_def)
  then show ?thesis using assms(3-5) by (simp add: set_entry_def)
qed

lemma set_entry_steps:
  assumes "entry_valid minval maxval e" "maxval < 256" "entry_steps minval maxval e = (a, b, d)"
  shows "set_entry minval maxval (entry_text e) bs = set_steps (b - minval) d (a - minval) bs"
proof -
  have bytes: "\<forall>c\<in>set (digits n). byte c \<noteq> 0" for n using digits_isdigit [of _ n] isdigit_byte by blast
  then have bytes2: "\<forall>c\<in>set (digits m @ CHR ''-'' # digits n). byte c \<noteq> 0" for m n by (auto simp: byte_def)
  show ?thesis
    using assms bytes bytes2 set_entry_stepped [of "''*''" minval maxval minval maxval d bs]
    by (cases e) (auto simp: entry_valid_def byte_def make_range_entry set_entry_plain set_entry_stepped
      set_entry_stepped [where s = "digits _ @ CHR ''-'' # digits _", simplified])
qed

lemma set_entry_text:
  assumes "entry_valid minval maxval e" "maxval < 256" "length bs = n" "maxval + 1 = minval + n"
  shows "set_entry minval maxval (entry_text e) bs =
     Some (Inr (map (\<lambda>j. bs ! j \<or> entry_has minval maxval e (minval + j)) [0..<n]))"
proof -
  obtain a b d where e: "entry_steps minval maxval e = (a, b, d)" by (metis prod_cases3)
  then have v: "minval \<le> a" "a \<le> b" "b \<le> maxval" "0 < d" "d + (maxval - minval) < 256"
    using assms(1) by (simp_all only: entry_valid_def e prod.case)
  have "set_steps (b - minval) d (a - minval) bs =
      Some (Inr (map (\<lambda>j. bs ! j \<or> a - minval \<le> j \<and> j \<le> b - minval \<and> d dvd j - (a - minval)) [0..<length bs]))"
    using v assms(3,4) by (intro set_steps_progression) auto
  moreover have "(a - minval \<le> j \<and> j \<le> b - minval \<and> d dvd j - (a - minval)) \<longleftrightarrow> entry_has minval maxval e (minval + j)" for j
  proof -
    have "minval + j - a = j - (a - minval)" using v(1) by simp
    then show ?thesis using v(1,2) by (auto simp: entry_has_def e)
  qed
  ultimately show ?thesis using set_entry_steps [OF assms(1,2) e] assms(3) by simp
qed

lemma set_entries_text:
  assumes "maxval < 256" "maxval + 1 = minval + n"
  shows "length bs = n \<Longrightarrow> \<forall>e\<in>set es. entry_valid minval maxval e \<Longrightarrow>
     set_entries minval maxval (map entry_text es) bs =
       Some (Inr (map (\<lambda>j. bs ! j \<or> (\<exists>e\<in>set es. entry_has minval maxval e (minval + j))) [0..<n]))"
proof (induction es arbitrary: bs)
  case Nil
  have "map (\<lambda>j. bs ! j) [0..<length bs] = bs" by (simp add: map_nth)
  then show ?case using Nil by simp
next
  case (Cons e es)
  let ?bs = "map (\<lambda>j. bs ! j \<or> entry_has minval maxval e (minval + j)) [0..<n]"
  have "set_entry minval maxval (entry_text e) bs = Some (Inr ?bs)"
    using Cons.prems assms by (intro set_entry_text) simp_all
  moreover have "set_entries minval maxval (map entry_text es) ?bs =
      Some (Inr (map (\<lambda>j. ?bs ! j \<or> (\<exists>e\<in>set es. entry_has minval maxval e (minval + j))) [0..<n]))"
    using Cons.prems by (intro Cons.IH) simp_all
  moreover have "map (\<lambda>j. ?bs ! j \<or> (\<exists>e\<in>set es. entry_has minval maxval e (minval + j))) [0..<n] =
      map (\<lambda>j. bs ! j \<or> (\<exists>e\<in>set (e # es). entry_has minval maxval e (minval + j))) [0..<n]"
    by (intro map_cong) auto
  ultimately show ?case by simp
qed

lemma cron_split_entries:
  assumes "es \<noteq> []"
  shows "cron_split (intersperse '','' (map entry_text es)) CHR '','' = map entry_text es"
proof -
  have "getlines CHR '','' (intersperse '','' (map entry_text es)) = map entry_text es"
    using assms
  proof (induction es rule: induct_list012)
    case (3 x y zs)
    then show ?case using getlines_more [OF entry_text_no_comma [of x]] by simp
  qed (simp_all add: getlines_last)
  moreover have "byte CHR '','' \<noteq> 0" by (simp add: byte_def)
  then have "\<forall>c\<in>set (intersperse '','' (map entry_text es)). byte c \<noteq> 0"
  proof (induction es rule: induct_list012)
    case (2 x)
    then show ?case using entry_text_bytes [of _ x] by auto
  next
    case (3 x y zs)
    then show ?case using entry_text_bytes [of _ x] by auto
  qed simp
  ultimately show ?thesis by (simp add: cron_split_def c_str_id)
qed

lemma entries_end:
  assumes "es \<noteq> []"
  shows "last (intersperse '','' (map entry_text es)) \<noteq> CHR '',''"
proof -
  have "intersperse '','' (map entry_text es) \<noteq> [] \<and> last (intersperse '','' (map entry_text es)) = last (entry_text (last es))"
    using assms by (induction es rule: induct_list012) simp_all
  moreover have "last (entry_text (last es)) \<in> set (entry_text (last es))" by simp
  ultimately show ?thesis using entry_text_no_comma [of "last es"] by metis
qed

text \<open>C34: a field written as a comma-separated list of entries (every value, a value, a range, each with or
  without an increment) parses to exactly the bits of the values the entries denote, when every increment
  added to the width of the field stays below 256.\<close>

theorem cron_field_denotes:
  assumes "es \<noteq> []" "minval \<le> maxval" "maxval < 256" "\<forall>e\<in>set es. entry_valid minval maxval e"
  shows "set_cron_field (intersperse '','' (map entry_text es)) (replicate (maxval - minval + 1) False) minval maxval =
     Some (Inr (map (\<lambda>j. \<exists>e\<in>set es. entry_has minval maxval e (minval + j)) [0..<maxval - minval + 1]))"
proof -
  have "set_entries minval maxval (map entry_text es) (replicate (maxval - minval + 1) False) =
      Some (Inr (map (\<lambda>j. \<exists>e\<in>set es. entry_has minval maxval e (minval + j)) [0..<maxval - minval + 1]))"
    using set_entries_text [OF assms(3) _ _ assms(4), of "maxval - minval + 1" "replicate (maxval - minval + 1) False"] assms(2)
    by (simp cong: map_cong del: upt_Suc replicate_Suc)
  then show ?thesis using assms(1) entries_end by (simp add: set_cron_field_def cron_split_entries)
qed

lemma cron_field_denotes_witness:
  "set_cron_field ''5,10-20,30/7'' (replicate 60 False) 0 59 =
     Some (Inr (map (\<lambda>j. \<exists>e\<in>{Single 5, Span 10 20, Start_step 30 7}. entry_has 0 59 e j) [0..<60]))"
proof -
  let ?es = "[Single 5, Span 10 20, Start_step 30 7]"
  have "intersperse '','' (map entry_text ?es) = ''5,10-20,30/7''" by code_simp
  moreover have "\<forall>e\<in>set ?es. entry_valid 0 59 e" by (simp add: entry_valid_def)
  ultimately show ?thesis using cron_field_denotes [of ?es 0 59] by (simp del: upt_Suc upt_rec_numeral replicate_Suc)
qed

text \<open>An increment of 255 counts downwards: the counter wraps.\<close>

lemma set_steps_down:
  "i \<le> hi \<Longrightarrow> hi < 255 \<Longrightarrow> hi < length bs \<Longrightarrow>
     set_steps hi 255 i bs = Some (Inr (map (\<lambda>j. bs ! j \<or> j \<le> i) [0..<length bs]))"
proof (induction i arbitrary: bs)
  case 0
  have "bs[0 := True] = map (\<lambda>j. bs ! j \<or> j \<le> 0) [0..<length bs]"
  proof (rule nth_equalityI)
    fix j assume "j < length (bs[0 := True])"
    then show "bs[0 := True] ! j = map (\<lambda>j. bs ! j \<or> j \<le> 0) [0..<length bs] ! j" by (cases j) simp_all
  qed simp
  moreover have "0 < length bs" using 0 by linarith
  ultimately show ?case using 0 set_steps_rec [of 0 hi bs 255] by (simp add: set_steps_stop)
next
  case (Suc i)
  have m: "(Suc i + 255) mod 256 = i" using Suc.prems by simp
  have "map (\<lambda>j. bs[Suc i := True] ! j \<or> j \<le> i) [0..<length bs] = map (\<lambda>j. bs ! j \<or> j \<le> Suc i) [0..<length bs]"
    using Suc.prems by (intro map_cong) (auto simp: nth_list_update le_Suc_eq)
  then show ?case using Suc m set_steps_rec [of "Suc i" hi bs 255] by simp
qed

text \<open>The counter of an increment is 8 bits wide: \<open>a/255\<close> in the seconds or the minutes sets every value
  from 0 to \<open>a\<close> instead of \<open>a\<close> alone.\<close>

theorem cron_step_wraps:
  assumes "a \<le> 59"
  shows "set_cron_field (digits a @ ''/255'') (replicate 60 False) 0 59 = Some (Inr (map (\<lambda>j. j \<le> a) [0..<60]))"
proof -
  have d: "''255'' = digits 255" by code_simp
  have "\<forall>c\<in>set (digits a). byte c \<noteq> 0" using digits_isdigit [of _ a] isdigit_byte by blast
  then have "set_entry 0 59 (digits a @ CHR ''/'' # digits 255) (replicate 60 False) = set_steps 59 255 a (replicate 60 False)"
    using assms by (simp add: set_entry_stepped make_range_entry)
  also have "\<dots> = Some (Inr (map (\<lambda>j. j \<le> a) [0..<60]))"
    using set_steps_down [OF assms, of "replicate 60 False"] by (simp cong: map_cong)
  finally have e: "set_entry 0 59 (digits a @ ''/255'') (replicate 60 False) = Some (Inr (map (\<lambda>j. j \<le> a) [0..<60]))"
    by (simp add: d)
  have "c_str (digits a @ ''/255'') = digits a @ ''/255''"
    using digits_isdigit [of _ a] isdigit_byte by (intro c_str_id) (auto simp: byte_def)
  then have "cron_split (digits a @ ''/255'') CHR '','' = [digits a @ ''/255'']"
    by (simp add: cron_split_def getlines_last)
  then show ?thesis using e by (simp add: set_cron_field_def)
qed

lemma cron_step_wraps_witness:
  "set_cron_field ''5/255'' (replicate 60 False) 0 59 = Some (Inr (map (\<lambda>j. j \<le> 5) [0..<60]))"
proof -
  have "digits 5 = ''5''" by code_simp
  then show ?thesis using cron_step_wraps [of 5] by (simp del: upt_Suc upt_rec_numeral)
qed

end
