(* ===== verification/CronSearch.thy ===== *)
theory CronSearch
  imports CronNext
begin

text \<open>
  The main induction over \<open>find_next\<close>: for an expression that leaves the days of the week or the days
  of the month open, the search ends, moves forward only, and ends at an instant the expression
  matches or more than four years later. It skips no matching instant with the last of the seconds
  the expression has, unless a month is shorter than the day it leaves.
\<close>

subsection \<open>The body of the search, stage by stage\<close>

definition month_part :: "make_time \<Rightarrow> cron_traits \<Rightarrow> cronexpr \<Rightarrow> int \<Rightarrow> cron_field set \<Rightarrow> tm \<Rightarrow> (tm \<times> bool) run" where
  "month_part mk tr cex dot marked date =
     (let month = to_unsigned (tm_mon date) in
      run_bind (Some (next_field mk (cx_months cex) date month Month Year marked)) (\<lambda>(date, updated_month).
      if updated_month = Some month then Some (Inr (date, True))
      else if too_far tr date dot then Some (Inr (date, False))
      else find_next mk tr cex dot date))"

definition day_part :: "make_time \<Rightarrow> cron_traits \<Rightarrow> cronexpr \<Rightarrow> int \<Rightarrow> cron_field set \<Rightarrow> tm \<Rightarrow> (tm \<times> bool) run" where
  "day_part mk tr cex dot marked date =
     (let day_of_month = tm_mday date in
      run_bind (Some (find_next_day mk tr cex marked 366 day_of_month (tm_wday date) date)) (\<lambda>(date, updated_day_of_month).
      run_bind (if updated_day_of_month = day_of_month then Some (Inr (date, True)) else find_next mk tr cex dot date) (\<lambda>(date, res).
      if \<not> res then Some (Inr (date, False)) else
      month_part mk tr cex dot (mark (updated_day_of_month = day_of_month) DayOfMonth marked) date)))"

definition hour_part :: "make_time \<Rightarrow> cron_traits \<Rightarrow> cronexpr \<Rightarrow> int \<Rightarrow> cron_field set \<Rightarrow> tm \<Rightarrow> (tm \<times> bool) run" where
  "hour_part mk tr cex dot marked date =
     (let hour = to_unsigned (tm_hour date) in
      run_bind (Some (next_field mk (cx_hours cex) date hour HourOfDay DayOfWeek marked)) (\<lambda>(date, updated_hour).
      run_bind (if updated_hour = Some hour then Some (Inr (date, True)) else find_next mk tr cex dot date) (\<lambda>(date, res).
      if \<not> res then Some (Inr (date, False)) else
      day_part mk tr cex dot (mark (updated_hour = Some hour) HourOfDay marked) date)))"

definition minute_part :: "make_time \<Rightarrow> cron_traits \<Rightarrow> cronexpr \<Rightarrow> int \<Rightarrow> cron_field set \<Rightarrow> tm \<Rightarrow> (tm \<times> bool) run" where
  "minute_part mk tr cex dot marked date =
     (let minute = to_unsigned (tm_min date) in
      run_bind (Some (next_field mk (cx_minutes cex) date minute Minute HourOfDay marked)) (\<lambda>(date, updated_minute).
      run_bind (if updated_minute = Some minute then Some (Inr (date, True)) else find_next mk tr cex dot date) (\<lambda>(date, res).
      if \<not> res then Some (Inr (date, False)) else
      hour_part mk tr cex dot (mark (updated_minute = Some minute) Minute marked) date)))"

lemma find_next_parts:
  "find_next mk tr cex dot date =
     (let second = to_unsigned (tm_sec date) in
      run_bind (Some (next_field mk (cx_seconds cex) date second Second Minute {})) (\<lambda>(date, updated_second).
      minute_part mk tr cex dot (mark (updated_second = Some second) Second {}) date))"
  by (subst find_next.simps) (simp only: Let_def minute_part_def hour_part_def day_part_def month_part_def)

subsection \<open>Matching instants\<close>

definition cron_matches :: "cronexpr \<Rightarrow> tm \<Rightarrow> bool" where
  "cron_matches cex d \<longleftrightarrow>
     cx_seconds cex ! nat (tm_sec d) \<and> cx_minutes cex ! nat (tm_min d) \<and> cx_hours cex ! nat (tm_hour d) \<and>
     cx_days_of_month cex ! nat (tm_mday d - 1) \<and> cx_days_of_week cex ! nat (tm_wday d) \<and> cx_months cex ! nat (tm_mon d)"

lemma cron_matches_instant:
  assumes "clock_ok h m s"
  shows "cron_matches cex (localtime off (instant off z h m s)) \<longleftrightarrow>
     cx_seconds cex ! nat s \<and> cx_minutes cex ! nat m \<and> cx_hours cex ! nat h \<and> day_ok cex z \<and>
     cx_months cex ! nat (month_no z mod 12)"
proof -
  have "m mod 60 = m" "h mod 24 = h" using assms by (simp_all add: clock_ok_def)
  then show ?thesis using assms by (auto simp: cron_matches_def day_ok_def)
qed

text \<open>The days are found in time when one of the two fields for days is open.\<close>

definition days_open :: "cronexpr \<Rightarrow> bool" where
  "days_open cex \<longleftrightarrow> list_all id (cx_days_of_week cex) \<or> list_all id (cx_days_of_month cex)"

lemma all_bits: "list_all id bs \<Longrightarrow> 0 \<le> i \<Longrightarrow> i < int (length bs) \<Longrightarrow> bs ! nat i"
  by (simp add: list_all_length nat_less_iff)

lemma next_day_near:
  assumes "cron_wf cex" "days_open cex"
  obtains j where "j \<le> 92" "day_ok cex (z + int j)" "\<forall>i<j. \<not> day_ok cex (z + int i)"
    "j > 0 \<Longrightarrow> z + int j - month_begin (month_no (z + int j)) \<noteq> z - month_begin (month_no z)"
proof -
  note wf = assms(1) [unfolded cron_wf_def]
  have wd: "0 \<le> (x + 4) mod 7" "(x + 4) mod 7 < 7" for x :: int by simp_all
  have ex: "\<exists>j. j \<le> 92 \<and> day_ok cex (z + int j) \<and> (list_all id (cx_days_of_week cex) \<or> j \<le> 6)"
  proof (cases "list_all id (cx_days_of_week cex)")
    case True
    obtain i where i: "i < 31" "cx_days_of_month cex ! i" using wf by (auto simp: in_set_conv_nth)
    have dow: "cx_days_of_week cex ! nat ((x + 4) mod 7)" for x
      using all_bits [OF True, of "(x + 4) mod 7"] wd [of x] wf by simp
    define n where "n = month_no z"
    obtain k where k: "k \<in> {n + 1, n + 2}" "month_begin (k + 1) - month_begin k = 31"
    proof -
      consider "month_begin (n + 2) - month_begin (n + 1) = 31" | "month_begin (n + 3) - month_begin (n + 2) = 31"
        using month_31_near [of "n + 1"] by (auto simp: add.assoc)
      then show thesis by cases (use that [of "n + 1"] that [of "n + 2"] in \<open>simp_all add: add.assoc\<close>)
    qed
    define y where "y = month_begin k + int i"
    have my: "month_no y = k" unfolding y_def using k(2) i(1) by (intro month_noI) auto
    have "z < month_begin (n + 1)" "month_begin n \<le> z" unfolding n_def using month_no [of z] by simp_all
    moreover have "month_begin (n + 2) \<le> month_begin (n + 1) + 31" "month_begin (n + 1) \<le> month_begin n + 31"
      "month_begin (n + 1) + 28 \<le> month_begin (n + 2)"
      using month_begin_step(2) [of n] month_begin_step [of "n + 1"] by (simp_all add: add.assoc)
    ultimately have "z < y" "y \<le> z + 92" using k(1) i(1) unfolding y_def by auto
    then have "day_ok cex (z + int (nat (y - z)))" "nat (y - z) \<le> 92"
      using dow [of y] i(2) my by (simp_all add: day_ok_def y_def)
    then show ?thesis using True by blast
  next
    case False
    then have doms: "list_all id (cx_days_of_month cex)" using assms(2) by (simp add: days_open_def)
    obtain w where w: "w < 7" "cx_days_of_week cex ! w" using wf by (auto simp: in_set_conv_nth)
    define j where "j = nat ((int w - (z + 4)) mod 7)"
    have j: "int j = (int w - (z + 4)) mod 7" "j \<le> 6"
      unfolding j_def using pos_mod_sign [of 7 "int w - (z + 4)"] pos_mod_bound [of 7 "int w - (z + 4)"] by linarith+
    have "(z + int j + 4) mod 7 = int w"
    proof -
      have e: "z + int j + 4 = z + 4 + (int w - (z + 4)) mod 7" unfolding j(1) by simp
      show ?thesis unfolding e mod_add_right_eq using w(1) by simp
    qed
    then have "day_ok cex (z + int j)"
      using w(2) all_bits [OF doms, of "z + int j - month_begin (month_no (z + int j))"] day_in_month [of "z + int j"] wf
      by (simp add: day_ok_def)
    then show ?thesis using j(2) by (intro exI [of _ j]) simp
  qed
  define j where "j = (LEAST j. day_ok cex (z + int j))"
  obtain l where l: "l \<le> 92" "day_ok cex (z + int l)" "list_all id (cx_days_of_week cex) \<or> l \<le> 6" using ex by blast
  have jl: "day_ok cex (z + int j)" "j \<le> l" unfolding j_def using l(2) by (rule LeastI, rule Least_le)
  have first: "\<forall>i<j. \<not> day_ok cex (z + int i)" unfolding j_def using not_less_Least by blast
  have "z + int j - month_begin (month_no (z + int j)) \<noteq> z - month_begin (month_no z)" if "j > 0"
  proof (cases "list_all id (cx_days_of_week cex)")
    case True
    have "\<not> day_ok cex z" using first [rule_format, of 0] that by simp
    then have "\<not> cx_days_of_month cex ! nat (z - month_begin (month_no z))"
      using all_bits [OF True, of "(z + 4) mod 7"] wf by (simp add: day_ok_def)
    then show ?thesis using jl(1) unfolding day_ok_def by metis
  next
    case False
    then have "j \<le> 6" using l(3) jl(2) by simp
    define n where "n = month_no z"
    have n: "month_begin n \<le> z" "z < month_begin (n + 1)" "month_begin n + 28 \<le> month_begin (n + 1)"
      "month_begin (n + 1) + 28 \<le> month_begin (n + 2)"
      unfolding n_def using month_no [of z] month_begin_step(1) [of "month_no z"] month_begin_step(1) [of "month_no z + 1"]
      by (simp_all add: add.assoc)
    have "month_no (z + int j) \<in> {n, n + 1}"
      using month_noI [of n "z + int j"] month_noI [of "n + 1" "z + int j"] n \<open>j \<le> 6\<close>
      by (cases "z + int j < month_begin (n + 1)") (auto simp: add.assoc)
    then show ?thesis using n \<open>j \<le> 6\<close> that unfolding n_def [symmetric] by auto
  qed
  then show thesis using that [of j] jl l(1) first by simp
qed

subsection \<open>What a search may return\<close>

definition last_second :: "cronexpr \<Rightarrow> int \<Rightarrow> bool" where
  "last_second cex \<sigma> \<longleftrightarrow> 0 \<le> \<sigma> \<and> \<sigma> < 60 \<and> cx_seconds cex ! nat \<sigma> \<and> (\<forall>s. 0 \<le> s \<and> s < 60 \<and> cx_seconds cex ! nat s \<longrightarrow> s \<le> \<sigma>)"

text \<open>No month is shorter than a day the search leaves it from.\<close>

definition months_safe :: "cronexpr \<Rightarrow> bool" where
  "months_safe cex \<longleftrightarrow> list_all id (cx_months cex) \<or> list_all Not (drop 28 (cx_days_of_month cex))"

definition search_ok :: "int \<Rightarrow> cronexpr \<Rightarrow> int \<Rightarrow> int \<Rightarrow> int \<Rightarrow> (tm \<times> bool) run \<Rightarrow> bool" where
  "search_ok off cex dot \<sigma> t r \<longleftrightarrow> (\<exists>t' res. r = Some (Inr (localtime off t', res)) \<and> t \<le> t' \<and>
     (if res then cron_matches cex (localtime off t') else tm_year (localtime off t') > dot + 4) \<and>
     (months_safe cex \<longrightarrow> (\<forall>n. t \<le> n \<and> n < t' \<and> (n + off) mod 60 = \<sigma> \<longrightarrow> \<not> cron_matches cex (localtime off n))))"

lemma search_ok_found:
  "cron_matches cex (localtime off t) \<Longrightarrow> search_ok off cex dot \<sigma> t (Some (Inr (localtime off t, True)))"
  unfolding search_ok_def by (intro exI [of _ t] exI [of _ True]) auto

lemma search_ok_from:
  assumes "search_ok off cex dot \<sigma> t' r" "t \<le> t'"
    and "months_safe cex \<Longrightarrow> \<forall>n. t \<le> n \<and> n < t' \<and> (n + off) mod 60 = \<sigma> \<longrightarrow> \<not> cron_matches cex (localtime off n)"
  shows "search_ok off cex dot \<sigma> t r"
proof -
  obtain u res where u: "r = Some (Inr (localtime off u, res))" "t' \<le> u"
    "if res then cron_matches cex (localtime off u) else tm_year (localtime off u) > dot + 4"
    "months_safe cex \<longrightarrow> (\<forall>n. t' \<le> n \<and> n < u \<and> (n + off) mod 60 = \<sigma> \<longrightarrow> \<not> cron_matches cex (localtime off n))"
    using assms(1) unfolding search_ok_def by blast
  have "months_safe cex \<longrightarrow> (\<forall>n. t \<le> n \<and> n < u \<and> (n + off) mod 60 = \<sigma> \<longrightarrow> \<not> cron_matches cex (localtime off n))"
  proof (intro impI allI)
    fix n assume "months_safe cex" "t \<le> n \<and> n < u \<and> (n + off) mod 60 = \<sigma>"
    then show "\<not> cron_matches cex (localtime off n)" using assms(3) u(4) by (cases "n < t'") auto
  qed
  then show ?thesis unfolding search_ok_def using u assms(2) by (intro exI [of _ u] exI [of _ res]) auto
qed

text \<open>The rest of the body changes nothing at an instant that matches.\<close>

lemma search_ok_continue:
  assumes "search_ok off cex dot \<sigma> t r"
    and "\<And>t'. cron_matches cex (localtime off t') \<Longrightarrow> k (localtime off t') = Some (Inr (localtime off t', True))"
  shows "search_ok off cex dot \<sigma> t (run_bind r (\<lambda>(date, res). if \<not> res then Some (Inr (date, False)) else k date))"
proof -
  obtain u res where u: "r = Some (Inr (localtime off u, res))" "if res then cron_matches cex (localtime off u) else True"
    using assms(1) unfolding search_ok_def by (auto split: if_splits)
  then have "run_bind r (\<lambda>(date, res). if \<not> res then Some (Inr (date, False)) else k date) = r"
    using assms(2) [of u] by (cases res) simp_all
  then show ?thesis using assms(1) by simp
qed

lemma to_unsigned_field:
  "to_unsigned ((t + off) mod 60) = nat ((t + off) mod 60)"
  "to_unsigned ((t + off) div 60 mod 60) = nat ((t + off) div 60 mod 60)"
  "to_unsigned ((t + off) div 3600 mod 24) = nat ((t + off) div 3600 mod 24)"
  "to_unsigned (n mod 12) = nat (n mod 12)"
  using pos_mod_sign [of 60 "t + off"] pos_mod_bound [of 60 "t + off"] pos_mod_sign [of 60 "(t + off) div 60"]
    pos_mod_bound [of 60 "(t + off) div 60"] pos_mod_sign [of 24 "(t + off) div 3600"] pos_mod_bound [of 24 "(t + off) div 3600"]
    pos_mod_sign [of 12 n] pos_mod_bound [of 12 n]
  by (simp_all add: to_unsigned_small)

lemma nat_mod_less: "m > 0 \<Longrightarrow> nat (i mod int m) < m"
  by (simp add: nat_less_iff)

lemma month_part_matched:
  assumes "cron_wf cex" "cron_matches cex (localtime off t)"
  shows "month_part mk tr cex dot M (localtime off t) = Some (Inr (localtime off t, True))"
proof -
  have "nat (month_no (day_no off t) mod 12) < length (cx_months cex)"
    using nat_mod_less [of 12 "month_no (day_no off t)"] assms(1) by (simp add: cron_wf_def)
  moreover have "cx_months cex ! nat (month_no (day_no off t) mod 12)" using assms(2) by (simp add: cron_matches_def)
  ultimately show ?thesis by (simp add: month_part_def to_unsigned_field next_field_hit)
qed

lemma day_part_matched:
  assumes "cron_wf cex" "cron_matches cex (localtime off t)"
  shows "day_part mk std cex dot M (localtime off t) = Some (Inr (localtime off t, True))"
proof -
  have "day_ok cex (day_no off t)" using assms(2) by (simp add: cron_matches_def day_ok_def)
  then have "find_next_day mk std cex M 366 (tm_mday (localtime off t)) (tm_wday (localtime off t)) (localtime off t)
      = Inr (localtime off t, tm_mday (localtime off t))"
    using day_matches_std [OF assms(1), of "day_no off t"] by (simp add: find_next_day.simps [of mk])
  then show ?thesis by (simp add: day_part_def Let_def month_part_matched [OF assms] del: local_simps)
qed

lemma hour_part_matched:
  assumes "cron_wf cex" "cron_matches cex (localtime off t)"
  shows "hour_part mk std cex dot M (localtime off t) = Some (Inr (localtime off t, True))"
proof -
  have "nat ((t + off) div 3600 mod 24) < length (cx_hours cex)"
    using nat_mod_less [of 24 "(t + off) div 3600"] assms(1) by (simp add: cron_wf_def)
  moreover have "cx_hours cex ! nat ((t + off) div 3600 mod 24)" using assms(2) by (simp add: cron_matches_def)
  ultimately show ?thesis
    by (simp add: hour_part_def to_unsigned_field next_field_hit Let_def day_part_matched [OF assms])
qed

subsection \<open>One round of the search\<close>

definition month_at :: "int \<Rightarrow> int \<Rightarrow> int" where "month_at off t = month_no (day_no off t)"

text \<open>An instant all but the months of the expression match: no stage before the months goes past it.\<close>

definition matches_but_month :: "int \<Rightarrow> cronexpr \<Rightarrow> int \<Rightarrow> int \<Rightarrow> bool" where
  "matches_but_month off cex \<sigma> n \<longleftrightarrow> (n + off) mod 60 = \<sigma> \<and> has_bit (cx_minutes cex) ((n + off) div 60) \<and>
     has_bit (cx_hours cex) ((n + off) div 3600) \<and> day_ok cex (day_no off n)"

lemma matches_but_month:
  "cron_wf cex \<Longrightarrow> cron_matches cex (localtime off n) \<Longrightarrow> (n + off) mod 60 = \<sigma> \<Longrightarrow>
     matches_but_month off cex \<sigma> n \<and> has_bit (cx_months cex) (month_at off n)"
  by (simp add: cron_matches_def matches_but_month_def has_bit_def cron_wf_def day_ok_def month_at_def)

definition recursion_ok :: "int \<Rightarrow> cronexpr \<Rightarrow> int \<Rightarrow> int \<Rightarrow> int \<Rightarrow> int \<Rightarrow> bool" where
  "recursion_ok off cex dot \<sigma> b t \<longleftrightarrow>
     (\<forall>t'. t < t' \<and> (t' \<le> b \<or> month_at off t < month_at off t' \<and> tm_year (localtime off t') \<le> dot + 4)
        \<longrightarrow> search_ok off cex dot \<sigma> t' (find_next (zone off) std cex dot (localtime off t')))"

lemma day_no_mono: "t \<le> t' \<Longrightarrow> day_no off t \<le> day_no off t'"
  by (simp add: day_no_def zdiv_mono1)

lemma month_at_mono: "t \<le> t' \<Longrightarrow> month_at off t \<le> month_at off t'"
  by (simp add: month_at_def month_no_mono day_no_mono)

lemma recursion_ok_later: "recursion_ok off cex dot \<sigma> b t \<Longrightarrow> t \<le> t' \<Longrightarrow> recursion_ok off cex dot \<sigma> b t'"
  unfolding recursion_ok_def using month_at_mono [of t t' off] by fastforce

definition round_ok :: "int \<Rightarrow> cronexpr \<Rightarrow> int \<Rightarrow> int \<Rightarrow> int \<Rightarrow> int \<Rightarrow> bool" where
  "round_ok off cex dot \<sigma> b t \<longleftrightarrow> cron_wf cex \<and> days_open cex \<and> last_second cex \<sigma> \<and> recursion_ok off cex dot \<sigma> b t \<and>
     matches_but_month off cex \<sigma> b \<and> 0 \<le> t \<and> t \<le> b \<and> dot \<le> tm_year (localtime off t) \<and> tm_year (localtime off b) \<le> dot + 100"

lemma year_mono: "t \<le> t' \<Longrightarrow> tm_year (localtime off t) \<le> tm_year (localtime off t')"
  using month_at_mono [of t t' off] by (simp add: month_at_def zdiv_mono1)

lemma round_ok_later: "round_ok off cex dot \<sigma> b t \<Longrightarrow> t \<le> t' \<Longrightarrow> t' \<le> b \<Longrightarrow> round_ok off cex dot \<sigma> b t'"
  unfolding round_ok_def using recursion_ok_later year_mono [of t t' off] by fastforce

text \<open>A day with a second of the expression before the last one, and the instants at or after it.\<close>

lemma instant_floor:
  assumes "z \<le> day_no off n" "(n + off) mod 60 = \<sigma>" "s \<le> \<sigma>"
  shows "instant off z 0 0 s \<le> n"
proof -
  have "z * 86400 \<le> day_no off n * 86400" using assms(1) by simp
  moreover have "0 \<le> (n + off) div 3600 mod 24" "0 \<le> (n + off) div 60 mod 60" by simp_all
  ultimately show ?thesis using time_parts [of off n] assms(2,3) unfolding instant_def by linarith
qed

lemma month_part_ok:
  fixes off z h m s \<sigma> dot b :: int
  defines "t \<equiv> instant off z h m s"
  assumes ok: "round_ok off cex dot \<sigma> b t" and c: "clock_ok h m s" and s: "cx_seconds cex ! nat s" "s \<le> \<sigma>"
    and m: "cx_minutes cex ! nat m" and h: "cx_hours cex ! nat h" and d: "day_ok cex z"
    and M: "{Minute, HourOfDay, DayOfMonth} \<subseteq> M" "M \<subseteq> {Second, Minute, HourOfDay, DayOfMonth}"
  shows "search_ok off cex dot \<sigma> t (month_part (zone off) std cex dot M (localtime off t))"
proof -
  let ?mo = "cx_months cex"
  define k where "k = month_no z" define k' where "k' = cyc_next ?mo k"
  note r = ok [unfolded round_ok_def]
  have wf: "cron_wf cex" "length ?mo = 12" "True \<in> set ?mo" "0 \<le> t" "last_second cex \<sigma>" using r by (simp_all add: cron_wf_def)
  have \<sigma>: "0 \<le> \<sigma>" using wf(5) by (simp add: last_second_def)
  have kt: "month_at off t = k" unfolding t_def month_at_def k_def using c by simp
  let ?s = "if Second \<in> M then 0 else s"
  obtain t' where t': "next_field (zone off) ?mo (localtime off t) (to_unsigned (tm_mon (localtime off t))) Month Year M
       = Inr (localtime off t', Some (nat (k' mod 12)))"
     "if k' = k then t' = t
      else \<exists>y\<in>{k', k' + 1}. t' = instant off (month_begin y) 0 0 ?s \<and> (z - month_begin (month_no z) \<le> 27 \<longrightarrow> y = k') \<and>
        (k' div 12 = k div 12 \<longrightarrow> y = month_no (month_begin k' + (z - month_begin (month_no z))))"
    using month_stage [OF wf(4) [unfolded t_def] c wf(2,3) M] unfolding t_def k'_def k_def by blast
  have mon: "to_unsigned (tm_mon (localtime off t)) = nat (k mod 12)" unfolding t_def k_def using c by (simp add: to_unsigned_field)
  note cyc = cyc_next [OF wf(3), of k, folded k'_def, unfolded wf(2)]
  show ?thesis
  proof (cases "k' = k")
    case True
    then have "has_bit ?mo k" using cyc(2) by simp
    then have "cron_matches cex (localtime off t)" unfolding t_def cron_matches_instant [OF c] using s m h d wf(2)
      by (simp add: has_bit_def k_def)
    moreover have "month_part (zone off) std cex dot M (localtime off t) = Some (Inr (localtime off t, True))"
      using t' True mon by (simp add: month_part_def Let_def del: local_simps)
    ultimately show ?thesis using search_ok_found by simp
  next
    case False
    then obtain y where y: "y \<in> {k', k' + 1}" "t' = instant off (month_begin y) 0 0 ?s" "z - month_begin (month_no z) \<le> 27 \<Longrightarrow> y = k'"
      using t'(2) by auto
    have ky: "k < k'" "k' < k + 12" "k < y" "y \<le> k + 12" using cyc(1,4) False y(1) by auto
    have ne: "nat (k' mod 12) \<noteq> nat (k mod 12)"
    proof
      assume "nat (k' mod 12) = nat (k mod 12)"
      then have "k' mod 12 = k mod 12" by (simp add: eq_nat_nat_iff)
      then have "12 dvd k' - k" by (simp add: mod_eq_dvd_iff)
      then show False using ky(1,2) zdvd_not_zless [of "k' - k" 12] by simp
    qed
    have c0: "clock_ok 0 0 ?s" using c by (simp add: clock_ok_def)
    have "month_begin y < month_begin (y + 1)" using month_begin_mono [of y "y + 1"] by simp
    then have yt: "month_at off t' = y" unfolding y(2) month_at_def using c0 month_noI [of y "month_begin y"] by simp
    have "z < month_begin y" using month_no(2) [of z] month_begin_mono [of "k + 1" y] ky(3) by (cases "k + 1 = y") (auto simp: k_def)
    then have tt: "t < t'" unfolding y(2) t_def using instant_le [OF _ c c0] by simp
    have skip: "\<forall>n. t \<le> n \<and> n < t' \<and> (n + off) mod 60 = \<sigma> \<longrightarrow> \<not> cron_matches cex (localtime off n)" if safe: "months_safe cex"
    proof (intro allI impI notI)
      fix n assume n: "t \<le> n \<and> n < t' \<and> (n + off) mod 60 = \<sigma>" "cron_matches cex (localtime off n)"
      have "\<not> list_all id ?mo"
        using all_bits [of ?mo "k mod 12"] cyc(5) False wf(2) by (auto simp: has_bit_def)
      then have "list_all Not (drop 28 (cx_days_of_month cex))" using safe by (simp add: months_safe_def)
      then have short: "\<not> cx_days_of_month cex ! i" if "28 \<le> i" "i < 31" for i
        using that wf(1) by (auto simp: list_all_length cron_wf_def dest!: spec [of _ "i - 28"])
      have "z - month_begin (month_no z) \<le> 27"
      proof (rule ccontr)
        assume "\<not> z - month_begin (month_no z) \<le> 27"
        then have "28 \<le> nat (z - month_begin (month_no z))" "nat (z - month_begin (month_no z)) < 31"
          using day_in_month [of z] by auto
        then show False using short d unfolding day_ok_def by blast
      qed
      then have yk: "y = k'" by (rule y(3))
      have q: "has_bit ?mo (month_at off n)" using matches_but_month [OF wf(1) n(2)] n(1) by simp
      have "k \<le> month_at off n" using month_at_mono [of t n off] n(1) kt by simp
      then have "k' \<le> month_at off n" using cyc(3) q by force
      then have "month_begin k' \<le> day_no off n"
        using month_no(1) [of "day_no off n"] month_begin_mono [of k' "month_at off n"] unfolding month_at_def
        by (cases "k' = month_no (day_no off n)") auto
      then have "t' \<le> n" unfolding y(2) yk using instant_floor [of "month_begin k'" off n \<sigma> ?s] n(1) s(2) \<sigma> by simp
      then show False using n(1) by simp
    qed
    have year: "tm_year (localtime off t') = y div 12 - 1900" using yt by (simp add: month_at_def)
    have "k div 12 - 1900 \<le> dot + 100" "dot \<le> k div 12 - 1900"
      using r year_mono [of t b off] kt by (simp_all add: month_at_def)
    then have yr: "dot \<le> y div 12 - 1900" "y div 12 - 1900 \<le> dot + 101" using ky(3,4) by auto
    then have far: "too_far std (localtime off t') dot \<longleftrightarrow> tm_year (localtime off t') > dot + 4"
      unfolding too_far_def year by (auto simp: cron_standard_traits_def)
    have res: "search_ok off cex dot \<sigma> t' (if too_far std (localtime off t') dot then Some (Inr (localtime off t', False))
        else find_next (zone off) std cex dot (localtime off t'))"
    proof (cases "too_far std (localtime off t') dot")
      case True
      then show ?thesis using far unfolding search_ok_def by (auto intro!: exI [of _ t'] exI [of _ False])
    next
      case False
      then show ?thesis using r far tt yt kt ky(3) unfolding recursion_ok_def by (simp del: local_simps)
    qed
    have "month_part (zone off) std cex dot M (localtime off t) = (if too_far std (localtime off t') dot
        then Some (Inr (localtime off t', False)) else find_next (zone off) std cex dot (localtime off t'))"
      using t'(1) mon ne by (simp add: month_part_def Let_def del: local_simps)
    then show ?thesis using search_ok_from [OF res _ skip] tt by simp
  qed
qed

text \<open>A stage that moves to a later instant no instant of interest lies before: the search goes on from there.\<close>

lemma moved_ok:
  assumes ok: "round_ok off cex dot \<sigma> b t" and "t < t'"
    and floor: "\<And>n. t \<le> n \<Longrightarrow> matches_but_month off cex \<sigma> n \<Longrightarrow> t' \<le> n"
    and k: "\<And>u. cron_matches cex (localtime off u) \<Longrightarrow> k (localtime off u) = Some (Inr (localtime off u, True))"
  shows "search_ok off cex dot \<sigma> t (run_bind (find_next (zone off) std cex dot (localtime off t'))
     (\<lambda>(date, res). if \<not> res then Some (Inr (date, False)) else k date))"
proof -
  note r = ok [unfolded round_ok_def]
  have "t' \<le> b" using floor r by simp
  then have "search_ok off cex dot \<sigma> t' (find_next (zone off) std cex dot (localtime off t'))"
    using r assms(2) unfolding recursion_ok_def by blast
  then have "search_ok off cex dot \<sigma> t' (run_bind (find_next (zone off) std cex dot (localtime off t'))
     (\<lambda>(date, res). if \<not> res then Some (Inr (date, False)) else k date))"
    using k by (rule search_ok_continue)
  moreover have "\<not> cron_matches cex (localtime off n)" if "t \<le> n \<and> n < t' \<and> (n + off) mod 60 = \<sigma>" for n
    using floor [of n] matches_but_month [of cex off n \<sigma>] r that by auto
  ultimately show ?thesis using search_ok_from [of off cex dot \<sigma> t' _ t] assms(2) by simp
qed

lemma day_part_ok:
  fixes off z h m s \<sigma> dot b :: int
  defines "t \<equiv> instant off z h m s"
  assumes ok: "round_ok off cex dot \<sigma> b t" and c: "clock_ok h m s" and s: "cx_seconds cex ! nat s" "s \<le> \<sigma>"
    and m: "cx_minutes cex ! nat m" and h: "cx_hours cex ! nat h"
    and M: "{Minute, HourOfDay} \<subseteq> M" "M \<subseteq> {Second, Minute, HourOfDay}"
  shows "search_ok off cex dot \<sigma> t (day_part (zone off) std cex dot M (localtime off t))"
proof -
  note r = ok [unfolded round_ok_def]
  have wf: "cron_wf cex" "days_open cex" "0 \<le> t" "0 \<le> \<sigma>" using r by (simp_all add: last_second_def)
  obtain j where j: "j \<le> 92" "day_ok cex (z + int j)" "\<forall>i<j. \<not> day_ok cex (z + int i)"
    "j > 0 \<Longrightarrow> z + int j - month_begin (month_no (z + int j)) \<noteq> z - month_begin (month_no z)"
    using next_day_near [OF wf(1,2), of z] by metis
  have tm: "tm_mday (localtime off t) = z - month_begin (month_no z) + 1" "tm_wday (localtime off t) = (z + 4) mod 7"
    unfolding t_def using c by simp_all
  note run = find_next_day_run [OF wf(1) M c wf(3) [unfolded t_def] j(2,3), of 366, folded t_def]
  show ?thesis
  proof (cases "j = 0")
    case True
    have d: "day_ok cex z" using j(2) True by simp
    have M': "{Minute, HourOfDay, DayOfMonth} \<subseteq> insert DayOfMonth M" "insert DayOfMonth M \<subseteq> {Second, Minute, HourOfDay, DayOfMonth}"
      using M by auto
    have "day_part (zone off) std cex dot M (localtime off t) = month_part (zone off) std cex dot (insert DayOfMonth M) (localtime off t)"
      unfolding day_part_def Let_def tm using run True by (simp add: mark_def)
    then show ?thesis
      using month_part_ok [OF ok [unfolded t_def] c s m h d M'] unfolding t_def by simp
  next
    case False
    let ?t = "instant off (z + int j) 0 0 (if Second \<in> M then 0 else s)"
    have c0: "clock_ok 0 0 (if Second \<in> M then 0 else s)" using c by (simp add: clock_ok_def)
    have lt: "t < ?t" unfolding t_def using False by (intro instant_le [OF _ c c0]) simp
    have floor: "?t \<le> n" if n: "t \<le> n" "matches_but_month off cex \<sigma> n" for n
    proof (rule instant_floor)
      show "(n + off) mod 60 = \<sigma>" "(if Second \<in> M then 0 else s) \<le> \<sigma>" using n(2) s(2) wf(4) by (simp_all add: matches_but_month_def)
      have "z \<le> day_no off n" using day_no_mono [OF n(1), of off] unfolding t_def using c by simp
      moreover have "\<not> day_ok cex (z + int (nat (day_no off n - z)))" if "day_no off n < z + int j"
        using j(3) [rule_format, of "nat (day_no off n - z)"] that \<open>z \<le> day_no off n\<close> by (simp add: nat_less_iff)
      ultimately show "z + int j \<le> day_no off n" using n(2) by (force simp: matches_but_month_def)
    qed
    have "day_part (zone off) std cex dot M (localtime off t) = run_bind (find_next (zone off) std cex dot (localtime off ?t))
        (\<lambda>(date, res). if \<not> res then Some (Inr (date, False)) else month_part (zone off) std cex dot M date)"
      unfolding day_part_def Let_def tm using run False j(1,4) by (simp add: mark_def cong: if_cong)
    then show ?thesis using moved_ok [OF ok lt floor month_part_matched [OF wf(1)]] by simp
  qed
qed

lemma hour_part_ok:
  fixes off z h m s \<sigma> dot b :: int
  defines "t \<equiv> instant off z h m s"
  assumes ok: "round_ok off cex dot \<sigma> b t" and c: "clock_ok h m s" and s: "cx_seconds cex ! nat s" "s \<le> \<sigma>"
    and m: "cx_minutes cex ! nat m" and M: "Minute \<in> M" "M \<subseteq> {Second, Minute}"
  shows "search_ok off cex dot \<sigma> t (hour_part (zone off) std cex dot M (localtime off t))"
proof -
  let ?hs = "cx_hours cex"
  note r = ok [unfolded round_ok_def]
  have wf: "cron_wf cex" "length ?hs = 24" "True \<in> set ?hs" "0 \<le> t" "0 \<le> \<sigma>" using r by (simp_all add: last_second_def cron_wf_def)
  define k where "k = z * 24 + h" define k' where "k' = cyc_next ?hs k"
  let ?s = "if Second \<in> M then 0 else s"
  let ?t = "if k' = k then t else 3600 * k' + ?s - off"
  have stage: "next_field (zone off) ?hs (localtime off t) (to_unsigned (tm_hour (localtime off t))) HourOfDay DayOfWeek M
     = Inr (localtime off ?t, Some (nat (k' mod 24)))"
    using hour_stage [OF wf(4) [unfolded t_def] c wf(2,3) M] unfolding t_def k_def k'_def .
  have hr: "to_unsigned (tm_hour (localtime off t)) = nat (k mod 24)"
    unfolding t_def k_def using to_unsigned_field(3) [of "instant off z h m s" off] c by simp
  have kh: "k mod 24 = h" unfolding k_def using instant_simps(6) [OF c] .
  note cyc = cyc_next [OF wf(3), of k, folded k'_def, unfolded wf(2)]
  show ?thesis
  proof (cases "k' = k")
    case True
    then have h: "?hs ! nat h" using cyc(2) kh wf(2) by (simp add: has_bit_def)
    have M': "{Minute, HourOfDay} \<subseteq> insert HourOfDay M" "insert HourOfDay M \<subseteq> {Second, Minute, HourOfDay}" using M by auto
    have "hour_part (zone off) std cex dot M (localtime off t) = day_part (zone off) std cex dot (insert HourOfDay M) (localtime off t)"
      unfolding hour_part_def Let_def using stage hr True by (simp add: mark_def del: local_simps)
    then show ?thesis using day_part_ok [OF ok [unfolded t_def] c s m h M'] unfolding t_def by simp
  next
    case False
    have ne: "nat (k' mod 24) \<noteq> nat (k mod 24)"
    proof
      assume "nat (k' mod 24) = nat (k mod 24)"
      then have "k' mod 24 = k mod 24" by (simp add: eq_nat_nat_iff)
      then have "24 dvd k' - k" by (simp add: mod_eq_dvd_iff)
      then show False using cyc(1,4) False zdvd_not_zless [of "k' - k" 24] by simp
    qed
    have lt: "t < ?t" using False cyc(1) c unfolding t_def instant_def k_def clock_ok_def by auto
    have floor: "?t \<le> n" if n: "t \<le> n" "matches_but_month off cex \<sigma> n" for n
    proof -
      have "k = (t + off) div 3600" unfolding t_def k_def using c by simp
      then have "k \<le> (n + off) div 3600" using n(1) by (simp add: zdiv_mono1)
      then have "k' \<le> (n + off) div 3600" using cyc(3) [of "(n + off) div 3600"] n(2) by (force simp: matches_but_month_def)
      moreover have "3600 * ((n + off) div 3600) + (n + off) mod 60 \<le> n + off"
      proof -
        have "day_no off n * 86400 + (n + off) div 3600 mod 24 * 3600 = 3600 * ((n + off) div 3600)"
        proof -
          have "day_no off n = (n + off) div 3600 div 24" unfolding day_no_def using zdiv_zmult2_eq [of 24 "n + off" 3600] by simp
          then show ?thesis using mult_div_mod_eq [of 24 "(n + off) div 3600"] by linarith
        qed
        moreover have "0 \<le> (n + off) div 60 mod 60" by simp
        ultimately show ?thesis using time_parts [of off n] by linarith
      qed
      ultimately have "3600 * k' + \<sigma> \<le> n + off" using n(2) by (simp add: matches_but_month_def)
      then show ?thesis using False s(2) wf(5) by simp
    qed
    have "hour_part (zone off) std cex dot M (localtime off t) = run_bind (find_next (zone off) std cex dot (localtime off ?t))
        (\<lambda>(date, res). if \<not> res then Some (Inr (date, False)) else day_part (zone off) std cex dot M date)"
      unfolding hour_part_def Let_def using stage hr ne False by (simp add: mark_def del: local_simps cong: if_cong)
    then show ?thesis using moved_ok [OF ok lt floor day_part_matched [OF wf(1)]] by simp
  qed
qed

lemma minute_part_ok:
  fixes off z h m s \<sigma> dot b :: int
  defines "t \<equiv> instant off z h m s"
  assumes ok: "round_ok off cex dot \<sigma> b t" and c: "clock_ok h m s" and s: "cx_seconds cex ! nat s" "s \<le> \<sigma>"
    and M: "M \<subseteq> {Second}"
  shows "search_ok off cex dot \<sigma> t (minute_part (zone off) std cex dot M (localtime off t))"
proof -
  let ?ms = "cx_minutes cex"
  note r = ok [unfolded round_ok_def]
  have wf: "cron_wf cex" "length ?ms = 60" "True \<in> set ?ms" "0 \<le> t" "0 \<le> \<sigma>" using r by (simp_all add: last_second_def cron_wf_def)
  define k where "k = z * 1440 + h * 60 + m" define k' where "k' = cyc_next ?ms k"
  let ?s = "if Second \<in> M then 0 else s"
  let ?t = "if k' = k then t else 60 * k' + ?s - off"
  have stage: "next_field (zone off) ?ms (localtime off t) (to_unsigned (tm_min (localtime off t))) Minute HourOfDay M
     = Inr (localtime off ?t, Some (nat (k' mod 60)))"
    using minute_stage [OF wf(4) [unfolded t_def] c wf(2,3) M] unfolding t_def k_def k'_def .
  have mi: "to_unsigned (tm_min (localtime off t)) = nat (k mod 60)"
    unfolding t_def k_def using to_unsigned_field(2) [of "instant off z h m s" off] c by simp
  have km: "k mod 60 = m" unfolding k_def using instant_simps(5) [OF c] .
  note cyc = cyc_next [OF wf(3), of k, folded k'_def, unfolded wf(2)]
  show ?thesis
  proof (cases "k' = k")
    case True
    then have m: "?ms ! nat m" using cyc(2) km wf(2) by (simp add: has_bit_def)
    have M': "Minute \<in> insert Minute M" "insert Minute M \<subseteq> {Second, Minute}" using M by auto
    have "minute_part (zone off) std cex dot M (localtime off t) = hour_part (zone off) std cex dot (insert Minute M) (localtime off t)"
      unfolding minute_part_def Let_def using stage mi True by (simp add: mark_def del: local_simps)
    then show ?thesis using hour_part_ok [OF ok [unfolded t_def] c s m M'] unfolding t_def by simp
  next
    case False
    have ne: "nat (k' mod 60) \<noteq> nat (k mod 60)"
    proof
      assume "nat (k' mod 60) = nat (k mod 60)"
      then have "k' mod 60 = k mod 60" by (simp add: eq_nat_nat_iff)
      then have "60 dvd k' - k" by (simp add: mod_eq_dvd_iff)
      then show False using cyc(1,4) False zdvd_not_zless [of "k' - k" 60] by simp
    qed
    have lt: "t < ?t" using False cyc(1) c unfolding t_def instant_def k_def clock_ok_def by auto
    have floor: "?t \<le> n" if n: "t \<le> n" "matches_but_month off cex \<sigma> n" for n
    proof -
      have "k = (t + off) div 60" unfolding t_def k_def using c by simp
      then have "k \<le> (n + off) div 60" using n(1) by (simp add: zdiv_mono1)
      then have "k' \<le> (n + off) div 60" using cyc(3) [of "(n + off) div 60"] n(2) by (force simp: matches_but_month_def)
      moreover have "60 * ((n + off) div 60) + (n + off) mod 60 = n + off" by (rule mult_div_mod_eq)
      moreover have "(n + off) mod 60 = \<sigma>" using n(2) by (simp add: matches_but_month_def)
      ultimately have "60 * k' + \<sigma> \<le> n + off" by linarith
      then show ?thesis using False s(2) wf(5) by simp
    qed
    have "minute_part (zone off) std cex dot M (localtime off t) = run_bind (find_next (zone off) std cex dot (localtime off ?t))
        (\<lambda>(date, res). if \<not> res then Some (Inr (date, False)) else hour_part (zone off) std cex dot M date)"
      unfolding minute_part_def Let_def using stage mi ne False by (simp add: mark_def del: local_simps cong: if_cong)
    then show ?thesis using moved_ok [OF ok lt floor hour_part_matched [OF wf(1)]] by simp
  qed
qed

lemma search_round:
  assumes ok: "round_ok off cex dot \<sigma> b t"
  shows "search_ok off cex dot \<sigma> t (find_next (zone off) std cex dot (localtime off t))"
proof -
  let ?ss = "cx_seconds cex"
  note r = ok [unfolded round_ok_def]
  have wf: "cron_wf cex" "length ?ss = 60" "True \<in> set ?ss" "0 \<le> t" using r by (simp_all add: cron_wf_def)
  obtain z h m s where t: "t = instant off z h m s" "clock_ok h m s" by (rule instant_exists)
  define k' where "k' = cyc_next ?ss (t + off)" define t' where "t' = k' - off"
  note cyc = cyc_next [OF wf(3), of "t + off", folded k'_def, unfolded wf(2)]
  have stage: "next_field (zone off) ?ss (localtime off t) (to_unsigned (tm_sec (localtime off t))) Second Minute {}
     = Inr (localtime off t', Some (nat (k' mod 60)))"
    using second_stage [OF wf(4) [unfolded t(1)] t(2) wf(2,3)] unfolding t(1) t'_def k'_def .
  obtain z' h' m' s' where u: "t' = instant off z' h' m' s'" "clock_ok h' m' s'" by (rule instant_exists)
  have bit: "?ss ! nat s'"
    using cyc(2) instant_simps(1) [OF u(2), of off z'] wf(2) unfolding u(1) [symmetric] by (simp add: has_bit_def t'_def)
  then have s': "s' \<le> \<sigma>" using r u(2) by (simp add: last_second_def clock_ok_def)
  have sec: "has_bit ?ss (n + off)" if "(n + off) mod 60 = \<sigma>" for n
    using that r wf(2) by (simp add: has_bit_def last_second_def)
  have floor: "t' \<le> n" if "t \<le> n" "(n + off) mod 60 = \<sigma>" for n
    using cyc(3) [of "n + off"] sec [OF that(2)] that(1) unfolding t'_def by force
  have tt: "t \<le> t'" using cyc(1) by (simp add: t'_def)
  have "t' \<le> b" using floor r by (simp add: matches_but_month_def)
  then have ok': "round_ok off cex dot \<sigma> b t'" using round_ok_later [OF ok tt] by simp
  have M: "mark c Second {} \<subseteq> {Second}" for c by (simp add: mark_def)
  have "find_next (zone off) std cex dot (localtime off t) =
      minute_part (zone off) std cex dot (mark (Some (nat (k' mod 60)) = Some (to_unsigned (tm_sec (localtime off t)))) Second {}) (localtime off t')"
    by (subst find_next_parts) (simp add: Let_def stage del: local_simps)
  moreover have "search_ok off cex dot \<sigma> t' (minute_part (zone off) std cex dot
      (mark (Some (nat (k' mod 60)) = Some (to_unsigned (tm_sec (localtime off t)))) Second {}) (localtime off t'))"
    using minute_part_ok [OF ok' [unfolded u(1)] u(2) bit s' M] unfolding u(1) .
  ultimately have "search_ok off cex dot \<sigma> t' (find_next (zone off) std cex dot (localtime off t))" by simp
  from search_ok_from [OF this tt] show ?thesis using floor by force
qed

subsection \<open>The whole search\<close>

lemma next_but_month:
  assumes "cron_wf cex" "days_open cex" "last_second cex \<sigma>"
  obtains b where "t < b" "matches_but_month off cex \<sigma> b" "month_at off b \<le> month_at off t + 4"
proof -
  let ?z = "day_no off t"
  obtain j where j: "j \<le> 92" "day_ok cex (?z + 1 + int j)" using next_day_near [OF assms(1,2), of "?z + 1"] by metis
  obtain m where m: "m < 60" "cx_minutes cex ! m" using assms(1) by (force simp: cron_wf_def in_set_conv_nth)
  obtain h where h: "h < 24" "cx_hours cex ! h" using assms(1) by (force simp: cron_wf_def in_set_conv_nth)
  let ?y = "?z + 1 + int j"
  have c: "clock_ok (int h) (int m) \<sigma>" using h(1) m(1) assms(3) by (simp add: clock_ok_def last_second_def)
  let ?b = "instant off ?y (int h) (int m) \<sigma>"
  obtain z' h' m' s' where t: "t = instant off z' h' m' s'" "clock_ok h' m' s'" by (rule instant_exists)
  then have "t < ?b" using instant_le [OF _ t(2) c, of z' ?y off] by simp
  moreover have "matches_but_month off cex \<sigma> ?b"
  proof -
    define y where "y = ?y"
    have "has_bit (cx_minutes cex) (y * 1440 + int h * 60 + int m)" "has_bit (cx_hours cex) (y * 24 + int h)"
      using m(2) h(2) assms(1) instant_simps(5,6) [OF c, of y] by (simp_all add: has_bit_def cron_wf_def)
    then show ?thesis using c j(2) unfolding y_def [symmetric] matches_but_month_def by simp
  qed
  moreover have "month_at off ?b \<le> month_at off t + 4"
  proof -
    define k where "k = month_no ?z"
    have "?z < month_begin (k + 1)" unfolding k_def by (rule month_no)
    moreover have "month_begin (k + 1) + 28 \<le> month_begin (k + 2)" "month_begin (k + 2) + 28 \<le> month_begin (k + 3)"
      "month_begin (k + 3) + 28 \<le> month_begin (k + 4)" "month_begin (k + 4) + 28 \<le> month_begin (k + 5)"
      by (auto intro: month_begin_mono)
    ultimately have y: "?y < month_begin (k + 5)" using j(1) by simp
    have "month_no ?y < k + 5"
    proof (rule ccontr)
      assume "\<not> month_no ?y < k + 5"
      then have "k + 5 = month_no ?y \<or> k + 5 < month_no ?y" by auto
      then show False using y month_no(1) [of ?y] month_begin_mono [of "k + 5" "month_no ?y"] by auto
    qed
    then show ?thesis using c by (simp add: month_at_def k_def)
  qed
  ultimately show thesis using that by blast
qed

lemma find_next_ok:
  assumes wf: "cron_wf cex" "days_open cex" "last_second cex \<sigma>"
  shows "0 \<le> t \<Longrightarrow> dot \<le> tm_year (localtime off t) \<Longrightarrow> tm_year (localtime off t) \<le> dot + 4 \<Longrightarrow>
     search_ok off cex dot \<sigma> t (find_next (zone off) std cex dot (localtime off t))"
proof (induction "nat (12 * (dot + 1905) - month_at off t)" arbitrary: t rule: less_induct)
  case (less t)
  obtain b where b: "t < b" "matches_but_month off cex \<sigma> b" "month_at off b \<le> month_at off t + 4"
    using next_but_month [OF wf] by metis
  have yb: "tm_year (localtime off b) \<le> dot + 100"
    using b(3) less.prems(3) by (simp add: month_at_def)
  have "search_ok off cex dot \<sigma> u (find_next (zone off) std cex dot (localtime off u))" if "t \<le> u" "u \<le> b" for u
    using that
  proof (induction "nat (b - u)" arbitrary: u rule: less_induct)
    case (less u)
    note outer = \<open>\<And>ta. nat (12 * (dot + 1905) - month_at off ta) < nat (12 * (dot + 1905) - month_at off t) \<Longrightarrow> 0 \<le> ta \<Longrightarrow>
        dot \<le> tm_year (localtime off ta) \<Longrightarrow> tm_year (localtime off ta) \<le> dot + 4 \<Longrightarrow>
        search_ok off cex dot \<sigma> ta (find_next (zone off) std cex dot (localtime off ta))\<close>
    have rec: "recursion_ok off cex dot \<sigma> b u" unfolding recursion_ok_def
    proof (intro allI impI)
      fix v assume v: "u < v \<and> (v \<le> b \<or> month_at off u < month_at off v \<and> tm_year (localtime off v) \<le> dot + 4)"
      show "search_ok off cex dot \<sigma> v (find_next (zone off) std cex dot (localtime off v))"
      proof (cases "v \<le> b")
        case True
        then show ?thesis using less.hyps [of v] less.prems v by simp
      next
        case False
        then have vm: "month_at off u < month_at off v" "tm_year (localtime off v) \<le> dot + 4" using v by simp_all
        have "month_at off t \<le> month_at off u" using month_at_mono less.prems(1) by simp
        moreover have "month_at off v < 12 * (dot + 1905)" using vm(2) by (simp add: month_at_def)
        ultimately have "nat (12 * (dot + 1905) - month_at off v) < nat (12 * (dot + 1905) - month_at off t)" using vm(1) by simp
        moreover have "0 \<le> v" "dot \<le> tm_year (localtime off v)"
          using v less.prems(1) \<open>0 \<le> t\<close> \<open>dot \<le> tm_year (localtime off t)\<close> year_mono [of t v off] by linarith+
        ultimately show ?thesis using outer vm(2) by blast
      qed
    qed
    have "round_ok off cex dot \<sigma> b u"
      unfolding round_ok_def using wf rec b(2) yb less.prems \<open>0 \<le> t\<close> \<open>dot \<le> tm_year (localtime off t)\<close> year_mono [of t u off]
      by linarith
    then show ?case by (rule search_round)
  qed
  from this [of t] show ?case using b(1) by simp
qed

end
