(* ===== verification/CronProps.thy ===== *)
theory CronProps
  imports CronSearch
begin

text \<open>
  The properties of the search for the next instant: it ends with an instant the expression matches,
  under what conditions that is the first one, and what it does outside these conditions.
\<close>

lemma last_second_ex: "cron_wf cex \<Longrightarrow> \<exists>\<sigma>. last_second cex \<sigma>"
proof -
  assume wf: "cron_wf cex"
  let ?P = "\<lambda>n. n < 60 \<and> cx_seconds cex ! n"
  obtain n where n: "?P n" using wf by (force simp: cron_wf_def in_set_conv_nth)
  define m where "m = (GREATEST n. ?P n)"
  have "?P m" unfolding m_def using n by (rule GreatestI_nat [where b = 60]) simp
  moreover have "n \<le> m" if "?P n" for n unfolding m_def using that by (rule Greatest_le_nat [where b = 60]) simp
  moreover have "s \<le> int m" if "0 \<le> s" "s < 60" "cx_seconds cex ! nat s" for s
    using calculation(2) [of "nat s"] that by (simp add: nat_less_iff nat_le_iff)
  ultimately have "last_second cex (int m)" unfolding last_second_def by simp
  then show ?thesis by blast
qed

lemma zone_local [simp]: "zone off (localtime off t) = (localtime off t, t)"
  by (simp add: zone_def)

lemma add_second: "0 \<le> t \<Longrightarrow> add_to_field (zone off) (localtime off t) Second 1 = Inr (localtime off (t + 1))"
  by (simp add: add_to_field_def tm_to_time_zone)

definition skips_none :: "int \<Rightarrow> cronexpr \<Rightarrow> int \<Rightarrow> int \<Rightarrow> int \<Rightarrow> bool" where
  "skips_none off cex \<sigma> t u \<longleftrightarrow> (\<forall>n. t < n \<and> n < u \<and> (n + off) mod 60 = \<sigma> \<longrightarrow> \<not> cron_matches cex (localtime off n))"

text \<open>Both searches of \<open>cron_next\<close> together.\<close>

lemma cron_next_run:
  assumes wf: "cron_wf cex" "days_open cex" "last_second cex \<sigma>" and t: "0 \<le> t"
  shows "\<exists>u d. cron_next_tm (zone off) std cex (localtime off t) = Some (Inr d) \<and> t < u \<and>
     (if d = null_tm then tm_year (localtime off u) > tm_year (localtime off t) + 4
      else d = localtime off u \<and> cron_matches cex d) \<and> (months_safe cex \<longrightarrow> skips_none off cex \<sigma> t u)"
proof -
  let ?find = "\<lambda>t. find_next (zone off) std cex (tm_year (localtime off t)) (localtime off t)"
  have some: "localtime off u \<noteq> null_tm" for u
  proof
    assume "localtime off u = null_tm"
    then have "tm_mday (localtime off u) = 0" by (simp add: null_tm_def)
    then show False using day_in_month(1) [of "day_no off u"] by simp
  qed
  have search: "\<exists>u res. ?find t = Some (Inr (localtime off u, res)) \<and> t \<le> u \<and>
      (if res then cron_matches cex (localtime off u) else tm_year (localtime off u) > tm_year (localtime off t) + 4) \<and>
      (months_safe cex \<longrightarrow> (\<forall>n. t \<le> n \<and> n < u \<and> (n + off) mod 60 = \<sigma> \<longrightarrow> \<not> cron_matches cex (localtime off n)))"
    if "0 \<le> t" for t
    using find_next_ok [OF wf that, of "tm_year (localtime off t)" off] unfolding search_ok_def by simp
  obtain u res where u: "?find t = Some (Inr (localtime off u, res))" "t \<le> u"
    "if res then cron_matches cex (localtime off u) else tm_year (localtime off u) > tm_year (localtime off t) + 4"
    "months_safe cex \<longrightarrow> (\<forall>n. t \<le> n \<and> n < u \<and> (n + off) mod 60 = \<sigma> \<longrightarrow> \<not> cron_matches cex (localtime off n))"
    using search [OF t] by blast
  have u0: "u \<noteq> INVALID_TIME" "t \<noteq> INVALID_TIME" using u(2) t by (simp_all add: INVALID_TIME_def)
  show ?thesis
  proof (cases "res \<and> u = t")
    case False
    have "cron_next_tm (zone off) std cex (localtime off t) = Some (Inr (if res then localtime off u else null_tm))"
      using u(1) u0 False by (simp add: cron_next_tm_def del: local_simps)
    moreover have "t < u" using u(2,3) False by (cases "u = t") auto
    ultimately show ?thesis using u(3,4) some unfolding skips_none_def
      by (intro exI [of _ u] exI [of _ "if res then localtime off u else null_tm"]) (auto split: if_splits)
  next
    case True
    obtain v res' where v: "?find (t + 1) = Some (Inr (localtime off v, res'))" "t + 1 \<le> v"
      "if res' then cron_matches cex (localtime off v) else tm_year (localtime off v) > tm_year (localtime off (t + 1)) + 4"
      "months_safe cex \<longrightarrow> (\<forall>n. t + 1 \<le> n \<and> n < v \<and> (n + off) mod 60 = \<sigma> \<longrightarrow> \<not> cron_matches cex (localtime off n))"
      using search [of "t + 1"] t by auto
    have "cron_next_tm (zone off) std cex (localtime off t) = Some (Inr (if res' then localtime off v else null_tm))"
      using u(1) v(1) u0 True by (simp add: cron_next_tm_def add_second [OF t] del: local_simps)
    then show ?thesis using v(2-4) some year_mono [of t "t + 1" off] unfolding skips_none_def
      by (intro exI [of _ v] exI [of _ "if res' then localtime off v else null_tm"]) (auto split: if_splits simp del: local_simps)
  qed
qed

text \<open>The expressions of the witnesses: a time of day on the listed days and months.\<close>

definition cron_bits :: "nat \<Rightarrow> nat list \<Rightarrow> bool list" where
  "cron_bits n vs = map (\<lambda>i. i \<in> set vs) [0..<n]"

definition time_cron :: "nat list \<Rightarrow> nat list \<Rightarrow> nat list \<Rightarrow> nat list \<Rightarrow> nat list \<Rightarrow> nat list \<Rightarrow> cronexpr" where
  "time_cron seconds minutes hours days_of_month months days_of_week =
     \<lparr>cx_seconds = cron_bits 60 seconds, cx_minutes = cron_bits 60 minutes, cx_hours = cron_bits 24 hours,
      cx_days_of_week = cron_bits 7 days_of_week, cx_days_of_month = cron_bits 31 days_of_month,
      cx_months = cron_bits 12 months, cx_expr = []\<rparr>"

definition friday_cron :: cronexpr where
  "friday_cron = time_cron [0] [30] [12] [0..<31] [0..<12] [5]"

lemma friday_cron_ok: "cron_wf friday_cron \<and> days_open friday_cron \<and> months_safe friday_cron \<and>
    length (filter id (cx_seconds friday_cron)) = 1"
  by code_simp

text \<open>C35: in a time zone with a fixed offset to UTC and from any instant since 1970, looking for the next execution of a
  parsed expression that leaves the days of the week or those of the month open always ends, with an instant after the
  given one that the expression matches, or with no answer. (Where clocks change it does not hold: \<open>tm_isdst\<close>
  is kept when the search moves the hour, and it can answer with an instant before the given one, as the theory \<open>CronDst\<close> shows.)\<close>

theorem cron_next_ends:
  assumes "cron_wf cex" "days_open cex" "0 \<le> t"
  shows "\<exists>d. cron_next_tm (zone off) cron_standard_traits cex (localtime off t) = Some (Inr d) \<and>
    (d = null_tm \<or> (\<exists>u>t. d = localtime off u \<and> cron_matches cex d))"
proof -
  obtain \<sigma> where "last_second cex \<sigma>" using last_second_ex [OF assms(1)] by blast
  from cron_next_run [OF assms(1,2) this assms(3), of off] show ?thesis by (auto split: if_splits)
qed

lemma cron_next_ends_witness:
  "\<exists>d. cron_next_tm (zone 3600) cron_standard_traits friday_cron (localtime 3600 1723552200) = Some (Inr d) \<and>
    (d = null_tm \<or> (\<exists>u>1723552200. d = localtime 3600 u \<and> cron_matches friday_cron d))"
  by (rule cron_next_ends) (simp_all add: friday_cron_ok)

definition is_next :: "int \<Rightarrow> cronexpr \<Rightarrow> int \<Rightarrow> int \<Rightarrow> bool" where
  "is_next off cex t u \<longleftrightarrow> t < u \<and> cron_matches cex (localtime off u) \<and>
     (\<forall>n. t < n \<and> n < u \<longrightarrow> \<not> cron_matches cex (localtime off n))"

lemma one_second:
  assumes "cron_wf cex" "length (filter id (cx_seconds cex)) = 1" "last_second cex \<sigma>" "cron_matches cex (localtime off n)"
  shows "(n + off) mod 60 = \<sigma>"
proof -
  let ?ss = "cx_seconds cex"
  have "card {i. i < length ?ss \<and> ?ss ! i} = 1" using assms(2) by (simp add: length_filter_conv_card)
  then obtain x where x: "{i. i < length ?ss \<and> ?ss ! i} = {x}" by (auto simp: card_1_singleton_iff)
  have "nat ((n + off) mod 60) \<in> {i. i < length ?ss \<and> ?ss ! i}"
    using assms(1,4) by (simp add: cron_matches_def cron_wf_def nat_less_iff)
  moreover have "nat \<sigma> \<in> {i. i < length ?ss \<and> ?ss ! i}"
    using assms(1,3) by (simp add: last_second_def cron_wf_def nat_less_iff)
  ultimately have "nat ((n + off) mod 60) = nat \<sigma>" unfolding x by simp
  then show ?thesis using assms(3) by (simp add: last_second_def eq_nat_nat_iff)
qed

text \<open>C36: when moreover the expression names one second, and all months or only days every month has, the
  answer is the first matching instant after the given one; no answer means that there is none in this
  year and the four that follow. As in C35, the time zone has a fixed offset to UTC, the expression is a parsed one
  that leaves the days of the week or those of the month open, and the given instant is not before 1970. (Where clocks change it does not hold: \<open>tm_isdst\<close>
  is kept when the search moves the hour, and it can answer with an instant before the given one, as the theory \<open>CronDst\<close> shows.)\<close>

theorem cron_next_first:
  assumes "cron_wf cex" "days_open cex" "months_safe cex" "length (filter id (cx_seconds cex)) = 1" "0 \<le> t"
  shows "\<exists>d. cron_next_tm (zone off) cron_standard_traits cex (localtime off t) = Some (Inr d) \<and>
    (if d = null_tm then \<forall>n>t. tm_year (localtime off n) \<le> tm_year (localtime off t) + 4 \<longrightarrow> \<not> cron_matches cex (localtime off n)
     else \<exists>u. d = localtime off u \<and> is_next off cex t u)"
proof -
  obtain \<sigma> where s: "last_second cex \<sigma>" using last_second_ex [OF assms(1)] by blast
  obtain u d where d: "cron_next_tm (zone off) cron_standard_traits cex (localtime off t) = Some (Inr d)" "t < u"
    "if d = null_tm then tm_year (localtime off u) > tm_year (localtime off t) + 4 else d = localtime off u \<and> cron_matches cex d"
    "skips_none off cex \<sigma> t u"
    using cron_next_run [OF assms(1,2) s assms(5), of off] assms(3) by blast
  have none: "\<not> cron_matches cex (localtime off n)" if "t < n" "n < u" for n
    using d(4) that one_second [OF assms(1,4) s] unfolding skips_none_def by blast
  have "\<not> cron_matches cex (localtime off n)"
    if "d = null_tm" "t < n" "tm_year (localtime off n) \<le> tm_year (localtime off t) + 4" for n
    using none [OF that(2)] d(3) that year_mono [of u n off] by (cases "n < u") (auto simp del: local_simps)
  then show ?thesis using d(1-3) none unfolding is_next_def by (intro exI [of _ d]) (auto simp del: local_simps)
qed

lemma cron_next_first_witness:
  "\<exists>d. cron_next_tm (zone 3600) cron_standard_traits friday_cron (localtime 3600 1723552200) = Some (Inr d) \<and>
    (if d = null_tm then \<forall>n>1723552200. tm_year (localtime 3600 n) \<le> tm_year (localtime 3600 1723552200) + 4 \<longrightarrow>
        \<not> cron_matches friday_cron (localtime 3600 n)
     else \<exists>u. d = localtime 3600 u \<and> is_next 3600 friday_cron 1723552200 u)"
  using friday_cron_ok by (intro cron_next_first) simp_all

end
