(* ===== verification/CronLimits.thy ===== *)
theory CronLimits
  imports CronProps
begin

text \<open>
  Where the search departs from the first matching instant, each with the way it comes about: seconds
  that are kept while the minutes move, a month that is shorter than the day it is entered with, and
  a day found under the number of the day the search started from.
\<close>

lemma wf_bits:
  assumes "cron_wf cex" "clock_ok h m s"
  shows "nat s < length (cx_seconds cex)" "nat m < length (cx_minutes cex)" "nat h < length (cx_hours cex)"
  using assms by (simp_all add: cron_wf_def clock_ok_def nat_less_iff)

lemma clock_mods: "clock_ok h m s \<Longrightarrow> h mod 24 = h \<and> m mod 60 = m \<and> s mod 60 = s"
  by (simp add: clock_ok_def)

lemma second_hit:
  assumes "cron_wf cex" "clock_ok h m s" "cx_seconds cex ! nat s"
  shows "find_next mk tr cex dot (localtime off (instant off z h m s)) =
    minute_part mk tr cex dot {Second} (localtime off (instant off z h m s))"
proof -
  have "to_unsigned s = nat s" using assms(2) by (simp add: clock_ok_def to_unsigned_small)
  then show ?thesis using next_field_hit [OF wf_bits(1) [OF assms(1,2)] assms(3)] assms(2)
    by (subst find_next_parts) (simp add: Let_def mark_def)
qed

lemma minute_hit:
  assumes "cron_wf cex" "clock_ok h m s" "cx_minutes cex ! nat m"
  shows "minute_part mk tr cex dot M (localtime off (instant off z h m s)) =
    hour_part mk tr cex dot (insert Minute M) (localtime off (instant off z h m s))"
  using next_field_hit [OF wf_bits(2) [OF assms(1,2)] assms(3)] to_unsigned_60 [OF assms(2)] clock_mods [OF assms(2)] assms(2)
  by (simp add: minute_part_def Let_def mark_def)

lemma hour_hit:
  assumes "cron_wf cex" "clock_ok h m s" "cx_hours cex ! nat h"
  shows "hour_part mk tr cex dot M (localtime off (instant off z h m s)) =
    day_part mk tr cex dot (insert HourOfDay M) (localtime off (instant off z h m s))"
  using next_field_hit [OF wf_bits(3) [OF assms(1,2)] assms(3)] to_unsigned_60 [OF assms(2)] clock_mods [OF assms(2)] assms(2)
  by (simp add: hour_part_def Let_def mark_def)

lemma find_next_matched:
  assumes "cron_wf cex" "cron_matches cex (localtime off t)"
  shows "find_next mk std cex dot (localtime off t) = Some (Inr (localtime off t, True))"
proof -
  obtain z h m s where t: "t = instant off z h m s" "clock_ok h m s" by (rule instant_exists)
  note b = assms(2) [unfolded t(1) cron_matches_instant [OF t(2)]]
  show ?thesis unfolding t(1) using b second_hit [OF assms(1) t(2)] minute_hit [OF assms(1) t(2)]
      hour_part_matched [OF assms(1), of off t mk dot "insert Minute {Second}"] assms(2) t(1) by simp
qed

lemma cron_next_found:
  assumes "find_next (zone off) std cex (tm_year (localtime off t)) (localtime off t) = Some (Inr (localtime off u, True))"
    "0 \<le> t" "t < u"
  shows "cron_next_tm (zone off) std cex (localtime off t) = Some (Inr (localtime off u))"
  using assms by (simp add: cron_next_tm_def INVALID_TIME_def del: local_simps)

text \<open>From a day with the number of the one it looks for (a 13th that is no Friday), at a time the
  expression names, the search answers with midnight of the day it finds, whatever hours, minutes and
  seconds the expression asks for.\<close>

theorem cron_same_day_number:
  assumes "cron_wf cex" "clock_ok h m s" "0 \<le> instant off z h m s"
    and "cx_seconds cex ! nat s" "cx_minutes cex ! nat m" "cx_hours cex ! nat h"
    and "0 < j" "j \<le> 366" "day_ok cex (z + int j)" "\<forall>i<j. \<not> day_ok cex (z + int i)"
    and "z + int j - month_begin (month_no (z + int j)) = z - month_begin (month_no z)"
    and "cx_months cex ! nat (month_no (z + int j) mod 12)"
  shows "cron_next_tm (zone off) cron_standard_traits cex (localtime off (instant off z h m s)) =
    Some (Inr (localtime off (instant off (z + int j) 0 0 0)))"
proof (rule cron_next_found)
  let ?t = "instant off z h m s" and ?u = "instant off (z + int j) 0 0 0"
  have c0: "clock_ok 0 0 0" by (simp add: clock_ok_def)
  show "?t < ?u" using assms(7) by (intro instant_le [OF _ assms(2) c0]) simp
  let ?M = "{HourOfDay, Minute, Second}"
  have "find_next_day (zone off) std cex ?M 366 (z - month_begin (month_no z) + 1) ((z + 4) mod 7) (localtime off ?t)
      = Inr (localtime off ?u, z + int j - month_begin (month_no (z + int j)) + 1)"
    using find_next_day_run [OF assms(1) _ _ assms(2,3,9,10,8), of ?M] assms(7) by auto
  then have day: "day_part (zone off) std cex dot ?M (localtime off ?t) = month_part (zone off) std cex dot (insert DayOfMonth ?M) (localtime off ?u)"
    for dot
    using assms(2,11) by (simp add: day_part_def Let_def mark_def)
  have "nat (month_no (z + int j) mod 12) < length (cx_months cex)"
    using nat_mod_less [of 12 "month_no (z + int j)"] assms(1) by (simp add: cron_wf_def)
  then have "month_part (zone off) std cex dot M (localtime off ?u) = Some (Inr (localtime off ?u, True))" for dot M
    using assms(12) c0 by (simp add: month_part_def to_unsigned_field next_field_hit)
  then show "find_next (zone off) std cex (tm_year (localtime off ?t)) (localtime off ?t) = Some (Inr (localtime off ?u, True))"
    using second_hit [OF assms(1,2,4)] minute_hit [OF assms(1,2,5)] hour_hit [OF assms(1,2,6)] day by simp
qed fact

definition friday_13_cron :: cronexpr where
  "friday_13_cron = time_cron [0] [30] [12] [12] [0..<12] [5]"

lemma friday_13_none:
  assumes "i < 31"
  shows "\<not> day_ok friday_13_cron (19948 + int i)"
proof
  let ?z = "19948 + int i" and ?k = "12 * 2024 + 7"
  have b: "month_begin ?k = 19936" "month_begin (?k + 1) = 19967" "month_begin (?k + 2) = 19997" by code_simp+
  assume ok: "day_ok friday_13_cron ?z"
  have bit: "cron_bits 31 [12] ! n \<longleftrightarrow> n = 12" if "n < 31" for n using that by (simp add: cron_bits_def del: upt_Suc)
  have "nat (?z - month_begin (month_no ?z)) = 12"
    using ok bit [of "nat (?z - month_begin (month_no ?z))"] day_in_month [of ?z]
    by (simp add: day_ok_def friday_13_cron_def time_cron_def nat_less_iff)
  then have d: "?z - month_begin (month_no ?z) = 12" by simp
  show False
  proof (cases "i < 19")
    case True
    then have "month_no ?z = ?k" using b by (intro month_noI) simp_all
    then have "i = 0" using d b by simp
    then have "cron_bits 7 [5] ! 2" using ok by (simp add: day_ok_def friday_13_cron_def time_cron_def)
    then show False by (simp add: cron_bits_def upt_rec)
  next
    case False
    then have "month_no ?z = ?k + 1" using b assms by (intro month_noI) simp_all
    then show False using d b assms by simp
  qed
qed

lemma cron_same_day_number_witness:
  "cron_next_tm (zone 0) cron_standard_traits friday_13_cron (localtime 0 (instant 0 19948 12 30 0)) =
    Some (Inr (localtime 0 (instant 0 (19948 + int 31) 0 0 0)))"
proof (rule cron_same_day_number)
  show "cron_wf friday_13_cron" by code_simp
  show "\<forall>i<31. \<not> day_ok friday_13_cron (19948 + int i)" using friday_13_none by blast
  show "day_ok friday_13_cron (19948 + int 31)" by code_simp
  show "19948 + int 31 - month_begin (month_no (19948 + int 31)) = 19948 - month_begin (month_no 19948)" by code_simp
  show "cx_months friday_13_cron ! nat (month_no (19948 + int 31) mod 12)" by code_simp
  show "cx_seconds friday_13_cron ! nat 0" "cx_minutes friday_13_cron ! nat 30" "cx_hours friday_13_cron ! nat 12" by code_simp+
qed (simp_all add: clock_ok_def instant_def)

text \<open>A second between two of the expression is moved to the later one and kept when the minutes
  move on: the answer is the later second of the minute that is found, and the instant with the
  earlier second, which the expression matches as well, is passed over.\<close>

theorem cron_second_kept:
  assumes "cron_wf cex" "clock_ok h m s" "clock_ok h m' s'" "0 \<le> instant off z h m s"
    and "next_set_bit (cx_seconds cex) (nat s) = Some (nat s')" "s < s'"
    and "next_set_bit (cx_minutes cex) (nat m) = Some (nat m')" "m < m'"
    and "cron_matches cex (localtime off (instant off z h m' s0))" "clock_ok h m' s0" "s0 < s"
  shows "cron_next_tm (zone off) cron_standard_traits cex (localtime off (instant off z h m s)) =
      Some (Inr (localtime off (instant off z h m' s'))) \<and>
    cron_matches cex (localtime off (instant off z h m' s')) \<and>
    instant off z h m s < instant off z h m' s0 \<and> instant off z h m' s0 < instant off z h m' s'"
proof -
  note wf = assms(1) [unfolded cron_wf_def]
  let ?t = "instant off z h m s" and ?u = "instant off z h m' s'"
  have lt: "?t < instant off z h m' s0" "instant off z h m' s0 < ?u"
    using assms(2,3,6,8,10,11) by (auto simp: instant_def clock_ok_def)
  have s': "cx_seconds cex ! nat s'" using assms(5) by (simp add: next_set_bit_Some)
  have u: "cron_matches cex (localtime off ?u)"
    using assms(9) s' unfolding cron_matches_instant [OF assms(3)] cron_matches_instant [OF assms(10)] by simp
  define k1 where "k1 = cyc_next (cx_seconds cex) (?t + off)"
  have t1: "?t + off = 60 * (z * 1440 + h * 60 + m) + s" by (simp add: instant_def)
  have k1: "k1 - off = instant off z h m s'" "k1 mod 60 = s'"
  proof -
    have "(?t + off) mod 60 = s" using assms(2) by simp
    then have "k1 = ?t + off - s + s'" unfolding k1_def cyc_next_def Let_def using wf assms(3,5) by (simp add: clock_ok_def)
    then have k: "k1 = instant off z h m s' + off" by (simp add: instant_def)
    then show "k1 - off = instant off z h m s'" by simp
    have "clock_ok h m s'" using assms(2,3) by (simp add: clock_ok_def)
    then show "k1 mod 60 = s'" unfolding k by simp
  qed
  have c1: "clock_ok h m s'" using assms(2,3) by (simp add: clock_ok_def)
  have p1: "0 \<le> instant off z h m s'" using assms(4,6) by (simp add: instant_def)
  have st: "next_field (zone off) (cx_seconds cex) (localtime off ?t) (to_unsigned s) Second Minute {} =
      Inr (localtime off (instant off z h m s'), Some (nat s'))"
    using second_stage [OF assms(4,2), of "cx_seconds cex", folded k1_def] wf assms(2) k1 by simp
  have ns: "to_unsigned s = nat s" "nat s' \<noteq> nat s" using assms(2,3,6) by (auto simp: clock_ok_def to_unsigned_small)
  define k2 where "k2 = cyc_next (cx_minutes cex) (z * 1440 + h * 60 + m)"
  have k2: "k2 = z * 1440 + h * 60 + m'"
  proof -
    have "(z * 1440 + h * 60 + m) mod 60 = m" using instant_simps(5) [OF assms(2)] .
    then show ?thesis unfolding k2_def cyc_next_def Let_def using wf assms(3,7) by (simp add: clock_ok_def)
  qed
  have sm: "next_field (zone off) (cx_minutes cex) (localtime off (instant off z h m s')) (to_unsigned m) Minute HourOfDay {} =
      Inr (localtime off ?u, Some (nat m'))"
  proof -
    have "k2 \<noteq> z * 1440 + h * 60 + m" "60 * k2 + s' - off = ?u" using k2 assms(8) by (simp_all add: instant_def)
    moreover have "k2 mod 60 = m'" unfolding k2 using instant_simps(5) [OF assms(3)] .
    ultimately show ?thesis using minute_stage [OF p1 c1, of "cx_minutes cex" "{}", folded k2_def] wf c1 by (simp add: instant_simps(5) [OF c1])
  qed
  have nm: "to_unsigned m = nat m" "nat m' \<noteq> nat m" using assms(2,3,8) by (auto simp: clock_ok_def to_unsigned_small)
  have "find_next (zone off) std cex dot (localtime off ?t) = Some (Inr (localtime off ?u, True))" for dot
  proof -
    have "find_next (zone off) std cex dot (localtime off ?t) = minute_part (zone off) std cex dot {} (localtime off (instant off z h m s'))"
      using st ns assms(2) by (subst find_next_parts) (simp add: Let_def mark_def)
    also have "\<dots> = hour_part (zone off) std cex dot {} (localtime off ?u)"
      using sm nm c1 find_next_matched [OF assms(1) u] instant_simps(5) [OF c1, of z]
      by (simp add: minute_part_def Let_def mark_def cong: if_cong)
    finally show ?thesis using hour_part_matched [OF assms(1) u] by simp
  qed
  then show ?thesis using cron_next_found [OF _ assms(4)] lt u by simp
qed

definition two_seconds_cron :: cronexpr where
  "two_seconds_cron = time_cron [10, 30] [5] [0..<24] [0..<31] [0..<12] [0..<7]"

lemma cron_second_kept_witness:
  "cron_next_tm (zone 0) cron_standard_traits two_seconds_cron (localtime 0 (instant 0 0 0 3 20)) =
      Some (Inr (localtime 0 (instant 0 0 0 5 30))) \<and>
    cron_matches two_seconds_cron (localtime 0 (instant 0 0 0 5 30)) \<and>
    instant 0 0 0 3 20 < instant 0 0 0 5 10 \<and> instant 0 0 0 5 10 < instant 0 0 0 5 30"
proof (rule cron_second_kept)
  show "cron_wf two_seconds_cron" by code_simp
  show "next_set_bit (cx_seconds two_seconds_cron) (nat 20) = Some (nat 30)"
    "next_set_bit (cx_minutes two_seconds_cron) (nat 3) = Some (nat 5)" by code_simp+
  show "cron_matches two_seconds_cron (localtime 0 (instant 0 0 0 5 10))" by code_simp
qed (simp_all add: clock_ok_def instant_def)

text \<open>From a day the following month does not have, with an expression for that month alone, the month
  is left out: the answer, if there is one, is after its end, though the expression matches on its first
  day.\<close>

theorem cron_month_skipped:
  assumes "cron_wf cex" "clock_ok h m s" "0 \<le> instant off z h m s"
    and "cx_seconds cex ! nat s" "cx_minutes cex ! nat m" "cx_hours cex ! nat h"
    and "list_all id (cx_days_of_month cex)" "list_all id (cx_days_of_week cex)"
    and "\<not> cx_months cex ! nat (month_no z mod 12)" "cx_months cex ! nat ((month_no z + 1) mod 12)" "month_no z mod 12 < 11"
    and "month_begin (month_no z + 2) - month_begin (month_no z + 1) \<le> z - month_begin (month_no z)"
  defines "n \<equiv> instant off (month_begin (month_no z + 1)) h m s"
  shows "instant off z h m s < n \<and> cron_matches cex (localtime off n) \<and> n < instant off (month_begin (month_no z + 2)) 0 0 0 \<and>
    (\<exists>d. cron_next_tm (zone off) cron_standard_traits cex (localtime off (instant off z h m s)) = Some (Inr d) \<and>
       (d = null_tm \<or> (\<exists>u. instant off (month_begin (month_no z + 2)) 0 0 0 \<le> u \<and> d = localtime off u)))"
proof -
  let ?t = "instant off z h m s" and ?mo = "cx_months cex"
  define k where "k = month_no z"
  let ?u = "instant off (month_begin (k + 2)) 0 0 0"
  note wf = assms(1) [unfolded cron_wf_def]
  have c0: "clock_ok 0 0 0" by (simp add: clock_ok_def)
  have b: "z < month_begin (k + 1)" "month_begin (k + 1) < month_begin (k + 2)"
    unfolding k_def using month_no(2) [of z] month_begin_mono [of "month_no z + 1" "month_no z + 2"] by simp_all
  have lt: "?t < n" "n < ?u" unfolding n_def k_def [symmetric]
    using instant_le [OF b(1) assms(2) assms(2)] instant_le [OF b(2) assms(2) c0] by simp_all
  have days: "day_ok cex y" for y
    using all_bits [OF assms(7), of "y - month_begin (month_no y)"] all_bits [OF assms(8), of "(y + 4) mod 7"] day_in_month [of y] wf
    by (simp add: day_ok_def)
  have mn: "month_no (month_begin (k + 1)) = k + 1" using b(2) by (intro month_noI) (simp_all add: add.assoc)
  have match: "cron_matches cex (localtime off n)"
    unfolding n_def k_def [symmetric] cron_matches_instant [OF assms(2)] mn using assms(4-6,10) days by (simp add: k_def)
  let ?M = "{DayOfMonth, HourOfDay, Minute, Second}"
  define q where "q = k div 12" define r where "r = k mod 12"
  have kq: "k = 12 * q + r" "0 \<le> r" "r < 11" unfolding q_def r_def using assms(11) by (simp_all add: k_def)
  have k1: "(k + 1) div 12 = q \<and> (k + 1) mod 12 = r + 1" using kq by (intro div_mod_unique) auto
  have nb: "\<not> has_bit ?mo k" "has_bit ?mo (k + 1)" using assms(9,10) wf by (simp_all add: has_bit_def k_def)
  have tr: "True \<in> set ?mo" "length ?mo = 12" using wf by simp_all
  have cyc: "cyc_next ?mo k = k + 1"
  proof -
    have "k \<noteq> cyc_next ?mo k" "\<not> k + 1 < cyc_next ?mo k" "k \<le> cyc_next ?mo k"
      using cyc_next(1,5) [OF tr(1), of k] cyc_next(3) [OF tr(1), of k "k + 1"] nb by auto
    then show ?thesis by linarith
  qed
  have ym: "month_no (month_begin (k + 1) + (z - month_begin k)) = k + 2"
  proof (rule month_noI)
    show "month_begin (k + 2) \<le> month_begin (k + 1) + (z - month_begin k)" using assms(12) by (simp add: k_def)
    show "month_begin (k + 1) + (z - month_begin k) < month_begin (k + 2 + 1)"
      using day_in_month(2) [of z] month_begin_mono [of "k + 1" "k + 2"] month_begin_mono [of "k + 2" "k + 2 + 1"] unfolding k_def by simp
  qed
  have st: "next_field (zone off) ?mo (localtime off ?t) (nat (k mod 12)) Month Year ?M = Inr (localtime off ?u, Some (nat ((k + 1) mod 12)))"
  proof -
    have "to_unsigned (tm_mon (localtime off ?t)) = nat (k mod 12)" using assms(2) by (simp add: to_unsigned_field k_def)
    then show ?thesis
      using month_stage [OF assms(3,2) tr(2,1), of ?M] ym cyc k1 unfolding k_def [symmetric] q_def [symmetric] by (auto simp: add.commute [of 2 k])
  qed
  have year: "tm_year (localtime off ?u) \<le> tm_year (localtime off ?t) + 1" "tm_year (localtime off ?t) \<le> tm_year (localtime off ?u)"
  proof -
    have "month_no (month_begin (k + 2)) = k + 2" using month_begin_mono [of "k + 2" "k + 2 + 1"] by (intro month_noI) auto
    then show "tm_year (localtime off ?u) \<le> tm_year (localtime off ?t) + 1" using c0 assms(2) by (simp add: k_def)
    show "tm_year (localtime off ?t) \<le> tm_year (localtime off ?u)" using year_mono [of ?t ?u off] lt by (simp del: local_simps)
  qed
  define dot where "dot = tm_year (localtime off ?t)"
  have near: "\<not> too_far std (localtime off ?u) dot"
    using year unfolding too_far_def dot_def by (auto simp: cron_standard_traits_def simp del: local_simps)
  have "find_next (zone off) std cex dot (localtime off ?t) = find_next (zone off) std cex dot (localtime off ?u)"
  proof -
    have "find_next_day (zone off) std cex M 366 (tm_mday (localtime off ?t)) (tm_wday (localtime off ?t)) (localtime off ?t)
        = Inr (localtime off ?t, tm_mday (localtime off ?t))" for M
      using day_matches_std [OF assms(1), of z] days [of z] assms(2) by (simp add: find_next_day.simps [of "zone off"])
    then have "day_part (zone off) std cex dot {HourOfDay, Minute, Second} (localtime off ?t) = month_part (zone off) std cex dot ?M (localtime off ?t)"
      by (simp add: day_part_def Let_def mark_def del: local_simps)
    moreover have "month_part (zone off) std cex dot ?M (localtime off ?t) = find_next (zone off) std cex dot (localtime off ?u)"
    proof -
      have "to_unsigned (tm_mon (localtime off ?t)) = nat (k mod 12)" using assms(2) by (simp add: to_unsigned_field k_def)
      moreover have "nat ((k + 1) mod 12) \<noteq> nat (k mod 12)" using k1 kq by (simp add: r_def [symmetric])
      ultimately show ?thesis using st near by (simp add: month_part_def Let_def del: local_simps)
    qed
    ultimately show ?thesis
      using second_hit [OF assms(1,2,4)] minute_hit [OF assms(1,2,5)] hour_hit [OF assms(1,2,6)] by simp
  qed
  moreover obtain \<sigma> where \<sigma>: "last_second cex \<sigma>" using last_second_ex [OF assms(1)] by blast
  have "days_open cex" using assms(7) by (simp add: days_open_def)
  then obtain v res where v: "find_next (zone off) std cex dot (localtime off ?u) = Some (Inr (localtime off v, res))" "?u \<le> v"
    using find_next_ok [OF assms(1) _ \<sigma>, of ?u dot off] lt assms(3) year unfolding search_ok_def dot_def by (auto simp del: local_simps)
  ultimately have "find_next (zone off) std cex (tm_year (localtime off ?t)) (localtime off ?t) = Some (Inr (localtime off v, res))"
    unfolding dot_def by simp
  then have "cron_next_tm (zone off) std cex (localtime off ?t) = Some (Inr (if res then localtime off v else null_tm))"
    using v(2) lt assms(3) by (simp add: cron_next_tm_def INVALID_TIME_def del: local_simps)
  then show ?thesis using lt match v(2) unfolding k_def by (auto split: if_splits simp del: local_simps)
qed

definition february_cron :: cronexpr where
  "february_cron = time_cron [0] [0] [0] [0..<31] [1] [0..<7]"

lemma cron_month_skipped_witness:
  "instant 0 30 0 0 0 < instant 0 31 0 0 0 \<and> cron_matches february_cron (localtime 0 (instant 0 31 0 0 0)) \<and>
    instant 0 31 0 0 0 < instant 0 59 0 0 0 \<and>
    (\<exists>d. cron_next_tm (zone 0) cron_standard_traits february_cron (localtime 0 (instant 0 30 0 0 0)) = Some (Inr d) \<and>
       (d = null_tm \<or> (\<exists>u. instant 0 59 0 0 0 \<le> u \<and> d = localtime 0 u)))"
proof -
  have c: "cron_wf february_cron" "list_all id (cx_days_of_month february_cron)" "list_all id (cx_days_of_week february_cron)"
    "cx_seconds february_cron ! nat 0" "cx_minutes february_cron ! nat 0" "cx_hours february_cron ! nat 0"
    "\<not> cx_months february_cron ! nat (month_no 30 mod 12)" "cx_months february_cron ! nat ((month_no 30 + 1) mod 12)"
    by code_simp+
  have m: "month_no 30 mod 12 < 11" "month_begin (month_no 30 + 2) - month_begin (month_no 30 + 1) \<le> 30 - month_begin (month_no 30)"
    "month_begin (month_no 30 + 1) = 31" "month_begin (month_no 30 + 2) = 59"
    by code_simp+
  have "clock_ok 0 0 0" "0 \<le> instant 0 30 0 0 0" by (simp_all add: clock_ok_def instant_def)
  from cron_month_skipped [OF c(1) this c(4-6,2,3,7,8) m(1,2)] show ?thesis unfolding m(3,4) .
qed

end
