(* ===== verification/CronDst.thy ===== *)
theory CronDst
  imports CronLimits
begin

text \<open>
  Why the search is only correct in a time zone of a fixed offset: a zone with one change of the clocks, as the C
  library describes it. A broken-down time says in \<open>tm_isdst\<close> whether summer time is in effect, and \<open>mktime\<close>
  believes it: a positive value takes the fields for summer time, zero for standard time, and only a negative one
  makes it look. The search sets the flag to -1 when it moves the day or the month, and keeps it
  when it moves the hour.
\<close>

text \<open>Standard time with the offset \<open>off\<close> before the instant \<open>change\<close>, summer time from then on.\<close>

definition summer_localtime :: "int \<Rightarrow> int \<Rightarrow> int \<Rightarrow> tm" where
  "summer_localtime off change t =
     (if t < change then localtime off t else (localtime (off + 3600) t)\<lparr>tm_isdst := 1\<rparr>)"

definition summer_mktime :: "int \<Rightarrow> int \<Rightarrow> tm \<Rightarrow> int" where
  "summer_mktime off change d =
     (if tm_isdst d = 0 \<or> tm_isdst d < 0 \<and> mktime off d < change then mktime off d else mktime (off + 3600) d)"

definition summer_zone :: "int \<Rightarrow> int \<Rightarrow> make_time" where
  "summer_zone off change d = (summer_localtime off change (summer_mktime off change d), summer_mktime off change d)"

definition midnight_cron :: cronexpr where
  "midnight_cron = time_cron [0] [0] [0] [0..<31] [0..<12] [0..<7]"

lemma midnight_cron_ok: "cron_wf midnight_cron" "days_open midnight_cron"
  by code_simp+

text \<open>
  Noon of 30 March 2024 in Central Europe, where the clocks go forward in the night after it: the
  next midnight is asked for. Moving the day gives noon of the 31st, in summer time; moving the hour to 0 then keeps
  the flag, so that midnight is taken for summer time and is 23 o'clock of the 30th; and setting the hour, which is
  the last step, gives midnight of the 30th, eleven hours before the instant the search started from. The midnight
  that follows it, of the 31st, is passed over.
\<close>

theorem cron_next_dst:
  "cron_next_tm (summer_zone 3600 1711846800) cron_standard_traits midnight_cron (summer_localtime 3600 1711846800 1711796400) =
     Some (Inr (summer_localtime 3600 1711846800 1711753200)) \<and>
   1711753200 < (1711796400 :: int) \<and>
   cron_matches midnight_cron (summer_localtime 3600 1711846800 1711839600)"
proof -
  let ?mk = "summer_zone 3600 1711846800" and ?noon = "localtime 3600 1711796400" and ?past = "localtime 3600 1711753200"
  have loc: "summer_localtime 3600 1711846800 1711796400 = ?noon" "summer_localtime 3600 1711846800 1711753200 = ?past"
    by (simp_all add: summer_localtime_def)
  have noon: "?noon = localtime 3600 (instant 3600 19812 12 0 0)" by (simp add: instant_def)
  have clock: "clock_ok 12 0 0" by (simp add: clock_ok_def)
  have bits: "cx_seconds midnight_cron ! nat 0" "cx_minutes midnight_cron ! nat 0" by code_simp+
  have past: "cron_matches midnight_cron ?past" by code_simp
  have hour: "next_field ?mk (cx_hours midnight_cron) ?noon 12 HourOfDay DayOfWeek {Minute, Second} = Inr (?past, Some 0)"
    by code_simp
  have "to_unsigned (tm_hour ?noon) = 12" by code_simp
  then have "hour_part ?mk cron_standard_traits midnight_cron dot {Minute, Second} ?noon = Some (Inr (?past, True))" for dot
    using hour find_next_matched [OF midnight_cron_ok(1) past] day_part_matched [OF midnight_cron_ok(1) past]
    by (simp add: hour_part_def Let_def mark_def del: local_simps)
  then have "find_next ?mk cron_standard_traits midnight_cron dot ?noon = Some (Inr (?past, True))" for dot
    unfolding noon second_hit [OF midnight_cron_ok(1) clock bits(1)] minute_hit [OF midnight_cron_ok(1) clock bits(2)] by simp
  moreover have "?mk ?noon = (?noon, 1711796400)" "?mk ?past = (?past, 1711753200)" by code_simp+
  moreover have "cron_matches midnight_cron (summer_localtime 3600 1711846800 1711839600)" by code_simp
  ultimately show ?thesis
    unfolding loc by (simp add: cron_next_tm_def INVALID_TIME_def del: local_simps)
qed

end
