(* ===== verification/StdContainers.thy ===== *)
theory StdContainers
  imports Prelude
begin

text \<open>
  The associative containers of the C++ standard library the repositories keep their entities
  in. A container is the list of its entries in iteration order; its keys are distinct.

  \<^item> \<open>std::map<std::string, V>\<close> (\<open>omap\<close>) iterates in ascending key order, so a new key is
    inserted at its place;
  \<^item> \<open>std::unordered_map<std::string, V>\<close> (\<open>hmap\<close>) iterates in an order the library does not
    specify, which an insertion may change for every entry (a rehash). The insertion of a new
    key takes a \<open>layout\<close>, which encodes any permutation of the entries: a theorem for every
    layout holds for every hash function and every bucket policy.

  Assigning to the key of an existing entry (\<open>m[it->first] = v\<close>, \<open>it->second.f = x\<close>) changes
  its value and nothing else in both containers.
\<close>

type_synonym 'v store = "(string \<times> 'v) list"

definition keys_of :: "'v store \<Rightarrow> string set" where
  "keys_of m = fst ` set m"

definition wf_store :: "'v store \<Rightarrow> bool" where
  "wf_store m \<longleftrightarrow> distinct (map fst m)"

lemma keys_Nil [simp]: "keys_of [] = {}"
  by (simp add: keys_of_def)

lemma keys_Cons [simp]: "keys_of (kv # m) = insert (fst kv) (keys_of m)"
  by (simp add: keys_of_def)

lemma keys_of_memI [intro]: "(k, v) \<in> set m \<Longrightarrow> k \<in> keys_of m"
  by (force simp: keys_of_def)

lemma wf_Cons [simp]: "wf_store (kv # m) \<longleftrightarrow> fst kv \<notin> keys_of m \<and> wf_store m"
  by (simp add: wf_store_def keys_of_def)

definition values_of :: "'v store \<Rightarrow> 'v list" where
  "values_of m = map snd m"

subsection \<open>Changing the value of existing entries\<close>

definition modify :: "string \<Rightarrow> ('v \<Rightarrow> 'v) \<Rightarrow> 'v store \<Rightarrow> 'v store" where
  "modify k f m = map (\<lambda>(k', v). if k' = k then (k', f v) else (k', v)) m"

definition assign :: "string \<Rightarrow> 'v \<Rightarrow> 'v store \<Rightarrow> 'v store" where
  "assign k v m = modify k (\<lambda>_. v) m"

lemma modify_Cons:
  "modify k f ((k', v) # m) = (if k' = k then (k', f v) else (k', v)) # modify k f m"
  by (simp add: modify_def)

lemma map_fst_modify [simp]: "map fst (modify k f m) = map fst m"
  by (induction m) (auto simp: modify_def)

lemma length_modify [simp]: "length (modify k f m) = length m"
  by (simp add: modify_def)

lemma keys_modify [simp]: "keys_of (modify k f m) = keys_of m"
proof -
  have "set (map fst (modify k f m)) = set (map fst m)" by (simp only: map_fst_modify)
  then show ?thesis by (simp only: keys_of_def list.set_map)
qed

lemma wf_modify [simp]: "wf_store (modify k f m) \<longleftrightarrow> wf_store m"
  by (simp add: wf_store_def)

lemma map_of_modify [store_simps]:
  "map_of (modify k f m) k' = (if k' = k then map_option f (map_of m k) else map_of m k')"
  by (induction m) (auto simp: modify_def)

lemma set_modify:
  "set (modify k f m) = (\<lambda>(k', v). (k', if k' = k then f v else v)) ` set m"
  by (auto simp: modify_def image_iff split: prod.splits if_splits) force+

lemma modify_id [simp]: "(\<And>v. (k, v) \<in> set m \<Longrightarrow> f v = v) \<Longrightarrow> modify k f m = m"
  unfolding modify_def by (rule map_idI) auto

lemma modify_absent: "k \<notin> keys_of m \<Longrightarrow> modify k f m = m"
  by (rule modify_id) (auto simp: keys_of_def image_iff)

lemma assign_same [simp]: "wf_store m \<Longrightarrow> map_of m k = Some v \<Longrightarrow> assign k v m = m"
  unfolding assign_def wf_store_def by (rule modify_id) (auto dest: map_of_is_SomeI)

lemma map_of_assign [store_simps]:
  "map_of (assign k v m) k' = (if k' = k then map_option (\<lambda>_. v) (map_of m k) else map_of m k')"
  by (simp add: assign_def store_simps)

lemma assign_simps [simp]:
  "keys_of (assign k v m) = keys_of m" "length (assign k v m) = length m"
  "wf_store (assign k v m) \<longleftrightarrow> wf_store m" "map fst (assign k v m) = map fst m"
  by (simp_all add: assign_def)

lemma map_of_keys: "(map_of m k = None) \<longleftrightarrow> k \<notin> keys_of m"
  by (simp add: map_of_eq_None_iff keys_of_def)

lemma wf_in_map_of: "wf_store m \<Longrightarrow> (k, v) \<in> set m \<longleftrightarrow> map_of m k = Some v"
  by (auto simp: wf_store_def dest: map_of_SomeD)

subsection \<open>Searching: \<open>find_if\<close>, \<open>contains\<close>, \<open>count_if\<close>\<close>

definition find_if :: "(string \<times> 'v \<Rightarrow> bool) \<Rightarrow> 'v store \<Rightarrow> (string \<times> 'v) option" where
  "find_if P m = List.find P m"

definition found :: "(string \<times> 'v \<Rightarrow> bool) \<Rightarrow> 'v store \<Rightarrow> bool" where
  "found P m \<longleftrightarrow> find_if P m \<noteq> None"

definition count_if :: "('a \<Rightarrow> bool) \<Rightarrow> 'a list \<Rightarrow> int" where
  "count_if P xs = int (length (filter P xs))"

lemma found_iff: "found P m \<longleftrightarrow> (\<exists>kv\<in>set m. P kv)"
  by (auto simp: found_def find_if_def find_None_iff')

lemma find_if_SomeD: "find_if P m = Some (k, v) \<Longrightarrow> (k, v) \<in> set m \<and> P (k, v)"
  unfolding find_if_def by (rule find_Some_set)

lemma find_if_key: "wf_store m \<Longrightarrow> find_if (\<lambda>(k', v). k' = k) m = map_option (Pair k) (map_of m k)"
  by (induction m) (auto simp: find_if_def wf_store_def)

lemma find_if_Some_map_of:
  "wf_store m \<Longrightarrow> find_if P m = Some (k, v) \<Longrightarrow> map_of m k = Some v \<and> P (k, v)"
  by (auto dest!: find_if_SomeD simp: wf_in_map_of)

lemma count_if_nonneg [simp]: "0 \<le> count_if P xs"
  by (simp add: count_if_def)

lemma count_if_le: "count_if P xs \<le> int (length xs)"
  by (simp add: count_if_def)

lemma count_if_mset: "count_if P xs = int (size (filter_mset P (mset xs)))"
  by (metis count_if_def mset_filter size_mset)

lemma count_if_zero: "count_if P xs = 0 \<longleftrightarrow> (\<forall>x\<in>set xs. \<not> P x)"
  by (simp add: count_if_def filter_empty_conv)

subsection \<open>\<open>std::erase_if\<close>\<close>

definition erase_if :: "(string \<times> 'v \<Rightarrow> bool) \<Rightarrow> 'v store \<Rightarrow> 'v store \<times> int" where
  "erase_if P m = (filter (\<lambda>x. \<not> P x) m, count_if P m)"

lemma erase_if_store [simp]: "fst (erase_if P m) = filter (\<lambda>x. \<not> P x) m"
  by (simp add: erase_if_def)

lemma erase_if_count [simp]: "snd (erase_if P m) = count_if P m"
  by (simp add: erase_if_def)

lemma wf_filter [simp]: "wf_store m \<Longrightarrow> wf_store (filter P m)"
  by (simp add: wf_store_def distinct_fst_filter)

lemma wf_erase_if [simp]: "wf_store m \<Longrightarrow> wf_store (fst (erase_if P m))"
  by simp

lemma erase_if_balance: "int (length (fst (erase_if P m))) + snd (erase_if P m) = int (length m)"
  using filter_length_partition [of P m] by (simp add: count_if_def)

lemma map_of_erase_if [store_simps]:
  "wf_store m \<Longrightarrow> map_of (fst (erase_if P m)) k =
     (case map_of m k of None \<Rightarrow> None | Some v \<Rightarrow> if P (k, v) then None else Some v)"
  by (simp add: wf_store_def map_of_filter_distinct split: option.splits)

lemma erase_if_none: "(\<And>kv. kv \<in> set m \<Longrightarrow> \<not> P kv) \<Longrightarrow> erase_if P m = (m, 0)"
  by (auto simp: erase_if_def count_if_zero filter_id_conv)

subsection \<open>Insertion\<close>

text \<open>
  What both containers promise about assigning to a key, present or not: the entry is there
  with the value, every other entry is as before, and keys stay distinct.
\<close>

locale assoc_insert =
  fixes ins :: "string \<Rightarrow> 'v \<Rightarrow> 'v store \<Rightarrow> 'v store"
    and invar :: "'v store \<Rightarrow> bool"
  assumes invar_wf: "invar m \<Longrightarrow> wf_store m"
    and invar_ins: "invar m \<Longrightarrow> invar (ins k v m)"
    and map_of_ins: "invar m \<Longrightarrow> map_of (ins k v m) = (map_of m)(k \<mapsto> v)"
    and length_ins: "invar m \<Longrightarrow> length (ins k v m) = (if k \<in> keys_of m then length m else Suc (length m))"
begin

lemma set_ins:
  assumes "invar m" shows "set (ins k v m) = insert (k, v) {kv \<in> set m. fst kv \<noteq> k}"
proof -
  have wf: "wf_store (ins k v m)" "wf_store m"
    using assms by (auto intro: invar_wf invar_ins)
  show ?thesis
    using wf assms by (auto simp: wf_in_map_of map_of_ins split: if_splits)
qed

lemma keys_ins: "invar m \<Longrightarrow> keys_of (ins k v m) = insert k (keys_of m)"
  by (auto simp: keys_of_def set_ins image_iff)

lemma set_ins_fresh: "invar m \<Longrightarrow> k \<notin> keys_of m \<Longrightarrow> set (ins k v m) = insert (k, v) (set m)"
  by (auto simp: set_ins keys_of_def image_iff)

lemma ins_lookup: "invar m \<Longrightarrow> map_of (ins k v m) k = Some v"
  by (simp add: map_of_ins)

lemma ins_mset_fresh:
  assumes "invar m" "k \<notin> keys_of m" shows "mset (ins k v m) = add_mset (k, v) (mset m)"
proof -
  have d: "distinct (ins k v m)" "distinct ((k, v) # m)"
    using assms invar_wf [OF assms(1)] invar_wf [OF invar_ins [OF assms(1), of k v]]
    by (auto simp: wf_store_def distinct_map keys_of_def image_iff)
  then show ?thesis
    using set_ins_fresh [OF assms, of v] by (metis mset.simps(2) list.simps(15) set_eq_iff_mset_eq_distinct)
qed

lemma count_ins_fresh:
  assumes "invar m" "k \<notin> keys_of m"
  shows "count_if P (ins k v m) = count_if P m + (if P (k, v) then 1 else 0)"
  using ins_mset_fresh [OF assms, of v] by (simp add: count_if_mset)

end

subsection \<open>\<open>std::map\<close>\<close>

type_synonym 'v omap = "'v store"

fun omap_insert :: "string \<Rightarrow> 'v \<Rightarrow> 'v omap \<Rightarrow> 'v omap" where
  "omap_insert k v [] = [(k, v)]"
| "omap_insert k v ((k', v') # m) =
     (if k < k' then (k, v) # (k', v') # m
      else if k = k' then (k, v) # m
      else (k', v') # omap_insert k v m)"

definition omap_inv :: "'v omap \<Rightarrow> bool" where
  "omap_inv m \<longleftrightarrow> sorted_wrt (<) (map fst m)"

lemma keys_omap_insert: "keys_of (omap_insert k v m) = insert k (keys_of m)"
  by (induction k v m rule: omap_insert.induct) auto

lemma omap_inv_Nil [simp]: "omap_inv []"
  by (simp add: omap_inv_def)

lemma omap_inv_Cons [simp]: "omap_inv (kv # m) \<longleftrightarrow> (\<forall>x\<in>keys_of m. fst kv < x) \<and> omap_inv m"
  by (simp add: omap_inv_def keys_of_def)

lemma omap_inv_insert: "omap_inv m \<Longrightarrow> omap_inv (omap_insert k v m)"
  by (induction k v m rule: omap_insert.induct)
    (auto simp: keys_omap_insert dest: order.strict_trans)

lemma omap_inv_wf: "omap_inv m \<Longrightarrow> wf_store m"
  by (simp add: omap_inv_def wf_store_def strict_sorted_iff)

lemma map_of_omap_insert: "map_of (omap_insert k v m) = (map_of m)(k \<mapsto> v)"
  by (induction k v m rule: omap_insert.induct) (auto simp: fun_eq_iff)

lemma length_omap_insert:
  "omap_inv m \<Longrightarrow> length (omap_insert k v m) = (if k \<in> keys_of m then length m else Suc (length m))"
  by (induction k v m rule: omap_insert.induct) auto

interpretation om: assoc_insert omap_insert omap_inv
  by unfold_locales
    (auto simp: omap_inv_wf omap_inv_insert map_of_omap_insert length_omap_insert)

lemma omap_inv_filter [simp]: "omap_inv m \<Longrightarrow> omap_inv (filter P m)"
  unfolding omap_inv_def by (induction m) (auto simp: image_iff)

lemma omap_inv_modify [simp]: "omap_inv (modify k f m) \<longleftrightarrow> omap_inv m"
  by (simp add: omap_inv_def)

lemma omap_inv_assign [simp]: "omap_inv (assign k v m) \<longleftrightarrow> omap_inv m"
  by (simp add: omap_inv_def)

lemma omap_insert_present:
  assumes "omap_inv m" "k \<in> keys_of m"
  shows "omap_insert k v m = assign k v m"
  using assms
proof (induction k v m rule: omap_insert.induct)
  case (2 k v k' v' m)
  show ?case
  proof (cases "k = k'")
    case True
    then have "k \<notin> keys_of m" using "2.prems"(1) by auto
    then show ?thesis using True by (simp add: modify_absent assign_def modify_Cons)
  next
    case False
    then have "k \<in> keys_of m" using "2.prems"(2) by simp
    then have "\<not> k < k'" using "2.prems"(1) by auto
    with False 2 show ?thesis by (auto simp: assign_def modify_Cons)
  qed
qed simp

subsection \<open>\<open>std::unordered_map\<close>\<close>

type_synonym 'v hmap = "'v store"
type_synonym layout = "nat list"

definition insert_at :: "nat \<Rightarrow> 'a \<Rightarrow> 'a list \<Rightarrow> 'a list" where
  "insert_at n x xs = take n xs @ x # drop n xs"

fun arrange :: "layout \<Rightarrow> 'a list \<Rightarrow> 'a list" where
  "arrange lay [] = []"
| "arrange [] (x # xs) = x # xs"
| "arrange (n # lay) (x # xs) = insert_at n x (arrange lay xs)"

lemma mset_arrange [simp]: "mset (arrange lay xs) = mset xs"
proof (induction lay xs rule: arrange.induct)
  case (3 n lay x xs)
  have "mset (insert_at n x (arrange lay xs)) = add_mset x (mset (take n (arrange lay xs) @ drop n (arrange lay xs)))"
    by (simp only: insert_at_def mset_append mset.simps) simp
  with 3 show ?case by simp
qed simp_all

lemma set_arrange [simp]: "set (arrange lay xs) = set xs"
  by (rule mset_eq_setD) simp

lemma length_arrange [simp]: "length (arrange lay xs) = length xs"
  by (rule mset_eq_length) simp

text \<open>Every order of the entries is the one of some layout, so no order is left out.\<close>

lemma arrange_complete: "mset ys = mset xs \<Longrightarrow> \<exists>lay. arrange lay xs = ys"
proof (induction xs arbitrary: ys)
  case Nil
  then show ?case by simp
next
  case (Cons x xs)
  then have "x \<in> set ys" by (metis list.set_intros(1) mset_eq_setD)
  then obtain as bs where ys: "ys = as @ x # bs" by (meson split_list)
  with Cons.prems have "mset (as @ bs) = mset xs" by simp
  then obtain lay where "arrange lay xs = as @ bs" using Cons.IH by blast
  then have "arrange (length as # lay) (x # xs) = ys" by (simp add: insert_at_def ys)
  then show ?case by blast
qed

lemma map_of_eqI_set:
  assumes "distinct (map fst xs)" "distinct (map fst ys)" "set xs = set ys"
  shows "map_of xs = map_of ys"
  using assms map_of_inject_set by blast

definition hmap_insert :: "layout \<Rightarrow> string \<Rightarrow> 'v \<Rightarrow> 'v hmap \<Rightarrow> 'v hmap" where
  "hmap_insert lay k v m = (if map_of m k \<noteq> None then assign k v m else arrange lay ((k, v) # m))"

lemma hmap_insert_present: "k \<in> keys_of m \<Longrightarrow> hmap_insert lay k v m = assign k v m"
  by (auto simp: hmap_insert_def map_of_keys)

lemma hmap_insert_fresh: "k \<notin> keys_of m \<Longrightarrow> hmap_insert lay k v m = arrange lay ((k, v) # m)"
  by (simp add: hmap_insert_def map_of_keys)

lemma wf_hmap_insert: "wf_store m \<Longrightarrow> wf_store (hmap_insert lay k v m)"
proof (cases "k \<in> keys_of m")
  case False
  assume wf: "wf_store m"
  have "mset (map fst (arrange lay ((k, v) # m))) = mset (map fst ((k, v) # m))"
    by (metis mset_arrange mset_map)
  moreover have "distinct (map fst ((k, v) # m))"
    using wf False by (auto simp: wf_store_def keys_of_def image_iff)
  ultimately have "distinct (map fst (arrange lay ((k, v) # m)))"
    by (metis mset_eq_imp_distinct_iff)
  with False show ?thesis by (simp add: hmap_insert_fresh wf_store_def)
qed (simp add: hmap_insert_present)

lemma map_of_hmap_insert:
  assumes wf: "wf_store m" shows "map_of (hmap_insert lay k v m) = (map_of m)(k \<mapsto> v)"
proof (cases "k \<in> keys_of m")
  case True
  then obtain w where "map_of m k = Some w" by (cases "map_of m k") (auto simp: map_of_keys)
  with True show ?thesis by (simp add: hmap_insert_present fun_eq_iff store_simps)
next
  case False
  have "wf_store (arrange lay ((k, v) # m))"
    using wf_hmap_insert [OF wf, of lay k v] False by (simp add: hmap_insert_fresh)
  moreover have "wf_store ((k, v) # m)" using wf False by simp
  ultimately have "map_of (arrange lay ((k, v) # m)) = map_of ((k, v) # m)"
    unfolding wf_store_def by (rule map_of_eqI_set) simp_all
  with False show ?thesis by (simp add: hmap_insert_fresh fun_eq_iff)
qed

lemma length_hmap_insert:
  "length (hmap_insert lay k v m) = (if k \<in> keys_of m then length m else Suc (length m))"
  by (simp add: hmap_insert_def map_of_keys)

interpretation hm: assoc_insert "hmap_insert lay" wf_store for lay
  by unfold_locales (simp_all add: wf_hmap_insert map_of_hmap_insert length_hmap_insert)

lemma wf_Nil [simp]: "wf_store []"
  by (simp add: wf_store_def)

end
