(* ===== verification/CoreUtils.thy ===== *)
theory CoreUtils
  imports StringUtils
begin

text \<open>
  The query and paging helpers of \<open>core/include/awsmock/core\<close>: \<open>Linq.h\<close> (\<open>Query\<close>:
  \<open>where\<close>, \<open>select\<close>, \<open>order_by\<close>, \<open>group_by\<close>, \<open>sum\<close>, \<open>count\<close>, \<open>first\<close>, \<open>any\<close>) and
  \<open>PagingUtils.h\<close> (\<open>PageVector\<close>, \<open>PageMap\<close>), and \<open>SortColumn\<close> of the database layer.

  \<open>std::sort\<close> and \<open>std::ranges::sort\<close> are modelled by insertion sort with the code's
  comparator. The library leaves the order of equivalent elements unspecified; insertion sort
  keeps them in input order, and no property of the development relies on that order.
\<close>

record sort_column =
  sc_column :: string
  sc_direction :: int

subsection \<open>Sorting with a comparator\<close>

fun sort_insert :: "('a \<Rightarrow> 'a \<Rightarrow> bool) \<Rightarrow> 'a \<Rightarrow> 'a list \<Rightarrow> 'a list" where
  "sort_insert lt x [] = [x]"
| "sort_insert lt x (y # ys) = (if lt y x then y # sort_insert lt x ys else x # y # ys)"

definition std_sort :: "('a \<Rightarrow> 'a \<Rightarrow> bool) \<Rightarrow> 'a list \<Rightarrow> 'a list" where
  "std_sort lt xs = foldr (sort_insert lt) xs []"

text \<open>What the comparator must be for the sort to be defined: a strict weak order.\<close>

locale strict_weak_order =
  fixes lt :: "'a \<Rightarrow> 'a \<Rightarrow> bool"
  assumes irrefl: "\<not> lt x x"
    and trans: "lt x y \<Longrightarrow> lt y z \<Longrightarrow> lt x z"
    and incomp_trans: "\<not> lt x y \<Longrightarrow> \<not> lt y z \<Longrightarrow> \<not> lt x z"
begin

lemma asym: "lt x y \<Longrightarrow> \<not> lt y x"
  using irrefl trans by blast

lemma set_sort_insert: "set (sort_insert lt x ys) = insert x (set ys)"
  by (induction ys) auto

lemma sorted_sort_insert:
  "sorted_wrt (\<lambda>a b. \<not> lt b a) ys \<Longrightarrow> sorted_wrt (\<lambda>a b. \<not> lt b a) (sort_insert lt x ys)"
proof (induction ys)
  case Nil
  then show ?case by simp
next
  case (Cons y ys)
  show ?case
  proof (cases "lt y x")
    case True
    then show ?thesis using Cons asym [OF True] by (simp add: set_sort_insert)
  next
    case False
    have "\<not> lt z x" if "z \<in> set ys" for z
      using Cons.prems that incomp_trans [of z y x] False by simp
    with False Cons.prems show ?thesis by simp
  qed
qed

lemma sorted_std_sort: "sorted_wrt (\<lambda>a b. \<not> lt b a) (std_sort lt xs)"
  by (induction xs) (auto simp: std_sort_def sorted_sort_insert)

end

lemma mset_sort_insert: "mset (sort_insert lt x ys) = add_mset x (mset ys)"
  by (induction ys) auto

lemma mset_std_sort [simp]: "mset (std_sort lt xs) = mset xs"
  by (induction xs) (auto simp: std_sort_def mset_sort_insert)

lemma set_std_sort [simp]: "set (std_sort lt xs) = set xs"
  by (rule mset_eq_setD) simp

lemma length_std_sort [simp]: "length (std_sort lt xs) = length xs"
  by (rule mset_eq_length) simp

text \<open>The comparators of the code compare a key of the elements, upwards or downwards.\<close>

definition by_key :: "int \<Rightarrow> ('a \<Rightarrow> 'k::linorder) \<Rightarrow> 'a \<Rightarrow> 'a \<Rightarrow> bool" where
  "by_key direction f a b = (if direction = 1 then f a < f b else f b < f a)"

interpretation asc: strict_weak_order "by_key dir f" for dir :: int and f :: "'a \<Rightarrow> 'k::linorder"
  by unfold_locales (auto simp: by_key_def split: if_splits)

lemma sorted_by_key: "sorted_wrt (\<lambda>a b. \<not> by_key dir f b a) (std_sort (by_key dir f) xs)"
  by (rule asc.sorted_std_sort)

lemma std_sort_ascending: "sorted (map f (std_sort (by_key 1 f) xs))"
  using sorted_by_key [of 1 f xs] by (simp add: by_key_def sorted_map not_less)

subsection \<open>Linq.h\<close>

type_synonym 'a query = "'a list"

definition q_where :: "('a \<Rightarrow> bool) \<Rightarrow> 'a query \<Rightarrow> 'a query" where
  "q_where pred data = filter pred data"

definition q_select :: "('a \<Rightarrow> 'b) \<Rightarrow> 'a query \<Rightarrow> 'b query" where
  "q_select mapper data = map mapper data"

definition q_order_by :: "('a \<Rightarrow> 'a \<Rightarrow> bool) \<Rightarrow> 'a query \<Rightarrow> 'a query" where
  "q_order_by lt data = std_sort lt data"

text \<open>\<open>groups[keySelector(item)].push_back(item)\<close>: \<open>operator[]\<close> adds an empty group first.\<close>

fun group_add :: "('a \<Rightarrow> 'k::linorder) \<Rightarrow> 'a \<Rightarrow> ('k \<times> 'a list) list \<Rightarrow> ('k \<times> 'a list) list" where
  "group_add key x [] = [(key x, [x])]"
| "group_add key x ((k, xs) # groups) =
     (if key x < k then (key x, [x]) # (k, xs) # groups
      else if key x = k then (k, xs @ [x]) # groups
      else (k, xs) # group_add key x groups)"

definition q_group_by :: "('a \<Rightarrow> 'k::linorder) \<Rightarrow> 'a query \<Rightarrow> ('k \<times> 'a list) list" where
  "q_group_by key data = foldl (\<lambda>groups x. group_add key x groups) [] data"

definition q_sum :: "int query \<Rightarrow> int" where
  "q_sum data = foldl (+) 0 data"

definition q_count :: "'a query \<Rightarrow> nat" where
  "q_count data = length data"

definition q_first :: "'a query \<Rightarrow> 'a outcome" where
  "q_first data = (case data of [] \<Rightarrow> Inl (RuntimeError ''No elements in query'') | x # _ \<Rightarrow> Inr x)"

definition q_any :: "('a \<Rightarrow> bool) \<Rightarrow> 'a query \<Rightarrow> bool" where
  "q_any pred data = list_ex pred data"

text \<open>The guarded filter of the listings: \<open>if (!key.empty()) q = q.where(...)\<close>.\<close>

definition where_if :: "string \<Rightarrow> ('a \<Rightarrow> bool) \<Rightarrow> 'a query \<Rightarrow> 'a query" where
  "where_if key pred q = (if key \<noteq> [] then q_where pred q else q)"

lemma set_where_if [simp]: "set (where_if key pred q) = {x \<in> set q. key \<noteq> [] \<longrightarrow> pred x}"
  by (auto simp: where_if_def q_where_def)

lemma where_if_empty [simp]: "where_if [] pred q = q"
  by (simp add: where_if_def)

lemma where_if_filter: "where_if key pred q = filter (\<lambda>x. key \<noteq> [] \<longrightarrow> pred x) q"
  by (auto simp: where_if_def q_where_def filter_True)

definition group_of :: "('k \<times> 'a list) list \<Rightarrow> 'k \<Rightarrow> 'a list" where
  "group_of groups k = (case map_of groups k of None \<Rightarrow> [] | Some v \<Rightarrow> v)"

lemma group_of_simps:
  "group_of [] k = []"
  "group_of ((k', v) # gs) k = (if k = k' then v else group_of gs k)"
  by (simp_all add: group_of_def)

lemma keys_group_add: "fst ` set (group_add key x gs) = insert (key x) (fst ` set gs)"
  by (induction key x gs rule: group_add.induct) auto

lemma sorted_group_add:
  "sorted_wrt (<) (map fst gs) \<Longrightarrow> sorted_wrt (<) (map fst (group_add key x gs))"
proof (induction key x gs rule: group_add.induct)
  case (2 key x k xs groups)
  have above: "\<And>y. y \<in> fst ` set groups \<Longrightarrow> k < y" and srt: "sorted_wrt (<) (map fst groups)"
    using "2.prems" by auto
  consider "key x < k" | "key x = k" | "k < key x" by fastforce
  then show ?case
  proof cases
    case 1
    then show ?thesis using above srt by (auto intro: order.strict_trans)
  next
    case 2
    then show ?thesis using above srt by auto
  next
    case 3
    then have c: "\<not> key x < k" "key x \<noteq> k" by auto
    then have "sorted_wrt (<) (map fst (group_add key x groups))" using "2.IH" srt by blast
    moreover have "\<forall>y\<in>fst ` set (group_add key x groups). k < y"
      using 3 above by (simp add: keys_group_add)
    ultimately show ?thesis using c by simp
  qed
qed simp

lemma group_of_absent: "k \<notin> fst ` set gs \<Longrightarrow> group_of gs k = []"
  by (simp add: group_of_def map_of_eq_None_iff [THEN iffD2])

lemma group_of_add:
  "sorted_wrt (<) (map fst gs) \<Longrightarrow>
   group_of (group_add key x gs) k = group_of gs k @ (if k = key x then [x] else [])"
proof (induction key x gs rule: group_add.induct)
  case (1 key x)
  then show ?case by (simp add: group_of_simps)
next
  case (2 key x k' xs groups)
  have "group_of groups (key x) = []" if "key x < k'"
    using "2.prems" that by (intro group_of_absent) (auto dest: order.strict_trans)
  then show ?case
    using 2 by (auto simp: group_of_simps)
qed

lemma q_group_by_sorted: "sorted_wrt (<) (map fst (q_group_by key data))"
  unfolding q_group_by_def
  by (induction data rule: rev_induct) (simp_all add: sorted_group_add)

lemma q_group_by_lookup: "group_of (q_group_by key data) k = filter (\<lambda>x. key x = k) data"
proof (induction data rule: rev_induct)
  case Nil
  then show ?case by (simp add: q_group_by_def group_of_simps)
next
  case (snoc x xs)
  have "q_group_by key (xs @ [x]) = group_add key x (q_group_by key xs)"
    by (simp add: q_group_by_def)
  then show ?case by (simp add: group_of_add q_group_by_sorted snoc.IH)
qed

subsection \<open>PagingUtils.h\<close>

text \<open>
  \<open>pageSize * pageIndex\<close> is a \<open>long\<close> product, whose overflow is undefined; the cast to
  \<open>size_t\<close> takes it modulo \<open>2 ^ 64\<close>. An inverted iterator range is undefined as well.
\<close>

definition long_ok :: "int \<Rightarrow> bool" where
  "long_ok x \<longleftrightarrow> - (2 ^ 63) \<le> x \<and> x < 2 ^ 63"

definition to_size_t :: "int \<Rightarrow> nat" where
  "to_size_t x = nat (x mod 2 ^ 64)"

definition PageVector :: "'a list \<Rightarrow> int \<Rightarrow> int \<Rightarrow> 'a list outcome" where
  "PageVector vec pageSize pageIndex =
     (if pageSize \<le> 0 then Inr vec
      else if \<not> long_ok (pageSize * pageIndex) \<or> \<not> long_ok (pageIndex + 1) \<or> \<not> long_ok (pageSize * (pageIndex + 1))
      then Inl UndefinedBehaviour
      else let startIndex = min (to_size_t (pageSize * pageIndex)) (length vec);
               endIndex = min (to_size_t (pageSize * (pageIndex + 1))) (length vec) in
        if startIndex \<le> endIndex then Inr (take (endIndex - startIndex) (drop startIndex vec))
        else Inl UndefinedBehaviour)"

text \<open>The loop's \<open>constexpr int i = 0\<close> is declared anew for each entry and never counts.\<close>

definition PageMap :: "('k \<times> 'v) list \<Rightarrow> int \<Rightarrow> int \<Rightarrow> ('k \<times> 'v) list" where
  "PageMap m pageSize pageIndex =
     (if m \<noteq> [] then
        filter (\<lambda>_. if pageSize \<ge> 0 then (let i = 0 in i \<ge> pageIndex * pageSize \<and> i < (pageIndex + 1) * pageSize)
                    else True) m
      else m)"

lemma to_size_t_id: "0 \<le> x \<Longrightarrow> x < 2 ^ 63 \<Longrightarrow> to_size_t x = nat x"
  by (simp add: to_size_t_def mod_pos_pos_trivial)

lemma PageVector_all: "pageSize \<le> 0 \<Longrightarrow> PageVector vec pageSize pageIndex = Inr vec"
  by (simp add: PageVector_def)

lemma PageVector_slice:
  assumes "0 < pageSize" "0 \<le> pageIndex" "pageSize * (pageIndex + 1) < 2 ^ 63"
  shows "PageVector vec pageSize pageIndex = Inr (take (nat pageSize) (drop (nat (pageSize * pageIndex)) vec))"
proof -
  have le: "0 \<le> pageSize * pageIndex" "pageSize * pageIndex \<le> pageSize * (pageIndex + 1)"
    using assms by (auto simp: algebra_simps)
  have "pageIndex + 1 \<le> pageSize * (pageIndex + 1)" using assms by (simp add: mult_le_cancel_right1)
  then have ok: "long_ok (pageSize * pageIndex)" "long_ok (pageIndex + 1)" "long_ok (pageSize * (pageIndex + 1))"
    using assms le unfolding long_ok_def by linarith+
  have st: "to_size_t (pageSize * pageIndex) = nat (pageSize * pageIndex)"
    "to_size_t (pageSize * (pageIndex + 1)) = nat (pageSize * pageIndex) + nat pageSize"
    using assms le by (simp_all add: to_size_t_id algebra_simps nat_add_distrib)
  show ?thesis
    using assms(1) ok by (simp add: PageVector_def Let_def st min_def)
qed

text \<open>The pages 0 to \<open>n - 1\<close> of a vector they cover, in order, are the vector.\<close>

lemma take_drop_pages:
  "concat (map (\<lambda>i. take p (drop (p * i) xs)) [0..<n]) = take (p * n) xs"
proof (induction n)
  case 0
  then show ?case by simp
next
  case (Suc n)
  then show ?case by (simp add: take_add [symmetric] algebra_simps)
qed

lemma PageMap_first: "0 < pageSize \<Longrightarrow> PageMap m pageSize 0 = m"
  by (simp add: PageMap_def)

lemma PageMap_later: "0 < pageSize \<Longrightarrow> 0 < pageIndex \<Longrightarrow> PageMap m pageSize pageIndex = []"
  by (auto simp: PageMap_def mult_le_0_iff not_le)

end
