(* ===== verification/EntityRepo.thy ===== *)
theory EntityRepo
  imports StdContainers CoreUtils
begin

text \<open>
  What the in-memory repositories (\<open>db/src/repository/*/*MemoryRepository.cpp\<close>) have in common:
  each keeps its entities in a map from the object id to the entity, finds them by a predicate
  over the entries, and writes the object id into the entity it returns (\<open>it->second.oid =
  it->first\<close>), in place. The repositories are written out operation by operation in their own
  theories, from the predicates, the container and the operations below.

  The entity types meet the repositories in the locale \<open>stamped_entity\<close>: an entity carries its
  object id in a field that can be read and written.
\<close>

subsection \<open>Locks, durations and names of enumerations\<close>

text \<open>\<open>boost::mutex::scoped_lock\<close>: a thread that already holds the mutex blocks for ever.\<close>

definition scoped_lock :: "bool \<Rightarrow> 'a \<Rightarrow> 'a outcome" where
  "scoped_lock held r = (if held then Inl Deadlock else Inr r)"

text \<open>The clock ticks in nanoseconds.\<close>

definition seconds :: "int \<Rightarrow> int" where
  "seconds s = s * 1000000000"

text \<open>\<open>Names[t]\<close> of a missing key is a default-constructed string.\<close>

definition enum_to_string :: "('e \<times> string) list \<Rightarrow> 'e \<Rightarrow> string" where
  "enum_to_string names t = (case map_of names t of Some s \<Rightarrow> s | None \<Rightarrow> [])"

definition enum_from_string :: "('e \<times> string) list \<Rightarrow> 'e \<Rightarrow> string \<Rightarrow> 'e" where
  "enum_from_string names unknown s =
     (case List.find (\<lambda>(t, n). n = s) names of Some (t, _) \<Rightarrow> t | None \<Rightarrow> unknown)"

text \<open>The loops that rewrite the matching entries and count them.\<close>

definition rewrite_matching :: "(string \<times> 'v \<Rightarrow> bool) \<Rightarrow> ('v \<Rightarrow> 'v) \<Rightarrow> 'v store \<Rightarrow> 'v store \<times> int" where
  "rewrite_matching P f m = (map (\<lambda>(k, v). if P (k, v) then (k, f v) else (k, v)) m, count_if P m)"

text \<open>\<open>find_if\<close> with a predicate that may throw; the search stops at the first match.\<close>

fun find_or_throw :: "('v \<Rightarrow> bool outcome) \<Rightarrow> 'v store \<Rightarrow> bool outcome" where
  "find_or_throw P [] = Inr False"
| "find_or_throw P ((_, v) # rest) =
     (case P v of Inl e \<Rightarrow> Inl e | Inr True \<Rightarrow> Inr True | Inr False \<Rightarrow> find_or_throw P rest)"

subsection \<open>Entities that carry their object id\<close>

locale stamped_entity =
  fixes oid_of :: "'e \<Rightarrow> string" and set_oid :: "string \<Rightarrow> 'e \<Rightarrow> 'e"
  assumes oid_set: "oid_of (set_oid k e) = k"
    and set_set: "set_oid k (set_oid j e) = set_oid k e"
    and set_same: "set_oid (oid_of e) e = e"

text \<open>Every entity's \<open>oid\<close> field is the key it is stored under.\<close>

definition all_stamped :: "('e \<Rightarrow> string) \<Rightarrow> 'e store \<Rightarrow> bool" where
  "all_stamped oid_of m \<longleftrightarrow> (\<forall>(k, e)\<in>set m. oid_of e = k)"

subsection \<open>Lookups that stamp\<close>

text \<open>
  \<open>find_if\<close>, then \<open>it->second.oid = it->first; return it->second;\<close>, and a default-constructed
  entity (\<open>return {};\<close>) or an exception when nothing is found.
\<close>

definition stamp_found :: "(string \<Rightarrow> 'e \<Rightarrow> 'e) \<Rightarrow> (string \<times> 'e \<Rightarrow> bool) \<Rightarrow> 'e store \<Rightarrow> ('e store \<times> 'e) option" where
  "stamp_found set_oid P m =
     (case find_if P m of
        Some (k, e) \<Rightarrow> Some (assign k (set_oid k e) m, set_oid k e)
      | None \<Rightarrow> None)"

definition get_or :: "'e \<Rightarrow> (string \<Rightarrow> 'e \<Rightarrow> 'e) \<Rightarrow> (string \<times> 'e \<Rightarrow> bool) \<Rightarrow> 'e store \<Rightarrow> 'e store \<times> 'e" where
  "get_or dflt set_oid P m =
     (case stamp_found set_oid P m of Some r \<Rightarrow> r | None \<Rightarrow> (m, dflt))"

definition get_or_throw :: "fault \<Rightarrow> (string \<Rightarrow> 'e \<Rightarrow> 'e) \<Rightarrow> (string \<times> 'e \<Rightarrow> bool) \<Rightarrow> 'e store \<Rightarrow> ('e store \<times> 'e) outcome" where
  "get_or_throw err set_oid P m =
     (case stamp_found set_oid P m of Some r \<Rightarrow> Inr r | None \<Rightarrow> Inl err)"

text \<open>\<open>find_if\<close>, then \<open>_m[it->first] = e; return _m[it->first];\<close>.\<close>

definition replace_found :: "(string \<times> 'e \<Rightarrow> bool) \<Rightarrow> 'e \<Rightarrow> 'e store \<Rightarrow> ('e store \<times> 'e) option" where
  "replace_found P e m =
     (case find_if P m of Some (k, _) \<Rightarrow> Some (assign k e m, e) | None \<Rightarrow> None)"

text \<open>\<open>find_if\<close>, then fields of \<open>it->second\<close> are written.\<close>

definition modify_found :: "(string \<times> 'e \<Rightarrow> bool) \<Rightarrow> ('e \<Rightarrow> 'e) \<Rightarrow> 'e store \<Rightarrow> ('e store \<times> 'e) option" where
  "modify_found P f m =
     (case find_if P m of Some (k, e) \<Rightarrow> Some (modify k f m, f e) | None \<Rightarrow> None)"

text \<open>\<open>if (it == end()) throw DatabaseException(msg)\<close>.\<close>

definition or_throw :: "string \<Rightarrow> 'a option \<Rightarrow> 'a outcome" where
  "or_throw msg r = (case r of Some x \<Rightarrow> Inr x | None \<Rightarrow> Inl (DatabaseException msg))"

lemma stamp_found_None: "stamp_found set_oid P m = None \<longleftrightarrow> \<not> found P m"
  by (auto simp: stamp_found_def found_def split: option.splits)

lemma replace_found_None: "replace_found P e m = None \<longleftrightarrow> \<not> found P m"
  by (auto simp: replace_found_def found_def split: option.splits)

lemma modify_found_None: "modify_found P f m = None \<longleftrightarrow> \<not> found P m"
  by (auto simp: modify_found_def found_def split: option.splits)

lemma stamp_found_SomeD:
  assumes "stamp_found set_oid P m = Some (m', e')" "wf_store m"
  shows "\<exists>k e. map_of m k = Some e \<and> P (k, e) \<and> e' = set_oid k e \<and> m' = assign k e' m
     \<and> map_of m' = (map_of m)(k \<mapsto> e')"
proof -
  obtain k e where f: "find_if P m = Some (k, e)" and m': "m' = assign k (set_oid k e) m" "e' = set_oid k e"
    using assms(1) by (auto simp: stamp_found_def split: option.splits)
  have "map_of m k = Some e \<and> P (k, e)" using find_if_Some_map_of [OF assms(2) f] .
  then show ?thesis by (auto simp: m' store_simps fun_eq_iff)
qed

lemma replace_found_SomeD:
  assumes "replace_found P e m = Some (m', e')" "wf_store m"
  shows "e' = e \<and> (\<exists>k old. map_of m k = Some old \<and> P (k, old) \<and> map_of m' = (map_of m)(k \<mapsto> e)
     \<and> m' = assign k e m)"
proof -
  obtain k old where f: "find_if P m = Some (k, old)" and m': "m' = assign k e m" "e' = e"
    using assms(1) by (auto simp: replace_found_def split: option.splits)
  have "map_of m k = Some old \<and> P (k, old)" using find_if_Some_map_of [OF assms(2) f] .
  then show ?thesis by (auto simp: m' store_simps fun_eq_iff)
qed

lemma modify_found_SomeD:
  assumes "modify_found P f m = Some (m', e')" "wf_store m"
  shows "\<exists>k e. map_of m k = Some e \<and> P (k, e) \<and> e' = f e \<and> map_of m' = (map_of m)(k \<mapsto> e')
     \<and> m' = modify k f m"
proof -
  obtain k e where f: "find_if P m = Some (k, e)" and m': "m' = modify k f m" "e' = f e"
    using assms(1) by (auto simp: modify_found_def split: option.splits)
  have "map_of m k = Some e \<and> P (k, e)" using find_if_Some_map_of [OF assms(2) f] .
  then show ?thesis by (auto simp: m' store_simps fun_eq_iff)
qed

text \<open>None of them adds or removes an entry.\<close>

lemma stamp_found_keys: "stamp_found set_oid P m = Some (m', e) \<Longrightarrow> map fst m' = map fst m"
  by (auto simp: stamp_found_def split: option.splits)

lemma replace_found_keys: "replace_found P e m = Some (m', e') \<Longrightarrow> map fst m' = map fst m"
  by (auto simp: replace_found_def split: option.splits)

lemma modify_found_keys: "modify_found P f m = Some (m', e') \<Longrightarrow> map fst m' = map fst m"
  by (auto simp: modify_found_def split: option.splits)

lemma wf_of_keys: "map fst m' = map fst m \<Longrightarrow> wf_store m' \<longleftrightarrow> wf_store m"
  by (simp add: wf_store_def)

lemma keys_of_keys: "map fst m' = map fst m \<Longrightarrow> keys_of m' = keys_of m"
  by (metis keys_of_def list.set_map)

lemma get_or_keys: "map fst (fst (get_or dflt set_oid P m)) = map fst m"
  by (auto simp: get_or_def dest: stamp_found_keys split: option.splits)

lemma wf_get_or [simp]: "wf_store (fst (get_or dflt set_oid P m)) \<longleftrightarrow> wf_store m"
  by (rule wf_of_keys [OF get_or_keys])

lemma absent_None:
  "\<not> found P m \<Longrightarrow> stamp_found set_oid P m = None"
  "\<not> found P m \<Longrightarrow> replace_found P e m = None"
  "\<not> found P m \<Longrightarrow> modify_found P f m = None"
  by (simp_all add: stamp_found_None replace_found_None modify_found_None)

lemma get_or_absent: "\<not> found P m \<Longrightarrow> get_or dflt set_oid P m = (m, dflt)"
  by (simp add: get_or_def absent_None)

lemma get_or_throw_absent: "\<not> found P m \<Longrightarrow> get_or_throw err set_oid P m = Inl err"
  by (simp add: get_or_throw_def absent_None)

lemma get_or_throw_error: "get_or_throw err set_oid P m = Inl e \<longleftrightarrow> e = err \<and> \<not> found P m"
  using stamp_found_None [of set_oid P m]
  by (cases "stamp_found set_oid P m") (auto simp: get_or_throw_def)

lemma all_stamped_filter: "all_stamped oid m \<Longrightarrow> all_stamped oid (filter P m)"
  by (auto simp: all_stamped_def)

lemma all_stamped_modify:
  "all_stamped oid m \<Longrightarrow> (\<And>e. oid (f e) = oid e) \<Longrightarrow> all_stamped oid (modify k f m)"
  by (auto simp: all_stamped_def set_modify split: if_splits)

lemma all_stamped_assign:
  "all_stamped oid m \<Longrightarrow> oid e = k \<Longrightarrow> all_stamped oid (assign k e m)"
  by (auto simp: all_stamped_def assign_def set_modify)

lemma all_stamped_Nil [simp]: "all_stamped oid []"
  by (simp add: all_stamped_def)

lemma all_stamped_arrange [simp]: "all_stamped oid (arrange lay m) \<longleftrightarrow> all_stamped oid m"
  by (simp add: all_stamped_def)

lemma all_stamped_hmap_insert:
  "all_stamped oid m \<Longrightarrow> oid e = k \<Longrightarrow> all_stamped oid (hmap_insert lay k e m)"
  unfolding hmap_insert_def
  by (simp add: all_stamped_assign) (simp add: all_stamped_def)

lemma all_stamped_omap_insert:
  "omap_inv m \<Longrightarrow> all_stamped oid m \<Longrightarrow> oid e = k \<Longrightarrow> all_stamped oid (omap_insert k e m)"
  by (auto simp: all_stamped_def om.set_ins)

subsection \<open>Loops that write through \<open>m[e.oid]\<close>\<close>

text \<open>
  \<open>for (e : values(m)) m[e.oid].f = ...\<close>: each entry in turn, by its key, writes the entry its
  object id names. For an id that is no key, \<open>operator[]\<close> of an \<open>unordered_map\<close> inserts into the
  map under iteration: a rehash invalidates the iterator, so the step is undefined.
\<close>

fun index_loop :: "('e \<Rightarrow> string) \<Rightarrow> ('e \<Rightarrow> 'e \<Rightarrow> 'e) \<Rightarrow> string list \<Rightarrow> 'e store \<Rightarrow> 'e store outcome" where
  "index_loop oid_of write [] m = Inr m"
| "index_loop oid_of write (k # ks) m =
     (case map_of m k of
        None \<Rightarrow> index_loop oid_of write ks m
      | Some e \<Rightarrow>
          (if map_of m (oid_of e) = None then Inl UndefinedBehaviour
           else index_loop oid_of write ks (modify (oid_of e) (write e) m)))"

text \<open>It fails exactly when an entity it visits carries an object id that is no key.\<close>

lemma index_loop_error:
  assumes oid: "\<And>e x. oid_of (write e x) = oid_of x"
  shows "index_loop oid_of write ks m = Inl UndefinedBehaviour \<longleftrightarrow>
     (\<exists>k\<in>set ks. \<exists>e. map_of m k = Some e \<and> oid_of e \<notin> keys_of m)"
proof (induction ks arbitrary: m)
  case Nil
  then show ?case by simp
next
  case (Cons k ks)
  show ?case
  proof (cases "map_of m k")
    case None
    then show ?thesis using Cons by simp
  next
    case (Some e)
    let ?m = "modify (oid_of e) (write e) m"
    have "(\<exists>x. map_of ?m j = Some x \<and> oid_of x \<notin> keys_of ?m) \<longleftrightarrow> (\<exists>x. map_of m j = Some x \<and> oid_of x \<notin> keys_of m)" for j
      by (cases "j = oid_of e"; cases "map_of m (oid_of e)") (simp_all add: store_simps oid)
    then show ?thesis using Some Cons [of ?m] by (simp add: map_of_keys)
  qed
qed

text \<open>A loop that ends keeps the keys, and every field that a single write keeps.\<close>

lemma index_loop_keeps:
  assumes "index_loop oid_of write ks m = Inr m'"
  shows "map fst m' = map fst m"
    and "(\<And>e x. f (write e x) = f x) \<Longrightarrow> (k, e') \<in> set m' \<Longrightarrow> \<exists>e. (k, e) \<in> set m \<and> f e' = f e"
proof -
  have "map fst m' = map fst m \<and> ((\<forall>e x. f (write e x) = f x) \<longrightarrow> (\<forall>k e'. (k, e') \<in> set m' \<longrightarrow> (\<exists>e. (k, e) \<in> set m \<and> f e' = f e)))"
    using assms
  proof (induction ks arbitrary: m)
    case (Cons k ks)
    show ?case
    proof (cases "map_of m k")
      case None
      then show ?thesis using Cons by simp
    next
      case (Some e)
      let ?m = "modify (oid_of e) (write e) m"
      have l: "index_loop oid_of write ks ?m = Inr m'" using Cons.prems Some by (simp split: if_splits)
      have "\<exists>e1. (j, e1) \<in> set m \<and> f e2 = f e1" if "(j, e2) \<in> set ?m" "\<forall>e x. f (write e x) = f x" for j e2
        using that unfolding set_modify by auto
      then show ?thesis using Cons.IH [OF l] by simp metis
    qed
  qed auto
  then show "map fst m' = map fst m"
    and "(\<And>e x. f (write e x) = f x) \<Longrightarrow> (k, e') \<in> set m' \<Longrightarrow> \<exists>e. (k, e) \<in> set m \<and> f e' = f e"
    by blast+
qed

text \<open>On a stamped store every visited entity is rewritten once, from its own fields.\<close>

lemma index_loop_stamped:
  assumes oid: "\<And>e x. oid_of (write e x) = oid_of x"
    and "wf_store m" "all_stamped oid_of m" "distinct ks"
  shows "\<exists>m'. index_loop oid_of write ks m = Inr m' \<and> map fst m' = map fst m
    \<and> (\<forall>k. map_of m' k = map_option (\<lambda>e. if k \<in> set ks then write e e else e) (map_of m k))"
  using assms(2-4)
proof (induction ks arbitrary: m)
  case Nil
  then show ?case by (simp add: option.map_id0 [unfolded id_def])
next
  case (Cons k ks)
  show ?case
  proof (cases "map_of m k")
    case None
    obtain m' where m': "index_loop oid_of write ks m = Inr m'" "map fst m' = map fst m"
      "\<And>j. map_of m' j = map_option (\<lambda>e. if j \<in> set ks then write e e else e) (map_of m j)"
      using Cons by auto
    moreover have "map_of m' j = map_option (\<lambda>e. if j \<in> set (k # ks) then write e e else e) (map_of m j)" for j
      using m'(3) [of j] None by (cases "j = k") auto
    ultimately show ?thesis using None by (intro exI [of _ m']) simp
  next
    case (Some e)
    have ek: "oid_of e = k" using Cons.prems Some by (auto simp: all_stamped_def dest: map_of_SomeD)
    let ?m = "modify k (write e) m"
    have "wf_store ?m" "all_stamped oid_of ?m" "distinct ks" "k \<notin> set ks"
      using Cons.prems by (auto intro: all_stamped_modify simp: oid)
    then obtain m' where l: "index_loop oid_of write ks ?m = Inr m'" "map fst m' = map fst ?m"
      and lk: "\<And>j. map_of m' j = map_option (\<lambda>e. if j \<in> set ks then write e e else e) (map_of ?m j)"
      using Cons.IH [of ?m] by blast
    have "index_loop oid_of write (k # ks) m = Inr m'" using l(1) Some by (simp add: ek)
    then show ?thesis
      using l(2) Some \<open>k \<notin> set ks\<close> lk by (intro exI [of _ m']) (auto simp: store_simps)
  qed
qed

context stamped_entity
begin

lemma stamp_found_stamped:
  assumes "wf_store m" "all_stamped oid_of m"
  shows "stamp_found set_oid P m = map_option (\<lambda>(k, e). (m, e)) (find_if P m)"
proof (cases "find_if P m")
  case None
  then show ?thesis by (simp add: stamp_found_def)
next
  case (Some ke)
  obtain k e where ke: "ke = (k, e)" by (cases ke)
  have mem: "(k, e) \<in> set m" using find_if_SomeD [of P m k e] Some ke by simp
  then have "set_oid k e = e" using assms(2) set_same by (auto simp: all_stamped_def)
  moreover have "assign k e m = m" using assms(1) mem by (simp add: wf_in_map_of)
  ultimately show ?thesis by (simp add: stamp_found_def Some ke)
qed

text \<open>On a stamped store a lookup is a pure read.\<close>

lemma get_or_stamped:
  assumes "wf_store m" "all_stamped oid_of m"
  shows "get_or dflt set_oid P m = (m, case find_if P m of None \<Rightarrow> dflt | Some (k, e) \<Rightarrow> e)"
  by (simp add: get_or_def stamp_found_stamped [OF assms] split: option.splits prod.splits)

lemma get_or_throw_stamped:
  assumes "wf_store m" "all_stamped oid_of m"
  shows "get_or_throw err set_oid P m =
    (case find_if P m of None \<Rightarrow> Inl err | Some (k, e) \<Rightarrow> Inr (m, e))"
  by (simp add: get_or_throw_def stamp_found_stamped [OF assms] split: option.splits prod.splits)

lemma stamp_found_preserves: "all_stamped oid_of m \<Longrightarrow> stamp_found set_oid P m = Some (m', e) \<Longrightarrow> all_stamped oid_of m'"
  by (auto simp: stamp_found_def oid_set intro: all_stamped_assign split: option.splits)

lemma get_or_preserves: "all_stamped oid_of m \<Longrightarrow> all_stamped oid_of (fst (get_or dflt set_oid P m))"
  by (auto simp: get_or_def dest: stamp_found_preserves split: option.splits)

lemma stamp_found_oid:
  "wf_store m \<Longrightarrow> stamp_found set_oid P m = Some (m', e) \<Longrightarrow> map_of m' (oid_of e) = Some e"
  using oid_set by (fastforce dest: stamp_found_SomeD)

lemma stamp_by_key:
  assumes "wf_store m" "map_of m k = Some e"
  shows "stamp_found set_oid (\<lambda>(k', _). k' = k) m = Some (assign k (set_oid k e) m, set_oid k e)"
  using assms by (simp add: stamp_found_def find_if_key)

end

end
