(* ===== verification/AwsUtils.thy ===== *)
theory AwsUtils
  imports CoreUtils
begin

text \<open>
  Amazon resource names and queue URLs (\<open>core/src/utils/AwsUtils.cpp\<close>,
  \<open>core/include/awsmock/core/AwsUtils.h\<close>): building them, recognising them, and converting
  between names, ARNs and URLs. The host name and the configuration values the conversions read
  are the record \<open>aws_config\<close>. \<open>boost::split\<close> is third-party code and a parameter; what the
  code relies on (its documented behaviour) is the locale \<open>boost_split\<close>. The two regular
  expressions are ECMAScript patterns of \<open>std::regex\<close>, in which \<open>.\<close> is any character but a line
  terminator.
\<close>

record aws_config =
  cfg_region :: string
  cfg_http_port :: string
  cfg_hostname :: string
  cfg_account_id :: string

fun split_any :: "(char \<Rightarrow> bool) \<Rightarrow> string \<Rightarrow> string list" where
  "split_any P [] = [[]]"
| "split_any P (c # cs) =
     (if P c then [] # split_any P cs
      else (case split_any P cs of [] \<Rightarrow> [[c]] | w # ws \<Rightarrow> (c # w) # ws))"

locale boost_split =
  fixes split :: "string \<Rightarrow> string \<Rightarrow> string list"
  assumes split_eq: "split s delim = split_any (\<lambda>c. c \<in> set delim) s"

definition split_model :: "string \<Rightarrow> string \<Rightarrow> string list" where
  "split_model s delim = split_any (\<lambda>c. c \<in> set delim) s"

interpretation bs: boost_split split_model
  by unfold_locales (simp add: split_model_def)

lemma split_any_nonempty [simp]: "split_any P s \<noteq> []"
  by (induction s) (auto split: list.splits)

lemma split_any_append:
  "P d \<Longrightarrow> \<forall>c\<in>set w. \<not> P c \<Longrightarrow> split_any P (w @ d # s) = w # split_any P s"
  by (induction w) auto

lemma split_any_word: "\<forall>c\<in>set w. \<not> P c \<Longrightarrow> split_any P w = [w]"
  by (induction w) auto

definition CreateArn :: "string \<Rightarrow> string \<Rightarrow> string \<Rightarrow> string \<Rightarrow> string" where
  "CreateArn service region accountId resourceId =
     ''arn:aws:'' @ service @ '':'' @ region @ '':'' @ accountId @ '':'' @ resourceId"

definition CreateSQSQueueArn :: "string \<Rightarrow> string \<Rightarrow> string \<Rightarrow> string" where
  "CreateSQSQueueArn region accountId queueName = CreateArn ''sqs'' region accountId queueName"

definition CreateS3BucketArn :: "string \<Rightarrow> string \<Rightarrow> string \<Rightarrow> string" where
  "CreateS3BucketArn region accountId bucket = CreateArn ''s3'' region accountId bucket"

definition CreateS3ObjectArn :: "string \<Rightarrow> string \<Rightarrow> string \<Rightarrow> string \<Rightarrow> string" where
  "CreateS3ObjectArn region accountId bucket key = CreateArn ''s3'' region accountId (bucket @ ''/'' @ key)"

definition CreateLambdaArn :: "string \<Rightarrow> string \<Rightarrow> string \<Rightarrow> string" where
  "CreateLambdaArn region accountId function = CreateArn ''lambda'' region accountId (''function:'' @ function)"

definition ConvertLambdaNameToArn :: "string \<Rightarrow> string \<Rightarrow> string \<Rightarrow> string" where
  "ConvertLambdaNameToArn region accountId functionName =
     CreateArn ''lambda'' region accountId (''function:'' @ functionName)"

definition CreateSNSTopicArn :: "string \<Rightarrow> string \<Rightarrow> string \<Rightarrow> string" where
  "CreateSNSTopicArn region accountId topicName = CreateArn ''sns'' region accountId topicName"

definition CreateSNSSubscriptionArn :: "uuid \<Rightarrow> string \<Rightarrow> string \<Rightarrow> string \<Rightarrow> string" where
  "CreateSNSSubscriptionArn random region accountId topicName =
     CreateArn ''sns'' region accountId (topicName @ '':'' @ random)"

definition CreateSSMParameterArn :: "string \<Rightarrow> string \<Rightarrow> string \<Rightarrow> string" where
  "CreateSSMParameterArn region accountId name = CreateArn ''ssm'' region accountId name"

definition CreateTransferArn :: "string \<Rightarrow> string \<Rightarrow> string \<Rightarrow> string" where
  "CreateTransferArn region accountId serverId = CreateArn ''transfer'' region accountId (''manager/'' @ serverId)"

definition CreateTransferUserArn :: "string \<Rightarrow> string \<Rightarrow> string \<Rightarrow> string \<Rightarrow> string" where
  "CreateTransferUserArn region accountId serverId userName =
     CreateArn ''transfer'' region accountId (serverId @ ''/'' @ userName)"

definition CreateSecretArn :: "string \<Rightarrow> string \<Rightarrow> string \<Rightarrow> string" where
  "CreateSecretArn region accountId secretId =
     CreateArn ''secretsmanager'' region accountId (''secret:'' @ secretId)"

definition CreateKMSKeyArn :: "string \<Rightarrow> string \<Rightarrow> string \<Rightarrow> string" where
  "CreateKMSKeyArn region accountId kmsId = CreateArn ''kms'' region accountId (''key/'' @ kmsId)"

definition CreateDynamoDbTableArn :: "string \<Rightarrow> string \<Rightarrow> string" where
  "CreateDynamoDbTableArn accountId tableName = CreateArn ''dynamodb'' ''ddblocal'' accountId (''table/'' @ tableName)"

definition CreateCognitoUserPoolArn :: "string \<Rightarrow> string \<Rightarrow> string \<Rightarrow> string" where
  "CreateCognitoUserPoolArn region accountId userPoolId = CreateArn ''cognito-idp'' region accountId userPoolId"

definition CreateCognitoUserPoolId :: "string \<Rightarrow> string \<Rightarrow> string" where
  "CreateCognitoUserPoolId random region = region @ ''_'' @ random"

definition line_terminator :: "char \<Rightarrow> bool" where
  "line_terminator c \<longleftrightarrow> byte c = 10 \<or> byte c = 13"

definition arn_char :: "char \<Rightarrow> bool" where
  "arn_char c \<longleftrightarrow> islower c \<or> isdigit c \<or> c = CHR ''-''"

text \<open>The pattern \<open>^arn:(aws|aws-cn|aws-us-gov):[a-z0-9-]+:[a-z0-9-]*:(\d{12})?:.+$\<close>, part by part.\<close>

definition IsArn :: "string \<Rightarrow> bool" where
  "IsArn value =
     (case split_any (\<lambda>c. c = CHR '':'') value of
        p0 # p1 # p2 # p3 # p4 # rest \<Rightarrow>
          p0 = ''arn'' \<and> p1 \<in> {''aws'', ''aws-cn'', ''aws-us-gov''}
          \<and> p2 \<noteq> [] \<and> list_all arn_char p2 \<and> list_all arn_char p3
          \<and> (p4 = [] \<or> (length p4 = 12 \<and> list_all isdigit p4))
          \<and> rest \<noteq> [] \<and> rest \<noteq> [[]]
          \<and> list_all (list_all (\<lambda>c. \<not> line_terminator c)) rest
      | _ \<Rightarrow> False)"

text \<open>The pattern \<open>^https?:\/\/.*$\<close>.\<close>

definition IsUrl :: "string \<Rightarrow> bool" where
  "IsUrl value \<longleftrightarrow>
     (prefix ''http://'' value \<and> list_all (\<lambda>c. \<not> line_terminator c) (drop 7 value))
     \<or> (prefix ''https://'' value \<and> list_all (\<lambda>c. \<not> line_terminator c) (drop 8 value))"

text \<open>\<open>s.substr(s.rfind(c) + 1)\<close>: with no \<open>c\<close>, \<open>npos + 1\<close> is 0 and the whole string remains.\<close>

definition after_last :: "char \<Rightarrow> string \<Rightarrow> string" where
  "after_last d s = rev (takeWhile (\<lambda>c. c \<noteq> d) (rev s))"

definition ConvertSQSQueueArnToName :: "(string \<Rightarrow> string \<Rightarrow> string list) \<Rightarrow> string \<Rightarrow> string" where
  "ConvertSQSQueueArnToName split input =
     (if IsArn input then
        (let parts = split input '':'' in if length parts < 6 then [] else parts ! 5)
      else [])"

definition ConvertSQSQueueArnToUrl :: "(string \<Rightarrow> string \<Rightarrow> string list) \<Rightarrow> aws_config \<Rightarrow> string \<Rightarrow> string" where
  "ConvertSQSQueueArnToUrl split cfg input =
     (if input = [] then []
      else if IsUrl input then input
      else if IsArn input then
        (let parts = split input '':'' in
         if length parts < 6 then []
         else ''http://sqs.'' @ cfg_region cfg @ ''.'' @ cfg_hostname cfg @ '':'' @ cfg_http_port cfg
              @ ''/'' @ parts ! 4 @ ''/'' @ parts ! 5)
      else [])"

definition ConvertToArn :: "aws_config \<Rightarrow> string \<Rightarrow> string \<Rightarrow> string" where
  "ConvertToArn cfg region input =
     (if IsUrl input then CreateArn ''sqs'' region (cfg_account_id cfg) (after_last CHR ''/'' input)
      else if IsArn input then input
      else CreateSQSQueueArn region (cfg_account_id cfg) input)"

definition ConvertSQSQueueUrlToName :: "string \<Rightarrow> string" where
  "ConvertSQSQueueUrlToName queueUrl = after_last CHR ''/'' queueUrl"

lemmas arn_defs = CreateArn_def CreateSQSQueueArn_def CreateS3BucketArn_def CreateS3ObjectArn_def
  CreateLambdaArn_def ConvertLambdaNameToArn_def CreateSNSTopicArn_def CreateSNSSubscriptionArn_def
  CreateSSMParameterArn_def CreateTransferArn_def CreateTransferUserArn_def CreateSecretArn_def
  CreateKMSKeyArn_def CreateDynamoDbTableArn_def CreateCognitoUserPoolArn_def

subsection \<open>What the conversions promise\<close>

text \<open>A name that can stand in an ARN, and an account id as the pattern wants it.\<close>

definition plain_name :: "string \<Rightarrow> bool" where
  "plain_name s \<longleftrightarrow> s \<noteq> [] \<and> list_all (\<lambda>c. c \<notin> {CHR '':'', CHR ''/''} \<and> \<not> line_terminator c) s"

definition account_ok :: "string \<Rightarrow> bool" where
  "account_ok s \<longleftrightarrow> s = [] \<or> (length s = 12 \<and> list_all isdigit s)"

lemma arn_char_no_colon [simp]: "\<not> arn_char CHR '':''" "\<not> isdigit CHR '':''"
  by (simp_all add: arn_char_def islower_def isdigit_def byte_def)

lemma list_all_no_colon:
  "list_all arn_char s \<Longrightarrow> \<forall>c\<in>set s. c \<noteq> CHR '':''"
  "list_all isdigit s \<Longrightarrow> \<forall>c\<in>set s. c \<noteq> CHR '':''"
  by (auto simp: list_all_iff)

lemma account_no_colon: "account_ok s \<Longrightarrow> \<forall>c\<in>set s. c \<noteq> CHR '':''"
  by (auto simp: account_ok_def dest: list_all_no_colon)

lemma split_CreateArn:
  assumes "list_all arn_char service" "list_all arn_char region" "account_ok acct"
  shows "split_any (\<lambda>c. c = CHR '':'') (CreateArn service region acct res) =
    ''arn'' # ''aws'' # service # region # acct # split_any (\<lambda>c. c = CHR '':'') res"
proof -
  let ?P = "\<lambda>c. c = CHR '':''"
  have "CreateArn service region acct res = ''arn'' @ CHR '':'' # ''aws'' @ CHR '':'' # service @ CHR '':'' # region
      @ CHR '':'' # acct @ CHR '':'' # res"
    by (simp add: CreateArn_def)
  moreover have "split_any ?P (acct @ CHR '':'' # res) = acct # split_any ?P res"
    by (rule split_any_append) (use account_no_colon [OF assms(3)] in auto)
  moreover have "split_any ?P (region @ CHR '':'' # s) = region # split_any ?P s" for s
    by (rule split_any_append) (use list_all_no_colon(1) [OF assms(2)] in auto)
  moreover have "split_any ?P (service @ CHR '':'' # s) = service # split_any ?P s" for s
    by (rule split_any_append) (use list_all_no_colon(1) [OF assms(1)] in auto)
  moreover have "split_any ?P (''arn'' @ CHR '':'' # ''aws'' @ CHR '':'' # s) = ''arn'' # ''aws'' # split_any ?P s" for s
    by simp
  ultimately show ?thesis by simp
qed

lemma split_plain: "plain_name s \<Longrightarrow> split_any (\<lambda>c. c = CHR '':'') s = [s]"
  by (rule split_any_word) (auto simp: plain_name_def list_all_iff)

lemma IsArn_CreateArn:
  assumes "service \<noteq> []" "list_all arn_char service" "list_all arn_char region" "account_ok acct"
    and "plain_name res"
  shows "IsArn (CreateArn service region acct res)"
  using assms by (auto simp: IsArn_def split_CreateArn split_plain account_ok_def plain_name_def list_all_iff)

lemma arn_not_url: "\<not> IsUrl (CreateArn service region acct res)"
  by (simp add: IsUrl_def CreateArn_def)

lemma after_last_append: "\<forall>c\<in>set s. c \<noteq> d \<Longrightarrow> after_last d (pre @ d # s) = s"
proof -
  assume "\<forall>c\<in>set s. c \<noteq> d"
  then have "\<And>x. x \<in> set (rev s) \<Longrightarrow> x \<noteq> d" by auto
  then have "takeWhile (\<lambda>c. c \<noteq> d) (rev s @ d # rev pre) = rev s"
    by (subst takeWhile_append2) auto
  then show ?thesis by (simp add: after_last_def)
qed

context boost_split
begin

lemma split_colon: "split s '':'' = split_any (\<lambda>c. c = CHR '':'') s"
  by (simp add: split_eq)

lemma ArnToName_CreateArn:
  assumes "list_all arn_char region" "account_ok acct" "plain_name name"
  shows "ConvertSQSQueueArnToName split (CreateSQSQueueArn region acct name) = name"
proof -
  have svc: "list_all arn_char ''sqs''" by (simp add: arn_char_def islower_def byte_def)
  have "IsArn (CreateSQSQueueArn region acct name)"
    unfolding CreateSQSQueueArn_def by (rule IsArn_CreateArn) (use assms svc in simp_all)
  moreover have "split (CreateSQSQueueArn region acct name) '':'' = [''arn'', ''aws'', ''sqs'', region, acct, name]"
    unfolding CreateSQSQueueArn_def split_colon
    by (simp only: split_CreateArn [OF svc assms(1,2)] split_plain [OF assms(3)])
  ultimately show ?thesis by (simp add: ConvertSQSQueueArnToName_def)
qed

lemma ArnToUrl_name:
  assumes "list_all arn_char region" "account_ok acct" "plain_name name"
  shows "ConvertSQSQueueUrlToName (ConvertSQSQueueArnToUrl split cfg (CreateSQSQueueArn region acct name)) = name"
proof -
  let ?arn = "CreateSQSQueueArn region acct name"
  have svc: "list_all arn_char ''sqs''" by (simp add: arn_char_def islower_def byte_def)
  have arn: "IsArn ?arn"
    unfolding CreateSQSQueueArn_def by (rule IsArn_CreateArn) (use assms svc in simp_all)
  have parts: "split ?arn '':'' = [''arn'', ''aws'', ''sqs'', region, acct, name]"
    unfolding CreateSQSQueueArn_def split_colon
    by (simp only: split_CreateArn [OF svc assms(1,2)] split_plain [OF assms(3)])
  have nonempty: "?arn \<noteq> []" "\<not> IsUrl ?arn"
    by (simp_all add: CreateSQSQueueArn_def arn_not_url) (simp add: CreateArn_def)
  have "\<exists>pre. ConvertSQSQueueArnToUrl split cfg ?arn = pre @ CHR ''/'' # name"
    by (rule exI [of _ "''http://sqs.'' @ cfg_region cfg @ ''.'' @ cfg_hostname cfg @ '':'' @ cfg_http_port cfg @ ''/'' @ acct"])
      (simp add: ConvertSQSQueueArnToUrl_def nonempty arn parts)
  then obtain pre where "ConvertSQSQueueArnToUrl split cfg ?arn = pre @ CHR ''/'' # name" by blast
  then show ?thesis
    using assms(3) by (auto simp: ConvertSQSQueueUrlToName_def plain_name_def list_all_iff intro!: after_last_append)
qed

end

end
