(* ===== verification/SqsRepo.thy ===== *)
theory SqsRepo
  imports EntityRepo AwsUtils
begin

text \<open>
  The in-memory SQS repository (\<open>db/src/repository/sqs/SQSMemoryRepository.cpp\<close>) with its
  entities (\<open>db/include/awsmock/entity/sqs\<close>): queues and messages in two
  \<open>std::unordered_map\<close>s. Every public operation is here, the message life cycle
  (send, receive, make visible again, dead-letter, redrive, delete) included.

  The clock, the random object ids and receipt handles and the layouts of the hash maps are
  arguments. A loop that reads the clock or the random generator in each iteration takes a
  function of the key it visits, since every key is visited once. The mutex a nested call finds
  locked is the flag \<open>held\<close> of \<open>scoped_lock\<close>.
\<close>

subsection \<open>Entities\<close>

datatype sqs_attr_type = STRING | STRING_LIST | NUMBER | NUMBER_LIST | BINARY | BINARY_LIST | UNKNOWN

record sqs_message_attribute =
  ma_stringValue :: string
  ma_stringListValues :: "string list"
  ma_binaryValue :: "8 word list"
  ma_binaryListValues :: "8 word list list"
  ma_dataType :: sqs_attr_type

definition sqs_attr_type_names :: "(sqs_attr_type \<times> string) list" where
  "sqs_attr_type_names =
     [(STRING, ''String''), (STRING_LIST, ''StringList''), (NUMBER, ''Number''),
      (NUMBER_LIST, ''NumberList''), (BINARY, ''Binary''), (BINARY_LIST, ''BinaryList''),
      (UNKNOWN, ''Unknown'')]"

definition MessageAttributeTypeToString :: "sqs_attr_type \<Rightarrow> string" where
  "MessageAttributeTypeToString t = enum_to_string sqs_attr_type_names t"

definition MessageAttributeTypeFromString :: "string \<Rightarrow> sqs_attr_type" where
  "MessageAttributeTypeFromString s = enum_from_string sqs_attr_type_names UNKNOWN s"

datatype sqs_status = INITIAL | DELAYED | INVISIBLE | UNKNOWN_STATUS

definition sqs_status_names :: "(sqs_status \<times> string) list" where
  "sqs_status_names = [(INITIAL, ''INITIAL''), (DELAYED, ''DELAYED''), (INVISIBLE, ''INVISIBLE'')]"

definition MessageStatusToString :: "sqs_status \<Rightarrow> string" where
  "MessageStatusToString s = enum_to_string sqs_status_names s"

definition MessageStatusFromString :: "string \<Rightarrow> sqs_status" where
  "MessageStatusFromString s = enum_from_string sqs_status_names UNKNOWN_STATUS s"

record redrive_policy =
  rp_deadLetterTargetArn :: string
  rp_maxReceiveCount :: int

record queue_attribute =
  qa_delaySeconds :: int
  qa_maxMessageSize :: int
  qa_messageRetentionPeriod :: int
  qa_receiveMessageWaitTime :: int
  qa_visibilityTimeout :: int
  qa_policy :: string
  qa_redrivePolicy :: redrive_policy
  qa_redriveAllowPolicy :: string
  qa_approximateNumberOfMessages :: int
  qa_approximateNumberOfMessagesDelayed :: int
  qa_approximateNumberOfMessagesNotVisible :: int
  qa_queueArn :: string

record sqs_queue =
  q_region :: string
  q_oid :: string
  q_name :: string
  q_owner :: string
  q_url :: string
  q_arn :: string
  q_attributes :: queue_attribute
  q_tags :: "(string \<times> string) list"
  q_paginationToken :: string
  q_score :: int
  q_size :: int
  q_contentType :: string
  q_defaultMessageAttributes :: "(string \<times> sqs_message_attribute) list"
  q_created :: time_point
  q_modified :: time_point

record sqs_message =
  m_oid :: string
  m_queueArn :: string
  m_queueName :: string
  m_body :: string
  m_status :: sqs_status
  m_reset :: time_point
  m_retries :: int
  m_size :: int
  m_visibilityTimeout :: int
  m_messageId :: string
  m_receiptHandle :: string
  m_md5Body :: string
  m_md5MessageAttributes :: string
  m_md5MessageSystemAttributes :: string
  m_attributes :: "(string \<times> string) list"
  m_messageAttributes :: "(string \<times> sqs_message_attribute) list"
  m_contentType :: string
  m_type :: string
  m_created :: time_point
  m_modified :: time_point

text \<open>Default construction reads the clock for \<open>created\<close>, and \<open>modified\<close> of a queue.\<close>

definition default_redrive_policy :: redrive_policy where
  "default_redrive_policy = \<lparr>rp_deadLetterTargetArn = [], rp_maxReceiveCount = 3\<rparr>"

definition default_queue_attribute :: queue_attribute where
  "default_queue_attribute =
     \<lparr>qa_delaySeconds = 0, qa_maxMessageSize = 262144, qa_messageRetentionPeriod = 345600,
      qa_receiveMessageWaitTime = 20, qa_visibilityTimeout = 30, qa_policy = [],
      qa_redrivePolicy = default_redrive_policy, qa_redriveAllowPolicy = [],
      qa_approximateNumberOfMessages = 0, qa_approximateNumberOfMessagesDelayed = 0,
      qa_approximateNumberOfMessagesNotVisible = 0, qa_queueArn = []\<rparr>"

definition default_queue :: "time_point \<Rightarrow> sqs_queue" where
  "default_queue now =
     \<lparr>q_region = [], q_oid = [], q_name = [], q_owner = [], q_url = [], q_arn = [],
      q_attributes = default_queue_attribute, q_tags = [], q_paginationToken = [], q_score = 0,
      q_size = 0, q_contentType = [], q_defaultMessageAttributes = [], q_created = now, q_modified = now\<rparr>"

definition default_message :: "time_point \<Rightarrow> sqs_message" where
  "default_message now =
     \<lparr>m_oid = [], m_queueArn = [], m_queueName = [], m_body = [], m_status = INITIAL, m_reset = 0,
      m_retries = 0, m_size = 0, m_visibilityTimeout = 30, m_messageId = [], m_receiptHandle = [],
      m_md5Body = [], m_md5MessageAttributes = [], m_md5MessageSystemAttributes = [],
      m_attributes = [], m_messageAttributes = [], m_contentType = [], m_type = ''Message'',
      m_created = now, m_modified = 0\<rparr>"

definition set_q_oid :: "string \<Rightarrow> sqs_queue \<Rightarrow> sqs_queue" where
  "set_q_oid k q = q\<lparr>q_oid := k\<rparr>"

definition set_m_oid :: "string \<Rightarrow> sqs_message \<Rightarrow> sqs_message" where
  "set_m_oid k m = m\<lparr>m_oid := k\<rparr>"

interpretation sqs_q: stamped_entity q_oid set_q_oid
  by unfold_locales (simp_all add: set_q_oid_def)

interpretation sqs_m: stamped_entity m_oid set_m_oid
  by unfold_locales (simp_all add: set_m_oid_def)

record sqs_repo =
  queues :: "sqs_queue hmap"
  messages :: "sqs_message hmap"

definition sqs_inv :: "sqs_repo \<Rightarrow> bool" where
  "sqs_inv st \<longleftrightarrow> wf_store (queues st) \<and> wf_store (messages st)"

definition with_queues :: "sqs_repo \<Rightarrow> sqs_queue hmap \<times> 'a \<Rightarrow> sqs_repo \<times> 'a" where
  "with_queues st r = (st\<lparr>queues := fst r\<rparr>, snd r)"

definition with_messages :: "sqs_repo \<Rightarrow> sqs_message hmap \<times> 'a \<Rightarrow> sqs_repo \<times> 'a" where
  "with_messages st r = (st\<lparr>messages := fst r\<rparr>, snd r)"

subsection \<open>Queues\<close>

definition sqs_queueExists :: "sqs_repo \<Rightarrow> string \<Rightarrow> string \<Rightarrow> bool" where
  "sqs_queueExists st region name = found (\<lambda>(_, q). q_region q = region \<and> q_name q = name) (queues st)"

definition sqs_queueUrlExists :: "sqs_repo \<Rightarrow> string \<Rightarrow> string \<Rightarrow> bool" where
  "sqs_queueUrlExists st region queueUrl = found (\<lambda>(_, q). q_region q = region \<and> q_url q = queueUrl) (queues st)"

definition sqs_queueArnExists :: "sqs_repo \<Rightarrow> string \<Rightarrow> bool" where
  "sqs_queueArnExists st queueArn = found (\<lambda>(_, q). q_arn q = queueArn) (queues st)"

text \<open>
  Operations that take their entity by reference return the new state, the entity as the caller
  sees it afterwards, and the result.
\<close>

definition sqs_createQueue :: "layout \<Rightarrow> uuid \<Rightarrow> sqs_repo \<Rightarrow> sqs_queue \<Rightarrow> sqs_repo \<times> sqs_queue \<times> sqs_queue" where
  "sqs_createQueue lay uuid st q =
     (let q' = q\<lparr>q_oid := uuid\<rparr> in
      (st\<lparr>queues := hmap_insert lay (q_oid q') q' (queues st)\<rparr>, q', q'))"

definition sqs_updateQueue :: "time_point \<Rightarrow> sqs_repo \<Rightarrow> sqs_queue \<Rightarrow> sqs_repo \<times> sqs_queue \<times> sqs_queue" where
  "sqs_updateQueue now st q =
     (let q' = q\<lparr>q_modified := now\<rparr> in
      case replace_found (\<lambda>(_, x). q_region x = q_region q' \<and> q_name x = q_name q') q' (queues st) of
        Some (qs, r) \<Rightarrow> (st\<lparr>queues := qs\<rparr>, q', r)
      | None \<Rightarrow> (st, q', default_queue now))"

definition sqs_createOrUpdateQueue :: "layout \<Rightarrow> uuid \<Rightarrow> time_point \<Rightarrow> sqs_repo \<Rightarrow> sqs_queue \<Rightarrow> sqs_repo \<times> sqs_queue \<times> sqs_queue" where
  "sqs_createOrUpdateQueue lay uuid now st q =
     (if sqs_queueExists st (q_region q) (q_name q) then sqs_updateQueue now st q
      else sqs_createQueue lay uuid st q)"

definition sqs_importQueue :: "layout \<Rightarrow> uuid \<Rightarrow> time_point \<Rightarrow> sqs_repo \<Rightarrow> sqs_queue \<Rightarrow> sqs_repo \<times> sqs_queue \<times> sqs_queue" where
  "sqs_importQueue lay uuid now st q =
     (if sqs_queueExists st (q_region q) (q_name q) then sqs_updateQueue now st q
      else sqs_createQueue lay uuid st q)"

definition sqs_getQueueById :: "time_point \<Rightarrow> sqs_repo \<Rightarrow> string \<Rightarrow> sqs_repo \<times> sqs_queue" where
  "sqs_getQueueById now st oid =
     with_queues st (get_or (default_queue now) set_q_oid (\<lambda>(k, _). k = oid) (queues st))"

definition sqs_getQueueByArn :: "time_point \<Rightarrow> sqs_repo \<Rightarrow> string \<Rightarrow> sqs_repo \<times> sqs_queue" where
  "sqs_getQueueByArn now st queueArn =
     with_queues st (get_or (default_queue now) set_q_oid (\<lambda>(_, q). q_arn q = queueArn) (queues st))"

definition sqs_getQueueByUrl :: "time_point \<Rightarrow> sqs_repo \<Rightarrow> string \<Rightarrow> string \<Rightarrow> sqs_repo \<times> sqs_queue" where
  "sqs_getQueueByUrl now st region queueUrl =
     with_queues st (get_or (default_queue now) set_q_oid (\<lambda>(_, q). q_url q = queueUrl \<and> q_region q = region) (queues st))"

definition sqs_getQueueByName :: "time_point \<Rightarrow> sqs_repo \<Rightarrow> string \<Rightarrow> string \<Rightarrow> sqs_repo \<times> sqs_queue" where
  "sqs_getQueueByName now st region queueName =
     with_queues st (get_or (default_queue now) set_q_oid (\<lambda>(_, q). q_region q = region \<and> q_name q = queueName) (queues st))"

definition q_dlq :: "sqs_queue \<Rightarrow> string" where
  "q_dlq q = rp_deadLetterTargetArn (qa_redrivePolicy (q_attributes q))"

definition sqs_getQueueByDlq :: "time_point \<Rightarrow> sqs_repo \<Rightarrow> string \<Rightarrow> sqs_repo \<times> sqs_queue" where
  "sqs_getQueueByDlq now st dlqQueueArn =
     with_queues st (get_or (default_queue now) set_q_oid (\<lambda>(_, q). q_dlq q = dlqQueueArn) (queues st))"

definition sqs_isDlq :: "sqs_repo \<Rightarrow> string \<Rightarrow> sqs_queue list" where
  "sqs_isDlq st queueArn = where_if queueArn (\<lambda>q. q_dlq q = queueArn) (values_of (queues st))"

text \<open>
  The comparator of the listings: the first column it knows decides, further columns are not
  looked at, and an unknown column is skipped. In \<open>listQueues\<close> it sorts \<open>q.to_vector()\<close>, a
  temporary copy that is dropped.
\<close>

fun sqs_queue_less :: "sort_column list \<Rightarrow> sqs_queue \<Rightarrow> sqs_queue \<Rightarrow> bool" where
  "sqs_queue_less [] a b = False"
| "sqs_queue_less (sc # scs) a b =
     (if sc_column sc = ''name'' then by_key (sc_direction sc) q_name a b
      else if sc_column sc = ''size'' then by_key (sc_direction sc) q_size a b
      else if sc_column sc = ''messages''
      then by_key (sc_direction sc) (\<lambda>q. qa_approximateNumberOfMessages (q_attributes q)) a b
      else sqs_queue_less scs a b)"

definition sqs_listQueuesPaged :: "sqs_repo \<Rightarrow> string \<Rightarrow> int \<Rightarrow> int \<Rightarrow> sort_column list \<Rightarrow> string \<Rightarrow> sqs_queue list outcome" where
  "sqs_listQueuesPaged st pre pageSize pageIndex sortColumns region =
     (let q = values_of (queues st);
          q = where_if region (\<lambda>x. q_region x = region) q;
          q = where_if pre (\<lambda>x. StartsWith (q_name x) pre) q;
          _ = (if sortColumns \<noteq> [] then std_sort (sqs_queue_less sortColumns) q else q) in
      if pageSize > 0 then Inr q else PageVector q pageSize pageIndex)"

definition sqs_listQueuesRegion :: "sqs_repo \<Rightarrow> string \<Rightarrow> sqs_queue list" where
  "sqs_listQueuesRegion st region = where_if region (\<lambda>x. q_region x = region) (values_of (queues st))"

definition sqs_listQueues :: "sqs_repo \<Rightarrow> sqs_queue list" where
  "sqs_listQueues st = sqs_listQueuesRegion st []"

definition sqs_listQueueUrls :: "sqs_repo \<Rightarrow> string \<Rightarrow> string \<Rightarrow> string list" where
  "sqs_listQueueUrls st region pre =
     (let q = values_of (queues st);
          q = where_if region (\<lambda>x. q_region x = region) q;
          q = where_if region (\<lambda>x. q_region x = region) q in
      map q_url q)"

definition sqs_listAllQueueUrls :: "sqs_repo \<Rightarrow> string list" where
  "sqs_listAllQueueUrls st = sqs_listQueueUrls st [] []"

definition sqs_exportQueues :: "sqs_repo \<Rightarrow> sort_column list \<Rightarrow> sqs_queue list" where
  "sqs_exportQueues st sortColumns = std_sort (sqs_queue_less sortColumns) (values_of (queues st))"

definition sqs_purgeQueue :: "sqs_repo \<Rightarrow> string \<Rightarrow> sqs_repo \<times> int" where
  "sqs_purgeQueue st queueArn =
     with_messages st (erase_if (\<lambda>(_, m). m_queueArn m = queueArn) (messages st))"

definition sqs_countQueues :: "sqs_repo \<Rightarrow> string \<Rightarrow> string \<Rightarrow> int" where
  "sqs_countQueues st region pre =
     (let q = values_of (queues st);
          q = where_if region (\<lambda>x. StartsWith (q_name x) pre) q;
          q = where_if region (\<lambda>x. StartsWith (q_name x) pre) q in
      int (q_count q))"

definition sqs_deleteQueue :: "sqs_repo \<Rightarrow> sqs_queue \<Rightarrow> sqs_repo \<times> int" where
  "sqs_deleteQueue st queue =
     with_queues st (erase_if (\<lambda>(_, q). q_region q = q_region queue \<and> q_url q = q_url queue) (queues st))"

definition sqs_deleteAllQueues :: "sqs_repo \<Rightarrow> sqs_repo \<times> int" where
  "sqs_deleteAllQueues st = (st\<lparr>queues := []\<rparr>, int (length (queues st)))"

subsection \<open>Messages\<close>

definition sqs_messageExists :: "sqs_repo \<Rightarrow> string \<Rightarrow> bool" where
  "sqs_messageExists st receiptHandle = found (\<lambda>(_, m). m_receiptHandle m = receiptHandle) (messages st)"

definition sqs_messageExistsByMessageId :: "sqs_repo \<Rightarrow> string \<Rightarrow> bool" where
  "sqs_messageExistsByMessageId st messageId = found (\<lambda>(_, m). m_messageId m = messageId) (messages st)"

definition sqs_createMessage :: "layout \<Rightarrow> uuid \<Rightarrow> sqs_repo \<Rightarrow> sqs_message \<Rightarrow> sqs_repo \<times> sqs_message \<times> sqs_message" where
  "sqs_createMessage lay uuid st m =
     (let m' = m\<lparr>m_oid := uuid\<rparr> in
      (st\<lparr>messages := hmap_insert lay (m_oid m') m' (messages st)\<rparr>, m', m'))"

definition sqs_updateMessage :: "time_point \<Rightarrow> sqs_repo \<Rightarrow> sqs_message \<Rightarrow> sqs_repo \<times> sqs_message \<times> sqs_message" where
  "sqs_updateMessage now st m =
     (let m' = m\<lparr>m_modified := now\<rparr>; oid = m_oid m' in
      case replace_found (\<lambda>(_, x). m_oid x = oid) m' (messages st) of
        Some (ms, r) \<Rightarrow> (st\<lparr>messages := ms\<rparr>, m', r)
      | None \<Rightarrow> (st, m', default_message now))"

definition sqs_createOrUpdateMessage :: "layout \<Rightarrow> uuid \<Rightarrow> time_point \<Rightarrow> sqs_repo \<Rightarrow> sqs_message \<Rightarrow> sqs_repo \<times> sqs_message \<times> sqs_message" where
  "sqs_createOrUpdateMessage lay uuid now st m =
     (if sqs_messageExists st (m_receiptHandle m) then sqs_updateMessage now st m
      else sqs_createMessage lay uuid st m)"

definition sqs_getMessageById :: "time_point \<Rightarrow> sqs_repo \<Rightarrow> string \<Rightarrow> sqs_repo \<times> sqs_message" where
  "sqs_getMessageById now st oid =
     with_messages st (get_or (default_message now) set_m_oid (\<lambda>(k, _). k = oid) (messages st))"

definition sqs_getMessageByReceiptHandle :: "time_point \<Rightarrow> sqs_repo \<Rightarrow> string \<Rightarrow> sqs_repo \<times> sqs_message" where
  "sqs_getMessageByReceiptHandle now st receiptHandle =
     with_messages st (get_or (default_message now) set_m_oid (\<lambda>(_, m). m_receiptHandle m = receiptHandle) (messages st))"

definition sqs_getMessageByMessageId :: "time_point \<Rightarrow> sqs_repo \<Rightarrow> string \<Rightarrow> sqs_repo \<times> sqs_message" where
  "sqs_getMessageByMessageId now st messageId =
     with_messages st (get_or (default_message now) set_m_oid (\<lambda>(_, m). m_messageId m = messageId) (messages st))"

definition sqs_listMessagesRegion :: "sqs_repo \<Rightarrow> string \<Rightarrow> sqs_message list" where
  "sqs_listMessagesRegion st region =
     where_if region (\<lambda>m. Contains (m_queueArn m) region) (values_of (messages st))"

definition sqs_listMessages :: "sqs_repo \<Rightarrow> string \<Rightarrow> string \<Rightarrow> int \<Rightarrow> int \<Rightarrow> sort_column list \<Rightarrow> sqs_message list" where
  "sqs_listMessages st queueArn pre pageSize pageIndex sortColumns =
     where_if queueArn (\<lambda>m. Contains (m_queueArn m) queueArn) (values_of (messages st))"

text \<open>
  \<open>receiveMessages\<close>: what happens to one message that is taken, and the loop over the entries.
  The comparison \<open>messageList.size() >= maxResult\<close> converts \<open>maxResult\<close> to an unsigned number.
\<close>

definition sqs_to_dlq :: "string \<Rightarrow> int \<Rightarrow> int \<Rightarrow> bool" where
  "sqs_to_dlq dlQueueArn maxRetries retries \<longleftrightarrow> dlQueueArn \<noteq> [] \<and> maxRetries > 0 \<and> retries \<ge> maxRetries"

definition sqs_take :: "(string \<Rightarrow> string \<Rightarrow> string list) \<Rightarrow> time_point \<Rightarrow> string \<Rightarrow> int \<Rightarrow> string \<Rightarrow> sqs_message \<Rightarrow> sqs_message" where
  "sqs_take split reset dlQueueArn maxRetries handle m =
     (let m = m\<lparr>m_retries := m_retries m + 1\<rparr> in
      if sqs_to_dlq dlQueueArn maxRetries (m_retries m)
      then m\<lparr>m_queueArn := dlQueueArn, m_queueName := ConvertSQSQueueArnToName split dlQueueArn,
             m_receiptHandle := [], m_status := INITIAL\<rparr>
      else m\<lparr>m_reset := reset, m_status := INVISIBLE, m_receiptHandle := handle\<rparr>)"

fun sqs_receive_loop :: "(string \<Rightarrow> string \<Rightarrow> string list) \<Rightarrow> (string \<Rightarrow> string) \<Rightarrow> string \<Rightarrow> time_point \<Rightarrow> nat \<Rightarrow> string \<Rightarrow> int
    \<Rightarrow> sqs_message hmap \<Rightarrow> sqs_message list \<Rightarrow> sqs_message hmap \<times> sqs_message list" where
  "sqs_receive_loop split handles queueArn reset maxResult dlQueueArn maxRetries [] messageList = ([], messageList)"
| "sqs_receive_loop split handles queueArn reset maxResult dlQueueArn maxRetries ((k, m) # rest) messageList =
     (if m_queueArn m = queueArn \<and> m_status m = INITIAL then
        (let m' = sqs_take split reset dlQueueArn maxRetries (handles k) m;
             messageList' = messageList @ [m'] in
         if length messageList' \<ge> maxResult then ((k, m') # rest, messageList')
         else (let (rest', ml) = sqs_receive_loop split handles queueArn reset maxResult dlQueueArn maxRetries rest messageList'
               in ((k, m') # rest', ml)))
      else (let (rest', ml) = sqs_receive_loop split handles queueArn reset maxResult dlQueueArn maxRetries rest messageList
            in ((k, m) # rest', ml)))"

definition sqs_receiveMessages :: "(string \<Rightarrow> string \<Rightarrow> string list) \<Rightarrow> (string \<Rightarrow> string) \<Rightarrow> time_point \<Rightarrow> sqs_repo
    \<Rightarrow> string \<Rightarrow> int \<Rightarrow> int \<Rightarrow> string \<Rightarrow> int \<Rightarrow> sqs_message list \<Rightarrow> sqs_repo \<times> sqs_message list" where
  "sqs_receiveMessages split handles now st queueArn visibility maxResult dlQueueArn maxRetries messageList =
     (let reset = now + seconds visibility in
      with_messages st (sqs_receive_loop split handles queueArn reset (to_size_t maxResult) dlQueueArn maxRetries
        (messages st) messageList))"

definition sqs_resetMessages :: "(string \<Rightarrow> time_point) \<Rightarrow> sqs_repo \<Rightarrow> string \<Rightarrow> int \<Rightarrow> sqs_repo \<times> int" where
  "sqs_resetMessages clock st queueArn visibility =
     with_messages st (rewrite_matching
       (\<lambda>(k, m). m_queueArn m = queueArn \<and> m_status m = INVISIBLE \<and> m_reset m < clock k)
       (\<lambda>m. m\<lparr>m_status := INITIAL, m_receiptHandle := []\<rparr>) (messages st))"

definition sqs_resetDelayedMessages :: "(string \<Rightarrow> time_point) \<Rightarrow> sqs_repo \<Rightarrow> string \<Rightarrow> int \<Rightarrow> sqs_repo \<times> int" where
  "sqs_resetDelayedMessages clock st queueArn delay =
     with_messages st (rewrite_matching
       (\<lambda>(k, m). m_queueArn m = queueArn \<and> m_status m = DELAYED \<and> m_reset m < clock k)
       (\<lambda>m. m\<lparr>m_status := INITIAL\<rparr>) (messages st))"

definition sqs_redriveMessages :: "sqs_repo \<Rightarrow> sqs_queue \<Rightarrow> sqs_queue \<Rightarrow> sqs_repo \<times> int" where
  "sqs_redriveMessages st originalQueue dlqQueue =
     with_messages st (rewrite_matching (\<lambda>(_, m). m_queueArn m = q_arn dlqQueue)
       (\<lambda>m. m\<lparr>m_retries := 0, m_queueArn := q_arn originalQueue, m_queueName := q_name originalQueue,
              m_status := INITIAL\<rparr>) (messages st))"

definition sqs_redriveMessage :: "sqs_repo \<Rightarrow> sqs_queue \<Rightarrow> sqs_queue \<Rightarrow> string \<Rightarrow> sqs_repo \<times> int" where
  "sqs_redriveMessage st originalQueue dlqQueue messageId =
     with_messages st (rewrite_matching (\<lambda>(_, m). m_queueArn m = q_arn dlqQueue \<and> m_messageId m = messageId)
       (\<lambda>m. m\<lparr>m_retries := 0, m_queueArn := q_arn originalQueue, m_queueName := q_name originalQueue,
              m_status := INITIAL\<rparr>) (messages st))"

definition sqs_deleteMessageByHandle :: "bool \<Rightarrow> sqs_repo \<Rightarrow> string \<Rightarrow> (sqs_repo \<times> int) outcome" where
  "sqs_deleteMessageByHandle held st receiptHandle =
     scoped_lock held (with_messages st (erase_if (\<lambda>(_, m). m_receiptHandle m = receiptHandle) (messages st)))"

definition sqs_deleteMessage :: "bool \<Rightarrow> sqs_repo \<Rightarrow> sqs_message \<Rightarrow> (sqs_repo \<times> int) outcome" where
  "sqs_deleteMessage held st message = sqs_deleteMessageByHandle held st (m_receiptHandle message)"

text \<open>
  \<open>messageRetention\<close> holds the message mutex and calls \<open>deleteMessage\<close>, which takes it, for
  every entry of the loop that matches.
\<close>

fun sqs_retention_loop :: "(string \<Rightarrow> time_point) \<Rightarrow> string \<Rightarrow> sqs_message hmap \<Rightarrow> sqs_repo \<Rightarrow> int \<Rightarrow> (sqs_repo \<times> int) outcome" where
  "sqs_retention_loop clock queueArn [] st n = Inr (st, n)"
| "sqs_retention_loop clock queueArn ((k, m) # rest) st n =
     (if m_queueArn m = queueArn \<and> m_status m = DELAYED \<and> m_reset m < clock k then
        (case sqs_deleteMessage True st m of
           Inl e \<Rightarrow> Inl e
         | Inr (st', d) \<Rightarrow> sqs_retention_loop clock queueArn rest st' (n + d))
      else sqs_retention_loop clock queueArn rest st n)"

definition sqs_messageRetention :: "(string \<Rightarrow> time_point) \<Rightarrow> sqs_repo \<Rightarrow> string \<Rightarrow> int \<Rightarrow> (sqs_repo \<times> int) outcome" where
  "sqs_messageRetention clock st queueArn retentionPeriod =
     sqs_retention_loop clock queueArn (messages st) st 0"

definition sqs_countMessages :: "sqs_repo \<Rightarrow> string \<Rightarrow> string \<Rightarrow> int" where
  "sqs_countMessages st queueArn pre =
     (if queueArn = [] then int (length (messages st))
      else count_if (\<lambda>(_, m). m_queueArn m = queueArn) (messages st))"

definition sqs_deleteMessages :: "sqs_repo \<Rightarrow> string \<Rightarrow> sqs_repo \<times> int" where
  "sqs_deleteMessages st queueArn =
     with_messages st (erase_if (\<lambda>(_, m). m_queueArn m = queueArn) (messages st))"

definition sqs_deleteAllMessages :: "sqs_repo \<Rightarrow> sqs_repo \<times> int" where
  "sqs_deleteAllMessages st = (st\<lparr>messages := []\<rparr>, int (length (messages st)))"

definition sqs_countMessagesByStatus :: "sqs_repo \<Rightarrow> string \<Rightarrow> sqs_status \<Rightarrow> int" where
  "sqs_countMessagesByStatus st queueArn status =
     count_if (\<lambda>(_, m). m_queueArn m = queueArn \<and> m_status m = status) (messages st)"

text \<open>
  \<open>adjustMessageCounters\<close> visits every queue and writes the counters of \<open>_queues[queue.oid]\<close>.
  The messages, which the counters are taken from, do not change meanwhile.
\<close>

definition set_counters :: "sqs_repo \<Rightarrow> string \<Rightarrow> sqs_queue \<Rightarrow> sqs_queue" where
  "set_counters st arn q = q\<lparr>q_attributes := (q_attributes q)\<lparr>
     qa_approximateNumberOfMessages := sqs_countMessagesByStatus st arn INITIAL,
     qa_approximateNumberOfMessagesNotVisible := sqs_countMessagesByStatus st arn INVISIBLE,
     qa_approximateNumberOfMessagesDelayed := sqs_countMessagesByStatus st arn DELAYED\<rparr>\<rparr>"

definition sqs_adjustMessageCounters :: "sqs_repo \<Rightarrow> sqs_repo outcome" where
  "sqs_adjustMessageCounters st =
     (case index_loop q_oid (\<lambda>queue. set_counters st (q_arn queue)) (map fst (queues st)) (queues st) of
        Inl e \<Rightarrow> Inl e
      | Inr qs \<Rightarrow> Inr (st\<lparr>queues := qs\<rparr>))"

text \<open>\<open>importMessages\<close> has an empty body.\<close>

definition sqs_importMessages :: "sqs_repo \<Rightarrow> string \<Rightarrow> 'bson \<Rightarrow> sqs_repo" where
  "sqs_importMessages st queueArn messageArray = st"

end
