(* ===== verification/SqsUtils.thy ===== *)
theory SqsUtils
  imports SqsRepo
begin

text \<open>
  The MD5 sums of message attributes (\<open>db/src/utils/SqsUtils.cpp\<close>): the bytes the code feeds to the
  digest. The digest itself (OpenSSL) and the URL decoding of system attributes (boost) are
  parameters. The lengths are written as four bytes, the most significant first.
\<close>

definition GetIntAsByteArray :: "nat \<Rightarrow> string" where
  "GetIntAsByteArray n =
     [char_of ((n div 2 ^ 24) mod 256), char_of ((n div 2 ^ 16) mod 256), char_of ((n div 2 ^ 8) mod 256), char_of (n mod 256)]"

definition UpdateLengthAndBytes :: "string \<Rightarrow> string" where
  "UpdateLengthAndBytes str = GetIntAsByteArray (length str) @ str"

definition system_attribute_bytes :: "(string \<Rightarrow> string) \<Rightarrow> (string \<times> string) list \<Rightarrow> string" where
  "system_attribute_bytes decode attributes =
     concat (map (\<lambda>(name, v). UpdateLengthAndBytes name @ UpdateLengthAndBytes ''String'' @
       (if v \<noteq> [] then char_of (1::nat) # UpdateLengthAndBytes (decode v) else [])) attributes)"

definition word_char :: "8 word \<Rightarrow> char" where
  "word_char w = char_of (unat w)"

definition message_attribute_bytes :: "(string \<times> sqs_message_attribute) list \<Rightarrow> string" where
  "message_attribute_bytes messageAttributes =
     concat (map (\<lambda>(name, attr). UpdateLengthAndBytes name @
       UpdateLengthAndBytes (MessageAttributeTypeToString (ma_dataType attr)) @
       (if ma_dataType attr = STRING \<or> ma_dataType attr = NUMBER
        then char_of (1::nat) # UpdateLengthAndBytes (ma_stringValue attr)
        else if ma_dataType attr = BINARY
        then char_of (2::nat) # GetIntAsByteArray (length (ma_binaryValue attr)) @ map word_char (ma_binaryValue attr)
        else [])) messageAttributes)"

definition CreateMd5OfMessageSystemAttributes :: "(string \<Rightarrow> string) \<Rightarrow> (string \<Rightarrow> string) \<Rightarrow> (string \<times> string) list \<Rightarrow> string" where
  "CreateMd5OfMessageSystemAttributes md5 decode attributes = md5 (system_attribute_bytes decode attributes)"

definition CreateMd5OfMessageAttributes :: "(string \<Rightarrow> string) \<Rightarrow> (string \<times> sqs_message_attribute) list \<Rightarrow> string" where
  "CreateMd5OfMessageAttributes md5 messageAttributes = md5 (message_attribute_bytes messageAttributes)"

subsection \<open>The bytes determine the attributes\<close>

text \<open>What the digest covers of an attribute, and the lengths its format can express.\<close>

definition md5_view :: "sqs_message_attribute \<Rightarrow> sqs_attr_type \<times> string \<times> 8 word list" where
  "md5_view a = (ma_dataType a,
     if ma_dataType a = STRING \<or> ma_dataType a = NUMBER then ma_stringValue a else [],
     if ma_dataType a = BINARY then ma_binaryValue a else [])"

definition attribute_sizes :: "string \<times> sqs_message_attribute \<Rightarrow> bool" where
  "attribute_sizes = (\<lambda>(name, a). length name < 2 ^ 32 \<and> length (ma_stringValue a) < 2 ^ 32 \<and> length (ma_binaryValue a) < 2 ^ 32)"

lemma length_int_bytes [simp]: "length (GetIntAsByteArray n) = 4"
  by (simp add: GetIntAsByteArray_def)

lemma int_bytes_inject:
  assumes "GetIntAsByteArray n = GetIntAsByteArray m" "n < 2 ^ 32" "m < 2 ^ 32"
  shows "n = m"
proof -
  have inj: "a = b" if "char_of a = (char_of b :: char)" "a < 256" "b < 256" for a b :: nat
    using that by (metis mod_less of_char_of)
  have parts: "(k div 2 ^ 24) mod 256 * 2 ^ 24 + (k div 2 ^ 16) mod 256 * 2 ^ 16 + (k div 2 ^ 8) mod 256 * 2 ^ 8 + k mod 256 = k"
    if "k < 2 ^ 32" for k :: nat
  proof -
    define a where "a = k div 256"
    define b where "b = a div 256"
    define c where "c = b div 256"
    have d: "k div 2 ^ 8 = a" "k div 2 ^ 16 = b" "k div 2 ^ 24 = c"
      by (simp_all add: a_def b_def c_def div_mult2_eq [symmetric])
    have "k = 256 * a + k mod 256" "a = 256 * b + a mod 256" "b = 256 * c + b mod 256"
      by (simp_all add: a_def b_def c_def)
    moreover have "c < 256" unfolding d(3) [symmetric] by (rule less_mult_imp_div_less) (use that in simp)
    then have "c mod 256 = c" by simp
    ultimately show ?thesis unfolding d by simp
  qed
  have "(n div 2 ^ 24) mod 256 = (m div 2 ^ 24) mod 256" "(n div 2 ^ 16) mod 256 = (m div 2 ^ 16) mod 256"
    "(n div 2 ^ 8) mod 256 = (m div 2 ^ 8) mod 256" "n mod 256 = m mod 256"
    using assms(1) unfolding GetIntAsByteArray_def list.inject by (auto intro!: inj)
  then show ?thesis using parts [OF assms(2)] parts [OF assms(3)] by simp
qed

lemma length_bytes_append:
  assumes "UpdateLengthAndBytes a @ x = UpdateLengthAndBytes b @ y" "length a < 2 ^ 32" "length b < 2 ^ 32"
  shows "a = b \<and> x = y"
proof -
  have "GetIntAsByteArray (length a) = GetIntAsByteArray (length b)" "a @ x = b @ y"
    using assms(1) by (simp_all add: UpdateLengthAndBytes_def append_eq_append_conv)
  then show ?thesis using int_bytes_inject assms(2,3) by simp
qed

lemma type_string_inject: "MessageAttributeTypeToString t = MessageAttributeTypeToString u \<Longrightarrow> t = u"
  by (cases t; cases u) (simp_all add: MessageAttributeTypeToString_def enum_to_string_def sqs_attr_type_names_def)

lemma type_string_length: "length (MessageAttributeTypeToString t) < 2 ^ 32"
  by (cases t) (simp_all add: MessageAttributeTypeToString_def enum_to_string_def sqs_attr_type_names_def)

lemma word_char_inject: "map word_char a = map word_char b \<Longrightarrow> a = b"
proof -
  have "inj word_char"
  proof (rule injI)
    fix v w :: "8 word" assume "word_char v = word_char w"
    then have "unat v mod 256 = unat w mod 256" unfolding word_char_def by (metis of_char_of)
    moreover have "unat v < 256" "unat w < 256" using unsigned_less [of v] unsigned_less [of w] by simp_all
    ultimately show "v = w" by (simp add: word_unat_eq_iff)
  qed
  then show "map word_char a = map word_char b \<Longrightarrow> a = b" by (simp add: inj_map_eq_map)
qed

lemma value_bytes_append:
  assumes "ma_dataType a = ma_dataType b" "attribute_sizes (n, a)" "attribute_sizes (n, b)"
    and "(if ma_dataType a = STRING \<or> ma_dataType a = NUMBER then char_of (1::nat) # UpdateLengthAndBytes (ma_stringValue a)
        else if ma_dataType a = BINARY
        then char_of (2::nat) # GetIntAsByteArray (length (ma_binaryValue a)) @ map word_char (ma_binaryValue a) else []) @ x =
      (if ma_dataType b = STRING \<or> ma_dataType b = NUMBER then char_of (1::nat) # UpdateLengthAndBytes (ma_stringValue b)
        else if ma_dataType b = BINARY
        then char_of (2::nat) # GetIntAsByteArray (length (ma_binaryValue b)) @ map word_char (ma_binaryValue b) else []) @ y"
  shows "md5_view a = md5_view b \<and> x = y"
proof -
  consider "ma_dataType a = STRING \<or> ma_dataType a = NUMBER" | "ma_dataType a = BINARY"
    | "ma_dataType a \<notin> {STRING, NUMBER, BINARY}" by blast
  then show ?thesis
  proof cases
    case 1
    then have "UpdateLengthAndBytes (ma_stringValue a) @ x = UpdateLengthAndBytes (ma_stringValue b) @ y"
      using assms(1,4) by auto
    from length_bytes_append [OF this] show ?thesis using 1 assms(1-3) by (auto simp: md5_view_def attribute_sizes_def)
  next
    case 2
    then have eq: "UpdateLengthAndBytes (map word_char (ma_binaryValue a)) @ x = UpdateLengthAndBytes (map word_char (ma_binaryValue b)) @ y"
      using assms(1,4) by (simp add: UpdateLengthAndBytes_def)
    from length_bytes_append [OF eq] have "map word_char (ma_binaryValue a) = map word_char (ma_binaryValue b) \<and> x = y"
      using assms(2,3) by (simp add: attribute_sizes_def)
    then have "ma_binaryValue a = ma_binaryValue b" "x = y" using word_char_inject by blast+
    then show ?thesis using 2 assms(1) by (simp add: md5_view_def)
  next
    case 3
    then show ?thesis using assms(1,4) by (auto simp: md5_view_def)
  qed
qed

lemma message_attribute_bytes_inject:
  assumes "message_attribute_bytes xs = message_attribute_bytes ys" "list_all attribute_sizes xs" "list_all attribute_sizes ys"
  shows "map (\<lambda>(n, a). (n, md5_view a)) xs = map (\<lambda>(n, a). (n, md5_view a)) ys"
  using assms
proof (induction xs arbitrary: ys)
  case Nil
  then show ?case
    by (cases ys) (auto simp: message_attribute_bytes_def UpdateLengthAndBytes_def GetIntAsByteArray_def)
next
  case (Cons x xs)
  obtain n a where x: "x = (n, a)" by (cases x)
  show ?case
  proof (cases ys)
    case Nil
    then show ?thesis
      using Cons.prems(1) x by (auto simp: message_attribute_bytes_def UpdateLengthAndBytes_def GetIntAsByteArray_def)
  next
    case (Cons y ys')
    obtain m b where y: "y = (m, b)" by (cases y)
    note eq = Cons.prems(1) [unfolded Cons x y message_attribute_bytes_def list.map concat.simps split_conv append_assoc]
    have sz: "attribute_sizes (n, a)" "attribute_sizes (m, b)" "list_all attribute_sizes xs" "list_all attribute_sizes ys'"
      using Cons.prems(2,3) Cons x y by simp_all
    note name = length_bytes_append [OF eq]
    have nm: "n = m" using name sz by (simp add: attribute_sizes_def)
    note ty = length_bytes_append [OF name [THEN conjunct2]]
    have t: "ma_dataType a = ma_dataType b" using ty sz type_string_length type_string_inject by (simp add: attribute_sizes_def)
    note val = value_bytes_append [OF t sz(1) sz(2) [folded nm] ty [THEN conjunct2]]
    show ?thesis
      using val sz nm Cons.IH [of ys'] type_string_length unfolding Cons x y
      by (simp add: attribute_sizes_def message_attribute_bytes_def)
  qed
qed

end
