(* ===== verification/LambdaRepo.thy ===== *)
theory LambdaRepo
  imports Complex_Main EntityRepo
begin

text \<open>
  The in-memory Lambda repository (\<open>db/src/repository/lambda/LambdaMemoryRepository.cpp\<close>) with its
  entities (\<open>db/include/awsmock/entity/lambda\<close>, \<open>db/src/entity/lambda/Lambda.cpp\<close>): functions
  with their instances, and invocation results, in two \<open>std::unordered_map\<close>s. A finite \<open>double\<close>
  is the rational number it denotes.
\<close>

subsection \<open>Entities\<close>

datatype runtime_status = starting | idle | running | failed | stopped | unknown

definition runtime_status_names :: "(runtime_status \<times> string) list" where
  "runtime_status_names =
     [(starting, ''starting''), (idle, ''idle''), (running, ''running''), (failed, ''failed''),
      (stopped, ''stopped''), (unknown, ''unknown'')]"

definition RuntimeStatusToString :: "runtime_status \<Rightarrow> string" where
  "RuntimeStatusToString s = enum_to_string runtime_status_names s"

definition RuntimeStatusFromString :: "string \<Rightarrow> runtime_status" where
  "RuntimeStatusFromString s = enum_from_string runtime_status_names unknown s"

datatype lambda_result_status = result_success | result_failed | result_unknown

definition result_status_names :: "(lambda_result_status \<times> string) list" where
  "result_status_names = [(result_success, ''success''), (result_failed, ''failed''), (result_unknown, ''unknown'')]"

definition LambdaResultStatusToString :: "lambda_result_status \<Rightarrow> string" where
  "LambdaResultStatusToString s = enum_to_string result_status_names s"

definition LambdaResultStatusFromString :: "string \<Rightarrow> lambda_result_status" where
  "LambdaResultStatusFromString s = enum_from_string result_status_names result_unknown s"

record lambda_instance =
  in_instanceId :: string
  in_containerId :: string
  in_containerName :: string
  in_publicPort :: int
  in_privatePort :: int
  in_hostName :: string
  in_status :: runtime_status
  in_runtimeVersion :: string
  in_invocations :: int
  in_avgDuration :: rat
  in_lastStart :: time_point
  in_lastInvocation :: time_point
  in_lastStop :: time_point

record event_source_mapping =
  es_eventSourceArn :: string
  es_type :: string
  es_batchSize :: int
  es_maximumBatchingWindowInSeconds :: int
  es_enabled :: bool
  es_uuid :: string

record lambda_code =
  co_zipFile :: string
  co_s3Bucket :: string
  co_s3Key :: string
  co_s3ObjectVersion :: string

record lambda_fn =
  l_oid :: string
  l_region :: string
  l_user :: string
  l_function :: string
  l_runtime :: string
  l_role :: string
  l_handler :: string
  l_memorySize :: int
  l_ephemeralStorage :: int
  l_codeSize :: int
  l_imageId :: string
  l_imageSize :: int
  l_containerId :: string
  l_containerSize :: int
  l_tags :: "(string \<times> string) list"
  l_arn :: string
  l_timeout :: int
  l_concurrency :: int
  l_environment :: "(string \<times> string) list"
  l_codeSha256 :: string
  l_code :: lambda_code
  l_dockerTag :: string
  l_lastStarted :: time_point
  l_lastInvocation :: time_point
  l_instances :: "lambda_instance list"
  l_eventSources :: "event_source_mapping list"
  l_invocations :: int
  l_avgDuration :: int
  l_enabled :: bool
  l_created :: time_point
  l_modified :: time_point

record lambda_result =
  lr_oid :: string
  lr_region :: string
  lr_lambdaName :: string
  lr_lambdaArn :: string
  lr_lambdaStatus :: lambda_result_status
  lr_requestBody :: string
  lr_responseBody :: string
  lr_logMessages :: string
  lr_runtime :: string
  lr_instanceId :: string
  lr_containerId :: string
  lr_httpStatusCode :: string
  lr_status :: int
  lr_duration :: int
  lr_timestamp :: time_point

definition default_instance :: lambda_instance where
  "default_instance =
     \<lparr>in_instanceId = [], in_containerId = [], in_containerName = [], in_publicPort = 0,
      in_privatePort = 8080, in_hostName = [], in_status = unknown, in_runtimeVersion = [],
      in_invocations = 0, in_avgDuration = 0, in_lastStart = 0, in_lastInvocation = 0, in_lastStop = 0\<rparr>"

definition default_event_source :: event_source_mapping where
  "default_event_source =
     \<lparr>es_eventSourceArn = [], es_type = [], es_batchSize = 10,
      es_maximumBatchingWindowInSeconds = 5, es_enabled = False, es_uuid = []\<rparr>"

definition set_l_oid :: "string \<Rightarrow> lambda_fn \<Rightarrow> lambda_fn" where
  "set_l_oid k l = l\<lparr>l_oid := k\<rparr>"

definition set_lr_oid :: "string \<Rightarrow> lambda_result \<Rightarrow> lambda_result" where
  "set_lr_oid k r = r\<lparr>lr_oid := k\<rparr>"

interpretation lam_l: stamped_entity l_oid set_l_oid
  by unfold_locales (simp_all add: set_l_oid_def)

interpretation lam_r: stamped_entity lr_oid set_lr_oid
  by unfold_locales (simp_all add: set_lr_oid_def)

subsection \<open>Instances, event sources and tags of a function\<close>

definition HasEventSource :: "lambda_fn \<Rightarrow> string \<Rightarrow> bool" where
  "HasEventSource l eventSourceArn = list_ex (\<lambda>e. es_eventSourceArn e = eventSourceArn) (l_eventSources l)"

definition GetEventSource :: "lambda_fn \<Rightarrow> string \<Rightarrow> event_source_mapping" where
  "GetEventSource l eventSourceArn =
     (case List.find (\<lambda>e. es_eventSourceArn e = eventSourceArn) (l_eventSources l) of
        Some e \<Rightarrow> e | None \<Rightarrow> default_event_source)"

definition HasTag :: "lambda_fn \<Rightarrow> string \<Rightarrow> bool" where
  "HasTag l key = found (\<lambda>(k, _). k = key) (l_tags l)"

text \<open>\<open>GetTagValue\<close> dereferences the result of its search in any case.\<close>

definition GetTagValue :: "lambda_fn \<Rightarrow> string \<Rightarrow> string outcome" where
  "GetTagValue l key =
     (case find_if (\<lambda>(k, _). k = key) (l_tags l) of Some (_, v) \<Rightarrow> Inr v | None \<Rightarrow> Inl UndefinedBehaviour)"

definition HasInstance :: "lambda_fn \<Rightarrow> string \<Rightarrow> bool" where
  "HasInstance l instanceId = list_ex (\<lambda>i. in_instanceId i = instanceId) (l_instances l)"

definition GetInstance :: "lambda_fn \<Rightarrow> string \<Rightarrow> lambda_instance" where
  "GetInstance l instanceId =
     (case List.find (\<lambda>i. in_instanceId i = instanceId) (l_instances l) of Some i \<Rightarrow> i | None \<Rightarrow> default_instance)"

text \<open>The loops that change the first element with a property and return.\<close>

fun update_first :: "('a \<Rightarrow> bool) \<Rightarrow> ('a \<Rightarrow> 'a) \<Rightarrow> 'a list \<Rightarrow> 'a list" where
  "update_first P f [] = []"
| "update_first P f (x # xs) = (if P x then f x # xs else x # update_first P f xs)"

definition SetInstanceHostPort :: "lambda_fn \<Rightarrow> string \<Rightarrow> string \<Rightarrow> int \<Rightarrow> lambda_fn" where
  "SetInstanceHostPort l instanceId host port =
     l\<lparr>l_instances := update_first (\<lambda>i. instanceId = in_instanceId i)
        (\<lambda>i. i\<lparr>in_hostName := host, in_publicPort := port\<rparr>) (l_instances l)\<rparr>"

definition SetInstanceLastInvocation :: "time_point \<Rightarrow> lambda_fn \<Rightarrow> string \<Rightarrow> lambda_fn" where
  "SetInstanceLastInvocation now l instanceId =
     l\<lparr>l_instances := update_first (\<lambda>i. instanceId = in_instanceId i)
        (\<lambda>i. i\<lparr>in_lastInvocation := now\<rparr>) (l_instances l)\<rparr>"

definition RemoveInstanceId :: "lambda_fn \<Rightarrow> string \<Rightarrow> lambda_fn" where
  "RemoveInstanceId l instanceId = l\<lparr>l_instances := filter (\<lambda>i. instanceId \<noteq> in_instanceId i) (l_instances l)\<rparr>"

definition RemoveInstance :: "lambda_fn \<Rightarrow> lambda_instance \<Rightarrow> lambda_fn" where
  "RemoveInstance l inst = RemoveInstanceId l (in_instanceId inst)"

definition RemoveInstanceByContainerId :: "lambda_fn \<Rightarrow> string \<Rightarrow> lambda_fn" where
  "RemoveInstanceByContainerId l containerID =
     l\<lparr>l_instances := filter (\<lambda>i. containerID \<noteq> in_containerId i) (l_instances l)\<rparr>"

definition HasIdleInstance :: "lambda_fn \<Rightarrow> bool" where
  "HasIdleInstance l = list_ex (\<lambda>i. in_status i = idle) (l_instances l)"

definition GetIdleInstance :: "lambda_fn \<Rightarrow> lambda_instance" where
  "GetIdleInstance l =
     (case List.find (\<lambda>i. in_status i = idle) (l_instances l) of Some i \<Rightarrow> i | None \<Rightarrow> default_instance)"

definition countIdleInstances :: "lambda_fn \<Rightarrow> int" where
  "countIdleInstances l = count_if (\<lambda>i. in_status i = idle) (l_instances l)"

definition countRunningInstances :: "lambda_fn \<Rightarrow> int" where
  "countRunningInstances l = count_if (\<lambda>i. in_status i = running) (l_instances l)"

definition countActiveInstances :: "lambda_fn \<Rightarrow> int" where
  "countActiveInstances l = count_if (\<lambda>i. in_status i \<noteq> stopped \<and> in_status i \<noteq> failed) (l_instances l)"

definition getTotalInvocations :: "lambda_fn \<Rightarrow> int" where
  "getTotalInvocations l = foldl (\<lambda>acc i. acc + in_invocations i) 0 (l_instances l)"

subsection \<open>Functions\<close>

record lambda_repo =
  lambdas :: "lambda_fn hmap"
  lambdaResults :: "lambda_result hmap"

definition lam_inv :: "lambda_repo \<Rightarrow> bool" where
  "lam_inv st \<longleftrightarrow> wf_store (lambdas st) \<and> wf_store (lambdaResults st)"

definition with_lambdas :: "lambda_repo \<Rightarrow> (lambda_fn hmap \<times> 'a) outcome \<Rightarrow> (lambda_repo \<times> 'a) outcome" where
  "with_lambdas st r = (case r of Inl e \<Rightarrow> Inl e | Inr (ls, x) \<Rightarrow> Inr (st\<lparr>lambdas := ls\<rparr>, x))"

definition lam_lambdaExistsName :: "lambda_repo \<Rightarrow> string \<Rightarrow> bool" where
  "lam_lambdaExistsName st function_name = found (\<lambda>(_, l). l_function l = function_name) (lambdas st)"

definition lam_lambdaExists :: "lambda_repo \<Rightarrow> lambda_fn \<Rightarrow> bool" where
  "lam_lambdaExists st lambda =
     found (\<lambda>(_, l). l_region l = l_region lambda \<and> l_function l = l_function lambda) (lambdas st)"

definition lam_lambdaExistsRuntime :: "lambda_repo \<Rightarrow> string \<Rightarrow> string \<Rightarrow> string \<Rightarrow> bool" where
  "lam_lambdaExistsRuntime st region function_name runtime =
     found (\<lambda>(_, l). l_region l = region \<and> l_function l = function_name \<and> l_runtime l = runtime) (lambdas st)"

definition lam_lambdaExistsByArn :: "lambda_repo \<Rightarrow> string \<Rightarrow> bool" where
  "lam_lambdaExistsByArn st arn = found (\<lambda>(_, l). l_arn l = arn) (lambdas st)"

definition lam_listLambdasWithEventSource :: "lambda_repo \<Rightarrow> string \<Rightarrow> lambda_fn list" where
  "lam_listLambdasWithEventSource st eventSourceArn =
     where_if eventSourceArn (\<lambda>l. HasEventSource l eventSourceArn) (values_of (lambdas st))"

definition lam_listLambdas :: "lambda_repo \<Rightarrow> string \<Rightarrow> lambda_fn list" where
  "lam_listLambdas st region = where_if region (\<lambda>l. l_region l = region) (values_of (lambdas st))"

definition lam_listLambdaCounters :: "lambda_repo \<Rightarrow> string \<Rightarrow> string \<Rightarrow> int \<Rightarrow> int \<Rightarrow> sort_column list \<Rightarrow> lambda_fn list outcome" where
  "lam_listLambdaCounters st region pre pageSize pageIndex sortColumns =
     (let q = values_of (lambdas st);
          q = where_if region (\<lambda>l. l_region l = region) q;
          q = where_if pre (\<lambda>l. StartsWith (l_function l) pre) q;
          q = q_order_by (by_key 1 l_oid) q;
          q = foldl (\<lambda>q sc. if sc_column sc = ''name'' then q_order_by (by_key 1 l_function) q else q) q sortColumns in
      PageVector q pageSize pageIndex)"

definition lam_getLambdaById :: "lambda_repo \<Rightarrow> string \<Rightarrow> (lambda_repo \<times> lambda_fn) outcome" where
  "lam_getLambdaById st oid =
     with_lambdas st (get_or_throw (DatabaseException (''Get lambda by ID failed, arn: '' @ oid)) set_l_oid
       (\<lambda>(k, _). k = oid) (lambdas st))"

definition lam_createLambda :: "layout \<Rightarrow> uuid \<Rightarrow> lambda_repo \<Rightarrow> lambda_fn \<Rightarrow> (lambda_repo \<times> lambda_fn) outcome" where
  "lam_createLambda lay uuid st lambda =
     lam_getLambdaById (st\<lparr>lambdas := hmap_insert lay uuid lambda (lambdas st)\<rparr>) uuid"

text \<open>\<open>getLambdaByArn\<close> writes the ARN it was called with into the object id.\<close>

definition lam_getLambdaByArn :: "lambda_repo \<Rightarrow> string \<Rightarrow> (lambda_repo \<times> lambda_fn) outcome" where
  "lam_getLambdaByArn st arn =
     with_lambdas st (or_throw (''Get lambda by ARN failed, arn: '' @ arn)
       (modify_found (\<lambda>(_, l). l_arn l = arn) (set_l_oid arn) (lambdas st)))"

definition lam_getLambdaByName :: "lambda_repo \<Rightarrow> string \<Rightarrow> string \<Rightarrow> (lambda_repo \<times> lambda_fn) outcome" where
  "lam_getLambdaByName st region name =
     with_lambdas st (get_or_throw (DatabaseException (''Get lambda by name failed, name: '' @ name)) set_l_oid
       (\<lambda>(_, l). l_region l = region \<and> l_function l = name) (lambdas st))"

definition lam_lambdaCount :: "lambda_repo \<Rightarrow> string \<Rightarrow> int" where
  "lam_lambdaCount st region = int (q_count (where_if region (\<lambda>l. l_region l = region) (values_of (lambdas st))))"

definition lam_updateLambda :: "lambda_repo \<Rightarrow> lambda_fn \<Rightarrow> (lambda_repo \<times> lambda_fn) outcome" where
  "lam_updateLambda st lambda =
     with_lambdas st (or_throw (''Update lambda failed, region: '' @ l_region lambda @ '' function: '' @ l_function lambda)
       (replace_found (\<lambda>(_, l). l_region l = l_region lambda \<and> l_function l = l_function lambda) lambda (lambdas st)))"

definition lam_createOrUpdateLambda :: "layout \<Rightarrow> uuid \<Rightarrow> lambda_repo \<Rightarrow> lambda_fn \<Rightarrow> (lambda_repo \<times> lambda_fn) outcome" where
  "lam_createOrUpdateLambda lay uuid st lambda =
     (if lam_lambdaExists st lambda then lam_updateLambda st lambda else lam_createLambda lay uuid st lambda)"

definition same_runtime :: "string \<Rightarrow> string \<Rightarrow> string \<Rightarrow> string \<times> lambda_fn \<Rightarrow> bool" where
  "same_runtime region function_name runtime =
     (\<lambda>(_, l). l_region l = region \<and> l_function l = function_name \<and> l_runtime l = runtime)"

definition lam_addLambdaInstance :: "time_point \<Rightarrow> lambda_repo \<Rightarrow> string \<Rightarrow> string \<Rightarrow> string \<Rightarrow> lambda_instance
    \<Rightarrow> (lambda_repo \<times> lambda_fn) outcome" where
  "lam_addLambdaInstance now st region function_name runtime inst =
     with_lambdas st (or_throw (''Add lambda instance failed, region: '' @ region @ '' function: '' @ function_name)
       (modify_found (same_runtime region function_name runtime)
          (\<lambda>l. l\<lparr>l_instances := l_instances l @ [inst], l_modified := now\<rparr>) (lambdas st)))"

definition connect_instance :: "lambda_instance \<Rightarrow> lambda_instance \<Rightarrow> lambda_instance" where
  "connect_instance inst i = i\<lparr>in_containerId := in_containerId inst, in_containerName := in_containerName inst,
     in_hostName := in_hostName inst, in_publicPort := in_publicPort inst, in_privatePort := in_privatePort inst\<rparr>"

definition lam_updateLambdaInstanceConnection :: "time_point \<Rightarrow> lambda_repo \<Rightarrow> string \<Rightarrow> string \<Rightarrow> string \<Rightarrow> lambda_instance
    \<Rightarrow> (lambda_repo \<times> lambda_fn) outcome" where
  "lam_updateLambdaInstanceConnection now st region function_name runtime inst =
     with_lambdas st (or_throw (''Update lambda instance connection failed, region: '' @ region @ '' function: '' @ function_name)
       (modify_found (same_runtime region function_name runtime)
          (\<lambda>l. if HasInstance l (in_instanceId inst)
               then l\<lparr>l_instances := update_first (\<lambda>i. in_instanceId i = in_instanceId inst) (connect_instance inst) (l_instances l),
                      l_modified := now\<rparr>
               else l) (lambdas st)))"

definition report_instance :: "lambda_instance \<Rightarrow> lambda_instance \<Rightarrow> lambda_instance" where
  "report_instance inst i = i\<lparr>in_status := in_status inst, in_runtimeVersion := in_runtimeVersion inst,
     in_invocations := in_invocations inst, in_avgDuration := in_avgDuration inst, in_lastStart := in_lastStart inst,
     in_lastStop := in_lastStop inst, in_lastInvocation := in_lastInvocation inst\<rparr>"

definition lam_updateLambdaInstance :: "time_point \<Rightarrow> lambda_repo \<Rightarrow> string \<Rightarrow> string \<Rightarrow> string \<Rightarrow> lambda_instance
    \<Rightarrow> lambda_repo \<times> bool" where
  "lam_updateLambdaInstance now st region function_name runtime inst =
     (case find_if (same_runtime region function_name runtime) (lambdas st) of
        None \<Rightarrow> (st, False)
      | Some (k, l) \<Rightarrow>
          (if \<not> HasInstance l (in_instanceId inst) then (st, False)
           else (st\<lparr>lambdas := modify k (\<lambda>l. l\<lparr>l_instances :=
                    update_first (\<lambda>i. in_instanceId i = in_instanceId inst) (report_instance inst) (l_instances l),
                    l_modified := now\<rparr>) (lambdas st)\<rparr>, True)))"

text \<open>The conversion of a \<open>double\<close> to \<open>long\<close> cuts the fraction off.\<close>

definition truncate :: "rat \<Rightarrow> int" where
  "truncate x = (if x \<ge> 0 then \<lfloor>x\<rfloor> else \<lceil>x\<rceil>)"

definition lam_updateLambdaCounters :: "time_point \<Rightarrow> lambda_repo \<Rightarrow> string \<Rightarrow> string \<Rightarrow> string \<Rightarrow> int \<Rightarrow> rat
    \<Rightarrow> lambda_repo \<times> bool" where
  "lam_updateLambdaCounters now st region function_name runtime invocations avgDuration =
     (case modify_found (same_runtime region function_name runtime)
         (\<lambda>l. l\<lparr>l_invocations := invocations, l_avgDuration := truncate avgDuration, l_modified := now\<rparr>) (lambdas st) of
        None \<Rightarrow> (st, False)
      | Some (ls, _) \<Rightarrow> (st\<lparr>lambdas := ls\<rparr>, True))"

text \<open>
  \<open>importLambda\<close> asks for region and function, then reads the instances of the function with the
  ARN, then replaces the first function of the region and name.
\<close>

definition lam_importLambda :: "layout \<Rightarrow> uuid \<Rightarrow> time_point \<Rightarrow> lambda_repo \<Rightarrow> lambda_fn \<Rightarrow> (lambda_repo \<times> lambda_fn) outcome" where
  "lam_importLambda lay uuid now st lambda =
     (if lam_lambdaExists st lambda then
        (case lam_getLambdaByArn st (l_arn lambda) of
           Inl e \<Rightarrow> Inl e
         | Inr (st', existing) \<Rightarrow>
             lam_updateLambda st' (lambda\<lparr>l_modified := now, l_instances := l_instances existing\<rparr>))
      else lam_createLambda lay uuid st lambda)"

definition lam_exportLambdas :: "lambda_repo \<Rightarrow> sort_column list \<Rightarrow> lambda_fn list" where
  "lam_exportLambdas st sortColumns = values_of (lambdas st)"

definition lam_deleteLambda :: "lambda_repo \<Rightarrow> string \<Rightarrow> lambda_repo" where
  "lam_deleteLambda st functionName =
     st\<lparr>lambdas := fst (erase_if (\<lambda>(_, l). l_function l = functionName) (lambdas st))\<rparr>"

definition lam_deleteAllLambdas :: "lambda_repo \<Rightarrow> lambda_repo \<times> int" where
  "lam_deleteAllLambdas st = (st\<lparr>lambdas := []\<rparr>, int (length (lambdas st)))"

subsection \<open>Results\<close>

definition lam_createLambdaResult :: "layout \<Rightarrow> uuid \<Rightarrow> lambda_repo \<Rightarrow> lambda_result \<Rightarrow> lambda_repo \<times> lambda_result \<times> lambda_result" where
  "lam_createLambdaResult lay uuid st r =
     (let r' = r\<lparr>lr_oid := uuid\<rparr> in
      (st\<lparr>lambdaResults := hmap_insert lay (lr_oid r') r' (lambdaResults st)\<rparr>, r', r'))"

definition lam_lambdaResultExists :: "lambda_repo \<Rightarrow> string \<Rightarrow> bool" where
  "lam_lambdaResultExists st oid = found (\<lambda>(k, _). k = oid) (lambdaResults st)"

definition lam_getLambdaResultCounter :: "lambda_repo \<Rightarrow> string \<Rightarrow> (lambda_repo \<times> lambda_result) outcome" where
  "lam_getLambdaResultCounter st oid =
     (case get_or_throw (DatabaseException (''Get lambda result by ID failed, oid: '' @ oid)) set_lr_oid
         (\<lambda>(k, _). k = oid) (lambdaResults st) of
        Inl e \<Rightarrow> Inl e
      | Inr (rs, r) \<Rightarrow> Inr (st\<lparr>lambdaResults := rs\<rparr>, r))"

text \<open>Both deletions of results erase from \<open>_lambdas\<close>.\<close>

definition lam_deleteResultsCounter :: "lambda_repo \<Rightarrow> string \<Rightarrow> lambda_repo \<times> int" where
  "lam_deleteResultsCounter st oid =
     (let r = erase_if (\<lambda>(k, _). k = oid) (lambdas st) in (st\<lparr>lambdas := fst r\<rparr>, snd r))"

definition lam_deleteResultsCounters :: "lambda_repo \<Rightarrow> string \<Rightarrow> lambda_repo \<times> int" where
  "lam_deleteResultsCounters st lambdaArn =
     (let r = erase_if (\<lambda>(_, l). l_arn l = lambdaArn) (lambdas st) in (st\<lparr>lambdas := fst r\<rparr>, snd r))"

definition lam_deleteAllResultsCounters :: "lambda_repo \<Rightarrow> lambda_repo \<times> int" where
  "lam_deleteAllResultsCounters st = (st\<lparr>lambdaResults := []\<rparr>, int (length (lambdaResults st)))"

definition lam_removeExpiredLambdaLogs :: "lambda_repo \<Rightarrow> time_point \<Rightarrow> lambda_repo \<times> int" where
  "lam_removeExpiredLambdaLogs st cutOff =
     (let r = erase_if (\<lambda>(_, x). lr_timestamp x < cutOff) (lambdaResults st) in (st\<lparr>lambdaResults := fst r\<rparr>, snd r))"

definition lam_listLambdaResultCounters :: "lambda_repo \<Rightarrow> string \<Rightarrow> string \<Rightarrow> int \<Rightarrow> int \<Rightarrow> sort_column list \<Rightarrow> lambda_result list outcome" where
  "lam_listLambdaResultCounters st lambdaArn pre pageSize pageIndex sortColumns =
     (let q = values_of (lambdaResults st);
          q = where_if lambdaArn (\<lambda>r. lr_lambdaArn r = lambdaArn) q;
          q = where_if pre (\<lambda>r. StartsWith (lr_lambdaArn r) pre) q in
      PageVector q pageSize pageIndex)"

definition lam_lambdaResultsCount :: "lambda_repo \<Rightarrow> string \<Rightarrow> int" where
  "lam_lambdaResultsCount st lambdaArn =
     int (q_count (where_if lambdaArn (\<lambda>r. lr_lambdaArn r = lambdaArn) (values_of (lambdaResults st))))"

end
