(* ===== verification/SqsService.thy ===== *)
theory SqsService
  imports SqsUtils StdNumbers LambdaRepo
begin

text \<open>
  The SQS service (\<open>srv/src/sqs/SQSService.cpp\<close>) and its maintenance tasks
  (\<open>srv/src/sqs/SQSServer.cpp\<close>) over the in-memory repository, with the mappers of the requests and
  responses (\<open>dto/include/awsmock/dto/sqs/mapper/Mapper.h\<close>).

  The service takes from its environment, here the record \<open>sqs_env\<close>: the configuration, \<open>boost::split\<close>,
  the MD5 digests and URL decoding of the libraries, the detection of a content type, the JSON reader
  of a redrive policy, whether the Lambda module listens, and what the container of a Lambda function
  answers to an invocation, a status and a body; it is taken not to touch the queues. The \<open>i\<close>-th reading of the clock in an operation is
  \<open>clock i\<close>; in the loops over the messages the reading at an entry is \<open>tick\<close> of its key. A
  \<open>DatabaseException\<close> of the repository would be thrown on as a \<open>ServiceException\<close>; the in-memory
  repository throws none.
\<close>

record sqs_env =
  e_cfg :: aws_config
  e_split :: "string \<Rightarrow> string \<Rightarrow> string list"
  e_md5 :: "string \<Rightarrow> string"
  e_md5_body :: "string \<Rightarrow> string"
  e_decode :: "string \<Rightarrow> string"
  e_magic :: "string \<Rightarrow> string"
  e_redrive_json :: "string \<Rightarrow> redrive_policy \<Rightarrow> redrive_policy outcome"
  e_lambda_module :: bool
  e_invoke :: "string \<Rightarrow> sqs_message \<Rightarrow> string \<Rightarrow> int \<times> string"

definition require :: "bool \<Rightarrow> string \<Rightarrow> 'a outcome \<Rightarrow> 'a outcome" where
  "require ok msg r = (if ok then r else Inl (ServiceException msg))"

lemma require_simps [simp]: "require True msg r = r" "require False msg r = Inl (ServiceException msg)"
  by (simp_all add: require_def)

lemma require_Inr: "require ok msg r = Inr x \<longleftrightarrow> ok \<and> r = Inr x"
  by (simp add: require_def)

subsection \<open>Requests, responses and their mappers\<close>

datatype dto_attr_type = DTO_STRING | DTO_STRING_LIST | DTO_NUMBER | DTO_NUMBER_LIST | DTO_BINARY | DTO_BINARY_LIST

definition dto_attr_type_names :: "(dto_attr_type \<times> string) list" where
  "dto_attr_type_names =
     [(DTO_STRING, ''String''), (DTO_STRING_LIST, ''StringList''), (DTO_NUMBER, ''Number''),
      (DTO_NUMBER_LIST, ''NumberList''), (DTO_BINARY, ''Binary''), (DTO_BINARY_LIST, ''BinaryList'')]"

definition MessageAttributeDataTypeToString :: "dto_attr_type \<Rightarrow> string" where
  "MessageAttributeDataTypeToString t = enum_to_string dto_attr_type_names t"

definition MessageAttributeDataTypeFromString :: "string \<Rightarrow> dto_attr_type" where
  "MessageAttributeDataTypeFromString s = enum_from_string dto_attr_type_names DTO_STRING s"

record dto_attribute =
  da_stringValue :: string
  da_stringListValues :: "string list"
  da_binaryValue :: "8 word list"
  da_binaryListValues :: "8 word list list"
  da_dataType :: dto_attr_type

text \<open>Both directions leave the binary values out.\<close>

definition MessageAttribute_toEntity :: "dto_attribute \<Rightarrow> sqs_message_attribute" where
  "MessageAttribute_toEntity d =
     \<lparr>ma_stringValue = da_stringValue d, ma_stringListValues = da_stringListValues d, ma_binaryValue = [],
      ma_binaryListValues = [],
      ma_dataType = MessageAttributeTypeFromString (MessageAttributeDataTypeToString (da_dataType d))\<rparr>"

definition MessageAttribute_toDto :: "sqs_message_attribute \<Rightarrow> dto_attribute" where
  "MessageAttribute_toDto e =
     \<lparr>da_stringValue = ma_stringValue e, da_stringListValues = ma_stringListValues e, da_binaryValue = [],
      da_binaryListValues = [],
      da_dataType = MessageAttributeDataTypeFromString (MessageAttributeTypeToString (ma_dataType e))\<rparr>"

definition toEntityMap :: "(string \<times> dto_attribute) list \<Rightarrow> (string \<times> sqs_message_attribute) list" where
  "toEntityMap m = map (\<lambda>(k, v). (k, MessageAttribute_toEntity v)) m"

definition toDtoMap :: "(string \<times> sqs_message_attribute) list \<Rightarrow> (string \<times> dto_attribute) list" where
  "toDtoMap m = map (\<lambda>(k, v). (k, MessageAttribute_toDto v)) m"

record send_request =
  sr_region :: string
  sr_user :: string
  sr_queueUrl :: string
  sr_body :: string
  sr_messageGroupId :: string
  sr_messageDeduplicationId :: string
  sr_delaySeconds :: int
  sr_contentType :: string
  sr_attributes :: "(string \<times> string) list"
  sr_messageAttributes :: "(string \<times> dto_attribute) list"

record send_response =
  sp_messageId :: string
  sp_md5Body :: string
  sp_md5MessageAttributes :: string
  sp_md5MessageSystemAttributes :: string

record dto_message =
  dm_queueName :: string
  dm_queueArn :: string
  dm_queueUrl :: string
  dm_messageId :: string
  dm_receiptHandle :: string
  dm_body :: string
  dm_size :: int
  dm_attributes :: "(string \<times> string) list"
  dm_messageAttributes :: "(string \<times> dto_attribute) list"
  dm_md5OfBody :: string
  dm_md5OfMessageAttributes :: string

record create_queue_response =
  cq_region :: string
  cq_owner :: string
  cq_queueName :: string
  cq_queueArn :: string
  cq_queueUrl :: string

definition Message_toDto :: "sqs_env \<Rightarrow> sqs_message \<Rightarrow> dto_message" where
  "Message_toDto env e =
     \<lparr>dm_queueName = m_queueName e, dm_queueArn = m_queueArn e,
      dm_queueUrl = ConvertSQSQueueArnToUrl (e_split env) (e_cfg env) (m_queueArn e),
      dm_messageId = m_messageId e, dm_receiptHandle = m_receiptHandle e, dm_body = m_body e, dm_size = m_size e,
      dm_attributes = m_attributes e, dm_messageAttributes = toDtoMap (m_messageAttributes e),
      dm_md5OfBody = e_md5_body env (m_body e),
      dm_md5OfMessageAttributes = CreateMd5OfMessageAttributes (e_md5 env) (m_messageAttributes e)\<rparr>"

definition SendMessageRequest_toEntity :: "sqs_env \<Rightarrow> time_point \<Rightarrow> send_request \<Rightarrow> sqs_message" where
  "SendMessageRequest_toEntity env now d =
     (let queueName = ConvertSQSQueueUrlToName (sr_queueUrl d); attributes = toEntityMap (sr_messageAttributes d) in
      (default_message now)\<lparr>m_queueName := queueName,
        m_queueArn := CreateSQSQueueArn (sr_region d) (cfg_account_id (e_cfg env)) queueName,
        m_body := sr_body d, m_attributes := sr_attributes d, m_messageAttributes := attributes,
        m_md5Body := e_md5_body env (sr_body d),
        m_md5MessageAttributes := CreateMd5OfMessageAttributes (e_md5 env) attributes,
        m_md5MessageSystemAttributes := CreateMd5OfMessageSystemAttributes (e_md5 env) (e_decode env) (sr_attributes d)\<rparr>)"

definition SendMessageResponse_toDto :: "sqs_env \<Rightarrow> sqs_message \<Rightarrow> send_response" where
  "SendMessageResponse_toDto env e =
     \<lparr>sp_messageId = ConvertSQSQueueUrlToName (m_messageId e), sp_md5Body = e_md5_body env (m_body e),
      sp_md5MessageAttributes = CreateMd5OfMessageAttributes (e_md5 env) (m_messageAttributes e),
      sp_md5MessageSystemAttributes = CreateMd5OfMessageSystemAttributes (e_md5 env) (e_decode env) (m_attributes e)\<rparr>"

definition CreateQueueResponse_toDto :: "sqs_queue \<Rightarrow> create_queue_response" where
  "CreateQueueResponse_toDto e =
     \<lparr>cq_region = q_region e, cq_owner = q_owner e, cq_queueName = q_name e, cq_queueArn = q_arn e, cq_queueUrl = q_url e\<rparr>"

text \<open>The numbers of the attributes of a new queue are read in the order of the map; the first that is
  none throws.\<close>

definition queue_attribute_entry :: "string \<times> string \<Rightarrow> queue_attribute \<Rightarrow> queue_attribute outcome" where
  "queue_attribute_entry = (\<lambda>(k, v) a.
     if k = ''QueueArn'' then Inr (a\<lparr>qa_queueArn := v\<rparr>)
     else if k = ''DelaySeconds'' then bind (stol v) (\<lambda>n. Inr (a\<lparr>qa_delaySeconds := n\<rparr>))
     else if k = ''MaxMessageSize'' then bind (stol v) (\<lambda>n. Inr (a\<lparr>qa_maxMessageSize := n\<rparr>))
     else if k = ''MessageRetentionPeriod'' then bind (stol v) (\<lambda>n. Inr (a\<lparr>qa_messageRetentionPeriod := n\<rparr>))
     else if k = ''ReceiveMessageWaitTime'' then bind (stol v) (\<lambda>n. Inr (a\<lparr>qa_receiveMessageWaitTime := n\<rparr>))
     else if k = ''VisibilityTimeout'' then bind (stol v) (\<lambda>n. Inr (a\<lparr>qa_visibilityTimeout := n\<rparr>))
     else if k = ''Policy'' then Inr (a\<lparr>qa_policy := v\<rparr>)
     else if k = ''RedriveAllowPolicy'' then Inr (a\<lparr>qa_redriveAllowPolicy := v\<rparr>)
     else Inr a)"

fun queue_attributes :: "(string \<times> string) list \<Rightarrow> queue_attribute \<Rightarrow> queue_attribute outcome" where
  "queue_attributes [] a = Inr a"
| "queue_attributes (kv # kvs) a = bind (queue_attribute_entry kv a) (queue_attributes kvs)"

definition CreateSQSQueueUrl :: "aws_config \<Rightarrow> string \<Rightarrow> string" where
  "CreateSQSQueueUrl cfg queueName =
     ''http://sqs.'' @ cfg_region cfg @ ''.'' @ cfg_hostname cfg @ '':'' @ cfg_http_port cfg @ ''/'' @ cfg_account_id cfg @ ''/'' @ queueName"

definition CreateQueueRequest_toEntity :: "aws_config \<Rightarrow> time_point \<Rightarrow> string \<Rightarrow> string \<Rightarrow> string \<Rightarrow> (string \<times> string) list
    \<Rightarrow> (string \<times> string) list \<Rightarrow> sqs_queue outcome" where
  "CreateQueueRequest_toEntity cfg now region user queueName attributes tags =
     (let e = (default_queue now)\<lparr>q_region := region, q_name := queueName, q_owner := user,
            q_arn := CreateArn ''sqs'' (cfg_region cfg) (cfg_account_id cfg) queueName,
            q_url := CreateSQSQueueUrl cfg queueName\<rparr> in
      bind (queue_attributes attributes (q_attributes e)) (\<lambda>a. Inr (e\<lparr>q_attributes := a, q_tags := tags\<rparr>)))"

subsection \<open>Queues\<close>

abbreviation no_queue_url :: "string \<Rightarrow> string \<Rightarrow> string" where
  "no_queue_url region url \<equiv> ''Queue does not exist, region: '' @ region @ '' queueUrl: '' @ url"

abbreviation no_queue_arn :: "string \<Rightarrow> string" where
  "no_queue_arn arn \<equiv> ''Queue does not exist, queueArn: '' @ arn"

text \<open>The test for an existing queue uses the region of the request, the stored ARN the configured one.\<close>

definition svc_createQueue :: "sqs_env \<Rightarrow> (nat \<Rightarrow> time_point) \<Rightarrow> layout \<Rightarrow> uuid \<Rightarrow> sqs_repo \<Rightarrow> string \<Rightarrow> string \<Rightarrow> string
    \<Rightarrow> (string \<times> string) list \<Rightarrow> (string \<times> string) list \<Rightarrow> (sqs_repo \<times> create_queue_response) outcome" where
  "svc_createQueue env clock lay uuid st region user queueName attributes tags =
     (let queueArn = CreateArn ''sqs'' region (cfg_account_id (e_cfg env)) queueName in
      if sqs_queueArnExists st queueArn
      then (let (st', queue) = sqs_getQueueByArn (clock 0) st queueArn in Inr (st', CreateQueueResponse_toDto queue))
      else bind (CreateQueueRequest_toEntity (e_cfg env) (clock 0) region user queueName attributes tags)
        (\<lambda>queue. let (st', _, queue') = sqs_createQueue lay uuid st queue in Inr (st', CreateQueueResponse_toDto queue')))"

definition svc_purgeQueue :: "sqs_env \<Rightarrow> (nat \<Rightarrow> time_point) \<Rightarrow> sqs_repo \<Rightarrow> string \<Rightarrow> string \<Rightarrow> (sqs_repo \<times> int) outcome" where
  "svc_purgeQueue env clock st region queueUrl =
     require (sqs_queueUrlExists st region queueUrl) (no_queue_url region queueUrl)
       (let queueArn = ConvertToArn (e_cfg env) region queueUrl;
            (st1, deleted) = sqs_purgeQueue st queueArn;
            (st2, queue) = sqs_getQueueByUrl (clock 0) st1 region queueUrl;
            queue = queue\<lparr>q_size := 0, q_attributes := (q_attributes queue)\<lparr>qa_approximateNumberOfMessages := 0,
              qa_approximateNumberOfMessagesDelayed := 0, qa_approximateNumberOfMessagesNotVisible := 0\<rparr>\<rparr>;
            (st3, _, _) = sqs_updateQueue (clock 1) st2 queue in
        Inr (st3, deleted))"

fun purge_each :: "sqs_env \<Rightarrow> (nat \<Rightarrow> nat \<Rightarrow> time_point) \<Rightarrow> sqs_queue list \<Rightarrow> sqs_repo \<Rightarrow> int \<Rightarrow> (sqs_repo \<times> int) outcome" where
  "purge_each env clock [] st deleted = Inr (st, deleted)"
| "purge_each env clock (q # qs) st deleted =
     bind (svc_purgeQueue env (clock (length qs)) st (q_region q) (q_url q))
       (\<lambda>(st', n). purge_each env clock qs st' (deleted + n))"

definition svc_purgeAllQueues :: "sqs_env \<Rightarrow> (nat \<Rightarrow> nat \<Rightarrow> time_point) \<Rightarrow> sqs_repo \<Rightarrow> (sqs_repo \<times> int) outcome" where
  "svc_purgeAllQueues env clock st = purge_each env clock (sqs_listQueuesRegion st []) st 0"

text \<open>A queue that is nobody's dead-letter queue is not redriven but has its expired messages reset.\<close>

fun redrive_each :: "(sqs_repo \<Rightarrow> sqs_queue \<Rightarrow> sqs_repo \<times> int) \<Rightarrow> sqs_queue list \<Rightarrow> sqs_repo \<Rightarrow> int \<Rightarrow> sqs_repo \<times> int" where
  "redrive_each drive [] st n0 = (st, n0)"
| "redrive_each drive (q # qs) st n0 = (let (st', n) = drive st q in redrive_each drive qs st' (n0 + n))"

definition svc_redriveMessages :: "time_point \<Rightarrow> (string \<Rightarrow> time_point) \<Rightarrow> sqs_repo \<Rightarrow> string \<Rightarrow> (sqs_repo \<times> int) outcome" where
  "svc_redriveMessages now tick st queueArn =
     require (sqs_queueArnExists st queueArn) (no_queue_arn queueArn)
       (let (st1, queue) = sqs_getQueueByArn now st queueArn;
            mainQueues = sqs_isDlq st1 queueArn;
            (st2, n0) = (if mainQueues \<noteq> [] then redrive_each (\<lambda>st mainQueue. sqs_redriveMessages st mainQueue queue) mainQueues st1 0
                            else sqs_resetMessages tick st1 (q_arn queue) (qa_visibilityTimeout (q_attributes queue))) in
        bind (sqs_adjustMessageCounters st2) (\<lambda>st3. Inr (st3, n0)))"

definition svc_redriveMessage :: "time_point \<Rightarrow> (string \<Rightarrow> time_point) \<Rightarrow> sqs_repo \<Rightarrow> string \<Rightarrow> string \<Rightarrow> sqs_repo outcome" where
  "svc_redriveMessage now tick st queueArn messageId =
     require (sqs_queueArnExists st queueArn) (no_queue_arn queueArn)
       (let (st1, queue) = sqs_getQueueByArn now st queueArn;
            mainQueues = sqs_isDlq st1 queueArn;
            (st2, _) = (if mainQueues \<noteq> [] then redrive_each (\<lambda>st mainQueue. sqs_redriveMessage st mainQueue queue messageId) mainQueues st1 0
                        else sqs_resetMessages tick st1 (q_arn queue) (qa_visibilityTimeout (q_attributes queue))) in
        sqs_adjustMessageCounters st2)"

text \<open>An attribute of the request is set when it is there and not empty.\<close>

definition request_attribute :: "(string \<times> string) list \<Rightarrow> string \<Rightarrow> string" where
  "request_attribute attributes k = (case map_of attributes k of Some v \<Rightarrow> v | None \<Rightarrow> [])"

definition set_queue_attributes :: "sqs_env \<Rightarrow> (string \<times> string) list \<Rightarrow> string \<Rightarrow> queue_attribute \<Rightarrow> queue_attribute outcome" where
  "set_queue_attributes env attributes arn a =
     (let att = request_attribute attributes;
          a = (if att ''Policy'' \<noteq> [] then a\<lparr>qa_policy := att ''Policy''\<rparr> else a) in
      bind (if att ''RedrivePolicy'' \<noteq> []
            then bind (e_redrive_json env (att ''RedrivePolicy'') (qa_redrivePolicy a)) (\<lambda>p. Inr (a\<lparr>qa_redrivePolicy := p\<rparr>))
            else Inr a) (\<lambda>a.
      let a = (if att ''RedriveAllowPolicy'' \<noteq> [] then a\<lparr>qa_redriveAllowPolicy := att ''RedriveAllowPolicy''\<rparr> else a) in
      bind (if att ''MessageRetentionPeriod'' \<noteq> []
            then bind (stoi (att ''MessageRetentionPeriod'')) (\<lambda>n. Inr (a\<lparr>qa_messageRetentionPeriod := n\<rparr>)) else Inr a) (\<lambda>a.
      bind (if att ''VisibilityTimeout'' \<noteq> []
            then bind (stoi (att ''VisibilityTimeout'')) (\<lambda>n. Inr (a\<lparr>qa_visibilityTimeout := n\<rparr>)) else Inr a) (\<lambda>a.
      Inr (a\<lparr>qa_queueArn := (if att ''QueueArn'' \<noteq> [] then att ''QueueArn'' else arn)\<rparr>)))))"

definition svc_setQueueAttributes :: "sqs_env \<Rightarrow> (nat \<Rightarrow> time_point) \<Rightarrow> sqs_repo \<Rightarrow> string \<Rightarrow> string \<Rightarrow> (string \<times> string) list
    \<Rightarrow> sqs_repo outcome" where
  "svc_setQueueAttributes env clock st region queueUrl attributes =
     require (sqs_queueUrlExists st region queueUrl) (no_queue_url region queueUrl)
       (let (st1, queue) = sqs_getQueueByUrl (clock 0) st region queueUrl in
        bind (set_queue_attributes env attributes (q_arn queue) (q_attributes queue)) (\<lambda>a.
          let (st2, _, _) = sqs_updateQueue (clock 1) st1 (queue\<lparr>q_attributes := a\<rparr>) in Inr st2))"

text \<open>Operations that fetch a queue by its ARN or URL, change it and write it back.\<close>

definition change_queue :: "(nat \<Rightarrow> time_point) \<Rightarrow> sqs_repo \<times> sqs_queue \<Rightarrow> (sqs_queue \<Rightarrow> sqs_queue) \<Rightarrow> sqs_repo \<times> sqs_queue" where
  "change_queue clock r f = (let (st1, queue) = r; (st2, _, queue') = sqs_updateQueue (clock 1) st1 (f queue) in (st2, queue'))"

definition svc_tagQueue :: "(nat \<Rightarrow> time_point) \<Rightarrow> sqs_repo \<Rightarrow> string \<Rightarrow> string \<Rightarrow> (string \<times> string) list \<Rightarrow> sqs_repo outcome" where
  "svc_tagQueue clock st region queueUrl tags =
     require (sqs_queueUrlExists st region queueUrl) (''SQS queue does not exists, queueUrl: '' @ queueUrl)
       (Inr (fst (change_queue clock (sqs_getQueueByUrl (clock 0) st region queueUrl)
          (\<lambda>q. q\<lparr>q_tags := foldl (\<lambda>m (k, v). omap_insert k v m) (q_tags q) tags\<rparr>))))"

definition svc_untagQueue :: "(nat \<Rightarrow> time_point) \<Rightarrow> sqs_repo \<Rightarrow> string \<Rightarrow> string \<Rightarrow> string list \<Rightarrow> sqs_repo outcome" where
  "svc_untagQueue clock st region queueUrl tags =
     require (sqs_queueUrlExists st region queueUrl) ''SQS queue topic does not exists''
       (if tags = [] then Inr st
        else Inr (fst (change_queue clock (sqs_getQueueByUrl (clock 0) st region queueUrl)
          (\<lambda>q. q\<lparr>q_tags := foldl (\<lambda>m tag. fst (erase_if (\<lambda>(k, _). k = tag) m)) (q_tags q) tags\<rparr>))))"

text \<open>The three operations on default attributes answer with the number and the DTOs of the attributes.\<close>

definition attribute_counters :: "sqs_repo \<times> sqs_queue \<Rightarrow> sqs_repo \<times> int \<times> (string \<times> dto_attribute) list" where
  "attribute_counters r = (fst r, int (length (q_defaultMessageAttributes (snd r))), toDtoMap (q_defaultMessageAttributes (snd r)))"

definition svc_addDefaultMessageAttribute :: "(nat \<Rightarrow> time_point) \<Rightarrow> sqs_repo \<Rightarrow> string \<Rightarrow> string \<Rightarrow> dto_attribute
    \<Rightarrow> (sqs_repo \<times> int \<times> (string \<times> dto_attribute) list) outcome" where
  "svc_addDefaultMessageAttribute clock st queueArn name attribute =
     require (sqs_queueArnExists st queueArn) (no_queue_arn queueArn)
       (let e = \<lparr>ma_stringValue = da_stringValue attribute, ma_stringListValues = [], ma_binaryValue = [],
              ma_binaryListValues = [],
              ma_dataType = MessageAttributeTypeFromString (MessageAttributeDataTypeToString (da_dataType attribute))\<rparr> in
        Inr (attribute_counters (change_queue clock (sqs_getQueueByArn (clock 0) st queueArn)
          (\<lambda>q. q\<lparr>q_defaultMessageAttributes := omap_insert name e (q_defaultMessageAttributes q)\<rparr>))))"

definition default_message_attribute :: sqs_message_attribute where
  "default_message_attribute =
     \<lparr>ma_stringValue = [], ma_stringListValues = [], ma_binaryValue = [], ma_binaryListValues = [], ma_dataType = STRING\<rparr>"

definition svc_updateDefaultMessageAttribute :: "(nat \<Rightarrow> time_point) \<Rightarrow> sqs_repo \<Rightarrow> string \<Rightarrow> string \<Rightarrow> string \<Rightarrow> string
    \<Rightarrow> (sqs_repo \<times> int \<times> (string \<times> dto_attribute) list) outcome" where
  "svc_updateDefaultMessageAttribute clock st queueArn name val dataType =
     require (sqs_queueArnExists st queueArn) (no_queue_arn queueArn)
       (Inr (attribute_counters (change_queue clock (sqs_getQueueByArn (clock 0) st queueArn)
          (\<lambda>q. let old = (case map_of (q_defaultMessageAttributes q) name of Some a \<Rightarrow> a | None \<Rightarrow> default_message_attribute) in
             q\<lparr>q_defaultMessageAttributes := omap_insert name
                (old\<lparr>ma_stringValue := val, ma_dataType := MessageAttributeTypeFromString dataType\<rparr>)
                (q_defaultMessageAttributes q)\<rparr>))))"

definition svc_deleteDefaultMessageAttribute :: "(nat \<Rightarrow> time_point) \<Rightarrow> sqs_repo \<Rightarrow> string \<Rightarrow> string
    \<Rightarrow> (sqs_repo \<times> int \<times> (string \<times> dto_attribute) list) outcome" where
  "svc_deleteDefaultMessageAttribute clock st queueArn name =
     require (sqs_queueArnExists st queueArn) (no_queue_arn queueArn)
       (Inr (attribute_counters (change_queue clock (sqs_getQueueByArn (clock 0) st queueArn)
          (\<lambda>q. q\<lparr>q_defaultMessageAttributes := fst (erase_if (\<lambda>(k, _). k = name) (q_defaultMessageAttributes q))\<rparr>))))"

definition svc_updateDql :: "(nat \<Rightarrow> time_point) \<Rightarrow> sqs_repo \<Rightarrow> string \<Rightarrow> string \<Rightarrow> int \<Rightarrow> sqs_repo outcome" where
  "svc_updateDql clock st queueArn targetArn retries =
     require (sqs_queueArnExists st queueArn) (no_queue_arn queueArn)
       (require (sqs_queueArnExists st targetArn) (''Target queue does not exist, targetArn: '' @ targetArn)
         (if retries < 1 then Inl (ServiceException (''Retries must be >=1, , queueArn: '' @ queueArn))
          else Inr (fst (change_queue clock (sqs_getQueueByArn (clock 0) st queueArn)
            (\<lambda>q. q\<lparr>q_attributes := (q_attributes q)\<lparr>qa_redrivePolicy :=
               \<lparr>rp_deadLetterTargetArn = targetArn, rp_maxReceiveCount = retries\<rparr>\<rparr>\<rparr>)))))"

definition svc_updateQueue :: "(nat \<Rightarrow> time_point) \<Rightarrow> sqs_repo \<Rightarrow> string \<Rightarrow> string \<Rightarrow> int \<Rightarrow> int \<Rightarrow> int \<Rightarrow> string \<Rightarrow> int \<Rightarrow> string
    \<Rightarrow> sqs_repo outcome" where
  "svc_updateQueue clock st region queueArn delay visibilityTimeout retentionPeriod deadLetterQueueArn maxRetries owner =
     require (sqs_queueArnExists st queueArn) (''Queue does not exist, region: '' @ region @ '' queueArn: '' @ queueArn)
       (Inr (fst (change_queue clock (sqs_getQueueByArn (clock 0) st queueArn)
          (\<lambda>q. q\<lparr>q_attributes := (q_attributes q)\<lparr>qa_delaySeconds := delay, qa_visibilityTimeout := visibilityTimeout,
                   qa_messageRetentionPeriod := retentionPeriod,
                   qa_redrivePolicy := \<lparr>rp_deadLetterTargetArn = deadLetterQueueArn, rp_maxReceiveCount = maxRetries\<rparr>\<rparr>,
                 q_owner := owner\<rparr>))))"

text \<open>\<open>deleteMessages\<close> of the repository compares the URL it is given here with ARNs.\<close>

definition svc_deleteQueue :: "time_point \<Rightarrow> sqs_repo \<Rightarrow> string \<Rightarrow> string \<Rightarrow> (sqs_repo \<times> string) outcome" where
  "svc_deleteQueue now st region queueUrl =
     require (sqs_queueUrlExists st region queueUrl) (no_queue_url region queueUrl)
       (let (st1, _) = sqs_deleteMessages st queueUrl;
            (st2, _) = sqs_deleteQueue st1 ((default_queue now)\<lparr>q_region := region, q_url := queueUrl\<rparr>) in
        Inr (st2, queueUrl))"

definition svc_isDlq :: "sqs_repo \<Rightarrow> string \<Rightarrow> bool \<times> string list" where
  "svc_isDlq st queueArn = (let mainQueues = sqs_isDlq st queueArn in (mainQueues \<noteq> [], map q_arn mainQueues))"

definition svc_listQueueArns :: "sqs_repo \<Rightarrow> string list" where
  "svc_listQueueArns st = map q_arn (sqs_listQueuesRegion st [])"

text \<open>A positive \<open>maxResults\<close> answers with all queues of the prefix, and the last object id as token.\<close>

definition svc_listQueues :: "sqs_repo \<Rightarrow> string \<Rightarrow> int \<Rightarrow> string \<Rightarrow> (string list \<times> int \<times> string) outcome" where
  "svc_listQueues st region maxResults queueNamePrefix =
     (if maxResults > 0 then
        bind (sqs_listQueuesPaged st queueNamePrefix maxResults 0 [] region) (\<lambda>queueList.
          Inr (map q_url queueList, sqs_countQueues st region [], if queueList \<noteq> [] then q_oid (last queueList) else []))
      else (let urls = sqs_listQueueUrls st region queueNamePrefix in Inr (urls, int (length urls), [])))"

definition svc_getMessageCount :: "time_point \<Rightarrow> sqs_repo \<Rightarrow> string \<Rightarrow> (sqs_repo \<times> string \<times> int) outcome" where
  "svc_getMessageCount now st queueArn =
     require (sqs_queueArnExists st queueArn) (no_queue_arn queueArn)
       (let (st', queue) = sqs_getQueueByArn now st queueArn in
        Inr (st', q_arn queue, qa_approximateNumberOfMessages (q_attributes queue)))"

definition svc_reloadAllCounters :: "sqs_repo \<Rightarrow> sqs_repo outcome" where
  "svc_reloadAllCounters st = sqs_adjustMessageCounters st"

end
