(* ===== verification/SqsMessages.thy ===== *)
theory SqsMessages
  imports SqsService
begin

text \<open>
  The message operations of the SQS service (\<open>srv/src/sqs/SQSService.cpp\<close>): sending with its
  delivery to Lambda functions (with the way of an invocation through \<open>srv/src/lambda/LambdaService.cpp\<close> and
  \<open>srv/src/lambda/LambdaController.cpp\<close> up to the container), receiving with short and long polling, changing the visibility
  timeout, resending, changing attributes and deleting; and the maintenance tasks of
  \<open>srv/src/sqs/SQSServer.cpp\<close>.

  Where an operation can throw, it does so before its first change of the repository, so that a
  fault carries no state: the searches before it only write object ids, which are there already.
\<close>

subsection \<open>Sending\<close>

definition to_lower :: "string \<Rightarrow> string" where
  "to_lower s = map tolower s"

definition ContainsIgnoreCase :: "string \<Rightarrow> string \<Rightarrow> bool" where
  "ContainsIgnoreCase s1 s2 \<longleftrightarrow> Contains (to_lower s1) (to_lower s2)"

definition IsSQSUrl :: "string \<Rightarrow> bool" where
  "IsSQSUrl queue \<longleftrightarrow> StartsWith queue ''http''"

definition IsSQSArn :: "string \<Rightarrow> bool" where
  "IsSQSArn queue \<longleftrightarrow> ContainsIgnoreCase queue ''arn''"

definition SanitizeSQSUrl :: "sqs_env \<Rightarrow> string \<Rightarrow> string" where
  "SanitizeSQSUrl env queue =
     (if IsSQSUrl queue then queue
      else if IsSQSArn queue then ConvertSQSQueueArnToUrl (e_split env) (e_cfg env) queue
      else CreateSQSQueueUrl (e_cfg env) queue)"

definition svc_getQueueUrl :: "sqs_env \<Rightarrow> time_point \<Rightarrow> sqs_repo \<Rightarrow> string \<Rightarrow> string \<Rightarrow> (sqs_repo \<times> string) outcome" where
  "svc_getQueueUrl env now st region queueName =
     (let queueUrl = SanitizeSQSUrl env queueName in
      require (sqs_queueUrlExists st region queueUrl)
        (''Queue does not exist, region: '' @ region @ '' queueName: '' @ queueName @ '' queueUrl: '' @ queueUrl)
        (let (st', queue) = sqs_getQueueByUrl now st region queueUrl in Inr (st', q_url queue)))"

text \<open>The clock ticks in nanoseconds; \<open>duration_cast\<close> rounds towards zero.\<close>

definition UnixTimestampMs :: "time_point \<Rightarrow> int" where
  "UnixTimestampMs t = (if t < 0 then - ((- t) div 1000000) else t div 1000000)"

definition sanitizeContentType :: "sqs_env \<Rightarrow> string \<Rightarrow> string \<Rightarrow> string" where
  "sanitizeContentType env contentType body =
     (if contentType = [] \<or> contentType = ''application/octet-stream'' \<or> contentType = ''binary/octet-stream''
      then e_magic env body else contentType)"

definition isLambdaExecutionError :: "string \<Rightarrow> bool" where
  "isLambdaExecutionError responseBody \<longleftrightarrow>
     find_sub responseBody (CHR 0x22 # ''errorType'' @ [CHR 0x22]) \<noteq> None \<or>
     find_sub responseBody (CHR 0x22 # ''errorMessage'' @ [CHR 0x22]) \<noteq> None"

text \<open>
  The invocation goes through a signal of the event bus to \<open>OnInvokeLambda\<close>
  (\<open>srv/src/lambda/LambdaController.cpp\<close>), which puts status and body into a promise and turns every
  exception into the status 500, so that nothing is thrown. What the containers of an enabled function
  answer, or what the handler makes of their failure, is the parameter \<open>e_invoke\<close>. Without a connected
  handler nobody fulfils the promise, and the wait for it ends after 60 seconds.
\<close>

definition OnInvokeLambda :: "sqs_env \<Rightarrow> lambda_repo \<Rightarrow> string \<Rightarrow> string \<Rightarrow> sqs_message \<Rightarrow> string \<Rightarrow> int \<times> string" where
  "OnInvokeLambda env lam region functionName message eventSourceArn =
     (case find_if (\<lambda>(_, l). l_arn l = CreateLambdaArn region (cfg_account_id (e_cfg env)) functionName) (lambdas lam) of
        None \<Rightarrow> (404, ''Lambda function not found: '' @ functionName)
      | Some (_, lambda) \<Rightarrow>
          if \<not> l_enabled lambda then (403, ''Lambda function is disabled'') else e_invoke env functionName message eventSourceArn)"

definition InvokeLambdaFunction :: "sqs_env \<Rightarrow> lambda_repo \<Rightarrow> string \<Rightarrow> string \<Rightarrow> sqs_message \<Rightarrow> string \<Rightarrow> int \<times> string" where
  "InvokeLambdaFunction env lam region functionName message eventSourceArn =
     (if e_lambda_module env then OnInvokeLambda env lam region functionName message eventSourceArn
      else (504, ''Lambda invocation timed out''))"

definition sendLambdaInvocationRequest :: "sqs_env \<Rightarrow> lambda_repo \<Rightarrow> sqs_repo \<Rightarrow> lambda_fn \<Rightarrow> sqs_message \<Rightarrow> string \<Rightarrow> sqs_repo outcome" where
  "sendLambdaInvocationRequest env lam st lambda message eventSourceArn =
     (let (status, body) = InvokeLambdaFunction env lam (cfg_region (e_cfg env)) (l_function lambda) message eventSourceArn in
      if status = 200 \<and> \<not> isLambdaExecutionError body
      then bind (sqs_deleteMessageByHandle False st (m_receiptHandle message)) (\<lambda>(st', _). Inr st')
      else Inr st)"

fun invoke_each :: "sqs_env \<Rightarrow> lambda_repo \<Rightarrow> sqs_message \<Rightarrow> string \<Rightarrow> lambda_fn list \<Rightarrow> sqs_repo \<Rightarrow> sqs_repo outcome" where
  "invoke_each env lam message queueArn [] st = Inr st"
| "invoke_each env lam message queueArn (l # ls) st =
     bind (sendLambdaInvocationRequest env lam st l message queueArn) (invoke_each env lam message queueArn ls)"

definition checkLambdaNotifications :: "sqs_env \<Rightarrow> lambda_repo \<Rightarrow> sqs_repo \<Rightarrow> string \<Rightarrow> sqs_message \<Rightarrow> sqs_repo outcome" where
  "checkLambdaNotifications env lam st queueArn message =
     invoke_each env lam message queueArn (lam_listLambdasWithEventSource lam queueArn) st"

text \<open>
  \<open>std::map::insert\<close> of a range keeps the entries that are there. The default attributes it adds are
  replaced, with all others, by those of the request further down.
\<close>

definition insert_new :: "'v omap \<Rightarrow> 'v omap \<Rightarrow> 'v omap" where
  "insert_new m kvs = foldl (\<lambda>m (k, v). if k \<in> fst ` set m then m else omap_insert k v m) m kvs"

definition system_attributes :: "(nat \<Rightarrow> time_point) \<Rightarrow> sqs_queue \<Rightarrow> send_request \<Rightarrow> (string \<times> string) list" where
  "system_attributes clock queue d =
     [(''SentTimestamp'', to_string (UnixTimestampMs (clock 2))),
      (''ApproximateFirstReceivedTimestamp'', to_string (UnixTimestampMs (clock 3))),
      (''ApproximateReceivedCount'', to_string 1),
      (''VisibilityTimeout'', to_string (qa_visibilityTimeout (q_attributes queue))),
      (''SenderId'', sr_user d), (''MessageGroupId'', sr_messageGroupId d),
      (''MessageDeduplicationId'', sr_messageDeduplicationId d)]"

record message_ids =
  mi_messageId :: string
  mi_receiptHandle :: string
  mi_oid :: uuid

definition message_before_update :: "sqs_env \<Rightarrow> (nat \<Rightarrow> time_point) \<Rightarrow> sqs_queue \<Rightarrow> send_request \<Rightarrow> sqs_message" where
  "message_before_update env clock queue d =
     (let m = SendMessageRequest_toEntity env (clock 1) d;
          m = m\<lparr>m_attributes := foldl (\<lambda>a (k, v). omap_insert k v a) (m_attributes m) (system_attributes clock queue d)\<rparr>;
          m = (if q_defaultMessageAttributes queue \<noteq> []
               then m\<lparr>m_messageAttributes := insert_new (m_messageAttributes m) (q_defaultMessageAttributes queue)\<rparr> else m) in
      if qa_delaySeconds (q_attributes queue) > 0
      then m\<lparr>m_reset := clock 4 + seconds (qa_delaySeconds (q_attributes queue)), m_status := DELAYED\<rparr>
      else m\<lparr>m_reset := clock 4 + seconds (qa_visibilityTimeout (q_attributes queue))\<rparr>)"

definition queue_counts_message :: "sqs_queue \<Rightarrow> sqs_queue" where
  "queue_counts_message queue =
     (let a = q_attributes queue;
          a = a\<lparr>qa_approximateNumberOfMessages := qa_approximateNumberOfMessages a + 1\<rparr>;
          a = (if qa_delaySeconds a > 0
               then a\<lparr>qa_approximateNumberOfMessagesDelayed := qa_approximateNumberOfMessagesDelayed a + 1\<rparr> else a) in
      queue\<lparr>q_attributes := a\<rparr>)"

definition message_to_store :: "sqs_env \<Rightarrow> (nat \<Rightarrow> time_point) \<Rightarrow> message_ids \<Rightarrow> sqs_queue \<Rightarrow> send_request \<Rightarrow> sqs_message \<Rightarrow> sqs_message" where
  "message_to_store env clock ids queue d m =
     (let attributes = toEntityMap (sr_messageAttributes d) in
      m\<lparr>m_queueArn := q_arn queue, m_queueName := q_name queue,
        m_contentType := sanitizeContentType env (sr_contentType d) (sr_body d), m_size := int (length (sr_body d)),
        m_created := clock 6, m_modified := clock 7, m_messageId := mi_messageId ids,
        m_receiptHandle := mi_receiptHandle ids, m_messageAttributes := attributes, m_md5Body := e_md5_body env (sr_body d),
        m_md5MessageAttributes := CreateMd5OfMessageAttributes (e_md5 env) attributes\<rparr>)"

definition svc_sendMessage :: "sqs_env \<Rightarrow> (nat \<Rightarrow> time_point) \<Rightarrow> layout \<Rightarrow> message_ids \<Rightarrow> lambda_repo \<Rightarrow> sqs_repo \<Rightarrow> send_request
    \<Rightarrow> (sqs_repo \<times> send_response) outcome" where
  "svc_sendMessage env clock lay ids lam st d =
     (let queueArn = ConvertToArn (e_cfg env) (sr_region d) (sr_queueUrl d) in
      require (queueArn = [] \<or> sqs_queueArnExists st queueArn) (no_queue_arn queueArn)
        (let (st1, queue) = sqs_getQueueByArn (clock 0) st queueArn;
             m = message_before_update env clock queue d;
             (st2, _, queue') = sqs_updateQueue (clock 5) st1 (queue_counts_message queue);
             (st3, _, message) = sqs_createMessage lay (mi_oid ids) st2 (message_to_store env clock ids queue' d m) in
         bind (checkLambdaNotifications env lam st3 (q_arn queue') message)
           (\<lambda>st4. Inr (st4, SendMessageResponse_toDto env message))))"

record batch_entry =
  be_id :: string
  be_body :: string
  be_attributes :: "(string \<times> string) list"
  be_messageAttributes :: "(string \<times> dto_attribute) list"

definition entry_request :: "string \<Rightarrow> string \<Rightarrow> batch_entry \<Rightarrow> send_request" where
  "entry_request region queueUrl e =
     \<lparr>sr_region = region, sr_user = [], sr_queueUrl = queueUrl, sr_body = be_body e, sr_messageGroupId = [],
      sr_messageDeduplicationId = [], sr_delaySeconds = 0, sr_contentType = [], sr_attributes = be_attributes e,
      sr_messageAttributes = be_messageAttributes e\<rparr>"

fun send_each :: "sqs_env \<Rightarrow> (nat \<Rightarrow> nat \<Rightarrow> time_point) \<Rightarrow> layout \<Rightarrow> (nat \<Rightarrow> message_ids) \<Rightarrow> lambda_repo \<Rightarrow> string \<Rightarrow> string
    \<Rightarrow> batch_entry list \<Rightarrow> sqs_repo \<Rightarrow> (string \<times> send_response) list \<Rightarrow> (sqs_repo \<times> (string \<times> send_response) list) outcome" where
  "send_each env clock lay ids lam region queueUrl [] st acc = Inr (st, acc)"
| "send_each env clock lay ids lam region queueUrl (e # es) st acc =
     bind (svc_sendMessage env (clock (length es)) lay (ids (length es)) lam st (entry_request region queueUrl e))
       (\<lambda>(st', r). send_each env clock lay ids lam region queueUrl es st' (acc @ [(be_id e, r)]))"

definition svc_sendMessageBatch :: "sqs_env \<Rightarrow> (nat \<Rightarrow> nat \<Rightarrow> time_point) \<Rightarrow> layout \<Rightarrow> (nat \<Rightarrow> message_ids) \<Rightarrow> lambda_repo
    \<Rightarrow> time_point \<Rightarrow> sqs_repo \<Rightarrow> string \<Rightarrow> string \<Rightarrow> batch_entry list \<Rightarrow> (sqs_repo \<times> (string \<times> send_response) list) outcome" where
  "svc_sendMessageBatch env clock lay ids lam now st region url entries =
     (let queueUrl = SanitizeSQSUrl env url in
      require (sqs_queueUrlExists st region queueUrl) (no_queue_url region queueUrl)
        (let (st', _) = sqs_getQueueByUrl now st region queueUrl in
         send_each env clock lay ids lam region queueUrl entries st' []))"

subsection \<open>Receiving\<close>

text \<open>
  One round of \<open>receiveMessages\<close> of the repository is \<open>recv i\<close>. While the thread sleeps after
  round \<open>i\<close> others may change the repository: \<open>world i\<close>. \<open>elapsed_at i\<close> is the time in seconds it
  reads after that sleep. A loop that does not end is \<open>None\<close>.
\<close>

partial_function (option) poll_loop :: "(nat \<Rightarrow> sqs_repo \<Rightarrow> sqs_repo \<times> sqs_message list) \<Rightarrow> (nat \<Rightarrow> sqs_repo \<Rightarrow> sqs_repo)
    \<Rightarrow> (nat \<Rightarrow> int) \<Rightarrow> int \<Rightarrow> nat \<Rightarrow> sqs_repo \<Rightarrow> int \<Rightarrow> (sqs_repo \<times> sqs_message list) option" where
  "poll_loop recv world elapsed_at waitTimeSeconds i st elapsed =
     (if elapsed < waitTimeSeconds then
        (let (st', messageList) = recv i st in
         if messageList \<noteq> [] then Some (st', messageList)
         else poll_loop recv world elapsed_at waitTimeSeconds (Suc i) (world i st') (elapsed_at i))
      else Some (st, []))"

definition redrive_arguments :: "sqs_queue \<Rightarrow> string \<times> int" where
  "redrive_arguments queue =
     (let p = qa_redrivePolicy (q_attributes queue) in
      if rp_deadLetterTargetArn p \<noteq> [] then (rp_deadLetterTargetArn p, rp_maxReceiveCount p) else ([], -1))"

definition seconds_between :: "time_point \<Rightarrow> time_point \<Rightarrow> int" where
  "seconds_between begin t = (if t < begin then - ((begin - t) div 1000000000) else (t - begin) div 1000000000)"

definition receive_round :: "sqs_env \<Rightarrow> (nat \<Rightarrow> string \<Rightarrow> string) \<Rightarrow> (nat \<Rightarrow> time_point) \<Rightarrow> sqs_queue \<Rightarrow> int \<Rightarrow> nat \<Rightarrow> sqs_repo
    \<Rightarrow> sqs_repo \<times> sqs_message list" where
  "receive_round env handles clock queue maxMessages i st =
     (let (dlQueueArn, maxRetries) = redrive_arguments queue in
      sqs_receiveMessages (e_split env) (handles i) (clock (Suc (2 * i))) st (q_arn queue)
        (qa_visibilityTimeout (q_attributes queue)) maxMessages dlQueueArn maxRetries [])"

text \<open>Reading \<open>2 i + 1\<close> of the clock is that of round \<open>i\<close>, reading \<open>2 i + 2\<close> the one after its sleep.\<close>

definition svc_receiveMessages :: "sqs_env \<Rightarrow> (nat \<Rightarrow> string \<Rightarrow> string) \<Rightarrow> time_point \<Rightarrow> (nat \<Rightarrow> time_point) \<Rightarrow> (nat \<Rightarrow> sqs_repo \<Rightarrow> sqs_repo)
    \<Rightarrow> sqs_repo \<Rightarrow> string \<Rightarrow> string \<Rightarrow> int \<Rightarrow> int \<Rightarrow> (sqs_repo \<times> dto_message list) outcome option" where
  "svc_receiveMessages env handles now clock world st region queueUrl maxMessages wait =
     (let queueArn = ConvertToArn (e_cfg env) region queueUrl in
      if queueUrl \<noteq> [] \<and> \<not> sqs_queueArnExists st queueArn then Some (Inl (ServiceException (no_queue_arn queueArn)))
      else let (st1, queue) = sqs_getQueueByArn now st queueArn;
               waitTimeSeconds = (if wait > 10 then 10 else wait);
               recv = receive_round env handles clock queue maxMessages;
               answer = (\<lambda>(st', ml). Inr (st', map (Message_toDto env) ml)) in
        if waitTimeSeconds = 0 then Some (answer (recv 0 st1))
        else map_option answer
          (poll_loop recv world (\<lambda>i. seconds_between (clock 0) (clock (2 * i + 2))) waitTimeSeconds 0 st1 0))"

definition svc_listMessages :: "sqs_repo \<Rightarrow> string \<Rightarrow> int \<Rightarrow> int \<Rightarrow> sort_column list \<Rightarrow> int \<times> sqs_message list" where
  "svc_listMessages st queueArn pageSize pageIndex sortColumns =
     (sqs_countMessages st queueArn [], sqs_listMessages st queueArn [] pageSize pageIndex sortColumns)"

definition svc_listMessageCounters :: "sqs_repo \<Rightarrow> string \<Rightarrow> string \<Rightarrow> int \<Rightarrow> int \<Rightarrow> sort_column list \<Rightarrow> int \<times> sqs_message list" where
  "svc_listMessageCounters st queueArn pre pageSize pageIndex sortColumns =
     (sqs_countMessages st queueArn pre, sqs_listMessages st queueArn pre pageSize pageIndex sortColumns)"

subsection \<open>Changing and deleting messages\<close>

abbreviation no_message :: "string \<Rightarrow> string" where
  "no_message messageId \<equiv> ''Message does not exist, messageId: '' @ messageId"

definition clamp_visibility :: "int \<Rightarrow> int" where
  "clamp_visibility requested =
     (let visibilityTimeout = requested;
          visibilityTimeout = (if visibilityTimeout < 10 then 30 else visibilityTimeout) in
      if requested > 43200 then 43200 else visibilityTimeout)"

definition svc_setMessageVisibilityTimeout :: "(nat \<Rightarrow> time_point) \<Rightarrow> sqs_repo \<Rightarrow> string \<Rightarrow> int \<Rightarrow> sqs_repo outcome" where
  "svc_setMessageVisibilityTimeout clock st receiptHandle requested =
     require (sqs_messageExists st receiptHandle) (''Message does not exist, receiptHandle: '' @ receiptHandle)
       (let (st1, message) = sqs_getMessageByReceiptHandle (clock 0) st receiptHandle;
            visibilityTimeout = clamp_visibility requested;
            message = message\<lparr>m_attributes := omap_insert ''VisibilityTimeout'' (to_string visibilityTimeout) (m_attributes message),
              m_reset := clock 1 + seconds visibilityTimeout\<rparr>;
            (st2, _, _) = sqs_updateMessage (clock 2) st1 message in
        Inr st2)"

text \<open>Operations that fetch a message by its message id, change it and write it back.\<close>

definition change_message :: "(nat \<Rightarrow> time_point) \<Rightarrow> sqs_repo \<Rightarrow> string \<Rightarrow> (sqs_message \<Rightarrow> sqs_message) \<Rightarrow> sqs_repo outcome" where
  "change_message clock st messageId f =
     require (sqs_messageExistsByMessageId st messageId) (no_message messageId)
       (let (st1, message) = sqs_getMessageByMessageId (clock 0) st messageId;
            (st2, _, _) = sqs_updateMessage (clock 1) st1 (f message) in
        Inr st2)"

definition svc_updateMessage :: "(nat \<Rightarrow> time_point) \<Rightarrow> sqs_repo \<Rightarrow> string \<Rightarrow> (string \<times> dto_attribute) list \<Rightarrow> sqs_repo outcome" where
  "svc_updateMessage clock st messageId attributes =
     change_message clock st messageId (\<lambda>m. m\<lparr>m_messageAttributes := toEntityMap attributes\<rparr>)"

definition svc_addMessageAttribute :: "(nat \<Rightarrow> time_point) \<Rightarrow> sqs_repo \<Rightarrow> string \<Rightarrow> string \<Rightarrow> string \<Rightarrow> string \<Rightarrow> sqs_repo outcome" where
  "svc_addMessageAttribute clock st messageId name val dataType =
     change_message clock st messageId (\<lambda>m. m\<lparr>m_messageAttributes := omap_insert name
       (default_message_attribute\<lparr>ma_dataType := MessageAttributeTypeFromString dataType, ma_stringValue := val\<rparr>)
       (m_messageAttributes m)\<rparr>)"

definition svc_deleteMessageAttribute :: "(nat \<Rightarrow> time_point) \<Rightarrow> sqs_repo \<Rightarrow> string \<Rightarrow> string \<Rightarrow> sqs_repo outcome" where
  "svc_deleteMessageAttribute clock st messageId name =
     change_message clock st messageId
       (\<lambda>m. m\<lparr>m_messageAttributes := fst (erase_if (\<lambda>(k, _). k = name) (m_messageAttributes m))\<rparr>)"

definition svc_resendMessage :: "sqs_env \<Rightarrow> (nat \<Rightarrow> time_point) \<Rightarrow> lambda_repo \<Rightarrow> sqs_repo \<Rightarrow> string \<Rightarrow> string \<Rightarrow> sqs_repo outcome" where
  "svc_resendMessage env clock lam st queueArn messageId =
     require (sqs_messageExistsByMessageId st messageId) (no_message messageId)
       (let (st1, message) = sqs_getMessageByMessageId (clock 0) st messageId;
            (st2, queue) = sqs_getQueueByArn (clock 1) st1 queueArn;
            a = q_attributes queue;
            queue = queue\<lparr>q_attributes := a\<lparr>qa_approximateNumberOfMessagesNotVisible := qa_approximateNumberOfMessagesNotVisible a - 1\<rparr>\<rparr> in
        case map_of (m_attributes message) ''VisibilityTimeout'' of
          None \<Rightarrow> Inl OutOfRange
        | Some text \<Rightarrow> bind (stoi text) (\<lambda>timeout.
            let message = message\<lparr>m_status := INITIAL, m_retries := 0, m_reset := clock 2 + seconds timeout\<rparr>;
                (st3, _, message') = sqs_updateMessage (clock 3) st2 message;
                (st4, _, _) = sqs_updateQueue (clock 4) st3 queue in
            checkLambdaNotifications env lam st4 queueArn message'))"

definition svc_deleteMessage :: "sqs_repo \<Rightarrow> string \<Rightarrow> sqs_repo outcome" where
  "svc_deleteMessage st receiptHandle = bind (sqs_deleteMessageByHandle False st receiptHandle) (\<lambda>(st', _). Inr st')"

text \<open>The entries of a batch are pairs of id and receipt handle.\<close>

fun delete_each :: "(string \<times> string) list \<Rightarrow> sqs_repo \<Rightarrow> string list \<Rightarrow> string list \<Rightarrow> (sqs_repo \<times> string list \<times> string list) outcome" where
  "delete_each [] st successful rejected = Inr (st, successful, rejected)"
| "delete_each ((entryId, handle) # es) st successful rejected =
     bind (sqs_deleteMessageByHandle False st handle) (\<lambda>(st', deleted).
       if deleted > 0 then delete_each es st' (successful @ [entryId]) rejected else delete_each es st' successful (rejected @ [entryId]))"

definition svc_deleteMessageBatch :: "sqs_repo \<Rightarrow> (string \<times> string) list \<Rightarrow> (sqs_repo \<times> string list \<times> string list) outcome" where
  "svc_deleteMessageBatch st entries = delete_each entries st [] []"

text \<open>
  The counters of a queue as attributes, with the iterators of the page. The total is taken to be
  13, the list has twelve entries; beyond its end an iterator is undefined.
\<close>

definition attribute_list :: "sqs_queue \<Rightarrow> (string \<times> string) list" where
  "attribute_list queue =
     (let a = q_attributes queue in
      [(''approximateNumberOfMessages'', to_string (qa_approximateNumberOfMessages a)),
       (''approximateNumberOfMessagesDelayed'', to_string (qa_approximateNumberOfMessagesDelayed a)),
       (''approximateNumberOfMessagesNotVisible'', to_string (qa_approximateNumberOfMessagesNotVisible a)),
       (''deadLetterTargetArn'', rp_deadLetterTargetArn (qa_redrivePolicy a)),
       (''delaySeconds'', to_string (qa_delaySeconds a)), (''maxMessageSize'', to_string (qa_maxMessageSize a)),
       (''messageRetentionPeriod'', to_string (qa_messageRetentionPeriod a)), (''policy'', qa_policy a),
       (''maxReceiveCount'', to_string (rp_maxReceiveCount (qa_redrivePolicy a))), (''queueArn'', qa_queueArn a),
       (''redriveAllowPolicy'', qa_redriveAllowPolicy a), (''visibilityTimeout'', to_string (qa_visibilityTimeout a))])"

definition iterator_page :: "int \<Rightarrow> 'a list \<Rightarrow> int \<Rightarrow> int \<Rightarrow> 'a list outcome" where
  "iterator_page n xs pageSize pageIndex =
     (if pageSize > 0 then
        (let len = int (length xs); first = pageSize * pageIndex;
             last = (if pageSize * (pageIndex + 1) > n then len else pageSize * (pageIndex + 1)) in
         if 0 \<le> first \<and> first \<le> last \<and> last \<le> len then Inr (take (nat (last - first)) (drop (nat first) xs))
         else Inl UndefinedBehaviour)
      else Inr xs)"

definition svc_listQueueAttributeCounters :: "time_point \<Rightarrow> sqs_repo \<Rightarrow> string \<Rightarrow> int \<Rightarrow> int
    \<Rightarrow> (sqs_repo \<times> int \<times> (string \<times> string) list) outcome" where
  "svc_listQueueAttributeCounters now st queueArn pageSize pageIndex =
     require (sqs_queueArnExists st queueArn) (''SQS queue does not exists, queueArn: '' @ queueArn)
       (let n = 13; (st', queue) = sqs_getQueueByArn now st queueArn in
        bind (iterator_page n (attribute_list queue) pageSize pageIndex) (\<lambda>page. Inr (st', n, page)))"

subsection \<open>Maintenance tasks\<close>

text \<open>
  \<open>SQSServer::ResetMessages\<close> works on a copy of each queue, which it writes back with the counters
  reduced. \<open>tick i k\<close> is the clock as task \<open>i\<close> reads it at message \<open>k\<close>.
\<close>

definition change_attributes :: "(queue_attribute \<Rightarrow> queue_attribute) \<Rightarrow> sqs_queue \<Rightarrow> sqs_queue" where
  "change_attributes f q = q\<lparr>q_attributes := f (q_attributes q)\<rparr>"

definition retention_step :: "(string \<Rightarrow> time_point) \<Rightarrow> sqs_repo \<Rightarrow> sqs_queue \<Rightarrow> (sqs_repo \<times> sqs_queue) outcome" where
  "retention_step tick st queue =
     (let a = q_attributes queue in
      if qa_messageRetentionPeriod a > 0 then
        bind (sqs_messageRetention tick st (q_arn queue) (qa_messageRetentionPeriod a)) (\<lambda>(st', n).
          Inr (st', change_attributes (\<lambda>a. a\<lparr>qa_approximateNumberOfMessages := qa_approximateNumberOfMessages a - n\<rparr>) queue))
      else Inr (st, queue))"

definition visibility_step :: "(string \<Rightarrow> time_point) \<Rightarrow> sqs_repo \<Rightarrow> sqs_queue \<Rightarrow> sqs_repo \<times> sqs_queue" where
  "visibility_step tick st queue =
     (let a = q_attributes queue in
      if qa_visibilityTimeout a > 0 then
        (let (st', n) = sqs_resetMessages tick st (q_arn queue) (qa_visibilityTimeout a) in
         (st', change_attributes (\<lambda>a. a\<lparr>qa_approximateNumberOfMessagesNotVisible := qa_approximateNumberOfMessagesNotVisible a - n\<rparr>) queue))
      else (st, queue))"

definition delay_step :: "(string \<Rightarrow> time_point) \<Rightarrow> sqs_repo \<Rightarrow> sqs_queue \<Rightarrow> sqs_repo \<times> sqs_queue" where
  "delay_step tick st queue =
     (let a = q_attributes queue in
      if qa_delaySeconds a > 0 then
        (let (st', n) = sqs_resetDelayedMessages tick st (q_url queue) (qa_delaySeconds a) in
         (st', change_attributes (\<lambda>a. a\<lparr>qa_approximateNumberOfMessagesDelayed := qa_approximateNumberOfMessagesDelayed a - n\<rparr>) queue))
      else (st, queue))"

definition reset_queue :: "time_point \<Rightarrow> (nat \<Rightarrow> string \<Rightarrow> time_point) \<Rightarrow> sqs_repo \<Rightarrow> sqs_queue \<Rightarrow> sqs_repo outcome" where
  "reset_queue now tick st queue =
     (if sqs_countMessages st (q_arn queue) [] > 0 then
        bind (retention_step (tick 0) st queue) (\<lambda>(st1, queue).
          let (st2, queue) = visibility_step (tick 1) st1 queue;
              (st3, queue) = delay_step (tick 2) st2 queue;
              (st4, _, _) = sqs_updateQueue now st3 queue in
          Inr st4)
      else Inr st)"

fun reset_queues :: "(nat \<Rightarrow> time_point) \<Rightarrow> (nat \<Rightarrow> nat \<Rightarrow> string \<Rightarrow> time_point) \<Rightarrow> sqs_queue list \<Rightarrow> sqs_repo \<Rightarrow> sqs_repo outcome" where
  "reset_queues now tick [] st = Inr st"
| "reset_queues now tick (q # qs) st =
     bind (reset_queue (now (length qs)) (tick (length qs)) st q) (reset_queues now tick qs)"

definition srv_ResetMessages :: "(nat \<Rightarrow> time_point) \<Rightarrow> (nat \<Rightarrow> nat \<Rightarrow> string \<Rightarrow> time_point) \<Rightarrow> sqs_repo \<Rightarrow> sqs_repo outcome" where
  "srv_ResetMessages now tick st = reset_queues now tick (sqs_listQueuesRegion st []) st"

definition srv_SetUrl :: "sqs_env \<Rightarrow> (nat \<Rightarrow> time_point) \<Rightarrow> sqs_repo \<Rightarrow> sqs_repo" where
  "srv_SetUrl env now st =
     foldl (\<lambda>st (i, queue). fst (sqs_updateQueue (now i) st (queue\<lparr>q_url := ConvertSQSQueueArnToUrl (e_split env) (e_cfg env) (q_arn queue),
         q_attributes := (q_attributes queue)\<lparr>qa_queueArn := q_arn queue\<rparr>\<rparr>)))
       st (enumerate 0 (sqs_listQueuesRegion st []))"

definition srv_AdjustCounter :: "sqs_repo \<Rightarrow> sqs_repo outcome" where
  "srv_AdjustCounter st = sqs_adjustMessageCounters st"

end
