(* ===== verification/SqsProps.thy ===== *)
theory SqsProps
  imports SqsRepo
begin

text \<open>
  What the in-memory SQS repository guarantees: the shape of its store, the exact effect of a
  receive and of the loops that make messages visible again, the dead-letter and redrive cycle,
  deletion, the counters, and the places where the code does something else than its interface
  says.
\<close>

subsection \<open>Receiving, as a specification\<close>

text \<open>\<open>apply_first n P f xs\<close> applies \<open>f\<close> to the first \<open>n\<close> elements that satisfy \<open>P\<close>.\<close>

fun apply_first :: "nat \<Rightarrow> ('a \<Rightarrow> bool) \<Rightarrow> ('a \<Rightarrow> 'a) \<Rightarrow> 'a list \<Rightarrow> 'a list" where
  "apply_first n P f [] = []"
| "apply_first 0 P f (x # xs) = x # xs"
| "apply_first (Suc n) P f (x # xs) =
     (if P x then f x # apply_first n P f xs else x # apply_first (Suc n) P f xs)"

lemma apply_first_0 [simp]: "apply_first 0 P f xs = xs"
  by (cases xs) auto

lemma length_apply_first [simp]: "length (apply_first n P f xs) = length xs"
  by (induction n P f xs rule: apply_first.induct) auto

lemma map_fst_apply_first:
  "(\<And>x. fst (f x) = fst x) \<Longrightarrow> map fst (apply_first n P f xs) = map fst xs"
  by (induction n P f xs rule: apply_first.induct) auto

lemma nth_apply_first:
  "i < length xs \<Longrightarrow> apply_first n P f xs ! i =
     (if P (xs ! i) \<and> length (filter P (take i xs)) < n then f (xs ! i) else xs ! i)"
proof (induction n P f xs arbitrary: i rule: apply_first.induct)
  case (3 n P f x xs)
  then show ?case by (cases i) auto
qed auto

lemma set_apply_first: "y \<in> set (apply_first n P f xs) \<Longrightarrow> y \<in> set xs \<or> (\<exists>x\<in>set xs. P x \<and> y = f x)"
  by (induction n P f xs rule: apply_first.induct) (auto split: if_splits)

definition receivable :: "string \<Rightarrow> string \<times> sqs_message \<Rightarrow> bool" where
  "receivable queueArn = (\<lambda>(_, m). m_queueArn m = queueArn \<and> m_status m = INITIAL)"

lemma receive_loop_spec:
  "sqs_receive_loop split handles arn reset maxR dlq retries ms ml =
     (apply_first (max 1 (maxR - length ml)) (receivable arn) (\<lambda>(k, m). (k, sqs_take split reset dlq retries (handles k) m)) ms,
      ml @ map (\<lambda>(k, m). sqs_take split reset dlq retries (handles k) m)
             (take (max 1 (maxR - length ml)) (filter (receivable arn) ms)))"
proof (induction ms arbitrary: ml)
  case Nil
  then show ?case by simp
next
  case (Cons km ms)
  obtain k m where km: "km = (k, m)" by (cases km)
  obtain n where n: "max 1 (maxR - length ml) = Suc n" by (metis max_Suc_Suc One_nat_def not0_implies_Suc max_def not_one_le_zero)
  show ?case
  proof (cases "receivable arn (k, m) \<and> \<not> maxR \<le> Suc (length ml)")
    case True
    then have "n = max 1 (maxR - length (ml @ [x]))" for x using n by auto
    with True Cons [of "ml @ [sqs_take split reset dlq retries (handles k) m]"] n show ?thesis
      by (auto simp: km receivable_def Let_def)
  next
    case False
    then show ?thesis
    proof (cases "receivable arn (k, m)")
      case True
      with False have "n = 0" using n by auto
      with True False n show ?thesis by (auto simp: km receivable_def Let_def)
    next
      case notrec: False
      then show ?thesis using Cons [of ml] n by (auto simp: km receivable_def)
    qed
  qed
qed

text \<open>The number of messages a receive with an empty list takes at most.\<close>

definition receive_limit :: "int \<Rightarrow> nat" where
  "receive_limit maxResult = max 1 (to_size_t maxResult)"

lemma sqs_receive_spec:
  "sqs_receiveMessages split handles now st arn vis maxR dlq retries [] =
     (let tk = (\<lambda>(k, m). sqs_take split (now + seconds vis) dlq retries (handles k) m) in
      (st\<lparr>messages := apply_first (receive_limit maxR) (receivable arn) (\<lambda>(k, m). (k, tk (k, m))) (messages st)\<rparr>,
       map tk (take (receive_limit maxR) (filter (receivable arn) (messages st)))))"
  by (simp add: sqs_receiveMessages_def receive_loop_spec with_messages_def receive_limit_def Let_def)

lemma map_fst_receive:
  "map fst (messages (fst (sqs_receiveMessages split handles now st arn vis maxR dlq retries []))) = map fst (messages st)"
  by (simp add: sqs_receive_spec Let_def map_fst_apply_first split_beta)

lemma receive_limit_pos [simp]: "0 < receive_limit maxR"
  by (simp add: receive_limit_def)

lemma receive_limit_nonneg: "0 \<le> maxR \<Longrightarrow> maxR < 2 ^ 64 \<Longrightarrow> receive_limit maxR = max 1 (nat maxR)"
  by (simp add: receive_limit_def to_size_t_def)

lemma receive_limit_negative: "- (2 ^ 63) \<le> maxR \<Longrightarrow> maxR < 0 \<Longrightarrow> 2 ^ 63 \<le> receive_limit maxR"
proof -
  assume a: "- (2 ^ 63) \<le> maxR" "maxR < 0"
  have "maxR mod 2 ^ 64 = (maxR + 2 ^ 64) mod 2 ^ 64" by simp
  also have "\<dots> = maxR + 2 ^ 64" using a by (intro mod_pos_pos_trivial) auto
  finally show ?thesis using a by (simp add: receive_limit_def to_size_t_def)
qed

subsection \<open>Stores that evolve entry by entry\<close>

definition evolved :: "(string \<Rightarrow> 'v \<Rightarrow> 'v \<Rightarrow> bool) \<Rightarrow> 'v store \<Rightarrow> 'v store \<Rightarrow> bool" where
  "evolved R ms ms' \<longleftrightarrow> map fst ms' = map fst ms \<and> (\<forall>k m'. (k, m') \<in> set ms' \<longrightarrow> (\<exists>m. (k, m) \<in> set ms \<and> R k m m'))"

lemma evolvedD: "evolved R ms ms' \<Longrightarrow> (k, m') \<in> set ms' \<Longrightarrow> \<exists>m. (k, m) \<in> set ms \<and> R k m m'"
  unfolding evolved_def by blast

lemma evolved_wf: "evolved R ms ms' \<Longrightarrow> wf_store ms \<Longrightarrow> wf_store ms'"
  by (simp add: evolved_def wf_store_def)

lemma evolved_lookup:
  assumes "evolved R ms ms'" "wf_store ms" "map_of ms k = Some m"
  shows "\<exists>m'. map_of ms' k = Some m' \<and> R k m m'"
proof -
  have wf': "wf_store ms'" using assms(1,2) by (rule evolved_wf)
  have "keys_of ms' = keys_of ms" using assms(1) keys_of_keys unfolding evolved_def by blast
  then obtain m' where m': "map_of ms' k = Some m'"
    using assms(3) map_of_keys [of ms k] map_of_keys [of ms' k] by auto
  then have "(k, m') \<in> set ms'" by (rule map_of_SomeD)
  then obtain m0 where "(k, m0) \<in> set ms" "R k m0 m'" using assms(1) by (auto simp: evolved_def)
  with assms(2,3) m' show ?thesis by (auto simp: wf_in_map_of)
qed

lemma evolved_apply_first:
  "evolved (\<lambda>k m m'. m' = m \<or> (P (k, m) \<and> m' = f k m)) ms (apply_first n P (\<lambda>(k, m). (k, f k m)) ms)"
  unfolding evolved_def using set_apply_first [of _ n P "\<lambda>(k, m). (k, f k m)" ms]
  by (auto simp: map_fst_apply_first split_beta) fastforce

lemma evolved_rewrite:
  "evolved (\<lambda>k m m'. m' = (if P (k, m) then f m else m)) ms (fst (rewrite_matching P f ms))"
  unfolding evolved_def rewrite_matching_def by (auto simp: split_beta split: if_splits)

lemma rewrite_count [simp]: "snd (rewrite_matching P f ms) = count_if P ms"
  by (simp add: rewrite_matching_def)

lemma map_of_rewrite [store_simps]:
  "map_of (fst (rewrite_matching P f ms)) k = map_option (\<lambda>m. if P (k, m) then f m else m) (map_of ms k)"
  by (induction ms) (auto simp: rewrite_matching_def)

lemma values_rewrite: "snd ` set (fst (rewrite_matching P f ms)) = (\<lambda>(k, m). if P (k, m) then f m else m) ` set ms"
  by (force simp: rewrite_matching_def image_iff split: if_splits)

lemma count_if_map: "count_if Q (map g xs) = count_if (\<lambda>x. Q (g x)) xs"
  by (induction xs) (auto simp: count_if_def)

lemma count_if_cong: "(\<And>x. x \<in> set xs \<Longrightarrow> P x = Q x) \<Longrightarrow> count_if P xs = count_if Q xs"
  unfolding count_if_def by (metis filter_cong)

lemma count_rewrite:
  "count_if Q (fst (rewrite_matching P f ms)) = count_if (\<lambda>(k, m). Q (k, if P (k, m) then f m else m)) ms"
  unfolding rewrite_matching_def fst_conv count_if_map by (rule count_if_cong) auto

lemma count_if_disj:
  "(\<And>x. x \<in> set xs \<Longrightarrow> \<not> (P x \<and> Q x)) \<Longrightarrow> count_if (\<lambda>x. P x \<or> Q x) xs = count_if P xs + count_if Q xs"
  by (induction xs) (auto simp: count_if_def)

subsection \<open>The life cycle of a message\<close>

text \<open>
  The steps of the repository as the services use it: new object ids and receipt handles are
  fresh (they are random), a queue is created when its region and name are free, a message is sent
  visible or delayed, with a new receipt handle or none, and an update keeps the receipt handle of
  the message and keeps its status or makes it visible. Every operation the SQS service calls that changes the state is a step, the
  lookups included, which write the object id of the entity they find; the import of messages,
  which may store any status and handle, is not.
\<close>

definition fresh_handles :: "(string \<Rightarrow> string) \<Rightarrow> sqs_message hmap \<Rightarrow> bool" where
  "fresh_handles h ms \<longleftrightarrow> inj h \<and> (\<forall>k. h k \<noteq> []) \<and> (\<forall>k. \<forall>(_, m)\<in>set ms. h k \<noteq> m_receiptHandle m)"

inductive sqs_step :: "sqs_repo \<Rightarrow> sqs_repo \<Rightarrow> bool" where
  upsert_queue: "uuid \<notin> keys_of (queues st) \<Longrightarrow> sqs_step st (fst (sqs_createOrUpdateQueue lay uuid now st q))"
| send: "uuid \<notin> keys_of (messages st) \<Longrightarrow> m_status m \<in> {INITIAL, DELAYED}
    \<Longrightarrow> m_receiptHandle m \<notin> (\<lambda>(_, x). m_receiptHandle x) ` set (messages st) - {[]}
    \<Longrightarrow> sqs_step st (fst (sqs_createMessage lay uuid st m))"
| create_queue: "uuid \<notin> keys_of (queues st) \<Longrightarrow> \<not> sqs_queueExists st (q_region q) (q_name q)
    \<Longrightarrow> sqs_step st (fst (sqs_createQueue lay uuid st q))"
| update_queue: "sqs_step st (fst (sqs_updateQueue now st q))"
| import_queue: "uuid \<notin> keys_of (queues st) \<Longrightarrow> sqs_step st (fst (sqs_importQueue lay uuid now st q))"
| update_message: "map_of (messages st) (m_oid m) = Some old \<Longrightarrow> m_receiptHandle m = m_receiptHandle old
    \<Longrightarrow> m_status m \<in> {m_status old, INITIAL}
    \<Longrightarrow> sqs_step st (fst (sqs_updateMessage now st m))"
| receive: "fresh_handles h (messages st)
    \<Longrightarrow> sqs_step st (fst (sqs_receiveMessages split h now st arn vis maxR dlq retries []))"
| reset: "sqs_step st (fst (sqs_resetMessages clock st arn vis))"
| undelay: "sqs_step st (fst (sqs_resetDelayedMessages clock st arn del))"
| redrive: "sqs_step st (fst (sqs_redriveMessages st oq dq))"
| redrive_one: "sqs_step st (fst (sqs_redriveMessage st oq dq mid))"
| delete: "sqs_deleteMessage False st m = Inr (st', n) \<Longrightarrow> sqs_step st st'"
| delete_by_handle: "sqs_deleteMessageByHandle False st handle = Inr (st', n) \<Longrightarrow> sqs_step st st'"
| retention: "sqs_messageRetention clock st arn ret = Inr (st', n) \<Longrightarrow> sqs_step st st'"
| purge: "sqs_step st (fst (sqs_purgeQueue st arn))"
| delete_messages: "sqs_step st (fst (sqs_deleteMessages st arn))"
| delete_all_messages: "sqs_step st (fst (sqs_deleteAllMessages st))"
| delete_queue: "sqs_step st (fst (sqs_deleteQueue st q))"
| delete_all_queues: "sqs_step st (fst (sqs_deleteAllQueues st))"
| adjust: "sqs_adjustMessageCounters st = Inr st' \<Longrightarrow> sqs_step st st'"
| queue_by_id: "sqs_step st (fst (sqs_getQueueById now st oid))"
| queue_by_arn: "sqs_step st (fst (sqs_getQueueByArn now st arn))"
| queue_by_url: "sqs_step st (fst (sqs_getQueueByUrl now st region url))"
| queue_by_name: "sqs_step st (fst (sqs_getQueueByName now st region name))"
| queue_by_dlq: "sqs_step st (fst (sqs_getQueueByDlq now st arn))"
| message_by_id: "sqs_step st (fst (sqs_getMessageById now st oid))"
| message_by_handle: "sqs_step st (fst (sqs_getMessageByReceiptHandle now st handle))"
| message_by_message_id: "sqs_step st (fst (sqs_getMessageByMessageId now st mid))"

definition sqs_init :: sqs_repo where
  "sqs_init = \<lparr>queues = [], messages = []\<rparr>"

inductive sqs_reachable :: "sqs_repo \<Rightarrow> bool" where
  start: "sqs_reachable sqs_init"
| step: "sqs_reachable st \<Longrightarrow> sqs_step st st' \<Longrightarrow> sqs_reachable st'"

definition handles_ok :: "sqs_message hmap \<Rightarrow> bool" where
  "handles_ok ms \<longleftrightarrow>
     (\<forall>(k, m)\<in>set ms. m_status m = INVISIBLE \<longrightarrow> m_receiptHandle m \<noteq> []) \<and>
     (\<forall>(k, m)\<in>set ms. \<forall>(k', m')\<in>set ms.
        m_receiptHandle m = m_receiptHandle m' \<and> m_receiptHandle m \<noteq> [] \<longrightarrow> k = k')"

definition names_unique :: "sqs_queue hmap \<Rightarrow> bool" where
  "names_unique qs \<longleftrightarrow>
     (\<forall>(k, q)\<in>set qs. \<forall>(k', q')\<in>set qs. q_region q = q_region q' \<and> q_name q = q_name q' \<longrightarrow> k = k')"

definition life_inv :: "sqs_repo \<Rightarrow> bool" where
  "life_inv st \<longleftrightarrow> sqs_inv st \<and> all_stamped m_oid (messages st) \<and> handles_ok (messages st) \<and> names_unique (queues st)"

lemma names_uniqueI:
  assumes "\<And>k q k' q'. (k, q) \<in> set qs \<Longrightarrow> (k', q') \<in> set qs \<Longrightarrow> q_region q = q_region q' \<Longrightarrow> q_name q = q_name q' \<Longrightarrow> k = k'"
  shows "names_unique qs"
  unfolding names_unique_def using assms by blast

lemma names_uniqueD:
  "names_unique qs \<Longrightarrow> (k, q) \<in> set qs \<Longrightarrow> (k', q') \<in> set qs \<Longrightarrow> q_region q = q_region q' \<Longrightarrow> q_name q = q_name q' \<Longrightarrow> k = k'"
  unfolding names_unique_def by blast

lemma handles_okI:
  assumes "\<And>k m. (k, m) \<in> set ms \<Longrightarrow> m_status m = INVISIBLE \<Longrightarrow> m_receiptHandle m \<noteq> []"
    and "\<And>k m k' m'. (k, m) \<in> set ms \<Longrightarrow> (k', m') \<in> set ms \<Longrightarrow> m_receiptHandle m = m_receiptHandle m'
      \<Longrightarrow> m_receiptHandle m \<noteq> [] \<Longrightarrow> k = k'"
  shows "handles_ok ms"
  unfolding handles_ok_def using assms by blast

lemma handles_okD:
  assumes "handles_ok ms" "(k, m) \<in> set ms"
  shows "m_status m = INVISIBLE \<Longrightarrow> m_receiptHandle m \<noteq> []"
    and "(k', m') \<in> set ms \<Longrightarrow> m_receiptHandle m = m_receiptHandle m' \<Longrightarrow> m_receiptHandle m \<noteq> [] \<Longrightarrow> k = k'"
  using assms unfolding handles_ok_def by blast+

lemma handles_ok_evolved:
  assumes ev: "evolved R ms ms'" and ok: "handles_ok ms" and wf: "wf_store ms"
    and vis: "\<And>k m m'. (k, m) \<in> set ms \<Longrightarrow> R k m m' \<Longrightarrow> m_status m' = INVISIBLE \<Longrightarrow> m_receiptHandle m' \<noteq> []"
    and hd: "\<And>k m m'. (k, m) \<in> set ms \<Longrightarrow> R k m m' \<Longrightarrow> m_receiptHandle m' \<in> {[], m_receiptHandle m, h k}"
    and fr: "fresh_handles h ms"
  shows "handles_ok ms'"
proof (rule handles_okI)
  fix k m' assume m': "(k, m') \<in> set ms'" and inv: "m_status m' = INVISIBLE"
  obtain m where "(k, m) \<in> set ms" "R k m m'" using ev m' unfolding evolved_def by blast
  then show "m_receiptHandle m' \<noteq> []" using vis inv by blast
next
  fix k1 m1 k2 m2
  assume m1: "(k1, m1) \<in> set ms'" and m2: "(k2, m2) \<in> set ms'"
    and eq: "m_receiptHandle m1 = m_receiptHandle m2" and ne: "m_receiptHandle m1 \<noteq> []"
  obtain n1 where n1: "(k1, n1) \<in> set ms" "R k1 n1 m1" using ev m1 unfolding evolved_def by blast
  obtain n2 where n2: "(k2, n2) \<in> set ms" "R k2 n2 m2" using ev m2 unfolding evolved_def by blast
  have new1: "h a \<noteq> m_receiptHandle n1" and new2: "h a \<noteq> m_receiptHandle n2" for a
    using fr n1(1) n2(1) unfolding fresh_handles_def by blast+
  have "m_receiptHandle m1 = m_receiptHandle n1 \<or> m_receiptHandle m1 = h k1" using hd [OF n1] ne by blast
  moreover have "m_receiptHandle m2 = m_receiptHandle n2 \<or> m_receiptHandle m2 = h k2" using hd [OF n2] ne eq by auto
  moreover have "inj h" using fr by (simp add: fresh_handles_def)
  ultimately show "k1 = k2"
    using handles_okD(2) [OF ok n1(1) n2(1)] new1 new2 eq ne by (metis injD)
qed

lemma stamped_evolved:
  assumes "evolved R ms ms'" "all_stamped oid ms" "\<And>k m m'. (k, m) \<in> set ms \<Longrightarrow> R k m m' \<Longrightarrow> oid m' = oid m"
  shows "all_stamped oid ms'"
proof -
  have "oid m' = k" if mem: "(k, m') \<in> set ms'" for k m'
  proof -
    obtain m where "(k, m) \<in> set ms" "R k m m'" using evolvedD [OF assms(1) mem] by blast
    then show ?thesis using assms(2,3) by (auto simp: all_stamped_def)
  qed
  then show ?thesis by (auto simp: all_stamped_def)
qed

text \<open>Steps that rewrite messages in place and give them no new handle.\<close>

lemma life_rewrite:
  assumes inv: "life_inv st"
    and f: "\<And>k m. (k, m) \<in> set (messages st) \<Longrightarrow> P (k, m) \<Longrightarrow>
       m_oid (f m) = m_oid m \<and> m_receiptHandle (f m) \<in> {[], m_receiptHandle m} \<and> m_status (f m) \<noteq> INVISIBLE"
  shows "life_inv (st\<lparr>messages := fst (rewrite_matching P f (messages st))\<rparr>)"
proof -
  let ?ms = "messages st"
  note ev = evolved_rewrite [of P f ?ms]
  have ok: "handles_ok ?ms" and wf: "wf_store ?ms" and stp: "all_stamped m_oid ?ms"
    using inv by (auto simp: life_inv_def sqs_inv_def)
  have ent: "\<exists>m0. (k, m0) \<in> set ?ms \<and> (m = m0 \<or> (m_receiptHandle m \<in> {[], m_receiptHandle m0} \<and> m_status m \<noteq> INVISIBLE))"
    if mem: "(k, m) \<in> set (fst (rewrite_matching P f ?ms))" for k m
  proof -
    obtain m0 where m0: "(k, m0) \<in> set ?ms" "m = (if P (k, m0) then f m0 else m0)"
      using evolvedD [OF ev mem] by auto
    then show ?thesis using f [of k m0] by (cases "P (k, m0)") auto
  qed
  have "handles_ok (fst (rewrite_matching P f ?ms))"
  proof (rule handles_okI)
    fix k m assume "(k, m) \<in> set (fst (rewrite_matching P f ?ms))" and st: "m_status m = INVISIBLE"
    then show "m_receiptHandle m \<noteq> []" using ent [of k m] handles_okD(1) [OF ok _ st] by auto
  next
    fix k m k' m'
    assume "(k, m) \<in> set (fst (rewrite_matching P f ?ms))" "(k', m') \<in> set (fst (rewrite_matching P f ?ms))"
      and "m_receiptHandle m = m_receiptHandle m'" "m_receiptHandle m \<noteq> []"
    then obtain m0 m0' where "(k, m0) \<in> set ?ms" "(k', m0') \<in> set ?ms"
      and "m_receiptHandle m0 = m_receiptHandle m0'" "m_receiptHandle m0 \<noteq> []"
      using ent [of k m] ent [of k' m'] by auto
    then show "k = k'" by (rule handles_okD(2) [OF ok])
  qed
  moreover have "all_stamped m_oid (fst (rewrite_matching P f ?ms))"
    by (rule stamped_evolved [OF ev stp]) (use f in auto)
  ultimately show ?thesis
    using inv evolved_wf [OF ev wf] by (simp add: life_inv_def sqs_inv_def)
qed

lemma life_filter_messages:
  "life_inv st \<Longrightarrow> life_inv (st\<lparr>messages := filter P (messages st)\<rparr>)"
  by (auto simp: life_inv_def sqs_inv_def all_stamped_filter intro!: handles_okI dest: handles_okD)

lemma life_filter_queues:
  "life_inv st \<Longrightarrow> life_inv (st\<lparr>queues := filter P (queues st)\<rparr>)"
  by (auto simp: life_inv_def sqs_inv_def intro!: names_uniqueI dest: names_uniqueD)

lemma life_parts:
  assumes "life_inv st"
  shows "wf_store (queues st)" "wf_store (messages st)" "all_stamped m_oid (messages st)"
    "handles_ok (messages st)" "names_unique (queues st)"
  using assms by (simp_all add: life_inv_def sqs_inv_def)

lemma life_with_queues:
  "life_inv st \<Longrightarrow> wf_store qs \<Longrightarrow> names_unique qs \<Longrightarrow> life_inv (st\<lparr>queues := qs\<rparr>)"
  by (simp add: life_inv_def sqs_inv_def)

lemma life_with_messages:
  "life_inv st \<Longrightarrow> wf_store ms \<Longrightarrow> all_stamped m_oid ms \<Longrightarrow> handles_ok ms \<Longrightarrow> life_inv (st\<lparr>messages := ms\<rparr>)"
  by (simp add: life_inv_def sqs_inv_def)

lemma names_unique_assign:
  assumes un: "names_unique qs" and old: "(k, old) \<in> set qs" "q_region old = q_region q" "q_name old = q_name q"
  shows "names_unique (assign k q qs)"
proof (rule names_uniqueI)
  fix k1 q1 k2 q2
  assume e1: "(k1, q1) \<in> set (assign k q qs)" and e2: "(k2, q2) \<in> set (assign k q qs)"
    and eq: "q_region q1 = q_region q2" "q_name q1 = q_name q2"
  have pre: "\<exists>p. (k', p) \<in> set qs \<and> q_region p = q_region q' \<and> q_name p = q_name q'"
    if "(k', q') \<in> set (assign k q qs)" for k' q'
    using that old unfolding assign_def set_modify by auto
  obtain p1 p2 where "(k1, p1) \<in> set qs" "(k2, p2) \<in> set qs" "q_region p1 = q_region p2" "q_name p1 = q_name p2"
    using pre [OF e1] pre [OF e2] eq by auto
  then show "k1 = k2" by (rule names_uniqueD [OF un])
qed

lemma sqs_updateQueue_found:
  assumes "sqs_queueExists st (q_region q) (q_name q)" "wf_store (queues st)"
  shows "\<exists>k old. map_of (queues st) k = Some old \<and> q_region old = q_region q \<and> q_name old = q_name q \<and>
     sqs_updateQueue now st q = (st\<lparr>queues := assign k (q\<lparr>q_modified := now\<rparr>) (queues st)\<rparr>, q\<lparr>q_modified := now\<rparr>, q\<lparr>q_modified := now\<rparr>)"
proof -
  let ?q = "q\<lparr>q_modified := now\<rparr>" and ?P = "\<lambda>(_::string, x). q_region x = q_region q \<and> q_name x = q_name q"
  have "replace_found ?P ?q (queues st) \<noteq> None"
    using assms(1) by (simp add: replace_found_None sqs_queueExists_def)
  then obtain qs r where r: "replace_found ?P ?q (queues st) = Some (qs, r)" by auto
  from replace_found_SomeD [OF this assms(2)] obtain k old where
    "r = ?q" "map_of (queues st) k = Some old" "q_region old = q_region q" "q_name old = q_name q" "qs = assign k ?q (queues st)"
    by auto
  then show ?thesis using r by (auto simp: sqs_updateQueue_def Let_def)
qed

lemma life_upsert_queue:
  assumes inv: "life_inv st" and fresh: "uuid \<notin> keys_of (queues st)"
  shows "life_inv (fst (sqs_createOrUpdateQueue lay uuid now st q))"
proof (cases "sqs_queueExists st (q_region q) (q_name q)")
  case True
  obtain k old where o: "map_of (queues st) k = Some old" "q_region old = q_region q" "q_name old = q_name q"
    "sqs_updateQueue now st q = (st\<lparr>queues := assign k (q\<lparr>q_modified := now\<rparr>) (queues st)\<rparr>, q\<lparr>q_modified := now\<rparr>, q\<lparr>q_modified := now\<rparr>)"
    using sqs_updateQueue_found [OF True life_parts(1) [OF inv], of now] by blast
  have "names_unique (assign k (q\<lparr>q_modified := now\<rparr>) (queues st))"
    by (rule names_unique_assign [OF life_parts(5) [OF inv], of k old]) (use o map_of_SomeD in auto)
  then show ?thesis
    using True o inv by (simp add: sqs_createOrUpdateQueue_def life_with_queues life_parts(1))
next
  case False
  let ?q = "q\<lparr>q_oid := uuid\<rparr>"
  have set: "set (hmap_insert lay uuid ?q (queues st)) = insert (uuid, ?q) (set (queues st))"
    by (rule hm.set_ins_fresh [OF life_parts(1) [OF inv] fresh])
  have no: "(k, x) \<in> set (queues st) \<Longrightarrow> q_region q = q_region x \<Longrightarrow> q_name q = q_name x \<Longrightarrow> False" for k x
    using False by (auto simp: sqs_queueExists_def found_iff)
  have "names_unique (hmap_insert lay uuid ?q (queues st))"
  proof (rule names_uniqueI)
    fix k q1 k' q2
    assume "(k, q1) \<in> set (hmap_insert lay uuid ?q (queues st))" "(k', q2) \<in> set (hmap_insert lay uuid ?q (queues st))"
      and eq: "q_region q1 = q_region q2" "q_name q1 = q_name q2"
    then have mem: "(k, q1) = (uuid, ?q) \<or> (k, q1) \<in> set (queues st)" "(k', q2) = (uuid, ?q) \<or> (k', q2) \<in> set (queues st)"
      using set by blast+
    then show "k = k'"
      using eq no [of k q1] no [of k' q2] names_uniqueD [OF life_parts(5) [OF inv], of k q1 k' q2] by auto
  qed
  then show ?thesis
    using False inv by (simp add: sqs_createOrUpdateQueue_def sqs_createQueue_def Let_def life_with_queues wf_hmap_insert life_parts(1))
qed

lemma life_send:
  assumes inv: "life_inv st" and fresh: "uuid \<notin> keys_of (messages st)"
    and m: "m_status m \<in> {INITIAL, DELAYED}"
    and h: "m_receiptHandle m \<notin> (\<lambda>(_, x). m_receiptHandle x) ` set (messages st) - {[]}"
  shows "life_inv (fst (sqs_createMessage lay uuid st m))"
proof -
  let ?m = "m\<lparr>m_oid := uuid\<rparr>"
  have set: "set (hmap_insert lay uuid ?m (messages st)) = insert (uuid, ?m) (set (messages st))"
    by (rule hm.set_ins_fresh [OF life_parts(2) [OF inv] fresh])
  note ok = life_parts(4) [OF inv]
  have new: "m_receiptHandle x \<noteq> m_receiptHandle m" if "(k, x) \<in> set (messages st)" "m_receiptHandle m \<noteq> []" for k x
    using h that by (auto simp: image_iff)
  have "handles_ok (hmap_insert lay uuid ?m (messages st))"
  proof (rule handles_okI)
    fix k x assume "(k, x) \<in> set (hmap_insert lay uuid ?m (messages st))" "m_status x = INVISIBLE"
    then show "m_receiptHandle x \<noteq> []" using set m handles_okD(1) [OF ok] by auto
  next
    fix k x k' x'
    assume "(k, x) \<in> set (hmap_insert lay uuid ?m (messages st))" "(k', x') \<in> set (hmap_insert lay uuid ?m (messages st))"
      and eq: "m_receiptHandle x = m_receiptHandle x'" "m_receiptHandle x \<noteq> []"
    then have "(k, x) = (uuid, ?m) \<or> (k, x) \<in> set (messages st)" "(k', x') = (uuid, ?m) \<or> (k', x') \<in> set (messages st)"
      using set by blast+
    then show "k = k'" using eq new [of k x] new [of k' x'] handles_okD(2) [OF ok, of k x k' x'] by auto
  qed
  moreover have "all_stamped m_oid (hmap_insert lay uuid ?m (messages st))"
    by (rule all_stamped_hmap_insert) (use life_parts(3) [OF inv] in auto)
  ultimately show ?thesis
    using inv by (simp add: sqs_createMessage_def Let_def life_with_messages wf_hmap_insert life_parts(2))
qed

lemma sqs_take_simps:
  "m_oid (sqs_take split reset dlq n h m) = m_oid m"
  "m_receiptHandle (sqs_take split reset dlq n h m) = (if sqs_to_dlq dlq n (m_retries m + 1) then [] else h)"
  "m_status (sqs_take split reset dlq n h m) = (if sqs_to_dlq dlq n (m_retries m + 1) then INITIAL else INVISIBLE)"
  "m_queueArn (sqs_take split reset dlq n h m) = (if sqs_to_dlq dlq n (m_retries m + 1) then dlq else m_queueArn m)"
  "m_retries (sqs_take split reset dlq n h m) = m_retries m + 1"
  "m_messageId (sqs_take split reset dlq n h m) = m_messageId m"
  "m_body (sqs_take split reset dlq n h m) = m_body m"
  by (simp_all add: sqs_take_def Let_def)

lemma life_receive:
  assumes inv: "life_inv st" and fr: "fresh_handles h (messages st)"
  shows "life_inv (fst (sqs_receiveMessages split h now st arn vis maxR dlq retries []))"
proof -
  let ?f = "\<lambda>k m. sqs_take split (now + seconds vis) dlq retries (h k) m"
  let ?ms' = "apply_first (receive_limit maxR) (receivable arn) (\<lambda>(k, m). (k, ?f k m)) (messages st)"
  note ev = evolved_apply_first [of "receivable arn" ?f "messages st" "receive_limit maxR"]
  have wf: "wf_store ?ms'" by (rule evolved_wf [OF ev life_parts(2) [OF inv]])
  have stp: "all_stamped m_oid ?ms'"
    by (rule stamped_evolved [OF ev life_parts(3) [OF inv]]) (auto simp: sqs_take_simps)
  have ok: "handles_ok ?ms'"
  proof (rule handles_ok_evolved [OF ev life_parts(4) [OF inv] life_parts(2) [OF inv] _ _ fr])
    show "m_receiptHandle m' \<noteq> []"
      if "(k, m) \<in> set (messages st)" "m' = m \<or> receivable arn (k, m) \<and> m' = ?f k m" "m_status m' = INVISIBLE" for k m m'
      using that fr handles_okD(1) [OF life_parts(4) [OF inv]] by (auto simp: sqs_take_simps fresh_handles_def split: if_splits)
    show "m_receiptHandle m' \<in> {[], m_receiptHandle m, h k}"
      if "(k, m) \<in> set (messages st)" "m' = m \<or> receivable arn (k, m) \<and> m' = ?f k m" for k m m'
      using that by (auto simp: sqs_take_simps)
  qed
  show ?thesis
    using life_with_messages [OF inv wf stp ok] by (simp add: sqs_receive_spec Let_def)
qed

text \<open>Lookups: messages carry their keys, so only a queue can change, in its object id.\<close>

lemma life_lookup_message:
  assumes inv: "life_inv st"
  shows "life_inv (fst (with_messages st (get_or dflt set_m_oid P (messages st))))"
  using inv
  by (simp add: with_messages_def sqs_m.get_or_stamped [OF life_parts(2) [OF inv] life_parts(3) [OF inv]] split: option.splits)

lemma life_lookup_queue:
  assumes inv: "life_inv st" shows "life_inv (fst (with_queues st (get_or dflt set_q_oid P (queues st))))"
proof (cases "stamp_found set_q_oid P (queues st)")
  case None
  then show ?thesis using inv by (simp add: with_queues_def get_or_def)
next
  case (Some r)
  obtain qs e where r: "r = (qs, e)" by (cases r)
  obtain k q where kq: "map_of (queues st) k = Some q" "fst r = assign k (set_q_oid k q) (queues st)"
    using stamp_found_SomeD [OF Some [unfolded r] life_parts(1) [OF inv]] by (auto simp: r)
  have "names_unique (fst r)"
    unfolding kq(2) by (rule names_unique_assign [OF life_parts(5) [OF inv], of k q])
      (use kq(1) map_of_SomeD in \<open>auto simp: set_q_oid_def\<close>)
  moreover have "wf_store (fst r)" using kq life_parts(1) [OF inv] by simp
  ultimately show ?thesis
    using Some life_with_queues [OF inv] by (simp add: with_queues_def get_or_def)
qed

lemma life_update_message:
  assumes inv: "life_inv st" and old: "map_of (messages st) (m_oid m) = Some old"
    and same: "m_receiptHandle m = m_receiptHandle old" "m_status m \<in> {m_status old, INITIAL}"
  shows "life_inv (fst (sqs_updateMessage now st m))"
proof (cases "replace_found (\<lambda>(_, x). m_oid x = m_oid m) (m\<lparr>m_modified := now\<rparr>) (messages st)")
  case None
  then show ?thesis using inv by (simp add: sqs_updateMessage_def Let_def)
next
  case (Some r)
  let ?m = "m\<lparr>m_modified := now\<rparr>"
  obtain ms x where r: "r = (ms, x)" by (cases r)
  obtain k y where ky: "map_of (messages st) k = Some y" "m_oid y = m_oid m" "ms = assign k ?m (messages st)"
    using replace_found_SomeD [OF Some [unfolded r] life_parts(2) [OF inv]] by auto
  have k: "k = m_oid m" using map_of_SomeD [OF ky(1)] life_parts(3) [OF inv] ky(2) by (auto simp: all_stamped_def)
  then have y: "y = old" using ky(1) old by simp
  have stp: "all_stamped m_oid ms"
    unfolding ky(3) by (rule all_stamped_assign) (use k life_parts(3) [OF inv] in auto)
  have pre: "\<exists>n0. (j, n0) \<in> set (messages st) \<and> m_receiptHandle n0 = m_receiptHandle n \<and> m_status n \<in> {m_status n0, INITIAL}"
    if mem: "(j, n) \<in> set ms" for j n
    using mem map_of_SomeD [OF ky(1)] same y unfolding ky(3) assign_def set_modify by auto
  have ok: "handles_ok ms"
  proof (rule handles_okI)
    fix j n assume "(j, n) \<in> set ms" "m_status n = INVISIBLE"
    then show "m_receiptHandle n \<noteq> []" using pre [of j n] handles_okD(1) [OF life_parts(4) [OF inv]] by fastforce
  next
    fix j n j' n' assume "(j, n) \<in> set ms" "(j', n') \<in> set ms" "m_receiptHandle n = m_receiptHandle n'" "m_receiptHandle n \<noteq> []"
    then show "j = j'" using pre [of j n] pre [of j' n'] handles_okD(2) [OF life_parts(4) [OF inv]] by metis
  qed
  have "wf_store ms" using ky(3) life_parts(2) [OF inv] by simp
  then show ?thesis
    using Some life_with_messages [OF inv _ stp ok] by (simp add: sqs_updateMessage_def Let_def r)
qed

lemma life_update_queue:
  assumes inv: "life_inv st" shows "life_inv (fst (sqs_updateQueue now st q))"
proof (cases "sqs_queueExists st (q_region q) (q_name q)")
  case True
  then obtain k old where o: "map_of (queues st) k = Some old" "q_region old = q_region q" "q_name old = q_name q"
    "sqs_updateQueue now st q = (st\<lparr>queues := assign k (q\<lparr>q_modified := now\<rparr>) (queues st)\<rparr>, q\<lparr>q_modified := now\<rparr>, q\<lparr>q_modified := now\<rparr>)"
    using sqs_updateQueue_found [OF True life_parts(1) [OF inv], of now] by blast
  have "names_unique (assign k (q\<lparr>q_modified := now\<rparr>) (queues st))"
    by (rule names_unique_assign [OF life_parts(5) [OF inv], of k old]) (use o map_of_SomeD in auto)
  then show ?thesis using o inv by (simp add: life_with_queues life_parts(1))
next
  case False
  then have "replace_found (\<lambda>(_, x). q_region x = q_region q \<and> q_name x = q_name q) (q\<lparr>q_modified := now\<rparr>) (queues st) = None"
    unfolding sqs_queueExists_def by (rule absent_None(2))
  then show ?thesis using inv by (simp add: sqs_updateQueue_def Let_def)
qed

lemma life_adjust:
  assumes inv: "life_inv st" and adj: "sqs_adjustMessageCounters st = Inr st'"
  shows "life_inv st'"
proof -
  obtain qs where l: "index_loop q_oid (\<lambda>queue. set_counters st (q_arn queue)) (map fst (queues st)) (queues st) = Inr qs"
    and st': "st' = st\<lparr>queues := qs\<rparr>"
    using adj by (auto simp: sqs_adjustMessageCounters_def split: sum.splits)
  note keys = index_loop_keeps(1) [OF l] and kept = index_loop_keeps(2) [OF l, where f = "\<lambda>q. (q_region q, q_name q)"]
  have pre: "\<exists>p. (k, p) \<in> set (queues st) \<and> q_region p = q_region q \<and> q_name p = q_name q" if "(k, q) \<in> set qs" for k q
    using kept [OF _ that] by (auto simp: set_counters_def)
  have "names_unique qs"
  proof (rule names_uniqueI)
    fix k q k' q' assume "(k, q) \<in> set qs" "(k', q') \<in> set qs" "q_region q = q_region q'" "q_name q = q_name q'"
    then show "k = k'" using pre [of k q] pre [of k' q'] names_uniqueD [OF life_parts(5) [OF inv]] by metis
  qed
  moreover have "wf_store qs" using wf_of_keys [OF keys] life_parts(1) [OF inv] by simp
  ultimately show ?thesis unfolding st' by (intro life_with_queues [OF inv])
qed

lemma sqs_retention_same:
  "sqs_retention_loop clock arn ms st n = Inr (st', n') \<Longrightarrow> st' = st"
  by (induction clock arn ms st n rule: sqs_retention_loop.induct)
    (auto simp: sqs_deleteMessage_def sqs_deleteMessageByHandle_def scoped_lock_def split: if_splits)

lemmas life_lookups = sqs_getQueueById_def sqs_getQueueByArn_def sqs_getQueueByUrl_def sqs_getQueueByName_def
  sqs_getQueueByDlq_def sqs_getMessageById_def sqs_getMessageByReceiptHandle_def sqs_getMessageByMessageId_def

lemma sqs_step_life: "sqs_step st st' \<Longrightarrow> life_inv st \<Longrightarrow> life_inv st'"
proof (induction rule: sqs_step.induct)
  case upsert_queue then show ?case by (simp add: life_upsert_queue)
next
  case send then show ?case by (simp add: life_send)
next
  case receive then show ?case by (simp add: life_receive)
next
  case reset then show ?case
    unfolding sqs_resetMessages_def with_messages_def by (simp add: life_rewrite split_beta)
next
  case undelay then show ?case
    unfolding sqs_resetDelayedMessages_def with_messages_def by (simp add: life_rewrite split_beta)
next
  case redrive then show ?case
    unfolding sqs_redriveMessages_def with_messages_def by (simp add: life_rewrite split_beta)
next
  case redrive_one then show ?case
    unfolding sqs_redriveMessage_def with_messages_def by (simp add: life_rewrite split_beta)
next
  case delete then show ?case
    by (auto simp: sqs_deleteMessage_def sqs_deleteMessageByHandle_def scoped_lock_def with_messages_def life_filter_messages)
next
  case purge then show ?case
    by (simp add: sqs_purgeQueue_def with_messages_def life_filter_messages)
next
  case delete_queue then show ?case
    by (simp add: sqs_deleteQueue_def with_queues_def life_filter_queues)
next
  case (create_queue uuid st q lay)
  then show ?case using life_upsert_queue [of st uuid lay _ q] by (simp add: sqs_createOrUpdateQueue_def)
next
  case update_queue then show ?case by (rule life_update_queue)
next
  case (import_queue uuid st lay now q)
  then show ?case using life_upsert_queue [of st uuid lay now q] by (simp add: sqs_createOrUpdateQueue_def sqs_importQueue_def)
next
  case update_message then show ?case by (simp add: life_update_message)
next
  case delete_by_handle then show ?case
    by (auto simp: sqs_deleteMessageByHandle_def scoped_lock_def with_messages_def life_filter_messages)
next
  case retention then show ?case using sqs_retention_same unfolding sqs_messageRetention_def by blast
next
  case delete_messages then show ?case by (simp add: sqs_deleteMessages_def with_messages_def life_filter_messages)
next
  case (delete_all_messages st)
  then show ?case using life_filter_messages [of st "\<lambda>_. False"] by (simp add: sqs_deleteAllMessages_def)
next
  case (delete_all_queues st)
  then show ?case using life_filter_queues [of st "\<lambda>_. False"] by (simp add: sqs_deleteAllQueues_def)
next
  case adjust then show ?case by (simp add: life_adjust)
qed (simp_all add: life_lookups life_lookup_queue life_lookup_message)

lemma sqs_reachable_life: "sqs_reachable st \<Longrightarrow> life_inv st"
proof (induction rule: sqs_reachable.induct)
  case start
  show ?case by (simp add: life_inv_def sqs_inv_def sqs_init_def handles_ok_def names_unique_def)
next
  case (step st st')
  then show ?case by (blast intro: sqs_step_life)
qed

subsection \<open>Facts about one receive\<close>

lemma taken_in_apply_first:
  "x \<in> set (take n (filter P xs)) \<Longrightarrow> f x \<in> set (apply_first n P f xs)"
  by (induction n P f xs rule: apply_first.induct) (auto split: if_splits)

lemma taken_entry:
  "(k, m) \<in> set (take n (filter P xs)) \<Longrightarrow> (k, f k m) \<in> set (apply_first n P (\<lambda>(k, m). (k, f k m)) xs)"
  using taken_in_apply_first [of "(k, m)" n P xs "\<lambda>(k, m). (k, f k m)"] by simp

lemma taken_receivable: "(k, m) \<in> set (take n (filter (receivable arn) ms)) \<Longrightarrow>
    (k, m) \<in> set ms \<and> m_queueArn m = arn \<and> m_status m = INITIAL"
  by (auto dest!: in_set_takeD simp: receivable_def)

lemma receive_messages:
  "messages (fst (sqs_receiveMessages split h now st arn vis maxR dlq n [])) =
     apply_first (receive_limit maxR) (receivable arn) (\<lambda>(k, m). (k, sqs_take split (now + seconds vis) dlq n (h k) m)) (messages st)"
  by (simp add: sqs_receive_spec Let_def)

lemma receive_queues [simp]:
  "queues (fst (sqs_receiveMessages split h now st arn vis maxR dlq n [])) = queues st"
  by (simp add: sqs_receive_spec Let_def)

lemma receive_list:
  "snd (sqs_receiveMessages split h now st arn vis maxR dlq n []) =
     map (\<lambda>(k, m). sqs_take split (now + seconds vis) dlq n (h k) m)
       (take (receive_limit maxR) (filter (receivable arn) (messages st)))"
  by (simp add: sqs_receive_spec Let_def)

lemma receive_wf: "wf_store (messages st) \<Longrightarrow>
    wf_store (messages (fst (sqs_receiveMessages split h now st arn vis maxR dlq n [])))"
  by (simp add: wf_store_def map_fst_receive)

lemma receive_stamped: "all_stamped m_oid (messages st) \<Longrightarrow>
    all_stamped m_oid (messages (fst (sqs_receiveMessages split h now st arn vis maxR dlq n [])))"
  unfolding receive_messages
  by (rule stamped_evolved [OF evolved_apply_first]) (auto simp: sqs_take_simps)

lemma received_entry:
  assumes "m' \<in> set (snd (sqs_receiveMessages split h now st arn vis maxR dlq n []))"
  shows "\<exists>k m. (k, m) \<in> set (take (receive_limit maxR) (filter (receivable arn) (messages st)))
     \<and> m' = sqs_take split (now + seconds vis) dlq n (h k) m
     \<and> (k, m') \<in> set (messages (fst (sqs_receiveMessages split h now st arn vis maxR dlq n [])))"
proof -
  obtain k m where m: "(k, m) \<in> set (take (receive_limit maxR) (filter (receivable arn) (messages st)))"
    "m' = sqs_take split (now + seconds vis) dlq n (h k) m"
    using assms unfolding receive_list by auto
  then show ?thesis
    using taken_entry [OF m(1), of "\<lambda>k m. sqs_take split (now + seconds vis) dlq n (h k) m"]
    unfolding receive_messages by blast
qed

lemma received_oids:
  assumes "all_stamped m_oid (messages st)"
  shows "map m_oid (snd (sqs_receiveMessages split h now st arn vis maxR dlq n [])) =
     map fst (take (receive_limit maxR) (filter (receivable arn) (messages st)))"
  unfolding receive_list map_map
  by (rule map_cong [OF refl])
    (use assms in_set_takeD in \<open>force simp: sqs_take_simps all_stamped_def\<close>)

lemma distinct_taken_keys:
  "wf_store ms \<Longrightarrow> distinct (map fst (take n (filter P ms)))"
  unfolding wf_store_def take_map [symmetric] by (intro distinct_take distinct_fst_filter)

lemma filter_key: "wf_store ms \<Longrightarrow> map_of ms k = Some m \<Longrightarrow> filter (\<lambda>(k', _). k' = k) ms = [(k, m)]"
proof (induction ms)
  case (Cons x ms)
  obtain k0 m0 where x: "x = (k0, m0)" by (cases x)
  show ?case
  proof (cases "k0 = k")
    case True
    then have "filter (\<lambda>(k', _). k' = k) ms = []"
      using Cons.prems(1) x by (auto simp: filter_empty_conv)
    then show ?thesis using True Cons.prems x by auto
  next
    case False
    then show ?thesis using Cons x by auto
  qed
qed simp

subsection \<open>Properties\<close>

text \<open>C1: receiving from a queue takes exactly the first visible messages of that queue in the
  order of the store, at most \<open>receive_limit maxResult\<close> of them; each taken message is rewritten
  in place by \<open>sqs_take\<close> (hidden with a receipt handle, or moved to the dead-letter queue), the
  same messages are returned in order, and nothing else of the repository changes.\<close>

theorem sqs_receive_exact:
  "sqs_receiveMessages split handles now st arn vis maxR dlq retries [] =
     (let tk = (\<lambda>(k, m). sqs_take split (now + seconds vis) dlq retries (handles k) m) in
      (st\<lparr>messages := apply_first (receive_limit maxR) (receivable arn) (\<lambda>(k, m). (k, tk (k, m))) (messages st)\<rparr>,
       map tk (take (receive_limit maxR) (filter (receivable arn) (messages st)))))"
  by (rule sqs_receive_spec)

text \<open>
  What happens to one queue between its consumers and the maintenance task: receives, each with its own
  handles, time, timeout, limit, dead-letter queue and attempts, and runs of the loops that make hidden and
  delayed messages visible again.
\<close>

datatype queue_visit =
    Receive "string \<Rightarrow> string" time_point int int string int
  | Reset "string \<Rightarrow> time_point" int
  | Undelay "string \<Rightarrow> time_point" int

fun visit :: "(string \<Rightarrow> string \<Rightarrow> string list) \<Rightarrow> string \<Rightarrow> queue_visit \<Rightarrow> sqs_repo \<Rightarrow> sqs_repo \<times> sqs_message list" where
  "visit split arn (Receive h now vis maxR dlq n) st = sqs_receiveMessages split h now st arn vis maxR dlq n []"
| "visit split arn (Reset clock v) st = (fst (sqs_resetMessages clock st arn v), [])"
| "visit split arn (Undelay clock v) st = (fst (sqs_resetDelayedMessages clock st arn v), [])"

fun visits :: "(string \<Rightarrow> string \<Rightarrow> string list) \<Rightarrow> string \<Rightarrow> queue_visit list \<Rightarrow> sqs_repo \<Rightarrow> sqs_repo \<times> sqs_message list" where
  "visits split arn [] st = (st, [])"
| "visits split arn (v # vs) st =
     (fst (visits split arn vs (fst (visit split arn v st))),
      snd (visit split arn v st) @ snd (visits split arn vs (fst (visit split arn v st))))"

text \<open>No receive dead-letters into the queue itself, and no run of \<open>resetMessages\<close> reads a clock past a
  deadline: not past one of \<open>ds\<close>, nor past that of a receive before it.\<close>

fun in_time :: "string \<Rightarrow> time_point list \<Rightarrow> queue_visit list \<Rightarrow> bool" where
  "in_time arn ds [] \<longleftrightarrow> True"
| "in_time arn ds (Receive h now vis maxR dlq n # vs) \<longleftrightarrow> dlq \<noteq> arn \<and> in_time arn ((now + seconds vis) # ds) vs"
| "in_time arn ds (Reset clock v # vs) \<longleftrightarrow> (\<forall>k. \<forall>d\<in>set ds. clock k \<le> d) \<and> in_time arn ds vs"
| "in_time arn ds (Undelay clock v # vs) \<longleftrightarrow> in_time arn ds vs"

fun deadlines :: "time_point list \<Rightarrow> queue_visit \<Rightarrow> time_point list" where
  "deadlines ds (Receive h now vis maxR dlq n) = (now + seconds vis) # ds"
| "deadlines ds v = ds"

text \<open>A message that is out of reach: in another queue, or hidden until one of the deadlines.\<close>

definition out_of_reach :: "string \<Rightarrow> time_point list \<Rightarrow> sqs_message \<Rightarrow> bool" where
  "out_of_reach arn ds m \<longleftrightarrow> m_queueArn m \<noteq> arn \<or> m_status m = INVISIBLE \<and> m_reset m \<in> set ds"

lemma out_of_reach_later: "out_of_reach arn ds m \<Longrightarrow> out_of_reach arn (deadlines ds v) m"
  by (cases v) (auto simp: out_of_reach_def)

text \<open>How the loops evolve the messages: entry by entry.\<close>

lemma reset_entries: "messages (fst (sqs_resetMessages clock st arn v)) =
    map (\<lambda>(k, m). (k, if m_queueArn m = arn \<and> m_status m = INVISIBLE \<and> m_reset m < clock k
      then m\<lparr>m_status := INITIAL, m_receiptHandle := []\<rparr> else m)) (messages st)"
  by (auto simp: sqs_resetMessages_def with_messages_def rewrite_matching_def)

lemma undelay_entries: "messages (fst (sqs_resetDelayedMessages clock st arn v)) =
    map (\<lambda>(k, m). (k, if m_queueArn m = arn \<and> m_status m = DELAYED \<and> m_reset m < clock k
      then m\<lparr>m_status := INITIAL\<rparr> else m)) (messages st)"
  by (auto simp: sqs_resetDelayedMessages_def with_messages_def rewrite_matching_def)

lemma visit_wf: "wf_store (messages st) \<Longrightarrow> wf_store (messages (fst (visit split arn v st)))"
  by (cases v) (auto simp: map_fst_receive reset_entries undelay_entries wf_store_def o_def case_prod_unfold)

lemma visit_stamped:
  assumes "all_stamped m_oid (messages st)"
  shows "all_stamped m_oid (messages (fst (visit split arn v st)))"
proof (cases v)
  case (Receive h now vis maxR dlq n)
  show ?thesis using receive_stamped [OF assms] by (simp add: Receive)
next
  case (Reset clock u)
  show ?thesis using assms by (auto simp: Reset reset_entries all_stamped_def)
next
  case (Undelay clock u)
  show ?thesis using assms by (auto simp: Undelay undelay_entries all_stamped_def)
qed

lemma skipped_in_apply_first: "x \<in> set xs \<Longrightarrow> \<not> P x \<Longrightarrow> x \<in> set (apply_first n P f xs)"
  by (induction n P f xs rule: apply_first.induct) auto

lemma visit_keeps:
  assumes e: "(k, m) \<in> set (messages st)"
    and m: "m_queueArn m = arn \<Longrightarrow> m_status m = INVISIBLE \<and> (\<forall>clock u. v = Reset clock u \<longrightarrow> clock k \<le> m_reset m)"
  shows "(k, m) \<in> set (messages (fst (visit split arn v st)))"
proof (cases v)
  case (Receive h now vis maxR dlq n)
  have "\<not> receivable arn (k, m)" using m by (auto simp: receivable_def)
  then show ?thesis using e by (simp add: Receive receive_messages skipped_in_apply_first)
next
  case (Reset clock u)
  then show ?thesis using m by (auto simp: reset_entries intro!: rev_image_eqI [OF e])
next
  case (Undelay clock u)
  then show ?thesis using m by (auto simp: undelay_entries intro!: rev_image_eqI [OF e])
qed

lemma visits_keep_hidden:
  assumes "(k, m) \<in> set (messages st)" "m_status m = INVISIBLE" "\<forall>clock v. Reset clock v \<in> set vs \<longrightarrow> clock k \<le> m_reset m"
  shows "(k, m) \<in> set (messages (fst (visits split arn vs st)))"
  using assms
proof (induction vs arbitrary: st)
  case (Cons v vs)
  have "(k, m) \<in> set (messages (fst (visit split arn v st)))"
    using Cons.prems by (intro visit_keeps) auto
  then show ?case
    unfolding visits.simps fst_conv using Cons.prems(2,3) by (intro Cons.IH) auto
qed simp

lemma visits_wf: "wf_store (messages st) \<Longrightarrow> wf_store (messages (fst (visits split arn vs st)))"
  by (induction vs arbitrary: st) (simp_all add: visit_wf)

text \<open>What a visit delivers: messages that were not out of reach, and are so afterwards.\<close>

lemma visit_delivers:
  assumes wf: "wf_store (messages st)" and stp: "all_stamped m_oid (messages st)" and t: "in_time arn ds (v # vs)"
  shows "distinct (map m_oid (snd (visit split arn v st)))"
    and "k \<in> m_oid ` set (snd (visit split arn v st)) \<Longrightarrow> \<exists>m. (k, m) \<in> set (messages st) \<and> \<not> out_of_reach arn ds m"
    and "k \<in> m_oid ` set (snd (visit split arn v st)) \<Longrightarrow>
      \<exists>m. (k, m) \<in> set (messages (fst (visit split arn v st))) \<and> out_of_reach arn (deadlines ds v) m"
proof -
  show "distinct (map m_oid (snd (visit split arn v st)))"
    using distinct_taken_keys [OF wf] by (cases v) (simp_all add: received_oids stp)
  fix k assume "k \<in> m_oid ` set (snd (visit split arn v st))"
  then obtain h now vis maxR dlq n m' where v: "v = Receive h now vis maxR dlq n"
    and m': "m' \<in> set (snd (sqs_receiveMessages split h now st arn vis maxR dlq n []))" "m_oid m' = k"
    by (cases v) auto
  obtain j m where m: "(j, m) \<in> set (take (receive_limit maxR) (filter (receivable arn) (messages st)))"
    "m' = sqs_take split (now + seconds vis) dlq n (h j) m"
    "(j, m') \<in> set (messages (fst (sqs_receiveMessages split h now st arn vis maxR dlq n [])))"
    using received_entry [OF m'(1)] by blast
  note r = taken_receivable [OF m(1)]
  have "m_oid m' = j" using m(2) r stp by (auto simp: sqs_take_simps all_stamped_def)
  then have [simp]: "j = k" using m'(2) by simp
  show "\<exists>m. (k, m) \<in> set (messages st) \<and> \<not> out_of_reach arn ds m"
    using r by (auto simp: out_of_reach_def)
  have "out_of_reach arn (deadlines ds v) m'"
    using r t by (auto simp: m(2) v out_of_reach_def sqs_take_def Let_def)
  then show "\<exists>m. (k, m) \<in> set (messages (fst (visit split arn v st))) \<and> out_of_reach arn (deadlines ds v) m"
    using m(3) by (auto simp: v)
qed

lemma visits_distinct:
  assumes "wf_store (messages st)" "all_stamped m_oid (messages st)" "in_time arn ds vs"
    and "\<And>k. k \<in> K \<Longrightarrow> \<exists>m. (k, m) \<in> set (messages st) \<and> out_of_reach arn ds m"
  shows "distinct (map m_oid (snd (visits split arn vs st))) \<and> m_oid ` set (snd (visits split arn vs st)) \<inter> K = {}"
  using assms
proof (induction vs arbitrary: st ds K)
  case (Cons v vs)
  let ?st1 = "fst (visit split arn v st)" and ?ml = "snd (visit split arn v st)"
  note d = visit_delivers [OF Cons.prems(1-3), where split = split]
  have "in_time arn (deadlines ds v) vs" using Cons.prems(3) by (cases v) auto
  moreover have "\<exists>m. (k, m) \<in> set (messages ?st1) \<and> out_of_reach arn (deadlines ds v) m" if k: "k \<in> K \<union> m_oid ` set ?ml" for k
  proof (cases "k \<in> m_oid ` set ?ml")
    case True
    then show ?thesis by (rule d(3))
  next
    case False
    then obtain m where m: "(k, m) \<in> set (messages st)" "out_of_reach arn ds m" using Cons.prems(4) k by blast
    have "(k, m) \<in> set (messages ?st1)"
      using m(2) Cons.prems(3) by (intro visit_keeps [OF m(1)]) (auto simp: out_of_reach_def)
    then show ?thesis using out_of_reach_later [OF m(2)] by blast
  qed
  ultimately have "distinct (map m_oid (snd (visits split arn vs ?st1)))
      \<and> m_oid ` set (snd (visits split arn vs ?st1)) \<inter> (K \<union> m_oid ` set ?ml) = {}"
    using Cons.prems(1,2) by (intro Cons.IH visit_wf visit_stamped)
  moreover have "k \<notin> K" if "k \<in> m_oid ` set ?ml" for k
    using d(2) [OF that] Cons.prems(1,4) by (metis wf_in_map_of option.inject)
  ultimately show ?case using d(1) by auto
qed simp

text \<open>C2: no double delivery: over any sequence of receives from a queue and runs of \<open>resetMessages\<close> and
  \<open>resetDelayedMessages\<close> for it, with nothing else in between, no message is delivered twice: the object ids of
  everything delivered are distinct. This holds for receives with any limits, timeouts, times and dead-letter
  queues, as long as no receive names the queue itself as its dead-letter queue, and no run of \<open>resetMessages\<close>
  reads a clock that has passed the visibility deadline of one of the receives before it; a message whose timeout
  has passed is meant to be delivered again. (The messages are stored once, under their object ids.)\<close>

theorem sqs_no_double_delivery:
  assumes "wf_store (messages st)" "all_stamped m_oid (messages st)" "in_time arn [] vs"
  shows "distinct (map m_oid (snd (visits split arn vs st)))"
  using visits_distinct [OF assms, of "{}"] by simp

definition wit_msg :: "string \<Rightarrow> string \<Rightarrow> sqs_message" where
  "wit_msg oid arn = (default_message 0)\<lparr>m_oid := oid, m_queueArn := arn, m_messageId := ''id-'' @ oid\<rparr>"

definition wit_repo :: sqs_repo where
  "wit_repo = \<lparr>queues = [], messages = [(''a'', wit_msg ''a'' ''q''), (''b'', wit_msg ''b'' ''q''), (''c'', wit_msg ''c'' ''p'')]\<rparr>"

lemma wit_repo_ok: "wf_store (messages wit_repo)" "all_stamped m_oid (messages wit_repo)"
  by (simp_all add: wit_repo_def wit_msg_def all_stamped_def)

theorem sqs_no_double_delivery_witness:
  "distinct (map m_oid (snd (visits split_model ''q''
     [Receive id 0 30 1 ''dlq'' 3, Reset (\<lambda>_. seconds 30) 0, Receive id (seconds 1) 30 5 ''dlq'' 3] wit_repo)))"
  by (rule sqs_no_double_delivery) (simp_all add: wit_repo_ok)



text \<open>The number of messages a receive returns is the number of visible messages of the queue,
  cut at \<open>maxResult\<close>, except that a limit of zero still takes one message; a negative limit becomes
  a huge unsigned number and takes them all.\<close>

theorem sqs_receive_count:
  assumes "- (2 ^ 63) \<le> maxR" and "maxR < 2 ^ 63" and "int (length (messages st)) < 2 ^ 63"
  shows "int (length (snd (sqs_receiveMessages split h now st arn vis maxR dlq n []))) =
     (let visible = count_if (receivable arn) (messages st) in
      if maxR < 0 then visible else min (max 1 maxR) visible)"
proof -
  have le: "length (filter (receivable arn) (messages st)) \<le> length (messages st)" by (rule length_filter_le)
  show ?thesis
  proof (cases "maxR < 0")
    case True
    then have "int (2 ^ 63) \<le> int (receive_limit maxR)"
      using receive_limit_negative [OF assms(1)] by (simp only: of_nat_le_iff)
    moreover have "int (2 ^ 63) = 2 ^ 63" by simp
    ultimately have "(2::int) ^ 63 \<le> int (receive_limit maxR)" by simp
    then have "length (filter (receivable arn) (messages st)) \<le> receive_limit maxR"
      using le assms(3) by linarith
    then show ?thesis using True by (simp add: receive_list count_if_def Let_def)
  next
    case False
    then have "receive_limit maxR = max 1 (nat maxR)" using assms(2) by (intro receive_limit_nonneg) auto
    then have "int (receive_limit maxR) = max 1 maxR" using False by simp
    then show ?thesis using False by (simp add: receive_list count_if_def Let_def of_nat_min min.commute)
  qed
qed

theorem sqs_receive_count_witness:
  "int (length (snd (sqs_receiveMessages split_model id 0 wit_repo ''q'' 30 0 ''dlq'' 3 []))) =
     (let visible = count_if (receivable ''q'') (messages wit_repo) in
      if (0::int) < 0 then visible else min (max 1 0) visible)"
  by (rule sqs_receive_count) (simp_all add: wit_repo_def)

text \<open>C3: in every state that the steps of \<open>sqs_step\<close> reach from the empty repository, queues and messages have
  distinct keys, every message carries its key as object id, a hidden message has a receipt handle, no two messages share
  a handle, and no two queues have the same region and name. The steps are the operations the SQS service calls, under
  the conditions \<open>sqs_step\<close> states: a queue is created only when its region and name are free and under a new object
  id; a message is sent visible or delayed, under a new object id and with no handle or a new one; an updated message
  is a stored one, keeps its handle, and keeps its status or becomes visible; a receive draws new handles; the import
  of messages is no step. The service itself does not ensure the first of these conditions: in a region other than the
  configured one it creates a queue twice, and \<open>svc_create_queue_twice\<close> shows that the names are not unique then.\<close>

theorem sqs_reachable_invariant:
  assumes "sqs_reachable st"
  shows "wf_store (queues st) \<and> wf_store (messages st) \<and> all_stamped m_oid (messages st)
     \<and> handles_ok (messages st) \<and> names_unique (queues st)"
  using life_parts [OF sqs_reachable_life [OF assms]] by blast

definition wit_reached :: sqs_repo where
  "wit_reached = fst (sqs_createMessage [] ''b'' (fst (sqs_createMessage [] ''a'' sqs_init (wit_msg [] ''q''))) (wit_msg [] ''q''))"

lemma wit_reached_eq:
  "wit_reached = \<lparr>queues = [], messages = [(''b'', wit_msg [] ''q''\<lparr>m_oid := ''b''\<rparr>), (''a'', wit_msg [] ''q''\<lparr>m_oid := ''a''\<rparr>)]\<rparr>"
  by (simp add: wit_reached_def sqs_createMessage_def sqs_init_def hmap_insert_def Let_def)

lemma wit_msg_send: "m_status (wit_msg o1 arn) \<in> {INITIAL, DELAYED}" "m_receiptHandle (wit_msg o1 arn) = []"
  by (simp_all add: wit_msg_def default_message_def)

lemma wit_reached_reachable: "sqs_reachable wit_reached"
proof -
  let ?st = "fst (sqs_createMessage [] ''a'' sqs_init (wit_msg [] ''q''))"
  have "sqs_reachable ?st"
    by (rule sqs_reachable.step [OF sqs_reachable.start sqs_step.send [OF _ wit_msg_send(1)]])
      (simp_all add: sqs_init_def)
  moreover have "''b'' \<notin> keys_of (messages ?st)"
    by (simp add: sqs_createMessage_def sqs_init_def Let_def hmap_insert_def)
  ultimately show ?thesis
    unfolding wit_reached_def by (rule sqs_reachable.step [OF _ sqs_step.send [OF _ wit_msg_send(1)]])
      (simp add: wit_msg_send(2))
qed

theorem sqs_reachable_invariant_witness:
  "wf_store (queues wit_reached) \<and> wf_store (messages wit_reached) \<and> all_stamped m_oid (messages wit_reached)
     \<and> handles_ok (messages wit_reached) \<and> names_unique (queues wit_reached)"
  by (rule sqs_reachable_invariant) (rule wit_reached_reachable)

text \<open>Acknowledging works: deleting a message that a receive returned hidden, by the message the
  consumer holds, removes exactly that one message from the repository, in every reachable
  state.\<close>

theorem sqs_acknowledge:
  assumes st: "sqs_reachable st" and fr: "fresh_handles h (messages st)"
    and r: "sqs_receiveMessages split h now st arn vis maxR dlq n [] = (st1, ml)"
    and m: "m \<in> set ml" "m_status m = INVISIBLE"
  shows "sqs_deleteMessage False st1 m =
     Inr (st1\<lparr>messages := filter (\<lambda>(k, _). k \<noteq> m_oid m) (messages st1)\<rparr>, 1)"
proof -
  have st1: "st1 = fst (sqs_receiveMessages split h now st arn vis maxR dlq n [])" using r by simp
  have life: "life_inv st1"
    unfolding st1 using sqs_reachable_life [OF st] fr by (rule life_receive)
  obtain k where mem: "(k, m) \<in> set (messages st1)"
    using received_entry [of m split h now st arn vis maxR dlq n] m(1) r by auto
  have k: "k = m_oid m" using mem life_parts(3) [OF life] by (auto simp: all_stamped_def)
  have ne: "m_receiptHandle m \<noteq> []" using handles_okD(1) [OF life_parts(4) [OF life] mem] m(2) by simp
  have iff: "m_receiptHandle m' = m_receiptHandle m \<longleftrightarrow> k' = k" if "(k', m') \<in> set (messages st1)" for k' m'
    using handles_okD(2) [OF life_parts(4) [OF life] that mem] ne that mem life_parts(2) [OF life]
    by (auto simp: wf_in_map_of)
  have "filter (\<lambda>(_, x). m_receiptHandle x = m_receiptHandle m) (messages st1) = filter (\<lambda>(k', _). k' = k) (messages st1)"
    using iff by (intro filter_cong) auto
  also have "\<dots> = [(k, m)]"
    using mem life_parts(2) [OF life] by (intro filter_key) (auto simp: wf_in_map_of)
  finally have cnt: "count_if (\<lambda>(_, x). m_receiptHandle x = m_receiptHandle m) (messages st1) = 1"
    by (simp add: count_if_def)
  have "filter (\<lambda>x. \<not> (case x of (_, x) \<Rightarrow> m_receiptHandle x = m_receiptHandle m)) (messages st1)
      = filter (\<lambda>(k', _). k' \<noteq> k) (messages st1)"
    using iff by (intro filter_cong) auto
  then show ?thesis
    by (simp add: sqs_deleteMessage_def sqs_deleteMessageByHandle_def scoped_lock_def with_messages_def erase_if_def cnt k)
qed

theorem sqs_acknowledge_witness:
  "\<exists>st1 ml m. sqs_receiveMessages split_model (\<lambda>k. CHR ''h'' # k) 0 wit_reached ''q'' 30 1 ''dlq'' 3 [] = (st1, ml) \<and> m \<in> set ml \<and>
     sqs_deleteMessage False st1 m = Inr (st1\<lparr>messages := filter (\<lambda>(k, _). k \<noteq> m_oid m) (messages st1)\<rparr>, 1)"
proof -
  let ?h = "\<lambda>k. CHR ''h'' # k"
  let ?st1 = "fst (sqs_receiveMessages split_model ?h 0 wit_reached ''q'' 30 1 ''dlq'' 3 [])"
  let ?ml = "snd (sqs_receiveMessages split_model ?h 0 wit_reached ''q'' 30 1 ''dlq'' 3 [])"
  have fr: "fresh_handles ?h (messages wit_reached)"
    by (simp add: fresh_handles_def inj_def wit_reached_eq wit_msg_def default_message_def)
  have lim: "receive_limit 1 = 1" by (simp add: receive_limit_def to_size_t_def)
  have ml: "?ml = [hd ?ml]" "m_status (hd ?ml) = INVISIBLE"
    by (simp_all add: receive_list lim wit_reached_eq wit_msg_def default_message_def receivable_def sqs_take_def sqs_to_dlq_def Let_def)
  then have mem: "hd ?ml \<in> set ?ml" by (metis list.set_intros(1))
  have r: "sqs_receiveMessages split_model ?h 0 wit_reached ''q'' 30 1 ''dlq'' 3 [] = (?st1, ?ml)" by simp
  show ?thesis
    using r mem sqs_acknowledge [OF wit_reached_reachable fr r mem ml(2)] by blast
qed

text \<open>C32: the visibility timeout: a message that a receive takes and does not dead-letter is hidden, with the
  handle drawn for it and its attempt counted. It stays exactly so while only receives from the queue and runs of
  \<open>resetMessages\<close> and \<open>resetDelayedMessages\<close> for it follow, in any number and order, as long as no run of
  \<open>resetMessages\<close> reads a clock past its deadline when it comes to it. The next run of \<open>resetMessages\<close> makes it
  visible and takes its handle exactly when its clock has passed the deadline, and otherwise leaves it as it is. (The
  keys of the messages are distinct.)\<close>

theorem sqs_visibility_timeout:
  assumes wf: "wf_store (messages st)"
    and k: "(k, m) \<in> set (take (receive_limit maxR) (filter (receivable arn) (messages st)))"
    and nd: "\<not> sqs_to_dlq dlq n (m_retries m + 1)"
    and t: "\<forall>clock v. Reset clock v \<in> set vs \<longrightarrow> clock k \<le> now + seconds vis"
    and st2: "st2 = fst (visits split arn vs (fst (sqs_receiveMessages split h now st arn vis maxR dlq n [])))"
    and m': "m' = m\<lparr>m_retries := m_retries m + 1, m_reset := now + seconds vis, m_status := INVISIBLE, m_receiptHandle := h k\<rparr>"
  shows "map_of (messages st2) k = Some m' \<and>
    map_of (messages (fst (sqs_resetMessages clock st2 arn vis'))) k =
      Some (if now + seconds vis < clock k then m'\<lparr>m_status := INITIAL, m_receiptHandle := []\<rparr> else m')"
proof -
  let ?m = "sqs_take split (now + seconds vis) dlq n (h k) m"
  let ?st1 = "fst (sqs_receiveMessages split h now st arn vis maxR dlq n [])"
  have m: "?m = m'" using nd by (simp add: sqs_take_def Let_def m')
  have "(k, m') \<in> set (messages ?st1)"
    unfolding receive_messages m [symmetric] by (rule taken_entry [OF k])
  then have "(k, m') \<in> set (messages st2)"
    unfolding st2 using t by (intro visits_keep_hidden) (auto simp: m')
  then have look: "map_of (messages st2) k = Some m'"
    using visits_wf [OF receive_wf [OF wf]] unfolding st2 by (simp add: wf_in_map_of)
  have "m_queueArn m' = arn" "m_status m' = INVISIBLE" "m_reset m' = now + seconds vis"
    using taken_receivable [OF k] by (simp_all add: m')
  then show ?thesis
    using look by (auto simp: sqs_resetMessages_def with_messages_def store_simps)
qed

theorem sqs_visibility_timeout_witness:
  "map_of (messages (fst (sqs_resetMessages (\<lambda>_. seconds 31)
       (fst (visits split_model ''q'' [Reset (\<lambda>_. seconds 29) 0, Receive id (seconds 29) 30 5 ''dlq'' 3, Reset (\<lambda>_. seconds 30) 0]
         (fst (sqs_receiveMessages split_model id 0 wit_repo ''q'' 30 1 ''dlq'' 3 [])))) ''q'' 0))) ''a'' =
     Some (wit_msg ''a'' ''q''\<lparr>m_retries := 1, m_reset := seconds 30, m_status := INITIAL, m_receiptHandle := []\<rparr>)"
proof -
  have k: "(''a'', wit_msg ''a'' ''q'') \<in> set (take (receive_limit 1) (filter (receivable ''q'') (messages wit_repo)))"
    by (simp add: receive_limit_def to_size_t_def wit_repo_def receivable_def wit_msg_def default_message_def)
  have nd: "\<not> sqs_to_dlq ''dlq'' 3 (m_retries (wit_msg ''a'' ''q'') + 1)"
    by (simp add: wit_msg_def default_message_def sqs_to_dlq_def)
  have t: "\<forall>clock v. Reset clock v \<in> set [Reset (\<lambda>_. seconds 29) 0, Receive id (seconds 29) 30 5 ''dlq'' 3, Reset (\<lambda>_. seconds 30) 0]
      \<longrightarrow> clock ''a'' \<le> 0 + seconds 30"
    by (auto simp: seconds_def)
  show ?thesis
    using conjunct2 [OF sqs_visibility_timeout [OF wit_repo_ok(1) k nd t refl refl, where clock = "\<lambda>_. seconds 31" and vis' = 0]]
    by (simp add: wit_msg_def default_message_def seconds_def)
qed
text \<open>Redriving a dead-letter queue moves every one of its messages, with the attempts reset and
  visible, into the original queue and nowhere else: the dead-letter queue is empty afterwards, the
  original queue holds its own messages and the redriven ones, and every other queue is as before.\<close>

theorem sqs_redrive_moves_all:
  assumes ne: "q_arn oq \<noteq> q_arn dq" and na: "q_arn oq \<noteq> []" "q_arn dq \<noteq> []" "arn \<noteq> []"
    and r: "sqs_redriveMessages st oq dq = (st', moved)"
  shows "moved = sqs_countMessages st (q_arn dq) [] \<and>
    sqs_countMessages st' arn [] =
      (if arn = q_arn dq then 0
       else if arn = q_arn oq then sqs_countMessages st arn [] + moved
       else sqs_countMessages st arn []) \<and>
    (\<forall>k m. map_of (messages st) k = Some m \<and> m_queueArn m = q_arn dq \<longrightarrow>
       (\<exists>m'. map_of (messages st') k = Some m' \<and> m_queueArn m' = q_arn oq \<and> m_queueName m' = q_name oq \<and>
          m_retries m' = 0 \<and> m_status m' = INITIAL \<and> m_body m' = m_body m \<and> m_messageId m' = m_messageId m))"
proof -
  let ?P = "\<lambda>(_::string, m). m_queueArn m = q_arn dq"
  let ?f = "\<lambda>m. m\<lparr>m_retries := 0, m_queueArn := q_arn oq, m_queueName := q_name oq, m_status := INITIAL\<rparr>"
  have st': "messages st' = fst (rewrite_matching ?P ?f (messages st))" and moved: "moved = count_if ?P (messages st)"
    using r by (auto simp: sqs_redriveMessages_def with_messages_def)
  have "count_if (\<lambda>(_, m). m_queueArn m = arn) (messages st') =
      count_if (\<lambda>(k, m). (m_queueArn m = q_arn dq \<and> arn = q_arn oq) \<or> (m_queueArn m \<noteq> q_arn dq \<and> m_queueArn m = arn)) (messages st)"
    unfolding st' count_rewrite by (rule count_if_cong) auto
  also have "\<dots> = (if arn = q_arn dq then 0 else if arn = q_arn oq then count_if (\<lambda>(_, m). m_queueArn m = arn) (messages st) + moved
       else count_if (\<lambda>(_, m). m_queueArn m = arn) (messages st))"
  proof (cases "arn = q_arn oq")
    case True
    have "count_if (\<lambda>x. (\<lambda>(_, m). m_queueArn m = arn) x \<or> ?P x) (messages st) =
        count_if (\<lambda>(_, m). m_queueArn m = arn) (messages st) + count_if ?P (messages st)"
      by (rule count_if_disj) (use True ne in auto)
    moreover have "count_if (\<lambda>(k, m). (m_queueArn m = q_arn dq \<and> arn = q_arn oq) \<or> (m_queueArn m \<noteq> q_arn dq \<and> m_queueArn m = arn)) (messages st)
        = count_if (\<lambda>x. (\<lambda>(_, m). m_queueArn m = arn) x \<or> ?P x) (messages st)"
      by (rule count_if_cong) (use True in auto)
    ultimately show ?thesis using True ne by (simp add: moved)
  next
    case False
    show ?thesis
    proof (cases "arn = q_arn dq")
      case True
      then show ?thesis using ne by (auto simp: count_if_zero)
    next
      case nd: False
      show ?thesis using False nd by (auto intro: count_if_cong)
    qed
  qed
  finally have "sqs_countMessages st' arn [] = (if arn = q_arn dq then 0 else if arn = q_arn oq then sqs_countMessages st arn [] + moved
       else sqs_countMessages st arn [])"
    using na by (simp add: sqs_countMessages_def)
  moreover have "\<exists>m'. map_of (messages st') k = Some m' \<and> m_queueArn m' = q_arn oq \<and> m_queueName m' = q_name oq \<and>
          m_retries m' = 0 \<and> m_status m' = INITIAL \<and> m_body m' = m_body m \<and> m_messageId m' = m_messageId m"
    if "map_of (messages st) k = Some m" "m_queueArn m = q_arn dq" for k m
    using that by (simp add: st' store_simps)
  ultimately show ?thesis using na moved by (simp add: sqs_countMessages_def)
qed

definition wit_queue :: "string \<Rightarrow> sqs_queue" where
  "wit_queue arn = (default_queue 0)\<lparr>q_arn := arn, q_name := arn, q_region := ''eu''\<rparr>"

theorem sqs_redrive_moves_all_witness:
  "\<exists>st' moved. moved = sqs_countMessages wit_repo ''q'' [] \<and>
    sqs_countMessages st' ''p'' [] =
      (if ''p'' = ''q'' then 0
       else if ''p'' = ''p'' then sqs_countMessages wit_repo ''p'' [] + moved
       else sqs_countMessages wit_repo ''p'' [])"
proof -
  obtain st' moved where r: "sqs_redriveMessages wit_repo (wit_queue ''p'') (wit_queue ''q'') = (st', moved)"
    by (cases "sqs_redriveMessages wit_repo (wit_queue ''p'') (wit_queue ''q'')")
  show ?thesis
    using sqs_redrive_moves_all [OF _ _ _ _ r, of "''p''"] by (intro exI [of _ st'] exI [of _ moved]) (auto simp: wit_queue_def)
qed

text \<open>\<open>messageRetention\<close> does nothing for a queue with no expired delayed message, and otherwise
  never returns: it holds the message mutex and deletes the message through \<open>deleteMessage\<close>, which
  waits for the same mutex.\<close>

lemma sqs_retention_result:
  "sqs_messageRetention clock st arn retention =
     (if found (\<lambda>(k, m). m_queueArn m = arn \<and> m_status m = DELAYED \<and> m_reset m < clock k) (messages st)
      then Inl Deadlock else Inr (st, 0))"
proof -
  have "sqs_retention_loop clock arn ms st n =
     (if found (\<lambda>(k, m). m_queueArn m = arn \<and> m_status m = DELAYED \<and> m_reset m < clock k) ms
      then Inl Deadlock else Inr (st, n))" for ms n
  proof (induction ms)
    case Nil
    then show ?case by (simp add: found_iff)
  next
    case (Cons kv ms)
    obtain k m where kv: "kv = (k, m)" by (cases kv)
    show ?case
      using Cons by (simp add: kv found_iff sqs_deleteMessage_def sqs_deleteMessageByHandle_def scoped_lock_def)
  qed
  then show ?thesis by (simp add: sqs_messageRetention_def)
qed

text \<open>A receive hands out the messages it moves to the dead-letter queue without a receipt handle.
  Acknowledging one of them deletes, with it, every message of every queue that has no handle at
  the time: all those that were dead-lettered before, or that timed out and are visible again.\<close>

theorem sqs_dead_letter_ack_wipes:
  assumes "dlq \<noteq> []" "0 < n"
    and r: "sqs_receiveMessages split h now st arn vis maxR dlq n [] = (st1, ml)"
    and m: "m \<in> set ml" "n \<le> m_retries m"
  shows "m_queueArn m = dlq \<and> (\<exists>k. (k, m) \<in> set (messages st1)) \<and>
    sqs_deleteMessage False st1 m =
      Inr (st1\<lparr>messages := filter (\<lambda>(_, x). m_receiptHandle x \<noteq> []) (messages st1)\<rparr>,
           count_if (\<lambda>(_, x). m_receiptHandle x = []) (messages st1))"
proof -
  have ml: "m \<in> set (snd (sqs_receiveMessages split h now st arn vis maxR dlq n []))" using m(1) r by simp
  obtain k m0 where e: "(k, m0) \<in> set (take (receive_limit maxR) (filter (receivable arn) (messages st)))"
    "m = sqs_take split (now + seconds vis) dlq n (h k) m0"
    using received_entry [OF ml] by blast
  have "m_retries m0 + 1 \<ge> n" using m(2) e(2) by (simp add: sqs_take_simps)
  then have dl: "sqs_to_dlq dlq n (m_retries m0 + 1)" using assms(1,2) by (simp add: sqs_to_dlq_def)
  have f: "m_receiptHandle m = []" "m_queueArn m = dlq" using dl e(2) by (simp_all add: sqs_take_simps)
  have "(k, m) \<in> set (messages st1)"
    using taken_in_apply_first [OF e(1), of "\<lambda>(k, m). (k, sqs_take split (now + seconds vis) dlq n (h k) m)"] r e(2)
    by (auto simp: sqs_receive_spec Let_def)
  then show ?thesis
    using f by (auto simp: sqs_deleteMessage_def sqs_deleteMessageByHandle_def scoped_lock_def with_messages_def erase_if_def split_def)
qed

theorem sqs_dead_letter_ack_wipes_witness:
  "\<exists>st1 ml m. sqs_receiveMessages split_model id 0 wit_repo ''q'' 30 1 ''dlq'' 1 [] = (st1, ml) \<and> m \<in> set ml \<and>
     m_queueArn m = ''dlq'' \<and> sqs_deleteMessage False st1 m =
       Inr (st1\<lparr>messages := filter (\<lambda>(_, x). m_receiptHandle x \<noteq> []) (messages st1)\<rparr>,
           count_if (\<lambda>(_, x). m_receiptHandle x = []) (messages st1))"
proof -
  obtain st1 ml where r: "sqs_receiveMessages split_model id 0 wit_repo ''q'' 30 1 ''dlq'' 1 [] = (st1, ml)" by fastforce
  have "ml = snd (sqs_receiveMessages split_model id 0 wit_repo ''q'' 30 1 ''dlq'' 1 [])" by (simp add: r)
  then obtain m where "m \<in> set ml" "1 \<le> m_retries m"
    by (simp add: receive_list receive_limit_def to_size_t_def receivable_def wit_repo_def wit_msg_def
      default_message_def sqs_take_def sqs_to_dlq_def Let_def)
  with sqs_dead_letter_ack_wipes [OF _ _ r this] r show ?thesis by auto
qed

end
