(* ===== verification/SqsServiceSteps.thy ===== *)
theory SqsServiceSteps
  imports SqsMessages SqsProps
begin

text \<open>
  Every operation of the SQS service and of its maintenance tasks is a sequence of steps of the
  repository (\<open>sqs_step\<close>): the service is a machine of its own, \<open>svc_step\<close>, and all the states it
  reaches are states of the repository's machine, so the life-cycle invariant holds in them.
\<close>

subsection \<open>Service operations as sequences of repository steps\<close>

abbreviation steps :: "sqs_repo \<Rightarrow> sqs_repo \<Rightarrow> bool" where
  "steps \<equiv> sqs_step\<^sup>*\<^sup>*"

lemma bind_Inr: "bind r f = Inr y \<longleftrightarrow> (\<exists>x. r = Inr x \<and> f x = Inr y)"
  by (cases r) auto

lemma steps_life: "steps st st' \<Longrightarrow> life_inv st \<Longrightarrow> life_inv st'"
  by (induction rule: rtranclp_induct) (auto dest: sqs_step_life)

lemma steps_reachable: "steps st st' \<Longrightarrow> sqs_reachable st \<Longrightarrow> sqs_reachable st'"
  by (induction rule: rtranclp_induct) (auto intro: sqs_reachable.step)

lemma steps_then: "steps st st1 \<Longrightarrow> sqs_step st1 st2 \<Longrightarrow> steps st st2"
  by (rule rtranclp.rtrancl_into_rtrancl)

lemma steps_by_handle: "sqs_deleteMessageByHandle False st h = Inr (st', n) \<Longrightarrow> steps st st'"
  by (blast intro: sqs_step.delete_by_handle)

lemma change_queue_steps:
  assumes "sqs_step st (fst r)" shows "steps st (fst (change_queue clock r f))"
proof -
  have "fst (change_queue clock r f) = fst (sqs_updateQueue (clock 1) (fst r) (f (snd r)))"
    by (simp add: change_queue_def split: prod.splits)
  then show ?thesis using assms sqs_step.update_queue [of "fst r"] by (metis r_into_rtranclp steps_then)
qed

lemma get_queue_messages [simp]:
  "messages (fst (sqs_getQueueByArn now st arn)) = messages st"
  "messages (fst (sqs_getQueueByUrl now st region url)) = messages st"
  by (simp_all add: sqs_getQueueByArn_def sqs_getQueueByUrl_def with_queues_def)

lemma update_queue_messages [simp]: "messages (fst (sqs_updateQueue now st q)) = messages st"
  by (simp add: sqs_updateQueue_def Let_def split: option.splits prod.splits)

lemma invoke_one_steps: "sendLambdaInvocationRequest env lam st l m arn = Inr st' \<Longrightarrow> steps st st'"
  by (auto simp: sendLambdaInvocationRequest_def bind_Inr split: prod.splits if_splits intro: steps_by_handle)

lemma invoke_each_steps: "invoke_each env lam m arn ls st = Inr st' \<Longrightarrow> steps st st'"
  by (induction ls arbitrary: st) (auto simp: bind_Inr dest!: invoke_one_steps intro: rtranclp_trans)

text \<open>A message a lookup finds is stored under its object id, and the lookup changes nothing.\<close>

lemma fetch_message:
  assumes inv: "life_inv st" and f: "found (\<lambda>(_, m). P m) (messages st)"
  shows "\<exists>m. get_or d set_m_oid (\<lambda>(_, m). P m) (messages st) = (messages st, m) \<and> P m \<and>
    map_of (messages st) (m_oid m) = Some m"
proof -
  note wf = life_parts(2) [OF inv] and stp = life_parts(3) [OF inv]
  obtain k m where km: "find_if (\<lambda>(_, m). P m) (messages st) = Some (k, m)"
    using f by (auto simp: found_def split: option.splits)
  have mem: "(k, m) \<in> set (messages st)" "P m" using find_if_SomeD [OF km] by auto
  have "m_oid m = k" using stp mem(1) by (auto simp: all_stamped_def)
  moreover have "map_of (messages st) k = Some m" using mem(1) wf by (simp add: wf_in_map_of)
  ultimately show ?thesis using mem(2) by (auto simp: sqs_m.get_or_stamped [OF wf stp] km)
qed

lemma update_fetched:
  assumes "map_of (messages st) (m_oid m) = Some m"
    "m_oid m' = m_oid m" "m_receiptHandle m' = m_receiptHandle m" "m_status m' \<in> {m_status m, INITIAL}"
  shows "sqs_step st (fst (sqs_updateMessage now st m'))"
  using assms by (intro sqs_step.update_message [of st m' m]) simp_all

lemma change_message_steps:
  assumes inv: "life_inv st" and r: "change_message clock st mid f = Inr st'"
    and f: "\<And>m. m_oid (f m) = m_oid m \<and> m_receiptHandle (f m) = m_receiptHandle m \<and> m_status (f m) = m_status m"
  shows "steps st st'"
proof -
  have ex: "sqs_messageExistsByMessageId st mid" using r by (auto simp: change_message_def require_Inr)
  obtain m where m: "get_or (default_message (clock 0)) set_m_oid (\<lambda>(_, m). m_messageId m = mid) (messages st) = (messages st, m)"
    "map_of (messages st) (m_oid m) = Some m"
    using fetch_message [OF inv ex [unfolded sqs_messageExistsByMessageId_def]] by blast
  have "st' = fst (sqs_updateMessage (clock 1) st (f m))"
    using r by (simp add: change_message_def require_Inr sqs_getMessageByMessageId_def with_messages_def m split: prod.splits)
  then show ?thesis using update_fetched [OF m(2), of "f m"] f [of m] by auto
qed

lemma message_to_store_simps [simp]:
  "m_receiptHandle (message_to_store env clock ids queue d m) = mi_receiptHandle ids"
  "m_status (message_to_store env clock ids queue d m) = m_status m"
  "m_reset (message_to_store env clock ids queue d m) = m_reset m"
  by (simp_all add: message_to_store_def Let_def)

lemma message_before_update_status:
  "m_status (message_before_update env clock queue d) = (if qa_delaySeconds (q_attributes queue) > 0 then DELAYED else INITIAL)"
  by (simp add: message_before_update_def Let_def SendMessageRequest_toEntity_def default_message_def)

definition fresh_ids :: "message_ids \<Rightarrow> sqs_repo \<Rightarrow> bool" where
  "fresh_ids ids st \<longleftrightarrow> mi_oid ids \<notin> keys_of (messages st) \<and> mi_receiptHandle ids \<noteq> [] \<and>
     mi_receiptHandle ids \<notin> (\<lambda>(_, x). m_receiptHandle x) ` set (messages st)"

lemma send_steps:
  assumes r: "svc_sendMessage env clock lay ids lam st d = Inr (st', resp)" and fr: "fresh_ids ids st"
  shows "steps st st'"
proof -
  obtain st1 q where g: "sqs_getQueueByArn (clock 0) st (ConvertToArn (e_cfg env) (sr_region d) (sr_queueUrl d)) = (st1, q)"
    by fastforce
  obtain st2 x q' where u: "sqs_updateQueue (clock 5) st1 (queue_counts_message q) = (st2, x, q')"
    by (cases "sqs_updateQueue (clock 5) st1 (queue_counts_message q)") auto
  let ?m = "message_to_store env clock ids q' d (message_before_update env clock q d)"
  obtain st3 y m where c: "sqs_createMessage lay (mi_oid ids) st2 ?m = (st3, y, m)"
    by (cases "sqs_createMessage lay (mi_oid ids) st2 ?m") auto
  have l: "checkLambdaNotifications env lam st3 (q_arn q') m = Inr st'"
    using r by (auto simp: svc_sendMessage_def Let_def require_Inr bind_Inr g u c)
  have "messages st1 = messages st" using get_queue_messages(1) by (metis g fst_conv)
  then have ms: "messages st2 = messages st" using update_queue_messages by (metis u fst_conv)
  have s1: "sqs_step st st1" using sqs_step.queue_by_arn by (metis g fst_conv)
  have s2: "sqs_step st1 st2" using sqs_step.update_queue by (metis u fst_conv)
  have "sqs_step st2 (fst (sqs_createMessage lay (mi_oid ids) st2 ?m))"
    by (rule sqs_step.send) (use fr ms in \<open>auto simp: fresh_ids_def message_before_update_status\<close>)
  then have "sqs_step st2 st3" by (simp add: c)
  moreover have "steps st3 st'" using l invoke_each_steps unfolding checkLambdaNotifications_def by blast
  ultimately show ?thesis using s1 s2 by (meson converse_rtranclp_into_rtranclp)
qed

lemma delete_each_steps: "delete_each es st a b = Inr (st', a', b') \<Longrightarrow> steps st st'"
proof (induction es arbitrary: st a b)
  case Nil
  then show ?case by simp
next
  case (Cons e es)
  obtain i h where e: "e = (i, h)" by (cases e)
  from Cons.prems obtain st1 n c d where "sqs_deleteMessageByHandle False st h = Inr (st1, n)"
    and "delete_each es st1 c d = Inr (st', a', b')"
    by (auto simp: e bind_Inr split: if_splits)
  then show ?case using steps_by_handle Cons.IH by (meson rtranclp_trans)
qed

lemma set_visibility_steps:
  assumes inv: "life_inv st" and r: "svc_setMessageVisibilityTimeout clock st h v = Inr st'"
  shows "steps st st'"
proof -
  have ex: "sqs_messageExists st h" using r by (auto simp: svc_setMessageVisibilityTimeout_def require_Inr)
  obtain m where m: "get_or (default_message (clock 0)) set_m_oid (\<lambda>(_, m). m_receiptHandle m = h) (messages st) = (messages st, m)"
    "map_of (messages st) (m_oid m) = Some m"
    using fetch_message [OF inv ex [unfolded sqs_messageExists_def]] by blast
  have "sqs_step st st'"
    using r update_fetched [OF m(2)]
    by (auto simp: svc_setMessageVisibilityTimeout_def require_Inr sqs_getMessageByReceiptHandle_def
        with_messages_def m Let_def split_beta)
  then show ?thesis by blast
qed

lemma resend_steps:
  assumes inv: "life_inv st" and r: "svc_resendMessage env clock lam st arn mid = Inr st'"
  shows "steps st st'"
proof -
  have ex: "sqs_messageExistsByMessageId st mid" using r by (auto simp: svc_resendMessage_def require_Inr)
  obtain m where m: "get_or (default_message (clock 0)) set_m_oid (\<lambda>(_, m). m_messageId m = mid) (messages st) = (messages st, m)"
    "map_of (messages st) (m_oid m) = Some m"
    using fetch_message [OF inv ex [unfolded sqs_messageExistsByMessageId_def]] by blast
  obtain st2 q where g: "sqs_getQueueByArn (clock 1) st arn = (st2, q)" by fastforce
  have s2: "sqs_step st st2" and ms: "messages st2 = messages st"
    using sqs_step.queue_by_arn [of st "clock 1" arn] get_queue_messages(1) [of "clock 1" st arn] unfolding g by simp_all
  let ?m = "\<lambda>n. m\<lparr>m_status := INITIAL, m_retries := 0, m_reset := clock 2 + seconds n\<rparr>"
  let ?q = "q\<lparr>q_attributes := (q_attributes q)
    \<lparr>qa_approximateNumberOfMessagesNotVisible := qa_approximateNumberOfMessagesNotVisible (q_attributes q) - 1\<rparr>\<rparr>"
  obtain n where l0: "checkLambdaNotifications env lam
      (fst (sqs_updateQueue (clock 4) (fst (sqs_updateMessage (clock 3) st2 (?m n))) ?q)) arn
      (snd (snd (sqs_updateMessage (clock 3) st2 (?m n)))) = Inr st'"
    using r by (auto simp: svc_resendMessage_def require_Inr sqs_getMessageByMessageId_def with_messages_def m Let_def
        g [unfolded One_nat_def] bind_Inr split_beta split: option.splits)
  obtain st3 x y where u3: "sqs_updateMessage (clock 3) st2 (?m n) = (st3, x, y)"
    by (cases "sqs_updateMessage (clock 3) st2 (?m n)")
  obtain st4 z w where u4: "sqs_updateQueue (clock 4) st3 ?q = (st4, z, w)"
    by (cases "sqs_updateQueue (clock 4) st3 ?q")
  have l: "checkLambdaNotifications env lam st4 arn y = Inr st'" using l0 by (simp add: u3 u4)
  have "sqs_step st2 st3"
    using update_fetched [of st2 m "m\<lparr>m_status := INITIAL, m_retries := 0, m_reset := clock 2 + seconds n\<rparr>" "clock 3"] m(2) ms
    by (simp add: u3)
  moreover have "sqs_step st3 st4" using sqs_step.update_queue by (metis u4 fst_conv)
  moreover have "steps st4 st'" using l invoke_each_steps unfolding checkLambdaNotifications_def by blast
  ultimately show ?thesis using s2 by (meson converse_rtranclp_into_rtranclp)
qed

lemma purge_queue_steps:
  assumes "svc_purgeQueue env clock st region url = Inr (st', n)" shows "steps st st'"
proof -
  let ?arn = "ConvertToArn (e_cfg env) region url"
  obtain st1 d where p: "sqs_purgeQueue st ?arn = (st1, d)" by fastforce
  obtain st2 q where g: "sqs_getQueueByUrl (clock 0) st1 region url = (st2, q)" by fastforce
  obtain q' where "st' = fst (sqs_updateQueue (clock 1) st2 q')"
    using assms by (auto simp: svc_purgeQueue_def require_Inr Let_def p g split_beta)
  then have "sqs_step st2 st'" using sqs_step.update_queue by simp
  moreover have "sqs_step st1 st2" using sqs_step.queue_by_url by (metis g fst_conv)
  moreover have "sqs_step st st1" using sqs_step.purge by (metis p fst_conv)
  ultimately show ?thesis by (meson converse_rtranclp_into_rtranclp r_into_rtranclp)
qed

lemma purge_each_steps: "purge_each env clock qs st n = Inr (st', n') \<Longrightarrow> steps st st'"
proof (induction qs arbitrary: st n)
  case Nil
  then show ?case by simp
next
  case (Cons q qs)
  then obtain st1 d where "svc_purgeQueue env (clock (length qs)) st (q_region q) (q_url q) = Inr (st1, d)"
    "purge_each env clock qs st1 (n + d) = Inr (st', n')"
    by (auto simp: bind_Inr)
  then show ?case using purge_queue_steps Cons.IH by (meson rtranclp_trans)
qed

lemma redrive_each_steps:
  assumes "\<And>st q. sqs_step st (fst (drive st q))"
  shows "steps st (fst (redrive_each drive qs st n))"
proof (induction qs arbitrary: st n)
  case Nil
  then show ?case by simp
next
  case (Cons q qs)
  obtain st1 d where d: "drive st q = (st1, d)" by fastforce
  have "sqs_step st st1" using assms [of st q] by (simp add: d)
  then show ?case using Cons.IH [of st1 "n + d"] by (simp add: d converse_rtranclp_into_rtranclp)
qed

text \<open>Both redrives: fetch the queue, redrive or reset, adjust the counters.\<close>

lemma redrive_steps:
  assumes g: "sqs_getQueueByArn now st arn = (st1, queue)"
    and st2: "st2 = fst (if c then redrive_each (\<lambda>st q. drive st q) qs st1 0
                     else sqs_resetMessages tick st1 (q_arn queue) vis)"
    and a: "sqs_adjustMessageCounters st2 = Inr st'"
    and d: "\<And>st q. sqs_step st (fst (drive st q))"
  shows "steps st st'"
proof -
  have "sqs_step st st1" using sqs_step.queue_by_arn by (metis g fst_conv)
  moreover have "steps st1 st2"
    using redrive_each_steps [OF d] sqs_step.reset [of st1] by (auto simp: st2)
  moreover have "sqs_step st2 st'" by (rule sqs_step.adjust [OF a])
  ultimately show ?thesis by (meson converse_rtranclp_into_rtranclp steps_then)
qed

lemma redrive_messages_steps:
  assumes "svc_redriveMessages now tick st arn = Inr (st', n)" shows "steps st st'"
proof -
  obtain st1 q where g: "sqs_getQueueByArn now st arn = (st1, q)" by fastforce
  show ?thesis
    by (rule redrive_steps [OF g refl, where drive = "\<lambda>st mainQueue. sqs_redriveMessages st mainQueue q" and
          c = "sqs_isDlq st1 arn \<noteq> []" and qs = "sqs_isDlq st1 arn" and tick = tick
          and vis = "qa_visibilityTimeout (q_attributes q)"])
      (use assms in \<open>auto simp: svc_redriveMessages_def require_Inr Let_def g bind_Inr split_beta intro: sqs_step.redrive\<close>)
qed

lemma redrive_message_steps:
  assumes "svc_redriveMessage now tick st arn mid = Inr st'" shows "steps st st'"
proof -
  obtain st1 q where g: "sqs_getQueueByArn now st arn = (st1, q)" by fastforce
  show ?thesis
    by (rule redrive_steps [OF g refl, where drive = "\<lambda>st mainQueue. sqs_redriveMessage st mainQueue q mid" and
          c = "sqs_isDlq st1 arn \<noteq> []" and qs = "sqs_isDlq st1 arn" and tick = tick
          and vis = "qa_visibilityTimeout (q_attributes q)"])
      (use assms in \<open>auto simp: svc_redriveMessage_def require_Inr Let_def g bind_Inr split_beta intro: sqs_step.redrive_one\<close>)
qed

lemma set_attributes_steps:
  assumes "svc_setQueueAttributes env clock st region url attributes = Inr st'" shows "steps st st'"
proof -
  obtain st1 q where g: "sqs_getQueueByUrl (clock 0) st region url = (st1, q)" by fastforce
  obtain q' where "st' = fst (sqs_updateQueue (clock 1) st1 q')"
    using assms by (auto simp: svc_setQueueAttributes_def require_Inr Let_def g bind_Inr split_beta)
  then have "sqs_step st1 st'" using sqs_step.update_queue by simp
  moreover have "sqs_step st st1" using sqs_step.queue_by_url by (metis g fst_conv)
  ultimately show ?thesis by (meson converse_rtranclp_into_rtranclp r_into_rtranclp)
qed

lemma delete_queue_steps:
  assumes "svc_deleteQueue now st region url = Inr (st', u)" shows "steps st st'"
proof -
  obtain st1 n where d: "sqs_deleteMessages st url = (st1, n)" by fastforce
  have "sqs_step st st1" using sqs_step.delete_messages by (metis d fst_conv)
  moreover have "sqs_step st1 st'"
    using assms sqs_step.delete_queue [of st1] by (auto simp: svc_deleteQueue_def require_Inr Let_def d split_beta)
  ultimately show ?thesis by (meson converse_rtranclp_into_rtranclp r_into_rtranclp)
qed

lemma create_queue_steps:
  assumes r: "svc_createQueue env clock lay uuid st region user name attributes tags = Inr (st', resp)"
    and fr: "uuid \<notin> keys_of (queues st)" "\<not> sqs_queueExists st region name"
  shows "steps st st'"
proof (cases "sqs_queueArnExists st (CreateArn ''sqs'' region (cfg_account_id (e_cfg env)) name)")
  case True
  then show ?thesis
    using r sqs_step.queue_by_arn [of st "clock 0"] by (auto simp: svc_createQueue_def Let_def split_beta)
next
  case False
  then obtain q where q: "CreateQueueRequest_toEntity (e_cfg env) (clock 0) region user name attributes tags = Inr q"
    and st': "st' = fst (sqs_createQueue lay uuid st q)"
    using r by (auto simp: svc_createQueue_def Let_def bind_Inr split_beta)
  have "q_region q = region" "q_name q = name" using q by (auto simp: CreateQueueRequest_toEntity_def Let_def bind_Inr)
  then show ?thesis using sqs_step.create_queue [of uuid st q lay] fr st' by auto
qed

lemma reset_queue_steps:
  assumes "reset_queue now tick st queue = Inr st'" shows "steps st st'"
proof (cases "sqs_countMessages st (q_arn queue) [] > 0")
  case False
  then show ?thesis using assms by (simp add: reset_queue_def)
next
  case True
  then obtain st1 q1 where r: "retention_step (tick 0) st queue = Inr (st1, q1)"
    and st': "st' = fst (sqs_updateQueue now (fst (delay_step (tick 2) (fst (visibility_step (tick 1) st1 q1)) (snd (visibility_step (tick 1) st1 q1))))
      (snd (delay_step (tick 2) (fst (visibility_step (tick 1) st1 q1)) (snd (visibility_step (tick 1) st1 q1)))))"
    using assms by (auto simp: reset_queue_def bind_Inr Let_def split_beta)
  have "steps st st1"
    using r by (auto simp: retention_step_def Let_def bind_Inr split: if_splits intro: sqs_step.retention)
  moreover have v: "steps st (fst (visibility_step t st q))" for t st q
    using sqs_step.reset [of st t] by (auto simp: visibility_step_def Let_def split_beta)
  moreover have d: "steps st (fst (delay_step t st q))" for t st q
    using sqs_step.undelay [of st t] by (auto simp: delay_step_def Let_def split_beta)
  ultimately show ?thesis unfolding st' using sqs_step.update_queue by (meson rtranclp_trans steps_then)
qed

lemma reset_queues_steps: "reset_queues now tick qs st = Inr st' \<Longrightarrow> steps st st'"
proof (induction qs arbitrary: st)
  case Nil
  then show ?case by simp
next
  case (Cons q qs)
  then obtain st1 where "reset_queue (now (length qs)) (tick (length qs)) st q = Inr st1" "reset_queues now tick qs st1 = Inr st'"
    by (auto simp: bind_Inr)
  then show ?case using reset_queue_steps Cons.IH by (meson rtranclp_trans)
qed

subsection \<open>The service as a state machine\<close>

text \<open>
  Object ids, message ids and receipt handles are random, so fresh. A new queue has a free region
  and name. A round of receiving is a step of its own, as others may act between two rounds of a
  long poll; a batch of messages is sent by one step for each.
\<close>

inductive svc_step :: "sqs_env \<Rightarrow> lambda_repo \<Rightarrow> sqs_repo \<Rightarrow> sqs_repo \<Rightarrow> bool" for env lam where
  create_queue: "svc_createQueue env clock lay uuid st region user name attributes tags = Inr (st', cr)
    \<Longrightarrow> uuid \<notin> keys_of (queues st) \<Longrightarrow> \<not> sqs_queueExists st region name \<Longrightarrow> svc_step env lam st st'"
| purge: "svc_purgeQueue env clock st region url = Inr (st', n) \<Longrightarrow> svc_step env lam st st'"
| purge_all: "svc_purgeAllQueues env clocks st = Inr (st', n) \<Longrightarrow> svc_step env lam st st'"
| redrive: "svc_redriveMessages now tick st arn = Inr (st', n) \<Longrightarrow> svc_step env lam st st'"
| redrive_one: "svc_redriveMessage now tick st arn mid = Inr st' \<Longrightarrow> svc_step env lam st st'"
| set_attributes: "svc_setQueueAttributes env clock st region url attributes = Inr st' \<Longrightarrow> svc_step env lam st st'"
| tag: "svc_tagQueue clock st region url tags = Inr st' \<Longrightarrow> svc_step env lam st st'"
| untag: "svc_untagQueue clock st region url names = Inr st' \<Longrightarrow> svc_step env lam st st'"
| add_default: "svc_addDefaultMessageAttribute clock st arn name attribute = Inr (st', as) \<Longrightarrow> svc_step env lam st st'"
| update_default: "svc_updateDefaultMessageAttribute clock st arn name val ty = Inr (st', as) \<Longrightarrow> svc_step env lam st st'"
| delete_default: "svc_deleteDefaultMessageAttribute clock st arn name = Inr (st', as) \<Longrightarrow> svc_step env lam st st'"
| set_dlq: "svc_updateDql clock st arn target retries = Inr st' \<Longrightarrow> svc_step env lam st st'"
| update_queue: "svc_updateQueue clock st region arn delay vis ret dlq retries owner = Inr st' \<Longrightarrow> svc_step env lam st st'"
| delete_queue: "svc_deleteQueue now st region url = Inr (st', url') \<Longrightarrow> svc_step env lam st st'"
| get_url: "svc_getQueueUrl env now st region name = Inr (st', url) \<Longrightarrow> svc_step env lam st st'"
| get_count: "svc_getMessageCount now st arn = Inr (st', arn', n) \<Longrightarrow> svc_step env lam st st'"
| attribute_counters: "svc_listQueueAttributeCounters now st arn pageSize pageIndex = Inr (st', n, page) \<Longrightarrow> svc_step env lam st st'"
| reload: "svc_reloadAllCounters st = Inr st' \<Longrightarrow> svc_step env lam st st'"
| send: "svc_sendMessage env clock lay ids lam st d = Inr (st', resp) \<Longrightarrow> fresh_ids ids st \<Longrightarrow> svc_step env lam st st'"
| receive_round: "receive_round env handles clock queue maxMessages i st = (st', ml) \<Longrightarrow> fresh_handles (handles i) (messages st)
    \<Longrightarrow> svc_step env lam st st'"
| receive_short: "svc_receiveMessages env handles now clock world st region url maxMessages 0 = Some (Inr (st', dtos))
    \<Longrightarrow> fresh_handles (handles 0) (messages st) \<Longrightarrow> svc_step env lam st st'"
| set_visibility: "svc_setMessageVisibilityTimeout clock st handle v = Inr st' \<Longrightarrow> svc_step env lam st st'"
| update_message: "svc_updateMessage clock st mid das = Inr st' \<Longrightarrow> svc_step env lam st st'"
| add_attribute: "svc_addMessageAttribute clock st mid name val ty = Inr st' \<Longrightarrow> svc_step env lam st st'"
| delete_attribute: "svc_deleteMessageAttribute clock st mid name = Inr st' \<Longrightarrow> svc_step env lam st st'"
| resend: "svc_resendMessage env clock lam st arn mid = Inr st' \<Longrightarrow> svc_step env lam st st'"
| delete: "svc_deleteMessage st handle = Inr st' \<Longrightarrow> svc_step env lam st st'"
| delete_batch: "svc_deleteMessageBatch st entries = Inr (st', good, bad) \<Longrightarrow> svc_step env lam st st'"
| reset_task: "srv_ResetMessages nows ticks st = Inr st' \<Longrightarrow> svc_step env lam st st'"
| url_task: "svc_step env lam st (srv_SetUrl env nows st)"
| counter_task: "srv_AdjustCounter st = Inr st' \<Longrightarrow> svc_step env lam st st'"

inductive svc_reachable :: "sqs_env \<Rightarrow> lambda_repo \<Rightarrow> sqs_repo \<Rightarrow> bool" for env lam where
  start: "svc_reachable env lam sqs_init"
| step: "svc_reachable env lam st \<Longrightarrow> svc_step env lam st st' \<Longrightarrow> svc_reachable env lam st'"

lemma change_by_arn_steps: "steps st (fst (change_queue clock (sqs_getQueueByArn now st arn) f))"
  by (rule change_queue_steps) (rule sqs_step.queue_by_arn)

lemma change_by_url_steps: "steps st (fst (change_queue clock (sqs_getQueueByUrl now st region url) f))"
  by (rule change_queue_steps) (rule sqs_step.queue_by_url)

lemma receive_round_step:
  assumes "receive_round env handles clock queue maxMessages i st = (st', ml)" "fresh_handles (handles i) (messages st)"
  shows "sqs_step st st'"
proof -
  obtain dlq n where d: "redrive_arguments queue = (dlq, n)" by fastforce
  show ?thesis using assms(1) sqs_step.receive [OF assms(2)] unfolding receive_round_def by (metis d fst_conv case_prod_conv)
qed

lemma receive_short_steps:
  assumes r: "svc_receiveMessages env handles now clock world st region url maxMessages 0 = Some (Inr (st', dtos))"
    and fr: "fresh_handles (handles 0) (messages st)"
  shows "steps st st'"
proof -
  obtain st1 q where g: "sqs_getQueueByArn now st (ConvertToArn (e_cfg env) region url) = (st1, q)" by fastforce
  obtain st2 ml where rr: "receive_round env handles clock q maxMessages 0 st1 = (st2, ml)" by fastforce
  have "st2 = st'" using r by (simp add: svc_receiveMessages_def Let_def g rr split: if_splits)
  moreover have "sqs_step st st1" using sqs_step.queue_by_arn by (metis g fst_conv)
  moreover have "messages st1 = messages st" using get_queue_messages(1) by (metis g fst_conv)
  then have "sqs_step st1 st2" using receive_round_step [OF rr] fr by simp
  ultimately show ?thesis by (meson converse_rtranclp_into_rtranclp r_into_rtranclp)
qed

lemma set_url_steps: "steps st (srv_SetUrl env now st)"
proof -
  have each: "steps st (foldl (\<lambda>st x. fst (sqs_updateQueue (f x) st (g x))) st xs)" for f g and xs :: "(nat \<times> sqs_queue) list"
  proof (induction xs arbitrary: st)
    case Nil
    then show ?case by simp
  next
    case (Cons x xs)
    have "sqs_step st (fst (sqs_updateQueue (f x) st (g x)))" by (rule sqs_step.update_queue)
    then show ?case using Cons.IH by (simp add: converse_rtranclp_into_rtranclp)
  qed
  show ?thesis unfolding srv_SetUrl_def case_prod_unfold by (rule each)
qed

lemmas svc_change_defs = svc_tagQueue_def svc_untagQueue_def svc_addDefaultMessageAttribute_def
  svc_updateDefaultMessageAttribute_def svc_deleteDefaultMessageAttribute_def svc_updateDql_def svc_updateQueue_def

lemma svc_step_steps: "svc_step env lam st st' \<Longrightarrow> life_inv st \<Longrightarrow> steps st st'"
proof (induction rule: svc_step.induct)
  case create_queue then show ?case by (simp add: create_queue_steps)
next
  case purge then show ?case by (simp add: purge_queue_steps)
next
  case purge_all then show ?case by (auto simp: svc_purgeAllQueues_def intro: purge_each_steps)
next
  case redrive then show ?case by (simp add: redrive_messages_steps)
next
  case redrive_one then show ?case by (simp add: redrive_message_steps)
next
  case set_attributes then show ?case by (simp add: set_attributes_steps)
next
  case tag then show ?case
    by (auto simp: svc_change_defs require_Inr intro: change_by_url_steps)
next
  case untag then show ?case
    by (auto simp: svc_change_defs require_Inr split: if_splits intro: change_by_url_steps)
next
  case add_default then show ?case
    by (auto simp: svc_change_defs require_Inr attribute_counters_def Let_def intro: change_by_arn_steps)
next
  case update_default then show ?case
    by (auto simp: svc_change_defs require_Inr attribute_counters_def intro: change_by_arn_steps)
next
  case delete_default then show ?case
    by (auto simp: svc_change_defs require_Inr attribute_counters_def intro: change_by_arn_steps)
next
  case set_dlq then show ?case
    by (auto simp: svc_change_defs require_Inr split: if_splits intro: change_by_arn_steps)
next
  case update_queue then show ?case
    by (auto simp: svc_change_defs require_Inr intro: change_by_arn_steps)
next
  case delete_queue then show ?case by (simp add: delete_queue_steps)
next
  case (get_url now st region name st' url)
  then show ?case using sqs_step.queue_by_url [of st now] by (auto simp: svc_getQueueUrl_def Let_def require_Inr split_beta)
next
  case (get_count now st arn st' arn' n)
  then show ?case using sqs_step.queue_by_arn [of st now] by (auto simp: svc_getMessageCount_def require_Inr split_beta)
next
  case (attribute_counters now st arn pageSize pageIndex st' n page)
  then show ?case using sqs_step.queue_by_arn [of st now]
    by (auto simp: svc_listQueueAttributeCounters_def Let_def require_Inr bind_Inr split_beta)
next
  case reload then show ?case by (auto simp: svc_reloadAllCounters_def intro: sqs_step.adjust)
next
  case send then show ?case by (simp add: send_steps)
next
  case receive_round then show ?case using receive_round_step by blast
next
  case receive_short then show ?case by (simp add: receive_short_steps)
next
  case set_visibility then show ?case by (simp add: set_visibility_steps)
next
  case update_message then show ?case by (auto simp: svc_updateMessage_def intro: change_message_steps)
next
  case add_attribute then show ?case by (auto simp: svc_addMessageAttribute_def intro: change_message_steps)
next
  case delete_attribute then show ?case by (auto simp: svc_deleteMessageAttribute_def intro: change_message_steps)
next
  case resend then show ?case by (simp add: resend_steps)
next
  case delete then show ?case by (auto simp: svc_deleteMessage_def bind_Inr intro: steps_by_handle)
next
  case delete_batch then show ?case by (auto simp: svc_deleteMessageBatch_def intro: delete_each_steps)
next
  case reset_task then show ?case by (simp add: srv_ResetMessages_def reset_queues_steps)
next
  case url_task show ?case by (rule set_url_steps)
next
  case counter_task then show ?case by (auto simp: srv_AdjustCounter_def intro: sqs_step.adjust)
qed

lemma svc_reachable_sqs: "svc_reachable env lam st \<Longrightarrow> sqs_reachable st"
proof (induction rule: svc_reachable.induct)
  case start
  show ?case by (rule sqs_reachable.start)
next
  case (step st st')
  then show ?case using svc_step_steps sqs_reachable_life steps_reachable by blast
qed

end
