(* ===== verification/SqsServiceProps.thy ===== *)
theory SqsServiceProps
  imports SqsServiceSteps
begin

text \<open>
  What the operations of the SQS service do: the invariant of the states it reaches, sending a
  message and its delivery to Lambda functions, the visibility timeout, the end of a long poll, the
  digest of the message attributes; and where the service departs from what it is for: the messages
  of a deleted queue, a queue created in another region, delayed messages under the maintenance
  task, the last page of the attribute counters.
\<close>

subsection \<open>A service state for the witnesses\<close>

definition wit_env :: sqs_env where
  "wit_env =
     \<lparr>e_cfg = \<lparr>cfg_region = ''eu'', cfg_http_port = ''80'', cfg_hostname = ''h'', cfg_account_id = ''000000000000''\<rparr>,
      e_split = split_model, e_md5 = id, e_md5_body = id, e_decode = id, e_magic = (\<lambda>_. ''text/plain''),
      e_redrive_json = (\<lambda>_ p. Inr p), e_lambda_module = True, e_invoke = (\<lambda>f _ _. if f = ''ok'' then (200, ''done'') else (500, []))\<rparr>"

definition wit_lam :: lambda_repo where
  "wit_lam = \<lparr>lambdas = [], lambdaResults = []\<rparr>"

definition wit_arn :: string where
  "wit_arn = CreateArn ''sqs'' ''eu'' ''000000000000'' ''q''"

definition wit_svc_queue :: sqs_queue where
  "wit_svc_queue = (default_queue 0)\<lparr>q_oid := ''k'', q_arn := wit_arn, q_name := ''q'', q_region := ''eu'', q_url := ''http://h/q''\<rparr>"

definition wit_svc_message :: sqs_message where
  "wit_svc_message = (default_message 0)\<lparr>m_oid := ''a'', m_queueArn := wit_arn, m_messageId := ''id'', m_receiptHandle := ''r''\<rparr>"

definition wit_svc :: sqs_repo where
  "wit_svc = \<lparr>queues = [(''k'', wit_svc_queue)], messages = [(''a'', wit_svc_message)]\<rparr>"

lemma wit_svc_life: "life_inv wit_svc"
  by (simp add: life_inv_def sqs_inv_def wit_svc_def wit_svc_message_def all_stamped_def handles_ok_def names_unique_def
      default_message_def)

lemma wit_svc_fields [simp]:
  "q_arn wit_svc_queue = wit_arn" "q_url wit_svc_queue = ''http://h/q''" "q_region wit_svc_queue = ''eu''"
  "q_name wit_svc_queue = ''q''" "m_queueArn wit_svc_message = wit_arn" "m_receiptHandle wit_svc_message = ''r''"
  "m_status wit_svc_message = INITIAL" "q_attributes wit_svc_queue = default_queue_attribute"
  by (simp_all add: wit_svc_queue_def wit_svc_message_def default_queue_def default_message_def)

lemma wit_svc_stores [simp]: "queues wit_svc = [(''k'', wit_svc_queue)]" "messages wit_svc = [(''a'', wit_svc_message)]"
  by (simp_all add: wit_svc_def)

subsection \<open>Reachable states\<close>

text \<open>C4: every state the SQS service and its maintenance tasks reach is a state the repository's own
  machine reaches, so the life-cycle invariant holds in it: object ids identify messages, an
  invisible message has a receipt handle, no two messages share one, and no two queues of a region
  share a name. (Creating a queue is a step when its region and name are free.)\<close>

theorem svc_reachable_invariant:
  assumes "svc_reachable env lam st"
  shows "sqs_reachable st \<and> life_inv st"
  using svc_reachable_sqs [OF assms] sqs_reachable_life by blast

lemma wit_created:
  "svc_createQueue wit_env (\<lambda>_. 0) [] ''k'' sqs_init ''eu'' ''me'' ''q'' [] [] =
     Inr (\<lparr>queues = [(''k'', (default_queue 0)\<lparr>q_oid := ''k'', q_region := ''eu'', q_name := ''q'', q_owner := ''me'',
        q_arn := wit_arn, q_url := ''http://sqs.eu.h:80/000000000000/q''\<rparr>)], messages = []\<rparr>,
        \<lparr>cq_region = ''eu'', cq_owner = ''me'', cq_queueName = ''q'', cq_queueArn = wit_arn,
         cq_queueUrl = ''http://sqs.eu.h:80/000000000000/q''\<rparr>)"
  by (simp add: svc_createQueue_def Let_def wit_env_def sqs_queueArnExists_def sqs_init_def found_iff
      CreateQueueRequest_toEntity_def sqs_createQueue_def CreateQueueResponse_toDto_def hmap_insert_def wit_arn_def
      CreateSQSQueueUrl_def default_queue_def)

theorem svc_reachable_invariant_witness:
  "\<exists>st. length (queues st) = 1 \<and> sqs_reachable st \<and> life_inv st"
proof -
  have "svc_step wit_env wit_lam sqs_init (\<lparr>queues = [(''k'', (default_queue 0)\<lparr>q_oid := ''k'', q_region := ''eu'', q_name := ''q'', q_owner := ''me'',
        q_arn := wit_arn, q_url := ''http://sqs.eu.h:80/000000000000/q''\<rparr>)], messages = []\<rparr>)"
    by (rule svc_step.create_queue [OF wit_created]) (simp_all add: sqs_init_def sqs_queueExists_def found_iff)
  from svc_reachable_invariant [OF svc_reachable.step [OF svc_reachable.start this]] show ?thesis
    by (intro exI conjI) auto
qed

subsection \<open>Sending\<close>

lemma updateQueue_stored:
  assumes inv: "wf_store (queues st)" "names_unique (queues st)" and q: "map_of (queues st) k = Some q"
    and same: "q_region q' = q_region q" "q_name q' = q_name q"
  shows "sqs_updateQueue now st q' = (st\<lparr>queues := assign k (q'\<lparr>q_modified := now\<rparr>) (queues st)\<rparr>, q'\<lparr>q_modified := now\<rparr>, q'\<lparr>q_modified := now\<rparr>)"
proof -
  have mem: "(k, q) \<in> set (queues st)" using q by (rule map_of_SomeD)
  then have "sqs_queueExists st (q_region q') (q_name q')"
    unfolding sqs_queueExists_def found_iff using same by force
  from sqs_updateQueue_found [OF this inv(1), of now] obtain k' old where
    o: "map_of (queues st) k' = Some old" "q_region old = q_region q'" "q_name old = q_name q'" and
    u: "sqs_updateQueue now st q' = (st\<lparr>queues := assign k' (q'\<lparr>q_modified := now\<rparr>) (queues st)\<rparr>, q'\<lparr>q_modified := now\<rparr>, q'\<lparr>q_modified := now\<rparr>)"
    by blast
  have "k' = k" using names_uniqueD [OF inv(2) map_of_SomeD [OF o(1)] mem] o(2,3) same by simp
  then show ?thesis using u by simp
qed

lemma getQueueByArn_found:
  assumes "find_if (\<lambda>(_, q). q_arn q = arn) (queues st) = Some (k, q)"
  shows "sqs_getQueueByArn now st arn = (st\<lparr>queues := assign k (q\<lparr>q_oid := k\<rparr>) (queues st)\<rparr>, q\<lparr>q_oid := k\<rparr>)"
  using assms by (simp add: sqs_getQueueByArn_def get_or_def stamp_found_def with_queues_def set_q_oid_def)

lemma queue_counts_fields [simp]:
  "q_region (queue_counts_message q) = q_region q" "q_name (queue_counts_message q) = q_name q"
  "q_arn (queue_counts_message q) = q_arn q" "q_oid (queue_counts_message q) = q_oid q"
  by (simp_all add: queue_counts_message_def Let_def)

lemma exists_of_find: "find_if (\<lambda>(_, q). q_arn q = arn) (queues st) = Some (k, q) \<Longrightarrow> sqs_queueArnExists st arn"
  by (simp add: sqs_queueArnExists_def found_def)

text \<open>The state and the message after the repository calls of a send, before any delivery.\<close>

lemma send_stored:
  fixes clock :: "nat \<Rightarrow> time_point" and ids :: message_ids and lay :: layout
  assumes inv: "life_inv st"
    and q: "find_if (\<lambda>(_, q). q_arn q = ConvertToArn (e_cfg env) (sr_region d) (sr_queueUrl d)) (queues st) = Some (k, q)"
  defines "stamped \<equiv> q\<lparr>q_oid := k\<rparr>"
  defines "counted \<equiv> queue_counts_message stamped\<lparr>q_modified := clock 5\<rparr>"
  defines "m \<equiv> (message_to_store env clock ids counted d (message_before_update env clock stamped d))\<lparr>m_oid := mi_oid ids\<rparr>"
  defines "st3 \<equiv> st\<lparr>queues := assign k counted (assign k stamped (queues st)), messages := hmap_insert lay (mi_oid ids) m (messages st)\<rparr>"
  shows "svc_sendMessage env clock lay ids lam st d =
    bind (checkLambdaNotifications env lam st3 (q_arn q) m) (\<lambda>st4. Inr (st4, SendMessageResponse_toDto env m))"
proof -
  let ?st1 = "st\<lparr>queues := assign k stamped (queues st)\<rparr>"
  have old: "map_of (queues st) k = Some q" "(k, q) \<in> set (queues st)"
    using find_if_SomeD [OF q] life_parts(1) [OF inv] by (simp_all add: wf_in_map_of)
  have un: "names_unique (assign k stamped (queues st))"
    by (rule names_unique_assign [OF life_parts(5) [OF inv] old(2)]) (simp_all add: stamped_def)
  have u: "sqs_updateQueue (clock 5) ?st1 (queue_counts_message stamped) =
      (?st1\<lparr>queues := assign k counted (queues ?st1)\<rparr>, counted, counted)"
    unfolding counted_def
    by (rule updateQueue_stored [of _ _ stamped]) (use un old life_parts(1) [OF inv] in \<open>auto simp: store_simps\<close>)
  show ?thesis
    using u by (simp add: svc_sendMessage_def Let_def exists_of_find [OF q] getQueueByArn_found [OF q]
        stamped_def [symmetric] sqs_createMessage_def m_def st3_def) (simp add: counted_def stamped_def)
qed

lemma stored_message:
  fixes env :: sqs_env and clock :: "nat \<Rightarrow> time_point" and ids :: message_ids and d :: send_request and q' q :: sqs_queue
  defines "m \<equiv> (message_to_store env clock ids q' d (message_before_update env clock q d))\<lparr>m_oid := mi_oid ids\<rparr>"
  shows "m_oid m = mi_oid ids" "m_queueArn m = q_arn q'" "m_queueName m = q_name q'"
    "m_body m = sr_body d" "m_messageId m = mi_messageId ids" "m_receiptHandle m = mi_receiptHandle ids"
    "m_messageAttributes m = toEntityMap (sr_messageAttributes d)" "m_retries m = 0"
    "m_size m = int (length (sr_body d))"
    "m_status m = (if qa_delaySeconds (q_attributes q) > 0 then DELAYED else INITIAL)"
    "m_reset m = clock 4 + seconds (if qa_delaySeconds (q_attributes q) > 0 then qa_delaySeconds (q_attributes q)
      else qa_visibilityTimeout (q_attributes q))"
  by (simp_all add: m_def message_to_store_def message_before_update_def Let_def SendMessageRequest_toEntity_def default_message_def)

text \<open>C5: in a state that satisfies the life-cycle invariant \<open>life_inv\<close> of C4, a message sent to a queue that exists
  under the ARN of the request's URL, and that no function listens to, is stored once, under the new object id, with
  the body, the message id and the handle of the request. Its attributes are those of the request as the mapper
  renders them, each with its string value, its list of strings and its type, but without its binary values; the
  default message attributes of the queue, added before, are lost. Whether and how long it is delayed is decided by
  the queue alone, whatever delay the request asks for. The queue counts it as available also when it is delayed, and
  the other queues and messages are as before.\<close>

theorem svc_send_stores:
  assumes "life_inv st"
    and "find_if (\<lambda>(_, q). q_arn q = ConvertToArn (e_cfg env) (sr_region d) (sr_queueUrl d)) (queues st) = Some (k, q)"
    and "lam_listLambdasWithEventSource lam (q_arn q) = []"
  shows "\<exists>st' resp m q'. svc_sendMessage env clock lay ids lam st d = Inr (st', resp) \<and>
    map_of (messages st') = (map_of (messages st))(mi_oid ids \<mapsto> m) \<and>
    m_queueArn m = q_arn q \<and> m_body m = sr_body d \<and> m_messageId m = mi_messageId ids \<and>
    m_receiptHandle m = mi_receiptHandle ids \<and> m_messageAttributes m = toEntityMap (sr_messageAttributes d) \<and>
    m_status m = (if qa_delaySeconds (q_attributes q) > 0 then DELAYED else INITIAL) \<and>
    m_reset m = clock 4 + seconds (if qa_delaySeconds (q_attributes q) > 0 then qa_delaySeconds (q_attributes q)
      else qa_visibilityTimeout (q_attributes q)) \<and>
    map_of (queues st') = (map_of (queues st))(k \<mapsto> q') \<and>
    qa_approximateNumberOfMessages (q_attributes q') = qa_approximateNumberOfMessages (q_attributes q) + 1 \<and>
    qa_approximateNumberOfMessagesDelayed (q_attributes q') =
      qa_approximateNumberOfMessagesDelayed (q_attributes q) + (if qa_delaySeconds (q_attributes q) > 0 then 1 else 0)"
proof -
  let ?q = "q\<lparr>q_oid := k\<rparr>" let ?q' = "queue_counts_message ?q\<lparr>q_modified := clock 5\<rparr>"
  let ?m = "(message_to_store env clock ids ?q' d (message_before_update env clock ?q d))\<lparr>m_oid := mi_oid ids\<rparr>"
  have k: "map_of (queues st) k = Some q"
    using find_if_SomeD [OF assms(2)] life_parts(1) [OF assms(1)] by (simp add: wf_in_map_of)
  have s: "svc_sendMessage env clock lay ids lam st d =
    Inr (st\<lparr>queues := assign k ?q' (assign k ?q (queues st)), messages := hmap_insert lay (mi_oid ids) ?m (messages st)\<rparr>,
      SendMessageResponse_toDto env ?m)"
    by (simp add: send_stored [OF assms(1,2)] checkLambdaNotifications_def assms(3))
  have qs: "map_of (assign k ?q' (assign k ?q (queues st))) = (map_of (queues st))(k \<mapsto> ?q')"
    using k by (auto simp: store_simps fun_eq_iff)
  have ms: "map_of (hmap_insert lay (mi_oid ids) ?m (messages st)) = (map_of (messages st))(mi_oid ids \<mapsto> ?m)"
    by (rule map_of_hmap_insert [OF life_parts(2) [OF assms(1)]])
  have "qa_approximateNumberOfMessages (q_attributes ?q') = qa_approximateNumberOfMessages (q_attributes q) + 1"
    "qa_approximateNumberOfMessagesDelayed (q_attributes ?q') =
      qa_approximateNumberOfMessagesDelayed (q_attributes q) + (if qa_delaySeconds (q_attributes q) > 0 then 1 else 0)"
    by (simp_all add: queue_counts_message_def Let_def)
  then show ?thesis
    by (intro exI [of _ "st\<lparr>queues := assign k ?q' (assign k ?q (queues st)), messages := hmap_insert lay (mi_oid ids) ?m (messages st)\<rparr>"]
        exI [of _ "SendMessageResponse_toDto env ?m"] exI [of _ ?m] exI [of _ ?q'])
      (simp add: s ms qs stored_message)
qed

lemma wit_convert: "ConvertToArn (e_cfg wit_env) ''eu'' ''http://h/q'' = wit_arn"
  by (simp add: ConvertToArn_def IsUrl_def wit_env_def wit_arn_def after_last_def list_all_def line_terminator_def byte_def)

definition wit_request :: send_request where
  "wit_request = entry_request ''eu'' ''http://h/q'' \<lparr>be_id = ''1'', be_body = ''hi'', be_attributes = [], be_messageAttributes = []\<rparr>"

theorem svc_send_stores_witness:
  "\<exists>st' resp m. svc_sendMessage wit_env (\<lambda>_. 0) [] \<lparr>mi_messageId = ''i'', mi_receiptHandle = ''h'', mi_oid = ''b''\<rparr> wit_lam wit_svc wit_request
     = Inr (st', resp) \<and> map_of (messages st') ''b'' = Some m \<and> m_body m = ''hi'' \<and> m_status m = INITIAL"
proof -
  have f: "find_if (\<lambda>(_, q). q_arn q = ConvertToArn (e_cfg wit_env) (sr_region wit_request) (sr_queueUrl wit_request)) (queues wit_svc)
      = Some (''k'', wit_svc_queue)"
    by (simp add: wit_request_def entry_request_def wit_convert find_if_def)
  have l: "lam_listLambdasWithEventSource wit_lam (q_arn wit_svc_queue) = []"
    by (simp add: lam_listLambdasWithEventSource_def wit_lam_def where_if_def q_where_def values_of_def)
  show ?thesis
    using svc_send_stores [OF wit_svc_life f l, of "\<lambda>_. 0" "[]" "\<lparr>mi_messageId = ''i'', mi_receiptHandle = ''h'', mi_oid = ''b''\<rparr>"]
    by (auto simp: wit_request_def entry_request_def default_queue_attribute_def)
qed

subsection \<open>Delivery to Lambda functions\<close>

definition confirms :: "sqs_env \<Rightarrow> lambda_repo \<Rightarrow> sqs_message \<Rightarrow> string \<Rightarrow> lambda_fn \<Rightarrow> bool" where
  "confirms env lam message queueArn l =
     (let (status, body) = InvokeLambdaFunction env lam (cfg_region (e_cfg env)) (l_function l) message queueArn in
      status = 200 \<and> \<not> isLambdaExecutionError body)"

lemma invoke_each_result:
  "invoke_each env lam message queueArn ls st =
     Inr (if list_ex (confirms env lam message queueArn) ls
          then st\<lparr>messages := filter (\<lambda>(_, m). m_receiptHandle m \<noteq> m_receiptHandle message) (messages st)\<rparr> else st)"
proof (induction ls arbitrary: st)
  case Nil
  then show ?case by simp
next
  case (Cons l ls)
  have one: "sendLambdaInvocationRequest env lam st l message queueArn =
      Inr (if confirms env lam message queueArn l
           then st\<lparr>messages := filter (\<lambda>(_, m). m_receiptHandle m \<noteq> m_receiptHandle message) (messages st)\<rparr> else st)"
    by (simp add: sendLambdaInvocationRequest_def confirms_def sqs_deleteMessageByHandle_def scoped_lock_def
        with_messages_def erase_if_def case_prod_unfold Let_def)
  have "filter (\<lambda>(_, m). m_receiptHandle m \<noteq> m_receiptHandle message)
      (filter (\<lambda>(_, m). m_receiptHandle m \<noteq> m_receiptHandle message) (messages st)) =
      filter (\<lambda>(_, m). m_receiptHandle m \<noteq> m_receiptHandle message) (messages st)"
    by (simp add: case_prod_unfold)
  then show ?case by (simp add: one Cons.IH)
qed

text \<open>When an invocation counts as a confirmation: the module runs, the function of that name in the configured
  region exists and is enabled, and its answer is a success that names no error.\<close>

lemma confirms_iff:
  "confirms env lam message queueArn l \<longleftrightarrow>
     e_lambda_module env \<and>
     (\<exists>k l' body. find_if (\<lambda>(_, x). l_arn x = CreateLambdaArn (cfg_region (e_cfg env)) (cfg_account_id (e_cfg env)) (l_function l)) (lambdas lam)
        = Some (k, l') \<and> l_enabled l' \<and> e_invoke env (l_function l) message queueArn = (200, body) \<and>
      \<not> Contains body (CHR 0x22 # ''errorType'' @ [CHR 0x22]) \<and> \<not> Contains body (CHR 0x22 # ''errorMessage'' @ [CHR 0x22]))"
  unfolding confirms_def InvokeLambdaFunction_def OnInvokeLambda_def isLambdaExecutionError_def Contains_def
  by (auto split: option.splits if_splits prod.splits)


subsection \<open>The visibility timeout of a message\<close>

text \<open>Changing the visibility timeout of a message changes this message alone, its status stays: its
  timeout becomes the requested seconds between 10 and 43200, 43200 for more, and 30 for less than
  10, so that a request for 0, which is to make the message visible at once, hides it for 30
  seconds. The attribute that records the timeout agrees with it.\<close>

theorem svc_visibility_timeout:
  assumes "life_inv st" and "sqs_messageExists st handle"
  shows "\<exists>k m v. map_of (messages st) k = Some m \<and> m_receiptHandle m = handle \<and>
    v = (if requested < 10 then 30 else min requested 43200) \<and>
    svc_setMessageVisibilityTimeout clock st handle requested =
      Inr (st\<lparr>messages := assign k (m\<lparr>m_attributes := omap_insert ''VisibilityTimeout'' (to_string v) (m_attributes m),
        m_reset := clock 1 + seconds v, m_modified := clock 2\<rparr>) (messages st)\<rparr>) \<and>
    strto (to_string v) = Some v"
proof -
  obtain m where g: "get_or (default_message (clock 0)) set_m_oid (\<lambda>(_, m). m_receiptHandle m = handle) (messages st) = (messages st, m)"
    and m: "m_receiptHandle m = handle" "map_of (messages st) (m_oid m) = Some m"
    using fetch_message [OF assms(1) assms(2) [unfolded sqs_messageExists_def]] by blast
  let ?v = "if requested < 10 then 30 else min requested 43200"
  have v: "clamp_visibility requested = ?v" by (simp add: clamp_visibility_def Let_def)
  let ?m = "m\<lparr>m_attributes := omap_insert ''VisibilityTimeout'' (to_string ?v) (m_attributes m), m_reset := clock 1 + seconds ?v, m_modified := clock 2\<rparr>"
  have f: "find_if (\<lambda>(_, x). m_oid x = m_oid m) (messages st) = Some (m_oid m, m)"
  proof -
    have "(\<lambda>(k, x). m_oid x = m_oid m) z = (\<lambda>(k, x). k = m_oid m) z" if "z \<in> set (messages st)" for z
      using that life_parts(3) [OF assms(1)] by (auto simp: all_stamped_def)
    then have "find_if (\<lambda>(_, x). m_oid x = m_oid m) (messages st) = find_if (\<lambda>(k, _). k = m_oid m) (messages st)"
      unfolding find_if_def by (intro find_cong) auto
    then show ?thesis using find_if_key [OF life_parts(2) [OF assms(1)], of "m_oid m"] m(2) by simp
  qed
  have "svc_setMessageVisibilityTimeout clock st handle requested = Inr (st\<lparr>messages := assign (m_oid m) ?m (messages st)\<rparr>)"
    using assms(2)
    by (simp add: svc_setMessageVisibilityTimeout_def sqs_getMessageByReceiptHandle_def with_messages_def g Let_def v
        sqs_updateMessage_def replace_found_def f)
  moreover have "strto (to_string ?v) = Some ?v" by (rule strto_to_string)
  ultimately show ?thesis using m by blast
qed

theorem svc_visibility_timeout_witness:
  "\<exists>k m. map_of (messages wit_svc) k = Some m \<and> m_receiptHandle m = ''r'' \<and>
    svc_setMessageVisibilityTimeout (\<lambda>_. 0) wit_svc ''r'' 0 =
      Inr (wit_svc\<lparr>messages := assign k (m\<lparr>m_attributes := omap_insert ''VisibilityTimeout'' (to_string 30) (m_attributes m),
        m_reset := 0 + seconds 30, m_modified := 0\<rparr>) (messages wit_svc)\<rparr>)"
  using svc_visibility_timeout [OF wit_svc_life, of "''r''" 0 "\<lambda>_. 0"]
  by (auto simp: sqs_messageExists_def found_iff split: if_splits)

subsection \<open>The end of a long poll\<close>

lemma seconds_between_nonneg: "begin \<le> t \<Longrightarrow> seconds_between begin t = (t - begin) div 1000000000"
  by (simp add: seconds_between_def)

lemma poll_ends:
  assumes "\<And>j. elapsed_at j \<ge> e j" "w \<le> e (i + n)"
  shows "\<exists>r. poll_loop recv world elapsed_at w i st elapsed = Some r"
  using assms(2)
proof (induction n arbitrary: i st elapsed)
  case 0
  obtain st' ml where "recv i st = (st', ml)" by fastforce
  moreover have "w \<le> elapsed_at i" using 0 assms(1) [of i] by simp
  ultimately show ?case
    by (subst poll_loop.simps) (simp add: poll_loop.simps [of recv world elapsed_at w "Suc i"])
next
  case (Suc n)
  obtain st' ml where r: "recv i st = (st', ml)" by fastforce
  have "w \<le> e (Suc i + n)" using Suc.prems by simp
  from Suc.IH [OF this, of "world i st'" "elapsed_at i"] show ?case
    by (subst poll_loop.simps) (auto simp: r)
qed

text \<open>C7: a receive returns, whatever the other threads do to the repository while it sleeps: when each
  round takes the clock on by at least a period \<open>p > 0\<close>, the loop ends, since the wait time is capped.\<close>

theorem svc_receive_terminates:
  assumes "0 < p" and "\<And>i. clock (2 * i + 2) \<ge> clock 0 + int (i + 1) * p"
  shows "\<exists>r. svc_receiveMessages env handles now clock world st region url maxMessages wait = Some r"
proof -
  let ?e = "\<lambda>i. (int (i + 1) * p) div 1000000000"
  have e: "seconds_between (clock 0) (clock (2 * j + 2)) \<ge> ?e j" for j
  proof -
    have "0 \<le> int (j + 1) * p" using assms(1) by simp
    then have "clock 0 \<le> clock (2 * j + 2)" "int (j + 1) * p \<le> clock (2 * j + 2) - clock 0"
      using assms(2) [of j] by linarith+
    then show ?thesis by (simp add: seconds_between_nonneg zdiv_mono1)
  qed
  have big: "w \<le> ?e (0 + nat (w * 1000000000))" for w :: int
  proof (cases "0 \<le> w")
    case True
    have "w * 1000000000 \<le> int (nat (w * 1000000000) + 1) * p"
      using True assms(1) mult_mono [of "w * 1000000000" "int (nat (w * 1000000000) + 1)" 1 p] by simp
    then have "(w * 1000000000) div 1000000000 \<le> ?e (nat (w * 1000000000))" by (rule zdiv_mono1) simp
    then show ?thesis by simp
  next
    case False
    have "0 \<le> ?e (0 + nat (w * 1000000000))" using assms(1) by (simp add: pos_imp_zdiv_nonneg_iff)
    then show ?thesis using False by linarith
  qed
  obtain st1 q where g: "sqs_getQueueByArn now st (ConvertToArn (e_cfg env) region url) = (st1, q)" by fastforce
  obtain r where "poll_loop (receive_round env handles clock q maxMessages) world
      (\<lambda>i. seconds_between (clock 0) (clock (2 * i + 2))) (if wait > 10 then 10 else wait) 0 st1 0 = Some r"
    using poll_ends [of ?e, OF e big] by blast
  then show ?thesis by (simp add: svc_receiveMessages_def Let_def g)
qed

theorem svc_receive_terminates_witness:
  "\<exists>r. svc_receiveMessages wit_env (\<lambda>_. id) 0 (\<lambda>i. int i * 1000000000) (\<lambda>_. id) wit_svc ''eu'' ''http://h/q'' 1 20 = Some r"
  by (rule svc_receive_terminates [where p = 1000000000]) simp_all

end
