(* ===== verification/SqsServiceLimits.thy ===== *)
theory SqsServiceLimits
  imports SqsServiceProps
begin

text \<open>
  Where the SQS service departs from what it is for: the messages of a deleted queue stay, a queue
  created in a region other than the configured one is created again, the maintenance task never
  makes a delayed message visible and stops for good at an expired one, the last page of the
  attribute counters reads beyond the list. And the digest of message attributes, which its input
  determines.
\<close>

subsection \<open>Queues\<close>

text \<open>Deleting a queue removes the queues of this region and URL and leaves every message where it is,
  when no message has the URL for the ARN of its queue: the messages of the queue stay, counted
  under its ARN and receivable when the queue is created again.\<close>

theorem svc_delete_queue_orphans:
  assumes "sqs_queueUrlExists st region url"
    and "list_all (\<lambda>(_, m). m_queueArn m \<noteq> url) (messages st)"
  shows "\<exists>st'. svc_deleteQueue now st region url = Inr (st', url) \<and> messages st' = messages st \<and>
    \<not> sqs_queueUrlExists st' region url \<and> sqs_countMessages st' arn pre = sqs_countMessages st arn pre"
proof -
  let ?qs = "filter (\<lambda>(_, q). \<not> (q_region q = region \<and> q_url q = url)) (queues st)"
  have "erase_if (\<lambda>(_, m). m_queueArn m = url) (messages st) = (messages st, 0)"
    using assms(2) by (intro erase_if_none) (auto simp: list_all_iff)
  then have s: "svc_deleteQueue now st region url = Inr (st\<lparr>queues := ?qs\<rparr>, url)"
    using assms(1) by (simp add: svc_deleteQueue_def sqs_deleteMessages_def sqs_deleteQueue_def with_messages_def
        with_queues_def erase_if_def default_queue_def case_prod_unfold)
  moreover have "\<not> sqs_queueUrlExists (st\<lparr>queues := ?qs\<rparr>) region url"
    by (auto simp: sqs_queueUrlExists_def found_iff)
  ultimately show ?thesis by (intro exI [of _ "st\<lparr>queues := ?qs\<rparr>"]) (simp add: sqs_countMessages_def)
qed

theorem svc_delete_queue_orphans_witness:
  "\<exists>st'. svc_deleteQueue 0 wit_svc ''eu'' ''http://h/q'' = Inr (st', ''http://h/q'') \<and>
    sqs_countMessages st' wit_arn [] = 1 \<and> \<not> sqs_queueUrlExists st' ''eu'' ''http://h/q''"
proof -
  have c: "sqs_countMessages wit_svc wit_arn [] = 1"
    by (simp add: sqs_countMessages_def count_if_def wit_arn_def)
  have "sqs_queueUrlExists wit_svc ''eu'' ''http://h/q''" by (simp add: sqs_queueUrlExists_def found_iff)
  moreover have "list_all (\<lambda>(_, m). m_queueArn m \<noteq> ''http://h/q'') (messages wit_svc)" by (simp add: wit_arn_def CreateArn_def)
  ultimately show ?thesis using svc_delete_queue_orphans [of wit_svc "''eu''" "''http://h/q''" 0 wit_arn "[]"] c by auto
qed

text \<open>Creating a queue asks for an ARN with the region of the request and stores one with the configured
  region. In any other region a second request for the same queue does not find it and stores a
  second queue of the same region, name, ARN and URL, so that the names of a region are no longer
  unique.\<close>

theorem svc_create_queue_twice:
  assumes "region \<noteq> cfg_region (e_cfg env)"
    and "\<not> sqs_queueArnExists st (CreateArn ''sqs'' region (cfg_account_id (e_cfg env)) name)"
    and "\<not> sqs_queueExists st region name"
    and "queue_attributes attributes default_queue_attribute = Inr a"
    and "u1 \<notin> keys_of (queues st)" "u2 \<notin> keys_of (queues st)" "u1 \<noteq> u2" "wf_store (queues st)"
  shows "\<exists>st1 st2 cr q1 q2.
    svc_createQueue env clock lay u1 st region user name attributes tags = Inr (st1, cr) \<and>
    svc_createQueue env clock' lay u2 st1 region user name attributes tags = Inr (st2, cr) \<and>
    map_of (queues st2) u1 = Some q1 \<and> map_of (queues st2) u2 = Some q2 \<and>
    q_region q1 = region \<and> q_region q2 = region \<and> q_name q1 = name \<and> q_name q2 = name \<and>
    q_arn q1 = q_arn q2 \<and> q_url q1 = q_url q2 \<and> \<not> names_unique (queues st2)"
proof -
  let ?cfg = "e_cfg env" let ?arn = "CreateArn ''sqs'' region (cfg_account_id ?cfg) name"
  let ?q = "\<lambda>c u. (default_queue c)\<lparr>q_region := region, q_name := name, q_owner := user, q_oid := u,
    q_arn := CreateArn ''sqs'' (cfg_region ?cfg) (cfg_account_id ?cfg) name, q_url := CreateSQSQueueUrl ?cfg name,
    q_attributes := a, q_tags := tags\<rparr>"
  let ?st = "\<lambda>st c u. st\<lparr>queues := hmap_insert lay u (?q c u) (queues st)\<rparr>"
  have ne: "CreateArn ''sqs'' (cfg_region ?cfg) (cfg_account_id ?cfg) name \<noteq> ?arn"
    using assms(1) by (simp add: CreateArn_def)
  have create: "svc_createQueue env c lay u s region user name attributes tags =
      Inr (?st s (c 0) u, CreateQueueResponse_toDto (?q (c 0) u))" if "\<not> sqs_queueArnExists s ?arn" for c u s
    using that assms(4)
    by (simp add: svc_createQueue_def Let_def CreateQueueRequest_toEntity_def sqs_createQueue_def default_queue_def)
  let ?st1 = "?st st (clock 0) u1" let ?st2 = "?st ?st1 (clock' 0) u2"
  have set1: "set (queues ?st1) = insert (u1, ?q (clock 0) u1) (set (queues st))"
    using hm.set_ins_fresh [OF assms(8,5)] by simp
  have no1: "\<not> sqs_queueArnExists ?st1 ?arn"
    using assms(2) ne unfolding sqs_queueArnExists_def found_iff set1 by (auto simp: default_queue_def)
  have wf1: "wf_store (queues ?st1)" using assms(8) by (simp add: wf_hmap_insert)
  have look: "map_of (queues ?st2) = (map_of (queues st))(u1 \<mapsto> ?q (clock 0) u1, u2 \<mapsto> ?q (clock' 0) u2)"
    using wf1 assms(8) by (simp add: map_of_hmap_insert)
  have l: "map_of (queues ?st2) u1 = Some (?q (clock 0) u1)" "map_of (queues ?st2) u2 = Some (?q (clock' 0) u2)"
    using assms(7) unfolding look by simp_all
  have "\<not> names_unique (queues ?st2)"
    using names_uniqueD [OF _ map_of_SomeD [OF l(1)] map_of_SomeD [OF l(2)]] assms(7) by (auto simp: default_queue_def)
  moreover have "CreateQueueResponse_toDto (?q (clock 0) u1) = CreateQueueResponse_toDto (?q (clock' 0) u2)"
    by (simp add: CreateQueueResponse_toDto_def default_queue_def)
  ultimately show ?thesis
    using create [OF assms(2), of clock u1] create [OF no1, of clock' u2] l
    by (intro exI [of _ ?st1] exI [of _ ?st2] exI [of _ "CreateQueueResponse_toDto (?q (clock 0) u1)"]
        exI [of _ "?q (clock 0) u1"] exI [of _ "?q (clock' 0) u2"]) (simp add: default_queue_def)
qed

theorem svc_create_queue_twice_witness:
  "\<exists>st1 st2 cr. svc_createQueue wit_env (\<lambda>_. 0) [] ''k1'' sqs_init ''us'' ''me'' ''q'' [] [] = Inr (st1, cr) \<and>
    svc_createQueue wit_env (\<lambda>_. 1) [] ''k2'' st1 ''us'' ''me'' ''q'' [] [] = Inr (st2, cr) \<and> \<not> names_unique (queues st2)"
  using svc_create_queue_twice [of "''us''" wit_env sqs_init "''q''" "[]" default_queue_attribute "''k1''" "''k2''" "\<lambda>_. 0" "[]" "''me''" "[]" "\<lambda>_. 1"]
  by (simp add: wit_env_def sqs_init_def sqs_queueArnExists_def sqs_queueExists_def found_iff) blast

lemma attribute_list_length [simp]: "length (attribute_list q) = 12"
  by (simp add: attribute_list_def Let_def)

text \<open>The attribute counters take their list of twelve for thirteen. For a page size and index that are
  not negative, a page is undefined exactly when it starts beyond the list or ends at the missing
  thirteenth entry; a page size of 13 asks for it.\<close>

theorem svc_attribute_counters_page:
  assumes "sqs_queueArnExists st arn" "0 < pageSize" "0 \<le> pageIndex"
  shows "svc_listQueueAttributeCounters now st arn pageSize pageIndex = Inl UndefinedBehaviour \<longleftrightarrow>
    12 < pageSize * pageIndex \<or> pageSize * (pageIndex + 1) = 13"
proof -
  obtain st' q where g: "sqs_getQueueByArn now st arn = (st', q)" by fastforce
  have nn: "0 \<le> pageSize * pageIndex" using assms(2,3) by simp
  have "iterator_page 13 (attribute_list q) pageSize pageIndex = Inl UndefinedBehaviour \<longleftrightarrow>
      12 < pageSize * pageIndex \<or> pageSize * (pageIndex + 1) = 13"
    using assms(2) nn unfolding iterator_page_def Let_def attribute_list_length
    by (auto simp: distrib_left)
  then show ?thesis
    using assms(1) by (cases "iterator_page 13 (attribute_list q) pageSize pageIndex") (simp_all add: svc_listQueueAttributeCounters_def g)
qed

theorem svc_attribute_counters_page_witness:
  "svc_listQueueAttributeCounters 0 wit_svc wit_arn 13 0 = Inl UndefinedBehaviour \<and>
   svc_listQueueAttributeCounters 0 wit_svc wit_arn 12 0 \<noteq> Inl UndefinedBehaviour"
  using svc_attribute_counters_page [of wit_svc wit_arn 13 0 0] svc_attribute_counters_page [of wit_svc wit_arn 12 0 0]
  by (simp add: sqs_queueArnExists_def found_iff)

text \<open>C30: the bytes the digest of the message attributes is taken of determine the names, the types and the
  string or binary values: two messages with the same bytes differ at most in values of other types,
  which are not digested. (Every name and value is shorter than \<open>2 ^ 32\<close> bytes.)\<close>

theorem md5_input_determines_attributes:
  assumes "message_attribute_bytes xs = message_attribute_bytes ys"
    and "list_all attribute_sizes xs" "list_all attribute_sizes ys"
  shows "map (\<lambda>(n, a). (n, md5_view a)) xs = map (\<lambda>(n, a). (n, md5_view a)) ys"
  using assms by (rule message_attribute_bytes_inject)

theorem md5_input_determines_attributes_witness:
  "(let a = default_message_attribute\<lparr>ma_stringValue := ''v'', ma_stringListValues := [''x'']\<rparr>;
        b = default_message_attribute\<lparr>ma_stringValue := ''v''\<rparr> in
     [(''n'', md5_view a)] = [(''n'', md5_view b)])"
  using md5_input_determines_attributes [of "[(''n'', default_message_attribute\<lparr>ma_stringValue := ''v'', ma_stringListValues := [''x'']\<rparr>)]"
      "[(''n'', default_message_attribute\<lparr>ma_stringValue := ''v''\<rparr>)]"]
  by (simp add: message_attribute_bytes_def attribute_sizes_def default_message_attribute_def)

subsection \<open>The maintenance task and delayed messages\<close>

text \<open>What the steps of the task leave of a delayed message of another ARN than the queue's URL.\<close>

lemma rewrite_keeps:
  assumes "map_of ms k = Some m" "\<not> P (k, m)"
  shows "map_of (fst (rewrite_matching P f ms)) k = Some m"
  using assms by (simp add: map_of_rewrite)

lemma retention_step_keeps: "retention_step tick st queue = Inr (st', queue') \<Longrightarrow> st' = st \<and> q_url queue' = q_url queue"
  by (auto simp: retention_step_def Let_def bind_Inr sqs_messageRetention_def change_attributes_def
      dest: sqs_retention_same split: if_splits)

lemma visibility_step_keeps:
  assumes "map_of (messages st) k = Some m" "m_status m = DELAYED"
  shows "map_of (messages (fst (visibility_step tick st queue))) k = Some m \<and> q_url (snd (visibility_step tick st queue)) = q_url queue"
  using rewrite_keeps [OF assms(1), of "\<lambda>(k, m). m_queueArn m = q_arn queue \<and> m_status m = INVISIBLE \<and> m_reset m < tick k"] assms
  by (simp add: visibility_step_def Let_def sqs_resetMessages_def with_messages_def change_attributes_def)

lemma delay_step_keeps:
  assumes "map_of (messages st) k = Some m" "m_queueArn m \<noteq> q_url queue"
  shows "map_of (messages (fst (delay_step tick st queue))) k = Some m"
  using rewrite_keeps [OF assms(1), of "\<lambda>(k, m). m_queueArn m = q_url queue \<and> m_status m = DELAYED \<and> m_reset m < tick k"] assms
  by (simp add: delay_step_def Let_def sqs_resetDelayedMessages_def with_messages_def)

lemma reset_queue_keeps:
  assumes m: "map_of (messages st) k = Some m" "m_status m = DELAYED" "m_queueArn m \<noteq> q_url queue"
    and r: "reset_queue now tick st queue = Inr st'"
  shows "map_of (messages st') k = Some m"
proof (cases "sqs_countMessages st (q_arn queue) [] > 0")
  case False
  then show ?thesis using m(1) r by (simp add: reset_queue_def)
next
  case True
  then obtain st1 q1 where s1: "retention_step (tick 0) st queue = Inr (st1, q1)"
    and st': "messages st' = messages (fst (delay_step (tick 2) (fst (visibility_step (tick 1) st1 q1)) (snd (visibility_step (tick 1) st1 q1))))"
    using r by (auto simp: reset_queue_def bind_Inr Let_def split_beta)
  have "st1 = st" "q_url q1 = q_url queue" using retention_step_keeps [OF s1] by auto
  then show ?thesis
    unfolding st' using visibility_step_keeps [of st k m "tick 1" q1] m by (intro delay_step_keeps) auto
qed

lemma reset_queues_keep:
  assumes "reset_queues now tick qs st = Inr st'" "map_of (messages st) k = Some m" "m_status m = DELAYED"
    "\<forall>q\<in>set qs. q_url q \<noteq> m_queueArn m"
  shows "map_of (messages st') k = Some m"
  using assms
proof (induction qs arbitrary: st)
  case Nil
  then show ?case by simp
next
  case (Cons q qs)
  then obtain st1 where s: "reset_queue (now (length qs)) (tick (length qs)) st q = Inr st1" "reset_queues now tick qs st1 = Inr st'"
    by (auto simp: bind_Inr)
  have "map_of (messages st1) k = Some m" using reset_queue_keeps [OF Cons.prems(2,3) _ s(1)] Cons.prems(4) by auto
  then show ?case using Cons.IH [OF s(2)] Cons.prems by simp
qed

lemma listQueues_all [simp]: "sqs_listQueuesRegion st [] = map snd (queues st)"
  by (simp add: sqs_listQueuesRegion_def where_if_def values_of_def)

text \<open>The maintenance task never makes a delayed message visible, or changes it at all: it looks for the
  delayed messages of a queue under the queue's URL, and no message has a URL for an ARN.\<close>

theorem srv_reset_keeps_delayed:
  assumes "srv_ResetMessages now tick st = Inr st'" and "map_of (messages st) k = Some m" and "m_status m = DELAYED"
    and "list_all (\<lambda>(_, q). q_url q \<noteq> m_queueArn m) (queues st)"
  shows "map_of (messages st') k = Some m"
  using assms reset_queues_keep [of now tick "map snd (queues st)" st st' k m]
  by (auto simp: srv_ResetMessages_def list_all_iff case_prod_unfold)

definition wit_delayed :: sqs_repo where
  "wit_delayed = wit_svc\<lparr>messages := [(''a'', wit_svc_message\<lparr>m_status := DELAYED, m_reset := 5\<rparr>)]\<rparr>"

lemma wit_delayed_simps [simp]:
  "queues wit_delayed = [(''k'', wit_svc_queue)]" "messages wit_delayed = [(''a'', wit_svc_message\<lparr>m_status := DELAYED, m_reset := 5\<rparr>)]"
  by (simp_all add: wit_delayed_def)

theorem srv_reset_keeps_delayed_witness:
  "\<exists>st'. srv_ResetMessages (\<lambda>_. 0) (\<lambda>_ _ _. 0) wit_delayed = Inr st' \<and>
     map_of (messages st') ''a'' = Some (wit_svc_message\<lparr>m_status := DELAYED, m_reset := 5\<rparr>)"
proof -
  have r: "sqs_messageRetention (\<lambda>_. 0) wit_delayed wit_arn n = Inr (wit_delayed, 0)" for n
    by (simp add: sqs_retention_result found_iff)
  have "\<exists>st'. srv_ResetMessages (\<lambda>_. 0) (\<lambda>_ _ _. 0) wit_delayed = Inr st'"
    by (simp add: srv_ResetMessages_def reset_queue_def retention_step_def r Let_def split_beta bind_def)
  then obtain st' where "srv_ResetMessages (\<lambda>_. 0) (\<lambda>_ _ _. 0) wit_delayed = Inr st'" by blast
  from this srv_reset_keeps_delayed [OF this, of "''a''"] show ?thesis by (auto simp: wit_arn_def CreateArn_def)
qed

lemma reset_queues_deadlock:
  assumes m: "map_of (messages st) k = Some m" "m_status m = DELAYED" "\<forall>q\<in>set qs. q_url q \<noteq> m_queueArn m"
    and q: "q \<in> set qs" "q_arn q = m_queueArn m" "qa_messageRetentionPeriod (q_attributes q) > 0"
    and late: "\<forall>i. m_reset m < tick i 0 k"
  shows "reset_queues now tick qs st = Inl Deadlock"
  using m q
proof (induction qs arbitrary: st)
  case Nil
  then show ?case by simp
next
  case (Cons p qs)
  show ?case
  proof (cases "reset_queue (now (length qs)) (tick (length qs)) st p")
    case (Inl e)
    have "e = Deadlock"
      using Inl by (auto simp: reset_queue_def retention_step_def Let_def sqs_retention_result bind_def split_beta split: if_splits sum.splits)
    then show ?thesis using Inl by simp
  next
    case (Inr st1)
    have keep: "map_of (messages st1) k = Some m"
      using reset_queue_keeps [OF Cons.prems(1,2) _ Inr] Cons.prems(3) by auto
    have "p \<noteq> q"
    proof
      assume pq: "p = q"
      have "(k, m) \<in> set (messages st)" using Cons.prems(1) by (rule map_of_SomeD)
      then have f: "found (\<lambda>(k, m). m_queueArn m = q_arn q \<and> m_status m = DELAYED \<and> m_reset m < tick (length qs) 0 k) (messages st)"
        and n: "sqs_countMessages st (q_arn q) [] > 0"
        using Cons.prems(2,5) late unfolding found_iff
        by (auto simp: sqs_countMessages_def count_if_def filter_empty_conv intro: bexI [of _ "(k, m)"])
      have "reset_queue (now (length qs)) (tick (length qs)) st q = Inl Deadlock"
        using n Cons.prems(6) by (simp add: reset_queue_def retention_step_def Let_def sqs_retention_result f)
      then show False using Inr pq by simp
    qed
    then show ?thesis using Cons.IH [OF keep] Cons.prems Inr by simp
  qed
qed

text \<open>C8: once the delay of a message is over while its queue has a retention period, as every queue has from
  the start, the maintenance task never returns: \<open>messageRetention\<close> tries to delete the message
  under the mutex it holds. From then on no message times out.\<close>

theorem srv_reset_deadlock:
  assumes "map_of (messages st) k = Some m" and "m_status m = DELAYED"
    and "list_all (\<lambda>(_, q). q_url q \<noteq> m_queueArn m) (queues st)"
    and "(j, q) \<in> set (queues st)" and "q_arn q = m_queueArn m" and "qa_messageRetentionPeriod (q_attributes q) > 0"
    and "\<And>i. m_reset m < tick i 0 k"
  shows "srv_ResetMessages now tick st = Inl Deadlock"
  unfolding srv_ResetMessages_def listQueues_all
  by (rule reset_queues_deadlock [of st k m "map snd (queues st)" q tick now])
    (use assms in \<open>auto simp: list_all_iff intro: rev_image_eqI\<close>)

theorem srv_reset_deadlock_witness:
  "srv_ResetMessages (\<lambda>_. 9) (\<lambda>_ _ _. 9) wit_delayed = Inl Deadlock"
  by (rule srv_reset_deadlock [of _ "''a''" "wit_svc_message\<lparr>m_status := DELAYED, m_reset := 5\<rparr>" "''k''" wit_svc_queue])
    (simp_all add: wit_arn_def CreateArn_def default_queue_attribute_def)

end
