(* ===== verification/SqsQueries.thy ===== *)
theory SqsQueries
  imports SqsMessages
begin

text \<open>
  The operations of the SQS service that only read (\<open>srv/src/sqs/SQSService.cpp\<close>): queue counters,
  details, tags and attributes, the Lambda triggers of a queue, messages and their attributes. A
  lookup writes the object id of the entity it finds; reading the attributes of a queue adjusts the
  counters of all queues first. The formatting of dates, the comparison without case
  (\<open>boost::beast::iequals\<close>) and the JSON of a redrive policy are arguments.
\<close>

record queue_counter =
  qc_queueName :: string
  qc_queueArn :: string
  qc_queueUrl :: string
  qc_size :: int
  qc_available :: int
  qc_invisible :: int
  qc_delayed :: int
  qc_visibilityTimeout :: int
  qc_maxMessageSize :: int
  qc_delay :: int
  qc_retentionPeriod :: int
  qc_created :: time_point
  qc_modified :: time_point

definition QueueCounter_toDto :: "sqs_queue \<Rightarrow> queue_counter" where
  "QueueCounter_toDto e = (let a = q_attributes e in
     \<lparr>qc_queueName = q_name e, qc_queueArn = q_arn e, qc_queueUrl = q_url e, qc_size = q_size e,
      qc_available = qa_approximateNumberOfMessages a, qc_invisible = qa_approximateNumberOfMessagesNotVisible a,
      qc_delayed = qa_approximateNumberOfMessagesDelayed a, qc_visibilityTimeout = qa_visibilityTimeout a,
      qc_maxMessageSize = qa_maxMessageSize a, qc_delay = qa_delaySeconds a,
      qc_retentionPeriod = qa_messageRetentionPeriod a, qc_created = q_created e, qc_modified = q_modified e\<rparr>)"

definition svc_listQueueCounters :: "sqs_repo \<Rightarrow> string \<Rightarrow> string \<Rightarrow> int \<Rightarrow> int \<Rightarrow> sort_column list \<Rightarrow> (int \<times> queue_counter list) outcome" where
  "svc_listQueueCounters st region pre pageSize pageIndex sortColumns =
     bind (sqs_listQueuesPaged st pre pageSize pageIndex sortColumns region) (\<lambda>queueList.
       Inr (sqs_countQueues st region pre, map QueueCounter_toDto queueList))"

record queue_details =
  qd_queueName :: string
  qd_queueArn :: string
  qd_queueUrl :: string
  qd_region :: string
  qd_retentionPeriod :: int
  qd_maxMessageSize :: int
  qd_visibilityTimeout :: int
  qd_delay :: int
  qd_owner :: string
  qd_size :: int
  qd_available :: int
  qd_invisible :: int
  qd_delayed :: int
  qd_dlqArn :: string
  qd_dlqMaxReceive :: int
  qd_created :: time_point
  qd_modified :: time_point

definition svc_getQueueDetails :: "time_point \<Rightarrow> sqs_repo \<Rightarrow> string \<Rightarrow> (sqs_repo \<times> queue_details) outcome" where
  "svc_getQueueDetails now st queueArn =
     require (sqs_queueArnExists st queueArn) (no_queue_arn queueArn)
       (let (st', q) = sqs_getQueueByArn now st queueArn; a = q_attributes q in
        Inr (st', \<lparr>qd_queueName = q_name q, qd_queueArn = q_arn q, qd_queueUrl = q_url q, qd_region = q_region q,
          qd_retentionPeriod = qa_messageRetentionPeriod a, qd_maxMessageSize = qa_maxMessageSize a,
          qd_visibilityTimeout = qa_visibilityTimeout a, qd_delay = qa_delaySeconds a, qd_owner = q_owner q,
          qd_size = q_size q, qd_available = qa_approximateNumberOfMessages a,
          qd_invisible = qa_approximateNumberOfMessagesNotVisible a, qd_delayed = qa_approximateNumberOfMessagesDelayed a,
          qd_dlqArn = rp_deadLetterTargetArn (qa_redrivePolicy a), qd_dlqMaxReceive = rp_maxReceiveCount (qa_redrivePolicy a),
          qd_created = q_created q, qd_modified = q_modified q\<rparr>))"

text \<open>The tags of a queue that does not exist are those of a default-constructed one.\<close>

definition svc_listQueueTags :: "time_point \<Rightarrow> sqs_repo \<Rightarrow> string \<Rightarrow> string \<Rightarrow> sqs_repo \<times> int \<times> (string \<times> string) list" where
  "svc_listQueueTags now st region queueUrl =
     (let (st', q) = sqs_getQueueByUrl now st region queueUrl in (st', int (length (q_tags q)), q_tags q))"

definition svc_listTagCounters :: "time_point \<Rightarrow> sqs_repo \<Rightarrow> string \<Rightarrow> (sqs_repo \<times> int \<times> (string \<times> string) list) outcome" where
  "svc_listTagCounters now st queueArn =
     require (sqs_queueArnExists st queueArn) (''SQS queue does not exists, queueArn: '' @ queueArn)
       (let (st', q) = sqs_getQueueByArn now st queueArn in Inr (st', int (length (q_tags q)), q_tags q))"

text \<open>A trigger counter is the id of the mapping, the ARN of the function and whether it is enabled.\<close>

definition svc_listLambdaTriggerCounters :: "sqs_repo \<Rightarrow> lambda_repo \<Rightarrow> string \<Rightarrow> (int \<times> (string \<times> string \<times> bool) list) outcome" where
  "svc_listLambdaTriggerCounters st lam queueArn =
     require (sqs_queueArnExists st queueArn) (''SQS queue does not exists, queueArn: '' @ queueArn)
       (let ls = lam_listLambdasWithEventSource lam queueArn in
        Inr (int (length ls), concat (map (\<lambda>l. if HasEventSource l queueArn
          then (let e = GetEventSource l queueArn in [(es_uuid e, l_arn l, es_enabled e)]) else []) ls)))"

definition checkAttribute :: "(string \<Rightarrow> string \<Rightarrow> bool) \<Rightarrow> string list \<Rightarrow> string \<Rightarrow> bool" where
  "checkAttribute iequals attributes v = list_ex (\<lambda>a. iequals a v) attributes"

text \<open>The attributes of a queue in the order they are asked for by name; \<open>all\<close> has its own order and
  leaves out the redrive policy.\<close>

definition named_attributes :: "(time_point \<Rightarrow> string) \<Rightarrow> (redrive_policy \<Rightarrow> string) \<Rightarrow> sqs_queue \<Rightarrow> (string \<times> string) list" where
  "named_attributes http policy_json q = (let a = q_attributes q in
     [(''Policy'', qa_policy a), (''VisibilityTimeout'', to_string (qa_visibilityTimeout a)),
      (''MaximumMessageSize'', to_string (qa_maxMessageSize a)),
      (''MessageRetentionPeriod'', to_string (qa_messageRetentionPeriod a)),
      (''ApproximateNumberOfMessages'', to_string (qa_approximateNumberOfMessages a)),
      (''ApproximateNumberOfMessagesNotVisible'', to_string (qa_approximateNumberOfMessagesNotVisible a)),
      (''ApproximateNumberOfMessagesDelayed'', to_string (qa_approximateNumberOfMessagesDelayed a)),
      (''CreatedTimestamp'', http (q_created q)), (''LastModifiedTimestamp'', http (q_modified q)),
      (''DelaySeconds'', to_string (qa_delaySeconds a)),
      (''ReceiveMessageWaitTimeSeconds'', to_string (qa_receiveMessageWaitTime a)),
      (''RedrivePolicy'', policy_json (qa_redrivePolicy a)), (''QueueArn'', q_arn q)])"

definition all_attributes :: "(time_point \<Rightarrow> string) \<Rightarrow> sqs_queue \<Rightarrow> (string \<times> string) list" where
  "all_attributes http q = (let a = q_attributes q in
     [(''ApproximateNumberOfMessages'', to_string (qa_approximateNumberOfMessages a)),
      (''ApproximateNumberOfMessagesDelayed'', to_string (qa_approximateNumberOfMessagesDelayed a)),
      (''ApproximateNumberOfMessagesNotVisible'', to_string (qa_approximateNumberOfMessagesNotVisible a)),
      (''CreatedTimestamp'', http (q_created q)), (''DelaySeconds'', to_string (qa_delaySeconds a)),
      (''LastModifiedTimestamp'', http (q_modified q)), (''MaximumMessageSize'', to_string (qa_maxMessageSize a)),
      (''MessageRetentionPeriod'', to_string (qa_messageRetentionPeriod a)), (''Policy'', qa_policy a),
      (''QueueArn'', q_arn q), (''ReceiveMessageWaitTimeSeconds'', to_string (qa_receiveMessageWaitTime a)),
      (''VisibilityTimeout'', to_string (qa_visibilityTimeout a))])"

definition svc_getQueueAttributes :: "sqs_env \<Rightarrow> (string \<Rightarrow> string \<Rightarrow> bool) \<Rightarrow> (time_point \<Rightarrow> string) \<Rightarrow> (redrive_policy \<Rightarrow> string)
    \<Rightarrow> time_point \<Rightarrow> sqs_repo \<Rightarrow> string \<Rightarrow> string \<Rightarrow> string list \<Rightarrow> (sqs_repo \<times> (string \<times> string) list) outcome" where
  "svc_getQueueAttributes env iequals http policy_json now st region queueUrl names =
     (let arn = ConvertToArn (e_cfg env) region queueUrl in
      require (sqs_queueArnExists st arn) (''Queue does not exist, arn: '' @ arn)
        (bind (sqs_adjustMessageCounters st) (\<lambda>st1.
           let (st2, q) = sqs_getQueueByArn now st1 arn in
           Inr (st2, if checkAttribute iequals names ''all'' then all_attributes http q
             else filter (\<lambda>(k, _). checkAttribute iequals names k) (named_attributes http policy_json q)))))"

text \<open>The ARN, and the object id as the id of the mapping, which is always enabled.\<close>

definition svc_getEventSource :: "time_point \<Rightarrow> sqs_repo \<Rightarrow> string \<Rightarrow> (sqs_repo \<times> string \<times> bool \<times> string) outcome" where
  "svc_getEventSource now st eventSourceArn =
     (if \<not> sqs_queueArnExists st eventSourceArn
      then Inl (NotFoundException (''Queue does not exists, arn: '' @ eventSourceArn))
      else let (st', q) = sqs_getQueueByArn now st eventSourceArn in Inr (st', q_arn q, True, q_oid q))"

definition svc_listDefaultMessageAttributeCounters :: "time_point \<Rightarrow> sqs_repo \<Rightarrow> string \<Rightarrow> int \<Rightarrow> int
    \<Rightarrow> (sqs_repo \<times> int \<times> (string \<times> dto_attribute) list) outcome" where
  "svc_listDefaultMessageAttributeCounters now st queueArn pageSize pageIndex =
     require (sqs_queueArnExists st queueArn) (no_queue_arn queueArn)
       (let (st', q) = sqs_getQueueByArn now st queueArn in
        Inr (st', int (length (q_defaultMessageAttributes q)),
          PageMap (toDtoMap (q_defaultMessageAttributes q)) pageSize pageIndex))"

definition svc_getMessageCounters :: "time_point \<Rightarrow> sqs_repo \<Rightarrow> string \<Rightarrow> (sqs_repo \<times> sqs_message) outcome" where
  "svc_getMessageCounters now st messageId =
     require (sqs_messageExistsByMessageId st messageId) (no_message messageId)
       (Inr (sqs_getMessageByMessageId now st messageId))"

definition svc_listMessageAttributeCounters :: "time_point \<Rightarrow> sqs_repo \<Rightarrow> string \<Rightarrow> int \<Rightarrow> int
    \<Rightarrow> (sqs_repo \<times> int \<times> (string \<times> dto_attribute) list) outcome" where
  "svc_listMessageAttributeCounters now st messageId pageSize pageIndex =
     require (sqs_messageExistsByMessageId st messageId) (no_message messageId)
       (let (st', m) = sqs_getMessageByMessageId now st messageId in
        Inr (st', int (length (m_messageAttributes m)), PageMap (toDtoMap (m_messageAttributes m)) pageSize pageIndex))"

end
