(* ===== verification/SqsQueueProps.thy ===== *)
theory SqsQueueProps
  imports SqsProps
begin

text \<open>
  Properties of the queues of the in-memory SQS repository: the counters
  \<open>adjustMessageCounters\<close> writes, what importing over an existing queue does to them, and what
  the paged listing returns.
\<close>

subsection \<open>Counters and listings of queues\<close>

lemma set_counters_simps [simp]:
  "q_oid (set_counters st arn q) = q_oid q" "q_arn (set_counters st arn q) = q_arn q"
  by (simp_all add: set_counters_def)

text \<open>After \<open>adjustMessageCounters\<close> on a store whose queues carry their keys as object ids, the
  three counters of every queue are the numbers of its messages in the states INITIAL, INVISIBLE and
  DELAYED; no queue is added or lost, and no message changes.\<close>

theorem sqs_adjust_counts:
  assumes "wf_store (queues st)" "all_stamped q_oid (queues st)"
  shows "\<exists>st'. sqs_adjustMessageCounters st = Inr st' \<and> messages st' = messages st \<and>
    keys_of (queues st') = keys_of (queues st) \<and>
    (\<forall>k q. map_of (queues st) k = Some q \<longrightarrow>
       (\<exists>q'. map_of (queues st') k = Some q' \<and> q_name q' = q_name q \<and> q_arn q' = q_arn q \<and>
         qa_approximateNumberOfMessages (q_attributes q') = sqs_countMessagesByStatus st (q_arn q) INITIAL \<and>
         qa_approximateNumberOfMessagesNotVisible (q_attributes q') = sqs_countMessagesByStatus st (q_arn q) INVISIBLE \<and>
         qa_approximateNumberOfMessagesDelayed (q_attributes q') = sqs_countMessagesByStatus st (q_arn q) DELAYED))"
proof -
  let ?w = "\<lambda>queue. set_counters st (q_arn queue)"
  obtain qs where l: "index_loop q_oid ?w (map fst (queues st)) (queues st) = Inr qs" and f: "map fst qs = map fst (queues st)"
    and m: "\<And>k. map_of qs k = map_option (\<lambda>q. if k \<in> set (map fst (queues st)) then ?w q q else q) (map_of (queues st) k)"
    using index_loop_stamped [of q_oid ?w "queues st" "map fst (queues st)"] assms by (auto simp: wf_store_def)
  have q': "map_of qs k = Some (?w q q)" if "map_of (queues st) k = Some q" for k q
  proof -
    have "k \<in> set (map fst (queues st))" using map_of_SomeD [OF that] by force
    then show ?thesis using m [of k] that by simp
  qed
  have st': "sqs_adjustMessageCounters st = Inr (st\<lparr>queues := qs\<rparr>)" by (simp add: sqs_adjustMessageCounters_def l)
  show ?thesis
  proof (intro exI conjI allI impI)
    fix k q assume "map_of (queues st) k = Some q"
    then show "map_of (queues (st\<lparr>queues := qs\<rparr>)) k = Some (set_counters st (q_arn q) q)" using q' by simp
  qed (simp_all add: st' keys_of_keys [OF f] set_counters_def)
qed

theorem sqs_adjust_counts_witness:
  "\<exists>st st'. queues st \<noteq> [] \<and> sqs_adjustMessageCounters st = Inr st' \<and> messages st' = messages st"
proof -
  let ?st = "sqs_init\<lparr>queues := [(''k'', (default_queue 0)\<lparr>q_oid := ''k''\<rparr>)]\<rparr>"
  have "wf_store (queues ?st)" "all_stamped q_oid (queues ?st)" by (simp_all add: all_stamped_def)
  from sqs_adjust_counts [OF this] obtain st' where "sqs_adjustMessageCounters ?st = Inr st'" "messages st' = messages ?st"
    by blast
  moreover have "queues ?st \<noteq> []" by simp
  ultimately show ?thesis by blast
qed

text \<open>Importing a queue that exists already, from a document without object id, stores the queue
  under its old key with a foreign object id; the next \<open>adjustMessageCounters\<close> then indexes the map
  under iteration with an id that is no key, which is undefined behaviour.\<close>

theorem sqs_import_breaks_counters:
  assumes wf: "wf_store (queues st)" and ex: "sqs_queueExists st (q_region q) (q_name q)"
    and oid: "q_oid q \<notin> keys_of (queues st)"
    and imp: "sqs_importQueue lay uuid now st q = (st', q', r)"
  shows "sqs_adjustMessageCounters st' = Inl UndefinedBehaviour"
proof -
  let ?P = "\<lambda>(_::string, x). q_region x = q_region q \<and> q_name x = q_name q"
  obtain k old where f: "find_if ?P (queues st) = Some (k, old)"
    using ex by (auto simp: sqs_queueExists_def found_def)
  let ?q = "q\<lparr>q_modified := now\<rparr>"
  have "st' = st\<lparr>queues := assign k ?q (queues st)\<rparr>"
    using imp ex f by (auto simp: sqs_importQueue_def sqs_updateQueue_def replace_found_def Let_def)
  moreover have "map_of (queues st) k = Some old" using find_if_Some_map_of [OF wf f] by simp
  ultimately have "map_of (queues st') k = Some ?q" "keys_of (queues st') = keys_of (queues st)"
    by (simp_all add: store_simps)
  then show ?thesis
    using oid index_loop_error [of q_oid "\<lambda>queue. set_counters st' (q_arn queue)" "map fst (queues st')" "queues st'"]
      map_of_SomeD [of "queues st'" k ?q]
    by (force simp: sqs_adjustMessageCounters_def)
qed

theorem sqs_import_breaks_counters_witness:
  "\<exists>st st' q' r. sqs_adjustMessageCounters st \<noteq> Inl UndefinedBehaviour \<and>
     sqs_importQueue [] ''u'' 1 st (wit_queue ''p'') = (st', q', r) \<and> sqs_adjustMessageCounters st' = Inl UndefinedBehaviour"
proof -
  let ?st = "sqs_init\<lparr>queues := [(''k'', (wit_queue ''p'')\<lparr>q_oid := ''k''\<rparr>)]\<rparr>"
  obtain st' q' r where i: "sqs_importQueue [] ''u'' 1 ?st (wit_queue ''p'') = (st', q', r)" by (metis prod_cases3)
  have "wf_store (queues ?st)" "sqs_queueExists ?st (q_region (wit_queue ''p'')) (q_name (wit_queue ''p''))"
    "q_oid (wit_queue ''p'') \<notin> keys_of (queues ?st)"
    by (simp_all add: sqs_queueExists_def found_iff wit_queue_def default_queue_def)
  from sqs_import_breaks_counters [OF this i]
  have "sqs_adjustMessageCounters st' = Inl UndefinedBehaviour" .
  moreover have "sqs_adjustMessageCounters ?st \<noteq> Inl UndefinedBehaviour"
    by (simp add: sqs_adjustMessageCounters_def)
  ultimately show ?thesis using i by blast
qed

text \<open>\<open>listQueues\<close> with a positive page size returns every queue of the region whose name has the
  prefix, in the order of the map: the page size, the page index and the sort columns have no effect.\<close>

theorem sqs_list_ignores_page:
  assumes "0 < pageSize"
  shows "sqs_listQueuesPaged st pre pageSize pageIndex sortColumns region =
    Inr (filter (\<lambda>q. (region = [] \<or> q_region q = region) \<and> (pre = [] \<or> StartsWith (q_name q) pre)) (values_of (queues st)))"
  using assms by (auto simp: sqs_listQueuesPaged_def Let_def where_if_def q_where_def conj_commute intro!: filter_cong)

theorem sqs_list_ignores_page_witness:
  "length (case sqs_listQueuesPaged (sqs_init\<lparr>queues := [(''k'', wit_queue ''p''), (''l'', wit_queue ''q'')]\<rparr>) [] 1 0 [] [] of Inr qs \<Rightarrow> qs) = 2"
  using sqs_list_ignores_page [of 1 "sqs_init\<lparr>queues := [(''k'', wit_queue ''p''), (''l'', wit_queue ''q'')]\<rparr>" "[]" 0 "[]" "[]"]
  by (simp add: values_of_def)

end
