(* ===== verification/SnsRepo.thy ===== *)
theory SnsRepo
  imports EntityRepo
begin

text \<open>
  The in-memory SNS repository (\<open>db/src/repository/sns/SNSMemoryRepository.cpp\<close>) with its entities
  (\<open>db/include/awsmock/entity/sns\<close>, \<open>db/src/entity/sns/Topic.cpp\<close>): topics with their
  subscriptions, and messages, in two \<open>std::map\<close>s.
\<close>

subsection \<open>Entities\<close>

datatype sns_attr_type = SNS_STRING | SNS_NUMBER | SNS_BINARY

definition sns_attr_type_names :: "(sns_attr_type \<times> string) list" where
  "sns_attr_type_names = [(SNS_STRING, ''String''), (SNS_NUMBER, ''Number''), (SNS_BINARY, ''Binary'')]"

definition sns_MessageAttributeTypeToString :: "sns_attr_type \<Rightarrow> string" where
  "sns_MessageAttributeTypeToString t = enum_to_string sns_attr_type_names t"

definition sns_MessageAttributeTypeFromString :: "string \<Rightarrow> sns_attr_type" where
  "sns_MessageAttributeTypeFromString s = enum_from_string sns_attr_type_names SNS_STRING s"

datatype sns_status = SNS_INITIAL | SNS_SEND | SNS_RESEND

definition sns_status_names :: "(sns_status \<times> string) list" where
  "sns_status_names = [(SNS_INITIAL, ''INITIAL''), (SNS_SEND, ''SEND''), (SNS_RESEND, ''RESEND'')]"

definition sns_MessageStatusToString :: "sns_status \<Rightarrow> string" where
  "sns_MessageStatusToString s = enum_to_string sns_status_names s"

definition sns_MessageStatusFromString :: "string \<Rightarrow> sns_status" where
  "sns_MessageStatusFromString s = enum_from_string sns_status_names SNS_INITIAL s"

record sns_message_attribute =
  sa_stringValue :: string
  sa_stringListValues :: "string list"
  sa_binaryValue :: "8 word list"
  sa_binaryListValues :: "8 word list list"
  sa_dataType :: sns_attr_type

record sns_message =
  sm_oid :: string
  sm_region :: string
  sm_topicArn :: string
  sm_targetArn :: string
  sm_message :: string
  sm_messageId :: string
  sm_status :: sns_status
  sm_messageAttributes :: "(string \<times> sns_message_attribute) list"
  sm_contentType :: string
  sm_size :: int
  sm_lastSend :: time_point
  sm_created :: time_point
  sm_modified :: time_point

record sns_subscription =
  sub_protocol :: string
  sub_endpoint :: string
  sub_subscriptionArn :: string

record topic_attribute =
  ta_deliveryPolicy :: string
  ta_displayName :: string
  ta_fifoTopic :: bool
  ta_policy :: string
  ta_signatureVersion :: string
  ta_tracingConfig :: string
  ta_kmsMasterKeyId :: string
  ta_archivePolicy :: string
  ta_beginningArchiveTime :: time_point
  ta_contentBasedDeduplication :: bool
  ta_availableMessages :: int

record sns_topic =
  t_oid :: string
  t_region :: string
  t_topicName :: string
  t_owner :: string
  t_topicUrl :: string
  t_topicArn :: string
  t_targetArn :: string
  t_subscriptions :: "sns_subscription list"
  t_topicAttribute :: topic_attribute
  t_tags :: "(string \<times> string) list"
  t_defaultMessageAttributes :: "(string \<times> sns_message_attribute) list"
  t_size :: int
  t_messages :: int
  t_messagesSend :: int
  t_messagesResend :: int
  t_created :: time_point
  t_modified :: time_point

definition default_topic_attribute :: topic_attribute where
  "default_topic_attribute =
     \<lparr>ta_deliveryPolicy = [], ta_displayName = [], ta_fifoTopic = False, ta_policy = [],
      ta_signatureVersion = [], ta_tracingConfig = [], ta_kmsMasterKeyId = [], ta_archivePolicy = [],
      ta_beginningArchiveTime = 0, ta_contentBasedDeduplication = False, ta_availableMessages = 0\<rparr>"

definition default_topic :: "time_point \<Rightarrow> sns_topic" where
  "default_topic now =
     \<lparr>t_oid = [], t_region = [], t_topicName = [], t_owner = [], t_topicUrl = [], t_topicArn = [],
      t_targetArn = [], t_subscriptions = [], t_topicAttribute = default_topic_attribute, t_tags = [],
      t_defaultMessageAttributes = [], t_size = 0, t_messages = 0, t_messagesSend = 0,
      t_messagesResend = 0, t_created = now, t_modified = 0\<rparr>"

definition default_sns_message :: "time_point \<Rightarrow> sns_message" where
  "default_sns_message now =
     \<lparr>sm_oid = [], sm_region = [], sm_topicArn = [], sm_targetArn = [], sm_message = [],
      sm_messageId = [], sm_status = SNS_INITIAL, sm_messageAttributes = [], sm_contentType = [],
      sm_size = 0, sm_lastSend = 0, sm_created = now, sm_modified = now\<rparr>"

definition set_t_oid :: "string \<Rightarrow> sns_topic \<Rightarrow> sns_topic" where
  "set_t_oid k t = t\<lparr>t_oid := k\<rparr>"

definition set_sm_oid :: "string \<Rightarrow> sns_message \<Rightarrow> sns_message" where
  "set_sm_oid k m = m\<lparr>sm_oid := k\<rparr>"

interpretation sns_t: stamped_entity t_oid set_t_oid
  by unfold_locales (simp_all add: set_t_oid_def)

interpretation sns_m: stamped_entity sm_oid set_sm_oid
  by unfold_locales (simp_all add: set_sm_oid_def)

definition HasSubscription :: "sns_topic \<Rightarrow> sns_subscription \<Rightarrow> bool" where
  "HasSubscription topic subscription =
     list_ex (\<lambda>s. sub_protocol s = sub_protocol subscription \<and> sub_endpoint s = sub_endpoint subscription) (t_subscriptions topic)"

definition HasSubscriptionArn :: "sns_topic \<Rightarrow> string \<Rightarrow> bool" where
  "HasSubscriptionArn topic subscriptionArn =
     list_ex (\<lambda>s. sub_subscriptionArn s = subscriptionArn) (t_subscriptions topic)"

fun index_from :: "('a \<Rightarrow> bool) \<Rightarrow> int \<Rightarrow> 'a list \<Rightarrow> int" where
  "index_from P i [] = -1"
| "index_from P i (x # xs) = (if P x then i else index_from P (i + 1) xs)"

definition GetSubscriptionIndex :: "sns_topic \<Rightarrow> string \<Rightarrow> int" where
  "GetSubscriptionIndex topic subscriptionArn =
     index_from (\<lambda>s. sub_subscriptionArn s = subscriptionArn) 0 (t_subscriptions topic)"

subsection \<open>Topics\<close>

record sns_repo =
  topics :: "sns_topic omap"
  sns_messages :: "sns_message omap"

definition sns_inv :: "sns_repo \<Rightarrow> bool" where
  "sns_inv st \<longleftrightarrow> omap_inv (topics st) \<and> omap_inv (sns_messages st)"

definition with_topics :: "sns_repo \<Rightarrow> sns_topic omap \<times> 'a \<Rightarrow> sns_repo \<times> 'a" where
  "with_topics st r = (st\<lparr>topics := fst r\<rparr>, snd r)"

definition with_sns_messages :: "sns_repo \<Rightarrow> sns_message omap \<times> 'a \<Rightarrow> sns_repo \<times> 'a" where
  "with_sns_messages st r = (st\<lparr>sns_messages := fst r\<rparr>, snd r)"

definition sns_topicExists :: "sns_repo \<Rightarrow> string \<Rightarrow> string \<Rightarrow> bool" where
  "sns_topicExists st region name = found (\<lambda>(_, t). t_region t = region \<and> t_topicName t = name) (topics st)"

text \<open>The overload with one argument calls it a name and compares it with the ARN.\<close>

definition sns_topicExistsName :: "sns_repo \<Rightarrow> string \<Rightarrow> bool" where
  "sns_topicExistsName st topicName = found (\<lambda>(_, t). t_topicArn t = topicName) (topics st)"

definition sns_getTopicById :: "time_point \<Rightarrow> sns_repo \<Rightarrow> string \<Rightarrow> sns_repo \<times> sns_topic" where
  "sns_getTopicById now st oid =
     with_topics st (get_or (default_topic now) set_t_oid (\<lambda>(k, _). k = oid) (topics st))"

definition sns_getTopicByArn :: "time_point \<Rightarrow> sns_repo \<Rightarrow> string \<Rightarrow> sns_repo \<times> sns_topic" where
  "sns_getTopicByArn now st topicArn =
     with_topics st (get_or (default_topic now) set_t_oid (\<lambda>(_, t). t_topicArn t = topicArn) (topics st))"

definition sns_getTopicByName :: "time_point \<Rightarrow> sns_repo \<Rightarrow> string \<Rightarrow> string \<Rightarrow> sns_repo \<times> sns_topic" where
  "sns_getTopicByName now st region topicName =
     with_topics st (get_or (default_topic now) set_t_oid
       (\<lambda>(_, t). t_region t = region \<and> t_topicName t = topicName) (topics st))"

definition sns_getTopicByTargetArn :: "time_point \<Rightarrow> sns_repo \<Rightarrow> string \<Rightarrow> sns_repo \<times> sns_topic" where
  "sns_getTopicByTargetArn now st targetArn =
     with_topics st (get_or (default_topic now) set_t_oid (\<lambda>(_, t). t_targetArn t = targetArn) (topics st))"

definition sns_getTopicsBySubscriptionArn :: "sns_repo \<Rightarrow> string \<Rightarrow> sns_topic list" where
  "sns_getTopicsBySubscriptionArn st subscriptionArn =
     filter (\<lambda>t. t_subscriptions t \<noteq> [] \<and>
                 list_ex (\<lambda>s. sub_subscriptionArn s = subscriptionArn) (t_subscriptions t)) (values_of (topics st))"

definition sns_createTopic :: "uuid \<Rightarrow> sns_repo \<Rightarrow> sns_topic \<Rightarrow> sns_repo \<times> sns_topic \<times> sns_topic" where
  "sns_createTopic uuid st topic =
     (let topic' = topic\<lparr>t_oid := uuid\<rparr> in
      (st\<lparr>topics := omap_insert (t_oid topic') topic' (topics st)\<rparr>, topic', topic'))"

text \<open>\<open>updateTopic\<close> dereferences what \<open>find_if\<close> returned without comparing it with \<open>end()\<close>.\<close>

definition sns_updateTopic :: "time_point \<Rightarrow> sns_repo \<Rightarrow> sns_topic \<Rightarrow> (sns_repo \<times> sns_topic \<times> sns_topic) outcome" where
  "sns_updateTopic now st topic =
     (let topic' = topic\<lparr>t_modified := now\<rparr>; region = t_region topic'; name = t_topicName topic' in
      case replace_found (\<lambda>(_, t). t_region t = region \<and> t_topicName t = name) topic' (topics st) of
        Some (ts, r) \<Rightarrow> Inr (st\<lparr>topics := ts\<rparr>, topic', r)
      | None \<Rightarrow> Inl UndefinedBehaviour)"

definition sns_createOrUpdateTopic :: "uuid \<Rightarrow> time_point \<Rightarrow> sns_repo \<Rightarrow> sns_topic \<Rightarrow> (sns_repo \<times> sns_topic \<times> sns_topic) outcome" where
  "sns_createOrUpdateTopic uuid now st topic =
     (if sns_topicExists st (t_region topic) (t_topicName topic) then sns_updateTopic now st topic
      else Inr (sns_createTopic uuid st topic))"

definition sns_importTopic :: "uuid \<Rightarrow> time_point \<Rightarrow> sns_repo \<Rightarrow> sns_topic \<Rightarrow> (sns_repo \<times> sns_topic) outcome" where
  "sns_importTopic uuid now st topic =
     (case sns_createOrUpdateTopic uuid now st topic of
        Inl e \<Rightarrow> Inl e
      | Inr (st', topic', _) \<Rightarrow> Inr (st', topic'))"

definition sns_listTopics :: "sns_repo \<Rightarrow> string \<Rightarrow> sns_topic list" where
  "sns_listTopics st region =
     (if region = [] then values_of (topics st)
      else filter (\<lambda>t. t_region t = region) (values_of (topics st)))"

text \<open>The paged overload has the same body: prefix, page and sort columns are not read.\<close>

definition sns_listTopicsPaged :: "sns_repo \<Rightarrow> string \<Rightarrow> int \<Rightarrow> int \<Rightarrow> sort_column list \<Rightarrow> string \<Rightarrow> sns_topic list" where
  "sns_listTopicsPaged st pre pageSize pageIndex sortColumns region =
     (if region = [] then values_of (topics st)
      else filter (\<lambda>t. t_region t = region) (values_of (topics st)))"

definition sns_exportTopics :: "sns_repo \<Rightarrow> sort_column list \<Rightarrow> sns_topic list" where
  "sns_exportTopics st sortColumns = std_sort (by_key 1 t_topicName) (values_of (topics st))"

definition sns_countTopics :: "sns_repo \<Rightarrow> string \<Rightarrow> string \<Rightarrow> int" where
  "sns_countTopics st region pre =
     (if region = [] then int (length (topics st))
      else count_if (\<lambda>t. t_region t = region) (values_of (topics st)))"

definition sns_purgeTopic :: "sns_repo \<Rightarrow> sns_topic \<Rightarrow> sns_repo \<times> int" where
  "sns_purgeTopic st topic =
     with_sns_messages st (erase_if (\<lambda>(_, m). sm_topicArn m = t_topicArn topic) (sns_messages st))"

definition sns_getTopicSize :: "sns_repo \<Rightarrow> string \<Rightarrow> int" where
  "sns_getTopicSize st topicArn =
     foldl (\<lambda>sum (_, m). if sm_topicArn m = topicArn then sum + sm_size m else sum) 0 (rev (sns_messages st))"

definition sns_updateTopicCounter :: "sns_repo \<Rightarrow> string \<Rightarrow> int \<Rightarrow> int \<Rightarrow> int \<Rightarrow> int \<Rightarrow> int \<Rightarrow> sns_repo" where
  "sns_updateTopicCounter st topicArn msgs sz initial send resend =
     (case modify_found (\<lambda>(_, t). t_topicArn t = topicArn) (\<lambda>t. t\<lparr>t_size := sz, t_messages := msgs\<rparr>) (topics st) of
        Some (ts, _) \<Rightarrow> st\<lparr>topics := ts\<rparr>
      | None \<Rightarrow> st)"

definition sns_deleteTopic :: "sns_repo \<Rightarrow> sns_topic \<Rightarrow> sns_repo" where
  "sns_deleteTopic st topic =
     st\<lparr>topics := fst (erase_if (\<lambda>(_, t). t_region t = t_region topic \<and> t_topicArn t = t_topicArn topic) (topics st))\<rparr>"

definition sns_deleteAllTopics :: "sns_repo \<Rightarrow> sns_repo \<times> int" where
  "sns_deleteAllTopics st = (st\<lparr>topics := []\<rparr>, int (length (topics st)))"

subsection \<open>Messages\<close>

text \<open>\<open>messageExists\<close> compares its argument with the key of the map.\<close>

definition sns_messageExists :: "sns_repo \<Rightarrow> string \<Rightarrow> bool" where
  "sns_messageExists st ident = found (\<lambda>(k, _). k = ident) (sns_messages st)"

definition sns_createMessage :: "uuid \<Rightarrow> sns_repo \<Rightarrow> sns_message \<Rightarrow> sns_repo \<times> sns_message \<times> sns_message" where
  "sns_createMessage uuid st m = (st\<lparr>sns_messages := omap_insert uuid m (sns_messages st)\<rparr>, m, m)"

definition sns_updateMessage :: "time_point \<Rightarrow> sns_repo \<Rightarrow> sns_message \<Rightarrow> sns_repo \<times> sns_message \<times> sns_message" where
  "sns_updateMessage now st m =
     (let m' = m\<lparr>sm_modified := now\<rparr> in
      case replace_found (\<lambda>(k, _). k = sm_oid m') m' (sns_messages st) of
        Some (ms, r) \<Rightarrow> (st\<lparr>sns_messages := ms\<rparr>, m', r)
      | None \<Rightarrow> (st, m', default_sns_message now))"

definition sns_createOrUpdateMessage :: "uuid \<Rightarrow> time_point \<Rightarrow> sns_repo \<Rightarrow> sns_message \<Rightarrow> sns_repo \<times> sns_message \<times> sns_message" where
  "sns_createOrUpdateMessage uuid now st m =
     (if sns_messageExists st (sm_messageId m) then sns_updateMessage now st m
      else sns_createMessage uuid st m)"

definition sns_getMessageById :: "time_point \<Rightarrow> sns_repo \<Rightarrow> string \<Rightarrow> sns_repo \<times> sns_message" where
  "sns_getMessageById now st oid =
     with_sns_messages st (get_or (default_sns_message now) set_sm_oid (\<lambda>(k, _). k = oid) (sns_messages st))"

definition sns_getMessageByMessageId :: "time_point \<Rightarrow> sns_repo \<Rightarrow> string \<Rightarrow> sns_message" where
  "sns_getMessageByMessageId now st messageId =
     (case find_if (\<lambda>(k, _). k = messageId) (sns_messages st) of
        Some (_, m) \<Rightarrow> m
      | None \<Rightarrow> default_sns_message now)"

definition sns_countMessages :: "sns_repo \<Rightarrow> string \<Rightarrow> int" where
  "sns_countMessages st topicArn =
     (if topicArn = [] then int (length (sns_messages st))
      else count_if (\<lambda>(_, m). sm_topicArn m = topicArn) (sns_messages st))"

definition sns_countMessagesByStatus :: "sns_repo \<Rightarrow> string \<Rightarrow> sns_status \<Rightarrow> int" where
  "sns_countMessagesByStatus st topicArn status =
     count_if (\<lambda>(_, m). sm_topicArn m = topicArn \<and> sm_status m = status) (sns_messages st)"

definition sns_listMessages :: "sns_repo \<Rightarrow> string \<Rightarrow> string \<Rightarrow> int \<Rightarrow> int \<Rightarrow> sort_column list \<Rightarrow> sns_message list" where
  "sns_listMessages st topicArn pre pageSize pageIndex sortColumns =
     where_if topicArn (\<lambda>m. sm_topicArn m = topicArn) (values_of (sns_messages st))"

definition sns_setMessageStatus :: "time_point \<Rightarrow> sns_repo \<Rightarrow> sns_message \<Rightarrow> sns_status \<Rightarrow> sns_repo" where
  "sns_setMessageStatus now st message status =
     (case modify_found (\<lambda>(k, _). k = sm_oid message) (\<lambda>m. m\<lparr>sm_status := status, sm_modified := now\<rparr>) (sns_messages st) of
        Some (ms, _) \<Rightarrow> st\<lparr>sns_messages := ms\<rparr>
      | None \<Rightarrow> st)"

definition sns_deleteMessageById :: "sns_repo \<Rightarrow> string \<Rightarrow> sns_repo \<times> int" where
  "sns_deleteMessageById st messageId =
     with_sns_messages st (erase_if (\<lambda>(_, m). sm_messageId m = messageId) (sns_messages st))"

definition sns_deleteMessage :: "sns_repo \<Rightarrow> sns_message \<Rightarrow> sns_repo \<times> int" where
  "sns_deleteMessage st message = sns_deleteMessageById st (sm_messageId message)"

definition sns_deleteMessages :: "sns_repo \<Rightarrow> string \<Rightarrow> string \<Rightarrow> string list \<Rightarrow> sns_repo \<times> int" where
  "sns_deleteMessages st region topicArn messageIds =
     with_sns_messages st (erase_if
       (\<lambda>(_, m). sm_region m = region \<and> sm_topicArn m = topicArn \<and> sm_messageId m \<in> set messageIds) (sns_messages st))"

definition sns_deleteOldMessages :: "time_point \<Rightarrow> sns_repo \<Rightarrow> int \<Rightarrow> sns_repo" where
  "sns_deleteOldMessages now st timeout =
     (let reset = now - seconds timeout in
      st\<lparr>sns_messages := fst (erase_if (\<lambda>(_, m). sm_created m < reset) (sns_messages st))\<rparr>)"

definition sns_deleteAllMessages :: "sns_repo \<Rightarrow> sns_repo \<times> int" where
  "sns_deleteAllMessages st = (st\<lparr>sns_messages := []\<rparr>, int (length (sns_messages st)))"

text \<open>
  \<open>adjustMessageCounters\<close> walks the topics in key order and writes the counters of
  \<open>_topics[topic.oid]\<close>. For an object id that is no key, \<open>operator[]\<close> of the \<open>std::map\<close> inserts a
  default topic, which leaves the iterator valid; the walk meets it when its key lies ahead. The
  loop is over the key the iterator stands on (\<open>None\<close> before the first). It ends, since a visited
  topic that is not a default one adds at most one default one ahead, and a default one, whose
  object id is empty, adds nothing ahead.
\<close>

definition entry_after :: "string option \<Rightarrow> 'v omap \<Rightarrow> (string \<times> 'v) option" where
  "entry_after cur m = List.find (\<lambda>(k, _). case cur of None \<Rightarrow> True | Some c \<Rightarrow> c < k) m"

definition set_sns_counters :: "sns_repo \<Rightarrow> string \<Rightarrow> sns_topic \<Rightarrow> sns_topic" where
  "set_sns_counters st arn t = t\<lparr>
     t_messages := sns_countMessagesByStatus st arn SNS_INITIAL,
     t_messagesSend := sns_countMessagesByStatus st arn SNS_SEND,
     t_messagesResend := sns_countMessagesByStatus st arn SNS_RESEND\<rparr>"

definition visit_topic :: "time_point \<Rightarrow> sns_repo \<Rightarrow> sns_topic \<Rightarrow> sns_topic omap \<Rightarrow> sns_topic omap" where
  "visit_topic now st topic ts =
     (let ts = (if map_of ts (t_oid topic) = None then omap_insert (t_oid topic) (default_topic now) ts else ts) in
      modify (t_oid topic) (set_sns_counters st (t_topicArn topic)) ts)"

definition ahead_weight :: "string option \<Rightarrow> sns_topic omap \<Rightarrow> nat" where
  "ahead_weight cur ts =
     sum_list (map (\<lambda>(k, t). if (case cur of None \<Rightarrow> True | Some c \<Rightarrow> c < k) then (if t_oid t = [] then 1 else 2) else 0) ts)"

lemma set_sns_counters_oid [simp]: "t_oid (set_sns_counters st arn t) = t_oid t"
  by (simp add: set_sns_counters_def)

lemma ahead_weight_modify: "(\<And>t. t_oid (f t) = t_oid t) \<Longrightarrow> ahead_weight cur (modify k f ts) = ahead_weight cur ts"
  by (induction ts) (auto simp: ahead_weight_def modify_def)

lemma ahead_weight_insert:
  "map_of ts k = None \<Longrightarrow> ahead_weight cur (omap_insert k t ts) =
     ahead_weight cur ts + (if (case cur of None \<Rightarrow> True | Some c \<Rightarrow> c < k) then (if t_oid t = [] then 1 else 2) else 0)"
  by (induction k t ts rule: omap_insert.induct) (auto simp: ahead_weight_def split: if_splits)

lemma ahead_weight_visit:
  assumes "entry_after cur ts = Some (k, t)"
  shows "ahead_weight (Some k) (visit_topic now st t ts) < ahead_weight cur ts"
proof -
  let ?w = "if t_oid t = [] then 1 else (2::nat)"
  have mem: "(k, t) \<in> set ts" and ahead: "case cur of None \<Rightarrow> True | Some c \<Rightarrow> c < k"
    using find_Some_set [OF assms [unfolded entry_after_def]] by auto
  then have "ahead_weight (Some k) ts + ?w \<le> ahead_weight cur ts"
  proof (induction ts)
    case Nil
    then show ?case by simp
  next
    case (Cons kv ts)
    have mono: "ahead_weight (Some k) ts \<le> ahead_weight cur ts" for ts :: "sns_topic omap"
      using ahead by (induction ts) (auto simp: ahead_weight_def split: option.splits dest: order.strict_trans)
    show ?case
    proof (cases "kv = (k, t)")
      case True
      then show ?thesis using ahead mono [of ts] by (auto simp: ahead_weight_def)
    next
      case False
      then have "ahead_weight (Some k) ts + ?w \<le> ahead_weight cur ts" using Cons by auto
      then show ?thesis using ahead by (auto simp: ahead_weight_def split: option.splits prod.splits dest: order.strict_trans)
    qed
  qed
  moreover have "\<not> k < ([] :: string)" by simp
  ultimately show ?thesis
    by (auto simp: visit_topic_def Let_def ahead_weight_modify ahead_weight_insert default_topic_def split: if_splits)
qed

function sns_adjust_loop :: "time_point \<Rightarrow> sns_repo \<Rightarrow> string option \<Rightarrow> sns_topic omap \<Rightarrow> sns_topic omap" where
  "sns_adjust_loop now st cur ts =
     (case entry_after cur ts of
        None \<Rightarrow> ts
      | Some (k, topic) \<Rightarrow> sns_adjust_loop now st (Some k) (visit_topic now st topic ts))"
  by pat_completeness auto

termination
  by (relation "measure (\<lambda>(now, st, cur, ts). ahead_weight cur ts)") (auto intro: ahead_weight_visit)

declare sns_adjust_loop.simps [simp del]

definition sns_adjustMessageCounters :: "time_point \<Rightarrow> sns_repo \<Rightarrow> sns_repo" where
  "sns_adjustMessageCounters now st = st\<lparr>topics := sns_adjust_loop now st None (topics st)\<rparr>"

end
