(* ===== verification/Actions.thy ===== *)
theory Actions
  imports Prelude
begin

text \<open>
  Operations of a service over a state that several repositories share. An action maps a state to
  the state it leaves and to its outcome: an exception leaves the changes made before it in place,
  as a C++ exception does. The collection \<open>run_simps\<close> runs an action that is applied to a state.
\<close>

type_synonym ('s, 'a) action = "'s \<Rightarrow> 's \<times> 'a outcome"

named_theorems run_simps \<open>running an action on a state\<close>

definition act_return :: "'a \<Rightarrow> ('s, 'a) action" where
  "act_return x = (\<lambda>s. (s, Inr x))"

definition act_throw :: "fault \<Rightarrow> ('s, 'a) action" where
  "act_throw e = (\<lambda>s. (s, Inl e))"

definition act_bind :: "('s, 'a) action \<Rightarrow> ('a \<Rightarrow> ('s, 'b) action) \<Rightarrow> ('s, 'b) action" where
  "act_bind a f = (\<lambda>s. case a s of (s', Inl e) \<Rightarrow> (s', Inl e) | (s', Inr x) \<Rightarrow> f x s')"

definition act_check :: "('s \<Rightarrow> bool) \<Rightarrow> fault \<Rightarrow> ('s, 'a) action \<Rightarrow> ('s, 'a) action" where
  "act_check P e a = (\<lambda>s. if P s then a s else (s, Inl e))"

definition act_read :: "('s \<Rightarrow> 'a) \<Rightarrow> ('s, 'a) action" where
  "act_read f = (\<lambda>s. (s, Inr (f s)))"

text \<open>A handler that throws another exception for the one it caught.\<close>

definition act_catch :: "(fault \<Rightarrow> fault) \<Rightarrow> ('s, 'a) action \<Rightarrow> ('s, 'a) action" where
  "act_catch h a = (\<lambda>s. case a s of (s', Inl e) \<Rightarrow> (s', Inl (h e)) | (s', Inr x) \<Rightarrow> (s', Inr x))"

text \<open>An action on a part of the state.\<close>

definition act_part :: "('s \<Rightarrow> 'p) \<Rightarrow> ('p \<Rightarrow> 's \<Rightarrow> 's) \<Rightarrow> ('p, 'a) action \<Rightarrow> ('s, 'a) action" where
  "act_part get put a = (\<lambda>s. let (p, x) = a (get s) in (put p s, x))"

text \<open>The body of a loop over a vector, with the number of the round.\<close>

fun act_each :: "(nat \<Rightarrow> 'x \<Rightarrow> ('s, unit) action) \<Rightarrow> nat \<Rightarrow> 'x list \<Rightarrow> ('s, unit) action" where
  "act_each body i [] = act_return ()"
| "act_each body i (x # xs) = act_bind (body i x) (\<lambda>_. act_each body (Suc i) xs)"

lemma run_return [run_simps]: "act_return x s = (s, Inr x)"
  by (simp add: act_return_def)

lemma run_throw [run_simps]: "act_throw e s = (s, Inl e)"
  by (simp add: act_throw_def)

lemma run_read [run_simps]: "act_read f s = (s, Inr (f s))"
  by (simp add: act_read_def)

lemma run_check [run_simps]:
  "P s \<Longrightarrow> act_check P e a s = a s" "\<not> P s \<Longrightarrow> act_check P e a s = (s, Inl e)"
  by (simp_all add: act_check_def)

lemma run_bind:
  "a s = (s', Inr x) \<Longrightarrow> act_bind a f s = f x s'" "a s = (s', Inl e) \<Longrightarrow> act_bind a f s = (s', Inl e)"
  by (simp_all add: act_bind_def)

lemma run_bind_cases:
  obtains (fails) s' e where "a s = (s', Inl e)" "act_bind a f s = (s', Inl e)"
  | (continues) s' x where "a s = (s', Inr x)" "act_bind a f s = f x s'"
  by (cases "a s"; cases "snd (a s)") (auto simp: act_bind_def)

lemma bind_return_left [run_simps]: "act_bind (act_return x) f = f x"
  by (simp add: act_bind_def act_return_def fun_eq_iff)

lemma bind_throw_left [run_simps]: "act_bind (act_throw e) f = act_throw e"
  by (simp add: act_bind_def act_throw_def fun_eq_iff)

lemma bind_assoc: "act_bind (act_bind a f) g = act_bind a (\<lambda>x. act_bind (f x) g)"
  by (auto simp: act_bind_def fun_eq_iff split: sum.splits prod.splits)

lemma act_each_append:
  "act_each body i (xs @ ys) = act_bind (act_each body i xs) (\<lambda>_. act_each body (i + length xs) ys)"
  by (induction xs arbitrary: i) (simp_all add: bind_assoc run_simps)

text \<open>A loop stops where a round throws, whatever is left of the vector.\<close>

lemma act_each_stops:
  assumes "act_each body i xs s = (s', Inr ())" "body (i + length xs) x s' = (s'', Inl e)"
  shows "act_each body i (xs @ x # ys) s = (s'', Inl e)"
  using assms by (simp add: act_each_append run_bind)

subsection \<open>Triples\<close>

text \<open>
  From a state with \<open>P\<close>, the action ends in a result and a state with \<open>Q\<close>, or throws and leaves a
  state with \<open>E\<close>. \<open>keeps I\<close> is the case of an invariant, which holds after an exception too.
\<close>

definition triple :: "('s \<Rightarrow> bool) \<Rightarrow> ('s \<Rightarrow> bool) \<Rightarrow> ('s, 'a) action \<Rightarrow> ('a \<Rightarrow> 's \<Rightarrow> bool) \<Rightarrow> bool" where
  "triple E P a Q \<longleftrightarrow> (\<forall>s. P s \<longrightarrow> (case a s of (s', Inl e) \<Rightarrow> E s' | (s', Inr x) \<Rightarrow> Q x s'))"

definition keeps :: "('s \<Rightarrow> bool) \<Rightarrow> ('s, 'a) action \<Rightarrow> bool" where
  "keeps I a \<longleftrightarrow> (\<forall>s. I s \<longrightarrow> I (fst (a s)))"

lemma keepsD: "keeps I a \<Longrightarrow> I s \<Longrightarrow> I (fst (a s))"
  by (simp add: keeps_def)

lemma keeps_triple: "keeps I a \<longleftrightarrow> triple I I a (\<lambda>_. I)"
proof -
  have "(case r of (s', Inl e) \<Rightarrow> I s' | (s', Inr x) \<Rightarrow> I s') = I (fst r)" for r :: "'a \<times> 'b outcome"
    by (cases r; cases "snd r") simp_all
  then show ?thesis by (simp add: keeps_def triple_def)
qed

named_theorems keeps_rules \<open>actions that keep an invariant\<close>

lemma triple_bind:
  assumes "triple E P a Q" "\<And>x. triple E (Q x) (f x) R" shows "triple E P (act_bind a f) R"
  unfolding triple_def
proof (intro allI impI)
  fix s assume "P s"
  then have a: "case a s of (s', Inl e) \<Rightarrow> E s' | (s', Inr x) \<Rightarrow> Q x s'" using assms(1) by (simp add: triple_def)
  show "case act_bind a f s of (s', Inl e) \<Rightarrow> E s' | (s', Inr y) \<Rightarrow> R y s'"
  proof (cases rule: run_bind_cases [of a s f])
    case fails
    then show ?thesis using a by simp
  next
    case (continues s' x)
    then show ?thesis using a assms(2) [of x] by (simp add: triple_def)
  qed
qed

lemma keeps_bind_triple:
  "triple I I a Q \<Longrightarrow> (\<And>x. triple I (Q x) (f x) (\<lambda>_. I)) \<Longrightarrow> keeps I (act_bind a f)"
  unfolding keeps_triple by (rule triple_bind)

lemma triple_of_keeps: "keeps I a \<Longrightarrow> (\<And>s. P s \<Longrightarrow> I s) \<Longrightarrow> triple I P a (\<lambda>_. I)"
  by (simp add: keeps_triple triple_def)

lemma keeps_return [keeps_rules]: "keeps I (act_return x)"
  by (simp add: keeps_def run_simps)

lemma keeps_throw [keeps_rules]: "keeps I (act_throw e)"
  by (simp add: keeps_def run_simps)

lemma keeps_read [keeps_rules]: "keeps I (act_read f)"
  by (simp add: keeps_def run_simps)

lemma keeps_check [keeps_rules]: "keeps I a \<Longrightarrow> keeps I (act_check P e a)"
  by (simp add: keeps_def act_check_def)

lemma run_catch [run_simps]:
  "a s = (s', Inr x) \<Longrightarrow> act_catch h a s = (s', Inr x)" "a s = (s', Inl e) \<Longrightarrow> act_catch h a s = (s', Inl (h e))"
  by (simp_all add: act_catch_def)

lemma keeps_catch [keeps_rules]: "keeps I a \<Longrightarrow> keeps I (act_catch h a)"
  by (auto simp: keeps_def act_catch_def split: prod.splits sum.splits)

lemma keeps_part: "keeps J a \<Longrightarrow> (\<And>s. I s \<Longrightarrow> J (get s)) \<Longrightarrow> (\<And>s p. I s \<Longrightarrow> J p \<Longrightarrow> I (put p s)) \<Longrightarrow> keeps I (act_part get put a)"
  by (simp add: keeps_def act_part_def split_beta)

lemma keeps_bind [keeps_rules]: "keeps I a \<Longrightarrow> (\<And>x. keeps I (f x)) \<Longrightarrow> keeps I (act_bind a f)"
  unfolding keeps_triple by (rule triple_bind)

lemma keeps_each [keeps_rules]: "(\<And>i x. x \<in> set xs \<Longrightarrow> keeps I (body i x)) \<Longrightarrow> keeps I (act_each body i xs)"
proof (induction xs arbitrary: i)
  case Nil
  then show ?case by (simp add: keeps_return)
next
  case (Cons x xs)
  then show ?case by (simp add: keeps_bind)
qed

lemma keeps_if [keeps_rules]: "(b \<Longrightarrow> keeps I a) \<Longrightarrow> (\<not> b \<Longrightarrow> keeps I c) \<Longrightarrow> keeps I (if b then a else c)"
  by simp

lemma keeps_conj: "keeps I a \<Longrightarrow> keeps J a \<Longrightarrow> keeps (\<lambda>s. I s \<and> J s) a"
  by (simp add: keeps_def)

end
