(* ===== verification/SnsService.thy ===== *)
theory SnsService
  imports SqsMessages SnsRepo Actions
begin

text \<open>
  The SNS service (\<open>srv/src/sns/SNSService.cpp\<close>): topics, subscriptions, publishing and the delivery
  of a message to the subscribers, with the mappers of its requests
  (\<open>dto/include/awsmock/dto/sns/mapper/Mapper.h\<close>). The service holds three repositories and calls the
  SQS service; together with what leaves the process (HTTP posts and the signal that invokes a
  Lambda function) they are the state \<open>sns_world\<close>. An operation is an action over it: an exception
  in the middle of a delivery leaves what was delivered before.

  Parameters are, beside those of the SQS service, Base64 and the JSON writers of the notifications
  (\<open>sns_env\<close>); the fresh ids and clock readings of one delivery are a \<open>delivery_ids\<close>. The state and
  the outcome of the HTTP connection do not matter: every failure is caught and logged.
\<close>

subsection \<open>Requests, notifications and their mappers\<close>

datatype sns_dto_type = SD_STRING | SD_STRING_LIST | SD_NUMBER | SD_NUMBER_LIST | SD_BINARY | SD_BINARY_LIST

definition sns_dto_type_names :: "(sns_dto_type \<times> string) list" where
  "sns_dto_type_names =
     [(SD_STRING, ''String''), (SD_STRING_LIST, ''StringList''), (SD_NUMBER, ''Number''),
      (SD_NUMBER_LIST, ''NumberList''), (SD_BINARY, ''Binary''), (SD_BINARY_LIST, ''BinaryList'')]"

definition sns_DataTypeToString :: "sns_dto_type \<Rightarrow> string" where
  "sns_DataTypeToString t = enum_to_string sns_dto_type_names t"

definition sns_DataTypeFromString :: "string \<Rightarrow> sns_dto_type" where
  "sns_DataTypeFromString s = enum_from_string sns_dto_type_names SD_STRING s"

record sns_dto_attribute =
  sd_stringValue :: string
  sd_stringListValues :: "string list"
  sd_binaryValue :: "8 word list"
  sd_binaryListValues :: "8 word list list"
  sd_dataType :: sns_dto_type

definition default_sns_attribute :: sns_message_attribute where
  "default_sns_attribute =
     \<lparr>sa_stringValue = [], sa_stringListValues = [], sa_binaryValue = [], sa_binaryListValues = [], sa_dataType = SNS_STRING\<rparr>"

text \<open>Both directions keep only the type and the string value.\<close>

definition sns_Attribute_toDto :: "sns_message_attribute \<Rightarrow> sns_dto_attribute" where
  "sns_Attribute_toDto e =
     \<lparr>sd_stringValue = sa_stringValue e, sd_stringListValues = [], sd_binaryValue = [], sd_binaryListValues = [],
      sd_dataType = sns_DataTypeFromString (sns_MessageAttributeTypeToString (sa_dataType e))\<rparr>"

definition sns_Attribute_toEntity :: "sns_dto_attribute \<Rightarrow> sns_message_attribute" where
  "sns_Attribute_toEntity d =
     default_sns_attribute\<lparr>sa_dataType := sns_MessageAttributeTypeFromString (sns_DataTypeToString (sd_dataType d)),
       sa_stringValue := sd_stringValue d\<rparr>"

definition sns_toDtoMap :: "(string \<times> sns_message_attribute) list \<Rightarrow> (string \<times> sns_dto_attribute) list" where
  "sns_toDtoMap m = map (\<lambda>(k, v). (k, sns_Attribute_toDto v)) m"

definition sns_toEntityMap :: "(string \<times> sns_dto_attribute) list \<Rightarrow> (string \<times> sns_message_attribute) list" where
  "sns_toEntityMap m = map (\<lambda>(k, v). (k, sns_Attribute_toEntity v)) m"

record publish_request =
  pr_region :: string
  pr_user :: string
  pr_requestId :: string
  pr_contentType :: string
  pr_topicArn :: string
  pr_targetArn :: string
  pr_message :: string
  pr_messageAttributes :: "(string \<times> sns_dto_attribute) list"

definition PublishRequest_toEntity :: "time_point \<Rightarrow> publish_request \<Rightarrow> sns_message" where
  "PublishRequest_toEntity now d =
     (default_sns_message now)\<lparr>sm_region := pr_region d, sm_topicArn := pr_topicArn d, sm_targetArn := pr_targetArn d,
       sm_contentType := pr_contentType d, sm_message := pr_message d,
       sm_messageAttributes := sns_toEntityMap (pr_messageAttributes d)\<rparr>"

record notification_attribute =
  na_type :: string
  na_value :: string

record sqs_notification =
  nt_requestId :: string
  nt_type :: string
  nt_messageId :: string
  nt_topicArn :: string
  nt_message :: string
  nt_timestamp :: time_point
  nt_signature :: string
  nt_signatureVersion :: string
  nt_signingCertURL :: string
  nt_unsubscribeURL :: string
  nt_messageAttributes :: "(string \<times> notification_attribute) list"

record sns_event_record =
  er_messageId :: string
  er_receiptHandle :: string
  er_body :: string
  er_attributes :: "(string \<times> string) list"
  er_messageAttributes :: "(string \<times> sns_dto_attribute) list"
  er_md5Sum :: string
  er_eventSource :: string
  er_eventSourceArn :: string

record sns_env =
  n_sqs :: sqs_env
  n_base64 :: "8 word list \<Rightarrow> string"
  n_notification_json :: "sqs_notification \<Rightarrow> string"
  n_event_json :: "sns_event_record list \<Rightarrow> string"

record delivery_ids =
  dl_notificationId :: string
  dl_timestamp :: time_point
  dl_lookup :: time_point
  dl_layout :: layout
  dl_message :: message_ids
  dl_clock :: "nat \<Rightarrow> time_point"
  dl_receipt :: string
  dl_done :: time_point

subsection \<open>The state and the repositories' operations as actions\<close>

text \<open>What leaves the process: a post is recorded when it is attempted, as a connection that fails is only logged.\<close>

datatype sns_event = HttpPost string string string string | LambdaInvoked string string string

record sns_world =
  w_sns :: sns_repo
  w_sqs :: sqs_repo
  w_lam :: lambda_repo
  w_out :: "sns_event list"

definition on_sns :: "(sns_repo \<Rightarrow> sns_repo \<times> 'a) \<Rightarrow> (sns_world, 'a) action" where
  "on_sns f = (\<lambda>w. let (st, x) = f (w_sns w) in (w\<lparr>w_sns := st\<rparr>, Inr x))"

text \<open>An operation that throws has changed nothing.\<close>

definition try_sns :: "(sns_repo \<Rightarrow> (sns_repo \<times> 'a) outcome) \<Rightarrow> (sns_world, 'a) action" where
  "try_sns f = (\<lambda>w. case f (w_sns w) of Inl e \<Rightarrow> (w, Inl e) | Inr (st, x) \<Rightarrow> (w\<lparr>w_sns := st\<rparr>, Inr x))"

definition on_sqs :: "(sqs_repo \<Rightarrow> sqs_repo \<times> 'a) \<Rightarrow> (sns_world, 'a) action" where
  "on_sqs f = (\<lambda>w. let (st, x) = f (w_sqs w) in (w\<lparr>w_sqs := st\<rparr>, Inr x))"

definition try_sqs :: "(lambda_repo \<Rightarrow> sqs_repo \<Rightarrow> (sqs_repo \<times> 'a) outcome) \<Rightarrow> (sns_world, 'a) action" where
  "try_sqs f = (\<lambda>w. case f (w_lam w) (w_sqs w) of Inl e \<Rightarrow> (w, Inl e) | Inr (st, x) \<Rightarrow> (w\<lparr>w_sqs := st\<rparr>, Inr x))"

definition try_lam :: "(lambda_repo \<Rightarrow> (lambda_repo \<times> 'a) outcome) \<Rightarrow> (sns_world, 'a) action" where
  "try_lam f = (\<lambda>w. case f (w_lam w) of Inl e \<Rightarrow> (w, Inl e) | Inr (st, x) \<Rightarrow> (w\<lparr>w_lam := st\<rparr>, Inr x))"

definition emit :: "sns_event \<Rightarrow> (sns_world, unit) action" where
  "emit ev = (\<lambda>w. (w\<lparr>w_out := w_out w @ [ev]\<rparr>, Inr ()))"

definition need_topic :: "fault \<Rightarrow> string \<Rightarrow> (sns_world, 'a) action \<Rightarrow> (sns_world, 'a) action" where
  "need_topic e topicArn a = act_check (\<lambda>w. sns_topicExistsName (w_sns w) topicArn) e a"

subsection \<open>Delivery\<close>

definition notification_attributes :: "sns_env \<Rightarrow> (string \<times> sns_dto_attribute) list \<Rightarrow> (string \<times> notification_attribute) list" where
  "notification_attributes env m =
     map (\<lambda>(k, v). (k, let type = sns_DataTypeToString (sd_dataType v) in
       \<lparr>na_type = type, na_value = (if type = ''Binary'' then n_base64 env (sd_binaryValue v) else sd_stringValue v)\<rparr>)) m"

definition sqs_notification_of :: "sns_env \<Rightarrow> delivery_ids \<Rightarrow> publish_request \<Rightarrow> sqs_notification" where
  "sqs_notification_of env ids d =
     \<lparr>nt_requestId = pr_requestId d, nt_type = ''Notification'', nt_messageId = dl_notificationId ids,
      nt_topicArn = pr_topicArn d, nt_message = pr_message d, nt_timestamp = dl_timestamp ids, nt_signature = [],
      nt_signatureVersion = ''1'', nt_signingCertURL = [], nt_unsubscribeURL = [],
      nt_messageAttributes = notification_attributes env (pr_messageAttributes d)\<rparr>"

definition notification_request :: "sns_env \<Rightarrow> delivery_ids \<Rightarrow> publish_request \<Rightarrow> sqs_queue \<Rightarrow> send_request" where
  "notification_request env ids d queue =
     \<lparr>sr_region = pr_region d, sr_user = [], sr_queueUrl = q_url queue,
      sr_body = n_notification_json env (sqs_notification_of env ids d), sr_messageGroupId = [],
      sr_messageDeduplicationId = [], sr_delaySeconds = 0, sr_contentType = ''application/json'', sr_attributes = [],
      sr_messageAttributes = []\<rparr>"

definition SendSQSMessage :: "sns_env \<Rightarrow> delivery_ids \<Rightarrow> publish_request \<Rightarrow> sns_subscription \<Rightarrow> (sns_world, unit) action" where
  "SendSQSMessage env ids d subscription =
     (let queueArn = ConvertToArn (e_cfg (n_sqs env)) (pr_region d) (sub_endpoint subscription) in
      act_bind (on_sqs (\<lambda>st. sqs_getQueueByArn (dl_lookup ids) st queueArn)) (\<lambda>sqsQueue.
      act_bind (try_sqs (\<lambda>lam st. svc_sendMessage (n_sqs env) (dl_clock ids) (dl_layout ids) (dl_message ids) lam st
          (notification_request env ids d sqsQueue))) (\<lambda>_.
      act_return ())))"

text \<open>The endpoint is taken apart at the first slash and the first colon after \<open>http://\<close>.\<close>

definition http_prefix :: string where
  "http_prefix = ''http://''"

definition http_target :: "string \<Rightarrow> string \<times> string \<times> string" where
  "http_target host_port_path =
     (let host_port = takeWhile (\<lambda>c. c \<noteq> CHR ''/'') host_port_path;
          path = (if CHR ''/'' \<in> set host_port_path then dropWhile (\<lambda>c. c \<noteq> CHR ''/'') host_port_path else ''/'');
          (host, port) = (if CHR '':'' \<in> set host_port
            then (takeWhile (\<lambda>c. c \<noteq> CHR '':'') host_port, tl (dropWhile (\<lambda>c. c \<noteq> CHR '':'') host_port))
            else (host_port, ''80'')) in
      (host, port, path))"

text \<open>The body is put together without escaping the message.\<close>

definition http_body :: "string \<Rightarrow> string" where
  "http_body message =
     (let q = CHR 0x22 in
      CHR 0x7B # q # ''Type'' @ q # CHR '':'' # q # ''Notification'' @ q # CHR '','' # q # ''Message'' @ q # CHR '':'' # q
        # message @ [q, CHR 0x7D])"

definition SendHttpMessage :: "publish_request \<Rightarrow> sns_subscription \<Rightarrow> (sns_world, unit) action" where
  "SendHttpMessage d subscription =
     (let url = sub_endpoint subscription in
      if \<not> StartsWith url http_prefix then act_return ()
      else let (host, port, path) = http_target (drop (length http_prefix) url) in
        emit (HttpPost host port path (http_body (pr_message d))))"

definition event_record :: "sns_env \<Rightarrow> delivery_ids \<Rightarrow> sns_message \<Rightarrow> string \<Rightarrow> sns_event_record" where
  "event_record env ids message eventSourceArn =
     \<lparr>er_messageId = sm_messageId message, er_receiptHandle = dl_receipt ids, er_body = sm_message message,
      er_attributes = [], er_messageAttributes = sns_toDtoMap (sm_messageAttributes message),
      er_md5Sum = e_md5_body (n_sqs env) (sm_message message), er_eventSource = ''aws:sns'', er_eventSourceArn = eventSourceArn\<rparr>"

definition sns_SendLambdaInvocationRequest :: "sns_env \<Rightarrow> delivery_ids \<Rightarrow> lambda_fn \<Rightarrow> sns_message \<Rightarrow> string \<Rightarrow> (sns_world, unit) action" where
  "sns_SendLambdaInvocationRequest env ids lambda message eventSourceArn =
     emit (LambdaInvoked (cfg_region (e_cfg (n_sqs env))) (l_function lambda)
       (n_event_json env [event_record env ids message eventSourceArn]))"

definition SendLambdaMessage :: "sns_env \<Rightarrow> delivery_ids \<Rightarrow> publish_request \<Rightarrow> sns_message \<Rightarrow> sns_subscription \<Rightarrow> (sns_world, unit) action" where
  "SendLambdaMessage env ids d message subscription =
     act_bind (try_lam (\<lambda>st. lam_getLambdaByArn st (sub_endpoint subscription))) (\<lambda>lambda.
     sns_SendLambdaInvocationRequest env ids lambda message (pr_topicArn d))"

definition deliver_one :: "sns_env \<Rightarrow> delivery_ids \<Rightarrow> publish_request \<Rightarrow> sns_message \<Rightarrow> sns_subscription \<Rightarrow> (sns_world, unit) action" where
  "deliver_one env ids d message subscription =
     (let protocol = to_lower (sub_protocol subscription) in
      act_bind
        (if protocol = ''sqs'' then SendSQSMessage env ids d subscription
         else if protocol = ''http'' then SendHttpMessage d subscription
         else if protocol = ''lambda'' then SendLambdaMessage env ids d message subscription
         else act_return ())
        (\<lambda>_. on_sns (\<lambda>st. (sns_setMessageStatus (dl_done ids) st message SNS_SEND, ()))))"

definition CheckSubscriptions :: "sns_env \<Rightarrow> (nat \<Rightarrow> delivery_ids) \<Rightarrow> publish_request \<Rightarrow> sns_topic \<Rightarrow> sns_message \<Rightarrow> (sns_world, unit) action" where
  "CheckSubscriptions env ids d topic message =
     act_each (\<lambda>i. deliver_one env (ids i) d message) 0 (t_subscriptions topic)"

end
