(* ===== verification/SnsPublish.thy ===== *)
theory SnsPublish
  imports SnsService
begin

text \<open>
  Publishing, resending, topics and subscriptions of the SNS service
  (\<open>srv/src/sns/SNSService.cpp\<close>). The \<open>i\<close>-th reading of the clock in an operation is \<open>clock i\<close>; of a
  loop over topics or messages, the ids and readings of a round are indexed by its number.
\<close>

subsection \<open>Publishing\<close>

record publish_response =
  pp_messageId :: string
  pp_requestId :: string
  pp_region :: string

definition SanitizeContentType :: "sns_env \<Rightarrow> string \<Rightarrow> string \<Rightarrow> string" where
  "SanitizeContentType env contentType body =
     (if contentType = [] \<or> contentType = ''application/octet-stream'' \<or> contentType = ''binary/octet-stream''
      then e_magic (n_sqs env) body else contentType)"

definition message_to_publish :: "sns_env \<Rightarrow> time_point \<Rightarrow> string \<Rightarrow> publish_request \<Rightarrow> sns_message" where
  "message_to_publish env now messageId d =
     (PublishRequest_toEntity now d)\<lparr>sm_contentType := SanitizeContentType env (pr_contentType d) (pr_message d),
        sm_messageId := messageId, sm_size := int (length (pr_message d))\<rparr>"

definition topic_to_publish :: "time_point \<Rightarrow> publish_request \<Rightarrow> sns_repo \<Rightarrow> sns_repo \<times> sns_topic" where
  "topic_to_publish now d st =
     (if pr_topicArn d \<noteq> [] then sns_getTopicByArn now st (pr_topicArn d) else sns_getTopicByTargetArn now st (pr_targetArn d))"

definition sns_Publish :: "sns_env \<Rightarrow> (nat \<Rightarrow> time_point) \<Rightarrow> uuid \<Rightarrow> string \<Rightarrow> (nat \<Rightarrow> delivery_ids) \<Rightarrow> publish_request
    \<Rightarrow> (sns_world, publish_response) action" where
  "sns_Publish env clock oid messageId ids d =
     act_check (\<lambda>_. pr_topicArn d \<noteq> [] \<or> pr_targetArn d \<noteq> []) (ServiceException ''Either topicArn or targetArn must exist'')
     (act_check (\<lambda>w. pr_topicArn d = [] \<or> sns_topicExistsName (w_sns w) (pr_topicArn d))
        (ServiceException (''SNS topic does not exists, topicArn: '' @ pr_topicArn d))
     (act_check (\<lambda>w. pr_targetArn d = [] \<or> sns_topicExistsName (w_sns w) (pr_targetArn d))
        (ServiceException (''SNS targetArn does not exists, targetArn: '' @ pr_targetArn d))
     (act_bind (on_sns (topic_to_publish (clock 0) d)) (\<lambda>topic.
      act_bind (on_sns (\<lambda>st. let (st', _, m) = sns_createMessage oid st (message_to_publish env (clock 1) messageId d) in (st', m))) (\<lambda>message.
      act_bind (CheckSubscriptions env ids d topic message) (\<lambda>_.
      act_return \<lparr>pp_messageId = sm_messageId message, pp_requestId = pr_requestId d, pp_region = pr_region d\<rparr>))))))"

text \<open>What a stored message is sent as again. A binary value is not among it.\<close>

definition resend_request :: "string \<Rightarrow> string \<Rightarrow> string \<Rightarrow> sns_message \<Rightarrow> publish_request" where
  "resend_request region user requestId message =
     \<lparr>pr_region = region, pr_user = user, pr_requestId = requestId, pr_contentType = [], pr_topicArn = sm_topicArn message,
      pr_targetArn = sm_targetArn message, pr_message = sm_message message,
      pr_messageAttributes = sns_toDtoMap (sm_messageAttributes message)\<rparr>"

definition sns_ResendTopic :: "sns_env \<Rightarrow> time_point \<Rightarrow> (nat \<Rightarrow> nat \<Rightarrow> delivery_ids) \<Rightarrow> string \<Rightarrow> string \<Rightarrow> string \<Rightarrow> string
    \<Rightarrow> (sns_world, unit) action" where
  "sns_ResendTopic env now ids region user requestId topicArn =
     need_topic (NotFoundException ''Topic does not exist'') topicArn
     (act_bind (on_sns (\<lambda>st. sns_getTopicByArn now st topicArn)) (\<lambda>topic.
      act_bind (act_read (\<lambda>w. sns_listMessages (w_sns w) topicArn [] 0 0 [])) (\<lambda>ms.
      act_each (\<lambda>i message. CheckSubscriptions env (ids i) (resend_request region user requestId message) topic message) 0 ms)))"

definition sns_ResendMessage :: "sns_env \<Rightarrow> (nat \<Rightarrow> time_point) \<Rightarrow> (nat \<Rightarrow> delivery_ids) \<Rightarrow> string \<Rightarrow> string \<Rightarrow> string \<Rightarrow> string \<Rightarrow> string
    \<Rightarrow> (sns_world, unit) action" where
  "sns_ResendMessage env clock ids region user requestId topicArn messageId =
     need_topic (NotFoundException ''Topic does not exist'') topicArn
     (act_check (\<lambda>w. sns_messageExists (w_sns w) messageId)
        (NotFoundException (''Message does not exist, messageId: '' @ messageId))
     (act_bind (on_sns (\<lambda>st. sns_getTopicByArn (clock 0) st topicArn)) (\<lambda>topic.
      act_bind (act_read (\<lambda>w. sns_getMessageByMessageId (clock 1) (w_sns w) messageId)) (\<lambda>message.
      CheckSubscriptions env ids (resend_request region user requestId message) topic message))))"

subsection \<open>Topics\<close>

text \<open>A response about a topic is its name, owner and ARN.\<close>

definition sns_CreateTopic :: "sns_env \<Rightarrow> (nat \<Rightarrow> time_point) \<Rightarrow> uuid \<Rightarrow> string \<Rightarrow> string \<Rightarrow> string
    \<Rightarrow> (sns_world, string \<times> string \<times> string) action" where
  "sns_CreateTopic env clock oid region topicName owner = (\<lambda>w.
     act_bind (if sns_topicExists (w_sns w) region topicName
       then on_sns (\<lambda>st. sns_getTopicByName (clock 0) st region topicName)
       else on_sns (\<lambda>st. let (st', _, t) = sns_createTopic oid st ((default_topic (clock 0))\<lparr>t_region := region, t_topicName := topicName,
              t_owner := owner, t_topicArn := CreateSNSTopicArn region (cfg_account_id (e_cfg (n_sqs env))) topicName\<rparr>) in (st', t)))
       (\<lambda>topic. act_return (t_topicName topic, t_owner topic, t_topicArn topic)) w)"

definition sns_ListTopicArns :: "sns_repo \<Rightarrow> string \<Rightarrow> string list" where
  "sns_ListTopicArns st region = map t_topicArn (sns_listTopics st region)"

definition sns_ListTopics :: "sns_repo \<Rightarrow> string \<Rightarrow> string list" where
  "sns_ListTopics st region = map t_topicArn (sns_listTopics st region)"

text \<open>The ARN, and the object id as the id of the mapping, which is always enabled.\<close>

definition sns_GetEventSource :: "time_point \<Rightarrow> string \<Rightarrow> (sns_world, string \<times> bool \<times> string) action" where
  "sns_GetEventSource now eventSourceArn =
     need_topic (NotFoundException (''Topic does not exists, arn: '' @ eventSourceArn)) eventSourceArn
     (act_bind (on_sns (\<lambda>st. sns_getTopicByArn now st eventSourceArn)) (\<lambda>topic.
      act_return (t_topicArn topic, True, t_oid topic)))"

definition sns_PurgeTopic :: "time_point \<Rightarrow> string \<Rightarrow> (sns_world, int) action" where
  "sns_PurgeTopic now topicArn =
     need_topic (NotFoundException (''Topic does not exist, topicArn'' @ topicArn)) topicArn
     (act_bind (on_sns (\<lambda>st. sns_getTopicByArn now st topicArn)) (\<lambda>topic.
      on_sns (\<lambda>st. sns_purgeTopic st topic)))"

fun purge_topics :: "(nat \<Rightarrow> time_point) \<Rightarrow> sns_topic list \<Rightarrow> int \<Rightarrow> (sns_world, int) action" where
  "purge_topics clock [] deleted = act_return deleted"
| "purge_topics clock (t # ts) deleted =
     act_bind (sns_PurgeTopic (clock (length ts)) (t_topicArn t)) (\<lambda>n. purge_topics clock ts (deleted + n))"

definition sns_PurgeAllTopics :: "(nat \<Rightarrow> time_point) \<Rightarrow> (sns_world, int) action" where
  "sns_PurgeAllTopics clock =
     act_bind (act_read (\<lambda>w. sns_listTopics (w_sns w) [])) (\<lambda>ts. purge_topics clock ts 0)"

definition sns_ReloadAllCounters :: "time_point \<Rightarrow> (sns_world, unit) action" where
  "sns_ReloadAllCounters now = on_sns (\<lambda>st. (sns_adjustMessageCounters now st, ()))"

text \<open>The messages of a deleted topic stay.\<close>

definition sns_DeleteTopic :: "time_point \<Rightarrow> string \<Rightarrow> string \<Rightarrow> (sns_world, unit) action" where
  "sns_DeleteTopic now region topicArn =
     need_topic (NotFoundException ''Topic does not exist'') topicArn
     (on_sns (\<lambda>st. (sns_deleteTopic st ((default_topic now)\<lparr>t_region := region, t_topicArn := topicArn\<rparr>), ())))"

definition sns_AdjustTopicCounters :: "time_point \<Rightarrow> sns_topic \<Rightarrow> (sns_world, sns_topic) action" where
  "sns_AdjustTopicCounters now topic =
     try_sns (\<lambda>st.
       let topic = topic\<lparr>t_topicAttribute := (t_topicAttribute topic)\<lparr>ta_availableMessages := sns_countMessages st (t_topicArn topic)\<rparr>,
             t_size := sns_getTopicSize st (t_topicArn topic)\<rparr> in
       case sns_updateTopic now st topic of Inl e \<Rightarrow> Inl e | Inr (st', _, t) \<Rightarrow> Inr (st', t))"

subsection \<open>Changing a topic\<close>

text \<open>Operations that fetch a topic by its ARN, change the copy and write it back, and answer with what
  was stored.\<close>

definition store_topic :: "time_point \<Rightarrow> sns_topic \<Rightarrow> (sns_world, sns_topic) action" where
  "store_topic now topic =
     try_sns (\<lambda>st. case sns_updateTopic now st topic of Inl e \<Rightarrow> Inl e | Inr (st', _, t) \<Rightarrow> Inr (st', t))"

definition change_topic :: "(nat \<Rightarrow> time_point) \<Rightarrow> string \<Rightarrow> (sns_topic \<Rightarrow> sns_topic) \<Rightarrow> (sns_world, sns_topic) action" where
  "change_topic clock topicArn f =
     act_bind (on_sns (\<lambda>st. sns_getTopicByArn (clock 0) st topicArn)) (\<lambda>topic. store_topic (clock 1) (f topic))"

text \<open>The ARN of a subscription that is there already is not the one \<open>Subscribe\<close> answers with.\<close>

definition sns_Subscribe :: "sns_env \<Rightarrow> (nat \<Rightarrow> time_point) \<Rightarrow> uuid \<Rightarrow> string \<Rightarrow> string \<Rightarrow> string \<Rightarrow> string \<Rightarrow> (sns_world, string) action" where
  "sns_Subscribe env clock random region topicArn protocol endpoint =
     act_check (\<lambda>_. topicArn \<noteq> []) (ServiceException ''Topic ARN missing'')
     (need_topic (ServiceException ''SNS topic does not exists'') topicArn
     (act_bind (on_sns (\<lambda>st. sns_getTopicByArn (clock 0) st topicArn)) (\<lambda>topic.
      let subscriptionArn = CreateSNSSubscriptionArn random region (cfg_account_id (e_cfg (n_sqs env))) (t_topicName topic);
          new = \<lparr>sub_protocol = protocol, sub_endpoint = endpoint, sub_subscriptionArn = subscriptionArn\<rparr> in
      act_bind (if \<not> HasSubscription topic new
                then act_bind (store_topic (clock 1) (topic\<lparr>t_subscriptions := t_subscriptions topic @ [new]\<rparr>)) (\<lambda>_. act_return ())
                else act_return ())
        (\<lambda>_. act_return subscriptionArn))))"

definition sns_UpdateSubscription :: "(nat \<Rightarrow> time_point) \<Rightarrow> string \<Rightarrow> string \<Rightarrow> string \<Rightarrow> string \<Rightarrow> (sns_world, string) action" where
  "sns_UpdateSubscription clock topicArn subscriptionArn protocol endpoint =
     act_check (\<lambda>_. topicArn \<noteq> []) (ServiceException ''Topic ARN missing'')
     (need_topic (ServiceException ''SNS topic does not exists'') topicArn
     (act_bind (on_sns (\<lambda>st. sns_getTopicByArn (clock 0) st topicArn)) (\<lambda>topic.
      if \<not> HasSubscriptionArn topic subscriptionArn then act_throw (ServiceException ''SNS topic subscription does not exists'')
      else let index = GetSubscriptionIndex topic subscriptionArn; subs = t_subscriptions topic in
        if index < 0 \<or> int (length subs) \<le> index then act_throw OutOfRange
        else act_bind (store_topic (clock 1) (topic\<lparr>t_subscriptions := subs[nat index :=
                 (subs ! nat index)\<lparr>sub_endpoint := endpoint, sub_protocol := protocol\<rparr>]\<rparr>))
               (\<lambda>_. act_return subscriptionArn))))"

definition without_subscription :: "string \<Rightarrow> sns_topic \<Rightarrow> sns_topic" where
  "without_subscription subscriptionArn t =
     t\<lparr>t_subscriptions := filter (\<lambda>s. sub_subscriptionArn s \<noteq> subscriptionArn) (t_subscriptions t)\<rparr>"

definition sns_Unsubscribe :: "(nat \<Rightarrow> time_point) \<Rightarrow> string \<Rightarrow> (sns_world, string) action" where
  "sns_Unsubscribe clock subscriptionArn =
     act_check (\<lambda>_. subscriptionArn \<noteq> []) (ServiceException ''Subscription ARN missing'')
     (act_bind (act_read (\<lambda>w. sns_getTopicsBySubscriptionArn (w_sns w) subscriptionArn)) (\<lambda>ts.
      act_bind (act_each (\<lambda>i t. act_bind (store_topic (clock i) (without_subscription subscriptionArn t)) (\<lambda>_. act_return ())) 0 ts)
        (\<lambda>_. act_return subscriptionArn)))"

definition sns_AddSubscriptionCounter :: "sns_env \<Rightarrow> (nat \<Rightarrow> time_point) \<Rightarrow> uuid \<Rightarrow> string \<Rightarrow> string \<Rightarrow> string \<Rightarrow> string \<Rightarrow> (sns_world, unit) action" where
  "sns_AddSubscriptionCounter env clock random region topicArn protocol endpoint =
     need_topic (ServiceException (''Topic does not exist, topicArn: '' @ topicArn)) topicArn
     (act_bind (change_topic clock topicArn (\<lambda>t. t\<lparr>t_subscriptions := t_subscriptions t @
          [\<lparr>sub_protocol = protocol, sub_endpoint = endpoint,
            sub_subscriptionArn = CreateSNSSubscriptionArn random region (cfg_account_id (e_cfg (n_sqs env))) topicArn\<rparr>]\<rparr>))
       (\<lambda>_. act_return ()))"

definition sns_DeleteSubscriptionCounter :: "(nat \<Rightarrow> time_point) \<Rightarrow> string \<Rightarrow> string \<Rightarrow> (sns_world, unit) action" where
  "sns_DeleteSubscriptionCounter clock topicArn subscriptionArn =
     need_topic (ServiceException (''Topic does not exist, topicArn: '' @ topicArn)) topicArn
     (act_bind (change_topic clock topicArn (without_subscription subscriptionArn)) (\<lambda>_. act_return ()))"

definition sns_TagResource :: "(nat \<Rightarrow> time_point) \<Rightarrow> string \<Rightarrow> (string \<times> string) list \<Rightarrow> (sns_world, string) action" where
  "sns_TagResource clock resourceArn tags =
     need_topic (ServiceException (''SNS topic does not exists, topicArn: '' @ resourceArn)) resourceArn
     (act_bind (change_topic clock resourceArn (\<lambda>t. t\<lparr>t_tags := tags\<rparr>)) (\<lambda>t. act_return (t_region t)))"

definition sns_UntagResource :: "(nat \<Rightarrow> time_point) \<Rightarrow> string \<Rightarrow> string list \<Rightarrow> (sns_world, string) action" where
  "sns_UntagResource clock resourceArn tags =
     need_topic (ServiceException (''SNS topic does not exists, topicArn: '' @ resourceArn)) resourceArn
     (act_bind (change_topic clock resourceArn
        (\<lambda>t. t\<lparr>t_tags := foldl (\<lambda>m tag. fst (erase_if (\<lambda>(k, _). k = tag) m)) (t_tags t) tags\<rparr>)) (\<lambda>t. act_return (t_region t)))"

text \<open>The operations on default attributes answer with the number and the DTOs of the attributes.\<close>

definition sns_attribute_counters :: "sns_topic \<Rightarrow> int \<times> (string \<times> sns_dto_attribute) list" where
  "sns_attribute_counters t = (int (length (t_defaultMessageAttributes t)), sns_toDtoMap (t_defaultMessageAttributes t))"

definition change_default_attributes :: "(nat \<Rightarrow> time_point) \<Rightarrow> string
    \<Rightarrow> ((string \<times> sns_message_attribute) list \<Rightarrow> (string \<times> sns_message_attribute) list)
    \<Rightarrow> (sns_world, int \<times> (string \<times> sns_dto_attribute) list) action" where
  "change_default_attributes clock topicArn f =
     need_topic (ServiceException (''Topic does not exist, topicArn: '' @ topicArn)) topicArn
     (act_bind (change_topic clock topicArn (\<lambda>t. t\<lparr>t_defaultMessageAttributes := f (t_defaultMessageAttributes t)\<rparr>))
       (\<lambda>t. act_return (sns_attribute_counters t)))"

definition sns_AddDefaultMessageAttribute :: "(nat \<Rightarrow> time_point) \<Rightarrow> string \<Rightarrow> string \<Rightarrow> sns_dto_attribute
    \<Rightarrow> (sns_world, int \<times> (string \<times> sns_dto_attribute) list) action" where
  "sns_AddDefaultMessageAttribute clock topicArn name attribute =
     change_default_attributes clock topicArn (omap_insert name
       (default_sns_attribute\<lparr>sa_stringValue := sd_stringValue attribute,
          sa_dataType := sns_MessageAttributeTypeFromString (sns_DataTypeToString (sd_dataType attribute))\<rparr>))"

definition sns_UpdateDefaultMessageAttribute :: "(nat \<Rightarrow> time_point) \<Rightarrow> string \<Rightarrow> string \<Rightarrow> string \<Rightarrow> string
    \<Rightarrow> (sns_world, int \<times> (string \<times> sns_dto_attribute) list) action" where
  "sns_UpdateDefaultMessageAttribute clock topicArn name val dataType =
     change_default_attributes clock topicArn (\<lambda>m.
       let old = (case map_of m name of Some a \<Rightarrow> a | None \<Rightarrow> default_sns_attribute) in
       omap_insert name (old\<lparr>sa_stringValue := val, sa_dataType := sns_MessageAttributeTypeFromString dataType\<rparr>) m)"

definition sns_DeleteDefaultMessageAttribute :: "(nat \<Rightarrow> time_point) \<Rightarrow> string \<Rightarrow> string
    \<Rightarrow> (sns_world, int \<times> (string \<times> sns_dto_attribute) list) action" where
  "sns_DeleteDefaultMessageAttribute clock topicArn name =
     change_default_attributes clock topicArn (\<lambda>m. fst (erase_if (\<lambda>(k, _). k = name) m))"

end
