(* ===== verification/SnsQueries.thy ===== *)
theory SnsQueries
  imports SnsPublish
begin

text \<open>
  What the SNS service reads (\<open>srv/src/sns/SNSService.cpp\<close>): topic, subscription, tag, attribute and
  message counters, with their mappers (\<open>dto/include/awsmock/dto/sns/mapper/Mapper.h\<close>); deleting a
  message; and the tasks of \<open>srv/src/sns/SNSServer.cpp\<close>. A lookup writes the object id of the
  topic it finds. The ISO 8601 format of a date is the argument \<open>isodate\<close>.
\<close>

subsection \<open>Counters and their mappers\<close>

record topic_counter =
  tc_topicArn :: string
  tc_topicName :: string
  tc_messages :: int
  tc_messagesSend :: int
  tc_messagesResend :: int
  tc_size :: int
  tc_created :: time_point
  tc_modified :: time_point

definition TopicCounter_toDto :: "sns_topic \<Rightarrow> topic_counter" where
  "TopicCounter_toDto e =
     \<lparr>tc_topicArn = t_topicArn e, tc_topicName = t_topicName e, tc_messages = t_messages e,
      tc_messagesSend = t_messagesSend e, tc_messagesResend = t_messagesResend e, tc_size = t_size e,
      tc_created = t_created e, tc_modified = t_modified e\<rparr>"

definition TopicCounter_toEntity :: "time_point \<Rightarrow> topic_counter \<Rightarrow> sns_topic" where
  "TopicCounter_toEntity now d =
     (default_topic now)\<lparr>t_topicArn := tc_topicArn d, t_topicName := tc_topicName d, t_messages := tc_messages d,
        t_messagesSend := tc_messagesSend d, t_messagesResend := tc_messagesResend d, t_size := tc_size d,
        t_created := tc_created d, t_modified := tc_modified d\<rparr>"

record dto_subscription =
  ds_id :: string
  ds_topicArn :: string
  ds_protocol :: string
  ds_subscriptionArn :: string
  ds_endpoint :: string

record dto_sns_message =
  sdm_topicArn :: string
  sdm_targetArn :: string
  sdm_messageId :: string
  sdm_message :: string
  sdm_contentType :: string
  sdm_messageAttributes :: "(string \<times> sns_dto_attribute) list"
  sdm_size :: int
  sdm_created :: time_point
  sdm_modified :: time_point

definition SnsMessage_toDto :: "sns_message \<Rightarrow> dto_sns_message" where
  "SnsMessage_toDto e =
     \<lparr>sdm_topicArn = sm_topicArn e, sdm_targetArn = sm_targetArn e, sdm_messageId = sm_messageId e,
      sdm_message = sm_message e, sdm_contentType = sm_contentType e,
      sdm_messageAttributes = sns_toDtoMap (sm_messageAttributes e), sdm_size = sm_size e,
      sdm_created = sm_created e, sdm_modified = sm_modified e\<rparr>"

definition SnsMessage_toEntity :: "time_point \<Rightarrow> dto_sns_message \<Rightarrow> sns_message" where
  "SnsMessage_toEntity now d =
     (default_sns_message now)\<lparr>sm_topicArn := sdm_topicArn d, sm_targetArn := sdm_targetArn d, sm_message := sdm_message d,
        sm_messageId := sdm_messageId d, sm_messageAttributes := sns_toEntityMap (sdm_messageAttributes d),
        sm_contentType := sdm_contentType d, sm_size := sdm_size d, sm_created := sdm_created d, sm_modified := sdm_modified d\<rparr>"

record attribute_counter =
  mac_name :: string
  mac_stringValue :: string
  mac_type :: sns_dto_type

record sns_message_counter =
  smc_topicArn :: string
  smc_messageId :: string
  smc_message :: string
  smc_contentType :: string
  smc_size :: int
  smc_messageStatus :: sns_status
  smc_messageAttributes :: "attribute_counter list"
  smc_lastSend :: time_point
  smc_created :: time_point
  smc_modified :: time_point

text \<open>The status and the time of sending keep the values a new counter has.\<close>

definition MessageCounter_toDto :: "sns_message \<Rightarrow> sns_message_counter" where
  "MessageCounter_toDto e =
     \<lparr>smc_topicArn = sm_topicArn e, smc_messageId = sm_messageId e, smc_message = sm_message e,
      smc_contentType = sm_contentType e, smc_size = sm_size e, smc_messageStatus = SNS_INITIAL,
      smc_messageAttributes = map (\<lambda>(key, v). \<lparr>mac_name = key, mac_stringValue = sa_stringValue v,
         mac_type = sns_DataTypeFromString (sns_MessageAttributeTypeToString (sa_dataType v))\<rparr>) (sm_messageAttributes e),
      smc_lastSend = 0, smc_created = sm_created e, smc_modified = sm_modified e\<rparr>"

subsection \<open>Topics\<close>

abbreviation no_topic :: "string \<Rightarrow> string" where
  "no_topic topicArn \<equiv> ''SNS topic does not exists, topicArn: '' @ topicArn"

definition get_topic :: "time_point \<Rightarrow> string \<Rightarrow> (sns_world, sns_topic) action" where
  "get_topic now topicArn = on_sns (\<lambda>st. sns_getTopicByArn now st topicArn)"

definition sns_ListTopicCounters :: "sns_repo \<Rightarrow> string \<Rightarrow> string \<Rightarrow> int \<Rightarrow> int \<Rightarrow> sort_column list \<Rightarrow> int \<times> topic_counter list" where
  "sns_ListTopicCounters st region pre pageSize pageIndex sortColumns =
     (sns_countTopics st region pre, map TopicCounter_toDto (sns_listTopicsPaged st pre pageSize pageIndex sortColumns region))"

text \<open>A DTO subscription draws a random id when it is made; the token is the id of the last one.\<close>

definition sns_ListSubscriptionsByTopic :: "time_point \<Rightarrow> (nat \<Rightarrow> uuid) \<Rightarrow> string \<Rightarrow> (sns_world, dto_subscription list \<times> string) action" where
  "sns_ListSubscriptionsByTopic now random topicArn =
     need_topic (ServiceException (no_topic topicArn)) topicArn
     (act_bind (get_topic now topicArn) (\<lambda>topic.
      let subs = map (\<lambda>(i, s). \<lparr>ds_id = random i, ds_topicArn = topicArn, ds_protocol = sub_protocol s,
             ds_subscriptionArn = sub_subscriptionArn s, ds_endpoint = sub_endpoint s\<rparr>) (enumerate 0 (t_subscriptions topic)) in
      act_return (subs, if subs = [] then [] else ds_id (last subs))))"

definition sns_ListSubscriptionCounters :: "time_point \<Rightarrow> string \<Rightarrow> (sns_world, int \<times> dto_subscription list) action" where
  "sns_ListSubscriptionCounters now topicArn =
     need_topic (ServiceException (no_topic topicArn)) topicArn
     (act_bind (get_topic now topicArn) (\<lambda>topic.
      act_return (int (length (t_subscriptions topic)),
        map (\<lambda>s. \<lparr>ds_id = after_last CHR '':'' (sub_subscriptionArn s), ds_topicArn = topicArn, ds_protocol = sub_protocol s,
               ds_subscriptionArn = sub_subscriptionArn s, ds_endpoint = sub_endpoint s\<rparr>) (t_subscriptions topic))))"

text \<open>A subscription that is not there is answered with an empty counter.\<close>

definition sns_GetSubscriptionCounter :: "time_point \<Rightarrow> string \<Rightarrow> string \<Rightarrow> (sns_world, dto_subscription) action" where
  "sns_GetSubscriptionCounter now topicArn subscriptionArn =
     need_topic (ServiceException (''Topic does not exist, topicArn: '' @ topicArn)) topicArn
     (act_bind (get_topic now topicArn) (\<lambda>topic.
      act_return (case List.find (\<lambda>s. sub_subscriptionArn s = subscriptionArn) (t_subscriptions topic) of
        Some s \<Rightarrow> \<lparr>ds_id = [], ds_topicArn = topicArn, ds_protocol = sub_protocol s,
            ds_subscriptionArn = sub_subscriptionArn s, ds_endpoint = sub_endpoint s\<rparr>
      | None \<Rightarrow> \<lparr>ds_id = [], ds_topicArn = [], ds_protocol = [], ds_subscriptionArn = [], ds_endpoint = []\<rparr>)))"

definition bool_string :: "bool \<Rightarrow> string" where
  "bool_string b = (if b then ''true'' else ''false'')"

definition topic_attribute_list :: "(time_point \<Rightarrow> string) \<Rightarrow> sns_topic \<Rightarrow> (string \<times> string) list" where
  "topic_attribute_list isodate topic =
     (let a = t_topicAttribute topic in
      [(''availableMessages'', to_string (ta_availableMessages a)), (''archivePolicy'', ta_archivePolicy a),
       (''beginningArchiveTime'', isodate (ta_beginningArchiveTime a)),
       (''contentBasedDeduplication'', bool_string (ta_contentBasedDeduplication a)),
       (''deliveryPolicy'', ta_deliveryPolicy a), (''displayName'', ta_displayName a),
       (''fifoTopic'', bool_string (ta_fifoTopic a)), (''kmsMasterKeyId'', ta_kmsMasterKeyId a), (''policy'', ta_policy a),
       (''signatureVersion'', ta_signatureVersion a), (''tracingConfig'', ta_tracingConfig a)])"

definition sns_ListAttributeCounters :: "(time_point \<Rightarrow> string) \<Rightarrow> time_point \<Rightarrow> string \<Rightarrow> int \<Rightarrow> int
    \<Rightarrow> (sns_world, int \<times> (string \<times> string) list) action" where
  "sns_ListAttributeCounters isodate now topicArn pageSize pageIndex =
     need_topic (ServiceException (no_topic topicArn)) topicArn
     (act_bind (get_topic now topicArn) (\<lambda>topic.
      case PageVector (topic_attribute_list isodate topic) pageSize pageIndex of
        Inl e \<Rightarrow> act_throw e
      | Inr page \<Rightarrow> act_return (11, page)))"

definition sns_ListTagCounters :: "time_point \<Rightarrow> string \<Rightarrow> (sns_world, int \<times> (string \<times> string) list) action" where
  "sns_ListTagCounters now topicArn =
     need_topic (ServiceException (no_topic topicArn)) topicArn
     (act_bind (get_topic now topicArn) (\<lambda>topic. act_return (int (length (t_tags topic)), t_tags topic)))"

text \<open>The region of the answer is that of the request: \<open>copyMetadata\<close> comes last.\<close>

definition sns_GetTopicAttributes :: "time_point \<Rightarrow> string \<Rightarrow> string \<Rightarrow> (sns_world, string \<times> string \<times> string) action" where
  "sns_GetTopicAttributes now region topicArn =
     need_topic (ServiceException ''SNS topic does not exists'') topicArn
     (act_bind (get_topic now topicArn) (\<lambda>topic. act_return (region, t_topicArn topic, t_owner topic)))"

record topic_details =
  td_region :: string
  td_topicName :: string
  td_topicArn :: string
  td_messageCount :: int
  td_size :: int
  td_owner :: string
  td_created :: time_point
  td_modified :: time_point

definition sns_GetTopicDetails :: "time_point \<Rightarrow> string \<Rightarrow> string \<Rightarrow> (sns_world, topic_details) action" where
  "sns_GetTopicDetails now region topicArn =
     need_topic (ServiceException (no_topic topicArn)) topicArn
     (act_bind (get_topic now topicArn) (\<lambda>topic.
      act_return \<lparr>td_region = region, td_topicName = t_topicName topic, td_topicArn = t_topicArn topic,
        td_messageCount = t_messages topic, td_size = t_size topic, td_owner = t_owner topic,
        td_created = t_created topic, td_modified = t_modified topic\<rparr>))"

definition sns_ListDefaultMessageAttributeCounters :: "time_point \<Rightarrow> string \<Rightarrow> int \<Rightarrow> int
    \<Rightarrow> (sns_world, int \<times> (string \<times> sns_dto_attribute) list) action" where
  "sns_ListDefaultMessageAttributeCounters now topicArn pageSize pageIndex =
     need_topic (ServiceException (''Topic does not exist, topicArn: '' @ topicArn)) topicArn
     (act_bind (get_topic now topicArn) (\<lambda>topic.
      act_return (int (length (t_defaultMessageAttributes topic)),
        PageMap (sns_toDtoMap (t_defaultMessageAttributes topic)) pageSize pageIndex)))"

subsection \<open>Messages\<close>

text \<open>Whether a message exists is asked of the keys, which of the two is deleted of the message ids.\<close>

definition sns_GetMessageCounters :: "time_point \<Rightarrow> string \<Rightarrow> (sns_world, dto_sns_message) action" where
  "sns_GetMessageCounters now messageId =
     act_check (\<lambda>w. sns_messageExists (w_sns w) messageId)
       (ServiceException (''Message does not exist, messageId: '' @ messageId))
     (act_read (\<lambda>w. SnsMessage_toDto (sns_getMessageByMessageId now (w_sns w) messageId)))"

definition sns_DeleteMessage :: "time_point \<Rightarrow> string \<Rightarrow> string \<Rightarrow> (sns_world, unit) action" where
  "sns_DeleteMessage now topicArn messageId =
     act_check (\<lambda>w. sns_messageExists (w_sns w) messageId)
       (ServiceException (''SNS message does not exists, messageId: '' @ messageId))
     (act_bind (on_sns (\<lambda>st. sns_deleteMessageById st messageId)) (\<lambda>_.
      act_bind (get_topic now topicArn) (\<lambda>_. act_return ())))"

text \<open>\<open>ListMessages\<close> passes the region where the repository takes the ARN of the topic.\<close>

definition sns_ListMessages :: "sns_repo \<Rightarrow> string \<Rightarrow> string \<Rightarrow> int \<Rightarrow> int \<Rightarrow> int \<times> dto_sns_message list" where
  "sns_ListMessages st region topicArn pageSize pageIndex =
     (sns_countMessages st topicArn, map SnsMessage_toDto (sns_listMessages st region topicArn pageSize pageIndex []))"

definition sns_ListMessageCounters :: "sns_repo \<Rightarrow> string \<Rightarrow> string \<Rightarrow> int \<Rightarrow> int \<Rightarrow> sort_column list \<Rightarrow> int \<times> sns_message_counter list" where
  "sns_ListMessageCounters st topicArn pre pageSize pageIndex sortColumns =
     (sns_countMessages st topicArn, map MessageCounter_toDto (sns_listMessages st topicArn pre pageSize pageIndex sortColumns))"

subsection \<open>Maintenance tasks\<close>

definition srv_sns_DeleteOldMessages :: "time_point \<Rightarrow> int \<Rightarrow> sns_repo \<Rightarrow> sns_repo" where
  "srv_sns_DeleteOldMessages now messageTimeout st = sns_deleteOldMessages now st messageTimeout"

text \<open>The gauges a monitoring round sets: two for each topic, then the numbers of topics and messages.
  The total size is added up and not used.\<close>

datatype gauge = TopicMessages string int | TopicSize string int | TopicCount int | MessageCount int

definition srv_sns_UpdateCounter :: "time_point \<Rightarrow> sns_repo \<Rightarrow> sns_repo \<times> gauge list" where
  "srv_sns_UpdateCounter now st =
     (let st' = sns_adjustMessageCounters now st; topicList = sns_listTopics st' [];
          totalMessages = foldl (\<lambda>n t. n + t_messages t) 0 topicList in
      (st', concat (map (\<lambda>t. [TopicMessages (t_topicName t) (t_messages t), TopicSize (t_topicName t) (t_size t)]) topicList)
        @ [TopicCount (int (length topicList)), MessageCount totalMessages]))"

end
