(* ===== verification/IdentStore.thy ===== *)
theory IdentStore
  imports EntityRepo
begin

text \<open>
  The contract of the repositories' \<open>createOrUpdate...\<close> operations. A repository keeps its entities
  under random object ids, and its clients address them by an identity: region and name, a table
  and its keys, a server id. \<open>by_ident\<close> reads a store as a partial function from identities to
  entities, the abstract repository; \<open>ident_unique\<close> says that no two entries share an identity.

  The locale \<open>ident_store\<close> takes the insertion of a container and an identity, and shows that
  finding and replacing, or else inserting under a fresh object id, is the update of that function
  at one identity, that removing an identity is the removal from it, and that both keep identities
  unique. The theories of the services interpret it for each of their entities.
\<close>

definition by_ident :: "('v \<Rightarrow> 'i) \<Rightarrow> 'v store \<Rightarrow> 'i \<rightharpoonup> 'v" where
  "by_ident ident m i = map_option snd (find_if (\<lambda>(_, e). ident e = i) m)"

definition ident_unique :: "('v \<Rightarrow> 'i) \<Rightarrow> 'v store \<Rightarrow> bool" where
  "ident_unique ident m \<longleftrightarrow>
     (\<forall>k e k' e'. (k, e) \<in> set m \<longrightarrow> (k', e') \<in> set m \<longrightarrow> ident e = ident e' \<longrightarrow> k = k' \<and> e = e')"

text \<open>
  \<open>it = find_if(same identity)\<close>; if it is there its value is replaced by \<open>upd\<close>, otherwise \<open>new\<close> is
  inserted under the key \<open>k\<close>.
\<close>

definition upsert :: "(string \<Rightarrow> 'v \<Rightarrow> 'v store \<Rightarrow> 'v store) \<Rightarrow> ('v \<Rightarrow> 'i) \<Rightarrow> string \<Rightarrow> 'v \<Rightarrow> (string \<Rightarrow> 'v) \<Rightarrow> 'v store \<Rightarrow> 'v store" where
  "upsert ins ident k new upd m =
     (case find_if (\<lambda>(_, e). ident e = ident new) m of
        Some (j, _) \<Rightarrow> assign j (upd j) m
      | None \<Rightarrow> ins k new m)"

lemma ident_uniqueD:
  "ident_unique ident m \<Longrightarrow> (k, e) \<in> set m \<Longrightarrow> (k', e') \<in> set m \<Longrightarrow> ident e = ident e' \<Longrightarrow> k = k' \<and> e = e'"
  unfolding ident_unique_def by blast

lemma ident_unique_Nil [simp]: "ident_unique ident []"
  by (simp add: ident_unique_def)

lemma by_ident_Nil [simp]: "by_ident ident [] = Map.empty"
  by (simp add: by_ident_def fun_eq_iff find_if_def)

lemma by_ident_mem: "by_ident ident m i = Some e \<Longrightarrow> \<exists>k. (k, e) \<in> set m \<and> ident e = i"
  by (auto simp: by_ident_def dest!: find_if_SomeD)

lemma by_ident_None: "by_ident ident m i = None \<longleftrightarrow> (\<forall>k e. (k, e) \<in> set m \<longrightarrow> ident e \<noteq> i)"
  by (auto simp: by_ident_def find_if_def find_None_iff')

lemma by_ident_Some:
  assumes "ident_unique ident m"
  shows "by_ident ident m i = Some e \<longleftrightarrow> (\<exists>k. (k, e) \<in> set m \<and> ident e = i)"
proof
  assume "\<exists>k. (k, e) \<in> set m \<and> ident e = i"
  then obtain k where k: "(k, e) \<in> set m" "ident e = i" by blast
  have "by_ident ident m i \<noteq> None" unfolding by_ident_None using k by blast
  then obtain e' where e': "by_ident ident m i = Some e'" by blast
  obtain k' where "(k', e') \<in> set m" "ident e' = i" using by_ident_mem [OF e'] by blast
  then have "e = e'" using ident_uniqueD [OF assms k(1), of k' e'] k(2) by simp
  then show "by_ident ident m i = Some e" using e' by simp
qed (rule by_ident_mem)

lemma option_eqI: "(\<And>e. a = Some e \<longleftrightarrow> b = Some e) \<Longrightarrow> a = b"
  by (metis not_Some_eq)

lemma by_ident_eqI:
  assumes "ident_unique ident m" "\<And>e. f i = Some e \<longleftrightarrow> (\<exists>k. (k, e) \<in> set m \<and> ident e = i)"
  shows "by_ident ident m i = f i"
proof (rule option_eqI)
  show "by_ident ident m i = Some e \<longleftrightarrow> f i = Some e" for e
    using assms(2) [of e] by_ident_Some [OF assms(1), of i e] by metis
qed

lemma found_by_ident: "found (\<lambda>(_, e). ident e = i) m \<longleftrightarrow> by_ident ident m i \<noteq> None"
  by (simp add: found_def by_ident_def)

lemma ident_unique_filter: "ident_unique ident m \<Longrightarrow> ident_unique ident (filter P m)"
  unfolding ident_unique_def set_filter mem_Collect_eq by blast

text \<open>Removing the entries of an identity.\<close>

lemma by_ident_erase:
  assumes "ident_unique ident m"
  shows "by_ident ident (fst (erase_if (\<lambda>(_, e). ident e = i) m)) = (by_ident ident m)(i := None)"
proof
  fix j
  have "ident_unique ident (filter (\<lambda>x. \<not> (case x of (_, e) \<Rightarrow> ident e = i)) m)"
    by (rule ident_unique_filter [OF assms])
  then show "by_ident ident (fst (erase_if (\<lambda>(_, e). ident e = i) m)) j = ((by_ident ident m)(i := None)) j"
    unfolding erase_if_store
    by (rule by_ident_eqI) (auto simp: by_ident_Some [OF assms])
qed

text \<open>Keeping the entries with a property of the identity.\<close>

lemma by_ident_filter:
  assumes "ident_unique ident m"
  shows "by_ident ident (filter (\<lambda>(_, e). Q (ident e)) m) = (\<lambda>i. if Q i then by_ident ident m i else None)"
proof
  fix j
  show "by_ident ident (filter (\<lambda>(_, e). Q (ident e)) m) j = (if Q j then by_ident ident m j else None)"
    by (rule by_ident_eqI [OF ident_unique_filter [OF assms]]) (auto simp: by_ident_Some [OF assms])
qed

locale ident_store = assoc_insert ins invar
  for ins :: "string \<Rightarrow> 'v \<Rightarrow> 'v store \<Rightarrow> 'v store" and invar :: "'v store \<Rightarrow> bool" +
  fixes ident :: "'v \<Rightarrow> 'i"
  assumes invar_assign: "invar m \<Longrightarrow> invar (assign k v m)"
begin

lemma upsert_invar: "invar m \<Longrightarrow> invar (upsert ins ident k new upd m)"
  by (auto simp: upsert_def invar_assign invar_ins split: option.splits)

lemma set_assign:
  assumes "invar m" "(j, old) \<in> set m"
  shows "set (assign j v m) = insert (j, v) {kv \<in> set m. fst kv \<noteq> j}"
  using assms(2) by (force simp: assign_def set_modify image_iff)

lemma upsert_cases:
  assumes inv: "invar m" and iu: "\<And>j. ident (upd j) = ident new"
  obtains (update) j old where "(j, old) \<in> set m" "ident old = ident new"
      "upsert ins ident k new upd m = assign j (upd j) m"
      "set (upsert ins ident k new upd m) = insert (j, upd j) {kv \<in> set m. fst kv \<noteq> j}"
    | (insertion) "by_ident ident m (ident new) = None"
      "upsert ins ident k new upd m = ins k new m"
      "set (upsert ins ident k new upd m) = insert (k, new) {kv \<in> set m. fst kv \<noteq> k}"
proof (cases "find_if (\<lambda>(_, e). ident e = ident new) m")
  case None
  then have "by_ident ident m (ident new) = None" by (simp add: by_ident_def)
  moreover have "upsert ins ident k new upd m = ins k new m" using None by (simp add: upsert_def)
  moreover from this have "set (upsert ins ident k new upd m) = insert (k, new) {kv \<in> set m. fst kv \<noteq> k}"
    by (simp only: set_ins [OF inv])
  ultimately show ?thesis by (rule insertion)
next
  case (Some je)
  obtain j old where je: "je = (j, old)" by (cases je)
  have mem: "(j, old) \<in> set m" "ident old = ident new"
    using find_if_SomeD [of "\<lambda>(_, e). ident e = ident new" m j old] Some je by auto
  have u: "upsert ins ident k new upd m = assign j (upd j) m" using Some je by (simp add: upsert_def)
  have s: "set (upsert ins ident k new upd m) = insert (j, upd j) {kv \<in> set m. fst kv \<noteq> j}"
    unfolding u by (rule set_assign [OF inv mem(1)])
  show ?thesis by (rule update [OF mem u s])
qed

lemma upsert_unique:
  assumes inv: "invar m" and u: "ident_unique ident m" and iu: "\<And>j. ident (upd j) = ident new"
  shows "ident_unique ident (upsert ins ident k new upd m)"
proof (rule upsert_cases [OF inv iu, where k = k])
  fix j old
  assume old: "(j, old) \<in> set m" "ident old = ident new"
    and s: "set (upsert ins ident k new upd m) = insert (j, upd j) {kv \<in> set m. fst kv \<noteq> j}"
  have other: "ident e \<noteq> ident new" if "(k', e) \<in> set m" "k' \<noteq> j" for k' e
    using ident_uniqueD [OF u old(1) that(1)] old(2) that(2) by metis
  show ?thesis
    unfolding ident_unique_def s using ident_uniqueD [OF u] other by (auto simp: iu dest: sym)
next
  assume none: "by_ident ident m (ident new) = None"
    and s: "set (upsert ins ident k new upd m) = insert (k, new) {kv \<in> set m. fst kv \<noteq> k}"
  show ?thesis
    unfolding ident_unique_def s using ident_uniqueD [OF u] none by (auto simp: by_ident_None dest: sym)
qed

text \<open>The stored value is \<open>new\<close> if the identity was absent, and else \<open>upd\<close> of the key it had.\<close>

lemma upsert_refines:
  assumes inv: "invar m" and u: "ident_unique ident m" and iu: "\<And>j. ident (upd j) = ident new"
    and fresh: "k \<notin> keys_of m"
  shows "by_ident ident (upsert ins ident k new upd m) =
    (by_ident ident m)(ident new \<mapsto>
       (case find_if (\<lambda>(_, e). ident e = ident new) m of None \<Rightarrow> new | Some (j, _) \<Rightarrow> upd j))"
proof
  fix i
  note un = upsert_unique [OF inv u iu, of k]
  show "by_ident ident (upsert ins ident k new upd m) i =
    ((by_ident ident m)(ident new \<mapsto>
       (case find_if (\<lambda>(_, e). ident e = ident new) m of None \<Rightarrow> new | Some (j, _) \<Rightarrow> upd j))) i"
  proof (cases "find_if (\<lambda>(_, e). ident e = ident new) m")
    case None
    then have none: "by_ident ident m (ident new) = None" by (simp add: by_ident_def)
    have "upsert ins ident k new upd m = ins k new m" using None by (simp add: upsert_def)
    then have s: "set (upsert ins ident k new upd m) = insert (k, new) (set m)"
      using set_ins_fresh [OF inv fresh] by simp
    show ?thesis
      by (rule by_ident_eqI [OF un]) (use None none in \<open>auto simp: s by_ident_Some [OF u] by_ident_None\<close>)
  next
    case (Some je)
    obtain j old where je: "je = (j, old)" by (cases je)
    have mem: "(j, old) \<in> set m" "ident old = ident new"
      using find_if_SomeD [of "\<lambda>(_, e). ident e = ident new" m j old] Some je by auto
    have "upsert ins ident k new upd m = assign j (upd j) m" using Some je by (simp add: upsert_def)
    then have s: "set (upsert ins ident k new upd m) = insert (j, upd j) {kv \<in> set m. fst kv \<noteq> j}"
      using set_assign [OF inv mem(1)] by simp
    have key: "e = old" if "(j, e) \<in> set m" for e
      using that mem(1) invar_wf [OF inv] by (simp add: wf_in_map_of)
    have other: "k' \<noteq> j" if "(k', e) \<in> set m" "ident e \<noteq> ident new" for k' e
      using that key mem(2) by blast
    have same: "k' = j" if "(k', e) \<in> set m" "ident e = ident new" for k' e
      using ident_uniqueD [OF u that(1) mem(1)] that(2) mem(2) by metis
    show ?thesis
      by (rule by_ident_eqI [OF un]) (use Some je iu other same in \<open>auto simp: s by_ident_Some [OF u]\<close>)
  qed
qed

end

text \<open>\<open>replace_found\<close> after \<open>found\<close>, as the repositories write it, is an upsert.\<close>

lemma upsert_found:
  assumes "found (\<lambda>(_, e). ident e = ident new) m"
  shows "\<exists>j old. find_if (\<lambda>(_, e). ident e = ident new) m = Some (j, old) \<and>
    replace_found (\<lambda>(_, e). ident e = ident new) x m = Some (upsert ins ident k new (\<lambda>_. x) m, x)"
  using assms by (auto simp: found_def replace_found_def upsert_def)

lemma upsert_absent: "\<not> found (\<lambda>(_, e). ident e = ident new) m \<Longrightarrow> upsert ins ident k new upd m = ins k new m"
  by (cases "find_if (\<lambda>(_, e). ident e = ident new) m") (auto simp: found_def upsert_def)

lemma find_if_absent: "\<not> found P m \<Longrightarrow> find_if P m = None"
  by (cases "find_if P m") (auto simp: found_def)

text \<open>Stores with the same entries, and stamping after an insertion.\<close>

lemma assign_insert_same:
  assumes "wf_store m" "k \<notin> keys_of m"
  shows "map_of (assign k w (hmap_insert lay k v m)) = map_of (hmap_insert lay k w m)"
  using assms by (auto simp: fun_eq_iff store_simps map_of_hmap_insert)

lemma set_assign_hmap:
  assumes "wf_store m" "k \<notin> keys_of m"
  shows "set (assign k w (hmap_insert lay k v m)) = set (hmap_insert lay k w m)"
  using assign_insert_same [OF assms, of w lay v] wf_hmap_insert [OF assms(1)]
  by (metis assign_simps(3) map_of_eqI_set map_of_inject_set wf_store_def)

lemma by_ident_cong:
  assumes "ident_unique ident m" "set m' = set m"
  shows "ident_unique ident m' \<and> by_ident ident m' = by_ident ident m"
proof
  show u: "ident_unique ident m'" using assms unfolding ident_unique_def by simp
  show "by_ident ident m' = by_ident ident m"
  proof
    fix i
    show "by_ident ident m' i = by_ident ident m i"
      by (rule by_ident_eqI [OF u]) (simp add: by_ident_Some [OF assms(1)] assms(2))
  qed
qed

end
