(* ===== verification/SnsProps.thy ===== *)
theory SnsProps
  imports SnsRepo IdentStore
begin

text \<open>
  Properties of the in-memory SNS repository: the walk of \<open>adjustMessageCounters\<close> over the topics,
  on stores whose topics carry their keys and on others, storing messages, and expiry.
\<close>

lemma set_sns_counters_cong: "sns_messages st = sns_messages st' \<Longrightarrow> set_sns_counters st = set_sns_counters st'"
  by (simp add: set_sns_counters_def sns_countMessagesByStatus_def fun_eq_iff)

definition ahead :: "string option \<Rightarrow> string \<Rightarrow> bool" where
  "ahead cur k \<longleftrightarrow> (case cur of None \<Rightarrow> True | Some c \<Rightarrow> c < k)"

lemma ahead_simps [simp]: "ahead None k" "ahead (Some c) k \<longleftrightarrow> c < k"
  by (simp_all add: ahead_def)

lemma entry_after_ahead: "entry_after cur m = List.find (\<lambda>(k, _). ahead cur k) m"
  by (simp add: entry_after_def ahead_def cong: option.case_cong)

lemma entry_after_None: "entry_after cur m = None \<longleftrightarrow> (\<forall>k\<in>keys_of m. \<not> ahead cur k)"
  by (auto simp: entry_after_ahead find_None_iff' keys_of_def)

text \<open>In a sorted map the next entry is the least one ahead.\<close>

lemma entry_after_Some:
  "omap_inv m \<Longrightarrow> entry_after cur m = Some (k, t) \<Longrightarrow>
     (k, t) \<in> set m \<and> ahead cur k \<and> (\<forall>j\<in>keys_of m. ahead cur j \<longrightarrow> k \<le> j)"
  by (induction m) (auto simp: entry_after_ahead split: if_splits)

lemma ahead_after:
  assumes "omap_inv m" "entry_after cur m = Some (k, t)" "j \<in> keys_of m"
  shows "ahead cur j \<longleftrightarrow> j = k \<or> ahead (Some k) j"
proof -
  note e = entry_after_Some [OF assms(1,2)]
  have "ahead cur k" using e by blast
  then have "ahead cur j" if "k < j" using that by (cases cur) (auto dest: order.strict_trans)
  moreover have "k \<le> j" if "ahead cur j" using e assms(3) that by blast
  ultimately show ?thesis using \<open>ahead cur k\<close> by auto
qed

lemma visit_topic_inv: "omap_inv ts \<Longrightarrow> omap_inv (visit_topic now st t ts)"
  by (simp add: visit_topic_def Let_def omap_inv_insert)

lemma visit_topic_stamped:
  "(k, t) \<in> set ts \<Longrightarrow> omap_inv ts \<Longrightarrow> t_oid t = k \<Longrightarrow> visit_topic now st t ts = modify k (set_sns_counters st (t_topicArn t)) ts"
  using wf_in_map_of [OF omap_inv_wf, of ts k t] by (simp add: visit_topic_def)

lemma sns_adjust_loop_stamped:
  assumes "omap_inv ts" "all_stamped t_oid ts"
  shows "sns_adjust_loop now st cur ts =
     map (\<lambda>(k, t). (k, if ahead cur k then set_sns_counters st (t_topicArn t) t else t)) ts"
  using assms
proof (induction now st cur ts rule: sns_adjust_loop.induct)
  case (1 now st cur ts)
  show ?case
  proof (cases "entry_after cur ts")
    case None
    then have "map (\<lambda>(k, t). (k, if ahead cur k then set_sns_counters st (t_topicArn t) t else t)) ts = ts"
      by (intro map_idI) (auto simp: entry_after_None keys_of_def)
    then show ?thesis using None by (simp add: sns_adjust_loop.simps [of now st cur ts])
  next
    case (Some kt)
    obtain k t where kt: "kt = (k, t)" by (cases kt)
    note e = entry_after_Some [OF "1.prems"(1) Some [unfolded kt]]
    have oid: "t_oid t = k" using e "1.prems"(2) by (auto simp: all_stamped_def)
    have visit: "visit_topic now st t ts = modify k (set_sns_counters st (t_topicArn t)) ts"
      by (rule visit_topic_stamped) (use e oid "1.prems"(1) in auto)
    have uniq: "t' = t" if "(k, t') \<in> set ts" for t'
      using that e "1.prems"(1) by (metis omap_inv_wf option.inject wf_in_map_of)
    have ih: "sns_adjust_loop now st (Some k) (modify k (set_sns_counters st (t_topicArn t)) ts) =
        map (\<lambda>(j, u). (j, if ahead (Some k) j then set_sns_counters st (t_topicArn u) u else u)) (modify k (set_sns_counters st (t_topicArn t)) ts)"
      using "1.IH" [OF Some kt [symmetric]] visit "1.prems" by (simp add: all_stamped_modify)
    have "sns_adjust_loop now st cur ts = sns_adjust_loop now st (Some k) (modify k (set_sns_counters st (t_topicArn t)) ts)"
      using Some kt visit by (simp add: sns_adjust_loop.simps [of now st cur ts])
    also have "\<dots> = map (\<lambda>(j, u). (j, if ahead cur j then set_sns_counters st (t_topicArn u) u else u)) ts"
      unfolding ih unfolding modify_def map_map
    proof (rule map_cong [OF refl])
      fix ju assume ju: "ju \<in> set ts"
      obtain j u where ju': "ju = (j, u)" by (cases ju)
      have jk: "j \<in> keys_of ts" using ju ju' by auto
      show "((\<lambda>(j, u). (j, if ahead (Some k) j then set_sns_counters st (t_topicArn u) u else u)) \<circ>
          (\<lambda>(k', v). if k' = k then (k', set_sns_counters st (t_topicArn t) v) else (k', v))) ju =
        (case ju of (j, u) \<Rightarrow> (j, if ahead cur j then set_sns_counters st (t_topicArn u) u else u))"
        using ahead_after [OF "1.prems"(1) Some [unfolded kt] jk] uniq ju ju' by (cases "j = k") auto
    qed
    finally show ?thesis .
  qed
qed

text \<open>On a store whose topics carry their keys, \<open>adjustMessageCounters\<close> writes into every topic
  the numbers of its messages in the states INITIAL, SEND and RESEND, and changes nothing else.\<close>

theorem sns_adjust_counts:
  assumes "omap_inv (topics st)" "all_stamped t_oid (topics st)"
  shows "map_of (topics (sns_adjustMessageCounters now st)) k =
      map_option (\<lambda>t. t\<lparr>
        t_messages := sns_countMessagesByStatus st (t_topicArn t) SNS_INITIAL,
        t_messagesSend := sns_countMessagesByStatus st (t_topicArn t) SNS_SEND,
        t_messagesResend := sns_countMessagesByStatus st (t_topicArn t) SNS_RESEND\<rparr>) (map_of (topics st) k) \<and>
    sns_messages (sns_adjustMessageCounters now st) = sns_messages st"
proof -
  have "map_of (map (\<lambda>(k, t). (k, f t)) m) k = map_option f (map_of m k)" for f :: "sns_topic \<Rightarrow> sns_topic" and m
    by (induction m) auto
  then show ?thesis
    by (simp add: sns_adjustMessageCounters_def sns_adjust_loop_stamped [OF assms] set_sns_counters_def)
qed

definition wit_topic :: "string \<Rightarrow> string \<Rightarrow> sns_topic" where
  "wit_topic oid arn = (default_topic 0)\<lparr>t_oid := oid, t_topicArn := arn, t_topicName := arn, t_region := ''eu''\<rparr>"

definition wit_sns :: sns_repo where
  "wit_sns = \<lparr>topics = [(''a'', wit_topic ''a'' ''x''), (''b'', wit_topic ''b'' ''y'')],
     sns_messages = [(''m'', (default_sns_message 0)\<lparr>sm_topicArn := ''y''\<rparr>)]\<rparr>"

theorem sns_adjust_counts_witness:
  "map_option t_messages (map_of (topics (sns_adjustMessageCounters 0 wit_sns)) ''b'') = Some 1"
proof -
  have "omap_inv (topics wit_sns)" "all_stamped t_oid (topics wit_sns)"
    by (simp_all add: wit_sns_def all_stamped_def wit_topic_def)
  from sns_adjust_counts [OF this, of 0 "''b''"] show ?thesis
    by (simp add: wit_sns_def wit_topic_def default_topic_def sns_countMessagesByStatus_def count_if_def default_sns_message_def)
qed

subsection \<open>Topics with a foreign object id\<close>

lemma visit_topic_keys: "keys_of (visit_topic now st t ts) = insert (t_oid t) (keys_of ts)"
proof (cases "map_of ts (t_oid t)")
  case None
  then show ?thesis by (simp add: visit_topic_def keys_omap_insert)
next
  case (Some x)
  then have "t_oid t \<in> keys_of ts" by (metis map_of_keys option.distinct(1))
  then show ?thesis using Some by (auto simp: visit_topic_def)
qed

lemma visit_topic_oids:
  assumes "omap_inv ts" "(k, u) \<in> set ts"
  shows "\<exists>u'. (k, u') \<in> set (visit_topic now st t ts) \<and> t_oid u' = t_oid u"
proof -
  have m: "map_of ts k = Some u" using assms omap_inv_wf wf_in_map_of by metis
  have "\<exists>u'. map_of (visit_topic now st t ts) k = Some u' \<and> t_oid u' = t_oid u"
    using m by (auto simp: visit_topic_def Let_def store_simps map_of_omap_insert)
  then show ?thesis using visit_topic_inv [OF assms(1)] omap_inv_wf wf_in_map_of by metis
qed

lemma sns_adjust_loop_keys: "keys_of ts \<subseteq> keys_of (sns_adjust_loop now st cur ts)"
proof (induction now st cur ts rule: sns_adjust_loop.induct)
  case (1 now st cur ts)
  show ?case
  proof (cases "entry_after cur ts")
    case None
    then show ?thesis by (simp add: sns_adjust_loop.simps [of now st cur ts])
  next
    case (Some kt)
    obtain k t where kt: "kt = (k, t)" by (cases kt)
    have "keys_of ts \<subseteq> keys_of (visit_topic now st t ts)" by (auto simp: visit_topic_keys)
    also have "\<dots> \<subseteq> keys_of (sns_adjust_loop now st (Some k) (visit_topic now st t ts))"
      by (rule "1.IH" [OF Some kt [symmetric]])
    finally show ?thesis using Some kt by (simp add: sns_adjust_loop.simps [of now st cur ts])
  qed
qed

lemma sns_adjust_loop_oids:
  "omap_inv ts \<Longrightarrow> (j, u) \<in> set ts \<Longrightarrow> ahead cur j \<Longrightarrow> t_oid u \<in> keys_of (sns_adjust_loop now st cur ts)"
proof (induction now st cur ts arbitrary: j u rule: sns_adjust_loop.induct)
  case (1 now st cur ts)
  have jk: "j \<in> keys_of ts" using "1.prems"(2) by auto
  then have "entry_after cur ts \<noteq> None" unfolding entry_after_None using "1.prems"(3) by blast
  then obtain k t where Some: "entry_after cur ts = Some (k, t)" by auto
  have run: "sns_adjust_loop now st cur ts = sns_adjust_loop now st (Some k) (visit_topic now st t ts)"
    using Some by (simp add: sns_adjust_loop.simps [of now st cur ts])
  note e = entry_after_Some [OF "1.prems"(1) Some]
  show ?case
  proof (cases "j = k")
    case True
    then have "u = t" using e "1.prems"(1,2) by (metis omap_inv_wf option.inject wf_in_map_of)
    then have "t_oid u \<in> keys_of (visit_topic now st t ts)" by (simp add: visit_topic_keys)
    then show ?thesis unfolding run using sns_adjust_loop_keys by blast
  next
    case False
    then have "ahead (Some k) j" using ahead_after [OF "1.prems"(1) Some jk] "1.prems"(3) by blast
    moreover obtain u' where "(j, u') \<in> set (visit_topic now st t ts)" "t_oid u' = t_oid u"
      using visit_topic_oids [OF "1.prems"(1,2)] by blast
    ultimately show ?thesis
      unfolding run using "1.IH" [OF Some refl visit_topic_inv [OF "1.prems"(1)]] by metis
  qed
qed

text \<open>After importing a topic over an existing one from a document without its object id,
  \<open>adjustMessageCounters\<close> adds a topic that nobody created, under the foreign id.\<close>

theorem sns_import_adds_phantom:
  assumes inv: "omap_inv (topics st)" and ex: "sns_topicExists st (t_region topic) (t_topicName topic)"
    and oid: "t_oid topic \<notin> keys_of (topics st)"
    and imp: "sns_importTopic uuid now st topic = Inr (st', topic')"
  shows "keys_of (topics st') = keys_of (topics st) \<and>
    t_oid topic \<in> keys_of (topics (sns_adjustMessageCounters now' st'))"
proof -
  let ?P = "\<lambda>(_::string, t). t_region t = t_region topic \<and> t_topicName t = t_topicName topic"
  obtain k old where f: "find_if ?P (topics st) = Some (k, old)"
    using ex by (auto simp: sns_topicExists_def found_def)
  let ?t = "topic\<lparr>t_modified := now\<rparr>"
  have st': "st' = st\<lparr>topics := assign k ?t (topics st)\<rparr>"
    using imp ex f by (auto simp: sns_importTopic_def sns_createOrUpdateTopic_def sns_updateTopic_def replace_found_def Let_def)
  have "map_of (topics st) k = Some old" using find_if_Some_map_of [OF omap_inv_wf [OF inv] f] by simp
  then have "map_of (topics st') k = Some ?t" by (simp add: st' store_simps)
  then have "(k, ?t) \<in> set (topics st')" by (rule map_of_SomeD)
  moreover have "omap_inv (topics st')" by (simp add: st' inv)
  ultimately have "t_oid ?t \<in> keys_of (sns_adjust_loop now' st' None (topics st'))"
    by (intro sns_adjust_loop_oids) simp_all
  then show ?thesis by (simp add: sns_adjustMessageCounters_def st')
qed

theorem sns_import_adds_phantom_witness:
  "\<exists>st' t'. sns_importTopic ''u'' 3 wit_sns (wit_topic ''foreign'' ''x'') = Inr (st', t') \<and>
     ''foreign'' \<in> keys_of (topics (sns_adjustMessageCounters 4 st'))"
proof -
  have pre: "omap_inv (topics wit_sns)" "sns_topicExists wit_sns (t_region (wit_topic ''foreign'' ''x'')) (t_topicName (wit_topic ''foreign'' ''x''))"
    "t_oid (wit_topic ''foreign'' ''x'') \<notin> keys_of (topics wit_sns)"
    by (simp_all add: wit_sns_def wit_topic_def sns_topicExists_def found_iff)
  then obtain st' t' where i: "sns_importTopic ''u'' 3 wit_sns (wit_topic ''foreign'' ''x'') = Inr (st', t')"
    by (auto simp: sns_importTopic_def sns_createOrUpdateTopic_def sns_updateTopic_def sns_topicExists_def found_def
      replace_found_def Let_def)
  from sns_import_adds_phantom [OF pre i, of 4] have "''foreign'' \<in> keys_of (topics (sns_adjustMessageCounters 4 st'))"
    by (simp add: wit_topic_def)
  with i show ?thesis by blast
qed

subsection \<open>Messages\<close>

text \<open>\<open>createOrUpdateMessage\<close> compares the message id with the random keys of the map: a message
  whose id is no key is stored once more on every call, next to the earlier ones with the same id,
  and looking the id up returns an empty message.\<close>

theorem sns_put_message_duplicates:
  assumes inv: "omap_inv (sns_messages st)"
    and id: "sm_messageId m \<notin> keys_of (sns_messages st)" "sm_messageId m \<noteq> uuid" and fresh: "uuid \<notin> keys_of (sns_messages st)"
    and put: "sns_createOrUpdateMessage uuid now st m = (st', m', r)"
  shows "map_of (sns_messages st') = (map_of (sns_messages st))(uuid \<mapsto> m) \<and>
    count_if (\<lambda>(_, x). sm_messageId x = sm_messageId m) (sns_messages st') =
      count_if (\<lambda>(_, x). sm_messageId x = sm_messageId m) (sns_messages st) + 1 \<and>
    sns_getMessageByMessageId now' st' (sm_messageId m) = default_sns_message now'"
proof -
  have st': "sns_messages st' = omap_insert uuid m (sns_messages st)"
  proof -
    have "\<not> sns_messageExists st (sm_messageId m)" using id(1) by (auto simp: sns_messageExists_def found_iff)
    then show ?thesis using put by (auto simp: sns_createOrUpdateMessage_def sns_createMessage_def)
  qed
  have "sm_messageId m \<notin> keys_of (sns_messages st')" using id by (simp add: st' keys_omap_insert)
  then have "find_if (\<lambda>(k, _). k = sm_messageId m) (sns_messages st') = None"
    by (auto simp: find_if_def find_None_iff')
  then show ?thesis
    using om.count_ins_fresh [OF inv fresh] by (simp add: st' map_of_omap_insert sns_getMessageByMessageId_def)
qed

theorem sns_put_message_duplicates_witness:
  "\<exists>st' m' r. sns_createOrUpdateMessage ''u'' 1 wit_sns ((default_sns_message 0)\<lparr>sm_messageId := ''id''\<rparr>) = (st', m', r) \<and>
     sns_getMessageByMessageId 2 st' ''id'' = default_sns_message 2"
proof -
  let ?m = "(default_sns_message 0)\<lparr>sm_messageId := ''id''\<rparr>"
  obtain st' m' r where p: "sns_createOrUpdateMessage ''u'' 1 wit_sns ?m = (st', m', r)" by (metis prod_cases3)
  have "omap_inv (sns_messages wit_sns)" "sm_messageId ?m \<notin> keys_of (sns_messages wit_sns)" "sm_messageId ?m \<noteq> ''u''"
    "''u'' \<notin> keys_of (sns_messages wit_sns)"
    by (simp_all add: wit_sns_def)
  from sns_put_message_duplicates [OF this p] p show ?thesis by auto
qed

text \<open>\<open>deleteOldMessages\<close> keeps exactly the messages created within the timeout, and running it
  again at the same time removes nothing more.\<close>

theorem sns_delete_old_exact:
  assumes "omap_inv (sns_messages st)"
  shows "omap_inv (sns_messages (sns_deleteOldMessages now st timeout)) \<and>
    map_of (sns_messages (sns_deleteOldMessages now st timeout)) k =
      (case map_of (sns_messages st) k of
         None \<Rightarrow> None
       | Some m \<Rightarrow> if now - timeout * 1000000000 \<le> sm_created m then Some m else None) \<and>
    sns_deleteOldMessages now (sns_deleteOldMessages now st timeout) timeout = sns_deleteOldMessages now st timeout \<and>
    topics (sns_deleteOldMessages now st timeout) = topics st"
  using map_of_erase_if [OF omap_inv_wf [OF assms], of "\<lambda>(_, m). sm_created m < now - seconds timeout" k] assms
  by (auto simp: sns_deleteOldMessages_def Let_def seconds_def split: option.splits)

theorem sns_delete_old_exact_witness:
  "map_of (sns_messages (sns_deleteOldMessages 1000000001 wit_sns 1)) ''m'' = None"
proof -
  have "omap_inv (sns_messages wit_sns)" by (simp add: wit_sns_def)
  from sns_delete_old_exact [OF this, of 1000000001 1 "''m''"] show ?thesis
    by (simp add: wit_sns_def default_sns_message_def)
qed

end
