(* ===== verification/SnsServiceSteps.thy ===== *)
theory SnsServiceSteps
  imports SnsQueries SnsProps SqsServiceProps
begin

text \<open>
  The SNS service as a state machine over the world it shares with the SQS service. In the states it
  reaches the topics are stored under their object ids, and no two have the same region and name;
  and what its deliveries do to the queues is a sequence of steps of the SQS repository's machine.
\<close>

subsection \<open>The topics\<close>

definition topic_ident :: "sns_topic \<Rightarrow> string \<times> string" where
  "topic_ident t = (t_region t, t_topicName t)"

interpretation topic_store: ident_store omap_insert omap_inv topic_ident
  by unfold_locales simp

definition sns_ok :: "sns_repo \<Rightarrow> bool" where
  "sns_ok st \<longleftrightarrow> sns_inv st \<and> all_stamped t_oid (topics st) \<and> ident_unique topic_ident (topics st)"

lemma sns_okD:
  assumes "sns_ok st"
  shows "omap_inv (topics st)" "omap_inv (sns_messages st)" "all_stamped t_oid (topics st)"
    "ident_unique topic_ident (topics st)" "wf_store (topics st)"
  using assms by (auto simp: sns_ok_def sns_inv_def dest: omap_inv_wf)

lemma sns_ok_messages: "sns_ok st \<Longrightarrow> omap_inv ms \<Longrightarrow> sns_ok (st\<lparr>sns_messages := ms\<rparr>)"
  by (simp add: sns_ok_def sns_inv_def)

lemma sns_ok_topics:
  "sns_ok st \<Longrightarrow> omap_inv ts \<Longrightarrow> all_stamped t_oid ts \<Longrightarrow> ident_unique topic_ident ts \<Longrightarrow> sns_ok (st\<lparr>topics := ts\<rparr>)"
  by (simp add: sns_ok_def sns_inv_def)

text \<open>A lookup changes nothing.\<close>

definition found_topic :: "time_point \<Rightarrow> (sns_topic \<Rightarrow> bool) \<Rightarrow> sns_repo \<Rightarrow> sns_topic" where
  "found_topic now P st = (case find_if (\<lambda>(_, t). P t) (topics st) of None \<Rightarrow> default_topic now | Some (_, t) \<Rightarrow> t)"

lemma get_topic_stamped:
  assumes "sns_ok st"
  shows "with_topics st (get_or (default_topic now) set_t_oid (\<lambda>(_, t). P t) (topics st)) = (st, found_topic now P st)"
  by (simp add: with_topics_def found_topic_def sns_t.get_or_stamped [OF sns_okD(5,3) [OF assms]])

lemma getTopic_eqs:
  assumes "sns_ok st"
  shows "sns_getTopicByArn now st arn = (st, found_topic now (\<lambda>t. t_topicArn t = arn) st)"
    "sns_getTopicByTargetArn now st arn = (st, found_topic now (\<lambda>t. t_targetArn t = arn) st)"
    "sns_getTopicByName now st region name = (st, found_topic now (\<lambda>t. t_region t = region \<and> t_topicName t = name) st)"
  by (simp_all add: sns_getTopicByArn_def sns_getTopicByTargetArn_def sns_getTopicByName_def get_topic_stamped [OF assms])

text \<open>The copy of a topic an operation works on, and writing it back.\<close>

definition known_topic :: "sns_repo \<Rightarrow> sns_topic \<Rightarrow> bool" where
  "known_topic st t \<longleftrightarrow> (\<exists>old. (t_oid t, old) \<in> set (topics st) \<and> topic_ident old = topic_ident t)"

lemma known_same: "known_topic st t \<Longrightarrow> t_oid u = t_oid t \<Longrightarrow> topic_ident u = topic_ident t \<Longrightarrow> known_topic st u"
  by (simp add: known_topic_def)

lemma found_topic_known:
  assumes "sns_ok st" "sns_topicExistsName st arn"
  shows "known_topic st (found_topic now (\<lambda>t. t_topicArn t = arn) st)"
    "t_topicArn (found_topic now (\<lambda>t. t_topicArn t = arn) st) = arn"
proof -
  obtain k t where f: "find_if (\<lambda>(_, t). t_topicArn t = arn) (topics st) = Some (k, t)"
    using assms(2) by (auto simp: sns_topicExistsName_def found_def)
  have m: "(k, t) \<in> set (topics st)" "t_topicArn t = arn" using find_if_SomeD [OF f] by auto
  then have "t_oid t = k" using sns_okD(3) [OF assms(1)] by (auto simp: all_stamped_def)
  then show "known_topic st (found_topic now (\<lambda>t. t_topicArn t = arn) st)"
    "t_topicArn (found_topic now (\<lambda>t. t_topicArn t = arn) st) = arn"
    using m by (auto simp: found_topic_def f known_topic_def)
qed

lemma updateTopic_known:
  assumes ok: "sns_ok st" and t: "known_topic st t"
  shows "sns_updateTopic now st t =
     Inr (st\<lparr>topics := assign (t_oid t) (t\<lparr>t_modified := now\<rparr>) (topics st)\<rparr>, t\<lparr>t_modified := now\<rparr>, t\<lparr>t_modified := now\<rparr>)"
proof -
  obtain old where old: "(t_oid t, old) \<in> set (topics st)" "topic_ident old = topic_ident t"
    using t by (auto simp: known_topic_def)
  let ?P = "\<lambda>(_::string, x). t_region x = t_region t \<and> t_topicName x = t_topicName t"
  have "found ?P (topics st)" unfolding found_iff using old by (force simp: topic_ident_def)
  then obtain k u where f: "find_if ?P (topics st) = Some (k, u)" by (auto simp: found_def)
  have "(k, u) \<in> set (topics st)" "topic_ident u = topic_ident t" using find_if_SomeD [OF f] by (auto simp: topic_ident_def)
  then have "k = t_oid t" using ident_uniqueD [OF sns_okD(4) [OF ok] old(1)] old(2) by metis
  then show ?thesis using f by (simp add: sns_updateTopic_def Let_def replace_found_def)
qed

lemma update_known_ok:
  assumes ok: "sns_ok st" and t: "known_topic st t"
  shows "sns_ok (st\<lparr>topics := assign (t_oid t) (t\<lparr>t_modified := now\<rparr>) (topics st)\<rparr>)"
    "known_topic st u \<Longrightarrow> known_topic (st\<lparr>topics := assign (t_oid t) (t\<lparr>t_modified := now\<rparr>) (topics st)\<rparr>) u"
proof -
  obtain old where old: "(t_oid t, old) \<in> set (topics st)" "topic_ident old = topic_ident t"
    using t by (auto simp: known_topic_def)
  let ?t = "t\<lparr>t_modified := now\<rparr>"
  have s: "set (assign (t_oid t) ?t (topics st)) = insert (t_oid t, ?t) {kv \<in> set (topics st). fst kv \<noteq> t_oid t}"
    by (rule topic_store.set_assign [OF sns_okD(1) [OF ok] old(1)])
  have i: "topic_ident ?t = topic_ident old" using old(2) by (simp add: topic_ident_def)
  have other: "topic_ident e \<noteq> topic_ident ?t" if "(k, e) \<in> set (topics st)" "k \<noteq> t_oid t" for k e
    using ident_uniqueD [OF sns_okD(4) [OF ok] old(1) that(1)] i that(2) by metis
  have "ident_unique topic_ident (assign (t_oid t) ?t (topics st))"
    unfolding ident_unique_def s using ident_uniqueD [OF sns_okD(4) [OF ok]] other by (auto dest: sym)
  then show "sns_ok (st\<lparr>topics := assign (t_oid t) ?t (topics st)\<rparr>)"
    by (intro sns_ok_topics ok) (use sns_okD [OF ok] in \<open>simp_all add: all_stamped_assign\<close>)
  assume u: "known_topic st u"
  then obtain o' where o': "(t_oid u, o') \<in> set (topics st)" "topic_ident o' = topic_ident u" by (auto simp: known_topic_def)
  show "known_topic (st\<lparr>topics := assign (t_oid t) ?t (topics st)\<rparr>) u"
  proof (cases "t_oid u = t_oid t")
    case True
    then have "o' = old" using o'(1) old(1) sns_okD(5) [OF ok] by (simp add: wf_in_map_of)
    then show ?thesis using True o' i unfolding known_topic_def by (auto simp: s)
  next
    case False
    then show ?thesis using o' unfolding known_topic_def by (auto simp: s)
  qed
qed

lemma create_topic_ok:
  assumes ok: "sns_ok st" and new: "\<not> sns_topicExists st (t_region t) (t_topicName t)"
  shows "sns_ok (fst (sns_createTopic oid st t))"
proof -
  let ?t = "t\<lparr>t_oid := oid\<rparr>"
  have nf: "\<not> found (\<lambda>(_, e). topic_ident e = topic_ident ?t) (topics st)"
    using new by (simp add: sns_topicExists_def topic_ident_def)
  have "ident_unique topic_ident (omap_insert oid ?t (topics st))"
    using topic_store.upsert_unique [OF sns_okD(1,4) [OF ok], of "\<lambda>_. ?t" ?t oid] upsert_absent [OF nf] by simp
  then show ?thesis
    by (simp add: sns_createTopic_def Let_def)
      (intro sns_ok_topics ok, use sns_okD [OF ok] in \<open>simp_all add: omap_inv_insert all_stamped_omap_insert\<close>)
qed

lemma adjust_ok:
  assumes ok: "sns_ok st" shows "sns_ok (sns_adjustMessageCounters now st)"
proof -
  let ?f = "\<lambda>t. set_sns_counters st (t_topicArn t) t"
  let ?ts = "map (\<lambda>(k, t). (k, ?f t)) (topics st)"
  have "sns_adjustMessageCounters now st = st\<lparr>topics := ?ts\<rparr>"
    by (simp add: sns_adjustMessageCounters_def sns_adjust_loop_stamped [OF sns_okD(1,3) [OF ok]])
  moreover have "map fst ?ts = map fst (topics st)" by (simp add: case_prod_unfold)
  then have "omap_inv ?ts" using sns_okD(1) [OF ok] unfolding omap_inv_def by metis
  moreover have "all_stamped t_oid ?ts" using sns_okD(3) [OF ok] by (auto simp: all_stamped_def)
  moreover have i: "topic_ident (?f t) = topic_ident t" for t by (simp add: topic_ident_def set_sns_counters_def)
  have "ident_unique topic_ident ?ts"
    unfolding ident_unique_def
  proof (intro allI impI)
    fix k e k' e' assume "(k, e) \<in> set ?ts" "(k', e') \<in> set ?ts" and eq: "topic_ident e = topic_ident e'"
    then obtain t t' where t: "(k, t) \<in> set (topics st)" "e = ?f t" "(k', t') \<in> set (topics st)" "e' = ?f t'" by auto
    then show "k = k' \<and> e = e'" using ident_uniqueD [OF sns_okD(4) [OF ok] t(1,3)] eq i by simp
  qed
  ultimately show ?thesis using sns_ok_topics [OF ok] by simp
qed

subsection \<open>Every operation keeps the topics in order\<close>

definition topics_fine :: "sns_world \<Rightarrow> bool" where
  "topics_fine w \<longleftrightarrow> sns_ok (w_sns w)"

lemma keeps_on_sns: "(\<And>st. sns_ok st \<Longrightarrow> sns_ok (fst (f st))) \<Longrightarrow> keeps topics_fine (on_sns f)"
  by (simp add: keeps_def on_sns_def topics_fine_def split_beta)

lemma keeps_try_sns: "(\<And>st st' x. sns_ok st \<Longrightarrow> f st = Inr (st', x) \<Longrightarrow> sns_ok st') \<Longrightarrow> keeps topics_fine (try_sns f)"
  by (auto simp: keeps_def try_sns_def topics_fine_def split: sum.splits prod.splits)

lemma keeps_elsewhere [keeps_rules]:
  "keeps topics_fine (on_sqs g)" "keeps topics_fine (try_sqs h)" "keeps topics_fine (try_lam l)" "keeps topics_fine (emit ev)"
  by (auto simp: keeps_def on_sqs_def try_sqs_def try_lam_def emit_def topics_fine_def split: sum.splits prod.splits)

lemma keeps_need_topic [keeps_rules]: "keeps I a \<Longrightarrow> keeps I (need_topic e arn a)"
  by (simp add: need_topic_def keeps_check)

lemma keeps_lookup [keeps_rules]:
  "keeps topics_fine (on_sns (\<lambda>st. sns_getTopicByArn now st arn))"
  "keeps topics_fine (on_sns (\<lambda>st. sns_getTopicByName now st region name))"
  "keeps topics_fine (on_sns (topic_to_publish now d))"
  by (rule keeps_on_sns, simp add: getTopic_eqs topic_to_publish_def)+

lemma setMessageStatus_ok: "sns_ok st \<Longrightarrow> sns_ok (sns_setMessageStatus now st m s)"
  by (auto simp: sns_setMessageStatus_def modify_found_def sns_okD(2) intro!: sns_ok_messages split: option.splits)

lemma keeps_deliver_one [keeps_rules]: "keeps topics_fine (deliver_one env ids d m s)"
proof -
  have "keeps topics_fine (on_sns (\<lambda>st. (sns_setMessageStatus (dl_done ids) st m SNS_SEND, ())))"
    by (rule keeps_on_sns) (simp add: setMessageStatus_ok)
  then show ?thesis
    unfolding deliver_one_def SendSQSMessage_def SendHttpMessage_def SendLambdaMessage_def
      sns_SendLambdaInvocationRequest_def Let_def case_prod_unfold
    by (intro keeps_rules)
qed

lemma keeps_check_subscriptions [keeps_rules]: "keeps topics_fine (CheckSubscriptions env ids d t m)"
  unfolding CheckSubscriptions_def by (intro keeps_rules)

lemma keeps_create_message [keeps_rules]:
  "keeps topics_fine (on_sns (\<lambda>st. let (st', _, m') = sns_createMessage oid st m in (st', m')))"
  by (rule keeps_on_sns) (simp add: sns_createMessage_def sns_ok_messages sns_okD(2) omap_inv_insert)

lemma keeps_publish: "keeps topics_fine (sns_Publish env clock oid messageId ids d)"
  unfolding sns_Publish_def by (intro keeps_rules)

lemma keeps_resend:
  "keeps topics_fine (sns_ResendTopic env now idss region user requestId arn)"
  "keeps topics_fine (sns_ResendMessage env clock ids region user requestId arn messageId)"
  unfolding sns_ResendTopic_def sns_ResendMessage_def by (intro keeps_rules)+

lemma keeps_create_topic: "keeps topics_fine (sns_CreateTopic env clock oid region name owner)"
proof -
  let ?make = "\<lambda>st. let (st', _, t) = sns_createTopic oid st ((default_topic (clock 0))\<lparr>t_region := region, t_topicName := name,
      t_owner := owner, t_topicArn := CreateSNSTopicArn region (cfg_account_id (e_cfg (n_sqs env))) name\<rparr>) in (st', t)"
  have new: "sns_ok (fst (?make st))" if "sns_ok st" "\<not> sns_topicExists st region name" for st
    using create_topic_ok [OF that(1), of "(default_topic (clock 0))\<lparr>t_region := region, t_topicName := name,
      t_owner := owner, t_topicArn := CreateSNSTopicArn region (cfg_account_id (e_cfg (n_sqs env))) name\<rparr>" oid] that(2)
    by (simp add: split_beta)
  have bind: "topics_fine (fst (act_bind a (\<lambda>t. act_return (g t)) w))" if "topics_fine (fst (a w))"
    for a :: "(sns_world, sns_topic) action" and g :: "sns_topic \<Rightarrow> string \<times> string \<times> string" and w
    by (cases rule: run_bind_cases [of a w "\<lambda>t. act_return (g t)"]) (use that in \<open>simp_all add: run_simps\<close>)
  show ?thesis
    unfolding keeps_def sns_CreateTopic_def
  proof (intro allI impI bind)
    fix w assume ok: "topics_fine w"
    show "topics_fine (fst ((if sns_topicExists (w_sns w) region name then on_sns (\<lambda>st. sns_getTopicByName (clock 0) st region name)
        else on_sns ?make) w))"
    proof (cases "sns_topicExists (w_sns w) region name")
      case True
      then show ?thesis using keepsD [OF keeps_lookup(2) ok] by simp
    next
      case False
      then show ?thesis using new [of "w_sns w"] ok by (simp add: on_sns_def topics_fine_def split_beta)
    qed
  qed
qed

text \<open>An operation that fetches a topic, changes it and writes it back.\<close>

lemma triple_lookup:
  "triple topics_fine (\<lambda>w. topics_fine w \<and> sns_topicExistsName (w_sns w) arn) (on_sns (\<lambda>st. sns_getTopicByArn now st arn))
     (\<lambda>t w. topics_fine w \<and> known_topic (w_sns w) t)"
  by (simp add: triple_def on_sns_def topics_fine_def getTopic_eqs found_topic_known)

lemma triple_store:
  assumes "t_oid u = t_oid t" "topic_ident u = topic_ident t"
  shows "triple topics_fine (\<lambda>w. topics_fine w \<and> known_topic (w_sns w) t) (store_topic now u) (\<lambda>_. topics_fine)"
  unfolding triple_def
proof (intro allI impI)
  fix w assume w: "topics_fine w \<and> known_topic (w_sns w) t"
  then have u: "sns_ok (w_sns w)" "known_topic (w_sns w) u" using known_same assms by (auto simp: topics_fine_def)
  show "case store_topic now u w of (s', Inl e) \<Rightarrow> topics_fine s' | (s', Inr x) \<Rightarrow> topics_fine s'"
    by (simp add: store_topic_def try_sns_def updateTopic_known [OF u] topics_fine_def update_known_ok(1) [OF u])
qed

lemma keeps_with_topic:
  assumes "\<And>t. triple topics_fine (\<lambda>w. topics_fine w \<and> known_topic (w_sns w) t) (f t) (\<lambda>_. topics_fine)"
  shows "keeps topics_fine (need_topic e arn (act_bind (on_sns (\<lambda>st. sns_getTopicByArn now st arn)) f))"
proof -
  have "triple topics_fine (\<lambda>w. topics_fine w \<and> sns_topicExistsName (w_sns w) arn)
      (act_bind (on_sns (\<lambda>st. sns_getTopicByArn now st arn)) f) (\<lambda>_. topics_fine)"
    by (rule triple_bind [OF triple_lookup assms])
  then show ?thesis
    unfolding keeps_triple need_topic_def by (simp add: triple_def act_check_def)
qed

lemma triple_then_return: "triple E P a (\<lambda>_. I) \<Longrightarrow> triple E P (act_bind a (\<lambda>x. act_return (g x))) (\<lambda>_. I)"
  by (erule triple_bind) (simp add: triple_def run_simps)

lemma keeps_change_topic:
  assumes "\<And>t. t_oid (f t) = t_oid t" "\<And>t. topic_ident (f t) = topic_ident t"
  shows "keeps topics_fine (need_topic e arn (act_bind (change_topic clock arn f) (\<lambda>x. act_return (g x))))"
  unfolding change_topic_def bind_assoc
  by (rule keeps_with_topic, rule triple_then_return, rule triple_store) (simp_all add: assms)

lemma keeps_tags:
  "keeps topics_fine (sns_TagResource clock arn tags)" "keeps topics_fine (sns_UntagResource clock arn names)"
  unfolding sns_TagResource_def sns_UntagResource_def by (rule keeps_change_topic; simp add: topic_ident_def)+

lemma keeps_subscription_counters:
  "keeps topics_fine (sns_AddSubscriptionCounter env clock random region arn protocol endpoint)"
  "keeps topics_fine (sns_DeleteSubscriptionCounter clock arn subscriptionArn)"
  unfolding sns_AddSubscriptionCounter_def sns_DeleteSubscriptionCounter_def
  by (rule keeps_change_topic; simp add: topic_ident_def without_subscription_def)+

lemma keeps_default_attributes: "keeps topics_fine (change_default_attributes clock arn f)"
  unfolding change_default_attributes_def by (rule keeps_change_topic) (simp_all add: topic_ident_def)

lemma triple_throw: "(\<And>w. P w \<Longrightarrow> E w) \<Longrightarrow> triple E P (act_throw e) Q"
  by (simp add: triple_def run_simps)

lemma triple_return: "(\<And>w. P w \<Longrightarrow> Q x w) \<Longrightarrow> triple E P (act_return x) Q"
  by (simp add: triple_def run_simps)

lemma keeps_subscribe: "keeps topics_fine (sns_Subscribe env clock random region arn protocol endpoint)"
proof -
  have body: "triple topics_fine (\<lambda>w. topics_fine w \<and> known_topic (w_sns w) t)
      (act_bind (if b then act_bind (store_topic now (t\<lparr>t_subscriptions := subs\<rparr>)) (\<lambda>_. act_return ()) else act_return ())
        (\<lambda>_. act_return x)) (\<lambda>_. topics_fine)" for b now t subs and x :: string
    by (cases b) (auto simp: topic_ident_def intro!: triple_then_return triple_store triple_return)
  show ?thesis
    unfolding sns_Subscribe_def Let_def by (intro keeps_check keeps_with_topic body)
qed

lemma keeps_update_subscription: "keeps topics_fine (sns_UpdateSubscription clock arn subscriptionArn protocol endpoint)"
proof -
  have body: "triple topics_fine (\<lambda>w. topics_fine w \<and> known_topic (w_sns w) t)
      (if b then act_throw e else if c then act_throw e' else act_bind (store_topic now (t\<lparr>t_subscriptions := subs\<rparr>)) (\<lambda>_. act_return x))
      (\<lambda>_. topics_fine)" for b c e e' now t subs and x :: string
    by (cases b; cases c) (auto simp: topic_ident_def intro!: triple_then_return triple_store triple_throw)
  show ?thesis
    unfolding sns_UpdateSubscription_def Let_def by (intro keeps_check keeps_with_topic body)
qed

lemma store_known:
  assumes "topics_fine w" "known_topic (w_sns w) t" "t_oid u = t_oid t" "topic_ident u = topic_ident t"
  shows "topics_fine (fst (store_topic now u w))" "known_topic (w_sns w) v \<Longrightarrow> known_topic (w_sns (fst (store_topic now u w))) v"
proof -
  have ok: "sns_ok (w_sns w)" using assms(1) by (simp add: topics_fine_def)
  have u: "known_topic (w_sns w) u" using known_same assms by blast
  show "topics_fine (fst (store_topic now u w))" "known_topic (w_sns w) v \<Longrightarrow> known_topic (w_sns (fst (store_topic now u w))) v"
    using update_known_ok [OF ok u, where now = now] by (simp_all add: store_topic_def try_sns_def updateTopic_known [OF ok u] topics_fine_def)
qed

lemma keeps_store_each:
  assumes "\<And>t. t_oid (f t) = t_oid t" "\<And>t. topic_ident (f t) = topic_ident t"
  shows "keeps (\<lambda>w. topics_fine w \<and> list_all (known_topic (w_sns w)) ts)
    (act_each (\<lambda>i t. act_bind (store_topic (clock i) (f t)) (\<lambda>_. act_return ())) 0 ts)"
proof (rule keeps_each)
  let ?I = "\<lambda>w. topics_fine w \<and> list_all (known_topic (w_sns w)) ts"
  fix i t assume t: "t \<in> set ts"
  have "keeps ?I (store_topic (clock i) (f t))"
    unfolding keeps_def
  proof (intro allI impI)
    fix v assume v: "?I v"
    then have kt: "known_topic (w_sns v) t" using t by (simp add: list_all_iff)
    note k = store_known [OF conjunct1 [OF v] kt assms, where now = "clock i"]
    have "list_all (known_topic (w_sns (fst (store_topic (clock i) (f t) v)))) ts"
      using conjunct2 [OF v] by (rule list.pred_mono_strong) (rule k(2))
    then show "?I (fst (store_topic (clock i) (f t) v))" using k(1) by blast
  qed
  then show "keeps ?I (act_bind (store_topic (clock i) (f t)) (\<lambda>_. act_return ()))"
    by (intro keeps_bind keeps_return)
qed

lemma subscribed_known:
  assumes "topics_fine w" shows "list_all (known_topic (w_sns w)) (sns_getTopicsBySubscriptionArn (w_sns w) subscriptionArn)"
  unfolding list_all_iff
proof
  fix t assume "t \<in> set (sns_getTopicsBySubscriptionArn (w_sns w) subscriptionArn)"
  then obtain k where k: "(k, t) \<in> set (topics (w_sns w))" by (auto simp: sns_getTopicsBySubscriptionArn_def values_of_def)
  moreover have "t_oid t = k" using k sns_okD(3) [OF assms [unfolded topics_fine_def]] by (auto simp: all_stamped_def)
  ultimately show "known_topic (w_sns w) t" by (auto simp: known_topic_def)
qed

lemma keeps_unsubscribe: "keeps topics_fine (sns_Unsubscribe clock subscriptionArn)"
  unfolding keeps_def
proof (intro allI impI)
  fix w assume w: "topics_fine w"
  let ?ts = "sns_getTopicsBySubscriptionArn (w_sns w) subscriptionArn"
  let ?loop = "act_each (\<lambda>i t. act_bind (store_topic (clock i) (without_subscription subscriptionArn t)) (\<lambda>_. act_return ())) 0 ?ts"
  have "topics_fine (fst (?loop w))"
    using keepsD [OF keeps_store_each [of "without_subscription subscriptionArn" ?ts clock]] w subscribed_known [OF w]
    by (simp add: without_subscription_def topic_ident_def)
  then have "topics_fine (fst (act_bind ?loop (\<lambda>_. act_return subscriptionArn) w))"
    by (cases rule: run_bind_cases [of ?loop w "\<lambda>_. act_return subscriptionArn"]) (simp_all add: run_simps)
  then show "topics_fine (fst (sns_Unsubscribe clock subscriptionArn w))"
    using w by (cases "subscriptionArn = []") (simp_all add: sns_Unsubscribe_def run_simps run_bind)
qed

lemma keeps_purge: "keeps topics_fine (sns_PurgeTopic now arn)"
proof -
  have "keeps topics_fine (on_sns (\<lambda>st. sns_purgeTopic st topic))" for topic
    by (rule keeps_on_sns) (simp add: sns_purgeTopic_def with_sns_messages_def sns_ok_messages sns_okD(2))
  then show ?thesis unfolding sns_PurgeTopic_def by (intro keeps_rules)
qed

lemma keeps_purge_all: "keeps topics_fine (sns_PurgeAllTopics clock)"
proof -
  have "keeps topics_fine (purge_topics clock ts n)" for ts n
    by (induction ts arbitrary: n) (simp_all add: keeps_return keeps_bind keeps_purge)
  then show ?thesis unfolding sns_PurgeAllTopics_def by (intro keeps_rules)
qed

lemma keeps_delete_topic: "keeps topics_fine (sns_DeleteTopic now region arn)"
  unfolding sns_DeleteTopic_def
  by (intro keeps_need_topic keeps_on_sns)
    (auto simp: sns_deleteTopic_def all_stamped_filter ident_unique_filter dest: sns_okD intro!: sns_ok_topics)

lemma keeps_reload: "keeps topics_fine (sns_ReloadAllCounters now)"
  unfolding sns_ReloadAllCounters_def by (rule keeps_on_sns) (simp add: adjust_ok)

lemma keeps_delete_message: "keeps topics_fine (sns_DeleteMessage now arn messageId)"
proof -
  have "keeps topics_fine (on_sns (\<lambda>st. sns_deleteMessageById st messageId))"
    by (rule keeps_on_sns) (simp add: sns_deleteMessageById_def with_sns_messages_def sns_ok_messages sns_okD(2))
  then show ?thesis unfolding sns_DeleteMessage_def get_topic_def by (intro keeps_rules)
qed

subsection \<open>Deliveries are steps of the SQS repository\<close>

definition apart :: "message_ids \<Rightarrow> message_ids \<Rightarrow> bool" where
  "apart x y \<longleftrightarrow> mi_oid x \<noteq> mi_oid y \<and> mi_receiptHandle x \<noteq> mi_receiptHandle y"

lemma invoke_each_shrinks: "invoke_each env lam m arn ls st = Inr st' \<Longrightarrow> set (messages st') \<subseteq> set (messages st)"
  by (auto simp: invoke_each_result split: if_splits)

lemma send_adds:
  assumes "svc_sendMessage env clock lay ids lam st d = Inr (st', resp)"
  shows "\<exists>m. m_receiptHandle m = mi_receiptHandle ids \<and> set (messages st') \<subseteq> insert (mi_oid ids, m) (set (messages st))"
proof -
  obtain st1 q where g: "sqs_getQueueByArn (clock 0) st (ConvertToArn (e_cfg env) (sr_region d) (sr_queueUrl d)) = (st1, q)"
    by fastforce
  obtain st2 x q' where u: "sqs_updateQueue (clock 5) st1 (queue_counts_message q) = (st2, x, q')"
    by (cases "sqs_updateQueue (clock 5) st1 (queue_counts_message q)") auto
  let ?m = "(message_to_store env clock ids q' d (message_before_update env clock q d))\<lparr>m_oid := mi_oid ids\<rparr>"
  have "messages st1 = messages st" using get_queue_messages(1) by (metis g fst_conv)
  then have ms: "messages st2 = messages st" using update_queue_messages by (metis u fst_conv)
  have "\<exists>m. checkLambdaNotifications env lam (st2\<lparr>messages := hmap_insert lay (mi_oid ids) ?m (messages st2)\<rparr>) (q_arn q') m = Inr st'"
    using assms by (auto simp: svc_sendMessage_def Let_def require_Inr bind_Inr g u sqs_createMessage_def)
  then have "set (messages st') \<subseteq> set (hmap_insert lay (mi_oid ids) ?m (messages st))"
    unfolding checkLambdaNotifications_def using invoke_each_shrinks ms by fastforce
  also have "\<dots> \<subseteq> insert (mi_oid ids, ?m) (set (messages st))"
    by (auto simp: hmap_insert_def assign_def set_modify split: if_splits)
  finally show ?thesis by (intro exI [of _ ?m]) simp
qed

lemma send_keeps_fresh:
  assumes "svc_sendMessage env clock lay ids lam st d = Inr (st', resp)" "fresh_ids y st" "apart ids y"
  shows "fresh_ids y st'"
  using send_adds [OF assms(1)] assms(2,3) unfolding fresh_ids_def apart_def keys_of_def by fastforce

text \<open>The queues and messages the SQS side starts from, and the ids still to be used.\<close>

definition queues_from :: "sqs_repo \<Rightarrow> message_ids set \<Rightarrow> sns_world \<Rightarrow> bool" where
  "queues_from st D w \<longleftrightarrow> steps st (w_sqs w) \<and> (\<forall>y\<in>D. fresh_ids y (w_sqs w))"

lemma queues_from_mono: "queues_from st D w \<Longrightarrow> D' \<subseteq> D \<Longrightarrow> queues_from st D' w"
  by (auto simp: queues_from_def)

lemma queues_from_same: "queues_from st D w \<Longrightarrow> w_sqs w' = w_sqs w \<Longrightarrow> queues_from st D w'"
  by (simp add: queues_from_def)

lemma deliver_sqs_steps:
  assumes w: "queues_from st (insert (dl_message ids) D) w" and ap: "\<forall>y\<in>D. apart (dl_message ids) y"
  shows "queues_from st D (fst (SendSQSMessage env ids d s w))"
proof -
  let ?arn = "ConvertToArn (e_cfg (n_sqs env)) (pr_region d) (sub_endpoint s)"
  obtain st1 q where g: "sqs_getQueueByArn (dl_lookup ids) (w_sqs w) ?arn = (st1, q)" by fastforce
  have s1: "steps st st1" using w sqs_step.queue_by_arn [of "w_sqs w" "dl_lookup ids" ?arn] steps_then
    by (auto simp: queues_from_def g)
  have ms: "messages st1 = messages (w_sqs w)" using get_queue_messages(1) by (metis g fst_conv)
  then have "fresh_ids y st1 = fresh_ids y (w_sqs w)" for y by (simp add: fresh_ids_def)
  then have fr: "fresh_ids y st1" if "y \<in> insert (dl_message ids) D" for y
    using w that by (auto simp: queues_from_def)
  let ?send = "svc_sendMessage (n_sqs env) (dl_clock ids) (dl_layout ids) (dl_message ids) (w_lam w) st1 (notification_request env ids d q)"
  show ?thesis
  proof (cases ?send)
    case (Inl e)
    then have "SendSQSMessage env ids d s w = (w\<lparr>w_sqs := st1\<rparr>, Inl e)"
      by (simp add: SendSQSMessage_def act_bind_def on_sqs_def try_sqs_def g)
    then show ?thesis using s1 fr by (simp add: queues_from_def)
  next
    case (Inr r)
    obtain st2 resp where r: "?send = Inr (st2, resp)" using Inr by (cases r) simp
    then have "SendSQSMessage env ids d s w = (w\<lparr>w_sqs := st2\<rparr>, Inr ())"
      by (simp add: SendSQSMessage_def act_bind_def on_sqs_def try_sqs_def g run_simps)
    moreover have "steps st st2" using send_steps [OF r] fr s1 by (meson insertI1 rtranclp_trans)
    moreover have "\<forall>y\<in>D. fresh_ids y st2" using send_keeps_fresh [OF r] fr ap by blast
    ultimately show ?thesis by (simp add: queues_from_def)
  qed
qed

lemma deliver_one_sqs:
  "w_sqs (fst (deliver_one env ids d m s w)) =
     (if to_lower (sub_protocol s) = ''sqs'' then w_sqs (fst (SendSQSMessage env ids d s w)) else w_sqs w)"
proof -
  let ?done = "\<lambda>_. on_sns (\<lambda>st. (sns_setMessageStatus (dl_done ids) st m SNS_SEND, ()))"
  have after: "w_sqs (fst (act_bind a ?done w)) = w_sqs (fst (a w))" for a :: "(sns_world, unit) action"
    by (cases rule: run_bind_cases [of a w ?done]) (simp_all add: on_sns_def)
  have "w_sqs (fst (SendLambdaMessage env ids d m s w)) = w_sqs w"
    by (simp add: SendLambdaMessage_def act_bind_def try_lam_def sns_SendLambdaInvocationRequest_def emit_def split: sum.splits prod.splits)
  moreover have "w_sqs (fst (SendHttpMessage d s w)) = w_sqs w"
    by (simp add: SendHttpMessage_def Let_def emit_def run_simps split_beta)
  ultimately show ?thesis by (simp add: deliver_one_def Let_def after run_simps)
qed

text \<open>The ids of the deliveries of one message are all different and new.\<close>

definition ids_from :: "(nat \<Rightarrow> delivery_ids) \<Rightarrow> nat \<Rightarrow> message_ids set" where
  "ids_from ids i = (\<lambda>j. dl_message (ids j)) ` {i..}"

definition ids_apart :: "(nat \<Rightarrow> delivery_ids) \<Rightarrow> bool" where
  "ids_apart ids \<longleftrightarrow> (\<forall>i j. i \<noteq> j \<longrightarrow> apart (dl_message (ids i)) (dl_message (ids j)))"

lemma atLeast_insert: "{i..} = insert i {Suc i..}" for i :: nat
  by (auto simp: Suc_le_eq)

lemma ids_from_Suc: "ids_from ids i = insert (dl_message (ids i)) (ids_from ids (Suc i))"
  by (simp add: ids_from_def atLeast_insert [of i])

lemma deliver_one_queues:
  assumes ids: "ids_apart ids" and D: "\<forall>y\<in>D. \<forall>i. apart (dl_message (ids i)) y"
    and w: "queues_from st (ids_from ids i \<union> D) w"
  shows "queues_from st (ids_from ids (Suc i) \<union> D) (fst (deliver_one env (ids i) d m s w))"
proof (cases "to_lower (sub_protocol s) = ''sqs''")
  case True
  have "\<forall>y\<in>ids_from ids (Suc i) \<union> D. apart (dl_message (ids i)) y"
    using ids D by (auto simp: ids_from_def ids_apart_def)
  moreover have "queues_from st (insert (dl_message (ids i)) (ids_from ids (Suc i) \<union> D)) w"
    using w unfolding ids_from_Suc [of ids i] by simp
  ultimately have "queues_from st (ids_from ids (Suc i) \<union> D) (fst (SendSQSMessage env (ids i) d s w))"
    using deliver_sqs_steps by blast
  then show ?thesis by (rule queues_from_same) (simp add: deliver_one_sqs True)
next
  case False
  have "queues_from st (ids_from ids (Suc i) \<union> D) w"
    using w by (rule queues_from_mono) (auto simp: ids_from_Suc [of ids i])
  then show ?thesis by (rule queues_from_same) (simp add: deliver_one_sqs False)
qed

lemma deliver_steps:
  assumes ids: "ids_apart ids" and D: "\<forall>y\<in>D. \<forall>i. apart (dl_message (ids i)) y"
    and w: "queues_from st (ids_from ids i \<union> D) w"
  shows "queues_from st D (fst (act_each (\<lambda>i. deliver_one env (ids i) d m) i subs w))"
  using w
proof (induction subs arbitrary: i w)
  case Nil
  then show ?case by (simp add: run_simps queues_from_mono)
next
  case (Cons s subs)
  note one = deliver_one_queues [OF ids D Cons.prems, where s = s and d = d and m = m and env = env]
  show ?case
  proof (cases rule: run_bind_cases [of "deliver_one env (ids i) d m s" w "\<lambda>_. act_each (\<lambda>i. deliver_one env (ids i) d m) (Suc i) subs"])
    case fails
    then show ?thesis using queues_from_mono [OF one, of D] by simp
  next
    case continues
    then show ?thesis using Cons.IH [OF one] by simp
  qed
qed

definition fresh_deliveries :: "(nat \<Rightarrow> delivery_ids) \<Rightarrow> sqs_repo \<Rightarrow> bool" where
  "fresh_deliveries ids st \<longleftrightarrow> ids_apart ids \<and> (\<forall>i. fresh_ids (dl_message (ids i)) st)"

lemma check_subscriptions_steps:
  assumes "fresh_deliveries ids (w_sqs w)"
  shows "steps (w_sqs w) (w_sqs (fst (CheckSubscriptions env ids d t m w)))"
proof -
  have "queues_from (w_sqs w) (ids_from ids 0 \<union> {}) w"
    using assms by (auto simp: queues_from_def fresh_deliveries_def ids_from_def)
  from deliver_steps [OF _ _ this] show ?thesis
    using assms by (simp add: CheckSubscriptions_def queues_from_def fresh_deliveries_def)
qed

lemma check_cases:
  obtains (fails) "\<not> P w" "act_check P e a w = (w, Inl e)" | (continues) "P w" "act_check P e a w = a w"
  by (cases "P w") (auto simp: act_check_def)

lemma on_sns_bind: "act_bind (on_sns f) g w = g (snd (f (w_sns w))) (w\<lparr>w_sns := fst (f (w_sns w))\<rparr>)"
  by (simp add: act_bind_def on_sns_def split_beta)

lemma read_bind: "act_bind (act_read f) g w = g (f w) w"
  by (simp add: act_bind_def act_read_def)

lemma return_bind_state: "fst (act_bind a (\<lambda>x. act_return (g x)) w) = fst (a w)"
  by (cases rule: run_bind_cases [of a w "\<lambda>x. act_return (g x)"]) (simp_all add: run_simps)

lemma publish_steps:
  assumes "fresh_deliveries ids (w_sqs w)"
  shows "steps (w_sqs w) (w_sqs (fst (sns_Publish env clock oid messageId ids d w)))"
proof -
  have "steps (w_sqs w) (w_sqs (fst (CheckSubscriptions env ids d t m (w\<lparr>w_sns := st\<rparr>))))" for t m st
    using check_subscriptions_steps [of ids "w\<lparr>w_sns := st\<rparr>"] assms by simp
  then show ?thesis
    by (auto simp: sns_Publish_def act_check_def on_sns_bind return_bind_state split_beta)
qed

lemma resend_message_steps:
  assumes "fresh_deliveries ids (w_sqs w)"
  shows "steps (w_sqs w) (w_sqs (fst (sns_ResendMessage env clock ids region user requestId arn messageId w)))"
proof -
  have "steps (w_sqs w) (w_sqs (fst (CheckSubscriptions env ids d t m (w\<lparr>w_sns := st\<rparr>))))" for d t m st
    using check_subscriptions_steps [of ids "w\<lparr>w_sns := st\<rparr>"] assms by simp
  then show ?thesis
    by (auto simp: sns_ResendMessage_def need_topic_def act_check_def on_sns_bind read_bind)
qed

definition fresh_rounds :: "(nat \<Rightarrow> nat \<Rightarrow> delivery_ids) \<Rightarrow> sqs_repo \<Rightarrow> bool" where
  "fresh_rounds idss st \<longleftrightarrow>
     (\<forall>i j i' j'. (i, j) \<noteq> (i', j') \<longrightarrow> apart (dl_message (idss i j)) (dl_message (idss i' j'))) \<and>
     (\<forall>i j. fresh_ids (dl_message (idss i j)) st)"

lemma resend_rounds:
  assumes ap: "\<forall>i j i' j'. (i, j) \<noteq> (i', j') \<longrightarrow> apart (dl_message (idss i j)) (dl_message (idss i' j'))"
    and w: "queues_from st (\<Union>j\<in>{i..}. ids_from (idss j) 0) w"
  shows "steps st (w_sqs (fst (act_each (\<lambda>i m. CheckSubscriptions env (idss i) (d m) t m) i ms w)))"
  using w
proof (induction ms arbitrary: i w)
  case Nil
  then show ?case by (simp add: run_simps queues_from_def)
next
  case (Cons m ms)
  let ?D = "\<lambda>i. \<Union>j\<in>{i..}. ids_from (idss j) 0"
  have split: "?D i = ids_from (idss i) 0 \<union> ?D (Suc i)"
    by (simp add: atLeast_insert [of i])
  have "ids_apart (idss i)" using ap by (simp add: ids_apart_def)
  moreover have "\<forall>y\<in>?D (Suc i). \<forall>k. apart (dl_message (idss i k)) y"
    using ap by (fastforce simp: ids_from_def)
  ultimately have one: "queues_from st (?D (Suc i)) (fst (CheckSubscriptions env (idss i) (d m) t m w))"
    unfolding CheckSubscriptions_def using Cons.prems unfolding split by (rule deliver_steps)
  show ?case
  proof (cases rule: run_bind_cases [of "CheckSubscriptions env (idss i) (d m) t m" w
        "\<lambda>_. act_each (\<lambda>i m. CheckSubscriptions env (idss i) (d m) t m) (Suc i) ms"])
    case fails
    then show ?thesis using one by (simp add: queues_from_def)
  next
    case continues
    then show ?thesis using Cons.IH [OF one] by simp
  qed
qed

lemma resend_topic_steps:
  assumes "fresh_rounds idss (w_sqs w)"
  shows "steps (w_sqs w) (w_sqs (fst (sns_ResendTopic env now idss region user requestId arn w)))"
proof -
  have "steps (w_sqs w) (w_sqs (fst (act_each (\<lambda>i m. CheckSubscriptions env (idss i) (d m) t m) 0 ms (w\<lparr>w_sns := st\<rparr>))))" for d t ms st
    by (rule resend_rounds) (use assms in \<open>auto simp: fresh_rounds_def queues_from_def ids_from_def\<close>)
  then show ?thesis
    by (auto simp: sns_ResendTopic_def need_topic_def act_check_def on_sns_bind read_bind)
qed

subsection \<open>The world as a state machine\<close>

lemma quiet_rules [keeps_rules]:
  "keeps (\<lambda>w. w_sqs w = st) (on_sns f)" "keeps (\<lambda>w. w_sqs w = st) (try_sns g)" "keeps (\<lambda>w. w_sqs w = st) (store_topic now t)"
  by (auto simp: keeps_def on_sns_def try_sns_def store_topic_def split_beta split: sum.splits)

lemma quiet_change [keeps_rules]: "keeps (\<lambda>w. w_sqs w = st) (change_topic clock arn f)"
  unfolding change_topic_def by (intro keeps_rules)

lemma quiet_purge [keeps_rules]: "keeps (\<lambda>w. w_sqs w = st) (sns_PurgeTopic now arn)"
  unfolding sns_PurgeTopic_def by (intro keeps_rules)

lemma quiet_purges [keeps_rules]: "keeps (\<lambda>w. w_sqs w = st) (purge_topics clock ts n)"
  by (induction ts arbitrary: n) (simp_all, (intro keeps_rules)+)

lemma quiet_create: "w_sqs (fst (sns_CreateTopic env clock oid region name owner w)) = w_sqs w"
  by (simp add: sns_CreateTopic_def return_bind_state on_sns_def split_beta)

lemma quiet_operations:
  "keeps (\<lambda>w. w_sqs w = st) (sns_PurgeAllTopics clock)"
  "keeps (\<lambda>w. w_sqs w = st) (sns_ReloadAllCounters now)"
  "keeps (\<lambda>w. w_sqs w = st) (sns_DeleteTopic now region arn)"
  "keeps (\<lambda>w. w_sqs w = st) (sns_Subscribe env clock random region arn protocol endpoint)"
  "keeps (\<lambda>w. w_sqs w = st) (sns_UpdateSubscription clock arn subscriptionArn protocol endpoint)"
  "keeps (\<lambda>w. w_sqs w = st) (sns_Unsubscribe clock subscriptionArn)"
  "keeps (\<lambda>w. w_sqs w = st) (sns_AddSubscriptionCounter env clock random region arn protocol endpoint)"
  "keeps (\<lambda>w. w_sqs w = st) (sns_DeleteSubscriptionCounter clock arn subscriptionArn)"
  "keeps (\<lambda>w. w_sqs w = st) (sns_TagResource clock arn tags)"
  "keeps (\<lambda>w. w_sqs w = st) (sns_UntagResource clock arn names)"
  "keeps (\<lambda>w. w_sqs w = st) (change_default_attributes clock arn f)"
  "keeps (\<lambda>w. w_sqs w = st) (sns_DeleteMessage now arn messageId)"
  unfolding sns_PurgeAllTopics_def sns_ReloadAllCounters_def sns_DeleteTopic_def sns_Subscribe_def sns_UpdateSubscription_def
    sns_Unsubscribe_def sns_AddSubscriptionCounter_def sns_DeleteSubscriptionCounter_def sns_TagResource_def
    sns_UntagResource_def change_default_attributes_def sns_DeleteMessage_def get_topic_def Let_def
  by (intro keeps_rules)+

text \<open>
  The services act in any order. The three operations on default attributes are one rule, the
  operations that only look a topic up another. Functions change by the Lambda service at any time.
\<close>

inductive world_step :: "sns_env \<Rightarrow> sns_world \<Rightarrow> sns_world \<Rightarrow> bool" for env where
  publish: "fresh_deliveries ids (w_sqs w) \<Longrightarrow> world_step env w (fst (sns_Publish env clock oid messageId ids d w))"
| resend_topic: "fresh_rounds idss (w_sqs w) \<Longrightarrow> world_step env w (fst (sns_ResendTopic env now idss region user requestId arn w))"
| resend_message: "fresh_deliveries ids (w_sqs w)
    \<Longrightarrow> world_step env w (fst (sns_ResendMessage env clock ids region user requestId arn messageId w))"
| create_topic: "world_step env w (fst (sns_CreateTopic env clock oid region name owner w))"
| lookup: "world_step env w (fst (get_topic now arn w))"
| purge: "world_step env w (fst (sns_PurgeTopic now arn w))"
| purge_all: "world_step env w (fst (sns_PurgeAllTopics clock w))"
| reload: "world_step env w (fst (sns_ReloadAllCounters now w))"
| delete_topic: "world_step env w (fst (sns_DeleteTopic now region arn w))"
| subscribe: "world_step env w (fst (sns_Subscribe env clock random region arn protocol endpoint w))"
| update_subscription: "world_step env w (fst (sns_UpdateSubscription clock arn subscriptionArn protocol endpoint w))"
| unsubscribe: "world_step env w (fst (sns_Unsubscribe clock subscriptionArn w))"
| add_subscription: "world_step env w (fst (sns_AddSubscriptionCounter env clock random region arn protocol endpoint w))"
| delete_subscription: "world_step env w (fst (sns_DeleteSubscriptionCounter clock arn subscriptionArn w))"
| tag: "world_step env w (fst (sns_TagResource clock arn tags w))"
| untag: "world_step env w (fst (sns_UntagResource clock arn names w))"
| default_attributes: "world_step env w (fst (change_default_attributes clock arn f w))"
| delete_message: "world_step env w (fst (sns_DeleteMessage now arn messageId w))"
| expire: "world_step env w (w\<lparr>w_sns := srv_sns_DeleteOldMessages now timeout (w_sns w)\<rparr>)"
| monitor: "world_step env w (w\<lparr>w_sns := fst (srv_sns_UpdateCounter now (w_sns w))\<rparr>)"
| sqs_service: "svc_step (n_sqs env) (w_lam w) (w_sqs w) st \<Longrightarrow> world_step env w (w\<lparr>w_sqs := st\<rparr>)"
| lambda_service: "world_step env w (w\<lparr>w_lam := lam\<rparr>)"

definition world_init :: sns_world where
  "world_init = \<lparr>w_sns = \<lparr>topics = [], sns_messages = []\<rparr>, w_sqs = sqs_init, w_lam = \<lparr>lambdas = [], lambdaResults = []\<rparr>, w_out = []\<rparr>"

inductive world_reachable :: "sns_env \<Rightarrow> sns_world \<Rightarrow> bool" for env where
  start: "world_reachable env world_init"
| step: "world_reachable env w \<Longrightarrow> world_step env w w' \<Longrightarrow> world_reachable env w'"

lemmas topics_operations = keeps_publish keeps_resend keeps_create_topic keeps_purge keeps_purge_all keeps_reload
  keeps_delete_topic keeps_subscribe keeps_update_subscription keeps_unsubscribe keeps_subscription_counters
  keeps_tags keeps_default_attributes keeps_delete_message

lemma world_step_topics: "world_step env w w' \<Longrightarrow> topics_fine w \<Longrightarrow> topics_fine w'"
proof (induction rule: world_step.induct)
  case (lookup w now arn)
  then show ?case using keepsD [OF keeps_lookup(1)] by (simp add: get_topic_def)
next
  case (expire w now timeout)
  then show ?case
    by (simp add: topics_fine_def srv_sns_DeleteOldMessages_def sns_deleteOldMessages_def sns_ok_messages sns_okD(2) Let_def)
next
  case (monitor w now)
  then show ?case by (simp add: topics_fine_def srv_sns_UpdateCounter_def Let_def adjust_ok)
next
  case (sqs_service w st)
  then show ?case by (simp add: topics_fine_def)
next
  case (lambda_service w lam)
  then show ?case by (simp add: topics_fine_def)
qed (simp_all add: topics_operations [THEN keepsD])

lemma quietD: "keeps (\<lambda>w. w_sqs w = st) a \<Longrightarrow> w_sqs w = st \<Longrightarrow> w_sqs (fst (a w)) = st"
  by (rule keepsD)

lemma world_step_queues: "world_step env w w' \<Longrightarrow> life_inv (w_sqs w) \<Longrightarrow> steps (w_sqs w) (w_sqs w')"
proof (induction rule: world_step.induct)
  case sqs_service
  then show ?case by (simp add: svc_step_steps)
qed (simp_all add: publish_steps resend_topic_steps resend_message_steps quiet_create get_topic_def
    quiet_rules(1) [THEN quietD] quiet_purge [THEN quietD] quiet_operations [THEN quietD])

end
