(* ===== verification/SnsServiceProps.thy ===== *)
theory SnsServiceProps
  imports SnsServiceSteps
begin

text \<open>
  What the SNS service does: the invariant of the world it shares with the SQS service; creating a
  topic as an update of the abstract map from regions and names to topics; the deliveries of a
  published message, exactly one for each subscription, and what a subscription that cannot be
  served does to the others; and where the service departs from what it is for: the status of a
  message, target ARNs, the ARN of a repeated subscription, deleting a message.
\<close>

subsection \<open>What a delivery leaves alone\<close>

text \<open>The fields deliveries are decided by: ARN and URL of a queue, and all of a function but its
  object id.\<close>

definition queues_view :: "sqs_queue hmap \<Rightarrow> (string \<times> string \<times> string) list" where
  "queues_view qs = map (\<lambda>(k, q). (k, q_arn q, q_url q)) qs"

definition lambdas_view :: "lambda_fn hmap \<Rightarrow> lambda_fn hmap" where
  "lambdas_view ls = map (\<lambda>(k, l). (k, set_l_oid [] l)) ls"

lemma find_if_map: "find_if (\<lambda>(_, v). P v) (map (\<lambda>(k, v). (k, f v)) m) = map_option (\<lambda>(k, v). (k, f v)) (find_if (\<lambda>(_, v). P (f v)) m)"
  by (induction m) (auto simp: find_if_def)

lemma queues_view_assign:
  assumes "wf_store qs" "map_of qs k = Some q" "q_arn q' = q_arn q" "q_url q' = q_url q"
  shows "queues_view (assign k q' qs) = queues_view qs"
proof -
  have u: "(k, x) \<in> set qs \<Longrightarrow> x = q" for x using assms(1,2) by (simp add: wf_in_map_of)
  show ?thesis
    unfolding queues_view_def assign_def modify_def map_map
    by (rule map_cong [OF refl]) (use u assms(3,4) in auto)
qed

lemma lambdas_view_modify: "lambdas_view (modify k (set_l_oid x) ls) = lambdas_view ls"
  by (induction ls) (auto simp: lambdas_view_def modify_def set_l_oid_def)

lemma set_l_oid_fields [simp]:
  "l_arn (set_l_oid k l) = l_arn l" "l_function (set_l_oid k l) = l_function l"
  "HasEventSource (set_l_oid k l) arn = HasEventSource l arn"
  by (simp_all add: set_l_oid_def HasEventSource_def)

definition queue_of :: "sqs_repo \<Rightarrow> string \<Rightarrow> (string \<times> sqs_queue) option" where
  "queue_of st arn = find_if (\<lambda>(_, q). q_arn q = arn) (queues st)"

definition function_of :: "lambda_repo \<Rightarrow> string \<Rightarrow> (string \<times> lambda_fn) option" where
  "function_of lam arn = find_if (\<lambda>(_, l). l_arn l = arn) (lambdas lam)"

lemma queue_of_view:
  "map_option (\<lambda>(k, q). (k, q_arn q, q_url q)) (queue_of st arn) = find_if (\<lambda>(_, a, _). a = arn) (queues_view (queues st))"
  using find_if_map [of "\<lambda>v. fst v = arn" "\<lambda>q. (q_arn q, q_url q)" "queues st"]
  by (simp add: queue_of_def queues_view_def case_prod_unfold)

lemma function_of_view:
  "map_option (\<lambda>(k, l). (k, set_l_oid [] l)) (function_of lam arn) = find_if (\<lambda>(_, l). l_arn l = arn) (lambdas_view (lambdas lam))"
  using find_if_map [of "\<lambda>l. l_arn l = arn" "set_l_oid []" "lambdas lam"] by (simp add: function_of_def lambdas_view_def)

lemma listeners_view:
  "map (set_l_oid []) (lam_listLambdasWithEventSource lam arn) =
     where_if arn (\<lambda>l. HasEventSource l arn) (map snd (lambdas_view (lambdas lam)))"
  by (simp add: lam_listLambdasWithEventSource_def where_if_def q_where_def values_of_def lambdas_view_def filter_map
      o_def case_prod_unfold)

subsection \<open>One delivery\<close>

text \<open>A subscription can be served when its queue exists, under the ARN its URL stands for, with no
  function listening to it, or when its function exists. Other protocols can always be served.\<close>

definition deliverable :: "sns_env \<Rightarrow> string \<Rightarrow> sns_world \<Rightarrow> sns_subscription \<Rightarrow> bool" where
  "deliverable env region w s =
     (let protocol = to_lower (sub_protocol s); cfg = e_cfg (n_sqs env) in
      if protocol = ''sqs'' then
        (case queue_of (w_sqs w) (ConvertToArn cfg region (sub_endpoint s)) of
           None \<Rightarrow> False
         | Some (_, q) \<Rightarrow> ConvertToArn cfg region (q_url q) = q_arn q \<and> lam_listLambdasWithEventSource (w_lam w) (q_arn q) = [])
      else if protocol = ''lambda'' then function_of (w_lam w) (sub_endpoint s) \<noteq> None
      else True)"

definition goes_to_queue :: "sns_env \<Rightarrow> string \<Rightarrow> string \<Rightarrow> sns_subscription \<Rightarrow> bool" where
  "goes_to_queue env region arn s \<longleftrightarrow>
     to_lower (sub_protocol s) = ''sqs'' \<and> ConvertToArn (e_cfg (n_sqs env)) region (sub_endpoint s) = arn"

definition in_queue :: "string \<Rightarrow> sns_world \<Rightarrow> int" where
  "in_queue arn w = count_if (\<lambda>(_, m). m_queueArn m = arn) (messages (w_sqs w))"

text \<open>What a delivery sends out of the process.\<close>

definition sent_out :: "sns_env \<Rightarrow> delivery_ids \<Rightarrow> publish_request \<Rightarrow> sns_message \<Rightarrow> lambda_repo \<Rightarrow> sns_subscription \<Rightarrow> sns_event list" where
  "sent_out env ids d m lam s =
     (let protocol = to_lower (sub_protocol s) in
      if protocol = ''http'' \<and> StartsWith (sub_endpoint s) http_prefix then
        (let (host, port, path) = http_target (drop (length http_prefix) (sub_endpoint s)) in
         [HttpPost host port path (http_body (pr_message d))])
      else if protocol = ''lambda'' then
        (case function_of lam (sub_endpoint s) of
           None \<Rightarrow> []
         | Some (_, l) \<Rightarrow> [LambdaInvoked (cfg_region (e_cfg (n_sqs env))) (l_function l)
             (n_event_json env [event_record env ids m (pr_topicArn d)])])
      else [])"

definition same_targets :: "sns_world \<Rightarrow> sns_world \<Rightarrow> bool" where
  "same_targets w w' \<longleftrightarrow> queues_view (queues (w_sqs w')) = queues_view (queues (w_sqs w)) \<and>
     lambdas_view (lambdas (w_lam w')) = lambdas_view (lambdas (w_lam w))"

lemma same_targets_trans: "same_targets w w1 \<Longrightarrow> same_targets w1 w2 \<Longrightarrow> same_targets w w2"
  by (simp add: same_targets_def)

lemma queue_of_same:
  assumes "same_targets w w'"
  shows "map_option (\<lambda>(k, q). (k, q_arn q, q_url q)) (queue_of (w_sqs w') arn) =
    map_option (\<lambda>(k, q). (k, q_arn q, q_url q)) (queue_of (w_sqs w) arn)"
  using assms by (simp add: queue_of_view same_targets_def)

lemma function_of_same:
  assumes "same_targets w w'"
  shows "map_option (l_function \<circ> snd) (function_of (w_lam w') arn) = map_option (l_function \<circ> snd) (function_of (w_lam w) arn)"
proof -
  have "map_option (l_function \<circ> snd) (map_option (\<lambda>(k, l). (k, set_l_oid [] l)) x) = map_option (l_function \<circ> snd) x"
    for x :: "(string \<times> lambda_fn) option"
    by (cases x) auto
  then show ?thesis using assms function_of_view [of "w_lam w" arn] function_of_view [of "w_lam w'" arn]
    unfolding same_targets_def by metis
qed

lemma listeners_same:
  assumes "same_targets w w'"
  shows "lam_listLambdasWithEventSource (w_lam w') arn = [] \<longleftrightarrow> lam_listLambdasWithEventSource (w_lam w) arn = []"
proof -
  have "map (set_l_oid []) (lam_listLambdasWithEventSource (w_lam w') arn) = map (set_l_oid []) (lam_listLambdasWithEventSource (w_lam w) arn)"
    using assms by (simp only: listeners_view same_targets_def)
  then have "length (lam_listLambdasWithEventSource (w_lam w') arn) = length (lam_listLambdasWithEventSource (w_lam w) arn)"
    by (rule map_eq_imp_length_eq)
  then show ?thesis by (metis length_0_conv)
qed

lemma deliverable_same:
  assumes "same_targets w w'" shows "deliverable env region w' s = deliverable env region w s"
proof -
  have split: "(case x of None \<Rightarrow> False | Some (_, q) \<Rightarrow> C (q_url q) = q_arn q \<and> L (q_arn q)) =
      (case map_option (\<lambda>(k, q). (k, q_arn q, q_url q)) x of None \<Rightarrow> False | Some (_, a, u) \<Rightarrow> C u = a \<and> L a)"
    for C :: "string \<Rightarrow> string" and L and x :: "(string \<times> sqs_queue) option"
    by (cases x) auto
  have q: "(case queue_of (w_sqs w') a of None \<Rightarrow> False | Some (_, q) \<Rightarrow> C (q_url q) = q_arn q \<and> L (q_arn q)) =
      (case queue_of (w_sqs w) a of None \<Rightarrow> False | Some (_, q) \<Rightarrow> C (q_url q) = q_arn q \<and> L (q_arn q))"
    for a C L
    by (simp only: split queue_of_same [OF assms])
  have f: "(function_of (w_lam w') e \<noteq> None) = (function_of (w_lam w) e \<noteq> None)" for e
    using function_of_same [OF assms, of e]
    by (cases "function_of (w_lam w') e"; cases "function_of (w_lam w) e") simp_all
  show ?thesis
    unfolding deliverable_def Let_def listeners_same [OF assms] f
      q [of "\<lambda>u. ConvertToArn (e_cfg (n_sqs env)) region u" "\<lambda>a. lam_listLambdasWithEventSource (w_lam w) a = []"] ..
qed

lemma sent_out_same:
  assumes "same_targets w w'" shows "sent_out env ids d m (w_lam w') s = sent_out env ids d m (w_lam w) s"
  using function_of_same [OF assms, of "sub_endpoint s"]
  by (cases "function_of (w_lam w) (sub_endpoint s)"; cases "function_of (w_lam w') (sub_endpoint s)") (auto simp: sent_out_def Let_def)

text \<open>Sending the notification to a queue that can be served.\<close>

lemma queue_counts_url [simp]: "q_url (queue_counts_message q) = q_url q"
  by (simp add: queue_counts_message_def Let_def)

lemma send_counts:
  assumes inv: "life_inv st" and q: "queue_of st (ConvertToArn (e_cfg env) (sr_region d) (sr_queueUrl d)) = Some (k, q)"
    and l: "lam_listLambdasWithEventSource lam (q_arn q) = []" and fr: "fresh_ids ids st"
  shows "\<exists>st' resp. svc_sendMessage env clock lay ids lam st d = Inr (st', resp) \<and>
    queues_view (queues st') = queues_view (queues st) \<and>
    (\<forall>arn. count_if (\<lambda>(_, m). m_queueArn m = arn) (messages st') =
       count_if (\<lambda>(_, m). m_queueArn m = arn) (messages st) + (if arn = q_arn q then 1 else 0))"
proof -
  let ?stamped = "q\<lparr>q_oid := k\<rparr>" and ?qs = "queues st"
  let ?counted = "queue_counts_message ?stamped\<lparr>q_modified := clock 5\<rparr>"
  let ?m = "(message_to_store env clock ids ?counted d (message_before_update env clock ?stamped d))\<lparr>m_oid := mi_oid ids\<rparr>"
  have wf: "wf_store ?qs" by (rule life_parts(1) [OF inv])
  have k: "map_of ?qs k = Some q" using q find_if_SomeD wf unfolding queue_of_def by (metis wf_in_map_of)
  have v: "queues_view (assign k ?counted (assign k ?stamped ?qs)) = queues_view (assign k ?stamped ?qs)"
    by (rule queues_view_assign [where q = ?stamped]) (use wf k in \<open>simp_all add: store_simps\<close>)
  also have "\<dots> = queues_view ?qs" by (rule queues_view_assign [where q = q]) (use wf k in simp_all)
  finally have view: "queues_view (assign k ?counted (assign k ?stamped ?qs)) = queues_view ?qs" .
  have cnt: "count_if (\<lambda>(_, m). m_queueArn m = arn) (hmap_insert lay (mi_oid ids) ?m (messages st)) =
      count_if (\<lambda>(_, m). m_queueArn m = arn) (messages st) + (if arn = q_arn q then 1 else 0)" for arn
    using hm.count_ins_fresh [OF life_parts(2) [OF inv], of "mi_oid ids" "\<lambda>(_, m). m_queueArn m = arn" lay ?m] fr
    by (auto simp: fresh_ids_def stored_message)
  show ?thesis
    using send_stored [OF inv q [unfolded queue_of_def], of clock lay ids lam] view cnt
    by (simp add: checkLambdaNotifications_def l)
qed

lemma SendSQSMessage_ok:
  assumes inv: "life_inv (w_sqs w)" and s: "to_lower (sub_protocol s) = ''sqs''" "deliverable env (pr_region d) w s"
    and fr: "fresh_ids (dl_message ids) (w_sqs w)"
  shows "\<exists>st'. SendSQSMessage env ids d s w = (w\<lparr>w_sqs := st'\<rparr>, Inr ()) \<and> queues_view (queues st') = queues_view (queues (w_sqs w)) \<and>
    (\<forall>arn. in_queue arn (w\<lparr>w_sqs := st'\<rparr>) = in_queue arn w + (if goes_to_queue env (pr_region d) arn s then 1 else 0))"
proof -
  let ?st = "w_sqs w" and ?arn = "ConvertToArn (e_cfg (n_sqs env)) (pr_region d) (sub_endpoint s)"
  obtain k q where q: "queue_of ?st ?arn = Some (k, q)" and url: "ConvertToArn (e_cfg (n_sqs env)) (pr_region d) (q_url q) = q_arn q"
    and l: "lam_listLambdasWithEventSource (w_lam w) (q_arn q) = []"
    using s by (auto simp: deliverable_def Let_def split: option.splits)
  have arn: "q_arn q = ?arn" and mem: "(k, q) \<in> set (queues ?st)" using find_if_SomeD [OF q [unfolded queue_of_def]] by auto
  let ?q = "q\<lparr>q_oid := k\<rparr>" let ?st1 = "?st\<lparr>queues := assign k ?q (queues ?st)\<rparr>"
  have g: "sqs_getQueueByArn (dl_lookup ids) ?st ?arn = (?st1, ?q)" by (rule getQueueByArn_found [OF q [unfolded queue_of_def]])
  have life: "life_inv ?st1" using sqs_step_life [OF sqs_step.queue_by_arn inv, of "dl_lookup ids" ?arn] by (simp add: g)
  have v1: "queues_view (queues ?st1) = queues_view (queues ?st)"
    using mem life_parts(1) [OF inv] by (simp add: queues_view_assign wf_in_map_of)
  have "map_option (\<lambda>(k, q). (k, q_arn q, q_url q)) (queue_of ?st1 ?arn) = Some (k, ?arn, q_url q)"
    using queue_of_view [of ?st1 ?arn] queue_of_view [of ?st ?arn] v1 q arn by simp
  then obtain q1 where q1: "queue_of ?st1 ?arn = Some (k, q1)" "q_arn q1 = ?arn" by auto
  let ?req = "notification_request env ids d ?q"
  have req: "sr_region ?req = pr_region d" "sr_queueUrl ?req = q_url q" by (simp_all add: notification_request_def)
  have "fresh_ids (dl_message ids) ?st1" using fr by (simp add: fresh_ids_def)
  moreover have "queue_of ?st1 (ConvertToArn (e_cfg (n_sqs env)) (sr_region ?req) (sr_queueUrl ?req)) = Some (k, q1)"
    unfolding req url arn by (rule q1(1))
  moreover have "lam_listLambdasWithEventSource (w_lam w) (q_arn q1) = []" using l q1(2) arn by simp
  ultimately obtain st' resp where
    r: "svc_sendMessage (n_sqs env) (dl_clock ids) (dl_layout ids) (dl_message ids) (w_lam w) ?st1 ?req = Inr (st', resp)" and
    v: "queues_view (queues st') = queues_view (queues ?st1)" and
    c: "\<forall>a. count_if (\<lambda>(_, m). m_queueArn m = a) (messages st') =
       count_if (\<lambda>(_, m). m_queueArn m = a) (messages ?st1) + (if a = q_arn q1 then 1 else 0)"
    using send_counts [OF life] by metis
  have "SendSQSMessage env ids d s w = (w\<lparr>w_sqs := st'\<rparr>, Inr ())"
    by (simp add: SendSQSMessage_def act_bind_def on_sqs_def try_sqs_def g r run_simps)
  moreover have "in_queue a (w\<lparr>w_sqs := st'\<rparr>) = in_queue a w + (if goes_to_queue env (pr_region d) a s then 1 else 0)" for a
    using c q1(2) s(1) by (auto simp: in_queue_def goes_to_queue_def)
  ultimately show ?thesis using v v1 by auto
qed

lemma deliver_one_ok:
  assumes inv: "life_inv (w_sqs w)" and s: "deliverable env (pr_region d) w s" and fr: "fresh_ids (dl_message ids) (w_sqs w)"
  shows "\<exists>w'. deliver_one env ids d m s w = (w', Inr ()) \<and> same_targets w w' \<and>
    (\<forall>arn. in_queue arn w' = in_queue arn w + (if goes_to_queue env (pr_region d) arn s then 1 else 0)) \<and>
    w_out w' = w_out w @ sent_out env ids d m (w_lam w) s"
proof -
  let ?done = "\<lambda>w. w\<lparr>w_sns := sns_setMessageStatus (dl_done ids) (w_sns w) m SNS_SEND\<rparr>"
  have fin: "act_bind a (\<lambda>_. on_sns (\<lambda>st. (sns_setMessageStatus (dl_done ids) st m SNS_SEND, ()))) w = (?done w', Inr ())"
    if "a w = (w', Inr ())" for a :: "(sns_world, unit) action" and w'
    using that by (simp add: run_bind on_sns_def)
  consider (sqs) "to_lower (sub_protocol s) = ''sqs''" | (http) "to_lower (sub_protocol s) = ''http''"
    | (lambda) "to_lower (sub_protocol s) = ''lambda''" | (other) "to_lower (sub_protocol s) \<notin> {''sqs'', ''http'', ''lambda''}"
    by auto
  then show ?thesis
  proof cases
    case sqs
    obtain st' where r: "SendSQSMessage env ids d s w = (w\<lparr>w_sqs := st'\<rparr>, Inr ())"
      "queues_view (queues st') = queues_view (queues (w_sqs w))"
      "\<forall>arn. in_queue arn (w\<lparr>w_sqs := st'\<rparr>) = in_queue arn w + (if goes_to_queue env (pr_region d) arn s then 1 else 0)"
      using SendSQSMessage_ok [OF inv sqs s fr] by blast
    then show ?thesis
      by (intro exI [of _ "?done (w\<lparr>w_sqs := st'\<rparr>)"])
        (simp add: deliver_one_def Let_def sqs fin [of "SendSQSMessage env ids d s", OF r(1)] same_targets_def in_queue_def sent_out_def)
  next
    case http
    have "SendHttpMessage d s w = (w\<lparr>w_out := w_out w @ sent_out env ids d m (w_lam w) s\<rparr>, Inr ())"
      using http by (simp add: SendHttpMessage_def sent_out_def emit_def run_simps split_beta Let_def)
    from fin [of "SendHttpMessage d s", OF this] show ?thesis
      by (intro exI [of _ "?done (w\<lparr>w_out := w_out w @ sent_out env ids d m (w_lam w) s\<rparr>)"])
        (simp add: deliver_one_def Let_def http same_targets_def in_queue_def goes_to_queue_def)
  next
    case lambda
    obtain k l where l: "function_of (w_lam w) (sub_endpoint s) = Some (k, l)"
      using s lambda by (auto simp: deliverable_def Let_def)
    let ?lam = "(w_lam w)\<lparr>lambdas := modify k (set_l_oid (sub_endpoint s)) (lambdas (w_lam w))\<rparr>"
    have "lam_getLambdaByArn (w_lam w) (sub_endpoint s) = Inr (?lam, set_l_oid (sub_endpoint s) l)"
      using l by (simp add: lam_getLambdaByArn_def function_of_def modify_found_def or_throw_def with_lambdas_def)
    then have "SendLambdaMessage env ids d m s w = (w\<lparr>w_lam := ?lam, w_out := w_out w @ sent_out env ids d m (w_lam w) s\<rparr>, Inr ())"
      using lambda l by (simp add: SendLambdaMessage_def act_bind_def try_lam_def sns_SendLambdaInvocationRequest_def emit_def sent_out_def)
    from fin [of "SendLambdaMessage env ids d m s", OF this] show ?thesis
      by (intro exI [of _ "?done (w\<lparr>w_lam := ?lam, w_out := w_out w @ sent_out env ids d m (w_lam w) s\<rparr>)"])
        (simp add: deliver_one_def Let_def lambda same_targets_def in_queue_def goes_to_queue_def lambdas_view_modify)
  next
    case other
    from fin [of "act_return ()"] show ?thesis
      by (intro exI [of _ "?done w"])
        (use other in \<open>simp add: deliver_one_def Let_def same_targets_def in_queue_def goes_to_queue_def sent_out_def run_simps\<close>)
  qed
qed

subsection \<open>All deliveries of a message\<close>

definition all_sent_out :: "sns_env \<Rightarrow> (nat \<Rightarrow> delivery_ids) \<Rightarrow> publish_request \<Rightarrow> sns_message \<Rightarrow> lambda_repo \<Rightarrow> nat \<Rightarrow> sns_subscription list
    \<Rightarrow> sns_event list" where
  "all_sent_out env ids d m lam i subs = concat (map (\<lambda>(j, s). sent_out env (ids j) d m lam s) (enumerate i subs))"

lemma deliver_all:
  assumes ids: "ids_apart ids" and w: "queues_from st (ids_from ids i) w" and st: "life_inv st"
    and subs: "list_all (deliverable env (pr_region d) w) subs"
  shows "\<exists>w'. act_each (\<lambda>i. deliver_one env (ids i) d m) i subs w = (w', Inr ()) \<and> same_targets w w' \<and>
    queues_from st (ids_from ids (i + length subs)) w' \<and>
    (\<forall>arn. in_queue arn w' = in_queue arn w + count_if (goes_to_queue env (pr_region d) arn) subs) \<and>
    w_out w' = w_out w @ all_sent_out env ids d m (w_lam w) i subs"
  using w subs
proof (induction subs arbitrary: i w)
  case Nil
  then show ?case by (simp add: run_simps same_targets_def count_if_def all_sent_out_def)
next
  case (Cons s subs)
  have life: "life_inv (w_sqs w)" using Cons.prems(1) st steps_life by (auto simp: queues_from_def)
  have fr: "fresh_ids (dl_message (ids i)) (w_sqs w)" using Cons.prems(1) by (auto simp: queues_from_def ids_from_def)
  obtain w1 where w1: "deliver_one env (ids i) d m s w = (w1, Inr ())" "same_targets w w1"
    "\<forall>arn. in_queue arn w1 = in_queue arn w + (if goes_to_queue env (pr_region d) arn s then 1 else 0)"
    "w_out w1 = w_out w @ sent_out env (ids i) d m (w_lam w) s"
    using deliver_one_ok [OF life _ fr, of env d s m] Cons.prems(2) by auto
  have q1: "queues_from st (ids_from ids (Suc i)) w1"
    using deliver_one_queues [OF ids, of "{}" st i w env d m s] Cons.prems(1) by (simp add: w1(1))
  have "list_all (deliverable env (pr_region d) w1) subs"
    using Cons.prems(2) by (simp add: deliverable_same [OF w1(2)] cong: list.pred_cong)
  from Cons.IH [OF q1 this] obtain w' where w': "act_each (\<lambda>i. deliver_one env (ids i) d m) (Suc i) subs w1 = (w', Inr ())"
    "same_targets w1 w'" "queues_from st (ids_from ids (Suc i + length subs)) w'"
    "\<forall>arn. in_queue arn w' = in_queue arn w1 + count_if (goes_to_queue env (pr_region d) arn) subs"
    "w_out w' = w_out w1 @ all_sent_out env ids d m (w_lam w1) (Suc i) subs"
    by blast
  have out: "all_sent_out env ids d m (w_lam w) i (s # subs) =
      sent_out env (ids i) d m (w_lam w) s @ all_sent_out env ids d m (w_lam w1) (Suc i) subs"
    by (simp add: all_sent_out_def sent_out_same [OF w1(2)])
  have cnt: "count_if P (s # subs) = (if P s then 1 else 0) + count_if P subs" for P by (simp add: count_if_def)
  show ?case
    by (rule exI [of _ w'])
      (use w1 w' in \<open>simp add: run_bind same_targets_trans [OF w1(2) w'(2)] out cnt\<close>)
qed

lemma deliver_one_messages:
  "sns_messages (w_sns (fst (deliver_one env ids d m s w))) = sns_messages (w_sns w) \<or>
   sns_messages (w_sns (fst (deliver_one env ids d m s w))) = sns_messages (sns_setMessageStatus (dl_done ids) (w_sns w) m SNS_SEND)"
proof -
  let ?done = "\<lambda>_. on_sns (\<lambda>st. (sns_setMessageStatus (dl_done ids) st m SNS_SEND, ()))"
  have after: "w_sns (fst (act_bind a ?done w)) = w_sns w \<or> w_sns (fst (act_bind a ?done w)) = sns_setMessageStatus (dl_done ids) (w_sns w) m SNS_SEND"
    if "w_sns (fst (a w)) = w_sns w" for a :: "(sns_world, unit) action"
    using that by (cases rule: run_bind_cases [of a w ?done]) (simp_all add: on_sns_def)
  have "w_sns (fst (SendSQSMessage env ids d s w)) = w_sns w"
    by (auto simp: SendSQSMessage_def act_bind_def on_sqs_def try_sqs_def act_return_def Let_def split: sum.splits prod.splits)
  moreover have "w_sns (fst (SendHttpMessage d s w)) = w_sns w"
    by (simp add: SendHttpMessage_def Let_def emit_def run_simps split_beta)
  moreover have "w_sns (fst (SendLambdaMessage env ids d m s w)) = w_sns w"
    by (simp add: SendLambdaMessage_def act_bind_def try_lam_def sns_SendLambdaInvocationRequest_def emit_def split: sum.splits prod.splits)
  moreover define a where "a = (if to_lower (sub_protocol s) = ''sqs'' then SendSQSMessage env ids d s
      else if to_lower (sub_protocol s) = ''http'' then SendHttpMessage d s
      else if to_lower (sub_protocol s) = ''lambda'' then SendLambdaMessage env ids d m s else act_return ())"
  ultimately have "w_sns (fst (a w)) = w_sns w" by (simp add: run_simps)
  moreover have "deliver_one env ids d m s = act_bind a ?done" by (simp add: deliver_one_def Let_def a_def)
  ultimately show ?thesis using after [of a] by auto
qed

lemma setMessageStatus_keys: "keys_of (sns_messages (sns_setMessageStatus now st m s)) = keys_of (sns_messages st)"
  by (auto simp: sns_setMessageStatus_def modify_found_def split: option.splits)

lemma deliver_keeps_message: "keeps (\<lambda>w. map_of (sns_messages (w_sns w)) k \<noteq> None) (deliver_one env ids d m s)"
  unfolding keeps_def
proof (intro allI impI)
  fix w :: sns_world assume "map_of (sns_messages (w_sns w)) k \<noteq> None"
  then have "k \<in> keys_of (sns_messages (w_sns w))" by (simp add: map_of_keys)
  then have "k \<in> keys_of (sns_messages (w_sns (fst (deliver_one env ids d m s w))))"
    using deliver_one_messages [of env ids d m s w] setMessageStatus_keys by metis
  then show "map_of (sns_messages (w_sns (fst (deliver_one env ids d m s w)))) k \<noteq> None" by (simp add: map_of_keys)
qed

lemma deliverable_sns [simp]: "deliverable env region (w\<lparr>w_sns := st\<rparr>) = deliverable env region w"
  by (rule ext, rule deliverable_same) (simp add: same_targets_def)

lemma published_message [simp]:
  "sm_messageId (message_to_publish env now messageId d) = messageId" "sm_oid (message_to_publish env now messageId d) = []"
  "sm_message (message_to_publish env now messageId d) = pr_message d" "sm_status (message_to_publish env now messageId d) = SNS_INITIAL"
  by (simp_all add: message_to_publish_def PublishRequest_toEntity_def default_sns_message_def)

lemma published_topic:
  assumes "sns_ok (w_sns w)" "find_if (\<lambda>(_, t). t_topicArn t = pr_topicArn d) (topics (w_sns w)) = Some (k, t)" "pr_topicArn d \<noteq> []"
  shows "topic_to_publish now d (w_sns w) = (w_sns w, t)" "sns_topicExistsName (w_sns w) (pr_topicArn d)"
  using assms by (simp_all add: topic_to_publish_def getTopic_eqs found_topic_def sns_topicExistsName_def found_def)

lemma publish_run:
  fixes env :: sns_env and clock :: "nat \<Rightarrow> time_point" and messageId oid :: string and d :: publish_request and w :: sns_world
  assumes ok: "sns_ok (w_sns w)" and t: "find_if (\<lambda>(_, t). t_topicArn t = pr_topicArn d) (topics (w_sns w)) = Some (k, t)"
    and arn: "pr_topicArn d \<noteq> []" "pr_targetArn d = []"
  defines "m \<equiv> message_to_publish env (clock 1) messageId d"
  defines "w1 \<equiv> w\<lparr>w_sns := (w_sns w)\<lparr>sns_messages := omap_insert oid m (sns_messages (w_sns w))\<rparr>\<rparr>"
  shows "sns_Publish env clock oid messageId ids d w =
    act_bind (act_each (\<lambda>i. deliver_one env (ids i) d m) 0 (t_subscriptions t))
      (\<lambda>_. act_return \<lparr>pp_messageId = messageId, pp_requestId = pr_requestId d, pp_region = pr_region d\<rparr>) w1"
  using published_topic [OF ok t arn(1)] arn
  by (simp add: sns_Publish_def run_simps on_sns_bind sns_createMessage_def CheckSubscriptions_def) (simp add: m_def w1_def)

text \<open>C10: publishing by topic ARN to a topic that exists succeeds when every SQS subscription names a queue that exists,
  under the ARN its URL stands for, with no function listening to it, and every Lambda subscription names a function
  that exists. Each SQS subscription then adds one message to its queue, so that the messages of a queue grow by
  the number of subscriptions to it. Of the other subscriptions, in their order, each one of the protocol
  \<open>http\<close> whose endpoint begins with \<open>http://\<close> gets one attempt to post the message, each Lambda subscription one
  invocation, and any other one, those of \<open>https\<close> and of unknown protocols included, gets nothing. (The state
  satisfies the invariants of C9, and the ids of the new messages are new. A post whose connection fails is swallowed
  by the service.)\<close>

theorem sns_publish_delivers:
  assumes "sns_ok (w_sns w)" "life_inv (w_sqs w)" "fresh_deliveries ids (w_sqs w)"
    and "find_if (\<lambda>(_, t). t_topicArn t = pr_topicArn d) (topics (w_sns w)) = Some (k, t)" "pr_topicArn d \<noteq> []" "pr_targetArn d = []"
    and "list_all (deliverable env (pr_region d) w) (t_subscriptions t)"
  shows "\<exists>w' r. sns_Publish env clock oid messageId ids d w = (w', Inr r) \<and> pp_messageId r = messageId \<and>
    (\<forall>arn. in_queue arn w' = in_queue arn w + count_if (goes_to_queue env (pr_region d) arn) (t_subscriptions t)) \<and>
    w_out w' = w_out w @ all_sent_out env ids d (message_to_publish env (clock 1) messageId d) (w_lam w) 0 (t_subscriptions t)"
proof -
  let ?m = "message_to_publish env (clock 1) messageId d"
  let ?w1 = "w\<lparr>w_sns := (w_sns w)\<lparr>sns_messages := omap_insert oid ?m (sns_messages (w_sns w))\<rparr>\<rparr>"
  have q: "queues_from (w_sqs w) (ids_from ids 0) ?w1"
    using assms(3) by (auto simp: queues_from_def fresh_deliveries_def ids_from_def)
  have "list_all (deliverable env (pr_region d) ?w1) (t_subscriptions t)" using assms(7) by simp
  moreover have "ids_apart ids" using assms(3) by (simp add: fresh_deliveries_def)
  ultimately obtain w' where w': "act_each (\<lambda>i. deliver_one env (ids i) d ?m) 0 (t_subscriptions t) ?w1 = (w', Inr ())"
    "\<forall>arn. in_queue arn w' = in_queue arn ?w1 + count_if (goes_to_queue env (pr_region d) arn) (t_subscriptions t)"
    "w_out w' = w_out ?w1 @ all_sent_out env ids d ?m (w_lam ?w1) 0 (t_subscriptions t)"
    using deliver_all [OF _ q assms(2)] by blast
  then show ?thesis
    by (simp add: publish_run [OF assms(1,4-6)] run_bind run_simps in_queue_def)
qed

text \<open>C11: a subscription to a queue that is gone makes the publishing fail: the message is stored and
  the subscriptions before it are served, the ones behind it get nothing.\<close>

theorem sns_publish_stops:
  assumes "sns_ok (w_sns w)" "life_inv (w_sqs w)" "fresh_deliveries ids (w_sqs w)"
    and "find_if (\<lambda>(_, t). t_topicArn t = pr_topicArn d) (topics (w_sns w)) = Some (k, t)" "pr_topicArn d \<noteq> []" "pr_targetArn d = []"
    and "t_subscriptions t = xs @ s # ys" "list_all (deliverable env (pr_region d) w) xs"
    and "to_lower (sub_protocol s) = ''sqs''"
    and "queue_of (w_sqs w) (ConvertToArn (e_cfg (n_sqs env)) (pr_region d) (sub_endpoint s)) = None"
    and "queue_of (w_sqs w) (ConvertToArn (e_cfg (n_sqs env)) (pr_region d) []) = None"
  shows "\<exists>w' msg. sns_Publish env clock oid messageId ids d w = (w', Inl (ServiceException msg)) \<and>
    map_of (sns_messages (w_sns w')) oid \<noteq> None \<and>
    (\<forall>arn. in_queue arn w' = in_queue arn w + count_if (goes_to_queue env (pr_region d) arn) xs) \<and>
    w_out w' = w_out w @ all_sent_out env ids d (message_to_publish env (clock 1) messageId d) (w_lam w) 0 xs"
proof -
  let ?m = "message_to_publish env (clock 1) messageId d" and ?cfg = "e_cfg (n_sqs env)"
  let ?deliver = "\<lambda>i. deliver_one env (ids i) d ?m"
  let ?w1 = "w\<lparr>w_sns := (w_sns w)\<lparr>sns_messages := omap_insert oid ?m (sns_messages (w_sns w))\<rparr>\<rparr>"
  have q: "queues_from (w_sqs w) (ids_from ids 0) ?w1"
    using assms(3) by (auto simp: queues_from_def fresh_deliveries_def ids_from_def)
  have "list_all (deliverable env (pr_region d) ?w1) xs" using assms(8) by simp
  moreover have "ids_apart ids" using assms(3) by (simp add: fresh_deliveries_def)
  ultimately obtain w2 where w2: "act_each ?deliver 0 xs ?w1 = (w2, Inr ())" "same_targets ?w1 w2"
    "\<forall>arn. in_queue arn w2 = in_queue arn ?w1 + count_if (goes_to_queue env (pr_region d) arn) xs"
    "w_out w2 = w_out ?w1 @ all_sent_out env ids d ?m (w_lam ?w1) 0 xs"
    using deliver_all [OF _ q assms(2)] by blast
  have none: "queue_of (w_sqs w2) arn = None" if "queue_of (w_sqs w) arn = None" for arn
    using queue_of_same [OF w2(2), of arn] that by simp
  note n1 = none [OF assms(10)] and n2 = none [OF assms(11)]
  let ?i = "ids (length xs)"
  have g: "sqs_getQueueByArn (dl_lookup ?i) (w_sqs w2) (ConvertToArn ?cfg (pr_region d) (sub_endpoint s)) = (w_sqs w2, default_queue (dl_lookup ?i))"
    using n1 by (simp add: queue_of_def sqs_getQueueByArn_def get_or_def stamp_found_def with_queues_def)
  have "\<not> sqs_queueArnExists (w_sqs w2) (ConvertToArn ?cfg (pr_region d) [])"
    using n2 by (simp add: queue_of_def sqs_queueArnExists_def found_def)
  moreover have "ConvertToArn ?cfg (pr_region d) [] \<noteq> []"
    by (simp add: ConvertToArn_def IsUrl_def IsArn_def CreateSQSQueueArn_def CreateArn_def)
  ultimately have "\<exists>msg. svc_sendMessage (n_sqs env) (dl_clock ?i) (dl_layout ?i) (dl_message ?i) (w_lam w2) (w_sqs w2)
      (notification_request env ?i d (default_queue (dl_lookup ?i))) = Inl (ServiceException msg)"
    by (simp add: svc_sendMessage_def Let_def notification_request_def default_queue_def require_def)
  then obtain msg where "SendSQSMessage env ?i d s w2 = (w2, Inl (ServiceException msg))"
    by (auto simp: SendSQSMessage_def act_bind_def on_sqs_def try_sqs_def g)
  then have "?deliver (0 + length xs) s w2 = (w2, Inl (ServiceException msg))"
    using assms(9) by (simp add: deliver_one_def Let_def run_bind)
  from act_each_stops [OF w2(1) this, of ys]
  have all: "act_each ?deliver 0 (t_subscriptions t) ?w1 = (w2, Inl (ServiceException msg))" by (simp add: assms(7))
  have run: "sns_Publish env clock oid messageId ids d w = (w2, Inl (ServiceException msg))"
    using all by (simp add: publish_run [OF assms(1,4-6)] run_bind)
  have "map_of (sns_messages (w_sns w2)) oid \<noteq> None"
  proof -
    have keep: "keeps (\<lambda>w. map_of (sns_messages (w_sns w)) oid \<noteq> None) (act_each ?deliver 0 xs)"
      by (rule keeps_each) (rule deliver_keeps_message)
    have "map_of (sns_messages (w_sns ?w1)) oid \<noteq> None" by (simp add: map_of_omap_insert)
    from keepsD [OF keep this] show ?thesis unfolding w2(1) by simp
  qed
  then show ?thesis using run w2 by (simp add: in_queue_def)
qed

subsection \<open>Where the service departs from its purpose\<close>

lemma status_untouched:
  assumes "sm_oid m = []" "[] \<notin> keys_of ms"
  shows "keeps (\<lambda>w. sns_messages (w_sns w) = ms) (deliver_one env ids d m s)"
  unfolding keeps_def
proof (intro allI impI)
  fix w :: sns_world assume w: "sns_messages (w_sns w) = ms"
  have "find_if (\<lambda>(k, _). k = []) ms = None" using assms(2) by (force simp: find_if_def find_None_iff' keys_of_def)
  then have "sns_messages (sns_setMessageStatus (dl_done ids) (w_sns w) m SNS_SEND) = ms"
    by (simp add: sns_setMessageStatus_def modify_found_def w assms(1))
  then show "sns_messages (w_sns (fst (deliver_one env ids d m s w))) = ms"
    using deliver_one_messages [of env ids d m s w] w by auto
qed

text \<open>A published message is stored as INITIAL and stays so, delivered or not: it is stored without
  its object id, which \<open>setMessageStatus\<close> looks for.\<close>

theorem sns_status_stays_initial:
  assumes "sns_ok (w_sns w)" "find_if (\<lambda>(_, t). t_topicArn t = pr_topicArn d) (topics (w_sns w)) = Some (k, t)"
    and "pr_topicArn d \<noteq> []" "pr_targetArn d = []" "oid \<noteq> []" "[] \<notin> keys_of (sns_messages (w_sns w))"
  shows "\<exists>m. sns_messages (w_sns (fst (sns_Publish env clock oid messageId ids d w))) = omap_insert oid m (sns_messages (w_sns w)) \<and>
    sm_messageId m = messageId \<and> sm_message m = pr_message d \<and> sm_oid m = [] \<and> sm_status m = SNS_INITIAL"
proof -
  let ?m = "message_to_publish env (clock 1) messageId d" and ?ms = "omap_insert oid (message_to_publish env (clock 1) messageId d) (sns_messages (w_sns w))"
  have "[] \<notin> keys_of ?ms" using assms(5,6) by (simp add: keys_omap_insert)
  then have keep: "keeps (\<lambda>w. sns_messages (w_sns w) = ?ms) (act_each (\<lambda>i. deliver_one env (ids i) d ?m) 0 (t_subscriptions t))"
    by (intro keeps_each status_untouched) simp_all
  let ?w1 = "w\<lparr>w_sns := (w_sns w)\<lparr>sns_messages := ?ms\<rparr>\<rparr>"
  have "sns_messages (w_sns (fst (act_each (\<lambda>i. deliver_one env (ids i) d ?m) 0 (t_subscriptions t) ?w1))) = ?ms"
    using keepsD [OF keep, of ?w1] by simp
  then show ?thesis
    unfolding publish_run [OF assms(1-4)] return_bind_state by (intro exI [of _ ?m]) simp
qed

text \<open>Publishing to a target ARN succeeds when a topic has that topic ARN, and delivers to nobody: the
  topic is then looked up by its target ARN, which no operation ever sets.\<close>

theorem sns_publish_target_silent:
  assumes "sns_ok (w_sns w)" "pr_topicArn d = []" "pr_targetArn d \<noteq> []" "sns_topicExistsName (w_sns w) (pr_targetArn d)"
    and "list_all (\<lambda>(_, t). t_targetArn t \<noteq> pr_targetArn d) (topics (w_sns w))"
  shows "\<exists>w' r. sns_Publish env clock oid messageId ids d w = (w', Inr r) \<and>
    w_sqs w' = w_sqs w \<and> w_lam w' = w_lam w \<and> w_out w' = w_out w"
proof -
  have "find_if (\<lambda>(_, t). t_targetArn t = pr_targetArn d) (topics (w_sns w)) = None"
    using assms(5) by (auto simp: find_if_def find_None_iff' list_all_iff)
  then have "topic_to_publish (clock 0) d (w_sns w) = (w_sns w, default_topic (clock 0))"
    using assms(1-3) by (simp add: topic_to_publish_def getTopic_eqs found_topic_def)
  then show ?thesis
    using assms(2-4)
    by (simp add: sns_Publish_def run_simps on_sns_bind sns_createMessage_def CheckSubscriptions_def default_topic_def)
qed

text \<open>No message is ever deleted by its id, as long as message ids differ from object ids: the id is
  looked for among the keys first, and there it fails.\<close>

theorem sns_delete_message_never:
  assumes "list_all (\<lambda>(_, m). sm_messageId m \<notin> keys_of (sns_messages (w_sns w))) (sns_messages (w_sns w))"
  shows "sns_messages (w_sns (fst (sns_DeleteMessage now arn messageId w))) = sns_messages (w_sns w)"
proof (cases "sns_messageExists (w_sns w) messageId")
  case False
  then show ?thesis by (simp add: sns_DeleteMessage_def run_simps)
next
  case True
  then have "messageId \<in> keys_of (sns_messages (w_sns w))" by (force simp: sns_messageExists_def found_iff)
  then have "filter (\<lambda>x. \<not> (case x of (_, m) \<Rightarrow> sm_messageId m = messageId)) (sns_messages (w_sns w)) = sns_messages (w_sns w)"
    using assms by (intro filter_True) (auto simp: list_all_iff)
  then have "sns_messages (fst (sns_deleteMessageById (w_sns w) messageId)) = sns_messages (w_sns w)"
    by (simp add: sns_deleteMessageById_def with_sns_messages_def)
  then show ?thesis
    using True by (simp add: sns_DeleteMessage_def run_simps get_topic_def on_sns_bind sns_getTopicByArn_def with_topics_def)
qed

subsection \<open>Subscriptions\<close>

lemma subscribe_run:
  fixes env :: sns_env and random region arn protocol endpoint :: string and w :: sns_world and clock :: "nat \<Rightarrow> time_point"
  assumes ok: "sns_ok (w_sns w)" and t: "find_if (\<lambda>(_, t). t_topicArn t = arn) (topics (w_sns w)) = Some (k, t)" and "arn \<noteq> []"
  defines "A \<equiv> CreateSNSSubscriptionArn random region (cfg_account_id (e_cfg (n_sqs env))) (t_topicName t)"
  defines "new \<equiv> \<lparr>sub_protocol = protocol, sub_endpoint = endpoint, sub_subscriptionArn = A\<rparr>"
  shows "sns_Subscribe env clock random region arn protocol endpoint w =
    (if HasSubscription t new then (w, Inr A)
     else (w\<lparr>w_sns := (w_sns w)\<lparr>topics := assign k (t\<lparr>t_subscriptions := t_subscriptions t @ [new], t_modified := clock 1\<rparr>) (topics (w_sns w))\<rparr>\<rparr>, Inr A))"
proof -
  have m: "(k, t) \<in> set (topics (w_sns w))" using find_if_SomeD [OF t] by simp
  then have oid: "t_oid t = k" using sns_okD(3) [OF ok] by (auto simp: all_stamped_def)
  let ?t = "t\<lparr>t_subscriptions := t_subscriptions t @ [new]\<rparr>"
  have kn: "known_topic (w_sns w) ?t" using m oid by (auto simp: known_topic_def topic_ident_def)
  have look: "sns_getTopicByArn (clock 0) (w_sns w) arn = (w_sns w, t)" by (simp add: getTopic_eqs [OF ok] found_topic_def t)
  have ex: "sns_topicExistsName (w_sns w) arn" using t by (simp add: sns_topicExistsName_def found_def)
  have st: "store_topic (clock 1) ?t w =
      (w\<lparr>w_sns := (w_sns w)\<lparr>topics := assign k (?t\<lparr>t_modified := clock 1\<rparr>) (topics (w_sns w))\<rparr>\<rparr>, Inr (?t\<lparr>t_modified := clock 1\<rparr>))"
    by (simp add: store_topic_def try_sns_def updateTopic_known [OF ok kn] oid)
  show ?thesis
    using assms(3) ex look st
    by (simp add: sns_Subscribe_def need_topic_def run_simps on_sns_bind Let_def A_def [symmetric] new_def [symmetric] run_bind)
qed

text \<open>Subscribing an endpoint again changes nothing, but answers with a new ARN, which no subscription
  has: unsubscribing it succeeds and changes nothing either.\<close>

theorem sns_subscribe_twice:
  assumes "sns_ok (w_sns w)" "find_if (\<lambda>(_, t). t_topicArn t = arn) (topics (w_sns w)) = Some (k, t)" "arn \<noteq> []"
    and "list_ex (\<lambda>s. sub_protocol s = protocol \<and> sub_endpoint s = endpoint) (t_subscriptions t)"
    and "list_all (\<lambda>(_, t'). list_all (\<lambda>s. sub_subscriptionArn s \<noteq>
       CreateSNSSubscriptionArn random region (cfg_account_id (e_cfg (n_sqs env))) (t_topicName t)) (t_subscriptions t')) (topics (w_sns w))"
  shows "\<exists>A. sns_Subscribe env clock random region arn protocol endpoint w = (w, Inr A) \<and>
    A = CreateSNSSubscriptionArn random region (cfg_account_id (e_cfg (n_sqs env))) (t_topicName t) \<and>
    sns_Unsubscribe clock' A w = (w, Inr A)"
proof -
  let ?A = "CreateSNSSubscriptionArn random region (cfg_account_id (e_cfg (n_sqs env))) (t_topicName t)"
  have "HasSubscription t \<lparr>sub_protocol = protocol, sub_endpoint = endpoint, sub_subscriptionArn = ?A\<rparr>"
    using assms(4) by (simp add: HasSubscription_def)
  then have s: "sns_Subscribe env clock random region arn protocol endpoint w = (w, Inr ?A)"
    by (simp add: subscribe_run [OF assms(1-3)])
  have "sns_getTopicsBySubscriptionArn (w_sns w) ?A = []"
    using assms(5) by (auto simp: sns_getTopicsBySubscriptionArn_def values_of_def filter_empty_conv list_all_iff list_ex_iff)
  moreover have "?A \<noteq> []" by (simp add: CreateSNSSubscriptionArn_def CreateArn_def)
  ultimately have "sns_Unsubscribe clock' ?A w = (w, Inr ?A)"
    by (simp add: sns_Unsubscribe_def run_simps read_bind)
  then show ?thesis using s by blast
qed

definition topic_unstamped :: "sns_topic \<Rightarrow> sns_topic" where
  "topic_unstamped t = t\<lparr>t_modified := 0\<rparr>"

text \<open>C13: subscribing a new endpoint and unsubscribing the ARN the answer gives leaves every topic as it
  was, up to its time of modification.\<close>

theorem sns_subscribe_unsubscribe:
  assumes "sns_ok (w_sns w)" "find_if (\<lambda>(_, t). t_topicArn t = arn) (topics (w_sns w)) = Some (k, t)" "arn \<noteq> []"
    and "\<not> list_ex (\<lambda>s. sub_protocol s = protocol \<and> sub_endpoint s = endpoint) (t_subscriptions t)"
    and "list_all (\<lambda>(_, t'). list_all (\<lambda>s. sub_subscriptionArn s \<noteq>
       CreateSNSSubscriptionArn random region (cfg_account_id (e_cfg (n_sqs env))) (t_topicName t)) (t_subscriptions t')) (topics (w_sns w))"
  shows "\<exists>w1 w2 A t1. sns_Subscribe env clock random region arn protocol endpoint w = (w1, Inr A) \<and>
    map_of (topics (w_sns w1)) k = Some t1 \<and>
    t_subscriptions t1 = t_subscriptions t @ [\<lparr>sub_protocol = protocol, sub_endpoint = endpoint, sub_subscriptionArn = A\<rparr>] \<and>
    sns_Unsubscribe clock' A w1 = (w2, Inr A) \<and>
    map (map_prod id topic_unstamped) (topics (w_sns w2)) = map (map_prod id topic_unstamped) (topics (w_sns w))"
proof -
  let ?A = "CreateSNSSubscriptionArn random region (cfg_account_id (e_cfg (n_sqs env))) (t_topicName t)"
  let ?new = "\<lparr>sub_protocol = protocol, sub_endpoint = endpoint, sub_subscriptionArn = ?A\<rparr>"
  let ?ts = "topics (w_sns w)"
  define c where "c = clock 1"
  let ?t1 = "t\<lparr>t_subscriptions := t_subscriptions t @ [?new], t_modified := c\<rparr>"
  let ?w1 = "w\<lparr>w_sns := (w_sns w)\<lparr>topics := assign k ?t1 ?ts\<rparr>\<rparr>"
  let ?t2 = "t\<lparr>t_modified := clock' 0\<rparr>"
  have wf: "wf_store ?ts" by (rule sns_okD(5) [OF assms(1)])
  have m: "(k, t) \<in> set ?ts" using find_if_SomeD [OF assms(2)] by simp
  then have mo: "map_of ?ts k = Some t" using wf by (simp add: wf_in_map_of)
  have oid: "t_oid t = k" using m sns_okD(3) [OF assms(1)] by (auto simp: all_stamped_def)
  have s: "sns_Subscribe env clock random region arn protocol endpoint w = (?w1, Inr ?A)"
    using assms(4) by (simp add: subscribe_run [OF assms(1-3)] HasSubscription_def c_def)
  have no: "sub_subscriptionArn x \<noteq> ?A" if "(j, u) \<in> set ?ts" "x \<in> set (t_subscriptions u)" for j u x
    using assms(5) that by (auto simp: list_all_iff)
  have A: "?A \<noteq> []" by (simp add: CreateSNSSubscriptionArn_def CreateArn_def)
  have uniq: "u = t" if "(k, u) \<in> set ?ts" for u using that mo wf by (simp add: wf_in_map_of)
  have hit: "list_ex (\<lambda>x. sub_subscriptionArn x = ?A) (t_subscriptions u) \<longleftrightarrow> False" if "(j, u) \<in> set ?ts" for j u
    using no [OF that] by (auto simp: list_ex_iff)
  have "filter (\<lambda>t. t_subscriptions t \<noteq> [] \<and> list_ex (\<lambda>s. sub_subscriptionArn s = ?A) (t_subscriptions t)) (values_of (assign k ?t1 ms)) = [?t1]"
    if "wf_store ms" "(k, t) \<in> set ms" "set ms \<subseteq> set ?ts" for ms
    using that
  proof (induction ms)
    case Nil
    then show ?case by simp
  next
    case (Cons kv ms)
    obtain j u where kv: "kv = (j, u)" by (cases kv)
    have rest: "k \<notin> keys_of ms \<Longrightarrow> set ms \<subseteq> set ?ts \<Longrightarrow>
        filter (\<lambda>t. t_subscriptions t \<noteq> [] \<and> list_ex (\<lambda>s. sub_subscriptionArn s = ?A) (t_subscriptions t)) (values_of (assign k ?t1 ms)) = []"
      unfolding assign_def modify_absent [of k ms "\<lambda>_. ?t1"] using hit
      by (auto simp: values_of_def filter_empty_conv modify_absent)
    show ?case
    proof (cases "j = k")
      case True
      then have "k \<notin> keys_of ms" using Cons.prems(1) kv by simp
      then show ?thesis using True kv rest Cons.prems(3) by (simp add: assign_def modify_Cons values_of_def)
    next
      case False
      have "(j, u) \<in> set ?ts" using Cons.prems(3) kv by simp
      then show ?thesis using False kv Cons hit [of j u] by (simp add: assign_def modify_Cons values_of_def)
    qed
  qed
  from this [OF wf m subset_refl] have subs: "sns_getTopicsBySubscriptionArn (w_sns ?w1) ?A = [?t1]"
    by (simp add: sns_getTopicsBySubscriptionArn_def)
  have ok1: "sns_ok (w_sns ?w1)"
    using keepsD [OF keeps_subscribe, of w env clock random region arn protocol endpoint] assms(1) by (simp add: s topics_fine_def)
  have "filter (\<lambda>s. sub_subscriptionArn s \<noteq> ?A) (t_subscriptions t) = t_subscriptions t"
    using no [OF m] by (intro filter_True) auto
  then have w2': "(without_subscription ?A ?t1)\<lparr>t_modified := clock' 0\<rparr> = ?t2" by (simp add: without_subscription_def)
  have "known_topic (w_sns ?w1) (without_subscription ?A ?t1)"
    using m oid by (auto simp: known_topic_def topic_ident_def without_subscription_def assign_def set_modify image_iff) force
  from updateTopic_known [OF ok1 this, of "clock' 0"]
  have "store_topic (clock' 0) (without_subscription ?A ?t1) ?w1 =
      (?w1\<lparr>w_sns := (w_sns ?w1)\<lparr>topics := assign k ?t2 (assign k ?t1 ?ts)\<rparr>\<rparr>, Inr ?t2)"
    unfolding store_topic_def try_sns_def w2' by (simp add: without_subscription_def oid)
  then have u: "sns_Unsubscribe clock' ?A ?w1 = (?w1\<lparr>w_sns := (w_sns ?w1)\<lparr>topics := assign k ?t2 (assign k ?t1 ?ts)\<rparr>\<rparr>, Inr ?A)"
    using A subs by (simp add: sns_Unsubscribe_def run_simps read_bind run_bind)
  have "map (map_prod id topic_unstamped) (assign k ?t2 (assign k ?t1 ?ts)) = map (map_prod id topic_unstamped) ?ts"
    unfolding assign_def modify_def map_map by (rule map_cong [OF refl]) (use uniq in \<open>auto simp: topic_unstamped_def\<close>)
  then show ?thesis
    by (intro exI [of _ ?w1] exI [of _ "?w1\<lparr>w_sns := (w_sns ?w1)\<lparr>topics := assign k ?t2 (assign k ?t1 ?ts)\<rparr>\<rparr>"] exI [of _ ?A] exI [of _ ?t1])
      (use s u mo in \<open>simp add: store_simps\<close>)
qed

subsection \<open>Topics as a map from regions and names\<close>

text \<open>C12: creating a topic is a step of the abstract map from regions and names to topics: a pair that has
  no topic gets one, with the ARN of its region and name, and a pair that has one keeps it; the answer
  is the topic the pair has afterwards.\<close>

theorem sns_create_topic_refines:
  assumes "sns_ok (w_sns w)" "oid \<notin> keys_of (topics (w_sns w))"
  shows "\<exists>w' t. sns_CreateTopic env clock oid region name owner w = (w', Inr (t_topicName t, t_owner t, t_topicArn t)) \<and>
    by_ident topic_ident (topics (w_sns w')) = (by_ident topic_ident (topics (w_sns w)))((region, name) \<mapsto> t) \<and>
    (case by_ident topic_ident (topics (w_sns w)) (region, name) of
       Some old \<Rightarrow> t = old
     | None \<Rightarrow> t_topicArn t = CreateSNSTopicArn region (cfg_account_id (e_cfg (n_sqs env))) name \<and> t_owner t = owner \<and> t_oid t = oid) \<and>
    sns_ok (w_sns w')"
proof -
  let ?ts = "topics (w_sns w)"
  have ok': "sns_ok (w_sns (fst (sns_CreateTopic env clock oid region name owner w)))"
    using keepsD [OF keeps_create_topic, of w] assms(1) by (simp add: topics_fine_def)
  have find: "find_if (\<lambda>(_, t). t_region t = region \<and> t_topicName t = name) ?ts = find_if (\<lambda>(_, e). topic_ident e = (region, name)) ?ts"
    by (simp add: topic_ident_def)
  show ?thesis
  proof (cases "by_ident topic_ident ?ts (region, name)")
    case (Some old)
    then obtain k where k: "find_if (\<lambda>(_, e). topic_ident e = (region, name)) ?ts = Some (k, old)" by (auto simp: by_ident_def)
    have ex: "sns_topicExists (w_sns w) region name" by (simp add: sns_topicExists_def found_def find k)
    have run: "sns_CreateTopic env clock oid region name owner w = (w, Inr (t_topicName old, t_owner old, t_topicArn old))"
      using ex by (simp add: sns_CreateTopic_def on_sns_bind getTopic_eqs [OF assms(1)] found_topic_def find k run_simps)
    have "by_ident topic_ident ?ts = (by_ident topic_ident ?ts)((region, name) \<mapsto> old)" using Some by auto
    then show ?thesis using run Some assms(1) by (intro exI [of _ w] exI [of _ old]) simp
  next
    case None
    let ?t = "(default_topic (clock 0))\<lparr>t_region := region, t_topicName := name, t_owner := owner,
        t_topicArn := CreateSNSTopicArn region (cfg_account_id (e_cfg (n_sqs env))) name, t_oid := oid\<rparr>"
    have id: "topic_ident ?t = (region, name)" by (simp add: topic_ident_def)
    have no: "find_if (\<lambda>(_, e). topic_ident e = (region, name)) ?ts = None" using None by (simp add: by_ident_def)
    have ex: "\<not> sns_topicExists (w_sns w) region name" by (simp add: sns_topicExists_def found_def find no)
    let ?w = "w\<lparr>w_sns := (w_sns w)\<lparr>topics := omap_insert oid ?t ?ts\<rparr>\<rparr>"
    have run: "sns_CreateTopic env clock oid region name owner w = (?w, Inr (t_topicName ?t, t_owner ?t, t_topicArn ?t))"
      using ex by (simp add: sns_CreateTopic_def on_sns_bind sns_createTopic_def Let_def run_simps)
    have "upsert omap_insert topic_ident oid ?t (\<lambda>_. ?t) ?ts = omap_insert oid ?t ?ts" by (simp add: upsert_def id no)
    then have "by_ident topic_ident (omap_insert oid ?t ?ts) = (by_ident topic_ident ?ts)((region, name) \<mapsto> ?t)"
      using topic_store.upsert_refines [where upd = "\<lambda>_. ?t" and new = ?t, OF sns_okD(1,4) [OF assms(1)] refl assms(2)] by (simp add: id no)
    then show ?thesis using run ok' None by (intro exI [of _ ?w] exI [of _ ?t]) simp
  qed
qed

subsection \<open>HTTP endpoints\<close>

text \<open>An endpoint of host, port and path is taken apart into these three; without a port it is port 80,
  without a path the root.\<close>

theorem http_target_parts:
  assumes "list_all (\<lambda>c. c \<notin> {CHR '':'', CHR ''/''}) host" "CHR ''/'' \<notin> set port"
  shows "http_target (host @ CHR '':'' # port @ CHR ''/'' # path) = (host, port, CHR ''/'' # path) \<and>
    http_target (host @ CHR ''/'' # path) = (host, ''80'', CHR ''/'' # path) \<and>
    http_target (host @ CHR '':'' # port) = (host, port, ''/'') \<and> http_target host = (host, ''80'', ''/'')"
proof -
  have h: "CHR '':'' \<notin> set host" "CHR ''/'' \<notin> set host" using assms(1) by (auto simp: list_all_iff)
  have take: "takeWhile (\<lambda>c. c \<noteq> x) (u @ x # v) = u" "dropWhile (\<lambda>c. c \<noteq> x) (u @ x # v) = x # v" if "x \<notin> set u" for x :: char and u v
    using that by (simp_all add: takeWhile_tail dropWhile_append3 takeWhile_append dropWhile_append)
  have all: "takeWhile (\<lambda>c. c \<noteq> x) u = u" if "x \<notin> set u" for x :: char and u
    using that by (auto simp: takeWhile_eq_all_conv)
  have hp: "CHR ''/'' \<notin> set (host @ CHR '':'' # port)" using h assms(2) by auto
  note hp1 = take [OF hp, of path, unfolded append_assoc append_Cons]
  show ?thesis
    using h hp assms(2) by (auto simp: http_target_def Let_def take all hp1)
qed

theorem http_target_parts_witness:
  "http_target ''localhost:8080/events'' = (''localhost'', ''8080'', ''/events'')"
  using http_target_parts [of "''localhost''" "''8080''" "''events''"] by simp

subsection \<open>Reachable worlds\<close>

lemma world_init_ok: "topics_fine world_init" "life_inv (w_sqs world_init)" "sqs_reachable (w_sqs world_init)"
  by (simp_all add: world_init_def topics_fine_def sns_ok_def sns_inv_def sqs_reachable.start sqs_reachable_life)

text \<open>C9: in every world that the steps of \<open>world_step\<close> reach from the empty one, whatever exceptions end their
  operations, the topics are stored under their object ids and no two have the same region and name; and the queues
  are in a state that the SQS repository's own machine (C3) reaches, so that its invariant holds: a delivery is a
  send. The steps are the operations of the SNS service with its server tasks, the steps of the SQS service, and any
  change of the functions, under these conditions: the object ids, message ids and handles of new messages are new,
  and SQS creates a queue only when its region and name are free. The service does not ensure the latter in a region
  other than the configured one, where \<open>svc_create_queue_twice\<close> breaks the unique names; and the import of
  a whole infrastructure by the module service is no step.\<close>

theorem sns_world_invariant:
  assumes "world_reachable env w"
  shows "sns_ok (w_sns w) \<and> sqs_reachable (w_sqs w) \<and> life_inv (w_sqs w)"
  using assms
proof (induction rule: world_reachable.induct)
  case start
  then show ?case using world_init_ok by (simp add: topics_fine_def)
next
  case (step w w')
  have "steps (w_sqs w) (w_sqs w')" using world_step_queues [OF step.hyps(2)] step.IH by blast
  then show ?case
    using world_step_topics [OF step.hyps(2)] step.IH steps_reachable steps_life by (auto simp: topics_fine_def)
qed

subsection \<open>A world for the witnesses\<close>

definition wit_sns_env :: sns_env where
  "wit_sns_env = \<lparr>n_sqs = wit_env, n_base64 = (\<lambda>_. ''b64''), n_notification_json = nt_message, n_event_json = (\<lambda>_. ''{}'')\<rparr>"

definition wit_subs :: "sns_subscription list" where
  "wit_subs =
     [\<lparr>sub_protocol = ''SQS'', sub_endpoint = ''http://h/q'', sub_subscriptionArn = ''s1''\<rparr>,
      \<lparr>sub_protocol = ''http'', sub_endpoint = ''http://x:1/p'', sub_subscriptionArn = ''s2''\<rparr>,
      \<lparr>sub_protocol = ''sqs'', sub_endpoint = ''http://h/q'', sub_subscriptionArn = ''s3''\<rparr>]"

definition wit_pub_topic :: "sns_subscription list \<Rightarrow> sns_topic" where
  "wit_pub_topic subs =
     (default_topic 0)\<lparr>t_oid := ''k'', t_region := ''eu'', t_topicName := ''t'', t_topicArn := ''T'', t_subscriptions := subs\<rparr>"

definition wit_world :: "sns_subscription list \<Rightarrow> sns_world" where
  "wit_world subs = \<lparr>w_sns = \<lparr>topics = [(''k'', wit_pub_topic subs)], sns_messages = []\<rparr>, w_sqs = wit_svc, w_lam = wit_lam, w_out = []\<rparr>"

definition wit_publish :: publish_request where
  "wit_publish = \<lparr>pr_region = ''eu'', pr_user = [], pr_requestId = [], pr_contentType = [], pr_topicArn = ''T'', pr_targetArn = [],
     pr_message = ''hi'', pr_messageAttributes = []\<rparr>"

definition wit_ids :: "nat \<Rightarrow> delivery_ids" where
  "wit_ids i = \<lparr>dl_notificationId = [], dl_timestamp = 0, dl_lookup = 0, dl_layout = [],
     dl_message = \<lparr>mi_messageId = [], mi_receiptHandle = replicate (i + 2) CHR ''h'', mi_oid = replicate (i + 2) CHR ''o''\<rparr>,
     dl_clock = (\<lambda>_. 0), dl_receipt = [], dl_done = 0\<rparr>"

lemma wit_pub_topic_fields [simp]:
  "t_oid (wit_pub_topic subs) = ''k''" "t_region (wit_pub_topic subs) = ''eu''" "t_topicName (wit_pub_topic subs) = ''t''"
  "t_topicArn (wit_pub_topic subs) = ''T''" "t_subscriptions (wit_pub_topic subs) = subs" "t_targetArn (wit_pub_topic subs) = []"
  by (simp_all add: wit_pub_topic_def default_topic_def)

lemma wit_world_fields [simp]:
  "topics (w_sns (wit_world subs)) = [(''k'', wit_pub_topic subs)]" "sns_messages (w_sns (wit_world subs)) = []"
  "w_sqs (wit_world subs) = wit_svc" "w_lam (wit_world subs) = wit_lam" "w_out (wit_world subs) = []"
  by (simp_all add: wit_world_def)

lemma wit_world_ok: "sns_ok (w_sns (wit_world subs))"
  by (simp add: sns_ok_def sns_inv_def all_stamped_def ident_unique_def)

lemma wit_fresh: "fresh_deliveries wit_ids wit_svc"
proof -
  have "replicate i (c::char) = replicate j c \<longleftrightarrow> i = j" for i j c by (metis length_replicate)
  moreover have "''a'' \<noteq> replicate (i + 2) c" "''r'' \<noteq> replicate (i + 2) c" for i and c :: char by (simp_all add: numeral_2_eq_2)
  ultimately show ?thesis
    by (auto simp: fresh_deliveries_def ids_apart_def apart_def wit_ids_def fresh_ids_def)
qed

lemma wit_find: "find_if (\<lambda>(_, t). t_topicArn t = pr_topicArn wit_publish) (topics (w_sns (wit_world subs))) = Some (''k'', wit_pub_topic subs)"
  by (simp add: find_if_def wit_publish_def)

lemma wit_publish_fields [simp]:
  "pr_region wit_publish = ''eu''" "pr_topicArn wit_publish = ''T''" "pr_targetArn wit_publish = []"
  by (simp_all add: wit_publish_def)

lemma wit_lower [simp]: "to_lower ''sqs'' = ''sqs''" "to_lower ''SQS'' = ''sqs''" "to_lower ''http'' = ''http''"
  by code_simp+

lemma wit_queue: "queue_of wit_svc arn = (if arn = wit_arn then Some (''k'', wit_svc_queue) else None)"
  by (auto simp: queue_of_def find_if_def)

lemma wit_no_listener: "lam_listLambdasWithEventSource wit_lam arn = []"
  by (simp add: lam_listLambdasWithEventSource_def wit_lam_def where_if_def q_where_def values_of_def)

lemma wit_deliverable: "list_all (deliverable wit_sns_env ''eu'' (wit_world subs)) wit_subs"
  by (simp add: wit_subs_def deliverable_def Let_def wit_sns_env_def wit_convert wit_queue wit_no_listener)

lemma wit_goes: "count_if (goes_to_queue wit_sns_env ''eu'' wit_arn) wit_subs = 2"
  by (simp add: count_if_def wit_subs_def goes_to_queue_def wit_sns_env_def wit_convert)

lemma wit_in_queue: "in_queue wit_arn (wit_world subs) = 1"
  by (simp add: in_queue_def count_if_def)

theorem sns_publish_delivers_witness:
  "\<exists>w' r. sns_Publish wit_sns_env (\<lambda>_. 0) ''o'' ''m'' wit_ids wit_publish (wit_world wit_subs) = (w', Inr r) \<and>
     in_queue wit_arn (wit_world wit_subs) = 1 \<and> in_queue wit_arn w' = 3"
proof -
  have "life_inv (w_sqs (wit_world wit_subs))" "fresh_deliveries wit_ids (w_sqs (wit_world wit_subs))"
    "list_all (deliverable wit_sns_env (pr_region wit_publish) (wit_world wit_subs)) (t_subscriptions (wit_pub_topic wit_subs))"
    by (simp_all add: wit_svc_life wit_fresh wit_deliverable)
  from sns_publish_delivers [where w = "wit_world wit_subs" and oid = "''o''" and messageId = "''m''" and clock = "\<lambda>_. 0",
      OF wit_world_ok this(1,2) wit_find _ _ this(3)]
  obtain w' r where "sns_Publish wit_sns_env (\<lambda>_. 0) ''o'' ''m'' wit_ids wit_publish (wit_world wit_subs) = (w', Inr r)"
    and c: "\<forall>arn. in_queue arn w' = in_queue arn (wit_world wit_subs) + count_if (goes_to_queue wit_sns_env ''eu'' arn) wit_subs"
    by auto
  moreover have "in_queue wit_arn w' = 3" using c wit_in_queue wit_goes by simp
  ultimately show ?thesis using wit_in_queue by blast
qed

theorem sns_publish_stops_witness:
  "\<exists>w' msg. sns_Publish wit_sns_env (\<lambda>_. 0) ''o'' ''m'' wit_ids wit_publish
      (wit_world (wit_subs @ \<lparr>sub_protocol = ''sqs'', sub_endpoint = ''gone'', sub_subscriptionArn = ''s4''\<rparr> # wit_subs))
      = (w', Inl (ServiceException msg)) \<and> in_queue wit_arn w' = 3"
proof -
  let ?s = "\<lparr>sub_protocol = ''sqs'', sub_endpoint = ''gone'', sub_subscriptionArn = ''s4''\<rparr>"
  let ?w = "wit_world (wit_subs @ ?s # wit_subs)"
  have "life_inv (w_sqs ?w)" "fresh_deliveries wit_ids (w_sqs ?w)"
    "t_subscriptions (wit_pub_topic (wit_subs @ ?s # wit_subs)) = wit_subs @ ?s # wit_subs"
    "list_all (deliverable wit_sns_env (pr_region wit_publish) ?w) wit_subs" "to_lower (sub_protocol ?s) = ''sqs''"
    by (simp_all add: wit_svc_life wit_fresh wit_deliverable)
  note facts = this
  have gone: "queue_of (w_sqs ?w) (ConvertToArn (e_cfg (n_sqs wit_sns_env)) (pr_region wit_publish) e) = None" if "e = [] \<or> e = ''gone''" for e
    using that by (auto simp: wit_queue ConvertToArn_def IsUrl_def IsArn_def CreateSQSQueueArn_def CreateArn_def wit_arn_def wit_sns_env_def wit_env_def)
  have "\<exists>w' msg. sns_Publish wit_sns_env (\<lambda>_. 0) ''o'' ''m'' wit_ids wit_publish ?w = (w', Inl (ServiceException msg)) \<and>
    map_of (sns_messages (w_sns w')) ''o'' \<noteq> None \<and>
    (\<forall>arn. in_queue arn w' = in_queue arn ?w + count_if (goes_to_queue wit_sns_env (pr_region wit_publish) arn) wit_subs) \<and>
    w_out w' = w_out ?w @ all_sent_out wit_sns_env wit_ids wit_publish (message_to_publish wit_sns_env ((\<lambda>_. 0) 1) ''m'' wit_publish)
      (w_lam ?w) 0 wit_subs"
    by (rule sns_publish_stops [OF wit_world_ok facts(1,2) wit_find _ _ facts(3,4,5)]) (use gone in simp_all)
  then obtain w' msg where "sns_Publish wit_sns_env (\<lambda>_. 0) ''o'' ''m'' wit_ids wit_publish ?w = (w', Inl (ServiceException msg))"
    and c: "\<forall>arn. in_queue arn w' = in_queue arn ?w + count_if (goes_to_queue wit_sns_env (pr_region wit_publish) arn) wit_subs"
    by blast
  moreover have "in_queue wit_arn w' = 3" using c wit_in_queue wit_goes by simp
  ultimately show ?thesis by blast
qed

theorem sns_status_stays_initial_witness:
  "\<exists>m. sns_messages (w_sns (fst (sns_Publish wit_sns_env (\<lambda>_. 0) ''o'' ''m'' wit_ids wit_publish (wit_world wit_subs)))) = [(''o'', m)] \<and>
     sm_status m = SNS_INITIAL"
proof -
  have "''o'' \<noteq> []" "[] \<notin> keys_of (sns_messages (w_sns (wit_world wit_subs)))" by simp_all
  from sns_status_stays_initial [where env = wit_sns_env and messageId = "''m''" and clock = "\<lambda>_. 0" and ids = wit_ids,
      OF wit_world_ok wit_find _ _ this] show ?thesis by auto
qed

theorem sns_publish_target_silent_witness:
  "\<exists>w' r. sns_Publish wit_sns_env (\<lambda>_. 0) ''o'' ''m'' wit_ids (wit_publish\<lparr>pr_topicArn := [], pr_targetArn := ''T''\<rparr>) (wit_world wit_subs) = (w', Inr r) \<and>
     w_out w' = []"
proof -
  let ?d = "wit_publish\<lparr>pr_topicArn := [], pr_targetArn := ''T''\<rparr>"
  have "pr_topicArn ?d = []" "pr_targetArn ?d \<noteq> []" "sns_topicExistsName (w_sns (wit_world wit_subs)) (pr_targetArn ?d)"
    "list_all (\<lambda>(_, t). t_targetArn t \<noteq> pr_targetArn ?d) (topics (w_sns (wit_world wit_subs)))"
    by (simp_all add: sns_topicExistsName_def found_iff)
  from sns_publish_target_silent [where env = wit_sns_env and oid = "''o''" and messageId = "''m''" and clock = "\<lambda>_. 0" and ids = wit_ids,
      OF wit_world_ok this] show ?thesis by auto
qed

theorem sns_delete_message_never_witness:
  "\<exists>w. sns_messages (w_sns w) \<noteq> [] \<and> sns_messages (w_sns (fst (sns_DeleteMessage 0 ''T'' ''m'' w))) = sns_messages (w_sns w)"
proof -
  let ?w = "(wit_world [])\<lparr>w_sns := \<lparr>topics = [], sns_messages = [(''o'', (default_sns_message 0)\<lparr>sm_messageId := ''m''\<rparr>)]\<rparr>\<rparr>"
  have "list_all (\<lambda>(_, m). sm_messageId m \<notin> keys_of (sns_messages (w_sns ?w))) (sns_messages (w_sns ?w))" by simp
  from sns_delete_message_never [OF this] show ?thesis by (intro exI [of _ ?w] conjI) simp_all
qed

theorem sns_subscribe_twice_witness:
  "\<exists>A. sns_Subscribe wit_sns_env (\<lambda>_. 0) ''r'' ''eu'' ''T'' ''http'' ''http://x:1/p'' (wit_world wit_subs) = (wit_world wit_subs, Inr A) \<and>
     sns_Unsubscribe (\<lambda>_. 0) A (wit_world wit_subs) = (wit_world wit_subs, Inr A)"
proof -
  let ?w = "wit_world wit_subs"
  have "find_if (\<lambda>(_, t). t_topicArn t = ''T'') (topics (w_sns ?w)) = Some (''k'', wit_pub_topic wit_subs)"
    "list_ex (\<lambda>s. sub_protocol s = ''http'' \<and> sub_endpoint s = ''http://x:1/p'') (t_subscriptions (wit_pub_topic wit_subs))"
    by (simp_all add: find_if_def) (simp add: wit_subs_def)
  moreover have "list_all (\<lambda>(_, t'). list_all (\<lambda>s. sub_subscriptionArn s \<noteq>
      CreateSNSSubscriptionArn ''r'' ''eu'' (cfg_account_id (e_cfg (n_sqs wit_sns_env))) (t_topicName (wit_pub_topic wit_subs)))
      (t_subscriptions t')) (topics (w_sns ?w))"
    by (simp add: wit_subs_def CreateSNSSubscriptionArn_def CreateArn_def)
  ultimately show ?thesis
    using sns_subscribe_twice [where w = ?w and arn = "''T''" and env = wit_sns_env and clock = "\<lambda>_. 0" and clock' = "\<lambda>_. 0"
        and protocol = "''http''" and endpoint = "''http://x:1/p''" and region = "''eu''" and random = "''r''", OF wit_world_ok] by blast
qed

theorem sns_subscribe_unsubscribe_witness:
  "\<exists>w1 w2 A. sns_Subscribe wit_sns_env (\<lambda>_. 0) ''r'' ''eu'' ''T'' ''http'' ''http://y/'' (wit_world wit_subs) = (w1, Inr A) \<and>
     sns_Unsubscribe (\<lambda>_. 0) A w1 = (w2, Inr A) \<and> map fst (topics (w_sns w2)) = [''k'']"
proof -
  let ?w = "wit_world wit_subs"
  have "find_if (\<lambda>(_, t). t_topicArn t = ''T'') (topics (w_sns ?w)) = Some (''k'', wit_pub_topic wit_subs)"
    "\<not> list_ex (\<lambda>s. sub_protocol s = ''http'' \<and> sub_endpoint s = ''http://y/'') (t_subscriptions (wit_pub_topic wit_subs))"
    by (simp_all add: find_if_def) (simp add: wit_subs_def)
  moreover have "list_all (\<lambda>(_, t'). list_all (\<lambda>s. sub_subscriptionArn s \<noteq>
      CreateSNSSubscriptionArn ''r'' ''eu'' (cfg_account_id (e_cfg (n_sqs wit_sns_env))) (t_topicName (wit_pub_topic wit_subs)))
      (t_subscriptions t')) (topics (w_sns ?w))"
    by (simp add: wit_subs_def CreateSNSSubscriptionArn_def CreateArn_def)
  ultimately obtain w1 w2 A where "sns_Subscribe wit_sns_env (\<lambda>_. 0) ''r'' ''eu'' ''T'' ''http'' ''http://y/'' ?w = (w1, Inr A)"
    "sns_Unsubscribe (\<lambda>_. 0) A w1 = (w2, Inr A)"
    and m: "map (map_prod id topic_unstamped) (topics (w_sns w2)) = map (map_prod id topic_unstamped) (topics (w_sns ?w))"
    using sns_subscribe_unsubscribe [where w = ?w and arn = "''T''" and env = wit_sns_env and clock = "\<lambda>_. 0" and clock' = "\<lambda>_. 0"
        and protocol = "''http''" and endpoint = "''http://y/''" and region = "''eu''" and random = "''r''", OF wit_world_ok] by blast
  moreover have "map fst (topics (w_sns w2)) = [''k'']" using m by auto
  ultimately show ?thesis by (intro exI [of _ w1] exI [of _ w2] exI [of _ A]) simp
qed

theorem sns_create_topic_refines_witness:
  "\<exists>w' t. sns_CreateTopic wit_sns_env (\<lambda>_. 0) ''n'' ''us'' ''t'' ''me'' (wit_world wit_subs) = (w', Inr (t_topicName t, t_owner t, t_topicArn t)) \<and>
     by_ident topic_ident (topics (w_sns w')) (''us'', ''t'') = Some t"
proof -
  have "''n'' \<notin> keys_of (topics (w_sns (wit_world wit_subs)))" by simp
  from sns_create_topic_refines [where env = wit_sns_env and clock = "\<lambda>_. 0" and region = "''us''" and name = "''t''" and owner = "''me''",
      OF wit_world_ok this] show ?thesis by auto
qed

theorem sns_world_invariant_witness:
  "\<exists>w. world_reachable wit_sns_env w \<and> topics (w_sns w) \<noteq> [] \<and> sns_ok (w_sns w) \<and> life_inv (w_sqs w)"
proof -
  let ?w = "fst (sns_CreateTopic wit_sns_env (\<lambda>_. 0) ''n'' ''us'' ''t'' ''me'' world_init)"
  have r: "world_reachable wit_sns_env ?w"
    by (rule world_reachable.step [OF world_reachable.start world_step.create_topic])
  have "topics (w_sns ?w) \<noteq> []"
    by (simp add: sns_CreateTopic_def on_sns_bind run_simps sns_topicExists_def found_iff world_init_def sns_createTopic_def Let_def)
  then show ?thesis using r sns_world_invariant [OF r] by blast
qed

end
