(* ===== verification/S3Repo.thy ===== *)
theory S3Repo
  imports EntityRepo "HOL-Library.Product_Lexorder"
begin

text \<open>
  The in-memory S3 repository (\<open>db/src/repository/s3/S3MemoryRepository.cpp\<close>), its entities
  (\<open>db/include/awsmock/entity/s3\<close>) and the notification queries of a bucket
  (\<open>db/src/entity/s3/Bucket.cpp\<close>, \<open>QueueNotification.cpp\<close>, \<open>TopicNotification.cpp\<close>,
  \<open>LambdaNotification.cpp\<close>). Buckets and objects live in two \<open>std::unordered_map\<close>s; a key of a
  versioned bucket has one object for every version.

  \<open>boost::beast::iequals\<close>, which the names of the enumerations are compared with, is the argument
  \<open>iequals\<close>.
\<close>

subsection \<open>Entities\<close>

datatype storage_class = STANDARD | STANDARD_IA | ONEZONE_IA | EXPRESS_ONEZONE | GLACIER
  | GLACIER_IR | DEEP_ARCHIVE | INTELLIGENT_TIERING | REDUCED_REDUNDANCY

definition storage_class_names :: "(storage_class \<times> string) list" where
  "storage_class_names =
     [(STANDARD, ''STANDARD''), (STANDARD_IA, ''STANDARD_IA''), (ONEZONE_IA, ''ONEZONE_IA''),
      (EXPRESS_ONEZONE, ''EXPRESS_ONEZONE''), (GLACIER, ''GLACIER''), (GLACIER_IR, ''GLACIER_IR''),
      (DEEP_ARCHIVE, ''DEEP_ARCHIVE''), (INTELLIGENT_TIERING, ''INTELLIGENT_TIERING''),
      (REDUCED_REDUNDANCY, ''REDUCED_REDUNDANCY'')]"

definition StorageClassToString :: "storage_class \<Rightarrow> string" where
  "StorageClassToString c = enum_to_string storage_class_names c"

definition StorageClassFromString :: "string \<Rightarrow> storage_class" where
  "StorageClassFromString s = enum_from_string storage_class_names STANDARD s"

datatype bucket_version_status = ENABLED | SUSPENDED | DISABLED

definition bucket_version_names :: "(bucket_version_status \<times> string) list" where
  "bucket_version_names = [(ENABLED, ''enabled''), (SUSPENDED, ''suspended''), (DISABLED, ''disabled'')]"

definition BucketVersionStatusToString :: "bucket_version_status \<Rightarrow> string" where
  "BucketVersionStatusToString s = enum_to_string bucket_version_names s"

definition BucketVersionStatusFromString :: "(string \<Rightarrow> string \<Rightarrow> bool) \<Rightarrow> string \<Rightarrow> bucket_version_status" where
  "BucketVersionStatusFromString iequals s =
     (case List.find (\<lambda>(t, n). iequals n s) bucket_version_names of Some (t, _) \<Rightarrow> t | None \<Rightarrow> DISABLED)"

datatype lifecycle_status = LIFECYCLE_ENABLED | LIFECYCLE_SUSPENDED | LIFECYCLE_DISABLED

definition lifecycle_names :: "(lifecycle_status \<times> string) list" where
  "lifecycle_names = [(LIFECYCLE_ENABLED, ''enabled''), (LIFECYCLE_SUSPENDED, ''suspended''), (LIFECYCLE_DISABLED, ''disabled'')]"

definition LifeCycleStatusToString :: "lifecycle_status \<Rightarrow> string" where
  "LifeCycleStatusToString s = enum_to_string lifecycle_names s"

definition LifeCycleStatusFromString :: "(string \<Rightarrow> string \<Rightarrow> bool) \<Rightarrow> string \<Rightarrow> lifecycle_status" where
  "LifeCycleStatusFromString iequals s =
     (case List.find (\<lambda>(t, n). iequals n s) lifecycle_names of Some (t, _) \<Rightarrow> t | None \<Rightarrow> LIFECYCLE_DISABLED)"

record lifecycle_transition =
  lt_date :: time_point
  lt_days :: int
  lt_storageClass :: storage_class

record lifecycle_configuration =
  lc_id :: string
  lc_prefix :: string
  lc_status :: lifecycle_status
  lc_transitions :: "lifecycle_transition list"

record filter_rule =
  fr_name :: string
  fr_value :: string

text \<open>
  \<open>QueueNotification\<close>, \<open>TopicNotification\<close> and \<open>LambdaNotification\<close> have the same fields; the
  ARN of the target is \<open>queueArn\<close>, \<open>topicArn\<close> or \<open>lambdaArn\<close>.
\<close>

record s3_notification =
  nt_id :: string
  nt_events :: "string list"
  nt_arn :: string
  nt_filterRules :: "filter_rule list"

record bucket_notification =
  bn_event :: string
  bn_notificationId :: string
  bn_queueArn :: string
  bn_lambdaArn :: string

record bucket_encryption =
  be_sseAlgorithm :: string
  be_kmsKeyId :: string

record s3_bucket =
  b_oid :: string
  b_region :: string
  b_name :: string
  b_owner :: string
  b_arn :: string
  b_size :: int
  b_keys :: int
  b_queueNotifications :: "s3_notification list"
  b_topicNotifications :: "s3_notification list"
  b_lambdaNotifications :: "s3_notification list"
  b_defaultMetadata :: "(string \<times> string) list"
  b_lifecycleConfigurations :: "lifecycle_configuration list"
  b_versionStatus :: bucket_version_status
  b_bucketEncryption :: bucket_encryption
  b_created :: time_point
  b_modified :: time_point

record s3_object =
  o_oid :: string
  o_region :: string
  o_bucket :: string
  o_bucketArn :: string
  o_key :: string
  o_owner :: string
  o_size :: int
  o_md5sum :: string
  o_sha1sum :: string
  o_sha256sum :: string
  o_contentType :: string
  o_metadata :: "(string \<times> string) list"
  o_internalName :: string
  o_versionId :: string
  o_localName :: string
  o_storageClass :: storage_class
  o_created :: time_point
  o_modified :: time_point

definition default_bucket :: "time_point \<Rightarrow> s3_bucket" where
  "default_bucket now =
     \<lparr>b_oid = [], b_region = [], b_name = [], b_owner = [], b_arn = [], b_size = 0, b_keys = 0,
      b_queueNotifications = [], b_topicNotifications = [], b_lambdaNotifications = [],
      b_defaultMetadata = [], b_lifecycleConfigurations = [], b_versionStatus = DISABLED,
      b_bucketEncryption = \<lparr>be_sseAlgorithm = [], be_kmsKeyId = []\<rparr>, b_created = now, b_modified = now\<rparr>"

text \<open>\<open>storageClass\<close> has no initialiser: the value initialisation of \<open>return {}\<close> gives the first one.\<close>

definition default_object :: "time_point \<Rightarrow> s3_object" where
  "default_object now =
     \<lparr>o_oid = [], o_region = [], o_bucket = [], o_bucketArn = [], o_key = [], o_owner = [], o_size = 0,
      o_md5sum = [], o_sha1sum = [], o_sha256sum = [], o_contentType = [], o_metadata = [],
      o_internalName = [], o_versionId = [], o_localName = [], o_storageClass = STANDARD,
      o_created = now, o_modified = now\<rparr>"

definition set_b_oid :: "string \<Rightarrow> s3_bucket \<Rightarrow> s3_bucket" where
  "set_b_oid k b = b\<lparr>b_oid := k\<rparr>"

definition set_o_oid :: "string \<Rightarrow> s3_object \<Rightarrow> s3_object" where
  "set_o_oid k x = x\<lparr>o_oid := k\<rparr>"

interpretation s3_b: stamped_entity b_oid set_b_oid
  by unfold_locales (simp_all add: set_b_oid_def)

interpretation s3_o: stamped_entity o_oid set_o_oid
  by unfold_locales (simp_all add: set_o_oid_def)

subsection \<open>Notifications of a bucket\<close>

text \<open>A rule with another name than \<open>prefix\<close> and \<open>suffix\<close> lets nothing pass.\<close>

definition CheckFilter :: "s3_notification \<Rightarrow> string \<Rightarrow> bool" where
  "CheckFilter n key =
     (if nt_filterRules n = [] then True
      else list_ex (\<lambda>rule. (fr_name rule = ''prefix'' \<and> StartsWith key (fr_value rule)) \<or>
                           (fr_name rule = ''suffix'' \<and> EndsWith key (fr_value rule))) (nt_filterRules n))"

definition HasQueueNotificationId :: "s3_bucket \<Rightarrow> string \<Rightarrow> bool" where
  "HasQueueNotificationId b ident = list_ex (\<lambda>n. nt_id n = ident) (b_queueNotifications b)"

definition HasTopicNotificationId :: "s3_bucket \<Rightarrow> string \<Rightarrow> bool" where
  "HasTopicNotificationId b ident = list_ex (\<lambda>n. nt_id n = ident) (b_topicNotifications b)"

definition HasLambdaNotificationId :: "s3_bucket \<Rightarrow> string \<Rightarrow> bool" where
  "HasLambdaNotificationId b ident = list_ex (\<lambda>n. nt_id n = ident) (b_lambdaNotifications b)"

definition HasQueueNotification :: "s3_bucket \<Rightarrow> string \<Rightarrow> bool" where
  "HasQueueNotification b queueArn = list_ex (\<lambda>n. nt_arn n = queueArn) (b_queueNotifications b)"

definition HasTopicNotification :: "s3_bucket \<Rightarrow> string \<Rightarrow> bool" where
  "HasTopicNotification b topicArn = list_ex (\<lambda>n. nt_arn n = topicArn) (b_topicNotifications b)"

definition HasLambdaNotification :: "s3_bucket \<Rightarrow> string \<Rightarrow> bool" where
  "HasLambdaNotification b lambdaArn = list_ex (\<lambda>n. nt_arn n = lambdaArn) (b_lambdaNotifications b)"

definition listens_to :: "string \<Rightarrow> s3_notification \<Rightarrow> bool" where
  "listens_to event n = list_ex (\<lambda>ev. Contains ev event) (nt_events n)"

definition HasLambdaNotificationEvent :: "s3_bucket \<Rightarrow> string \<Rightarrow> bool" where
  "HasLambdaNotificationEvent b event = list_ex (listens_to event) (b_lambdaNotifications b)"

definition HasQueueNotificationEvent :: "s3_bucket \<Rightarrow> string \<Rightarrow> bool" where
  "HasQueueNotificationEvent b event = list_ex (listens_to event) (b_queueNotifications b)"

definition HasTopicNotificationEvent :: "s3_bucket \<Rightarrow> string \<Rightarrow> bool" where
  "HasTopicNotificationEvent b event = list_ex (listens_to event) (b_topicNotifications b)"

definition HasEncryption :: "s3_bucket \<Rightarrow> bool" where
  "HasEncryption b \<longleftrightarrow> be_kmsKeyId (b_bucketEncryption b) \<noteq> [] \<and> be_sseAlgorithm (b_bucketEncryption b) \<noteq> []"

definition GetQueueNotifications :: "s3_bucket \<Rightarrow> string \<Rightarrow> s3_notification list" where
  "GetQueueNotifications b eventName = filter (listens_to eventName) (b_queueNotifications b)"

definition GetTopicNotifications :: "s3_bucket \<Rightarrow> string \<Rightarrow> s3_notification list" where
  "GetTopicNotifications b eventName = filter (listens_to eventName) (b_topicNotifications b)"

definition GetLambdaNotifications :: "s3_bucket \<Rightarrow> string \<Rightarrow> s3_notification list" where
  "GetLambdaNotifications b eventName = filter (listens_to eventName) (b_lambdaNotifications b)"

definition GetLambdaNotificationByArn :: "s3_bucket \<Rightarrow> string \<Rightarrow> s3_notification" where
  "GetLambdaNotificationByArn b lambdaArn =
     (case List.find (\<lambda>n. nt_arn n = lambdaArn) (b_lambdaNotifications b) of
        Some n \<Rightarrow> n
      | None \<Rightarrow> \<lparr>nt_id = [], nt_events = [], nt_arn = [], nt_filterRules = []\<rparr>)"

definition IsVersioned :: "s3_bucket \<Rightarrow> bool" where
  "IsVersioned b \<longleftrightarrow> b_versionStatus b = ENABLED"

subsection \<open>Buckets\<close>

record s3_repo =
  buckets :: "s3_bucket hmap"
  objects :: "s3_object hmap"

definition s3_inv :: "s3_repo \<Rightarrow> bool" where
  "s3_inv st \<longleftrightarrow> wf_store (buckets st) \<and> wf_store (objects st)"

definition with_buckets :: "s3_repo \<Rightarrow> s3_bucket hmap \<times> 'a \<Rightarrow> s3_repo \<times> 'a" where
  "with_buckets st r = (st\<lparr>buckets := fst r\<rparr>, snd r)"

definition with_objects :: "s3_repo \<Rightarrow> s3_object hmap \<times> 'a \<Rightarrow> s3_repo \<times> 'a" where
  "with_objects st r = (st\<lparr>objects := fst r\<rparr>, snd r)"

definition s3_bucketExists :: "s3_repo \<Rightarrow> string \<Rightarrow> string \<Rightarrow> bool" where
  "s3_bucketExists st region name = found (\<lambda>(_, b). b_region b = region \<and> b_name b = name) (buckets st)"

definition s3_bucketExistsBucket :: "s3_repo \<Rightarrow> s3_bucket \<Rightarrow> bool" where
  "s3_bucketExistsBucket st bucket = s3_bucketExists st (b_region bucket) (b_name bucket)"

definition s3_bucketExistsArn :: "s3_repo \<Rightarrow> string \<Rightarrow> bool" where
  "s3_bucketExistsArn st bucketArn = found (\<lambda>(_, b). b_arn b = bucketArn) (buckets st)"

definition s3_getBucketById :: "time_point \<Rightarrow> s3_repo \<Rightarrow> string \<Rightarrow> s3_repo \<times> s3_bucket" where
  "s3_getBucketById now st oid =
     with_buckets st (get_or (default_bucket now) set_b_oid (\<lambda>(k, _). k = oid) (buckets st))"

definition s3_getBucketByRegionName :: "time_point \<Rightarrow> s3_repo \<Rightarrow> string \<Rightarrow> string \<Rightarrow> s3_repo \<times> s3_bucket" where
  "s3_getBucketByRegionName now st region name =
     with_buckets st (get_or (default_bucket now) set_b_oid (\<lambda>(_, b). b_region b = region \<and> b_name b = name) (buckets st))"

definition s3_getBucketByArn :: "time_point \<Rightarrow> s3_repo \<Rightarrow> string \<Rightarrow> s3_repo \<times> s3_bucket" where
  "s3_getBucketByArn now st bucketArn =
     with_buckets st (get_or (default_bucket now) set_b_oid (\<lambda>(_, b). b_arn b = bucketArn) (buckets st))"

definition s3_createBucket :: "layout \<Rightarrow> uuid \<Rightarrow> time_point \<Rightarrow> s3_repo \<Rightarrow> s3_bucket \<Rightarrow> s3_repo \<times> s3_bucket" where
  "s3_createBucket lay uuid now st bucket =
     s3_getBucketById now (st\<lparr>buckets := hmap_insert lay uuid bucket (buckets st)\<rparr>) uuid"

text \<open>Each sort column sorts the whole list again, so the last one decides.\<close>

definition s3_bucket_less :: "sort_column \<Rightarrow> s3_bucket \<Rightarrow> s3_bucket \<Rightarrow> bool" where
  "s3_bucket_less col a b =
     (if sc_column col = ''name'' then by_key (sc_direction col) b_name a b
      else if sc_column col = ''size'' then by_key (sc_direction col) b_size a b
      else if sc_column col = ''keys'' then by_key (sc_direction col) b_keys a b
      else False)"

definition s3_listBuckets :: "s3_repo \<Rightarrow> string \<Rightarrow> string \<Rightarrow> int \<Rightarrow> int \<Rightarrow> sort_column list \<Rightarrow> s3_bucket list" where
  "s3_listBuckets st region pre maxResults skip sortColumns =
     (let q = values_of (buckets st);
          q = where_if region (\<lambda>b. b_region b = region) q;
          q = where_if pre (\<lambda>b. StartsWith (b_name b) pre) q;
          q = foldl (\<lambda>q col. q_order_by (s3_bucket_less col) q) q sortColumns;
          result = (if skip > 0 then drop (nat skip) q else q) in
      if maxResults > 0 then take (nat maxResults) result else result)"

definition s3_exportBuckets :: "s3_repo \<Rightarrow> sort_column list \<Rightarrow> s3_bucket list" where
  "s3_exportBuckets st sortColumns =
     foldl (\<lambda>q col. q_order_by (s3_bucket_less col) q) (values_of (buckets st)) sortColumns"

definition s3_hasObjects :: "s3_repo \<Rightarrow> s3_bucket \<Rightarrow> bool" where
  "s3_hasObjects st bucket \<longleftrightarrow>
     count_if (\<lambda>(_, x). o_region x = b_region bucket \<and> o_bucket x = b_name bucket) (objects st) > 0"

definition s3_getBucketObjectList :: "s3_repo \<Rightarrow> string \<Rightarrow> string \<Rightarrow> int \<Rightarrow> s3_object list" where
  "s3_getBucketObjectList st region bucket maxKeys =
     (let q = values_of (objects st);
          q = where_if region (\<lambda>x. o_region x = region) q;
          q = where_if bucket (\<lambda>x. o_bucket x = bucket) q in
      if maxKeys > 0 then take (nat maxKeys) q else q)"

definition s3_getBucketObjectCount :: "s3_repo \<Rightarrow> string \<Rightarrow> string \<Rightarrow> int" where
  "s3_getBucketObjectCount st region bucket =
     count_if (\<lambda>(_, x). o_region x = region \<and> o_bucket x = bucket) (objects st)"

definition s3_getBucketSize :: "s3_repo \<Rightarrow> string \<Rightarrow> string \<Rightarrow> int" where
  "s3_getBucketSize st region bucket =
     foldl (\<lambda>sum (_, x). if o_region x = region \<and> o_bucket x = bucket then sum + o_size x else sum) 0 (objects st)"

definition s3_bucketCount :: "s3_repo \<Rightarrow> string \<Rightarrow> string \<Rightarrow> int" where
  "s3_bucketCount st region pre = int (length (buckets st))"

definition s3_listBucket :: "s3_repo \<Rightarrow> string \<Rightarrow> string \<Rightarrow> s3_object list" where
  "s3_listBucket st bucket pre =
     (let q = values_of (objects st);
          q = where_if bucket (\<lambda>x. o_bucket x = bucket) q in
      where_if pre (\<lambda>x. StartsWith (o_key x) pre) q)"

definition s3_purgeBucket :: "s3_repo \<Rightarrow> s3_bucket \<Rightarrow> s3_repo \<times> int" where
  "s3_purgeBucket st bucket =
     with_objects st (erase_if (\<lambda>(_, x). o_region x = b_region bucket \<and> o_bucket x = b_name bucket) (objects st))"

text \<open>\<open>updateBucket\<close> dereferences what \<open>find_if\<close> returned without comparing it with \<open>end()\<close>.\<close>

definition s3_updateBucket :: "s3_repo \<Rightarrow> s3_bucket \<Rightarrow> (s3_repo \<times> s3_bucket) outcome" where
  "s3_updateBucket st bucket =
     (case replace_found (\<lambda>(_, b). b_region b = b_region bucket \<and> b_name b = b_name bucket) bucket (buckets st) of
        Some r \<Rightarrow> Inr (with_buckets st r)
      | None \<Rightarrow> Inl UndefinedBehaviour)"

definition s3_updateBucketCounter :: "s3_repo \<Rightarrow> string \<Rightarrow> int \<Rightarrow> int \<Rightarrow> s3_repo" where
  "s3_updateBucketCounter st bucketArn keys sz =
     (case modify_found (\<lambda>(_, b). b_arn b = bucketArn) (\<lambda>b. b\<lparr>b_keys := keys, b_size := sz\<rparr>) (buckets st) of
        Some (bs, _) \<Rightarrow> st\<lparr>buckets := bs\<rparr>
      | None \<Rightarrow> st)"

definition s3_deleteBucket :: "s3_repo \<Rightarrow> s3_bucket \<Rightarrow> s3_repo" where
  "s3_deleteBucket st bucket =
     st\<lparr>buckets := fst (erase_if (\<lambda>(_, b). b_region b = b_region bucket \<and> b_name b = b_name bucket) (buckets st))\<rparr>"

definition s3_deleteAllBuckets :: "s3_repo \<Rightarrow> s3_repo \<times> int" where
  "s3_deleteAllBuckets st = (st\<lparr>buckets := []\<rparr>, int (length (buckets st)))"

definition s3_createOrUpdateBucket :: "layout \<Rightarrow> uuid \<Rightarrow> time_point \<Rightarrow> s3_repo \<Rightarrow> s3_bucket \<Rightarrow> (s3_repo \<times> s3_bucket) outcome" where
  "s3_createOrUpdateBucket lay uuid now st bucket =
     (if s3_bucketExistsBucket st bucket then s3_updateBucket st bucket
      else Inr (s3_createBucket lay uuid now st bucket))"

text \<open>The notification operations store the bucket they found, without the notification.\<close>

definition s3_createBucketNotification :: "time_point \<Rightarrow> s3_repo \<Rightarrow> s3_bucket \<Rightarrow> bucket_notification \<Rightarrow> (s3_repo \<times> s3_bucket) outcome" where
  "s3_createBucketNotification now st bucket bucketNotification =
     (let (st', internBucket) = s3_getBucketByRegionName now st (b_region bucket) (b_name bucket) in
      s3_updateBucket st' internBucket)"

definition s3_deleteBucketNotifications :: "time_point \<Rightarrow> s3_repo \<Rightarrow> s3_bucket \<Rightarrow> bucket_notification \<Rightarrow> (s3_repo \<times> s3_bucket) outcome" where
  "s3_deleteBucketNotifications now st bucket bucketNotification =
     (let (st', internBucket) = s3_getBucketByRegionName now st (b_region bucket) (b_name bucket) in
      s3_updateBucket st' internBucket)"

subsection \<open>Objects\<close>

definition s3_objectExistsObject :: "s3_repo \<Rightarrow> s3_object \<Rightarrow> bool" where
  "s3_objectExistsObject st x =
     found (\<lambda>(_, y). o_region y = o_region x \<and> o_bucket y = o_bucket x \<and> o_key y = o_key x) (objects st)"

definition s3_objectExistsOid :: "s3_repo \<Rightarrow> string \<Rightarrow> bool" where
  "s3_objectExistsOid st oid = found (\<lambda>(_, y). o_oid y = oid) (objects st)"

definition s3_objectExists :: "s3_repo \<Rightarrow> string \<Rightarrow> string \<Rightarrow> string \<Rightarrow> bool" where
  "s3_objectExists st region bucket key =
     found (\<lambda>(_, y). o_region y = region \<and> o_bucket y = bucket \<and> o_key y = key) (objects st)"

definition s3_objectExistsInternalName :: "s3_repo \<Rightarrow> string \<Rightarrow> bool" where
  "s3_objectExistsInternalName st filename = found (\<lambda>(_, y). o_internalName y = filename) (objects st)"

definition s3_getObjectById :: "time_point \<Rightarrow> s3_repo \<Rightarrow> string \<Rightarrow> s3_repo \<times> s3_object" where
  "s3_getObjectById now st oid =
     with_objects st (get_or (default_object now) set_o_oid (\<lambda>(k, _). k = oid) (objects st))"

definition s3_createObject :: "layout \<Rightarrow> uuid \<Rightarrow> time_point \<Rightarrow> s3_repo \<Rightarrow> s3_object \<Rightarrow> s3_repo \<times> s3_object" where
  "s3_createObject lay uuid now st x =
     s3_getObjectById now (st\<lparr>objects := hmap_insert lay uuid x (objects st)\<rparr>) uuid"

definition s3_updateObject :: "time_point \<Rightarrow> s3_repo \<Rightarrow> s3_object \<Rightarrow> s3_repo \<times> s3_object" where
  "s3_updateObject now st x =
     (case replace_found (\<lambda>(_, y). o_bucket y = o_bucket x \<and> o_key y = o_key x) x (objects st) of
        Some r \<Rightarrow> with_objects st r
      | None \<Rightarrow> (st, default_object now))"

definition s3_createOrUpdateObject :: "layout \<Rightarrow> uuid \<Rightarrow> time_point \<Rightarrow> s3_repo \<Rightarrow> s3_object \<Rightarrow> s3_repo \<times> s3_object" where
  "s3_createOrUpdateObject lay uuid now st x =
     (if s3_objectExistsObject st x then s3_updateObject now st x
      else s3_createObject lay uuid now st x)"

text \<open>The scan of \<open>getObject\<close>: the first of the newest versions in iteration order.\<close>

fun newest_loop :: "('e \<Rightarrow> bool) \<Rightarrow> ('e \<Rightarrow> int) \<Rightarrow> (string \<times> 'e) option \<Rightarrow> 'e store \<Rightarrow> (string \<times> 'e) option" where
  "newest_loop P time newest [] = newest"
| "newest_loop P time newest ((k, x) # rest) =
     newest_loop P time
       (if P x then
          (case newest of
             None \<Rightarrow> Some (k, x)
           | Some (k', y) \<Rightarrow> if time x > time y then Some (k, x) else newest)
        else newest) rest"

definition s3_getObject :: "time_point \<Rightarrow> s3_repo \<Rightarrow> string \<Rightarrow> string \<Rightarrow> string \<Rightarrow> s3_repo \<times> s3_object" where
  "s3_getObject now st region bucket key =
     (case newest_loop (\<lambda>x. o_region x = region \<and> o_bucket x = bucket \<and> o_key x = key) o_modified None (objects st) of
        Some (k, x) \<Rightarrow> with_objects st (assign k (set_o_oid k x) (objects st), set_o_oid k x)
      | None \<Rightarrow> (st, default_object now))"

definition s3_getObjectMd5 :: "time_point \<Rightarrow> s3_repo \<Rightarrow> string \<Rightarrow> string \<Rightarrow> string \<Rightarrow> string \<Rightarrow> s3_repo \<times> s3_object" where
  "s3_getObjectMd5 now st region bucket key md5sum =
     with_objects st (get_or (default_object now) set_o_oid
       (\<lambda>(_, x). o_region x = region \<and> o_bucket x = bucket \<and> o_key x = key \<and> o_md5sum x = md5sum) (objects st))"

definition s3_getObjectVersion :: "time_point \<Rightarrow> s3_repo \<Rightarrow> string \<Rightarrow> string \<Rightarrow> string \<Rightarrow> string \<Rightarrow> s3_repo \<times> s3_object" where
  "s3_getObjectVersion now st region bucket key version =
     with_objects st (get_or (default_object now) set_o_oid
       (\<lambda>(_, x). o_region x = region \<and> o_bucket x = bucket \<and> o_key x = key \<and> o_versionId x = version) (objects st))"

definition s3_select :: "s3_repo \<Rightarrow> string \<Rightarrow> string \<Rightarrow> string \<Rightarrow> s3_object list" where
  "s3_select st region pre bucket =
     (let q = values_of (objects st);
          q = where_if region (\<lambda>x. o_region x = region) q;
          q = where_if pre (\<lambda>x. StartsWith (o_key x) pre) q in
      where_if bucket (\<lambda>x. o_bucket x = bucket) q)"

text \<open>\<open>objectCount\<close> counts the distinct pairs of bucket and key.\<close>

definition s3_objectCount :: "s3_repo \<Rightarrow> string \<Rightarrow> string \<Rightarrow> string \<Rightarrow> int" where
  "s3_objectCount st region pre bucket =
     int (length (remdups (map (\<lambda>x. (o_bucket x, o_key x)) (s3_select st region pre bucket))))"

text \<open>
  \<open>latestByKey\<close>, a \<open>std::map\<close> from the pair of bucket and key: the entry of a pair is replaced by
  an object that was modified later.
\<close>

fun put_latest :: "('e \<Rightarrow> int) \<Rightarrow> 'k::linorder \<Rightarrow> 'e \<Rightarrow> ('k \<times> 'e) list \<Rightarrow> ('k \<times> 'e) list" where
  "put_latest time k x [] = [(k, x)]"
| "put_latest time k x ((k', y) # m) =
     (if k < k' then (k, x) # (k', y) # m
      else if k = k' then (if time x > time y then (k, x) else (k', y)) # m
      else (k', y) # put_latest time k x m)"

definition latest_by_key :: "s3_object list \<Rightarrow> ((string \<times> string) \<times> s3_object) list" where
  "latest_by_key xs = foldl (\<lambda>m x. put_latest o_modified (o_bucket x, o_key x) x m) [] xs"

fun s3_object_less :: "sort_column list \<Rightarrow> s3_object \<Rightarrow> s3_object \<Rightarrow> bool" where
  "s3_object_less [] a b = False"
| "s3_object_less (sc # scs) a b =
     (if sc_column sc = ''bucket'' then by_key (sc_direction sc) o_bucket a b
      else if sc_column sc = ''size'' then by_key (sc_direction sc) o_size a b
      else if sc_column sc = ''created'' then by_key (sc_direction sc) o_created a b
      else if sc_column sc = ''modified'' then by_key (sc_direction sc) o_modified a b
      else s3_object_less scs a b)"

definition s3_listObjects :: "s3_repo \<Rightarrow> string \<Rightarrow> string \<Rightarrow> string \<Rightarrow> int \<Rightarrow> int \<Rightarrow> sort_column list \<Rightarrow> s3_object list outcome" where
  "s3_listObjects st region pre bucket pageSize pageIndex sortColumns =
     (let objectList = map snd (latest_by_key (s3_select st region pre bucket));
          objectList = (if sortColumns \<noteq> [] then std_sort (s3_object_less sortColumns) objectList else objectList) in
      PageVector objectList pageSize pageIndex)"

definition s3_listObjectVersions :: "s3_repo \<Rightarrow> string \<Rightarrow> string \<Rightarrow> string \<Rightarrow> s3_object list" where
  "s3_listObjectVersions st region bucket pre =
     (let q = values_of (objects st);
          q = where_if region (\<lambda>x. o_region x = region) q;
          q = where_if bucket (\<lambda>x. o_bucket x = bucket) q in
      where_if pre (\<lambda>x. StartsWith (o_key x) pre) q)"

definition s3_listObjectsByKey :: "s3_repo \<Rightarrow> string \<Rightarrow> string \<Rightarrow> string \<Rightarrow> s3_object list" where
  "s3_listObjectsByKey st region bucket key =
     (let q = values_of (objects st);
          q = where_if region (\<lambda>x. o_region x = region) q;
          q = q_where (\<lambda>x. o_bucket x = bucket \<and> o_key x = key) q in
      std_sort (\<lambda>a b. o_modified a > o_modified b) q)"

definition s3_deleteObject :: "s3_repo \<Rightarrow> s3_object \<Rightarrow> s3_repo \<times> int" where
  "s3_deleteObject st x =
     with_objects st (erase_if (\<lambda>(_, y). o_bucket y = o_bucket x \<and> o_key y = o_key x) (objects st))"

definition s3_deleteObjects :: "s3_repo \<Rightarrow> string \<Rightarrow> string \<Rightarrow> string list \<Rightarrow> s3_repo \<times> int" where
  "s3_deleteObjects st region bucket keys =
     with_objects st (erase_if (\<lambda>(_, y). o_region y = region \<and> o_bucket y = bucket \<and> o_key y \<in> set keys) (objects st))"

definition s3_deleteAllObjects :: "s3_repo \<Rightarrow> s3_repo \<times> int" where
  "s3_deleteAllObjects st = (st\<lparr>objects := []\<rparr>, int (length (objects st)))"

definition s3_adjustObjectCounters :: "s3_repo \<Rightarrow> s3_repo outcome" where
  "s3_adjustObjectCounters st =
     (case index_loop b_oid (\<lambda>bucket b. b\<lparr>b_keys := s3_objectCount st (b_region bucket) [] (b_name bucket)\<rparr>)
        (map fst (buckets st)) (buckets st) of
        Inl e \<Rightarrow> Inl e
      | Inr bs \<Rightarrow> Inr (st\<lparr>buckets := bs\<rparr>))"

end
