(* ===== verification/S3Props.thy ===== *)
theory S3Props
  imports S3Repo IdentStore
begin

text \<open>
  Properties of the in-memory S3 repository: reading the newest version of a key, the listing that
  shows the newest version of every key, the counters, buckets against the abstract repository,
  and what deleting an object removes.
\<close>

subsection \<open>The newest version\<close>

lemma newest_loop_spec:
  assumes "newest_loop P time init m = Some (k, x)" "\<forall>k' y. init = Some (k', y) \<longrightarrow> P y"
  shows "P x \<and> ((k, x) \<in> set m \<or> init = Some (k, x)) \<and>
    (\<forall>(k', y)\<in>set m. P y \<longrightarrow> time y \<le> time x) \<and> (\<forall>k' y. init = Some (k', y) \<longrightarrow> time y \<le> time x)"
  using assms
proof (induction m arbitrary: init)
  case Nil
  then show ?case by auto
next
  case (Cons kv m)
  obtain j y where kv: "kv = (j, y)" by (cases kv)
  let ?init = "if P y then (case init of None \<Rightarrow> Some (j, y) | Some (k', z) \<Rightarrow> if time y > time z then Some (j, y) else init) else init"
  have run: "newest_loop P time ?init m = Some (k, x)" using Cons.prems(1) by (simp add: kv)
  have Pi: "\<forall>k' z. ?init = Some (k', z) \<longrightarrow> P z"
    using Cons.prems(2) by (auto split: option.splits)
  note ih = Cons.IH [OF run Pi]
  have up: "P y \<Longrightarrow> time y \<le> time x" and old: "init = Some (k', z) \<Longrightarrow> time z \<le> time x" for k' z
    using ih by (cases init; fastforce split: if_splits)+
  have "(k, x) \<in> set m \<or> ?init = Some (k, x)" using ih by blast
  then have "(k, x) \<in> set (kv # m) \<or> init = Some (k, x)" by (cases init) (auto simp: kv split: if_splits)
  then show ?case using ih up old by (auto simp: kv)
qed

lemma newest_loop_None: "newest_loop P time init m = None \<longleftrightarrow> init = None \<and> (\<forall>(k, y)\<in>set m. \<not> P y)"
  by (induction P time init m rule: newest_loop.induct) (auto split: option.splits if_splits)

text \<open>\<open>getObject\<close> returns a stored version of the key, stamped with the object id it is stored
  under, and no version of the key was modified later; when the key has no version it returns a
  default object and changes nothing. No other entry changes.\<close>

theorem s3_getObject_newest:
  assumes wf: "wf_store (objects st)" and g: "s3_getObject now st region bucket key = (st', x)"
  shows "(if s3_objectExists st region bucket key
          then \<exists>k y. map_of (objects st) k = Some y \<and> x = y\<lparr>o_oid := k\<rparr> \<and>
            o_region y = region \<and> o_bucket y = bucket \<and> o_key y = key \<and>
            list_all (\<lambda>(j, z). o_modified z \<le> o_modified y)
              (filter (\<lambda>(j, z). o_region z = region \<and> o_bucket z = bucket \<and> o_key z = key) (objects st)) \<and>
            map_of (objects st') = (map_of (objects st))(k \<mapsto> x)
          else x = default_object now \<and> st' = st) \<and> buckets st' = buckets st"
proof -
  let ?P = "\<lambda>z. o_region z = region \<and> o_bucket z = bucket \<and> o_key z = key"
  show ?thesis
  proof (cases "newest_loop ?P o_modified None (objects st)")
    case None
    then have "\<not> s3_objectExists st region bucket key"
      by (auto simp: s3_objectExists_def found_iff newest_loop_None)
    then show ?thesis using g None by (simp add: s3_getObject_def)
  next
    case (Some ky)
    obtain k y where ky: "ky = (k, y)" by (cases ky)
    have sp: "?P y" "(k, y) \<in> set (objects st)" "\<And>j z. (j, z) \<in> set (objects st) \<Longrightarrow> ?P z \<Longrightarrow> o_modified z \<le> o_modified y"
      using newest_loop_spec [of ?P o_modified None "objects st" k y] Some ky by auto
    have ex: "s3_objectExists st region bucket key"
      using sp(1,2) by (force simp: s3_objectExists_def found_iff)
    have my: "map_of (objects st) k = Some y" using sp(2) wf by (simp add: wf_in_map_of)
    have st': "st' = st\<lparr>objects := assign k (y\<lparr>o_oid := k\<rparr>) (objects st)\<rparr>" "x = y\<lparr>o_oid := k\<rparr>"
      using g Some ky by (auto simp: s3_getObject_def with_objects_def set_o_oid_def)
    have upd: "map_of (objects st') = (map_of (objects st))(k \<mapsto> x)"
      using my by (auto simp: st' store_simps fun_eq_iff)
    have "list_all (\<lambda>(j, z). o_modified z \<le> o_modified y) (filter (\<lambda>(j, z). ?P z) (objects st))"
      using sp(3) by (auto simp: list_all_iff)
    then show ?thesis using ex my sp(1) upd st' by auto
  qed
qed

definition wit_obj :: "string \<Rightarrow> string \<Rightarrow> time_point \<Rightarrow> s3_object" where
  "wit_obj region key t = (default_object 0)\<lparr>o_region := region, o_bucket := ''b'', o_key := key, o_modified := t\<rparr>"

definition wit_s3 :: s3_repo where
  "wit_s3 = \<lparr>buckets = [], objects = [(''k1'', wit_obj ''eu'' ''x'' 3), (''k2'', wit_obj ''eu'' ''x'' 9), (''k3'', wit_obj ''us'' ''x'' 11)]\<rparr>"

lemma wit_s3_wf: "wf_store (objects wit_s3)"
  by (simp add: wit_s3_def)

theorem s3_getObject_newest_witness:
  "\<exists>st' x. s3_getObject 20 wit_s3 ''eu'' ''b'' ''x'' = (st', x) \<and> o_modified x = 9"
proof -
  obtain st' x where g: "s3_getObject 20 wit_s3 ''eu'' ''b'' ''x'' = (st', x)" by fastforce
  have "s3_objectExists wit_s3 ''eu'' ''b'' ''x''"
    by (simp add: s3_objectExists_def found_iff wit_s3_def wit_obj_def default_object_def)
  then have "o_modified x = 9"
    using s3_getObject_newest [OF wit_s3_wf g] by (auto simp: wit_s3_def wit_obj_def default_object_def split: if_splits)
  with g show ?thesis by blast
qed

subsection \<open>The listing of the newest versions\<close>

lemma put_latest_keys: "set (map fst (put_latest time k x m)) = insert k (set (map fst m))"
  by (induction time k x m rule: put_latest.induct) auto

lemma put_latest_sorted: "sorted_wrt (<) (map fst m) \<Longrightarrow> sorted_wrt (<) (map fst (put_latest time k x m))"
proof (induction time k x m rule: put_latest.induct)
  case (2 time k x k' y m)
  have above: "\<And>j. j \<in> fst ` set m \<Longrightarrow> k' < j" and srt: "sorted_wrt (<) (map fst m)" using "2.prems" by auto
  consider "k < k'" | "k = k'" | "k' < k" by fastforce
  then show ?case
  proof cases
    case 1
    then show ?thesis using above srt by (auto intro: order.strict_trans)
  next
    case 2
    then show ?thesis using above srt by auto
  next
    case 3
    then have c: "\<not> k < k'" "k \<noteq> k'" by auto
    then have "sorted_wrt (<) (map fst (put_latest time k x m))" using "2.IH" srt by blast
    moreover have "\<forall>j\<in>fst ` set (put_latest time k x m). k' < j"
      using put_latest_keys [of time k x m] 3 above by auto
    ultimately show ?thesis using c by simp
  qed
qed simp

text \<open>An association of keys to a list of elements' newest representatives.\<close>

definition latest_ok :: "('e \<Rightarrow> 'k) \<Rightarrow> ('e \<Rightarrow> int) \<Rightarrow> 'e set \<Rightarrow> ('k \<times> 'e) list \<Rightarrow> bool" where
  "latest_ok key time xs m \<longleftrightarrow>
     (\<forall>k x. (k, x) \<in> set m \<longrightarrow> x \<in> xs \<and> key x = k \<and> (\<forall>y\<in>xs. key y = k \<longrightarrow> time y \<le> time x)) \<and>
     (\<forall>y\<in>xs. key y \<in> fst ` set m)"

lemma latest_okD:
  assumes "latest_ok key time xs m" "(k, x) \<in> set m"
  shows "x \<in> xs" "key x = k" "\<And>y. y \<in> xs \<Longrightarrow> key y = k \<Longrightarrow> time y \<le> time x"
  using assms unfolding latest_ok_def by blast+

lemma latest_ok_total: "latest_ok key time xs m \<Longrightarrow> y \<in> xs \<Longrightarrow> key y \<in> fst ` set m"
  unfolding latest_ok_def by blast

lemma put_latest_ok:
  assumes "latest_ok key time xs m" "sorted_wrt (<) (map fst m)"
  shows "latest_ok key time (insert x xs) (put_latest time (key x) x m)"
proof -
  have keys: "fst ` set (put_latest time (key x) x m) = insert (key x) (fst ` set m)"
    using put_latest_keys [of time "key x" x m] by simp
  have mem: "(k, z) \<in> set m \<and> (k = key x \<longrightarrow> time x \<le> time z) \<or>
      (k, z) = (key x, x) \<and> (\<forall>w. (key x, w) \<in> set m \<longrightarrow> time w \<le> time x)"
    if "(k, z) \<in> set (put_latest time (key x) x m)" for k z
    using that assms(2)
  proof (induction time "key x" x m arbitrary: k z rule: put_latest.induct)
    case (1 time x)
    then show ?case by simp
  next
    case (2 time x k' y m)
    have above: "\<And>j w. (j, w) \<in> set m \<Longrightarrow> k' < j" and srt: "sorted_wrt (<) (map fst m)" using "2.prems"(2) by auto
    consider "key x < k'" | "key x = k'" | "k' < key x" by fastforce
    then show ?case
    proof cases
      case 1
      have "(key x, w) \<notin> set ((k', y) # m)" for w using 1 above by (auto dest: order.strict_trans)
      moreover have "(k, z) = (key x, x) \<or> (k, z) \<in> set ((k', y) # m)" using "2.prems"(1) 1 by simp
      ultimately show ?thesis by auto
    next
      case eq: 2
      have no: "(key x, w) \<notin> set m" for w using above eq by (metis order.irrefl)
      show ?thesis using "2.prems"(1) eq no by (auto split: if_splits)
    next
      case 3
      then have c: "\<not> key x < k'" "key x \<noteq> k'" by auto
      show ?thesis
      proof (cases "(k, z) = (k', y)")
        case True
        then show ?thesis using c by auto
      next
        case False
        then have "(k, z) \<in> set (put_latest time (key x) x m)" using "2.prems"(1) c by auto
        from "2.hyps" [OF c this srt] show ?thesis using c by auto
      qed
    qed
  qed
  show ?thesis
    unfolding latest_ok_def keys
  proof (intro conjI allI impI ballI)
    fix k z assume kz: "(k, z) \<in> set (put_latest time (key x) x m)"
    note old = assms(1) [unfolded latest_ok_def]
    from mem [OF kz] show "z \<in> insert x xs" using old by blast
    from mem [OF kz] show "key z = k" using old by blast
    fix y assume y: "y \<in> insert x xs" "key y = k"
    from mem [OF kz] show "time y \<le> time z"
    proof (elim disjE conjE)
      assume z: "(k, z) \<in> set m" "k = key x \<longrightarrow> time x \<le> time z"
      then show ?thesis using y old by (cases "y = x") auto
    next
      assume z: "(k, z) = (key x, x)" "\<forall>w. (key x, w) \<in> set m \<longrightarrow> time w \<le> time x"
      show ?thesis
      proof (cases "y = x")
        case False
        then have "y \<in> xs" using y by simp
        then obtain w where w: "(key x, w) \<in> set m" using old y z by force
        then have "time y \<le> time w" using old \<open>y \<in> xs\<close> y z by blast
        also have "time w \<le> time x" using w z by blast
        finally show ?thesis using z by simp
      qed (use z in simp)
    qed
  next
    fix y assume "y \<in> insert x xs"
    then show "key y \<in> insert (key x) (fst ` set m)" using assms(1) unfolding latest_ok_def by blast
  qed
qed

lemma latest_by_key_spec:
  "sorted_wrt (<) (map fst (latest_by_key xs)) \<and> latest_ok (\<lambda>x. (o_bucket x, o_key x)) o_modified (set xs) (latest_by_key xs)"
proof (induction xs rule: rev_induct)
  case Nil
  then show ?case by (simp add: latest_by_key_def latest_ok_def)
next
  case (snoc x xs)
  have "latest_by_key (xs @ [x]) = put_latest o_modified (o_bucket x, o_key x) x (latest_by_key xs)"
    by (simp add: latest_by_key_def)
  then show ?case
    using snoc put_latest_sorted [of "latest_by_key xs" o_modified "(o_bucket x, o_key x)" x] put_latest_ok [of "\<lambda>x. (o_bucket x, o_key x)" o_modified "set xs" "latest_by_key xs" x]
    by simp
qed

lemma set_s3_select:
  "x \<in> set (s3_select st region pre bucket) \<longleftrightarrow>
     x \<in> set (values_of (objects st)) \<and> (region = [] \<or> o_region x = region) \<and>
     (pre = [] \<or> StartsWith (o_key x) pre) \<and> (bucket = [] \<or> o_bucket x = bucket)"
  by (auto simp: s3_select_def Let_def)

text \<open>The listing of objects, without a page size and sort columns, shows exactly one object of
  every pair of bucket and key among the selected ones, the pairs in ascending order, each time one
  that no selected version of its key was modified after; the object count for the same selection
  is the length of the listing.\<close>

theorem s3_listObjects_latest:
  "\<exists>xs. s3_listObjects st region pre bucket 0 0 [] = Inr xs \<and>
     sorted_wrt (<) (map (\<lambda>x. (o_bucket x, o_key x)) xs) \<and>
     set xs \<subseteq> set (s3_select st region pre bucket) \<and>
     (\<lambda>x. (o_bucket x, o_key x)) ` set xs = (\<lambda>x. (o_bucket x, o_key x)) ` set (s3_select st region pre bucket) \<and>
     (\<forall>x\<in>set xs. \<forall>y\<in>set (filter (\<lambda>y. (o_bucket y, o_key y) = (o_bucket x, o_key x)) (s3_select st region pre bucket)).
        o_modified y \<le> o_modified x) \<and>
     s3_objectCount st region pre bucket = int (length xs)"
proof -
  let ?sel = "s3_select st region pre bucket" and ?key = "\<lambda>x. (o_bucket x, o_key x)"
  let ?m = "latest_by_key ?sel"
  have srt: "sorted_wrt (<) (map fst ?m)" and ok: "latest_ok ?key o_modified (set ?sel) ?m"
    using latest_by_key_spec by auto
  have key: "?key (snd kx) = fst kx" if "kx \<in> set ?m" for kx
    using latest_okD(2) [OF ok, of "fst kx" "snd kx"] that by simp
  have keys: "map ?key (map snd ?m) = map fst ?m" using key by simp
  have l: "s3_listObjects st region pre bucket 0 0 [] = Inr (map snd ?m)"
    by (simp add: s3_listObjects_def PageVector_def)
  have sub: "set (map snd ?m) \<subseteq> set ?sel" using latest_okD(1) [OF ok] by fastforce
  have img: "?key ` set (map snd ?m) = ?key ` set ?sel"
  proof
    show "?key ` set ?sel \<subseteq> ?key ` set (map snd ?m)"
    proof
      fix k assume "k \<in> ?key ` set ?sel"
      then have "k \<in> fst ` set ?m" using latest_ok_total [OF ok] by blast
      then have "k \<in> set (map ?key (map snd ?m))" unfolding keys by simp
      then show "k \<in> ?key ` set (map snd ?m)" by (simp only: list.set_map)
    qed
  qed (use sub in blast)
  have newest: "o_modified y \<le> o_modified x" if "x \<in> set (map snd ?m)" "y \<in> set ?sel" "?key y = ?key x" for x y
  proof -
    from that(1) obtain k where "(k, x) \<in> set ?m" by auto
    from latest_okD(2,3) [OF ok this] that(2,3) show ?thesis by simp
  qed
  have "s3_objectCount st region pre bucket = int (card (?key ` set ?sel))"
    by (simp add: s3_objectCount_def length_remdups_card_conv)
  also have "\<dots> = int (card (set (map fst ?m)))" unfolding img [symmetric] keys [symmetric] by (simp only: list.set_map)
  also have "card (set (map fst ?m)) = length (map fst ?m)"
    using srt by (intro distinct_card) (simp add: strict_sorted_iff)
  finally have "s3_objectCount st region pre bucket = int (length (map snd ?m))" by simp
  moreover have "sorted_wrt (<) (map ?key (map snd ?m))" unfolding keys by (rule srt)
  moreover have "\<forall>x\<in>set (map snd ?m). \<forall>y\<in>set (filter (\<lambda>y. ?key y = ?key x) ?sel). o_modified y \<le> o_modified x"
    using newest by simp
  ultimately show ?thesis using l sub img by blast
qed

theorem s3_listObjects_latest_witness:
  "\<exists>xs. s3_listObjects wit_s3 ''eu'' [] ''b'' 0 0 [] = Inr xs \<and> xs \<noteq> [] \<and>
     s3_objectCount wit_s3 ''eu'' [] ''b'' = int (length xs)"
proof -
  obtain xs where xs: "s3_listObjects wit_s3 ''eu'' [] ''b'' 0 0 [] = Inr xs"
    "(\<lambda>x. (o_bucket x, o_key x)) ` set xs = (\<lambda>x. (o_bucket x, o_key x)) ` set (s3_select wit_s3 ''eu'' [] ''b'')"
    "s3_objectCount wit_s3 ''eu'' [] ''b'' = int (length xs)"
    using s3_listObjects_latest [of wit_s3 "''eu''" "[]" "''b''"] by blast
  have "wit_obj ''eu'' ''x'' 3 \<in> set (s3_select wit_s3 ''eu'' [] ''b'')"
    by (simp add: set_s3_select wit_s3_def values_of_def wit_obj_def default_object_def)
  then have "xs \<noteq> []" using xs(2) by auto
  with xs show ?thesis by blast
qed

subsection \<open>Buckets against the abstract repository\<close>

definition bucket_ident :: "s3_bucket \<Rightarrow> string \<times> string" where
  "bucket_ident b = (b_region b, b_name b)"

interpretation s3_buckets: ident_store "hmap_insert lay" wf_store bucket_ident for lay
  by unfold_locales simp

lemma bucket_ident_pred:
  "(\<lambda>(_::string, b). b_region b = r \<and> b_name b = n) = (\<lambda>(_, b). bucket_ident b = (r, n))"
  by (auto simp: bucket_ident_def)

lemma bucket_ident_oid [simp]: "bucket_ident (set_b_oid k b) = bucket_ident b"
  by (simp add: bucket_ident_def set_b_oid_def)

text \<open>Inserting and then stamping the object id is inserting the stamped bucket.\<close>

lemma s3_createBucket_stored:
  assumes "wf_store (buckets st)" "uuid \<notin> keys_of (buckets st)"
  shows "\<exists>bs. s3_createBucket lay uuid now st bucket = (st\<lparr>buckets := bs\<rparr>, set_b_oid uuid bucket) \<and>
    wf_store bs \<and> set bs = set (hmap_insert lay uuid (set_b_oid uuid bucket) (buckets st))"
proof -
  let ?m = "hmap_insert lay uuid bucket (buckets st)"
  have wf: "wf_store ?m" by (rule wf_hmap_insert [OF assms(1)])
  have "map_of ?m uuid = Some bucket" by (rule hm.ins_lookup [OF assms(1)])
  then have "s3_createBucket lay uuid now st bucket = (st\<lparr>buckets := assign uuid (set_b_oid uuid bucket) ?m\<rparr>, set_b_oid uuid bucket)"
    by (simp add: s3_createBucket_def s3_getBucketById_def with_buckets_def get_or_def s3_b.stamp_by_key [OF wf])
  then show ?thesis using set_assign_hmap [OF assms] wf by auto
qed

text \<open>\<open>createOrUpdateBucket\<close> never dereferences \<open>end()\<close>: it is the update of the buckets at the
  region and name, keeps every region and name at one bucket, and the bucket is found afterwards.
  Called by itself, \<open>updateBucket\<close> is undefined exactly for a bucket that does not exist.\<close>

theorem s3_put_bucket_refines:
  assumes wf: "wf_store (buckets st)" and u: "ident_unique bucket_ident (buckets st)"
    and fresh: "uuid \<notin> keys_of (buckets st)"
  shows "\<exists>st' r. s3_createOrUpdateBucket lay uuid now st bucket = Inr (st', r) \<and>
    wf_store (buckets st') \<and> ident_unique bucket_ident (buckets st') \<and> objects st' = objects st \<and>
    by_ident bucket_ident (buckets st') = (by_ident bucket_ident (buckets st))(bucket_ident bucket \<mapsto> r) \<and>
    s3_bucketExistsBucket st' bucket \<and>
    (s3_updateBucket st bucket = Inl UndefinedBehaviour \<longleftrightarrow> \<not> s3_bucketExistsBucket st bucket)"
proof -
  let ?i = "bucket_ident bucket" and ?new = "set_b_oid uuid bucket"
  let ?up = "upsert (hmap_insert lay) bucket_ident uuid ?new (\<lambda>_. bucket) (buckets st)"
  have ex: "s3_bucketExistsBucket s bucket \<longleftrightarrow> found (\<lambda>(_, b). bucket_ident b = ?i) (buckets s)" for s
    by (simp add: s3_bucketExistsBucket_def s3_bucketExists_def bucket_ident_pred bucket_ident_def [symmetric])
  have upd: "s3_updateBucket st bucket =
      (case replace_found (\<lambda>(_, b). bucket_ident b = ?i) bucket (buckets st) of Some r \<Rightarrow> Inr (with_buckets st r) | None \<Rightarrow> Inl UndefinedBehaviour)"
    by (simp add: s3_updateBucket_def bucket_ident_pred bucket_ident_def [symmetric])
  have ub: "s3_updateBucket st bucket = Inl UndefinedBehaviour \<longleftrightarrow> \<not> s3_bucketExistsBucket st bucket"
    unfolding upd ex using replace_found_None [of "\<lambda>(_, b). bucket_ident b = ?i" bucket "buckets st"]
    by (auto split: option.splits)
  have un: "ident_unique bucket_ident ?up" by (rule s3_buckets.upsert_unique [OF wf u]) simp
  have ref: "by_ident bucket_ident ?up = (by_ident bucket_ident (buckets st))(?i \<mapsto>
      (case find_if (\<lambda>(_, e). bucket_ident e = ?i) (buckets st) of None \<Rightarrow> ?new | Some (j, _) \<Rightarrow> bucket))"
    using s3_buckets.upsert_refines [OF wf u, of "\<lambda>_. bucket" ?new uuid lay] fresh by simp
  obtain bs r where run: "s3_createOrUpdateBucket lay uuid now st bucket = Inr (st\<lparr>buckets := bs\<rparr>, r)"
    and wfb: "wf_store bs" and same: "set bs = set ?up"
    and r: "r = (case find_if (\<lambda>(_, e). bucket_ident e = ?i) (buckets st) of None \<Rightarrow> ?new | Some (j, _) \<Rightarrow> bucket)"
  proof (cases "s3_bucketExistsBucket st bucket")
    case True
    then obtain j old where f: "find_if (\<lambda>(_, b). bucket_ident b = ?i) (buckets st) = Some (j, old)"
      by (auto simp: ex found_def)
    show thesis
      by (rule that [of "assign j bucket (buckets st)" bucket])
        (use True f wf in \<open>simp_all add: s3_createOrUpdateBucket_def upd replace_found_def with_buckets_def upsert_def\<close>)
  next
    case False
    then have nf: "\<not> found (\<lambda>(_, b). bucket_ident b = bucket_ident ?new) (buckets st)" by (simp add: ex)
    obtain bs where "s3_createBucket lay uuid now st bucket = (st\<lparr>buckets := bs\<rparr>, ?new)" "wf_store bs"
      "set bs = set (hmap_insert lay uuid ?new (buckets st))"
      using s3_createBucket_stored [OF wf fresh] by blast
    then show thesis
      using that [of bs ?new] False find_if_absent [OF nf] upsert_absent [OF nf, of "hmap_insert lay" uuid "\<lambda>_. bucket"]
      by (simp add: s3_createOrUpdateBucket_def)
  qed
  have refined: "ident_unique bucket_ident bs" "by_ident bucket_ident bs = (by_ident bucket_ident (buckets st))(?i \<mapsto> r)"
    using by_ident_cong [OF un same] ref r by simp_all
  then have "s3_bucketExistsBucket (st\<lparr>buckets := bs\<rparr>) bucket"
    unfolding ex found_by_ident by simp
  with run wfb refined ub show ?thesis by (intro exI [of _ "st\<lparr>buckets := bs\<rparr>"] exI [of _ r]) simp
qed

definition wit_bucket :: "string \<Rightarrow> s3_bucket" where
  "wit_bucket name = (default_bucket 0)\<lparr>b_region := ''eu'', b_name := name\<rparr>"

theorem s3_put_bucket_refines_witness:
  "\<exists>st st' r. buckets st \<noteq> [] \<and> s3_createOrUpdateBucket [0] ''k2'' 7 st (wit_bucket ''b'') = Inr (st', r) \<and>
     s3_bucketExistsBucket st' (wit_bucket ''b'')"
proof -
  let ?st = "wit_s3\<lparr>buckets := [(''k1'', wit_bucket ''a'')]\<rparr>"
  have "wf_store (buckets ?st)" "ident_unique bucket_ident (buckets ?st)" "''k2'' \<notin> keys_of (buckets ?st)"
    by (simp_all add: ident_unique_def)
  from s3_put_bucket_refines [OF this, of "[0]" 7 "wit_bucket ''b''"] obtain st' r where
    "s3_createOrUpdateBucket [0] ''k2'' 7 ?st (wit_bucket ''b'') = Inr (st', r)" "s3_bucketExistsBucket st' (wit_bucket ''b'')"
    by blast
  moreover have "buckets ?st \<noteq> []" by simp
  ultimately show ?thesis by blast
qed

subsection \<open>Deleting\<close>

text \<open>\<open>deleteObject\<close> removes every version of the key in buckets of that name in all regions, and
  nothing else: \<open>deleteObjects\<close> for the one key and the object's region removes fewer entries, by the
  number of entries in other regions.\<close>

theorem s3_deleteObject_all_regions:
  "\<not> s3_objectExists (fst (s3_deleteObject st x)) region (o_bucket x) (o_key x) \<and>
   objects (fst (s3_deleteObject st x)) = filter (\<lambda>(_, y). \<not> (o_bucket y = o_bucket x \<and> o_key y = o_key x)) (objects st) \<and>
   snd (s3_deleteObject st x) = snd (s3_deleteObjects st region (o_bucket x) [o_key x]) +
     count_if (\<lambda>(_, y). o_bucket y = o_bucket x \<and> o_key y = o_key x \<and> o_region y \<noteq> region) (objects st)"
proof -
  have split: "count_if (\<lambda>(_::string, y). o_bucket y = b \<and> o_key y = k) m =
      count_if (\<lambda>(_, y). o_region y = region \<and> o_bucket y = b \<and> o_key y = k) m +
      count_if (\<lambda>(_, y). o_bucket y = b \<and> o_key y = k \<and> o_region y \<noteq> region) m" for b k m
    by (induction m) (auto simp: count_if_def)
  have neg: "(\<lambda>e. \<not> (case e of (_, y) \<Rightarrow> P y)) = (\<lambda>(_, y). \<not> P y)" for P :: "s3_object \<Rightarrow> bool"
    by auto
  show ?thesis
    by (auto simp: s3_deleteObject_def s3_deleteObjects_def with_objects_def s3_objectExists_def found_iff split neg)
qed

end
