(* ===== verification/DynamoRepo.thy ===== *)
theory DynamoRepo
  imports Complex_Main EntityRepo
begin

text \<open>
  The in-memory DynamoDB repository (\<open>db/src/repository/dynamodb/DynamoDbMemoryRepository.cpp\<close>)
  with its entities (\<open>db/include/awsmock/entity/dynamodb\<close>): tables and items in two
  \<open>std::unordered_map\<close>s. A key is a \<open>std::variant\<close> of a string, a number and bytes; a finite
  \<open>double\<close> is the rational number it denotes, so that \<open>==\<close> is equality.
\<close>

subsection \<open>Entities\<close>

datatype key_value = KeyS string | KeyN rat | KeyB "8 word list"

datatype dynamo_value =
    DynS string | DynN rat | DynB "8 word list" | DynBool bool | DynNull
  | DynSS "string list" | DynNS "rat list" | DynBS "8 word list list"
  | DynL "dynamo_value list" | DynM "(string \<times> dynamo_value) list"

record attribute_definition =
  ad_attributeName :: string
  ad_attributeType :: string

record key_schema =
  ks_attributeName :: string
  ks_keyType :: string

record dynamo_tag =
  dt_tagKey :: string
  dt_tagValue :: string

record provisioned_throughput =
  pt_readCapacityUnits :: int
  pt_writeCapacityUnits :: int
  pt_lastDecreaseDateTime :: time_point
  pt_lastIncreaseDateTime :: time_point
  pt_numberOfDecreasesToday :: int

datatype stream_view_type = KEYS_ONLY | NEW_IMAGE | OLD_IMAGE | NEW_AND_OLD_IMAGES | STREAM_UNKNOWN

definition stream_view_names :: "(stream_view_type \<times> string) list" where
  "stream_view_names =
     [(KEYS_ONLY, ''KEYS_ONLY''), (NEW_IMAGE, ''NEW_IMAGE''), (OLD_IMAGE, ''OLD_IMAGE''),
      (NEW_AND_OLD_IMAGES, ''NEW_AND_OLD_IMAGES''), (STREAM_UNKNOWN, ''UNKNOWN'')]"

definition StreamViewTypeToString :: "stream_view_type \<Rightarrow> string" where
  "StreamViewTypeToString t = enum_to_string stream_view_names t"

definition StreamViewTypeFromString :: "string \<Rightarrow> stream_view_type" where
  "StreamViewTypeFromString s = enum_from_string stream_view_names STREAM_UNKNOWN s"

record stream_specification =
  ss_enabled :: bool
  ss_streamViewType :: stream_view_type

record dyn_table =
  tb_oid :: string
  tb_region :: string
  tb_name :: string
  tb_arn :: string
  tb_status :: string
  tb_attributeDefinitions :: "attribute_definition list"
  tb_keySchema :: "key_schema list"
  tb_tags :: "dynamo_tag list"
  tb_items :: int
  tb_size :: int
  tb_provisionedThroughput :: provisioned_throughput
  tb_streamSpecification :: stream_specification
  tb_billingMode :: string
  tb_sseEnabled :: bool
  tb_created :: time_point
  tb_modified :: time_point

record dyn_item =
  it_oid :: string
  it_region :: string
  it_tableName :: string
  it_partitionKey :: key_value
  it_sortKey :: key_value
  it_size :: int
  it_attributes :: "(string \<times> dynamo_value) list"
  it_created :: time_point
  it_modified :: time_point

definition default_item :: "time_point \<Rightarrow> dyn_item" where
  "default_item now =
     \<lparr>it_oid = [], it_region = [], it_tableName = [], it_partitionKey = KeyS [], it_sortKey = KeyS [],
      it_size = 0, it_attributes = [], it_created = now, it_modified = now\<rparr>"

definition set_tb_oid :: "string \<Rightarrow> dyn_table \<Rightarrow> dyn_table" where
  "set_tb_oid k t = t\<lparr>tb_oid := k\<rparr>"

definition set_it_oid :: "string \<Rightarrow> dyn_item \<Rightarrow> dyn_item" where
  "set_it_oid k i = i\<lparr>it_oid := k\<rparr>"

interpretation dyn_t: stamped_entity tb_oid set_tb_oid
  by unfold_locales (simp_all add: set_tb_oid_def)

interpretation dyn_i: stamped_entity it_oid set_it_oid
  by unfold_locales (simp_all add: set_it_oid_def)

definition key_name :: "string \<Rightarrow> dyn_table \<Rightarrow> string" where
  "key_name kind t =
     (case List.find (\<lambda>k. ks_keyType k = kind) (tb_keySchema t) of
        Some k \<Rightarrow> ks_attributeName k
      | None \<Rightarrow> [])"

definition GetPartitionKeyName :: "dyn_table \<Rightarrow> string" where
  "GetPartitionKeyName t = key_name ''HASH'' t"

definition GetSortKeyName :: "dyn_table \<Rightarrow> string" where
  "GetSortKeyName t = key_name ''RANGE'' t"

text \<open>\<open>KeyCompare\<close> compares the keys of two maps, position by position; its third argument is not read.\<close>

definition KeyCompare :: "(string \<times> 'v) list \<Rightarrow> (string \<times> 'v) list \<Rightarrow> 'k \<Rightarrow> bool" where
  "KeyCompare lhs rhs keys \<longleftrightarrow>
     length lhs = length rhs \<and> list_all2 (\<lambda>a b. fst a = fst b) lhs rhs"

subsection \<open>Tables\<close>

record dyn_repo =
  tables :: "dyn_table hmap"
  items :: "dyn_item hmap"

definition dyn_inv :: "dyn_repo \<Rightarrow> bool" where
  "dyn_inv st \<longleftrightarrow> wf_store (tables st) \<and> wf_store (items st)"

definition dyn_tableExists :: "dyn_repo \<Rightarrow> string \<Rightarrow> string \<Rightarrow> bool" where
  "dyn_tableExists st region tableName =
     (if region \<noteq> [] then found (\<lambda>(_, t). tb_region t = region \<and> tb_name t = tableName) (tables st)
      else found (\<lambda>(_, t). tb_name t = tableName) (tables st))"

definition dyn_listTables :: "dyn_repo \<Rightarrow> string \<Rightarrow> string \<Rightarrow> int \<Rightarrow> int \<Rightarrow> sort_column list \<Rightarrow> dyn_table list" where
  "dyn_listTables st region pre pageSize pageIndex sortColumns =
     (if region = [] then values_of (tables st)
      else filter (\<lambda>t. tb_region t = region) (values_of (tables st)))"

definition dyn_createTable :: "layout \<Rightarrow> uuid \<Rightarrow> dyn_repo \<Rightarrow> dyn_table \<Rightarrow> dyn_repo \<times> dyn_table \<times> dyn_table" where
  "dyn_createTable lay uuid st t =
     (let t' = t\<lparr>tb_oid := uuid\<rparr> in
      (st\<lparr>tables := hmap_insert lay (tb_oid t') t' (tables st)\<rparr>, t', t'))"

definition with_tables :: "dyn_repo \<Rightarrow> (dyn_table hmap \<times> 'a) outcome \<Rightarrow> (dyn_repo \<times> 'a) outcome" where
  "with_tables st r = (case r of Inl e \<Rightarrow> Inl e | Inr (ts, x) \<Rightarrow> Inr (st\<lparr>tables := ts\<rparr>, x))"

definition dyn_getTableById :: "dyn_repo \<Rightarrow> string \<Rightarrow> (dyn_repo \<times> dyn_table) outcome" where
  "dyn_getTableById st oid =
     with_tables st (get_or_throw (DatabaseException (''Get table by ID failed, oid: '' @ oid)) set_tb_oid
       (\<lambda>(k, _). k = oid) (tables st))"

definition dyn_getTableByRegionName :: "dyn_repo \<Rightarrow> string \<Rightarrow> string \<Rightarrow> (dyn_repo \<times> dyn_table) outcome" where
  "dyn_getTableByRegionName st region name =
     with_tables st (get_or_throw
       (DatabaseException (''Get table by region and name failed, region: '' @ region @ '' name: '' @ name)) set_tb_oid
       (\<lambda>(_, t). tb_region t = region \<and> tb_name t = name) (tables st))"

text \<open>\<open>updateTable\<close> dereferences what \<open>find_if\<close> returned without comparing it with \<open>end()\<close>.\<close>

definition dyn_updateTable :: "dyn_repo \<Rightarrow> dyn_table \<Rightarrow> (dyn_repo \<times> dyn_table) outcome" where
  "dyn_updateTable st t =
     (case replace_found (\<lambda>(_, x). tb_region x = tb_region t \<and> tb_name x = tb_name t) t (tables st) of
        Some (ts, r) \<Rightarrow> Inr (st\<lparr>tables := ts\<rparr>, r)
      | None \<Rightarrow> Inl UndefinedBehaviour)"

definition dyn_createOrUpdateTable :: "layout \<Rightarrow> uuid \<Rightarrow> dyn_repo \<Rightarrow> dyn_table \<Rightarrow> (dyn_repo \<times> dyn_table \<times> dyn_table) outcome" where
  "dyn_createOrUpdateTable lay uuid st t =
     (if dyn_tableExists st (tb_region t) (tb_name t)
      then (case dyn_updateTable st t of Inl e \<Rightarrow> Inl e | Inr (st', r) \<Rightarrow> Inr (st', t, r))
      else Inr (dyn_createTable lay uuid st t))"

definition dyn_updateTableCounter :: "dyn_repo \<Rightarrow> string \<Rightarrow> int \<Rightarrow> int \<Rightarrow> dyn_repo" where
  "dyn_updateTableCounter st tableArn n sz =
     (case modify_found (\<lambda>(_, t). tb_arn t = tableArn) (\<lambda>t. t\<lparr>tb_items := n, tb_size := sz\<rparr>) (tables st) of
        Some (ts, _) \<Rightarrow> st\<lparr>tables := ts\<rparr>
      | None \<Rightarrow> st)"

definition dyn_deleteTable :: "dyn_repo \<Rightarrow> string \<Rightarrow> string \<Rightarrow> dyn_repo" where
  "dyn_deleteTable st region tableName =
     st\<lparr>tables := fst (erase_if (\<lambda>(_, t). tb_region t = region \<and> tb_name t = tableName) (tables st))\<rparr>"

definition dyn_deleteAllTables :: "dyn_repo \<Rightarrow> dyn_repo \<times> int" where
  "dyn_deleteAllTables st = (st\<lparr>tables := []\<rparr>, int (length (tables st)))"

definition dyn_countTables :: "dyn_repo \<Rightarrow> string \<Rightarrow> string \<Rightarrow> int" where
  "dyn_countTables st region pre =
     (if region \<noteq> [] then count_if (\<lambda>t. tb_region t = region) (values_of (tables st))
      else int (length (tables st)))"

subsection \<open>Items\<close>

definition item_ident :: "dyn_item \<Rightarrow> string \<times> string \<times> key_value \<times> key_value" where
  "item_ident i = (it_region i, it_tableName i, it_partitionKey i, it_sortKey i)"

definition dyn_itemExists :: "dyn_repo \<Rightarrow> dyn_item \<Rightarrow> bool" where
  "dyn_itemExists st item =
     found (\<lambda>(_, i). it_region i = it_region item \<and> it_tableName i = it_tableName item \<and>
        it_partitionKey i = it_partitionKey item \<and> it_sortKey i = it_sortKey item) (items st)"

text \<open>
  The overload with string keys reads them with \<open>std::get<0>\<close>, which throws for an item of the
  table whose key is a number or bytes; the partition key is read first, and the sort key only
  when the partition key agrees.
\<close>

definition get_string :: "key_value \<Rightarrow> string outcome" where
  "get_string kv = (case kv of KeyS s \<Rightarrow> Inr s | _ \<Rightarrow> Inl BadVariantAccess)"

definition same_key_strings :: "string \<Rightarrow> string \<Rightarrow> string \<Rightarrow> string \<Rightarrow> dyn_item \<Rightarrow> bool outcome" where
  "same_key_strings region tableName pk sk i =
     (if it_region i = region \<and> it_tableName i = tableName then
        (case get_string (it_partitionKey i) of
           Inl e \<Rightarrow> Inl e
         | Inr p \<Rightarrow>
             (if p = pk then (case get_string (it_sortKey i) of Inl e \<Rightarrow> Inl e | Inr s \<Rightarrow> Inr (s = sk))
              else Inr False))
      else Inr False)"

definition dyn_itemExistsStrings :: "dyn_repo \<Rightarrow> string \<Rightarrow> string \<Rightarrow> string \<Rightarrow> string \<Rightarrow> bool outcome" where
  "dyn_itemExistsStrings st region tableName partitionKey sortKey =
     find_or_throw (same_key_strings region tableName partitionKey sortKey) (items st)"

definition dyn_getItems :: "dyn_repo \<Rightarrow> string \<Rightarrow> string \<Rightarrow> dyn_item list" where
  "dyn_getItems st region tableName =
     (let q = values_of (items st);
          q = where_if region (\<lambda>i. it_region i = region) q in
      where_if tableName (\<lambda>i. it_tableName i = tableName) q)"

definition dyn_listItems :: "dyn_repo \<Rightarrow> string \<Rightarrow> string \<Rightarrow> int \<Rightarrow> int \<Rightarrow> sort_column list \<Rightarrow> dyn_item list" where
  "dyn_listItems st region tableName pageSize pageIndex sortColumns =
     (let q = values_of (items st);
          q = where_if region (\<lambda>i. it_region i = region) q in
      where_if tableName (\<lambda>i. it_tableName i = tableName) q)"

definition dyn_getItemById :: "dyn_repo \<Rightarrow> string \<Rightarrow> (dyn_repo \<times> dyn_item) outcome" where
  "dyn_getItemById st oid =
     (case get_or_throw (DatabaseException (''Get item by ID failed, oid: '' @ oid)) set_it_oid (\<lambda>(k, _). k = oid) (items st) of
        Inl e \<Rightarrow> Inl e
      | Inr (is, i) \<Rightarrow> Inr (st\<lparr>items := is\<rparr>, i))"

definition dyn_getItemByKeys :: "dyn_repo \<Rightarrow> string \<Rightarrow> string \<Rightarrow> key_value \<Rightarrow> key_value \<Rightarrow> dyn_item outcome" where
  "dyn_getItemByKeys st region tableName partitionKey sortKey =
     (case find_if (\<lambda>(_, i). it_region i = region \<and> it_tableName i = tableName \<and>
              it_partitionKey i = partitionKey \<and> it_sortKey i = sortKey) (items st) of
        Some (_, i) \<Rightarrow> Inr i
      | None \<Rightarrow> Inl (DatabaseException (''Get item by keys failed, region: '' @ region @ '', tableName: '' @ tableName)))"

definition dyn_createItem :: "layout \<Rightarrow> uuid \<Rightarrow> dyn_repo \<Rightarrow> dyn_item \<Rightarrow> dyn_repo \<times> dyn_item \<times> dyn_item" where
  "dyn_createItem lay uuid st i =
     (let i' = i\<lparr>it_oid := uuid\<rparr> in
      (st\<lparr>items := hmap_insert lay (it_oid i') i' (items st)\<rparr>, i', i'))"

definition dyn_updateItem :: "time_point \<Rightarrow> dyn_repo \<Rightarrow> dyn_item \<Rightarrow> dyn_repo \<times> dyn_item" where
  "dyn_updateItem now st item =
     (case replace_found (\<lambda>(_, i). it_region i = it_region item \<and> it_tableName i = it_tableName item \<and>
              it_partitionKey i = it_partitionKey item \<and> it_sortKey i = it_sortKey item) item (items st) of
        Some (is, r) \<Rightarrow> (st\<lparr>items := is\<rparr>, r)
      | None \<Rightarrow> (st, default_item now))"

definition dyn_createOrUpdateItem :: "layout \<Rightarrow> uuid \<Rightarrow> time_point \<Rightarrow> dyn_repo \<Rightarrow> dyn_item \<Rightarrow> dyn_repo \<times> dyn_item \<times> dyn_item" where
  "dyn_createOrUpdateItem lay uuid now st item =
     (if dyn_itemExists st item then (let (st', r) = dyn_updateItem now st item in (st', item, r))
      else dyn_createItem lay uuid st item)"

text \<open>The table name is not read.\<close>

definition dyn_countItems :: "dyn_repo \<Rightarrow> string \<Rightarrow> string \<Rightarrow> string \<Rightarrow> int" where
  "dyn_countItems st region tableName pre =
     (if region \<noteq> [] then count_if (\<lambda>i. it_region i = region) (values_of (items st))
      else int (length (items st)))"

text \<open>Both overloads of \<open>executeQuery\<close> return an empty list.\<close>

definition dyn_executeQuery :: "dyn_repo \<Rightarrow> 'filter \<Rightarrow> bool \<Rightarrow> int \<Rightarrow> dyn_item list" where
  "dyn_executeQuery st filter_doc scanIndexForward limit = []"

definition dyn_count :: "dyn_repo \<Rightarrow> string \<Rightarrow> int" where
  "dyn_count st name = count_if (\<lambda>(_, i). it_tableName i = name) (items st)"

definition dyn_total :: "dyn_repo \<Rightarrow> string \<Rightarrow> int" where
  "dyn_total st name = foldl (\<lambda>sum (_, i). if it_tableName i = name then sum + it_size i else sum) 0 (items st)"

text \<open>\<open>adjustItemCounters\<close> writes the tables in place and compares the table name only.\<close>

definition dyn_adjustItemCounters :: "dyn_repo \<Rightarrow> dyn_repo" where
  "dyn_adjustItemCounters st =
     st\<lparr>tables := map (\<lambda>(k, t). (k, t\<lparr>tb_items := dyn_count st (tb_name t), tb_size := dyn_total st (tb_name t)\<rparr>)) (tables st)\<rparr>"

definition dyn_deleteItem :: "dyn_repo \<Rightarrow> string \<Rightarrow> string \<Rightarrow> string \<Rightarrow> string \<Rightarrow> dyn_repo" where
  "dyn_deleteItem st region tableName partitionKey sortKey =
     st\<lparr>items := fst (erase_if (\<lambda>(_, i). it_region i = region \<and> it_tableName i = tableName \<and>
        it_partitionKey i = KeyS partitionKey \<and> it_sortKey i = KeyS sortKey) (items st))\<rparr>"

definition dyn_deleteItems :: "dyn_repo \<Rightarrow> string \<Rightarrow> string \<Rightarrow> dyn_repo \<times> int" where
  "dyn_deleteItems st region tableName =
     (let r = erase_if (\<lambda>(_, i). it_region i = region \<and> it_tableName i = tableName) (items st) in
      (st\<lparr>items := fst r\<rparr>, snd r))"

definition dyn_deleteAllItems :: "dyn_repo \<Rightarrow> dyn_repo \<times> int" where
  "dyn_deleteAllItems st = (st\<lparr>items := []\<rparr>, int (length (items st)))"

end
