(* ===== verification/DynamoProps.thy ===== *)
theory DynamoProps
  imports DynamoRepo IdentStore
begin

text \<open>
  Properties of the in-memory DynamoDB repository: putting and deleting items and tables against
  the abstract table, a partial function from identities to items, the counters, and the existence
  check with string keys.
\<close>

definition table_ident :: "dyn_table \<Rightarrow> string \<times> string" where
  "table_ident t = (tb_region t, tb_name t)"

interpretation dyn_items: ident_store "hmap_insert lay" wf_store item_ident for lay
  by unfold_locales simp

interpretation dyn_tables: ident_store "hmap_insert lay" wf_store table_ident for lay
  by unfold_locales simp

lemma item_ident_pred:
  "(\<lambda>(_::string, i). it_region i = r \<and> it_tableName i = t \<and> it_partitionKey i = p \<and> it_sortKey i = s) =
   (\<lambda>(_, i). item_ident i = (r, t, p, s))"
  by (auto simp: item_ident_def)

lemma table_ident_pred:
  "(\<lambda>(_::string, t). tb_region t = r \<and> tb_name t = n) = (\<lambda>(_, t). table_ident t = (r, n))"
  by (auto simp: table_ident_def)

lemma item_ident_oid [simp]: "item_ident (i\<lparr>it_oid := k\<rparr>) = item_ident i"
  by (simp add: item_ident_def)

lemma table_ident_oid [simp]: "table_ident (t\<lparr>tb_oid := k\<rparr>) = table_ident t"
  by (simp add: table_ident_def)

lemmas item_tuple = item_ident_def [symmetric]

lemma dyn_createOrUpdateItem_upsert:
  "dyn_createOrUpdateItem lay uuid now st item = (st', item', r) \<Longrightarrow>
     st' = st\<lparr>items := upsert (hmap_insert lay) item_ident uuid (item\<lparr>it_oid := uuid\<rparr>) (\<lambda>_. item) (items st)\<rparr> \<and>
     r = (case find_if (\<lambda>(_, i). item_ident i = item_ident item) (items st) of None \<Rightarrow> item\<lparr>it_oid := uuid\<rparr> | Some _ \<Rightarrow> item)"
  by (cases "find_if (\<lambda>(_, i). item_ident i = item_ident item) (items st)")
    (auto simp: dyn_createOrUpdateItem_def dyn_itemExists_def dyn_updateItem_def dyn_createItem_def item_ident_pred
      item_tuple found_def replace_found_def upsert_def Let_def)

text \<open>C37: putting an item is the update of the table at the item's keys: afterwards the keys
  (region, table, partition key, sort key) are still unique, reading the keys returns the item that
  was returned, every other item is as before, and no table has changed. An item that was there is
  replaced by the given one as it is, under the key it has in the repository; a new one is stored under the new
  object id and carries it as its own. (Before, the object ids and the keys are unique, and the new object id is not in use.)\<close>

theorem dyn_put_item_refines:
  assumes inv: "wf_store (items st)" "ident_unique item_ident (items st)" and fresh: "uuid \<notin> keys_of (items st)"
    and put: "dyn_createOrUpdateItem lay uuid now st item = (st', item', r)"
  shows "wf_store (items st') \<and> ident_unique item_ident (items st') \<and> tables st' = tables st \<and>
    item_ident r = item_ident item \<and> it_attributes r = it_attributes item \<and>
    by_ident item_ident (items st') = (by_ident item_ident (items st))(item_ident item \<mapsto> r) \<and>
    dyn_getItemByKeys st' (it_region item) (it_tableName item) (it_partitionKey item) (it_sortKey item) = Inr r \<and>
    (case find_if (\<lambda>(_, i). item_ident i = item_ident item) (items st) of
       None \<Rightarrow> r = item\<lparr>it_oid := uuid\<rparr> \<and> map_of (items st') = (map_of (items st))(uuid \<mapsto> r)
     | Some (k, _) \<Rightarrow> r = item \<and> map_of (items st') = (map_of (items st))(k \<mapsto> r))"
proof -
  let ?new = "item\<lparr>it_oid := uuid\<rparr>"
  from dyn_createOrUpdateItem_upsert [OF put]
  have st': "items st' = upsert (hmap_insert lay) item_ident uuid ?new (\<lambda>_. item) (items st)" "tables st' = tables st"
    and r: "r = (case find_if (\<lambda>(_, i). item_ident i = item_ident item) (items st) of None \<Rightarrow> ?new | Some _ \<Rightarrow> item)"
    by simp_all
  have rp: "item_ident r = item_ident item" "it_attributes r = it_attributes item"
    by (simp_all add: r split: option.splits)
  have ref: "by_ident item_ident (items st') = (by_ident item_ident (items st))(item_ident item \<mapsto> r)"
    using dyn_items.upsert_refines [OF inv, of "\<lambda>_. item" ?new uuid lay] fresh
    by (simp add: st' r split: option.splits)
  have "by_ident item_ident (items st') (item_ident item) = Some r" by (simp add: ref)
  then obtain k where "find_if (\<lambda>(_, i). item_ident i = item_ident item) (items st') = Some (k, r)"
    by (auto simp: by_ident_def)
  then have "dyn_getItemByKeys st' (it_region item) (it_tableName item) (it_partitionKey item) (it_sortKey item) = Inr r"
    by (simp add: dyn_getItemByKeys_def item_ident_pred item_tuple)
  moreover have "wf_store (items st')" "ident_unique item_ident (items st')"
    unfolding st' by (auto intro: dyn_items.upsert_invar dyn_items.upsert_unique inv)
  moreover have "case find_if (\<lambda>(_, i). item_ident i = item_ident item) (items st) of
        None \<Rightarrow> r = ?new \<and> map_of (items st') = (map_of (items st))(uuid \<mapsto> r)
      | Some (k, _) \<Rightarrow> r = item \<and> map_of (items st') = (map_of (items st))(k \<mapsto> r)"
  proof (cases "find_if (\<lambda>(_, i). item_ident i = item_ident item) (items st)")
    case None
    then show ?thesis by (simp add: st'(1) r upsert_def map_of_hmap_insert [OF inv(1)])
  next
    case (Some kv)
    obtain k i where kv: "kv = (k, i)" by fastforce
    have "map_of (items st) k = Some i" using find_if_SomeD [OF Some [unfolded kv]] inv(1) by (simp add: wf_in_map_of)
    then show ?thesis using Some by (simp add: st'(1) r upsert_def kv store_simps fun_eq_iff)
  qed
  ultimately show ?thesis using ref rp st'(2) by - (intro conjI; assumption)
qed

definition wit_item :: "key_value \<Rightarrow> dyn_item" where
  "wit_item pk = (default_item 0)\<lparr>it_region := ''eu'', it_tableName := ''t'', it_partitionKey := pk\<rparr>"

definition wit_dyn :: dyn_repo where
  "wit_dyn = \<lparr>tables = [], items = [(''k1'', wit_item (KeyN 7))]\<rparr>"

lemma wit_dyn_inv: "wf_store (items wit_dyn)" "ident_unique item_ident (items wit_dyn)" "''k2'' \<notin> keys_of (items wit_dyn)"
  by (simp_all add: wit_dyn_def ident_unique_def)

theorem dyn_put_item_refines_witness:
  "\<exists>st' item' r. dyn_createOrUpdateItem [1] ''k2'' 5 wit_dyn (wit_item (KeyS ''a'')) = (st', item', r) \<and>
     dyn_getItemByKeys st' ''eu'' ''t'' (KeyS ''a'') (KeyS []) = Inr r"
proof -
  obtain st' item' r where p: "dyn_createOrUpdateItem [1] ''k2'' 5 wit_dyn (wit_item (KeyS ''a'')) = (st', item', r)"
    by (metis prod_cases3)
  from dyn_put_item_refines [OF wit_dyn_inv p]
  have "dyn_getItemByKeys st' ''eu'' ''t'' (KeyS ''a'') (KeyS []) = Inr r"
    by (simp add: wit_item_def default_item_def)
  with p show ?thesis by blast
qed

lemma dyn_delete_item_refines:
  "ident_unique item_ident (items st) \<Longrightarrow>
   by_ident item_ident (items (dyn_deleteItem st region tableName p s)) =
     (by_ident item_ident (items st))((region, tableName, KeyS p, KeyS s) := None)"
  unfolding dyn_deleteItem_def item_ident_pred by (simp add: by_ident_erase del: erase_if_store)

subsection \<open>Counters\<close>

lemma foldl_sum_if:
  "foldl (\<lambda>sum (_, x). if P x then sum + f x else sum) (z::int) m = z + sum_list (map f (filter P (values_of m)))"
  by (induction m arbitrary: z) (auto simp: values_of_def)

lemma count_if_values: "count_if (\<lambda>(_, x). P x) m = int (length (filter P (values_of m)))"
  by (induction m) (auto simp: values_of_def count_if_def)

text \<open>\<open>adjustItemCounters\<close> gives every table the number and the total size of all items with the
  table's name, whatever their region; nothing else of the tables changes, and the items are untouched.
  A table of a region therefore counts the items of tables of the same name elsewhere.\<close>

theorem dyn_adjust_counts:
  "items (dyn_adjustItemCounters st) = items st \<and>
   map_of (tables (dyn_adjustItemCounters st)) k =
     map_option (\<lambda>t. t\<lparr>tb_items := int (length (filter (\<lambda>i. it_tableName i = tb_name t) (values_of (items st)))),
                       tb_size := sum_list (map it_size (filter (\<lambda>i. it_tableName i = tb_name t) (values_of (items st))))\<rparr>)
       (map_of (tables st) k)"
proof -
  have len: "int (length (filter (\<lambda>i. it_tableName i = n) (values_of (items st)))) = dyn_count st n" for n
    by (simp add: dyn_count_def count_if_values)
  have tot: "dyn_total st n = sum_list (map it_size (filter (\<lambda>i. it_tableName i = n) (values_of (items st))))" for n
    by (simp add: dyn_total_def foldl_sum_if)
  have "map_of (map (\<lambda>(k, t). (k, f t)) m) k = map_option f (map_of m k)" for f :: "dyn_table \<Rightarrow> dyn_table" and m
    by (induction m) auto
  then show ?thesis unfolding len tot [symmetric] by (simp add: dyn_adjustItemCounters_def)
qed

subsection \<open>The existence check with string keys\<close>

lemma find_or_throw_Inr_False:
  "find_or_throw P m = Inr False \<longleftrightarrow> (\<forall>(k, v)\<in>set m. P v = Inr False)"
  by (induction P m rule: find_or_throw.induct) (auto split: sum.splits bool.splits)

lemma find_or_throw_Inr_True:
  "find_or_throw P m = Inr True \<Longrightarrow> \<exists>(k, v)\<in>set m. P v = Inr True"
  by (induction P m rule: find_or_throw.induct) (auto split: sum.splits bool.splits)

lemma find_or_throw_Inl:
  "find_or_throw P m = Inl e \<Longrightarrow> \<exists>(k, v)\<in>set m. P v = Inl e"
  by (induction P m rule: find_or_throw.induct) (auto split: sum.splits bool.splits)

lemma same_key_strings_True:
  "same_key_strings region tableName p s i = Inr True \<longleftrightarrow> item_ident i = (region, tableName, KeyS p, KeyS s)"
  by (auto simp: same_key_strings_def get_string_def item_ident_def split: key_value.splits)

lemma same_key_strings_error: "same_key_strings region tableName p s i = Inl e \<Longrightarrow> e = BadVariantAccess"
  by (auto simp: same_key_strings_def get_string_def split: key_value.splits if_splits sum.splits)

text \<open>Asking whether an item with string keys exists throws \<open>bad_variant_access\<close> when the item does
  not exist and the table holds an item whose partition key is a number or bytes; it cannot answer no.\<close>

theorem dyn_exists_strings_throws:
  assumes other: "(k, i) \<in> set (items st)" "it_region i = region" "it_tableName i = tableName" "\<And>x. it_partitionKey i \<noteq> KeyS x"
    and absent: "by_ident item_ident (items st) (region, tableName, KeyS p, KeyS s) = None"
  shows "dyn_itemExistsStrings st region tableName p s = Inl BadVariantAccess"
proof (cases "dyn_itemExistsStrings st region tableName p s")
  case (Inl e)
  then show ?thesis
    unfolding dyn_itemExistsStrings_def using find_or_throw_Inl same_key_strings_error by fastforce
next
  case (Inr b)
  have "same_key_strings region tableName p s i = Inl BadVariantAccess"
    using other by (cases "it_partitionKey i") (auto simp: same_key_strings_def get_string_def)
  then have "b"
    using Inr other(1) find_or_throw_Inr_False [of "same_key_strings region tableName p s" "items st"]
    by (cases b) (auto simp: dyn_itemExistsStrings_def)
  then have "\<exists>(k, v)\<in>set (items st). item_ident v = (region, tableName, KeyS p, KeyS s)"
    using Inr find_or_throw_Inr_True by (fastforce simp: dyn_itemExistsStrings_def same_key_strings_True)
  then show ?thesis using absent by (auto simp: by_ident_None)
qed

theorem dyn_exists_strings_throws_witness:
  "dyn_itemExistsStrings wit_dyn ''eu'' ''t'' ''a'' [] = Inl BadVariantAccess"
proof (rule dyn_exists_strings_throws)
  show "(''k1'', wit_item (KeyN 7)) \<in> set (items wit_dyn)" by (simp add: wit_dyn_def)
  show "by_ident item_ident (items wit_dyn) (''eu'', ''t'', KeyS ''a'', KeyS []) = None"
    by (simp add: by_ident_None wit_dyn_def wit_item_def item_ident_def)
qed (simp_all add: wit_item_def default_item_def)

end
