(* ===== verification/LambdaProps.thy ===== *)
theory LambdaProps
  imports LambdaRepo IdentStore
begin

text \<open>
  Properties of the in-memory Lambda repository: functions against the abstract repository, what
  the deletions of results delete, and the import of a function.
\<close>

definition lambda_ident :: "lambda_fn \<Rightarrow> string \<times> string" where
  "lambda_ident l = (l_region l, l_function l)"

interpretation lam_fns: ident_store "hmap_insert lay" wf_store lambda_ident for lay
  by unfold_locales simp

lemma lambda_ident_pred:
  "(\<lambda>(_::string, l). l_region l = r \<and> l_function l = f) = (\<lambda>(_, l). lambda_ident l = (r, f))"
  by (auto simp: lambda_ident_def)

lemma lambda_ident_oid [simp]: "lambda_ident (set_l_oid k l) = lambda_ident l"
  by (simp add: lambda_ident_def set_l_oid_def)

lemma lam_createLambda_stored:
  assumes "wf_store (lambdas st)" "uuid \<notin> keys_of (lambdas st)"
  shows "\<exists>ls. lam_createLambda lay uuid st l = Inr (st\<lparr>lambdas := ls\<rparr>, set_l_oid uuid l) \<and>
    wf_store ls \<and> set ls = set (hmap_insert lay uuid (set_l_oid uuid l) (lambdas st))"
proof -
  let ?m = "hmap_insert lay uuid l (lambdas st)"
  have wf: "wf_store ?m" by (rule wf_hmap_insert [OF assms(1)])
  have "map_of ?m uuid = Some l" by (rule hm.ins_lookup [OF assms(1)])
  then have "lam_createLambda lay uuid st l = Inr (st\<lparr>lambdas := assign uuid (set_l_oid uuid l) ?m\<rparr>, set_l_oid uuid l)"
    by (simp add: lam_createLambda_def lam_getLambdaById_def with_lambdas_def get_or_throw_def lam_l.stamp_by_key [OF wf])
  then show ?thesis using set_assign_hmap [OF assms] wf by auto
qed

text \<open>\<open>createOrUpdateLambda\<close> never throws: it is the update of the functions at the region and
  name, keeps every region and name at one function, and does not touch the results.\<close>

theorem lam_put_refines:
  assumes wf: "wf_store (lambdas st)" and u: "ident_unique lambda_ident (lambdas st)"
    and fresh: "uuid \<notin> keys_of (lambdas st)"
  shows "\<exists>st' r. lam_createOrUpdateLambda lay uuid st l = Inr (st', r) \<and>
    wf_store (lambdas st') \<and> ident_unique lambda_ident (lambdas st') \<and> lambdaResults st' = lambdaResults st \<and>
    by_ident lambda_ident (lambdas st') = (by_ident lambda_ident (lambdas st))(lambda_ident l \<mapsto> r) \<and>
    r = (if lam_lambdaExists st l then l else set_l_oid uuid l)"
proof -
  let ?i = "lambda_ident l" and ?new = "set_l_oid uuid l"
  let ?up = "upsert (hmap_insert lay) lambda_ident uuid ?new (\<lambda>_. l) (lambdas st)"
  have ex: "lam_lambdaExists st l \<longleftrightarrow> found (\<lambda>(_, x). lambda_ident x = ?i) (lambdas st)"
    by (simp add: lam_lambdaExists_def lambda_ident_pred lambda_ident_def [symmetric])
  have upd: "lam_updateLambda st l = with_lambdas st
      (or_throw (''Update lambda failed, region: '' @ l_region l @ '' function: '' @ l_function l)
        (replace_found (\<lambda>(_, x). lambda_ident x = ?i) l (lambdas st)))"
    by (simp add: lam_updateLambda_def lambda_ident_pred lambda_ident_def [symmetric])
  have un: "ident_unique lambda_ident ?up" by (rule lam_fns.upsert_unique [OF wf u]) simp
  have ref: "by_ident lambda_ident ?up = (by_ident lambda_ident (lambdas st))(?i \<mapsto>
      (case find_if (\<lambda>(_, e). lambda_ident e = ?i) (lambdas st) of None \<Rightarrow> ?new | Some (j, _) \<Rightarrow> l))"
    using lam_fns.upsert_refines [OF wf u, of "\<lambda>_. l" ?new uuid lay] fresh by simp
  obtain ls r where run: "lam_createOrUpdateLambda lay uuid st l = Inr (st\<lparr>lambdas := ls\<rparr>, r)"
    and wfl: "wf_store ls" and same: "set ls = set ?up"
    and r: "r = (case find_if (\<lambda>(_, e). lambda_ident e = ?i) (lambdas st) of None \<Rightarrow> ?new | Some (j, _) \<Rightarrow> l)"
  proof (cases "lam_lambdaExists st l")
    case True
    then obtain j old where f: "find_if (\<lambda>(_, x). lambda_ident x = ?i) (lambdas st) = Some (j, old)"
      by (auto simp: ex found_def)
    show thesis
      by (rule that [of "assign j l (lambdas st)" l])
        (use True f wf in \<open>simp_all add: lam_createOrUpdateLambda_def upd replace_found_def or_throw_def with_lambdas_def upsert_def\<close>)
  next
    case False
    then have nf: "\<not> found (\<lambda>(_, x). lambda_ident x = lambda_ident ?new) (lambdas st)" by (simp add: ex)
    obtain ls where "lam_createLambda lay uuid st l = Inr (st\<lparr>lambdas := ls\<rparr>, ?new)" "wf_store ls"
      "set ls = set (hmap_insert lay uuid ?new (lambdas st))"
      using lam_createLambda_stored [OF wf fresh] by blast
    then show thesis
      using that [of ls ?new] False find_if_absent [OF nf] upsert_absent [OF nf, of "hmap_insert lay" uuid "\<lambda>_. l"]
      by (simp add: lam_createOrUpdateLambda_def)
  qed
  have "ident_unique lambda_ident ls" "by_ident lambda_ident ls = (by_ident lambda_ident (lambdas st))(?i \<mapsto> r)"
    using by_ident_cong [OF un same] ref r by simp_all
  moreover have "r = (if lam_lambdaExists st l then l else ?new)"
    by (auto simp: r ex found_def split: option.splits)
  ultimately show ?thesis using run wfl by (intro exI [of _ "st\<lparr>lambdas := ls\<rparr>"] exI [of _ r]) simp
qed

definition wit_fn :: "string \<Rightarrow> string \<Rightarrow> lambda_fn" where
  "wit_fn name arn = \<lparr>l_oid = [], l_region = ''eu'', l_user = [], l_function = name, l_runtime = [], l_role = [],
     l_handler = [], l_memorySize = 128, l_ephemeralStorage = 512, l_codeSize = 0, l_imageId = [], l_imageSize = 0,
     l_containerId = [], l_containerSize = 0, l_tags = [], l_arn = arn, l_timeout = 3600, l_concurrency = 5,
     l_environment = [], l_codeSha256 = [],
     l_code = \<lparr>co_zipFile = [], co_s3Bucket = [], co_s3Key = [], co_s3ObjectVersion = []\<rparr>, l_dockerTag = [],
     l_lastStarted = 0, l_lastInvocation = 0, l_instances = [], l_eventSources = [], l_invocations = 0,
     l_avgDuration = 0, l_enabled = False, l_created = 0, l_modified = 0\<rparr>"

definition wit_lambdas :: lambda_repo where
  "wit_lambdas = \<lparr>lambdas = [(''k1'', wit_fn ''f'' ''arn:f'')], lambdaResults = []\<rparr>"

theorem lam_put_refines_witness:
  "\<exists>st' r. lam_createOrUpdateLambda [1] ''k2'' wit_lambdas (wit_fn ''g'' ''arn:g'') = Inr (st', r) \<and>
     by_ident lambda_ident (lambdas st') (''eu'', ''f'') = Some (wit_fn ''f'' ''arn:f'')"
proof -
  have pre: "wf_store (lambdas wit_lambdas)" "ident_unique lambda_ident (lambdas wit_lambdas)" "''k2'' \<notin> keys_of (lambdas wit_lambdas)"
    by (simp_all add: wit_lambdas_def ident_unique_def)
  obtain st' r where "lam_createOrUpdateLambda [1] ''k2'' wit_lambdas (wit_fn ''g'' ''arn:g'') = Inr (st', r)"
    "by_ident lambda_ident (lambdas st') =
       (by_ident lambda_ident (lambdas wit_lambdas))(lambda_ident (wit_fn ''g'' ''arn:g'') \<mapsto> r)"
    using lam_put_refines [OF pre, of "[1]" "wit_fn ''g'' ''arn:g''"] by blast
  moreover have "by_ident lambda_ident (lambdas wit_lambdas) (''eu'', ''f'') = Some (wit_fn ''f'' ''arn:f'')"
    by (simp add: by_ident_def find_if_def wit_lambdas_def lambda_ident_def wit_fn_def)
  moreover have "lambda_ident (wit_fn ''g'' ''arn:g'') = (''eu'', ''g'')" by (simp add: lambda_ident_def wit_fn_def)
  ultimately show ?thesis by fastforce
qed

text \<open>Deleting the results of a function deletes the function: every function with the ARN is gone
  and counted, and all its results remain.\<close>

theorem lam_delete_results_deletes_function:
  "lambdaResults (fst (lam_deleteResultsCounters st arn)) = lambdaResults st \<and>
   lam_lambdaResultsCount (fst (lam_deleteResultsCounters st arn)) arn = lam_lambdaResultsCount st arn \<and>
   \<not> lam_lambdaExistsByArn (fst (lam_deleteResultsCounters st arn)) arn \<and>
   int (length (lambdas (fst (lam_deleteResultsCounters st arn)))) + snd (lam_deleteResultsCounters st arn) = int (length (lambdas st))"
  using erase_if_balance [of "\<lambda>(_, l). l_arn l = arn" "lambdas st"]
  by (auto simp: lam_deleteResultsCounters_def lam_lambdaResultsCount_def lam_lambdaExistsByArn_def found_iff)

text \<open>Importing a function that exists under its region and name fails when no function has its ARN:
  the instances to keep are looked up by the ARN, and that lookup throws.\<close>

theorem lam_import_needs_arn:
  assumes "lam_lambdaExists st l" "\<not> lam_lambdaExistsByArn st (l_arn l)"
  shows "lam_importLambda lay uuid now st l = Inl (DatabaseException (''Get lambda by ARN failed, arn: '' @ l_arn l))"
proof -
  have "modify_found (\<lambda>(_, x). l_arn x = l_arn l) (set_l_oid (l_arn l)) (lambdas st) = None"
    using assms(2) by (intro absent_None) (simp add: lam_lambdaExistsByArn_def)
  then show ?thesis
    using assms(1) by (simp add: lam_importLambda_def lam_getLambdaByArn_def or_throw_def with_lambdas_def)
qed

theorem lam_import_needs_arn_witness:
  "lam_importLambda [] ''u'' 1 wit_lambdas (wit_fn ''f'' ''arn:new'') =
     Inl (DatabaseException (''Get lambda by ARN failed, arn: arn:new''))"
proof -
  have "lam_lambdaExists wit_lambdas (wit_fn ''f'' ''arn:new'')" "\<not> lam_lambdaExistsByArn wit_lambdas (l_arn (wit_fn ''f'' ''arn:new''))"
    by (simp_all add: lam_lambdaExists_def lam_lambdaExistsByArn_def found_iff wit_lambdas_def wit_fn_def)
  from lam_import_needs_arn [OF this, of "[]" "''u''" 1] show ?thesis by (simp add: wit_fn_def)
qed

end
