(* ===== verification/CognitoRepo.thy ===== *)
theory CognitoRepo
  imports EntityRepo
begin

text \<open>
  The in-memory Cognito repository (\<open>db/src/repository/cognito/CognitoMemoryRepository.cpp\<close>) with
  its entities (\<open>db/include/awsmock/entity/cognito\<close>, \<open>db/src/entity/cognito/User.cpp\<close>,
  \<open>UserPool.cpp\<close>): user pools, users and groups in three \<open>std::unordered_map\<close>s. A lookup that
  finds nothing throws.
\<close>

subsection \<open>Entities\<close>

datatype user_status = UNCONFIRMED | CONFIRMED | EXTERNAL_PROVIDER | USER_UNKNOWN | RESET_REQUIRED | FORCE_CHANGE_PASSWORD

definition user_status_names :: "(user_status \<times> string) list" where
  "user_status_names =
     [(UNCONFIRMED, ''UNCONFIRMED''), (CONFIRMED, ''CONFIRMED''), (EXTERNAL_PROVIDER, ''EXTERNAL_PROVIDER''),
      (USER_UNKNOWN, ''UNKNOWN''), (RESET_REQUIRED, ''RESET_REQUIRED''), (FORCE_CHANGE_PASSWORD, ''FORCE_CHANGE_PASSWORD'')]"

definition UserStatusToString :: "user_status \<Rightarrow> string" where
  "UserStatusToString s = enum_to_string user_status_names s"

definition UserStatusFromString :: "string \<Rightarrow> user_status" where
  "UserStatusFromString s = enum_from_string user_status_names USER_UNKNOWN s"

record cog_group =
  g_oid :: string
  g_region :: string
  g_userPoolId :: string
  g_groupName :: string
  g_description :: string
  g_roleArn :: string
  g_precedence :: int
  g_created :: time_point
  g_modified :: time_point

record user_attribute =
  ua_name :: string
  ua_value :: string

record cog_user =
  u_oid :: string
  u_region :: string
  u_userPoolId :: string
  u_userName :: string
  u_enabled :: bool
  u_userAttributes :: "user_attribute list"
  u_userStatus :: user_status
  u_password :: string
  u_confirmationCode :: string
  u_groups :: "cog_group list"
  u_created :: time_point
  u_modified :: time_point

record user_pool_client =
  upc_userPoolId :: string
  upc_clientId :: string
  upc_clientName :: string
  upc_clientSecret :: string
  upc_generateSecret :: bool
  upc_accessTokenValidity :: int
  upc_idTokenValidity :: int
  upc_refreshTokenValidity :: int
  upc_explicitAuthFlows :: "string list"
  upc_created :: time_point
  upc_modified :: time_point

record user_pool =
  up_oid :: string
  up_region :: string
  up_userPoolId :: string
  up_name :: string
  up_arn :: string
  up_kmsKey :: string
  up_domain :: string
  up_userPoolClients :: "user_pool_client list"
  up_tags :: "(string \<times> string) list"
  up_created :: time_point
  up_modified :: time_point

definition default_user_pool_client :: "time_point \<Rightarrow> user_pool_client" where
  "default_user_pool_client now =
     \<lparr>upc_userPoolId = [], upc_clientId = [], upc_clientName = [], upc_clientSecret = [],
      upc_generateSecret = False, upc_accessTokenValidity = 0, upc_idTokenValidity = 0,
      upc_refreshTokenValidity = 0,
      upc_explicitAuthFlows = [''ADMIN_NO_SRP_AUTH'', ''CUSTOM_AUTH_FLOW_ONLY'', ''USER_PASSWORD_AUTH'',
        ''ALLOW_ADMIN_USER_PASSWORD_AUTH'', ''ALLOW_CUSTOM_AUTH'', ''ALLOW_USER_PASSWORD_AUTH'',
        ''ALLOW_USER_SRP_AUTH'', ''ALLOW_REFRESH_TOKEN_AUTH'', ''ALLOW_USER_AUTH''],
      upc_created = now, upc_modified = now\<rparr>"

definition set_g_oid :: "string \<Rightarrow> cog_group \<Rightarrow> cog_group" where
  "set_g_oid k g = g\<lparr>g_oid := k\<rparr>"

definition set_u_oid :: "string \<Rightarrow> cog_user \<Rightarrow> cog_user" where
  "set_u_oid k u = u\<lparr>u_oid := k\<rparr>"

definition set_up_oid :: "string \<Rightarrow> user_pool \<Rightarrow> user_pool" where
  "set_up_oid k p = p\<lparr>up_oid := k\<rparr>"

interpretation cog_g: stamped_entity g_oid set_g_oid
  by unfold_locales (simp_all add: set_g_oid_def)

interpretation cog_u: stamped_entity u_oid set_u_oid
  by unfold_locales (simp_all add: set_u_oid_def)

interpretation cog_p: stamped_entity up_oid set_up_oid
  by unfold_locales (simp_all add: set_up_oid_def)

definition HasGroup :: "cog_user \<Rightarrow> string \<Rightarrow> string \<Rightarrow> bool" where
  "HasGroup u userPoolId groupName =
     list_ex (\<lambda>g. g_userPoolId g = userPoolId \<and> g_groupName g = groupName) (u_groups u)"

definition has_client :: "string \<Rightarrow> user_pool \<Rightarrow> bool" where
  "has_client clientId p = list_ex (\<lambda>c. upc_clientId c = clientId) (up_userPoolClients p)"

definition GetClient :: "time_point \<Rightarrow> user_pool \<Rightarrow> string \<Rightarrow> user_pool_client" where
  "GetClient now p clientId =
     (case List.find (\<lambda>c. upc_clientId c = clientId) (up_userPoolClients p) of
        Some c \<Rightarrow> c
      | None \<Rightarrow> default_user_pool_client now)"

record cognito_repo =
  userPools :: "user_pool hmap"
  cog_users :: "cog_user hmap"
  cog_groups :: "cog_group hmap"

definition cog_inv :: "cognito_repo \<Rightarrow> bool" where
  "cog_inv st \<longleftrightarrow> wf_store (userPools st) \<and> wf_store (cog_users st) \<and> wf_store (cog_groups st)"

definition in_pools :: "cognito_repo \<Rightarrow> (user_pool hmap \<times> 'a) outcome \<Rightarrow> (cognito_repo \<times> 'a) outcome" where
  "in_pools st r = (case r of Inl e \<Rightarrow> Inl e | Inr (ps, x) \<Rightarrow> Inr (st\<lparr>userPools := ps\<rparr>, x))"

definition in_users :: "cognito_repo \<Rightarrow> (cog_user hmap \<times> 'a) outcome \<Rightarrow> (cognito_repo \<times> 'a) outcome" where
  "in_users st r = (case r of Inl e \<Rightarrow> Inl e | Inr (us, x) \<Rightarrow> Inr (st\<lparr>cog_users := us\<rparr>, x))"

definition in_groups :: "cognito_repo \<Rightarrow> (cog_group hmap \<times> 'a) outcome \<Rightarrow> (cognito_repo \<times> 'a) outcome" where
  "in_groups st r = (case r of Inl e \<Rightarrow> Inl e | Inr (gs, x) \<Rightarrow> Inr (st\<lparr>cog_groups := gs\<rparr>, x))"

subsection \<open>User pools\<close>

definition cog_userPoolExists :: "cognito_repo \<Rightarrow> string \<Rightarrow> string \<Rightarrow> bool" where
  "cog_userPoolExists st region name = found (\<lambda>(_, p). up_region p = region \<and> up_name p = name) (userPools st)"

definition cog_userPoolExistsId :: "cognito_repo \<Rightarrow> string \<Rightarrow> bool" where
  "cog_userPoolExistsId st userPoolId = found (\<lambda>(_, p). up_userPoolId p = userPoolId) (userPools st)"

definition cog_listUserPools :: "cognito_repo \<Rightarrow> string \<Rightarrow> string \<Rightarrow> int \<Rightarrow> int \<Rightarrow> sort_column list \<Rightarrow> user_pool list" where
  "cog_listUserPools st region pre pageSize pageIndex sortColumns =
     (if region = [] then values_of (userPools st)
      else filter (\<lambda>p. up_region p = region) (values_of (userPools st)))"

text \<open>The comparator of \<open>exportUserPools\<close> is lexicographic over the columns.\<close>

definition pool_compare :: "'a::linorder \<Rightarrow> 'a \<Rightarrow> int \<Rightarrow> int" where
  "pool_compare valA valB dir =
     (if valA = valB then 0
      else if dir = 1 then (if valA < valB then 1 else -1)
      else (if valA > valB then 1 else -1))"

fun cog_pool_less :: "sort_column list \<Rightarrow> user_pool \<Rightarrow> user_pool \<Rightarrow> bool" where
  "cog_pool_less [] a b = False"
| "cog_pool_less (sc # scs) a b =
     (let res = (if sc_column sc = ''userPoolId'' then pool_compare (up_userPoolId a) (up_userPoolId b) (sc_direction sc)
                 else if sc_column sc = ''name'' then pool_compare (up_name a) (up_name b) (sc_direction sc)
                 else if sc_column sc = ''oid'' then pool_compare (up_oid a) (up_oid b) (sc_direction sc)
                 else 0) in
      if res \<noteq> 0 then res = 1 else cog_pool_less scs a b)"

definition cog_exportUserPools :: "cognito_repo \<Rightarrow> sort_column list \<Rightarrow> user_pool list" where
  "cog_exportUserPools st sortColumns = std_sort (cog_pool_less sortColumns) (values_of (userPools st))"

definition cog_createUserPool :: "layout \<Rightarrow> uuid \<Rightarrow> cognito_repo \<Rightarrow> user_pool \<Rightarrow> cognito_repo \<times> user_pool" where
  "cog_createUserPool lay uuid st p =
     (let p' = p\<lparr>up_oid := uuid\<rparr> in
      (st\<lparr>userPools := hmap_insert lay (up_oid p') p' (userPools st)\<rparr>, p'))"

definition cog_updateUserPool :: "cognito_repo \<Rightarrow> user_pool \<Rightarrow> (cognito_repo \<times> user_pool) outcome" where
  "cog_updateUserPool st userPool =
     (case replace_found (\<lambda>(_, p). up_region p = up_region userPool \<and> up_name p = up_name userPool) userPool (userPools st) of
        Some (ps, r) \<Rightarrow> Inr (st\<lparr>userPools := ps\<rparr>, r)
      | None \<Rightarrow> Inl (DatabaseException
          (''Update cognito user pool failed, region: '' @ up_region userPool @ '' name: '' @ up_name userPool)))"

text \<open>\<open>createOrUpdateUserPool\<close> decides by the object id, and \<open>updateUserPool\<close> searches region and name.\<close>

definition cog_createOrUpdateUserPool :: "layout \<Rightarrow> uuid \<Rightarrow> cognito_repo \<Rightarrow> user_pool \<Rightarrow> (cognito_repo \<times> user_pool) outcome" where
  "cog_createOrUpdateUserPool lay uuid st userPool =
     (if map_of (userPools st) (up_oid userPool) \<noteq> None then cog_updateUserPool st userPool
      else Inr (cog_createUserPool lay uuid st userPool))"

definition cog_getUserPoolByUserPoolId :: "cognito_repo \<Rightarrow> string \<Rightarrow> (cognito_repo \<times> user_pool) outcome" where
  "cog_getUserPoolByUserPoolId st userPoolId =
     in_pools st (get_or_throw (DatabaseException (''Get cognito user pool by userPoolId failed, userPoolId: '' @ userPoolId))
       set_up_oid (\<lambda>(_, p). up_userPoolId p = userPoolId) (userPools st))"

definition cog_getUserPoolByClientId :: "cognito_repo \<Rightarrow> string \<Rightarrow> (cognito_repo \<times> user_pool) outcome" where
  "cog_getUserPoolByClientId st clientId =
     in_pools st (get_or_throw (DatabaseException (''Get cognito user pool by clientId failed, clientId: '' @ clientId))
       set_up_oid (\<lambda>(_, p). has_client clientId p) (userPools st))"

definition cog_getUserPoolById :: "cognito_repo \<Rightarrow> string \<Rightarrow> (cognito_repo \<times> user_pool) outcome" where
  "cog_getUserPoolById st oid =
     in_pools st (get_or_throw (DatabaseException (''Get cognito user pool by region and name failed, oid: '' @ oid))
       set_up_oid (\<lambda>(_, p). up_oid p = oid) (userPools st))"

definition cog_getUserPoolByRegionName :: "cognito_repo \<Rightarrow> string \<Rightarrow> string \<Rightarrow> (cognito_repo \<times> user_pool) outcome" where
  "cog_getUserPoolByRegionName st region name =
     in_pools st (get_or_throw
       (DatabaseException (''Get cognito user pool by region and name failed, region: '' @ region @ '', name: '' @ name))
       set_up_oid (\<lambda>(_, p). up_region p = region \<and> up_name p = name) (userPools st))"

definition cog_countUserPools :: "cognito_repo \<Rightarrow> string \<Rightarrow> int" where
  "cog_countUserPools st region =
     (if region = [] then int (length (userPools st))
      else count_if (\<lambda>p. up_region p = region) (values_of (userPools st)))"

definition cog_deleteUserPool :: "cognito_repo \<Rightarrow> string \<Rightarrow> cognito_repo" where
  "cog_deleteUserPool st userPoolId =
     st\<lparr>userPools := fst (erase_if (\<lambda>(_, p). up_userPoolId p = userPoolId) (userPools st))\<rparr>"

definition cog_deleteAllUserPools :: "cognito_repo \<Rightarrow> cognito_repo \<times> int" where
  "cog_deleteAllUserPools st = (st\<lparr>userPools := []\<rparr>, int (length (userPools st)))"

definition cog_clientIdExists :: "cognito_repo \<Rightarrow> string \<Rightarrow> string \<Rightarrow> bool" where
  "cog_clientIdExists st region clientId =
     found (\<lambda>(_, p). up_region p = region \<and> has_client clientId p) (userPools st)"

subsection \<open>Users\<close>

definition cog_userExists :: "cognito_repo \<Rightarrow> string \<Rightarrow> string \<Rightarrow> string \<Rightarrow> bool" where
  "cog_userExists st region userPoolId userName =
     found (\<lambda>(_, u). u_region u = region \<and> u_userPoolId u = userPoolId \<and> u_userName u = userName) (cog_users st)"

definition cog_userExistsName :: "cognito_repo \<Rightarrow> string \<Rightarrow> string \<Rightarrow> bool" where
  "cog_userExistsName st region userName =
     found (\<lambda>(_, u). u_region u = region \<and> u_userName u = userName) (cog_users st)"

definition cog_createUser :: "layout \<Rightarrow> uuid \<Rightarrow> cognito_repo \<Rightarrow> cog_user \<Rightarrow> cognito_repo \<times> cog_user" where
  "cog_createUser lay uuid st u =
     (let u' = u\<lparr>u_oid := uuid\<rparr> in
      (st\<lparr>cog_users := hmap_insert lay (u_oid u') u' (cog_users st)\<rparr>, u'))"

definition cog_updateUser :: "cognito_repo \<Rightarrow> cog_user \<Rightarrow> (cognito_repo \<times> cog_user) outcome" where
  "cog_updateUser st user =
     (case replace_found (\<lambda>(_, u). u_region u = u_region user \<and> u_userPoolId u = u_userPoolId user \<and>
              u_userName u = u_userName user) user (cog_users st) of
        Some (us, r) \<Rightarrow> Inr (st\<lparr>cog_users := us\<rparr>, r)
      | None \<Rightarrow> Inl (DatabaseException
          (''Update cognito user failed, region: '' @ u_region user @ '' name: '' @ u_userName user)))"

definition cog_createOrUpdateUser :: "layout \<Rightarrow> uuid \<Rightarrow> cognito_repo \<Rightarrow> cog_user \<Rightarrow> (cognito_repo \<times> cog_user) outcome" where
  "cog_createOrUpdateUser lay uuid st user =
     (if cog_userExists st (u_region user) (u_userPoolId user) (u_userName user) then cog_updateUser st user
      else Inr (cog_createUser lay uuid st user))"

definition cog_getUserById :: "cognito_repo \<Rightarrow> string \<Rightarrow> (cognito_repo \<times> cog_user) outcome" where
  "cog_getUserById st oid =
     in_users st (get_or_throw (DatabaseException (''Get cognito user by oid failed, oid: '' @ oid))
       set_u_oid (\<lambda>(k, _). k = oid) (cog_users st))"

definition cog_getUserByUserName :: "cognito_repo \<Rightarrow> string \<Rightarrow> string \<Rightarrow> string \<Rightarrow> (cognito_repo \<times> cog_user) outcome" where
  "cog_getUserByUserName st region userPoolId userName =
     in_users st (get_or_throw (DatabaseException (''Get cognito user by user name failed, userName: '' @ userName))
       set_u_oid (\<lambda>(_, u). u_region u = region \<and> u_userPoolId u = userPoolId \<and> u_userName u = userName) (cog_users st))"

text \<open>The predicate of \<open>countUsers\<close> returns true on every path.\<close>

definition cog_countUsers :: "cognito_repo \<Rightarrow> string \<Rightarrow> string \<Rightarrow> string \<Rightarrow> int" where
  "cog_countUsers st region userPoolId groupName =
     count_if (\<lambda>(_, u).
       if region \<noteq> [] \<and> u_region u = region then True
       else if region \<noteq> [] \<and> u_region u = region \<and> userPoolId \<noteq> [] \<and> u_userPoolId u = userPoolId then True
       else True) (cog_users st)"

definition cog_listUsers :: "cognito_repo \<Rightarrow> string \<Rightarrow> string \<Rightarrow> string \<Rightarrow> int \<Rightarrow> int \<Rightarrow> sort_column list \<Rightarrow> cog_user list" where
  "cog_listUsers st region userPoolId pre pageSize pageIndex sortColumns =
     filter (\<lambda>u. if region \<noteq> [] \<and> u_region u \<noteq> region then False
                 else if userPoolId \<noteq> [] \<and> u_userPoolId u \<noteq> userPoolId then False
                 else True) (values_of (cog_users st))"

definition cog_exportUsers :: "cognito_repo \<Rightarrow> sort_column list \<Rightarrow> cog_user list" where
  "cog_exportUsers st sortColumns = std_sort (by_key 1 u_userName) (values_of (cog_users st))"

definition cog_listUsersInGroup :: "cognito_repo \<Rightarrow> string \<Rightarrow> string \<Rightarrow> string \<Rightarrow> cog_user list" where
  "cog_listUsersInGroup st region userPoolId groupName =
     filter (\<lambda>u. u_region u = region \<and> u_userPoolId u = userPoolId \<and>
                 list_ex (\<lambda>g. g_groupName g = groupName) (u_groups u)) (values_of (cog_users st))"

definition cog_deleteUser :: "cognito_repo \<Rightarrow> cog_user \<Rightarrow> cognito_repo \<times> int" where
  "cog_deleteUser st user =
     (let r = erase_if (\<lambda>(_, u). u_region u = u_region user \<and> u_userPoolId u = u_userPoolId user \<and>
                u_userName u = u_userName user) (cog_users st) in
      (st\<lparr>cog_users := fst r\<rparr>, snd r))"

definition cog_deleteAllUsers :: "cognito_repo \<Rightarrow> cognito_repo \<times> int" where
  "cog_deleteAllUsers st = (st\<lparr>cog_users := []\<rparr>, int (length (cog_users st)))"

subsection \<open>Groups\<close>

definition cog_groupExists :: "cognito_repo \<Rightarrow> string \<Rightarrow> string \<Rightarrow> bool" where
  "cog_groupExists st region groupName =
     found (\<lambda>(_, g). g_region g = region \<and> g_groupName g = groupName) (cog_groups st)"

definition cog_getGroupById :: "cognito_repo \<Rightarrow> string \<Rightarrow> (cognito_repo \<times> cog_group) outcome" where
  "cog_getGroupById st oid =
     in_groups st (get_or_throw (DatabaseException (''Get cognito group by group name failed, oid: '' @ oid))
       set_g_oid (\<lambda>(_, g). g_oid g = oid) (cog_groups st))"

definition cog_getGroupByGroupName :: "cognito_repo \<Rightarrow> string \<Rightarrow> string \<Rightarrow> string \<Rightarrow> (cognito_repo \<times> cog_group) outcome" where
  "cog_getGroupByGroupName st region groupPoolId groupName =
     in_groups st (get_or_throw (DatabaseException (''Get cognito group by group name failed, groupName: '' @ groupName))
       set_g_oid (\<lambda>(_, g). g_region g = region \<and> g_userPoolId g = groupPoolId \<and> g_groupName g = groupName) (cog_groups st))"

definition cog_createGroup :: "layout \<Rightarrow> uuid \<Rightarrow> cognito_repo \<Rightarrow> cog_group \<Rightarrow> cognito_repo \<times> cog_group" where
  "cog_createGroup lay uuid st g =
     (let g' = g\<lparr>g_oid := uuid\<rparr> in
      (st\<lparr>cog_groups := hmap_insert lay uuid g' (cog_groups st)\<rparr>, g'))"

definition cog_listGroups :: "cognito_repo \<Rightarrow> string \<Rightarrow> string \<Rightarrow> cog_group list" where
  "cog_listGroups st region userPoolId =
     filter (\<lambda>g. if region \<noteq> [] \<and> g_region g \<noteq> region then False
                 else if userPoolId \<noteq> [] \<and> g_userPoolId g \<noteq> userPoolId then False
                 else True) (values_of (cog_groups st))"

definition cog_exportGroups :: "cognito_repo \<Rightarrow> sort_column list \<Rightarrow> cog_group list" where
  "cog_exportGroups st sortColumns = std_sort (by_key 1 g_groupName) (values_of (cog_groups st))"

definition cog_deleteGroup :: "cognito_repo \<Rightarrow> string \<Rightarrow> string \<Rightarrow> string \<Rightarrow> cognito_repo \<times> int" where
  "cog_deleteGroup st region userPoolId groupName =
     (let r = erase_if (\<lambda>(_, g). g_region g = region \<and> g_userPoolId g = userPoolId \<and> g_groupName g = groupName) (cog_groups st) in
      (st\<lparr>cog_groups := fst r\<rparr>, snd r))"

definition cog_deleteAllGroups :: "cognito_repo \<Rightarrow> string \<Rightarrow> cognito_repo \<times> int" where
  "cog_deleteAllGroups st region =
     (if region = [] then (st\<lparr>cog_groups := []\<rparr>, int (length (cog_groups st)))
      else (let r = erase_if (\<lambda>(_, g). g_region g = region) (cog_groups st) in (st\<lparr>cog_groups := fst r\<rparr>, snd r)))"

end
