(* ===== verification/CognitoProps.thy ===== *)
theory CognitoProps
  imports CognitoRepo IdentStore
begin

text \<open>
  Properties of the in-memory Cognito repository: users against the abstract repository, the count
  of users, and the update of a user pool under a new name.
\<close>

definition user_ident :: "cog_user \<Rightarrow> string \<times> string \<times> string" where
  "user_ident u = (u_region u, u_userPoolId u, u_userName u)"

interpretation cog_user_store: ident_store "hmap_insert lay" wf_store user_ident for lay
  by unfold_locales simp

lemma user_ident_pred:
  "(\<lambda>(_::string, u). u_region u = r \<and> u_userPoolId u = p \<and> u_userName u = n) = (\<lambda>(_, u). user_ident u = (r, p, n))"
  by (auto simp: user_ident_def)

lemma user_ident_oid [simp]: "user_ident (u\<lparr>u_oid := k\<rparr>) = user_ident u"
  by (simp add: user_ident_def)

lemmas user_tuple = user_ident_def [symmetric]

lemma cog_put_user_upsert:
  "cog_createOrUpdateUser lay uuid st user = Inr
     (st\<lparr>cog_users := upsert (hmap_insert lay) user_ident uuid (user\<lparr>u_oid := uuid\<rparr>) (\<lambda>_. user) (cog_users st)\<rparr>,
      case find_if (\<lambda>(_, u). user_ident u = user_ident user) (cog_users st) of None \<Rightarrow> user\<lparr>u_oid := uuid\<rparr> | Some _ \<Rightarrow> user)"
proof (cases "find_if (\<lambda>(_, u). user_ident u = user_ident user) (cog_users st)")
  case None
  then show ?thesis
    by (simp add: cog_createOrUpdateUser_def cog_userExists_def cog_createUser_def user_ident_pred user_tuple found_def upsert_def Let_def)
next
  case (Some ku)
  then show ?thesis
    by (cases ku) (simp add: cog_createOrUpdateUser_def cog_userExists_def cog_updateUser_def user_ident_pred user_tuple
      found_def replace_found_def upsert_def)
qed

text \<open>\<open>createOrUpdateUser\<close> never throws: it is the update of the users at region, pool and name,
  and keeps that identity unique; deleting the user afterwards removes that one user, and the user
  cannot be read any more.\<close>

theorem cog_put_delete_user:
  assumes inv: "wf_store (cog_users st)" "ident_unique user_ident (cog_users st)" and fresh: "uuid \<notin> keys_of (cog_users st)"
  shows "\<exists>st' r. cog_createOrUpdateUser lay uuid st user = Inr (st', r) \<and>
    wf_store (cog_users st') \<and> ident_unique user_ident (cog_users st') \<and>
    by_ident user_ident (cog_users st') = (by_ident user_ident (cog_users st))(user_ident user \<mapsto> r) \<and>
    by_ident user_ident (cog_users (fst (cog_deleteUser st' user))) = (by_ident user_ident (cog_users st))(user_ident user := None) \<and>
    cog_getUserByUserName (fst (cog_deleteUser st' user)) (u_region user) (u_userPoolId user) (u_userName user) =
      Inl (DatabaseException (''Get cognito user by user name failed, userName: '' @ u_userName user))"
proof -
  let ?new = "user\<lparr>u_oid := uuid\<rparr>"
  let ?up = "upsert (hmap_insert lay) user_ident uuid ?new (\<lambda>_. user) (cog_users st)"
  obtain r where run: "cog_createOrUpdateUser lay uuid st user = Inr (st\<lparr>cog_users := ?up\<rparr>, r)"
    and r: "r = (case find_if (\<lambda>(_, u). user_ident u = user_ident user) (cog_users st) of None \<Rightarrow> ?new | Some _ \<Rightarrow> user)"
    unfolding cog_put_user_upsert by simp
  have wf: "wf_store ?up" by (rule cog_user_store.upsert_invar [OF inv(1)])
  have un: "ident_unique user_ident ?up" by (rule cog_user_store.upsert_unique [OF inv]) simp
  have ref: "by_ident user_ident ?up = (by_ident user_ident (cog_users st))(user_ident user \<mapsto> r)"
    using cog_user_store.upsert_refines [OF inv, of "\<lambda>_. user" ?new uuid lay] fresh
    by (simp add: r split: option.splits)
  let ?del = "fst (cog_deleteUser (st\<lparr>cog_users := ?up\<rparr>) user)"
  have users: "cog_users ?del = fst (erase_if (\<lambda>(_, u). user_ident u = user_ident user) ?up)"
    by (simp add: cog_deleteUser_def user_ident_pred user_tuple)
  have del: "by_ident user_ident (cog_users ?del) = (by_ident user_ident (cog_users st))(user_ident user := None)"
    unfolding users by_ident_erase [OF un] ref by simp
  have "\<not> found (\<lambda>(_, u). user_ident u = user_ident user) (cog_users ?del)"
    unfolding found_by_ident del by simp
  then have "cog_getUserByUserName ?del (u_region user) (u_userPoolId user) (u_userName user) =
      Inl (DatabaseException (''Get cognito user by user name failed, userName: '' @ u_userName user))"
    by (simp add: cog_getUserByUserName_def user_ident_pred user_tuple get_or_throw_absent in_users_def)
  with run wf un ref del show ?thesis by (intro exI [of _ "st\<lparr>cog_users := ?up\<rparr>"] exI [of _ r]) simp
qed

definition wit_user :: "string \<Rightarrow> cog_user" where
  "wit_user name = \<lparr>u_oid = [], u_region = ''eu'', u_userPoolId = ''p'', u_userName = name, u_enabled = True,
     u_userAttributes = [], u_userStatus = CONFIRMED, u_password = [], u_confirmationCode = [], u_groups = [],
     u_created = 0, u_modified = 0\<rparr>"

definition wit_cognito :: cognito_repo where
  "wit_cognito = \<lparr>userPools = [], cog_users = [(''k1'', wit_user ''ann'')], cog_groups = []\<rparr>"

theorem cog_put_delete_user_witness:
  "\<exists>st' r. cog_createOrUpdateUser [1] ''k2'' wit_cognito (wit_user ''bob'') = Inr (st', r) \<and>
     by_ident user_ident (cog_users st') (user_ident (wit_user ''bob'')) = Some r"
proof -
  have "wf_store (cog_users wit_cognito)" "ident_unique user_ident (cog_users wit_cognito)" "''k2'' \<notin> keys_of (cog_users wit_cognito)"
    by (simp_all add: wit_cognito_def ident_unique_def)
  from cog_put_delete_user [OF this, of "[1]" "wit_user ''bob''"] show ?thesis by fastforce
qed

text \<open>The filters of \<open>countUsers\<close> have no effect.\<close>

lemma cog_countUsers_all: "cog_countUsers st region userPoolId groupName = int (length (cog_users st))"
  by (simp add: cog_countUsers_def count_if_def split_def)

text \<open>The count of users is the number of all users, whatever region, pool and group are asked for:
  it exceeds the listing for the same region and pool by the users the listing leaves out.\<close>

theorem cog_count_ignores_filters:
  "cog_countUsers st region userPoolId groupName =
     int (length (cog_listUsers st region userPoolId pre pageSize pageIndex cols)) +
     count_if (\<lambda>(_, u). (region \<noteq> [] \<and> u_region u \<noteq> region) \<or> (userPoolId \<noteq> [] \<and> u_userPoolId u \<noteq> userPoolId)) (cog_users st)"
proof -
  have "int (length (filter Q (map snd m))) + count_if (\<lambda>(_, u). \<not> Q u) m = int (length m)" for Q :: "cog_user \<Rightarrow> bool" and m :: "cog_user store"
    by (induction m) (auto simp: count_if_def)
  note split = this [of "\<lambda>u. \<not> ((region \<noteq> [] \<and> u_region u \<noteq> region) \<or> (userPoolId \<noteq> [] \<and> u_userPoolId u \<noteq> userPoolId))" "cog_users st"]
  have "cog_listUsers st region userPoolId pre pageSize pageIndex cols =
      filter (\<lambda>u. \<not> ((region \<noteq> [] \<and> u_region u \<noteq> region) \<or> (userPoolId \<noteq> [] \<and> u_userPoolId u \<noteq> userPoolId))) (map snd (cog_users st))"
    unfolding cog_listUsers_def values_of_def by (rule filter_cong) auto
  with split show ?thesis by (simp add: cog_countUsers_all)
qed

text \<open>A user pool that is stored cannot be saved under a new name: \<open>createOrUpdateUserPool\<close> decides for
  the update by the object id, the update searches region and name, and throws. The pool keeps its
  old name.\<close>

theorem cog_rename_pool_throws:
  assumes "up_oid p \<in> keys_of (userPools st)" "\<not> cog_userPoolExists st (up_region p) (up_name p)"
  shows "cog_createOrUpdateUserPool lay uuid st p =
    Inl (DatabaseException (''Update cognito user pool failed, region: '' @ up_region p @ '' name: '' @ up_name p))"
proof -
  have "replace_found (\<lambda>(_, x). up_region x = up_region p \<and> up_name x = up_name p) p (userPools st) = None"
    using assms(2) by (intro absent_None) (simp add: cog_userPoolExists_def)
  moreover have "map_of (userPools st) (up_oid p) \<noteq> None" using assms(1) by (simp add: map_of_keys)
  ultimately show ?thesis by (simp add: cog_createOrUpdateUserPool_def cog_updateUserPool_def)
qed

definition wit_pool :: "string \<Rightarrow> user_pool" where
  "wit_pool name = \<lparr>up_oid = ''k1'', up_region = ''eu'', up_userPoolId = ''id'', up_name = name, up_arn = [],
     up_kmsKey = [], up_domain = [], up_userPoolClients = [], up_tags = [], up_created = 0, up_modified = 0\<rparr>"

theorem cog_rename_pool_throws_witness:
  "cog_createOrUpdateUserPool [] ''u'' (wit_cognito\<lparr>userPools := [(''k1'', wit_pool ''old'')]\<rparr>) (wit_pool ''new'') =
     Inl (DatabaseException ''Update cognito user pool failed, region: eu name: new'')"
proof -
  let ?st = "wit_cognito\<lparr>userPools := [(''k1'', wit_pool ''old'')]\<rparr>"
  have "up_oid (wit_pool ''new'') \<in> keys_of (userPools ?st)"
    "\<not> cog_userPoolExists ?st (up_region (wit_pool ''new'')) (up_name (wit_pool ''new''))"
    by (simp_all add: wit_pool_def cog_userPoolExists_def found_iff)
  from cog_rename_pool_throws [OF this, of "[]" "''u''"] show ?thesis by (simp add: wit_pool_def)
qed

end
