(* ===== verification/KmsSsmRepo.thy ===== *)
theory KmsSsmRepo
  imports EntityRepo
begin

text \<open>
  The in-memory KMS and SSM repositories (\<open>db/src/repository/kms/KMSMemoryRepository.cpp\<close>,
  \<open>db/src/repository/ssm/SSMMemoryRepository.cpp\<close>) with their entities: keys and parameters, each
  in a \<open>std::map\<close>.
\<close>

subsection \<open>KMS keys\<close>

record kms_key =
  k_oid :: string
  k_region :: string
  k_keyId :: string
  k_keyUsage :: string
  k_keySpec :: string
  k_keyState :: string
  k_origin :: string
  k_arn :: string
  k_description :: string
  k_aes256Key :: string
  k_aes256Iv :: string
  k_rsaPrivateKey :: string
  k_rsaPublicKey :: string
  k_hmac224Key :: string
  k_hmac256Key :: string
  k_hmac384Key :: string
  k_hmac512Key :: string
  k_policy :: string
  k_aliases :: "string list"
  k_tags :: "(string \<times> string) list"
  k_pendingWindowInDays :: int
  k_scheduledDeletion :: time_point
  k_created :: time_point
  k_modified :: time_point

definition default_key :: "time_point \<Rightarrow> kms_key" where
  "default_key now =
     \<lparr>k_oid = [], k_region = [], k_keyId = [], k_keyUsage = [], k_keySpec = [], k_keyState = [],
      k_origin = [], k_arn = [], k_description = [], k_aes256Key = [], k_aes256Iv = [],
      k_rsaPrivateKey = [], k_rsaPublicKey = [], k_hmac224Key = [], k_hmac256Key = [],
      k_hmac384Key = [], k_hmac512Key = [], k_policy = [], k_aliases = [], k_tags = [],
      k_pendingWindowInDays = 0, k_scheduledDeletion = now, k_created = now, k_modified = now\<rparr>"

definition set_k_oid :: "string \<Rightarrow> kms_key \<Rightarrow> kms_key" where
  "set_k_oid i k = k\<lparr>k_oid := i\<rparr>"

interpretation kms_k: stamped_entity k_oid set_k_oid
  by unfold_locales (simp_all add: set_k_oid_def)

type_synonym kms_repo = "kms_key omap"

definition kms_keyExists :: "kms_repo \<Rightarrow> string \<Rightarrow> bool" where
  "kms_keyExists ks keyId = found (\<lambda>(_, k). k_keyId k = keyId) ks"

definition kms_getKeyById :: "time_point \<Rightarrow> kms_repo \<Rightarrow> string \<Rightarrow> kms_repo \<times> kms_key" where
  "kms_getKeyById now ks oid = get_or (default_key now) set_k_oid (\<lambda>(i, _). i = oid) ks"

definition kms_getKeyByKeyId :: "time_point \<Rightarrow> kms_repo \<Rightarrow> string \<Rightarrow> kms_repo \<times> kms_key" where
  "kms_getKeyByKeyId now ks keyId = get_or (default_key now) set_k_oid (\<lambda>(_, k). k_keyId k = keyId) ks"

definition kms_listKeys :: "kms_repo \<Rightarrow> string \<Rightarrow> string \<Rightarrow> int \<Rightarrow> int \<Rightarrow> sort_column list \<Rightarrow> kms_key list" where
  "kms_listKeys ks region pre pageSize pageIndex sortColumns =
     (if region = [] then values_of ks else filter (\<lambda>k. k_region k = region) (values_of ks))"

definition kms_countKeys :: "kms_repo \<Rightarrow> int" where
  "kms_countKeys ks = int (length ks)"

definition kms_createKey :: "uuid \<Rightarrow> kms_repo \<Rightarrow> kms_key \<Rightarrow> kms_repo \<times> kms_key" where
  "kms_createKey uuid ks key = (omap_insert uuid key ks, key)"

definition kms_updateKey :: "kms_repo \<Rightarrow> kms_key \<Rightarrow> kms_repo \<times> kms_key" where
  "kms_updateKey ks key =
     (case replace_found (\<lambda>(_, k). k_keyId k = k_keyId key) key ks of
        Some r \<Rightarrow> r
      | None \<Rightarrow> (ks, key))"

definition kms_upsertKey :: "uuid \<Rightarrow> kms_repo \<Rightarrow> kms_key \<Rightarrow> kms_repo \<times> kms_key" where
  "kms_upsertKey uuid ks key =
     (if kms_keyExists ks (k_keyId key) then kms_updateKey ks key else kms_createKey uuid ks key)"

definition kms_deleteKey :: "kms_repo \<Rightarrow> kms_key \<Rightarrow> kms_repo" where
  "kms_deleteKey ks key = fst (erase_if (\<lambda>(_, k). k_keyId k = k_keyId key) ks)"

definition kms_deleteAllKeys :: "kms_repo \<Rightarrow> kms_repo \<times> int" where
  "kms_deleteAllKeys ks = ([], int (length ks))"

subsection \<open>SSM parameters\<close>

record ssm_parameter =
  p_oid :: string
  p_region :: string
  p_parameterName :: string
  p_parameterValue :: string
  p_description :: string
  p_type :: string
  p_tier :: string
  p_version :: int
  p_arn :: string
  p_kmsKeyArn :: string
  p_tags :: "(string \<times> string) list"
  p_created :: time_point
  p_modified :: time_point

definition default_parameter :: "time_point \<Rightarrow> ssm_parameter" where
  "default_parameter now =
     \<lparr>p_oid = [], p_region = [], p_parameterName = [], p_parameterValue = [], p_description = [],
      p_type = [], p_tier = [], p_version = 0, p_arn = [], p_kmsKeyArn = [], p_tags = [],
      p_created = now, p_modified = now\<rparr>"

definition set_p_oid :: "string \<Rightarrow> ssm_parameter \<Rightarrow> ssm_parameter" where
  "set_p_oid i p = p\<lparr>p_oid := i\<rparr>"

interpretation ssm_p: stamped_entity p_oid set_p_oid
  by unfold_locales (simp_all add: set_p_oid_def)

type_synonym ssm_repo = "ssm_parameter omap"

definition ssm_parameterExists :: "ssm_repo \<Rightarrow> string \<Rightarrow> bool" where
  "ssm_parameterExists ps name = found (\<lambda>(_, p). p_parameterName p = name) ps"

definition ssm_getParameterById :: "time_point \<Rightarrow> ssm_repo \<Rightarrow> string \<Rightarrow> ssm_repo \<times> ssm_parameter" where
  "ssm_getParameterById now ps oid = get_or (default_parameter now) set_p_oid (\<lambda>(i, _). i = oid) ps"

definition ssm_getParameterByName :: "time_point \<Rightarrow> ssm_repo \<Rightarrow> string \<Rightarrow> ssm_repo \<times> ssm_parameter" where
  "ssm_getParameterByName now ps name =
     get_or (default_parameter now) set_p_oid (\<lambda>(_, p). p_parameterName p = name) ps"

text \<open>
  The listing sorts by object id, then once more by name for every sort column \<open>name\<close>, and cuts
  the page with iterators. The start may not be moved outside \<open>[begin, end]\<close>, and the comparison
  of the end with \<open>size()\<close> is one of unsigned numbers.
\<close>

definition ssm_select :: "ssm_repo \<Rightarrow> string \<Rightarrow> string \<Rightarrow> sort_column list \<Rightarrow> ssm_parameter list" where
  "ssm_select ps region pre sortColumns =
     (let q = q_order_by (by_key 1 p_oid) (values_of ps);
          q = foldl (\<lambda>q sc. if sc_column sc = ''name'' then q_order_by (by_key 1 p_parameterName) q else q) q sortColumns;
          q = where_if region (\<lambda>p. p_region p = region) q in
      where_if pre (\<lambda>p. StartsWith (p_parameterName p) pre) q)"

definition ssm_listParameters :: "ssm_repo \<Rightarrow> string \<Rightarrow> string \<Rightarrow> int \<Rightarrow> int \<Rightarrow> sort_column list \<Rightarrow> ssm_parameter list outcome" where
  "ssm_listParameters ps region pre pageSize pageIndex sortColumns =
     (let result = ssm_select ps region pre sortColumns; n = length result in
      if pageSize > 0 then
        (let start = pageIndex * pageSize; stop = (pageIndex + 1) * pageSize in
         if \<not> long_ok start \<or> \<not> long_ok (pageIndex + 1) \<or> \<not> long_ok stop \<or> start < 0 \<or> start > int n
         then Inl UndefinedBehaviour
         else (let stop' = (if to_size_t stop < n then nat stop else n) in
               Inr (take (stop' - nat start) (drop (nat start) result))))
      else Inr result)"

definition ssm_countParameters :: "ssm_repo \<Rightarrow> string \<Rightarrow> string \<Rightarrow> int" where
  "ssm_countParameters ps region pre =
     (let q = values_of ps;
          q = where_if region (\<lambda>p. p_region p = region) q;
          q = where_if pre (\<lambda>p. StartsWith (p_parameterName p) pre) q in
      int (q_count q))"

definition ssm_createParameter :: "uuid \<Rightarrow> ssm_repo \<Rightarrow> ssm_parameter \<Rightarrow> ssm_repo \<times> ssm_parameter \<times> ssm_parameter" where
  "ssm_createParameter uuid ps parameter =
     (let parameter' = parameter\<lparr>p_oid := uuid\<rparr> in
      (omap_insert (p_oid parameter') parameter' ps, parameter', parameter'))"

definition ssm_updateParameter :: "ssm_repo \<Rightarrow> ssm_parameter \<Rightarrow> ssm_repo \<times> ssm_parameter" where
  "ssm_updateParameter ps parameter =
     (case replace_found (\<lambda>(_, p). p_oid p = p_oid parameter) parameter ps of
        Some r \<Rightarrow> r
      | None \<Rightarrow> (ps, parameter))"

text \<open>\<open>importParameter\<close> looks for the name, and \<open>updateParameter\<close> for the object id.\<close>

definition ssm_importParameter :: "uuid \<Rightarrow> ssm_repo \<Rightarrow> ssm_parameter \<Rightarrow> ssm_repo \<times> ssm_parameter \<times> ssm_parameter" where
  "ssm_importParameter uuid ps parameter =
     (if ssm_parameterExists ps (p_parameterName parameter)
      then (let (ps', r) = ssm_updateParameter ps parameter in (ps', parameter, r))
      else ssm_createParameter uuid ps parameter)"

definition ssm_deleteParameter :: "ssm_repo \<Rightarrow> ssm_parameter \<Rightarrow> ssm_repo \<times> int" where
  "ssm_deleteParameter ps parameter = erase_if (\<lambda>(i, _). i = p_oid parameter) ps"

definition ssm_deleteAllParameters :: "ssm_repo \<Rightarrow> ssm_repo \<times> int" where
  "ssm_deleteAllParameters ps = ([], int (length ps))"

end
