(* ===== verification/SecretsRepo.thy ===== *)
theory SecretsRepo
  imports EntityRepo
begin

text \<open>
  The in-memory secrets manager repository
  (\<open>db/src/repository/secretsmanager/SecretsManagerMemoryRepository.cpp\<close>) and its entities
  (\<open>db/include/awsmock/entity/secretsmanager\<close>). A secret holds its versions in a \<open>std::map\<close> from
  the version id; the stages of a version are labels such as \<open>AWSCURRENT\<close>.
\<close>

record secret_version =
  v_secretString :: string
  v_secretBinary :: string
  v_stages :: "string list"
  v_created :: time_point
  v_lastAccessed :: time_point

record rotation_rules =
  rr_automaticallyAfterDays :: int
  rr_duration :: string
  rr_scheduleExpression :: string

record secret =
  s_oid :: string
  s_region :: string
  s_name :: string
  s_arn :: string
  s_secretId :: string
  s_kmsKeyId :: string
  s_versions :: "secret_version omap"
  s_description :: string
  s_owningService :: string
  s_primaryRegion :: string
  s_rotationRules :: rotation_rules
  s_createdDate :: time_point
  s_deletedDate :: time_point
  s_lastAccessedDate :: time_point
  s_lastChangedDate :: time_point
  s_lastRotatedDate :: time_point
  s_nextRotatedDate :: time_point
  s_rotationEnabled :: bool
  s_rotationLambdaARN :: string
  s_created :: time_point
  s_modified :: time_point

definition default_secret_version :: "time_point \<Rightarrow> secret_version" where
  "default_secret_version now =
     \<lparr>v_secretString = [], v_secretBinary = [], v_stages = [], v_created = now, v_lastAccessed = now\<rparr>"

definition default_secret :: "time_point \<Rightarrow> secret" where
  "default_secret now =
     \<lparr>s_oid = [], s_region = [], s_name = [], s_arn = [], s_secretId = [], s_kmsKeyId = [], s_versions = [],
      s_description = [], s_owningService = [], s_primaryRegion = [],
      s_rotationRules = \<lparr>rr_automaticallyAfterDays = 0, rr_duration = [], rr_scheduleExpression = []\<rparr>,
      s_createdDate = 0, s_deletedDate = 0, s_lastAccessedDate = 0, s_lastChangedDate = 0,
      s_lastRotatedDate = 0, s_nextRotatedDate = 0, s_rotationEnabled = False,
      s_rotationLambdaARN = [], s_created = now, s_modified = now\<rparr>"

definition set_s_oid :: "string \<Rightarrow> secret \<Rightarrow> secret" where
  "set_s_oid k s = s\<lparr>s_oid := k\<rparr>"

interpretation sec_s: stamped_entity s_oid set_s_oid
  by unfold_locales (simp_all add: set_s_oid_def)

subsection \<open>Versions of a secret\<close>

definition HasVersion :: "secret \<Rightarrow> string \<Rightarrow> bool" where
  "HasVersion s versionId = found (\<lambda>(k, _). k = versionId) (s_versions s)"

definition GetVersion :: "time_point \<Rightarrow> secret \<Rightarrow> string \<Rightarrow> secret_version" where
  "GetVersion now s versionId =
     (case find_if (\<lambda>(k, _). k = versionId) (s_versions s) of
        Some (_, v) \<Rightarrow> v
      | None \<Rightarrow> default_secret_version now)"

definition GetVersionIdByStage :: "secret \<Rightarrow> string \<Rightarrow> string" where
  "GetVersionIdByStage s stage =
     (case find_if (\<lambda>(_, v). stage \<in> set (v_stages v)) (s_versions s) of
        Some (k, _) \<Rightarrow> k
      | None \<Rightarrow> [])"

definition GetCurrentVersionId :: "secret \<Rightarrow> string" where
  "GetCurrentVersionId s =
     (case find_if (\<lambda>(_, v). ''AWSCURRENT'' \<in> set (v_stages v)) (s_versions s) of
        Some (k, _) \<Rightarrow> k
      | None \<Rightarrow> [])"

definition GetPreviousVersionId :: "secret \<Rightarrow> string" where
  "GetPreviousVersionId s =
     (case find_if (\<lambda>(_, v). ''AWSPREVIOUS'' \<in> set (v_stages v)) (s_versions s) of
        Some (k, _) \<Rightarrow> k
      | None \<Rightarrow> [])"

definition ResetVersions :: "secret \<Rightarrow> string \<Rightarrow> secret" where
  "ResetVersions s versionId =
     s\<lparr>s_versions := map (\<lambda>(k, v). if k \<noteq> versionId then (k, v\<lparr>v_stages := [''AWSPREVIOUS'']\<rparr>) else (k, v)) (s_versions s)\<rparr>"

subsection \<open>The repository\<close>

type_synonym secrets_repo = "secret hmap"

definition sec_SecretExists :: "secrets_repo \<Rightarrow> string \<Rightarrow> string \<Rightarrow> bool" where
  "sec_SecretExists ss region name = found (\<lambda>(_, s). s_region s = region \<and> s_name s = name) ss"

definition sec_SecretExistsByArn :: "secrets_repo \<Rightarrow> string \<Rightarrow> bool" where
  "sec_SecretExistsByArn ss arn = found (\<lambda>(_, s). s_arn s = arn) ss"

definition sec_SecretExistsSecret :: "secrets_repo \<Rightarrow> secret \<Rightarrow> bool" where
  "sec_SecretExistsSecret ss secret = sec_SecretExists ss (s_region secret) (s_name secret)"

definition sec_SecretExistsId :: "secrets_repo \<Rightarrow> string \<Rightarrow> bool" where
  "sec_SecretExistsId ss secretId = found (\<lambda>(_, s). s_secretId s = secretId) ss"

definition sec_GetSecretById :: "time_point \<Rightarrow> secrets_repo \<Rightarrow> string \<Rightarrow> secrets_repo \<times> secret" where
  "sec_GetSecretById now ss oid = get_or (default_secret now) set_s_oid (\<lambda>(k, _). k = oid) ss"

definition sec_GetSecretByRegionName :: "time_point \<Rightarrow> secrets_repo \<Rightarrow> string \<Rightarrow> string \<Rightarrow> secrets_repo \<times> secret" where
  "sec_GetSecretByRegionName now ss region name =
     get_or (default_secret now) set_s_oid (\<lambda>(_, s). s_region s = region \<and> s_name s = name) ss"

definition sec_GetSecretBySecretId :: "time_point \<Rightarrow> secrets_repo \<Rightarrow> string \<Rightarrow> secrets_repo \<times> secret" where
  "sec_GetSecretBySecretId now ss secretId =
     get_or (default_secret now) set_s_oid (\<lambda>(_, s). s_secretId s = secretId) ss"

definition sec_GetSecretByArn :: "time_point \<Rightarrow> secrets_repo \<Rightarrow> string \<Rightarrow> secrets_repo \<times> secret" where
  "sec_GetSecretByArn now ss arn = get_or (default_secret now) set_s_oid (\<lambda>(_, s). s_arn s = arn) ss"

definition sec_CreateSecret :: "layout \<Rightarrow> uuid \<Rightarrow> time_point \<Rightarrow> secrets_repo \<Rightarrow> secret \<Rightarrow> secrets_repo \<times> secret" where
  "sec_CreateSecret lay uuid now ss secret = sec_GetSecretById now (hmap_insert lay uuid secret ss) uuid"

definition sec_UpdateSecret :: "time_point \<Rightarrow> secrets_repo \<Rightarrow> secret \<Rightarrow> secrets_repo \<times> secret" where
  "sec_UpdateSecret now ss secret =
     (case replace_found (\<lambda>(_, s). s_secretId s = s_secretId secret) secret ss of
        Some r \<Rightarrow> r
      | None \<Rightarrow> (ss, default_secret now))"

definition sec_CreateOrUpdateSecret :: "layout \<Rightarrow> uuid \<Rightarrow> time_point \<Rightarrow> secrets_repo \<Rightarrow> secret \<Rightarrow> secrets_repo \<times> secret" where
  "sec_CreateOrUpdateSecret lay uuid now ss secret =
     (if sec_SecretExistsSecret ss secret then sec_UpdateSecret now ss secret
      else sec_CreateSecret lay uuid now ss secret)"

definition sec_ListSecrets :: "secrets_repo \<Rightarrow> secret list" where
  "sec_ListSecrets ss = values_of ss"

definition sec_CountSecrets :: "secrets_repo \<Rightarrow> string \<Rightarrow> int" where
  "sec_CountSecrets ss region =
     (if region = [] then int (length ss) else count_if (\<lambda>s. s_region s = region) (values_of ss))"

definition sec_DeleteSecret :: "secrets_repo \<Rightarrow> secret \<Rightarrow> secrets_repo" where
  "sec_DeleteSecret ss secret = fst (erase_if (\<lambda>(_, s). s_region s = s_region secret \<and> s_name s = s_name secret) ss)"

definition sec_DeleteAllSecrets :: "secrets_repo \<Rightarrow> secrets_repo \<times> int" where
  "sec_DeleteAllSecrets ss = ([], int (length ss))"

end
