(* ===== verification/ConfigProps.thy ===== *)
theory ConfigProps
  imports KmsSsmRepo SecretsRepo IdentStore
begin

text \<open>
  Properties of the repositories of keys, parameters and secrets: the KMS keys against the abstract
  repository, the pages of the SSM listing, and the rotation of the versions of a secret.
\<close>

subsection \<open>KMS keys\<close>

interpretation kms_store: ident_store omap_insert omap_inv k_keyId
  by unfold_locales simp

lemma kms_upsertKey_upsert:
  "kms_upsertKey uuid ks key = (upsert omap_insert k_keyId uuid key (\<lambda>_. key) ks, key)"
proof (cases "find_if (\<lambda>(_, k). k_keyId k = k_keyId key) ks")
  case None
  then show ?thesis by (simp add: kms_upsertKey_def kms_keyExists_def kms_createKey_def found_def upsert_def)
next
  case (Some r)
  then show ?thesis
    by (cases r) (simp add: kms_upsertKey_def kms_keyExists_def kms_updateKey_def found_def replace_found_def upsert_def)
qed

lemma kms_upsertKey_refines:
  assumes "omap_inv ks" "ident_unique k_keyId ks" "uuid \<notin> keys_of ks"
  shows "by_ident k_keyId (fst (kms_upsertKey uuid ks key)) = (by_ident k_keyId ks)(k_keyId key \<mapsto> key)"
  using kms_store.upsert_refines [OF assms(1,2), of "\<lambda>_. key" key uuid] assms(3)
  by (simp add: kms_upsertKey_upsert split: option.splits)

lemma kms_deleteKey_refines:
  "ident_unique k_keyId ks \<Longrightarrow> by_ident k_keyId (kms_deleteKey ks key) = (by_ident k_keyId ks)(k_keyId key := None)"
  unfolding kms_deleteKey_def by (rule by_ident_erase)

subsection \<open>SSM parameters\<close>

lemma mset_where_if: "mset (where_if key P q) = filter_mset (\<lambda>x. key \<noteq> [] \<longrightarrow> P x) (mset q)"
  by (simp add: where_if_filter)

lemma mset_name_sorts:
  "mset (foldl (\<lambda>q sc. if sc_column sc = ''name'' then q_order_by (by_key 1 p_parameterName) q else q) q scs) = mset q"
  by (induction scs arbitrary: q) (simp_all add: q_order_by_def)

lemma mset_ssm_select:
  "mset (ssm_select ps region pre scs) =
     filter_mset (\<lambda>p. (region \<noteq> [] \<longrightarrow> p_region p = region) \<and> (pre \<noteq> [] \<longrightarrow> StartsWith (p_parameterName p) pre))
       (mset (values_of ps))"
  by (simp add: ssm_select_def mset_where_if mset_name_sorts q_order_by_def filter_filter_mset)

lemma ssm_count_select: "ssm_countParameters ps region pre = int (length (ssm_select ps region pre scs))"
proof -
  let ?q = "where_if pre (\<lambda>p. StartsWith (p_parameterName p) pre) (where_if region (\<lambda>p. p_region p = region) (values_of ps))"
  have "mset ?q = mset (ssm_select ps region pre scs)"
    by (simp add: mset_ssm_select mset_where_if filter_filter_mset)
  then have "length ?q = length (ssm_select ps region pre scs)" by (rule mset_eq_length)
  then show ?thesis by (simp add: ssm_countParameters_def q_count_def)
qed

text \<open>A page of the SSM listing is the slice of the selected parameters, which are the stored ones
  with the region and the prefix, in some order. A page that starts behind the last one, more than
  the number of matching parameters in, moves the iterator past the end, which is undefined.\<close>

theorem ssm_list_page:
  assumes "0 < pageSize" "0 \<le> pageIndex" "pageSize * (pageIndex + 1) < 2 ^ 63" "int (length ps) < 2 ^ 63"
  shows "\<exists>sel. mset sel = filter_mset (\<lambda>p. (region = [] \<or> p_region p = region) \<and>
       (pre = [] \<or> StartsWith (p_parameterName p) pre)) (mset (values_of ps)) \<and>
    ssm_listParameters ps region pre pageSize pageIndex sortColumns =
      (if pageIndex * pageSize > ssm_countParameters ps region pre then Inl UndefinedBehaviour
       else Inr (take (nat pageSize) (drop (nat (pageIndex * pageSize)) sel)))"
proof (intro exI conjI)
  let ?sel = "ssm_select ps region pre sortColumns"
  show "mset ?sel = filter_mset (\<lambda>p. (region = [] \<or> p_region p = region) \<and>
      (pre = [] \<or> StartsWith (p_parameterName p) pre)) (mset (values_of ps))"
    unfolding mset_ssm_select by (rule filter_mset_cong) auto
  have le: "0 \<le> pageIndex * pageSize" "pageIndex * pageSize \<le> (pageIndex + 1) * pageSize"
    "(pageIndex + 1) * pageSize < 2 ^ 63"
    using assms(1-3) by (simp_all add: algebra_simps)
  have "pageIndex + 1 \<le> pageSize * (pageIndex + 1)" using assms(1,2) by (simp add: mult_le_cancel_right1)
  then have ok: "long_ok (pageIndex * pageSize)" "long_ok (pageIndex + 1)" "long_ok ((pageIndex + 1) * pageSize)"
    using le assms(2,3) unfolding long_ok_def by linarith+
  have stop: "to_size_t (pageIndex * pageSize + pageSize) = nat (pageIndex * pageSize) + nat pageSize"
    using le assms(1) to_size_t_id [of "pageIndex * pageSize + pageSize"] by (simp add: distrib_right nat_add_distrib)
  show "ssm_listParameters ps region pre pageSize pageIndex sortColumns =
      (if pageIndex * pageSize > ssm_countParameters ps region pre then Inl UndefinedBehaviour
       else Inr (take (nat pageSize) (drop (nat (pageIndex * pageSize)) ?sel)))"
    using assms(1) le ok
    by (simp add: ssm_listParameters_def Let_def ssm_count_select [of _ _ _ sortColumns] distrib_right nat_add_distrib stop not_less)
qed

definition wit_parameter :: "string \<Rightarrow> ssm_parameter" where
  "wit_parameter name = (default_parameter 0)\<lparr>p_parameterName := name, p_region := ''eu''\<rparr>"

theorem ssm_list_page_witness:
  "\<exists>sel. mset sel = {#wit_parameter ''/a''#} \<and>
     ssm_listParameters [(''k1'', wit_parameter ''/a'')] ''eu'' ''/'' 5 1 [] = Inl UndefinedBehaviour"
proof -
  have "\<exists>sel. mset sel = filter_mset (\<lambda>p. (''eu'' = [] \<or> p_region p = ''eu'') \<and>
       (''/'' = [] \<or> StartsWith (p_parameterName p) ''/'')) (mset (values_of [(''k1'', wit_parameter ''/a'')])) \<and>
    ssm_listParameters [(''k1'', wit_parameter ''/a'')] ''eu'' ''/'' 5 1 [] =
      (if 1 * 5 > ssm_countParameters [(''k1'', wit_parameter ''/a'')] ''eu'' ''/'' then Inl UndefinedBehaviour
       else Inr (take (nat 5) (drop (nat (1 * 5)) sel)))"
    by (rule ssm_list_page) simp_all
  then show ?thesis
    by (simp add: wit_parameter_def default_parameter_def values_of_def StartsWith_def ssm_countParameters_def
      where_if_def q_where_def q_count_def)
qed

text \<open>\<open>importParameter\<close> with the name of a stored parameter and another object id stores nothing.\<close>

lemma ssm_import_foreign_oid:
  assumes "ssm_parameterExists ps (p_parameterName p)" "\<not> found (\<lambda>(_, q). p_oid q = p_oid p) ps"
  shows "ssm_importParameter uuid ps p = (ps, p, p)"
  using assms by (simp add: ssm_importParameter_def ssm_updateParameter_def absent_None)

subsection \<open>Secrets\<close>

text \<open>\<open>CreateOrUpdateSecret\<close> looks for region and name, and \<open>UpdateSecret\<close> for the secret id: a secret
  with a stored name and a new secret id is neither created nor updated.\<close>

lemma sec_put_lost:
  assumes "sec_SecretExists ss (s_region s) (s_name s)" "\<not> sec_SecretExistsId ss (s_secretId s)"
  shows "sec_CreateOrUpdateSecret lay uuid now ss s = (ss, default_secret now)"
  using assms
  by (simp add: sec_CreateOrUpdateSecret_def sec_SecretExistsSecret_def sec_UpdateSecret_def sec_SecretExistsId_def absent_None)

lemma map_of_ResetVersions:
  "map_of (s_versions (ResetVersions s ident)) k =
     (if k = ident then map_of (s_versions s) k
      else map_option (\<lambda>v. v\<lparr>v_stages := [''AWSPREVIOUS'']\<rparr>) (map_of (s_versions s) k))"
proof -
  have "map_of (map (\<lambda>(k, v). if k \<noteq> ident then (k, v\<lparr>v_stages := [''AWSPREVIOUS'']\<rparr>) else (k, v)) m) k =
     (if k = ident then map_of m k else map_option (\<lambda>v. v\<lparr>v_stages := [''AWSPREVIOUS'']\<rparr>) (map_of m k))"
    for m :: "secret_version omap"
    by (induction m) auto
  then show ?thesis by (simp add: ResetVersions_def)
qed

lemma omap_inv_ResetVersions: "omap_inv (s_versions s) \<Longrightarrow> omap_inv (s_versions (ResetVersions s ident))"
proof -
  have keys: "map fst (map (\<lambda>(k, v). if k \<noteq> ident then (k, v\<lparr>v_stages := [''AWSPREVIOUS'']\<rparr>) else (k, v)) m) = map fst m"
    for m :: "secret_version omap"
    by (induction m) auto
  have "map fst (s_versions (ResetVersions s ident)) = map fst (s_versions s)"
    unfolding ResetVersions_def using keys [of "s_versions s"] by (simp del: map_map)
  then show "omap_inv (s_versions s) \<Longrightarrow> omap_inv (s_versions (ResetVersions s ident))"
    by (simp only: omap_inv_def)
qed

text \<open>When the version that becomes current has the label \<open>AWSCURRENT\<close>, resetting the others leaves
  exactly that one current: it is the one \<open>GetCurrentVersionId\<close> finds, every other version is
  \<open>AWSPREVIOUS\<close> and nothing else, and no version's secret changes.\<close>

theorem sec_reset_versions_current:
  assumes inv: "omap_inv (s_versions s)" and cur: "map_of (s_versions s) ident = Some v" "''AWSCURRENT'' \<in> set (v_stages v)"
  shows "GetCurrentVersionId (ResetVersions s ident) = ident \<and>
    omap_inv (s_versions (ResetVersions s ident)) \<and>
    map_of (s_versions (ResetVersions s ident)) =
      (\<lambda>k. map_option (\<lambda>w. w\<lparr>v_stages := [''AWSPREVIOUS'']\<rparr>) (map_of (s_versions s) k))(ident \<mapsto> v)"
proof (intro conjI)
  let ?m = "s_versions (ResetVersions s ident)"
  note inv' = omap_inv_ResetVersions [OF inv, of ident]
  show "omap_inv ?m" by (rule inv')
  show lookup: "map_of ?m = (\<lambda>k. map_option (\<lambda>w. w\<lparr>v_stages := [''AWSPREVIOUS'']\<rparr>) (map_of (s_versions s) k))(ident \<mapsto> v)"
    using cur(1) by (simp add: fun_eq_iff map_of_ResetVersions)
  let ?P = "\<lambda>(_::string, w). ''AWSCURRENT'' \<in> set (v_stages w)"
  have "(ident, v) \<in> set ?m" using inv' lookup by (simp add: wf_in_map_of omap_inv_wf)
  then have "found ?P ?m" using cur(2) unfolding found_iff by blast
  then obtain k w where kw: "find_if ?P ?m = Some (k, w)" by (auto simp: found_def)
  then have mem: "(k, w) \<in> set ?m" "''AWSCURRENT'' \<in> set (v_stages w)" by (auto dest: find_if_SomeD)
  have "k = ident"
  proof (rule ccontr)
    assume "k \<noteq> ident"
    moreover have "map_of ?m k = Some w" using mem(1) inv' by (simp add: wf_in_map_of omap_inv_wf)
    ultimately have "v_stages w = [''AWSPREVIOUS'']" by (auto simp: lookup)
    with mem(2) show False by simp
  qed
  with kw show "GetCurrentVersionId (ResetVersions s ident) = ident" by (simp add: GetCurrentVersionId_def)
qed

definition wit_version :: "string \<Rightarrow> secret_version" where
  "wit_version stage = (default_secret_version 0)\<lparr>v_stages := [stage]\<rparr>"

definition wit_secret :: secret where
  "wit_secret = (default_secret 0)\<lparr>s_versions := [(''v1'', wit_version ''AWSCURRENT''), (''v2'', wit_version ''AWSCURRENT'')]\<rparr>"

theorem sec_reset_versions_current_witness:
  "GetCurrentVersionId (ResetVersions wit_secret ''v2'') = ''v2''"
proof -
  have "omap_inv (s_versions wit_secret)" "map_of (s_versions wit_secret) ''v2'' = Some (wit_version ''AWSCURRENT'')"
    "''AWSCURRENT'' \<in> set (v_stages (wit_version ''AWSCURRENT''))"
    by (simp_all add: wit_secret_def wit_version_def)
  from sec_reset_versions_current [OF this] show ?thesis by blast
qed

end
