(* ===== verification/ModuleRepo.thy ===== *)
theory ModuleRepo
  imports EntityRepo AwsUtils
begin

text \<open>
  The in-memory module repository (\<open>db/src/repository/module/ModuleMemoryRepository.cpp\<close>,
  \<open>db/include/awsmock/entity/module\<close>), which keeps the state, port and log level of the services
  in a \<open>std::unordered_map\<close>, and the in-memory monitoring repository
  (\<open>db/src/repository/monitoring/MonitoringMemoryRepository.cpp\<close>), which keeps nothing.
\<close>

subsection \<open>Modules\<close>

datatype module_state = MOD_STOPPED | MOD_STARTING | MOD_RUNNING | MOD_SUSPENDED | MOD_UNKNOWN

definition module_state_names :: "(module_state \<times> string) list" where
  "module_state_names =
     [(MOD_STOPPED, ''STOPPED''), (MOD_STARTING, ''STARTING''), (MOD_RUNNING, ''RUNNING''),
      (MOD_SUSPENDED, ''SUSPENDED''), (MOD_UNKNOWN, ''UNKNOWN'')]"

definition ModuleStateToString :: "module_state \<Rightarrow> string" where
  "ModuleStateToString s = enum_to_string module_state_names s"

definition ModuleStateFromString :: "string \<Rightarrow> module_state" where
  "ModuleStateFromString s = enum_from_string module_state_names MOD_UNKNOWN s"

datatype module_status = INACTIVE | ACTIVE | STATUS_UNKNOWN

definition module_status_names :: "(module_status \<times> string) list" where
  "module_status_names = [(INACTIVE, ''INACTIVE''), (ACTIVE, ''ACTIVE''), (STATUS_UNKNOWN, ''UNKNOWN'')]"

definition ModuleStatusToString :: "module_status \<Rightarrow> string" where
  "ModuleStatusToString s = enum_to_string module_status_names s"

definition ModuleStatusFromString :: "string \<Rightarrow> module_status" where
  "ModuleStatusFromString s = enum_from_string module_status_names STATUS_UNKNOWN s"

record mod_module =
  md_oid :: string
  md_name :: string
  md_state :: module_state
  md_status :: module_status
  md_port :: int
  md_logChannel :: string
  md_logLevel :: string
  md_created :: time_point
  md_modified :: time_point

definition set_md_oid :: "string \<Rightarrow> mod_module \<Rightarrow> mod_module" where
  "set_md_oid k m = m\<lparr>md_oid := k\<rparr>"

interpretation mod_m: stamped_entity md_oid set_md_oid
  by unfold_locales (simp_all add: set_md_oid_def)

type_synonym module_repo = "mod_module hmap"

definition named :: "string \<Rightarrow> string \<times> mod_module \<Rightarrow> bool" where
  "named name = (\<lambda>(_, m). md_name m = name)"

definition mod_moduleExists :: "module_repo \<Rightarrow> string \<Rightarrow> bool" where
  "mod_moduleExists ms name = found (named name) ms"

definition mod_isActive :: "module_repo \<Rightarrow> string \<Rightarrow> bool" where
  "mod_isActive ms name = found (\<lambda>(_, m). md_name m = name \<and> md_status m = ACTIVE) ms"

definition mod_getModuleById :: "module_repo \<Rightarrow> string \<Rightarrow> (module_repo \<times> mod_module) outcome" where
  "mod_getModuleById ms oid =
     get_or_throw (DatabaseException (''Get module by ID failed, oid: '' @ oid)) set_md_oid (\<lambda>(k, _). k = oid) ms"

definition mod_getModuleByName :: "module_repo \<Rightarrow> string \<Rightarrow> (module_repo \<times> mod_module) outcome" where
  "mod_getModuleByName ms name =
     get_or_throw (DatabaseException (''Get module by name failed, oid: '' @ name)) set_md_oid (named name) ms"

definition mod_getAllModuleNames :: "module_repo \<Rightarrow> string list" where
  "mod_getAllModuleNames ms = map md_name (values_of ms)"

definition mod_getState :: "module_repo \<Rightarrow> string \<Rightarrow> (module_repo \<times> module_state) outcome" where
  "mod_getState ms name =
     (case mod_getModuleByName ms name of Inl e \<Rightarrow> Inl e | Inr (ms', m) \<Rightarrow> Inr (ms', md_state m))"

definition mod_createModule :: "layout \<Rightarrow> uuid \<Rightarrow> module_repo \<Rightarrow> mod_module \<Rightarrow> module_repo \<times> mod_module" where
  "mod_createModule lay uuid ms m = (hmap_insert lay uuid m ms, m)"

definition mod_updateModule :: "module_repo \<Rightarrow> mod_module \<Rightarrow> (module_repo \<times> mod_module) outcome" where
  "mod_updateModule ms m =
     or_throw (''Update module failed, module: '' @ md_name m) (replace_found (named (md_name m)) m ms)"

definition mod_createOrUpdateModule :: "layout \<Rightarrow> uuid \<Rightarrow> module_repo \<Rightarrow> mod_module \<Rightarrow> (module_repo \<times> mod_module) outcome" where
  "mod_createOrUpdateModule lay uuid ms m =
     (if mod_moduleExists ms (md_name m) then mod_updateModule ms m else Inr (mod_createModule lay uuid ms m))"

definition mod_listModules :: "module_repo \<Rightarrow> mod_module list" where
  "mod_listModules ms = values_of ms"

definition mod_set :: "string \<Rightarrow> (mod_module \<Rightarrow> mod_module) \<Rightarrow> string \<Rightarrow> module_repo \<Rightarrow> module_repo outcome" where
  "mod_set msg f name ms =
     (case or_throw (msg @ name) (modify_found (named name) f ms) of Inl e \<Rightarrow> Inl e | Inr (ms', _) \<Rightarrow> Inr ms')"

definition mod_setState :: "module_repo \<Rightarrow> string \<Rightarrow> module_state \<Rightarrow> module_repo outcome" where
  "mod_setState ms name state = mod_set ''Set state failed, module: '' (\<lambda>m. m\<lparr>md_state := state\<rparr>) name ms"

definition mod_setStatus :: "module_repo \<Rightarrow> string \<Rightarrow> module_status \<Rightarrow> module_repo outcome" where
  "mod_setStatus ms name status = mod_set ''Set status failed, module: '' (\<lambda>m. m\<lparr>md_status := status\<rparr>) name ms"

definition mod_setModulePort :: "module_repo \<Rightarrow> string \<Rightarrow> int \<Rightarrow> module_repo outcome" where
  "mod_setModulePort ms name port = mod_set ''Set port failed, module: '' (\<lambda>m. m\<lparr>md_port := port\<rparr>) name ms"

definition mod_moduleCount :: "module_repo \<Rightarrow> int" where
  "mod_moduleCount ms = int (length ms)"

definition mod_deleteModule :: "module_repo \<Rightarrow> mod_module \<Rightarrow> module_repo" where
  "mod_deleteModule ms m = fst (erase_if (named (md_name m)) ms)"

definition mod_setModuleLoglevel :: "module_repo \<Rightarrow> string \<Rightarrow> string \<Rightarrow> (module_repo \<times> int) outcome" where
  "mod_setModuleLoglevel ms name level =
     (case mod_set ''Set logLevel failed, module: '' (\<lambda>m. m\<lparr>md_logLevel := level\<rparr>) name ms of
        Inl e \<Rightarrow> Inl e
      | Inr ms' \<Rightarrow> Inr (ms', 1))"

definition mod_setAllModulesLoglevel :: "module_repo \<Rightarrow> string \<Rightarrow> module_repo \<times> int" where
  "mod_setAllModulesLoglevel ms level = (map (\<lambda>(k, m). (k, m\<lparr>md_logLevel := level\<rparr>)) ms, int (length ms))"

definition mod_deleteAllModules :: "module_repo \<Rightarrow> module_repo \<times> int" where
  "mod_deleteAllModules ms = ([], int (length ms))"

definition mod_setModuleLogChannelAndLevel :: "module_repo \<Rightarrow> string \<Rightarrow> string \<Rightarrow> string \<Rightarrow> module_repo outcome" where
  "mod_setModuleLogChannelAndLevel ms name channel level =
     mod_set ''Set logChannel/logLevel failed, module: '' (\<lambda>m. m\<lparr>md_logChannel := channel, md_logLevel := level\<rparr>) name ms"

subsection \<open>Monitoring\<close>

text \<open>The in-memory monitoring repository answers every query with nothing.\<close>

record mon_counter =
  mc_oid :: string
  mc_name :: string
  mc_labelName :: string
  mc_labelValue :: string

definition mon_getDistinctLabelValues :: "string \<Rightarrow> string \<Rightarrow> int \<Rightarrow> time_point \<Rightarrow> time_point \<Rightarrow> string list" where
  "mon_getDistinctLabelValues name labelName limit start stop = []"

definition mon_getMonitoringValues :: "string \<Rightarrow> time_point \<Rightarrow> time_point \<Rightarrow> int \<Rightarrow> string \<Rightarrow> string \<Rightarrow> int \<Rightarrow> mon_counter list" where
  "mon_getMonitoringValues name start stop step labelName labelValue limit = []"

definition mon_deleteOldMonitoringData :: "int \<Rightarrow> int" where
  "mon_deleteOldMonitoringData retentionPeriod = 0"

text \<open>
  \<open>GetIdValues\<close> splits \<open>name:labelName:labelValue\<close>; with exactly one colon it reads past the end
  of the parts.
\<close>

definition GetIdValues :: "(string \<Rightarrow> string \<Rightarrow> string list) \<Rightarrow> string \<Rightarrow> string \<times> string \<times> string \<Rightarrow> (string \<times> string \<times> string) outcome" where
  "GetIdValues split ident outs =
     (let keys = split ident '':'' in
      if length keys = 1 then Inr (keys ! 0, fst (snd outs), snd (snd outs))
      else if length keys < 3 then Inl UndefinedBehaviour
      else Inr (keys ! 0, keys ! 1, keys ! 2))"

end
