(* ===== verification/ApiGatewayRepo.thy ===== *)
theory ApiGatewayRepo
  imports Complex_Main EntityRepo
begin

text \<open>
  The in-memory API gateway repository
  (\<open>db/src/repository/apigateway/ApiGatewayMemoryRepository.cpp\<close>,
  \<open>db/include/awsmock/entity/apigateway\<close>): API keys, REST APIs and usage plans in three
  \<open>std::unordered_map\<close>s. A finite \<open>double\<close> is the rational number it denotes.
\<close>

subsection \<open>Entities\<close>

datatype api_key_source = HEADER | AUTHORIZER | SOURCE_UNKNOWN

definition api_key_source_names :: "(api_key_source \<times> string) list" where
  "api_key_source_names = [(HEADER, ''HEADER''), (AUTHORIZER, ''AUTHORIZER''), (SOURCE_UNKNOWN, ''UNKNOWN'')]"

definition ApiKeySourceTypeToString :: "api_key_source \<Rightarrow> string" where
  "ApiKeySourceTypeToString t = enum_to_string api_key_source_names t"

definition ApiKeySourceTypeFromString :: "string \<Rightarrow> api_key_source" where
  "ApiKeySourceTypeFromString s = enum_from_string api_key_source_names SOURCE_UNKNOWN s"

datatype api_status = API_UPDATING | API_AVAILABLE | API_PENDING | API_FAILED | API_UNKNOWN

definition api_status_names :: "(api_status \<times> string) list" where
  "api_status_names =
     [(API_UPDATING, ''UPDATING''), (API_AVAILABLE, ''AVAILABLE''), (API_PENDING, ''PENDING''),
      (API_FAILED, ''FAILED''), (API_UNKNOWN, ''UNKNOWN'')]"

definition ApiStatusToString :: "api_status \<Rightarrow> string" where
  "ApiStatusToString t = enum_to_string api_status_names t"

definition ApiSourceFromString :: "string \<Rightarrow> api_status" where
  "ApiSourceFromString s = enum_from_string api_status_names API_UNKNOWN s"

record api_key =
  ak_oid :: string
  ak_id :: string
  ak_region :: string
  ak_name :: string
  ak_customerId :: string
  ak_description :: string
  ak_enabled :: bool
  ak_generateDistinct :: bool
  ak_tags :: "(string \<times> string) list"
  ak_usagePlanId :: string
  ak_keyValue :: string
  ak_created :: time_point
  ak_modified :: time_point

record authorizer =
  au_id :: string
  au_name :: string
  au_type :: string
  au_authType :: string
  au_authorizerUri :: string
  au_identitySource :: string
  au_authorizerResultTtlInSeconds :: int
  au_created :: time_point
  au_modified :: time_point

record resource_method =
  rm_apiKeyRequired :: bool
  rm_httpMethod :: string
  rm_integrationType :: string
  rm_integrationUri :: string
  rm_integrationHttpMethod :: string

record api_resource =
  rs_id :: string
  rs_parentId :: string
  rs_path :: string
  rs_pathPart :: string
  rs_url :: string
  rs_resourceMethods :: "(string \<times> resource_method) list"
  rs_created :: time_point
  rs_modified :: time_point

record rest_api =
  ra_oid :: string
  ra_region :: string
  ra_id :: string
  ra_name :: string
  ra_description :: string
  ra_endpointUrl :: string
  ra_apiKeySource :: api_key_source
  ra_cloneFrom :: string
  ra_version :: string
  ra_policy :: string
  ra_rootResourceId :: string
  ra_authorizers :: "(string \<times> authorizer) list"
  ra_resources :: "(string \<times> api_resource) list"
  ra_tags :: "(string \<times> string) list"
  ra_binaryMediaTypes :: "string list"
  ra_warnings :: "string list"
  ra_disableExecuteApiEndpoint :: bool
  ra_minimumCompressionSize :: int
  ra_enabled :: bool
  ra_apiStatus :: api_status
  ra_created :: time_point
  ra_modified :: time_point

record usage_plan_quota =
  uq_limit :: int
  uq_offset :: int
  uq_period :: string

record usage_plan_throttle =
  ut_burstLimit :: int
  ut_rateLimit :: rat

record usage_plan =
  pl_oid :: string
  pl_region :: string
  pl_id :: string
  pl_name :: string
  pl_description :: string
  pl_quota :: usage_plan_quota
  pl_throttle :: usage_plan_throttle
  pl_tags :: "(string \<times> string) list"
  pl_created :: time_point
  pl_modified :: time_point

definition default_api_key :: "time_point \<Rightarrow> api_key" where
  "default_api_key now =
     \<lparr>ak_oid = [], ak_id = [], ak_region = [], ak_name = [], ak_customerId = [], ak_description = [],
      ak_enabled = False, ak_generateDistinct = False, ak_tags = [], ak_usagePlanId = [],
      ak_keyValue = [], ak_created = now, ak_modified = now\<rparr>"

definition default_rest_api :: "time_point \<Rightarrow> rest_api" where
  "default_rest_api now =
     \<lparr>ra_oid = [], ra_region = [], ra_id = [], ra_name = [], ra_description = [], ra_endpointUrl = [],
      ra_apiKeySource = HEADER, ra_cloneFrom = [], ra_version = [], ra_policy = [],
      ra_rootResourceId = [], ra_authorizers = [], ra_resources = [], ra_tags = [],
      ra_binaryMediaTypes = [], ra_warnings = [], ra_disableExecuteApiEndpoint = False,
      ra_minimumCompressionSize = 0, ra_enabled = False, ra_apiStatus = API_UNKNOWN,
      ra_created = now, ra_modified = now\<rparr>"

definition set_ak_oid :: "string \<Rightarrow> api_key \<Rightarrow> api_key" where
  "set_ak_oid k a = a\<lparr>ak_oid := k\<rparr>"

definition set_ra_oid :: "string \<Rightarrow> rest_api \<Rightarrow> rest_api" where
  "set_ra_oid k a = a\<lparr>ra_oid := k\<rparr>"

definition set_pl_oid :: "string \<Rightarrow> usage_plan \<Rightarrow> usage_plan" where
  "set_pl_oid k a = a\<lparr>pl_oid := k\<rparr>"

interpretation api_k: stamped_entity ak_oid set_ak_oid
  by unfold_locales (simp_all add: set_ak_oid_def)

interpretation api_r: stamped_entity ra_oid set_ra_oid
  by unfold_locales (simp_all add: set_ra_oid_def)

interpretation api_p: stamped_entity pl_oid set_pl_oid
  by unfold_locales (simp_all add: set_pl_oid_def)

definition resourceExists :: "rest_api \<Rightarrow> string \<Rightarrow> bool" where
  "resourceExists a pathPart = list_ex (\<lambda>(_, r). rs_pathPart r = pathPart) (ra_resources a)"

record apigw_repo =
  apiKeys :: "api_key hmap"
  restApis :: "rest_api hmap"
  usagePlans :: "usage_plan hmap"

definition api_inv :: "apigw_repo \<Rightarrow> bool" where
  "api_inv st \<longleftrightarrow> wf_store (apiKeys st) \<and> wf_store (restApis st) \<and> wf_store (usagePlans st)"

subsection \<open>API keys\<close>

definition api_apiKeyExistsName :: "apigw_repo \<Rightarrow> string \<Rightarrow> string \<Rightarrow> bool" where
  "api_apiKeyExistsName st region name = found (\<lambda>(_, k). ak_region k = region \<and> ak_name k = name) (apiKeys st)"

definition api_apiKeyExists :: "apigw_repo \<Rightarrow> string \<Rightarrow> bool" where
  "api_apiKeyExists st ident = found (\<lambda>(_, k). ak_id k = ident) (apiKeys st)"

definition api_createKey :: "layout \<Rightarrow> uuid \<Rightarrow> apigw_repo \<Rightarrow> api_key \<Rightarrow> apigw_repo \<times> api_key" where
  "api_createKey lay uuid st key =
     (let key' = key\<lparr>ak_oid := uuid\<rparr> in
      (st\<lparr>apiKeys := hmap_insert lay (ak_oid key') key' (apiKeys st)\<rparr>, key'))"

definition api_listApiKeysQuery :: "apigw_repo \<Rightarrow> string \<Rightarrow> string \<Rightarrow> string \<Rightarrow> int \<Rightarrow> api_key list" where
  "api_listApiKeysQuery st nameQuery customerId position limit =
     (let q = q_order_by (by_key 1 ak_id) (values_of (apiKeys st));
          q = where_if nameQuery (\<lambda>k. ak_name k = nameQuery) q;
          q = where_if customerId (\<lambda>k. ak_customerId k = customerId) q in
      where_if position (\<lambda>k. ak_id k > position) q)"

definition api_listApiKeys :: "apigw_repo \<Rightarrow> api_key list" where
  "api_listApiKeys st = api_listApiKeysQuery st [] [] [] 0"

definition api_getApiKeyById :: "time_point \<Rightarrow> apigw_repo \<Rightarrow> string \<Rightarrow> api_key" where
  "api_getApiKeyById now st ident =
     (case find_if (\<lambda>(_, k). ak_id k = ident) (apiKeys st) of Some (_, k) \<Rightarrow> k | None \<Rightarrow> default_api_key now)"

definition api_updateApiKey :: "apigw_repo \<Rightarrow> api_key \<Rightarrow> apigw_repo \<times> api_key" where
  "api_updateApiKey st key =
     (case replace_found (\<lambda>(_, k). ak_id k = ak_id key) key (apiKeys st) of
        Some (ks, r) \<Rightarrow> (st\<lparr>apiKeys := ks\<rparr>, r)
      | None \<Rightarrow> (st, key))"

definition api_importApiKey :: "layout \<Rightarrow> uuid \<Rightarrow> apigw_repo \<Rightarrow> api_key \<Rightarrow> apigw_repo \<times> api_key" where
  "api_importApiKey lay uuid st key =
     (if api_apiKeyExists st (ak_id key) then api_updateApiKey st key else api_createKey lay uuid st key)"

definition api_countApiKeys :: "apigw_repo \<Rightarrow> int" where
  "api_countApiKeys st = int (length (apiKeys st))"

definition api_deleteKey :: "apigw_repo \<Rightarrow> string \<Rightarrow> apigw_repo" where
  "api_deleteKey st ident = st\<lparr>apiKeys := fst (erase_if (\<lambda>(_, k). ak_id k = ident) (apiKeys st))\<rparr>"

definition api_deleteAllKeys :: "apigw_repo \<Rightarrow> apigw_repo \<times> int" where
  "api_deleteAllKeys st = (st\<lparr>apiKeys := []\<rparr>, int (length (apiKeys st)))"

text \<open>The sort columns \<open>id\<close> and \<open>name\<close> of the counters' listings sort the whole list, one after the other.\<close>

definition sort_id_name :: "('a \<Rightarrow> string) \<Rightarrow> ('a \<Rightarrow> string) \<Rightarrow> sort_column list \<Rightarrow> 'a list \<Rightarrow> 'a list" where
  "sort_id_name id_of name_of sortColumns q =
     foldl (\<lambda>q sc.
       (let q = (if sc_column sc = ''id'' then q_order_by (by_key 1 id_of) q else q) in
        if sc_column sc = ''name'' then q_order_by (by_key 1 name_of) q else q)) q sortColumns"

definition api_listApiKeyCounters :: "apigw_repo \<Rightarrow> string \<Rightarrow> int \<Rightarrow> int \<Rightarrow> sort_column list \<Rightarrow> api_key list outcome" where
  "api_listApiKeyCounters st pre pageSize pageIndex sortColumns =
     (let q = sort_id_name ak_id ak_name sortColumns (values_of (apiKeys st));
          q = where_if pre (\<lambda>k. StartsWith (ak_name k) pre) q in
      PageVector q pageSize pageIndex)"

subsection \<open>REST APIs\<close>

definition api_restApiExistsName :: "apigw_repo \<Rightarrow> string \<Rightarrow> string \<Rightarrow> bool" where
  "api_restApiExistsName st region name = found (\<lambda>(_, a). ra_region a = region \<and> ra_name a = name) (restApis st)"

definition api_restApiExists :: "apigw_repo \<Rightarrow> string \<Rightarrow> bool" where
  "api_restApiExists st ident = found (\<lambda>(k, _). k = ident) (restApis st)"

definition api_restApiExistsByRestApiId :: "apigw_repo \<Rightarrow> string \<Rightarrow> bool" where
  "api_restApiExistsByRestApiId st restApiId = found (\<lambda>(_, a). ra_id a = restApiId) (restApis st)"

definition api_createRestApi :: "layout \<Rightarrow> uuid \<Rightarrow> apigw_repo \<Rightarrow> rest_api \<Rightarrow> apigw_repo \<times> rest_api" where
  "api_createRestApi lay uuid st a =
     (let a' = a\<lparr>ra_oid := uuid\<rparr> in (st\<lparr>restApis := hmap_insert lay uuid a' (restApis st)\<rparr>, a'))"

definition api_upsertRestApi :: "layout \<Rightarrow> uuid \<Rightarrow> apigw_repo \<Rightarrow> rest_api \<Rightarrow> apigw_repo \<times> rest_api" where
  "api_upsertRestApi lay uuid st a =
     (case find_if (\<lambda>(_, x). ra_region x = ra_region a \<and> ra_id x = ra_id a) (restApis st) of
        Some (k, _) \<Rightarrow> (let a' = a\<lparr>ra_oid := k\<rparr> in (st\<lparr>restApis := assign k a' (restApis st)\<rparr>, a'))
      | None \<Rightarrow> (let a' = a\<lparr>ra_oid := uuid\<rparr> in (st\<lparr>restApis := hmap_insert lay uuid a' (restApis st)\<rparr>, a')))"

definition api_importRestApis :: "layout \<Rightarrow> uuid \<Rightarrow> apigw_repo \<Rightarrow> rest_api \<Rightarrow> apigw_repo \<times> rest_api" where
  "api_importRestApis lay uuid st a = api_upsertRestApi lay uuid st a"

definition api_listRestApisRegion :: "apigw_repo \<Rightarrow> string \<Rightarrow> rest_api list" where
  "api_listRestApisRegion st region = where_if region (\<lambda>a. ra_region a = region) (values_of (restApis st))"

definition api_listRestApis :: "apigw_repo \<Rightarrow> rest_api list" where
  "api_listRestApis st = api_listRestApisRegion st []"

definition api_listRestApiCounters :: "apigw_repo \<Rightarrow> string \<Rightarrow> int \<Rightarrow> int \<Rightarrow> sort_column list \<Rightarrow> rest_api list outcome" where
  "api_listRestApiCounters st pre pageSize pageIndex sortColumns =
     (let q = sort_id_name ra_id ra_name sortColumns (values_of (restApis st));
          q = where_if pre (\<lambda>a. StartsWith (ra_name a) pre) q in
      PageVector q pageSize pageIndex)"

text \<open>With a prefix, \<open>countRestApis\<close> keeps the APIs whose name starts with the region.\<close>

definition api_countRestApis :: "apigw_repo \<Rightarrow> string \<Rightarrow> string \<Rightarrow> int" where
  "api_countRestApis st region pre =
     (let q = values_of (restApis st);
          q = where_if region (\<lambda>a. ra_region a = region) q;
          q = where_if pre (\<lambda>a. StartsWith (ra_name a) region) q in
      int (q_count q))"

definition api_getRestApiByName :: "time_point \<Rightarrow> apigw_repo \<Rightarrow> string \<Rightarrow> string \<Rightarrow> rest_api" where
  "api_getRestApiByName now st region name =
     (case find_if (\<lambda>(_, a). ra_region a = region \<and> ra_name a = name) (restApis st) of
        Some (_, a) \<Rightarrow> a
      | None \<Rightarrow> default_rest_api now)"

definition api_getRestApi :: "time_point \<Rightarrow> apigw_repo \<Rightarrow> string \<Rightarrow> rest_api" where
  "api_getRestApi now st restApiId =
     (case find_if (\<lambda>(_, a). ra_id a = restApiId) (restApis st) of Some (_, a) \<Rightarrow> a | None \<Rightarrow> default_rest_api now)"

definition api_deleteRestApiByName :: "apigw_repo \<Rightarrow> string \<Rightarrow> string \<Rightarrow> apigw_repo \<times> int" where
  "api_deleteRestApiByName st region name =
     (let r = erase_if (\<lambda>(_, a). ra_region a = region \<and> ra_name a = name) (restApis st) in
      (st\<lparr>restApis := fst r\<rparr>, snd r))"

definition api_deleteRestApi :: "apigw_repo \<Rightarrow> string \<Rightarrow> apigw_repo \<times> int" where
  "api_deleteRestApi st restApiId =
     (let r = erase_if (\<lambda>(_, a). ra_id a = restApiId) (restApis st) in (st\<lparr>restApis := fst r\<rparr>, snd r))"

subsection \<open>Usage plans\<close>

definition api_usagePlanExists :: "apigw_repo \<Rightarrow> string \<Rightarrow> bool" where
  "api_usagePlanExists st ident = found (\<lambda>(_, p). pl_id p = ident) (usagePlans st)"

definition api_createUsagePlan :: "layout \<Rightarrow> uuid \<Rightarrow> apigw_repo \<Rightarrow> usage_plan \<Rightarrow> apigw_repo \<times> usage_plan" where
  "api_createUsagePlan lay uuid st p =
     (let p' = p\<lparr>pl_oid := uuid\<rparr> in
      (st\<lparr>usagePlans := hmap_insert lay (pl_oid p') p' (usagePlans st)\<rparr>, p'))"

definition api_getUsagePlanById :: "apigw_repo \<Rightarrow> string \<Rightarrow> usage_plan outcome" where
  "api_getUsagePlanById st ident =
     or_throw (''Usage plan not found, id: '' @ ident)
       (map_option snd (find_if (\<lambda>(_, p). pl_id p = ident) (usagePlans st)))"

definition api_listUsagePlans :: "apigw_repo \<Rightarrow> usage_plan list" where
  "api_listUsagePlans st = values_of (usagePlans st)"

definition api_listUsagePlanCounters :: "apigw_repo \<Rightarrow> string \<Rightarrow> int \<Rightarrow> int \<Rightarrow> sort_column list \<Rightarrow> usage_plan list outcome" where
  "api_listUsagePlanCounters st pre pageSize pageIndex sortColumns =
     (let q = sort_id_name pl_id pl_name sortColumns (values_of (usagePlans st));
          q = where_if pre (\<lambda>p. StartsWith (pl_name p) pre) q in
      PageVector q pageSize pageIndex)"

definition api_countUsagePlans :: "apigw_repo \<Rightarrow> string \<Rightarrow> string \<Rightarrow> int" where
  "api_countUsagePlans st region pre =
     (let q = values_of (usagePlans st);
          q = where_if region (\<lambda>p. pl_region p = region) q;
          q = where_if pre (\<lambda>p. StartsWith (pl_name p) pre) q in
      int (q_count q))"

definition api_deleteUsagePlan :: "apigw_repo \<Rightarrow> string \<Rightarrow> apigw_repo" where
  "api_deleteUsagePlan st ident = st\<lparr>usagePlans := fst (erase_if (\<lambda>(_, p). pl_id p = ident) (usagePlans st))\<rparr>"

definition api_upsertUsagePlan :: "layout \<Rightarrow> uuid \<Rightarrow> time_point \<Rightarrow> apigw_repo \<Rightarrow> usage_plan \<Rightarrow> apigw_repo \<times> usage_plan" where
  "api_upsertUsagePlan lay uuid now st p =
     (case find_if (\<lambda>(_, x). pl_region x = pl_region p \<and> pl_id x = pl_id p) (usagePlans st) of
        Some (k, _) \<Rightarrow>
          (let p' = p\<lparr>pl_oid := k, pl_modified := now\<rparr> in (st\<lparr>usagePlans := assign k p' (usagePlans st)\<rparr>, p'))
      | None \<Rightarrow>
          (let p' = p\<lparr>pl_oid := uuid, pl_created := now\<rparr> in
           (st\<lparr>usagePlans := hmap_insert lay (pl_oid p') p' (usagePlans st)\<rparr>, p')))"

definition api_importUsagePlan :: "layout \<Rightarrow> uuid \<Rightarrow> time_point \<Rightarrow> apigw_repo \<Rightarrow> usage_plan \<Rightarrow> apigw_repo \<times> usage_plan" where
  "api_importUsagePlan lay uuid now st p = api_upsertUsagePlan lay uuid now st p"

definition api_deleteAllUsagePlans :: "apigw_repo \<Rightarrow> apigw_repo \<times> int" where
  "api_deleteAllUsagePlans st = (st\<lparr>usagePlans := []\<rparr>, int (length (usagePlans st)))"

end
