(* ===== verification/PlatformProps.thy ===== *)
theory PlatformProps
  imports ModuleRepo ApiGatewayRepo IdentStore
begin

text \<open>
  Properties of the repositories the platform itself uses: the modules, which hold the state of
  the services, and the REST APIs of the gateway.
\<close>

subsection \<open>Modules\<close>

interpretation mod_store: ident_store "hmap_insert lay" wf_store md_name for lay
  by unfold_locales simp

lemma named_ident: "named n = (\<lambda>(_, m). md_name m = n)"
  by (simp add: named_def)

lemma mod_put_upsert:
  "mod_createOrUpdateModule lay uuid ms m = Inr (upsert (hmap_insert lay) md_name uuid m (\<lambda>_. m) ms, m)"
proof (cases "find_if (\<lambda>(_, x). md_name x = md_name m) ms")
  case None
  then show ?thesis
    by (simp add: mod_createOrUpdateModule_def mod_moduleExists_def mod_createModule_def named_ident found_def upsert_def)
next
  case (Some r)
  then show ?thesis
    by (cases r) (simp add: mod_createOrUpdateModule_def mod_moduleExists_def mod_updateModule_def named_ident found_def
      replace_found_def upsert_def or_throw_def)
qed

text \<open>A change of the entry of a name that keeps the name.\<close>

lemma mod_set_refines:
  assumes inv: "wf_store ms" "ident_unique md_name ms" and keeps: "\<And>m. md_name (f m) = md_name m"
    and old: "by_ident md_name ms name = Some m"
  shows "\<exists>ms'. mod_set msg f name ms = Inr ms' \<and> wf_store ms' \<and> ident_unique md_name ms' \<and>
    by_ident md_name ms' = (by_ident md_name ms)(name \<mapsto> f m)"
proof -
  obtain k where hit: "find_if (named name) ms = Some (k, m)"
    using old by (auto simp: by_ident_def named_ident)
  have mem: "(k, m) \<in> set ms" "md_name m = name" using find_if_SomeD [OF hit] by (auto simp: named_def)
  have key: "map_of ms k = Some m" using mem(1) inv(1) by (simp add: wf_in_map_of)
  have up: "upsert (hmap_insert []) md_name k (f m) (\<lambda>_. f m) ms = assign k (f m) ms"
    using hit mem(2) by (simp add: upsert_def named_ident keeps)
  have "modify k f ms = assign k (f m) ms"
    using inv(1) key unfolding modify_def assign_def by (auto simp: wf_in_map_of)
  then have "modify_found (named name) f ms = Some (assign k (f m) ms, f m)"
    using hit by (simp add: modify_found_def)
  then have "mod_set msg f name ms = Inr (assign k (f m) ms)" by (simp add: mod_set_def or_throw_def)
  moreover have "ident_unique md_name (assign k (f m) ms)"
    using mod_store.upsert_unique [OF inv, of "\<lambda>_. f m" "f m" "[]" k] up by simp
  moreover from this have "by_ident md_name (assign k (f m) ms) i = ((by_ident md_name ms)(name \<mapsto> f m)) i" for i
  proof (rule by_ident_eqI)
    have s: "set (assign k (f m) ms) = insert (k, f m) {kv \<in> set ms. fst kv \<noteq> k}"
      by (rule mod_store.set_assign [OF inv(1) mem(1)])
    have same: "k' = k" if "(k', e) \<in> set ms" "md_name e = name" for k' e
      using ident_uniqueD [OF inv(2) that(1) mem(1)] that(2) mem(2) by metis
    have at: "e = m" if "(k, e) \<in> set ms" for e using that key inv(1) by (simp add: wf_in_map_of)
    show "((by_ident md_name ms)(name \<mapsto> f m)) i = Some e \<longleftrightarrow> (\<exists>k'. (k', e) \<in> set (assign k (f m) ms) \<and> md_name e = i)" for e
      using same at mem(2) by (auto simp: s keeps by_ident_Some [OF inv(2)])
  qed
  ultimately show ?thesis using inv(1) by (intro exI [of _ "assign k (f m) ms"]) (simp add: fun_eq_iff)
qed

text \<open>Saving a module, setting its state and reading the state gives the state that was set; the
  repository then maps the module's name to the saved module in that state and every other name to
  what it was.\<close>

theorem mod_save_set_get_state:
  assumes inv: "wf_store ms" "ident_unique md_name ms" and fresh: "uuid \<notin> keys_of ms"
  shows "\<exists>ms1 ms2 ms3. mod_createOrUpdateModule lay uuid ms m = Inr (ms1, m) \<and>
    mod_setState ms1 (md_name m) state = Inr ms2 \<and>
    by_ident md_name ms2 = (by_ident md_name ms)(md_name m \<mapsto> m\<lparr>md_state := state\<rparr>) \<and>
    mod_getState ms2 (md_name m) = Inr (ms3, state)"
proof -
  let ?ms1 = "upsert (hmap_insert lay) md_name uuid m (\<lambda>_. m) ms"
  have wf1: "wf_store ?ms1" by (rule mod_store.upsert_invar [OF inv(1)])
  have un1: "ident_unique md_name ?ms1" by (rule mod_store.upsert_unique [OF inv]) simp
  have ref1: "by_ident md_name ?ms1 = (by_ident md_name ms)(md_name m \<mapsto> m)"
    using mod_store.upsert_refines [OF inv, of "\<lambda>_. m" m uuid lay] fresh by (simp split: option.splits)
  obtain ms2 where set2: "mod_setState ?ms1 (md_name m) state = Inr ms2"
    and ref2: "by_ident md_name ms2 = (by_ident md_name ?ms1)(md_name m \<mapsto> m\<lparr>md_state := state\<rparr>)"
    using mod_set_refines [OF wf1 un1, of "\<lambda>m. m\<lparr>md_state := state\<rparr>" "md_name m" m "''Set state failed, module: ''"]
    by (auto simp: mod_setState_def ref1)
  have "by_ident md_name ms2 (md_name m) = Some (m\<lparr>md_state := state\<rparr>)" by (simp add: ref2)
  then obtain k where "find_if (named (md_name m)) ms2 = Some (k, m\<lparr>md_state := state\<rparr>)"
    by (auto simp: by_ident_def named_ident)
  then have "\<exists>ms3. mod_getState ms2 (md_name m) = Inr (ms3, state)"
    by (simp add: mod_getState_def mod_getModuleByName_def get_or_throw_def stamp_found_def set_md_oid_def)
  with set2 ref2 ref1 show ?thesis by (auto simp: mod_put_upsert)
qed

definition wit_module :: "string \<Rightarrow> mod_module" where
  "wit_module name = \<lparr>md_oid = [], md_name = name, md_state = MOD_STOPPED, md_status = ACTIVE, md_port = 9500,
     md_logChannel = [], md_logLevel = ''info'', md_created = 0, md_modified = 0\<rparr>"

theorem mod_save_set_get_state_witness:
  "\<exists>ms1 ms2 ms3. mod_createOrUpdateModule [2] ''k2'' [(''k1'', wit_module ''s3'')] (wit_module ''sqs'') = Inr (ms1, wit_module ''sqs'') \<and>
     mod_setState ms1 ''sqs'' MOD_RUNNING = Inr ms2 \<and> mod_getState ms2 ''sqs'' = Inr (ms3, MOD_RUNNING)"
proof -
  have "wf_store [(''k1'', wit_module ''s3'')]" "ident_unique md_name [(''k1'', wit_module ''s3'')]"
    "''k2'' \<notin> keys_of [(''k1'', wit_module ''s3'')]"
    by (simp_all add: ident_unique_def)
  from mod_save_set_get_state [OF this, of "[2]" "wit_module ''sqs''" MOD_RUNNING] show ?thesis
    by (auto simp: wit_module_def)
qed

subsection \<open>REST APIs\<close>

definition api_ident :: "rest_api \<Rightarrow> string \<times> string" where
  "api_ident a = (ra_region a, ra_id a)"

interpretation api_store: ident_store "hmap_insert lay" wf_store api_ident for lay
  by unfold_locales simp

lemma api_ident_oid [simp]: "api_ident (a\<lparr>ra_oid := k\<rparr>) = api_ident a"
  by (simp add: api_ident_def)

lemma api_upsert_upsert:
  "api_upsertRestApi lay uuid st a =
     (st\<lparr>restApis := upsert (hmap_insert lay) api_ident uuid (a\<lparr>ra_oid := uuid\<rparr>) (\<lambda>k. a\<lparr>ra_oid := k\<rparr>) (restApis st)\<rparr>,
      case find_if (\<lambda>(_, x). api_ident x = api_ident a) (restApis st) of
        None \<Rightarrow> a\<lparr>ra_oid := uuid\<rparr> | Some (k, _) \<Rightarrow> a\<lparr>ra_oid := k\<rparr>)"
proof -
  have "(\<lambda>(_::string, x). ra_region x = ra_region a \<and> ra_id x = ra_id a) = (\<lambda>(_, x). api_ident x = api_ident a)"
    by (auto simp: api_ident_def)
  then show ?thesis by (simp add: api_upsertRestApi_def upsert_def Let_def split: option.splits)
qed

text \<open>Importing a REST API is the update at its region and id, and importing the result again, under
  whatever fresh id and table layout, changes nothing: the API keeps the object id of the first
  import.\<close>

theorem api_import_idempotent:
  assumes inv: "wf_store (restApis st)" "ident_unique api_ident (restApis st)" and fresh: "uuid \<notin> keys_of (restApis st)"
  shows "\<exists>st' r. api_importRestApis lay uuid st a = (st', r) \<and> ra_oid r \<in> keys_of (restApis st') \<and>
    by_ident api_ident (restApis st') = (by_ident api_ident (restApis st))(api_ident a \<mapsto> r) \<and>
    api_importRestApis lay' uuid' st' r = (st', r)"
proof -
  let ?new = "a\<lparr>ra_oid := uuid\<rparr>"
  let ?m = "upsert (hmap_insert lay) api_ident uuid ?new (\<lambda>k. a\<lparr>ra_oid := k\<rparr>) (restApis st)"
  obtain st' r where run: "api_importRestApis lay uuid st a = (st', r)" by fastforce
  then have st': "st' = st\<lparr>restApis := ?m\<rparr>"
    and r: "r = (case find_if (\<lambda>(_, x). api_ident x = api_ident a) (restApis st) of None \<Rightarrow> ?new | Some (k, _) \<Rightarrow> a\<lparr>ra_oid := k\<rparr>)"
    by (simp_all add: api_importRestApis_def api_upsert_upsert)
  have wf: "wf_store ?m" by (rule api_store.upsert_invar [OF inv(1)])
  have un: "ident_unique api_ident ?m" by (rule api_store.upsert_unique [OF inv]) simp
  have ref: "by_ident api_ident ?m = (by_ident api_ident (restApis st))(api_ident a \<mapsto> r)"
    using api_store.upsert_refines [OF inv, of "\<lambda>k. a\<lparr>ra_oid := k\<rparr>" ?new uuid lay] fresh by (simp add: r)
  have ident: "api_ident r = api_ident a" by (simp add: r split: option.splits)
  have mem: "(ra_oid r, r) \<in> set ?m"
  proof (cases "find_if (\<lambda>(_, x). api_ident x = api_ident a) (restApis st)")
    case None
    then have "?m = hmap_insert lay uuid ?new (restApis st)" by (simp add: upsert_def)
    then show ?thesis using None hm.set_ins [OF inv(1), of lay uuid ?new] by (simp add: r)
  next
    case (Some kx)
    obtain k x where kx: "kx = (k, x)" by (cases kx)
    then have "(k, x) \<in> set (restApis st)" using Some by (auto dest: find_if_SomeD)
    moreover have "?m = assign k (a\<lparr>ra_oid := k\<rparr>) (restApis st)" using Some kx by (simp add: upsert_def)
    ultimately show ?thesis using Some kx api_store.set_assign [OF inv(1)] by (simp add: r)
  qed
  have "by_ident api_ident ?m (api_ident r) = Some r" by (simp add: ref ident)
  then obtain k where hit: "find_if (\<lambda>(_, x). api_ident x = api_ident r) ?m = Some (k, r)" by (auto simp: by_ident_def)
  then have "(k, r) \<in> set ?m" by (auto dest: find_if_SomeD)
  then have k: "k = ra_oid r" using ident_uniqueD [OF un _ mem] by blast
  have "map_of ?m (ra_oid r) = Some r" using mem wf by (simp add: wf_in_map_of)
  then have "upsert (hmap_insert lay') api_ident uuid' (r\<lparr>ra_oid := uuid'\<rparr>) (\<lambda>k. r\<lparr>ra_oid := k\<rparr>) ?m = ?m"
    using hit wf by (simp add: upsert_def k)
  then have "api_importRestApis lay' uuid' st' r = (st', r)"
    using hit by (simp add: api_importRestApis_def api_upsert_upsert st' k)
  then show ?thesis using run mem ref by (auto simp: st')
qed

definition wit_api_repo :: apigw_repo where
  "wit_api_repo = \<lparr>apiKeys = [], restApis = [], usagePlans = []\<rparr>"

theorem api_import_idempotent_witness:
  "\<exists>st' r. api_importRestApis [] ''k1'' wit_api_repo ((default_rest_api 0)\<lparr>ra_id := ''x''\<rparr>) = (st', r) \<and>
     api_importRestApis [] ''k2'' st' r = (st', r)"
proof -
  have "wf_store (restApis wit_api_repo)" "ident_unique api_ident (restApis wit_api_repo)" "''k1'' \<notin> keys_of (restApis wit_api_repo)"
    by (simp_all add: wit_api_repo_def)
  from api_import_idempotent [OF this, of "[]" "(default_rest_api 0)\<lparr>ra_id := ''x''\<rparr>" "[]" "''k2''"] show ?thesis by blast
qed

end
