(* ===== verification/UtilProps.thy ===== *)
theory UtilProps
  imports AwsUtils
begin

text \<open>
  Properties of the string, paging and resource name utilities, which the services and the
  repositories share: percent encoding, the UTF-8 sanitizer, \<open>PageVector\<close> and \<open>PageMap\<close>, and the
  conversions between queue names, ARNs and URLs.
\<close>

subsection \<open>Strings\<close>

lemma hex_digit_unreserved: "n < 16 \<Longrightarrow> unreserved (hex_upper ! n)"
proof -
  assume "n < 16"
  then have "hex_upper ! n \<in> set hex_upper" by (intro nth_mem) (simp add: hex_upper_def)
  moreover have "list_all unreserved hex_upper"
    by (simp add: hex_upper_def unreserved_def isupper_def islower_def isdigit_def byte_def)
  ultimately show ?thesis by (simp add: list_all_iff)
qed

lemma AwsUrlEncode_chars:
  "set (AwsUrlEncode s b) \<subseteq> {c. unreserved c} \<union> {CHR ''%''} \<union> (if b then {} else {CHR ''/''})"
proof (induction s)
  case (Cons c cs)
  have "unreserved (hex_upper ! (byte c div 16))" "unreserved (hex_upper ! (byte c mod 16))"
    using byte_less [of c] by (auto intro!: hex_digit_unreserved)
  with Cons show ?case by (auto simp: hex2_def)
qed simp

text \<open>C39: percent encoding loses nothing: the decoder of RFC 3986 reads the encoded text back to the
  original bytes. The encoded text has only unreserved characters and percent signs, and slashes
  when these are left as they are.\<close>

theorem url_encode_roundtrip:
  "pct_decode (AwsUrlEncode value encodeSlash) = Some value \<and>
   set (AwsUrlEncode value encodeSlash) \<subseteq> {c. unreserved c} \<union> {CHR ''%''} \<union> (if encodeSlash then {} else {CHR ''/''})"
  using pct_decode_encode AwsUrlEncode_chars by blast

subsection \<open>The sanitizer and UTF-8\<close>

text \<open>
  The scheme of RFC 3629 by the ranges of the bytes: how many bytes a lead byte announces (none for a byte that
  is no lead byte), which bytes continue a block, and when a text is a sequence of complete blocks. Overlong
  blocks, surrogates and code points above 10FFFF have this shape too.
\<close>

definition announced :: "char \<Rightarrow> nat" where
  "announced c =
     (let n = byte c in
      if n < 0x80 then 1 else if 0xC0 \<le> n \<and> n < 0xE0 then 2 else if 0xE0 \<le> n \<and> n < 0xF0 then 3
      else if 0xF0 \<le> n \<and> n < 0xF8 then 4 else 0)"

definition continues :: "char \<Rightarrow> bool" where
  "continues c \<longleftrightarrow> 0x80 \<le> byte c \<and> byte c < 0xC0"

definition block_at_head :: "char \<Rightarrow> string \<Rightarrow> bool" where
  "block_at_head c cs \<longleftrightarrow> 0 < announced c \<and> announced c - 1 \<le> length cs \<and> list_all continues (take (announced c - 1) cs)"

function utf8_shape :: "string \<Rightarrow> bool" where
  "utf8_shape [] = True"
| "utf8_shape (c # cs) = (block_at_head c cs \<and> utf8_shape (drop (announced c - 1) cs))"
  by pat_completeness auto
termination by (relation "measure length") auto

text \<open>What the sanitizer is for: complete blocks stay, and every other byte becomes U+FFFD.\<close>

function utf8_repair :: "string \<Rightarrow> string" where
  "utf8_repair [] = []"
| "utf8_repair (c # cs) =
     (if block_at_head c cs then c # take (announced c - 1) cs @ utf8_repair (drop (announced c - 1) cs)
      else [CHR 0xEF, CHR 0xBF, CHR 0xBD] @ utf8_repair cs)"
  by pat_completeness auto
termination by (relation "measure length") auto

text \<open>The encoder of RFC 3629.\<close>

definition utf8_encode :: "nat \<Rightarrow> string" where
  "utf8_encode u =
     map char_of
       (if u < 0x80 then [u]
        else if u < 0x800 then [0xC0 + u div 64, 0x80 + u mod 64]
        else if u < 0x10000 then [0xE0 + u div 4096, 0x80 + u div 64 mod 64, 0x80 + u mod 64]
        else [0xF0 + u div 262144 mod 8, 0x80 + u div 4096 mod 64, 0x80 + u div 64 mod 64, 0x80 + u mod 64 :: nat])"

lemma byte_masks:
  "list_all (\<lambda>n::int. (n AND 0xC0 = 0x80) = (128 \<le> n \<and> n < 192) \<and> (n AND 0xE0 = 0xC0) = (192 \<le> n \<and> n < 224) \<and>
     (n AND 0xF0 = 0xE0) = (224 \<le> n \<and> n < 240) \<and> (n AND 0xF8 = 0xF0) = (240 \<le> n \<and> n < 248)) [0..255]"
  by code_simp

lemma uint_char_word: "uint (char_word c) = int (byte c)"
  by (metis unat_char_word uint_nat)

lemma mask_ranges:
  "cont_byte c \<longleftrightarrow> continues c" "char_word c \<le> 0x7F \<longleftrightarrow> byte c < 128"
  "lead2 c \<longleftrightarrow> 192 \<le> byte c \<and> byte c < 224" "lead3 c \<longleftrightarrow> 224 \<le> byte c \<and> byte c < 240"
  "lead4 c \<longleftrightarrow> 240 \<le> byte c \<and> byte c < 248"
proof -
  let ?n = "int (byte c)"
  have "?n \<in> set [0..255]" using byte_less [of c] by simp
  note m = bspec [OF byte_masks [unfolded list_all_iff] this]
  have e: "char_word c AND v = w \<longleftrightarrow> ?n AND uint v = uint w" for v w :: "8 word"
    by (simp add: word_uint_eq_iff uint_and uint_char_word)
  show "cont_byte c \<longleftrightarrow> continues c" "lead2 c \<longleftrightarrow> 192 \<le> byte c \<and> byte c < 224" "lead3 c \<longleftrightarrow> 224 \<le> byte c \<and> byte c < 240"
    "lead4 c \<longleftrightarrow> 240 \<le> byte c \<and> byte c < 248"
    using m by (auto simp: cont_byte_def lead2_def lead3_def lead4_def continues_def e)
  show "char_word c \<le> 0x7F \<longleftrightarrow> byte c < 128"
    by (auto simp: word_le_nat_alt)
qed

lemma nth_continues: "n \<le> length cs \<Longrightarrow> list_all continues (take n cs) \<longleftrightarrow> (\<forall>i<n. continues (cs ! i))"
  by (auto simp: list_all_length)

lemma replacement_text: "replacement = [CHR 0xEF, CHR 0xBF, CHR 0xBD]"
proof -
  have "of_char c = n \<Longrightarrow> char_of n = c" for c and n :: nat by auto
  from this [of "CHR 0xEF"] this [of "CHR 0xBF"] this [of "CHR 0xBD"] show ?thesis by (simp add: replacement_def)
qed

lemma SanitizeUtf8_repair: "SanitizeUtf8 s = utf8_repair s"
proof (induction s rule: utf8_repair.induct)
  case (2 c cs)
  have all: "(\<forall>i<Suc 0. continues (cs ! i)) \<longleftrightarrow> continues (cs ! 0)"
    "(\<forall>i<2. continues (cs ! i)) \<longleftrightarrow> continues (cs ! 0) \<and> continues (cs ! 1)"
    "(\<forall>i<3. continues (cs ! i)) \<longleftrightarrow> continues (cs ! 0) \<and> continues (cs ! 1) \<and> continues (cs ! 2)"
    by (auto simp: less_Suc_eq numeral_3_eq_3 numeral_2_eq_2)
  let ?n = "byte c"
  consider "?n < 128" | "128 \<le> ?n \<and> ?n < 192" | "192 \<le> ?n \<and> ?n < 224" | "224 \<le> ?n \<and> ?n < 240"
    | "240 \<le> ?n \<and> ?n < 248" | "248 \<le> ?n" by linarith
  then have "SanitizeUtf8 (c # cs) =
      (if block_at_head c cs then c # take (announced c - 1) cs @ SanitizeUtf8 (drop (announced c - 1) cs)
       else replacement @ SanitizeUtf8 cs)"
    by cases (auto simp: SanitizeUtf8.simps(2) mask_ranges block_at_head_def announced_def nth_continues all simp del: append_Cons)
  then show ?case
    using "2.IH" by (simp add: replacement_text)
qed simp

lemma replacement_block: "utf8_shape ([CHR 0xEF, CHR 0xBF, CHR 0xBD] @ s) = utf8_shape s"
  by (simp add: block_at_head_def announced_def continues_def byte_def)

lemma block_shape:
  assumes "block_at_head c cs"
  shows "utf8_shape (c # take (announced c - 1) cs @ s) = utf8_shape s" "utf8_repair (c # take (announced c - 1) cs @ s) = c # take (announced c - 1) cs @ utf8_repair s"
  using assms by (cases "announced c"; auto simp: block_at_head_def)+

lemma repair_shape: "utf8_shape (utf8_repair s)"
proof (induction s rule: utf8_repair.induct)
  case (2 c cs)
  then show ?case
    using block_shape(1) replacement_block by (cases "block_at_head c cs") (simp_all del: append_Cons append_Nil utf8_shape.simps add: append_Cons [symmetric])
qed simp

lemma repair_same: "utf8_repair s = s \<longleftrightarrow> utf8_shape s"
proof
  show "utf8_repair s = s \<Longrightarrow> utf8_shape s" by (metis repair_shape)
  show "utf8_shape s \<Longrightarrow> utf8_repair s = s" by (induction s rule: utf8_shape.induct) auto
qed

lemma shape_append: "utf8_shape s \<Longrightarrow> utf8_shape t \<Longrightarrow> utf8_shape (s @ t)"
  by (induction s rule: utf8_shape.induct) (auto simp: block_at_head_def)

lemma encode_shape: "utf8_shape (utf8_encode u)"
proof -
  have b: "byte (char_of n) = n" if "n < 256" for n :: nat using that by (simp add: byte_def)
  have "u < 0x800 \<Longrightarrow> u div 64 < 32" "u < 0x10000 \<Longrightarrow> u div 4096 < 16" by (simp_all add: less_mult_imp_div_less)
  then show ?thesis
    by (auto simp: utf8_encode_def block_at_head_def announced_def continues_def Let_def b)
qed

text \<open>C38: the sanitizer keeps complete blocks and replaces every other byte, one by one, by U+FFFD, so that its
  result is a sequence of complete blocks: a byte below 80, or a lead byte C0-DF, E0-EF or F0-F7 with one, two or
  three continuation bytes 80-BF. It changes a text exactly when the text is no such sequence, and sanitizing twice is the same
  as once. In particular every text in UTF-8 is left as it is. But the shape is all it looks at: the
  overlong C0 80 and the surrogate ED A0 80, which are not well-formed in UTF-8, are left as they are too.\<close>

theorem sanitize_utf8_correct:
  "SanitizeUtf8 s = utf8_repair s \<and> utf8_shape (SanitizeUtf8 s) \<and> (SanitizeUtf8 s = s \<longleftrightarrow> utf8_shape s) \<and>
   SanitizeUtf8 (SanitizeUtf8 s) = SanitizeUtf8 s \<and>
   SanitizeUtf8 (concat (map utf8_encode us)) = concat (map utf8_encode us) \<and>
   SanitizeUtf8 [CHR 0xC0, CHR 0x80] = [CHR 0xC0, CHR 0x80] \<and>
   SanitizeUtf8 [CHR 0xED, CHR 0xA0, CHR 0x80] = [CHR 0xED, CHR 0xA0, CHR 0x80]"
proof -
  have "utf8_shape (concat (map utf8_encode us))" by (induction us) (simp_all add: shape_append encode_shape)
  then show ?thesis
    unfolding SanitizeUtf8_repair
    by (auto simp: repair_same repair_shape block_at_head_def announced_def continues_def byte_def)
qed

subsection \<open>Paging\<close>

lemma page_bound:
  assumes "0 < p" "p * int n < 2 ^ 63" "i < n"
  shows "p * (int i + 1) < 2 ^ 63"
proof -
  have "p * (int i + 1) \<le> p * int n" using assms(1,3) by (intro mult_left_mono) auto
  with assms(2) show ?thesis by linarith
qed

text \<open>Walking through the pages 0 to \<open>n - 1\<close> of a vector that they cover visits every element once
  and in order: every page is returned, and the pages together are the vector.\<close>

theorem paging_partition:
  assumes "0 < pageSize" "pageSize * int n < 2 ^ 63" "int (length vec) \<le> pageSize * int n"
  shows "\<exists>pages. map (\<lambda>i. PageVector vec pageSize (int i)) [0..<n] = map Inr pages \<and> concat pages = vec"
proof -
  let ?page = "\<lambda>i. take (nat pageSize) (drop (nat pageSize * i) vec)"
  have "PageVector vec pageSize (int i) = Inr (?page i)" if "i < n" for i
    using PageVector_slice [of pageSize "int i" vec] page_bound [OF assms(1,2) that] assms(1)
    by (simp add: nat_mult_distrib)
  then have "map (\<lambda>i. PageVector vec pageSize (int i)) [0..<n] = map Inr (map ?page [0..<n])" by simp
  moreover have "concat (map ?page [0..<n]) = vec"
  proof -
    have "int (length vec) \<le> int (nat pageSize * n)" using assms(1,3) by simp
    then show ?thesis unfolding take_drop_pages by (intro take_all) linarith
  qed
  ultimately show ?thesis by blast
qed

theorem paging_partition_witness:
  "\<exists>pages. map (\<lambda>i. PageVector [10, 20, 30::nat] 2 (int i)) [0..<2] = map Inr pages \<and> concat pages = [10, 20, 30]"
  by (rule paging_partition) simp_all

text \<open>The pages of a map do not partition it: the position never advances in \<open>PageMap\<close>, so the
  first page holds the whole map and every later page is empty.\<close>

theorem page_map_first_holds_all:
  assumes "0 < pageSize" "0 < pageIndex"
  shows "PageMap m pageSize 0 = m \<and> PageMap m pageSize pageIndex = []"
  using PageMap_first [OF assms(1)] PageMap_later [OF assms] by blast

theorem page_map_first_holds_all_witness:
  "PageMap [(1::nat, ''a''), (2, ''b'')] 1 0 = [(1, ''a''), (2, ''b'')] \<and> PageMap [(1::nat, ''a''), (2, ''b'')] 1 1 = []"
  by (rule page_map_first_holds_all) simp_all

subsection \<open>Queue names, ARNs and URLs\<close>

context boost_split
begin

lemma ArnToUrl_CreateArn:
  assumes "list_all arn_char region" "account_ok acct" "plain_name name"
  shows "ConvertSQSQueueArnToUrl split cfg (CreateSQSQueueArn region acct name) =
    ''http://sqs.'' @ cfg_region cfg @ ''.'' @ cfg_hostname cfg @ '':'' @ cfg_http_port cfg @ ''/'' @ acct @ ''/'' @ name"
proof -
  let ?arn = "CreateSQSQueueArn region acct name"
  have svc: "list_all arn_char ''sqs''" by (simp add: arn_char_def islower_def byte_def)
  have "IsArn ?arn"
    unfolding CreateSQSQueueArn_def by (rule IsArn_CreateArn) (use assms svc in simp_all)
  moreover have "split ?arn '':'' = [''arn'', ''aws'', ''sqs'', region, acct, name]"
    unfolding CreateSQSQueueArn_def split_colon
    by (simp only: split_CreateArn [OF svc assms(1,2)] split_plain [OF assms(3)])
  moreover have "?arn \<noteq> []" "\<not> IsUrl ?arn"
    by (simp_all add: CreateSQSQueueArn_def arn_not_url) (simp add: CreateArn_def)
  ultimately show ?thesis by (simp add: ConvertSQSQueueArnToUrl_def)
qed

end

definition one_line :: "string \<Rightarrow> bool" where
  "one_line s \<longleftrightarrow> list_all (\<lambda>c. \<not> line_terminator c) s"

lemma one_line_append [simp]: "one_line (s @ t) \<longleftrightarrow> one_line s \<and> one_line t"
  by (simp add: one_line_def)

lemma one_line_plain: "plain_name s \<Longrightarrow> one_line s"
  by (auto simp: one_line_def plain_name_def list_all_iff)

lemma one_line_account: "account_ok s \<Longrightarrow> one_line s"
  by (auto simp: one_line_def account_ok_def list_all_iff line_terminator_def isdigit_def)

lemma IsUrl_http: "one_line s \<Longrightarrow> IsUrl (''http://'' @ s)"
  by (simp add: IsUrl_def one_line_def)

text \<open>C40: the name, the ARN and the URL of a queue determine each other: the name is read back from the
  ARN and from the URL of the ARN, and the URL of the ARN, in the configured account, converts back
  to the ARN. The splitting is boost's, as documented.\<close>

theorem queue_name_arn_url_roundtrip:
  assumes split: "boost_split split"
    and parts: "list_all arn_char region" "account_ok (cfg_account_id cfg)" "plain_name name"
    and cfg: "one_line (cfg_region cfg)" "one_line (cfg_hostname cfg)" "one_line (cfg_http_port cfg)"
  shows "let arn = CreateSQSQueueArn region (cfg_account_id cfg) name; url = ConvertSQSQueueArnToUrl split cfg arn in
    ConvertSQSQueueArnToName split arn = name \<and> ConvertSQSQueueUrlToName url = name \<and> ConvertToArn cfg region url = arn"
proof -
  let ?arn = "CreateSQSQueueArn region (cfg_account_id cfg) name"
  let ?url = "ConvertSQSQueueArnToUrl split cfg ?arn"
  have name: "ConvertSQSQueueUrlToName ?url = name" by (rule boost_split.ArnToUrl_name [OF split parts])
  have "?url = ''http://'' @ (''sqs.'' @ cfg_region cfg @ ''.'' @ cfg_hostname cfg @ '':'' @ cfg_http_port cfg @ ''/'' @
      cfg_account_id cfg @ ''/'' @ name)"
    using boost_split.ArnToUrl_CreateArn [OF split parts, of cfg] by simp
  moreover have "one_line (''sqs.'' @ cfg_region cfg @ ''.'' @ cfg_hostname cfg @ '':'' @ cfg_http_port cfg @ ''/'' @
      cfg_account_id cfg @ ''/'' @ name)"
    using cfg one_line_plain [OF parts(3)] one_line_account [OF parts(2)]
    by (simp add: one_line_def line_terminator_def byte_def)
  ultimately have "IsUrl ?url" by (metis IsUrl_http)
  then have "ConvertToArn cfg region ?url = ?arn"
    using name by (simp add: ConvertToArn_def ConvertSQSQueueUrlToName_def CreateSQSQueueArn_def)
  with name boost_split.ArnToName_CreateArn [OF split parts] show ?thesis by (simp add: Let_def)
qed

definition wit_config :: aws_config where
  "wit_config = \<lparr>cfg_region = ''eu-central-1'', cfg_http_port = ''4566'', cfg_hostname = ''localhost'',
     cfg_account_id = ''000000000000''\<rparr>"

theorem queue_name_arn_url_roundtrip_witness:
  "let arn = CreateSQSQueueArn ''eu-central-1'' (cfg_account_id wit_config) ''orders'';
       url = ConvertSQSQueueArnToUrl split_model wit_config arn in
    ConvertSQSQueueArnToName split_model arn = ''orders'' \<and> ConvertSQSQueueUrlToName url = ''orders'' \<and>
    ConvertToArn wit_config ''eu-central-1'' url = arn"
  by (rule queue_name_arn_url_roundtrip [OF bs.boost_split_axioms])
    (simp_all add: wit_config_def arn_char_def islower_def isdigit_def byte_def account_ok_def plain_name_def
      line_terminator_def one_line_def)

end
