(* ===== verification/FileStore.thy ===== *)
theory FileStore
  imports StdNumbers "HOL-Library.AList"
begin

text \<open>
  The files a service keeps beside its repository, and the operations of
  \<open>core/src/utils/FileUtils.cpp\<close> and \<open>core/src/utils/DirUtils.cpp\<close> on them. A store is the paths
  of the regular files with their bytes and the paths of the directories; paths are compared as they
  are written. The order of a directory listing is that of the store. Opening a file for writing in a
  directory that is not there fails without an exception, as \<open>std::ofstream\<close> does.
\<close>

record file_store =
  fs_files :: "(string \<times> string) list"
  fs_dirs :: "string list"

definition read_file :: "file_store \<Rightarrow> string \<Rightarrow> string option" where
  "read_file fs path = map_of (fs_files fs) path"

definition FileExists :: "file_store \<Rightarrow> string \<Rightarrow> bool" where
  "FileExists fs path \<longleftrightarrow> read_file fs path \<noteq> None"

definition DirectoryExists :: "file_store \<Rightarrow> string \<Rightarrow> bool" where
  "DirectoryExists fs dirName \<longleftrightarrow> dirName \<in> set (fs_dirs fs)"

text \<open>\<open>std::filesystem::path::operator/=\<close>.\<close>

definition appendPath :: "string \<Rightarrow> string \<Rightarrow> string" where
  "appendPath dir name =
     (if name \<noteq> [] \<and> hd name = CHR ''/'' then name
      else if dir = [] \<or> last dir = CHR ''/'' then dir @ name
      else dir @ CHR ''/'' # name)"

definition parent_path :: "string \<Rightarrow> string" where
  "parent_path path = rev (drop 1 (dropWhile (\<lambda>c. c \<noteq> CHR ''/'') (rev path)))"

definition path_filename :: "string \<Rightarrow> string" where
  "path_filename path = rev (takeWhile (\<lambda>c. c \<noteq> CHR ''/'') (rev path))"

text \<open>\<open>path.filename().replace_extension()\<close>.\<close>

definition GetBasename :: "string \<Rightarrow> string" where
  "GetBasename path =
     (let n = path_filename path; stem = rev (drop 1 (dropWhile (\<lambda>c. c \<noteq> CHR ''.'') (rev n))) in
      if CHR ''.'' \<in> set (drop 1 n) \<and> n \<noteq> ''..'' then stem else n)"

definition ancestors :: "string \<Rightarrow> string list" where
  "ancestors path = [take i path. i \<leftarrow> [1..<length path], path ! i = CHR ''/'']"

definition EnsureDirectoryExists :: "string \<Rightarrow> file_store \<Rightarrow> file_store" where
  "EnsureDirectoryExists dirName fs =
     (if DirectoryExists fs dirName then fs
      else fs\<lparr>fs_dirs := fs_dirs fs @ filter (\<lambda>d. \<not> DirectoryExists fs d) (ancestors dirName @ [dirName])\<rparr>)"

definition can_write :: "file_store \<Rightarrow> string \<Rightarrow> bool" where
  "can_write fs path \<longleftrightarrow> DirectoryExists fs (parent_path path) \<and> \<not> DirectoryExists fs path"

text \<open>An \<open>std::ofstream\<close> that truncates, what was written to it, and its closing.\<close>

definition write_file :: "string \<Rightarrow> string \<Rightarrow> file_store \<Rightarrow> file_store" where
  "write_file path content fs =
     (if can_write fs path then fs\<lparr>fs_files := AList.update path content (fs_files fs)\<rparr> else fs)"

definition inside :: "string \<Rightarrow> string \<Rightarrow> bool" where
  "inside dir path \<longleftrightarrow> prefix (dir @ ''/'') path"

text \<open>\<open>std::filesystem::remove\<close> throws for a directory that is not empty.\<close>

definition RemoveFile :: "string \<Rightarrow> file_store \<Rightarrow> file_store outcome" where
  "RemoveFile fileName fs =
     (if FileExists fs fileName then Inr (fs\<lparr>fs_files := AList.delete fileName (fs_files fs)\<rparr>)
      else if DirectoryExists fs fileName then
        (if list_ex (inside fileName) (map fst (fs_files fs) @ fs_dirs fs) then Inl (RuntimeError ''remove'')
         else Inr (fs\<lparr>fs_dirs := removeAll fileName (fs_dirs fs)\<rparr>))
      else Inr fs)"

definition DeleteDirectory :: "string \<Rightarrow> file_store \<Rightarrow> file_store" where
  "DeleteDirectory dirName fs =
     (if DirectoryExists fs dirName then
        fs\<lparr>fs_files := filter (\<lambda>(p, _). \<not> inside dirName p) (fs_files fs),
           fs_dirs := filter (\<lambda>p. p \<noteq> dirName \<and> \<not> inside dirName p) (fs_dirs fs)\<rparr>
      else fs)"

text \<open>\<open>boost::filesystem::copy_file\<close> with \<open>overwrite_existing\<close>, after the directory was made.\<close>

definition CopyTo :: "string \<Rightarrow> string \<Rightarrow> file_store \<Rightarrow> file_store outcome" where
  "CopyTo sourceFileName targetFileName fs =
     (let fs = EnsureDirectoryExists (parent_path targetFileName) fs in
      case read_file fs sourceFileName of
        None \<Rightarrow> Inl (RuntimeError ''copy_file'')
      | Some content \<Rightarrow> if can_write fs targetFileName then Inr (write_file targetFileName content fs) else Inl (RuntimeError ''copy_file''))"

text \<open>
  \<open>StreamCopier\<close>: what is left of the input, and what has been written. It reads blocks of
  \<open>BUFFER_LEN\<close> bytes and stops at a short one.
\<close>

definition BUFFER_LEN :: int where "BUFFER_LEN = 8092"

function copy_blocks :: "int \<Rightarrow> int \<Rightarrow> string \<Rightarrow> string \<Rightarrow> string \<times> int" where
  "copy_blocks cnt copied rest out =
     (if copied < cnt then
        (let chunk = min BUFFER_LEN (cnt - copied); got = take (nat chunk) rest in
         if got = [] then (out, copied)
         else if int (length got) < chunk then (out @ got, copied + int (length got))
         else copy_blocks cnt (copied + int (length got)) (drop (nat chunk) rest) (out @ got))
      else (out, copied))"
  by pat_completeness auto
termination
  by (relation "measure (\<lambda>(_, _, rest, _). length rest)") (auto simp: BUFFER_LEN_def Let_def neq_Nil_conv)

declare copy_blocks.simps [simp del]

definition StreamCopier :: "string \<Rightarrow> int \<Rightarrow> string \<times> int" where
  "StreamCopier stream cnt = copy_blocks cnt 0 stream []"

text \<open>Reading a part of a file: a position before its start makes every read fail.\<close>

definition StreamCopierFrom :: "string option \<Rightarrow> int \<Rightarrow> int \<Rightarrow> string \<times> int" where
  "StreamCopierFrom stream start cnt =
     copy_blocks cnt 0 (case stream of None \<Rightarrow> [] | Some s \<Rightarrow> if start < 0 then [] else drop (nat start) s) []"

text \<open>
  \<open>dest << src.rdbuf()\<close> sets the fail bit of \<open>dest\<close> when there is nothing to insert, and a stream
  with this bit takes no more. The sizes are counted all the same.
\<close>

fun append_parts :: "file_store \<Rightarrow> string list \<Rightarrow> string \<Rightarrow> bool \<Rightarrow> int \<Rightarrow> string \<times> int" where
  "append_parts fs [] out good acc = (out, acc)"
| "append_parts fs (f # files) out good acc =
     (case read_file fs f of
        None \<Rightarrow> append_parts fs files out good acc
      | Some content \<Rightarrow> append_parts fs files (if good then out @ content else out) (good \<and> content \<noteq> [])
          (acc + int (length content)))"

definition AppendBinaryFiles :: "string \<Rightarrow> string list \<Rightarrow> file_store \<Rightarrow> file_store \<times> int" where
  "AppendBinaryFiles outFile files fs =
     (if \<not> can_write fs outFile then (fs, -1)
      else let (out, acc) = append_parts fs files [] True 0 in (write_file outFile out fs, acc))"

definition ExtractNumber :: "string \<Rightarrow> int" where
  "ExtractNumber filename =
     (if CHR ''-'' \<notin> set filename then 0
      else case stol (rev (takeWhile (\<lambda>c. c \<noteq> CHR ''-'') (rev filename))) of Inl _ \<Rightarrow> 0 | Inr n \<Rightarrow> n)"

definition ListFilesByPrefix :: "file_store \<Rightarrow> string \<Rightarrow> string \<Rightarrow> string list" where
  "ListFilesByPrefix fs dirName pre =
     (if DirectoryExists fs dirName then
        sort_key (\<lambda>p. ExtractNumber (path_filename p))
          (filter (\<lambda>p. parent_path p = dirName \<and> Contains p pre) (map fst (fs_files fs)))
      else [])"

text \<open>
  \<open>Crypto::IsBase64\<close> on the first 1000 bytes of the file, padded with zero bytes; and the file
  replaced by what its first word decodes to.
\<close>

definition base64_char :: "char \<Rightarrow> bool" where
  "base64_char c \<longleftrightarrow> islower c \<or> isupper c \<or> isdigit c \<or> c = CHR ''/'' \<or> c = CHR ''+'' \<or> c = CHR ''=''"

definition Crypto_IsBase64 :: "string \<Rightarrow> bool" where
  "Crypto_IsBase64 s =
     (if length s mod 4 = 0 \<and> list_all base64_char s then
        (case find_sub s ''==='' of
           Some pos \<Rightarrow> \<not> pos < length s - 3
         | None \<Rightarrow> case find_sub s ''=='' of
             Some pos \<Rightarrow> \<not> pos < length s - 2
           | None \<Rightarrow> case find_sub s ''='' of Some pos \<Rightarrow> \<not> pos < length s - 1 | None \<Rightarrow> True)
      else False)"

definition IsBase64 :: "file_store \<Rightarrow> string \<Rightarrow> bool" where
  "IsBase64 fs filePath =
     (let buff = take 1000 (case read_file fs filePath of None \<Rightarrow> [] | Some s \<Rightarrow> s) in
      Crypto_IsBase64 (buff @ replicate (1000 - length buff) (char_of (0::nat))))"

definition Base64DecodeFile :: "(string \<Rightarrow> string) \<Rightarrow> string \<Rightarrow> file_store \<Rightarrow> file_store" where
  "Base64DecodeFile decode filePath fs =
     (let s = (case read_file fs filePath of None \<Rightarrow> [] | Some s \<Rightarrow> s);
          line = takeWhile (\<lambda>c. \<not> isspace c) (dropWhile isspace s) in
      write_file filePath (decode line) fs)"

subsection \<open>What the operations do\<close>

lemma copy_blocks_spec:
  "copied \<le> cnt \<Longrightarrow> copy_blocks cnt copied rest out = (out @ take (nat (cnt - copied)) rest, copied + min (cnt - copied) (int (length rest)))"
proof (induction cnt copied rest out rule: copy_blocks.induct)
  case (1 cnt copied rest out)
  show ?case
  proof (cases "copied < cnt")
    case lt: True
    let ?chunk = "min BUFFER_LEN (cnt - copied)"
    let ?got = "take (nat ?chunk) rest"
    have c: "0 < ?chunk" using lt by (simp add: BUFFER_LEN_def)
    consider (empty) "?got = []" | (short) "?got \<noteq> []" "int (length ?got) < ?chunk" | (full) "?got \<noteq> []" "\<not> int (length ?got) < ?chunk"
      by blast
    then show ?thesis
    proof cases
      case empty
      then have "rest = []" using c by simp
      then show ?thesis using lt empty by (subst copy_blocks.simps) (simp add: Let_def)
    next
      case short
      then have "int (length rest) < ?chunk" using c by (simp add: min_def split: if_splits)
      then have "?got = rest" "take (nat (cnt - copied)) rest = rest" "int (length rest) < cnt - copied" by auto
      then show ?thesis using lt short by (subst copy_blocks.simps) (simp add: Let_def)
    next
      case full
      then have len: "int (length ?got) = ?chunk" "?chunk \<le> int (length rest)" using c by auto
      have IH: "copy_blocks cnt (copied + ?chunk) (drop (nat ?chunk) rest) (out @ ?got) =
          ((out @ ?got) @ take (nat (cnt - (copied + ?chunk))) (drop (nat ?chunk) rest),
           copied + ?chunk + min (cnt - (copied + ?chunk)) (int (length (drop (nat ?chunk) rest))))"
        using 1(1) [OF lt refl refl full] unfolding len(1) by simp
      have t: "(out @ ?got) @ take (nat (cnt - (copied + ?chunk))) (drop (nat ?chunk) rest) = out @ take (nat (cnt - copied)) rest"
      proof -
        have "nat (cnt - copied) = nat ?chunk + nat (cnt - (copied + ?chunk))" using c by (simp add: nat_add_distrib [symmetric])
        then show ?thesis by (simp only: take_add append_assoc)
      qed
      have n: "copied + ?chunk + min (cnt - (copied + ?chunk)) (int (length (drop (nat ?chunk) rest))) =
          copied + min (cnt - copied) (int (length rest))"
      proof -
        have "int (length (drop (nat ?chunk) rest)) = int (length rest) - ?chunk" using len(2) c by simp
        then show ?thesis using len(2) c by (simp only:) linarith
      qed
      note IH [unfolded t n]
      moreover have "copy_blocks cnt copied rest out = copy_blocks cnt (copied + ?chunk) (drop (nat ?chunk) rest) (out @ ?got)"
        using lt full len(1) by (subst copy_blocks.simps) (simp only: Let_def if_True if_False)
      ultimately show ?thesis by simp
    qed
  qed (use 1(2) in \<open>simp add: copy_blocks.simps\<close>)
qed

lemma StreamCopier_spec: "0 \<le> cnt \<Longrightarrow> StreamCopier s cnt = (take (nat cnt) s, min cnt (int (length s)))"
  by (simp add: StreamCopier_def copy_blocks_spec)

lemma read_write: "read_file (write_file path c fs) p = (if can_write fs path \<and> p = path then Some c else read_file fs p)"
  by (simp add: write_file_def read_file_def update_conv)

lemma dirs_write [simp]: "DirectoryExists (write_file path c fs) d = DirectoryExists fs d"
  by (simp add: write_file_def DirectoryExists_def)

lemma can_write_write [simp]: "can_write (write_file path c fs) p = can_write fs p"
  by (simp add: can_write_def)

lemma read_ensure [simp]: "read_file (EnsureDirectoryExists d fs) p = read_file fs p"
  by (simp add: EnsureDirectoryExists_def read_file_def)

lemma dirs_ensure: "DirectoryExists (EnsureDirectoryExists d fs) e \<longleftrightarrow> DirectoryExists fs e \<or> e = d \<or> \<not> DirectoryExists fs d \<and> e \<in> set (ancestors d)"
  by (auto simp: EnsureDirectoryExists_def DirectoryExists_def)

lemma read_remove:
  assumes "RemoveFile f fs = Inr fs'"
  shows "read_file fs' p = (if p = f then None else read_file fs p)"
  using assms by (auto simp: RemoveFile_def read_file_def FileExists_def delete_conv split: if_splits)

lemma remove_existing: "FileExists fs f \<Longrightarrow> RemoveFile f fs = Inr (fs\<lparr>fs_files := AList.delete f (fs_files fs)\<rparr>)"
  by (simp add: RemoveFile_def)

text \<open>The parts that get into the file are those up to the first empty one.\<close>

fun until_empty :: "string list \<Rightarrow> string" where
  "until_empty [] = []"
| "until_empty (c # cs) = (if c = [] then [] else c @ until_empty cs)"


end
