(* ===== verification/S3Service.thy ===== *)
theory S3Service
  imports S3Repo KmsSsmRepo FileStore SnsPublish
begin

text \<open>
  The S3 service (\<open>srv/src/s3/S3Service.cpp\<close>): its state, the requests with their mappers
  (\<open>dto/include/awsmock/dto/s3\<close>), buckets and the notifications of a bucket. The service works on the
  S3 repository, the files of the objects and the keys of KMS, and calls SQS, SNS and Lambda; together
  they are the state \<open>s3_world\<close>. The registration of a bucket as event source of a function is
  \<open>AddEventSource\<close> of \<open>srv/src/lambda/LambdaService.cpp\<close>.

  Parameters are, beside those of SNS and SQS, the digests, the detection of content types, Base64, the
  ciphers of OpenSSL, the writer of the event and the texts of the standard library's exceptions
  (\<open>s3_env\<close>). The configuration is in \<open>s3_env\<close> as well. The \<open>i\<close>-th reading of the clock in an
  operation is \<open>clock i\<close>.
\<close>

subsection \<open>Data transfer objects and their mappers\<close>

datatype s3_event_type = REDUCED_REDUNDANCY_LOST_OBJECT | OBJECT_CREATED | OBJECT_REMOVED | OBJECT_RESTORED | REPLICATION
  | OBJECT_RESTORE | OBJECT_LIFECYCLE_TRANSITION | EVENT_INTELLIGENT_TIERING | OBJECT_ACL | LIFECYCLE_EXPIRATION | OBJECT_TAGGING

definition event_type_names :: "(s3_event_type \<times> string) list" where
  "event_type_names =
     [(REDUCED_REDUNDANCY_LOST_OBJECT, ''s3:ReducedRedundancyLostObject''), (OBJECT_CREATED, ''s3:ObjectCreated:*''),
      (OBJECT_REMOVED, ''s3:ObjectRemoved:*''), (OBJECT_RESTORED, ''s3:ObjectRestore:*''), (REPLICATION, ''s3:Replication:*''),
      (OBJECT_RESTORE, ''s3:ObjectRestore:*''), (OBJECT_LIFECYCLE_TRANSITION, ''s3:LifecycleTransition''),
      (EVENT_INTELLIGENT_TIERING, ''s3:IntelligentTiering''), (OBJECT_ACL, ''s3:ObjectAcl:Put''),
      (LIFECYCLE_EXPIRATION, ''s3:LifecycleExpiration:*''), (OBJECT_TAGGING, ''s3:ObjectTagging:*'')]"

definition event_type_prefixes :: "(s3_event_type \<times> string) list" where
  "event_type_prefixes =
     [(REDUCED_REDUNDANCY_LOST_OBJECT, ''s3:ReducedRedundancyLostObject''), (OBJECT_CREATED, ''s3:ObjectCreated''),
      (OBJECT_REMOVED, ''s3:ObjectRemoved''), (OBJECT_RESTORED, ''s3:ObjectRestore''), (REPLICATION, ''s3:Replication''),
      (OBJECT_RESTORE, ''s3:ObjectRestore''), (OBJECT_LIFECYCLE_TRANSITION, ''s3:LifecycleTransition''),
      (EVENT_INTELLIGENT_TIERING, ''s3:IntelligentTiering''), (OBJECT_ACL, ''s3:ObjectAcl''),
      (LIFECYCLE_EXPIRATION, ''s3:LifecycleExpiration''), (OBJECT_TAGGING, ''s3:ObjectTagging'')]"

definition EventTypeToString :: "s3_event_type \<Rightarrow> string" where
  "EventTypeToString t = enum_to_string event_type_names t"

definition EventTypeFromString :: "string \<Rightarrow> s3_event_type" where
  "EventTypeFromString s =
     (case List.find (\<lambda>(t, n). StartsWith s n) event_type_prefixes of Some (t, _) \<Rightarrow> t | None \<Rightarrow> OBJECT_CREATED)"

datatype name_type = NAME_prefix | NAME_suffix

definition name_type_names :: "(name_type \<times> string) list" where
  "name_type_names = [(NAME_prefix, ''prefix''), (NAME_suffix, ''suffix'')]"

definition NameTypeToString :: "name_type \<Rightarrow> string" where
  "NameTypeToString t = enum_to_string name_type_names t"

definition NameTypeFromString :: "string \<Rightarrow> name_type" where
  "NameTypeFromString s = enum_from_string name_type_names NAME_prefix s"

record dto_filter_rule =
  df_name :: name_type
  df_filterValue :: string

definition FilterRule_toDto :: "filter_rule \<Rightarrow> dto_filter_rule" where
  "FilterRule_toDto e = \<lparr>df_name = NameTypeFromString (fr_name e), df_filterValue = fr_value e\<rparr>"

definition FilterRule_toEntity :: "dto_filter_rule \<Rightarrow> filter_rule" where
  "FilterRule_toEntity d = \<lparr>fr_name = NameTypeToString (df_name d), fr_value = df_filterValue d\<rparr>"

text \<open>\<open>QueueConfiguration\<close>, \<open>TopicConfiguration\<close> and \<open>LambdaConfiguration\<close> have the same fields.\<close>

record notification_configuration =
  nc_id :: string
  nc_arn :: string
  nc_filterRules :: "dto_filter_rule list"
  nc_events :: "s3_event_type list"

definition Configuration_toDto :: "s3_notification \<Rightarrow> notification_configuration" where
  "Configuration_toDto e =
     \<lparr>nc_id = nt_id e, nc_arn = nt_arn e, nc_filterRules = map FilterRule_toDto (nt_filterRules e),
      nc_events = map EventTypeFromString (nt_events e)\<rparr>"

definition Configuration_toEntity :: "notification_configuration \<Rightarrow> s3_notification" where
  "Configuration_toEntity d =
     \<lparr>nt_id = nc_id d, nt_events = map EventTypeToString (nc_events d), nt_arn = nc_arn d,
      nt_filterRules = map FilterRule_toEntity (nc_filterRules d)\<rparr>"

record bucket_counter =
  bc_bucketName :: string
  bc_bucketArn :: string
  bc_keys :: int
  bc_size :: int
  bc_owner :: string
  bc_created :: time_point
  bc_modified :: time_point

definition BucketCounter_toDto :: "s3_bucket \<Rightarrow> bucket_counter" where
  "BucketCounter_toDto e =
     \<lparr>bc_bucketName = b_name e, bc_bucketArn = b_arn e, bc_keys = b_keys e, bc_size = b_size e, bc_owner = b_owner e,
      bc_created = b_created e, bc_modified = b_modified e\<rparr>"

definition BucketCreateRequest_toEntity :: "aws_config \<Rightarrow> time_point \<Rightarrow> string \<Rightarrow> string \<Rightarrow> string \<Rightarrow> s3_bucket" where
  "BucketCreateRequest_toEntity cfg now region name owner =
     (default_bucket now)\<lparr>b_region := region, b_owner := owner, b_name := name,
        b_arn := CreateS3BucketArn region (cfg_account_id cfg) name\<rparr>"

record bucket_response =
  br_region :: string
  br_user :: string
  br_bucket :: string
  br_arn :: string
  br_owner :: string
  br_versionStatus :: string
  br_size :: int
  br_keys :: int
  br_lambdaConfigurations :: "notification_configuration list"
  br_queueConfigurations :: "notification_configuration list"
  br_topicConfigurations :: "notification_configuration list"
  br_defaultMetadata :: "(string \<times> string) list"
  br_created :: time_point
  br_modified :: time_point

definition BucketGetResponse_toDto :: "s3_bucket \<Rightarrow> bucket_response" where
  "BucketGetResponse_toDto b =
     \<lparr>br_region = b_region b, br_user = b_owner b, br_bucket = b_name b, br_arn = b_arn b, br_owner = b_owner b,
      br_versionStatus = BucketVersionStatusToString (b_versionStatus b), br_size = b_size b, br_keys = b_keys b,
      br_lambdaConfigurations = map Configuration_toDto (b_lambdaNotifications b),
      br_queueConfigurations = map Configuration_toDto (b_queueNotifications b),
      br_topicConfigurations = map Configuration_toDto (b_topicNotifications b),
      br_defaultMetadata = b_defaultMetadata b, br_created = b_created b, br_modified = b_modified b\<rparr>"

record object_metadata =
  om_region :: string
  om_bucket :: string
  om_key :: string
  om_md5Sum :: string
  om_contentType :: string
  om_storageClass :: string
  om_size :: int
  om_versionId :: string
  om_metadata :: "(string \<times> string) list"
  om_created :: time_point
  om_modified :: time_point

definition GetBucketMetadataResponse_toDto :: "s3_bucket \<Rightarrow> object_metadata" where
  "GetBucketMetadataResponse_toDto e =
     \<lparr>om_region = b_region e, om_bucket = b_name e, om_key = [], om_md5Sum = [], om_contentType = [],
      om_storageClass = StorageClassToString STANDARD, om_size = b_size e, om_versionId = [], om_metadata = [],
      om_created = b_created e, om_modified = b_modified e\<rparr>"

definition GetObjectMetadataResponse_toDto :: "s3_object \<Rightarrow> object_metadata" where
  "GetObjectMetadataResponse_toDto e =
     \<lparr>om_region = o_region e, om_bucket = o_bucket e, om_key = o_key e, om_md5Sum = o_md5sum e,
      om_contentType = o_contentType e, om_storageClass = StorageClassToString (o_storageClass e), om_size = o_size e,
      om_versionId = o_versionId e, om_metadata = o_metadata e, om_created = o_created e, om_modified = o_modified e\<rparr>"

record object_version =
  ov_key :: string
  ov_eTag :: string
  ov_versionId :: string
  ov_storageClass :: string
  ov_isLatest :: bool
  ov_size :: int
  ov_owner :: string
  ov_lastModified :: time_point

definition ListVersionsResponse_toDto :: "s3_object list \<Rightarrow> object_version list" where
  "ListVersionsResponse_toDto e =
     map (\<lambda>x. \<lparr>ov_key = o_key x, ov_eTag = o_md5sum x, ov_versionId = o_versionId x, ov_storageClass = ''STANDARD'',
       ov_isLatest = False, ov_size = o_size x, ov_owner = o_owner x, ov_lastModified = o_modified x\<rparr>) e"

record bucket_content =
  ct_key :: string
  ct_etag :: string
  ct_size :: int
  ct_owner :: string
  ct_storageClass :: string
  ct_modified :: time_point

definition Content_toDto :: "s3_object \<Rightarrow> bucket_content" where
  "Content_toDto e =
     \<lparr>ct_key = o_key e, ct_etag = o_md5sum e, ct_size = o_size e, ct_owner = o_owner e, ct_storageClass = ''STANDARD'',
      ct_modified = o_modified e\<rparr>"

record bucket_listing =
  bl_name :: string
  bl_keyCount :: int
  bl_contents :: "bucket_content list"

definition ListBucketResponse_toDto :: "string \<Rightarrow> s3_object list \<Rightarrow> bucket_listing" where
  "ListBucketResponse_toDto name e = \<lparr>bl_name = name, bl_keyCount = int (length e), bl_contents = map Content_toDto e\<rparr>"

record dto_bucket =
  db_bucketName :: string
  db_owner :: string
  db_arn :: string
  db_keys :: int
  db_size :: int
  db_versionStatus :: string
  db_queueConfigurations :: "notification_configuration list"
  db_topicConfigurations :: "notification_configuration list"
  db_lambdaConfigurations :: "notification_configuration list"
  db_defaultMetadata :: "(string \<times> string) list"
  db_created :: time_point
  db_modified :: time_point

text \<open>Owner, keys, size and versioning are not copied.\<close>

definition Bucket_toDto :: "s3_bucket \<Rightarrow> dto_bucket" where
  "Bucket_toDto e =
     \<lparr>db_bucketName = b_name e, db_owner = [], db_arn = b_arn e, db_keys = 0, db_size = 0, db_versionStatus = [],
      db_queueConfigurations = map Configuration_toDto (b_queueNotifications e),
      db_topicConfigurations = map Configuration_toDto (b_topicNotifications e),
      db_lambdaConfigurations = map Configuration_toDto (b_lambdaNotifications e),
      db_defaultMetadata = b_defaultMetadata e, db_created = b_created e, db_modified = b_modified e\<rparr>"

text \<open>The event of an object, as the writer of its JSON sees it: the fields the service sets.\<close>

record s3_event =
  ev_awsRegion :: string
  ev_eventTime :: time_point
  ev_eventName :: string
  ev_configurationId :: string
  ev_bucketName :: string
  ev_bucketArn :: string
  ev_bucketOwner :: string
  ev_key :: string
  ev_size :: int
  ev_etag :: string
  ev_versionId :: string

subsection \<open>The state and the parameters\<close>

record s3_env =
  v_sns :: sns_env
  v_data_dir :: string
  v_s3_dir :: string
  v_temp_dir :: string
  v_transfer_dir :: string
  v_transfer_bucket :: string
  v_md5 :: "string \<Rightarrow> string"
  v_sha1 :: "string \<Rightarrow> string"
  v_sha256 :: "string \<Rightarrow> string"
  v_magic_file :: "string option \<Rightarrow> string"
  v_base64_encode :: "string \<Rightarrow> string"
  v_base64_decode :: "string \<Rightarrow> string"
  v_iequals :: "string \<Rightarrow> string \<Rightarrow> bool"
  v_event_json :: "s3_event \<Rightarrow> string"
  v_encrypt_file :: "string \<Rightarrow> string \<Rightarrow> file_store \<Rightarrow> file_store"
  v_decrypt_file :: "string \<Rightarrow> string \<Rightarrow> file_store \<Rightarrow> file_store \<times> string"
  v_what :: "fault \<Rightarrow> string"

abbreviation v_sqs :: "s3_env \<Rightarrow> sqs_env" where "v_sqs env \<equiv> n_sqs (v_sns env)"
abbreviation v_cfg :: "s3_env \<Rightarrow> aws_config" where "v_cfg env \<equiv> e_cfg (v_sqs env)"

text \<open>A task the scheduler will run: the checksums of an object by an algorithm.\<close>

record s3_world =
  z_s3 :: s3_repo
  z_kms :: kms_repo
  z_files :: file_store
  z_sns :: sns_world
  z_tasks :: "(string \<times> s3_object) list"

definition on_s3 :: "(s3_repo \<Rightarrow> s3_repo \<times> 'a) \<Rightarrow> (s3_world, 'a) action" where
  "on_s3 f = (\<lambda>w. let (st, x) = f (z_s3 w) in (w\<lparr>z_s3 := st\<rparr>, Inr x))"

definition try_s3 :: "(s3_repo \<Rightarrow> (s3_repo \<times> 'a) outcome) \<Rightarrow> (s3_world, 'a) action" where
  "try_s3 f = (\<lambda>w. case f (z_s3 w) of Inl e \<Rightarrow> (w, Inl e) | Inr (st, x) \<Rightarrow> (w\<lparr>z_s3 := st\<rparr>, Inr x))"

definition on_kms :: "(kms_repo \<Rightarrow> kms_repo \<times> 'a) \<Rightarrow> (s3_world, 'a) action" where
  "on_kms f = (\<lambda>w. let (st, x) = f (z_kms w) in (w\<lparr>z_kms := st\<rparr>, Inr x))"

definition on_files :: "(file_store \<Rightarrow> file_store) \<Rightarrow> (s3_world, unit) action" where
  "on_files f = (\<lambda>w. (w\<lparr>z_files := f (z_files w)\<rparr>, Inr ()))"

definition try_files :: "(file_store \<Rightarrow> file_store outcome) \<Rightarrow> (s3_world, unit) action" where
  "try_files f = (\<lambda>w. case f (z_files w) of Inl e \<Rightarrow> (w, Inl e) | Inr fs \<Rightarrow> (w\<lparr>z_files := fs\<rparr>, Inr ()))"

definition elsewhere :: "(sns_world, 'a) action \<Rightarrow> (s3_world, 'a) action" where
  "elsewhere a = act_part z_sns (\<lambda>s w. w\<lparr>z_sns := s\<rparr>) a"

definition schedule :: "string \<Rightarrow> s3_object \<Rightarrow> (s3_world, unit) action" where
  "schedule algorithm x = (\<lambda>w. (w\<lparr>z_tasks := z_tasks w @ [(algorithm, x)]\<rparr>, Inr ()))"

text \<open>What a handler of \<open>std::exception\<close> does. Undefined behaviour and a thread that hangs reach none.\<close>

definition what :: "s3_env \<Rightarrow> fault \<Rightarrow> string" where
  "what env e =
     (case e of
        DatabaseException m \<Rightarrow> m | ServiceException m \<Rightarrow> m | NotFoundException m \<Rightarrow> m | JsonException m \<Rightarrow> m
      | BadCronexpr m \<Rightarrow> m | _ \<Rightarrow> v_what env e)"

definition rethrow_as :: "s3_env \<Rightarrow> (string \<Rightarrow> fault) \<Rightarrow> fault \<Rightarrow> fault" where
  "rethrow_as env ex e = (if e = UndefinedBehaviour \<or> e = Deadlock then e else ex (what env e))"

definition md5_of_file :: "s3_env \<Rightarrow> string \<Rightarrow> file_store \<Rightarrow> string" where
  "md5_of_file env path fs = (case read_file fs path of None \<Rightarrow> [] | Some s \<Rightarrow> v_md5 env s)"

definition sha_of_file :: "(string \<Rightarrow> string) \<Rightarrow> string \<Rightarrow> file_store \<Rightarrow> string" where
  "sha_of_file sha path fs = (case read_file fs path of None \<Rightarrow> ''Error: Could not open file'' | Some s \<Rightarrow> sha s)"

definition object_path :: "s3_env \<Rightarrow> s3_object \<Rightarrow> string" where
  "object_path env x = appendPath (v_s3_dir env) (o_internalName x)"

definition CheckBucketExistence :: "string \<Rightarrow> string \<Rightarrow> (s3_world, 'a) action \<Rightarrow> (s3_world, 'a) action" where
  "CheckBucketExistence region name a =
     act_check (\<lambda>w. s3_bucketExists (z_s3 w) region name)
       (NotFoundException (''Bucket does not exists, region: '' @ region @ '' name: '' @ name)) a"

definition CheckBucketNonExistence :: "string \<Rightarrow> string \<Rightarrow> (s3_world, 'a) action \<Rightarrow> (s3_world, 'a) action" where
  "CheckBucketNonExistence region name a =
     act_check (\<lambda>w. \<not> s3_bucketExists (z_s3 w) region name)
       (NotFoundException (''Bucket exists already, region: '' @ region @ '', name: '' @ name)) a"

abbreviation get_bucket :: "time_point \<Rightarrow> string \<Rightarrow> string \<Rightarrow> (s3_world, s3_bucket) action" where
  "get_bucket now region name \<equiv> on_s3 (\<lambda>st. s3_getBucketByRegionName now st region name)"

abbreviation update_bucket :: "s3_bucket \<Rightarrow> (s3_world, s3_bucket) action" where
  "update_bucket bucket \<equiv> try_s3 (\<lambda>st. s3_updateBucket st bucket)"

end
