(* ===== verification/S3Buckets.thy ===== *)
theory S3Buckets
  imports S3Service
begin

text \<open>
  The notifications of the S3 service and its operations on buckets (\<open>srv/src/s3/S3Service.cpp\<close>), with
  \<open>AddEventSource\<close> of \<open>srv/src/lambda/LambdaService.cpp\<close>.
\<close>

subsection \<open>Notifications\<close>

text \<open>The ids and clock readings of one notification: those of a message to a queue, and of a publication.\<close>

record send_ids =
  si_time :: time_point
  si_delivery :: delivery_ids
  si_clock :: "nat \<Rightarrow> time_point"
  si_oid :: uuid
  si_messageId :: string
  si_deliveries :: "nat \<Rightarrow> delivery_ids"

definition event_request :: "s3_env \<Rightarrow> s3_event \<Rightarrow> s3_notification \<Rightarrow> send_request" where
  "event_request env event n =
     \<lparr>sr_region = cfg_region (v_cfg env), sr_user = [], sr_queueUrl = ConvertSQSQueueArnToUrl (e_split (v_sqs env)) (v_cfg env) (nt_arn n),
      sr_body = v_event_json env event, sr_messageGroupId = [], sr_messageDeduplicationId = [], sr_delaySeconds = 0,
      sr_contentType = [], sr_attributes = [], sr_messageAttributes = []\<rparr>"

definition SendQueueNotificationRequest :: "s3_env \<Rightarrow> send_ids \<Rightarrow> s3_event \<Rightarrow> s3_notification \<Rightarrow> (s3_world, unit) action" where
  "SendQueueNotificationRequest env ids event n =
     elsewhere (act_bind (try_sqs (\<lambda>lam st. svc_sendMessage (v_sqs env) (dl_clock (si_delivery ids)) (dl_layout (si_delivery ids))
         (dl_message (si_delivery ids)) lam st (event_request env event n))) (\<lambda>_. act_return ()))"

text \<open>The topic is the target of the publication, not its topic ARN.\<close>

definition event_publication :: "s3_env \<Rightarrow> s3_event \<Rightarrow> s3_notification \<Rightarrow> publish_request" where
  "event_publication env event n =
     \<lparr>pr_region = cfg_region (v_cfg env), pr_user = [], pr_requestId = [], pr_contentType = [], pr_topicArn = [],
      pr_targetArn = nt_arn n, pr_message = v_event_json env event, pr_messageAttributes = []\<rparr>"

definition SendTopicNotificationRequest :: "s3_env \<Rightarrow> send_ids \<Rightarrow> s3_event \<Rightarrow> s3_notification \<Rightarrow> (s3_world, unit) action" where
  "SendTopicNotificationRequest env ids event n =
     elsewhere (act_bind (sns_Publish (v_sns env) (si_clock ids) (si_oid ids) (si_messageId ids) (si_deliveries ids)
         (event_publication env event n)) (\<lambda>_. act_return ()))"

definition s3_SendLambdaInvocationRequest :: "s3_env \<Rightarrow> s3_event \<Rightarrow> s3_notification \<Rightarrow> (s3_world, unit) action" where
  "s3_SendLambdaInvocationRequest env event n =
     (let parts = e_split (v_sqs env) (nt_arn n) '':'' in
      if length parts < 7 then act_return ()
      else elsewhere (emit (LambdaInvoked (cfg_region (v_cfg env)) (parts ! 6) (v_event_json env event))))"

text \<open>The bucket's ARN and owner are read from an object that has neither.\<close>

definition event_of :: "time_point \<Rightarrow> string \<Rightarrow> s3_bucket \<Rightarrow> string \<Rightarrow> int \<Rightarrow> string \<Rightarrow> string \<Rightarrow> string \<Rightarrow> s3_notification \<Rightarrow> s3_event" where
  "event_of now region bucketEntity key sz etag versionId event n =
     \<lparr>ev_awsRegion = region, ev_eventTime = now, ev_eventName = event, ev_configurationId = nt_id n,
      ev_bucketName = b_name bucketEntity, ev_bucketArn = [], ev_bucketOwner = [], ev_key = key, ev_size = sz, ev_etag = etag,
      ev_versionId = versionId\<rparr>"

definition notify_each :: "string \<Rightarrow> (nat \<Rightarrow> s3_notification \<Rightarrow> (s3_world, unit) action) \<Rightarrow> s3_notification list \<Rightarrow> (s3_world, unit) action" where
  "notify_each key send ns = act_each (\<lambda>i n. if CheckFilter n key then send i n else act_return ()) 0 ns"

text \<open>\<open>ids 0\<close>, \<open>ids 1\<close> and \<open>ids 2\<close> are those of the queues, the topics and the functions.\<close>

definition CheckNotifications :: "s3_env \<Rightarrow> time_point \<Rightarrow> (nat \<Rightarrow> nat \<Rightarrow> send_ids) \<Rightarrow> string \<Rightarrow> string \<Rightarrow> string \<Rightarrow> int \<Rightarrow> string
    \<Rightarrow> string \<Rightarrow> string \<Rightarrow> (s3_world, unit) action" where
  "CheckNotifications env now ids region bucket key sz etag versionId event =
     act_bind (get_bucket now region bucket) (\<lambda>b.
     let ev = (\<lambda>k i n. event_of (si_time (ids k i)) region b key sz etag versionId event n) in
     act_bind (if HasQueueNotificationEvent b event
       then notify_each key (\<lambda>i n. SendQueueNotificationRequest env (ids 0 i) (ev 0 i n) n) (GetQueueNotifications b event)
       else act_return ()) (\<lambda>_.
     act_bind (if HasTopicNotificationEvent b event
       then notify_each key (\<lambda>i n. SendTopicNotificationRequest env (ids 1 i) (ev 1 i n) n) (GetTopicNotifications b event)
       else act_return ()) (\<lambda>_.
     if HasLambdaNotificationEvent b event
       then notify_each key (\<lambda>i n. s3_SendLambdaInvocationRequest env (ev 2 i n) n) (GetLambdaNotifications b event)
       else act_return ())))"

subsection \<open>Event sources of a function\<close>

record add_event_source_request =
  ae_type :: string
  ae_functionArn :: string
  ae_eventSourceArn :: string
  ae_events :: "string list"
  ae_filterRuleType :: string
  ae_filterRuleValue :: string
  ae_batchSize :: int
  ae_maximumBatchingWindowInSeconds :: int
  ae_uuid :: string
  ae_enabled :: bool

record source_ids =
  so_now :: time_point
  so_now2 :: time_point
  so_layout :: layout
  so_oid :: uuid
  so_uuid :: string

definition requested_notification :: "add_event_source_request \<Rightarrow> s3_notification" where
  "requested_notification d =
     \<lparr>nt_id = [], nt_events = ae_events d, nt_arn = ae_functionArn d,
      nt_filterRules = [\<lparr>fr_name = ae_filterRuleType d, fr_value = ae_filterRuleValue d\<rparr>]\<rparr>"

text \<open>A queue and a topic are written back as they were: the notification built for them is dropped.\<close>

definition CreateResourceNotification :: "source_ids \<Rightarrow> add_event_source_request \<Rightarrow> (s3_world, unit) action" where
  "CreateResourceNotification ids d =
     (if ae_type d = ''S3'' then
        act_check (\<lambda>w. s3_bucketExistsArn (z_s3 w) (ae_eventSourceArn d))
          (ServiceException (''S3 bucket does not exist: '' @ ae_eventSourceArn d))
        (act_bind (on_s3 (\<lambda>st. s3_getBucketByArn (so_now ids) st (ae_eventSourceArn d))) (\<lambda>bucket.
         if HasLambdaNotification bucket (ae_functionArn d) then act_return ()
         else act_bind (try_s3 (\<lambda>st. s3_createOrUpdateBucket (so_layout ids) (so_oid ids) (so_now2 ids) st
             (bucket\<lparr>b_lambdaNotifications := b_lambdaNotifications bucket @ [requested_notification d]\<rparr>))) (\<lambda>_. act_return ())))
      else if ae_type d = ''SQS'' then
        act_check (\<lambda>w. sqs_queueArnExists (w_sqs (z_sns w)) (ae_eventSourceArn d))
          (ServiceException (''Bucket does not exist: '' @ ae_eventSourceArn d))
        (elsewhere (act_bind (on_sqs (\<lambda>st. sqs_getQueueByArn (so_now ids) st (ae_eventSourceArn d))) (\<lambda>queue.
          on_sqs (\<lambda>st. (fst (sqs_createOrUpdateQueue (so_layout ids) (so_oid ids) (so_now2 ids) st queue), ())))))
      else if ae_type d = ''SNS'' then
        act_check (\<lambda>w. sns_topicExistsName (w_sns (z_sns w)) (ae_eventSourceArn d))
          (ServiceException (''Bucket does not exist: '' @ ae_eventSourceArn d))
        (elsewhere (act_bind (on_sns (\<lambda>st. sns_getTopicByArn (so_now ids) st (ae_eventSourceArn d))) (\<lambda>topic.
          try_sns (\<lambda>st. case sns_createOrUpdateTopic (so_oid ids) (so_now2 ids) st topic of
            Inl e \<Rightarrow> Inl e | Inr (st', _) \<Rightarrow> Inr (st', ())))))
      else act_return ())"

definition event_source_mapping_of :: "source_ids \<Rightarrow> add_event_source_request \<Rightarrow> event_source_mapping" where
  "event_source_mapping_of ids d =
     \<lparr>es_eventSourceArn = ae_eventSourceArn d, es_type = ae_type d, es_batchSize = ae_batchSize d,
      es_maximumBatchingWindowInSeconds = ae_maximumBatchingWindowInSeconds d, es_enabled = ae_enabled d,
      es_uuid = (if ae_uuid d = [] then so_uuid ids else ae_uuid d)\<rparr>"

definition with_event_source :: "event_source_mapping \<Rightarrow> lambda_fn \<Rightarrow> lambda_fn" where
  "with_event_source m lambda =
     lambda\<lparr>l_eventSources := (if HasEventSource lambda (es_eventSourceArn m)
       then map (\<lambda>e. if es_eventSourceArn e = es_eventSourceArn m then m else e) (l_eventSources lambda)
       else l_eventSources lambda @ [m])\<rparr>"

definition AddEventSource :: "s3_env \<Rightarrow> source_ids \<Rightarrow> add_event_source_request \<Rightarrow> (s3_world, unit) action" where
  "AddEventSource env ids d =
     act_check (\<lambda>w. lam_lambdaExistsByArn (w_lam (z_sns w)) (ae_functionArn d))
       (ServiceException (''Lambda function does not exist, arn: '' @ ae_functionArn d))
     (act_catch (rethrow_as env JsonException)
       (act_bind (elsewhere (try_lam (\<lambda>st. lam_getLambdaByArn st (ae_functionArn d)))) (\<lambda>lambda.
        act_bind (CreateResourceNotification ids d) (\<lambda>_.
        act_bind (elsewhere (try_lam (\<lambda>st. lam_updateLambda st (with_event_source (event_source_mapping_of ids d) lambda)))) (\<lambda>_.
        act_return ())))))"

definition AddLambdaEventSource :: "s3_env \<Rightarrow> source_ids \<Rightarrow> s3_bucket \<Rightarrow> notification_configuration \<Rightarrow> (s3_world, unit) action" where
  "AddLambdaEventSource env ids bucket c =
     AddEventSource env ids
       \<lparr>ae_type = ''S3'', ae_functionArn = nc_arn c, ae_eventSourceArn = b_arn bucket,
        ae_events = map EventTypeToString (nc_events c), ae_filterRuleType = [], ae_filterRuleValue = [], ae_batchSize = 10,
        ae_maximumBatchingWindowInSeconds = 5, ae_uuid = nc_id c, ae_enabled = True\<rparr>"

subsection \<open>Notification configurations\<close>

text \<open>A configuration with the id of an earlier one ends the loop. \<open>random\<close> are the ids it makes up.\<close>

fun put_configurations :: "(nat \<Rightarrow> string) \<Rightarrow> nat \<Rightarrow> notification_configuration list \<Rightarrow> s3_notification list \<Rightarrow> s3_notification list" where
  "put_configurations random i [] ns = ns"
| "put_configurations random i (c # cs) ns =
     (if nc_id c \<noteq> [] \<and> list_ex (\<lambda>n. nt_id n = nc_id c) ns then ns
      else put_configurations random (Suc i) cs
        (ns @ [(Configuration_toEntity c)\<lparr>nt_id := (if nc_id c = [] then random i else nc_id c)\<rparr>]))"

definition PutQueueNotificationConfigurations :: "(nat \<Rightarrow> string) \<Rightarrow> notification_configuration list \<Rightarrow> s3_bucket \<Rightarrow> s3_bucket" where
  "PutQueueNotificationConfigurations random cs bucket =
     bucket\<lparr>b_queueNotifications := put_configurations random 0 cs (b_queueNotifications bucket)\<rparr>"

definition PutTopicNotificationConfigurations :: "(nat \<Rightarrow> string) \<Rightarrow> notification_configuration list \<Rightarrow> s3_bucket \<Rightarrow> s3_bucket" where
  "PutTopicNotificationConfigurations random cs bucket =
     bucket\<lparr>b_topicNotifications := put_configurations random 0 cs (b_topicNotifications bucket)\<rparr>"

definition put_lambda_configuration :: "string \<Rightarrow> notification_configuration \<Rightarrow> s3_bucket \<Rightarrow> s3_bucket" where
  "put_lambda_configuration random c bucket =
     (let newEntity = Configuration_toEntity c in
      bucket\<lparr>b_lambdaNotifications :=
        (if nc_id c \<noteq> [] \<and> HasLambdaNotificationId bucket (nc_id c)
         then map (\<lambda>n. if nt_id n = nc_id c then newEntity else n) (b_lambdaNotifications bucket)
         else b_lambdaNotifications bucket @ [if nt_id newEntity = [] then newEntity\<lparr>nt_id := random\<rparr> else newEntity])\<rparr>)"

fun put_lambda_loop :: "s3_env \<Rightarrow> (nat \<Rightarrow> source_ids) \<Rightarrow> (nat \<Rightarrow> string) \<Rightarrow> nat \<Rightarrow> notification_configuration list \<Rightarrow> s3_bucket
    \<Rightarrow> (s3_world, s3_bucket) action" where
  "put_lambda_loop env ids random i [] bucket = act_return bucket"
| "put_lambda_loop env ids random i (c # cs) bucket =
     (let bucket = put_lambda_configuration (random i) c bucket in
      act_bind (AddLambdaEventSource env (ids i) bucket c) (\<lambda>_. put_lambda_loop env ids random (Suc i) cs bucket))"

definition PutLambdaNotificationConfigurations :: "s3_env \<Rightarrow> (nat \<Rightarrow> source_ids) \<Rightarrow> (nat \<Rightarrow> string) \<Rightarrow> notification_configuration list
    \<Rightarrow> s3_bucket \<Rightarrow> (s3_world, s3_bucket) action" where
  "PutLambdaNotificationConfigurations env ids random cs bucket =
     act_bind (put_lambda_loop env ids random 0 cs bucket) (\<lambda>bucket.
       if cs \<noteq> [] then update_bucket bucket else act_return bucket)"

text \<open>The answer repeats the configurations of the request.\<close>

definition s3_PutBucketNotificationConfiguration :: "s3_env \<Rightarrow> time_point \<Rightarrow> (nat \<Rightarrow> source_ids) \<Rightarrow> (nat \<Rightarrow> nat \<Rightarrow> string) \<Rightarrow> string \<Rightarrow> string
    \<Rightarrow> notification_configuration list \<Rightarrow> notification_configuration list \<Rightarrow> notification_configuration list
    \<Rightarrow> (s3_world, notification_configuration list \<times> notification_configuration list \<times> notification_configuration list) action" where
  "s3_PutBucketNotificationConfiguration env now ids random region bucket qcs tcs lcs =
     CheckBucketExistence region bucket
     (act_bind (get_bucket now region bucket) (\<lambda>b.
      let b = b\<lparr>b_queueNotifications := [], b_topicNotifications := [], b_lambdaNotifications := []\<rparr>;
          b = (if qcs \<noteq> [] then PutQueueNotificationConfigurations (random 0) qcs b else b);
          b = (if tcs \<noteq> [] then PutTopicNotificationConfigurations (random 1) tcs b else b) in
      act_bind (if lcs \<noteq> [] then PutLambdaNotificationConfigurations env ids (random 2) lcs b else act_return b) (\<lambda>b.
      act_bind (update_bucket b) (\<lambda>_.
      act_return (qcs, tcs, lcs)))))"

definition s3_GetBucketNotificationConfiguration :: "time_point \<Rightarrow> string \<Rightarrow> string
    \<Rightarrow> (s3_world, notification_configuration list \<times> notification_configuration list \<times> notification_configuration list) action" where
  "s3_GetBucketNotificationConfiguration now region bucket =
     CheckBucketExistence region bucket
     (act_bind (get_bucket now region bucket) (\<lambda>b.
      act_return (map Configuration_toDto (b_queueNotifications b), map Configuration_toDto (b_topicNotifications b),
        map Configuration_toDto (b_lambdaNotifications b))))"

definition s3_GetEventSource :: "time_point \<Rightarrow> string \<Rightarrow> string \<Rightarrow> (s3_world, notification_configuration) action" where
  "s3_GetEventSource now eventSourceArn functionArn =
     act_check (\<lambda>w. s3_bucketExistsArn (z_s3 w) eventSourceArn) (NotFoundException (''Bucket does not exists, arn: '' @ eventSourceArn))
     (act_bind (on_s3 (\<lambda>st. s3_getBucketByArn now st eventSourceArn)) (\<lambda>b.
      act_return (Configuration_toDto (GetLambdaNotificationByArn b functionArn))))"

subsection \<open>Files of objects and of buckets\<close>

definition s3_DeleteFile :: "s3_env \<Rightarrow> string \<Rightarrow> string \<Rightarrow> string \<Rightarrow> (s3_world, unit) action" where
  "s3_DeleteFile env bucket key internalName =
     (if internalName = [] then act_return ()
      else act_bind (try_files (RemoveFile (appendPath (v_s3_dir env) internalName))) (\<lambda>_.
        if bucket = v_transfer_bucket env then try_files (RemoveFile (appendPath (v_transfer_dir env) key)) else act_return ()))"

definition s3_DeleteBucketDirectory :: "s3_env \<Rightarrow> string \<Rightarrow> (s3_world, unit) action" where
  "s3_DeleteBucketDirectory env bucket =
     on_files (\<lambda>fs. DeleteDirectory (appendPath (v_s3_dir env) bucket) (EnsureDirectoryExists (v_s3_dir env) fs))"

subsection \<open>Buckets\<close>

definition s3_BucketExists :: "s3_world \<Rightarrow> string \<Rightarrow> string \<Rightarrow> bool" where
  "s3_BucketExists w region bucket = s3_bucketExists (z_s3 w) region bucket"

definition s3_GetBucketMetadata :: "time_point \<Rightarrow> string \<Rightarrow> string \<Rightarrow> (s3_world, object_metadata) action" where
  "s3_GetBucketMetadata now region bucket =
     CheckBucketExistence region bucket
     (act_bind (get_bucket now region bucket) (\<lambda>b. act_return (GetBucketMetadataResponse_toDto b)))"

definition s3_GetBucket :: "time_point \<Rightarrow> string \<Rightarrow> string \<Rightarrow> (s3_world, bucket_response) action" where
  "s3_GetBucket now region bucketName =
     CheckBucketExistence region bucketName
     (act_bind (get_bucket now region bucketName) (\<lambda>b. act_return (BucketGetResponse_toDto b)))"

text \<open>The answer has the region, the owner and the ARN of what was stored.\<close>

definition s3_CreateBucket :: "s3_env \<Rightarrow> (nat \<Rightarrow> time_point) \<Rightarrow> layout \<Rightarrow> uuid \<Rightarrow> string \<Rightarrow> string \<Rightarrow> string
    \<Rightarrow> (s3_world, string \<times> string \<times> string) action" where
  "s3_CreateBucket env clock lay oid region name owner =
     CheckBucketNonExistence region name
     (act_bind (on_s3 (\<lambda>st. s3_createBucket lay oid (clock 1) st (BucketCreateRequest_toEntity (v_cfg env) (clock 0) region name owner)))
       (\<lambda>b. act_return (b_region b, b_owner b, b_arn b)))"

text \<open>The files of every bucket of the name are deleted, whatever its region.\<close>

definition s3_PurgeBucket :: "s3_env \<Rightarrow> time_point \<Rightarrow> string \<Rightarrow> string \<Rightarrow> (s3_world, int) action" where
  "s3_PurgeBucket env now region bucketName =
     CheckBucketExistence region bucketName
     (act_bind (get_bucket now region bucketName) (\<lambda>bucket.
      act_bind (act_read (\<lambda>w. s3_listBucket (z_s3 w) bucketName [])) (\<lambda>xs.
      act_bind (act_each (\<lambda>_ x. s3_DeleteFile env (o_bucket x) (o_key x) (o_internalName x)) 0 xs) (\<lambda>_.
      on_s3 (\<lambda>st. s3_purgeBucket st bucket)))))"

fun purge_buckets :: "s3_env \<Rightarrow> (nat \<Rightarrow> time_point) \<Rightarrow> s3_bucket list \<Rightarrow> int \<Rightarrow> (s3_world, int) action" where
  "purge_buckets env clock [] deleted = act_return deleted"
| "purge_buckets env clock (b # bs) deleted =
     act_bind (s3_PurgeBucket env (clock (length bs)) (b_region b) (b_name b)) (\<lambda>n. purge_buckets env clock bs (deleted + n))"

definition s3_PurgeAllBuckets :: "s3_env \<Rightarrow> (nat \<Rightarrow> time_point) \<Rightarrow> (s3_world, int) action" where
  "s3_PurgeAllBuckets env clock =
     act_bind (act_read (\<lambda>w. s3_listBuckets (z_s3 w) [] [] 0 0 [])) (\<lambda>bs. purge_buckets env clock bs 0)"

text \<open>Operations that fetch a bucket, change the copy and write it back.\<close>

definition change_bucket :: "time_point \<Rightarrow> string \<Rightarrow> string \<Rightarrow> (s3_bucket \<Rightarrow> s3_bucket) \<Rightarrow> (s3_world, unit) action" where
  "change_bucket now region name f =
     CheckBucketExistence region name
     (act_bind (get_bucket now region name) (\<lambda>b. act_bind (update_bucket (f b)) (\<lambda>_. act_return ())))"

definition s3_UpdateBucket :: "s3_env \<Rightarrow> time_point \<Rightarrow> string \<Rightarrow> dto_bucket \<Rightarrow> (s3_world, unit) action" where
  "s3_UpdateBucket env now region d =
     change_bucket now region (db_bucketName d) (\<lambda>b. b\<lparr>b_defaultMetadata := db_defaultMetadata d,
       b_versionStatus := BucketVersionStatusFromString (v_iequals env) (db_versionStatus d)\<rparr>)"

definition s3_PutBucketVersioning :: "s3_env \<Rightarrow> time_point \<Rightarrow> string \<Rightarrow> string \<Rightarrow> string \<Rightarrow> (s3_world, unit) action" where
  "s3_PutBucketVersioning env now region bucket status =
     change_bucket now region bucket (\<lambda>b. b\<lparr>b_versionStatus := BucketVersionStatusFromString (v_iequals env) (to_lower status)\<rparr>)"

text \<open>The rules of the request are not stored.\<close>

definition s3_PutBucketLifecycleConfiguration :: "time_point \<Rightarrow> string \<Rightarrow> string \<Rightarrow> (s3_world, unit) action" where
  "s3_PutBucketLifecycleConfiguration now region bucket = change_bucket now region bucket (\<lambda>b. b)"

text \<open>The answer has no rules.\<close>

definition s3_GetBucketLifecycleConfiguration :: "time_point \<Rightarrow> string \<Rightarrow> string \<Rightarrow> (s3_world, unit) action" where
  "s3_GetBucketLifecycleConfiguration now region bucket =
     CheckBucketExistence region bucket
     (act_bind (get_bucket now region bucket) (\<lambda>b.
      if b_lifecycleConfigurations b = [] then act_throw (NotFoundException ''Bucket odes not have a lifecycle configuration'')
      else act_return ()))"

definition s3_DeleteBucketLifecycle :: "time_point \<Rightarrow> string \<Rightarrow> string \<Rightarrow> (s3_world, unit) action" where
  "s3_DeleteBucketLifecycle now region bucket = change_bucket now region bucket (\<lambda>b. b\<lparr>b_lifecycleConfigurations := []\<rparr>)"

definition s3_PutBucketEncryption :: "time_point \<Rightarrow> string \<Rightarrow> string \<Rightarrow> string \<Rightarrow> string \<Rightarrow> (s3_world, unit) action" where
  "s3_PutBucketEncryption now region bucket sseAlgorithm kmsKeyId =
     change_bucket now region bucket (\<lambda>b. b\<lparr>b_bucketEncryption := \<lparr>be_sseAlgorithm = sseAlgorithm, be_kmsKeyId = kmsKeyId\<rparr>\<rparr>)"

definition s3_ListAllBuckets :: "s3_world \<Rightarrow> int \<times> dto_bucket list" where
  "s3_ListAllBuckets w = (s3_bucketCount (z_s3 w) [] [], map Bucket_toDto (s3_listBuckets (z_s3 w) [] [] 0 0 []))"

definition s3_ListBucket :: "s3_world \<Rightarrow> string \<Rightarrow> string \<Rightarrow> bucket_listing" where
  "s3_ListBucket w name pre = ListBucketResponse_toDto name (s3_listBucket (z_s3 w) name pre)"

definition s3_ListBucketCounters :: "s3_world \<Rightarrow> string \<Rightarrow> string \<Rightarrow> int \<Rightarrow> int \<Rightarrow> sort_column list \<Rightarrow> int \<times> bucket_counter list" where
  "s3_ListBucketCounters w region pre pageSize pageIndex sortColumns =
     (s3_bucketCount (z_s3 w) region pre, map BucketCounter_toDto (s3_listBuckets (z_s3 w) region pre pageSize pageIndex sortColumns))"

definition s3_ListBucketArns :: "s3_world \<Rightarrow> string list" where
  "s3_ListBucketArns w = map b_arn (s3_listBuckets (z_s3 w) [] [] 0 0 [])"

definition s3_DeleteBucket :: "s3_env \<Rightarrow> time_point \<Rightarrow> string \<Rightarrow> string \<Rightarrow> (s3_world, unit) action" where
  "s3_DeleteBucket env now region bucket =
     (let b = (default_bucket now)\<lparr>b_region := region, b_name := bucket\<rparr> in
      CheckBucketExistence region bucket
      (act_check (\<lambda>w. \<not> s3_hasObjects (z_s3 w) b) (NotFoundException ''Bucket is not empty'')
      (act_bind (s3_DeleteBucketDirectory env bucket) (\<lambda>_. on_s3 (\<lambda>st. (s3_deleteBucket st b, ()))))))"

definition s3_ReloadAllCounters :: "(s3_world, unit) action" where
  "s3_ReloadAllCounters = try_s3 (\<lambda>st. case s3_adjustObjectCounters st of Inl e \<Rightarrow> Inl e | Inr st' \<Rightarrow> Inr (st', ()))"

definition s3_ListObjectVersions :: "time_point \<Rightarrow> string \<Rightarrow> string \<Rightarrow> string \<Rightarrow> (s3_world, object_version list) action" where
  "s3_ListObjectVersions now region bucket pre =
     CheckBucketExistence region bucket
     (act_bind (get_bucket now region bucket) (\<lambda>b.
      if \<not> IsVersioned b then act_throw (NotFoundException ''Bucket is not versioned'')
      else act_read (\<lambda>w. ListVersionsResponse_toDto (s3_listObjectVersions (z_s3 w) region bucket pre))))"

end
