(* ===== verification/S3Objects.thy ===== *)
theory S3Objects
  imports S3Buckets
begin

text \<open>
  The operations of the S3 service on objects (\<open>srv/src/s3/S3Service.cpp\<close>): reading, storing, copying,
  uploading in parts, deleting and the counters; and the task that computes checksums
  (\<open>srv/src/s3/S3HashCreator.cpp\<close>).
\<close>

subsection \<open>Encryption and content types\<close>

definition CheckEncryption :: "s3_env \<Rightarrow> time_point \<Rightarrow> s3_bucket \<Rightarrow> s3_object \<Rightarrow> (s3_world, unit) action" where
  "CheckEncryption env now bucket x =
     act_bind (on_files (EnsureDirectoryExists (v_s3_dir env))) (\<lambda>_.
     if HasEncryption bucket then
       act_bind (on_kms (\<lambda>ks. kms_getKeyByKeyId now ks (be_kmsKeyId (b_bucketEncryption bucket)))) (\<lambda>kmsKey.
       on_files (v_encrypt_file env (k_aes256Key kmsKey) (object_path env x)))
     else act_return ())"

text \<open>The deciphered file gets a name of its own, which the caller continues with.\<close>

definition CheckDecryption :: "s3_env \<Rightarrow> time_point \<Rightarrow> s3_bucket \<Rightarrow> s3_object \<Rightarrow> string \<Rightarrow> (s3_world, string) action" where
  "CheckDecryption env now bucket x outFile =
     act_bind (on_files (EnsureDirectoryExists (v_s3_dir env))) (\<lambda>_.
     if HasEncryption bucket then
       act_bind (on_kms (\<lambda>ks. kms_getKeyByKeyId now ks (be_kmsKeyId (b_bucketEncryption bucket)))) (\<lambda>kmsKey.
       (\<lambda>w. let (fs, out) = v_decrypt_file env (k_aes256Key kmsKey) (object_path env x) (z_files w) in (w\<lparr>z_files := fs\<rparr>, Inr out)))
     else act_return outFile)"

definition s3_SanitizeContentType :: "s3_env \<Rightarrow> string \<Rightarrow> string \<Rightarrow> file_store \<Rightarrow> string" where
  "s3_SanitizeContentType env contentType filePath fs =
     (if contentType = [] \<or> contentType = ''application/octet-stream'' \<or> contentType = ''binary/octet-stream''
      then v_magic_file env (read_file fs filePath) else contentType)"

subsection \<open>Reading\<close>

text \<open>The requested version of a versioned bucket, or the newest object; \<open>missing\<close> is what is thrown when
  there is no such version.\<close>

definition requested_object :: "(nat \<Rightarrow> time_point) \<Rightarrow> s3_bucket \<Rightarrow> string \<Rightarrow> string \<Rightarrow> string \<Rightarrow> string \<Rightarrow> fault \<Rightarrow> (s3_world, s3_object) action" where
  "requested_object clock b region bucket key versionId missing =
     (if IsVersioned b \<and> versionId \<noteq> [] then
        act_bind (on_s3 (\<lambda>st. s3_getObjectVersion (clock 1) st region bucket key versionId)) (\<lambda>x.
          if o_oid x = [] then act_throw missing else act_return x)
      else on_s3 (\<lambda>st. s3_getObject (clock 1) st region bucket key))"

definition s3_GetObjectMetadata :: "(nat \<Rightarrow> time_point) \<Rightarrow> string \<Rightarrow> string \<Rightarrow> string \<Rightarrow> string \<Rightarrow> (s3_world, object_metadata) action" where
  "s3_GetObjectMetadata clock region bucket key versionId =
     CheckBucketExistence region bucket
     (act_check (\<lambda>w. key = [] \<or> s3_objectExists (z_s3 w) region bucket key)
        (NotFoundException (''Object does not exist, region: '' @ region @ '', bucket: '' @ bucket @ '', key: '' @ key))
     (act_bind (get_bucket (clock 0) region bucket) (\<lambda>b.
      act_bind (requested_object clock b region bucket key versionId
        (NotFoundException (''Object version does not exist, region: '' @ region @ '', bucket: '' @ bucket @ '', key: '' @ key))) (\<lambda>x.
      act_return (GetObjectMetadataResponse_toDto x)))))"

record get_object_response =
  go_bucket :: string
  go_key :: string
  go_size :: int
  go_filename :: string
  go_contentType :: string
  go_metadata :: "(string \<times> string) list"
  go_md5sum :: string
  go_created :: time_point
  go_modified :: time_point
  go_storageClass :: string

definition GetObjectResponse_of :: "string \<Rightarrow> s3_object \<Rightarrow> get_object_response" where
  "GetObjectResponse_of filename x =
     \<lparr>go_bucket = o_bucket x, go_key = o_key x, go_size = o_size x, go_filename = filename, go_contentType = o_contentType x,
      go_metadata = o_metadata x, go_md5sum = o_md5sum x, go_created = o_created x, go_modified = o_modified x,
      go_storageClass = StorageClassToString (o_storageClass x)\<rparr>"

definition s3_GetObject :: "s3_env \<Rightarrow> (nat \<Rightarrow> time_point) \<Rightarrow> string \<Rightarrow> string \<Rightarrow> string \<Rightarrow> string \<Rightarrow> (s3_world, get_object_response) action" where
  "s3_GetObject env clock region bucket key versionId =
     CheckBucketExistence region bucket
     (act_check (\<lambda>w. key = [] \<or> s3_objectExists (z_s3 w) region bucket key) (NotFoundException ''Object does not exist'')
     (act_bind (get_bucket (clock 0) region bucket) (\<lambda>b.
      act_bind (requested_object clock b region bucket key versionId (ServiceException ''Object does not exist'')) (\<lambda>x.
      act_bind (CheckDecryption env (clock 2) b x (object_path env x)) (\<lambda>filename.
      act_return (GetObjectResponse_of filename x))))))"

subsection \<open>Storing\<close>

record put_object_request =
  po_region :: string
  po_bucket :: string
  po_key :: string
  po_owner :: string
  po_md5Sum :: string
  po_contentType :: string
  po_contentLength :: int
  po_checksumAlgorithm :: string
  po_metadata :: "(string \<times> string) list"
  po_storageClass :: string

record put_object_response =
  pq_bucket :: string
  pq_key :: string
  pq_etag :: string
  pq_md5Sum :: string
  pq_contentLength :: int
  pq_contentType :: string
  pq_sha1Sum :: string
  pq_sha256sum :: string
  pq_metadata :: "(string \<times> string) list"

definition PutObjectResponse_of :: "put_object_request \<Rightarrow> s3_object \<Rightarrow> (string \<times> string) list \<Rightarrow> put_object_response" where
  "PutObjectResponse_of d x metadata =
     \<lparr>pq_bucket = po_bucket d, pq_key = po_key d, pq_etag = o_md5sum x, pq_md5Sum = o_md5sum x, pq_contentLength = o_size x,
      pq_contentType = o_contentType x, pq_sha1Sum = o_sha1sum x, pq_sha256sum = o_sha256sum x, pq_metadata = metadata\<rparr>"

text \<open>What one call makes up: the names, the ids, the place of the new object and the readings of the clock.\<close>

record object_ids =
  oi_fileName :: string
  oi_versionId :: string
  oi_oid :: uuid
  oi_layout :: layout
  oi_clock :: "nat \<Rightarrow> time_point"
  oi_send :: "nat \<Rightarrow> nat \<Rightarrow> send_ids"

text \<open>\<open>std::map::merge\<close> moves the entries with new keys and leaves the others behind.\<close>

definition merge_left :: "(string \<times> string) list \<Rightarrow> (string \<times> string) list \<Rightarrow> (string \<times> string) list" where
  "merge_left m kvs = filter (\<lambda>(k, _). k \<in> fst ` set m) kvs"

text \<open>The default metadata are taken over when there are none.\<close>

definition default_metadata :: "s3_bucket \<Rightarrow> (string \<times> string) list" where
  "default_metadata b = (if b_defaultMetadata b = [] then b_defaultMetadata b else [])"

definition object_to_save :: "s3_env \<Rightarrow> object_ids \<Rightarrow> put_object_request \<Rightarrow> s3_bucket \<Rightarrow> file_store \<Rightarrow> int \<Rightarrow> s3_object" where
  "object_to_save env ids d b fs count_received =
     (let filePath = appendPath (v_s3_dir env) (oi_fileName ids);
          x = default_object (oi_clock ids 1);
          x = (if IsVersioned b
               then x\<lparr>o_versionId := oi_versionId ids, o_contentType := po_contentType d, o_size := count_received\<rparr>
               else x\<lparr>o_contentType := s3_SanitizeContentType env (po_contentType d) filePath fs, o_size := po_contentLength d\<rparr>) in
      x\<lparr>o_region := po_region d, o_bucket := po_bucket d,
        o_bucketArn := CreateS3BucketArn (po_region d) (cfg_account_id (v_cfg env)) (po_bucket d), o_key := po_key d,
        o_owner := po_owner d, o_internalName := oi_fileName ids, o_storageClass := StorageClassFromString (po_storageClass d),
        o_metadata := insert_new (default_metadata b) (po_metadata d), o_md5sum := md5_of_file env filePath fs\<rparr>)"

text \<open>\<open>boost::algorithm::hex\<close> writes upper-case digits.\<close>

definition HexEncode :: "string \<Rightarrow> string" where
  "HexEncode input = concat (map (\<lambda>c. hex2 hex_upper (byte c)) input)"

definition SaveObject :: "s3_env \<Rightarrow> object_ids \<Rightarrow> put_object_request \<Rightarrow> s3_bucket \<Rightarrow> string \<Rightarrow> (s3_world, put_object_response) action" where
  "SaveObject env ids d b stream =
     (let filePath = appendPath (v_s3_dir env) (oi_fileName ids);
          (content, received) = StreamCopier stream (po_contentLength d) in
      act_bind (on_files (\<lambda>fs. write_file filePath content (EnsureDirectoryExists (v_s3_dir env) fs))) (\<lambda>_.
      if received \<noteq> po_contentLength d then
        act_bind (try_files (RemoveFile filePath)) (\<lambda>_.
          act_throw (ServiceException (''Put object truncated, expected: '' @ to_string (po_contentLength d) @ '', received: '' @ to_string received)))
      else
        act_bind (if IsVersioned b
          then on_s3 (\<lambda>st. s3_getObjectMd5 (oi_clock ids 0) st (po_region d) (po_bucket d) (po_key d)
                 (HexEncode (v_base64_decode env (po_md5Sum d))))
          else act_bind (on_files (\<lambda>fs. if IsBase64 fs filePath then Base64DecodeFile (v_base64_decode env) filePath fs else fs))
                 (\<lambda>_. act_return (default_object (oi_clock ids 0)))) (\<lambda>existing.
        if IsVersioned b \<and> o_oid existing \<noteq> [] then
          act_bind (try_files (RemoveFile filePath)) (\<lambda>_.
            act_return (PutObjectResponse_of d (default_object (oi_clock ids 1)) (po_metadata d)))
        else
          act_bind (act_read (\<lambda>w. object_to_save env ids d b (z_files w) received)) (\<lambda>x.
          act_bind (if IsVersioned b \<and> po_checksumAlgorithm d \<noteq> [] then schedule (po_checksumAlgorithm d) x else act_return ()) (\<lambda>_.
          act_bind (on_s3 (\<lambda>st. if IsVersioned b then s3_createObject (oi_layout ids) (oi_oid ids) (oi_clock ids 2) st x
              else s3_createOrUpdateObject (oi_layout ids) (oi_oid ids) (oi_clock ids 2) st x)) (\<lambda>x.
          act_bind (CheckEncryption env (oi_clock ids 3) b x) (\<lambda>_.
          act_bind (CheckNotifications env (oi_clock ids 4) (oi_send ids) (po_region d) (po_bucket d) (po_key d) (o_size x) (o_md5sum x)
              (o_versionId x) ''ObjectCreated'') (\<lambda>_.
          act_return (PutObjectResponse_of d x (merge_left (default_metadata b) (po_metadata d))))))))))) "

definition s3_PutObject :: "s3_env \<Rightarrow> time_point \<Rightarrow> object_ids \<Rightarrow> put_object_request \<Rightarrow> string \<Rightarrow> (s3_world, put_object_response) action" where
  "s3_PutObject env now ids d stream =
     CheckBucketExistence (po_region d) (po_bucket d)
     (act_catch (rethrow_as env ServiceException)
       (act_bind (get_bucket now (po_region d) (po_bucket d)) (\<lambda>b. SaveObject env ids d b stream)))"

text \<open>The object of a file an FTP or SFTP user uploaded; without the file its size is -1.\<close>

definition transfer_request :: "s3_env \<Rightarrow> file_store \<Rightarrow> string \<Rightarrow> string \<Rightarrow> string \<Rightarrow> put_object_request outcome" where
  "transfer_request env fs username filename serverId =
     bind (StripBeginning filename (v_transfer_dir env @ ''/'')) (\<lambda>key. Inr
       \<lparr>po_region = cfg_region (v_cfg env), po_bucket = v_transfer_bucket env, po_key = key, po_owner = username, po_md5Sum = [],
        po_contentType = v_magic_file env (read_file fs filename),
        po_contentLength = (case read_file fs filename of None \<Rightarrow> -1 | Some s \<Rightarrow> int (length s)), po_checksumAlgorithm = [],
        po_metadata = [(''user-agent'', ''FTPService''), (''user-agent-id'', username @ ''@'' @ serverId)],
        po_storageClass = ''STANDARD''\<rparr>)"

definition s3_PutObjectFile :: "s3_env \<Rightarrow> time_point \<Rightarrow> object_ids \<Rightarrow> string \<Rightarrow> string \<Rightarrow> string \<Rightarrow> (s3_world, unit) action" where
  "s3_PutObjectFile env now ids username filename serverId = (\<lambda>w.
     case transfer_request env (z_files w) username filename serverId of
       Inl e \<Rightarrow> (w, Inl e)
     | Inr d \<Rightarrow> CheckBucketExistence (po_region d) (po_bucket d)
         (act_catch (rethrow_as env ServiceException)
           (act_bind (get_bucket now (po_region d) (po_bucket d)) (\<lambda>b.
            act_bind (SaveObject env ids d b (case read_file (z_files w) filename of None \<Rightarrow> [] | Some s \<Rightarrow> s)) (\<lambda>_. act_return ())))) w)"

definition need_object :: "string \<Rightarrow> string \<Rightarrow> string \<Rightarrow> string \<Rightarrow> (s3_world, 'a) action \<Rightarrow> (s3_world, 'a) action" where
  "need_object msg region bucket key a = act_check (\<lambda>w. s3_objectExists (z_s3 w) region bucket key) (NotFoundException msg) a"

definition s3_TouchObject :: "s3_env \<Rightarrow> (nat \<Rightarrow> time_point) \<Rightarrow> (nat \<Rightarrow> nat \<Rightarrow> send_ids) \<Rightarrow> string \<Rightarrow> string \<Rightarrow> string \<Rightarrow> (s3_world, unit) action" where
  "s3_TouchObject env clock ids region bucket key =
     CheckBucketExistence region bucket (need_object ''Bucket does not exist'' region bucket key
     (act_bind (on_s3 (\<lambda>st. s3_getObject (clock 0) st region bucket key)) (\<lambda>x.
      CheckNotifications env (clock 1) ids (o_region x) (o_bucket x) (o_key x) (o_size x) (o_md5sum x) (o_versionId x) ''ObjectCreated'')))"

definition s3_UpdateObject :: "(nat \<Rightarrow> time_point) \<Rightarrow> string \<Rightarrow> string \<Rightarrow> string \<Rightarrow> (string \<times> string) list \<Rightarrow> string \<Rightarrow> (s3_world, unit) action" where
  "s3_UpdateObject clock region bucket key metadata storageClass =
     CheckBucketExistence region bucket (need_object ''Bucket does not exist'' region bucket key
     (act_bind (on_s3 (\<lambda>st. s3_getObject (clock 0) st region bucket key)) (\<lambda>x.
      act_bind (on_s3 (\<lambda>st. s3_updateObject (clock 1) st (x\<lparr>o_metadata := metadata, o_storageClass := StorageClassFromString storageClass\<rparr>))) (\<lambda>_.
      act_return ()))))"

subsection \<open>Copying\<close>

record copy_object_request =
  cr_region :: string
  cr_sourceBucket :: string
  cr_sourceKey :: string
  cr_sourceVersionId :: string
  cr_targetBucket :: string
  cr_targetKey :: string
  cr_metadata :: "(string \<times> string) list"

definition copied_object :: "object_ids \<Rightarrow> copy_object_request \<Rightarrow> s3_bucket \<Rightarrow> s3_object \<Rightarrow> string \<Rightarrow> s3_object" where
  "copied_object ids d targetBucket sourceObject bucketArn =
     (default_object (oi_clock ids 2))\<lparr>o_region := cr_region d, o_bucket := cr_targetBucket d, o_bucketArn := bucketArn,
        o_key := cr_targetKey d, o_owner := o_owner sourceObject, o_size := o_size sourceObject, o_md5sum := o_md5sum sourceObject,
        o_sha1sum := o_sha1sum sourceObject, o_sha256sum := o_sha256sum sourceObject, o_contentType := o_contentType sourceObject,
        o_localName := o_localName sourceObject, o_metadata := cr_metadata d, o_internalName := oi_fileName ids,
        o_versionId := (if IsVersioned targetBucket then oi_versionId ids else [])\<rparr>"

definition store_copy :: "s3_env \<Rightarrow> object_ids \<Rightarrow> s3_object \<Rightarrow> (s3_world, s3_object) action" where
  "store_copy env ids x =
     act_bind (on_s3 (\<lambda>st. s3_createObject (oi_layout ids) (oi_oid ids) (oi_clock ids 3) st x)) (\<lambda>x.
     act_bind (CheckNotifications env (oi_clock ids 4) (oi_send ids) (o_region x) (o_bucket x) (o_key x) (o_size x) (o_md5sum x)
       (o_versionId x) ''ObjectCreated'') (\<lambda>_. act_return x))"

text \<open>Copying uses \<open>s3\<close> below the data directory of awsmock, moving the data directory of the module.\<close>

definition s3_CopyObject :: "s3_env \<Rightarrow> object_ids \<Rightarrow> copy_object_request \<Rightarrow> (s3_world, string) action" where
  "s3_CopyObject env ids d =
     (let dataS3Dir = appendPath (v_data_dir env) ''s3'' in
      act_bind (on_files (EnsureDirectoryExists dataS3Dir)) (\<lambda>_.
      CheckBucketExistence (cr_region d) (cr_sourceBucket d)
      (act_bind (get_bucket (oi_clock ids 0) (cr_region d) (cr_sourceBucket d)) (\<lambda>sb.
       act_bind (if IsVersioned sb \<and> cr_sourceVersionId d \<noteq> []
         then on_s3 (\<lambda>st. s3_getObjectVersion (oi_clock ids 1) st (cr_region d) (cr_sourceBucket d) (cr_sourceKey d) (cr_sourceVersionId d))
         else on_s3 (\<lambda>st. s3_getObject (oi_clock ids 1) st (cr_region d) (cr_sourceBucket d) (cr_sourceKey d))) (\<lambda>sourceObject.
       if o_oid sourceObject = [] then act_throw (NotFoundException ''Source object does not exist'') else
       act_check (\<lambda>w. s3_bucketExists (z_s3 w) (cr_region d) (cr_targetBucket d)) (NotFoundException ''Target bucket does not exist'')
       (act_bind (get_bucket (oi_clock ids 0) (cr_region d) (cr_targetBucket d)) (\<lambda>tb.
        act_bind (try_files (CopyTo (appendPath dataS3Dir (o_internalName sourceObject)) (appendPath dataS3Dir (oi_fileName ids)))) (\<lambda>_.
        act_bind (store_copy env ids (copied_object ids d tb sourceObject
            (CreateS3BucketArn (cr_region d) (cfg_account_id (v_cfg env)) (cr_targetBucket d)))) (\<lambda>x.
        act_return (o_md5sum x))))))))))"

text \<open>The source stays where it is, and the object has no bucket ARN.\<close>

definition s3_MoveObject :: "s3_env \<Rightarrow> object_ids \<Rightarrow> copy_object_request \<Rightarrow> (s3_world, string) action" where
  "s3_MoveObject env ids d =
     act_bind (on_files (EnsureDirectoryExists (v_s3_dir env))) (\<lambda>_.
     CheckBucketExistence (cr_region d) (cr_sourceBucket d)
     (need_object ''Source object does not exist'' (cr_region d) (cr_sourceBucket d) (cr_sourceKey d)
     (act_check (\<lambda>w. s3_bucketExists (z_s3 w) (cr_region d) (cr_targetBucket d)) (ServiceException ''Target bucket does not exist'')
      (act_bind (get_bucket (oi_clock ids 0) (cr_region d) (cr_targetBucket d)) (\<lambda>tb.
       act_bind (on_s3 (\<lambda>st. s3_getObject (oi_clock ids 1) st (cr_region d) (cr_sourceBucket d) (cr_sourceKey d))) (\<lambda>sourceObject.
       act_bind (try_files (CopyTo (object_path env sourceObject) (appendPath (v_s3_dir env) (oi_fileName ids)))) (\<lambda>_.
       act_bind (store_copy env ids (copied_object ids d tb sourceObject [])) (\<lambda>x.
       act_return (o_md5sum x)))))))))"

end
