(* ===== verification/S3Uploads.thy ===== *)
theory S3Uploads
  imports S3Objects
begin

text \<open>
  Uploads in parts, deletion, counters and checksums of the S3 service (\<open>srv/src/s3/S3Service.cpp\<close>,
  \<open>srv/src/s3/S3HashCreator.cpp\<close>), and the tasks of \<open>srv/src/s3/S3Server.cpp\<close>. The loop that
  synchronises the objects with the files is a partial function: where it does not end, it has no value.
\<close>

subsection \<open>Uploads in parts\<close>

definition GetMultipartUploadDirectory :: "s3_env \<Rightarrow> string \<Rightarrow> (s3_world, string) action" where
  "GetMultipartUploadDirectory env uploadId =
     act_bind (on_files (EnsureDirectoryExists (v_temp_dir env))) (\<lambda>_. act_return (appendPath (v_temp_dir env) uploadId))"

text \<open>Default metadata win over those of the request.\<close>

definition upload_object :: "time_point \<Rightarrow> string \<Rightarrow> string \<Rightarrow> string \<Rightarrow> string \<Rightarrow> (string \<times> string) list \<Rightarrow> s3_bucket \<Rightarrow> s3_object" where
  "upload_object now region user bucket key metadata b =
     (default_object now)\<lparr>o_region := region, o_bucket := bucket, o_bucketArn := b_arn b, o_key := key, o_owner := user,
        o_metadata := insert_new (b_defaultMetadata b) metadata\<rparr>"

definition s3_CreateMultipartUpload :: "s3_env \<Rightarrow> object_ids \<Rightarrow> string \<Rightarrow> string \<Rightarrow> string \<Rightarrow> string \<Rightarrow> string \<Rightarrow> (string \<times> string) list
    \<Rightarrow> (s3_world, string) action" where
  "s3_CreateMultipartUpload env ids uploadId region user bucket key metadata =
     CheckBucketExistence region bucket
     (act_bind (GetMultipartUploadDirectory env uploadId) (\<lambda>uploadDir.
      act_bind (on_files (EnsureDirectoryExists uploadDir)) (\<lambda>_.
      act_bind (get_bucket (oi_clock ids 0) region bucket) (\<lambda>b.
      act_bind (on_s3 (\<lambda>st. s3_createOrUpdateObject (oi_layout ids) (oi_oid ids) (oi_clock ids 2) st
          (upload_object (oi_clock ids 1) region user bucket key metadata b))) (\<lambda>_.
      act_return uploadId)))))"

definition part_file :: "string \<Rightarrow> string \<Rightarrow> int \<Rightarrow> string" where
  "part_file uploadDir uploadId part = appendPath uploadDir (uploadId @ ''-'' @ to_string part)"

text \<open>The part number is an \<open>int\<close> of 32 bits in the code; the name of the file is all it is used for.\<close>

definition s3_UploadPart :: "s3_env \<Rightarrow> string \<Rightarrow> int \<Rightarrow> string \<Rightarrow> int \<Rightarrow> (s3_world, string) action" where
  "s3_UploadPart env stream part uploadId len =
     act_bind (GetMultipartUploadDirectory env uploadId) (\<lambda>uploadDir.
     let fileName = part_file uploadDir uploadId part; (content, n) = StreamCopier stream len in
     act_bind (on_files (write_file fileName content)) (\<lambda>_.
     if n \<noteq> len then
       act_bind (try_files (RemoveFile fileName)) (\<lambda>_.
         act_throw (ServiceException (''Upload part truncated, expected: '' @ to_string len @ '', received: '' @ to_string n)))
     else act_read (\<lambda>w. md5_of_file env fileName (z_files w))))"

record upload_part_copy_request =
  uc_region :: string
  uc_uploadId :: string
  uc_partNumber :: int
  uc_sourceBucket :: string
  uc_sourceKey :: string
  uc_sourceVersionId :: string
  uc_min :: int
  uc_max :: int

text \<open>The source bucket is not checked. The answer has the three digests of the part.\<close>

definition s3_UploadPartCopy :: "s3_env \<Rightarrow> (nat \<Rightarrow> time_point) \<Rightarrow> upload_part_copy_request \<Rightarrow> (s3_world, string \<times> string \<times> string) action" where
  "s3_UploadPartCopy env clock d =
     act_bind (get_bucket (clock 0) (uc_region d) (uc_sourceBucket d)) (\<lambda>sb.
     act_bind (if IsVersioned sb \<and> uc_sourceVersionId d \<noteq> []
       then on_s3 (\<lambda>st. s3_getObjectVersion (clock 1) st (uc_region d) (uc_sourceBucket d) (uc_sourceKey d) (uc_sourceVersionId d))
       else on_s3 (\<lambda>st. s3_getObject (clock 1) st (uc_region d) (uc_sourceBucket d) (uc_sourceKey d))) (\<lambda>x.
     if o_oid x = [] then act_throw (NotFoundException (''Upload part copy source not found, sourceBucket: '' @ uc_sourceBucket d
       @ '', sourceKey: '' @ uc_sourceKey d)) else
     act_bind (GetMultipartUploadDirectory env (uc_uploadId d)) (\<lambda>uploadDir.
     let len = uc_max d - uc_min d + 1; destFile = part_file uploadDir (uc_uploadId d) (uc_partNumber d) in
     act_bind (act_read (\<lambda>w. StreamCopierFrom (read_file (z_files w) (object_path env x)) (uc_min d) len)) (\<lambda>(content, n).
     act_bind (on_files (write_file destFile content)) (\<lambda>_.
     if n \<noteq> len then
       act_bind (try_files (RemoveFile destFile)) (\<lambda>_.
         act_throw (ServiceException (''Upload part copy truncated, expected: '' @ to_string len @ '', received: '' @ to_string n)))
     else act_read (\<lambda>w. (md5_of_file env destFile (z_files w), sha_of_file (v_sha1 env) destFile (z_files w),
         sha_of_file (v_sha256 env) destFile (z_files w))))))))"

definition completed_object :: "s3_env \<Rightarrow> string \<Rightarrow> string \<Rightarrow> int \<Rightarrow> file_store \<Rightarrow> s3_object \<Rightarrow> s3_object" where
  "completed_object env filename outFile fileSize fs x =
     x\<lparr>o_size := fileSize, o_md5sum := md5_of_file env outFile fs, o_sha1sum := sha_of_file (v_sha1 env) outFile fs,
       o_sha256sum := sha_of_file (v_sha256 env) outFile fs, o_internalName := filename,
       o_contentType := v_magic_file env (read_file fs outFile)\<rparr>"

text \<open>The answer has the digests of the file; of the stored object when the upload has no directory.\<close>

definition s3_CompleteMultipartUpload :: "s3_env \<Rightarrow> object_ids \<Rightarrow> string \<Rightarrow> string \<Rightarrow> string \<Rightarrow> string \<Rightarrow> string
    \<Rightarrow> (s3_world, string \<times> string \<times> string) action" where
  "s3_CompleteMultipartUpload env ids region bucket key uploadId checksumAlgorithm =
     act_bind (on_s3 (\<lambda>st. s3_getObject (oi_clock ids 0) st region bucket key)) (\<lambda>x.
     act_bind (on_files (EnsureDirectoryExists (v_s3_dir env))) (\<lambda>_.
     act_bind (GetMultipartUploadDirectory env uploadId) (\<lambda>uploadDir.
     act_bind (act_read (\<lambda>w. DirectoryExists (z_files w) uploadDir)) (\<lambda>started.
     if started then
       let outFile = appendPath (v_s3_dir env) (oi_fileName ids) in
       act_bind (\<lambda>w. let (fs, n) = AppendBinaryFiles outFile (ListFilesByPrefix (z_files w) uploadDir uploadId) (z_files w) in
           (w\<lparr>z_files := fs\<rparr>, Inr n)) (\<lambda>fileSize.
       act_bind (act_read (\<lambda>w. completed_object env (oi_fileName ids) outFile fileSize (z_files w) x)) (\<lambda>c.
       act_bind (on_s3 (\<lambda>st. s3_updateObject (oi_clock ids 1) st c)) (\<lambda>x.
       act_bind (if checksumAlgorithm \<noteq> [] then schedule checksumAlgorithm x else act_return ()) (\<lambda>_.
       act_bind (on_files (DeleteDirectory uploadDir)) (\<lambda>_.
       act_bind (CheckNotifications env (oi_clock ids 2) (oi_send ids) region bucket key (o_size x) (o_md5sum x) (o_versionId x)
         ''ObjectCreated'') (\<lambda>_.
       act_return (o_md5sum c, o_sha1sum c, o_sha256sum c)))))))
     else act_return ([], o_sha1sum x, o_sha256sum x)))))"

subsection \<open>Deletion\<close>

definition s3_DeleteObject :: "s3_env \<Rightarrow> (nat \<Rightarrow> time_point) \<Rightarrow> (nat \<Rightarrow> nat \<Rightarrow> send_ids) \<Rightarrow> string \<Rightarrow> string \<Rightarrow> string \<Rightarrow> (s3_world, unit) action" where
  "s3_DeleteObject env clock ids region bucket key =
     CheckBucketExistence region bucket
     (act_bind (act_read (\<lambda>w. s3_objectExists (z_s3 w) region bucket key)) (\<lambda>exists.
      if exists then
        act_bind (on_s3 (\<lambda>st. s3_getObject (clock 0) st region bucket key)) (\<lambda>x.
        act_bind (on_s3 (\<lambda>st. s3_deleteObject st x)) (\<lambda>_.
        act_bind (s3_DeleteFile env (o_bucket x) (o_key x) (o_internalName x)) (\<lambda>_.
        CheckNotifications env (clock 1) ids region bucket key 0 (o_md5sum x) (o_versionId x) ''ObjectRemoved'')))
      else act_return ()))"

definition delete_one :: "s3_env \<Rightarrow> (nat \<Rightarrow> time_point) \<Rightarrow> (nat \<Rightarrow> nat \<Rightarrow> send_ids) \<Rightarrow> string \<Rightarrow> string \<Rightarrow> string \<Rightarrow> (s3_world, unit) action" where
  "delete_one env clock ids region bucket key =
     (if key = [] then act_return ()
      else act_bind (on_s3 (\<lambda>st. s3_getObject (clock 0) st region bucket key)) (\<lambda>x.
        act_bind (s3_DeleteFile env (o_bucket x) (o_key x) (o_internalName x)) (\<lambda>_.
        CheckNotifications env (clock 1) ids region bucket key 0 (o_md5sum x) (o_versionId x) ''ObjectRemoved'')))"

text \<open>The answer repeats the keys of the request.\<close>

definition s3_DeleteObjects :: "s3_env \<Rightarrow> (nat \<Rightarrow> nat \<Rightarrow> time_point) \<Rightarrow> (nat \<Rightarrow> nat \<Rightarrow> nat \<Rightarrow> send_ids) \<Rightarrow> string \<Rightarrow> string \<Rightarrow> string list
    \<Rightarrow> (s3_world, string list) action" where
  "s3_DeleteObjects env clock ids region bucket ks =
     CheckBucketExistence region bucket
     (act_bind (act_each (\<lambda>i key. delete_one env (clock i) (ids i) region bucket key) 0 ks) (\<lambda>_.
      act_bind (on_s3 (\<lambda>st. s3_deleteObjects st region bucket ks)) (\<lambda>_. act_return ks)))"

subsection \<open>Counters\<close>

record object_counter =
  oc_oid :: string
  oc_bucketName :: string
  oc_key :: string
  oc_versionId :: string
  oc_owner :: string
  oc_size :: int
  oc_contentType :: string
  oc_internalName :: string
  oc_body :: string
  oc_storageClass :: string
  oc_created :: time_point
  oc_modified :: time_point
  oc_metadata :: "(string \<times> string) list"

definition listed_counter :: "s3_object \<Rightarrow> object_counter" where
  "listed_counter x =
     \<lparr>oc_oid = o_oid x, oc_bucketName = o_bucket x, oc_key = o_key x, oc_versionId = o_versionId x, oc_owner = [],
      oc_size = o_size x, oc_contentType = o_contentType x, oc_internalName = [], oc_body = [], oc_storageClass = [],
      oc_created = o_created x, oc_modified = o_modified x, oc_metadata = o_metadata x\<rparr>"

definition s3_ListObjectCounters :: "s3_world \<Rightarrow> string \<Rightarrow> string \<Rightarrow> string \<Rightarrow> int \<Rightarrow> int \<Rightarrow> sort_column list \<Rightarrow> (int \<times> object_counter list) outcome" where
  "s3_ListObjectCounters w region pre bucket pageSize pageIndex sortColumns =
     bind (s3_listObjects (z_s3 w) region pre bucket pageSize pageIndex sortColumns) (\<lambda>xs.
       Inr (s3_objectCount (z_s3 w) region pre bucket, map listed_counter xs))"

record version_counter =
  vc_oid :: string
  vc_key :: string
  vc_versionId :: string
  vc_size :: int
  vc_storageClass :: string
  vc_created :: time_point
  vc_modified :: time_point
  vc_isLatest :: bool

definition version_counter_of :: "s3_object \<Rightarrow> bool \<Rightarrow> version_counter" where
  "version_counter_of x first =
     \<lparr>vc_oid = o_oid x, vc_key = o_key x, vc_versionId = o_versionId x, vc_size = o_size x,
      vc_storageClass = StorageClassToString (o_storageClass x), vc_created = o_created x, vc_modified = o_modified x, vc_isLatest = first\<rparr>"

definition s3_ListObjectVersionCounters :: "s3_world \<Rightarrow> string \<Rightarrow> string \<Rightarrow> string \<Rightarrow> int \<times> version_counter list" where
  "s3_ListObjectVersionCounters w region bucket key =
     (let xs = s3_listObjectsByKey (z_s3 w) region bucket key in
      (int (length xs), map2 version_counter_of xs (map (\<lambda>i. i = 0) [0..<length xs])))"

text \<open>\<open>ReadFile\<close> throws when it cannot take the size of the file.\<close>

definition s3_GetObjectCounters :: "s3_env \<Rightarrow> time_point \<Rightarrow> string \<Rightarrow> (s3_world, object_counter) action" where
  "s3_GetObjectCounters env now oid =
     act_check (\<lambda>w. s3_objectExistsOid (z_s3 w) oid) (NotFoundException (''Object does not exists, id: '' @ oid))
     (act_bind (on_s3 (\<lambda>st. s3_getObjectById now st oid)) (\<lambda>x.
      act_bind (act_read (\<lambda>w. read_file (z_files w) (object_path env x))) (\<lambda>content.
      case content of
        None \<Rightarrow> act_throw (RuntimeError ''file_size'')
      | Some body \<Rightarrow> act_return ((listed_counter x)\<lparr>oc_owner := o_owner x, oc_internalName := o_internalName x,
          oc_storageClass := StorageClassToString (o_storageClass x),
          oc_body := v_base64_encode env (if length body > 209715200 then ''Body size > 200MB'' else body)\<rparr>))))"

record upload_request =
  ur_region :: string
  ur_user :: string
  ur_bucketName :: string
  ur_bucketArn :: string
  ur_objectKey :: string
  ur_content :: string
  ur_contentType :: string
  ur_metadata :: "(string \<times> string) list"

definition s3_UploadObjectCounter :: "s3_env \<Rightarrow> object_ids \<Rightarrow> upload_request \<Rightarrow> (s3_world, unit) action" where
  "s3_UploadObjectCounter env ids d =
     act_check (\<lambda>w. s3_bucketExistsArn (z_s3 w) (ur_bucketArn d))
       (NotFoundException (''Bucket does not exists, bucketArn: '' @ ur_bucketArn d))
     (let filePath = appendPath (v_s3_dir env) (oi_fileName ids); data = v_base64_decode env (ur_content d) in
      act_bind (on_files (\<lambda>fs. write_file filePath data (EnsureDirectoryExists (v_s3_dir env) fs))) (\<lambda>_.
      act_bind (act_read (\<lambda>w. (default_object (oi_clock ids 0))\<lparr>o_region := ur_region d, o_bucket := ur_bucketName d,
         o_bucketArn := CreateS3BucketArn (ur_region d) (cfg_account_id (v_cfg env)) (ur_bucketName d), o_key := ur_objectKey d,
         o_owner := ur_user d, o_size := int (length data),
         o_contentType := s3_SanitizeContentType env (ur_contentType d) filePath (z_files w), o_metadata := ur_metadata d,
         o_internalName := oi_fileName ids, o_md5sum := md5_of_file env filePath (z_files w)\<rparr>)) (\<lambda>x.
      act_bind (on_s3 (\<lambda>st. s3_createOrUpdateObject (oi_layout ids) (oi_oid ids) (oi_clock ids 1) st x)) (\<lambda>x.
      CheckNotifications env (oi_clock ids 2) (oi_send ids) (ur_region d) (ur_bucketName d) (ur_objectKey d) (o_size x) (o_md5sum x)
        (o_versionId x) ''ObjectCreated''))))"

subsection \<open>Checksums\<close>

text \<open>The digest of \<open>MD5\<close> goes into the field of \<open>SHA256\<close>.\<close>

definition with_checksum :: "s3_env \<Rightarrow> file_store \<Rightarrow> string \<Rightarrow> s3_object \<Rightarrow> s3_object" where
  "with_checksum env fs algorithm x =
     (let filename = v_s3_dir env @ ''/'' @ o_internalName x in
      if algorithm = ''SHA1'' then x\<lparr>o_sha1sum := sha_of_file (v_sha1 env) filename fs\<rparr>
      else if algorithm = ''SHA256'' then x\<lparr>o_sha256sum := sha_of_file (v_sha256 env) filename fs\<rparr>
      else if algorithm = ''MD5'' then x\<lparr>o_sha256sum := md5_of_file env filename fs\<rparr>
      else x)"

text \<open>The file is that of the object the task was given.\<close>

definition S3HashCreator :: "s3_env \<Rightarrow> time_point \<Rightarrow> string \<times> s3_object \<Rightarrow> (s3_world, unit) action" where
  "S3HashCreator env now task =
     act_bind (act_read (\<lambda>w. with_checksum env (z_files w) (fst task) (snd task))) (\<lambda>x.
     act_bind (on_s3 (\<lambda>st. s3_updateObject now st x)) (\<lambda>_. act_return ()))"

definition run_first_task :: "s3_env \<Rightarrow> time_point \<Rightarrow> (s3_world, unit) action" where
  "run_first_task env now = (\<lambda>w.
     case z_tasks w of [] \<Rightarrow> (w, Inr ()) | task # tasks \<Rightarrow> S3HashCreator env now task (w\<lparr>z_tasks := tasks\<rparr>))"

subsection \<open>The tasks of the server\<close>

definition drop_missing :: "s3_env \<Rightarrow> file_store \<Rightarrow> s3_object list \<Rightarrow> s3_repo \<Rightarrow> s3_repo" where
  "drop_missing env fs xs st =
     foldl (\<lambda>st x. if FileExists fs (object_path env x) then st else fst (s3_deleteObject st x)) st xs"

text \<open>The objects are listed anew after every round, until there are none.\<close>

partial_function (option) sync_bucket :: "s3_env \<Rightarrow> file_store \<Rightarrow> string \<Rightarrow> string \<Rightarrow> s3_repo \<Rightarrow> s3_repo option" where
  "sync_bucket env fs region name st =
     (let xs = s3_getBucketObjectList st region name 1000 in
      if xs = [] then Some st else sync_bucket env fs region name (drop_missing env fs xs st))"

fun sync_buckets :: "s3_env \<Rightarrow> file_store \<Rightarrow> string \<Rightarrow> s3_bucket list \<Rightarrow> s3_repo \<Rightarrow> s3_repo option" where
  "sync_buckets env fs region [] st = Some st"
| "sync_buckets env fs region (b # bs) st = Option.bind (sync_bucket env fs region (b_name b) st) (sync_buckets env fs region bs)"

text \<open>The files of the directory; a directory in it is treated like a file.\<close>

definition entries :: "file_store \<Rightarrow> string \<Rightarrow> string list" where
  "entries fs dir = filter (\<lambda>p. parent_path p = dir) (map fst (fs_files fs) @ fs_dirs fs)"

definition sync_files :: "s3_env \<Rightarrow> (s3_world, unit) action" where
  "sync_files env =
     act_bind (act_read (\<lambda>w. if DirectoryExists (z_files w) (v_s3_dir env) then entries (z_files w) (v_s3_dir env) else [])) (\<lambda>ps.
     act_each (\<lambda>_ p. act_bind (act_read (\<lambda>w. s3_objectExistsInternalName (z_s3 w) (GetBasename p))) (\<lambda>known.
       if known then act_return () else try_files (RemoveFile p))) 0 ps)"

definition SyncObjects :: "s3_env \<Rightarrow> s3_world \<Rightarrow> (s3_world \<times> unit outcome) option" where
  "SyncObjects env w =
     (let bs = s3_listBuckets (z_s3 w) [] [] 0 0 [] in
      if bs = [] then Some (w, Inr ())
      else Option.bind (sync_buckets env (z_files w) (cfg_region (v_cfg env)) bs (z_s3 w)) (\<lambda>st.
        Some (sync_files env (w\<lparr>z_s3 := st\<rparr>))))"

text \<open>The gauges \<open>UpdateCounter\<close> signals: name, label, value.\<close>

definition s3_gauges :: "s3_bucket list \<Rightarrow> (string \<times> string \<times> int) list" where
  "s3_gauges bs =
     concat (map (\<lambda>b. [(''s3_object_by_bucket_counter'', b_name b, b_keys b), (''s3_size_by_bucket_counter'', b_name b, b_size b)]) bs)
     @ [(''s3_bucket_counter'', [], int (length bs)), (''s3_bucket_size_counter'', [], sum_list (map b_size bs)),
        (''s3_object_counter'', [], sum_list (map b_keys bs))]"

definition s3_UpdateCounter :: "(s3_world, (string \<times> string \<times> int) list) action" where
  "s3_UpdateCounter =
     act_bind s3_ReloadAllCounters (\<lambda>_. act_read (\<lambda>w. s3_gauges (s3_listBuckets (z_s3 w) [] [] 0 0 [])))"

end
