(* ===== verification/S3ServiceSteps.thy ===== *)
theory S3ServiceSteps
  imports S3Uploads S3Props SnsServiceSteps
begin

text \<open>
  The S3 service as a state machine over the repository, the files and the services it calls. In the
  states it reaches every bucket carries the object id it is stored under and no two buckets have the
  same region and name, so that writing a bucket back that was read before is always defined; and the
  topics of SNS stay in order.
\<close>

subsection \<open>The repository\<close>

definition s3_ok :: "s3_repo \<Rightarrow> bool" where
  "s3_ok st \<longleftrightarrow> s3_inv st \<and> all_stamped b_oid (buckets st) \<and> ident_unique bucket_ident (buckets st)"

lemma s3_okD:
  assumes "s3_ok st"
  shows "wf_store (buckets st)" "wf_store (objects st)" "all_stamped b_oid (buckets st)" "ident_unique bucket_ident (buckets st)"
  using assms by (simp_all add: s3_ok_def s3_inv_def)

lemma s3_okI:
  "wf_store (buckets st) \<Longrightarrow> wf_store (objects st) \<Longrightarrow> all_stamped b_oid (buckets st) \<Longrightarrow> ident_unique bucket_ident (buckets st) \<Longrightarrow> s3_ok st"
  by (simp add: s3_ok_def s3_inv_def)

lemma s3_ok_objects: "s3_ok st \<Longrightarrow> wf_store os \<Longrightarrow> s3_ok (st\<lparr>objects := os\<rparr>)"
  by (simp add: s3_ok_def s3_inv_def)

lemma s3_ok_buckets: "s3_ok st \<Longrightarrow> wf_store bs \<Longrightarrow> all_stamped b_oid bs \<Longrightarrow> ident_unique bucket_ident bs \<Longrightarrow> s3_ok (st\<lparr>buckets := bs\<rparr>)"
  by (simp add: s3_ok_def s3_inv_def)

text \<open>Looking a bucket up changes nothing.\<close>

definition found_bucket :: "time_point \<Rightarrow> (s3_bucket \<Rightarrow> bool) \<Rightarrow> s3_repo \<Rightarrow> s3_bucket" where
  "found_bucket now P st = (case find_if (\<lambda>(_, b). P b) (buckets st) of None \<Rightarrow> default_bucket now | Some (_, b) \<Rightarrow> b)"

lemma getBucket_eqs:
  assumes "s3_ok st"
  shows "s3_getBucketByRegionName now st region name = (st, found_bucket now (\<lambda>b. b_region b = region \<and> b_name b = name) st)"
    "s3_getBucketByArn now st arn = (st, found_bucket now (\<lambda>b. b_arn b = arn) st)"
  by (simp_all add: s3_getBucketByRegionName_def s3_getBucketByArn_def with_buckets_def found_bucket_def
      s3_b.get_or_stamped [OF s3_okD(1,3) [OF assms]])

text \<open>The copy of a bucket an operation works on, and writing it back.\<close>

definition known_bucket :: "s3_repo \<Rightarrow> s3_bucket \<Rightarrow> bool" where
  "known_bucket st b \<longleftrightarrow> (\<exists>old. (b_oid b, old) \<in> set (buckets st) \<and> bucket_ident old = bucket_ident b)"

lemma known_bucket_same: "known_bucket st b \<Longrightarrow> b_oid c = b_oid b \<Longrightarrow> bucket_ident c = bucket_ident b \<Longrightarrow> known_bucket st c"
  by (simp add: known_bucket_def)

lemma found_bucket_known:
  assumes "s3_ok st" "found (\<lambda>(_, b). P b) (buckets st)"
  shows "known_bucket st (found_bucket now P st)" "P (found_bucket now P st)"
proof -
  obtain k b where f: "find_if (\<lambda>(_, b). P b) (buckets st) = Some (k, b)" using assms(2) by (auto simp: found_def)
  have m: "(k, b) \<in> set (buckets st)" "P b" using find_if_SomeD [OF f] by auto
  then have "b_oid b = k" using s3_okD(3) [OF assms(1)] by (auto simp: all_stamped_def)
  then show "known_bucket st (found_bucket now P st)" "P (found_bucket now P st)"
    using m by (auto simp: found_bucket_def f known_bucket_def)
qed

lemma updateBucket_known:
  assumes ok: "s3_ok st" and b: "known_bucket st b"
  shows "s3_updateBucket st b = Inr (st\<lparr>buckets := assign (b_oid b) b (buckets st)\<rparr>, b)"
proof -
  obtain old where old: "(b_oid b, old) \<in> set (buckets st)" "bucket_ident old = bucket_ident b"
    using b by (auto simp: known_bucket_def)
  let ?P = "\<lambda>(_::string, x). b_region x = b_region b \<and> b_name x = b_name b"
  have "found ?P (buckets st)" unfolding found_iff using old by (force simp: bucket_ident_def)
  then obtain k c where f: "find_if ?P (buckets st) = Some (k, c)" by (auto simp: found_def)
  have "(k, c) \<in> set (buckets st)" "bucket_ident c = bucket_ident b" using find_if_SomeD [OF f] by (auto simp: bucket_ident_def)
  then have "k = b_oid b" using ident_uniqueD [OF s3_okD(4) [OF ok] old(1)] old(2) by metis
  then show ?thesis using f by (simp add: s3_updateBucket_def replace_found_def with_buckets_def)
qed

lemma updateBucket_ok:
  assumes ok: "s3_ok st" and b: "known_bucket st b"
  shows "s3_ok (st\<lparr>buckets := assign (b_oid b) b (buckets st)\<rparr>)"
    "known_bucket st c \<Longrightarrow> known_bucket (st\<lparr>buckets := assign (b_oid b) b (buckets st)\<rparr>) c"
    "by_ident bucket_ident (assign (b_oid b) b (buckets st)) = (by_ident bucket_ident (buckets st))(bucket_ident b \<mapsto> b)"
proof -
  obtain old where old: "(b_oid b, old) \<in> set (buckets st)" "bucket_ident old = bucket_ident b"
    using b by (auto simp: known_bucket_def)
  have s: "set (assign (b_oid b) b (buckets st)) = insert (b_oid b, b) {kv \<in> set (buckets st). fst kv \<noteq> b_oid b}"
    by (rule s3_buckets.set_assign [OF s3_okD(1) [OF ok] old(1)])
  have other: "bucket_ident e \<noteq> bucket_ident b" if "(k, e) \<in> set (buckets st)" "k \<noteq> b_oid b" for k e
    using ident_uniqueD [OF s3_okD(4) [OF ok] old(1) that(1)] old(2) that(2) by metis
  have iu: "ident_unique bucket_ident (assign (b_oid b) b (buckets st))"
    unfolding ident_unique_def s using ident_uniqueD [OF s3_okD(4) [OF ok]] other by (auto dest: sym)
  then show "s3_ok (st\<lparr>buckets := assign (b_oid b) b (buckets st)\<rparr>)"
    by (intro s3_ok_buckets ok) (use s3_okD [OF ok] in \<open>simp_all add: all_stamped_assign\<close>)
  show "by_ident bucket_ident (assign (b_oid b) b (buckets st)) = (by_ident bucket_ident (buckets st))(bucket_ident b \<mapsto> b)"
  proof (rule ext, rule by_ident_eqI [OF iu])
    fix i e
    show "((by_ident bucket_ident (buckets st))(bucket_ident b \<mapsto> b)) i = Some e \<longleftrightarrow>
        (\<exists>k. (k, e) \<in> set (assign (b_oid b) b (buckets st)) \<and> bucket_ident e = i)"
    proof (cases "i = bucket_ident b")
      case True
      then show ?thesis unfolding s using other by auto
    next
      case False
      moreover have "k \<noteq> b_oid b" if "(k, e) \<in> set (buckets st)" "bucket_ident e = i" for k
        using that False old s3_okD(1) [OF ok] by (auto simp: wf_in_map_of)
      ultimately show ?thesis unfolding s using by_ident_Some [OF s3_okD(4) [OF ok], of i e] by auto
    qed
  qed
  assume c: "known_bucket st c"
  then obtain o' where o': "(b_oid c, o') \<in> set (buckets st)" "bucket_ident o' = bucket_ident c" by (auto simp: known_bucket_def)
  show "known_bucket (st\<lparr>buckets := assign (b_oid b) b (buckets st)\<rparr>) c"
  proof (cases "b_oid c = b_oid b")
    case True
    then have "o' = old" using o'(1) old(1) s3_okD(1) [OF ok] by (auto simp: wf_in_map_of)
    then show ?thesis using True s o' old by (auto simp: known_bucket_def)
  next
    case False
    then show ?thesis using o' s by (auto simp: known_bucket_def)
  qed
qed

lemma stamp_inserted:
  assumes "wf_store m"
  shows "set (assign k w (hmap_insert lay k v m)) = set (hmap_insert lay k w m)"
proof (cases "k \<in> keys_of m")
  case True
  moreover have "assign k w (assign k v m) = assign k w m" by (auto simp: assign_def modify_def)
  ultimately show ?thesis by (simp add: hmap_insert_present)
next
  case False
  then show ?thesis by (rule set_assign_hmap [OF assms])
qed

lemma createBucket_ok:
  assumes ok: "s3_ok st" and new: "\<not> s3_bucketExists st (b_region b) (b_name b)"
  shows "s3_ok (fst (s3_createBucket lay uuid now st b))"
    "snd (s3_createBucket lay uuid now st b) = set_b_oid uuid b"
    "objects (fst (s3_createBucket lay uuid now st b)) = objects st"
proof -
  let ?m = "hmap_insert lay uuid b (buckets st)" and ?b = "set_b_oid uuid b"
  have wf: "wf_store ?m" by (rule wf_hmap_insert [OF s3_okD(1) [OF ok]])
  have "map_of ?m uuid = Some b" by (rule hm.ins_lookup [OF s3_okD(1) [OF ok]])
  then have run: "s3_createBucket lay uuid now st b = (st\<lparr>buckets := assign uuid ?b ?m\<rparr>, ?b)"
    by (simp add: s3_createBucket_def s3_getBucketById_def with_buckets_def get_or_def s3_b.stamp_by_key [OF wf])
  have s: "set (assign uuid ?b ?m) = set (hmap_insert lay uuid ?b (buckets st))"
    by (rule stamp_inserted [OF s3_okD(1) [OF ok]])
  have "\<not> found (\<lambda>(_, e). bucket_ident e = bucket_ident ?b) (buckets st)"
    using new by (simp add: s3_bucketExists_def bucket_ident_pred [symmetric] bucket_ident_def set_b_oid_def)
  then have "ident_unique bucket_ident (hmap_insert lay uuid ?b (buckets st))"
    using s3_buckets.upsert_unique [OF s3_okD(1,4) [OF ok], of "\<lambda>_. ?b" ?b lay uuid]
      upsert_absent [of bucket_ident ?b "buckets st" "hmap_insert lay" uuid "\<lambda>_. ?b"] by simp
  then have iu: "ident_unique bucket_ident (assign uuid ?b ?m)"
    using s by (simp add: ident_unique_def)
  have "all_stamped b_oid (hmap_insert lay uuid ?b (buckets st))"
    by (rule all_stamped_hmap_insert) (use s3_okD(3) [OF ok] in \<open>simp_all add: set_b_oid_def\<close>)
  then have "all_stamped b_oid (assign uuid ?b ?m)" using s by (simp add: all_stamped_def)
  then show "s3_ok (fst (s3_createBucket lay uuid now st b))"
    using iu wf by (simp add: run s3_ok_buckets [OF ok])
  show "snd (s3_createBucket lay uuid now st b) = ?b" "objects (fst (s3_createBucket lay uuid now st b)) = objects st"
    by (simp_all add: run)
qed

lemma deleteBucket_ok: "s3_ok st \<Longrightarrow> s3_ok (s3_deleteBucket st b)"
  by (simp add: s3_deleteBucket_def s3_ok_buckets s3_okD all_stamped_filter ident_unique_filter)

lemma adjust_counters_ok:
  assumes ok: "s3_ok st"
  shows "\<exists>bs. s3_adjustObjectCounters st = Inr (st\<lparr>buckets := bs\<rparr>)"
    "s3_adjustObjectCounters st = Inr st' \<Longrightarrow> s3_ok st' \<and> objects st' = objects st"
proof -
  let ?w = "\<lambda>bucket b. b\<lparr>b_keys := s3_objectCount st (b_region bucket) [] (b_name bucket)\<rparr>"
  have "\<exists>m. index_loop b_oid ?w (map fst (buckets st)) (buckets st) = Inr m \<and> map fst m = map fst (buckets st) \<and>
      (\<forall>k. map_of m k = map_option (\<lambda>e. if k \<in> set (map fst (buckets st)) then ?w e e else e) (map_of (buckets st) k))"
    by (rule index_loop_stamped) (use s3_okD [OF ok] in \<open>simp_all add: wf_store_def\<close>)
  then obtain bs where bs: "index_loop b_oid ?w (map fst (buckets st)) (buckets st) = Inr bs" by blast
  then show "\<exists>bs. s3_adjustObjectCounters st = Inr (st\<lparr>buckets := bs\<rparr>)" by (auto simp: s3_adjustObjectCounters_def)
  have keys: "map fst bs = map fst (buckets st)" by (rule index_loop_keeps(1) [OF bs])
  have old: "\<exists>e. (k, e) \<in> set (buckets st) \<and> b_oid e' = b_oid e \<and> bucket_ident e' = bucket_ident e" if "(k, e') \<in> set bs" for k e'
    using index_loop_keeps(2) [OF bs, where f = "\<lambda>b. (b_oid b, bucket_ident b)", OF _ that] by (simp add: bucket_ident_def)
  have wf: "wf_store bs" using wf_of_keys [OF keys] s3_okD(1) [OF ok] by simp
  have "all_stamped b_oid bs" using old s3_okD(3) [OF ok] by (fastforce simp: all_stamped_def)
  moreover have "ident_unique bucket_ident bs"
    unfolding ident_unique_def
  proof (intro allI impI)
    fix k e k' e' assume m: "(k, e) \<in> set bs" "(k', e') \<in> set bs" "bucket_ident e = bucket_ident e'"
    obtain f f' where "(k, f) \<in> set (buckets st)" "(k', f') \<in> set (buckets st)" "bucket_ident f = bucket_ident f'"
      using old [OF m(1)] old [OF m(2)] m(3) by auto
    then have "k = k'" using ident_uniqueD [OF s3_okD(4) [OF ok]] by blast
    then show "k = k' \<and> e = e'" using m wf by (auto simp: wf_in_map_of)
  qed
  ultimately show "s3_adjustObjectCounters st = Inr st' \<Longrightarrow> s3_ok st' \<and> objects st' = objects st"
    using wf bs by (auto simp: s3_adjustObjectCounters_def s3_ok_buckets [OF ok])
qed

text \<open>What the repository does to objects keeps it in order, whatever the objects are.\<close>

lemma object_ops_ok:
  assumes ok: "s3_ok st"
  shows "s3_ok (fst (s3_getObject now st region bucket key))"
    "s3_ok (fst (s3_getObjectVersion now st region bucket key version))"
    "s3_ok (fst (s3_getObjectMd5 now st region bucket key md5))"
    "s3_ok (fst (s3_getObjectById now st oid))"
    "s3_ok (fst (s3_createObject lay uuid now st x))"
    "s3_ok (fst (s3_updateObject now st x))"
    "s3_ok (fst (s3_createOrUpdateObject lay uuid now st x))"
    "s3_ok (fst (s3_deleteObject st x))"
    "s3_ok (fst (s3_deleteObjects st region bucket ks))"
    "s3_ok (fst (s3_purgeBucket st b))"
  using s3_okD(2) [OF ok] ok
  by (auto simp: s3_getObject_def s3_getObjectVersion_def s3_getObjectMd5_def s3_getObjectById_def s3_createObject_def
      s3_updateObject_def s3_createOrUpdateObject_def s3_deleteObject_def s3_deleteObjects_def s3_purgeBucket_def with_objects_def
      replace_found_def assign_def wf_hmap_insert intro!: s3_ok_objects split: option.splits)

subsection \<open>Every operation keeps the state in order\<close>

definition s3_fine :: "s3_world \<Rightarrow> bool" where
  "s3_fine w \<longleftrightarrow> s3_ok (z_s3 w) \<and> topics_fine (z_sns w)"

lemma fine_on_s3: "(\<And>st. s3_ok st \<Longrightarrow> s3_ok (fst (f st))) \<Longrightarrow> keeps s3_fine (on_s3 f)"
  by (simp add: keeps_def on_s3_def s3_fine_def split_beta)

lemma fine_try_s3: "(\<And>st st' x. s3_ok st \<Longrightarrow> f st = Inr (st', x) \<Longrightarrow> s3_ok st') \<Longrightarrow> keeps s3_fine (try_s3 f)"
  by (auto simp: keeps_def try_s3_def s3_fine_def split: sum.splits prod.splits)

lemma fine_rules [keeps_rules]:
  "keeps s3_fine (on_kms g)" "keeps s3_fine (on_files h)" "keeps s3_fine (try_files l)" "keeps s3_fine (schedule alg x)"
  by (auto simp: keeps_def on_kms_def on_files_def try_files_def schedule_def s3_fine_def split: sum.splits prod.splits)

lemma fine_elsewhere: "keeps topics_fine a \<Longrightarrow> keeps s3_fine (elsewhere a)"
  unfolding elsewhere_def by (rule keeps_part) (simp_all add: s3_fine_def)

lemma fine_file_actions [keeps_rules]:
  "keeps s3_fine (\<lambda>w. (w\<lparr>z_files := f w\<rparr>, g w))"
  "keeps s3_fine (\<lambda>w. let (fs, x) = h w in (w\<lparr>z_files := fs\<rparr>, Inr (k x)))"
  by (simp_all add: keeps_def s3_fine_def split_beta)

lemma fine_lookup [keeps_rules]: "keeps s3_fine (get_bucket now region name)" "keeps s3_fine (on_s3 (\<lambda>st. s3_getBucketByArn now st arn))"
  by (rule fine_on_s3, simp add: getBucket_eqs)+

lemma fine_objects [keeps_rules]:
  "keeps s3_fine (on_s3 (\<lambda>st. s3_getObject now st region bucket key))"
  "keeps s3_fine (on_s3 (\<lambda>st. s3_getObjectVersion now st region bucket key version))"
  "keeps s3_fine (on_s3 (\<lambda>st. s3_getObjectMd5 now st region bucket key md5))"
  "keeps s3_fine (on_s3 (\<lambda>st. s3_getObjectById now st oid))"
  "keeps s3_fine (on_s3 (\<lambda>st. s3_createObject lay uuid now st x))"
  "keeps s3_fine (on_s3 (\<lambda>st. s3_updateObject now st x))"
  "keeps s3_fine (on_s3 (\<lambda>st. s3_createOrUpdateObject lay uuid now st x))"
  "keeps s3_fine (on_s3 (\<lambda>st. s3_deleteObject st x))"
  "keeps s3_fine (on_s3 (\<lambda>st. s3_deleteObjects st region bucket ks))"
  "keeps s3_fine (on_s3 (\<lambda>st. s3_purgeBucket st b))"
  "keeps s3_fine (on_s3 (\<lambda>st. if c then s3_createObject lay uuid now st x else s3_createOrUpdateObject lay uuid now st x))"
  "keeps s3_fine (on_s3 (\<lambda>st. (s3_deleteBucket st b, ())))"
  by (rule fine_on_s3, simp add: object_ops_ok deleteBucket_ok)+

lemma fine_check_bucket [keeps_rules]:
  "keeps I a \<Longrightarrow> keeps I (CheckBucketExistence region name a)" "keeps I a \<Longrightarrow> keeps I (need_object msg region name key a)"
  by (simp_all add: CheckBucketExistence_def need_object_def keeps_check)

lemma fine_send [keeps_rules]:
  "keeps s3_fine (SendQueueNotificationRequest env ids ev n)"
  "keeps s3_fine (SendTopicNotificationRequest env ids ev n)"
  "keeps s3_fine (s3_SendLambdaInvocationRequest env ev n)"
  unfolding SendQueueNotificationRequest_def SendTopicNotificationRequest_def s3_SendLambdaInvocationRequest_def Let_def
  by (intro keeps_rules fine_elsewhere keeps_publish)+

lemma fine_notify [keeps_rules]:
  "(\<And>i n. keeps s3_fine (send i n)) \<Longrightarrow> keeps s3_fine (notify_each key send ns)"
  unfolding notify_each_def by (intro keeps_rules)

lemma fine_notifications [keeps_rules]: "keeps s3_fine (CheckNotifications env now ids region bucket key sz etag versionId event)"
  unfolding CheckNotifications_def Let_def by (intro keeps_rules)

lemma fine_delete_file [keeps_rules]: "keeps s3_fine (s3_DeleteFile env bucket key internalName)"
  unfolding s3_DeleteFile_def by (intro keeps_rules)

lemma fine_crypt [keeps_rules]: "keeps s3_fine (CheckEncryption env now b x)" "keeps s3_fine (CheckDecryption env now b x out)"
  unfolding CheckEncryption_def CheckDecryption_def by (intro keeps_rules fine_file_actions(2) [where k = "\<lambda>x. x"])+

lemma fine_requested [keeps_rules]: "keeps s3_fine (requested_object clock b region bucket key versionId missing)"
  unfolding requested_object_def by (intro keeps_rules)

lemma fine_save [keeps_rules]: "keeps s3_fine (SaveObject env ids d b stream)"
  unfolding SaveObject_def Let_def case_prod_unfold by (intro keeps_rules)

lemma fine_put: "keeps s3_fine (s3_PutObject env now ids d stream)" "keeps s3_fine (s3_PutObjectFile env now ids username filename serverId)"
proof -
  show "keeps s3_fine (s3_PutObject env now ids d stream)" unfolding s3_PutObject_def by (intro keeps_rules)
  have "keeps s3_fine (CheckBucketExistence r b (act_catch h (act_bind (get_bucket now r b) (\<lambda>bk.
      act_bind (SaveObject env ids d bk s) (\<lambda>_. act_return ())))))" for r b h d s
    by (intro keeps_rules)
  from keepsD [OF this] show "keeps s3_fine (s3_PutObjectFile env now ids username filename serverId)"
    by (auto simp: keeps_def s3_PutObjectFile_def split: sum.splits)
qed

lemma fine_object_operations:
  "keeps s3_fine (s3_GetObjectMetadata clock region bucket key versionId)"
  "keeps s3_fine (s3_GetObject env clock region bucket key versionId)"
  "keeps s3_fine (s3_TouchObject env clock sids region bucket key)"
  "keeps s3_fine (s3_UpdateObject clock region bucket key metadata storageClass)"
  "keeps s3_fine (s3_CopyObject env ids c)"
  "keeps s3_fine (s3_MoveObject env ids c)"
  unfolding s3_GetObjectMetadata_def s3_GetObject_def s3_TouchObject_def s3_UpdateObject_def s3_CopyObject_def s3_MoveObject_def
    store_copy_def Let_def
  by (intro keeps_rules)+

lemma fine_upload_directory [keeps_rules]: "keeps s3_fine (GetMultipartUploadDirectory env uploadId)"
  unfolding GetMultipartUploadDirectory_def by (intro keeps_rules)

lemma fine_append [keeps_rules]:
  "keeps s3_fine (\<lambda>w. let (fs, n) = AppendBinaryFiles out (ListFilesByPrefix (z_files w) dir pre) (z_files w) in (w\<lparr>z_files := fs\<rparr>, Inr n))"
  using fine_file_actions(2) [where k = "\<lambda>x. x"] by simp

lemma fine_upload_operations:
  "keeps s3_fine (s3_CreateMultipartUpload env ids uploadId region user bucket key metadata)"
  "keeps s3_fine (s3_UploadPart env stream part uploadId len)"
  "keeps s3_fine (s3_UploadPartCopy env clock u)"
  "keeps s3_fine (s3_CompleteMultipartUpload env ids region bucket key uploadId alg)"
  "keeps s3_fine (s3_UploadObjectCounter env ids ur)"
  unfolding s3_CreateMultipartUpload_def s3_UploadPart_def s3_UploadPartCopy_def s3_CompleteMultipartUpload_def
    s3_UploadObjectCounter_def Let_def case_prod_unfold
  by (intro keeps_rules)+

lemma fine_delete_operations:
  "keeps s3_fine (s3_DeleteObject env clock sids region bucket key)"
  "keeps s3_fine (s3_DeleteObjects env clocks sidss region bucket ks)"
  "keeps s3_fine (s3_GetObjectCounters env now oid)"
  unfolding s3_DeleteObject_def s3_DeleteObjects_def delete_one_def s3_GetObjectCounters_def option.case_eq_if
  by (intro keeps_rules)+

lemma fine_task: "keeps s3_fine (run_first_task env now)"
proof -
  have "keeps s3_fine (S3HashCreator env now task)" for task
    unfolding S3HashCreator_def by (intro keeps_rules)
  from keepsD [OF this] show ?thesis
    by (simp add: keeps_def run_first_task_def s3_fine_def split: list.splits)
qed

subsection \<open>Buckets\<close>

lemma on_s3_bind: "act_bind (on_s3 f) g w = g (snd (f (z_s3 w))) (w\<lparr>z_s3 := fst (f (z_s3 w))\<rparr>)"
  by (simp add: act_bind_def on_s3_def split_beta)

text \<open>An action that gets the copy of a bucket.\<close>

abbreviation working_on :: "s3_bucket \<Rightarrow> s3_world \<Rightarrow> bool" where
  "working_on b w \<equiv> s3_fine w \<and> known_bucket (z_s3 w) b"

lemma get_bucket_run:
  "s3_fine w \<Longrightarrow> get_bucket now region name w = (w, Inr (found_bucket now (\<lambda>b. b_region b = region \<and> b_name b = name) (z_s3 w)))"
  by (simp add: on_s3_def s3_fine_def getBucket_eqs)

lemma triple_get_bucket:
  "triple s3_fine (\<lambda>w. s3_fine w \<and> s3_bucketExists (z_s3 w) region name) (get_bucket now region name) (\<lambda>b w. working_on b w)"
  by (auto simp: triple_def get_bucket_run s3_bucketExists_def s3_fine_def intro: found_bucket_known(1))

lemma triple_update_bucket: "triple s3_fine (working_on b) (update_bucket b) (\<lambda>c w. c = b \<and> working_on b w)"
  by (simp add: triple_def try_s3_def s3_fine_def updateBucket_known updateBucket_ok)

lemma triple_weaken: "triple E P a Q \<Longrightarrow> (\<And>w. P' w \<Longrightarrow> P w) \<Longrightarrow> (\<And>x w. Q x w \<Longrightarrow> Q' x w) \<Longrightarrow> triple E P' a Q'"
  unfolding triple_def by (fastforce split: prod.splits sum.splits)

lemma keeps_with_bucket:
  assumes "\<And>b. triple s3_fine (working_on b) (f b) (\<lambda>_. s3_fine)"
  shows "keeps s3_fine (CheckBucketExistence region name (act_bind (get_bucket now region name) f))"
proof -
  have "triple s3_fine (\<lambda>w. s3_fine w \<and> s3_bucketExists (z_s3 w) region name) (act_bind (get_bucket now region name) f) (\<lambda>_. s3_fine)"
    by (rule triple_bind [OF triple_get_bucket assms])
  then show ?thesis
    unfolding keeps_triple CheckBucketExistence_def by (simp add: triple_def act_check_def)
qed

lemma keeps_change_bucket:
  assumes "\<And>b. b_oid (f b) = b_oid b" "\<And>b. bucket_ident (f b) = bucket_ident b"
  shows "keeps s3_fine (change_bucket now region name f)"
  unfolding change_bucket_def
proof (rule keeps_with_bucket, rule triple_then_return)
  fix b
  show "triple s3_fine (working_on b) (update_bucket (f b)) (\<lambda>_. s3_fine)"
    by (rule triple_weaken [OF triple_update_bucket [of "f b"]]) (use known_bucket_same [OF _ assms] in auto)
qed

lemma fine_bucket_changes:
  "keeps s3_fine (s3_UpdateBucket env now region dto)"
  "keeps s3_fine (s3_PutBucketVersioning env now region bucket status)"
  "keeps s3_fine (s3_PutBucketLifecycleConfiguration now region bucket)"
  "keeps s3_fine (s3_DeleteBucketLifecycle now region bucket)"
  "keeps s3_fine (s3_PutBucketEncryption now region bucket alg kms)"
  unfolding s3_UpdateBucket_def s3_PutBucketVersioning_def s3_PutBucketLifecycleConfiguration_def s3_DeleteBucketLifecycle_def
    s3_PutBucketEncryption_def
  by (rule keeps_change_bucket; simp add: bucket_ident_def)+

lemma fine_create_bucket: "keeps s3_fine (s3_CreateBucket env clock lay oid region name owner)"
proof -
  let ?b = "BucketCreateRequest_toEntity (v_cfg env) (clock 0) region name owner"
  have "s3_ok (fst (s3_createBucket lay oid (clock 1) st ?b))" if "s3_ok st" "\<not> s3_bucketExists st region name" for st
    using createBucket_ok(1) [OF that(1), of ?b] that(2) by (simp add: BucketCreateRequest_toEntity_def)
  then show ?thesis
    by (auto simp: keeps_def s3_CreateBucket_def CheckBucketNonExistence_def act_check_def on_s3_bind s3_fine_def run_simps)
qed

lemma fine_purge [keeps_rules]: "keeps s3_fine (s3_PurgeBucket env now region name)"
  unfolding s3_PurgeBucket_def by (intro keeps_rules)

lemma fine_purges [keeps_rules]: "keeps s3_fine (purge_buckets env clock bs n)"
  by (induction bs arbitrary: n) (simp_all, (intro keeps_rules)+)

lemma fine_bucket_operations:
  "keeps s3_fine (s3_GetBucketMetadata now region bucket)"
  "keeps s3_fine (s3_GetBucket now region bucket)"
  "keeps s3_fine (s3_PurgeBucket env now region bucket)"
  "keeps s3_fine (s3_PurgeAllBuckets env clock)"
  "keeps s3_fine (s3_GetBucketLifecycleConfiguration now region bucket)"
  "keeps s3_fine (s3_DeleteBucket env now region bucket)"
  "keeps s3_fine (s3_ListObjectVersions now region bucket pre)"
  "keeps s3_fine (s3_GetBucketNotificationConfiguration now region bucket)"
  "keeps s3_fine (s3_GetEventSource now arn functionArn)"
  unfolding s3_GetBucketMetadata_def s3_GetBucket_def s3_PurgeAllBuckets_def s3_GetBucketLifecycleConfiguration_def
    s3_DeleteBucket_def s3_DeleteBucketDirectory_def s3_ListObjectVersions_def s3_GetBucketNotificationConfiguration_def
    s3_GetEventSource_def Let_def
  by (intro keeps_rules)+

lemma fine_counters: "keeps s3_fine s3_ReloadAllCounters" "keeps s3_fine s3_UpdateCounter"
proof -
  show r: "keeps s3_fine s3_ReloadAllCounters"
    unfolding s3_ReloadAllCounters_def by (rule fine_try_s3) (auto dest: adjust_counters_ok(2) split: sum.splits)
  show "keeps s3_fine s3_UpdateCounter" unfolding s3_UpdateCounter_def by (intro keeps_rules r)
qed

subsection \<open>Notification configurations and event sources\<close>

text \<open>Copies of buckets stay good while other services act.\<close>

abbreviation working_all :: "s3_bucket set \<Rightarrow> s3_world \<Rightarrow> bool" where
  "working_all B w \<equiv> s3_fine w \<and> (\<forall>b\<in>B. known_bucket (z_s3 w) b)"

lemma working_elsewhere: "keeps topics_fine a \<Longrightarrow> keeps (working_all B) (elsewhere a)"
  unfolding elsewhere_def by (rule keeps_part) (simp_all add: s3_fine_def)

lemma createOrUpdateBucket_known:
  assumes "s3_ok st" "known_bucket st b"
  shows "s3_createOrUpdateBucket lay uuid now st b = s3_updateBucket st b"
proof -
  have "s3_bucketExistsBucket st b"
    using assms(2) by (force simp: known_bucket_def s3_bucketExistsBucket_def s3_bucketExists_def found_iff bucket_ident_def)
  then show ?thesis by (simp add: s3_createOrUpdateBucket_def)
qed

lemma working_add_notification:
  assumes "working_all B w" "known_bucket (z_s3 w) c"
  shows "working_all B (fst (try_s3 (\<lambda>st. s3_createOrUpdateBucket lay uuid now st (c\<lparr>b_lambdaNotifications := ns\<rparr>)) w))"
proof -
  let ?c = "c\<lparr>b_lambdaNotifications := ns\<rparr>"
  have c: "known_bucket (z_s3 w) ?c" by (rule known_bucket_same [OF assms(2)]) (simp_all add: bucket_ident_def)
  have ok: "s3_ok (z_s3 w)" using assms(1) by (simp add: s3_fine_def)
  show ?thesis
    using assms updateBucket_ok(1,2) [OF ok c]
    by (simp add: try_s3_def createOrUpdateBucket_known [OF ok c] updateBucket_known [OF ok c] s3_fine_def)
qed

lemma createOrUpdateTopic_known:
  assumes "sns_ok st" "known_topic st t"
  shows "sns_createOrUpdateTopic oid now st t = sns_updateTopic now st t"
proof -
  have "sns_topicExists st (t_region t) (t_topicName t)"
    using assms(2) by (force simp: known_topic_def sns_topicExists_def found_iff topic_ident_def)
  then show ?thesis by (simp add: sns_createOrUpdateTopic_def)
qed

lemma working_resource: "keeps (working_all B) (CreateResourceNotification ids d)"
proof -
  have s3: "working_all B (fst (act_bind (on_s3 (\<lambda>st. s3_getBucketByArn (so_now ids) st arn)) (\<lambda>bucket.
      if HasLambdaNotification bucket fn then act_return ()
      else act_bind (try_s3 (\<lambda>st. s3_createOrUpdateBucket (so_layout ids) (so_oid ids) (so_now2 ids) st
        (bucket\<lparr>b_lambdaNotifications := b_lambdaNotifications bucket @ [n]\<rparr>))) (\<lambda>_. act_return ())) w))"
    if "working_all B w" "s3_bucketExistsArn (z_s3 w) arn" for w arn fn n
  proof -
    have "known_bucket (z_s3 w) (found_bucket (so_now ids) (\<lambda>b. b_arn b = arn) (z_s3 w))"
      using that found_bucket_known(1) by (simp add: s3_fine_def s3_bucketExistsArn_def)
    note added = working_add_notification [OF that(1) this]
    have ok: "s3_ok (z_s3 w)" using that(1) by (simp add: s3_fine_def)
    show ?thesis using that(1) added by (simp add: on_s3_bind getBucket_eqs [OF ok] return_bind_state run_simps)
  qed
  have sns: "topics_fine (fst (act_bind (on_sns (\<lambda>st. sns_getTopicByArn (so_now ids) st arn)) (\<lambda>topic.
      try_sns (\<lambda>st. case sns_createOrUpdateTopic (so_oid ids) (so_now2 ids) st topic of Inl e \<Rightarrow> Inl e | Inr (st', _) \<Rightarrow> Inr (st', ()))) w))"
    if "topics_fine w" "sns_topicExistsName (w_sns w) arn" for w arn
  proof -
    have ok: "sns_ok (w_sns w)" using that(1) by (simp add: topics_fine_def)
    note t = found_topic_known(1) [OF ok that(2), of "so_now ids"]
    show ?thesis
      using update_known_ok(1) [OF ok t]
      by (simp add: on_sns_bind getTopic_eqs [OF ok] try_sns_def createOrUpdateTopic_known [OF ok t] updateTopic_known [OF ok t] topics_fine_def)
  qed
  have sqs: "keeps (working_all B) (elsewhere (act_bind (on_sqs f) (\<lambda>q. on_sqs (g q))))" for f and g :: "sqs_queue \<Rightarrow> sqs_repo \<Rightarrow> sqs_repo \<times> unit"
    by (rule working_elsewhere) (intro keeps_rules)
  show ?thesis
    unfolding keeps_def CreateResourceNotification_def
    using s3 sns keepsD [OF sqs]
    by (auto simp: act_check_def elsewhere_def act_part_def split_beta s3_fine_def run_simps)
qed

lemma working_event_source: "keeps (working_all B) (AddEventSource env ids d)"
  unfolding AddEventSource_def by (intro keeps_rules working_resource working_elsewhere)

lemma fine_event_source: "keeps s3_fine (AddEventSource env ids d)"
  using working_event_source [of "{}"] by simp

lemma triple_keeps: "keeps I a \<Longrightarrow> (\<And>w. P w \<Longrightarrow> I w) \<Longrightarrow> (\<And>w. I w \<Longrightarrow> E w) \<Longrightarrow> triple E P a (\<lambda>_. I)"
  unfolding keeps_def triple_def by (auto split: prod.splits sum.splits) (metis fst_conv)+

lemma put_lambda_same:
  "b_oid (put_lambda_configuration random c b) = b_oid b" "bucket_ident (put_lambda_configuration random c b) = bucket_ident b"
  by (simp_all add: put_lambda_configuration_def bucket_ident_def Let_def)

lemma triple_put_lambda_loop: "triple s3_fine (working_on b) (put_lambda_loop env ids random i cs b) (\<lambda>b w. working_on b w)"
proof (induction cs arbitrary: i b)
  case Nil
  then show ?case by (simp add: triple_return)
next
  case (Cons c cs)
  let ?b = "put_lambda_configuration (random i) c b"
  have "triple s3_fine (working_on b) (AddLambdaEventSource env (ids i) ?b c) (\<lambda>_. working_on ?b)"
    unfolding AddLambdaEventSource_def
    by (rule triple_keeps [OF working_event_source [of "{?b}", simplified]]) (use known_bucket_same [OF _ put_lambda_same] in auto)
  then show ?case
    by (simp add: Let_def) (rule triple_bind [OF _ Cons.IH])
qed

lemma triple_put_lambda: "triple s3_fine (working_on b) (PutLambdaNotificationConfigurations env ids random cs b) (\<lambda>b w. working_on b w)"
  unfolding PutLambdaNotificationConfigurations_def
proof (rule triple_bind [OF triple_put_lambda_loop])
  fix b
  show "triple s3_fine (working_on b) (if cs \<noteq> [] then update_bucket b else act_return b) (\<lambda>b w. working_on b w)"
    by (auto intro: triple_return triple_weaken [OF triple_update_bucket])
qed

lemma fine_put_notifications: "keeps s3_fine (s3_PutBucketNotificationConfiguration env now ids random region bucket qcs tcs lcs)"
  unfolding s3_PutBucketNotificationConfiguration_def
proof (rule keeps_with_bucket)
  fix b :: s3_bucket
  define b1 where "b1 = b\<lparr>b_queueNotifications := [], b_topicNotifications := [], b_lambdaNotifications := []\<rparr>"
  define b2 where "b2 = (if qcs \<noteq> [] then PutQueueNotificationConfigurations (random 0) qcs b1 else b1)"
  define b3 where "b3 = (if tcs \<noteq> [] then PutTopicNotificationConfigurations (random 1) tcs b2 else b2)"
  have same: "b_oid b3 = b_oid b" "bucket_ident b3 = bucket_ident b"
    by (auto simp: b3_def b2_def b1_def bucket_ident_def PutTopicNotificationConfigurations_def PutQueueNotificationConfigurations_def)
  have lam: "triple s3_fine (working_on b) (if lcs \<noteq> [] then PutLambdaNotificationConfigurations env ids (random 2) lcs b3 else act_return b3)
      (\<lambda>b w. working_on b w)"
    by (rule triple_weaken [where P = "working_on b3" and Q = "\<lambda>b w. working_on b w"])
      (use known_bucket_same [OF _ same] in \<open>auto simp: triple_put_lambda triple_return\<close>)
  have upd: "triple s3_fine (working_on c) (act_bind (update_bucket c) (\<lambda>_. act_return (qcs, tcs, lcs))) (\<lambda>_. s3_fine)" for c
    by (rule triple_then_return, rule triple_weaken [OF triple_update_bucket]) auto
  from triple_bind [OF lam upd]
  show "triple s3_fine (working_on b)
      (let b = b\<lparr>b_queueNotifications := [], b_topicNotifications := [], b_lambdaNotifications := []\<rparr>;
          b = if qcs \<noteq> [] then PutQueueNotificationConfigurations (random 0) qcs b else b;
          b = if tcs \<noteq> [] then PutTopicNotificationConfigurations (random 1) tcs b else b
       in act_bind (if lcs \<noteq> [] then PutLambdaNotificationConfigurations env ids (random 2) lcs b else act_return b)
           (\<lambda>b. act_bind (update_bucket b) (\<lambda>_. act_return (qcs, tcs, lcs)))) (\<lambda>_. s3_fine)"
    unfolding Let_def b1_def [symmetric] b2_def [symmetric] b3_def [symmetric] .
qed

subsection \<open>Synchronisation with the files\<close>

lemma drop_missing_ok: "s3_ok st \<Longrightarrow> s3_ok (drop_missing env fs xs st)"
  unfolding drop_missing_def by (induction xs arbitrary: st) (simp_all add: object_ops_ok)

lemmas sync_bucket_induct = sync_bucket.raw_induct [rotated, consumes 1, case_names round]

lemma sync_bucket_ok: "sync_bucket env fs region name st = Some st' \<Longrightarrow> s3_ok st \<Longrightarrow> s3_ok st'"
proof (induction rule: sync_bucket_induct)
  case (round sync env fs region name st st')
  then show ?case by (auto simp: Let_def drop_missing_ok split: if_splits)
qed

lemma sync_buckets_ok: "sync_buckets env fs region bs st = Some st' \<Longrightarrow> s3_ok st \<Longrightarrow> s3_ok st'"
  by (induction bs arbitrary: st) (auto simp: bind_eq_Some_conv dest: sync_bucket_ok)

lemma fine_sync_files: "keeps s3_fine (sync_files env)"
  unfolding sync_files_def by (intro keeps_rules)

lemma fine_sync: "SyncObjects env w = Some (w', r) \<Longrightarrow> s3_fine w \<Longrightarrow> s3_fine w'"
proof -
  assume run: "SyncObjects env w = Some (w', r)" and w: "s3_fine w"
  have "s3_fine (fst (sync_files env (w\<lparr>z_s3 := st\<rparr>)))" if "s3_ok st" for st
    by (rule keepsD [OF fine_sync_files]) (use w that in \<open>simp add: s3_fine_def\<close>)
  then show "s3_fine w'"
    using run w sync_buckets_ok by (auto simp: SyncObjects_def Let_def s3_fine_def bind_eq_Some_conv split: if_splits) (metis fst_conv)+
qed

subsection \<open>The state machine\<close>

text \<open>
  The operations of the service in any order, the task that computes checksums, the tasks of the server
  and everything that happens beside them: the other services, the keys and the files change on their
  own. Operations that only read the state are no steps.
\<close>

inductive s3_step :: "s3_env \<Rightarrow> s3_world \<Rightarrow> s3_world \<Rightarrow> bool" for env where
  create_bucket: "s3_step env w (fst (s3_CreateBucket env clock lay oid region name owner w))"
| bucket_metadata: "s3_step env w (fst (s3_GetBucketMetadata now region name w))"
| get_bucket: "s3_step env w (fst (s3_GetBucket now region name w))"
| purge_bucket: "s3_step env w (fst (s3_PurgeBucket env now region name w))"
| purge_all: "s3_step env w (fst (s3_PurgeAllBuckets env clock w))"
| update_bucket: "s3_step env w (fst (s3_UpdateBucket env now region dto w))"
| put_versioning: "s3_step env w (fst (s3_PutBucketVersioning env now region name status w))"
| put_lifecycle: "s3_step env w (fst (s3_PutBucketLifecycleConfiguration now region name w))"
| get_lifecycle: "s3_step env w (fst (s3_GetBucketLifecycleConfiguration now region name w))"
| delete_lifecycle: "s3_step env w (fst (s3_DeleteBucketLifecycle now region name w))"
| put_encryption: "s3_step env w (fst (s3_PutBucketEncryption now region name alg kmsKeyId w))"
| put_notifications: "s3_step env w (fst (s3_PutBucketNotificationConfiguration env now sources random region name qcs tcs lcs w))"
| get_notifications: "s3_step env w (fst (s3_GetBucketNotificationConfiguration now region name w))"
| get_event_source: "s3_step env w (fst (s3_GetEventSource now arn functionArn w))"
| delete_bucket: "s3_step env w (fst (s3_DeleteBucket env now region name w))"
| list_versions: "s3_step env w (fst (s3_ListObjectVersions now region name pre w))"
| reload: "s3_step env w (fst (s3_ReloadAllCounters w))"
| object_metadata: "s3_step env w (fst (s3_GetObjectMetadata clock region name key versionId w))"
| get_object: "s3_step env w (fst (s3_GetObject env clock region name key versionId w))"
| put_object: "s3_step env w (fst (s3_PutObject env now ids d stream w))"
| put_object_file: "s3_step env w (fst (s3_PutObjectFile env now ids username filename serverId w))"
| touch_object: "s3_step env w (fst (s3_TouchObject env clock sids region name key w))"
| update_object: "s3_step env w (fst (s3_UpdateObject clock region name key metadata storageClass w))"
| copy_object: "s3_step env w (fst (s3_CopyObject env ids c w))"
| move_object: "s3_step env w (fst (s3_MoveObject env ids c w))"
| create_upload: "s3_step env w (fst (s3_CreateMultipartUpload env ids uploadId region user name key metadata w))"
| upload_part: "s3_step env w (fst (s3_UploadPart env stream part uploadId len w))"
| upload_part_copy: "s3_step env w (fst (s3_UploadPartCopy env clock u w))"
| complete_upload: "s3_step env w (fst (s3_CompleteMultipartUpload env ids region name key uploadId alg w))"
| upload_object: "s3_step env w (fst (s3_UploadObjectCounter env ids up w))"
| delete_object: "s3_step env w (fst (s3_DeleteObject env clock sids region name key w))"
| delete_objects: "s3_step env w (fst (s3_DeleteObjects env clocks sidss region name ks w))"
| object_counters: "s3_step env w (fst (s3_GetObjectCounters env now oid w))"
| add_event_source: "s3_step env w (fst (AddEventSource env source ae w))"
| checksum_task: "s3_step env w (fst (run_first_task env now w))"
| sync_task: "SyncObjects env w = Some (w', r) \<Longrightarrow> s3_step env w w'"
| counter_task: "s3_step env w (fst (s3_UpdateCounter w))"
| services: "world_step (v_sns env) (z_sns w) sns \<Longrightarrow> s3_step env w (w\<lparr>z_sns := sns\<rparr>)"
| surroundings: "s3_step env w (w\<lparr>z_kms := kms, z_files := files\<rparr>)"

definition s3_init :: s3_world where
  "s3_init = \<lparr>z_s3 = \<lparr>buckets = [], objects = []\<rparr>, z_kms = [], z_files = \<lparr>fs_files = [], fs_dirs = []\<rparr>, z_sns = world_init, z_tasks = []\<rparr>"

inductive s3_reachable :: "s3_env \<Rightarrow> s3_world \<Rightarrow> bool" for env where
  start: "s3_reachable env s3_init"
| step: "s3_reachable env w \<Longrightarrow> s3_step env w w' \<Longrightarrow> s3_reachable env w'"

lemmas s3_operations = fine_put fine_object_operations fine_upload_operations fine_delete_operations fine_task fine_bucket_changes
  fine_create_bucket fine_bucket_operations fine_counters fine_put_notifications fine_event_source

lemma s3_step_fine: "s3_step env w w' \<Longrightarrow> s3_fine w \<Longrightarrow> s3_fine w'"
proof (induction rule: s3_step.induct)
  case (sync_task w w' r)
  then show ?case using fine_sync by blast
next
  case (services w sns)
  then show ?case using world_step_topics by (auto simp: s3_fine_def)
next
  case (surroundings w kms files)
  then show ?case by (simp add: s3_fine_def)
qed (simp_all add: s3_operations [THEN keepsD])

lemma s3_init_fine: "s3_fine s3_init"
  by (simp add: s3_fine_def s3_init_def s3_ok_def s3_inv_def world_init_def topics_fine_def sns_ok_def sns_inv_def)

end
