(* ===== verification/S3ServiceProps.thy ===== *)
theory S3ServiceProps
  imports S3ServiceSteps
begin

text \<open>
  What the operations of the S3 service do on the way to an answer: paths, the notifications, the newest
  object of a key, and the storing of an object up to its notifications.
\<close>

subsection \<open>Paths\<close>

definition plain_dir :: "string \<Rightarrow> bool" where
  "plain_dir dir \<longleftrightarrow> dir \<noteq> [] \<and> last dir \<noteq> CHR ''/''"

definition simple_name :: "string \<Rightarrow> bool" where
  "simple_name name \<longleftrightarrow> name \<noteq> [] \<and> CHR ''/'' \<notin> set name"

lemma appendPath_plain: "plain_dir dir \<Longrightarrow> simple_name name \<Longrightarrow> appendPath dir name = dir @ CHR ''/'' # name"
  by (cases name) (auto simp: plain_dir_def simple_name_def appendPath_def)

lemma split_simple:
  assumes "simple_name name"
  shows "dropWhile (\<lambda>c. c \<noteq> CHR ''/'') (rev name @ CHR ''/'' # xs) = CHR ''/'' # xs"
    "takeWhile (\<lambda>c. c \<noteq> CHR ''/'') (rev name @ CHR ''/'' # xs) = rev name"
proof -
  have n: "c \<noteq> CHR ''/''" if "c \<in> set (rev name)" for c using assms that by (auto simp: simple_name_def)
  show "dropWhile (\<lambda>c. c \<noteq> CHR ''/'') (rev name @ CHR ''/'' # xs) = CHR ''/'' # xs" by (subst dropWhile_append2) (use n in auto)
  show "takeWhile (\<lambda>c. c \<noteq> CHR ''/'') (rev name @ CHR ''/'' # xs) = rev name" by (subst takeWhile_append2) (use n in auto)
qed

lemma parent_append: "plain_dir dir \<Longrightarrow> simple_name name \<Longrightarrow> parent_path (appendPath dir name) = dir"
  by (simp add: appendPath_plain parent_path_def split_simple)

lemma filename_append: "plain_dir dir \<Longrightarrow> simple_name name \<Longrightarrow> path_filename (appendPath dir name) = name"
  by (simp add: appendPath_plain path_filename_def split_simple)

lemma append_injective:
  "plain_dir dir \<Longrightarrow> simple_name m \<Longrightarrow> simple_name n \<Longrightarrow> appendPath dir m = appendPath dir n \<longleftrightarrow> m = n"
  by (simp add: appendPath_plain)

lemma can_write_ensured:
  assumes "plain_dir dir" "simple_name name" "\<not> DirectoryExists fs (appendPath dir name)"
  shows "can_write (EnsureDirectoryExists dir fs) (appendPath dir name)"
proof -
  have "\<forall>d\<in>set (ancestors dir). length d < length dir" by (auto simp: ancestors_def)
  then have "appendPath dir name \<noteq> dir \<and> appendPath dir name \<notin> set (ancestors dir)"
    using assms(1,2) by (auto simp: appendPath_plain)
  then show ?thesis using assms by (simp add: can_write_def parent_append dirs_ensure)
qed

lemma ensure_twice [simp]: "EnsureDirectoryExists dir (write_file p c (EnsureDirectoryExists dir fs)) = write_file p c (EnsureDirectoryExists dir fs)"
  by (simp add: EnsureDirectoryExists_def [of dir "write_file p c (EnsureDirectoryExists dir fs)"] dirs_ensure)

lemma ensure_idem [simp]: "EnsureDirectoryExists dir (EnsureDirectoryExists dir fs) = EnsureDirectoryExists dir fs"
  by (simp add: EnsureDirectoryExists_def [of dir "EnsureDirectoryExists dir fs"] dirs_ensure)

subsection \<open>Running the operations\<close>

lemma map_of_insert_new: "map_of (insert_new m kvs) = map_of kvs ++ map_of m"
proof -
  have "map_of (foldl (\<lambda>m (k, v). if k \<in> fst ` set m then m else omap_insert k v m) m kvs) i = (map_of kvs ++ map_of m) i" for i
  proof (induction kvs arbitrary: m)
    case (Cons kv kvs)
    obtain k v where kv: "kv = (k, v)" by (cases kv)
    have n: "k \<in> fst ` set m \<longleftrightarrow> map_of m k \<noteq> None" by (simp add: map_of_eq_None_iff)
    show ?case by (auto simp: kv n Cons map_of_omap_insert map_add_def split: option.splits)
  qed simp
  then show ?thesis by (simp add: insert_new_def fun_eq_iff)
qed

definition bucket_at :: "s3_world \<Rightarrow> string \<Rightarrow> string \<Rightarrow> s3_bucket option" where
  "bucket_at w region name = by_ident bucket_ident (buckets (z_s3 w)) (region, name)"

text \<open>No configuration of the bucket listens to the event.\<close>

definition quiet :: "s3_bucket \<Rightarrow> string \<Rightarrow> bool" where
  "quiet b event \<longleftrightarrow> \<not> HasQueueNotificationEvent b event \<and> \<not> HasTopicNotificationEvent b event \<and> \<not> HasLambdaNotificationEvent b event"

lemma bucket_at_found:
  assumes "bucket_at w region name = Some b"
  shows "found_bucket now (\<lambda>b. b_region b = region \<and> b_name b = name) (z_s3 w) = b" "s3_bucketExists (z_s3 w) region name"
    "b_region b = region" "b_name b = name"
proof -
  obtain k where f: "find_if (\<lambda>(_, b). b_region b = region \<and> b_name b = name) (buckets (z_s3 w)) = Some (k, b)"
    using assms by (auto simp: bucket_at_def by_ident_def bucket_ident_def)
  then show "found_bucket now (\<lambda>b. b_region b = region \<and> b_name b = name) (z_s3 w) = b" "s3_bucketExists (z_s3 w) region name"
    "b_region b = region" "b_name b = name"
    using find_if_SomeD [OF f] by (auto simp: found_bucket_def s3_bucketExists_def found_def)
qed

lemma get_bucket_bind: "s3_fine w \<Longrightarrow> bucket_at w region name = Some b \<Longrightarrow> act_bind (get_bucket now region name) f w = f b w"
  by (simp add: act_bind_def get_bucket_run bucket_at_found)

lemma check_exists_run: "bucket_at w region name = Some b \<Longrightarrow> CheckBucketExistence region name a w = a w"
  by (simp add: CheckBucketExistence_def act_check_def bucket_at_found)

lemma check_notifications_quiet:
  "s3_fine w \<Longrightarrow> bucket_at w region name = Some b \<Longrightarrow> quiet b event
    \<Longrightarrow> CheckNotifications env now ids region name key sz etag versionId event w = (w, Inr ())"
  by (simp add: CheckNotifications_def get_bucket_bind quiet_def run_simps Let_def)

lemma on_files_bind: "act_bind (on_files f) g w = g () (w\<lparr>z_files := f (z_files w)\<rparr>)"
  by (simp add: act_bind_def on_files_def)

lemma try_files_bind: "act_bind (try_files f) g w = (case f (z_files w) of Inl e \<Rightarrow> (w, Inl e) | Inr fs \<Rightarrow> g () (w\<lparr>z_files := fs\<rparr>))"
  by (simp add: act_bind_def try_files_def split: sum.splits)

lemmas run_binds = on_files_bind try_files_bind on_s3_bind read_bind

subsection \<open>The newest object\<close>

text \<open>All stored versions of the object's key are in its region and older.\<close>

definition newer_than_stored :: "s3_repo \<Rightarrow> s3_object \<Rightarrow> bool" where
  "newer_than_stored st x \<longleftrightarrow>
     list_all (\<lambda>(_, y). o_bucket y = o_bucket x \<and> o_key y = o_key x \<longrightarrow> o_region y = o_region x \<and> o_modified y < o_modified x) (objects st)"

lemma newest_found:
  assumes wf: "wf_store (objects st)" and mem: "(k, x) \<in> set (objects st)"
    and older: "\<And>j y. (j, y) \<in> set (objects st) \<Longrightarrow> j \<noteq> k \<Longrightarrow> o_bucket y = o_bucket x \<Longrightarrow> o_key y = o_key x
      \<Longrightarrow> o_modified y < o_modified x"
  shows "s3_getObject now st (o_region x) (o_bucket x) (o_key x) = (st\<lparr>objects := assign k (set_o_oid k x) (objects st)\<rparr>, set_o_oid k x)"
    "s3_objectExists st (o_region x) (o_bucket x) (o_key x)"
proof -
  let ?P = "\<lambda>y. o_region y = o_region x \<and> o_bucket y = o_bucket x \<and> o_key y = o_key x"
  have "newest_loop ?P o_modified None (objects st) \<noteq> None"
    using mem newest_loop_None [of ?P o_modified None "objects st"] by fastforce
  then obtain j y where n: "newest_loop ?P o_modified None (objects st) = Some (j, y)" by auto
  note sp = newest_loop_spec [OF n]
  have m: "(j, y) \<in> set (objects st)" "?P y" "o_modified x \<le> o_modified y" using sp mem by auto
  then have "j = k" using older [OF m(1)] by force
  then have "y = x" using m(1) mem wf by (auto simp: wf_in_map_of)
  then show "s3_getObject now st (o_region x) (o_bucket x) (o_key x) = (st\<lparr>objects := assign k (set_o_oid k x) (objects st)\<rparr>, set_o_oid k x)"
    using n \<open>j = k\<close> by (simp add: s3_getObject_def with_objects_def)
  show "s3_objectExists st (o_region x) (o_bucket x) (o_key x)"
    using mem by (force simp: s3_objectExists_def found_iff)
qed

lemma createObject_run:
  assumes "wf_store (objects st)"
  shows "s3_createObject lay oid now st x = (st\<lparr>objects := assign oid (set_o_oid oid x) (hmap_insert lay oid x (objects st))\<rparr>, set_o_oid oid x)"
    and "set (assign oid (set_o_oid oid x) (hmap_insert lay oid x (objects st))) = insert (oid, set_o_oid oid x) {kv \<in> set (objects st). fst kv \<noteq> oid}"
    and "wf_store (assign oid (set_o_oid oid x) (hmap_insert lay oid x (objects st)))"
proof -
  have wf: "wf_store (hmap_insert lay oid x (objects st))" by (rule wf_hmap_insert [OF assms])
  have "map_of (hmap_insert lay oid x (objects st)) oid = Some x" by (rule hm.ins_lookup [OF assms])
  then show "s3_createObject lay oid now st x = (st\<lparr>objects := assign oid (set_o_oid oid x) (hmap_insert lay oid x (objects st))\<rparr>, set_o_oid oid x)"
    by (simp add: s3_createObject_def s3_getObjectById_def with_objects_def get_or_def s3_o.stamp_by_key [OF wf])
  show "wf_store (assign oid (set_o_oid oid x) (hmap_insert lay oid x (objects st)))" using wf by (simp add: assign_def)
  show "set (assign oid (set_o_oid oid x) (hmap_insert lay oid x (objects st))) = insert (oid, set_o_oid oid x) {kv \<in> set (objects st). fst kv \<noteq> oid}"
    using hm.set_ins [OF assms, of lay oid "set_o_oid oid x"] stamp_inserted [OF assms] by simp
qed

lemma set_assign_mem:
  assumes "wf_store m" "(k, old) \<in> set m"
  shows "set (assign k v m) = insert (k, v) {kv \<in> set m. fst kv \<noteq> k}"
proof -
  have "wf_store (assign k v m)" using assms(1) by (simp add: assign_def)
  then show ?thesis using assms by (auto simp: wf_in_map_of store_simps split: if_splits)
qed

text \<open>The object as it is stored: with the new id, or with the one it came with.\<close>

lemma store_newest:
  assumes wf: "wf_store (objects st)" and new: "newer_than_stored st x" and oid: "oid \<noteq> []"
  obtains st1 x1 k where "s3_createOrUpdateObject lay oid now st x = (st1, x1)" "x1 = x \<or> x1 = set_o_oid oid x" "buckets st1 = buckets st"
    "wf_store (objects st1)" "(k, x1) \<in> set (objects st1)"
    "\<And>j y. (j, y) \<in> set (objects st1) \<Longrightarrow> j \<noteq> k \<Longrightarrow> (j, y) \<in> set (objects st)"
    "\<And>j y. (j, y) \<in> set (objects st1) \<Longrightarrow> j \<noteq> k \<Longrightarrow> o_bucket y = o_bucket x \<Longrightarrow> o_key y = o_key x \<Longrightarrow> o_modified y < o_modified x"
proof (cases "s3_objectExistsObject st x")
  case True
  then obtain k' y' where e: "(k', y') \<in> set (objects st)" "o_bucket y' = o_bucket x" "o_key y' = o_key x"
    by (auto simp: s3_objectExistsObject_def found_iff)
  then have "found (\<lambda>(_, y). o_bucket y = o_bucket x \<and> o_key y = o_key x) (objects st)" by (auto simp: found_iff)
  then obtain k y where f: "find_if (\<lambda>(_, y). o_bucket y = o_bucket x \<and> o_key y = o_key x) (objects st) = Some (k, y)"
    by (auto simp: found_def)
  let ?os = "assign k x (objects st)"
  have m: "(k, y) \<in> set (objects st)" using find_if_SomeD [OF f] by simp
  have s: "set ?os = insert (k, x) {kv \<in> set (objects st). fst kv \<noteq> k}"
    by (rule set_assign_mem [OF wf m])
  show thesis
  proof (rule that [of "st\<lparr>objects := ?os\<rparr>" x k])
    show "s3_createOrUpdateObject lay oid now st x = (st\<lparr>objects := ?os\<rparr>, x)"
      using True f by (simp add: s3_createOrUpdateObject_def s3_updateObject_def replace_found_def with_objects_def)
    show "wf_store (objects (st\<lparr>objects := ?os\<rparr>))" using wf by (simp add: assign_def)
    fix j z assume z: "(j, z) \<in> set (objects (st\<lparr>objects := ?os\<rparr>))" "j \<noteq> k"
    then show "(j, z) \<in> set (objects st)" using s by auto
    assume "o_bucket z = o_bucket x" "o_key z = o_key x"
    then show "o_modified z < o_modified x" using z s new by (auto simp: newer_than_stored_def list_all_iff)
  qed (use s in auto)
next
  case False
  note c = createObject_run [OF wf]
  let ?x = "set_o_oid oid x"
  let ?os = "assign oid ?x (hmap_insert lay oid x (objects st))"
  show thesis
  proof (rule that [of "st\<lparr>objects := ?os\<rparr>" ?x oid])
    show "s3_createOrUpdateObject lay oid now st x = (st\<lparr>objects := ?os\<rparr>, ?x)" using False c(1) by (simp add: s3_createOrUpdateObject_def)
    fix j z assume z: "(j, z) \<in> set (objects (st\<lparr>objects := ?os\<rparr>))" "j \<noteq> oid"
    then show "(j, z) \<in> set (objects st)" using c(2) by auto
    assume "o_bucket z = o_bucket x" "o_key z = o_key x"
    then show "o_modified z < o_modified x" using z c(2) new by (auto simp: newer_than_stored_def list_all_iff)
  qed (use c(2,3) in auto)
qed

text \<open>A file the service takes as it is: it has a byte that is none of Base64's among its first thousand.\<close>

definition kept_as_is :: "string \<Rightarrow> bool" where
  "kept_as_is content \<longleftrightarrow> length content < 1000 \<or> \<not> list_all base64_char (take 1000 content)"

lemma kept_not_base64: "read_file fs p = Some content \<Longrightarrow> kept_as_is content \<Longrightarrow> \<not> IsBase64 fs p"
proof -
  assume r: "read_file fs p = Some content" and k: "kept_as_is content"
  have "\<not> base64_char (char_of (0::nat))" by code_simp
  then show "\<not> IsBase64 fs p"
    using r k by (auto simp: IsBase64_def Crypto_IsBase64_def kept_as_is_def Let_def list_all_append list_all_iff)
qed

text \<open>The place of the new file, and the object \<open>SaveObject\<close> stores in a bucket without versions.\<close>

definition good_place :: "s3_env \<Rightarrow> file_store \<Rightarrow> string \<Rightarrow> bool" where
  "good_place env fs name \<longleftrightarrow> plain_dir (v_s3_dir env) \<and> simple_name name \<and> \<not> DirectoryExists fs (appendPath (v_s3_dir env) name)"

definition stored_files :: "s3_env \<Rightarrow> string \<Rightarrow> string \<Rightarrow> file_store \<Rightarrow> file_store" where
  "stored_files env name content fs = write_file (appendPath (v_s3_dir env) name) content (EnsureDirectoryExists (v_s3_dir env) fs)"

lemma stored_files_read:
  "good_place env fs name \<Longrightarrow> read_file (stored_files env name content fs) p =
     (if p = appendPath (v_s3_dir env) name then Some content else read_file fs p)"
  by (simp add: stored_files_def read_write good_place_def can_write_ensured)

lemma ensure_stored [simp]: "EnsureDirectoryExists (v_s3_dir env) (stored_files env name content fs) = stored_files env name content fs"
  by (simp add: stored_files_def)

lemma bucket_at_objects [simp]:
  "buckets st = buckets (z_s3 w) \<Longrightarrow> bucket_at (w\<lparr>z_s3 := st\<rparr>) region name = bucket_at w region name"
  "bucket_at (w\<lparr>z_files := fs\<rparr>) region name = bucket_at w region name"
  by (simp_all add: bucket_at_def)

lemma fine_objects_only:
  "s3_fine w \<Longrightarrow> buckets st = buckets (z_s3 w) \<Longrightarrow> wf_store (objects st) \<Longrightarrow> s3_fine (w\<lparr>z_files := fs, z_s3 := st\<rparr>)"
  by (simp add: s3_fine_def s3_ok_def s3_inv_def)

text \<open>Storing in a bucket without versions, up to the notifications.\<close>

lemma save_until_notifications:
  assumes w: "s3_fine w" and b: "bucket_at w (po_region d) (po_bucket d) = Some b"
    and plain: "\<not> IsVersioned b" "\<not> HasEncryption b"
    and len: "po_contentLength d = int (length content)" "take (length content) stream = content" and keep: "kept_as_is content"
    and place: "good_place env (z_files w) (oi_fileName ids)"
    and fs: "fs = stored_files env (oi_fileName ids) content (z_files w)"
    and x: "x = object_to_save env ids d b fs (int (length content))"
    and st: "s3_createOrUpdateObject (oi_layout ids) (oi_oid ids) (oi_clock ids 2) (z_s3 w) x = (st1, x1)"
  shows "SaveObject env ids d b stream w =
    act_bind (CheckNotifications env (oi_clock ids 4) (oi_send ids) (po_region d) (po_bucket d) (po_key d) (o_size x1) (o_md5sum x1)
        (o_versionId x1) ''ObjectCreated'')
      (\<lambda>_. act_return (PutObjectResponse_of d x1 (merge_left (default_metadata b) (po_metadata d)))) (w\<lparr>z_files := fs, z_s3 := st1\<rparr>)"
proof -
  have le: "length content \<le> length stream" using arg_cong [OF len(2), of length] by simp
  have cp: "StreamCopier stream (po_contentLength d) = (content, int (length content))"
    using le len(2) unfolding len(1) by (simp add: StreamCopier_spec)
  have rd: "read_file fs (appendPath (v_s3_dir env) (oi_fileName ids)) = Some content"
    by (simp add: fs stored_files_read [OF place])
  have nb: "\<not> IsBase64 fs (appendPath (v_s3_dir env) (oi_fileName ids))" by (rule kept_not_base64 [OF rd keep])
  have enc: "act_bind (CheckEncryption env now b x') f (w\<lparr>z_files := fs, z_s3 := st\<rparr>) = f () (w\<lparr>z_files := fs, z_s3 := st\<rparr>)" for now x' st and f :: "unit \<Rightarrow> (s3_world, put_object_response) action"
    using plain(2) by (cases w) (simp add: CheckEncryption_def bind_assoc on_files_bind run_simps fs)
  have nv: "IsVersioned b = False" using plain(1) by simp
  show ?thesis
    unfolding SaveObject_def Let_def cp prod.case
    unfolding nv simp_thms if_False bind_assoc bind_return_left
    unfolding on_files_bind stored_files_def [symmetric] fs [symmetric]
    using nb
    by (simp add: len(1) on_files_bind bind_assoc bind_return_left read_bind on_s3_bind x [symmetric] st enc)
qed

lemma put_object_run:
  assumes "s3_fine w" "bucket_at w (po_region d) (po_bucket d) = Some b"
  shows "s3_PutObject env now ids d stream w = act_catch (rethrow_as env ServiceException) (SaveObject env ids d b stream) w"
  by (simp add: s3_PutObject_def check_exists_run [OF assms(2)] act_catch_def get_bucket_bind [OF assms])

lemma get_unversioned:
  assumes "s3_fine w" "bucket_at w region bucket = Some b" "\<not> IsVersioned b" "\<not> HasEncryption b"
    and "s3_objectExists (z_s3 w) region bucket key" "s3_getObject (clock 1) (z_s3 w) region bucket key = (st, x)"
  shows "s3_GetObject env clock region bucket key versionId w =
    (w\<lparr>z_s3 := st, z_files := EnsureDirectoryExists (v_s3_dir env) (z_files w)\<rparr>, Inr (GetObjectResponse_of (object_path env x) x))"
proof -
  have "s3_GetObject env clock region bucket key versionId w =
      act_bind (requested_object clock b region bucket key versionId (ServiceException ''Object does not exist'')) (\<lambda>x.
      act_bind (CheckDecryption env (clock 2) b x (object_path env x)) (\<lambda>filename. act_return (GetObjectResponse_of filename x))) w"
    using assms(5) by (simp add: s3_GetObject_def check_exists_run [OF assms(2)] act_check_def get_bucket_bind [OF assms(1,2)])
  then show ?thesis
    using assms(3,4,6) by (simp add: requested_object_def on_s3_bind CheckDecryption_def bind_assoc on_files_bind run_simps)
qed

text \<open>What \<open>PutObject\<close> has stored when it comes to the notifications.\<close>

definition put_input :: "s3_env \<Rightarrow> object_ids \<Rightarrow> put_object_request \<Rightarrow> string \<Rightarrow> string \<Rightarrow> s3_world \<Rightarrow> s3_bucket \<Rightarrow> bool" where
  "put_input env ids d stream content w b \<longleftrightarrow>
     s3_fine w \<and> bucket_at w (po_region d) (po_bucket d) = Some b \<and> \<not> IsVersioned b \<and> \<not> HasEncryption b \<and>
     po_contentLength d = int (length content) \<and> take (length content) stream = content \<and> kept_as_is content \<and>
     good_place env (z_files w) (oi_fileName ids) \<and> oi_oid ids \<noteq> [] \<and>
     list_all (\<lambda>(_, y). o_bucket y = po_bucket d \<and> o_key y = po_key d \<longrightarrow> o_region y = po_region d \<and> o_modified y < oi_clock ids 1)
       (objects (z_s3 w))"

lemma put_stores:
  assumes "put_input env ids d stream content w b"
  obtains w1 x1 k where
    "s3_PutObject env now ids d stream w = act_catch (rethrow_as env ServiceException)
       (act_bind (CheckNotifications env (oi_clock ids 4) (oi_send ids) (po_region d) (po_bucket d) (po_key d) (o_size x1) (o_md5sum x1)
         (o_versionId x1) ''ObjectCreated'') (\<lambda>_. act_return (PutObjectResponse_of d x1 (merge_left (default_metadata b) (po_metadata d))))) w1"
    "s3_fine w1" "bucket_at w1 (po_region d) (po_bucket d) = Some b" "z_sns w1 = z_sns w"
    "z_files w1 = stored_files env (oi_fileName ids) content (z_files w)"
    "s3_objectExists (z_s3 w1) (po_region d) (po_bucket d) (po_key d)"
    "\<And>now. \<exists>st. s3_getObject now (z_s3 w1) (po_region d) (po_bucket d) (po_key d) = (st, set_o_oid k x1)"
    "o_size x1 = int (length content)" "o_md5sum x1 = v_md5 env content" "o_internalName x1 = oi_fileName ids" "o_versionId x1 = []"
    "map_of (o_metadata x1) = map_of (po_metadata d)" "o_storageClass x1 = StorageClassFromString (po_storageClass d)"
proof -
  have w: "s3_fine w" and b: "bucket_at w (po_region d) (po_bucket d) = Some b" and plain: "\<not> IsVersioned b" "\<not> HasEncryption b"
    and len: "po_contentLength d = int (length content)" "take (length content) stream = content" and keep: "kept_as_is content"
    and place: "good_place env (z_files w) (oi_fileName ids)" and oid: "oi_oid ids \<noteq> []"
    and older: "list_all (\<lambda>(_, y). o_bucket y = po_bucket d \<and> o_key y = po_key d \<longrightarrow> o_region y = po_region d \<and> o_modified y < oi_clock ids 1)
       (objects (z_s3 w))"
    using assms by (simp_all add: put_input_def)
  define fs where "fs = stored_files env (oi_fileName ids) content (z_files w)"
  define x where "x = object_to_save env ids d b fs (int (length content))"
  have xf: "o_region x = po_region d" "o_bucket x = po_bucket d" "o_key x = po_key d" "o_modified x = oi_clock ids 1"
    "o_size x = int (length content)" "o_internalName x = oi_fileName ids" "o_storageClass x = StorageClassFromString (po_storageClass d)"
    "o_metadata x = insert_new [] (po_metadata d)" "o_md5sum x = v_md5 env content" "o_versionId x = []"
    using plain(1) by (simp_all add: x_def object_to_save_def Let_def default_object_def len default_metadata_def md5_of_file_def fs_def
        stored_files_read [OF place])
  have new: "newer_than_stored (z_s3 w) x" using older by (simp add: newer_than_stored_def xf)
  have wf: "wf_store (objects (z_s3 w))" using w by (simp add: s3_fine_def s3_okD)
  obtain st1 x1 k where st: "s3_createOrUpdateObject (oi_layout ids) (oi_oid ids) (oi_clock ids 2) (z_s3 w) x = (st1, x1)"
    and x1: "x1 = x \<or> x1 = set_o_oid (oi_oid ids) x" and st1: "buckets st1 = buckets (z_s3 w)" "wf_store (objects st1)" "(k, x1) \<in> set (objects st1)"
    and "\<And>j y. (j, y) \<in> set (objects st1) \<Longrightarrow> j \<noteq> k \<Longrightarrow> (j, y) \<in> set (objects (z_s3 w))"
    and old: "\<And>j y. (j, y) \<in> set (objects st1) \<Longrightarrow> j \<noteq> k \<Longrightarrow> o_bucket y = o_bucket x \<Longrightarrow> o_key y = o_key x \<Longrightarrow> o_modified y < o_modified x"
    by (rule store_newest [OF wf new oid, where lay = "oi_layout ids" and now = "oi_clock ids 2"]) (rule that)
  have same: "o_region x1 = o_region x" "o_bucket x1 = o_bucket x" "o_key x1 = o_key x" "o_modified x1 = o_modified x" "o_md5sum x1 = o_md5sum x"
    "o_size x1 = o_size x" "o_internalName x1 = o_internalName x" "o_storageClass x1 = o_storageClass x" "o_metadata x1 = o_metadata x"
    "o_versionId x1 = o_versionId x"
    using x1 by (auto simp: set_o_oid_def)
  let ?w1 = "w\<lparr>z_files := fs, z_s3 := st1\<rparr>"
  have put: "s3_PutObject env now ids d stream w = act_catch (rethrow_as env ServiceException)
      (act_bind (CheckNotifications env (oi_clock ids 4) (oi_send ids) (po_region d) (po_bucket d) (po_key d) (o_size x1) (o_md5sum x1)
         (o_versionId x1) ''ObjectCreated'') (\<lambda>_. act_return (PutObjectResponse_of d x1 (merge_left (default_metadata b) (po_metadata d))))) ?w1"
    unfolding put_object_run [OF w b] act_catch_def save_until_notifications [OF w b plain len keep place fs_def x_def st] ..
  have fine: "s3_fine ?w1" by (rule fine_objects_only [OF w st1(1,2)])
  have at: "bucket_at ?w1 (po_region d) (po_bucket d) = Some b" using b st1(1) by simp
  have get: "\<exists>st. s3_getObject t (z_s3 ?w1) (po_region d) (po_bucket d) (po_key d) = (st, set_o_oid k x1)" for t
    using newest_found(1) [OF st1(2,3), where now = t] old same xf by simp
  have ex: "s3_objectExists (z_s3 ?w1) (po_region d) (po_bucket d) (po_key d)"
    using newest_found(2) [OF st1(2,3)] old same xf by simp
  show thesis
    by (rule that [OF put fine at _ _ ex get]) (simp_all add: same xf fs_def map_of_insert_new)
qed

end
