(* ===== verification/S3PutProps.thy ===== *)
theory S3PutProps
  imports S3ServiceProps SnsServiceProps
begin

text \<open>
  What the S3 service promises: the states it reaches, changing a bucket, storing and reading an object,
  the event of a stored object in a queue, and what happens when the stream is too short or the queue is
  gone.
\<close>

subsection \<open>Concrete runs\<close>

definition wit_s3_env :: s3_env where
  "wit_s3_env =
     \<lparr>v_sns = wit_sns_env, v_data_dir = ''/d'', v_s3_dir = ''/d/s3'', v_temp_dir = ''/t'', v_transfer_dir = ''/u'', v_transfer_bucket = ''b'',
      v_md5 = id, v_sha1 = id, v_sha256 = id, v_magic_file = (\<lambda>_. ''text/plain''), v_base64_encode = id, v_base64_decode = id,
      v_iequals = (=), v_event_json = (\<lambda>ev. ev_key ev), v_encrypt_file = (\<lambda>_ _ fs. fs), v_decrypt_file = (\<lambda>_ p fs. (fs, p)),
      v_what = (\<lambda>_. [])\<rparr>"

definition wit_notification :: s3_notification where
  "wit_notification = \<lparr>nt_id = ''n'', nt_events = [''ObjectCreated''], nt_arn = wit_arn, nt_filterRules = []\<rparr>"

definition wit_s3_bucket :: "s3_notification list \<Rightarrow> s3_bucket" where
  "wit_s3_bucket ns = (default_bucket 0)\<lparr>b_oid := ''k'', b_region := ''eu'', b_name := ''b'', b_queueNotifications := ns\<rparr>"

definition wit_s3_world :: "s3_notification list \<Rightarrow> s3_world" where
  "wit_s3_world ns =
     \<lparr>z_s3 = \<lparr>buckets = [(''k'', wit_s3_bucket ns)], objects = []\<rparr>, z_kms = [], z_files = \<lparr>fs_files = [], fs_dirs = []\<rparr>,
      z_sns = wit_world [], z_tasks = []\<rparr>"

definition wit_put :: put_object_request where
  "wit_put = \<lparr>po_region = ''eu'', po_bucket = ''b'', po_key = ''key'', po_owner = [], po_md5Sum = [], po_contentType = [], po_contentLength = 3,
     po_checksumAlgorithm = [], po_metadata = [(''m'', ''1'')], po_storageClass = ''GLACIER''\<rparr>"

definition wit_object_ids :: object_ids where
  "wit_object_ids = \<lparr>oi_fileName = ''f'', oi_versionId = [], oi_oid = ''o'', oi_layout = [], oi_clock = (\<lambda>_. 7),
     oi_send = (\<lambda>_ i. \<lparr>si_time = 0, si_delivery = wit_ids i, si_clock = (\<lambda>_. 0), si_oid = [], si_messageId = [], si_deliveries = wit_ids\<rparr>)\<rparr>"

lemma wit_s3_env_fields [simp]:
  "v_sns wit_s3_env = wit_sns_env" "v_s3_dir wit_s3_env = ''/d/s3''" "v_md5 wit_s3_env = id" "v_event_json wit_s3_env = ev_key"
  "v_temp_dir wit_s3_env = ''/t''" "v_data_dir wit_s3_env = ''/d''"
  by (simp_all add: wit_s3_env_def)

lemma wit_put_fields [simp]:
  "po_region wit_put = ''eu''" "po_bucket wit_put = ''b''" "po_key wit_put = ''key''" "po_contentLength wit_put = 3"
  "po_metadata wit_put = [(''m'', ''1'')]" "po_storageClass wit_put = ''GLACIER''"
  "oi_fileName wit_object_ids = ''f''" "oi_oid wit_object_ids = ''o''" "oi_clock wit_object_ids n = 7"
  "si_delivery (oi_send wit_object_ids m i) = wit_ids i"
  by (simp_all add: wit_put_def wit_object_ids_def)

lemma wit_s3_world_fields [simp]:
  "z_s3 (wit_s3_world ns) = \<lparr>buckets = [(''k'', wit_s3_bucket ns)], objects = []\<rparr>" "z_files (wit_s3_world ns) = \<lparr>fs_files = [], fs_dirs = []\<rparr>"
  "z_sns (wit_s3_world ns) = wit_world []"
  by (simp_all add: wit_s3_world_def)

lemma wit_s3_bucket_fields [simp]:
  "b_oid (wit_s3_bucket ns) = ''k''" "b_region (wit_s3_bucket ns) = ''eu''" "b_name (wit_s3_bucket ns) = ''b''" "b_queueNotifications (wit_s3_bucket ns) = ns"
  "b_topicNotifications (wit_s3_bucket ns) = []" "b_lambdaNotifications (wit_s3_bucket ns) = []"
  "\<not> IsVersioned (wit_s3_bucket ns)" "\<not> HasEncryption (wit_s3_bucket ns)"
  by (simp_all add: wit_s3_bucket_def default_bucket_def IsVersioned_def HasEncryption_def)

lemma wit_s3_bucket_at [simp]: "bucket_at (wit_s3_world ns) ''eu'' ''b'' = Some (wit_s3_bucket ns)"
  by (simp add: bucket_at_def by_ident_def bucket_ident_def find_if_def)

lemma wit_s3_fine [simp]: "s3_fine (wit_s3_world ns)"
  by (simp add: s3_fine_def topics_fine_def wit_world_ok s3_ok_def s3_inv_def all_stamped_def ident_unique_def)

lemma wit_place [simp]: "good_place wit_s3_env \<lparr>fs_files = [], fs_dirs = []\<rparr> ''f''"
  by (simp add: good_place_def plain_dir_def simple_name_def DirectoryExists_def)

lemma wit_put_input: "put_input wit_s3_env wit_object_ids wit_put ''abcd'' ''abc'' (wit_s3_world ns) (wit_s3_bucket ns)"
  by (simp add: put_input_def kept_as_is_def)

lemma wit_quiet: "quiet (wit_s3_bucket []) event"
  by (simp add: quiet_def HasQueueNotificationEvent_def HasTopicNotificationEvent_def HasLambdaNotificationEvent_def)

subsection \<open>The states the service reaches\<close>

text \<open>C14: In every state that the steps of \<open>s3_step\<close> reach from the empty world, every bucket and every object is
  stored once, every bucket carries the id it is stored under, a region and name have at most one bucket, and the
  topics of SNS are in order. The steps are the operations of the S3 service and its tasks, whatever exceptions end
  them, and in between the steps of SNS, SQS and Lambda that C9 allows and any change of the files and of the keys of KMS.
  No step is the import of an infrastructure by the module service, which writes buckets with ids of their own into
  the repository and does not keep the invariant.\<close>

theorem s3_reachable_ok:
  assumes "s3_reachable env w"
  shows "wf_store (buckets (z_s3 w)) \<and> wf_store (objects (z_s3 w)) \<and> all_stamped b_oid (buckets (z_s3 w)) \<and>
    ident_unique bucket_ident (buckets (z_s3 w)) \<and> sns_ok (w_sns (z_sns w))"
proof -
  have "s3_fine w" using assms by (induction rule: s3_reachable.induct) (auto intro: s3_init_fine s3_step_fine)
  then show ?thesis by (simp add: s3_fine_def topics_fine_def s3_okD)
qed

theorem s3_reachable_ok_witness:
  "\<exists>w::s3_world. map fst (buckets (z_s3 w)) = [''k''] \<and> ident_unique bucket_ident (buckets (z_s3 w)) \<and> wf_store (buckets (z_s3 w))"
proof -
  let ?w = "fst (s3_CreateBucket wit_s3_env (\<lambda>_. 0) [] ''k'' ''eu'' ''b'' ''me'' s3_init)"
  have r: "s3_reachable wit_s3_env ?w" by (blast intro: s3_reachable.intros s3_step.create_bucket)
  have "map fst (buckets (z_s3 ?w)) = [''k'']"
    by (simp add: s3_CreateBucket_def CheckBucketNonExistence_def act_check_def s3_init_def s3_bucketExists_def found_iff on_s3_bind act_return_def
        s3_createBucket_def s3_getBucketById_def with_buckets_def get_or_def hmap_insert_def assign_def stamp_found_def find_if_def)
  then show ?thesis using s3_reachable_ok [OF r] by (intro exI [of _ ?w]) simp
qed

subsection \<open>Changing a bucket\<close>

text \<open>The contract of an operation on one bucket, over the buckets at their region and name.\<close>

definition changes_bucket :: "(s3_world, unit) action \<Rightarrow> string \<Rightarrow> string \<Rightarrow> (s3_bucket \<Rightarrow> s3_bucket) \<Rightarrow> s3_world \<Rightarrow> bool" where
  "changes_bucket a region name f w =
     (case bucket_at w region name of
        None \<Rightarrow> \<exists>m. a w = (w, Inl (NotFoundException m))
      | Some b \<Rightarrow> \<exists>w'. a w = (w', Inr ()) \<and> s3_fine w' \<and>
          bucket_at w' = (\<lambda>r n. if r = region \<and> n = name then Some (f b) else bucket_at w r n) \<and>
          objects (z_s3 w') = objects (z_s3 w) \<and> w'\<lparr>z_s3 := z_s3 w\<rparr> = w)"

lemma bucket_at_none: "bucket_at w region name = None \<Longrightarrow> \<not> s3_bucketExists (z_s3 w) region name"
  by (simp add: bucket_at_def by_ident_def s3_bucketExists_def found_def bucket_ident_def)

lemma change_bucket_changes:
  assumes w: "s3_fine w" and f: "\<And>b. b_oid (f b) = b_oid b" "\<And>b. bucket_ident (f b) = bucket_ident b"
  shows "changes_bucket (change_bucket now region name f) region name f w"
proof (cases "bucket_at w region name")
  case None
  then show ?thesis
    by (simp add: changes_bucket_def change_bucket_def CheckBucketExistence_def act_check_def bucket_at_none)
next
  case (Some b)
  have ok: "s3_ok (z_s3 w)" and t: "topics_fine (z_sns w)" using w by (simp_all add: s3_fine_def)
  note at = bucket_at_found [OF Some]
  have "known_bucket (z_s3 w) b"
    using found_bucket_known(1) [OF ok, where P = "\<lambda>b. b_region b = region \<and> b_name b = name"] at(1,2)
    by (simp add: s3_bucketExists_def)
  then have k: "known_bucket (z_s3 w) (f b)" by (rule known_bucket_same) (simp_all add: f)
  let ?st = "(z_s3 w)\<lparr>buckets := assign (b_oid (f b)) (f b) (buckets (z_s3 w))\<rparr>"
  have run: "change_bucket now region name f w = (w\<lparr>z_s3 := ?st\<rparr>, Inr ())"
    by (simp add: change_bucket_def check_exists_run [OF Some] get_bucket_bind [OF w Some])
      (simp add: act_bind_def try_s3_def updateBucket_known [OF ok k] act_return_def)
  have i: "bucket_ident (f b) = (region, name)" using at(3,4) unfolding f(2) by (simp add: bucket_ident_def)
  have "bucket_at (w\<lparr>z_s3 := ?st\<rparr>) = (\<lambda>r n. if r = region \<and> n = name then Some (f b) else bucket_at w r n)"
    by (simp add: bucket_at_def fun_eq_iff updateBucket_ok(3) [OF ok k] i)
  then show ?thesis
    using updateBucket_ok(1) [OF ok k] t by (simp add: changes_bucket_def Some run s3_fine_def)
qed

text \<open>C18: Versioning, encryption, the default metadata and the removal of the lifecycle change the bucket at the
  region and name in the fields of the request and nothing else: every other bucket, the objects, the files and the
  other services stay. For a bucket that does not exist each of them throws and changes nothing. Writing back the
  bucket never meets an iterator at the end. Putting a lifecycle answers with success and changes nothing.\<close>

theorem s3_bucket_changes_refine:
  assumes "s3_fine w"
  shows "changes_bucket (s3_PutBucketVersioning env now region name status) region name
      (\<lambda>b. b\<lparr>b_versionStatus := BucketVersionStatusFromString (v_iequals env) (to_lower status)\<rparr>) w \<and>
    changes_bucket (s3_PutBucketEncryption now region name alg kmsKeyId) region name
      (\<lambda>b. b\<lparr>b_bucketEncryption := \<lparr>be_sseAlgorithm = alg, be_kmsKeyId = kmsKeyId\<rparr>\<rparr>) w \<and>
    changes_bucket (s3_UpdateBucket env now region d) region (db_bucketName d)
      (\<lambda>b. b\<lparr>b_defaultMetadata := db_defaultMetadata d, b_versionStatus := BucketVersionStatusFromString (v_iequals env) (db_versionStatus d)\<rparr>) w \<and>
    changes_bucket (s3_DeleteBucketLifecycle now region name) region name (\<lambda>b. b\<lparr>b_lifecycleConfigurations := []\<rparr>) w \<and>
    changes_bucket (s3_PutBucketLifecycleConfiguration now region name) region name (\<lambda>b. b) w"
  unfolding s3_PutBucketVersioning_def s3_PutBucketEncryption_def s3_UpdateBucket_def s3_DeleteBucketLifecycle_def
    s3_PutBucketLifecycleConfiguration_def
  by (intro conjI change_bucket_changes assms) (simp_all add: bucket_ident_def)

theorem s3_bucket_changes_refine_witness:
  "\<exists>w'. s3_PutBucketEncryption 0 ''eu'' ''b'' ''aws:kms'' ''key'' (wit_s3_world []) = (w', Inr ()) \<and>
     map_option HasEncryption (bucket_at w' ''eu'' ''b'') = Some True \<and>
     (\<exists>m. s3_PutBucketEncryption 0 ''us'' ''b'' ''aws:kms'' ''key'' (wit_s3_world []) = (wit_s3_world [], Inl (NotFoundException m)))"
proof -
  have n: "bucket_at (wit_s3_world []) ''us'' ''b'' = None"
    by (simp add: bucket_at_def by_ident_def bucket_ident_def find_if_def)
  have c: "changes_bucket (s3_PutBucketEncryption 0 r ''b'' ''aws:kms'' ''key'') r ''b''
      (\<lambda>b. b\<lparr>b_bucketEncryption := \<lparr>be_sseAlgorithm = ''aws:kms'', be_kmsKeyId = ''key''\<rparr>\<rparr>) (wit_s3_world [])" for r
    using s3_bucket_changes_refine [OF wit_s3_fine] by blast
  show ?thesis
    using c [of "''eu''"] c [of "''us''"] by (auto simp: changes_bucket_def n HasEncryption_def)
qed

subsection \<open>Storing and reading\<close>

text \<open>C15: An object that was put into a bucket without versions and without encryption is what is read afterwards:
  the same bytes, their number, their MD5 digest, the metadata and the storage class of the request, whether the
  key is new or overwritten. The bytes are those of the stream up to the length of the request. (Older versions of
  the key are in the same region, the content is not taken for Base64, and nothing listens to the event.)\<close>

theorem s3_put_then_get:
  assumes i: "put_input env ids d stream content w b" and quiet: "quiet b ''ObjectCreated''"
  shows "\<exists>w1 r w2 g. s3_PutObject env now ids d stream w = (w1, Inr r) \<and> pq_etag r = v_md5 env content \<and>
    s3_GetObject env clock (po_region d) (po_bucket d) (po_key d) versionId w1 = (w2, Inr g) \<and>
    read_file (z_files w2) (go_filename g) = Some content \<and> go_size g = int (length content) \<and> go_md5sum g = v_md5 env content \<and>
    map_of (go_metadata g) = map_of (po_metadata d) \<and> go_storageClass g = StorageClassToString (StorageClassFromString (po_storageClass d))"
proof -
  obtain w1 x1 k where put: "s3_PutObject env now ids d stream w = act_catch (rethrow_as env ServiceException)
      (act_bind (CheckNotifications env (oi_clock ids 4) (oi_send ids) (po_region d) (po_bucket d) (po_key d) (o_size x1) (o_md5sum x1)
        (o_versionId x1) ''ObjectCreated'') (\<lambda>_. act_return (PutObjectResponse_of d x1 (merge_left (default_metadata b) (po_metadata d))))) w1"
    and w1: "s3_fine w1" "bucket_at w1 (po_region d) (po_bucket d) = Some b" "z_sns w1 = z_sns w"
      "z_files w1 = stored_files env (oi_fileName ids) content (z_files w)"
    and ex: "s3_objectExists (z_s3 w1) (po_region d) (po_bucket d) (po_key d)"
    and get: "\<And>now. \<exists>st. s3_getObject now (z_s3 w1) (po_region d) (po_bucket d) (po_key d) = (st, set_o_oid k x1)"
    and x1: "o_size x1 = int (length content)" "o_md5sum x1 = v_md5 env content" "o_internalName x1 = oi_fileName ids" "o_versionId x1 = []"
      "map_of (o_metadata x1) = map_of (po_metadata d)" "o_storageClass x1 = StorageClassFromString (po_storageClass d)"
    by (rule put_stores [OF i, where now = now]) (rule that)
  have put_run: "s3_PutObject env now ids d stream w = (w1, Inr (PutObjectResponse_of d x1 (merge_left (default_metadata b) (po_metadata d))))"
    unfolding put by (simp add: act_catch_def act_bind_def check_notifications_quiet [OF w1(1,2) quiet] run_return)
  obtain st2 where g: "s3_getObject (clock 1) (z_s3 w1) (po_region d) (po_bucket d) (po_key d) = (st2, set_o_oid k x1)"
    using get by blast
  have plain: "\<not> IsVersioned b" "\<not> HasEncryption b" and place: "good_place env (z_files w) (oi_fileName ids)"
    using i by (simp_all add: put_input_def)
  have "s3_GetObject env clock (po_region d) (po_bucket d) (po_key d) versionId w1 =
      (w1\<lparr>z_s3 := st2, z_files := EnsureDirectoryExists (v_s3_dir env) (z_files w1)\<rparr>,
       Inr (GetObjectResponse_of (object_path env (set_o_oid k x1)) (set_o_oid k x1)))"
    by (rule get_unversioned [where clock = clock, OF w1(1,2) plain ex g])
  then show ?thesis
    using put_run x1 by (auto simp: PutObjectResponse_of_def GetObjectResponse_of_def object_path_def set_o_oid_def w1(4) stored_files_read [OF place])
qed

theorem s3_put_then_get_witness:
  "\<exists>w1 r w2 g. s3_PutObject wit_s3_env 1 wit_object_ids wit_put ''abcd'' (wit_s3_world []) = (w1, Inr r) \<and> pq_etag r = ''abc'' \<and>
    s3_GetObject wit_s3_env (\<lambda>_. 2) ''eu'' ''b'' ''key'' [] w1 = (w2, Inr g) \<and>
    read_file (z_files w2) (go_filename g) = Some ''abc'' \<and> go_storageClass g = ''GLACIER''"
proof -
  have "StorageClassToString (StorageClassFromString ''GLACIER'') = ''GLACIER''" by code_simp
  then show ?thesis
    using s3_put_then_get [OF wit_put_input wit_quiet, where now = 1 and clock = "\<lambda>_. 2" and versionId = "[]"] by auto
qed

subsection \<open>What goes wrong\<close>

lemma what_service: "rethrow_as env ServiceException (ServiceException m) = ServiceException m"
  by (simp add: rethrow_as_def what_def)

text \<open>C20: When the stream is shorter than the length of the request says, \<open>PutObject\<close> ends in an exception, with or
  without versions and encryption, and leaves the repository, the other services, the tasks and all files as they
  were; the file begun is removed.\<close>

theorem s3_put_truncated:
  assumes w: "s3_fine w" and b: "bucket_at w (po_region d) (po_bucket d) = Some b"
    and short: "int (length stream) < po_contentLength d" and place: "good_place env (z_files w) (oi_fileName ids)"
  shows "\<exists>w1 m. s3_PutObject env now ids d stream w = (w1, Inl (ServiceException m)) \<and> z_s3 w1 = z_s3 w \<and> z_sns w1 = z_sns w \<and>
    z_kms w1 = z_kms w \<and> z_tasks w1 = z_tasks w \<and>
    (\<forall>p. read_file (z_files w1) p = (if p = appendPath (v_s3_dir env) (oi_fileName ids) then None else read_file (z_files w) p))"
proof -
  let ?path = "appendPath (v_s3_dir env) (oi_fileName ids)" and ?fs = "stored_files env (oi_fileName ids) stream (z_files w)"
  have cp: "StreamCopier stream (po_contentLength d) = (stream, int (length stream))"
    using short by (simp add: StreamCopier_spec)
  have "FileExists ?fs ?path" by (simp add: FileExists_def stored_files_read [OF place])
  then obtain fs' where rm: "RemoveFile ?path ?fs = Inr fs'" using remove_existing by blast
  have rd: "read_file fs' p = (if p = ?path then None else read_file (z_files w) p)" for p
    using read_remove [OF rm] by (simp add: stored_files_read [OF place])
  let ?m = "''Put object truncated, expected: '' @ to_string (po_contentLength d) @ '', received: '' @ to_string (int (length stream))"
  have "SaveObject env ids d b stream w = (w\<lparr>z_files := fs'\<rparr>, Inl (ServiceException ?m))"
    using short rm by (simp add: SaveObject_def cp on_files_bind stored_files_def [symmetric] try_files_bind run_throw)
  then show ?thesis
    using rd by (simp add: put_object_run [OF w b] run_catch what_service)
qed

theorem s3_put_truncated_witness:
  "\<exists>w1 m. s3_PutObject wit_s3_env 1 wit_object_ids wit_put ''ab'' (wit_s3_world []) = (w1, Inl (ServiceException m)) \<and>
    read_file (z_files w1) ''/d/s3/f'' = None"
proof -
  have "appendPath ''/d/s3'' ''f'' = ''/d/s3/f''" by (simp add: appendPath_def)
  then show ?thesis
    using s3_put_truncated [where env = wit_s3_env and ids = wit_object_ids and d = wit_put and stream = "''ab''" and w = "wit_s3_world []"
        and b = "wit_s3_bucket []" and now = 1] by auto
qed

text \<open>One queue listens, and the object passes its filter.\<close>

definition one_queue :: "s3_bucket \<Rightarrow> string \<Rightarrow> string \<Rightarrow> s3_notification \<Rightarrow> bool" where
  "one_queue b event key n \<longleftrightarrow> GetQueueNotifications b event = [n] \<and> CheckFilter n key \<and>
     \<not> HasTopicNotificationEvent b event \<and> \<not> HasLambdaNotificationEvent b event"

lemma check_notifications_queue:
  assumes "s3_fine w" "bucket_at w region bucket = Some b" "one_queue b event key n"
  shows "CheckNotifications env now ids region bucket key sz etag versionId event w =
    act_bind (SendQueueNotificationRequest env (ids 0 0) (event_of (si_time (ids 0 0)) region b key sz etag versionId event n) n)
      (\<lambda>_. act_return ()) w"
proof -
  have "HasQueueNotificationEvent b event"
    using assms(3) by (auto simp: one_queue_def GetQueueNotifications_def HasQueueNotificationEvent_def list_ex_iff filter_eq_Cons_iff)
  then show ?thesis
    using assms(3)
    by (simp add: CheckNotifications_def get_bucket_bind [OF assms(1,2)] one_queue_def notify_each_def Let_def bind_assoc bind_return_left)
qed

lemma send_queue_run:
  "SendQueueNotificationRequest env ids ev n w =
    (case svc_sendMessage (v_sqs env) (dl_clock (si_delivery ids)) (dl_layout (si_delivery ids)) (dl_message (si_delivery ids))
        (w_lam (z_sns w)) (w_sqs (z_sns w)) (event_request env ev n) of
       Inl e \<Rightarrow> (w, Inl e)
     | Inr (st, _) \<Rightarrow> (w\<lparr>z_sns := (z_sns w)\<lparr>w_sqs := st\<rparr>\<rparr>, Inr ()))"
  by (auto simp: SendQueueNotificationRequest_def elsewhere_def act_part_def act_bind_def try_sqs_def run_return split: sum.splits prod.splits)

lemma send_plain:
  assumes inv: "life_inv st" and q: "find_if (\<lambda>(_, q). q_arn q = ConvertToArn (e_cfg env) (sr_region d) (sr_queueUrl d)) (queues st) = Some (k, q)"
    and l: "lam_listLambdasWithEventSource lam (q_arn q) = []"
  obtains st' resp m where "svc_sendMessage env clock lay ids lam st d = Inr (st', resp)"
    "map_of (messages st') = (map_of (messages st))(mi_oid ids \<mapsto> m)" "m_queueArn m = q_arn q" "m_body m = sr_body d"
proof -
  let ?q' = "queue_counts_message (q\<lparr>q_oid := k\<rparr>)\<lparr>q_modified := clock 5\<rparr>"
  let ?m = "(message_to_store env clock ids ?q' d (message_before_update env clock (q\<lparr>q_oid := k\<rparr>) d))\<lparr>m_oid := mi_oid ids\<rparr>"
  have "map_of (hmap_insert lay (mi_oid ids) ?m (messages st)) = (map_of (messages st))(mi_oid ids \<mapsto> ?m)"
    by (rule map_of_hmap_insert [OF life_parts(2) [OF inv]])
  then show thesis
    using that [of _ _ ?m] send_stored [OF inv q, of clock lay ids lam]
    by (simp add: checkLambdaNotifications_def l stored_message)
qed

definition event_queue :: "s3_env \<Rightarrow> s3_notification \<Rightarrow> string" where
  "event_queue env n = ConvertToArn (v_cfg env) (cfg_region (v_cfg env)) (ConvertSQSQueueArnToUrl (e_split (v_sqs env)) (v_cfg env) (nt_arn n))"

text \<open>C17: The event of a stored object arrives: putting an object stores exactly one message in the queue that listens,
  with the event of this object as its body; the event carries the key, the size and the digest of the object, but
  neither the ARN nor the owner of its bucket. This is for a bucket that exists and has neither versions nor
  encryption, where exactly one queue configuration listens to the creation of objects and the key passes its filter,
  and no topic and no function configuration listens; for a queue that exists under the ARN the configuration stands
  for, and that no function listens to, since a function would be given the message and take it out of the queue; and
  for a stream of the announced length whose content is not taken for Base64, while all older objects of the key are in
  the region of the request and were modified before. (The states satisfy the invariants of C4 and C14, and the new file
  takes the place of no directory.)\<close>

theorem s3_put_event_in_queue:
  assumes i: "put_input env ids d stream content w b" and one: "one_queue b ''ObjectCreated'' (po_key d) n"
    and q: "life_inv (w_sqs (z_sns w))" "find_if (\<lambda>(_, q). q_arn q = event_queue env n) (queues (w_sqs (z_sns w))) = Some (k, q)"
      "lam_listLambdasWithEventSource (w_lam (z_sns w)) (q_arn q) = []"
  shows "\<exists>w1 r m ev. s3_PutObject env now ids d stream w = (w1, Inr r) \<and>
    map_of (messages (w_sqs (z_sns w1))) = (map_of (messages (w_sqs (z_sns w))))(mi_oid (dl_message (si_delivery (oi_send ids 0 0))) \<mapsto> m) \<and>
    m_queueArn m = event_queue env n \<and> m_body m = v_event_json env ev \<and>
    ev_eventName ev = ''ObjectCreated'' \<and> ev_configurationId ev = nt_id n \<and> ev_key ev = po_key d \<and> ev_size ev = int (length content) \<and>
    ev_etag ev = v_md5 env content \<and> ev_bucketArn ev = [] \<and> ev_bucketOwner ev = []"
proof -
  obtain w1 x1 k' where put: "s3_PutObject env now ids d stream w = act_catch (rethrow_as env ServiceException)
      (act_bind (CheckNotifications env (oi_clock ids 4) (oi_send ids) (po_region d) (po_bucket d) (po_key d) (o_size x1) (o_md5sum x1)
        (o_versionId x1) ''ObjectCreated'') (\<lambda>_. act_return (PutObjectResponse_of d x1 (merge_left (default_metadata b) (po_metadata d))))) w1"
    and w1: "s3_fine w1" "bucket_at w1 (po_region d) (po_bucket d) = Some b" "z_sns w1 = z_sns w"
    and x1: "o_size x1 = int (length content)" "o_md5sum x1 = v_md5 env content"
    by (rule put_stores [OF i, where now = now]) (rule that)
  let ?ids = "oi_send ids 0 0"
  let ?ev = "event_of (si_time ?ids) (po_region d) b (po_key d) (o_size x1) (o_md5sum x1) (o_versionId x1) ''ObjectCreated'' n"
  have q': "find_if (\<lambda>(_, q). q_arn q = ConvertToArn (e_cfg (v_sqs env)) (sr_region (event_request env ?ev n)) (sr_queueUrl (event_request env ?ev n)))
      (queues (w_sqs (z_sns w))) = Some (k, q)"
    using q(2) by (simp add: event_queue_def event_request_def)
  have qa: "q_arn q = event_queue env n" using find_if_SomeD [OF q(2)] by simp
  obtain st' resp m where sent: "svc_sendMessage (v_sqs env) (dl_clock (si_delivery ?ids)) (dl_layout (si_delivery ?ids)) (dl_message (si_delivery ?ids))
      (w_lam (z_sns w)) (w_sqs (z_sns w)) (event_request env ?ev n) = Inr (st', resp)"
    and m: "map_of (messages st') = (map_of (messages (w_sqs (z_sns w))))(mi_oid (dl_message (si_delivery ?ids)) \<mapsto> m)"
      "m_queueArn m = q_arn q" "m_body m = sr_body (event_request env ?ev n)"
    by (rule send_plain [OF q(1) q' q(3)])
  have "s3_PutObject env now ids d stream w = (w1\<lparr>z_sns := (z_sns w)\<lparr>w_sqs := st'\<rparr>\<rparr>,
      Inr (PutObjectResponse_of d x1 (merge_left (default_metadata b) (po_metadata d))))"
    unfolding put act_catch_def act_bind_def check_notifications_queue [OF w1(1,2) one]
    by (simp add: act_bind_def send_queue_run w1(3) sent run_return)
  then show ?thesis
    using m qa x1 by (intro exI [of _ m] exI conjI) (auto simp: event_request_def event_of_def)
qed

lemma wit_one_queue: "nt_filterRules n = [] \<Longrightarrow> nt_events n = [''ObjectCreated''] \<Longrightarrow> one_queue (wit_s3_bucket [n]) ''ObjectCreated'' ''key'' n"
proof -
  assume n: "nt_filterRules n = []" "nt_events n = [''ObjectCreated'']"
  have "Contains ''ObjectCreated'' ''ObjectCreated''" by code_simp
  then show "one_queue (wit_s3_bucket [n]) ''ObjectCreated'' ''key'' n"
    using n by (simp add: one_queue_def GetQueueNotifications_def HasTopicNotificationEvent_def HasLambdaNotificationEvent_def CheckFilter_def
      listens_to_def)
qed

lemma wit_event_queue: "event_queue wit_s3_env (n\<lparr>nt_arn := wit_arn\<rparr>) = wit_arn"
proof -
  have "ConvertToArn (e_cfg wit_env) ''eu'' (ConvertSQSQueueArnToUrl split_model (e_cfg wit_env) wit_arn) = wit_arn" by code_simp
  then show ?thesis by (simp add: event_queue_def wit_sns_env_def wit_env_def)
qed

theorem s3_put_event_in_queue_witness:
  "\<exists>w1 r m. s3_PutObject wit_s3_env 1 wit_object_ids wit_put ''abcd'' (wit_s3_world [wit_notification]) = (w1, Inr r) \<and>
    map_of (messages (w_sqs (z_sns w1))) (mi_oid (dl_message (wit_ids 0))) = Some m \<and> m_queueArn m = wit_arn \<and> m_body m = ''key''"
proof -
  have e: "event_queue wit_s3_env wit_notification = wit_arn"
    using wit_event_queue [of wit_notification] by (simp add: wit_notification_def)
  have o: "one_queue (wit_s3_bucket [wit_notification]) ''ObjectCreated'' (po_key wit_put) wit_notification"
    unfolding wit_put_fields by (rule wit_one_queue) (simp_all add: wit_notification_def)
  show ?thesis
    using s3_put_event_in_queue [OF wit_put_input o, where now = 1 and k = "''k''" and q = wit_svc_queue]
    by (auto simp: e wit_svc_life find_if_def wit_no_listener)
qed

text \<open>When the queue of the one notification does not exist, \<open>PutObject\<close> ends in an exception after the object was
  stored: the object exists, its file has the content, and reading it gives it back.\<close>

theorem s3_put_missing_queue:
  assumes i: "put_input env ids d stream content w b" and one: "one_queue b ''ObjectCreated'' (po_key d) n"
    and q: "event_queue env n \<noteq> []" "\<not> sqs_queueArnExists (w_sqs (z_sns w)) (event_queue env n)"
  shows "\<exists>w1 m w2 g. s3_PutObject env now ids d stream w = (w1, Inl (ServiceException m)) \<and>
    s3_objectExists (z_s3 w1) (po_region d) (po_bucket d) (po_key d) \<and> z_sns w1 = z_sns w \<and>
    s3_GetObject env clock (po_region d) (po_bucket d) (po_key d) versionId w1 = (w2, Inr g) \<and>
    read_file (z_files w2) (go_filename g) = Some content"
proof -
  obtain w1 x1 k where put: "s3_PutObject env now ids d stream w = act_catch (rethrow_as env ServiceException)
      (act_bind (CheckNotifications env (oi_clock ids 4) (oi_send ids) (po_region d) (po_bucket d) (po_key d) (o_size x1) (o_md5sum x1)
        (o_versionId x1) ''ObjectCreated'') (\<lambda>_. act_return (PutObjectResponse_of d x1 (merge_left (default_metadata b) (po_metadata d))))) w1"
    and w1: "s3_fine w1" "bucket_at w1 (po_region d) (po_bucket d) = Some b" "z_sns w1 = z_sns w"
      "z_files w1 = stored_files env (oi_fileName ids) content (z_files w)"
    and ex: "s3_objectExists (z_s3 w1) (po_region d) (po_bucket d) (po_key d)"
    and get: "\<And>now. \<exists>st. s3_getObject now (z_s3 w1) (po_region d) (po_bucket d) (po_key d) = (st, set_o_oid k x1)"
    and x1: "o_internalName x1 = oi_fileName ids"
    by (rule put_stores [OF i, where now = now]) (rule that)
  obtain m where fails: "svc_sendMessage (v_sqs env) c l mids (w_lam (z_sns w)) (w_sqs (z_sns w)) (event_request env ev n) = Inl (ServiceException m)" for c l mids ev
    using q by (simp add: svc_sendMessage_def Let_def require_def event_request_def event_queue_def)
  have r: "s3_PutObject env now ids d stream w = (w1, Inl (ServiceException m))"
    unfolding put act_catch_def act_bind_def check_notifications_queue [OF w1(1,2) one]
    by (simp add: act_bind_def send_queue_run w1(3) fails what_service)
  obtain st2 where g: "s3_getObject (clock 1) (z_s3 w1) (po_region d) (po_bucket d) (po_key d) = (st2, set_o_oid k x1)"
    using get by blast
  have plain: "\<not> IsVersioned b" "\<not> HasEncryption b" and place: "good_place env (z_files w) (oi_fileName ids)"
    using i by (simp_all add: put_input_def)
  have "s3_GetObject env clock (po_region d) (po_bucket d) (po_key d) versionId w1 =
      (w1\<lparr>z_s3 := st2, z_files := EnsureDirectoryExists (v_s3_dir env) (z_files w1)\<rparr>,
       Inr (GetObjectResponse_of (object_path env (set_o_oid k x1)) (set_o_oid k x1)))"
    by (rule get_unversioned [where clock = clock, OF w1(1,2) plain ex g])
  then show ?thesis
    using r ex w1(3) by (simp add: GetObjectResponse_of_def object_path_def set_o_oid_def x1 w1(4) stored_files_read [OF place])
qed

definition wit_lost :: s3_notification where
  "wit_lost = wit_notification\<lparr>nt_arn := CreateArn ''sqs'' ''eu'' ''000000000000'' ''gone''\<rparr>"

lemma wit_lost_queue: "event_queue wit_s3_env wit_lost = CreateArn ''sqs'' ''eu'' ''000000000000'' ''gone''"
proof -
  have "ConvertToArn (e_cfg wit_env) ''eu'' (ConvertSQSQueueArnToUrl split_model (e_cfg wit_env) (CreateArn ''sqs'' ''eu'' ''000000000000'' ''gone''))
      = CreateArn ''sqs'' ''eu'' ''000000000000'' ''gone''" by code_simp
  then show ?thesis by (simp add: event_queue_def wit_lost_def wit_sns_env_def wit_env_def)
qed

theorem s3_put_missing_queue_witness:
  "\<exists>w1 m. s3_PutObject wit_s3_env 1 wit_object_ids wit_put ''abcd'' (wit_s3_world [wit_lost]) = (w1, Inl (ServiceException m)) \<and>
    s3_objectExists (z_s3 w1) ''eu'' ''b'' ''key''"
proof -
  have o: "one_queue (wit_s3_bucket [wit_lost]) ''ObjectCreated'' (po_key wit_put) wit_lost"
    unfolding wit_put_fields by (rule wit_one_queue) (simp_all add: wit_notification_def wit_lost_def)
  have "\<not> sqs_queueArnExists wit_svc (event_queue wit_s3_env wit_lost)" "event_queue wit_s3_env wit_lost \<noteq> []"
    unfolding wit_lost_queue by (simp_all add: sqs_queueArnExists_def wit_arn_def found_iff) (simp_all add: CreateArn_def)
  then show ?thesis
    using s3_put_missing_queue [OF wit_put_input o, where now = 1 and clock = "\<lambda>_. 2" and versionId = "[]"]
    by auto
qed

end
