(* ===== verification/S3UploadProps.thy ===== *)
theory S3UploadProps
  imports S3PutProps
begin

text \<open>
  Properties of uploads in parts: the parts of an upload, in whatever order they come, become one object
  in the order of their numbers; where an empty part cuts the object off; and what an upload that only
  began does to the object it will replace.
\<close>

subsection \<open>Appending files\<close>

lemma append_parts_spec:
  assumes "\<And>f. f \<in> set files \<Longrightarrow> read_file fs f = Some (content f)"
  shows "append_parts fs files out good n =
    (out @ (if good then until_empty (map content files) else []), n + int (length (concat (map content files))))"
  using assms by (induction files arbitrary: out good n) auto

lemma until_empty_all: "[] \<notin> set cs \<Longrightarrow> until_empty cs = concat cs"
  by (induction cs) auto

lemma update_absent: "k \<notin> fst ` set al \<Longrightarrow> AList.update k v al = al @ [(k, v)]"
  by (induction al) auto

subsection \<open>The files of the parts\<close>

lemma to_string_plain: "CHR ''/'' \<notin> set (to_string n)"
proof
  assume "CHR ''/'' \<in> set (to_string n)"
  then have "isdigit CHR ''/''" using digits_isdigit by (auto simp: to_string_def split: if_splits)
  then show False by (simp add: isdigit_def byte_def)
qed

lemma digits_no_dash: "CHR ''-'' \<notin> set (digits n)"
proof
  assume "CHR ''-'' \<in> set (digits n)"
  then have "isdigit CHR ''-''" by (rule digits_isdigit)
  then show False by (simp add: isdigit_def byte_def)
qed

definition part_name :: "string \<Rightarrow> int \<Rightarrow> string" where
  "part_name uploadId n = uploadId @ ''-'' @ to_string n"

lemma part_name_plain: "simple_name uploadId \<Longrightarrow> simple_name (part_name uploadId n)"
  by (simp add: simple_name_def part_name_def to_string_plain)

lemma part_file_name: "part_file dir uploadId n = appendPath dir (part_name uploadId n)"
  by (simp add: part_file_def part_name_def)

lemma extract_part:
  assumes "0 \<le> n" "n < 2 ^ 63"
  shows "ExtractNumber (part_name uploadId n) = n"
proof -
  have d: "to_string n = digits (nat n)" using assms(1) by (simp add: to_string_def)
  have "takeWhile (\<lambda>c. c \<noteq> CHR ''-'') (rev (digits (nat n)) @ CHR ''-'' # rev uploadId) = rev (digits (nat n))"
  proof -
    have "c \<noteq> CHR ''-''" if "c \<in> set (rev (digits (nat n)))" for c using that digits_no_dash by auto
    then show ?thesis by (subst takeWhile_append2) auto
  qed
  then have "rev (takeWhile (\<lambda>c. c \<noteq> CHR ''-'') (rev (part_name uploadId n))) = to_string n"
    by (simp add: part_name_def d)
  moreover have "stol (to_string n) = Inr n" using assms by (simp add: stol_def sto_def strto_to_string)
  ultimately show ?thesis by (simp add: ExtractNumber_def part_name_def)
qed

text \<open>A directory for the upload which holds nothing yet, and numbers for its parts.\<close>

definition upload_place :: "s3_env \<Rightarrow> string \<Rightarrow> file_store \<Rightarrow> bool" where
  "upload_place env uploadId fs \<longleftrightarrow>
     plain_dir (v_temp_dir env) \<and> simple_name uploadId \<and>
     list_all (\<lambda>(p, _). \<not> inside (appendPath (v_temp_dir env) uploadId) p) (fs_files fs) \<and>
     list_all (\<lambda>d. \<not> inside (appendPath (v_temp_dir env) uploadId) d) (fs_dirs fs)"

definition good_parts :: "(int \<times> string) list \<Rightarrow> bool" where
  "good_parts parts \<longleftrightarrow> distinct (map fst parts) \<and> list_all (\<lambda>(n, _). 0 \<le> n \<and> n < 2 ^ 31) parts"

abbreviation upload_dir :: "s3_env \<Rightarrow> string \<Rightarrow> string" where
  "upload_dir env uploadId \<equiv> appendPath (v_temp_dir env) uploadId"

lemma plain_last: "simple_name n \<Longrightarrow> last n \<noteq> CHR ''/''"
  unfolding simple_name_def by (metis last_in_set)

lemma upload_dir_plain: "upload_place env uploadId fs \<Longrightarrow> plain_dir (upload_dir env uploadId)"
  using plain_last [of uploadId] by (auto simp: upload_place_def appendPath_plain plain_dir_def) (simp add: simple_name_def)

lemma part_inside:
  assumes "upload_place env uploadId fs"
  shows "inside (upload_dir env uploadId) (part_file (upload_dir env uploadId) uploadId n)"
  using assms upload_dir_plain [OF assms] part_name_plain
  by (simp add: part_file_name upload_place_def appendPath_plain [of "upload_dir env uploadId"] inside_def)

lemma inside_parent:
  assumes "plain_dir dir" "parent_path p = dir"
  shows "inside dir p"
proof (cases "dropWhile (\<lambda>c. c \<noteq> CHR ''/'') (rev p)")
  case Nil
  then have "parent_path p = []" by (simp only: parent_path_def drop_Nil rev.simps)
  then show ?thesis using assms by (simp add: plain_dir_def)
next
  case (Cons c cs)
  then have c: "c = CHR ''/''" by (simp add: dropWhile_eq_Cons_conv)
  have "cs = rev dir" using assms(2) Cons by (auto simp: parent_path_def)
  then have "rev p = takeWhile (\<lambda>c. c \<noteq> CHR ''/'') (rev p) @ CHR ''/'' # rev dir"
    using takeWhile_dropWhile_id [of "\<lambda>c. c \<noteq> CHR ''/''" "rev p"] Cons c by metis
  from arg_cong [OF this, where f = rev] have "p = (dir @ ''/'') @ rev (takeWhile (\<lambda>c. c \<noteq> CHR ''/'') (rev p))"
    by (simp only: rev_rev_ident rev_append rev.simps append_assoc append.simps)
  then show ?thesis unfolding inside_def prefix_def by blast
qed

lemma part_file_inj:
  assumes "upload_place env uploadId fs" "0 \<le> m" "0 \<le> n" "m < 2 ^ 63" "n < 2 ^ 63"
    and eq: "part_file (upload_dir env uploadId) uploadId m = part_file (upload_dir env uploadId) uploadId n"
  shows "m = n"
proof -
  have p: "simple_name (part_name uploadId i)" for i using assms(1) by (simp add: upload_place_def part_name_plain)
  have "part_name uploadId m = part_name uploadId n"
    using eq unfolding part_file_name append_injective [OF upload_dir_plain [OF assms(1)] p p] .
  then have "ExtractNumber (part_name uploadId m) = ExtractNumber (part_name uploadId n)" by (rule arg_cong)
  then show ?thesis unfolding extract_part [OF assms(2,4)] extract_part [OF assms(3,5)] .
qed

definition part_entry :: "s3_env \<Rightarrow> string \<Rightarrow> int \<times> string \<Rightarrow> string \<times> string" where
  "part_entry env uploadId part = (part_file (upload_dir env uploadId) uploadId (fst part), snd part)"

lemma part_entries_distinct:
  assumes "upload_place env uploadId fs" "good_parts parts"
  shows "distinct (map fst (map (part_entry env uploadId) parts))"
proof -
  have "inj_on (part_file (upload_dir env uploadId) uploadId) (set (map fst parts))"
  proof (rule inj_onI)
    fix m n
    assume mn: "m \<in> set (map fst parts)" "n \<in> set (map fst parts)"
      and eq: "part_file (upload_dir env uploadId) uploadId m = part_file (upload_dir env uploadId) uploadId n"
    then have "0 \<le> m" "0 \<le> n" "m < 2 ^ 63" "n < 2 ^ 63" using assms(2) by (auto simp: good_parts_def list_all_iff)
    then show "m = n" using part_file_inj [OF assms(1)] eq by blast
  qed
  then have "distinct (map (part_file (upload_dir env uploadId) uploadId) (map fst parts))"
    using assms(2) by (simp only: distinct_map good_parts_def simp_thms)
  moreover have "map fst (map (part_entry env uploadId) parts) = map (part_file (upload_dir env uploadId) uploadId) (map fst parts)"
    by (simp add: part_entry_def)
  ultimately show ?thesis by metis
qed

subsection \<open>Uploading the parts\<close>

definition upload_all :: "s3_env \<Rightarrow> string \<Rightarrow> (int \<times> string) list \<Rightarrow> (s3_world, unit) action" where
  "upload_all env uploadId parts =
     act_each (\<lambda>_ (n, s). act_bind (s3_UploadPart env s n uploadId (int (length s))) (\<lambda>_. act_return ())) 0 parts"

definition begun_files :: "s3_env \<Rightarrow> string \<Rightarrow> file_store \<Rightarrow> file_store" where
  "begun_files env uploadId fs = EnsureDirectoryExists (upload_dir env uploadId) (EnsureDirectoryExists (v_temp_dir env) fs)"

text \<open>The directory of the upload is there, and what it holds is the parts \<open>parts\<close>.\<close>

definition uploaded :: "s3_env \<Rightarrow> string \<Rightarrow> (int \<times> string) list \<Rightarrow> file_store \<Rightarrow> file_store \<Rightarrow> bool" where
  "uploaded env uploadId parts fs0 fs \<longleftrightarrow>
     upload_place env uploadId fs0 \<and> DirectoryExists fs (v_temp_dir env) \<and> DirectoryExists fs (upload_dir env uploadId) \<and>
     list_all (\<lambda>d. \<not> inside (upload_dir env uploadId) d) (fs_dirs fs) \<and> fs_dirs fs = fs_dirs (begun_files env uploadId fs0) \<and>
     fs_files fs = fs_files fs0 @ map (part_entry env uploadId) parts"

lemma uploadedD:
  assumes "uploaded env uploadId parts fs0 fs"
  shows "upload_place env uploadId fs0" "DirectoryExists fs (v_temp_dir env)" "DirectoryExists fs (upload_dir env uploadId)"
    "\<not> DirectoryExists fs (part_file (upload_dir env uploadId) uploadId n)"
    "fs_files fs = fs_files fs0 @ map (part_entry env uploadId) parts"
  using assms part_inside [of env uploadId fs0 n] by (auto simp: uploaded_def list_all_iff DirectoryExists_def)

lemma part_parent: "upload_place env uploadId fs \<Longrightarrow> parent_path (part_file (upload_dir env uploadId) uploadId n) = upload_dir env uploadId"
  unfolding part_file_name by (rule parent_append [OF upload_dir_plain part_name_plain], assumption) (simp add: upload_place_def)

lemma ensure_existing: "DirectoryExists fs d \<Longrightarrow> EnsureDirectoryExists d fs = fs"
  by (simp add: EnsureDirectoryExists_def)

lemma upload_part_run:
  assumes up: "uploaded env uploadId parts fs0 (z_files w)" and new: "good_parts (parts @ [(n, s)])"
  shows "\<exists>fs. s3_UploadPart env s n uploadId (int (length s)) w = (w\<lparr>z_files := fs\<rparr>, Inr (v_md5 env s)) \<and>
    uploaded env uploadId (parts @ [(n, s)]) fs0 fs"
proof -
  let ?p = "part_file (upload_dir env uploadId) uploadId n"
  note place = uploadedD(1) [OF up]
  have "distinct (map fst (map (part_entry env uploadId) (parts @ [(n, s)])))" by (rule part_entries_distinct [OF place new])
  then have "?p \<notin> fst ` set (map (part_entry env uploadId) parts)" by (simp add: part_entry_def image_image comp_def)
  moreover have "?p \<notin> fst ` set (fs_files fs0)"
    using place part_inside [OF place] by (fastforce simp: upload_place_def list_all_iff)
  ultimately have abs: "?p \<notin> fst ` set (fs_files (z_files w))" by (auto simp: uploadedD(5) [OF up])
  have cw: "can_write (z_files w) ?p" by (simp add: can_write_def part_parent [OF place] uploadedD [OF up])
  let ?fs = "(z_files w)\<lparr>fs_files := fs_files (z_files w) @ [(?p, s)]\<rparr>"
  have wr: "write_file ?p s (z_files w) = ?fs" by (simp add: write_file_def cw update_absent [OF abs])
  have "read_file ?fs ?p = Some s"
    using read_write [of ?p s "z_files w" ?p] by (simp add: wr cw)
  then have "s3_UploadPart env s n uploadId (int (length s)) w = (w\<lparr>z_files := ?fs\<rparr>, Inr (v_md5 env s))"
    by (simp add: s3_UploadPart_def GetMultipartUploadDirectory_def bind_assoc on_files_bind bind_return_left ensure_existing uploadedD [OF up]
        StreamCopier_spec wr run_read md5_of_file_def Let_def)
  moreover have "uploaded env uploadId (parts @ [(n, s)]) fs0 ?fs"
    using up by (auto simp: uploaded_def DirectoryExists_def part_entry_def)
  ultimately show ?thesis by blast
qed

lemma upload_all_run:
  assumes "uploaded env uploadId done fs0 (z_files w)" "good_parts (done @ parts)"
  shows "\<exists>fs. upload_all env uploadId parts w = (w\<lparr>z_files := fs\<rparr>, Inr ()) \<and> uploaded env uploadId (done @ parts) fs0 fs"
proof -
  let ?body = "\<lambda>(_::nat) (n, s). act_bind (s3_UploadPart env s n uploadId (int (length s))) (\<lambda>_. act_return ())"
  have "\<exists>fs. act_each ?body i parts w = (w\<lparr>z_files := fs\<rparr>, Inr ()) \<and> uploaded env uploadId (done @ parts) fs0 fs" for i
    using assms
  proof (induction parts arbitrary: "done" w i)
    case Nil
    then show ?case by (intro exI [of _ "z_files w"]) (simp add: run_return)
  next
    case (Cons part parts)
    obtain n s where part: "part = (n, s)" by (cases part)
    have "good_parts (done @ [(n, s)])" using Cons.prems(2) by (auto simp: good_parts_def part)
    then obtain fs where one: "s3_UploadPart env s n uploadId (int (length s)) w = (w\<lparr>z_files := fs\<rparr>, Inr (v_md5 env s))"
      "uploaded env uploadId (done @ [(n, s)]) fs0 fs"
      using upload_part_run [OF Cons.prems(1)] by blast
    have body: "?body i part w = (w\<lparr>z_files := fs\<rparr>, Inr ())" by (simp add: part act_bind_def one(1) run_return)
    have "good_parts ((done @ [(n, s)]) @ parts)" using Cons.prems(2) by (simp add: part)
    moreover have "uploaded env uploadId (done @ [(n, s)]) fs0 (z_files (w\<lparr>z_files := fs\<rparr>))" using one(2) by simp
    ultimately obtain fs' where rest: "act_each ?body (Suc i) parts (w\<lparr>z_files := fs\<rparr>) = (w\<lparr>z_files := fs\<rparr>\<lparr>z_files := fs'\<rparr>, Inr ())"
      "uploaded env uploadId ((done @ [(n, s)]) @ parts) fs0 fs'"
      using Cons.IH by blast
    have "act_each ?body i (part # parts) w = (w\<lparr>z_files := fs'\<rparr>, Inr ())"
      unfolding act_each.simps run_bind(1) [of "?body i part", OF body] using rest(1) by simp
    then show ?case using rest(2) by (auto simp: part)
  qed
  then show ?thesis by (simp add: upload_all_def)
qed

subsection \<open>The list of the parts\<close>

lemma ListFilesByPrefix_uploaded:
  assumes up: "uploaded env uploadId parts fs0 fs" and good: "good_parts parts"
  shows "ListFilesByPrefix fs (upload_dir env uploadId) uploadId = map (\<lambda>part. fst (part_entry env uploadId part)) (sort_key fst parts)"
proof -
  note place = uploadedD(1) [OF up]
  have old: "filter (\<lambda>p. parent_path p = upload_dir env uploadId \<and> Contains p uploadId) (map fst (fs_files fs0)) = []"
    using place inside_parent [OF upload_dir_plain [OF place]] by (fastforce simp: filter_empty_conv upload_place_def list_all_iff)
  have in_dir: "parent_path (fst (part_entry env uploadId part)) = upload_dir env uploadId \<and> Contains (fst (part_entry env uploadId part)) uploadId" for part
  proof -
    have "sublist uploadId (upload_dir env uploadId @ CHR ''/'' # uploadId @ ''-'' @ to_string (fst part))"
      using sublist_def by (metis append_Cons append_Nil append_assoc)
    then show ?thesis
      using place upload_dir_plain [OF place] part_name_plain part_parent [OF place]
      by (simp add: part_entry_def Contains_iff part_file_name appendPath_plain [of "upload_dir env uploadId"] upload_place_def)
        (simp add: part_name_def)
  qed
  have fl: "filter (\<lambda>p. parent_path p = upload_dir env uploadId \<and> Contains p uploadId) (map fst (fs_files fs)) =
      map (\<lambda>part. fst (part_entry env uploadId part)) parts"
    using old in_dir by (simp add: uploadedD(5) [OF up] filter_map comp_def)
  have num: "ExtractNumber (path_filename (fst (part_entry env uploadId part))) = fst part" if "part \<in> set parts" for part
  proof -
    have "0 \<le> fst part" "fst part < 2 ^ 63" using good that by (auto simp: good_parts_def list_all_iff)
    then show ?thesis
      using place upload_dir_plain [OF place] part_name_plain
      by (simp add: part_entry_def part_file_name filename_append upload_place_def extract_part)
  qed
  have "sort_key (\<lambda>p. ExtractNumber (path_filename p)) (map (\<lambda>part. fst (part_entry env uploadId part)) parts) =
      map (\<lambda>part. fst (part_entry env uploadId part)) (sort_key fst parts)"
  proof (rule sort_key_inj_key_eq)
    show "mset (map (\<lambda>part. fst (part_entry env uploadId part)) parts) = mset (map (\<lambda>part. fst (part_entry env uploadId part)) (sort_key fst parts))"
      by simp
    show "inj_on (\<lambda>p. ExtractNumber (path_filename p)) (set (map (\<lambda>part. fst (part_entry env uploadId part)) parts))"
      using num by (auto simp: inj_on_def part_entry_def)
    have "map (\<lambda>p. ExtractNumber (path_filename p)) (map (\<lambda>part. fst (part_entry env uploadId part)) (sort_key fst parts)) = map fst (sort_key fst parts)"
      using num by simp
    then show "sorted (map (\<lambda>p. ExtractNumber (path_filename p)) (map (\<lambda>part. fst (part_entry env uploadId part)) (sort_key fst parts)))"
      by (simp only: sorted_sort_key)
  qed
  then show ?thesis using uploadedD(3) [OF up] fl by (simp add: ListFilesByPrefix_def)
qed

lemma uploaded_read:
  assumes up: "uploaded env uploadId parts fs0 fs" and good: "good_parts parts" and mem: "part \<in> set parts"
  shows "read_file fs (fst (part_entry env uploadId part)) = Some (snd part)"
proof -
  note place = uploadedD(1) [OF up]
  have "fst (part_entry env uploadId part) \<notin> fst ` set (fs_files fs0)"
    using place part_inside [OF place] by (fastforce simp: upload_place_def list_all_iff part_entry_def)
  then have "map_of (fs_files fs0) (fst (part_entry env uploadId part)) = None" by (simp add: map_of_eq_None_iff)
  moreover have "map_of (map (part_entry env uploadId) parts) (fst (part_entry env uploadId part)) = Some (snd part)"
    by (rule map_of_is_SomeI [OF part_entries_distinct [OF place good]]) (use mem in \<open>force simp: part_entry_def\<close>)
  ultimately show ?thesis by (simp add: read_file_def uploadedD(5) [OF up] map_add_def)
qed

subsection \<open>The one object of a key\<close>

definition sole :: "s3_repo \<Rightarrow> string \<Rightarrow> s3_object \<Rightarrow> bool" where
  "sole st k x \<longleftrightarrow> wf_store (objects st) \<and> (k, x) \<in> set (objects st) \<and>
     (\<forall>j y. (j, y) \<in> set (objects st) \<longrightarrow> o_bucket y = o_bucket x \<longrightarrow> o_key y = o_key x \<longrightarrow> j = k)"

definition key_free :: "s3_repo \<Rightarrow> string \<Rightarrow> string \<Rightarrow> bool" where
  "key_free st bucket key \<longleftrightarrow> list_all (\<lambda>(_, y). \<not> (o_bucket y = bucket \<and> o_key y = key)) (objects st)"

lemma sole_assign:
  assumes s: "sole st k x" and c: "o_bucket c = o_bucket x" "o_key c = o_key x"
  shows "sole (st\<lparr>objects := assign k c (objects st)\<rparr>) k c"
proof -
  have m: "wf_store (objects st)" "(k, x) \<in> set (objects st)" using s by (simp_all add: sole_def)
  show ?thesis using s c by (auto simp: sole_def set_assign_mem [OF m] assign_def [symmetric])
qed

lemma sole_get:
  assumes "sole st k x"
  shows "s3_getObject now st (o_region x) (o_bucket x) (o_key x) = (st\<lparr>objects := assign k (set_o_oid k x) (objects st)\<rparr>, set_o_oid k x)"
    "s3_objectExists st (o_region x) (o_bucket x) (o_key x)" "sole (st\<lparr>objects := assign k (set_o_oid k x) (objects st)\<rparr>) k (set_o_oid k x)"
proof -
  have s: "wf_store (objects st)" "(k, x) \<in> set (objects st)"
    "\<And>j y. (j, y) \<in> set (objects st) \<Longrightarrow> j \<noteq> k \<Longrightarrow> o_bucket y = o_bucket x \<Longrightarrow> o_key y = o_key x \<Longrightarrow> o_modified y < o_modified x"
    using assms by (auto simp: sole_def)
  show "s3_getObject now st (o_region x) (o_bucket x) (o_key x) = (st\<lparr>objects := assign k (set_o_oid k x) (objects st)\<rparr>, set_o_oid k x)"
    "s3_objectExists st (o_region x) (o_bucket x) (o_key x)"
    by (rule newest_found [OF s], assumption+)+
  show "sole (st\<lparr>objects := assign k (set_o_oid k x) (objects st)\<rparr>) k (set_o_oid k x)"
    by (rule sole_assign [OF assms]) (simp_all add: set_o_oid_def)
qed

lemma sole_update:
  assumes s: "sole st k x" and c: "o_bucket c = o_bucket x" "o_key c = o_key x"
  shows "s3_updateObject now st c = (st\<lparr>objects := assign k c (objects st)\<rparr>, c)"
proof -
  let ?P = "\<lambda>(_::string, y). o_bucket y = o_bucket c \<and> o_key y = o_key c"
  have "found ?P (objects st)" using s c by (force simp: sole_def found_iff)
  then obtain j y where f: "find_if ?P (objects st) = Some (j, y)" by (auto simp: found_def)
  then have "j = k" using find_if_SomeD [OF f] s c by (auto simp: sole_def)
  then show ?thesis using f by (simp add: s3_updateObject_def replace_found_def with_objects_def)
qed

lemma sole_create:
  assumes wf: "wf_store (objects st)" and free: "key_free st (o_bucket x) (o_key x)"
  obtains st1 where "s3_createOrUpdateObject lay oid now st x = (st1, set_o_oid oid x)" "sole st1 oid (set_o_oid oid x)"
    "buckets st1 = buckets st"
proof (rule that)
  let ?os = "assign oid (set_o_oid oid x) (hmap_insert lay oid x (objects st))"
  note c = createObject_run [OF wf]
  have "\<not> s3_objectExistsObject st x" using free by (fastforce simp: s3_objectExistsObject_def found_iff key_free_def list_all_iff)
  then show "s3_createOrUpdateObject lay oid now st x = (st\<lparr>objects := ?os\<rparr>, set_o_oid oid x)"
    by (simp add: s3_createOrUpdateObject_def c(1))
  show "sole (st\<lparr>objects := ?os\<rparr>) oid (set_o_oid oid x)"
    using free c(2,3) [of oid x lay] by (fastforce simp: sole_def key_free_def list_all_iff set_o_oid_def)
qed simp

lemma sole_fine: "s3_fine w \<Longrightarrow> sole st k x \<Longrightarrow> buckets st = buckets (z_s3 w) \<Longrightarrow> s3_fine (w\<lparr>z_s3 := st, z_files := fs\<rparr>)"
  using fine_objects_only [of w st fs] by (cases w) (simp add: sole_def)

subsection \<open>Beginning the upload\<close>

lemma not_inside_ancestor: "d \<in> set (ancestors p) \<Longrightarrow> \<not> inside p d"
  by (auto simp: ancestors_def inside_def dest!: prefix_length_le)

lemma begun_uploaded:
  assumes "upload_place env uploadId fs"
  shows "uploaded env uploadId [] fs (begun_files env uploadId fs)"
proof -
  have dir: "upload_dir env uploadId = v_temp_dir env @ CHR ''/'' # uploadId"
    using assms by (simp add: upload_place_def appendPath_plain)
  have "\<not> inside (upload_dir env uploadId) d" if "d \<in> set (ancestors (v_temp_dir env)) \<or> d = v_temp_dir env \<or> d = upload_dir env uploadId" for d
    using that by (auto simp: dir inside_def ancestors_def dest!: prefix_length_le)
  then have "\<not> inside (upload_dir env uploadId) d"
    if "DirectoryExists (begun_files env uploadId fs) d" for d
    using that assms not_inside_ancestor by (auto simp: begun_files_def dirs_ensure upload_place_def list_all_iff DirectoryExists_def [of fs])
  moreover have "fs_files (EnsureDirectoryExists d f) = fs_files f" for d f by (simp add: EnsureDirectoryExists_def)
  ultimately show ?thesis
    using assms by (simp add: uploaded_def list_all_iff DirectoryExists_def [symmetric]) (simp add: begun_files_def dirs_ensure)
qed

lemma create_upload_run:
  assumes w: "s3_fine w" and b: "bucket_at w region bucket = Some b"
    and st: "s3_createOrUpdateObject (oi_layout ids) (oi_oid ids) (oi_clock ids 2) (z_s3 w)
       (upload_object (oi_clock ids 1) region user bucket key metadata b) = (st1, x1)"
  shows "s3_CreateMultipartUpload env ids uploadId region user bucket key metadata w =
    (w\<lparr>z_files := begun_files env uploadId (z_files w), z_s3 := st1\<rparr>,
     Inr uploadId)"
proof -
  let ?w = "w\<lparr>z_files := begun_files env uploadId (z_files w)\<rparr>"
  have w': "s3_fine ?w" "bucket_at ?w region bucket = Some b" using w b by (simp_all add: s3_fine_def)
  show ?thesis
    using st
    by (simp add: s3_CreateMultipartUpload_def check_exists_run [OF b] GetMultipartUploadDirectory_def bind_assoc on_files_bind bind_return_left
        begun_files_def [symmetric] get_bucket_bind [OF w'])
      (simp add: on_s3_bind run_return)
qed

subsection \<open>Completing the upload\<close>

text \<open>Where the file of the object goes: not into the directory of the upload, and not over a directory.\<close>

definition out_place :: "s3_env \<Rightarrow> string \<Rightarrow> file_store \<Rightarrow> string \<Rightarrow> bool" where
  "out_place env uploadId fs name \<longleftrightarrow>
     good_place env fs name \<and> \<not> inside (upload_dir env uploadId) (appendPath (v_s3_dir env) name) \<and>
     \<not> prefix (appendPath (v_s3_dir env) name) (upload_dir env uploadId)"

lemma begun_prefixes:
  assumes "upload_place env uploadId fs" "DirectoryExists (begun_files env uploadId fs) d" "\<not> DirectoryExists fs d"
  shows "prefix d (upload_dir env uploadId)"
proof -
  have dir: "upload_dir env uploadId = v_temp_dir env @ CHR ''/'' # uploadId"
    using assms by (simp add: upload_place_def appendPath_plain)
  have "prefix d p" if "d \<in> set (ancestors p)" for p using that by (auto simp: ancestors_def take_is_prefix)
  then show ?thesis using assms(2,3) by (auto simp: begun_files_def dirs_ensure dir intro: prefix_prefix)
qed

lemma good_place_uploaded:
  assumes up: "uploaded env uploadId parts fs0 fs" and out: "out_place env uploadId fs0 name"
  shows "good_place env fs name"
proof -
  have "DirectoryExists fs d = DirectoryExists (begun_files env uploadId fs0) d" for d
    using up by (simp add: uploaded_def DirectoryExists_def)
  then show ?thesis using out begun_prefixes [OF uploadedD(1) [OF up]] by (auto simp: out_place_def good_place_def)
qed

lemma append_uploaded:
  assumes up: "uploaded env uploadId parts fs0 fs" and good: "good_parts parts" and out: "out_place env uploadId fs0 name"
  shows "AppendBinaryFiles (appendPath (v_s3_dir env) name) (ListFilesByPrefix (EnsureDirectoryExists (v_s3_dir env) fs) (upload_dir env uploadId) uploadId)
      (EnsureDirectoryExists (v_s3_dir env) fs) =
    (stored_files env name (until_empty (map snd (sort_key fst parts))) fs, int (length (concat (map snd (sort_key fst parts)))))"
proof -
  let ?fs = "EnsureDirectoryExists (v_s3_dir env) fs" and ?files = "map (\<lambda>part. fst (part_entry env uploadId part)) (sort_key fst parts)"
  have d: "DirectoryExists ?fs (upload_dir env uploadId)" "DirectoryExists fs (upload_dir env uploadId)"
    using uploadedD(3) [OF up] by (simp_all add: dirs_ensure)
  have "fs_files ?fs = fs_files fs" by (simp add: EnsureDirectoryExists_def)
  then have l: "ListFilesByPrefix ?fs (upload_dir env uploadId) uploadId = ?files"
    using ListFilesByPrefix_uploaded [OF up good] d by (simp add: ListFilesByPrefix_def)
  have rd: "read_file ?fs (fst (part_entry env uploadId part)) = Some (snd part)" if "part \<in> set parts" for part
    using uploaded_read [OF up good that] by simp
  let ?content = "\<lambda>f. the (read_file ?fs f)"
  have ct: "map ?content ?files = map snd (sort_key fst parts)" using rd by simp
  have "append_parts ?fs ?files [] True 0 = (until_empty (map ?content ?files), int (length (concat (map ?content ?files))))"
    using append_parts_spec [where content = ?content and files = ?files and fs = ?fs and good = True and out = "[]" and n = 0] rd by force
  then have "append_parts ?fs ?files [] True 0 = (until_empty (map snd (sort_key fst parts)), int (length (concat (map snd (sort_key fst parts)))))"
    unfolding ct .
  moreover have "can_write ?fs (appendPath (v_s3_dir env) name)"
    using good_place_uploaded [OF up out] by (simp add: good_place_def can_write_ensured)
  ultimately show ?thesis unfolding l by (simp add: AppendBinaryFiles_def stored_files_def)
qed

lemma read_delete_directory: "\<not> inside d p \<Longrightarrow> read_file (DeleteDirectory d fs) p = read_file fs p"
proof -
  assume p: "\<not> inside d p"
  have "map_of (filter (\<lambda>(q, _). \<not> inside d q) xs) p = map_of xs p" for xs :: "(string \<times> string) list"
    using p by (induction xs) auto
  then show ?thesis by (simp add: DeleteDirectory_def read_file_def)
qed

lemma length_parts: "length (concat (map snd (sort_key fst parts))) = length (concat (map snd parts))"
proof -
  have "mset (map (length \<circ> snd) (sort_key fst parts)) = mset (map (length \<circ> snd) parts)" by simp
  then show ?thesis by (simp only: length_concat map_map sum_mset_sum_list [symmetric])
qed

lemma complete_run:
  assumes up: "uploaded env uploadId parts fs0 (z_files w)" and good: "good_parts parts" and out: "out_place env uploadId fs0 (oi_fileName ids)"
    and w: "s3_fine w" and b: "bucket_at w (o_region x) (o_bucket x) = Some b" and q: "quiet b ''ObjectCreated''" and s: "sole (z_s3 w) k x"
    and content: "content = until_empty (map snd (sort_key fst parts))"
  obtains fs st c where "s3_CompleteMultipartUpload env ids (o_region x) (o_bucket x) (o_key x) uploadId [] w =
      (w\<lparr>z_s3 := st, z_files := fs\<rparr>, Inr (v_md5 env content, v_sha1 env content, v_sha256 env content))"
    "sole st k c" "buckets st = buckets (z_s3 w)" "o_region c = o_region x" "o_bucket c = o_bucket x" "o_key c = o_key x"
    "o_size c = int (length (concat (map snd parts)))" "o_md5sum c = v_md5 env content" "o_internalName c = oi_fileName ids"
    "read_file fs (appendPath (v_s3_dir env) (oi_fileName ids)) = Some content" "\<not> DirectoryExists fs (upload_dir env uploadId)"
proof -
  let ?out = "appendPath (v_s3_dir env) (oi_fileName ids)" and ?fs1 = "EnsureDirectoryExists (v_s3_dir env) (z_files w)"
  let ?x = "set_o_oid k x" and ?n = "int (length (concat (map snd (sort_key fst parts))))"
  define fs2 where "fs2 = stored_files env (oi_fileName ids) content (z_files w)"
  define st2 where "st2 = (z_s3 w)\<lparr>objects := assign k ?x (objects (z_s3 w))\<rparr>"
  define c where "c = completed_object env (oi_fileName ids) ?out ?n fs2 ?x"
  define st3 where "st3 = st2\<lparr>objects := assign k c (objects st2)\<rparr>"
  define fs3 where "fs3 = DeleteDirectory (upload_dir env uploadId) fs2"
  have rd: "read_file fs2 ?out = Some content"
    unfolding fs2_def by (simp add: stored_files_read [OF good_place_uploaded [OF up out]])
  have get: "s3_getObject now (z_s3 w) (o_region x) (o_bucket x) (o_key x) = (st2, ?x)" for now
    unfolding st2_def by (rule sole_get(1) [OF s])
  have s2: "sole st2 k ?x" unfolding st2_def by (rule sole_get(3) [OF s])
  have cf: "o_bucket c = o_bucket ?x" "o_key c = o_key ?x" "o_region c = o_region x" "o_size c = ?n" "o_md5sum c = v_md5 env content"
    "o_sha1sum c = v_sha1 env content" "o_sha256sum c = v_sha256 env content" "o_internalName c = oi_fileName ids"
    by (simp_all add: c_def completed_object_def md5_of_file_def sha_of_file_def rd set_o_oid_def)
  have upd: "s3_updateObject now st2 c = (st3, c)" for now unfolding st3_def by (rule sole_update [OF s2 cf(1,2)])
  have s3: "sole st3 k c" unfolding st3_def by (rule sole_assign [OF s2 cf(1,2)])
  have bs: "buckets st3 = buckets (z_s3 w)" by (simp add: st3_def st2_def)
  let ?w3 = "w\<lparr>z_s3 := st3, z_files := fs3\<rparr>"
  have w3: "s3_fine ?w3" "bucket_at ?w3 (o_region x) (o_bucket x) = Some b"
    using sole_fine [OF w s3 bs] b bs by (simp_all add: bucket_at_def)
  have dirs: "DirectoryExists ?fs1 (v_temp_dir env)" "DirectoryExists ?fs1 (upload_dir env uploadId)"
    using uploadedD(2,3) [OF up] by (simp_all add: dirs_ensure)
  have app: "AppendBinaryFiles ?out (ListFilesByPrefix ?fs1 (upload_dir env uploadId) uploadId) ?fs1 = (fs2, ?n)"
    unfolding fs2_def content by (rule append_uploaded [OF up good out])
  show thesis
  proof (rule that)
    have appended: "act_bind (\<lambda>w. let (fs, n) = AppendBinaryFiles ?out (ListFilesByPrefix (z_files w) (upload_dir env uploadId) uploadId) (z_files w)
        in (w\<lparr>z_files := fs\<rparr>, Inr n)) f (w\<lparr>z_s3 := st2, z_files := ?fs1\<rparr>) = f ?n (w\<lparr>z_s3 := st2, z_files := fs2\<rparr>)"
      for f :: "int \<Rightarrow> (s3_world, string \<times> string \<times> string) action"
      by (simp add: act_bind_def app)
    show "s3_CompleteMultipartUpload env ids (o_region x) (o_bucket x) (o_key x) uploadId [] w =
        (?w3, Inr (v_md5 env content, v_sha1 env content, v_sha256 env content))"
      by (simp add: s3_CompleteMultipartUpload_def GetMultipartUploadDirectory_def bind_assoc bind_return_left on_s3_bind get on_files_bind
          ensure_existing [OF dirs(1)] read_bind dirs(2) Let_def appended [unfolded Let_def] c_def [symmetric] upd fs3_def [symmetric])
        (simp add: act_bind_def check_notifications_quiet [OF w3 q] run_return cf)
    show "o_size c = int (length (concat (map snd parts)))" using cf(4) by (simp add: length_parts)
    show "read_file fs3 ?out = Some content"
      using out rd by (simp add: fs3_def out_place_def read_delete_directory)
    show "\<not> DirectoryExists fs3 (upload_dir env uploadId)" by (simp add: fs3_def DeleteDirectory_def DirectoryExists_def)
  qed (use cf s3 bs in \<open>simp_all add: set_o_oid_def\<close>)
qed

subsection \<open>The whole upload\<close>

text \<open>An upload into a bucket nothing listens to, under a key that has no object yet.\<close>

definition upload_input :: "s3_env \<Rightarrow> string \<Rightarrow> string \<Rightarrow> string \<Rightarrow> string \<Rightarrow> (int \<times> string) list \<Rightarrow> string \<Rightarrow> s3_world \<Rightarrow> s3_bucket \<Rightarrow> bool" where
  "upload_input env uploadId region bucket key parts name w b \<longleftrightarrow>
     s3_fine w \<and> bucket_at w region bucket = Some b \<and> quiet b ''ObjectCreated'' \<and> \<not> IsVersioned b \<and> \<not> HasEncryption b \<and>
     key_free (z_s3 w) bucket key \<and> upload_place env uploadId (z_files w) \<and> good_parts parts \<and> out_place env uploadId (z_files w) name"

lemma upload_run:
  assumes i: "upload_input env uploadId region bucket key parts (oi_fileName ids') w b"
    and content: "content = until_empty (map snd (sort_key fst parts))"
  obtains w1 w2 w3 w4 g where
    "s3_CreateMultipartUpload env ids uploadId region user bucket key metadata w = (w1, Inr uploadId)"
    "upload_all env uploadId parts w1 = (w2, Inr ())"
    "s3_CompleteMultipartUpload env ids' region bucket key uploadId [] w2 = (w3, Inr (v_md5 env content, v_sha1 env content, v_sha256 env content))"
    "s3_GetObject env clock region bucket key versionId w3 = (w4, Inr g)"
    "read_file (z_files w4) (go_filename g) = Some content" "go_size g = int (length (concat (map snd parts)))"
    "go_md5sum g = v_md5 env content" "\<not> DirectoryExists (z_files w3) (upload_dir env uploadId)"
proof -
  have w: "s3_fine w" and b: "bucket_at w region bucket = Some b" and q: "quiet b ''ObjectCreated''" and plain: "\<not> IsVersioned b" "\<not> HasEncryption b"
    and free: "key_free (z_s3 w) bucket key" and place: "upload_place env uploadId (z_files w)" and good: "good_parts parts"
    and out: "out_place env uploadId (z_files w) (oi_fileName ids')"
    using i by (simp_all add: upload_input_def)
  let ?x = "upload_object (oi_clock ids 1) region user bucket key metadata b"
  let ?x1 = "set_o_oid (oi_oid ids) ?x"
  have xf: "o_region ?x1 = region" "o_bucket ?x1 = bucket" "o_key ?x1 = key" "o_bucket ?x = bucket" "o_key ?x = key"
    by (simp_all add: upload_object_def set_o_oid_def)
  have wf: "wf_store (objects (z_s3 w))" using w by (simp add: s3_fine_def s3_okD)
  obtain st1 where st1: "s3_createOrUpdateObject (oi_layout ids) (oi_oid ids) (oi_clock ids 2) (z_s3 w) ?x = (st1, ?x1)"
    "sole st1 (oi_oid ids) ?x1" "buckets st1 = buckets (z_s3 w)"
    by (rule sole_create [OF wf, where x = ?x and lay = "oi_layout ids" and oid = "oi_oid ids" and now = "oi_clock ids 2"])
      (unfold xf, rule free, rule that)
  let ?w1 = "w\<lparr>z_files := begun_files env uploadId (z_files w), z_s3 := st1\<rparr>"
  have create: "s3_CreateMultipartUpload env ids uploadId region user bucket key metadata w = (?w1, Inr uploadId)"
    by (rule create_upload_run [OF w b st1(1)])
  have up1: "uploaded env uploadId [] (z_files w) (z_files ?w1)" using begun_uploaded [OF place] by simp
  obtain fs2 where all: "upload_all env uploadId parts ?w1 = (?w1\<lparr>z_files := fs2\<rparr>, Inr ())" and up2: "uploaded env uploadId parts (z_files w) fs2"
    using upload_all_run [OF up1, of parts] good by auto
  let ?w2 = "?w1\<lparr>z_files := fs2\<rparr>"
  have up2': "uploaded env uploadId parts (z_files w) (z_files ?w2)" using up2 by simp
  have w2: "s3_fine ?w2" "bucket_at ?w2 (o_region ?x1) (o_bucket ?x1) = Some b" "sole (z_s3 ?w2) (oi_oid ids) ?x1"
    using sole_fine [OF w st1(2,3), of fs2] b st1 unfolding xf by (simp_all add: bucket_at_def s3_fine_def)
  obtain fs st c where finished: "s3_CompleteMultipartUpload env ids' (o_region ?x1) (o_bucket ?x1) (o_key ?x1) uploadId [] ?w2 =
      (?w2\<lparr>z_s3 := st, z_files := fs\<rparr>, Inr (v_md5 env content, v_sha1 env content, v_sha256 env content))"
    and c: "sole st (oi_oid ids) c" "buckets st = buckets (z_s3 ?w2)" "o_region c = o_region ?x1" "o_bucket c = o_bucket ?x1" "o_key c = o_key ?x1"
      "o_size c = int (length (concat (map snd parts)))" "o_md5sum c = v_md5 env content" "o_internalName c = oi_fileName ids'"
    and fs: "read_file fs (appendPath (v_s3_dir env) (oi_fileName ids')) = Some content" "\<not> DirectoryExists fs (upload_dir env uploadId)"
    by (rule complete_run [OF up2' good out w2(1,2) q w2(3) content])
  let ?w3 = "?w2\<lparr>z_s3 := st, z_files := fs\<rparr>"
  have w3: "s3_fine ?w3" "bucket_at ?w3 region bucket = Some b"
    using sole_fine [OF w2(1) c(1,2)] w2(2) c(2) unfolding xf by (simp_all add: bucket_at_def)
  note c' = c(3-5) [unfolded xf]
  have ex: "s3_objectExists (z_s3 ?w3) region bucket key" using sole_get(2) [OF c(1)] by (simp add: c')
  obtain st4 where "s3_getObject (clock 1) (z_s3 ?w3) region bucket key = (st4, set_o_oid (oi_oid ids) c)"
    using sole_get(1) [OF c(1), of "clock 1"] by (simp add: c')
  note got = get_unversioned [where clock = clock and versionId = versionId, OF w3 plain ex this]
  show thesis
    by (rule that [OF create all finished [unfolded xf] got])
      (use fs c in \<open>simp_all add: GetObjectResponse_of_def object_path_def set_o_oid_def\<close>)
qed

text \<open>C16: An upload in parts, none of them empty: whatever the order the parts arrive in, the object that is read after
  the upload was completed has the bytes of the parts in the order of their numbers, their total length, and their
  MD5 digest, which the completion answers as well; the directory of the upload is gone. This is for a bucket that exists and has neither versions nor
  encryption, with no notification that listens to the creation of objects, for a key that has no object yet in any bucket
  of that name, and for a completion without a checksum algorithm. The parts have different numbers, which are not
  negative and fit into the \<open>int\<close> of the code; the directory of the upload holds nothing before, and the file of the
  object lies outside of it.
  (In a bucket with encryption it does not hold: the completion stores the bytes as they are, and reading decrypts them.)\<close>

theorem s3_multipart_roundtrip:
  assumes "upload_input env uploadId region bucket key parts (oi_fileName ids') w b" and "[] \<notin> set (map snd parts)"
  shows "\<exists>w1 w2 w3 w4 sha1 sha256 g. let content = concat (map snd (sort_key fst parts)) in
    s3_CreateMultipartUpload env ids uploadId region user bucket key metadata w = (w1, Inr uploadId) \<and>
    upload_all env uploadId parts w1 = (w2, Inr ()) \<and>
    s3_CompleteMultipartUpload env ids' region bucket key uploadId [] w2 = (w3, Inr (v_md5 env content, sha1, sha256)) \<and>
    \<not> DirectoryExists (z_files w3) (appendPath (v_temp_dir env) uploadId) \<and>
    s3_GetObject env clock region bucket key versionId w3 = (w4, Inr g) \<and>
    read_file (z_files w4) (go_filename g) = Some content \<and> go_size g = int (length content) \<and> go_md5sum g = v_md5 env content"
proof -
  have c: "until_empty (map snd (sort_key fst parts)) = concat (map snd (sort_key fst parts))"
    using assms(2) by (intro until_empty_all) simp
  show ?thesis
    unfolding Let_def
    by (rule upload_run [OF assms(1) refl, where ids = ids and user = user and metadata = metadata and clock = clock and versionId = versionId])
      (unfold c length_parts [symmetric, of parts], blast)
qed

lemma wit_upload:
  assumes "good_parts parts"
  shows "upload_input wit_s3_env ''up'' ''eu'' ''b'' ''key'' parts (oi_fileName wit_object_ids) (wit_s3_world []) (wit_s3_bucket [])"
proof -
  have a: "appendPath ''/t'' ''up'' = ''/t/up''" "appendPath ''/d/s3'' ''f'' = ''/d/s3/f''" by (simp_all add: appendPath_def)
  show ?thesis
    using assms wit_quiet [of "''ObjectCreated''"]
    by (simp add: upload_input_def key_free_def upload_place_def plain_dir_def simple_name_def out_place_def a inside_def)
qed

theorem s3_multipart_roundtrip_witness:
  "\<exists>w1 w2 w3 w4 r g.
    s3_CreateMultipartUpload wit_s3_env wit_object_ids ''up'' ''eu'' ''me'' ''b'' ''key'' [] (wit_s3_world []) = (w1, Inr ''up'') \<and>
    upload_all wit_s3_env ''up'' [(2, ''cd''), (1, ''ab'')] w1 = (w2, Inr ()) \<and>
    s3_CompleteMultipartUpload wit_s3_env wit_object_ids ''eu'' ''b'' ''key'' ''up'' [] w2 = (w3, Inr r) \<and> fst r = ''abcd'' \<and>
    s3_GetObject wit_s3_env (\<lambda>_. 2) ''eu'' ''b'' ''key'' [] w3 = (w4, Inr g) \<and> read_file (z_files w4) (go_filename g) = Some ''abcd''"
proof -
  let ?parts = "[(2, ''cd''), (1, ''ab'')] :: (int \<times> string) list"
  have "good_parts ?parts" "[] \<notin> set (map snd ?parts)" by (simp_all add: good_parts_def)
  note r = s3_multipart_roundtrip [OF wit_upload, OF this, where ids = wit_object_ids and user = "''me''" and metadata = "[]"
      and clock = "\<lambda>_. 2" and versionId = "[]"]
  have "concat (map snd (sort_key fst ?parts)) = ''abcd''" by simp
  then show ?thesis using r by (auto simp: Let_def)
qed

text \<open>C21: One empty part cuts the object off: the file has the parts before the first empty one, while the size of the
  object counts all of them, and the upload is answered with success. This is for a bucket that exists and has neither versions nor
  encryption, with no notification that listens to the creation of objects, for a key that has no object yet in any bucket
  of that name, and for a completion without a checksum algorithm. The parts have different numbers, which are not
  negative and fit into the \<open>int\<close> of the code; the directory of the upload holds nothing before, and the file of the
  object lies outside of it.\<close>

theorem s3_empty_part_cuts:
  assumes "upload_input env uploadId region bucket key parts (oi_fileName ids') w b"
    and "map snd (sort_key fst parts) = before @ [] # after" and "[] \<notin> set before"
  shows "\<exists>w1 w2 w3 w4 r g.
    s3_CreateMultipartUpload env ids uploadId region user bucket key metadata w = (w1, Inr uploadId) \<and>
    upload_all env uploadId parts w1 = (w2, Inr ()) \<and>
    s3_CompleteMultipartUpload env ids' region bucket key uploadId [] w2 = (w3, Inr r) \<and>
    s3_GetObject env clock region bucket key versionId w3 = (w4, Inr g) \<and>
    read_file (z_files w4) (go_filename g) = Some (concat before) \<and> go_size g = int (length (concat before) + length (concat after))"
proof -
  have c: "until_empty (map snd (sort_key fst parts)) = concat before"
    unfolding assms(2) using assms(3) by (induction before) auto
  have l: "length (concat (map snd parts)) = length (concat before) + length (concat after)"
    unfolding length_parts [symmetric] assms(2) by simp
  show ?thesis
    by (rule upload_run [OF assms(1) refl, where ids = ids and user = user and metadata = metadata and clock = clock and versionId = versionId])
      (unfold c l, blast)
qed

theorem s3_empty_part_cuts_witness:
  "\<exists>w1 w2 w3 w4 r g.
    s3_CreateMultipartUpload wit_s3_env wit_object_ids ''up'' ''eu'' ''me'' ''b'' ''key'' [] (wit_s3_world []) = (w1, Inr ''up'') \<and>
    upload_all wit_s3_env ''up'' [(1, ''ab''), (2, []), (3, ''cd'')] w1 = (w2, Inr ()) \<and>
    s3_CompleteMultipartUpload wit_s3_env wit_object_ids ''eu'' ''b'' ''key'' ''up'' [] w2 = (w3, Inr r) \<and>
    s3_GetObject wit_s3_env (\<lambda>_. 2) ''eu'' ''b'' ''key'' [] w3 = (w4, Inr g) \<and>
    read_file (z_files w4) (go_filename g) = Some ''ab'' \<and> go_size g = 4"
proof -
  let ?parts = "[(1, ''ab''), (2, []), (3, ''cd'')] :: (int \<times> string) list"
  have "good_parts ?parts" "map snd (sort_key fst ?parts) = [''ab''] @ [] # [''cd'']" "[] \<notin> set [''ab'']" by (simp_all add: good_parts_def)
  from s3_empty_part_cuts [OF wit_upload, OF this, where ids = wit_object_ids and user = "''me''" and metadata = "[]"
      and clock = "\<lambda>_. 2" and versionId = "[]"]
  show ?thesis by simp
qed

end
