(* ===== verification/S3TaskProps.thy ===== *)
theory S3TaskProps
  imports S3UploadProps
begin

text \<open>
  When the task that synchronises the objects of S3 with their files comes to an end, and what beginning an
  upload and moving an object do to what is there.
\<close>

subsection \<open>One round of the synchronisation\<close>

abbreviation has_file :: "s3_env \<Rightarrow> file_store \<Rightarrow> s3_object \<Rightarrow> bool" where
  "has_file env fs x \<equiv> FileExists fs (object_path env x)"

definition same_key :: "s3_object \<Rightarrow> s3_object \<Rightarrow> bool" where
  "same_key x y \<longleftrightarrow> o_bucket x = o_bucket y \<and> o_key x = o_key y"

definition in_bucket :: "string \<Rightarrow> string \<Rightarrow> s3_object \<Rightarrow> bool" where
  "in_bucket region name x \<longleftrightarrow> o_region x = region \<and> o_bucket x = name"

text \<open>The versions of a key have all their file or none.\<close>

definition files_agree :: "s3_env \<Rightarrow> file_store \<Rightarrow> s3_repo \<Rightarrow> bool" where
  "files_agree env fs st \<longleftrightarrow>
     (\<forall>x\<in>set (values_of (objects st)). \<forall>y\<in>set (values_of (objects st)). same_key x y \<longrightarrow> has_file env fs x = has_file env fs y)"

lemma files_agree_mono: "files_agree env fs st \<Longrightarrow> set (objects st') \<subseteq> set (objects st) \<Longrightarrow> files_agree env fs st'"
  by (fastforce simp: files_agree_def values_of_def)

lemma drop_missing_objects:
  "objects (drop_missing env fs xs st) = filter (\<lambda>(_, y). \<not> list_ex (\<lambda>x. \<not> has_file env fs x \<and> same_key y x) xs) (objects st)"
  unfolding drop_missing_def
  by (induction xs arbitrary: st)
    (auto simp: s3_deleteObject_def with_objects_def same_key_def split_def intro!: filter_cong)

lemma bucket_list:
  assumes "region \<noteq> []" "name \<noteq> []"
  shows "s3_getBucketObjectList st region name 1000 = take 1000 (filter (in_bucket region name) (values_of (objects st)))"
proof -
  have "filter (\<lambda>x. o_region x = region \<and> o_bucket x = name) xs = filter (in_bucket region name) xs" for xs
    by (rule filter_cong) (auto simp: in_bucket_def)
  then show ?thesis using assms by (simp add: s3_getBucketObjectList_def Let_def where_if_def q_where_def)
qed

lemma drop_missing_keeps:
  assumes "files_agree env fs st" "set xs \<subseteq> set (values_of (objects st))" "(k, x) \<in> set (objects st)" "has_file env fs x"
  shows "(k, x) \<in> set (objects (drop_missing env fs xs st))"
proof -
  have "has_file env fs z" if "z \<in> set xs" "same_key x z" for z
    using assms that by (force simp: files_agree_def values_of_def)
  then show ?thesis using assms(3) by (auto simp: drop_missing_objects list_ex_iff)
qed

lemma drop_missing_subset: "set (objects (drop_missing env fs xs st)) \<subseteq> set (objects st)"
  by (auto simp: drop_missing_objects)

subsection \<open>One bucket\<close>

lemma sync_bucket_stuck:
  assumes "sync_bucket env fs region name st = Some st'" "region \<noteq> []" "name \<noteq> []"
    "files_agree env fs st" "(k, x) \<in> set (objects st)" "in_bucket region name x" "has_file env fs x"
  shows False
  using assms
proof (induction rule: sync_bucket_induct)
  case (round sync env fs region name st st')
  let ?xs = "s3_getBucketObjectList st region name 1000"
  have "x \<in> set (filter (in_bucket region name) (values_of (objects st)))" using round.prems by (force simp: values_of_def)
  then have "?xs \<noteq> []" unfolding bucket_list [OF round.prems(1,2)] by (auto simp: filter_empty_conv)
  then have run: "sync env fs region name (drop_missing env fs ?xs st) = Some st'" using round.hyps by (simp add: Let_def)
  have "set ?xs \<subseteq> set (values_of (objects st))" unfolding bucket_list [OF round.prems(1,2)] by (auto dest: in_set_takeD)
  then have "(k, x) \<in> set (objects (drop_missing env fs ?xs st))" by (rule drop_missing_keeps [OF round.prems(3) _ round.prems(4,6)])
  moreover have "files_agree env fs (drop_missing env fs ?xs st)" by (rule files_agree_mono [OF round.prems(3) drop_missing_subset])
  ultimately show False using round.IH [OF run] round.prems by blast
qed

lemma sync_bucket_ends:
  assumes "region \<noteq> []" "name \<noteq> []" "files_agree env fs st"
    "\<And>k x. (k, x) \<in> set (objects st) \<Longrightarrow> in_bucket region name x \<Longrightarrow> \<not> has_file env fs x"
  shows "\<exists>st'. sync_bucket env fs region name st = Some st' \<and> set (objects st') \<subseteq> set (objects st) \<and>
    (\<forall>k x. (k, x) \<in> set (objects st) \<longrightarrow> has_file env fs x \<longrightarrow> (k, x) \<in> set (objects st'))"
  using assms
proof (induction "length (objects st)" arbitrary: st rule: less_induct)
  case less
  let ?xs = "s3_getBucketObjectList st region name 1000" and ?st = "drop_missing env fs (s3_getBucketObjectList st region name 1000) st"
  show ?case
  proof (cases "?xs = []")
    case True
    then show ?thesis by (subst sync_bucket.simps) auto
  next
    case False
    have sub: "set ?xs \<subseteq> set (values_of (objects st))" unfolding bucket_list [OF less.prems(1,2)] by (auto dest: in_set_takeD)
    obtain z where z: "z \<in> set ?xs" using False by (cases ?xs) auto
    then have "in_bucket region name z" unfolding bucket_list [OF less.prems(1,2)] by (auto dest: in_set_takeD)
    moreover obtain j where j: "(j, z) \<in> set (objects st)" using z sub by (auto simp: values_of_def)
    ultimately have miss: "\<not> has_file env fs z" using less.prems(4) by blast
    have lt: "length (objects ?st) < length (objects st)"
      unfolding drop_missing_objects by (rule length_filter_less [OF j]) (use z miss in \<open>auto simp: list_ex_iff same_key_def\<close>)
    have "files_agree env fs ?st" by (rule files_agree_mono [OF less.prems(3) drop_missing_subset])
    moreover have "\<And>k x. (k, x) \<in> set (objects ?st) \<Longrightarrow> in_bucket region name x \<Longrightarrow> \<not> has_file env fs x"
      using less.prems(4) drop_missing_subset by blast
    ultimately obtain st' where st': "sync_bucket env fs region name ?st = Some st'" "set (objects st') \<subseteq> set (objects ?st)"
      "\<And>k x. (k, x) \<in> set (objects ?st) \<Longrightarrow> has_file env fs x \<Longrightarrow> (k, x) \<in> set (objects st')"
      using less.hyps [OF lt less.prems(1,2)] by blast
    have "sync_bucket env fs region name st = Some st'" using False st'(1) by (subst sync_bucket.simps) (simp add: Let_def)
    moreover have "(k, x) \<in> set (objects st')" if "(k, x) \<in> set (objects st)" "has_file env fs x" for k x
      using st'(3) drop_missing_keeps [OF less.prems(3) sub that] that by blast
    ultimately show ?thesis using st'(2) drop_missing_subset by blast
  qed
qed

subsection \<open>All buckets\<close>

definition stuck_on :: "s3_env \<Rightarrow> file_store \<Rightarrow> string \<Rightarrow> s3_repo \<Rightarrow> string \<Rightarrow> bool" where
  "stuck_on env fs region st name \<longleftrightarrow> list_ex (\<lambda>(_, x). in_bucket region name x \<and> has_file env fs x) (objects st)"

lemma sync_buckets_none:
  assumes "region \<noteq> []" "list_all (\<lambda>b. b_name b \<noteq> []) bs" "files_agree env fs st"
  shows "sync_buckets env fs region bs st = None \<longleftrightarrow> list_ex (\<lambda>b. stuck_on env fs region st (b_name b)) bs"
  using assms(2,3)
proof (induction bs arbitrary: st)
  case (Cons b bs)
  have n: "b_name b \<noteq> []" using Cons.prems by simp
  show ?case
  proof (cases "stuck_on env fs region st (b_name b)")
    case True
    then obtain k x where "(k, x) \<in> set (objects st)" "in_bucket region (b_name b) x" "has_file env fs x"
      by (auto simp: stuck_on_def list_ex_iff)
    then have "sync_bucket env fs region (b_name b) st = None"
      using sync_bucket_stuck [OF _ assms(1) n Cons.prems(2)] by (cases "sync_bucket env fs region (b_name b) st") blast+
    then show ?thesis using True by simp
  next
    case False
    then have "\<And>k x. (k, x) \<in> set (objects st) \<Longrightarrow> in_bucket region (b_name b) x \<Longrightarrow> \<not> has_file env fs x"
      by (auto simp: stuck_on_def list_ex_iff)
    then obtain st' where st': "sync_bucket env fs region (b_name b) st = Some st'" "set (objects st') \<subseteq> set (objects st)"
      "\<And>k x. (k, x) \<in> set (objects st) \<Longrightarrow> has_file env fs x \<Longrightarrow> (k, x) \<in> set (objects st')"
      using sync_bucket_ends [OF assms(1) n Cons.prems(2)] by blast
    have "stuck_on env fs region st' name \<longleftrightarrow> stuck_on env fs region st name" for name
      using st'(2,3) by (fastforce simp: stuck_on_def list_ex_iff)
    then show ?thesis
      using False Cons.IH [of st'] Cons.prems files_agree_mono [OF Cons.prems(2) st'(2)] by (simp add: st'(1))
  qed
qed simp

text \<open>C19: The synchronisation of objects with files never ends exactly when some bucket has an object of the configured
  region whose file exists, which is the normal state: the bucket is listed until it is empty, and only objects without
  a file are deleted. (The configured region and the names of the buckets are not empty, and the versions of a key have
  all their file or none.)\<close>

theorem s3_sync_never_ends:
  assumes "cfg_region (v_cfg env) \<noteq> []" "list_all (\<lambda>(_, b). b_name b \<noteq> []) (buckets (z_s3 w))" "files_agree env (z_files w) (z_s3 w)"
  shows "SyncObjects env w = None \<longleftrightarrow>
    list_ex (\<lambda>(_, b). list_ex (\<lambda>(_, x). o_region x = cfg_region (v_cfg env) \<and> o_bucket x = b_name b \<and>
      FileExists (z_files w) (object_path env x)) (objects (z_s3 w))) (buckets (z_s3 w))"
proof -
  let ?bs = "values_of (buckets (z_s3 w))"
  have l: "s3_listBuckets (z_s3 w) [] [] 0 0 [] = ?bs" by (simp add: s3_listBuckets_def Let_def)
  have "list_all (\<lambda>b. b_name b \<noteq> []) ?bs" using assms(2) by (auto simp: list_all_iff values_of_def)
  from sync_buckets_none [OF assms(1) this assms(3)]
  have "sync_buckets env (z_files w) (cfg_region (v_cfg env)) ?bs (z_s3 w) = None \<longleftrightarrow>
      list_ex (\<lambda>b. stuck_on env (z_files w) (cfg_region (v_cfg env)) (z_s3 w) (b_name b)) ?bs" .
  then show ?thesis
    unfolding SyncObjects_def l Let_def by (auto simp: bind_eq_None_conv stuck_on_def in_bucket_def values_of_def list_ex_iff split_def)
qed

text \<open>The world of the examples with one object, stored under its id.\<close>

definition wit_s3_object :: s3_object where
  "wit_s3_object = (default_object 1)\<lparr>o_oid := ''x'', o_region := ''eu'', o_bucket := ''b'', o_key := ''key'', o_size := 2, o_internalName := ''g''\<rparr>"

definition wit_full_world :: "(string \<times> string) list \<Rightarrow> s3_world" where
  "wit_full_world files = (wit_s3_world [])\<lparr>z_s3 := \<lparr>buckets = [(''k'', wit_s3_bucket [])], objects = [(''x'', wit_s3_object)]\<rparr>,
     z_files := \<lparr>fs_files = files, fs_dirs = []\<rparr>\<rparr>"

lemma wit_s3_object_fields [simp]:
  "o_oid wit_s3_object = ''x''" "o_region wit_s3_object = ''eu''" "o_bucket wit_s3_object = ''b''" "o_key wit_s3_object = ''key''"
  "o_internalName wit_s3_object = ''g''" "object_path wit_s3_env wit_s3_object = ''/d/s3/g''" "o_size wit_s3_object = 2" "o_modified wit_s3_object = 1"
  by (simp_all add: wit_s3_object_def object_path_def appendPath_def default_object_def)

lemma wit_full_world_fields [simp]:
  "z_s3 (wit_full_world files) = \<lparr>buckets = [(''k'', wit_s3_bucket [])], objects = [(''x'', wit_s3_object)]\<rparr>"
  "z_files (wit_full_world files) = \<lparr>fs_files = files, fs_dirs = []\<rparr>" "z_sns (wit_full_world files) = wit_world []"
  by (simp_all add: wit_full_world_def)

theorem s3_sync_never_ends_witness:
  "SyncObjects wit_s3_env (wit_full_world [(''/d/s3/g'', ''ab'')]) = None \<and> SyncObjects wit_s3_env (wit_full_world []) \<noteq> None"
proof -
  have r: "cfg_region (v_cfg wit_s3_env) = ''eu''" by (simp add: wit_sns_env_def wit_env_def)
  have "files_agree wit_s3_env \<lparr>fs_files = fs, fs_dirs = []\<rparr> \<lparr>buckets = [(''k'', wit_s3_bucket [])], objects = [(''x'', wit_s3_object)]\<rparr>" for fs
    by (simp add: files_agree_def values_of_def)
  then have i: "SyncObjects wit_s3_env (wit_full_world fs) = None \<longleftrightarrow> map_of fs ''/d/s3/g'' \<noteq> None" for fs
    using s3_sync_never_ends [of wit_s3_env "wit_full_world fs"] r by (simp add: FileExists_def read_file_def)
  show ?thesis by (simp add: i)
qed

lemma wit_full_fine: "s3_fine (wit_full_world fs)" "bucket_at (wit_full_world fs) ''eu'' ''b'' = Some (wit_s3_bucket [])"
  "sole \<lparr>buckets = [(''k'', wit_s3_bucket [])], objects = [(''x'', wit_s3_object)]\<rparr> ''x'' wit_s3_object"
  by (simp_all add: s3_fine_def topics_fine_def wit_world_ok s3_ok_def s3_inv_def all_stamped_def ident_unique_def sole_def
      bucket_at_def by_ident_def bucket_ident_def find_if_def)

subsection \<open>Beginning an upload over an object\<close>

text \<open>Beginning an upload under a key that has an object takes the object away at once: reading the key answers with
  size 0 and the name of the data directory itself for a file, while the file of the object stays and no object
  names it any more.\<close>

theorem s3_upload_clobbers:
  assumes w: "s3_fine w" and b: "bucket_at w (o_region x) (o_bucket x) = Some b" and plain: "\<not> IsVersioned b" "\<not> HasEncryption b"
    and s: "sole (z_s3 w) k x"
    and stored: "read_file (z_files w) (object_path env x) = Some content" "o_internalName x \<noteq> []"
    and own: "list_all (\<lambda>(j, y). j \<noteq> k \<longrightarrow> o_internalName y \<noteq> o_internalName x) (objects (z_s3 w))"
  shows "\<exists>w1 w2 g. s3_CreateMultipartUpload env ids uploadId (o_region x) user (o_bucket x) (o_key x) metadata w = (w1, Inr uploadId) \<and>
    s3_GetObject env clock (o_region x) (o_bucket x) (o_key x) versionId w1 = (w2, Inr g) \<and>
    go_size g = 0 \<and> go_filename g = appendPath (v_s3_dir env) [] \<and>
    read_file (z_files w1) (object_path env x) = Some content \<and>
    \<not> s3_objectExistsInternalName (z_s3 w1) (o_internalName x)"
proof -
  define c where "c = upload_object (oi_clock ids 1) (o_region x) user (o_bucket x) (o_key x) metadata b"
  let ?st = "(z_s3 w)\<lparr>objects := assign k c (objects (z_s3 w))\<rparr>"
  have cf: "o_region c = o_region x" "o_bucket c = o_bucket x" "o_key c = o_key x" "o_size c = 0" "o_internalName c = []"
    by (simp_all add: c_def upload_object_def default_object_def)
  have "s3_objectExistsObject (z_s3 w) c" using s by (force simp: s3_objectExistsObject_def found_iff sole_def cf)
  then have st: "s3_createOrUpdateObject (oi_layout ids) (oi_oid ids) (oi_clock ids 2) (z_s3 w) c = (?st, c)"
    by (simp add: s3_createOrUpdateObject_def sole_update [OF s cf(2,3)])
  let ?w1 = "w\<lparr>z_files := begun_files env uploadId (z_files w), z_s3 := ?st\<rparr>"
  have create: "s3_CreateMultipartUpload env ids uploadId (o_region x) user (o_bucket x) (o_key x) metadata w = (?w1, Inr uploadId)"
    by (rule create_upload_run [OF w b st [unfolded c_def], folded c_def])
  have s1: "sole ?st k c" by (rule sole_assign [OF s cf(2,3)])
  have w1: "s3_fine ?w1" "bucket_at ?w1 (o_region x) (o_bucket x) = Some b"
    using fine_objects_only [OF w, of ?st] s1 b by (simp_all add: sole_def bucket_at_def)
  have ex: "s3_objectExists (z_s3 ?w1) (o_region x) (o_bucket x) (o_key x)" using sole_get(2) [OF s1] by (simp add: cf)
  obtain st2 where "s3_getObject (clock 1) (z_s3 ?w1) (o_region x) (o_bucket x) (o_key x) = (st2, set_o_oid k c)"
    using sole_get(1) [OF s1, of "clock 1"] by (simp add: cf)
  note got = get_unversioned [where clock = clock and versionId = versionId, OF w1 plain ex this]
  have mem: "(k, x) \<in> set (objects (z_s3 w))" "wf_store (objects (z_s3 w))" using s by (simp_all add: sole_def)
  have gone: "\<not> s3_objectExistsInternalName ?st (o_internalName x)"
    using own stored(2) cf(5) by (auto simp: s3_objectExistsInternalName_def found_iff set_assign_mem [OF mem(2,1)] list_all_iff)
  show ?thesis
    by (intro exI conjI) (rule create, rule got,
      use gone stored in \<open>simp_all add: GetObjectResponse_of_def object_path_def set_o_oid_def cf begun_files_def\<close>)
qed

theorem s3_upload_clobbers_witness:
  "\<exists>w1 w2 g. s3_CreateMultipartUpload wit_s3_env wit_object_ids ''up'' ''eu'' ''me'' ''b'' ''key'' [] (wit_full_world [(''/d/s3/g'', ''ab'')]) = (w1, Inr ''up'') \<and>
    s3_GetObject wit_s3_env (\<lambda>_. 2) ''eu'' ''b'' ''key'' [] w1 = (w2, Inr g) \<and> go_size g = 0"
proof -
  let ?w = "wit_full_world [(''/d/s3/g'', ''ab'')]"
  show ?thesis
    using s3_upload_clobbers [of ?w wit_s3_object "wit_s3_bucket []" "''x''" wit_s3_env "''ab''" wit_object_ids "''up''" "''me''" "[]" "\<lambda>_. 2" "[]"]
    by (auto simp: read_file_def wit_full_fine)
qed

subsection \<open>Moving an object\<close>

text \<open>Moving an object copies it: afterwards the source object is there with its file and its bytes, beside the target,
  which has the same bytes in a file of its own but no bucket ARN. (Nothing listens, and the id of the new object is
  new.)\<close>

theorem s3_move_keeps_source:
  assumes w: "s3_fine w" and b: "bucket_at w (cr_region d) (cr_sourceBucket d) = Some sb" "bucket_at w (cr_region d) (cr_targetBucket d) = Some tb"
    and quiet: "quiet tb ''ObjectCreated''" and s: "sole (z_s3 w) k x"
    and x: "o_region x = cr_region d" "o_bucket x = cr_sourceBucket d" "o_key x = cr_sourceKey d"
    and stored: "read_file (z_files w) (object_path env x) = Some content" and place: "good_place env (z_files w) (oi_fileName ids)"
    and oid: "oi_oid ids \<notin> keys_of (objects (z_s3 w))"
  shows "\<exists>w1 c. s3_MoveObject env ids d w = (w1, Inr (o_md5sum x)) \<and>
    (k, set_o_oid k x) \<in> set (objects (z_s3 w1)) \<and> read_file (z_files w1) (object_path env x) = Some content \<and>
    (oi_oid ids, c) \<in> set (objects (z_s3 w1)) \<and> o_bucket c = cr_targetBucket d \<and> o_key c = cr_targetKey d \<and> o_size c = o_size x \<and>
    o_bucketArn c = [] \<and> read_file (z_files w1) (object_path env c) = Some content"
proof -
  let ?fs1 = "EnsureDirectoryExists (v_s3_dir env) (z_files w)" and ?out = "appendPath (v_s3_dir env) (oi_fileName ids)"
  let ?st1 = "(z_s3 w)\<lparr>objects := assign k (set_o_oid k x) (objects (z_s3 w))\<rparr>" and ?x = "set_o_oid k x"
  define fs2 where "fs2 = stored_files env (oi_fileName ids) content (z_files w)"
  define c where "c = copied_object ids d tb ?x []"
  define c1 where "c1 = set_o_oid (oi_oid ids) c"
  define st2 where "st2 = ?st1\<lparr>objects := assign (oi_oid ids) c1 (hmap_insert (oi_layout ids) (oi_oid ids) c (objects ?st1))\<rparr>"
  note get = sole_get [OF s, unfolded x]
  have path: "object_path env ?x = object_path env x" by (simp add: object_path_def set_o_oid_def)
  have parent: "parent_path ?out = v_s3_dir env" using place by (simp add: good_place_def parent_append)
  have copy: "CopyTo (object_path env ?x) ?out ?fs1 = Inr fs2"
    using place stored by (simp add: CopyTo_def Let_def parent path fs2_def stored_files_def good_place_def can_write_ensured)
  have wf1: "wf_store (objects ?st1)" using get(3) by (simp only: sole_def)
  note cr = createObject_run [OF wf1, where oid = "oi_oid ids" and x = c and lay = "oi_layout ids", folded c1_def]
  have st2: "s3_createObject (oi_layout ids) (oi_oid ids) now ?st1 c = (st2, c1)" for now unfolding st2_def by (rule cr(1))
  have objs: "set (objects st2) = insert (oi_oid ids, c1) {kv \<in> set (objects ?st1). fst kv \<noteq> oi_oid ids}" using cr(2) by (simp add: st2_def)
  have fine: "s3_fine (w\<lparr>z_files := fs2, z_s3 := st2\<rparr>)"
    using cr(3) by (intro fine_objects_only w) (simp_all add: st2_def)
  have tb: "bucket_at (w\<lparr>z_files := fs2, z_s3 := st2\<rparr>) (cr_region d) (cr_targetBucket d) = Some tb"
    using b(2) by (simp add: bucket_at_def st2_def)
  have cf: "o_region c1 = cr_region d" "o_bucket c1 = cr_targetBucket d" "o_key c1 = cr_targetKey d" "o_md5sum c1 = o_md5sum x" "o_size c1 = o_size x"
    "o_bucketArn c1 = []" "o_internalName c1 = oi_fileName ids"
    by (simp_all add: c1_def c_def copied_object_def set_o_oid_def)
  have w1: "s3_fine (w\<lparr>z_files := fs\<rparr>)" "bucket_at (w\<lparr>z_files := fs\<rparr>) (cr_region d) (cr_targetBucket d) = Some tb" for fs
    using w b(2) by (simp_all add: s3_fine_def)
  have exists: "s3_bucketExists (z_s3 w) (cr_region d) (cr_sourceBucket d)" "s3_bucketExists (z_s3 w) (cr_region d) (cr_targetBucket d)"
    using bucket_at_found(2) b by blast+
  have notified: "act_bind (CheckNotifications env (oi_clock ids 4) (oi_send ids) (o_region c1) (o_bucket c1) (o_key c1) (o_size c1) (o_md5sum c1)
      (o_versionId c1) ''ObjectCreated'') (\<lambda>_. act_return (o_md5sum c1)) (w\<lparr>z_files := fs2, z_s3 := st2\<rparr>) =
      (w\<lparr>z_files := fs2, z_s3 := st2\<rparr>, Inr (o_md5sum x))"
    by (simp add: act_bind_def check_notifications_quiet [OF fine tb quiet] cf run_return)
  have run: "s3_MoveObject env ids d w = (w\<lparr>z_files := fs2, z_s3 := st2\<rparr>, Inr (o_md5sum x))"
    using exists get(2)
    by (simp add: s3_MoveObject_def on_files_bind CheckBucketExistence_def need_object_def act_check_def get_bucket_bind [OF w1])
      (simp add: on_s3_bind get(1) try_files_bind copy store_copy_def bind_assoc c_def [symmetric] st2 bind_return_left notified)
  have "(k, x) \<in> set (objects (z_s3 w))" using s by (simp add: sole_def)
  then have "k \<in> keys_of (objects (z_s3 w))" unfolding keys_of_def by (metis fst_conv image_eqI)
  then have k: "k \<noteq> oi_oid ids" using oid by blast
  have pc: "object_path env c1 = ?out" by (simp add: object_path_def cf)
  have "(k, ?x) \<in> set (objects ?st1)" using get(3) by (simp only: sole_def)
  then have src: "(k, ?x) \<in> set (objects st2)" using k by (simp add: objs)
  have rd: "read_file fs2 p = (if p = ?out then Some content else read_file (z_files w) p)" for p
    unfolding fs2_def by (rule stored_files_read [OF place])
  show ?thesis
    using run src stored objs cf by (intro exI [of _ "w\<lparr>z_files := fs2, z_s3 := st2\<rparr>"] exI [of _ c1]) (simp add: pc rd)
qed

theorem s3_move_keeps_source_witness:
  "\<exists>w1 c. s3_MoveObject wit_s3_env wit_object_ids \<lparr>cr_region = ''eu'', cr_sourceBucket = ''b'', cr_sourceKey = ''key'', cr_sourceVersionId = [],
      cr_targetBucket = ''b'', cr_targetKey = ''new'', cr_metadata = []\<rparr> (wit_full_world [(''/d/s3/g'', ''ab'')]) = (w1, Inr (o_md5sum wit_s3_object)) \<and>
    read_file (z_files w1) ''/d/s3/g'' = Some ''ab'' \<and> (''o'', c) \<in> set (objects (z_s3 w1)) \<and> o_key c = ''new'' \<and>
    read_file (z_files w1) (object_path wit_s3_env c) = Some ''ab''"
proof -
  let ?w = "wit_full_world [(''/d/s3/g'', ''ab'')]"
  have "good_place wit_s3_env \<lparr>fs_files = [(''/d/s3/g'', ''ab'')], fs_dirs = []\<rparr> ''f''"
    by (simp add: good_place_def plain_dir_def simple_name_def DirectoryExists_def)
  then show ?thesis
    using s3_move_keeps_source [where w = ?w and x = wit_s3_object and k = "''x''" and sb = "wit_s3_bucket []" and tb = "wit_s3_bucket []" and
      env = wit_s3_env and ids = wit_object_ids and content = "''ab''" and d = "\<lparr>cr_region = ''eu'', cr_sourceBucket = ''b'', cr_sourceKey = ''key'',
        cr_sourceVersionId = [], cr_targetBucket = ''b'', cr_targetKey = ''new'', cr_metadata = []\<rparr>"]
    by (auto simp: wit_full_fine wit_quiet read_file_def keys_of_def)
qed

end
