(* ===== verification/KmsService.thy ===== *)
theory KmsService
  imports KmsSsmRepo SecretsRepo LambdaRepo AwsUtils Actions
begin

text \<open>
  The KMS service (\<open>srv/src/kms/KMSService.cpp\<close>), the task that makes the key material
  (\<open>srv/src/kms/KMSCreator.cpp\<close>) and the tasks of \<open>srv/src/kms/KMSServer.cpp\<close>, on the state the
  configuration services share: the keys, the parameters of SSM, the secrets, the Lambda functions, the keys
  whose material is still to be made, and the rotations that were started.

  The ciphers and digests of OpenSSL and Base64 are parameters. The buffers they are called with are those of the code:
  a key without material, and a ciphertext longer than the buffer for it, are undefined behaviour.
\<close>

subsection \<open>Names\<close>

datatype key_spec = RSA_2048 | RSA_3072 | RSA_4096 | ECC_NIST_P256 | ECC_NIST_P384 | ECC_NIST_P521 | ECC_SECG_P256K1
  | SYMMETRIC_DEFAULT | HMAC_224 | HMAC_256 | HMAC_384 | HMAC_512

definition key_spec_names :: "(key_spec \<times> string) list" where
  "key_spec_names =
     [(RSA_2048, ''RSA_2048''), (RSA_3072, ''RSA_3072''), (RSA_4096, ''RSA_4096''), (ECC_NIST_P256, ''ECC_NIST_P256''),
      (ECC_NIST_P384, ''ECC_NIST_P384''), (ECC_NIST_P521, ''ECC_NIST_P521''), (ECC_SECG_P256K1, ''ECC_SECG_P256K1''),
      (SYMMETRIC_DEFAULT, ''SYMMETRIC_DEFAULT''), (HMAC_224, ''HMAC_224''), (HMAC_256, ''HMAC_256''), (HMAC_384, ''HMAC_384''),
      (HMAC_512, ''HMAC_512'')]"

definition KeySpecToString :: "key_spec \<Rightarrow> string" where
  "KeySpecToString s = enum_to_string key_spec_names s"

definition KeySpecFromString :: "string \<Rightarrow> key_spec" where
  "KeySpecFromString s = enum_from_string key_spec_names SYMMETRIC_DEFAULT s"

datatype key_usage = SIGN_VERIFY | ENCRYPT_DECRYPT | GENERATE_VERIFY_MAC

definition key_usage_names :: "(key_usage \<times> string) list" where
  "key_usage_names = [(SIGN_VERIFY, ''SIGN_VERIFY''), (ENCRYPT_DECRYPT, ''ENCRYPT_DECRYPT''), (GENERATE_VERIFY_MAC, ''GENERATE_VERIFY_MAC'')]"

definition KeyUsageToString :: "key_usage \<Rightarrow> string" where
  "KeyUsageToString s = enum_to_string key_usage_names s"

definition KeyUsageFromString :: "string \<Rightarrow> key_usage" where
  "KeyUsageFromString s = enum_from_string key_usage_names ENCRYPT_DECRYPT s"

datatype key_state = KEY_CREATING | KEY_ENABLED | KEY_DISABLED | KEY_PENDING_DELETION | KEY_PENDING_IMPORT
  | KEY_PENDING_REPLICATION_DELETION | KEY_UNAVAILABLE | KEY_UPDATING

definition key_state_names :: "(key_state \<times> string) list" where
  "key_state_names =
     [(KEY_CREATING, ''Creating''), (KEY_ENABLED, ''Enabled''), (KEY_DISABLED, ''Disabled''), (KEY_PENDING_DELETION, ''PendingDeletion''),
      (KEY_PENDING_IMPORT, ''PendingImport''), (KEY_PENDING_REPLICATION_DELETION, ''PendingReplicaDeletion''),
      (KEY_UNAVAILABLE, ''Unavailable''), (KEY_UPDATING, ''Updating'')]"

definition KeyStateToString :: "key_state \<Rightarrow> string" where
  "KeyStateToString s = enum_to_string key_state_names s"

definition KeyStateFromString :: "string \<Rightarrow> key_state" where
  "KeyStateFromString s = enum_from_string key_state_names KEY_UNAVAILABLE s"

datatype key_origin = AWS_KMS | EXTERNAL | AWS_CLOUDHSM | EXTERNAL_KEY_STORE

definition key_origin_names :: "(key_origin \<times> string) list" where
  "key_origin_names = [(AWS_KMS, ''AWS_KMS''), (EXTERNAL, ''EXTERNAL''), (AWS_CLOUDHSM, ''AWS_CLOUDHSM''), (EXTERNAL_KEY_STORE, ''EXTERNAL_KEY_STORE'')]"

definition OriginToString :: "key_origin \<Rightarrow> string" where
  "OriginToString s = enum_to_string key_origin_names s"

definition OriginFromString :: "string \<Rightarrow> key_origin" where
  "OriginFromString s = enum_from_string key_origin_names AWS_KMS s"

subsection \<open>The state and the parameters\<close>

record conf_env =
  ke_account :: string
  ke_encode :: "string \<Rightarrow> string"
  ke_decode :: "string \<Rightarrow> string"
  ke_aes_encrypt :: "string \<Rightarrow> string \<Rightarrow> string"
  ke_aes_decrypt :: "string \<Rightarrow> string \<Rightarrow> string"
  ke_rsa_encrypt :: "string \<Rightarrow> string \<Rightarrow> string"
  ke_rsa_decrypt :: "string \<Rightarrow> string \<Rightarrow> string"
  ke_hmac :: "nat \<Rightarrow> string \<Rightarrow> string \<Rightarrow> string"

record conf_world =
  kw_keys :: kms_repo
  kw_params :: ssm_repo
  kw_secrets :: secrets_repo
  kw_lambdas :: lambda_repo
  kw_pending :: "string list"
  kw_rotations :: "(secret \<times> string) list"

definition on_keys :: "(kms_repo \<Rightarrow> kms_repo \<times> 'a) \<Rightarrow> (conf_world, 'a) action" where
  "on_keys f = (\<lambda>w. let (ks, x) = f (kw_keys w) in (w\<lparr>kw_keys := ks\<rparr>, Inr x))"

abbreviation get_key :: "time_point \<Rightarrow> string \<Rightarrow> (conf_world, kms_key) action" where
  "get_key now keyId \<equiv> on_keys (\<lambda>ks. kms_getKeyByKeyId now ks keyId)"

abbreviation update_key :: "kms_key \<Rightarrow> (conf_world, kms_key) action" where
  "update_key key \<equiv> on_keys (\<lambda>ks. kms_updateKey ks key)"

definition need_key :: "string \<Rightarrow> (conf_world, 'a) action \<Rightarrow> (conf_world, 'a) action" where
  "need_key keyId a = act_check (\<lambda>w. kms_keyExists (kw_keys w) keyId) (ServiceException (''Key not found, keyId: '' @ keyId)) a"

definition UnixTimestamp :: "time_point \<Rightarrow> int" where
  "UnixTimestamp t = (if t < 0 then - ((- t) div 1000000000) else t div 1000000000)"

subsection \<open>Listing keys\<close>

definition kms_ListKeys :: "conf_world \<Rightarrow> (string \<times> string) list" where
  "kms_ListKeys w = map (\<lambda>k. (k_keyId k, k_arn k)) (kms_listKeys (kw_keys w) [] [] 0 0 [])"

record key_counter =
  kc_region :: string
  kc_keyId :: string
  kc_arn :: string
  kc_keySpec :: key_spec
  kc_keyUsage :: key_usage
  kc_keyState :: key_state
  kc_origin :: key_origin
  kc_enabled :: bool
  kc_description :: string
  kc_scheduledDeletion :: time_point
  kc_created :: time_point
  kc_modified :: time_point

definition listed_key_counter :: "string \<Rightarrow> kms_key \<Rightarrow> key_counter" where
  "listed_key_counter region k =
     \<lparr>kc_region = region, kc_keyId = k_keyId k, kc_arn = k_arn k, kc_keySpec = KeySpecFromString (k_keySpec k),
      kc_keyUsage = KeyUsageFromString (k_keyUsage k), kc_keyState = KeyStateFromString (k_keyState k), kc_origin = AWS_KMS,
      kc_enabled = False, kc_description = [], kc_scheduledDeletion = 0, kc_created = k_created k, kc_modified = k_modified k\<rparr>"

definition kms_ListKeyCounters :: "conf_world \<Rightarrow> string \<Rightarrow> string \<Rightarrow> int \<Rightarrow> int \<Rightarrow> sort_column list \<Rightarrow> int \<times> key_counter list" where
  "kms_ListKeyCounters w region pre pageSize pageIndex sortColumns =
     (kms_countKeys (kw_keys w), map (listed_key_counter region) (kms_listKeys (kw_keys w) region pre pageSize pageIndex sortColumns))"

definition kms_ListKeyArns :: "conf_world \<Rightarrow> string list" where
  "kms_ListKeyArns w = map k_arn (kms_listKeys (kw_keys w) [] [] 0 0 [])"

subsection \<open>Creating keys\<close>

record create_key_request =
  ck_region :: string
  ck_keySpec :: key_spec
  ck_keyUsage :: key_usage
  ck_description :: string
  ck_policy :: string
  ck_tags :: "(string \<times> string) list"

record key_metadata =
  dk_keyId :: string
  dk_arn :: string
  dk_keySpec :: key_spec
  dk_keyUsage :: key_usage
  dk_keyState :: key_state
  dk_description :: string
  dk_creationDate :: int
  dk_deletionDate :: int
  dk_enabled :: bool

definition key_to_create :: "conf_env \<Rightarrow> time_point \<Rightarrow> string \<Rightarrow> create_key_request \<Rightarrow> kms_key" where
  "key_to_create env now keyId d =
     (default_key now)\<lparr>k_region := ck_region d, k_keyId := keyId, k_keyUsage := KeyUsageToString (ck_keyUsage d),
       k_keySpec := KeySpecToString (ck_keySpec d), k_arn := CreateKMSKeyArn (ck_region d) (ke_account env) keyId,
       k_description := ck_description d, k_policy := ck_policy d, k_tags := ck_tags d\<rparr>"

text \<open>The material is made by a task of the scheduler, which is left for later here.\<close>

definition kms_CreateKey :: "conf_env \<Rightarrow> time_point \<Rightarrow> string \<Rightarrow> uuid \<Rightarrow> create_key_request \<Rightarrow> (conf_world, key_metadata) action" where
  "kms_CreateKey env now keyId uuid d =
     act_bind (on_keys (\<lambda>ks. kms_createKey uuid ks (key_to_create env now keyId d))) (\<lambda>k.
     (\<lambda>w. (w\<lparr>kw_pending := kw_pending w @ [keyId]\<rparr>,
       Inr \<lparr>dk_keyId = k_keyId k, dk_arn = k_arn k, dk_keySpec = KeySpecFromString (k_keySpec k),
         dk_keyUsage = KeyUsageFromString (k_keyUsage k), dk_keyState = KeyStateFromString (k_keyState k),
         dk_description = k_description k, dk_creationDate = UnixTimestamp now, dk_deletionDate = 0, dk_enabled = True\<rparr>)))"

text \<open>What the random generators give: hexadecimal digits and PEM texts.\<close>

record key_material =
  mt_aes :: string
  mt_iv :: string
  mt_hmac :: "nat \<Rightarrow> string"
  mt_public :: "nat \<Rightarrow> string"
  mt_private :: "nat \<Rightarrow> string"

definition add_material :: "key_material \<Rightarrow> kms_key \<Rightarrow> kms_key" where
  "add_material mt k =
     (case KeySpecFromString (k_keySpec k) of
        SYMMETRIC_DEFAULT \<Rightarrow> k\<lparr>k_aes256Key := mt_aes mt, k_aes256Iv := mt_iv mt\<rparr>
      | RSA_2048 \<Rightarrow> k\<lparr>k_rsaPublicKey := mt_public mt 2048, k_rsaPrivateKey := mt_private mt 2048\<rparr>
      | RSA_3072 \<Rightarrow> k\<lparr>k_rsaPublicKey := mt_public mt 3072, k_rsaPrivateKey := mt_private mt 3072\<rparr>
      | RSA_4096 \<Rightarrow> k\<lparr>k_rsaPublicKey := mt_public mt 4096, k_rsaPrivateKey := mt_private mt 4096\<rparr>
      | HMAC_224 \<Rightarrow> k\<lparr>k_hmac224Key := mt_hmac mt 224\<rparr>
      | HMAC_256 \<Rightarrow> k\<lparr>k_hmac256Key := mt_hmac mt 256\<rparr>
      | HMAC_384 \<Rightarrow> k\<lparr>k_hmac384Key := mt_hmac mt 384\<rparr>
      | HMAC_512 \<Rightarrow> k\<lparr>k_hmac512Key := mt_hmac mt 512\<rparr>
      | _ \<Rightarrow> k)"

definition kms_CreateKmsKey :: "time_point \<Rightarrow> key_material \<Rightarrow> string \<Rightarrow> (conf_world, unit) action" where
  "kms_CreateKmsKey now mt keyId =
     act_bind (get_key now keyId) (\<lambda>k.
     act_bind (update_key ((add_material mt k)\<lparr>k_keyState := KeyStateToString KEY_ENABLED\<rparr>)) (\<lambda>_. act_return ()))"

text \<open>The scheduler runs the task of a key.\<close>

definition run_key_task :: "time_point \<Rightarrow> key_material \<Rightarrow> string \<Rightarrow> (conf_world, unit) action" where
  "run_key_task now mt keyId = (\<lambda>w.
     if keyId \<in> set (kw_pending w) then kms_CreateKmsKey now mt keyId (w\<lparr>kw_pending := removeAll keyId (kw_pending w)\<rparr>)
     else (w, Inr ()))"

text \<open>Waiting ends when the task is done, or with a warning after the time given.\<close>

definition kms_WaitForKey :: "time_point \<Rightarrow> key_material \<Rightarrow> bool \<Rightarrow> string \<Rightarrow> (conf_world, unit) action" where
  "kms_WaitForKey now mt in_time keyId = (if in_time then run_key_task now mt keyId else act_return ())"

subsection \<open>Reading and changing keys\<close>

record deletion_response =
  sd_keyId :: string
  sd_keyState :: string
  sd_deletionDate :: int
  sd_pendingWindowInDays :: int

definition kms_ScheduleKeyDeletion :: "(nat \<Rightarrow> time_point) \<Rightarrow> string \<Rightarrow> int \<Rightarrow> (conf_world, deletion_response) action" where
  "kms_ScheduleKeyDeletion clock keyId pendingWindowInDays =
     need_key keyId
     (act_bind (get_key (clock 0) keyId) (\<lambda>k.
      act_bind (update_key (k\<lparr>k_pendingWindowInDays := pendingWindowInDays,
        k_scheduledDeletion := clock 1 + seconds (86400 * pendingWindowInDays), k_keyState := KeyStateToString KEY_PENDING_DELETION\<rparr>)) (\<lambda>k.
      act_return \<lparr>sd_keyId = keyId, sd_keyState = k_keyState k, sd_deletionDate = UnixTimestamp (k_scheduledDeletion k),
        sd_pendingWindowInDays = pendingWindowInDays\<rparr>)))"

definition described_key :: "kms_key \<Rightarrow> key_metadata" where
  "described_key k =
     \<lparr>dk_keyId = k_keyId k, dk_arn = k_arn k, dk_keySpec = KeySpecFromString (k_keySpec k), dk_keyUsage = KeyUsageFromString (k_keyUsage k),
      dk_keyState = KeyStateFromString (k_keyState k), dk_description = k_description k, dk_creationDate = UnixTimestamp (k_created k),
      dk_deletionDate = UnixTimestamp (k_scheduledDeletion k), dk_enabled = (k_keyState k = KeyStateToString KEY_ENABLED)\<rparr>"

definition kms_DescribeKey :: "time_point \<Rightarrow> string \<Rightarrow> (conf_world, key_metadata) action" where
  "kms_DescribeKey now keyId = need_key keyId (act_bind (get_key now keyId) (\<lambda>k. act_return (described_key k)))"

definition key_counter_of :: "kms_key \<Rightarrow> key_counter" where
  "key_counter_of k =
     \<lparr>kc_region = [], kc_keyId = k_keyId k, kc_arn = k_arn k, kc_keySpec = KeySpecFromString (k_keySpec k),
      kc_keyUsage = KeyUsageFromString (k_keyUsage k), kc_keyState = KeyStateFromString (k_keyState k),
      kc_origin = OriginFromString (k_origin k), kc_enabled = (k_keyState k = KeyStateToString KEY_ENABLED),
      kc_description = k_description k, kc_scheduledDeletion = k_scheduledDeletion k, kc_created = k_created k,
      kc_modified = k_modified k\<rparr>"

definition kms_GetKeyCounter :: "time_point \<Rightarrow> string \<Rightarrow> (conf_world, key_counter) action" where
  "kms_GetKeyCounter now keyId = need_key keyId (act_bind (get_key now keyId) (\<lambda>k. act_return (key_counter_of k)))"

definition kms_UpdateKeyCounter :: "time_point \<Rightarrow> key_counter \<Rightarrow> (conf_world, unit) action" where
  "kms_UpdateKeyCounter now c =
     need_key (kc_keyId c)
     (act_bind (get_key now (kc_keyId c)) (\<lambda>k.
      act_bind (update_key (k\<lparr>k_keySpec := KeySpecToString (kc_keySpec c), k_keyUsage := KeyUsageToString (kc_keyUsage c),
        k_keyState := KeyStateToString (kc_keyState c), k_origin := OriginToString (kc_origin c), k_description := kc_description c\<rparr>)) (\<lambda>_.
      act_return ())))"

definition kms_DeleteKey :: "time_point \<Rightarrow> string \<Rightarrow> (conf_world, unit) action" where
  "kms_DeleteKey now keyId =
     need_key keyId (act_bind (get_key now keyId) (\<lambda>k. on_keys (\<lambda>ks. (kms_deleteKey ks k, ()))))"

subsection \<open>Encryption\<close>

text \<open>
  The key is read from 64 hexadecimal digits. The buffer for the ciphertext is twice as long as the plaintext, and the
  whole ciphertext is copied into it.
\<close>

definition EncryptPlaintext :: "conf_env \<Rightarrow> kms_key \<Rightarrow> string \<Rightarrow> string outcome" where
  "EncryptPlaintext env k plainText =
     (let raw = ke_decode env plainText in
      case KeySpecFromString (k_keySpec k) of
        SYMMETRIC_DEFAULT \<Rightarrow>
          (let c = ke_aes_encrypt env (k_aes256Key k) raw in
           if length (k_aes256Key k) < 64 \<or> length c > 2 * length raw then Inl UndefinedBehaviour else Inr (ke_encode env c))
      | RSA_2048 \<Rightarrow> if k_rsaPublicKey k = [] then Inl UndefinedBehaviour else Inr (ke_encode env (ke_rsa_encrypt env (k_rsaPublicKey k) raw))
      | RSA_3072 \<Rightarrow> if k_rsaPublicKey k = [] then Inl UndefinedBehaviour else Inr (ke_encode env (ke_rsa_encrypt env (k_rsaPublicKey k) raw))
      | RSA_4096 \<Rightarrow> if k_rsaPublicKey k = [] then Inl UndefinedBehaviour else Inr (ke_encode env (ke_rsa_encrypt env (k_rsaPublicKey k) raw))
      | HMAC_224 \<Rightarrow> Inr (ke_encode env (ke_hmac env 224 (k_hmac224Key k) raw))
      | HMAC_256 \<Rightarrow> Inr (ke_encode env (ke_hmac env 256 (k_hmac256Key k) raw))
      | HMAC_384 \<Rightarrow> Inr (ke_encode env (ke_hmac env 384 (k_hmac384Key k) raw))
      | HMAC_512 \<Rightarrow> Inr (ke_encode env (ke_hmac env 512 (k_hmac512Key k) raw))
      | _ \<Rightarrow> Inr [])"

definition DecryptPlaintext :: "conf_env \<Rightarrow> kms_key \<Rightarrow> string \<Rightarrow> string outcome" where
  "DecryptPlaintext env k ciphertext =
     (let raw = ke_decode env ciphertext in
      case KeySpecFromString (k_keySpec k) of
        SYMMETRIC_DEFAULT \<Rightarrow>
          (let p = ke_aes_decrypt env (k_aes256Key k) raw in
           if length (k_aes256Key k) < 64 \<or> length p > 2 * length raw then Inl UndefinedBehaviour else Inr (ke_encode env p))
      | RSA_2048 \<Rightarrow> if k_rsaPrivateKey k = [] then Inl UndefinedBehaviour else Inr (ke_encode env (ke_rsa_decrypt env (k_rsaPrivateKey k) raw))
      | RSA_3072 \<Rightarrow> if k_rsaPrivateKey k = [] then Inl UndefinedBehaviour else Inr (ke_encode env (ke_rsa_decrypt env (k_rsaPrivateKey k) raw))
      | RSA_4096 \<Rightarrow> if k_rsaPrivateKey k = [] then Inl UndefinedBehaviour else Inr (ke_encode env (ke_rsa_decrypt env (k_rsaPrivateKey k) raw))
      | _ \<Rightarrow> Inr [])"

definition give :: "'a outcome \<Rightarrow> (conf_world, 'a) action" where
  "give r = (\<lambda>w. (w, r))"

definition kms_Encrypt :: "conf_env \<Rightarrow> time_point \<Rightarrow> string \<Rightarrow> string \<Rightarrow> (conf_world, string) action" where
  "kms_Encrypt env now keyId plaintext =
     need_key keyId (act_bind (get_key now keyId) (\<lambda>k. give (EncryptPlaintext env k plaintext)))"

definition kms_Decrypt :: "conf_env \<Rightarrow> time_point \<Rightarrow> string \<Rightarrow> string \<Rightarrow> (conf_world, string) action" where
  "kms_Decrypt env now keyId ciphertext =
     need_key keyId (act_bind (get_key now keyId) (\<lambda>k. give (DecryptPlaintext env k ciphertext)))"

text \<open>Thirty-two bytes of a buffer of 64 are random; a longer key is read from behind it.\<close>

definition kms_GenerateDataKey :: "conf_env \<Rightarrow> time_point \<Rightarrow> string \<Rightarrow> string \<Rightarrow> int \<Rightarrow> (conf_world, string \<times> string \<times> string) action" where
  "kms_GenerateDataKey env now random keyId numberOfBytes =
     need_key keyId
     (act_bind (get_key now keyId) (\<lambda>k.
      let keyLen = (if numberOfBytes > 0 then numberOfBytes else 32) in
      if keyLen > 64 then act_throw UndefinedBehaviour
      else let plaintextB64 = ke_encode env (take (nat keyLen) (take 32 random @ replicate 32 (char_of (0::nat)))) in
        act_bind (give (EncryptPlaintext env k plaintextB64)) (\<lambda>c. act_return (k_arn k, plaintextB64, c))))"

subsection \<open>Policies and tags\<close>

definition default_policy :: string where
  "default_policy =
     ''{\"Version\":\"2012-10-17\",\"Statement\":[{\"Effect\":\"Allow\",\"Principal\":{\"AWS\":\"arn:aws:iam::000000000000:root\"},\"Action\":\"kms:*\",\"Resource\":\"*\"}]}''"

definition kms_GetKeyPolicy :: "time_point \<Rightarrow> string \<Rightarrow> (conf_world, string) action" where
  "kms_GetKeyPolicy now keyId =
     act_bind (get_key now keyId) (\<lambda>k. act_return (if k_policy k = [] then default_policy else k_policy k))"

text \<open>None of the following checks that the key exists; writing back the empty key that was found changes nothing.\<close>

definition change_key :: "(nat \<Rightarrow> time_point) \<Rightarrow> string \<Rightarrow> (kms_key \<Rightarrow> kms_key) \<Rightarrow> (conf_world, unit) action" where
  "change_key clock keyId f =
     act_bind (get_key (clock 0) keyId) (\<lambda>k. act_bind (update_key ((f k)\<lparr>k_modified := clock 1\<rparr>)) (\<lambda>_. act_return ()))"

definition kms_PutKeyPolicy :: "(nat \<Rightarrow> time_point) \<Rightarrow> string \<Rightarrow> string \<Rightarrow> (conf_world, unit) action" where
  "kms_PutKeyPolicy clock keyId policy = change_key clock keyId (\<lambda>k. k\<lparr>k_policy := policy\<rparr>)"

definition kms_TagResource :: "(nat \<Rightarrow> time_point) \<Rightarrow> string \<Rightarrow> (string \<times> string) list \<Rightarrow> (conf_world, unit) action" where
  "kms_TagResource clock keyId tags = change_key clock keyId (\<lambda>k. k\<lparr>k_tags := foldl (\<lambda>m (t, v). omap_insert t v m) (k_tags k) tags\<rparr>)"

definition kms_UntagResource :: "(nat \<Rightarrow> time_point) \<Rightarrow> string \<Rightarrow> string list \<Rightarrow> (conf_world, unit) action" where
  "kms_UntagResource clock keyId tagKeys = change_key clock keyId (\<lambda>k. k\<lparr>k_tags := filter (\<lambda>(t, _). t \<notin> set tagKeys) (k_tags k)\<rparr>)"

definition kms_ListResourceTags :: "time_point \<Rightarrow> string \<Rightarrow> (conf_world, (string \<times> string) list) action" where
  "kms_ListResourceTags now keyId = act_bind (get_key now keyId) (\<lambda>k. act_return (k_tags k))"

subsection \<open>Aliases\<close>

definition drop_alias :: "time_point \<Rightarrow> string \<Rightarrow> kms_key \<Rightarrow> kms_key" where
  "drop_alias now aliasName k = k\<lparr>k_aliases := remove1 aliasName (k_aliases k), k_modified := now\<rparr>"

text \<open>The keys that hold the alias lose it, up to the target, where the operation ends (the result tells).\<close>

fun take_alias :: "(nat \<Rightarrow> time_point) \<Rightarrow> string \<Rightarrow> string \<Rightarrow> nat \<Rightarrow> kms_key list \<Rightarrow> (conf_world, bool) action" where
  "take_alias clock aliasName targetKeyId i [] = act_return False"
| "take_alias clock aliasName targetKeyId i (k # ks) =
     (if aliasName \<in> set (k_aliases k) then
        (if k_keyId k = targetKeyId then act_return True
         else act_bind (update_key (drop_alias (clock i) aliasName k)) (\<lambda>_. take_alias clock aliasName targetKeyId (Suc i) ks))
      else take_alias clock aliasName targetKeyId (Suc i) ks)"

definition add_alias :: "(nat \<Rightarrow> time_point) \<Rightarrow> string \<Rightarrow> string \<Rightarrow> (conf_world, unit) action" where
  "add_alias clock aliasName keyId = change_key clock keyId (\<lambda>k. k\<lparr>k_aliases := k_aliases k @ [aliasName]\<rparr>)"

definition kms_CreateAlias :: "(nat \<Rightarrow> time_point) \<Rightarrow> string \<Rightarrow> string \<Rightarrow> (conf_world, unit) action" where
  "kms_CreateAlias clock aliasName targetKeyId =
     act_bind (act_read (\<lambda>w. kms_listKeys (kw_keys w) [] [] 0 0 [])) (\<lambda>ks.
     act_bind (take_alias (\<lambda>i. clock (i + 2)) aliasName targetKeyId 0 ks) (\<lambda>there.
     if there then act_return () else add_alias clock aliasName targetKeyId))"

definition kms_DeleteAlias :: "time_point \<Rightarrow> string \<Rightarrow> (conf_world, unit) action" where
  "kms_DeleteAlias now aliasName =
     act_bind (act_read (\<lambda>w. List.find (\<lambda>k. aliasName \<in> set (k_aliases k)) (kms_listKeys (kw_keys w) [] [] 0 0 []))) (\<lambda>r.
     case r of None \<Rightarrow> act_return () | Some k \<Rightarrow> act_bind (update_key (drop_alias now aliasName k)) (\<lambda>_. act_return ()))"

definition kms_UpdateAlias :: "(nat \<Rightarrow> time_point) \<Rightarrow> string \<Rightarrow> string \<Rightarrow> (conf_world, unit) action" where
  "kms_UpdateAlias clock aliasName targetKeyId =
     act_bind (kms_DeleteAlias (clock 2) aliasName) (\<lambda>_. add_alias clock aliasName targetKeyId)"

text \<open>Name, key id and ARN.\<close>

definition alias_entries :: "kms_key \<Rightarrow> (string \<times> string \<times> string) list" where
  "alias_entries k = map (\<lambda>a. (a, k_keyId k, ''arn:aws:kms:'' @ k_region k @ '':000000000000:'' @ a)) (k_aliases k)"

definition kms_ListAliases :: "time_point \<Rightarrow> string \<Rightarrow> string \<Rightarrow> (conf_world, (string \<times> string \<times> string) list) action" where
  "kms_ListAliases now region keyId =
     (if keyId = [] then act_read (\<lambda>w. concat (map alias_entries (kms_listKeys (kw_keys w) region [] 0 0 [])))
      else act_bind (get_key now keyId) (\<lambda>k. act_return (alias_entries k)))"

subsection \<open>The tasks of the server\<close>

definition srv_kms_deleteKeys :: "(nat \<Rightarrow> time_point) \<Rightarrow> (conf_world, unit) action" where
  "srv_kms_deleteKeys clock =
     act_bind (act_read (\<lambda>w. kms_listKeys (kw_keys w) [] [] 0 0 [])) (\<lambda>ks.
     act_each (\<lambda>i k. if k_keyState k = KeyStateToString KEY_PENDING_DELETION \<and> k_scheduledDeletion k < clock i
       then on_keys (\<lambda>ks. (kms_deleteKey ks k, ())) else act_return ()) 0 ks)"

definition srv_kms_updateCounter :: "conf_world \<Rightarrow> int" where
  "srv_kms_updateCounter w = kms_countKeys (kw_keys w)"

end
