(* ===== verification/SsmService.thy ===== *)
theory SsmService
  imports KmsService
begin

text \<open>
  The SSM service (\<open>srv/src/ssm/SSMService.cpp\<close>) with its mapper
  (\<open>dto/src/ssm/mapper/Mapper.cpp\<close>): parameters, encrypted with a key of KMS when they have the ARN of one. The
  operations throw what KMS throws; the in-memory repository throws nothing, so that the handlers for a
  \<open>DatabaseException\<close> do not run. One operation leaves the encoding of the plaintext out that the others apply.
\<close>

subsection \<open>Parameters as they are handed out\<close>

datatype parameter_type = PT_string | PT_stringList | PT_secureString

definition parameter_type_names :: "(parameter_type \<times> string) list" where
  "parameter_type_names = [(PT_string, ''String''), (PT_stringList, ''StringList''), (PT_secureString, ''SecureString'')]"

definition ParameterTypeToString :: "parameter_type \<Rightarrow> string" where
  "ParameterTypeToString t = enum_to_string parameter_type_names t"

definition ParameterTypeFromString :: "string \<Rightarrow> parameter_type" where
  "ParameterTypeFromString s = enum_from_string parameter_type_names PT_string s"

record parameter_dto =
  pd_name :: string
  pd_parameterValue :: string
  pd_description :: string
  pd_type :: parameter_type
  pd_kmsKeyArn :: string
  pd_tier :: string
  pd_arn :: string
  pd_tags :: "(string \<times> string) list"
  pd_created :: time_point
  pd_modified :: time_point

definition map_parameter :: "ssm_parameter \<Rightarrow> parameter_dto" where
  "map_parameter p =
     \<lparr>pd_name = p_parameterName p, pd_parameterValue = p_parameterValue p, pd_description = p_description p,
      pd_type = ParameterTypeFromString (p_type p), pd_kmsKeyArn = p_kmsKeyArn p, pd_tier = p_tier p, pd_arn = p_arn p,
      pd_tags = p_tags p, pd_created = p_created p, pd_modified = p_modified p\<rparr>"

subsection \<open>The state\<close>

definition on_params :: "(ssm_repo \<Rightarrow> ssm_repo \<times> 'a) \<Rightarrow> (conf_world, 'a) action" where
  "on_params f = (\<lambda>w. let (ps, x) = f (kw_params w) in (w\<lparr>kw_params := ps\<rparr>, Inr x))"

abbreviation get_parameter :: "time_point \<Rightarrow> string \<Rightarrow> (conf_world, ssm_parameter) action" where
  "get_parameter now n \<equiv> on_params (\<lambda>ps. ssm_getParameterByName now ps n)"

definition need_parameter :: "string \<Rightarrow> (conf_world, 'a) action \<Rightarrow> (conf_world, 'a) action" where
  "need_parameter n a =
     act_check (\<lambda>w. ssm_parameterExists (kw_params w) n) (ServiceException (''Parameter does not exist, name: '' @ n)) a"

definition need_no_parameter :: "string \<Rightarrow> (conf_world, 'a) action \<Rightarrow> (conf_world, 'a) action" where
  "need_no_parameter n a =
     act_check (\<lambda>w. \<not> ssm_parameterExists (kw_params w) n) (ServiceException (''Parameter exists already, name: '' @ n)) a"

text \<open>The key id of an ARN is what follows the last slash, or all of it.\<close>

definition key_of_arn :: "string \<Rightarrow> string" where
  "key_of_arn arn = after_last CHR ''/'' arn"

subsection \<open>The operations\<close>

record list_request =
  lq_region :: string
  lq_prefix :: string
  lq_pageSize :: int
  lq_pageIndex :: int
  lq_sortColumns :: "sort_column list"

record parameter_request =
  pr_region :: string
  pr_name :: string
  pr_value :: string
  pr_description :: string
  pr_type :: parameter_type
  pr_kmsKeyArn :: string
  pr_tier :: string
  pr_tags :: "(string \<times> string) list"

definition parameter_to_create :: "conf_env \<Rightarrow> (nat \<Rightarrow> time_point) \<Rightarrow> parameter_request \<Rightarrow> ssm_parameter" where
  "parameter_to_create env clock d =
     \<lparr>p_oid = [], p_region = pr_region d, p_parameterName = pr_name d, p_parameterValue = pr_value d, p_description = pr_description d,
      p_type = ParameterTypeToString (pr_type d), p_tier = [], p_version = 1,
      p_arn = CreateSSMParameterArn (pr_region d) (ke_account env) (pr_name d), p_kmsKeyArn = pr_kmsKeyArn d, p_tags = pr_tags d,
      p_created = clock 0, p_modified = clock 1\<rparr>"

text \<open>The value that is stored: encrypted, if there is a key.\<close>

definition protect :: "conf_env \<Rightarrow> time_point \<Rightarrow> string \<Rightarrow> string \<Rightarrow> string \<Rightarrow> (conf_world, string) action" where
  "protect env now arn plaintext plain =
     (if arn = [] then act_return plain else kms_Encrypt env now (key_of_arn arn) plaintext)"

definition store_parameter :: "conf_env \<Rightarrow> (nat \<Rightarrow> time_point) \<Rightarrow> uuid \<Rightarrow> parameter_request \<Rightarrow> (conf_world, ssm_parameter) action" where
  "store_parameter env clock uuid d =
     act_bind (protect env (clock 2) (pr_kmsKeyArn d) (ke_encode env (pr_value d)) (pr_value d)) (\<lambda>v.
     on_params (\<lambda>ps. let (ps', _, r) = ssm_createParameter uuid ps ((parameter_to_create env clock d)\<lparr>p_parameterValue := v\<rparr>) in (ps', r)))"

text \<open>The response has the tier and the version.\<close>

definition ssm_PutParameter :: "conf_env \<Rightarrow> (nat \<Rightarrow> time_point) \<Rightarrow> uuid \<Rightarrow> parameter_request \<Rightarrow> (conf_world, string \<times> int) action" where
  "ssm_PutParameter env clock uuid d =
     need_no_parameter (pr_name d)
     (act_bind (store_parameter env clock uuid d) (\<lambda>p. act_return (p_tier p, p_version p)))"

text \<open>A listing shows secure strings decrypted.\<close>

definition reveal_listed :: "conf_env \<Rightarrow> time_point \<Rightarrow> parameter_dto \<Rightarrow> (conf_world, parameter_dto) action" where
  "reveal_listed env now p =
     (if pd_type p = PT_secureString then
        act_bind (kms_Decrypt env now (key_of_arn (pd_kmsKeyArn p)) (pd_parameterValue p)) (\<lambda>v.
        act_return (p\<lparr>pd_parameterValue := ke_encode env v\<rparr>))
      else act_return p)"

fun reveal_all :: "conf_env \<Rightarrow> time_point \<Rightarrow> parameter_dto list \<Rightarrow> (conf_world, parameter_dto list) action" where
  "reveal_all env now [] = act_return []"
| "reveal_all env now (p # ps) =
     act_bind (reveal_listed env now p) (\<lambda>q. act_bind (reveal_all env now ps) (\<lambda>qs. act_return (q # qs)))"

definition list_params :: "list_request \<Rightarrow> (conf_world, ssm_parameter list) action" where
  "list_params l = (\<lambda>w. give (ssm_listParameters (kw_params w) (lq_region l) (lq_prefix l) (lq_pageSize l) (lq_pageIndex l) (lq_sortColumns l)) w)"

definition ssm_ListParameterCounters :: "conf_env \<Rightarrow> time_point \<Rightarrow> list_request \<Rightarrow> (conf_world, int \<times> parameter_dto list) action" where
  "ssm_ListParameterCounters env now l =
     act_bind (act_read (\<lambda>w. ssm_countParameters (kw_params w) (lq_region l) (lq_prefix l))) (\<lambda>n.
     act_bind (list_params l) (\<lambda>ps.
     act_bind (reveal_all env now (map map_parameter ps)) (\<lambda>qs. act_return (n, qs))))"

text \<open>The requests carry what the listing behind the change is to show.\<close>

definition ssm_CreateParameter :: "conf_env \<Rightarrow> (nat \<Rightarrow> time_point) \<Rightarrow> uuid \<Rightarrow> parameter_request \<Rightarrow> list_request \<Rightarrow> (conf_world, int \<times> parameter_dto list) action" where
  "ssm_CreateParameter env clock uuid d l =
     need_no_parameter (pr_name d)
     (act_bind (store_parameter env clock uuid d) (\<lambda>_. ssm_ListParameterCounters env (clock 3) l))"

definition changed_parameter :: "time_point \<Rightarrow> parameter_request \<Rightarrow> ssm_parameter \<Rightarrow> ssm_parameter" where
  "changed_parameter now d p =
     p\<lparr>p_description := pr_description d, p_type := ParameterTypeToString (pr_type d), p_tags := pr_tags d,
       p_version := p_version p + 1, p_kmsKeyArn := pr_kmsKeyArn d, p_parameterValue := pr_value d, p_modified := now\<rparr>"

definition change_parameter :: "conf_env \<Rightarrow> (nat \<Rightarrow> time_point) \<Rightarrow> parameter_request \<Rightarrow> (conf_world, ssm_parameter) action" where
  "change_parameter env clock d =
     act_bind (get_parameter (clock 0) (pr_name d)) (\<lambda>p.
     act_bind (protect env (clock 2) (pr_kmsKeyArn d) (pr_value d) (pr_value d)) (\<lambda>v.
     on_params (\<lambda>ps. ssm_updateParameter ps ((changed_parameter (clock 1) d p)\<lparr>p_parameterValue := v\<rparr>))))"

definition ssm_UpdateParameter :: "conf_env \<Rightarrow> (nat \<Rightarrow> time_point) \<Rightarrow> parameter_request \<Rightarrow> list_request \<Rightarrow> (conf_world, int \<times> parameter_dto list) action" where
  "ssm_UpdateParameter env clock d l =
     need_parameter (pr_name d)
     (act_bind (change_parameter env clock d) (\<lambda>_. ssm_ListParameterCounters env (clock 3) l))"

definition ssm_GetParameter :: "conf_env \<Rightarrow> time_point \<Rightarrow> string \<Rightarrow> bool \<Rightarrow> (conf_world, parameter_dto) action" where
  "ssm_GetParameter env now n withDecryption =
     need_parameter n
     (act_bind (get_parameter now n) (\<lambda>p.
      if withDecryption then
        act_bind (kms_Decrypt env now (key_of_arn (p_kmsKeyArn p)) (p_parameterValue p)) (\<lambda>v.
        act_return (map_parameter (p\<lparr>p_parameterValue := ke_decode env v\<rparr>)))
      else act_return (map_parameter p)))"

definition ssm_GetParameterCounter :: "conf_env \<Rightarrow> time_point \<Rightarrow> string \<Rightarrow> (conf_world, parameter_dto) action" where
  "ssm_GetParameterCounter env now n =
     need_parameter n
     (act_bind (get_parameter now n) (\<lambda>p.
      if p_kmsKeyArn p \<noteq> [] then
        act_bind (kms_Decrypt env now (key_of_arn (p_kmsKeyArn p)) (p_parameterValue p)) (\<lambda>v.
        act_return (map_parameter (p\<lparr>p_parameterValue := v\<rparr>)))
      else act_return (map_parameter p)))"

definition ssm_DescribeParameters :: "string \<Rightarrow> (conf_world, parameter_dto list) action" where
  "ssm_DescribeParameters region =
     act_bind (list_params \<lparr>lq_region = region, lq_prefix = [], lq_pageSize = 0, lq_pageIndex = 0, lq_sortColumns = []\<rparr>) (\<lambda>ps.
     act_return (map map_parameter ps))"

definition erase_parameter :: "time_point \<Rightarrow> string \<Rightarrow> (conf_world, int) action" where
  "erase_parameter now n = act_bind (get_parameter now n) (\<lambda>p. on_params (\<lambda>ps. ssm_deleteParameter ps p))"

definition ssm_DeleteParameter :: "time_point \<Rightarrow> string \<Rightarrow> (conf_world, unit) action" where
  "ssm_DeleteParameter now n = need_parameter n (act_bind (erase_parameter now n) (\<lambda>_. act_return ()))"

text \<open>The page is read once for a trace and once for the response.\<close>

definition ssm_DeleteParameterCounter :: "conf_env \<Rightarrow> time_point \<Rightarrow> string \<Rightarrow> list_request \<Rightarrow> (conf_world, int \<times> parameter_dto list) action" where
  "ssm_DeleteParameterCounter env now n l =
     need_parameter n
     (act_bind (erase_parameter now n) (\<lambda>_.
      act_bind (list_params l) (\<lambda>_. ssm_ListParameterCounters env now l)))"

definition srv_ssm_updateCounter :: "conf_world \<Rightarrow> int" where
  "srv_ssm_updateCounter w = ssm_countParameters (kw_params w) [] []"

end
