(* ===== verification/SecretsService.thy ===== *)
theory SecretsService
  imports KmsService
begin

text \<open>
  The secrets manager (\<open>srv/src/secretsmanager/SecretsManagerService.cpp\<close>), the rotation of a secret
  (\<open>srv/src/secretsmanager/SecretRotation.cpp\<close>) and the tasks of
  \<open>srv/src/secretsmanager/SecretsManagerServer.cpp\<close>. The stages of the versions say which one is current.

  The Lambda functions that a rotation calls are a parameter: an invocation may change the state, through the
  services, and gives a status and a body, or throws. Whether a body reports an error is what the JSON parser says.
\<close>

subsection \<open>Stages\<close>

datatype version_stage = AWSCURRENT | AWSPENDING | AWSPREVIOUS

definition version_stage_names :: "(version_stage \<times> string) list" where
  "version_stage_names = [(AWSCURRENT, ''AWSCURRENT''), (AWSPENDING, ''AWSPENDING''), (AWSPREVIOUS, ''AWSPREVIOUS'')]"

definition VersionStateToString :: "version_stage \<Rightarrow> string" where
  "VersionStateToString t = enum_to_string version_stage_names t"

definition VersionStateFromString :: "string \<Rightarrow> version_stage" where
  "VersionStateFromString s = enum_from_string version_stage_names AWSCURRENT s"

datatype task_type = createSecret | setSecret | testSecret | finishSecret | unknown_task

definition task_type_names :: "(task_type \<times> string) list" where
  "task_type_names = [(createSecret, ''createSecret''), (setSecret, ''setSecret''), (testSecret, ''testSecret''),
     (finishSecret, ''finishSecret''), (unknown_task, ''unknown'')]"

definition TaskTypeToString :: "task_type \<Rightarrow> string" where
  "TaskTypeToString t = enum_to_string task_type_names t"

text \<open>\<open>secret.versions[id]\<close> makes the version if there is none.\<close>

definition change_version :: "time_point \<Rightarrow> string \<Rightarrow> (secret_version \<Rightarrow> secret_version) \<Rightarrow> secret \<Rightarrow> secret" where
  "change_version now versionId f s = s\<lparr>s_versions := omap_insert versionId (f (GetVersion now s versionId)) (s_versions s)\<rparr>"

abbreviation set_stages :: "time_point \<Rightarrow> string \<Rightarrow> version_stage \<Rightarrow> secret \<Rightarrow> secret" where
  "set_stages now versionId t \<equiv> change_version now versionId (\<lambda>v. v\<lparr>v_stages := [VersionStateToString t]\<rparr>)"

subsection \<open>The state\<close>

definition on_secrets :: "(secrets_repo \<Rightarrow> secrets_repo \<times> 'a) \<Rightarrow> (conf_world, 'a) action" where
  "on_secrets f = (\<lambda>w. let (ss, x) = f (kw_secrets w) in (w\<lparr>kw_secrets := ss\<rparr>, Inr x))"

abbreviation get_secret :: "time_point \<Rightarrow> string \<Rightarrow> (conf_world, secret) action" where
  "get_secret now arn \<equiv> on_secrets (\<lambda>ss. sec_GetSecretByArn now ss arn)"

abbreviation get_secret_id :: "time_point \<Rightarrow> string \<Rightarrow> (conf_world, secret) action" where
  "get_secret_id now secretId \<equiv> on_secrets (\<lambda>ss. sec_GetSecretBySecretId now ss secretId)"

abbreviation update_secret :: "time_point \<Rightarrow> secret \<Rightarrow> (conf_world, secret) action" where
  "update_secret now s \<equiv> on_secrets (\<lambda>ss. sec_UpdateSecret now ss s)"

definition secret_arn :: "conf_env \<Rightarrow> string \<Rightarrow> string \<Rightarrow> string" where
  "secret_arn env region secretId =
     (if Contains secretId '':'' then secretId else CreateSecretArn region (ke_account env) secretId)"

definition need_secret :: "(string \<Rightarrow> fault) \<Rightarrow> string \<Rightarrow> (conf_world, 'a) action \<Rightarrow> (conf_world, 'a) action" where
  "need_secret err arn a =
     act_check (\<lambda>w. sec_SecretExistsByArn (kw_secrets w) arn) (err (''Secret does not exist, arn: '' @ arn)) a"

definition need_secret_id :: "string \<Rightarrow> (conf_world, 'a) action \<Rightarrow> (conf_world, 'a) action" where
  "need_secret_id secretId a =
     act_check (\<lambda>w. sec_SecretExistsId (kw_secrets w) secretId) (ServiceException (''Secret does not exist, secretId: '' @ secretId)) a"

subsection \<open>Encryption\<close>

definition EncryptSecret :: "conf_env \<Rightarrow> time_point \<Rightarrow> string \<Rightarrow> string \<Rightarrow> secret_version \<Rightarrow> (conf_world, secret_version) action" where
  "EncryptSecret env now kmsKeyId secretString v =
     act_bind (kms_Encrypt env now kmsKeyId (ke_encode env secretString)) (\<lambda>c. act_return (v\<lparr>v_secretString := c\<rparr>))"

definition DecryptSecret :: "conf_env \<Rightarrow> time_point \<Rightarrow> string \<Rightarrow> string \<Rightarrow> (conf_world, string) action" where
  "DecryptSecret env now kmsKeyId secretString =
     act_bind (kms_Decrypt env now kmsKeyId secretString) (\<lambda>p. act_return (ke_decode env p))"

definition GetSecretString :: "conf_env \<Rightarrow> time_point \<Rightarrow> secret \<Rightarrow> (conf_world, string) action" where
  "GetSecretString env now s =
     DecryptSecret env now (s_kmsKeyId s) (v_secretString (GetVersion now s (GetCurrentVersionId s)))"

subsection \<open>Creating secrets\<close>

record secret_request =
  sr_region :: string
  sr_name :: string
  sr_description :: string
  sr_secretString :: string
  sr_secretBinary :: string
  sr_kmsKeyId :: string

text \<open>What the generators give to a request, and whether the scheduler makes a key within the five seconds.\<close>

record secret_ids =
  si_clock :: "nat \<Rightarrow> time_point"
  si_versionId :: string
  si_secret_uuid :: uuid
  si_hex :: string
  si_keyId :: string
  si_key_uuid :: uuid
  si_material :: key_material
  si_in_time :: bool
  si_layout :: layout

definition CreateKmsKey :: "conf_env \<Rightarrow> secret_ids \<Rightarrow> string \<Rightarrow> (conf_world, string) action" where
  "CreateKmsKey env ids n =
     act_bind (kms_CreateKey env (si_clock ids 0) (si_keyId ids) (si_key_uuid ids)
       \<lparr>ck_region = [], ck_keySpec = SYMMETRIC_DEFAULT, ck_keyUsage = ENCRYPT_DECRYPT, ck_description = ''KMS key for secret '' @ n,
        ck_policy = [], ck_tags = []\<rparr>) (\<lambda>m.
     act_bind (kms_WaitForKey (si_clock ids 1) (si_material ids) (si_in_time ids) (dk_keyId m)) (\<lambda>_.
     act_return (dk_keyId m)))"

definition first_version :: "conf_env \<Rightarrow> secret_ids \<Rightarrow> secret_request \<Rightarrow> string \<Rightarrow> (conf_world, secret_version) action" where
  "first_version env ids d kmsKeyId =
     (let v = (default_secret_version (si_clock ids 2))\<lparr>v_stages := [VersionStateToString AWSCURRENT]\<rparr> in
      if sr_secretString d \<noteq> [] then EncryptSecret env (si_clock ids 3) kmsKeyId (sr_secretString d) v
      else act_return (v\<lparr>v_secretBinary := sr_secretBinary d\<rparr>))"

definition secret_to_create :: "conf_env \<Rightarrow> secret_ids \<Rightarrow> secret_request \<Rightarrow> string \<Rightarrow> secret_version \<Rightarrow> secret" where
  "secret_to_create env ids d kmsKeyId v =
     (default_secret (si_clock ids 4))\<lparr>s_region := sr_region d, s_name := sr_name d,
       s_arn := CreateSecretArn (sr_region d) (ke_account env) (sr_name d @ ''-'' @ si_hex ids),
       s_secretId := sr_name d @ ''-'' @ si_hex ids, s_kmsKeyId := kmsKeyId,
       s_versions := [(si_versionId ids, v)], s_description := sr_description d, s_createdDate := si_clock ids 5\<rparr>"

text \<open>The response: region, name, ARN and version.\<close>

definition secm_CreateSecret :: "conf_env \<Rightarrow> secret_ids \<Rightarrow> secret_request \<Rightarrow> (conf_world, string \<times> string \<times> string \<times> string) action" where
  "secm_CreateSecret env ids d =
     act_check (\<lambda>w. \<not> sec_SecretExists (kw_secrets w) (sr_region d) (sr_name d)) (ServiceException ''Secret exists already'')
     (act_check (\<lambda>_. sr_secretString d = [] \<or> sr_secretBinary d = []) (ServiceException ''Secret must not have secretString and secretBinary'')
     (act_check (\<lambda>_. sr_secretString d \<noteq> [] \<or> sr_secretBinary d \<noteq> []) (ServiceException ''Secret must have either secretString or secretBinary'')
     (act_bind (if sr_kmsKeyId d = [] then CreateKmsKey env ids (sr_name d) else act_return (sr_kmsKeyId d)) (\<lambda>kmsKeyId.
      act_bind (first_version env ids d kmsKeyId) (\<lambda>v.
      act_bind (on_secrets (\<lambda>ss. sec_CreateSecret (si_layout ids) (si_secret_uuid ids) (si_clock ids 6) ss (secret_to_create env ids d kmsKeyId v))) (\<lambda>s.
      act_return (s_region s, s_name s, s_arn s, si_versionId ids)))))))"

subsection \<open>Reading secrets\<close>

record described_secret =
  ds_region :: string
  ds_name :: string
  ds_arn :: string
  ds_deletedDate :: int
  ds_description :: string
  ds_kmsKeyId :: string
  ds_rotationEnabled :: bool
  ds_rotationLambdaARN :: string
  ds_versions :: "(string \<times> string list) list"

definition secm_DescribeSecret :: "conf_env \<Rightarrow> time_point \<Rightarrow> string \<Rightarrow> string \<Rightarrow> (conf_world, described_secret) action" where
  "secm_DescribeSecret env now region secretId =
     (let arn = secret_arn env region secretId in
      need_secret NotFoundException arn (act_bind (get_secret now arn) (\<lambda>s.
      act_return \<lparr>ds_region = s_region s, ds_name = s_name s, ds_arn = s_arn s, ds_deletedDate = UnixTimestamp (s_deletedDate s),
        ds_description = s_description s, ds_kmsKeyId = s_kmsKeyId s, ds_rotationEnabled = s_rotationEnabled s,
        ds_rotationLambdaARN = s_rotationLambdaARN s, ds_versions = map (\<lambda>(i, v). (i, v_stages v)) (s_versions s)\<rparr>)))"

definition asked_version :: "secret \<Rightarrow> string \<Rightarrow> string \<Rightarrow> string" where
  "asked_version s versionId versionStage =
     (if versionId \<noteq> [] then versionId
      else if versionStage \<noteq> [] then GetVersionIdByStage s versionStage
      else GetVersionIdByStage s (VersionStateToString AWSCURRENT))"

record secret_value =
  sv_name :: string
  sv_arn :: string
  sv_versionId :: string
  sv_createdDate :: int
  sv_stages :: "string list"
  sv_secretString :: string
  sv_secretBinary :: string

definition no_value :: "string \<Rightarrow> fault" where
  "no_value t = NotFoundException (''Secrets Manager can't find the specified secret value for staging label: '' @ t)"

definition read_value :: "conf_env \<Rightarrow> time_point \<Rightarrow> secret \<Rightarrow> string \<Rightarrow> (conf_world, secret_value) action" where
  "read_value env now s i =
     (let v = GetVersion now s i;
          r = \<lparr>sv_name = s_name s, sv_arn = s_arn s, sv_versionId = i, sv_createdDate = UnixTimestamp (s_createdDate s),
               sv_stages = v_stages v, sv_secretString = [], sv_secretBinary = []\<rparr> in
      if s_kmsKeyId s \<noteq> [] then
        act_bind (DecryptSecret env now (s_kmsKeyId s) (v_secretString v)) (\<lambda>p. act_return (r\<lparr>sv_secretString := p\<rparr>))
      else if v_secretString v \<noteq> [] then act_return (r\<lparr>sv_secretBinary := ke_decode env (v_secretBinary v)\<rparr>)
      else act_return r)"

definition secm_GetSecretValue ::
  "conf_env \<Rightarrow> (nat \<Rightarrow> time_point) \<Rightarrow> string \<Rightarrow> string \<Rightarrow> string \<Rightarrow> string \<Rightarrow> (conf_world, secret_value) action" where
  "secm_GetSecretValue env clock region secretId versionId versionStage =
     (let arn = secret_arn env region secretId in
      need_secret ServiceException arn (act_bind (get_secret (clock 0) arn) (\<lambda>s.
      act_check (\<lambda>_. versionId = [] \<or> HasVersion s versionId)
        (NotFoundException (''Secrets Manager can't find the specified secret value for VersionId: '' @ versionId))
      (let i = asked_version s versionId versionStage; v = GetVersion (clock 0) s i in
       act_check (\<lambda>_. i \<noteq> []) (no_value versionStage)
       (act_check (\<lambda>_. v_secretString v \<noteq> [] \<or> v_secretBinary v \<noteq> []) (no_value versionStage)
       (act_bind (read_value env (clock 0) s i) (\<lambda>r.
        act_bind (update_secret (clock 2) (s\<lparr>s_lastAccessedDate := clock 1\<rparr>)) (\<lambda>_. act_return r))))))))"

record listed_secret =
  ls_name :: string
  ls_arn :: string
  ls_secretId :: string
  ls_secretString :: string
  ls_description :: string
  ls_kmsKeyId :: string
  ls_primaryRegion :: string
  ls_createdDate :: time_point
  ls_deletedDate :: time_point
  ls_lastAccessedDate :: time_point
  ls_lastChangedDate :: time_point
  ls_lastRotatedDate :: time_point
  ls_nextRotatedDate :: time_point
  ls_rotationEnabled :: bool
  ls_rotationLambdaARN :: string
  ls_rotationRules :: rotation_rules
  ls_created :: time_point
  ls_modified :: time_point

text \<open>Both listings show what a secret has in common with its listed form; each leaves some fields at their defaults.\<close>

definition listed_secret_of :: "secret \<Rightarrow> listed_secret" where
  "listed_secret_of s =
     \<lparr>ls_name = s_name s, ls_arn = s_arn s, ls_secretId = [], ls_secretString = [], ls_description = s_description s, ls_kmsKeyId = s_kmsKeyId s,
      ls_primaryRegion = s_primaryRegion s, ls_createdDate = s_createdDate s, ls_deletedDate = s_deletedDate s,
      ls_lastAccessedDate = s_lastAccessedDate s, ls_lastChangedDate = s_lastChangedDate s, ls_lastRotatedDate = s_lastRotatedDate s,
      ls_nextRotatedDate = s_nextRotatedDate s, ls_rotationEnabled = s_rotationEnabled s, ls_rotationLambdaARN = s_rotationLambdaARN s,
      ls_rotationRules = s_rotationRules s, ls_created = 0, ls_modified = 0\<rparr>"

definition secm_ListSecrets :: "conf_world \<Rightarrow> listed_secret list" where
  "secm_ListSecrets w = map listed_secret_of (sec_ListSecrets (kw_secrets w))"

definition secret_counter_of :: "secret \<Rightarrow> listed_secret" where
  "secret_counter_of s =
     (listed_secret_of s)\<lparr>ls_secretId := s_secretId s, ls_description := [], ls_kmsKeyId := [], ls_primaryRegion := [],
       ls_created := s_created s, ls_modified := s_modified s\<rparr>"

text \<open>The counters are those of every region, the total that of the region.\<close>

definition secm_ListSecretCounters :: "conf_world \<Rightarrow> string \<Rightarrow> int \<times> listed_secret list" where
  "secm_ListSecretCounters w region =
     (sec_CountSecrets (kw_secrets w) region, map secret_counter_of (sec_ListSecrets (kw_secrets w)))"

text \<open>ARN and name; per version its id, the times of its creation and last use, the key and the stages.\<close>

definition secm_ListSecretVersionIds ::
  "conf_env \<Rightarrow> time_point \<Rightarrow> string \<Rightarrow> string \<Rightarrow> (conf_world, string \<times> string \<times> (string \<times> time_point \<times> time_point \<times> string \<times> string list) list) action" where
  "secm_ListSecretVersionIds env now region secretId =
     (let arn = secret_arn env region secretId in
      act_check (\<lambda>w. sec_SecretExistsByArn (kw_secrets w) arn) (ServiceException (''Secret does not exist, secretId: '' @ secretId))
      (act_bind (get_secret now arn) (\<lambda>s.
       act_return (s_arn s, s_name s, map (\<lambda>(i, v). (i, v_created v, v_lastAccessed v, s_kmsKeyId s, v_stages v)) (s_versions s)))))"

definition secm_ListSecretVersionCounters :: "time_point \<Rightarrow> string \<Rightarrow> (conf_world, int \<times> (string \<times> string list) list) action" where
  "secm_ListSecretVersionCounters now secretId =
     act_bind (get_secret_id now secretId) (\<lambda>s.
     act_return (int (length (s_versions s)), map (\<lambda>(i, v). (i, v_stages v)) (s_versions s)))"

text \<open>\<open>Mapper::map\<close> of a secret and its decrypted value.\<close>

definition map_secret :: "secret \<Rightarrow> string \<Rightarrow> listed_secret" where
  "map_secret s decrypted =
     (secret_counter_of s)\<lparr>ls_secretString := decrypted, ls_createdDate := 0, ls_deletedDate := 0, ls_lastChangedDate := 0\<rparr>"

definition secm_GetSecretDetails :: "conf_env \<Rightarrow> time_point \<Rightarrow> string \<Rightarrow> (conf_world, listed_secret) action" where
  "secm_GetSecretDetails env now secretId =
     need_secret_id secretId (act_bind (get_secret_id now secretId) (\<lambda>s.
     act_bind (GetSecretString env now s) (\<lambda>p. act_return (map_secret s p))))"

end
