(* ===== verification/SecretsRotation.thy ===== *)
theory SecretsRotation
  imports SecretsService
begin

text \<open>
  The operations of the secrets manager that change a secret (\<open>SecretsManagerService.cpp\<close>), and its rotation
  (\<open>SecretRotation.cpp\<close>): four invocations of a Lambda function, one per step, in a thread of its own. A
  rotation that was started is a pair of the secret as it was then and the token of the new version.
\<close>

subsection \<open>New values\<close>

record put_value_request =
  pv_region :: string
  pv_secretId :: string
  pv_clientRequestToken :: string
  pv_secretString :: string
  pv_secretBinary :: string
  pv_versionStage :: "string list"

text \<open>
  Without stages, the current version becomes the previous one and the new version the current one. A secret with
  no current version gets one with an empty id.
\<close>

definition make_room :: "time_point \<Rightarrow> string list \<Rightarrow> secret \<Rightarrow> secret" where
  "make_room now stages s = (if stages = [] then set_stages now (GetCurrentVersionId s) AWSPREVIOUS s else s)"

definition new_stages :: "string list \<Rightarrow> string list" where
  "new_stages stages = (if stages = [] then [VersionStateToString AWSCURRENT] else stages)"

definition new_value :: "conf_env \<Rightarrow> time_point \<Rightarrow> string \<Rightarrow> put_value_request \<Rightarrow> secret_version \<Rightarrow> (conf_world, secret_version) action" where
  "new_value env now kmsKeyId d v =
     (if kmsKeyId \<noteq> [] then EncryptSecret env now kmsKeyId (pv_secretString d) v
      else if pv_secretBinary d \<noteq> [] then
        act_bind (kms_Encrypt env now kmsKeyId (v_secretBinary v)) (\<lambda>c. act_return (v\<lparr>v_secretBinary := c\<rparr>))
      else act_return v)"

text \<open>The response: ARN, name, version and its stages.\<close>

definition secm_PutSecretValue ::
  "conf_env \<Rightarrow> (nat \<Rightarrow> time_point) \<Rightarrow> uuid \<Rightarrow> put_value_request \<Rightarrow> (conf_world, string \<times> string \<times> string \<times> string list) action" where
  "secm_PutSecretValue env clock uuid d =
     (let arn = secret_arn env (pv_region d) (pv_secretId d);
          i = (if pv_clientRequestToken d = [] then uuid else pv_clientRequestToken d) in
      need_secret ServiceException arn (act_bind (get_secret (clock 0) arn) (\<lambda>s.
      act_bind (new_value env (clock 1) (s_kmsKeyId s) d ((default_secret_version (clock 1))\<lparr>v_stages := new_stages (pv_versionStage d)\<rparr>)) (\<lambda>v.
      act_bind (update_secret (clock 3)
        ((change_version (clock 1) i (\<lambda>_. v) (make_room (clock 1) (pv_versionStage d) s))\<lparr>s_lastAccessedDate := clock 2\<rparr>)) (\<lambda>_.
      act_return (s_arn s, s_name s, i, v_stages v))))))"

record update_secret_request =
  us_secretId :: string
  us_description :: string
  us_secretString :: string
  us_secretBinary :: string
  us_rotationEnabled :: bool

definition updated_version :: "conf_env \<Rightarrow> time_point \<Rightarrow> string \<Rightarrow> update_secret_request \<Rightarrow> (conf_world, secret_version) action" where
  "updated_version env now kmsKeyId d =
     act_bind (if kmsKeyId \<noteq> [] then kms_Encrypt env now kmsKeyId (us_secretString d) else act_return (us_secretString d)) (\<lambda>c.
     act_return ((default_secret_version now)\<lparr>v_secretString := c, v_secretBinary := us_secretBinary d, v_stages := [VersionStateToString AWSCURRENT]\<rparr>))"

text \<open>The plaintext is handed over as it is, where the other operations encode it. The response: name, ARN and version.\<close>

definition secm_UpdateSecret ::
  "conf_env \<Rightarrow> (nat \<Rightarrow> time_point) \<Rightarrow> uuid \<Rightarrow> update_secret_request \<Rightarrow> (conf_world, string \<times> string \<times> string) action" where
  "secm_UpdateSecret env clock uuid d =
     need_secret_id (us_secretId d) (act_bind (get_secret_id (clock 0) (us_secretId d)) (\<lambda>s.
     act_bind (updated_version env (clock 1) (s_kmsKeyId s) d) (\<lambda>v.
     act_bind (update_secret (clock 3) (ResetVersions
       ((change_version (clock 1) uuid (\<lambda>_. v) s)\<lparr>s_description := us_description d, s_lastChangedDate := clock 2,
          s_rotationEnabled := us_rotationEnabled d\<rparr>) uuid)) (\<lambda>s'.
     act_return (s_name s', s_arn s', uuid)))))"

text \<open>Days are counted in nanoseconds of a 64-bit clock.\<close>

definition GetNextRotationDate :: "time_point \<Rightarrow> secret \<Rightarrow> time_point outcome" where
  "GetNextRotationDate now s =
     (let d = rr_automaticallyAfterDays (s_rotationRules s) in
      if d > 0 then
        (if long_ok (now + seconds (86400 * d)) then Inr (now + seconds (86400 * d)) else Inl UndefinedBehaviour)
      else Inr now)"

record details_request =
  dr_secretId :: string
  dr_secretString :: string
  dr_rotationEnabled :: bool
  dr_rotationLambdaARN :: string
  dr_rotationRules :: rotation_rules

definition with_rules :: "details_request \<Rightarrow> secret \<Rightarrow> secret" where
  "with_rules d s = s\<lparr>s_rotationRules := dr_rotationRules d, s_rotationEnabled := dr_rotationEnabled d, s_rotationLambdaARN := dr_rotationLambdaARN d\<rparr>"

definition schedule_again :: "time_point \<Rightarrow> secret \<Rightarrow> secret \<Rightarrow> (conf_world, secret) action" where
  "schedule_again now old s =
     (if s_rotationRules s \<noteq> s_rotationRules old \<and> s_rotationEnabled s
      then act_bind (give (GetNextRotationDate now s)) (\<lambda>t. act_return (s\<lparr>s_nextRotatedDate := t\<rparr>))
      else act_return s)"

definition replace_value :: "conf_env \<Rightarrow> time_point \<Rightarrow> string \<Rightarrow> secret \<Rightarrow> (conf_world, secret) action" where
  "replace_value env now secretString s =
     (if secretString \<noteq> [] then
        act_bind (EncryptSecret env now (s_kmsKeyId s) secretString (GetVersion now s (GetCurrentVersionId s))) (\<lambda>v.
        act_return (change_version now (GetCurrentVersionId s) (\<lambda>_. v) s))
      else act_return s)"

definition mapUpdate :: "secret \<Rightarrow> string \<Rightarrow> listed_secret" where
  "mapUpdate s decrypted = (map_secret s decrypted)\<lparr>ls_lastAccessedDate := 0\<rparr>"

definition secm_UpdateSecretDetails :: "conf_env \<Rightarrow> (nat \<Rightarrow> time_point) \<Rightarrow> details_request \<Rightarrow> (conf_world, listed_secret) action" where
  "secm_UpdateSecretDetails env clock d =
     need_secret_id (dr_secretId d) (act_bind (get_secret_id (clock 0) (dr_secretId d)) (\<lambda>s.
     act_bind (schedule_again (clock 1) s (with_rules d s)) (\<lambda>s.
     act_bind (replace_value env (clock 2) (dr_secretString d) s) (\<lambda>s.
     act_bind (update_secret (clock 3) s) (\<lambda>s.
     act_bind (GetSecretString env (clock 4) s) (\<lambda>p. act_return (mapUpdate s p)))))))"

subsection \<open>Moving stages\<close>

record stage_request =
  sg_region :: string
  sg_secretId :: string
  sg_versionStage :: string
  sg_moveToVersionId :: string
  sg_removeFromVersionId :: string

definition add_stage :: "string \<Rightarrow> secret_version \<Rightarrow> secret_version" where
  "add_stage t v = (if t \<in> set (v_stages v) then v else v\<lparr>v_stages := v_stages v @ [t]\<rparr>)"

definition drop_stage :: "string \<Rightarrow> secret_version \<Rightarrow> secret_version" where
  "drop_stage t v = v\<lparr>v_stages := filter (\<lambda>u. u \<noteq> t) (v_stages v)\<rparr>"

definition move_stage :: "time_point \<Rightarrow> stage_request \<Rightarrow> secret \<Rightarrow> secret" where
  "move_stage now d s =
     (if sg_versionStage d = VersionStateToString AWSCURRENT
      then set_stages now (sg_moveToVersionId d) AWSCURRENT (ResetVersions s (sg_moveToVersionId d))
      else let s' = change_version now (sg_moveToVersionId d) (add_stage (sg_versionStage d)) s in
        if sg_removeFromVersionId d \<noteq> [] \<and> HasVersion s' (sg_removeFromVersionId d)
        then change_version now (sg_removeFromVersionId d) (drop_stage (sg_versionStage d)) s' else s')"

text \<open>The response: region, ARN and name.\<close>

definition secm_UpdateSecretVersionStage :: "conf_env \<Rightarrow> (nat \<Rightarrow> time_point) \<Rightarrow> stage_request \<Rightarrow> (conf_world, string \<times> string \<times> string) action" where
  "secm_UpdateSecretVersionStage env clock d =
     (let arn = secret_arn env (sg_region d) (sg_secretId d) in
      need_secret NotFoundException arn (act_bind (get_secret (clock 0) arn) (\<lambda>s.
      act_check (\<lambda>_. HasVersion s (sg_moveToVersionId d)) (ServiceException (''Secret version does not exist, versionId: '' @ sg_moveToVersionId d))
      (act_bind (update_secret (clock 2) ((move_stage (clock 0) d s)\<lparr>s_modified := clock 1\<rparr>)) (\<lambda>s'.
       act_return (s_region s', s_arn s', s_name s'))))))"

text \<open>The response: region, name and ARN.\<close>

definition secm_DeleteSecret :: "conf_env \<Rightarrow> time_point \<Rightarrow> string \<Rightarrow> string \<Rightarrow> (conf_world, string \<times> string \<times> string) action" where
  "secm_DeleteSecret env now region secretId =
     (let arn = secret_arn env region secretId in
      need_secret ServiceException arn (act_bind (get_secret now arn) (\<lambda>s.
      act_bind (on_secrets (\<lambda>ss. (sec_DeleteSecret ss s, ()))) (\<lambda>_. act_return (region, s_name s, s_arn s)))))"

subsection \<open>Rotation\<close>

record rotate_request =
  rq_region :: string
  rq_secretId :: string
  rq_clientRequestToken :: string
  rq_rotationLambdaARN :: string
  rq_rotateImmediately :: bool
  rq_rotationRules :: rotation_rules

definition start_rotation :: "secret \<Rightarrow> string \<Rightarrow> (conf_world, unit) action" where
  "start_rotation s token = (\<lambda>w. (w\<lparr>kw_rotations := kw_rotations w @ [(s, token)]\<rparr>, Inr ()))"

text \<open>The rules of the request are not used. The response: region, ARN, name and the current version.\<close>

definition secm_RotateSecret ::
  "conf_env \<Rightarrow> (nat \<Rightarrow> time_point) \<Rightarrow> rotate_request \<Rightarrow> (conf_world, string \<times> string \<times> string \<times> string) action" where
  "secm_RotateSecret env clock d =
     (let arn = secret_arn env (rq_region d) (rq_secretId d) in
      need_secret NotFoundException arn (act_bind (get_secret (clock 0) arn) (\<lambda>s.
      act_bind (update_secret (clock 3) (set_stages (clock 2) (rq_clientRequestToken d) AWSPENDING
        (s\<lparr>s_lastRotatedDate := clock 1, s_rotationEnabled := True, s_rotationLambdaARN := rq_rotationLambdaARN d\<rparr>))) (\<lambda>s.
      act_bind (if rq_rotateImmediately d \<and> s_rotationLambdaARN s \<noteq> [] then start_rotation s (rq_clientRequestToken d) else act_return ()) (\<lambda>_.
      act_return (s_region s, s_arn s, s_name s, GetCurrentVersionId s))))))"

text \<open>Function, secret id, region, token and step; status and body.\<close>

record rotation_env =
  ro_invoke :: "string \<Rightarrow> string \<Rightarrow> string \<Rightarrow> string \<Rightarrow> string \<Rightarrow> (conf_world, int \<times> string) action"
  ro_reported_error :: "string \<Rightarrow> string option"
  ro_status_text :: "int \<Rightarrow> string"

definition rotation_step :: "rotation_env \<Rightarrow> string \<Rightarrow> secret \<Rightarrow> string \<Rightarrow> task_type \<Rightarrow> (conf_world, unit) action" where
  "rotation_step ro fn s token t =
     act_bind (ro_invoke ro fn (s_secretId s) (s_region s) token (TaskTypeToString t)) (\<lambda>(status, body).
     if status < 200 \<or> status \<ge> 300 then
       act_throw (ServiceException (''Lambda invocation failed, function: '' @ fn @ '', status: '' @ ro_status_text ro status @ '', body: '' @ body))
     else case ro_reported_error ro body of
       None \<Rightarrow> act_return ()
     | Some e \<Rightarrow> act_throw (ServiceException (''Lambda function reported an error, function: '' @ fn @ '', error: '' @ e)))"

definition find_rotation_lambda :: "string \<Rightarrow> (conf_world, lambda_fn) action" where
  "find_rotation_lambda arn = (\<lambda>w.
     case lam_getLambdaByArn (kw_lambdas w) arn of Inl e \<Rightarrow> (w, Inl e) | Inr (ls, l) \<Rightarrow> (w\<lparr>kw_lambdas := ls\<rparr>, Inr l))"

definition rotation_steps :: "rotation_env \<Rightarrow> secret \<Rightarrow> string \<Rightarrow> (conf_world, unit) action" where
  "rotation_steps ro s token =
     act_bind (find_rotation_lambda (s_rotationLambdaARN s)) (\<lambda>l.
     act_each (\<lambda>_. rotation_step ro (l_function l) s token) 0 [createSecret, setSecret, testSecret, finishSecret])"

text \<open>A C++ exception is caught; undefined behaviour is none.\<close>

definition swallow :: "(conf_world, unit) action \<Rightarrow> (conf_world, unit) action" where
  "swallow a = (\<lambda>w. case a w of
     (w', Inl UndefinedBehaviour) \<Rightarrow> (w', Inl UndefinedBehaviour)
   | (w', Inl Deadlock) \<Rightarrow> (w', Inl Deadlock)
   | (w', _) \<Rightarrow> (w', Inr ()))"

text \<open>The secret is read again after the steps, since they changed it.\<close>

definition SecretRotation_run :: "rotation_env \<Rightarrow> (nat \<Rightarrow> time_point) \<Rightarrow> secret \<Rightarrow> string \<Rightarrow> (conf_world, unit) action" where
  "SecretRotation_run ro clock s token =
     swallow (act_bind (rotation_steps ro s token) (\<lambda>_.
       act_bind (get_secret (clock 0) (s_arn s)) (\<lambda>s'.
       act_bind (give (GetNextRotationDate (clock 1) s')) (\<lambda>t.
       act_bind (update_secret (clock 2) (s'\<lparr>s_nextRotatedDate := t\<rparr>)) (\<lambda>_. act_return ())))))"

text \<open>The thread of the first rotation that was started runs.\<close>

definition run_rotation :: "rotation_env \<Rightarrow> (nat \<Rightarrow> time_point) \<Rightarrow> (conf_world, unit) action" where
  "run_rotation ro clock = (\<lambda>w. case kw_rotations w of
     [] \<Rightarrow> (w, Inr ()) | (s, token) # rest \<Rightarrow> SecretRotation_run ro clock s token (w\<lparr>kw_rotations := rest\<rparr>))"

definition rotation_due :: "time_point \<Rightarrow> secret \<Rightarrow> bool" where
  "rotation_due now s \<longleftrightarrow> s_rotationEnabled s \<and> s_rotationLambdaARN s \<noteq> [] \<and> s_nextRotatedDate s \<le> now"

definition check_rotation :: "time_point \<Rightarrow> (nat \<Rightarrow> time_point) \<Rightarrow> (nat \<Rightarrow> uuid) \<Rightarrow> nat \<Rightarrow> secret \<Rightarrow> (conf_world, unit) action" where
  "check_rotation now clock uuids i s =
     (if rotation_due now s then
        act_bind (update_secret (clock i) (set_stages (clock i) (uuids i) AWSPENDING (s\<lparr>s_lastRotatedDate := now\<rparr>))) (\<lambda>s'.
        start_rotation s' (uuids i))
      else act_return ())"

definition srv_secm_checkRotations :: "time_point \<Rightarrow> (nat \<Rightarrow> time_point) \<Rightarrow> (nat \<Rightarrow> uuid) \<Rightarrow> (conf_world, unit) action" where
  "srv_secm_checkRotations now clock uuids =
     act_bind (act_read (\<lambda>w. sec_ListSecrets (kw_secrets w))) (\<lambda>ss. act_each (check_rotation now clock uuids) 0 ss)"

definition srv_secm_updateCounter :: "conf_world \<Rightarrow> int" where
  "srv_secm_updateCounter w = sec_CountSecrets (kw_secrets w) []"

end
