(* ===== verification/ConfigServiceProps.thy ===== *)
theory ConfigServiceProps
  imports SsmService SecretsRotation
begin

text \<open>
  What the configuration services promise: a parameter or a secret that was stored encrypted is read back; for
  which plaintexts the encryption is defined at all; what an update stores instead of the new value; which
  version of a secret is current, whatever operations there were; and when a rotation is due again.
\<close>

subsection \<open>States without a defect\<close>

text \<open>Every entity is stored once, under its object id.\<close>

definition conf_fine :: "conf_world \<Rightarrow> bool" where
  "conf_fine w \<longleftrightarrow> omap_inv (kw_keys w) \<and> all_stamped k_oid (kw_keys w) \<and> omap_inv (kw_params w) \<and> all_stamped p_oid (kw_params w)
     \<and> wf_store (kw_secrets w) \<and> all_stamped s_oid (kw_secrets w)"

definition key_at :: "conf_world \<Rightarrow> string \<Rightarrow> kms_key option" where
  "key_at w keyId = map_option snd (find_if (\<lambda>(_, k). k_keyId k = keyId) (kw_keys w))"

definition param_at :: "conf_world \<Rightarrow> string \<Rightarrow> ssm_parameter option" where
  "param_at w n = map_option snd (find_if (\<lambda>(_, p). p_parameterName p = n) (kw_params w))"

lemma key_at_other [simp]: "key_at (w\<lparr>kw_params := ps\<rparr>) keyId = key_at w keyId" "key_at (w\<lparr>kw_secrets := ss\<rparr>) keyId = key_at w keyId"
  by (simp_all add: key_at_def)

lemma key_exists_iff: "kms_keyExists (kw_keys w) keyId \<longleftrightarrow> key_at w keyId \<noteq> None"
  by (simp add: kms_keyExists_def key_at_def found_def)

lemma param_exists_iff: "ssm_parameterExists (kw_params w) n \<longleftrightarrow> param_at w n \<noteq> None"
  by (simp add: ssm_parameterExists_def param_at_def found_def)

lemma get_key_run:
  assumes "conf_fine w" "key_at w keyId = Some k"
  shows "get_key now keyId w = (w, Inr k)"
proof -
  have "kms_getKeyByKeyId now (kw_keys w) keyId = (kw_keys w, k)"
    using assms unfolding kms_getKeyByKeyId_def conf_fine_def key_at_def
    by (auto simp: kms_k.get_or_stamped [OF omap_inv_wf] split: option.splits prod.splits)
  then show ?thesis by (simp add: on_keys_def)
qed

lemma get_parameter_run:
  assumes "conf_fine w" "param_at w n = Some p"
  shows "get_parameter now n w = (w, Inr p)"
proof -
  have "ssm_getParameterByName now (kw_params w) n = (kw_params w, p)"
    using assms unfolding ssm_getParameterByName_def conf_fine_def param_at_def
    by (auto simp: ssm_p.get_or_stamped [OF omap_inv_wf] split: option.splits prod.splits)
  then show ?thesis by (simp add: on_params_def)
qed

lemma kms_Encrypt_run: "conf_fine w \<Longrightarrow> key_at w keyId = Some k \<Longrightarrow> kms_Encrypt env now keyId s w = (w, EncryptPlaintext env k s)"
  by (simp add: kms_Encrypt_def need_key_def run_check key_exists_iff run_bind(1) [OF get_key_run] give_def)

lemma kms_Decrypt_run: "conf_fine w \<Longrightarrow> key_at w keyId = Some k \<Longrightarrow> kms_Decrypt env now keyId s w = (w, DecryptPlaintext env k s)"
  by (simp add: kms_Decrypt_def need_key_def run_check key_exists_iff run_bind(1) [OF get_key_run] give_def)

lemma kms_no_key: "key_at w keyId = None \<Longrightarrow> kms_Encrypt env now keyId s w = (w, Inl (ServiceException (''Key not found, keyId: '' @ keyId)))"
  "key_at w keyId = None \<Longrightarrow> kms_Decrypt env now keyId s w = (w, Inl (ServiceException (''Key not found, keyId: '' @ keyId)))"
  by (simp_all add: kms_Encrypt_def kms_Decrypt_def need_key_def run_check key_exists_iff)

subsection \<open>The ciphers\<close>

text \<open>
  What the code relies on: Base64 and AES are inverted by their counterparts, the encoding of something is something, and a ciphertext is filled up to the next
  multiple of 16 bytes, by at least one.
\<close>

definition cipher_laws :: "conf_env \<Rightarrow> bool" where
  "cipher_laws env \<longleftrightarrow> (\<forall>s. ke_decode env (ke_encode env s) = s) \<and> (\<forall>s. s \<noteq> [] \<longrightarrow> ke_encode env s \<noteq> [])
     \<and> (\<forall>k s. ke_aes_decrypt env k (ke_aes_encrypt env k s) = s)
     \<and> (\<forall>k s. length (ke_aes_encrypt env k s) = 16 * (length s div 16 + 1))"

text \<open>A symmetric key with its material.\<close>

definition usable_key :: "kms_key \<Rightarrow> bool" where
  "usable_key k \<longleftrightarrow> k_keySpec k = ''SYMMETRIC_DEFAULT'' \<and> 64 \<le> length (k_aes256Key k)"

lemma spec_symmetric: "k_keySpec k = ''SYMMETRIC_DEFAULT'' \<Longrightarrow> KeySpecFromString (k_keySpec k) = SYMMETRIC_DEFAULT"
  by (simp add: KeySpecFromString_def enum_from_string_def key_spec_names_def)

lemma split_16: obtains q r :: nat where "n = 16 * q + r" "n div 16 = q" "n mod 16 = r" "r < 16"
  using div_mult_mod_eq [of n 16] by (intro that [of "n div 16" "n mod 16"]) simp_all

lemma fits_iff: "16 * (n div 16 + 1) \<le> 2 * n \<longleftrightarrow> 8 \<le> (n::nat)"
proof (rule split_16 [of n])
  fix q r assume n: "n = 16 * q + r" "n div 16 = q"
  show ?thesis unfolding n(2) by (cases q) (simp_all add: n(1))
qed

lemma block_bounds: "n \<le> 2 * (16 * (n div 16 + 1))" "n + (16 - n mod 16) = 16 * (n div 16 + 1)" for n :: nat
  by (rule split_16 [of n], simp)+

definition sealed :: "conf_env \<Rightarrow> kms_key \<Rightarrow> string \<Rightarrow> string" where
  "sealed env k s = ke_encode env (ke_aes_encrypt env (k_aes256Key k) s)"

lemma encrypt_usable:
  assumes "cipher_laws env" "usable_key k" "8 \<le> length (ke_decode env s)"
  shows "EncryptPlaintext env k s = Inr (sealed env k (ke_decode env s))"
proof -
  let ?n = "length (ke_decode env s)"
  have "16 * (?n div 16 + 1) \<le> 2 * ?n" using assms(3) fits_iff [of ?n] by simp
  then have "\<not> (64 > length (k_aes256Key k) \<or> length (ke_aes_encrypt env (k_aes256Key k) (ke_decode env s)) > 2 * ?n)"
    using assms(1,2) by (simp add: cipher_laws_def usable_key_def)
  then show ?thesis using assms(2) spec_symmetric [of k] by (simp add: EncryptPlaintext_def Let_def usable_key_def sealed_def)
qed

lemma sealed_nonempty: "cipher_laws env \<Longrightarrow> sealed env k s \<noteq> []"
proof -
  assume l: "cipher_laws env"
  then have "ke_aes_encrypt env (k_aes256Key k) s \<noteq> []" by (metis add_is_0 cipher_laws_def list.size(3) mult_is_0 one_neq_zero zero_neq_numeral)
  then show ?thesis using l by (simp add: cipher_laws_def sealed_def)
qed

lemma decrypt_sealed:
  assumes "cipher_laws env" "usable_key k"
  shows "DecryptPlaintext env k (sealed env k s) = Inr (ke_encode env s)"
proof -
  have "length s \<le> 2 * (16 * (length s div 16 + 1))" by (rule block_bounds)
  then show ?thesis using assms spec_symmetric [of k]
    by (simp add: DecryptPlaintext_def Let_def usable_key_def sealed_def cipher_laws_def)
qed

subsection \<open>Parameters\<close>

lemma find_only:
  assumes "kv \<in> set m" "P kv" "\<And>x. x \<in> set m \<Longrightarrow> P x \<Longrightarrow> x = kv"
  shows "find_if P m = Some kv"
proof -
  obtain k v where f: "find_if P m = Some (k, v)"
    using assms(1,2) found_iff [of P m] by (auto simp: found_def)
  then have "(k, v) = kv" using find_if_SomeD [OF f] assms(3) by blast
  then show ?thesis using f by simp
qed

lemma find_None_ins:
  assumes "omap_inv m" "find_if P m = None" "P (k, v)"
  shows "find_if P (omap_insert k v m) = Some (k, v)"
proof (rule find_only)
  have "\<not> P x" if "x \<in> set m" for x using assms(2) that found_iff [of P m] by (auto simp: found_def)
  then show "x = (k, v)" if "x \<in> set (omap_insert k v m)" "P x" for x using that by (cases x) (auto simp: om.set_ins [OF assms(1)])
qed (use assms in \<open>simp_all add: om.set_ins\<close>)

lemma find_ins_other:
  assumes "k \<notin> keys_of m" "\<not> P (k, v)"
  shows "find_if P (omap_insert k v m) = find_if P m"
  using assms by (induction k v m rule: omap_insert.induct) (auto simp: find_if_def)

text \<open>The state after a parameter was stored.\<close>

definition with_parameter :: "uuid \<Rightarrow> ssm_parameter \<Rightarrow> conf_world \<Rightarrow> conf_world" where
  "with_parameter uuid p w = w\<lparr>kw_params := omap_insert uuid (p\<lparr>p_oid := uuid\<rparr>) (kw_params w)\<rparr>"

lemma with_parameter_fine: "conf_fine w \<Longrightarrow> conf_fine (with_parameter uuid p w)"
  by (simp add: conf_fine_def with_parameter_def omap_inv_insert all_stamped_omap_insert)

lemma with_parameter_keys [simp]: "key_at (with_parameter uuid p w) keyId = key_at w keyId"
  by (simp add: with_parameter_def)

lemma with_parameter_at:
  assumes "conf_fine w" "param_at w (p_parameterName p) = None" "uuid \<notin> keys_of (kw_params w)"
  shows "param_at (with_parameter uuid p w) n = (if n = p_parameterName p then Some (p\<lparr>p_oid := uuid\<rparr>) else param_at w n)"
proof (cases "n = p_parameterName p")
  case True
  have "find_if (\<lambda>(_, q). p_parameterName q = p_parameterName p) (omap_insert uuid (p\<lparr>p_oid := uuid\<rparr>) (kw_params w)) = Some (uuid, p\<lparr>p_oid := uuid\<rparr>)"
    using assms by (intro find_None_ins) (simp_all add: conf_fine_def param_at_def)
  then show ?thesis using True by (simp add: param_at_def with_parameter_def)
next
  case False
  then show ?thesis using assms(3) by (simp add: param_at_def with_parameter_def find_ins_other)
qed

lemma protect_run:
  assumes "conf_fine w" "arn \<noteq> []" "key_at w (key_of_arn arn) = Some k" "cipher_laws env" "usable_key k" "8 \<le> length (ke_decode env s)"
  shows "protect env now arn s plain w = (w, Inr (sealed env k (ke_decode env s)))"
  using assms by (simp add: protect_def kms_Encrypt_run encrypt_usable)

lemma put_parameter_run:
  assumes "conf_fine w" "pr_kmsKeyArn d \<noteq> []" "key_at w (key_of_arn (pr_kmsKeyArn d)) = Some k" "cipher_laws env" "usable_key k"
    "8 \<le> length (pr_value d)" "param_at w (pr_name d) = None"
  shows "ssm_PutParameter env clock uuid d w =
     (with_parameter uuid ((parameter_to_create env clock d)\<lparr>p_parameterValue := sealed env k (pr_value d)\<rparr>) w, Inr ([], 1))"
proof -
  have "protect env (clock 2) (pr_kmsKeyArn d) (ke_encode env (pr_value d)) (pr_value d) w = (w, Inr (sealed env k (pr_value d)))"
    using protect_run [OF assms(1-5), of "ke_encode env (pr_value d)"] assms(4,6) by (simp add: cipher_laws_def)
  then have "store_parameter env clock uuid d w =
     (with_parameter uuid ((parameter_to_create env clock d)\<lparr>p_parameterValue := sealed env k (pr_value d)\<rparr>) w,
      Inr ((parameter_to_create env clock d)\<lparr>p_parameterValue := sealed env k (pr_value d), p_oid := uuid\<rparr>))"
    unfolding store_parameter_def by (simp add: run_bind(1) on_params_def ssm_createParameter_def with_parameter_def Let_def)
  then show ?thesis using assms(7)
    by (simp add: ssm_PutParameter_def need_no_parameter_def run_check param_exists_iff run_bind(1) run_return parameter_to_create_def)
qed

lemma get_parameter_value:
  assumes "conf_fine w" "param_at w n = Some p" "key_at w (key_of_arn (p_kmsKeyArn p)) = Some k" "cipher_laws env" "usable_key k"
    "p_parameterValue p = sealed env k s"
  shows "ssm_GetParameter env now n True w = (w, Inr (map_parameter (p\<lparr>p_parameterValue := s\<rparr>)))"
    and "ssm_GetParameter env now n False w = (w, Inr (map_parameter p))"
proof -
  have "kms_Decrypt env now (key_of_arn (p_kmsKeyArn p)) (p_parameterValue p) w = (w, Inr (ke_encode env s))"
    using assms by (simp add: kms_Decrypt_run decrypt_sealed)
  then show "ssm_GetParameter env now n True w = (w, Inr (map_parameter (p\<lparr>p_parameterValue := s\<rparr>)))"
    "ssm_GetParameter env now n False w = (w, Inr (map_parameter p))"
    using assms(1,2,4) by (simp_all add: ssm_GetParameter_def need_parameter_def run_check param_exists_iff
      run_bind(1) [OF get_parameter_run] run_bind(1) run_return cipher_laws_def)
qed

text \<open>C22: A parameter that is stored with a symmetric key of KMS is read back: the response to storing it has version 1,
  with decryption the value is the one that was stored, without it the value is the ciphertext, and every other
  parameter is as before. The name and the id drawn for it are new, the key has the specification \<open>SYMMETRIC_DEFAULT\<close> and its material, and the
  value has at least eight bytes; with an HMAC key the value would be lost. (Keys and parameters are each stored
  once, under their ids, and Base64 and AES are inverted by their counterparts.)\<close>

theorem ssm_put_then_get:
  assumes "conf_fine w" "pr_kmsKeyArn d \<noteq> []" "key_at w (key_of_arn (pr_kmsKeyArn d)) = Some k" "cipher_laws env" "usable_key k"
    "8 \<le> length (pr_value d)" "param_at w (pr_name d) = None" "uuid \<notin> keys_of (kw_params w)"
  shows "\<exists>w' p p'. ssm_PutParameter env clock uuid d w = (w', Inr ([], 1))
    \<and> ssm_GetParameter env now (pr_name d) True w' = (w', Inr p) \<and> pd_parameterValue p = pr_value d
    \<and> ssm_GetParameter env now (pr_name d) False w' = (w', Inr p') \<and> pd_parameterValue p' = sealed env k (pr_value d)
    \<and> pd_description p = pr_description d \<and> pd_tags p = pr_tags d \<and> (\<forall>n. n = pr_name d \<or> param_at w' n = param_at w n)"
proof -
  let ?p = "(parameter_to_create env clock d)\<lparr>p_parameterValue := sealed env k (pr_value d)\<rparr>"
  have "param_at w (p_parameterName ?p) = None" using assms(7) by (simp add: parameter_to_create_def)
  note at = with_parameter_at [OF assms(1) this assms(8)]
  have "param_at (with_parameter uuid ?p w) (pr_name d) = Some (?p\<lparr>p_oid := uuid\<rparr>)"
    by (simp add: at) (simp add: parameter_to_create_def)
  note get = get_parameter_value [OF with_parameter_fine [OF assms(1)] this _ assms(4,5), of "pr_value d" now]
  show ?thesis
    using put_parameter_run [OF assms(1-7)] get at assms(3)
    by (auto simp: parameter_to_create_def map_parameter_def)
qed

definition conf_wit_env :: conf_env where
  "conf_wit_env =
     \<lparr>ke_account = ''000000000000'', ke_encode = (\<lambda>s. CHR ''='' # s), ke_decode = tl,
      ke_aes_encrypt = (\<lambda>_ s. s @ replicate (16 - length s mod 16) (char_of (16 - length s mod 16))),
      ke_aes_decrypt = (\<lambda>_ s. take (length s - of_char (last s)) s),
      ke_rsa_encrypt = (\<lambda>_ s. s), ke_rsa_decrypt = (\<lambda>_ s. s), ke_hmac = (\<lambda>_ _ s. s)\<rparr>"

lemma conf_wit_laws: "cipher_laws conf_wit_env"
proof -
  note pad = block_bounds(2)
  have "last (s @ replicate (16 - length s mod 16) c) = c" for s and c :: char
    using mod_less_divisor [of 16 "length s"] by (simp add: last_append flip: not_less)
  then show ?thesis by (simp add: cipher_laws_def conf_wit_env_def pad)
qed

definition conf_wit_key :: kms_key where
  "conf_wit_key = (default_key 0)\<lparr>k_oid := ''k'', k_keyId := ''key-1'', k_keySpec := ''SYMMETRIC_DEFAULT'', k_aes256Key := replicate 64 CHR ''a''\<rparr>"

definition conf_wit_world :: conf_world where
  "conf_wit_world =
     \<lparr>kw_keys = [(''k'', conf_wit_key)], kw_params = [], kw_secrets = [],
      kw_lambdas = \<lparr>lambdas = [], lambdaResults = []\<rparr>, kw_pending = [], kw_rotations = []\<rparr>"

lemma conf_wit_fine: "conf_fine conf_wit_world"
  by (simp add: conf_fine_def conf_wit_world_def all_stamped_def conf_wit_key_def wf_store_def)

lemma conf_wit_key_at: "key_at conf_wit_world (key_of_arn ''arn:aws:kms:eu:0:key/key-1'') = Some conf_wit_key"
  by (simp add: key_at_def conf_wit_world_def conf_wit_key_def key_of_arn_def after_last_def find_if_def)

lemma conf_wit_usable: "usable_key conf_wit_key"
  by (simp add: usable_key_def conf_wit_key_def)

lemma conf_wit_base64: "ke_decode conf_wit_env = tl" "ke_encode conf_wit_env s = CHR ''='' # s"
  by (simp_all add: conf_wit_env_def)

definition conf_wit_request :: "string \<Rightarrow> parameter_request" where
  "conf_wit_request v =
     \<lparr>pr_region = ''eu'', pr_name = ''p'', pr_value = v, pr_description = ''d'', pr_type = PT_secureString,
      pr_kmsKeyArn = ''arn:aws:kms:eu:0:key/key-1'', pr_tier = [], pr_tags = []\<rparr>"

lemma conf_wit_request_sel: "pr_name (conf_wit_request v) = ''p''" "pr_value (conf_wit_request v) = v"
  "pr_kmsKeyArn (conf_wit_request v) = ''arn:aws:kms:eu:0:key/key-1''"
  by (simp_all add: conf_wit_request_def)

theorem ssm_put_then_get_witness:
  "\<exists>w' p p'. ssm_PutParameter conf_wit_env (\<lambda>_. 1) ''u'' (conf_wit_request ''password1'') conf_wit_world = (w', Inr ([], 1))
    \<and> ssm_GetParameter conf_wit_env 2 ''p'' True w' = (w', Inr p) \<and> pd_parameterValue p = ''password1''
    \<and> ssm_GetParameter conf_wit_env 2 ''p'' False w' = (w', Inr p')
    \<and> pd_parameterValue p' = ''=password1'' @ replicate 7 (char_of (7::nat))"
proof -
  have *: "param_at conf_wit_world ''p'' = None" "''u'' \<notin> keys_of (kw_params conf_wit_world)"
    by (simp_all add: param_at_def conf_wit_world_def find_if_def keys_of_def)
  show ?thesis
    using ssm_put_then_get [where d = "conf_wit_request ''password1''" and uuid = "''u''" and clock = "\<lambda>_. 1" and now = 2,
      OF conf_wit_fine _ _ conf_wit_laws conf_wit_usable] * conf_wit_key_at
    by (auto simp: conf_wit_request_def sealed_def conf_wit_env_def)
qed

text \<open>C26: Encryption with a symmetric key is defined exactly when the key has its material and the plaintext at least
  eight bytes: the buffer for the ciphertext is twice the plaintext, and a ciphertext has at least sixteen bytes.
  Storing a shorter parameter with a key, or one with a key whose material is not made yet, writes behind the buffer.
\<close>

theorem kms_encrypt_defined:
  assumes "cipher_laws env" "conf_fine w" "key_at w keyId = Some k" "k_keySpec k = ''SYMMETRIC_DEFAULT''"
  shows "(kms_Encrypt env now keyId (ke_encode env s) w = (w, Inl UndefinedBehaviour)
      \<longleftrightarrow> length s < 8 \<or> length (k_aes256Key k) < 64)
    \<and> (pr_kmsKeyArn d \<noteq> [] \<and> key_of_arn (pr_kmsKeyArn d) = keyId \<and> pr_value d = s \<and> param_at w (pr_name d) = None
      \<and> (length s < 8 \<or> length (k_aes256Key k) < 64) \<longrightarrow> ssm_PutParameter env clock uuid d w = (w, Inl UndefinedBehaviour))"
proof -
  have "16 * (length s div 16 + 1) > 2 * length s \<longleftrightarrow> length s < 8" using fits_iff [of "length s"] by linarith
  then have u: "EncryptPlaintext env k (ke_encode env s) = Inl UndefinedBehaviour \<longleftrightarrow> length s < 8 \<or> length (k_aes256Key k) < 64"
    using assms(1,4) spec_symmetric [of k] by (auto simp: EncryptPlaintext_def Let_def cipher_laws_def)
  then show ?thesis
    by (auto simp: kms_Encrypt_run [OF assms(2,3)] ssm_PutParameter_def need_no_parameter_def run_check param_exists_iff
      store_parameter_def protect_def run_bind(2))
qed

theorem kms_encrypt_defined_witness:
  "kms_Encrypt conf_wit_env 0 ''key-1'' ''=secret'' conf_wit_world = (conf_wit_world, Inl UndefinedBehaviour)
   \<and> kms_Encrypt conf_wit_env 0 ''key-1'' ''=password1'' conf_wit_world \<noteq> (conf_wit_world, Inl UndefinedBehaviour)
   \<and> ssm_PutParameter conf_wit_env (\<lambda>_. 1) ''u'' (conf_wit_request ''secret'') conf_wit_world = (conf_wit_world, Inl UndefinedBehaviour)"
proof -
  have k: "key_at conf_wit_world ''key-1'' = Some conf_wit_key" "k_keySpec conf_wit_key = ''SYMMETRIC_DEFAULT''"
    "length (k_aes256Key conf_wit_key) = 64"
    by (simp_all add: key_at_def conf_wit_world_def conf_wit_key_def find_if_def)
  note t = kms_encrypt_defined [OF conf_wit_laws conf_wit_fine k(1,2)]
  have e: "ke_encode conf_wit_env s = CHR ''='' # s" for s by (simp add: conf_wit_env_def)
  have r: "pr_kmsKeyArn (conf_wit_request ''secret'') \<noteq> []" "key_of_arn (pr_kmsKeyArn (conf_wit_request ''secret'')) = ''key-1''"
    "pr_value (conf_wit_request ''secret'') = ''secret''" "param_at conf_wit_world (pr_name (conf_wit_request ''secret'')) = None"
    by (simp_all add: conf_wit_request_def key_of_arn_def after_last_def param_at_def conf_wit_world_def find_if_def)
  show ?thesis
    using t [where s = "''secret''" and now = 0 and d = "conf_wit_request ''secret''" and clock = "\<lambda>_. 1" and uuid = "''u''"]
      t [where s = "''password1''" and now = 0] r k(3)
    by (simp add: e)
qed

text \<open>A listing changes nothing, whether it succeeds or not.\<close>

lemma kms_Decrypt_same: "conf_fine w \<Longrightarrow> keeps (\<lambda>v. v = w) (kms_Decrypt env now keyId s)"
  by (cases "key_at w keyId") (simp_all add: keeps_def kms_Decrypt_run kms_no_key)

lemma reveal_all_same: "conf_fine w \<Longrightarrow> keeps (\<lambda>v. v = w) (reveal_all env now ps)"
proof (induction ps)
  case (Cons p ps)
  have "keeps (\<lambda>v. v = w) (reveal_listed env now p)"
    unfolding reveal_listed_def by (intro keeps_rules kms_Decrypt_same Cons.prems)
  then show ?case unfolding reveal_all.simps by (intro keeps_rules Cons.IH Cons.prems)
qed (simp add: keeps_return)

lemma list_counters_same: "conf_fine w \<Longrightarrow> fst (ssm_ListParameterCounters env now l w) = w"
proof -
  assume "conf_fine w"
  moreover have "keeps (\<lambda>v. v = w) (list_params l)" by (simp add: list_params_def give_def keeps_def)
  ultimately have "keeps (\<lambda>v. v = w) (ssm_ListParameterCounters env now l)"
    unfolding ssm_ListParameterCounters_def by (intro keeps_rules reveal_all_same)
  then show ?thesis by (rule keepsD) simp
qed

text \<open>An entity that was found is replaced where it is.\<close>

lemma find_assign:
  "find_if P m = Some (k, e) \<Longrightarrow> wf_store m \<Longrightarrow> P (k, e') \<Longrightarrow> find_if P (assign k e' m) = Some (k, e')"
proof (induction m)
  case (Cons x m)
  show ?case
  proof (cases "P x")
    case True
    then show ?thesis using Cons.prems by (simp add: find_if_def assign_def modify_Cons)
  next
    case False
    then have f: "find_if P m = Some (k, e)" using Cons.prems(1) by (simp add: find_if_def)
    then have "fst x \<noteq> k" using find_if_SomeD [OF f] Cons.prems(2) by auto
    moreover have "find_if P (assign k e' m) = Some (k, e')" using Cons f by simp
    ultimately show ?thesis using False by (cases x) (simp add: find_if_def assign_def modify_Cons)
  qed
qed (simp add: find_if_def)

text \<open>Finding by object id finds the entity itself.\<close>

lemma find_by_oid:
  assumes "find_if P m = Some (k, e)" "wf_store m" "all_stamped oid m"
  shows "oid e = k" "find_if (\<lambda>(_, x). oid x = oid e) m = Some (k, e)"
proof -
  have mem: "(k, e) \<in> set m" using find_if_SomeD [OF assms(1)] by simp
  then show k: "oid e = k" using assms(3) by (auto simp: all_stamped_def)
  show "find_if (\<lambda>(_, x). oid x = oid e) m = Some (k, e)"
  proof (rule find_only [OF mem])
    show "x = (k, e)" if "x \<in> set m" "case x of (_, x) \<Rightarrow> oid x = oid e" for x
    proof (cases x)
      case (Pair j v)
      have "j = k" using that Pair assms(3) k by (auto simp: all_stamped_def)
      then show ?thesis using that mem Pair assms(2) by (auto simp: wf_in_map_of)
    qed
  qed simp
qed

text \<open>The state after the parameter under the name of \<open>p\<close> was replaced.\<close>

definition replaced_parameter :: "ssm_parameter \<Rightarrow> conf_world \<Rightarrow> conf_world" where
  "replaced_parameter p w = w\<lparr>kw_params := assign (p_oid p) p (kw_params w)\<rparr>"

lemma update_parameter_run:
  assumes "conf_fine w" "param_at w n = Some p" "p_oid q = p_oid p" "p_parameterName q = n"
  shows "on_params (\<lambda>ps. ssm_updateParameter ps q) w = (replaced_parameter q w, Inr q)"
    and "conf_fine (replaced_parameter q w)" "param_at (replaced_parameter q w) n = Some q"
proof -
  obtain k where f: "find_if (\<lambda>(_, p). p_parameterName p = n) (kw_params w) = Some (k, p)"
    using assms(2) by (auto simp: param_at_def)
  have wf: "wf_store (kw_params w)" and st: "all_stamped p_oid (kw_params w)" using assms(1) by (simp_all add: conf_fine_def omap_inv_wf)
  note o = find_by_oid [OF f wf st]
  show "on_params (\<lambda>ps. ssm_updateParameter ps q) w = (replaced_parameter q w, Inr q)"
    using o assms(3) by (simp add: on_params_def ssm_updateParameter_def replace_found_def replaced_parameter_def)
  show "conf_fine (replaced_parameter q w)"
    using assms(1) by (simp add: conf_fine_def replaced_parameter_def all_stamped_assign)
  show "param_at (replaced_parameter q w) n = Some q"
    using find_assign [OF f wf, of q] assms(3,4) o(1) by (simp add: param_at_def replaced_parameter_def)
qed

lemma param_at_name: "param_at w n = Some p \<Longrightarrow> p_parameterName p = n"
  unfolding param_at_def by (auto dest: find_if_SomeD)

text \<open>C29: An update of an existing parameter with a symmetric key that has its material stores something else than the
  value: it is not encoded before it is encrypted, so what is read back with decryption is the value taken for Base64
  and decoded. This is for a value that decodes to at least eight bytes. The update is stored, with the fields of
  the request, whatever the listing in the response does. (Keys and parameters are each stored once, under their
  ids, and Base64 and AES are inverted by their counterparts.)\<close>

theorem ssm_update_decodes_value:
  assumes "conf_fine w" "param_at w (pr_name d) = Some p" "pr_kmsKeyArn d \<noteq> []" "key_at w (key_of_arn (pr_kmsKeyArn d)) = Some k"
    "cipher_laws env" "usable_key k" "8 \<le> length (ke_decode env (pr_value d))"
  shows "\<exists>w' q. fst (ssm_UpdateParameter env clock d l w) = w'
    \<and> ssm_GetParameter env now (pr_name d) True w' = (w', Inr q) \<and> pd_parameterValue q = ke_decode env (pr_value d)
    \<and> param_at w' (pr_name d) = Some ((changed_parameter (clock 1) d p)\<lparr>p_parameterValue := sealed env k (ke_decode env (pr_value d))\<rparr>)"
proof -
  let ?q = "(changed_parameter (clock 1) d p)\<lparr>p_parameterValue := sealed env k (ke_decode env (pr_value d))\<rparr>"
  have "p_oid ?q = p_oid p" "p_parameterName ?q = pr_name d"
    using param_at_name [OF assms(2)] by (simp_all add: changed_parameter_def)
  note u = update_parameter_run [OF assms(1,2) this]
  have "change_parameter env clock d w = (replaced_parameter ?q w, Inr ?q)"
    unfolding change_parameter_def using u(1)
    by (simp add: run_bind(1) [where a = "get_parameter (clock 0) (pr_name d)", OF get_parameter_run [OF assms(1,2)]]
      run_bind(1) [where a = "protect env (clock 2) arn s t" for arn s t, OF protect_run [OF assms(1,3-7)]])
  then have f: "fst (ssm_UpdateParameter env clock d l w) = replaced_parameter ?q w"
    using assms(2) list_counters_same [OF u(2)]
    by (simp add: ssm_UpdateParameter_def need_parameter_def run_check param_exists_iff run_bind(1))
  have "key_at (replaced_parameter ?q w) (key_of_arn (p_kmsKeyArn ?q)) = Some k"
    using assms(4) by (simp add: changed_parameter_def replaced_parameter_def)
  note get_parameter_value(1) [OF u(2,3) this assms(5,6), of "ke_decode env (pr_value d)" now]
  then show ?thesis using f u(3) by (simp add: map_parameter_def)
qed

text \<open>The parameter that was stored as \<open>password1\<close> is updated to \<open>new-password\<close>, and what is read is \<open>ew-password\<close>.\<close>

definition conf_wit_world2 :: conf_world where
  "conf_wit_world2 = with_parameter ''u''
     ((parameter_to_create conf_wit_env (\<lambda>_. 1) (conf_wit_request ''password1''))\<lparr>p_parameterValue := sealed conf_wit_env conf_wit_key ''password1''\<rparr>)
     conf_wit_world"

theorem ssm_update_decodes_value_witness:
  "\<exists>w' q. fst (ssm_UpdateParameter conf_wit_env (\<lambda>_. 1) (conf_wit_request ''new-password'')
      \<lparr>lq_region = [], lq_prefix = [], lq_pageSize = 0, lq_pageIndex = 0, lq_sortColumns = []\<rparr> conf_wit_world2) = w'
    \<and> ssm_GetParameter conf_wit_env 2 ''p'' True w' = (w', Inr q) \<and> pd_parameterValue q = ''ew-password''"
proof -
  let ?p = "(parameter_to_create conf_wit_env (\<lambda>_. 1) (conf_wit_request ''password1''))
    \<lparr>p_parameterValue := sealed conf_wit_env conf_wit_key ''password1''\<rparr>"
  have n: "p_parameterName ?p = ''p''" by (simp add: parameter_to_create_def conf_wit_request_def)
  have "param_at conf_wit_world (p_parameterName ?p) = None" "''u'' \<notin> keys_of (kw_params conf_wit_world)"
    by (simp_all add: param_at_def conf_wit_world_def find_if_def keys_of_def)
  then have at: "param_at conf_wit_world2 ''p'' = Some (?p\<lparr>p_oid := ''u''\<rparr>)"
    unfolding conf_wit_world2_def using n by (subst with_parameter_at [OF conf_wit_fine]) auto
  have fine: "conf_fine conf_wit_world2" unfolding conf_wit_world2_def by (rule with_parameter_fine [OF conf_wit_fine])
  have key: "key_at conf_wit_world2 (key_of_arn ''arn:aws:kms:eu:0:key/key-1'') = Some conf_wit_key"
    unfolding conf_wit_world2_def by (simp add: conf_wit_key_at)
  show ?thesis
    using ssm_update_decodes_value [where d = "conf_wit_request ''new-password''" and p = "?p\<lparr>p_oid := ''u''\<rparr>" and clock = "\<lambda>_. 1" and now = 2
      and l = "\<lparr>lq_region = [], lq_prefix = [], lq_pageSize = 0, lq_pageIndex = 0, lq_sortColumns = []\<rparr>",
      OF fine _ _ _ conf_wit_laws conf_wit_usable] at key
    by (auto simp: conf_wit_request_sel conf_wit_base64)
qed

end
