(* ===== verification/SecretsSteps.thy ===== *)
theory SecretsSteps
  imports SsmService SecretsRotation
begin

text \<open>
  The state machine of the secrets manager. A step is a call of the API, a rotation that runs, or the check for
  rotations that are due; everything that leaves the secrets alone (KMS, SSM, the tasks that make keys) is a step
  too. The Lambda functions of a rotation are scripts of API calls, which may branch on the state.

  The invariant: no secret has two versions with the stage \<open>AWSCURRENT\<close>, provided no new value is put with that
  stage by name.
\<close>

subsection \<open>Current versions\<close>

definition is_current :: "secret \<Rightarrow> string \<Rightarrow> bool" where
  "is_current s i \<longleftrightarrow> (\<exists>v. map_of (s_versions s) i = Some v \<and> ''AWSCURRENT'' \<in> set (v_stages v))"

definition at_most_one :: "secret \<Rightarrow> bool" where
  "at_most_one s \<longleftrightarrow> omap_inv (s_versions s) \<and> (\<forall>i j. is_current s i \<and> is_current s j \<longrightarrow> i = j)"

lemma stage_names [simp]: "VersionStateToString AWSCURRENT = ''AWSCURRENT''" "VersionStateToString AWSPENDING = ''AWSPENDING''"
  "VersionStateToString AWSPREVIOUS = ''AWSPREVIOUS''"
  by (simp_all add: VersionStateToString_def enum_to_string_def version_stage_names_def)

lemma versions_change: "map_of (s_versions (change_version now i f s)) = (map_of (s_versions s))(i \<mapsto> f (GetVersion now s i))"
  by (simp add: change_version_def map_of_omap_insert)

lemma current_change:
  "is_current (change_version now i f s) j \<longleftrightarrow>
     (if j = i then ''AWSCURRENT'' \<in> set (v_stages (f (GetVersion now s i))) else is_current s j)"
  by (simp add: is_current_def versions_change)

lemma inv_change [simp]: "omap_inv (s_versions s) \<Longrightarrow> omap_inv (s_versions (change_version now i f s))"
  by (simp add: change_version_def omap_inv_insert)

lemma current_same: "s_versions s = s_versions t \<Longrightarrow> is_current s i \<longleftrightarrow> is_current t i"
  by (simp add: is_current_def)

lemma at_most_one_same: "s_versions s = s_versions t \<Longrightarrow> at_most_one s \<longleftrightarrow> at_most_one t"
  by (simp add: at_most_one_def current_same [of s t])

lemma version_current:
  assumes "omap_inv (s_versions s)"
  shows "is_current s i \<longleftrightarrow> ''AWSCURRENT'' \<in> set (v_stages (GetVersion now s i))"
  using assms by (cases "map_of (s_versions s) i")
    (simp_all add: is_current_def GetVersion_def find_if_key omap_inv_wf default_secret_version_def)

text \<open>The current version is the one that is found.\<close>

lemma current_found:
  assumes "at_most_one s" "is_current s i" shows "GetCurrentVersionId s = i"
proof -
  have wf: "wf_store (s_versions s)" using assms(1) by (simp add: at_most_one_def omap_inv_wf)
  obtain v where "map_of (s_versions s) i = Some v" "''AWSCURRENT'' \<in> set (v_stages v)" using assms(2) by (auto simp: is_current_def)
  then have "found (\<lambda>(_, v). ''AWSCURRENT'' \<in> set (v_stages v)) (s_versions s)" by (auto simp: found_iff dest: map_of_SomeD)
  then obtain j u where f: "find_if (\<lambda>(_, v). ''AWSCURRENT'' \<in> set (v_stages v)) (s_versions s) = Some (j, u)"
    by (auto simp: found_def)
  then have "is_current s j" using find_if_Some_map_of [OF wf f] by (auto simp: is_current_def)
  then show ?thesis using assms f by (auto simp: GetCurrentVersionId_def at_most_one_def)
qed

subsection \<open>The changes of a secret\<close>

lemma keeps_one_demote:
  assumes "at_most_one s" "''AWSCURRENT'' \<notin> set (v_stages (f (GetVersion now s i)))"
  shows "at_most_one (change_version now i f s)"
  using assms by (simp add: at_most_one_def current_change)

text \<open>Without stages in the request, the version that was current makes room for the new one.\<close>

lemma make_room_none:
  assumes "at_most_one s" shows "\<not> is_current (make_room now [] s) i" "omap_inv (s_versions (make_room now stages s))"
  using assms current_found [OF assms] by (auto simp: make_room_def current_change at_most_one_def)

lemma put_keeps_one:
  assumes "at_most_one s" "''AWSCURRENT'' \<notin> set stages" "v_stages v = new_stages stages"
  shows "at_most_one (change_version now i (\<lambda>_. v) (make_room now stages s))"
proof (cases "stages = []")
  case True
  then show ?thesis using make_room_none [OF assms(1)] by (auto simp: at_most_one_def current_change split: if_splits)
next
  case False
  then show ?thesis using assms by (intro keeps_one_demote) (simp_all add: make_room_def new_stages_def)
qed

lemma reset_versions:
  "map_of (s_versions (ResetVersions s i)) j = (if j = i then map_of (s_versions s) j else map_option (\<lambda>v. v\<lparr>v_stages := [''AWSPREVIOUS'']\<rparr>) (map_of (s_versions s) j))"
proof -
  have "map_of (map (\<lambda>(k, v). if k \<noteq> i then (k, f v) else (k, v)) m) j = (if j = i then map_of m j else map_option f (map_of m j))"
    for f :: "secret_version \<Rightarrow> secret_version" and m
    by (induction m) auto
  then show ?thesis by (simp add: ResetVersions_def)
qed

lemma reset_current: "is_current (ResetVersions s i) j \<longleftrightarrow> j = i \<and> is_current s i"
  by (auto simp: is_current_def reset_versions split: if_splits)

lemma reset_inv [simp]: "omap_inv (s_versions (ResetVersions s i)) \<longleftrightarrow> omap_inv (s_versions s)"
proof -
  have "map fst (s_versions (ResetVersions s i)) = map fst (s_versions s)" by (simp add: ResetVersions_def split_beta)
  then show ?thesis by (simp add: omap_inv_def)
qed

lemma reset_keeps_one: "omap_inv (s_versions s) \<Longrightarrow> at_most_one (ResetVersions s i)"
  by (simp add: at_most_one_def reset_current)

text \<open>A change of the stages that leaves \<open>AWSCURRENT\<close> alone.\<close>

lemma stage_keeps_one:
  assumes "at_most_one s" "\<And>v. ''AWSCURRENT'' \<in> set (v_stages (f v)) \<longleftrightarrow> ''AWSCURRENT'' \<in> set (v_stages v)"
  shows "at_most_one (change_version now i f s)"
proof -
  have inv: "omap_inv (s_versions s)" using assms(1) by (simp add: at_most_one_def)
  have "is_current (change_version now i f s) j \<longleftrightarrow> is_current s j" for j
    using assms(2) version_current [OF inv, of i now] by (simp add: current_change)
  then show ?thesis using assms(1) inv by (simp add: at_most_one_def)
qed

lemma move_keeps_one:
  assumes "at_most_one s" shows "at_most_one (move_stage now d s)"
proof (cases "sg_versionStage d = ''AWSCURRENT''")
  case True
  have inv: "omap_inv (s_versions (move_stage now d s))" using True assms by (simp add: at_most_one_def move_stage_def)
  have "is_current (move_stage now d s) j \<Longrightarrow> j = sg_moveToVersionId d" for j
    using True by (simp add: move_stage_def current_change reset_current split: if_splits)
  then show ?thesis using inv unfolding at_most_one_def by blast
next
  case False
  let ?t = "change_version now (sg_moveToVersionId d) (add_stage (sg_versionStage d)) s"
  have t: "at_most_one ?t" using False by (intro stage_keeps_one [OF assms]) (simp add: add_stage_def)
  have "at_most_one (change_version now k (drop_stage (sg_versionStage d)) ?t)" for k
    using False by (intro stage_keeps_one [OF t]) (simp add: drop_stage_def)
  then show ?thesis using False t by (simp add: move_stage_def Let_def)
qed

subsection \<open>The invariant of the operations\<close>

definition secrets_ok :: "conf_world \<Rightarrow> bool" where
  "secrets_ok w \<longleftrightarrow> (\<forall>(k, s)\<in>set (kw_secrets w). at_most_one s)"

text \<open>Actions that leave the secrets alone.\<close>

definition off_secrets :: "(conf_world, 'a) action \<Rightarrow> bool" where
  "off_secrets a \<longleftrightarrow> (\<forall>w. kw_secrets (fst (a w)) = kw_secrets w)"

lemma off_keeps: "off_secrets a \<Longrightarrow> keeps secrets_ok a"
  by (simp add: off_secrets_def keeps_def secrets_ok_def)

lemma off_iff: "off_secrets a \<longleftrightarrow> (\<forall>S. keeps (\<lambda>w. kw_secrets w = S) a)"
  by (auto simp: off_secrets_def keeps_def)

lemma off_bind: "off_secrets a \<Longrightarrow> (\<And>x. off_secrets (f x)) \<Longrightarrow> off_secrets (act_bind a f)"
  unfolding off_iff by (intro allI keeps_bind) simp_all

lemma off_keys: "off_secrets (on_keys f)"
  by (simp add: off_secrets_def on_keys_def split: prod.splits)

lemma off_params: "off_secrets (on_params f)"
  by (simp add: off_secrets_def on_params_def split: prod.splits)

lemma off_basic: "off_secrets (act_return x)" "off_secrets (give r)" "off_secrets (act_throw e)" "off_secrets (act_read g)"
  by (simp_all add: off_secrets_def give_def run_simps)

lemma off_check: "off_secrets a \<Longrightarrow> off_secrets (act_check P e a)"
  by (simp add: off_secrets_def act_check_def)

lemma off_if: "off_secrets a \<Longrightarrow> off_secrets b \<Longrightarrow> off_secrets (if c then a else b)"
  by simp

lemmas off_rules = off_bind off_keys off_params off_basic off_check off_if

lemma off_kms: "off_secrets (kms_Encrypt env now keyId s)" "off_secrets (kms_Decrypt env now keyId s)"
  unfolding kms_Encrypt_def kms_Decrypt_def need_key_def by (intro off_rules)+

lemma off_EncryptSecret: "off_secrets (EncryptSecret env now keyId s v)" "off_secrets (DecryptSecret env now keyId s)"
  "off_secrets (GetSecretString env now t)"
  unfolding EncryptSecret_def DecryptSecret_def GetSecretString_def by (intro off_rules off_kms)+

lemma off_CreateKmsKey: "off_secrets (CreateKmsKey env ids n)"
proof -
  have "off_secrets (kms_CreateKey env t k u d)" for t k u d
    unfolding kms_CreateKey_def by (intro off_rules) (simp add: off_secrets_def)
  moreover have "off_secrets (kms_CreateKmsKey t mt k)" for t mt k unfolding kms_CreateKmsKey_def by (intro off_rules)
  then have "off_secrets (kms_WaitForKey t mt b k)" for t mt b k
    by (simp add: off_secrets_def kms_WaitForKey_def run_key_task_def run_return)
  ultimately show ?thesis unfolding CreateKmsKey_def by (intro off_rules)
qed

text \<open>What an action gives, apart from what it does to the state.\<close>

definition gives :: "(conf_world, 'a) action \<Rightarrow> ('a \<Rightarrow> bool) \<Rightarrow> bool" where
  "gives a Q \<longleftrightarrow> (\<forall>w. case a w of (_, Inr x) \<Rightarrow> Q x | _ \<Rightarrow> True)"

lemma gives_bind: "(\<And>x. gives (f x) Q) \<Longrightarrow> gives (act_bind a f) Q"
proof -
  assume f: "\<And>x. gives (f x) Q"
  have "case act_bind a f w of (_, Inr x) \<Rightarrow> Q x | _ \<Rightarrow> True" for w
    using f by (cases rule: run_bind_cases [of a w f]) (simp_all add: gives_def)
  then show ?thesis by (simp add: gives_def)
qed

lemma gives_return: "Q x \<Longrightarrow> gives (act_return x) Q"
  by (simp add: gives_def run_simps)

lemma keeps_bind_gives:
  assumes "keeps I a" "gives a Q" "\<And>x. Q x \<Longrightarrow> keeps I (f x)" shows "keeps I (act_bind a f)"
proof (rule keeps_bind_triple [where Q = "\<lambda>x w. I w \<and> Q x"])
  show "triple I I a (\<lambda>x w. I w \<and> Q x)"
    using assms(1,2) by (auto simp: triple_def keeps_def gives_def split: sum.splits prod.splits)
  show "triple I (\<lambda>w. I w \<and> Q x) (f x) (\<lambda>_. I)" for x
    using assms(3) [of x] by (cases "Q x") (auto simp: keeps_triple triple_def)
qed

text \<open>Secrets that are read or written.\<close>

lemma get_secret_keeps:
  assumes "\<And>s. at_most_one s \<Longrightarrow> keeps secrets_ok (f s)"
  shows "keeps secrets_ok (act_bind (on_secrets (\<lambda>ss. get_or (default_secret now) set_s_oid P ss)) f)"
proof (rule keeps_bind_triple [where Q = "\<lambda>s w. secrets_ok w \<and> at_most_one s"])
  have d: "at_most_one (default_secret now)" by (simp add: at_most_one_def is_current_def default_secret_def)
  have o: "at_most_one (set_s_oid k s) \<longleftrightarrow> at_most_one s" for k s by (rule at_most_one_same) (simp add: set_s_oid_def)
  show "triple secrets_ok secrets_ok (on_secrets (\<lambda>ss. get_or (default_secret now) set_s_oid P ss)) (\<lambda>s w. secrets_ok w \<and> at_most_one s)"
    unfolding triple_def
  proof (intro allI impI)
    fix w assume w: "secrets_ok w"
    show "case on_secrets (\<lambda>ss. get_or (default_secret now) set_s_oid P ss) w of (s', Inl e) \<Rightarrow> secrets_ok s' | (s', Inr x) \<Rightarrow> secrets_ok s' \<and> at_most_one x"
    proof (cases "find_if P (kw_secrets w)")
      case None
      then show ?thesis using w d by (simp add: on_secrets_def get_or_def stamp_found_def)
    next
      case (Some ke)
      obtain k e where ke: "ke = (k, e)" by (cases ke)
      have "at_most_one e" using find_if_SomeD [of P "kw_secrets w" k e] Some ke w by (auto simp: secrets_ok_def)
      then show ?thesis using w Some ke o
        by (auto simp: on_secrets_def get_or_def stamp_found_def secrets_ok_def assign_def set_modify)
    qed
  qed
  show "triple secrets_ok (\<lambda>w. secrets_ok w \<and> at_most_one x) (f x) (\<lambda>_. secrets_ok)" for x
    using assms [of x] by (cases "at_most_one x") (auto simp: keeps_triple triple_def)
qed

lemmas get_keeps = get_secret_keeps [where P = "\<lambda>(_, s). s_arn s = arn" for arn, folded sec_GetSecretByArn_def]
  get_secret_keeps [where P = "\<lambda>(_, s). s_secretId s = i" for i, folded sec_GetSecretBySecretId_def]

lemma update_keeps: "at_most_one s \<Longrightarrow> keeps secrets_ok (update_secret now s)"
  by (auto simp: keeps_def on_secrets_def sec_UpdateSecret_def replace_found_def secrets_ok_def assign_def set_modify split: option.splits)

lemma create_keeps:
  assumes "at_most_one s" shows "keeps secrets_ok (on_secrets (\<lambda>ss. sec_CreateSecret lay uuid now ss s))"
proof -
  have o: "at_most_one (set_s_oid k t) \<longleftrightarrow> at_most_one t" for k t by (rule at_most_one_same) (simp add: set_s_oid_def)
  have i: "\<forall>(k, t)\<in>set (hmap_insert lay uuid s ss). at_most_one t" if "\<forall>(k, t)\<in>set ss. at_most_one t" for ss
    using that assms by (auto simp: hmap_insert_def assign_def set_modify)
  have g: "\<forall>(k, t)\<in>set (fst (get_or d set_s_oid P m)). at_most_one t" if "\<forall>(k, t)\<in>set m. at_most_one t" for d P m
    using that o find_if_SomeD [of P m] by (fastforce simp: get_or_def stamp_found_def assign_def set_modify split: option.splits)
  have "secrets_ok (fst (on_secrets (\<lambda>ss. sec_CreateSecret lay uuid now ss s) w))" if "secrets_ok w" for w
    using g [OF i [OF that [unfolded secrets_ok_def]]]
    by (simp add: secrets_ok_def on_secrets_def sec_CreateSecret_def sec_GetSecretById_def split_beta)
  then show ?thesis by (simp add: keeps_def)
qed

text \<open>A fault before or behind the change does no harm; the rules take an operation apart.\<close>

lemmas api_rules = get_keeps update_keeps keeps_return keeps_check keeps_if off_keeps off_basic off_kms off_EncryptSecret

lemma keeps_off_bind: "off_secrets a \<Longrightarrow> (\<And>x. keeps secrets_ok (f x)) \<Longrightarrow> keeps secrets_ok (act_bind a f)"
  by (rule keeps_bind [OF off_keeps])

lemma keeps_reading:
  "keeps secrets_ok (secm_DescribeSecret env now region i)"
  "keeps secrets_ok (secm_ListSecretVersionIds env now region i)"
  "keeps secrets_ok (secm_ListSecretVersionCounters now i)"
  "keeps secrets_ok (secm_GetSecretDetails env now i)"
  unfolding secm_DescribeSecret_def secm_ListSecretVersionIds_def secm_ListSecretVersionCounters_def secm_GetSecretDetails_def
    need_secret_def need_secret_id_def Let_def
  by (intro api_rules keeps_bind)+

lemma keeps_GetSecretValue: "keeps secrets_ok (secm_GetSecretValue env clock region i v t)"
proof -
  have "off_secrets (read_value env now s j)" for now s j
    unfolding read_value_def Let_def by (intro off_rules off_EncryptSecret)
  moreover have "at_most_one (s\<lparr>s_lastAccessedDate := t\<rparr>) \<longleftrightarrow> at_most_one s" for s t by (rule at_most_one_same) simp
  ultimately show ?thesis unfolding secm_GetSecretValue_def need_secret_def Let_def
    by (intro api_rules keeps_off_bind keeps_bind) simp_all
qed

lemma keeps_CreateSecret: "keeps secrets_ok (secm_CreateSecret env ids d)"
proof -
  have v: "off_secrets (first_version env ids d k)" for k
    unfolding first_version_def Let_def by (intro off_rules off_EncryptSecret)
  have one: "at_most_one (secret_to_create env ids d k v)" for k v
    by (simp add: at_most_one_def is_current_def secret_to_create_def)
  show ?thesis unfolding secm_CreateSecret_def
    by (intro keeps_check keeps_off_bind keeps_bind keeps_return off_if off_CreateKmsKey off_basic v create_keeps one)
qed

lemma keeps_PutSecretValue:
  assumes "''AWSCURRENT'' \<notin> set (pv_versionStage d)"
  shows "keeps secrets_ok (secm_PutSecretValue env clock uuid d)"
proof -
  have e: "gives (EncryptSecret env now k t v) (\<lambda>u. v_stages u = v_stages v)" for now k t and v :: secret_version
    unfolding EncryptSecret_def by (intro gives_bind gives_return) simp
  have g: "gives (new_value env now k d v) (\<lambda>u. v_stages u = v_stages v)" for now k and v :: secret_version
    unfolding new_value_def by (auto intro!: gives_bind gives_return e)
  have o: "off_secrets (new_value env now k d v)" for now k v
    unfolding new_value_def by (intro off_rules off_EncryptSecret off_kms)
  have put: "keeps secrets_ok (act_bind (new_value env t1 (s_kmsKeyId s) d ((default_secret_version t1)\<lparr>v_stages := new_stages (pv_versionStage d)\<rparr>)) (\<lambda>v.
      act_bind (update_secret t3 ((change_version t1 i (\<lambda>_. v) (make_room t1 (pv_versionStage d) s))\<lparr>s_lastAccessedDate := t2\<rparr>)) (\<lambda>_. act_return (x v))))"
    if "at_most_one s" for s i t1 t2 t3 x
  proof (rule keeps_bind_gives [OF off_keeps [OF o] g], intro keeps_bind update_keeps keeps_return)
    fix v :: secret_version assume v: "v_stages v = v_stages ((default_secret_version t1)\<lparr>v_stages := new_stages (pv_versionStage d)\<rparr>)"
    show "at_most_one ((change_version t1 i (\<lambda>_. v) (make_room t1 (pv_versionStage d) s))\<lparr>s_lastAccessedDate := t2\<rparr>)"
      using put_keeps_one [OF that assms, of v t1 i] v by (subst at_most_one_same) simp_all
  qed
  show ?thesis unfolding secm_PutSecretValue_def need_secret_def Let_def
    by (intro keeps_check get_keeps put)
qed

lemma keeps_UpdateSecret: "keeps secrets_ok (secm_UpdateSecret env clock uuid d)"
proof -
  have o: "off_secrets (updated_version env now k d)" for now k
    unfolding updated_version_def by (intro off_rules off_kms)
  have one: "at_most_one (ResetVersions ((change_version now i f s)\<lparr>s_description := x, s_lastChangedDate := t, s_rotationEnabled := b\<rparr>) j)"
    if "at_most_one s" for now i f s x t b j
    using that by (intro reset_keeps_one) (simp add: at_most_one_def)
  show ?thesis unfolding secm_UpdateSecret_def need_secret_id_def
    by (intro keeps_check get_keeps keeps_off_bind o keeps_bind keeps_return update_keeps one)
qed

lemma keeps_UpdateSecretDetails: "keeps secrets_ok (secm_UpdateSecretDetails env clock d)"
proof -
  have sch: "off_secrets (schedule_again now old s)" "gives (schedule_again now old s) (\<lambda>t. s_versions t = s_versions s)" for now old s
    unfolding schedule_again_def by (intro off_rules) (auto intro!: gives_bind gives_return)
  have rep: "off_secrets (replace_value env now t s)" for now t s
    unfolding replace_value_def by (intro off_rules off_EncryptSecret)
  have e: "gives (EncryptSecret env now k t v) (\<lambda>u. v_stages u = v_stages v)" for now k t and v :: secret_version
    unfolding EncryptSecret_def by (intro gives_bind gives_return) simp
  have one: "gives (replace_value env now t s) at_most_one" if "at_most_one s" for now t s
  proof -
    let ?i = "GetCurrentVersionId s"
    have inv: "omap_inv (s_versions s)" using that by (simp add: at_most_one_def)
    have "at_most_one (change_version now ?i (\<lambda>_. u) s)" if "v_stages u = v_stages (GetVersion now s ?i)" for u
    proof -
      have "is_current (change_version now ?i (\<lambda>_. u) s) j \<longleftrightarrow> is_current s j" for j
        using that version_current [OF inv, of ?i now] by (simp add: current_change)
      then show ?thesis using \<open>at_most_one s\<close> inv by (simp add: at_most_one_def)
    qed
    then show ?thesis using that
      by (auto simp: replace_value_def gives_def act_bind_def EncryptSecret_def run_return split: sum.splits prod.splits if_splits)
  qed
  have wr: "at_most_one (with_rules d s)" if "at_most_one s" for s
    using that by (subst at_most_one_same [of _ s]) (simp_all add: with_rules_def)
  have same: "at_most_one t" if "s_versions t = s_versions (with_rules d s)" "at_most_one s" for t s
    using wr [OF that(2)] that(1) at_most_one_same by blast
  show ?thesis unfolding secm_UpdateSecretDetails_def need_secret_id_def
    by (intro keeps_check get_keeps keeps_bind_gives [OF off_keeps [OF sch(1)] sch(2)] keeps_bind_gives [OF off_keeps [OF rep] one]
      keeps_bind update_keeps keeps_return off_keeps off_EncryptSecret) (auto intro: same)
qed

lemma pending_one: "at_most_one s \<Longrightarrow> at_most_one (set_stages now i AWSPENDING s)"
  by (rule keeps_one_demote) simp_all

lemma off_start: "off_secrets (start_rotation s token)"
  by (simp add: off_secrets_def start_rotation_def)

lemma keeps_RotateSecret: "keeps secrets_ok (secm_RotateSecret env clock d)"
proof -
  have "at_most_one (s\<lparr>s_lastRotatedDate := t, s_rotationEnabled := True, s_rotationLambdaARN := a\<rparr>) \<longleftrightarrow> at_most_one s" for s t a
    by (rule at_most_one_same) simp
  then show ?thesis unfolding secm_RotateSecret_def need_secret_def Let_def
    by (intro keeps_check get_keeps keeps_bind keeps_return update_keeps pending_one off_keeps off_if off_start off_basic) simp
qed

lemma keeps_UpdateSecretVersionStage: "keeps secrets_ok (secm_UpdateSecretVersionStage env clock d)"
proof -
  have "at_most_one ((move_stage now d s)\<lparr>s_modified := t\<rparr>)" if "at_most_one s" for now t s
    using move_keeps_one [OF that] by (subst at_most_one_same) simp_all
  then show ?thesis unfolding secm_UpdateSecretVersionStage_def need_secret_def Let_def
    by (intro keeps_check get_keeps keeps_bind keeps_return update_keeps) simp_all
qed

lemma keeps_DeleteSecret: "keeps secrets_ok (secm_DeleteSecret env now region i)"
proof -
  have "keeps secrets_ok (on_secrets (\<lambda>ss. (sec_DeleteSecret ss s, ())))" for s
    by (simp add: keeps_def on_secrets_def secrets_ok_def sec_DeleteSecret_def)
  then show ?thesis unfolding secm_DeleteSecret_def need_secret_def Let_def
    by (intro keeps_check get_keeps keeps_bind keeps_return)
qed

lemma keeps_checkRotations: "keeps secrets_ok (srv_secm_checkRotations now clock uuids)"
  unfolding keeps_def
proof (intro allI impI)
  fix w assume w: "secrets_ok w"
  have "keeps secrets_ok (check_rotation now clock uuids i s)" if "at_most_one s" for i s
  proof -
    have "at_most_one (s\<lparr>s_lastRotatedDate := now\<rparr>)" using that by (subst at_most_one_same) simp_all
    then show ?thesis unfolding check_rotation_def
      by (intro keeps_if keeps_bind keeps_return update_keeps pending_one off_keeps off_start)
  qed
  moreover have "at_most_one s" if "s \<in> set (sec_ListSecrets (kw_secrets w))" for s
    using that w by (auto simp: sec_ListSecrets_def values_of_def secrets_ok_def)
  ultimately have "keeps secrets_ok (act_each (check_rotation now clock uuids) 0 (sec_ListSecrets (kw_secrets w)))"
    by (intro keeps_each) blast
  then show "secrets_ok (fst (srv_secm_checkRotations now clock uuids w))"
    using w by (simp add: srv_secm_checkRotations_def run_bind(1) [OF run_read] keepsD)
qed

subsection \<open>The machine\<close>

text \<open>The calls of the API, and what leaves the secrets alone.\<close>

inductive secrets_api :: "(conf_world \<Rightarrow> conf_world) \<Rightarrow> bool" where
  api_create: "secrets_api (\<lambda>w. fst (secm_CreateSecret env ids d w))"
| api_describe: "secrets_api (\<lambda>w. fst (secm_DescribeSecret env now region i w))"
| api_get_value: "secrets_api (\<lambda>w. fst (secm_GetSecretValue env clock region i v t w))"
| api_put_value: "''AWSCURRENT'' \<notin> set (pv_versionStage p) \<Longrightarrow> secrets_api (\<lambda>w. fst (secm_PutSecretValue env clock uuid p w))"
| api_version_ids: "secrets_api (\<lambda>w. fst (secm_ListSecretVersionIds env now region i w))"
| api_version_counters: "secrets_api (\<lambda>w. fst (secm_ListSecretVersionCounters now i w))"
| api_details: "secrets_api (\<lambda>w. fst (secm_GetSecretDetails env now i w))"
| api_update: "secrets_api (\<lambda>w. fst (secm_UpdateSecret env clock uuid u w))"
| api_update_details: "secrets_api (\<lambda>w. fst (secm_UpdateSecretDetails env clock e w))"
| api_rotate: "secrets_api (\<lambda>w. fst (secm_RotateSecret env clock r w))"
| api_stage: "secrets_api (\<lambda>w. fst (secm_UpdateSecretVersionStage env clock g w))"
| api_delete: "secrets_api (\<lambda>w. fst (secm_DeleteSecret env now region i w))"
| api_other: "(\<And>w. kw_secrets (f w) = kw_secrets w) \<Longrightarrow> secrets_api f"

text \<open>What a function of a rotation does.\<close>

inductive secrets_script :: "(conf_world \<Rightarrow> conf_world) \<Rightarrow> bool" where
  script_end: "secrets_script (\<lambda>w. w)"
| script_call: "secrets_api f \<Longrightarrow> secrets_script g \<Longrightarrow> secrets_script (\<lambda>w. g (f w))"
| script_branch: "secrets_script f \<Longrightarrow> secrets_script g \<Longrightarrow> secrets_script (\<lambda>w. if P w then f w else g w)"

definition scripted :: "rotation_env \<Rightarrow> bool" where
  "scripted ro \<longleftrightarrow> (\<forall>fn i region token t. secrets_script (\<lambda>w. fst (ro_invoke ro fn i region token t w)))"

inductive secrets_step :: "conf_world \<Rightarrow> conf_world \<Rightarrow> bool" where
  step_api: "secrets_api f \<Longrightarrow> secrets_step w (f w)"
| step_rotation: "scripted ro \<Longrightarrow> secrets_step w (fst (run_rotation ro clock w))"
| step_check: "secrets_step w (fst (srv_secm_checkRotations now clock uuids w))"

inductive secrets_reachable :: "conf_world \<Rightarrow> bool" where
  reach_start: "kw_secrets w = [] \<Longrightarrow> secrets_reachable w"
| reach_step: "secrets_reachable w \<Longrightarrow> secrets_step w w' \<Longrightarrow> secrets_reachable w'"

lemma api_ok: "secrets_api f \<Longrightarrow> secrets_ok w \<Longrightarrow> secrets_ok (f w)"
proof (induction rule: secrets_api.induct)
  case (api_other f)
  then show ?case by (simp add: secrets_ok_def)
qed (simp_all add: keepsD keeps_reading keeps_GetSecretValue keeps_CreateSecret keeps_PutSecretValue keeps_UpdateSecret
    keeps_UpdateSecretDetails keeps_RotateSecret keeps_UpdateSecretVersionStage keeps_DeleteSecret)

lemma script_ok: "secrets_script f \<Longrightarrow> secrets_ok w \<Longrightarrow> secrets_ok (f w)"
  by (induction arbitrary: w rule: secrets_script.induct) (simp_all add: api_ok)

lemma rotation_ok:
  assumes "scripted ro" shows "keeps secrets_ok (run_rotation ro clock)"
proof -
  have inv: "keeps secrets_ok (ro_invoke ro fn i region token t)" for fn i region token t
    using script_ok [where f = "\<lambda>w. fst (ro_invoke ro fn i region token t w)"] assms by (simp add: keeps_def scripted_def)
  have "keeps secrets_ok (rotation_step ro fn s token t)" for fn s token t
    unfolding rotation_step_def
  proof (rule keeps_bind [OF inv])
    show "keeps secrets_ok (case x of (status, body) \<Rightarrow>
        if status < 200 \<or> status \<ge> 300 then act_throw (ServiceException (''Lambda invocation failed, function: '' @ fn @ '', status: '' @ ro_status_text ro status @ '', body: '' @ body))
        else case ro_reported_error ro body of None \<Rightarrow> act_return ()
        | Some e \<Rightarrow> act_throw (ServiceException (''Lambda function reported an error, function: '' @ fn @ '', error: '' @ e)))" for x
      by (auto intro: keeps_return keeps_throw split: prod.splits option.splits)
  qed
  moreover have "off_secrets (find_rotation_lambda a)" for a
    by (auto simp: off_secrets_def find_rotation_lambda_def split: sum.splits)
  ultimately have steps: "keeps secrets_ok (rotation_steps ro s token)" for s token
    unfolding rotation_steps_def by (intro keeps_off_bind keeps_each) auto
  have next_ok: "at_most_one (s\<lparr>s_nextRotatedDate := t\<rparr>) \<longleftrightarrow> at_most_one s" for s t by (rule at_most_one_same) simp
  have sw: "keeps secrets_ok a \<Longrightarrow> keeps secrets_ok (swallow a)" for a
    by (auto simp: keeps_def swallow_def split: prod.splits sum.splits fault.splits)
  have "keeps secrets_ok (SecretRotation_run ro clock s token)" for s token
    unfolding SecretRotation_run_def
    by (intro sw keeps_bind [OF steps] get_keeps keeps_off_bind off_basic keeps_bind update_keeps keeps_return) (simp add: next_ok)
  moreover have "secrets_ok (w\<lparr>kw_rotations := r\<rparr>) \<longleftrightarrow> secrets_ok w" for w r by (simp add: secrets_ok_def)
  ultimately show ?thesis
    by (auto simp: keeps_def run_rotation_def split: list.splits)
qed

lemma reachable_ok: "secrets_reachable w \<Longrightarrow> secrets_ok w"
proof (induction rule: secrets_reachable.induct)
  case (reach_start w)
  then show ?case by (simp add: secrets_ok_def)
next
  case (reach_step w w')
  from reach_step(2,3) show ?case
    by (cases rule: secrets_step.cases) (auto intro: api_ok keepsD [OF rotation_ok] keepsD [OF keeps_checkRotations])
qed

end
