(* ===== verification/SecretsServiceProps.thy ===== *)
theory SecretsServiceProps
  imports ConfigServiceProps SecretsSteps
begin

text \<open>
  What the secrets manager promises: a new secret with a key of its own is read back, if the key is made in time; in
  every state the service reaches, whatever the functions of the rotations do, no secret has two current versions;
  and which rotations a check starts.
\<close>

subsection \<open>A key that is made for a secret\<close>

lemma omap_insert_twice [simp]: "omap_insert k b (omap_insert k a m) = omap_insert k b m"
  by (induction k a m rule: omap_insert.induct) auto

lemma assign_inserted: "omap_inv m \<Longrightarrow> assign k b (omap_insert k a m) = omap_insert k b m"
  using omap_insert_present [of "omap_insert k a m" k b] by (simp add: omap_inv_insert keys_omap_insert)

text \<open>The state with a key, and with its material.\<close>

definition with_key :: "uuid \<Rightarrow> kms_key \<Rightarrow> conf_world \<Rightarrow> conf_world" where
  "with_key uuid k w = w\<lparr>kw_keys := omap_insert uuid k (kw_keys w)\<rparr>"

lemma with_key_pending: "(with_key uuid k w)\<lparr>kw_pending := p\<rparr> = with_key uuid k (w\<lparr>kw_pending := p\<rparr>)"
  by (cases w) (simp add: with_key_def)

lemma pending_with_key [simp]: "kw_pending (with_key uuid k w) = kw_pending w"
  by (simp add: with_key_def)

lemma find_key_inserted:
  assumes "conf_fine w" "key_at w (k_keyId k) = None" "k_keyId k' = k_keyId k"
  shows "find_if (\<lambda>(_, q). k_keyId q = k_keyId k) (omap_insert uuid k' (kw_keys w)) = Some (uuid, k')"
  using assms by (intro find_None_ins) (simp_all add: conf_fine_def key_at_def)

lemma with_key_fine: "conf_fine w \<Longrightarrow> k_oid k = uuid \<Longrightarrow> conf_fine (with_key uuid k w)"
  by (simp add: conf_fine_def with_key_def omap_inv_insert all_stamped_omap_insert)

lemma with_key_at: "conf_fine w \<Longrightarrow> key_at w (k_keyId k) = None \<Longrightarrow> key_at (with_key uuid k w) (k_keyId k) = Some k"
  using find_key_inserted [of w k k uuid] by (simp add: key_at_def with_key_def)

lemma create_material_run:
  fixes uuid :: uuid and mt :: key_material
  assumes "conf_fine w" "key_at w (k_keyId k) = None"
  defines "k' \<equiv> (add_material mt (k\<lparr>k_oid := uuid\<rparr>))\<lparr>k_keyState := ''Enabled''\<rparr>"
  shows "kms_CreateKmsKey now mt (k_keyId k) (with_key uuid k w) = (with_key uuid k' w, Inr ())"
proof -
  have inv: "omap_inv (kw_keys w)" using assms(1) by (simp add: conf_fine_def)
  have id: "k_keyId k' = k_keyId k" by (simp add: k'_def add_material_def split: key_spec.splits)
  have e: "KeyStateToString KEY_ENABLED = ''Enabled''" by (simp add: KeyStateToString_def enum_to_string_def key_state_names_def)
  have g: "get_key now (k_keyId k) (with_key uuid k w) = (with_key uuid (k\<lparr>k_oid := uuid\<rparr>) w, Inr (k\<lparr>k_oid := uuid\<rparr>))"
    using find_key_inserted [OF assms(1,2), of k uuid]
    by (simp add: on_keys_def kms_getKeyByKeyId_def get_or_def stamp_found_def with_key_def set_k_oid_def assign_inserted [OF inv])
  have u: "update_key k' (with_key uuid (k\<lparr>k_oid := uuid\<rparr>) w) = (with_key uuid k' w, Inr k')"
    using find_key_inserted [OF assms(1,2), of "k\<lparr>k_oid := uuid\<rparr>" uuid] id
    by (simp add: on_keys_def kms_updateKey_def replace_found_def with_key_def assign_inserted [OF inv])
  show ?thesis
    using u by (simp add: kms_CreateKmsKey_def e run_bind(1) [where a = "get_key now (k_keyId k)", OF g] run_bind(1) run_return flip: k'_def)
qed

text \<open>The key of a secret, as it is created and with its material.\<close>

definition secret_key :: "conf_env \<Rightarrow> secret_ids \<Rightarrow> string \<Rightarrow> kms_key" where
  "secret_key env ids n = key_to_create env (si_clock ids 0) (si_keyId ids)
     \<lparr>ck_region = [], ck_keySpec = SYMMETRIC_DEFAULT, ck_keyUsage = ENCRYPT_DECRYPT, ck_description = ''KMS key for secret '' @ n,
      ck_policy = [], ck_tags = []\<rparr>"

definition made_key :: "conf_env \<Rightarrow> secret_ids \<Rightarrow> string \<Rightarrow> kms_key" where
  "made_key env ids n = (secret_key env ids n)\<lparr>k_oid := si_key_uuid ids, k_aes256Key := mt_aes (si_material ids),
     k_aes256Iv := mt_iv (si_material ids), k_keyState := ''Enabled''\<rparr>"

lemma secret_key_sel [simp]: "k_keyId (secret_key env ids n) = si_keyId ids" "k_keySpec (secret_key env ids n) = ''SYMMETRIC_DEFAULT''"
  "k_aes256Key (secret_key env ids n) = []"
  by (simp_all add: secret_key_def key_to_create_def default_key_def KeySpecToString_def enum_to_string_def key_spec_names_def)

lemma made_key_sel [simp]: "k_keyId (made_key env ids n) = si_keyId ids" "k_oid (made_key env ids n) = si_key_uuid ids"
  by (simp_all add: made_key_def)

lemma made_key_usable: "64 \<le> length (mt_aes (si_material ids)) \<Longrightarrow> usable_key (made_key env ids n)"
  by (simp add: usable_key_def made_key_def)

lemma made_key_material:
  "(add_material (si_material ids) ((secret_key env ids n)\<lparr>k_oid := si_key_uuid ids\<rparr>))\<lparr>k_keyState := ''Enabled''\<rparr> = made_key env ids n"
  using spec_symmetric [of "secret_key env ids n"] by (simp add: add_material_def made_key_def)

lemma CreateKmsKey_run:
  assumes "conf_fine w" "key_at w (si_keyId ids) = None"
  shows "CreateKmsKey env ids n w =
     (if si_in_time ids
      then ((with_key (si_key_uuid ids) (made_key env ids n) w)\<lparr>kw_pending := removeAll (si_keyId ids) (kw_pending w)\<rparr>, Inr (si_keyId ids))
      else ((with_key (si_key_uuid ids) (secret_key env ids n) w)\<lparr>kw_pending := kw_pending w @ [si_keyId ids]\<rparr>, Inr (si_keyId ids)))"
proof -
  let ?d = "\<lparr>ck_region = [], ck_keySpec = SYMMETRIC_DEFAULT, ck_keyUsage = ENCRYPT_DECRYPT, ck_description = ''KMS key for secret '' @ n,
      ck_policy = [], ck_tags = []\<rparr>"
  let ?k = "secret_key env ids n"
  have c: "\<exists>m. kms_CreateKey env (si_clock ids 0) (si_keyId ids) (si_key_uuid ids) ?d w =
      ((with_key (si_key_uuid ids) ?k w)\<lparr>kw_pending := kw_pending w @ [si_keyId ids]\<rparr>, Inr m) \<and> dk_keyId m = si_keyId ids"
    using secret_key_sel(1) [of env ids n, unfolded secret_key_def]
    by (simp add: kms_CreateKey_def act_bind_def on_keys_def kms_createKey_def with_key_def secret_key_def)
  then obtain m where c: "kms_CreateKey env (si_clock ids 0) (si_keyId ids) (si_key_uuid ids) ?d w =
      ((with_key (si_key_uuid ids) ?k w)\<lparr>kw_pending := kw_pending w @ [si_keyId ids]\<rparr>, Inr m)" and m: "dk_keyId m = si_keyId ids"
    by blast
  let ?w = "w\<lparr>kw_pending := removeAll (si_keyId ids) (kw_pending w)\<rparr>"
  have "conf_fine ?w" "key_at ?w (k_keyId ?k) = None" using assms by (simp_all add: conf_fine_def key_at_def)
  note r = create_material_run [OF this, where uuid = "si_key_uuid ids" and mt = "si_material ids" and now = "si_clock ids 1", unfolded made_key_material]
  show ?thesis
  proof (cases "si_in_time ids")
    case True
    have "kms_WaitForKey (si_clock ids 1) (si_material ids) True (si_keyId ids) ((with_key (si_key_uuid ids) ?k w)\<lparr>kw_pending := kw_pending w @ [si_keyId ids]\<rparr>)
      = ((with_key (si_key_uuid ids) (made_key env ids n) w)\<lparr>kw_pending := removeAll (si_keyId ids) (kw_pending w)\<rparr>, Inr ())"
      using r by (simp add: kms_WaitForKey_def run_key_task_def with_key_pending)
    then show ?thesis using True m c by (simp add: CreateKmsKey_def act_bind_def run_return)
  next
    case False
    then show ?thesis using m c by (simp add: CreateKmsKey_def act_bind_def kms_WaitForKey_def run_return)
  qed
qed

subsection \<open>A secret that is created\<close>

definition secret_at :: "conf_world \<Rightarrow> string \<Rightarrow> secret option" where
  "secret_at w arn = map_option snd (find_if (\<lambda>(_, s). s_arn s = arn) (kw_secrets w))"

lemma secret_exists_iff: "sec_SecretExistsByArn (kw_secrets w) arn \<longleftrightarrow> secret_at w arn \<noteq> None"
  by (simp add: sec_SecretExistsByArn_def secret_at_def found_def)

lemma secret_at_other [simp]: "secret_at (with_key uuid k w) arn = secret_at w arn" "secret_at (w\<lparr>kw_pending := p\<rparr>) arn = secret_at w arn"
  by (simp_all add: secret_at_def with_key_def)

lemma get_secret_run:
  assumes "conf_fine w" "secret_at w arn = Some s"
  shows "get_secret now arn w = (w, Inr s)"
proof -
  have "sec_GetSecretByArn now (kw_secrets w) arn = (kw_secrets w, s)"
    using assms unfolding sec_GetSecretByArn_def conf_fine_def secret_at_def
    by (auto simp: sec_s.get_or_stamped split: option.splits prod.splits)
  then show ?thesis by (simp add: on_secrets_def)
qed

text \<open>The state with a secret under a new object id.\<close>

definition with_secret :: "layout \<Rightarrow> uuid \<Rightarrow> secret \<Rightarrow> conf_world \<Rightarrow> conf_world" where
  "with_secret lay uuid s w = w\<lparr>kw_secrets := assign uuid (set_s_oid uuid s) (hmap_insert lay uuid s (kw_secrets w))\<rparr>"

lemma with_secret_keys [simp]: "key_at (with_secret lay uuid s w) keyId = key_at w keyId"
  by (simp add: with_secret_def)

lemma with_secret_map_of: "conf_fine w \<Longrightarrow> map_of (kw_secrets (with_secret lay uuid s w)) = (map_of (kw_secrets w))(uuid \<mapsto> set_s_oid uuid s)"
  by (auto simp: conf_fine_def with_secret_def store_simps map_of_hmap_insert fun_eq_iff)

lemma all_stamped_map_of: "wf_store m \<Longrightarrow> all_stamped oid m \<longleftrightarrow> (\<forall>k e. map_of m k = Some e \<longrightarrow> oid e = k)"
  unfolding all_stamped_def by (metis (mono_tags, lifting) case_prodI2 case_prodD wf_in_map_of)

lemma with_secret_fine: "conf_fine w \<Longrightarrow> conf_fine (with_secret lay uuid s w)"
proof -
  assume w: "conf_fine w"
  then have old: "\<forall>k e. map_of (kw_secrets w) k = Some e \<longrightarrow> s_oid e = k"
    using all_stamped_map_of [of "kw_secrets w" s_oid] by (simp add: conf_fine_def)
  have wf: "wf_store (kw_secrets (with_secret lay uuid s w))"
    using w by (simp add: conf_fine_def with_secret_def wf_hmap_insert)
  have "all_stamped s_oid (kw_secrets (with_secret lay uuid s w))"
    using old by (simp add: all_stamped_map_of [OF wf] with_secret_map_of [OF w] sec_s.oid_set)
  then show ?thesis using w wf by (simp add: conf_fine_def with_secret_def)
qed

lemma with_secret_at:
  assumes "conf_fine w" "secret_at w (s_arn s) = None"
  shows "secret_at (with_secret lay uuid s w) (s_arn s) = Some (set_s_oid uuid s)"
proof -
  have wf: "wf_store (kw_secrets (with_secret lay uuid s w))" "wf_store (kw_secrets w)"
    using with_secret_fine [OF assms(1)] assms(1) by (simp_all add: conf_fine_def)
  have no: "\<not> s_arn t = s_arn s" if "map_of (kw_secrets w) k = Some t" for k t
    using assms(2) that found_iff [of "\<lambda>(_, t). s_arn t = s_arn s" "kw_secrets w"] wf_in_map_of [OF wf(2)]
    by (auto simp: secret_at_def found_def)
  have "find_if (\<lambda>(_, t). s_arn t = s_arn s) (kw_secrets (with_secret lay uuid s w)) = Some (uuid, set_s_oid uuid s)"
  proof (rule find_only)
    show "(uuid, set_s_oid uuid s) \<in> set (kw_secrets (with_secret lay uuid s w))"
      by (simp add: wf_in_map_of [OF wf(1)] with_secret_map_of [OF assms(1)])
    show "x = (uuid, set_s_oid uuid s)" if "x \<in> set (kw_secrets (with_secret lay uuid s w))" "case x of (_, t) \<Rightarrow> s_arn t = s_arn s" for x
    proof (cases x)
      case (Pair j t)
      then have "map_of (kw_secrets (with_secret lay uuid s w)) j = Some t" using that(1) wf_in_map_of [OF wf(1)] by blast
      then show ?thesis using no [of j t] that(2) Pair by (simp add: with_secret_map_of [OF assms(1)] split: if_splits)
    qed
  qed (simp add: set_s_oid_def)
  then show ?thesis by (simp add: secret_at_def)
qed

lemma create_secret_run:
  assumes "conf_fine w"
  shows "on_secrets (\<lambda>ss. sec_CreateSecret lay uuid now ss s) w = (with_secret lay uuid s w, Inr (set_s_oid uuid s))"
proof -
  have wf: "wf_store (hmap_insert lay uuid s (kw_secrets w))" using assms by (simp add: conf_fine_def wf_hmap_insert)
  have "map_of (hmap_insert lay uuid s (kw_secrets w)) uuid = Some s" using assms by (simp add: conf_fine_def map_of_hmap_insert)
  then show ?thesis
    by (simp add: on_secrets_def sec_CreateSecret_def sec_GetSecretById_def get_or_def sec_s.stamp_by_key [OF wf] with_secret_def)
qed

lemma read_value_run:
  assumes "conf_fine w" "key_at w (s_kmsKeyId s) = Some k" "cipher_laws env" "usable_key k" "s_kmsKeyId s \<noteq> []"
    "v_secretString (GetVersion now s i) = sealed env k p"
  shows "read_value env now s i w =
     (w, Inr \<lparr>sv_name = s_name s, sv_arn = s_arn s, sv_versionId = i, sv_createdDate = UnixTimestamp (s_createdDate s),
        sv_stages = v_stages (GetVersion now s i), sv_secretString = p, sv_secretBinary = []\<rparr>)"
  using assms by (simp add: read_value_def DecryptSecret_def act_bind_def kms_Decrypt_run decrypt_sealed run_return cipher_laws_def Let_def)

text \<open>Reading a version of a secret that was found.\<close>

lemma get_value_run:
  assumes "conf_fine w" "secret_at w (secret_arn env region sid) = Some s" "key_at w (s_kmsKeyId s) = Some k" "cipher_laws env" "usable_key k"
    "s_kmsKeyId s \<noteq> []" "asked_version s [] t = i" "i \<noteq> []" "v_secretString (GetVersion (clock 0) s i) = sealed env k p"
    "sealed env k p \<noteq> []"
  shows "\<exists>w'. secm_GetSecretValue env clock region sid [] t w =
     (w', Inr \<lparr>sv_name = s_name s, sv_arn = s_arn s, sv_versionId = i, sv_createdDate = UnixTimestamp (s_createdDate s),
        sv_stages = v_stages (GetVersion (clock 0) s i), sv_secretString = p, sv_secretBinary = []\<rparr>)"
proof -
  show ?thesis
    using assms(2,8-10) read_value_run [OF assms(1,3-6,9)] get_secret_run [OF assms(1,2)]
    by (simp add: secm_GetSecretValue_def need_secret_def run_check secret_exists_iff act_bind_def Let_def assms(7) run_return on_secrets_def split: prod.splits)
qed

text \<open>What a creation that succeeds stores.\<close>

definition first_secret :: "conf_env \<Rightarrow> secret_ids \<Rightarrow> secret_request \<Rightarrow> secret" where
  "first_secret env ids d = set_s_oid (si_secret_uuid ids) (secret_to_create env ids d (si_keyId ids)
     ((default_secret_version (si_clock ids 2))\<lparr>v_stages := [''AWSCURRENT''],
        v_secretString := sealed env (made_key env ids (sr_name d)) (sr_secretString d)\<rparr>))"

lemma first_secret_sel:
  "s_arn (first_secret env ids d) = CreateSecretArn (sr_region d) (ke_account env) (sr_name d @ ''-'' @ si_hex ids)"
  "s_region (first_secret env ids d) = sr_region d" "s_name (first_secret env ids d) = sr_name d" "s_kmsKeyId (first_secret env ids d) = si_keyId ids"
  "s_versions (first_secret env ids d) = [(si_versionId ids, (default_secret_version (si_clock ids 2))\<lparr>v_stages := [''AWSCURRENT''],
     v_secretString := sealed env (made_key env ids (sr_name d)) (sr_secretString d)\<rparr>)]"
  by (simp_all add: first_secret_def set_s_oid_def secret_to_create_def)

lemma create_secret_stored:
  assumes "conf_fine w" "cipher_laws env" "\<not> sec_SecretExists (kw_secrets w) (sr_region d) (sr_name d)"
    "8 \<le> length (sr_secretString d)" "sr_secretBinary d = []" "sr_kmsKeyId d = []"
    "key_at w (si_keyId ids) = None" "64 \<le> length (mt_aes (si_material ids))" "si_in_time ids"
    "arn = s_arn (first_secret env ids d)" "secret_at w arn = None"
  obtains w1 where "secm_CreateSecret env ids d w = (w1, Inr (sr_region d, sr_name d, arn, si_versionId ids))" "conf_fine w1"
    "secret_at w1 arn = Some (first_secret env ids d)" "key_at w1 (si_keyId ids) = Some (made_key env ids (sr_name d))"
    "map_of (kw_secrets w1) = (map_of (kw_secrets w))(si_secret_uuid ids \<mapsto> first_secret env ids d)"
proof -
  let ?k = "made_key env ids (sr_name d)" and ?p = "sr_secretString d"
  let ?w = "(with_key (si_key_uuid ids) ?k w)\<lparr>kw_pending := removeAll (si_keyId ids) (kw_pending w)\<rparr>"
  let ?v = "(default_secret_version (si_clock ids 2))\<lparr>v_stages := [''AWSCURRENT''], v_secretString := sealed env ?k ?p\<rparr>"
  let ?s = "secret_to_create env ids d (si_keyId ids) ?v"
  let ?w1 = "with_secret (si_layout ids) (si_secret_uuid ids) ?s ?w"
  have fine: "conf_fine ?w" using with_key_fine [OF assms(1), of ?k] by (simp add: conf_fine_def)
  have at: "key_at ?w (si_keyId ids) = Some ?k" using with_key_at [OF assms(1), of ?k] assms(7) by (simp add: key_at_def)
  have use: "usable_key ?k" by (rule made_key_usable [OF assms(8)])
  have "kms_Encrypt env (si_clock ids 3) (si_keyId ids) (ke_encode env ?p) ?w = (?w, Inr (sealed env ?k ?p))"
    using kms_Encrypt_run [OF fine at] encrypt_usable [OF assms(2) use, of "ke_encode env ?p"] assms(2,4) by (simp add: cipher_laws_def)
  then have v: "first_version env ids d (si_keyId ids) ?w = (?w, Inr ?v)"
    using assms(4) by (cases ?p) (auto simp: first_version_def EncryptSecret_def act_bind_def run_return Let_def)
  have k: "CreateKmsKey env ids (sr_name d) w = (?w, Inr (si_keyId ids))" using CreateKmsKey_run [OF assms(1,7)] assms(9) by simp
  have f: "set_s_oid (si_secret_uuid ids) ?s = first_secret env ids d" by (simp add: first_secret_def)
  have arn: "s_arn ?s = arn" using assms(10) by (simp add: first_secret_def set_s_oid_def)
  have r: "s_region (first_secret env ids d) = sr_region d" "s_name (first_secret env ids d) = sr_name d" by (simp_all add: first_secret_sel)
  have c: "secm_CreateSecret env ids d w = (?w1, Inr (sr_region d, sr_name d, arn, si_versionId ids))"
    using assms(3-6,10) k v create_secret_run [OF fine, of "si_layout ids" "si_secret_uuid ids" "si_clock ids 6" ?s, unfolded f] r
    by (cases ?p) (auto simp: secm_CreateSecret_def run_check act_bind_def run_return)
  show ?thesis
  proof (rule that [OF c with_secret_fine [OF fine]])
    show "secret_at ?w1 arn = Some (first_secret env ids d)"
      using with_secret_at [OF fine, where s = ?s and lay = "si_layout ids" and uuid = "si_secret_uuid ids", unfolded f arn] assms(11) by simp
    show "key_at ?w1 (si_keyId ids) = Some ?k" using at by simp
    show "map_of (kw_secrets ?w1) = (map_of (kw_secrets w))(si_secret_uuid ids \<mapsto> first_secret env ids d)"
      unfolding with_secret_map_of [OF fine] f by (simp add: with_key_def)
  qed
qed

text \<open>C23: A secret without a key gets one, and is read back by its id or its ARN: the value is the one it was created
  with, under the version and the stage the response to its creation tells. This needs the key to be made within the five
  seconds, and a value of at least eight bytes.
\<close>

theorem secret_create_then_get:
  assumes "conf_fine w" "cipher_laws env" "\<not> sec_SecretExists (kw_secrets w) (sr_region d) (sr_name d)"
    "8 \<le> length (sr_secretString d)" "sr_secretBinary d = []" "sr_kmsKeyId d = []"
    "si_keyId ids \<noteq> []" "key_at w (si_keyId ids) = None" "64 \<le> length (mt_aes (si_material ids))" "si_in_time ids" "si_versionId ids \<noteq> []"
    "arn = CreateSecretArn (sr_region d) (ke_account env) (sr_name d @ ''-'' @ si_hex ids)" "secret_arn env region sid = arn" "secret_at w arn = None"
  shows "\<exists>w1 w2 r. secm_CreateSecret env ids d w = (w1, Inr (sr_region d, sr_name d, arn, si_versionId ids))
    \<and> secm_GetSecretValue env clock region sid [] [] w1 = (w2, Inr r) \<and> sv_secretString r = sr_secretString d
    \<and> sv_versionId r = si_versionId ids \<and> sv_stages r = [''AWSCURRENT''] \<and> sv_name r = sr_name d"
proof -
  let ?s = "first_secret env ids d" and ?k = "made_key env ids (sr_name d)"
  have "arn = s_arn ?s" using assms(12) by (simp add: first_secret_sel)
  then obtain w1 where c: "secm_CreateSecret env ids d w = (w1, Inr (sr_region d, sr_name d, arn, si_versionId ids))" "conf_fine w1"
    and at: "secret_at w1 arn = Some ?s" "key_at w1 (si_keyId ids) = Some ?k"
    using create_secret_stored [OF assms(1-6,8-10) _ assms(14)] by blast
  have v: "asked_version ?s [] [] = si_versionId ids"
    "GetVersion (clock 0) ?s (si_versionId ids) = (default_secret_version (si_clock ids 2))\<lparr>v_stages := [''AWSCURRENT''],
       v_secretString := sealed env ?k (sr_secretString d)\<rparr>"
    by (simp_all add: asked_version_def GetVersionIdByStage_def GetVersion_def find_if_def first_secret_sel)
  have "\<exists>w2. secm_GetSecretValue env clock region sid [] [] w1 = (w2, Inr \<lparr>sv_name = s_name ?s, sv_arn = s_arn ?s,
      sv_versionId = si_versionId ids, sv_createdDate = UnixTimestamp (s_createdDate ?s),
      sv_stages = v_stages (GetVersion (clock 0) ?s (si_versionId ids)), sv_secretString = sr_secretString d, sv_secretBinary = []\<rparr>)"
    using assms(2,7,11,13) at v sealed_nonempty [OF assms(2)]
    by (intro get_value_run [OF c(2) _ _ assms(2) made_key_usable [OF assms(9)]]) (simp_all add: first_secret_sel)
  then show ?thesis using c(1) v(2) by (auto simp: first_secret_sel)
qed

definition conf_wit_ids :: "bool \<Rightarrow> secret_ids" where
  "conf_wit_ids in_time =
     \<lparr>si_clock = (\<lambda>_. 1), si_versionId = ''v1'', si_secret_uuid = ''s'', si_hex = ''0a1b2c'', si_keyId = ''key-2'', si_key_uuid = ''k2'',
      si_material = \<lparr>mt_aes = replicate 64 CHR ''b'', mt_iv = [], mt_hmac = (\<lambda>_. []), mt_public = (\<lambda>_. []), mt_private = (\<lambda>_. [])\<rparr>,
      si_in_time = in_time, si_layout = []\<rparr>"

definition conf_wit_secret :: secret_request where
  "conf_wit_secret =
     \<lparr>sr_region = ''eu'', sr_name = ''db'', sr_description = [], sr_secretString = ''password1'', sr_secretBinary = [], sr_kmsKeyId = []\<rparr>"

lemma conf_wit_secret_facts:
  "\<not> sec_SecretExists (kw_secrets conf_wit_world) (sr_region conf_wit_secret) (sr_name conf_wit_secret)"
  "8 \<le> length (sr_secretString conf_wit_secret)" "sr_secretBinary conf_wit_secret = []" "sr_kmsKeyId conf_wit_secret = []"
  "si_keyId (conf_wit_ids b) \<noteq> []" "key_at conf_wit_world (si_keyId (conf_wit_ids b)) = None"
  "64 \<le> length (mt_aes (si_material (conf_wit_ids b)))" "si_in_time (conf_wit_ids b) = b" "si_versionId (conf_wit_ids b) \<noteq> []"
  "secret_at conf_wit_world arn = None"
  by (simp_all add: sec_SecretExists_def found_def find_if_def conf_wit_world_def conf_wit_secret_def conf_wit_ids_def key_at_def
    secret_at_def conf_wit_key_def)

lemma conf_wit_arn:
  "secret_arn conf_wit_env ''eu'' ''db-0a1b2c'' =
     CreateSecretArn (sr_region conf_wit_secret) (ke_account conf_wit_env) (sr_name conf_wit_secret @ ''-'' @ si_hex (conf_wit_ids b))"
  by (simp add: secret_arn_def conf_wit_secret_def conf_wit_ids_def conf_wit_env_def) code_simp

theorem secret_create_then_get_witness:
  "\<exists>w1 w2 r. fst (secm_CreateSecret conf_wit_env (conf_wit_ids True) conf_wit_secret conf_wit_world) = w1
    \<and> secm_GetSecretValue conf_wit_env (\<lambda>_. 2) ''eu'' ''db-0a1b2c'' [] [] w1 = (w2, Inr r) \<and> sv_secretString r = ''password1''
    \<and> sv_versionId r = ''v1''"
proof -
  have v: "sr_secretString conf_wit_secret = ''password1''" "si_versionId (conf_wit_ids True) = ''v1''"
    by (simp_all add: conf_wit_secret_def conf_wit_ids_def)
  note secret_create_then_get [where ids = "conf_wit_ids True" and region = "''eu''" and sid = "''db-0a1b2c''" and clock = "\<lambda>_. 2",
    OF conf_wit_fine conf_wit_laws conf_wit_secret_facts(1-7) _ conf_wit_secret_facts(9) refl conf_wit_arn conf_wit_secret_facts(10)]
  then show ?thesis using conf_wit_secret_facts(8) by (force simp: v)
qed

text \<open>
  When the key is not made within the five seconds, the creation of a secret with a value goes on with a key without
  material, and encrypting with it is undefined. The key is left behind, without a secret.
\<close>

theorem secret_create_late_key:
  assumes "conf_fine w" "\<not> sec_SecretExists (kw_secrets w) (sr_region d) (sr_name d)"
    "sr_secretString d \<noteq> []" "sr_secretBinary d = []" "sr_kmsKeyId d = []" "key_at w (si_keyId ids) = None" "\<not> si_in_time ids"
  shows "\<exists>w'. secm_CreateSecret env ids d w = (w', Inl UndefinedBehaviour) \<and> kw_secrets w' = kw_secrets w
    \<and> key_at w' (si_keyId ids) \<noteq> None \<and> si_keyId ids \<in> set (kw_pending w')"
proof -
  let ?k = "secret_key env ids (sr_name d)"
  let ?w = "(with_key (si_key_uuid ids) ?k w)\<lparr>kw_pending := kw_pending w @ [si_keyId ids]\<rparr>"
  let ?k' = "?k\<lparr>k_oid := si_key_uuid ids\<rparr>"
  have k: "CreateKmsKey env ids (sr_name d) w = (?w, Inr (si_keyId ids))" using CreateKmsKey_run [OF assms(1,6)] assms(7) by simp
  have inv: "omap_inv (kw_keys w)" using assms(1) by (simp add: conf_fine_def)
  have f: "find_if (\<lambda>(_, q). k_keyId q = si_keyId ids) (omap_insert (si_key_uuid ids) ?k (kw_keys w)) = Some (si_key_uuid ids, ?k)"
    using find_key_inserted [OF assms(1), of ?k ?k "si_key_uuid ids"] assms(6) by simp
  have g: "get_key t (si_keyId ids) ?w = ((with_key (si_key_uuid ids) ?k' w)\<lparr>kw_pending := kw_pending w @ [si_keyId ids]\<rparr>, Inr ?k')" for t
    using f inv by (cases w) (simp add: on_keys_def kms_getKeyByKeyId_def get_or_def stamp_found_def with_key_def set_k_oid_def
      assign_inserted)
  have ub: "EncryptPlaintext env ?k' s = Inl UndefinedBehaviour" for s
    using spec_symmetric [of ?k'] by (simp add: EncryptPlaintext_def Let_def)
  have ex: "kms_keyExists (kw_keys ?w) (si_keyId ids)" using f by (simp add: kms_keyExists_def found_def with_key_def)
  have "first_version env ids d (si_keyId ids) ?w = ((with_key (si_key_uuid ids) ?k' w)\<lparr>kw_pending := kw_pending w @ [si_keyId ids]\<rparr>, Inl UndefinedBehaviour)"
    using g ex assms(3) ub by (simp add: first_version_def EncryptSecret_def act_bind_def kms_Encrypt_def need_key_def run_check give_def Let_def)
  then have "secm_CreateSecret env ids d w = ((with_key (si_key_uuid ids) ?k' w)\<lparr>kw_pending := kw_pending w @ [si_keyId ids]\<rparr>, Inl UndefinedBehaviour)"
    using assms(2-5) k by (simp add: secm_CreateSecret_def run_check act_bind_def)
  moreover have "key_at (with_key (si_key_uuid ids) ?k' w) (si_keyId ids) = Some ?k'"
    using with_key_at [OF assms(1), of ?k' "si_key_uuid ids"] assms(6) by simp
  ultimately show ?thesis by (auto simp: key_at_def with_key_def)
qed

theorem secret_create_late_key_witness:
  "snd (secm_CreateSecret conf_wit_env (conf_wit_ids False) conf_wit_secret conf_wit_world) = Inl UndefinedBehaviour"
proof -
  have "sr_secretString conf_wit_secret \<noteq> []" by (simp add: conf_wit_secret_def)
  with secret_create_late_key [where ids = "conf_wit_ids False" and d = conf_wit_secret and env = conf_wit_env, OF conf_wit_fine]
  show ?thesis using conf_wit_secret_facts(1,3,4,6,8) by force
qed

end
