(* ===== verification/SecretsValueProps.thy ===== *)
theory SecretsValueProps
  imports SecretsServiceProps
begin

text \<open>
  Versions of a secret over time: the current version is unique in every state the service reaches; a new value
  makes the version that was current the previous one; and the check for rotations starts those that are due.
\<close>

subsection \<open>One current version\<close>

text \<open>C25: In every state the secrets manager reaches, whatever the functions of the rotations do through its API, at most one
  version of a secret has the stage \<open>AWSCURRENT\<close>, and it is the one that is taken for the current one, provided
  that no new value is put with the stage \<open>AWSCURRENT\<close> by name.
\<close>

theorem secrets_one_current:
  assumes "secrets_reachable w" "(k, s) \<in> set (kw_secrets w)" "is_current s i"
  shows "GetCurrentVersionId s = i \<and> (\<forall>j. is_current s j \<longleftrightarrow> j = i)"
proof -
  have "at_most_one s" using reachable_ok [OF assms(1)] assms(2) by (auto simp: secrets_ok_def)
  then show ?thesis using assms(3) current_found by (auto simp: at_most_one_def)
qed

lemma wit_secret_created:
  obtains w1 where "secrets_reachable w1" "conf_fine w1"
    "secret_at w1 (secret_arn conf_wit_env ''eu'' ''db-0a1b2c'') = Some (first_secret conf_wit_env (conf_wit_ids True) conf_wit_secret)"
    "key_at w1 ''key-2'' = Some (made_key conf_wit_env (conf_wit_ids True) ''db'')"
    "map_of (kw_secrets w1) = (Map.empty)(''s'' \<mapsto> first_secret conf_wit_env (conf_wit_ids True) conf_wit_secret)"
proof -
  have i: "si_keyId (conf_wit_ids True) = ''key-2''" "sr_name conf_wit_secret = ''db''" "si_secret_uuid (conf_wit_ids True) = ''s''"
    by (simp_all add: conf_wit_ids_def conf_wit_secret_def)
  have arn: "secret_arn conf_wit_env ''eu'' ''db-0a1b2c'' = s_arn (first_secret conf_wit_env (conf_wit_ids True) conf_wit_secret)"
    by (simp only: conf_wit_arn first_secret_sel)
  have t: "si_in_time (conf_wit_ids True)" using conf_wit_secret_facts(8) [of True] by simp
  obtain w1 where w1: "secm_CreateSecret conf_wit_env (conf_wit_ids True) conf_wit_secret conf_wit_world
      = (w1, Inr (sr_region conf_wit_secret, sr_name conf_wit_secret, secret_arn conf_wit_env ''eu'' ''db-0a1b2c'', si_versionId (conf_wit_ids True)))"
    "conf_fine w1" "secret_at w1 (secret_arn conf_wit_env ''eu'' ''db-0a1b2c'') = Some (first_secret conf_wit_env (conf_wit_ids True) conf_wit_secret)"
    "key_at w1 (si_keyId (conf_wit_ids True)) = Some (made_key conf_wit_env (conf_wit_ids True) (sr_name conf_wit_secret))"
    "map_of (kw_secrets w1) = (map_of (kw_secrets conf_wit_world))(si_secret_uuid (conf_wit_ids True) \<mapsto> first_secret conf_wit_env (conf_wit_ids True) conf_wit_secret)"
    using create_secret_stored [OF conf_wit_fine conf_wit_laws conf_wit_secret_facts(1-4,6,7) t arn conf_wit_secret_facts(10)] by blast
  have "secrets_reachable conf_wit_world" by (rule reach_start) (simp add: conf_wit_world_def)
  moreover have "secrets_step conf_wit_world w1" using step_api [OF api_create, of conf_wit_world conf_wit_env "conf_wit_ids True" conf_wit_secret] w1(1) by simp
  ultimately have "secrets_reachable w1" by (rule reach_step)
  then show ?thesis using that [OF _ w1(2,3)] w1(4,5) by (simp add: i conf_wit_world_def)
qed

theorem secrets_one_current_witness:
  "\<exists>w::conf_world. \<exists>s. secrets_reachable w \<and> (''s'', s) \<in> set (kw_secrets w) \<and> is_current s ''v1'' \<and> GetCurrentVersionId s = ''v1''"
proof -
  obtain w1 where w1: "secrets_reachable w1" "map_of (kw_secrets w1) = (Map.empty)(''s'' \<mapsto> first_secret conf_wit_env (conf_wit_ids True) conf_wit_secret)"
    by (rule wit_secret_created)
  have m: "(''s'', first_secret conf_wit_env (conf_wit_ids True) conf_wit_secret) \<in> set (kw_secrets w1)" using w1(2) by (intro map_of_SomeD) simp
  have c: "is_current (first_secret conf_wit_env (conf_wit_ids True) conf_wit_secret) ''v1''"
    by (simp add: is_current_def first_secret_sel) (simp add: conf_wit_ids_def)
  show ?thesis using w1(1) m c secrets_one_current [OF w1(1) m c] by blast
qed

subsection \<open>A new value\<close>

definition replaced_secret :: "secret \<Rightarrow> conf_world \<Rightarrow> conf_world" where
  "replaced_secret s w = w\<lparr>kw_secrets := assign (s_oid s) s (kw_secrets w)\<rparr>"

lemma update_secret_run:
  assumes "conf_fine w" "secret_at w arn = Some s" "\<forall>x\<in>set (kw_secrets w). s_secretId (snd x) = s_secretId s \<longrightarrow> snd x = s"
    "s_oid t = s_oid s" "s_secretId t = s_secretId s" "s_arn t = arn"
  shows "update_secret now t w = (replaced_secret t w, Inr t)" "conf_fine (replaced_secret t w)" "secret_at (replaced_secret t w) arn = Some t"
proof -
  obtain k where f: "find_if (\<lambda>(_, s). s_arn s = arn) (kw_secrets w) = Some (k, s)" using assms(2) by (auto simp: secret_at_def)
  have wf: "wf_store (kw_secrets w)" and st: "all_stamped s_oid (kw_secrets w)" using assms(1) by (simp_all add: conf_fine_def)
  have mem: "(k, s) \<in> set (kw_secrets w)" using find_if_SomeD [OF f] by simp
  have k: "s_oid s = k" by (rule find_by_oid(1) [OF f wf st])
  have "find_if (\<lambda>(_, x). s_secretId x = s_secretId t) (kw_secrets w) = Some (k, s)"
  proof (rule find_only [OF mem])
    show "x = (k, s)" if x: "x \<in> set (kw_secrets w)" "case x of (_, x) \<Rightarrow> s_secretId x = s_secretId t" for x
    proof (cases x)
      case (Pair j y)
      have "y = s" using bspec [OF assms(3) x(1)] x(2) Pair assms(5) by simp
      moreover have "j = s_oid y" using x(1) Pair st by (auto simp: all_stamped_def)
      ultimately show ?thesis using k Pair by simp
    qed
  qed (simp add: assms(5))
  then show "update_secret now t w = (replaced_secret t w, Inr t)"
    using k assms(4) by (simp add: on_secrets_def sec_UpdateSecret_def replace_found_def replaced_secret_def)
  show "conf_fine (replaced_secret t w)"
    using assms(1) by (simp add: conf_fine_def replaced_secret_def all_stamped_assign)
  show "secret_at (replaced_secret t w) arn = Some t"
    using find_assign [OF f wf, of t] assms(4,6) k by (simp add: secret_at_def replaced_secret_def)
qed

lemma stage_found:
  assumes "omap_inv (s_versions s)" "map_of (s_versions s) c = Some v" "t \<in> set (v_stages v)"
    "\<And>j u. map_of (s_versions s) j = Some u \<Longrightarrow> j \<noteq> c \<Longrightarrow> t \<notin> set (v_stages u)"
  shows "GetVersionIdByStage s t = c"
proof -
  have wf: "wf_store (s_versions s)" using assms(1) by (rule omap_inv_wf)
  have "find_if (\<lambda>(_, v). t \<in> set (v_stages v)) (s_versions s) = Some (c, v)"
  proof (rule find_only)
    show "x = (c, v)" if "x \<in> set (s_versions s)" "case x of (_, u) \<Rightarrow> t \<in> set (v_stages u)" for x
    proof (cases x)
      case (Pair j u)
      then have u: "map_of (s_versions s) j = Some u" "t \<in> set (v_stages u)" using that wf_in_map_of [OF wf] by simp_all
      then have "j = c" using assms(4) [OF u(1)] by blast
      then show ?thesis using u(1) assms(2) Pair by simp
    qed
    show "(c, v) \<in> set (s_versions s)" by (rule map_of_SomeD [OF assms(2)])
  qed (simp add: assms(3))
  then show ?thesis by (simp add: GetVersionIdByStage_def)
qed

lemma version_at: "omap_inv (s_versions s) \<Longrightarrow> map_of (s_versions s) i = Some v \<Longrightarrow> GetVersion now s i = v"
  by (simp add: GetVersion_def find_if_key omap_inv_wf)

text \<open>The secret after a value was put without stages.\<close>

definition with_new_value :: "time_point \<Rightarrow> time_point \<Rightarrow> string \<Rightarrow> string \<Rightarrow> secret \<Rightarrow> secret" where
  "with_new_value now t i c s = (change_version now i
     (\<lambda>_. (default_secret_version now)\<lparr>v_stages := [''AWSCURRENT''], v_secretString := c\<rparr>) (make_room now [] s))\<lparr>s_lastAccessedDate := t\<rparr>"

lemma with_new_value_sel [simp]: "s_oid (with_new_value now t i c s) = s_oid s" "s_secretId (with_new_value now t i c s) = s_secretId s"
  "s_arn (with_new_value now t i c s) = s_arn s" "s_name (with_new_value now t i c s) = s_name s" "s_kmsKeyId (with_new_value now t i c s) = s_kmsKeyId s"
  by (simp_all add: with_new_value_def change_version_def make_room_def)

lemma with_new_value_versions:
  "map_of (s_versions (with_new_value now t i c s)) =
     (map_of (s_versions s))(GetCurrentVersionId s \<mapsto> (GetVersion now s (GetCurrentVersionId s))\<lparr>v_stages := [''AWSPREVIOUS'']\<rparr>,
        i \<mapsto> (default_secret_version now)\<lparr>v_stages := [''AWSCURRENT''], v_secretString := c\<rparr>)"
  by (simp add: with_new_value_def make_room_def versions_change)

lemma put_value_run:
  assumes "conf_fine w" "cipher_laws env" "secret_at w (secret_arn env (pv_region d) (pv_secretId d)) = Some s"
    "\<forall>x\<in>set (kw_secrets w). s_secretId (snd x) = s_secretId s \<longrightarrow> snd x = s"
    "s_kmsKeyId s \<noteq> []" "key_at w (s_kmsKeyId s) = Some k" "usable_key k" "8 \<le> length (pv_secretString d)" "pv_versionStage d = []"
    "i = (if pv_clientRequestToken d = [] then uuid else pv_clientRequestToken d)"
    "t = with_new_value (clock 1) (clock 2) i (sealed env k (pv_secretString d)) s"
  shows "secm_PutSecretValue env clock uuid d w = (replaced_secret t w, Inr (s_arn s, s_name s, i, [''AWSCURRENT'']))"
    "conf_fine (replaced_secret t w)" "secret_at (replaced_secret t w) (secret_arn env (pv_region d) (pv_secretId d)) = Some t"
proof -
  have arn: "s_arn s = secret_arn env (pv_region d) (pv_secretId d)"
    using assms(3) by (auto simp: secret_at_def dest: find_if_SomeD)
  have "s_oid t = s_oid s" "s_secretId t = s_secretId s" "s_arn t = secret_arn env (pv_region d) (pv_secretId d)"
    by (simp_all add: assms(11) arn)
  note u = update_secret_run [OF assms(1,3,4) this]
  show "conf_fine (replaced_secret t w)" "secret_at (replaced_secret t w) (secret_arn env (pv_region d) (pv_secretId d)) = Some t"
    by (fact u)+
  let ?v = "(default_secret_version (clock 1))\<lparr>v_stages := [''AWSCURRENT''], v_secretString := sealed env k (pv_secretString d)\<rparr>"
  have "kms_Encrypt env (clock 1) (s_kmsKeyId s) (ke_encode env (pv_secretString d)) w = (w, Inr (sealed env k (pv_secretString d)))"
    using kms_Encrypt_run [OF assms(1,6)] encrypt_usable [OF assms(2,7), of "ke_encode env (pv_secretString d)"] assms(2,8) by (simp add: cipher_laws_def)
  then have v: "new_value env (clock 1) (s_kmsKeyId s) d ((default_secret_version (clock 1))\<lparr>v_stages := new_stages (pv_versionStage d)\<rparr>) w = (w, Inr ?v)"
    using assms(5,9) by (simp add: new_value_def new_stages_def EncryptSecret_def act_bind_def run_return)
  have t: "(change_version (clock 1) i (\<lambda>_. ?v) (make_room (clock 1) (pv_versionStage d) s))\<lparr>s_lastAccessedDate := clock 2\<rparr> = t"
    using assms(9,11) by (simp add: with_new_value_def)
  show "secm_PutSecretValue env clock uuid d w = (replaced_secret t w, Inr (s_arn s, s_name s, i, [''AWSCURRENT'']))"
    unfolding secm_PutSecretValue_def need_secret_def Let_def assms(10) [symmetric]
    using assms(3) v t u(1) get_secret_run [OF assms(1,3)]
    by (simp only: run_check secret_exists_iff option.distinct not_False_eq_True act_bind_def prod.case sum.case run_return)
      (simp add: run_return)
qed

text \<open>C24: Putting a new value without stages makes it the current one: reading the secret gives the new value under the
  version the response tells, and reading the stage \<open>AWSPREVIOUS\<close> gives the value and the version that were current
  before. This is for a secret with exactly one current version and no previous one, whose secret id no other secret
  has, encrypted with a symmetric key that has its material, under which the current value is encrypted too; for a new
  value of at least eight bytes, and a version id (the token of the request, or the new one that is drawn) that is not
  empty and not that of the current version, whose id is not empty either. A shorter value is undefined behaviour, see C26. (Keys and secrets are each
  stored once, under their ids, and Base64 and AES are inverted by their counterparts.)\<close>

theorem secret_put_then_get:
  assumes "conf_fine w" "cipher_laws env" "secret_at w (secret_arn env (pv_region d) (pv_secretId d)) = Some s"
    "\<forall>x\<in>set (kw_secrets w). s_secretId (snd x) = s_secretId s \<longrightarrow> snd x = s"
    "s_kmsKeyId s \<noteq> []" "key_at w (s_kmsKeyId s) = Some k" "usable_key k" "8 \<le> length (pv_secretString d)" "pv_versionStage d = []"
    "i = (if pv_clientRequestToken d = [] then uuid else pv_clientRequestToken d)"
    "at_most_one s" "map_of (s_versions s) c = Some v" "''AWSCURRENT'' \<in> set (v_stages v)" "v_secretString v = sealed env k p"
    "i \<noteq> c" "i \<noteq> []" "c \<noteq> []" "\<forall>x\<in>set (s_versions s). ''AWSPREVIOUS'' \<notin> set (v_stages (snd x))"
  shows "\<exists>w1 w2 w3 r q. secm_PutSecretValue env clock uuid d w = (w1, Inr (s_arn s, s_name s, i, [''AWSCURRENT'']))
    \<and> secm_GetSecretValue env clock' (pv_region d) (pv_secretId d) [] [] w1 = (w2, Inr r)
    \<and> sv_secretString r = pv_secretString d \<and> sv_versionId r = i
    \<and> secm_GetSecretValue env clock' (pv_region d) (pv_secretId d) [] ''AWSPREVIOUS'' w1 = (w3, Inr q)
    \<and> sv_secretString q = p \<and> sv_versionId q = c \<and> sv_stages q = [''AWSPREVIOUS'']"
proof -
  define t where t: "t = with_new_value (clock 1) (clock 2) i (sealed env k (pv_secretString d)) s"
  note put = put_value_run [where clock = clock, OF assms(1-10) t]
  have inv: "omap_inv (s_versions s)" using assms(11) by (simp add: at_most_one_def)
  have cur: "is_current s c" using assms(12,13) by (auto simp: is_current_def)
  have "GetCurrentVersionId s = c" by (rule current_found [OF assms(11) cur])
  then have m: "map_of (s_versions t) = (map_of (s_versions s))(c \<mapsto> v\<lparr>v_stages := [''AWSPREVIOUS'']\<rparr>,
      i \<mapsto> (default_secret_version (clock 1))\<lparr>v_stages := [''AWSCURRENT''], v_secretString := sealed env k (pv_secretString d)\<rparr>)"
    using version_at [OF inv assms(12)] by (simp add: t with_new_value_versions)
  have invt: "omap_inv (s_versions t)" using inv by (simp add: t with_new_value_def make_room_def)
  have old: "''AWSPREVIOUS'' \<notin> set (v_stages u)" "j \<noteq> c \<Longrightarrow> ''AWSCURRENT'' \<notin> set (v_stages u)" if "map_of (s_versions s) j = Some u" for j u
    using bspec [OF assms(18) map_of_SomeD [OF that]] cur assms(11) that by (auto simp: at_most_one_def is_current_def)
  have "GetVersionIdByStage t ''AWSCURRENT'' = i"
    by (rule stage_found [OF invt, where v = "(default_secret_version (clock 1))\<lparr>v_stages := [''AWSCURRENT''], v_secretString := sealed env k (pv_secretString d)\<rparr>"])
      (auto simp: m old split: if_splits)
  then have a1: "asked_version t [] [] = i" by (simp add: asked_version_def)
  have "GetVersionIdByStage t ''AWSPREVIOUS'' = c"
    by (rule stage_found [OF invt, where v = "v\<lparr>v_stages := [''AWSPREVIOUS'']\<rparr>"]) (use assms(15) in \<open>auto simp: m old split: if_splits\<close>)
  then have a2: "asked_version t [] ''AWSPREVIOUS'' = c" by (simp add: asked_version_def)
  have key: "key_at (replaced_secret t w) (s_kmsKeyId t) = Some k" "s_kmsKeyId t \<noteq> []"
    using assms(5,6) by (simp_all add: t replaced_secret_def)
  note get = get_value_run [where clock = clock', OF put(2,3) key(1) assms(2,7) key(2)]
  have vi: "GetVersion n t i = (default_secret_version (clock 1))\<lparr>v_stages := [''AWSCURRENT''], v_secretString := sealed env k (pv_secretString d)\<rparr>" for n
    by (rule version_at [OF invt]) (simp add: m)
  have vc: "GetVersion n t c = v\<lparr>v_stages := [''AWSPREVIOUS'']\<rparr>" for n
    by (rule version_at [OF invt]) (use assms(15) in \<open>simp add: m\<close>)
  obtain w2 where "secm_GetSecretValue env clock' (pv_region d) (pv_secretId d) [] [] (replaced_secret t w) = (w2, Inr
      \<lparr>sv_name = s_name t, sv_arn = s_arn t, sv_versionId = i, sv_createdDate = UnixTimestamp (s_createdDate t),
       sv_stages = v_stages (GetVersion (clock' 0) t i), sv_secretString = pv_secretString d, sv_secretBinary = []\<rparr>)"
    using get [OF a1 assms(16) _ sealed_nonempty [OF assms(2)], of "pv_secretString d"] vi by auto
  moreover obtain w3 where "secm_GetSecretValue env clock' (pv_region d) (pv_secretId d) [] ''AWSPREVIOUS'' (replaced_secret t w) = (w3, Inr
      \<lparr>sv_name = s_name t, sv_arn = s_arn t, sv_versionId = c, sv_createdDate = UnixTimestamp (s_createdDate t),
       sv_stages = v_stages (GetVersion (clock' 0) t c), sv_secretString = p, sv_secretBinary = []\<rparr>)"
    using get [OF a2 assms(17) _ sealed_nonempty [OF assms(2)], of p] vc assms(14) by auto
  ultimately show ?thesis using put(1) vc by auto
qed

definition conf_wit_put :: put_value_request where
  "conf_wit_put = \<lparr>pv_region = ''eu'', pv_secretId = ''db-0a1b2c'', pv_clientRequestToken = ''v2'', pv_secretString = ''password2'',
     pv_secretBinary = [], pv_versionStage = []\<rparr>"

theorem secret_put_then_get_witness:
  "\<exists>w w1 w2 w3 r q x. secm_PutSecretValue conf_wit_env (\<lambda>_. 3) [] conf_wit_put w = (w1, Inr x)
    \<and> secm_GetSecretValue conf_wit_env (\<lambda>_. 4) ''eu'' ''db-0a1b2c'' [] [] w1 = (w2, Inr r)
    \<and> sv_secretString r = ''password2'' \<and> sv_versionId r = ''v2''
    \<and> secm_GetSecretValue conf_wit_env (\<lambda>_. 4) ''eu'' ''db-0a1b2c'' [] ''AWSPREVIOUS'' w1 = (w3, Inr q)
    \<and> sv_secretString q = ''password1'' \<and> sv_versionId q = ''v1''"
proof -
  let ?s = "first_secret conf_wit_env (conf_wit_ids True) conf_wit_secret" and ?k = "made_key conf_wit_env (conf_wit_ids True) ''db''"
  let ?v = "(default_secret_version 1)\<lparr>v_stages := [''AWSCURRENT''], v_secretString := sealed conf_wit_env ?k ''password1''\<rparr>"
  obtain w where w: "secrets_reachable w" "conf_fine w" "secret_at w (secret_arn conf_wit_env ''eu'' ''db-0a1b2c'') = Some ?s"
    "key_at w ''key-2'' = Some ?k" "map_of (kw_secrets w) = (Map.empty)(''s'' \<mapsto> ?s)"
    by (rule wit_secret_created)
  have d: "pv_region conf_wit_put = ''eu''" "pv_secretId conf_wit_put = ''db-0a1b2c''" "pv_secretString conf_wit_put = ''password2''"
    "pv_clientRequestToken conf_wit_put = ''v2''" "pv_versionStage conf_wit_put = []" by (simp_all add: conf_wit_put_def)
  have vs: "s_versions ?s = [(''v1'', ?v)]" "s_kmsKeyId ?s = ''key-2''"
    unfolding first_secret_sel by (simp_all add: conf_wit_ids_def conf_wit_secret_def)
  have only: "\<forall>x\<in>set (kw_secrets w). s_secretId (snd x) = s_secretId ?s \<longrightarrow> snd x = ?s"
    using w(2,5) wf_in_map_of [of "kw_secrets w"] by (auto simp: conf_fine_def split: if_splits)
  have use: "usable_key ?k" by (rule made_key_usable [OF conf_wit_secret_facts(7)])
  have one: "at_most_one ?s" by (simp add: at_most_one_def is_current_def vs(1))
  note secret_put_then_get [where d = conf_wit_put and clock = "\<lambda>_. 3" and clock' = "\<lambda>_. 4" and uuid = "[]" and i = "''v2''" and c = "''v1''" and v = ?v
    and p = "''password1''" and k = ?k and s = ?s, unfolded d, OF w(2) conf_wit_laws w(3) only]
  moreover have "\<forall>x\<in>set (s_versions ?s). ''AWSPREVIOUS'' \<notin> set (v_stages (snd x))" by (simp add: vs)
  ultimately have "\<exists>w1 w2 w3 r q. secm_PutSecretValue conf_wit_env (\<lambda>_. 3) [] conf_wit_put w = (w1, Inr (s_arn ?s, s_name ?s, ''v2'', [''AWSCURRENT'']))
    \<and> secm_GetSecretValue conf_wit_env (\<lambda>_. 4) ''eu'' ''db-0a1b2c'' [] [] w1 = (w2, Inr r)
    \<and> sv_secretString r = ''password2'' \<and> sv_versionId r = ''v2''
    \<and> secm_GetSecretValue conf_wit_env (\<lambda>_. 4) ''eu'' ''db-0a1b2c'' [] ''AWSPREVIOUS'' w1 = (w3, Inr q)
    \<and> sv_secretString q = ''password1'' \<and> sv_versionId q = ''v1'' \<and> sv_stages q = [''AWSPREVIOUS'']"
    using use w(4) one by (simp add: vs)
  then show ?thesis by blast
qed

text \<open>A stage that is named is not taken from the version that had it.\<close>

lemma put_named_current_doubles:
  assumes "is_current s c" "i \<noteq> c" "''AWSCURRENT'' \<in> set (v_stages v)" "stages \<noteq> []"
  shows "\<not> at_most_one (change_version now i (\<lambda>_. v) (make_room now stages s))"
  using assms by (auto simp: at_most_one_def make_room_def current_change)

text \<open>Nor does a version stop being a previous one, so that the previous value that is read is the one with the least id.\<close>

lemma previous_is_least_id:
  "GetVersionIdByStage (with_new_value 0 0 ''c'' [] ((default_secret 0)\<lparr>s_versions :=
     [(''a'', (default_secret_version 0)\<lparr>v_stages := [''AWSPREVIOUS'']\<rparr>), (''b'', (default_secret_version 0)\<lparr>v_stages := [''AWSCURRENT'']\<rparr>)]\<rparr>))
     ''AWSPREVIOUS'' = ''a''"
  by (simp add: with_new_value_def make_room_def GetCurrentVersionId_def change_version_def GetVersionIdByStage_def find_if_def)

subsection \<open>Rotations that are due\<close>

text \<open>What the check looks at, and what it does not change.\<close>

definition schedule_of :: "secret \<Rightarrow> string \<times> string \<times> bool \<times> string \<times> time_point" where
  "schedule_of s = (s_secretId s, s_arn s, s_rotationEnabled s, s_rotationLambdaARN s, s_nextRotatedDate s)"

definition schedules :: "conf_world \<Rightarrow> (string \<times> string \<times> bool \<times> string \<times> time_point) list" where
  "schedules w = map schedule_of (values_of (kw_secrets w))"

definition due_arns :: "time_point \<Rightarrow> secret list \<Rightarrow> string list" where
  "due_arns t ss = map s_arn (filter (\<lambda>s. s_rotationEnabled s \<and> s_rotationLambdaARN s \<noteq> [] \<and> s_nextRotatedDate s \<le> t) ss)"

lemma due_arns_alt: "due_arns t ss = map s_arn (filter (rotation_due t) ss)"
  by (simp add: due_arns_def rotation_due_def [abs_def])

lemma due_of_schedules: "map schedule_of ss = map schedule_of ss' \<Longrightarrow> due_arns t ss = due_arns t ss'"
proof (induction ss arbitrary: ss')
  case (Cons s ss)
  then obtain u us where "ss' = u # us" "schedule_of s = schedule_of u" "map schedule_of ss = map schedule_of us" by auto
  moreover have "s_arn s = s_arn u" "rotation_due t s = rotation_due t u" using \<open>schedule_of s = schedule_of u\<close>
    by (auto simp: rotation_due_def schedule_of_def)
  moreover have "due_arns t ss = due_arns t us" by (rule Cons.IH) fact
  ultimately show ?case by (simp add: due_arns_alt)
qed (simp add: due_arns_alt)

lemma update_keeps_schedules:
  assumes "wf_store (kw_secrets w)" "distinct (map fst (schedules w))" "schedule_of t \<in> set (schedules w)"
  obtains w' where "update_secret now t w = (w', Inr t)" "wf_store (kw_secrets w')" "schedules w' = schedules w" "kw_rotations w' = kw_rotations w"
proof -
  let ?m = "kw_secrets w"
  obtain j y where y: "(j, y) \<in> set ?m" "schedule_of y = schedule_of t" using assms(3) by (auto simp: schedules_def values_of_def)
  then have "s_secretId y = s_secretId t" by (simp add: schedule_of_def)
  then obtain k x where f: "find_if (\<lambda>(_, x). s_secretId x = s_secretId t) ?m = Some (k, x)"
    using y(1) found_iff [of "\<lambda>(_, x). s_secretId x = s_secretId t" ?m] by (auto simp: found_def)
  then have x: "(k, x) \<in> set ?m" "s_secretId x = s_secretId t" using find_if_SomeD [OF f] by simp_all
  have "inj_on fst (set (schedules w))" using assms(2) by (simp add: distinct_map)
  moreover have "schedule_of x \<in> set (schedules w)" using x(1) by (force simp: schedules_def values_of_def)
  moreover have "fst (schedule_of x) = fst (schedule_of t)" using x(2) by (simp add: schedule_of_def)
  ultimately have xt: "schedule_of x = schedule_of t" using assms(3) by (simp add: inj_onD)
  have "map (\<lambda>x. schedule_of (snd x)) (assign k t ?m) = map (\<lambda>x. schedule_of (snd x)) ?m"
  proof -
    have e: "schedule_of (if i = k then t else s) = schedule_of s" if "(i, s) \<in> set ?m" for i s
      using that x(1) xt assms(1) by (auto simp: wf_in_map_of)
    have "map (\<lambda>x. schedule_of (snd x)) (assign k t ?m) = map (\<lambda>x. schedule_of (if fst x = k then t else snd x)) ?m"
      by (simp add: assign_def modify_def case_prod_beta comp_def)
    also have "\<dots> = map (\<lambda>x. schedule_of (snd x)) ?m" by (rule map_cong [OF refl]) (rule e, simp)
    finally show ?thesis .
  qed
  then have "schedules (w\<lparr>kw_secrets := assign k t ?m\<rparr>) = schedules w"
    by (simp add: schedules_def values_of_def comp_def)
  moreover have "update_secret now t w = (w\<lparr>kw_secrets := assign k t ?m\<rparr>, Inr t)"
    by (simp add: on_secrets_def sec_UpdateSecret_def replace_found_def f)
  ultimately show ?thesis using assms(1) by (intro that [of "w\<lparr>kw_secrets := assign k t ?m\<rparr>"]) simp_all
qed

lemma check_loop:
  assumes "wf_store (kw_secrets w)" "distinct (map fst (schedules w))" "set (map schedule_of ss) \<subseteq> set (schedules w)"
  shows "\<exists>w'. act_each (check_rotation now clock uuids) i ss w = (w', Inr ()) \<and> wf_store (kw_secrets w') \<and> schedules w' = schedules w
    \<and> map (\<lambda>r. s_arn (fst r)) (kw_rotations w') = map (\<lambda>r. s_arn (fst r)) (kw_rotations w) @ due_arns now ss"
  using assms
proof (induction ss arbitrary: i w)
  case Nil
  then show ?case by (simp add: run_return due_arns_alt)
next
  case (Cons s ss)
  show ?case
  proof (cases "rotation_due now s")
    case False
    then show ?thesis using Cons by (simp add: check_rotation_def bind_return_left due_arns_alt)
  next
    case True
    let ?t = "set_stages (clock i) (uuids i) AWSPENDING (s\<lparr>s_lastRotatedDate := now\<rparr>)"
    have t: "schedule_of ?t = schedule_of s" "s_arn ?t = s_arn s" by (simp_all add: schedule_of_def change_version_def)
    then have "schedule_of ?t \<in> set (schedules w)" using Cons.prems(3) by simp
    then obtain w1 where w1: "update_secret (clock i) ?t w = (w1, Inr ?t)" "wf_store (kw_secrets w1)" "schedules w1 = schedules w" "kw_rotations w1 = kw_rotations w"
      by (rule update_keeps_schedules [OF Cons.prems(1,2)])
    let ?w2 = "w1\<lparr>kw_rotations := kw_rotations w1 @ [(?t, uuids i)]\<rparr>"
    have run: "check_rotation now clock uuids i s w = (?w2, Inr ())"
      using True w1(1) by (simp add: check_rotation_def act_bind_def start_rotation_def)
    have "wf_store (kw_secrets ?w2)" "distinct (map fst (schedules ?w2))" "set (map schedule_of ss) \<subseteq> set (schedules ?w2)" "schedules ?w2 = schedules w"
      using w1 Cons.prems by (simp_all add: schedules_def)
    note IH = Cons.IH [OF this(1-3), of "Suc i"]
    have "due_arns now (s # ss) = s_arn ?t # due_arns now ss" using True t by (simp add: due_arns_alt)
    then show ?thesis using IH run w1(3,4) by (auto simp: act_bind_def schedules_def)
  qed
qed

text \<open>C27: The check for rotations starts one rotation for each secret that is due, in the order of the listing, and never throws.
  It leaves the dates of the next rotations as they were: a second check, before the first rotation was run, starts
  all of them again.
\<close>

theorem rotations_started_again:
  assumes "wf_store (kw_secrets w)" "distinct (map s_secretId (values_of (kw_secrets w)))"
  shows "\<exists>w1 w2. srv_secm_checkRotations now clock uuids w = (w1, Inr ()) \<and> srv_secm_checkRotations now' clock' uuids' w1 = (w2, Inr ())
    \<and> map (\<lambda>r. s_arn (fst r)) (kw_rotations w1) = map (\<lambda>r. s_arn (fst r)) (kw_rotations w) @ due_arns now (values_of (kw_secrets w))
    \<and> map (\<lambda>r. s_arn (fst r)) (kw_rotations w2) = map (\<lambda>r. s_arn (fst r)) (kw_rotations w)
         @ due_arns now (values_of (kw_secrets w)) @ due_arns now' (values_of (kw_secrets w))"
proof -
  have run: "srv_secm_checkRotations n c u v = act_each (check_rotation n c u) 0 (values_of (kw_secrets v)) v" for n c u v
    by (simp add: srv_secm_checkRotations_def act_bind_def run_read sec_ListSecrets_def)
  have d: "distinct (map fst (schedules w))" using assms(2) by (simp add: schedules_def schedule_of_def comp_def)
  obtain w1 where w1: "srv_secm_checkRotations now clock uuids w = (w1, Inr ())" "wf_store (kw_secrets w1)" "schedules w1 = schedules w"
    "map (\<lambda>r. s_arn (fst r)) (kw_rotations w1) = map (\<lambda>r. s_arn (fst r)) (kw_rotations w) @ due_arns now (values_of (kw_secrets w))"
    using check_loop [OF assms(1) d, of "values_of (kw_secrets w)" now clock uuids 0] by (auto simp: run schedules_def)
  have "distinct (map fst (schedules w1))" using d w1(3) by simp
  from check_loop [OF w1(2) this, of "values_of (kw_secrets w1)" now' clock' uuids' 0]
  obtain w2 where w2: "srv_secm_checkRotations now' clock' uuids' w1 = (w2, Inr ())"
    "map (\<lambda>r. s_arn (fst r)) (kw_rotations w2) = map (\<lambda>r. s_arn (fst r)) (kw_rotations w1) @ due_arns now' (values_of (kw_secrets w1))"
    by (auto simp: run schedules_def)
  have "due_arns now' (values_of (kw_secrets w1)) = due_arns now' (values_of (kw_secrets w))"
    by (rule due_of_schedules) (use w1(3) in \<open>simp add: schedules_def\<close>)
  then show ?thesis using w1 w2 by auto
qed

theorem rotations_started_again_witness:
  "\<exists>w w1 w2. kw_rotations w = [] \<and> srv_secm_checkRotations 5 (\<lambda>_. 5) (\<lambda>_. ''v2'') w = (w1, Inr ())
    \<and> srv_secm_checkRotations 6 (\<lambda>_. 6) (\<lambda>_. ''v3'') w1 = (w2, Inr ()) \<and> map (\<lambda>r. s_arn (fst r)) (kw_rotations w2) = [''a'', ''a'']"
proof -
  let ?s = "(default_secret 0)\<lparr>s_oid := ''s'', s_arn := ''a'', s_rotationEnabled := True, s_rotationLambdaARN := ''f''\<rparr>"
  let ?w = "conf_wit_world\<lparr>kw_secrets := [(''s'', ?s)]\<rparr>"
  have h: "wf_store (kw_secrets ?w)" "distinct (map s_secretId (values_of (kw_secrets ?w)))" "kw_rotations ?w = []"
    by (simp_all add: values_of_def conf_wit_world_def)
  have due: "due_arns t (values_of (kw_secrets ?w)) = [''a'']" if "t \<ge> 0" for t
    using that by (simp add: due_arns_alt values_of_def rotation_due_def default_secret_def)
  from rotations_started_again [OF h(1,2), of 5 "\<lambda>_. 5" "\<lambda>_. ''v2''" 6 "\<lambda>_. 6" "\<lambda>_. ''v3''"]
  obtain w1 w2 where w: "srv_secm_checkRotations 5 (\<lambda>_. 5) (\<lambda>_. ''v2'') ?w = (w1, Inr ())"
    "srv_secm_checkRotations 6 (\<lambda>_. 6) (\<lambda>_. ''v3'') w1 = (w2, Inr ())"
    "map (\<lambda>r. s_arn (fst r)) (kw_rotations w2) = map (\<lambda>r. s_arn (fst r)) (kw_rotations ?w)
       @ due_arns 5 (values_of (kw_secrets ?w)) @ due_arns 6 (values_of (kw_secrets ?w))" by blast
  have "map (\<lambda>r. s_arn (fst r)) (kw_rotations w2) = [''a'', ''a'']" unfolding w(3) h(3) using due [of 5] due [of 6] by simp
  then show ?thesis using w(1,2) h(3) by (intro exI [of _ ?w] exI [of _ w1] exI [of _ w2] conjI)
qed

text \<open>An invocation that fails: by its status, or by an error its body reports.\<close>

definition step_failed :: "rotation_env \<Rightarrow> int \<times> string \<Rightarrow> bool" where
  "step_failed ro r \<longleftrightarrow> fst r < 200 \<or> 300 \<le> fst r \<or> ro_reported_error ro (snd r) \<noteq> None"

lemma step_run:
  assumes "ro_invoke ro fn (s_secretId s) (s_region s) token (TaskTypeToString t) w = (w', Inr r)"
  shows "\<not> step_failed ro r \<Longrightarrow> rotation_step ro fn s token t w = (w', Inr ())"
    and "step_failed ro r \<Longrightarrow> \<exists>m. rotation_step ro fn s token t w = (w', Inl (ServiceException m))"
  using assms by (cases r; auto simp: rotation_step_def act_bind_def step_failed_def run_return run_throw split: option.splits)+

text \<open>C28: A rotation ends at the first step that fails: the state is the one that step left, nothing is thrown, and the
  date of the next rotation is not moved. A rotation of which all four steps succeed sets that date, from the secret as
  the steps left it, and is then due again at once if the secret has no rule with a positive number of days.
\<close>

theorem rotation_ends:
  assumes "lam_getLambdaByArn (kw_lambdas w) (s_rotationLambdaARN s) = Inr (ls, l)"
    "[createSecret, setSecret, testSecret, finishSecret] = pre @ t # post"
    "act_each (\<lambda>_. rotation_step ro (l_function l) s token) 0 pre (w\<lparr>kw_lambdas := ls\<rparr>) = (w1, Inr ())"
    "ro_invoke ro (l_function l) (s_secretId s) (s_region s) token (TaskTypeToString t) w1 = (w2, Inr r)"
  shows "(step_failed ro r \<longrightarrow> SecretRotation_run ro clock s token w = (w2, Inr ()))
    \<and> (\<not> step_failed ro r \<and> post = [] \<and> conf_fine w2 \<and> secret_at w2 (s_arn s) = Some s'
         \<and> (\<forall>x\<in>set (kw_secrets w2). s_secretId (snd x) = s_secretId s' \<longrightarrow> snd x = s')
         \<and> GetNextRotationDate (clock 1) s' = Inr next_date \<longrightarrow>
       SecretRotation_run ro clock s token w = (replaced_secret (s'\<lparr>s_nextRotatedDate := next_date\<rparr>) w2, Inr ())
         \<and> (rr_automaticallyAfterDays (s_rotationRules s') \<le> 0 \<longrightarrow> next_date = clock 1))"
proof -
  have find: "find_rotation_lambda (s_rotationLambdaARN s) w = (w\<lparr>kw_lambdas := ls\<rparr>, Inr l)"
    by (simp add: find_rotation_lambda_def assms(1))
  let ?steps = "act_each (\<lambda>_. rotation_step ro (l_function l) s token) 0 (pre @ t # post) (w\<lparr>kw_lambdas := ls\<rparr>)"
  have rs: "rotation_steps ro s token w = ?steps" unfolding rotation_steps_def assms(2) by (simp add: act_bind_def find)
  have fails: "SecretRotation_run ro clock s token w = (w2, Inr ())" if f: "step_failed ro r"
  proof -
    obtain m where "rotation_step ro (l_function l) s token t w1 = (w2, Inl (ServiceException m))" using step_run(2) [OF assms(4) f] by blast
    then have "?steps = (w2, Inl (ServiceException m))" by (intro act_each_stops [OF assms(3)]) simp
    then show ?thesis by (simp add: SecretRotation_run_def swallow_def act_bind_def rs)
  qed
  have succeeds: "SecretRotation_run ro clock s token w = (replaced_secret (s'\<lparr>s_nextRotatedDate := next_date\<rparr>) w2, Inr ())"
    if ok: "\<not> step_failed ro r" "post = []" and w2: "conf_fine w2" "secret_at w2 (s_arn s) = Some s'"
      "\<forall>x\<in>set (kw_secrets w2). s_secretId (snd x) = s_secretId s' \<longrightarrow> snd x = s'" and next_date: "GetNextRotationDate (clock 1) s' = Inr next_date"
  proof -
    have steps: "?steps = (w2, Inr ())"
      using step_run(1) [OF assms(4) ok(1)] ok(2) using assms(3) by (simp add: act_each_append act_bind_def run_return)
    have "s_arn s' = s_arn s" using w2(2) by (auto simp: secret_at_def dest: find_if_SomeD)
    then have u: "update_secret (clock 2) (s'\<lparr>s_nextRotatedDate := next_date\<rparr>) w2 = (replaced_secret (s'\<lparr>s_nextRotatedDate := next_date\<rparr>) w2, Inr (s'\<lparr>s_nextRotatedDate := next_date\<rparr>))"
      by (intro update_secret_run(1) [OF w2]) simp_all
    show ?thesis
      using steps u next_date get_secret_run [OF w2(1,2), of "clock 0"]
      by (simp add: SecretRotation_run_def swallow_def act_bind_def rs give_def run_return)
  qed
  show ?thesis using fails succeeds by (auto simp: GetNextRotationDate_def Let_def)
qed

definition conf_wit_lambda :: lambda_fn where
  "conf_wit_lambda = \<lparr>l_oid = [], l_region = ''eu'', l_user = [], l_function = ''rotate-db'', l_runtime = [], l_role = [],
     l_handler = [], l_memorySize = 0, l_ephemeralStorage = 0, l_codeSize = 0, l_imageId = [], l_imageSize = 0, l_containerId = [],
     l_containerSize = 0, l_tags = [], l_arn = ''f'', l_timeout = 0, l_concurrency = 0, l_environment = [], l_codeSha256 = [],
     l_code = \<lparr>co_zipFile = [], co_s3Bucket = [], co_s3Key = [], co_s3ObjectVersion = []\<rparr>, l_dockerTag = [], l_lastStarted = 0,
     l_lastInvocation = 0, l_instances = [], l_eventSources = [], l_invocations = 0, l_avgDuration = 0, l_enabled = True, l_created = 0, l_modified = 0\<rparr>"

text \<open>The first step fails with status 500: the secret keeps the date of its next rotation.\<close>

theorem rotation_ends_witness:
  "\<exists>w ro. kw_secrets (fst (SecretRotation_run ro (\<lambda>_. 9) ((default_secret 0)\<lparr>s_arn := ''a'', s_rotationLambdaARN := ''f''\<rparr>) ''v2'' w)) = kw_secrets w
    \<and> kw_secrets w \<noteq> [] \<and> snd (SecretRotation_run ro (\<lambda>_. 9) ((default_secret 0)\<lparr>s_arn := ''a'', s_rotationLambdaARN := ''f''\<rparr>) ''v2'' w) = Inr ()"
proof -
  let ?s = "(default_secret 0)\<lparr>s_arn := ''a'', s_rotationLambdaARN := ''f''\<rparr>"
  let ?ls = "\<lparr>lambdas = [(''l'', conf_wit_lambda)], lambdaResults = []\<rparr>"
  let ?ls' = "\<lparr>lambdas = [(''l'', set_l_oid ''f'' conf_wit_lambda)], lambdaResults = []\<rparr>"
  let ?w = "conf_wit_world\<lparr>kw_lambdas := ?ls, kw_secrets := [(''s'', ?s)]\<rparr>"
  define ro where ro: "ro = \<lparr>ro_invoke = (\<lambda>_ _ _ _ _ w. (w, Inr (500, []))), ro_reported_error = (\<lambda>_. None), ro_status_text = (\<lambda>_. ''500'')\<rparr>"
  have l: "lam_getLambdaByArn (kw_lambdas ?w) (s_rotationLambdaARN ?s) = Inr (?ls', set_l_oid ''f'' conf_wit_lambda)"
    by (simp add: lam_getLambdaByArn_def with_lambdas_def or_throw_def modify_found_def find_if_def modify_def conf_wit_lambda_def)
  have e: "[createSecret, setSecret, testSecret, finishSecret] = [] @ createSecret # [setSecret, testSecret, finishSecret]" by simp
  let ?v = "?w\<lparr>kw_lambdas := ?ls'\<rparr>"
  have p: "act_each (\<lambda>_. rotation_step ro (l_function (set_l_oid ''f'' conf_wit_lambda)) ?s ''v2'') 0 [] ?v = (?v, Inr ())" by (simp add: run_return)
  have i: "ro_invoke ro (l_function (set_l_oid ''f'' conf_wit_lambda)) (s_secretId ?s) (s_region ?s) ''v2'' (TaskTypeToString createSecret) ?v
      = (?v, Inr (500, []))" by (simp add: ro)
  have "step_failed ro (500, [])" by (simp add: step_failed_def)
  then have "SecretRotation_run ro (\<lambda>_. 9) ?s ''v2'' ?w = (?v, Inr ())"
    using rotation_ends [OF l e p i, where clock = "\<lambda>_. 9"] by blast
  then show ?thesis by (intro exI [of _ ?w] exI [of _ ro]) simp
qed

end
