(* ===== verification/TransferRepo.thy ===== *)
theory TransferRepo
  imports EntityRepo
begin

text \<open>
  The in-memory transfer repository (\<open>db/src/repository/transfer/TransferMemoryRepository.cpp\<close>,
  \<open>db/include/awsmock/entity/transfer\<close>, \<open>db/src/entity/transfer/Transfer.cpp\<close>): the FTP and SFTP
  servers with their users, in a \<open>std::map\<close>. A second map, of users, is declared and never filled.
\<close>

datatype server_state = OFFLINE | ONLINE | SRV_STARTING | SRV_STOPPING | START_FAILED | STOP_FAILED

definition server_state_names :: "(server_state \<times> string) list" where
  "server_state_names =
     [(OFFLINE, ''OFFLINE''), (ONLINE, ''ONLINE''), (SRV_STARTING, ''STARTING''), (SRV_STOPPING, ''STOPPING''),
      (START_FAILED, ''START_FAILED''), (STOP_FAILED, ''STOP_FAILED'')]"

definition ServerStateToString :: "server_state \<Rightarrow> string" where
  "ServerStateToString s = enum_to_string server_state_names s"

definition ServerStateFromString :: "string \<Rightarrow> server_state" where
  "ServerStateFromString s = enum_from_string server_state_names OFFLINE s"

datatype protocol = FTP | SFTP | PROTO_UNKNOWN

definition protocol_names :: "(protocol \<times> string) list" where
  "protocol_names = [(FTP, ''FTP''), (SFTP, ''SFTP''), (PROTO_UNKNOWN, ''UNKNOWN'')]"

definition ProtocolToString :: "protocol \<Rightarrow> string" where
  "ProtocolToString p = enum_to_string protocol_names p"

definition ProtocolFromString :: "string \<Rightarrow> protocol" where
  "ProtocolFromString s = enum_from_string protocol_names PROTO_UNKNOWN s"

record tr_user =
  tu_userName :: string
  tu_password :: string
  tu_homeDirectory :: string
  tu_arn :: string
  tu_role :: string

record tr_server =
  ts_oid :: string
  ts_region :: string
  ts_serverId :: string
  ts_arn :: string
  ts_protocols :: "protocol list"
  ts_users :: "tr_user list"
  ts_state :: server_state
  ts_concurrency :: int
  ts_ports :: "int list"
  ts_tags :: "(string \<times> string) list"
  ts_listenAddress :: string
  ts_lastStarted :: time_point
  ts_created :: time_point
  ts_modified :: time_point

definition set_ts_oid :: "string \<Rightarrow> tr_server \<Rightarrow> tr_server" where
  "set_ts_oid k s = s\<lparr>ts_oid := k\<rparr>"

interpretation tr_s: stamped_entity ts_oid set_ts_oid
  by unfold_locales (simp_all add: set_ts_oid_def)

definition HasUser :: "tr_server \<Rightarrow> string \<Rightarrow> bool" where
  "HasUser s userName = list_ex (\<lambda>u. tu_userName u = userName) (ts_users s)"

definition HasProtocol :: "tr_server \<Rightarrow> protocol \<Rightarrow> bool" where
  "HasProtocol s p = list_ex (\<lambda>q. q = p) (ts_protocols s)"

definition HasProtocolName :: "tr_server \<Rightarrow> string \<Rightarrow> bool" where
  "HasProtocolName s p = list_ex (\<lambda>q. q = ProtocolFromString p) (ts_protocols s)"

definition GetUser :: "tr_server \<Rightarrow> string \<Rightarrow> tr_user" where
  "GetUser s userName =
     (case List.find (\<lambda>u. tu_userName u = userName) (ts_users s) of
        Some u \<Rightarrow> u
      | None \<Rightarrow> \<lparr>tu_userName = [], tu_password = [], tu_homeDirectory = [], tu_arn = [], tu_role = []\<rparr>)"

record transfer_repo =
  transfers :: "tr_server omap"
  tr_users :: "tr_user omap"

definition tr_inv :: "transfer_repo \<Rightarrow> bool" where
  "tr_inv st \<longleftrightarrow> omap_inv (transfers st) \<and> omap_inv (tr_users st)"

definition in_transfers :: "transfer_repo \<Rightarrow> (tr_server omap \<times> 'a) outcome \<Rightarrow> (transfer_repo \<times> 'a) outcome" where
  "in_transfers st r = (case r of Inl e \<Rightarrow> Inl e | Inr (ts, x) \<Rightarrow> Inr (st\<lparr>transfers := ts\<rparr>, x))"

definition tr_transferExists :: "transfer_repo \<Rightarrow> string \<Rightarrow> string \<Rightarrow> bool" where
  "tr_transferExists st region serverId = found (\<lambda>(_, s). ts_region s = region \<and> ts_serverId s = serverId) (transfers st)"

definition tr_transferExistsTransfer :: "transfer_repo \<Rightarrow> tr_server \<Rightarrow> bool" where
  "tr_transferExistsTransfer st transfer = tr_transferExists st (ts_region transfer) (ts_serverId transfer)"

definition tr_transferExistsId :: "transfer_repo \<Rightarrow> string \<Rightarrow> bool" where
  "tr_transferExistsId st serverId = found (\<lambda>(_, s). ts_serverId s = serverId) (transfers st)"

text \<open>
  The overload with protocols compares with the three-iterator \<open>std::equal\<close>, which reads as many
  elements of the argument as the server has protocols, unless an earlier one differs.
\<close>

fun equal_prefix :: "'a list \<Rightarrow> 'a list \<Rightarrow> bool outcome" where
  "equal_prefix [] ys = Inr True"
| "equal_prefix (x # xs) [] = Inl UndefinedBehaviour"
| "equal_prefix (x # xs) (y # ys) = (if x = y then equal_prefix xs ys else Inr False)"

definition tr_transferExistsProtocols :: "transfer_repo \<Rightarrow> string \<Rightarrow> protocol list \<Rightarrow> bool outcome" where
  "tr_transferExistsProtocols st region protocols =
     find_or_throw (\<lambda>s. if ts_region s = region then equal_prefix (ts_protocols s) protocols else Inr False) (transfers st)"

definition tr_listServers :: "transfer_repo \<Rightarrow> string \<Rightarrow> string \<Rightarrow> int \<Rightarrow> int \<Rightarrow> sort_column list \<Rightarrow> tr_server list" where
  "tr_listServers st region pre pageSize pageIndex sortColumns =
     (if region = [] then values_of (transfers st)
      else filter (\<lambda>s. ts_region s = region) (values_of (transfers st)))"

definition tr_listServersToken :: "transfer_repo \<Rightarrow> string \<Rightarrow> string \<Rightarrow> int \<Rightarrow> tr_server list" where
  "tr_listServersToken st region nextToken maxResults =
     (if region = [] then values_of (transfers st)
      else filter (\<lambda>s. ts_region s = region) (values_of (transfers st)))"

definition tr_createTransfer :: "uuid \<Rightarrow> transfer_repo \<Rightarrow> tr_server \<Rightarrow> transfer_repo \<times> tr_server" where
  "tr_createTransfer uuid st transfer = (st\<lparr>transfers := omap_insert uuid transfer (transfers st)\<rparr>, transfer)"

definition tr_updateTransfer :: "transfer_repo \<Rightarrow> tr_server \<Rightarrow> (transfer_repo \<times> tr_server) outcome" where
  "tr_updateTransfer st transfer =
     in_transfers st (or_throw (''Update transfer failed, serverId: '' @ ts_serverId transfer)
       (replace_found (\<lambda>(_, s). ts_region s = ts_region transfer \<and> ts_serverId s = ts_serverId transfer) transfer (transfers st)))"

definition tr_createOrUpdateTransfer :: "uuid \<Rightarrow> transfer_repo \<Rightarrow> tr_server \<Rightarrow> (transfer_repo \<times> tr_server) outcome" where
  "tr_createOrUpdateTransfer uuid st transfer =
     (if tr_transferExistsTransfer st transfer then tr_updateTransfer st transfer
      else Inr (tr_createTransfer uuid st transfer))"

definition tr_getTransferById :: "transfer_repo \<Rightarrow> string \<Rightarrow> (transfer_repo \<times> tr_server) outcome" where
  "tr_getTransferById st oid =
     in_transfers st (get_or_throw (DatabaseException (''Get transfer by ID failed, oid: '' @ oid)) set_ts_oid
       (\<lambda>(k, _). k = oid) (transfers st))"

definition tr_getTransferByServerId :: "transfer_repo \<Rightarrow> string \<Rightarrow> string \<Rightarrow> (transfer_repo \<times> tr_server) outcome" where
  "tr_getTransferByServerId st region serverId =
     in_transfers st (get_or_throw (DatabaseException (''Get transfer by serverId failed, serverId: '' @ serverId)) set_ts_oid
       (\<lambda>(_, s). ts_region s = region \<and> ts_serverId s = serverId) (transfers st))"

definition tr_getTransferByArn :: "transfer_repo \<Rightarrow> string \<Rightarrow> (transfer_repo \<times> tr_server) outcome" where
  "tr_getTransferByArn st arn =
     in_transfers st (get_or_throw (DatabaseException (''Get transfer by arn failed, arn: '' @ arn)) set_ts_oid
       (\<lambda>(_, s). ts_arn s = arn) (transfers st))"

definition tr_listUsers :: "transfer_repo \<Rightarrow> string \<Rightarrow> string \<Rightarrow> string \<Rightarrow> int \<Rightarrow> int \<Rightarrow> sort_column list
    \<Rightarrow> (transfer_repo \<times> tr_user list) outcome" where
  "tr_listUsers st region serverId pre pageSize pageIndex sortColumns =
     (case tr_getTransferByServerId st region serverId of
        Inl e \<Rightarrow> Inl e
      | Inr (st', server) \<Rightarrow> (if ts_users server \<noteq> [] then Inr (st', ts_users server) else Inr (st', [])))"

definition tr_countServers :: "transfer_repo \<Rightarrow> string \<Rightarrow> int" where
  "tr_countServers st region =
     (if region = [] then int (length (transfers st))
      else count_if (\<lambda>(_, s). ts_region s = region) (transfers st))"

text \<open>\<open>countUsers\<close> counts the entries of the map of users, or the servers of the region.\<close>

definition tr_countUsers :: "transfer_repo \<Rightarrow> string \<Rightarrow> string \<Rightarrow> int" where
  "tr_countUsers st region serverId =
     (if region = [] then int (length (tr_users st))
      else count_if (\<lambda>(_, s). ts_region s = region) (transfers st))"

definition tr_deleteTransfer :: "transfer_repo \<Rightarrow> string \<Rightarrow> transfer_repo" where
  "tr_deleteTransfer st serverId = st\<lparr>transfers := fst (erase_if (\<lambda>(_, s). ts_serverId s = serverId) (transfers st))\<rparr>"

definition tr_deleteAllTransfers :: "transfer_repo \<Rightarrow> transfer_repo \<times> int" where
  "tr_deleteAllTransfers st = (st\<lparr>transfers := []\<rparr>, int (length (transfers st)))"

end
