(* ===== verification/ApplicationRepo.thy ===== *)
theory ApplicationRepo
  imports EntityRepo
begin

text \<open>
  The in-memory application repository
  (\<open>db/src/repository/application/ApplicationMemoryRepository.cpp\<close>,
  \<open>db/include/awsmock/entity/apps\<close>): applications in a \<open>std::unordered_map\<close>.
\<close>

record application =
  a_oid :: string
  a_region :: string
  a_name :: string
  a_runtime :: string
  a_type :: string
  a_privatePort :: int
  a_publicPort :: int
  a_containerName :: string
  a_containerId :: string
  a_archive :: string
  a_version :: string
  a_status :: string
  a_enabled :: bool
  a_description :: string
  a_environment :: "(string \<times> string) list"
  a_tags :: "(string \<times> string) list"
  a_dependencies :: "string list"
  a_imageId :: string
  a_imageSize :: int
  a_imageName :: string
  a_imageMd5 :: string
  a_dockerFile :: string
  a_lastStarted :: time_point
  a_created :: time_point
  a_modified :: time_point

definition set_a_oid :: "string \<Rightarrow> application \<Rightarrow> application" where
  "set_a_oid k a = a\<lparr>a_oid := k\<rparr>"

interpretation app_a: stamped_entity a_oid set_a_oid
  by unfold_locales (simp_all add: set_a_oid_def)

type_synonym app_repo = "application hmap"

definition app_key :: "string \<Rightarrow> string \<Rightarrow> string \<times> application \<Rightarrow> bool" where
  "app_key region name = (\<lambda>(_, a). a_region a = region \<and> a_name a = name)"

definition app_applicationExists :: "app_repo \<Rightarrow> string \<Rightarrow> string \<Rightarrow> bool" where
  "app_applicationExists as region name = found (app_key region name) as"

definition app_getApplication :: "app_repo \<Rightarrow> string \<Rightarrow> string \<Rightarrow> application outcome" where
  "app_getApplication as region name =
     or_throw (''Get application by name failed, region: '' @ region @ '', name: '' @ name)
       (map_option snd (find_if (app_key region name) as))"

definition app_createApplication :: "layout \<Rightarrow> uuid \<Rightarrow> app_repo \<Rightarrow> application \<Rightarrow> app_repo \<times> application" where
  "app_createApplication lay uuid as a =
     (let a' = a\<lparr>a_oid := uuid\<rparr> in (hmap_insert lay (a_oid a') a' as, a'))"

definition app_updateApplication :: "app_repo \<Rightarrow> application \<Rightarrow> (app_repo \<times> application) outcome" where
  "app_updateApplication as a =
     or_throw (''Update cognito user pool failed, region: '' @ a_region a @ '' name: '' @ a_name a)
       (replace_found (app_key (a_region a) (a_name a)) a as)"

definition app_setEnabled :: "time_point \<Rightarrow> app_repo \<Rightarrow> string \<Rightarrow> string \<Rightarrow> bool \<Rightarrow> app_repo outcome" where
  "app_setEnabled now as region name enabled =
     (case or_throw (''setEnabled failed, region: '' @ region @ '' name: '' @ name)
         (modify_found (app_key region name) (\<lambda>a. a\<lparr>a_enabled := enabled, a_modified := now\<rparr>) as) of
        Inl e \<Rightarrow> Inl e
      | Inr (as', _) \<Rightarrow> Inr as')"

fun app_less :: "sort_column list \<Rightarrow> application \<Rightarrow> application \<Rightarrow> bool" where
  "app_less [] a b = False"
| "app_less (sc # scs) a b =
     (if sc_column sc = ''name'' then by_key (sc_direction sc) a_name a b else app_less scs a b)"

text \<open>As for queues, the listing sorts a temporary copy.\<close>

definition app_listApplicationsPaged :: "app_repo \<Rightarrow> string \<Rightarrow> string \<Rightarrow> int \<Rightarrow> int \<Rightarrow> sort_column list \<Rightarrow> application list outcome" where
  "app_listApplicationsPaged as region pre pageSize pageIndex sortColumns =
     (let q = values_of as;
          q = where_if region (\<lambda>a. a_region a = region) q;
          q = where_if pre (\<lambda>a. StartsWith (a_name a) pre) q;
          _ = (if sortColumns \<noteq> [] then std_sort (app_less sortColumns) q else q) in
      PageVector q pageSize pageIndex)"

definition app_listApplicationsRegion :: "app_repo \<Rightarrow> string \<Rightarrow> application list outcome" where
  "app_listApplicationsRegion as region = app_listApplicationsPaged as region [] 0 0 []"

definition app_listApplications :: "app_repo \<Rightarrow> application list outcome" where
  "app_listApplications as = app_listApplicationsPaged as [] [] 0 0 []"

definition app_countApplications :: "app_repo \<Rightarrow> string \<Rightarrow> string \<Rightarrow> int" where
  "app_countApplications as region pre =
     (let q = values_of as;
          q = where_if region (\<lambda>a. a_region a = region) q;
          q = where_if pre (\<lambda>a. StartsWith (a_region a) pre) q in
      int (q_count q))"

definition app_importApplication :: "layout \<Rightarrow> uuid \<Rightarrow> app_repo \<Rightarrow> application \<Rightarrow> (app_repo \<times> application) outcome" where
  "app_importApplication lay uuid as a =
     (if app_applicationExists as (a_region a) (a_name a) then app_updateApplication as a
      else Inr (app_createApplication lay uuid as a))"

definition app_deleteApplication :: "app_repo \<Rightarrow> string \<Rightarrow> string \<Rightarrow> app_repo \<times> int" where
  "app_deleteApplication as region name = erase_if (app_key region name) as"

definition app_deleteAllApplications :: "app_repo \<Rightarrow> app_repo \<times> int" where
  "app_deleteAllApplications as = ([], int (length as))"

end
