(* ===== verification/Spec2Isabelle.thy ===== *)
theory Spec2Isabelle
  imports CronFields CronDst SqsServiceLimits SqsQueries SqsQueueProps SnsServiceProps S3Props SnsProps DynamoProps LambdaProps CognitoProps ConfigProps
    PlatformProps UtilProps S3TaskProps SecretsValueProps TransferRepo ApplicationRepo
begin

text \<open>
  \<^bold>\<open>awsmock: the in-memory database layer, the SQS, SNS, S3, KMS, SSM and secrets manager services over it,
  and the utilities they rest on.\<close>

  \<^bold>\<open>The program.\<close> awsmock is a C++ server that answers the AWS APIs locally. A request reaches a
  handler of a service (\<open>srv/src/<service>\<close>), the service calls a repository interface
  (\<open>db/include/awsmock/repository\<close>), and one of two implementations keeps the data: MongoDB, or
  the memory of the process (\<open>db/src/repository/*/*MemoryRepository.cpp\<close>). The in-memory
  repositories hold the semantics of the simulated services: which message a receive delivers and
  for how long it stays hidden, which version of an object is the current one, when an update is an
  insertion. This development models those repositories operation by operation, with their entities
  (\<open>db/include/awsmock/entity\<close>, \<open>db/src/entity\<close>), the string, query, paging and resource-name
  utilities of \<open>core\<close> that they and the services use, the cron expressions of its scheduler, and six of the services, SQS
  (\<open>srv/src/sqs\<close>), SNS (\<open>srv/src/sns\<close>), S3 (\<open>srv/src/s3\<close>), KMS (\<open>srv/src/kms\<close>), SSM (\<open>srv/src/ssm\<close>) and the secrets
  manager (\<open>srv/src/secretsmanager\<close>), with their mappers (\<open>dto/include/awsmock/dto/<service>/mapper\<close>)
  and maintenance tasks. They meet where a published message is delivered to a queue, as the SNS service
  calls \<open>sendMessage\<close> of the SQS service, and where the event of an object goes out: the S3 service calls
  \<open>sendMessage\<close>, \<open>Publish\<close> and the Lambda functions. The objects of S3 are files of a directory, which the service
  reads and writes beside the repository. Parameters and secrets are encrypted by the KMS service, whose keys get
  their material from a task of the scheduler, and the rotation of a secret calls a Lambda function, which calls the
  secrets manager.

  \<^bold>\<open>How the code is modelled.\<close> A repository is a record of its containers and an operation is a
  function from the state and the arguments to the new state and the result. What C++ takes from its
  environment is an argument: the clock (a function of the entry where the loop reads it anew), the
  random object ids and receipt handles, the order of an \<open>unordered_map\<close> after an insertion
  (\<open>layout\<close>; every theorem holds for all of them), and \<open>boost::split\<close>. A failure is the left side of
  the type \<open>outcome\<close>: an exception, undefined behaviour (dereferencing \<open>end()\<close>, an iterator out of
  range), or a thread that locks a mutex it already holds. Where a conversion to an unsigned
  number decides (\<open>maxResult\<close>, page arithmetic), it is written out on 64 bits; the sanitizer works
  on 8-bit words. No fuel is used: every loop ends by structural recursion or by a measure, but for
  the long poll of \<open>receiveMessages\<close>, the synchronisation of objects with files, the search for the next execution of a cron expression and the
  loop over a range of its values, which are partial functions with proofs that they end, or when they do.

  \<^bold>\<open>The theories.\<close>
    \<^item> \<open>Prelude\<close>: faults and outcomes, generic list lemmas. \<open>StdContainers\<close>: \<open>std::map\<close> (\<open>omap\<close>) and
      \<open>std::unordered_map\<close> (\<open>hmap\<close>) as association lists, with the interface \<open>assoc_insert\<close>, which both
      interpret. \<open>EntityRepo\<close>: the idioms of the repositories (find and stamp the object id, find and
      replace, loops that write through \<open>m[e.oid]\<close>, locks), with the interface \<open>stamped_entity\<close>, which
      every entity interprets. \<open>IdentStore\<close>: the abstract repository, a partial function from identities
      to entities, and the interface \<open>ident_store\<close>, under which find-and-replace-or-insert is the
      update of that function.
    \<^item> \<open>StringUtils\<close>, \<open>CoreUtils\<close>, \<open>AwsUtils\<close>: \<open>core/src/utils/StringUtils.cpp\<close>,
      \<open>core/include/awsmock/core/Linq.h\<close> and \<open>PagingUtils.h\<close>, \<open>core/src/utils/AwsUtils.cpp\<close>;
      their properties are in \<open>UtilProps\<close>.
    \<^item> \<open>SqsRepo\<close>: queues and messages of SQS. \<open>SqsProps\<close>: what a receive takes, dead-lettering, the
      visibility timeout, acknowledging, redriving, and the reachable states (an inductive step
      relation over the operations the service calls) with their invariant. \<open>SqsQueueProps\<close>: the
      counters and listings of queues.
    \<^item> \<open>SqsUtils\<close> (the digests of attributes), \<open>SqsService\<close> (queues), \<open>SqsMessages\<close> (messages and the
      tasks of \<open>SQSServer\<close>), \<open>SqsQueries\<close> (reads): the SQS service, an environment record standing for
      the configuration, the libraries and the containers of the invoked Lambda functions. \<open>SqsServiceSteps\<close>: every
      operation is a sequence of repository steps. \<open>SqsServiceProps\<close> and \<open>SqsServiceLimits\<close>: what the
      operations do, and where they depart from what they are for. \<open>StdNumbers\<close>: \<open>std::to_string\<close>,
      \<open>std::stoi\<close> and \<open>std::stol\<close>.
    \<^item> \<open>Actions\<close>: operations over a shared state that keep what they did when an exception ends them, with
      sequencing, checks and loops, and the rules that carry an invariant through them. \<open>SnsService\<close>
      (deliveries), \<open>SnsPublish\<close> (publishing, topics, subscriptions, tags) and \<open>SnsQueries\<close> (reads and the
      tasks of \<open>SNSServer\<close>): the SNS service as such actions on a world of the SNS, SQS and Lambda
      repositories and the list of what left the process. \<open>SnsServiceSteps\<close>: the invariant of the topics,
      kept by every operation, the deliveries as steps of the SQS repository, and the worlds the two
      services reach together. \<open>SnsServiceProps\<close>: what publishing, subscribing and creating topics do.
    \<^item> \<open>Calendar\<close>: dates and instants in a time zone of fixed offset, what the C library's \<open>localtime\<close>
      and \<open>mktime\<close> compute there. \<open>Cron\<close>: \<open>core/include/awsmock/core/Cron.h\<close> and
      \<open>core/src/utils/CronUtils.cpp\<close>, the parser and the search, with \<open>mktime\<close> as an argument.
      \<open>CronNext\<close> (one field and the day), \<open>CronSearch\<close> (the recursion), \<open>CronProps\<close>: the search ends,
      and when it finds the first matching instant. \<open>CronLimits\<close>: where it does not, \<open>CronDst\<close>:
      a zone where the clocks change, in which the search goes back.
      \<open>CronParse\<close> and \<open>CronFields\<close>: the parser returns, and what a field denotes.
    \<^item> \<open>FileStore\<close>: files and directories, and the operations of \<open>core/src/utils/FileUtils.cpp\<close> on them (copies by
      blocks, appended parts, listings by prefix). \<open>S3Service\<close> (state, environment, mappers), \<open>S3Buckets\<close>
      (notifications, event sources, buckets), \<open>S3Objects\<close> (reading, storing, copying) and \<open>S3Uploads\<close> (uploads in
      parts, deletion, counters, checksums, the tasks of \<open>S3Server\<close>): the S3 service as actions on a world of the S3
      and KMS repositories, the files, the world of SNS and SQS, and the scheduled checksums. \<open>S3ServiceSteps\<close>:
      the invariant of the repository, kept by every operation, and the worlds the service reaches while the
      others run. \<open>S3ServiceProps\<close>: lemmas on paths, the newest object, and storing up to the notifications.
      \<open>S3PutProps\<close>: the reachable states, the contract of the operations that change a bucket, reading what was
      put, its event in a queue, streams that are too short, queues that are gone. \<open>S3UploadProps\<close>: uploads in
      parts and what an empty part does. \<open>S3TaskProps\<close>: when the synchronisation ends, uploads over an
      object, moving.
    \<^item> \<open>KmsService\<close>, \<open>SsmService\<close>, \<open>SecretsService\<close> and \<open>SecretsRotation\<close>: the KMS service, the SSM service, and the
      secrets manager with its rotations, as actions on one world of keys, parameters, secrets, functions, keys
      whose material is still to be made and rotations that were started. \<open>ConfigServiceProps\<close>: which plaintexts can be
      encrypted, and parameters that are stored and updated. \<open>SecretsServiceProps\<close>: creating a secret. \<open>SecretsSteps\<close>: the
      state machine of the secrets manager and its invariant. \<open>SecretsValueProps\<close>: the current version, new values,
      and rotations.
    \<^item> \<open>S3Repo\<close> and \<open>S3Props\<close>: buckets, objects and their versions: the current version, the listing of
      the latest versions, the update of buckets, deletion. \<open>SnsRepo\<close> and \<open>SnsProps\<close>: topics and
      messages: counters, import, identity of messages, ageing.
    \<^item> \<open>DynamoRepo\<close> and \<open>DynamoProps\<close>: tables and items under typed keys. \<open>LambdaRepo\<close> and
      \<open>LambdaProps\<close>: functions and results. \<open>CognitoRepo\<close> and \<open>CognitoProps\<close>: pools, users, groups.
    \<^item> \<open>KmsSsmRepo\<close>, \<open>SecretsRepo\<close> and \<open>ConfigProps\<close>: keys, parameters, secrets and their versions.
      \<open>ModuleRepo\<close>, \<open>ApiGatewayRepo\<close> and \<open>PlatformProps\<close>: module states, REST APIs, API keys, usage
      plans. \<open>TransferRepo\<close> and \<open>ApplicationRepo\<close>: transfer servers and applications (definitions only).

  \<^bold>\<open>What the theorems show.\<close> For the operations that clients depend on, the functional behaviour on
  every branch and, where there is an abstract repository, the refinement of it; for SQS an invariant
  of all states the repository reaches, which are all the states the service reaches, alone or
  through the deliveries of SNS. A published message reaches every SQS, HTTP and Lambda subscription once, when the queues and functions
  exist and no function listens to the queues.
  No message is delivered twice before its visibility timeout, over any number of receives.
  An object that was put, at once or in parts that arrive in any order, is read back byte by byte, and its event
  is the one new message in the queue that listens; no operation of S3 breaks the identity of its buckets. The state machines behind the
  invariants have the operations of the services as steps; they create an SQS queue only under a free region and
  name, which the service does not ensure in a region other than the configured one, and the import of an infrastructure by
  the module service is no step.
  Parameters and secrets are read back as they were stored, and no secret has two current versions, whatever the functions of
  the rotations do, unless a new value is put with that stage by name.
  A cron expression parses to the values its entries denote, and the search for its next execution ends,
  in every time zone without changes of its offset; with one second and months that are not shorter than
  the days asked for, it ends with the first matching instant.
  Where the code departs from what its name, comment or interface promises,
  the theorem states what the code does: among others, the first subscription to a queue that is gone keeps a
  message from all the later ones, a delivered message stays marked as not sent, the maintenance task of
  SQS stops for good at the first expired delayed message and never makes one visible, the messages
  of a deleted queue stay, the task that synchronises the objects of S3 with their files never ends once a bucket
  holds an object, an empty part cuts an object off, a move leaves its source, beginning an upload deletes the object
  it is to replace, encrypting fewer than eight bytes writes behind a buffer, an updated parameter is stored decoded, a
  rotation is started again by every check until it has succeeded, acknowledging a dead-lettered message deletes every message without a
  receipt handle, deleting the results of a function deletes the function, the Friday that follows a
  13th is answered with midnight.

  \<^bold>\<open>Not modelled.\<close> The MongoDB implementations (they delegate to the database), the conversions from
  and to BSON and JSON, logging, the other services and their \<open>dto\<close> (DynamoDB and Lambda hand their requests to containers, the
  rest passes requests to repositories that are modelled), the signing of requests, the HTTP gateway, Docker, the FTP and SFTP
  servers, scheduling and threads. Digests, ciphers, Base64, the recognition of content types and the JSON of events are
  arguments of the definitions of S3, and so are the ciphers, Base64 and the invoked functions of KMS, SSM and the secrets
  manager; the theorems on them assume that decoding and decryption invert encoding and encryption, and that a
  ciphertext is padded to blocks of sixteen bytes. Time zones that change their offset are arguments of the
  cron definitions and outside the theorems on them, but for the one of \<open>CronDst\<close> that shows why. Locks are modelled where one operation calls another that takes
  the same mutex; each operation is otherwise one atomic step, as the mutexes make it. String helpers
  that only call boost or \<open>std::regex\<close> are left out, as is the floating-point average waiting time
  of \<open>SQSMemoryRepository\<close>.

  \<^bold>\<open>Order of the work.\<close> First the data layer, because every service's behaviour is a composition of
  its operations: SQS, then S3, SNS, DynamoDB, Lambda, Cognito, the configuration services and the
  platform's own repositories. Then the services over it, each as a composition of the
  operations here with the request checks in front: SQS, SNS, S3, KMS, SSM and
  the secrets manager. What is left of the program
  is the glue named above.
\<close>

end
